(* ===== verification/Go_Prelude.thy ===== *)
theory Go_Prelude
  imports Complex_Main "HOL-Library.AList" "HOL-Library.Multiset"
begin

text \<open>
  What every component of the model shares: Go's error values and their wrapping, the shape of an
  effectful operation (explicit state passing with an error result), the rules by which invariants
  and outcomes are propagated through such operations, and list lemmas.

  Conventions of the whole development:
  \<^item> a Go \<^verbatim>\<open>error\<close> is a \<open>go_error\<close>: a sentinel (\<^verbatim>\<open>errors.New\<close>) or a value that wraps another one
    with extra text (\<^verbatim>\<open>fmt.Errorf("...: %w")\<close>); \<open>errors_is\<close> is \<^verbatim>\<open>errors.Is\<close>;
  \<^item> a function with effects is a \<open>prog\<close>: from a state to a result (\<open>Inl\<close> of an error or \<open>Inr\<close> of a
    value) and the new state;
  \<^item> an instant (\<^verbatim>\<open>time.Time\<close>) is the integer number of nanoseconds since Go's zero time, so
    \<^verbatim>\<open>t.IsZero()\<close> is \<open>t = 0\<close> and \<^verbatim>\<open>t.UTC()\<close> is the identity;
  \<^item> a Go pointer that may be nil is an \<open>option\<close>; a slice is a list (nil and empty slices are only
    kept apart where the code does so).
\<close>

section \<open>Errors\<close>

datatype 'e go_error = Err 'e | Wrapped string "'e go_error"

fun errors_is :: "'e go_error \<Rightarrow> 'e \<Rightarrow> bool" where
  "errors_is (Err e) t = (e = t)"
| "errors_is (Wrapped _ e) t = errors_is e t"

fun root_cause :: "'e go_error \<Rightarrow> 'e" where
  "root_cause (Err e) = e"
| "root_cause (Wrapped _ e) = root_cause e"

lemma errors_is_root_cause: "errors_is e t \<longleftrightarrow> root_cause e = t"
  by (induction e) auto

type_synonym gotime = int

text \<open>A \<^verbatim>\<open>float64\<close> amount is a rational number: copies and comparisons are exact, and arithmetic
  is done without rounding errors.\<close>

type_synonym float64 = rat

text \<open>A 64-bit \<^verbatim>\<open>int\<close> is an \<open>int\<close>; where a product or sum may leave the range, the wrap-around is
  written out.\<close>

definition int64 :: "int \<Rightarrow> int" where
  "int64 n = (n + 2 ^ 63) mod 2 ^ 64 - 2 ^ 63"

text \<open>A \<^verbatim>\<open>map[string]string\<close> is the list of its entries in iteration order. Go leaves that order
  open: a statement about all lists covers every order.\<close>

type_synonym gomap = "(string \<times> string) list"

section \<open>Effectful operations\<close>

type_synonym ('w, 'e, 'a) prog = "'w \<Rightarrow> ('e go_error + 'a) \<times> 'w"

named_theorems prog_simps "evaluation of effectful operations"
named_theorems preserves_intros "introduction rules for preservation of state predicates"

definition ret :: "'a \<Rightarrow> ('w, 'e, 'a) prog" where
  "ret x = (\<lambda>w. (Inr x, w))"

definition throw :: "'e go_error \<Rightarrow> ('w, 'e, 'a) prog" where
  "throw e = (\<lambda>w. (Inl e, w))"

definition bindp :: "('w, 'e, 'a) prog \<Rightarrow> ('a \<Rightarrow> ('w, 'e, 'b) prog) \<Rightarrow> ('w, 'e, 'b) prog" where
  "bindp m f = (\<lambda>w. case m w of (Inl e, w') \<Rightarrow> (Inl e, w') | (Inr x, w') \<Rightarrow> f x w')"

text \<open>\<^verbatim>\<open>if err != nil { return fmt.Errorf("ctx: %w", err) }\<close>.\<close>

definition wrap_err :: "string \<Rightarrow> ('w, 'e, 'a) prog \<Rightarrow> ('w, 'e, 'a) prog" where
  "wrap_err ctx m = (\<lambda>w. case m w of (Inl e, w') \<Rightarrow> (Inl (Wrapped ctx e), w') | (Inr x, w') \<Rightarrow> (Inr x, w'))"

text \<open>A call whose error is looked at by the caller instead of being returned.\<close>

definition tryp :: "('w, 'e, 'a) prog \<Rightarrow> ('w, 'e, 'e go_error + 'a) prog" where
  "tryp m = (\<lambda>w. case m w of (r, w') \<Rightarrow> (Inr r, w'))"

definition getp :: "('w \<Rightarrow> 'a) \<Rightarrow> ('w, 'e, 'a) prog" where
  "getp f = (\<lambda>w. (Inr (f w), w))"

definition modp :: "('w \<Rightarrow> 'w) \<Rightarrow> ('w, 'e, unit) prog" where
  "modp f = (\<lambda>w. (Inr (), f w))"

text \<open>A database transaction: an error rolls the state back.\<close>

definition atomically :: "('w, 'e, 'a) prog \<Rightarrow> ('w, 'e, 'a) prog" where
  "atomically m = (\<lambda>w. case m w of (Inl e, _) \<Rightarrow> (Inl e, w) | (Inr x, w') \<Rightarrow> (Inr x, w'))"

text \<open>An optional error as a guard: \<^verbatim>\<open>if err := check(x); err != nil { return err }\<close>.\<close>

definition guard_err :: "'e option \<Rightarrow> ('w, 'e, unit) prog" where
  "guard_err c = (case c of None \<Rightarrow> ret () | Some e \<Rightarrow> throw (Err e))"

text \<open>A source of values that cannot fail: identifiers, random draws, a call whose error is a value.\<close>

definition drawp :: "('w \<Rightarrow> 'a \<times> 'w) \<Rightarrow> ('w, 'e, 'a) prog" where
  "drawp f = (\<lambda>w. case f w of (x, w') \<Rightarrow> (Inr x, w'))"

text \<open>The result of a pure function as an operation.\<close>

definition fromp :: "'e go_error + 'a \<Rightarrow> ('w, 'e, 'a) prog" where
  "fromp r = (\<lambda>w. (r, w))"

lemma fromp_apply [prog_simps]: "fromp r w = (r, w)"
  by (simp add: fromp_def)

lemma ret_apply [prog_simps]: "ret x w = (Inr x, w)"
  by (simp add: ret_def)

lemma throw_apply [prog_simps]: "throw e w = (Inl e, w)"
  by (simp add: throw_def)

lemma bindp_apply [prog_simps]:
  "bindp m f w = (case m w of (Inl e, w') \<Rightarrow> (Inl e, w') | (Inr x, w') \<Rightarrow> f x w')"
  by (simp add: bindp_def)

lemma wrap_err_apply [prog_simps]:
  "wrap_err c m w = (case m w of (Inl e, w') \<Rightarrow> (Inl (Wrapped c e), w') | (Inr x, w') \<Rightarrow> (Inr x, w'))"
  by (simp add: wrap_err_def)

lemma tryp_apply [prog_simps]: "tryp m w = (case m w of (r, w') \<Rightarrow> (Inr r, w'))"
  by (simp add: tryp_def)

lemma getp_apply [prog_simps]: "getp f w = (Inr (f w), w)"
  by (simp add: getp_def)

lemma modp_apply [prog_simps]: "modp f w = (Inr (), f w)"
  by (simp add: modp_def)

lemma atomically_apply [prog_simps]:
  "atomically m w = (case m w of (Inl e, _) \<Rightarrow> (Inl e, w) | (Inr x, w') \<Rightarrow> (Inr x, w'))"
  by (simp add: atomically_def)

lemma guard_err_apply [prog_simps]:
  "guard_err c w = (case c of None \<Rightarrow> (Inr (), w) | Some e \<Rightarrow> (Inl (Err e), w))"
  by (cases c) (simp_all add: guard_err_def prog_simps)

lemma drawp_apply [prog_simps]: "drawp f w = (case f w of (x, w') \<Rightarrow> (Inr x, w'))"
  by (simp add: drawp_def)

lemma bindp_Inr_iff:
  "bindp m f w = (Inr y, w2) \<longleftrightarrow> (\<exists>x w1. m w = (Inr x, w1) \<and> f x w1 = (Inr y, w2))"
  by (auto simp: prog_simps split: prod.splits sum.splits)

lemma bindp_InlE:
  assumes "bindp m f w = (Inl e, w2)"
  obtains (left) "m w = (Inl e, w2)" | (right) x w1 where "m w = (Inr x, w1)" "f x w1 = (Inl e, w2)"
  using assms by (auto simp: prog_simps split: prod.splits sum.splits)

lemma wrap_err_Inr_iff: "wrap_err c m w = (Inr y, w2) \<longleftrightarrow> m w = (Inr y, w2)"
  by (auto simp: prog_simps split: prod.splits sum.splits)

lemma atomically_Inr_iff: "atomically m w = (Inr y, w2) \<longleftrightarrow> m w = (Inr y, w2)"
  by (auto simp: prog_simps split: prod.splits sum.splits)

lemma atomically_Inl: "atomically m w = (Inl e, w2) \<Longrightarrow> w2 = w"
  by (auto simp: prog_simps split: prod.splits sum.splits)

lemma guard_err_Inr_iff: "guard_err c w = (Inr y, w2) \<longleftrightarrow> c = None \<and> w2 = w"
  by (auto simp: prog_simps split: option.splits)

lemma getp_Inr_iff: "getp f w = (Inr y, w2) \<longleftrightarrow> y = f w \<and> w2 = w"
  by (auto simp: prog_simps)

lemma ret_Inr_iff: "ret x w = (Inr y, w2) \<longleftrightarrow> y = x \<and> w2 = w"
  by (auto simp: prog_simps)

lemma throw_Inr_iff: "throw e w = (Inr y, w2) \<longleftrightarrow> False"
  by (auto simp: prog_simps)

lemma modp_Inr_iff: "modp f w = (Inr y, w2) \<longleftrightarrow> w2 = f w"
  by (auto simp: prog_simps)

lemma fromp_Inr_iff: "fromp r w = (Inr y, w2) \<longleftrightarrow> r = Inr y \<and> w2 = w"
  by (auto simp: prog_simps)

lemmas prog_Inr_iffs = fromp_Inr_iff bindp_Inr_iff wrap_err_Inr_iff atomically_Inr_iff guard_err_Inr_iff
  getp_Inr_iff ret_Inr_iff throw_Inr_iff modp_Inr_iff

subsection \<open>Preservation of a state predicate\<close>

definition preserves :: "('w \<Rightarrow> bool) \<Rightarrow> ('w, 'e, 'a) prog \<Rightarrow> bool" where
  "preserves I m \<longleftrightarrow> (\<forall>w. I w \<longrightarrow> I (snd (m w)))"

lemma preservesI: "(\<And>w. I w \<Longrightarrow> I (snd (m w))) \<Longrightarrow> preserves I m"
  by (simp add: preserves_def)

lemma preservesD: "preserves I m \<Longrightarrow> I w \<Longrightarrow> m w = (r, w') \<Longrightarrow> I w'"
  by (metis preserves_def snd_conv)

lemma preserves_ret [preserves_intros]: "preserves I (ret x)"
  by (simp add: preserves_def prog_simps)

lemma preserves_throw [preserves_intros]: "preserves I (throw e)"
  by (simp add: preserves_def prog_simps)

lemma preserves_getp [preserves_intros]: "preserves I (getp f)"
  by (simp add: preserves_def prog_simps)

lemma preserves_guard_err [preserves_intros]: "preserves I (guard_err c)"
  by (simp add: preserves_def prog_simps split: option.splits)

lemma preserves_fromp [preserves_intros]: "preserves I (fromp r)"
  by (simp add: preserves_def prog_simps)

lemma preserves_drawp: "(\<And>w. I w \<Longrightarrow> I (snd (f w))) \<Longrightarrow> preserves I (drawp f)"
  by (simp add: preserves_def prog_simps case_prod_unfold)

lemma preserves_modp: "(\<And>w. I w \<Longrightarrow> I (f w)) \<Longrightarrow> preserves I (modp f)"
  by (simp add: preserves_def prog_simps)

lemma preserves_bindp [preserves_intros]:
  "preserves I m \<Longrightarrow> (\<And>x. preserves I (f x)) \<Longrightarrow> preserves I (bindp m f)"
  by (fastforce simp: preserves_def prog_simps split: prod.splits sum.splits)

lemma preserves_wrap_err [preserves_intros]: "preserves I m \<Longrightarrow> preserves I (wrap_err c m)"
  by (fastforce simp: preserves_def prog_simps split: prod.splits sum.splits)

lemma preserves_tryp [preserves_intros]: "preserves I m \<Longrightarrow> preserves I (tryp m)"
  by (fastforce simp: preserves_def prog_simps split: prod.splits sum.splits)

lemma preserves_atomically [preserves_intros]: "preserves I m \<Longrightarrow> preserves I (atomically m)"
  by (fastforce simp: preserves_def prog_simps split: prod.splits sum.splits)

lemma preserves_if [preserves_intros]:
  "(b \<Longrightarrow> preserves I m) \<Longrightarrow> (\<not> b \<Longrightarrow> preserves I n) \<Longrightarrow> preserves I (if b then m else n)"
  by simp

lemma preserves_case_option [preserves_intros]:
  "(c = None \<Longrightarrow> preserves I m) \<Longrightarrow> (\<And>x. c = Some x \<Longrightarrow> preserves I (n x))
    \<Longrightarrow> preserves I (case c of None \<Rightarrow> m | Some x \<Rightarrow> n x)"
  by (cases c) simp_all

lemma preserves_case_sum [preserves_intros]:
  "(\<And>x. c = Inl x \<Longrightarrow> preserves I (m x)) \<Longrightarrow> (\<And>x. c = Inr x \<Longrightarrow> preserves I (n x))
    \<Longrightarrow> preserves I (case c of Inl x \<Rightarrow> m x | Inr x \<Rightarrow> n x)"
  by (cases c) simp_all

lemma preserves_Let [preserves_intros]:
  "(\<And>x. x = v \<Longrightarrow> preserves I (f x)) \<Longrightarrow> preserves I (let x = v in f x)"
  by (simp add: Let_def)

subsection \<open>Operations that only read\<close>

definition readonly :: "('w, 'e, 'a) prog \<Rightarrow> bool" where
  "readonly m \<longleftrightarrow> (\<forall>w. snd (m w) = w)"

lemma readonly_iff_preserves: "readonly m \<longleftrightarrow> (\<forall>w0. preserves (\<lambda>w. w = w0) m)"
  by (auto simp: readonly_def preserves_def)

lemma readonlyD: "readonly m \<Longrightarrow> m w = (r, w') \<Longrightarrow> w' = w"
  by (metis readonly_def snd_conv)

lemma readonly_bindp [intro]: "readonly m \<Longrightarrow> (\<And>x. readonly (f x)) \<Longrightarrow> readonly (bindp m f)"
  by (auto simp: readonly_def prog_simps split: prod.splits sum.splits) (metis snd_conv)+

lemma readonly_wrap_err [intro]: "readonly m \<Longrightarrow> readonly (wrap_err l m)"
  by (auto simp: readonly_def prog_simps split: prod.splits sum.splits) (metis snd_conv)+

lemma readonly_basic [simp, intro]: "readonly (ret x)" "readonly (throw e)" "readonly (fromp r)" "readonly (getp f)" "readonly (guard_err c)"
  by (auto simp: readonly_def prog_simps split: option.splits)

lemma readonly_if: "readonly m \<Longrightarrow> readonly n \<Longrightarrow> readonly (if b then m else n)"
  by simp

lemma readonly_preserves: "readonly m \<Longrightarrow> preserves I m"
  by (simp add: readonly_def preserves_def)

lemma prog_result: "\<not> isl (fst (m w)) \<Longrightarrow> m w = (Inr (projr (fst (m w))), snd (m w))"
  by (cases "m w"; cases "fst (m w)") auto

section \<open>Lists\<close>

lemma fold_update_set:
  "set (fold (\<lambda>x acc. if P x then acc else acc @ [f x]) xs acc)
    = set acc \<union> f ` {x \<in> set xs. \<not> P x}"
  by (induction xs arbitrary: acc) auto

lemma sort_key_map: "map h (sort_key (\<lambda>x. k (h x)) xs) = sort_key k (map h xs)"
proof (rule properties_for_sort_key[symmetric])
  show "mset (map h (sort_key (\<lambda>x. k (h x)) xs)) = mset (map h xs)" by simp
  show "sorted (map k (map h (sort_key (\<lambda>x. k (h x)) xs)))" by (simp add: comp_def)
  show "filter (\<lambda>y. k e = k y) (map h (sort_key (\<lambda>x. k (h x)) xs)) = filter (\<lambda>y. k e = k y) (map h xs)" for e
    using sort_key_stable[of "\<lambda>x. k (h x)" "k e" xs] by (simp add: filter_map comp_def eq_commute)
qed

lemma find_map: "find Q (map f xs) = map_option f (find (\<lambda>x. Q (f x)) xs)"
  by (induction xs) simp_all

lemma find_append: "find P (xs @ ys) = (case find P xs of None \<Rightarrow> find P ys | Some x \<Rightarrow> Some x)"
  by (induction xs) auto

text \<open>A loop that keeps the first element with the greatest score, as Go code writes it with a
  candidate variable that is only replaced by a strictly better one.\<close>

fun best_by :: "('a \<Rightarrow> 'a \<Rightarrow> bool) \<Rightarrow> 'a option \<Rightarrow> 'a list \<Rightarrow> 'a option" where
  "best_by better acc [] = acc"
| "best_by better None (x # xs) = best_by better (Some x) xs"
| "best_by better (Some s) (x # xs) = best_by better (Some (if better x s then x else s)) xs"

lemma best_by_mem: "best_by b acc xs = Some y \<Longrightarrow> y \<in> set xs \<or> acc = Some y"
  by (induction b acc xs rule: best_by.induct) (auto split: if_splits)

lemma best_by_None_iff: "best_by b acc xs = None \<longleftrightarrow> acc = None \<and> xs = []"
  by (induction b acc xs rule: best_by.induct) auto

lemma best_by_max:
  assumes "\<And>x y. b x y \<longleftrightarrow> (f y :: 'k::linorder) < f x"
    and "best_by b acc xs = Some y"
  shows "(\<forall>x \<in> set xs. f x \<le> f y) \<and> (\<forall>s. acc = Some s \<longrightarrow> f s \<le> f y)"
  using assms by (induction b acc xs rule: best_by.induct) (fastforce split: if_splits)+

text \<open>Association lists under update.\<close>

lemma list_all_update: "list_all P al \<Longrightarrow> P (k, v) \<Longrightarrow> list_all P (AList.update k v al)"
  by (induction al) auto

lemma update_new_key: "k \<notin> fst ` set al \<Longrightarrow> AList.update k v al = al @ [(k, v)]"
  by (induction al) auto

text \<open>An in-order pass that stops at the first error.\<close>

fun mapM_sum :: "('a \<Rightarrow> 'e + 'b) \<Rightarrow> 'a list \<Rightarrow> 'e + 'b list" where
  "mapM_sum f [] = Inr []"
| "mapM_sum f (x # xs) = (case f x of Inl e \<Rightarrow> Inl e
     | Inr y \<Rightarrow> (case mapM_sum f xs of Inl e \<Rightarrow> Inl e | Inr ys \<Rightarrow> Inr (y # ys)))"

lemma mapM_sum_Inr_iff:
  "mapM_sum f xs = Inr ys \<longleftrightarrow> length ys = length xs \<and> (\<forall>i < length xs. f (xs ! i) = Inr (ys ! i))"
proof (induction xs arbitrary: ys)
  case Nil
  then show ?case by auto
next
  case (Cons x xs)
  show ?case
  proof (cases ys)
    case Nil
    then show ?thesis by (auto split: sum.splits)
  next
    case (Cons y ys')
    with Cons.IH[of ys'] show ?thesis
      by (auto split: sum.splits simp: nth_Cons' less_Suc_eq_0_disj)
  qed
qed

end
