(* ===== verification/Go_Strings.thy ===== *)
theory Go_Strings
  imports Go_Prelude "HOL-Library.Sublist" "HOL-Library.List_Lexorder" "HOL-Library.Char_ord"
begin

text \<open>
  The functions of Go's package \<^verbatim>\<open>strings\<close> that the program uses. A Go string is its list of bytes
  (UTF-8 encoded), so \<open>length\<close> is \<^verbatim>\<open>len\<close>.

  \<^verbatim>\<open>TrimSpace\<close> and \<^verbatim>\<open>Fields\<close> treat every Unicode white-space code point as Go does: the table
  \<open>ws_tokens\<close> lists their UTF-8 encodings, and a white-space rune stands at the start (end) of a
  string exactly if one of these encodings is a prefix (suffix) of its bytes.
  Case mapping (\<^verbatim>\<open>ToLower\<close>, \<^verbatim>\<open>ToUpper\<close>, \<^verbatim>\<open>EqualFold\<close>) is modelled on the ASCII letters; letters
  outside ASCII are left unchanged by the model.
\<close>

section \<open>White space\<close>

definition ascii_spaces :: "string list" where
  "ascii_spaces = [[CHR 0x09], [CHR 0x0A], [CHR 0x0B], [CHR 0x0C], [CHR 0x0D], [CHR 0x20]]"

text \<open>U+0085, U+00A0, U+1680, U+2000 to U+200A, U+2028, U+2029, U+202F, U+205F, U+3000.\<close>

definition unicode_spaces :: "string list" where
  "unicode_spaces =
    [[CHR 0xC2, CHR 0x85], [CHR 0xC2, CHR 0xA0], [CHR 0xE1, CHR 0x9A, CHR 0x80],
     [CHR 0xE2, CHR 0x80, CHR 0x80], [CHR 0xE2, CHR 0x80, CHR 0x81], [CHR 0xE2, CHR 0x80, CHR 0x82],
     [CHR 0xE2, CHR 0x80, CHR 0x83], [CHR 0xE2, CHR 0x80, CHR 0x84], [CHR 0xE2, CHR 0x80, CHR 0x85],
     [CHR 0xE2, CHR 0x80, CHR 0x86], [CHR 0xE2, CHR 0x80, CHR 0x87], [CHR 0xE2, CHR 0x80, CHR 0x88],
     [CHR 0xE2, CHR 0x80, CHR 0x89], [CHR 0xE2, CHR 0x80, CHR 0x8A], [CHR 0xE2, CHR 0x80, CHR 0xA8],
     [CHR 0xE2, CHR 0x80, CHR 0xA9], [CHR 0xE2, CHR 0x80, CHR 0xAF], [CHR 0xE2, CHR 0x81, CHR 0x9F],
     [CHR 0xE3, CHR 0x80, CHR 0x80]]"

definition ws_tokens :: "string list" where
  "ws_tokens = ascii_spaces @ unicode_spaces"

definition ws_tokens_rev :: "string list" where
  "ws_tokens_rev = map rev ws_tokens"

lemma ws_tokens_nonempty: "t \<in> set ws_tokens \<Longrightarrow> t \<noteq> []"
  by (auto simp: ws_tokens_def ascii_spaces_def unicode_spaces_def)

lemma ws_tokens_rev_nonempty: "t \<in> set ws_tokens_rev \<Longrightarrow> t \<noteq> []"
  by (auto simp: ws_tokens_rev_def dest: ws_tokens_nonempty)

text \<open>Removing tokens from the front until none of them is a prefix.\<close>

definition lead :: "string list \<Rightarrow> string \<Rightarrow> string option" where
  "lead ts s = find (\<lambda>t. t \<noteq> [] \<and> take (length t) s = t) ts"

lemma lead_SomeD: "lead ts s = Some t \<Longrightarrow> t \<in> set ts \<and> t \<noteq> [] \<and> prefix t s"
  by (auto simp: lead_def find_Some_iff prefix_def in_set_conv_nth) (metis append_take_drop_id)

lemma lead_None_iff: "lead ts s = None \<longleftrightarrow> (\<forall>t \<in> set ts. t \<noteq> [] \<longrightarrow> \<not> prefix t s)"
  by (auto simp: lead_def find_None_iff prefix_def) (metis append_take_drop_id)

function strip :: "string list \<Rightarrow> string \<Rightarrow> string" where
  "strip ts s = (case lead ts s of None \<Rightarrow> s | Some t \<Rightarrow> strip ts (drop (length t) s))"
  by pat_completeness auto
termination
  by (relation "measure (\<lambda>(ts, s). length s)") (auto dest!: lead_SomeD simp: prefix_def)

declare strip.simps [simp del]

lemma strip_unfold: "strip ts s = (case lead ts s of None \<Rightarrow> s | Some t \<Rightarrow> strip ts (drop (length t) s))"
  by (rule strip.simps)

lemma lead_strip: "lead ts (strip ts s) = None"
  by (induction ts s rule: strip.induct) (subst strip_unfold, auto split: option.splits)

lemma strip_fixed: "lead ts s = None \<Longrightarrow> strip ts s = s"
  by (subst strip_unfold) simp

lemma strip_idem [simp]: "strip ts (strip ts s) = strip ts s"
  by (simp add: strip_fixed lead_strip)

lemma suffix_strip: "suffix (strip ts s) s"
proof (induction ts s rule: strip.induct)
  case (1 ts s)
  then show ?case
    by (subst strip_unfold) (auto split: option.splits intro: suffix_order.trans suffix_drop)
qed

lemma length_strip: "length (strip ts s) \<le> length s"
  using suffix_length_le suffix_strip by blast

lemma lead_prefix_None: "prefix u s \<Longrightarrow> lead ts s = None \<Longrightarrow> lead ts u = None"
  by (meson lead_None_iff prefix_order.trans)

definition trim_left :: "string \<Rightarrow> string" where
  "trim_left s = strip ws_tokens s"

definition trim_right :: "string \<Rightarrow> string" where
  "trim_right s = rev (strip ws_tokens_rev (rev s))"

text \<open>\<^verbatim>\<open>strings.TrimSpace\<close>.\<close>

definition trim :: "string \<Rightarrow> string" where
  "trim s = trim_right (trim_left s)"

lemma prefix_trim_right: "prefix (trim_right s) s"
  unfolding trim_right_def using suffix_strip[of ws_tokens_rev "rev s"]
  by (simp add: suffix_to_prefix)

lemma trim_left_trim: "trim_left (trim s) = trim s"
proof -
  have "lead ws_tokens (trim_left s) = None" by (simp add: trim_left_def lead_strip)
  then have "lead ws_tokens (trim s) = None"
    unfolding trim_def by (rule lead_prefix_None[OF prefix_trim_right])
  then show ?thesis by (simp add: trim_left_def strip_fixed)
qed

lemma trim_right_idem [simp]: "trim_right (trim_right s) = trim_right s"
  by (simp add: trim_right_def)

lemma trim_idem [simp]: "trim (trim s) = trim s"
proof -
  have "trim (trim s) = trim_right (trim s)" by (simp only: trim_def[of "trim s"] trim_left_trim)
  also have "\<dots> = trim s" by (simp add: trim_def)
  finally show ?thesis .
qed

lemma length_trim: "length (trim s) \<le> length s"
proof -
  have "length (trim s) \<le> length (trim_left s)"
    by (simp add: trim_def prefix_length_le prefix_trim_right)
  also have "\<dots> \<le> length s" by (simp add: trim_left_def length_strip)
  finally show ?thesis .
qed

lemma lead_Nil [simp]: "lead ts [] = None"
  by (auto simp: lead_None_iff)

lemma trim_Nil [simp]: "trim [] = []"
  by (simp add: trim_def trim_left_def trim_right_def strip_fixed)

text \<open>A string that neither starts nor ends with white space is unchanged.\<close>

lemma trim_fixed: "lead ws_tokens s = None \<Longrightarrow> lead ws_tokens_rev (rev s) = None \<Longrightarrow> trim s = s"
  by (simp add: trim_def trim_left_def trim_right_def strip_fixed)

lemma trim_fixed_iff:
  "trim s = s \<longleftrightarrow> lead ws_tokens s = None \<and> lead ws_tokens_rev (rev s) = None"
proof
  assume t: "trim s = s"
  then have "trim_left s = s" by (metis trim_left_trim)
  then have 1: "lead ws_tokens s = None" by (metis lead_strip trim_left_def)
  have "trim_right s = s" using t by (metis trim_def trim_right_idem)
  then have "strip ws_tokens_rev (rev s) = rev s" by (simp add: trim_right_def rev_swap)
  then have "lead ws_tokens_rev (rev s) = None" by (metis lead_strip)
  with 1 show "lead ws_tokens s = None \<and> lead ws_tokens_rev (rev s) = None" by simp
qed (simp add: trim_fixed)

text \<open>So is one without any byte of a white-space character.\<close>

definition graphic :: "char \<Rightarrow> bool" where
  "graphic c \<longleftrightarrow> c \<notin> set (concat ws_tokens)"

lemma lead_graphic:
  assumes "list_all graphic s" "\<And>t. t \<in> set ts \<Longrightarrow> set t \<subseteq> set (concat ws_tokens)"
  shows "lead ts s = None"
proof (rule ccontr)
  assume "lead ts s \<noteq> None"
  then obtain t where t: "t \<in> set ts" "t \<noteq> []" "prefix t s" by (auto dest: lead_SomeD)
  then have "hd t \<in> set t" by simp
  with assms(2)[OF t(1)] have "\<not> graphic (hd t)" by (auto simp: graphic_def)
  moreover have "hd t \<in> set s" using \<open>hd t \<in> set t\<close> set_mono_prefix[OF t(3)] by blast
  ultimately show False using assms(1) by (auto simp: list_all_iff)
qed

lemma trim_graphic: "list_all graphic s \<Longrightarrow> trim s = s"
  by (rule trim_fixed; rule lead_graphic) (auto simp: ws_tokens_rev_def list_all_iff)

section \<open>Case mapping\<close>

definition lower_char :: "char \<Rightarrow> char" where
  "lower_char c = (let n = of_char c :: nat in if 65 \<le> n \<and> n \<le> 90 then char_of (n + 32) else c)"

definition upper_char :: "char \<Rightarrow> char" where
  "upper_char c = (let n = of_char c :: nat in if 97 \<le> n \<and> n \<le> 122 then char_of (n - 32) else c)"

definition to_lower :: "string \<Rightarrow> string" where
  "to_lower s = map lower_char s"

definition to_upper :: "string \<Rightarrow> string" where
  "to_upper s = map upper_char s"

text \<open>\<^verbatim>\<open>strings.EqualFold\<close>.\<close>

definition equal_fold :: "string \<Rightarrow> string \<Rightarrow> bool" where
  "equal_fold a b \<longleftrightarrow> to_lower a = to_lower b"

lemma of_char_lower:
  "(of_char (lower_char c) :: nat) = (let n = of_char c in if 65 \<le> n \<and> n \<le> 90 then n + 32 else n)"
  by (auto simp: lower_char_def Let_def of_char_of)

lemma of_char_upper:
  "(of_char (upper_char c) :: nat) = (let n = of_char c in if 97 \<le> n \<and> n \<le> 122 then n - 32 else n)"
  by (auto simp: upper_char_def Let_def of_char_of)

lemma of_char_nat_eq_iff: "(of_char c :: nat) = of_char d \<longleftrightarrow> c = d"
  by simp

lemma lower_char_idem [simp]: "lower_char (lower_char c) = lower_char c"
  by (rule of_char_nat_eq_iff[THEN iffD1]) (simp add: of_char_lower Let_def)

lemma upper_char_idem [simp]: "upper_char (upper_char c) = upper_char c"
  by (rule of_char_nat_eq_iff[THEN iffD1]) (auto simp: of_char_upper Let_def)

lemma to_lower_idem [simp]: "to_lower (to_lower s) = to_lower s"
  by (simp add: to_lower_def comp_def)

lemma to_upper_idem [simp]: "to_upper (to_upper s) = to_upper s"
  by (simp add: to_upper_def comp_def)

lemma length_to_lower [simp]: "length (to_lower s) = length s"
  by (simp add: to_lower_def)

lemma length_to_upper [simp]: "length (to_upper s) = length s"
  by (simp add: to_upper_def)

lemma to_lower_Nil_iff [simp]: "to_lower s = [] \<longleftrightarrow> s = []"
  by (simp add: to_lower_def)

lemma to_upper_Nil_iff [simp]: "to_upper s = [] \<longleftrightarrow> s = []"
  by (simp add: to_upper_def)

lemma equal_fold_refl [simp]: "equal_fold a a"
  by (simp add: equal_fold_def)

lemma equal_fold_sym: "equal_fold a b \<longleftrightarrow> equal_fold b a"
  by (auto simp: equal_fold_def)

lemma equal_fold_trans: "equal_fold a b \<Longrightarrow> equal_fold b c \<Longrightarrow> equal_fold a c"
  by (simp add: equal_fold_def)

text \<open>Case mapping neither creates nor removes white space, so it commutes with trimming.\<close>

definition caseless_char :: "char \<Rightarrow> bool" where
  "caseless_char c \<longleftrightarrow> (let n = of_char c :: nat in n < 65 \<or> 122 < n)"

definition caseless_map :: "(char \<Rightarrow> char) \<Rightarrow> bool" where
  "caseless_map f \<longleftrightarrow> (\<forall>c d. caseless_char d \<longrightarrow> (f c = d) = (c = d))"

lemma caseless_lower: "caseless_map lower_char"
  by (auto simp: caseless_map_def caseless_char_def Let_def lower_char_def of_char_of split: if_splits)

lemma caseless_upper: "caseless_map upper_char"
  by (auto simp: caseless_map_def caseless_char_def Let_def upper_char_def of_char_of split: if_splits)

lemma ws_tokens_caseless: "list_all (list_all caseless_char) ws_tokens"
  by (simp add: ws_tokens_def ascii_spaces_def unicode_spaces_def caseless_char_def)

lemma map_eq_caseless:
  "caseless_map f \<Longrightarrow> list_all caseless_char t \<Longrightarrow> map f s = t \<longleftrightarrow> s = t"
  by (induction t arbitrary: s) (auto simp: caseless_map_def)

lemma lead_map:
  assumes "caseless_map f" "list_all (list_all caseless_char) ts"
  shows "lead ts (map f s) = lead ts s"
  unfolding lead_def using assms
  by (intro find_cong refl) (auto simp: take_map map_eq_caseless list_all_iff)

lemma strip_map:
  assumes "caseless_map f" "list_all (list_all caseless_char) ts"
  shows "strip ts (map f s) = map f (strip ts s)"
  using assms
proof (induction ts s rule: strip.induct)
  case (1 ts s)
  show ?case
    by (subst (1 2) strip_unfold) (auto simp: lead_map 1 drop_map split: option.splits)
qed

lemma trim_map:
  assumes f: "caseless_map f"
  shows "trim (map f s) = map f (trim s)"
proof -
  have r: "list_all (list_all caseless_char) ws_tokens_rev"
    using ws_tokens_caseless by (auto simp: ws_tokens_rev_def list_all_iff)
  show ?thesis
    by (simp add: trim_def trim_left_def trim_right_def rev_map
        strip_map[OF f ws_tokens_caseless] strip_map[OF f r])
qed

lemma trim_to_lower: "trim (to_lower s) = to_lower (trim s)"
  by (simp add: to_lower_def trim_map[OF caseless_lower])

lemma trim_to_upper: "trim (to_upper s) = to_upper (trim s)"
  by (simp add: to_upper_def trim_map[OF caseless_upper])

section \<open>Prefixes, splitting\<close>

definition has_prefix :: "string \<Rightarrow> string \<Rightarrow> bool" where
  "has_prefix s p \<longleftrightarrow> take (length p) s = p"

lemma has_prefix_iff: "has_prefix s p \<longleftrightarrow> prefix p s"
  by (auto simp: has_prefix_def prefix_def) (metis append_take_drop_id)

text \<open>\<^verbatim>\<open>strings.Contains\<close>.\<close>

fun contains :: "string \<Rightarrow> string \<Rightarrow> bool" where
  "contains [] p = (p = [])"
| "contains (c # s) p = (has_prefix (c # s) p \<or> contains s p)"

lemma contains_iff: "contains s p \<longleftrightarrow> sublist p s"
  by (induction s) (auto simp: has_prefix_iff sublist_Cons_right)

text \<open>\<^verbatim>\<open>strings.Index(s, string(c))\<close> of a one-byte separator, and the parts around it.\<close>

definition split_at :: "char \<Rightarrow> string \<Rightarrow> (string \<times> string) option" where
  "split_at c s = (if c \<in> set s
     then Some (takeWhile (\<lambda>x. x \<noteq> c) s, tl (dropWhile (\<lambda>x. x \<noteq> c) s)) else None)"

lemma split_at_Some: "split_at c s = Some (a, b) \<Longrightarrow> s = a @ c # b \<and> c \<notin> set a"
proof -
  assume "split_at c s = Some (a, b)"
  then have c: "c \<in> set s" and a: "a = takeWhile (\<lambda>x. x \<noteq> c) s"
    and b: "b = tl (dropWhile (\<lambda>x. x \<noteq> c) s)"
    by (auto simp: split_at_def split: if_splits)
  have ne: "dropWhile (\<lambda>x. x \<noteq> c) s \<noteq> []" using c by (simp add: dropWhile_eq_Nil_conv)
  then have "hd (dropWhile (\<lambda>x. x \<noteq> c) s) = c" using hd_dropWhile by blast
  with ne b have "dropWhile (\<lambda>x. x \<noteq> c) s = c # b" by (metis list.collapse)
  with a show ?thesis by (metis takeWhile_dropWhile_id set_takeWhileD)
qed

lemma split_at_append: "c \<notin> set a \<Longrightarrow> split_at c (a @ c # b) = Some (a, b)"
  by (induction a) (auto simp: split_at_def)

text \<open>\<^verbatim>\<open>strings.Fields\<close>: the maximal runs of bytes without a white-space rune. The second argument
  holds the current run, reversed.\<close>

function go_fields_from :: "string \<Rightarrow> string \<Rightarrow> string list" where
  "go_fields_from s run = (case lead ws_tokens s of
      Some t \<Rightarrow> (if run = [] then [] else [rev run]) @ go_fields_from (drop (length t) s) []
    | None \<Rightarrow> (case s of [] \<Rightarrow> (if run = [] then [] else [rev run])
               | c # s' \<Rightarrow> go_fields_from s' (c # run)))"
  by pat_completeness auto
termination
  by (relation "measure (\<lambda>(s, run). length s)") (auto dest!: lead_SomeD simp: prefix_def)

declare go_fields_from.simps [simp del]

definition go_fields :: "string \<Rightarrow> string list" where
  "go_fields s = go_fields_from s []"

lemma go_fields_from_nonempty: "[] \<notin> set (go_fields_from s run)"
proof (induction s run rule: go_fields_from.induct)
  case (1 s run)
  show ?case
  proof (cases "lead ws_tokens s")
    case None
    with 1 show ?thesis by (subst go_fields_from.simps) (cases s; simp)
  next
    case (Some t)
    with 1 show ?thesis by (subst go_fields_from.simps) simp
  qed
qed

lemma go_fields_nonempty: "x \<in> set (go_fields s) \<Longrightarrow> x \<noteq> []"
  using go_fields_from_nonempty by (auto simp: go_fields_def)

section \<open>Decimal numbers\<close>

text \<open>\<^verbatim>\<open>strconv.FormatUint(n, 10)\<close> and \<^verbatim>\<open>strconv.ParseUint(s, 10, 64)\<close> (\<open>None\<close> for a syntax or range
  error: no digit, a byte that is not a digit, or a value that needs more than 64 bits).\<close>

definition digit_char :: "nat \<Rightarrow> char" where
  "digit_char d = char_of (48 + d)"

definition is_digit :: "char \<Rightarrow> bool" where
  "is_digit c \<longleftrightarrow> (let n = of_char c :: nat in 48 \<le> n \<and> n \<le> 57)"

fun format_uint :: "nat \<Rightarrow> string" where
  "format_uint n = (if n < 10 then [digit_char n] else format_uint (n div 10) @ [digit_char (n mod 10)])"

declare format_uint.simps [simp del]

definition digits_value :: "string \<Rightarrow> nat" where
  "digits_value s = foldl (\<lambda>acc c. 10 * acc + (of_char c - 48)) 0 s"

definition parse_uint64 :: "string \<Rightarrow> nat option" where
  "parse_uint64 s = (if s \<noteq> [] \<and> list_all is_digit s \<and> digits_value s < 2 ^ 64
     then Some (digits_value s) else None)"

lemma is_digit_digit_char: "d < 10 \<Longrightarrow> is_digit (digit_char d)"
  by (simp add: is_digit_def digit_char_def of_char_of Let_def)

lemma of_char_digit: "d < 10 \<Longrightarrow> (of_char (digit_char d) :: nat) = 48 + d"
  by (simp add: digit_char_def of_char_of)

lemma format_uint_digits: "format_uint n \<noteq> [] \<and> list_all is_digit (format_uint n) \<and> digits_value (format_uint n) = n"
proof (induction n rule: format_uint.induct)
  case (1 n)
  show ?case
  proof (cases "n < 10")
    case True
    then show ?thesis
      by (subst (1 2 3) format_uint.simps) (simp add: is_digit_def digits_value_def of_char_digit Let_def)
  next
    case False
    with 1 have IH: "list_all is_digit (format_uint (n div 10))"
      "digits_value (format_uint (n div 10)) = n div 10" by auto
    have eq: "format_uint n = format_uint (n div 10) @ [digit_char (n mod 10)]"
      using False by (subst format_uint.simps) simp
    have "digits_value (format_uint n) = 10 * (n div 10) + n mod 10"
      using IH(2) by (simp add: eq digits_value_def of_char_digit)
    moreover have "list_all is_digit (format_uint n)"
      using IH(1) by (simp add: eq is_digit_digit_char)
    ultimately show ?thesis by (simp add: eq)
  qed
qed

lemma parse_format_uint: "n < 2 ^ 64 \<Longrightarrow> parse_uint64 (format_uint n) = Some n"
  using format_uint_digits[of n] by (simp add: parse_uint64_def)

lemma lead_ws_digits:
  "list_all is_digit s \<Longrightarrow> \<forall>t \<in> set ts. t \<noteq> [] \<and> \<not> is_digit (hd t) \<Longrightarrow> lead ts s = None"
  by (auto simp: lead_None_iff prefix_def) (metis hd_append2 list.pred_inject(2) list.sel(1) neq_Nil_conv append_Cons)

lemma ws_heads: "\<forall>t \<in> set ws_tokens. t \<noteq> [] \<and> \<not> is_digit (hd t)"
  and ws_rev_heads: "\<forall>t \<in> set ws_tokens_rev. t \<noteq> [] \<and> \<not> is_digit (hd t)"
proof -
  have "list_all (\<lambda>t. t \<noteq> [] \<and> \<not> is_digit (hd t)) ws_tokens"
    "list_all (\<lambda>t. t \<noteq> [] \<and> \<not> is_digit (hd t)) ws_tokens_rev"
    by code_simp+
  then show "\<forall>t \<in> set ws_tokens. t \<noteq> [] \<and> \<not> is_digit (hd t)"
    "\<forall>t \<in> set ws_tokens_rev. t \<noteq> [] \<and> \<not> is_digit (hd t)"
    by (simp_all add: list_all_iff)
qed

lemma trim_digits: "list_all is_digit s \<Longrightarrow> trim s = s"
  by (intro trim_fixed lead_ws_digits ws_heads ws_rev_heads) (simp_all add: list_all_iff)

lemma trim_format_uint [simp]: "trim (format_uint n) = format_uint n"
  using format_uint_digits[of n] by (simp add: trim_digits)

lemma format_uint_nonempty [simp]: "format_uint n \<noteq> []"
  using format_uint_digits[of n] by simp

text \<open>Decidable equalities on literal strings, for evaluation by \<open>simp\<close>.\<close>

section \<open>Joining\<close>

fun join :: "string \<Rightarrow> string list \<Rightarrow> string" where
  "join sep [] = []"
| "join sep [x] = x"
| "join sep (x # y # ys) = x @ sep @ join sep (y # ys)"

lemmas string_eval = trim_def trim_left_def trim_right_def ws_tokens_def ws_tokens_rev_def
  ascii_spaces_def unicode_spaces_def lead_def strip_unfold to_lower_def to_upper_def
  lower_char_def upper_char_def equal_fold_def

section \<open>Trimming one character, and SQL patterns\<close>

text \<open>\<^verbatim>\<open>strings.Trim(s, string(c))\<close>.\<close>

definition trim_char :: "char \<Rightarrow> string \<Rightarrow> string" where
  "trim_char c s = rev (dropWhile (\<lambda>x. x = c) (rev (dropWhile (\<lambda>x. x = c) s)))"

text \<open>SQL \<^verbatim>\<open>LIKE\<close>: \<^verbatim>\<open>%\<close> stands for any text, \<^verbatim>\<open>_\<close> for one character, a backslash takes the next one literally.\<close>

fun sql_like :: "string \<Rightarrow> string \<Rightarrow> bool" where
  "sql_like [] s = (s = [])"
| "sql_like (p # ps) [] = (p = CHR ''%'' \<and> sql_like ps [])"
| "sql_like (p # ps) (c # s) =
    (if p = CHR ''%'' then sql_like ps (c # s) \<or> sql_like (p # ps) s
     else if p = CHR ''_'' then sql_like ps s
     else if p = CHR 0x5C \<and> ps \<noteq> [] then hd ps = c \<and> sql_like (tl ps) s
     else p = c \<and> sql_like ps s)"

text \<open>\<^verbatim>\<open>path.Base\<close>: the last element without trailing slashes.\<close>

definition path_base :: "string \<Rightarrow> string" where
  "path_base s = (if s = [] then ''.'' else (let t = rev (dropWhile (\<lambda>c. c = CHR ''/'') (rev s)) in
     if t = [] then ''/'' else rev (takeWhile (\<lambda>c. c \<noteq> CHR ''/'') (rev t))))"

section \<open>Trimmed metadata\<close>

text \<open>The loop of \<^verbatim>\<open>normalizeMetadata\<close> in several modules: where two keys are equal without their white space,
  the later one wins.\<close>

fun trim_metadata :: "gomap \<Rightarrow> gomap \<Rightarrow> gomap" where
  "trim_metadata [] acc = acc"
| "trim_metadata ((k, v) # m) acc = (let key = trim k in
     if key = [] then trim_metadata m acc else trim_metadata m (AList.update key (trim v) acc))"

definition metadata_trimmed :: "gomap \<Rightarrow> bool" where
  "metadata_trimmed m \<longleftrightarrow> distinct (map fst m) \<and> list_all (\<lambda>(k, v). trim k = k \<and> k \<noteq> [] \<and> trim v = v) m"

lemma trim_metadata_trimmed: "metadata_trimmed acc \<Longrightarrow> metadata_trimmed (trim_metadata m acc)"
proof (induction m acc rule: trim_metadata.induct)
  case (2 k v m acc)
  have "metadata_trimmed (AList.update (trim k) (trim v) acc)" if "trim k \<noteq> []"
    using 2(3) that by (simp add: metadata_trimmed_def distinct_update list_all_update)
  with 2 show ?case by (simp add: Let_def)
qed simp

lemma trim_metadata_append:
  "metadata_trimmed (acc @ m) \<Longrightarrow> trim_metadata m acc = acc @ m"
proof (induction m arbitrary: acc)
  case (Cons kv m)
  obtain k v where kv: "kv = (k, v)" by fastforce
  have "AList.update k v acc = acc @ [(k, v)]"
    using Cons.prems kv by (intro update_new_key) (auto simp: metadata_trimmed_def)
  then show ?case using Cons.IH[of "acc @ [(k, v)]"] Cons.prems by (auto simp: kv metadata_trimmed_def Let_def)
qed simp

end
