(* ===== verification/Auth.thy ===== *)
theory Auth
  imports Go_Strings
begin

text \<open>
  Module auth: permission constants and rules (\<^verbatim>\<open>module/auth/domain\<close>), the authentication and
  authorization use cases (\<^verbatim>\<open>module/auth/application\<close>), the claim mapping of the JWT adapter
  (\<^verbatim>\<open>module/auth/adapter/jwt\<close>) and the permission diagnosis of the HTTP adapter
  (\<^verbatim>\<open>module/auth/adapter/http\<close>). Signature checking is the external verifier: a function that is
  a field of the service record.
\<close>

section \<open>Domain: claims and permissions\<close>

datatype go_any = AnyString string | AnyList "go_any list" | AnyStrings "string list" | AnyOther

record claims =
  cl_subject :: string
  cl_issuer :: string
  cl_audience :: "string list"
  cl_scope :: string
  cl_raw :: "(string \<times> go_any) list"

text \<open>\<^verbatim>\<open>Claims.Scopes\<close>: the receiver may be nil.\<close>

definition scopes_of :: "claims option \<Rightarrow> string list" where
  "scopes_of c = (case c of None \<Rightarrow> []
     | Some cl \<Rightarrow> filter (\<lambda>v. v \<noteq> []) (map trim (go_fields (trim (cl_scope cl)))))"

definition perm_contact_manage :: string where "perm_contact_manage = ''contact:manage''"
definition perm_contact_view :: string where "perm_contact_view = ''contact:view''"
definition perm_contact_sync :: string where "perm_contact_sync = ''contact:sync''"
definition perm_order_manage :: string where "perm_order_manage = ''order:manage''"
definition perm_order_view :: string where "perm_order_view = ''order:view''"
definition perm_order_triage :: string where "perm_order_triage = ''order:triage''"
definition perm_order_sync :: string where "perm_order_sync = ''order:sync''"
definition perm_product_manage :: string where "perm_product_manage = ''product:manage''"
definition perm_product_edit :: string where "perm_product_edit = ''product:edit''"
definition perm_product_view :: string where "perm_product_view = ''product:view''"
definition perm_assets_view :: string where "perm_assets_view = ''assets:view''"
definition perm_shipping_generate :: string where "perm_shipping_generate = ''shipping:generate''"
definition perm_shipping_quotations :: string where
  "perm_shipping_quotations = ''shipping:quotations''"

lemmas perm_defs = perm_contact_manage_def perm_contact_view_def perm_contact_sync_def
  perm_order_manage_def perm_order_view_def perm_order_triage_def perm_order_sync_def
  perm_product_manage_def perm_product_edit_def perm_product_view_def perm_assets_view_def
  perm_shipping_generate_def perm_shipping_quotations_def

text \<open>\<^verbatim>\<open>PermissionCovers\<close>: a Go map; the list order stands for its iteration order.\<close>

definition permission_covers :: "(string \<times> string list) list" where
  "permission_covers =
    [(perm_product_edit, [perm_product_view]), (perm_shipping_generate, [perm_shipping_quotations])]"

record dependency_rule =
  dr_subject :: string
  dr_required :: "string list"
  dr_description :: string

definition mk_rule :: "string \<Rightarrow> string list \<Rightarrow> string \<Rightarrow> dependency_rule" where
  "mk_rule s r d = \<lparr>dr_subject = s, dr_required = r, dr_description = d\<rparr>"

definition dependency_rules :: "dependency_rule list" where
  "dependency_rules =
    [mk_rule perm_order_view [perm_contact_view]
       ''Order access requires contact:view (or contact:manage)'',
     mk_rule perm_order_view [perm_product_view]
       ''Order access requires product:view (or product:edit/manage)'',
     mk_rule perm_order_triage [perm_contact_view]
       ''Order triage requires contact:view (or contact:manage)'',
     mk_rule perm_order_triage [perm_product_view]
       ''Order triage requires product:view (or product:edit/manage)'',
     mk_rule perm_order_manage [perm_contact_view]
       ''Order management requires contact:view (or contact:manage)'',
     mk_rule perm_order_manage [perm_product_view]
       ''Order management requires product:view (or product:edit/manage)'',
     mk_rule perm_order_sync [perm_contact_view]
       ''Order sync requires contact:view (or contact:manage)'',
     mk_rule perm_order_sync [perm_product_view]
       ''Order sync requires product:view (or product:edit/manage)'',
     mk_rule perm_product_edit [perm_assets_view]
       ''Product edit requires assets:view to assign photos to products'',
     mk_rule perm_product_manage [perm_assets_view]
       ''Product manage requires assets:view to assign images and run asset syncs'']"

section \<open>Application service\<close>

datatype auth_error = ErrUnauthorized | ErrForbidden | ErrNilVerifier

record auth_service =
  as_environment :: string
  as_dev_token :: string
  as_dev_scope :: string
  as_verify :: "string \<Rightarrow> string + claims option"

definition new_auth_service ::
    "string \<Rightarrow> string \<Rightarrow> string \<Rightarrow> (string \<Rightarrow> string + claims option) option \<Rightarrow> auth_error + auth_service" where
  "new_auth_service env token scope verifier = (case verifier of
      None \<Rightarrow> Inl ErrNilVerifier
    | Some v \<Rightarrow> Inr \<lparr>as_environment = trim env, as_dev_token = trim token, as_dev_scope = trim scope,
                 as_verify = v\<rparr>)"

definition matches_dev_bypass :: "auth_service \<Rightarrow> string \<Rightarrow> bool" where
  "matches_dev_bypass s header =
    (if trim (as_environment s) \<noteq> ''development'' then False
     else if trim (as_dev_token s) = [] then False
     else header = ''Bearer '' @ as_dev_token s)"

definition parse_bearer_token :: "string \<Rightarrow> auth_error + string" where
  "parse_bearer_token header = (case split_at CHR '' '' (trim header) of
      None \<Rightarrow> Inl ErrUnauthorized
    | Some (scheme, rest) \<Rightarrow>
        if scheme \<noteq> ''Bearer'' then Inl ErrUnauthorized
        else let token = trim rest in if token = [] then Inl ErrUnauthorized else Inr token)"

definition dev_claims :: "auth_service \<Rightarrow> claims" where
  "dev_claims s = \<lparr>cl_subject = ''dev-admin'', cl_issuer = [], cl_audience = [],
     cl_scope = as_dev_scope s, cl_raw = [(''roles'', AnyStrings [''admin''])]\<rparr>"

definition authenticate :: "auth_service \<Rightarrow> string \<Rightarrow> auth_error go_error + claims option" where
  "authenticate s header =
    (if matches_dev_bypass s header then Inr (Some (dev_claims s))
     else case parse_bearer_token header of
       Inl e \<Rightarrow> Inl (Err e)
     | Inr token \<Rightarrow> (case as_verify s token of
          Inl msg \<Rightarrow> Inl (Wrapped msg (Err ErrUnauthorized))
        | Inr c \<Rightarrow> Inr c))"

text \<open>The empty string stands for "no manage permission", as in the code.\<close>

definition manage_permission :: "string \<Rightarrow> string" where
  "manage_permission required = (case split_at CHR '':'' required of
      None \<Rightarrow> []
    | Some (resource, _) \<Rightarrow> if resource = [] then [] else resource @ '':manage'')"

definition covered_by_intermediate :: "string list \<Rightarrow> string \<Rightarrow> bool" where
  "covered_by_intermediate scopes required =
    list_ex (\<lambda>(intermediate, covered).
      list_ex (\<lambda>c. c = required \<and> list_ex (\<lambda>s. s = intermediate) scopes) covered) permission_covers"

definition has_permission :: "string list \<Rightarrow> string \<Rightarrow> bool" where
  "has_permission scopes required =
    (if list_ex (\<lambda>s. s = required) scopes then True
     else let manage = manage_permission required in
       if manage \<noteq> [] \<and> list_ex (\<lambda>s. s = manage) scopes then True
       else covered_by_intermediate scopes required)"

fun check_required :: "string list \<Rightarrow> string list \<Rightarrow> auth_error go_error option" where
  "check_required scopes [] = None"
| "check_required scopes (p # ps) =
    (let required = trim p in
     if required = [] then check_required scopes ps
     else if \<not> has_permission scopes required then Some (Wrapped required (Err ErrForbidden))
     else check_required scopes ps)"

definition authorize :: "claims option \<Rightarrow> string list \<Rightarrow> auth_error go_error option" where
  "authorize claims required =
    (if required = [] then None
     else if claims = None then Some (Err ErrForbidden)
     else let scopes = scopes_of claims in
       if scopes = [] then Some (Err ErrForbidden) else check_required scopes required)"

definition require :: "auth_service \<Rightarrow> string \<Rightarrow> string list \<Rightarrow> auth_error go_error option" where
  "require s header required = (case authenticate s header of
      Inl e \<Rightarrow> Some e
    | Inr c \<Rightarrow> authorize c required)"

section \<open>JWT adapter: mapping of verified claims\<close>

definition read_string_claim :: "(string \<times> go_any) list \<Rightarrow> string \<Rightarrow> string" where
  "read_string_claim m k = (case map_of m k of Some (AnyString v) \<Rightarrow> trim v | _ \<Rightarrow> [])"

definition any_string :: "go_any \<Rightarrow> string option" where
  "any_string a = (case a of AnyString v \<Rightarrow> Some v | _ \<Rightarrow> None)"

definition read_audience_claim :: "go_any option \<Rightarrow> string list" where
  "read_audience_claim raw = (case raw of
      Some (AnyString t) \<Rightarrow> (let v = trim t in if v = [] then [] else [v])
    | Some (AnyList ts) \<Rightarrow> filter (\<lambda>v. v \<noteq> []) (map trim (List.map_filter any_string ts))
    | _ \<Rightarrow> [])"

definition map_claims :: "(string \<times> go_any) list \<Rightarrow> claims" where
  "map_claims m = \<lparr>cl_subject = read_string_claim m ''sub'', cl_issuer = read_string_claim m ''iss'',
     cl_audience = read_audience_claim (map_of m ''aud''), cl_scope = read_string_claim m ''scope'',
     cl_raw = m\<rparr>"

section \<open>HTTP adapter: diagnosis of permission sets\<close>

record malformation_issue =
  mi_permission :: string
  mi_requires :: string
  mi_description :: string

fun index_colon_from :: "nat \<Rightarrow> string \<Rightarrow> int" where
  "index_colon_from i [] = -1"
| "index_colon_from i (c # cs) = (if c = CHR '':'' then int i else index_colon_from (Suc i) cs)"

definition index_colon :: "string \<Rightarrow> int" where
  "index_colon s = index_colon_from 0 s"

definition has_scope_or_cover :: "string list \<Rightarrow> string \<Rightarrow> bool" where
  "has_scope_or_cover scopes required =
    (if list_ex (\<lambda>s. s = required) scopes then True
     else let idx = index_colon required in
       if idx > 0 \<and> list_ex (\<lambda>s. s = take (nat idx) required @ '':manage'') scopes then True
       else list_ex (\<lambda>(intermediate, covered).
              list_ex (\<lambda>c. c = required \<and> list_ex (\<lambda>s. s = intermediate) scopes) covered)
            permission_covers)"

definition rule_issues :: "string list \<Rightarrow> dependency_rule \<Rightarrow> malformation_issue list" where
  "rule_issues scopes rule =
    (if \<not> has_scope_or_cover scopes (dr_subject rule) then []
     else map (\<lambda>r. \<lparr>mi_permission = dr_subject rule, mi_requires = r,
                    mi_description = dr_description rule\<rparr>)
       (filter (\<lambda>r. \<not> has_scope_or_cover scopes r) (dr_required rule)))"

definition detect_malformations :: "string list \<Rightarrow> malformation_issue list" where
  "detect_malformations scopes = concat (map (rule_issues scopes) dependency_rules)"

text \<open>\<^verbatim>\<open>mapError\<close>: the HTTP status of a failed request.\<close>

definition map_error :: "auth_error go_error \<Rightarrow> nat" where
  "map_error e = (if errors_is e ErrUnauthorized \<or> errors_is e ErrForbidden then 401 else 500)"

text \<open>The two endpoints: the HTTP status of the error, or the body.\<close>

definition check_auth :: "auth_service \<Rightarrow> string \<Rightarrow> nat + string" where
  "check_auth s header = (case require s header [] of
      Some e \<Rightarrow> Inl (map_error e)
    | None \<Rightarrow> Inr ''authenticated'')"

record malformation_report =
  ml_status :: string
  ml_issues :: "malformation_issue list"

definition check_malformation :: "auth_service \<Rightarrow> string \<Rightarrow> nat + malformation_report" where
  "check_malformation s header = (case authenticate s header of
      Inl e \<Rightarrow> Inl (map_error e)
    | Inr c \<Rightarrow> (let issues = detect_malformations (scopes_of c) in
        Inr \<lparr>ml_status = (if issues \<noteq> [] then ''malformed'' else ''ok''), ml_issues = issues\<rparr>))"

section \<open>The permission lattice the checks implement\<close>

text \<open>What holding one scope grants: itself, any action of a resource one manages, and the
  intermediate hierarchy.\<close>

inductive grants :: "string \<Rightarrow> string \<Rightarrow> bool" where
  exact: "grants p p"
| manage: "resource \<noteq> [] \<Longrightarrow> CHR '':'' \<notin> set resource
    \<Longrightarrow> grants (resource @ '':manage'') (resource @ CHR '':'' # action)"
| covers: "(scope, covered) \<in> set permission_covers \<Longrightarrow> required \<in> set covered \<Longrightarrow> grants scope required"

inductive_simps grants_iff: "grants s r"

lemma manage_permission_colon:
  "res \<noteq> [] \<Longrightarrow> CHR '':'' \<notin> set res
    \<Longrightarrow> manage_permission (res @ CHR '':'' # act) = res @ '':manage''"
  by (simp add: manage_permission_def split_at_append)

lemma manage_permission_nonemptyE:
  assumes "manage_permission r \<noteq> []"
  obtains res act where "res \<noteq> []" "CHR '':'' \<notin> set res" "r = res @ CHR '':'' # act"
    "manage_permission r = res @ '':manage''"
proof -
  from assms obtain a b where p: "split_at CHR '':'' r = Some (a, b)" and a: "a \<noteq> []"
    by (auto simp: manage_permission_def split: option.splits if_splits)
  from split_at_Some[OF p] p a show thesis
    by (intro that[of a b]) (auto simp: manage_permission_def)
qed

lemma covered_by_intermediate_iff:
  "covered_by_intermediate scopes r \<longleftrightarrow>
    (\<exists>s \<in> set scopes. \<exists>cs. (s, cs) \<in> set permission_covers \<and> r \<in> set cs)"
  by (auto simp: covered_by_intermediate_def list_ex_iff)

lemma has_permission_iff_grants: "has_permission scopes r \<longleftrightarrow> (\<exists>s \<in> set scopes. grants s r)"
proof
  assume "has_permission scopes r"
  then consider "r \<in> set scopes" | "manage_permission r \<noteq> []" "manage_permission r \<in> set scopes"
    | "covered_by_intermediate scopes r"
    by (auto simp: has_permission_def list_ex_iff Let_def split: if_splits)
  then show "\<exists>s \<in> set scopes. grants s r"
  proof cases
    case 2
    then obtain res act where "res \<noteq> []" "CHR '':'' \<notin> set res" "r = res @ CHR '':'' # act"
      "manage_permission r = res @ '':manage''"
      by (elim manage_permission_nonemptyE)
    with 2(2) show ?thesis by (metis grants.manage)
  qed (auto intro: grants.intros simp: covered_by_intermediate_iff)
next
  assume "\<exists>s \<in> set scopes. grants s r"
  then obtain s where s: "s \<in> set scopes" and g: "grants s r" by blast
  from g show "has_permission scopes r"
  proof cases
    case exact
    with s show ?thesis by (simp add: has_permission_def list_ex_iff)
  next
    case (manage res act)
    then have "manage_permission r = s" by (simp add: manage_permission_colon)
    with s manage show ?thesis by (auto simp: has_permission_def list_ex_iff)
  next
    case (covers covered)
    with s have "covered_by_intermediate scopes r" by (auto simp: covered_by_intermediate_iff)
    then show ?thesis by (simp add: has_permission_def)
  qed
qed

lemma index_colon_from_eq:
  "index_colon_from i s = (case split_at CHR '':'' s of None \<Rightarrow> -1 | Some (a, _) \<Rightarrow> int (i + length a))"
  by (induction s arbitrary: i) (auto simp: split_at_def)

lemma has_scope_or_cover_eq: "has_scope_or_cover scopes r = has_permission scopes r"
proof -
  have "index_colon r > 0 \<longleftrightarrow> manage_permission r \<noteq> []"
    by (auto simp: index_colon_def index_colon_from_eq manage_permission_def split: option.splits)
  moreover have "index_colon r > 0 \<Longrightarrow> take (nat (index_colon r)) r @ '':manage'' = manage_permission r"
    by (auto simp: index_colon_def index_colon_from_eq manage_permission_def
        split: option.splits if_splits dest!: split_at_Some)
  ultimately show ?thesis
    by (auto simp: has_scope_or_cover_def has_permission_def covered_by_intermediate_def Let_def)
qed

lemma check_required_None_iff:
  "check_required scopes ps = None
    \<longleftrightarrow> (\<forall>p \<in> set ps. trim p \<noteq> [] \<longrightarrow> has_permission scopes (trim p))"
  by (induction ps) (auto simp: Let_def)

lemma check_required_error: "check_required scopes ps = Some e \<Longrightarrow> errors_is e ErrForbidden"
  by (induction ps) (auto simp: Let_def split: if_splits)

lemma scopes_of_trimmed: "s \<in> set (scopes_of c) \<Longrightarrow> s \<noteq> [] \<and> trim s = s"
  by (auto simp: scopes_of_def split: option.splits)

lemma rule_issues_Nil_iff:
  "rule_issues scopes rule = [] \<longleftrightarrow>
    (has_permission scopes (dr_subject rule)
      \<longrightarrow> (\<forall>r \<in> set (dr_required rule). has_permission scopes r))"
  by (auto simp: rule_issues_def has_scope_or_cover_eq filter_empty_conv)

section \<open>Properties\<close>

text \<open>C4: authorization is exactly the permission lattice. A request that names at least one
  permission passes iff the principal is present and holds some scope, and every required
  permission that is not blank (after trimming) is granted by one of its scopes: by equality, by
  managing the permission's resource, or by the intermediate hierarchy. Every refusal is
  \<^verbatim>\<open>ErrForbidden\<close>.\<close>

theorem authorize_iff_granted:
  "authorize claims required = None \<longleftrightarrow>
     required = [] \<or>
     (scopes_of claims \<noteq> [] \<and>
      (\<forall>p \<in> set required. trim p \<noteq> [] \<longrightarrow> (\<exists>s \<in> set (scopes_of claims). grants s (trim p))))"
  by (auto simp: authorize_def Let_def check_required_None_iff has_permission_iff_grants
      scopes_of_def[of None])

theorem authorize_iff_granted_witness:
  "authorize (Some (dev_claims \<lparr>as_environment = [], as_dev_token = [],
      as_dev_scope = ''order:manage product:edit'', as_verify = (\<lambda>_. Inl [])\<rparr>))
     [''order:triage'', ''product:view''] = None"
proof -
  have s: "scopes_of (Some (dev_claims \<lparr>as_environment = [], as_dev_token = [],
      as_dev_scope = ''order:manage product:edit'', as_verify = (\<lambda>_. Inl [])\<rparr>))
      = [''order:manage'', ''product:edit'']"
    by code_simp
  have t: "trim ''order:triage'' = ''order:triage''" "trim ''product:view'' = ''product:view''"
    by code_simp+
  have "grants ''order:manage'' ''order:triage''"
    using grants.manage[of "''order''" "''triage''"] by simp
  moreover have "grants ''product:edit'' ''product:view''"
    by (rule grants.covers[of _ "[''product:view'']"]) (simp_all add: permission_covers_def perm_defs)
  ultimately show ?thesis by (subst authorize_iff_granted) (simp add: s t)
qed

text \<open>outside the development environment (or with a blank development token) a request is
  only authenticated by the token verifier: the claims it returns are those the verifier gave for
  the bearer token of the header, and every other outcome is \<^verbatim>\<open>ErrUnauthorized\<close>.\<close>

theorem no_bypass_outside_development:
  assumes "trim (as_environment s) \<noteq> ''development'' \<or> trim (as_dev_token s) = []"
  shows "case authenticate s header of
      Inr c \<Rightarrow> \<exists>token. parse_bearer_token header = Inr token \<and> token \<noteq> [] \<and> as_verify s token = Inr c
    | Inl e \<Rightarrow> errors_is e ErrUnauthorized"
proof -
  have "\<not> matches_dev_bypass s header"
    using assms by (auto simp: matches_dev_bypass_def)
  then show ?thesis
    by (auto simp: authenticate_def parse_bearer_token_def Let_def
        split: sum.splits option.splits if_splits)
qed

theorem no_bypass_outside_development_witness:
  "authenticate \<lparr>as_environment = ''production'', as_dev_token = ''secret'', as_dev_scope = [],
     as_verify = (\<lambda>t. if t = ''abc'' then Inr None else Inl ''bad'')\<rparr> ''Bearer abc'' = Inr None
   \<and> errors_is (projl (authenticate \<lparr>as_environment = ''production'', as_dev_token = ''secret'',
     as_dev_scope = [], as_verify = (\<lambda>t. if t = ''abc'' then Inr None else Inl ''bad'')\<rparr>
     ''Bearer secret'')) ErrUnauthorized"
proof -
  let ?s = "\<lparr>as_environment = ''production'', as_dev_token = ''secret'', as_dev_scope = [],
     as_verify = (\<lambda>t. if t = ''abc'' then Inr None else Inl ''bad'')\<rparr> :: auth_service"
  have env: "trim (as_environment ?s) \<noteq> ''development'' \<or> trim (as_dev_token ?s) = []"
    by code_simp
  have a: "authenticate ?s ''Bearer abc'' = Inr None" by code_simp
  have b: "authenticate ?s ''Bearer secret'' = Inl (Wrapped ''bad'' (Err ErrUnauthorized))" by code_simp
  show ?thesis
    using no_bypass_outside_development[OF env, of "''Bearer secret''"] by (simp add: a b)
qed

text \<open>the diagnosis of permission sets is sound and complete. It reports no issue iff every
  dependency rule whose subject the scopes grant has all its required permissions granted, with
  the same notion of granting that authorization uses, although the HTTP adapter has its own copy
  of the check.\<close>

theorem detect_malformations_empty_iff:
  "detect_malformations scopes = [] \<longleftrightarrow>
     (\<forall>rule \<in> set dependency_rules. has_permission scopes (dr_subject rule)
        \<longrightarrow> (\<forall>r \<in> set (dr_required rule). \<exists>s \<in> set scopes. grants s r))"
  by (simp add: detect_malformations_def concat_eq_Nil_conv rule_issues_Nil_iff
      has_permission_iff_grants)

theorem detect_malformations_empty_iff_witness:
  "detect_malformations [''order:view'', ''contact:manage'', ''product:edit'', ''assets:view''] = []
   \<and> detect_malformations [''order:view'', ''contact:manage''] \<noteq> []"
proof
  show "detect_malformations [''order:view'', ''contact:manage'', ''product:edit'', ''assets:view''] = []"
    by code_simp
  have "has_permission [''order:view'', ''contact:manage''] perm_order_view" by code_simp
  moreover have "mk_rule perm_order_view [perm_product_view]
       ''Order access requires product:view (or product:edit/manage)'' \<in> set dependency_rules"
    by (simp add: dependency_rules_def)
  moreover have "\<not> (\<exists>s \<in> set [''order:view'', ''contact:manage'']. grants s perm_product_view)"
    by (simp only: has_permission_iff_grants[symmetric]) code_simp
  ultimately show "detect_malformations [''order:view'', ''contact:manage''] \<noteq> []"
    unfolding detect_malformations_empty_iff by (fastforce simp: mk_rule_def)
qed

end
