(* ===== verification/Orders_Domain.thy ===== *)
theory Orders_Domain
  imports Go_Strings
begin

text \<open>
  The order aggregate (\<^verbatim>\<open>module/orders/domain/order.go\<close>): its data, \<^verbatim>\<open>Normalize\<close> and \<^verbatim>\<open>Validate\<close>.
  Status values are strings in the code and stay strings here, so that unknown values reach
  validation. Field names carry the prefix of their struct, since Isabelle record fields are global.
\<close>

section \<open>Data\<close>

datatype order_error = ErrIdentifierRequired | ErrRealmRequired | ErrContactIDRequired
  | ErrItemsRequired | ErrItemIdentifierRequired | ErrItemQuantityInvalid | ErrStatusInvalid
  | ErrStatusAuthorRequired | ErrCommentAuthorRequired | ErrCommentTextRequired | ErrInvalidMetadata

definition status_cancelled :: string where "status_cancelled = ''CANCELLED''"
definition status_created :: string where "status_created = ''CREATED''"
definition status_pending :: string where "status_pending = ''PENDING''"
definition status_hold :: string where "status_hold = ''HOLD''"
definition status_completed :: string where "status_completed = ''COMPLETED''"

definition order_statuses :: "string list" where
  "order_statuses = [status_cancelled, status_created, status_pending, status_hold, status_completed]"

lemmas status_defs = status_cancelled_def status_created_def status_pending_def status_hold_def
  status_completed_def order_statuses_def

definition source_sku :: string where "source_sku = ''sku''"
definition source_alternate_name :: string where "source_alternate_name = ''alternate_name''"
definition source_unresolved :: string where "source_unresolved = ''unresolved''"

record item =
  it_sku :: string
  it_alternate_name :: string
  it_quantity :: int
  it_value :: float64
  it_product_id :: string
  it_source :: string

record status_entry =
  se_status :: string
  se_author :: string
  se_description :: string
  se_note_owner :: string
  se_note :: string
  se_occurred_at :: gotime

record order_comment =
  cm_id :: string
  cm_author :: string
  cm_text :: string
  cm_internal :: bool
  cm_occurred_at :: gotime

record shipping_address =
  sa_address :: string
  sa_address2 :: string
  sa_phone :: string
  sa_city_code :: string

record applied_coupon =
  ac_coupon_id :: string
  ac_code :: string
  ac_discount_type :: string
  ac_discount_amount :: float64
  ac_applied_at :: gotime

record shipping_charge =
  sc_method_id :: string
  sc_method_title :: string
  sc_price :: float64

record order =
  o_id :: string
  o_identifier :: string
  o_realm :: string
  o_contact_id :: string
  o_items :: "item list"
  o_current_status :: string
  o_status_history :: "status_entry list"
  o_comments :: "order_comment list"
  o_shipping_address :: shipping_address
  o_has_custom_shipping :: bool
  o_shipping_charges :: "shipping_charge list"
  o_payment_method :: string
  o_applied_coupons :: "applied_coupon list"
  o_metadata :: gomap
  o_created_at :: gotime
  o_updated_at :: gotime

definition empty_address :: shipping_address where
  "empty_address = \<lparr>sa_address = [], sa_address2 = [], sa_phone = [], sa_city_code = []\<rparr>"

section \<open>Normalization\<close>

definition normalize_shipping_address :: "shipping_address \<Rightarrow> shipping_address" where
  "normalize_shipping_address a = \<lparr>sa_address = trim (sa_address a), sa_address2 = trim (sa_address2 a),
     sa_phone = trim (sa_phone a), sa_city_code = trim (sa_city_code a)\<rparr>"

text \<open>One entry of the loop over the metadata map; a later entry overwrites an earlier one with the
  same trimmed key.\<close>

definition normalize_metadata_entry :: "string \<times> string \<Rightarrow> gomap \<Rightarrow> gomap" where
  "normalize_metadata_entry kv acc =
    (let k = trim (fst kv) in if k = [] then acc else AList.update k (trim (snd kv)) acc)"

definition normalize_metadata :: "gomap \<Rightarrow> gomap" where
  "normalize_metadata m = fold normalize_metadata_entry m []"

definition normalize_item :: "item \<Rightarrow> item" where
  "normalize_item i = i\<lparr>it_sku := trim (it_sku i), it_alternate_name := trim (it_alternate_name i),
     it_product_id := trim (it_product_id i), it_source := trim (it_source i),
     it_value := (if it_value i < 0 then 0 else it_value i)\<rparr>"

definition normalize_charge :: "shipping_charge \<Rightarrow> shipping_charge" where
  "normalize_charge c = c\<lparr>sc_method_id := trim (sc_method_id c), sc_method_title := trim (sc_method_title c),
     sc_price := (if sc_price c < 0 then 0 else sc_price c)\<rparr>"

definition normalize_entry :: "status_entry \<Rightarrow> status_entry" where
  "normalize_entry e = e\<lparr>se_status := trim (se_status e), se_author := trim (se_author e),
     se_description := trim (se_description e), se_note_owner := trim (se_note_owner e),
     se_note := trim (se_note e)\<rparr>"

definition normalize_comment :: "order_comment \<Rightarrow> order_comment" where
  "normalize_comment c = c\<lparr>cm_id := trim (cm_id c), cm_author := trim (cm_author c),
     cm_text := trim (cm_text c)\<rparr>"

definition order_normalize :: "order \<Rightarrow> order" where
  "order_normalize ord = ord\<lparr>
     o_id := trim (o_id ord),
     o_identifier := trim (o_identifier ord),
     o_realm := trim (o_realm ord),
     o_contact_id := trim (o_contact_id ord),
     o_payment_method := trim (o_payment_method ord),
     o_current_status := trim (o_current_status ord),
     o_shipping_address := normalize_shipping_address (o_shipping_address ord),
     o_items := map normalize_item (o_items ord),
     o_shipping_charges := map normalize_charge (o_shipping_charges ord),
     o_status_history := map normalize_entry (o_status_history ord),
     o_comments := map normalize_comment (o_comments ord),
     o_metadata := normalize_metadata (o_metadata ord)\<rparr>"

section \<open>Validation\<close>

definition validate_status :: "string \<Rightarrow> order_error option" where
  "validate_status s = (if s \<in> set order_statuses then None else Some ErrStatusInvalid)"

fun validate_items :: "item list \<Rightarrow> order_error option" where
  "validate_items [] = None"
| "validate_items (i # is) =
    (if trim (it_sku i) = [] \<and> trim (it_alternate_name i) = [] then Some ErrItemIdentifierRequired
     else if it_quantity i \<le> 0 then Some ErrItemQuantityInvalid
     else validate_items is)"

fun validate_history :: "status_entry list \<Rightarrow> order_error option" where
  "validate_history [] = None"
| "validate_history (e # es) = (case validate_status (se_status e) of
      Some err \<Rightarrow> Some err
    | None \<Rightarrow> if trim (se_author e) = [] then Some ErrStatusAuthorRequired else validate_history es)"

fun validate_comments :: "order_comment list \<Rightarrow> order_error option" where
  "validate_comments [] = None"
| "validate_comments (c # cs) =
    (if trim (cm_author c) = [] then Some ErrCommentAuthorRequired
     else if trim (cm_text c) = [] then Some ErrCommentTextRequired
     else validate_comments cs)"

definition is_valid_metadata :: "gomap \<Rightarrow> bool" where
  "is_valid_metadata m \<longleftrightarrow>
    list_all (\<lambda>(k, v). \<not> (length (trim k) > 128 \<or> length (trim v) > 2048)) m"

definition order_validate :: "order \<Rightarrow> order_error option" where
  "order_validate ord =
    (if trim (o_identifier ord) = [] then Some ErrIdentifierRequired
     else if trim (o_realm ord) = [] then Some ErrRealmRequired
     else if trim (o_contact_id ord) = [] then Some ErrContactIDRequired
     else if o_items ord = [] then Some ErrItemsRequired
     else case validate_items (o_items ord) of Some e \<Rightarrow> Some e | None \<Rightarrow>
       (case validate_status (o_current_status ord) of Some e \<Rightarrow> Some e | None \<Rightarrow>
         (case validate_history (o_status_history ord) of Some e \<Rightarrow> Some e | None \<Rightarrow>
           (case validate_comments (o_comments ord) of Some e \<Rightarrow> Some e | None \<Rightarrow>
             if is_valid_metadata (o_metadata ord) then None else Some ErrInvalidMetadata))))"

section \<open>Well-formed orders: what validation accepts\<close>

definition item_ok :: "item \<Rightarrow> bool" where
  "item_ok i \<longleftrightarrow> (trim (it_sku i) \<noteq> [] \<or> trim (it_alternate_name i) \<noteq> []) \<and> 0 < it_quantity i"

definition entry_ok :: "status_entry \<Rightarrow> bool" where
  "entry_ok e \<longleftrightarrow> se_status e \<in> set order_statuses \<and> trim (se_author e) \<noteq> []"

definition comment_ok :: "order_comment \<Rightarrow> bool" where
  "comment_ok c \<longleftrightarrow> trim (cm_author c) \<noteq> [] \<and> trim (cm_text c) \<noteq> []"

definition order_ok :: "order \<Rightarrow> bool" where
  "order_ok ord \<longleftrightarrow> trim (o_identifier ord) \<noteq> [] \<and> trim (o_realm ord) \<noteq> [] \<and> trim (o_contact_id ord) \<noteq> []
    \<and> o_items ord \<noteq> [] \<and> list_all item_ok (o_items ord) \<and> o_current_status ord \<in> set order_statuses
    \<and> list_all entry_ok (o_status_history ord) \<and> list_all comment_ok (o_comments ord)
    \<and> is_valid_metadata (o_metadata ord)"

lemma validate_status_None [simp]: "validate_status s = None \<longleftrightarrow> s \<in> set order_statuses"
  by (simp add: validate_status_def)

lemma validate_items_None: "validate_items is = None \<longleftrightarrow> list_all item_ok is"
  by (induction "is") (auto simp: item_ok_def)

lemma validate_history_None: "validate_history es = None \<longleftrightarrow> list_all entry_ok es"
  by (induction es) (auto simp: entry_ok_def validate_status_def split: option.splits)

lemma validate_comments_None: "validate_comments cs = None \<longleftrightarrow> list_all comment_ok cs"
  by (induction cs) (auto simp: comment_ok_def)

lemma order_validate_None: "order_validate ord = None \<longleftrightarrow> order_ok ord"
  by (auto simp: order_validate_def order_ok_def validate_items_None[symmetric]
      validate_history_None[symmetric] validate_comments_None[symmetric] validate_status_def
      split: option.splits if_splits)

lemma order_statuses_trimmed: "s \<in> set order_statuses \<Longrightarrow> trim s = s"
proof -
  have "list_all (\<lambda>s. trim s = s) order_statuses" by code_simp
  then show "s \<in> set order_statuses \<Longrightarrow> trim s = s" by (simp add: list_all_iff)
qed

section \<open>Metadata\<close>

lemma normalize_metadata_entry_keys:
  "fst ` set (normalize_metadata_entry kv acc)
    = (if trim (fst kv) = [] then {} else {trim (fst kv)}) \<union> fst ` set acc"
  by (auto simp: normalize_metadata_entry_def Let_def dom_update image_iff)

lemma distinct_normalize_metadata_entry:
  "distinct (map fst acc) \<Longrightarrow> distinct (map fst (normalize_metadata_entry kv acc))"
  by (simp add: normalize_metadata_entry_def Let_def distinct_update)

lemma distinct_fold_metadata:
  "distinct (map fst acc) \<Longrightarrow> distinct (map fst (fold normalize_metadata_entry m acc))"
  by (induction m arbitrary: acc) (auto simp: distinct_normalize_metadata_entry)

definition entry_normal :: "string \<times> string \<Rightarrow> bool" where
  "entry_normal kv \<longleftrightarrow> fst kv \<noteq> [] \<and> trim (fst kv) = fst kv \<and> trim (snd kv) = snd kv"

definition metadata_normal :: "gomap \<Rightarrow> bool" where
  "metadata_normal m \<longleftrightarrow> distinct (map fst m) \<and> list_all entry_normal m"

lemma entries_normal_step:
  "list_all entry_normal acc \<Longrightarrow> list_all entry_normal (normalize_metadata_entry kv acc)"
  by (simp add: normalize_metadata_entry_def Let_def list_all_update entry_normal_def)

lemma fold_metadata_entries:
  "list_all entry_normal acc \<Longrightarrow> list_all entry_normal (fold normalize_metadata_entry m acc)"
  by (induction m arbitrary: acc) (simp_all add: entries_normal_step)

lemma metadata_normal_normalize: "metadata_normal (normalize_metadata m)"
  using fold_metadata_entries[of "[]" m] distinct_fold_metadata[of "[]" m]
  by (simp add: metadata_normal_def normalize_metadata_def)

lemma fold_metadata_normal:
  "distinct (map fst (acc @ m)) \<Longrightarrow> list_all entry_normal m
    \<Longrightarrow> fold normalize_metadata_entry m acc = acc @ m"
proof (induction m arbitrary: acc)
  case (Cons kv m)
  obtain k v where kv: "kv = (k, v)" by (cases kv)
  with Cons.prems have "normalize_metadata_entry kv acc = acc @ [kv]"
    by (simp add: normalize_metadata_entry_def Let_def update_new_key entry_normal_def)
  moreover have "fold normalize_metadata_entry m (acc @ [kv]) = (acc @ [kv]) @ m"
    using Cons.prems by (intro Cons.IH) simp_all
  ultimately show ?case by simp
qed simp

lemma normalize_metadata_normal: "metadata_normal m \<Longrightarrow> normalize_metadata m = m"
  using fold_metadata_normal[of "[]" m] by (simp add: metadata_normal_def normalize_metadata_def)

lemma normalize_metadata_idem [simp]: "normalize_metadata (normalize_metadata m) = normalize_metadata m"
  by (rule normalize_metadata_normal) (rule metadata_normal_normalize)

text \<open>As a map, the result is read off the trimmed entries, a later entry winning.\<close>

definition trim_entries :: "gomap \<Rightarrow> gomap" where
  "trim_entries m = map (\<lambda>(k, v). (trim k, trim v)) m"

lemma map_of_fold_metadata:
  "map_of (fold normalize_metadata_entry m acc) k =
    (if k = [] then map_of acc k
     else case map_of (rev (trim_entries m)) k of Some v \<Rightarrow> Some v | None \<Rightarrow> map_of acc k)"
  by (induction m arbitrary: acc)
    (auto simp: trim_entries_def normalize_metadata_entry_def Let_def update_conv map_add_def
      split: option.splits)

lemma map_of_normalize_metadata:
  "map_of (normalize_metadata m) k = (if k = [] then None else map_of (rev (trim_entries m)) k)"
  by (simp add: normalize_metadata_def map_of_fold_metadata split: option.splits)

lemma map_of_rev_distinct: "distinct (map fst xs) \<Longrightarrow> map_of (rev xs) = map_of xs"
  by (rule ext) (metis map_of_eq_Some_iff distinct_rev not_Some_eq rev_map set_rev)

lemma normalize_metadata_perm:
  assumes "mset m = mset m'" "distinct (map fst (trim_entries m))"
  shows "map_of (normalize_metadata m) = map_of (normalize_metadata m')"
proof -
  have "mset (map fst (trim_entries m)) = mset (map fst (trim_entries m'))"
    using assms(1) by (simp add: trim_entries_def)
  then have d: "distinct (map fst (trim_entries m'))"
    using assms(2) mset_eq_imp_distinct_iff by blast
  have s: "set (trim_entries m) = set (trim_entries m')"
    using assms(1) by (simp add: trim_entries_def) (metis set_mset_mset)
  have "map_of (trim_entries m) = map_of (trim_entries m')"
    using map_of_eq_Some_iff[OF assms(2)] map_of_eq_Some_iff[OF d] s
    by (intro ext) (metis not_Some_eq)
  with assms(2) d show ?thesis
    by (intro ext) (simp add: map_of_normalize_metadata map_of_rev_distinct)
qed

lemma is_valid_metadata_normalize: "is_valid_metadata m \<Longrightarrow> is_valid_metadata (normalize_metadata m)"
proof -
  have "is_valid_metadata acc \<Longrightarrow> is_valid_metadata m \<Longrightarrow> is_valid_metadata (fold normalize_metadata_entry m acc)"
    for acc
  proof (induction m arbitrary: acc)
    case Nil
    then show ?case by simp
  next
    case (Cons kv m)
    have "is_valid_metadata (normalize_metadata_entry kv acc)"
      using Cons.prems
      by (auto simp: is_valid_metadata_def normalize_metadata_entry_def Let_def intro: list_all_update
          split: prod.splits)
    with Cons show ?case by (simp add: is_valid_metadata_def)
  qed
  from this[of "[]"] show "is_valid_metadata m \<Longrightarrow> is_valid_metadata (normalize_metadata m)"
    by (simp add: normalize_metadata_def is_valid_metadata_def)
qed

section \<open>Normalization is idempotent and keeps validity\<close>

lemma normalize_item_idem [simp]: "normalize_item (normalize_item i) = normalize_item i"
  by (simp add: normalize_item_def)

lemma normalize_charge_idem [simp]: "normalize_charge (normalize_charge c) = normalize_charge c"
  by (simp add: normalize_charge_def)

lemma normalize_entry_idem [simp]: "normalize_entry (normalize_entry e) = normalize_entry e"
  by (simp add: normalize_entry_def)

lemma normalize_comment_idem [simp]: "normalize_comment (normalize_comment c) = normalize_comment c"
  by (simp add: normalize_comment_def)

lemma normalize_shipping_address_idem [simp]:
  "normalize_shipping_address (normalize_shipping_address a) = normalize_shipping_address a"
  by (simp add: normalize_shipping_address_def)

lemma order_normalize_idem [simp]: "order_normalize (order_normalize ord) = order_normalize ord"
  by (simp add: order_normalize_def comp_def)

lemma item_ok_normalize [simp]: "item_ok (normalize_item i) = item_ok i"
  by (simp add: item_ok_def normalize_item_def)

lemma entry_ok_normalize: "entry_ok e \<Longrightarrow> entry_ok (normalize_entry e)"
  by (simp add: entry_ok_def normalize_entry_def order_statuses_trimmed)

lemma comment_ok_normalize [simp]: "comment_ok (normalize_comment c) = comment_ok c"
  by (simp add: comment_ok_def normalize_comment_def)

lemma order_ok_normalize: "order_ok ord \<Longrightarrow> order_ok (order_normalize ord)"
  by (auto simp: order_ok_def order_normalize_def list_all_iff entry_ok_normalize
      order_statuses_trimmed is_valid_metadata_normalize)

end
