(* ===== verification/Orders_Store.thy ===== *)
theory Orders_Store
  imports Orders_Domain "HOL-Library.Product_Lexorder"
begin

text \<open>
  The order repository (\<^verbatim>\<open>module/orders/adapter/store\<close>): row types, mappers between aggregates and
  rows, and the repository's operations as sequences of statements on tables.

  A table is the list of its rows in insertion order. The statements have their SQL meaning: an
  INSERT fails when a key of the table's unique index is repeated, a SELECT with ORDER BY is a
  stable sort of the matching rows, a failed transaction rolls back. The driver is a parameter kept
  in the database record: \<open>db_fault l\<close> says that the statement labelled \<open>l\<close> fails in the driver,
  \<open>db_dup_message\<close> and \<open>db_dup_typed\<close> are the text and the kind of its unique-index errors, and
  \<open>db_random\<close> is the stream of generated identifiers. The clock stands still during one call.
\<close>

section \<open>Errors of the orders module\<close>

datatype orders_error = OrderInvalid order_error
  | ErrOrderNotFound | ErrCommentNotFound | ErrDuplicateIdentifier
  | ErrInvalidID | ErrUpdateStatusAuthorRequired | ErrEmptyOrderUpdate
  | ErrInvalidCommentID | ErrEmptyCommentUpdate | ErrCustomerNotFound
  | DriverError string | ExternalError string

section \<open>Rows\<close>

record order_row =
  or_id :: string
  or_identifier :: string
  or_realm :: string
  or_contact_id :: string
  or_payment_method :: string
  or_created_at :: gotime
  or_updated_at :: gotime
  or_deleted_at :: "gotime option"

record item_row =
  ir_order_id :: string
  ir_position :: nat
  ir_sku :: string
  ir_alternate_name :: string
  ir_quantity :: int
  ir_value :: float64
  ir_product_id :: "string option"
  ir_source :: string

record charge_row =
  hr_order_id :: string
  hr_position :: nat
  hr_method_id :: string
  hr_method_title :: string
  hr_price :: float64

record status_row =
  sr_id :: nat
  sr_order_id :: string
  sr_position :: int
  sr_status :: string
  sr_author :: string
  sr_description :: string
  sr_note_owner :: string
  sr_note :: string
  sr_occurred_at :: gotime

record comment_row =
  cr_id :: nat
  cr_order_id :: string
  cr_author :: string
  cr_text :: string
  cr_internal :: bool
  cr_occurred_at :: gotime

record address_row =
  ar_order_id :: string
  ar_address :: string
  ar_address2 :: string
  ar_phone :: string
  ar_city_code :: string

record metadata_row =
  mr_order_id :: string
  mr_key :: string
  mr_value :: string

record coupon_row =
  kr_order_id :: string
  kr_coupon_id :: string
  kr_code :: string
  kr_discount_type :: string
  kr_discount_amount :: float64
  kr_applied_at :: gotime

record order_db =
  db_orders :: "order_row list"
  db_items :: "item_row list"
  db_statuses :: "status_row list"
  db_comments :: "comment_row list"
  db_addresses :: "address_row list"
  db_charges :: "charge_row list"
  db_metadata :: "metadata_row list"
  db_coupons :: "coupon_row list"
  db_next_status :: nat
  db_next_comment :: nat
  db_clock :: gotime
  db_random :: "nat \<Rightarrow> string"
  db_random_next :: nat
  db_fault :: "string \<Rightarrow> bool"
  db_dup_message :: string
  db_dup_typed :: bool

type_synonym 'a db_prog = "(order_db, orders_error, 'a) prog"

section \<open>Mapping aggregates to rows\<close>

definition to_order_row :: "order \<Rightarrow> order_row" where
  "to_order_row ord = \<lparr>or_id = trim (o_id ord), or_identifier = trim (o_identifier ord),
     or_realm = trim (o_realm ord), or_contact_id = trim (o_contact_id ord),
     or_payment_method = trim (o_payment_method ord), or_created_at = o_created_at ord,
     or_updated_at = o_updated_at ord, or_deleted_at = None\<rparr>"

definition to_item_rows :: "string \<Rightarrow> item list \<Rightarrow> item_row list" where
  "to_item_rows oid is = map (\<lambda>(index, i). \<lparr>ir_order_id = trim oid, ir_position = index,
     ir_sku = trim (it_sku i), ir_alternate_name = trim (it_alternate_name i),
     ir_quantity = it_quantity i, ir_value = it_value i,
     ir_product_id = (let v = trim (it_product_id i) in if v \<noteq> [] then Some v else None),
     ir_source = trim (it_source i)\<rparr>) (enumerate 0 is)"

text \<open>The row identifiers are those the database assigns from \<open>start\<close> on.\<close>

definition to_status_rows :: "string \<Rightarrow> nat \<Rightarrow> status_entry list \<Rightarrow> status_row list" where
  "to_status_rows oid start es = map (\<lambda>(index, e). \<lparr>sr_id = start + index, sr_order_id = trim oid,
     sr_position = int index, sr_status = trim (se_status e), sr_author = trim (se_author e),
     sr_description = trim (se_description e), sr_note_owner = trim (se_note_owner e),
     sr_note = trim (se_note e), sr_occurred_at = se_occurred_at e\<rparr>) (enumerate 0 es)"

text \<open>The row's ID is the parsed comment identifier if that is a positive number, else 0 (unset).\<close>

definition to_comment_rows :: "string \<Rightarrow> order_comment list \<Rightarrow> comment_row list" where
  "to_comment_rows oid cs = map (\<lambda>c. \<lparr>cr_id = (case parse_uint64 (trim (cm_id c)) of Some n \<Rightarrow> n | None \<Rightarrow> 0),
     cr_order_id = trim oid, cr_author = trim (cm_author c), cr_text = trim (cm_text c),
     cr_internal = cm_internal c, cr_occurred_at = cm_occurred_at c\<rparr>) cs"

definition to_charge_rows :: "string \<Rightarrow> shipping_charge list \<Rightarrow> charge_row list" where
  "to_charge_rows oid cs = map (\<lambda>(index, c). \<lparr>hr_order_id = trim oid, hr_position = index,
     hr_method_id = trim (sc_method_id c), hr_method_title = trim (sc_method_title c),
     hr_price = sc_price c\<rparr>) (enumerate 0 cs)"

definition to_address_row :: "string \<Rightarrow> shipping_address \<Rightarrow> address_row" where
  "to_address_row oid a = \<lparr>ar_order_id = trim oid, ar_address = trim (sa_address a),
     ar_address2 = trim (sa_address2 a), ar_phone = trim (sa_phone a),
     ar_city_code = trim (sa_city_code a)\<rparr>"

definition to_coupon_rows :: "string \<Rightarrow> applied_coupon list \<Rightarrow> coupon_row list" where
  "to_coupon_rows oid cs = map (\<lambda>c. \<lparr>kr_order_id = trim oid, kr_coupon_id = trim (ac_coupon_id c),
     kr_code = trim (ac_code c), kr_discount_type = trim (ac_discount_type c),
     kr_discount_amount = ac_discount_amount c, kr_applied_at = ac_applied_at c\<rparr>) cs"

definition normalized_metadata_keys :: "gomap \<Rightarrow> string list" where
  "normalized_metadata_keys m = sort (filter (\<lambda>k. k \<noteq> []) (map (\<lambda>kv. trim (fst kv)) m))"

text \<open>\<^verbatim>\<open>metadata[key]\<close> is the empty string for a missing key.\<close>

definition to_metadata_rows :: "string \<Rightarrow> gomap \<Rightarrow> metadata_row list" where
  "to_metadata_rows oid m = map (\<lambda>k. \<lparr>mr_order_id = trim oid, mr_key = k,
     mr_value = trim (case map_of m k of Some v \<Rightarrow> v | None \<Rightarrow> [])\<rparr>) (normalized_metadata_keys m)"

section \<open>Mapping rows to aggregates\<close>

definition to_item :: "item_row \<Rightarrow> item" where
  "to_item r = \<lparr>it_sku = trim (ir_sku r), it_alternate_name = trim (ir_alternate_name r),
     it_quantity = ir_quantity r, it_value = ir_value r,
     it_product_id = (case ir_product_id r of Some p \<Rightarrow> trim p | None \<Rightarrow> []),
     it_source = trim (ir_source r)\<rparr>"

definition to_status_entry :: "status_row \<Rightarrow> status_entry" where
  "to_status_entry r = \<lparr>se_status = trim (sr_status r), se_author = trim (sr_author r),
     se_description = trim (sr_description r), se_note_owner = trim (sr_note_owner r),
     se_note = trim (sr_note r), se_occurred_at = sr_occurred_at r\<rparr>"

definition to_comment :: "comment_row \<Rightarrow> order_comment" where
  "to_comment r = \<lparr>cm_id = format_uint (cr_id r), cm_author = trim (cr_author r),
     cm_text = trim (cr_text r), cm_internal = cr_internal r, cm_occurred_at = cr_occurred_at r\<rparr>"

definition to_charge :: "charge_row \<Rightarrow> shipping_charge" where
  "to_charge r = \<lparr>sc_method_id = trim (hr_method_id r), sc_method_title = trim (hr_method_title r),
     sc_price = hr_price r\<rparr>"

definition to_address :: "address_row \<Rightarrow> shipping_address" where
  "to_address r = \<lparr>sa_address = trim (ar_address r), sa_address2 = trim (ar_address2 r),
     sa_phone = trim (ar_phone r), sa_city_code = trim (ar_city_code r)\<rparr>"

definition to_applied_coupon :: "coupon_row \<Rightarrow> applied_coupon" where
  "to_applied_coupon r = \<lparr>ac_coupon_id = trim (kr_coupon_id r), ac_code = trim (kr_code r),
     ac_discount_type = trim (kr_discount_type r), ac_discount_amount = kr_discount_amount r,
     ac_applied_at = kr_applied_at r\<rparr>"

text \<open>The loop of \<^verbatim>\<open>latestStatusByOccurredAt\<close> starts with the first row and replaces the candidate
  by a row that is later, or as late with a greater identifier.\<close>

definition later_status :: "status_row \<Rightarrow> status_row \<Rightarrow> bool" where
  "later_status r latest \<longleftrightarrow> sr_occurred_at r > sr_occurred_at latest
     \<or> (sr_occurred_at r = sr_occurred_at latest \<and> sr_id r > sr_id latest)"

definition latest_status :: "status_row list \<Rightarrow> status_row option" where
  "latest_status rs = best_by later_status None rs"

definition resolve_current_status :: "gotime \<Rightarrow> status_row list \<Rightarrow> status_entry" where
  "resolve_current_status now rs = (case latest_status rs of
      Some r \<Rightarrow> to_status_entry r
    | None \<Rightarrow> \<lparr>se_status = status_created, se_author = ''system'', se_description = [],
                se_note_owner = [], se_note = [], se_occurred_at = now\<rparr>)"

definition to_order :: "gotime \<Rightarrow> order_row \<Rightarrow> item_row list \<Rightarrow> status_row list \<Rightarrow> comment_row list
    \<Rightarrow> address_row option \<Rightarrow> charge_row list \<Rightarrow> gomap \<Rightarrow> coupon_row list \<Rightarrow> order" where
  "to_order now r is ss cs shipping hs md ks = order_normalize
     \<lparr>o_id = trim (or_id r), o_identifier = trim (or_identifier r), o_realm = trim (or_realm r),
      o_contact_id = trim (or_contact_id r), o_items = map to_item is,
      o_current_status = se_status (resolve_current_status now ss),
      o_status_history = map to_status_entry ss, o_comments = map to_comment cs,
      o_shipping_address = (case shipping of Some a \<Rightarrow> to_address a | None \<Rightarrow> empty_address),
      o_has_custom_shipping = (shipping \<noteq> None), o_shipping_charges = map to_charge hs,
      o_payment_method = trim (or_payment_method r), o_applied_coupons = map to_applied_coupon ks,
      o_metadata = md, o_created_at = or_created_at r, o_updated_at = or_updated_at r\<rparr>"

section \<open>Statements\<close>

definition stmt :: "string \<Rightarrow> 'a db_prog \<Rightarrow> 'a db_prog" where
  "stmt label m = (\<lambda>d. if db_fault d label then (Inl (Wrapped label (Err (DriverError []))), d) else m d)"

definition is_unique_constraint_error :: "string \<Rightarrow> bool" where
  "is_unique_constraint_error m \<longleftrightarrow> contains m ''duplicate key'' \<or> contains m ''duplicated key''
     \<or> contains m ''unique constraint failed'' \<or> contains m ''unique failed''"

text \<open>\<^verbatim>\<open>mapDuplicateError\<close>; the flag says whether the error is \<^verbatim>\<open>gorm.ErrDuplicatedKey\<close>.\<close>

definition map_duplicate_error :: "bool \<Rightarrow> string \<Rightarrow> orders_error option" where
  "map_duplicate_error dup msg = (let m = to_lower (trim msg) in
     if \<not> dup \<and> \<not> is_unique_constraint_error m then None
     else if contains m ''idx_orders_realm_identifier'' \<or> contains m ''orders.identifier''
       \<or> contains m ''orders.realm'' then Some ErrDuplicateIdentifier
     else None)"

definition wrap_write_error :: "string \<Rightarrow> bool \<Rightarrow> string \<Rightarrow> orders_error go_error" where
  "wrap_write_error operation dup msg = (case map_duplicate_error dup msg of
      Some e \<Rightarrow> Wrapped operation (Err e)
    | None \<Rightarrow> Wrapped operation (Err (DriverError msg)))"

text \<open>\<^verbatim>\<open>if len(rows) > 0 { tx.Create(&rows) }\<close> on a table with a unique key.\<close>

definition insert_rows :: "string \<Rightarrow> ('r \<Rightarrow> 'k) \<Rightarrow> 'r list \<Rightarrow> (order_db \<Rightarrow> 'r list)
    \<Rightarrow> (('r list \<Rightarrow> 'r list) \<Rightarrow> order_db \<Rightarrow> order_db) \<Rightarrow> unit db_prog" where
  "insert_rows label key rows get upd = (if rows = [] then ret () else stmt label (\<lambda>d.
     if distinct (map key (get d @ rows)) then (Inr (), upd (\<lambda>t. t @ rows) d)
     else (Inl (Wrapped label (Err (DriverError (db_dup_message d)))), d)))"

definition insert_order :: "order_row \<Rightarrow> unit db_prog" where
  "insert_order r = stmt ''create order record'' (\<lambda>d.
     if or_id r \<in> or_id ` set (db_orders d)
        \<or> (or_realm r, or_identifier r) \<in> (\<lambda>x. (or_realm x, or_identifier x)) ` set (db_orders d)
     then (Inl (wrap_write_error ''create order record'' (db_dup_typed d) (db_dup_message d)), d)
     else (Inr (), d\<lparr>db_orders := db_orders d @
       [r\<lparr>or_created_at := (if or_created_at r = 0 then db_clock d else or_created_at r),
          or_updated_at := (if or_updated_at r = 0 then db_clock d else or_updated_at r)\<rparr>]\<rparr>))"

text \<open>Comments without an identifier get the next one; the counter moves past explicit ones.\<close>

fun assign_comment_ids :: "nat \<Rightarrow> comment_row list \<Rightarrow> comment_row list \<times> nat" where
  "assign_comment_ids n [] = ([], n)"
| "assign_comment_ids n (c # cs) =
    (let cid = (if cr_id c = 0 then n else cr_id c);
         (cs', n') = assign_comment_ids (max n (Suc cid)) cs
     in (c\<lparr>cr_id := cid\<rparr> # cs', n'))"

definition insert_comments :: "comment_row list \<Rightarrow> unit db_prog" where
  "insert_comments rows = (\<lambda>d. let (rows', n) = assign_comment_ids (db_next_comment d) rows in
     insert_rows ''create order comment records'' cr_id rows' db_comments
       (\<lambda>f db. db\<lparr>db_comments := f (db_comments db), db_next_comment := n\<rparr>) d)"

definition insert_statuses :: "string \<Rightarrow> (nat \<Rightarrow> status_row list) \<Rightarrow> unit db_prog" where
  "insert_statuses label mk = (\<lambda>d. let rows = mk (db_next_status d) in
     insert_rows label (\<lambda>r. (sr_order_id r, sr_position r)) rows db_statuses
       (\<lambda>f db. db\<lparr>db_statuses := f (db_statuses db),
                  db_next_status := db_next_status db + length rows\<rparr>) d)"

definition insert_items :: "item_row list \<Rightarrow> unit db_prog" where
  "insert_items rows = insert_rows ''create order item records'' (\<lambda>r. (ir_order_id r, ir_position r))
     rows db_items (\<lambda>f d. d\<lparr>db_items := f (db_items d)\<rparr>)"

definition insert_charges :: "charge_row list \<Rightarrow> unit db_prog" where
  "insert_charges rows = insert_rows ''create order shipping charge records''
     (\<lambda>r. (hr_order_id r, hr_position r)) rows db_charges (\<lambda>f d. d\<lparr>db_charges := f (db_charges d)\<rparr>)"

definition insert_address :: "address_row \<Rightarrow> unit db_prog" where
  "insert_address r = insert_rows ''create order shipping record'' ar_order_id [r] db_addresses
     (\<lambda>f d. d\<lparr>db_addresses := f (db_addresses d)\<rparr>)"

definition insert_metadata :: "metadata_row list \<Rightarrow> unit db_prog" where
  "insert_metadata rows = insert_rows ''create order metadata records''
     (\<lambda>r. (mr_order_id r, mr_key r)) rows db_metadata (\<lambda>f d. d\<lparr>db_metadata := f (db_metadata d)\<rparr>)"

definition insert_coupons :: "coupon_row list \<Rightarrow> unit db_prog" where
  "insert_coupons rows = insert_rows ''create order applied coupon records''
     (\<lambda>r. (kr_order_id r, kr_code r)) rows db_coupons (\<lambda>f d. d\<lparr>db_coupons := f (db_coupons d)\<rparr>)"

text \<open>\<^verbatim>\<open>First(&row, "id = ?")\<close> on a table with soft deletion.\<close>

definition find_order :: "order_db \<Rightarrow> string \<Rightarrow> order_row option" where
  "find_order d oid = find (\<lambda>r. or_id r = oid \<and> or_deleted_at r = None) (db_orders d)"

definition lock_order :: "string \<Rightarrow> unit db_prog" where
  "lock_order oid = stmt ''lock order record'' (\<lambda>d. case find_order d oid of
      None \<Rightarrow> (Inl (Err ErrOrderNotFound), d) | Some _ \<Rightarrow> (Inr (), d))"

section \<open>Loading relations\<close>

text \<open>Each loader selects the rows of the given orders in a fixed order and groups them by order; the
  result is the lookup function of the map the code builds.\<close>

record order_relations =
  rel_items :: "string \<Rightarrow> item_row list"
  rel_statuses :: "string \<Rightarrow> status_row list"
  rel_comments :: "string \<Rightarrow> comment_row list"
  rel_address :: "string \<Rightarrow> address_row option"
  rel_charges :: "string \<Rightarrow> charge_row list"
  rel_metadata :: "string \<Rightarrow> gomap"
  rel_coupons :: "string \<Rightarrow> coupon_row list"

definition group_rows :: "('r \<Rightarrow> string) \<Rightarrow> ('r \<Rightarrow> 'k::linorder) \<Rightarrow> string list \<Rightarrow> 'r list \<Rightarrow> string \<Rightarrow> 'r list" where
  "group_rows oid key ids rows = (let sorted_rows = sort_key (\<lambda>r. (oid r, key r))
      (filter (\<lambda>r. oid r \<in> set ids) rows)
    in (\<lambda>i. filter (\<lambda>r. oid r = i) sorted_rows))"

text \<open>A query over a list of orders is not sent when the list is empty.\<close>

definition query_for :: "string \<Rightarrow> string list \<Rightarrow> 'a db_prog \<Rightarrow> 'a db_prog" where
  "query_for label ids m = (if ids = [] then m else stmt label m)"

definition load_items :: "string list \<Rightarrow> (string \<Rightarrow> item_row list) db_prog" where
  "load_items ids = query_for ''list order item records'' ids
     (getp (\<lambda>d. group_rows ir_order_id ir_position ids (db_items d)))"

definition load_statuses :: "string list \<Rightarrow> (string \<Rightarrow> status_row list) db_prog" where
  "load_statuses ids = query_for ''list order status records'' ids
     (getp (\<lambda>d. group_rows sr_order_id (\<lambda>r. (sr_occurred_at r, sr_id r)) ids (db_statuses d)))"

definition load_comments :: "string list \<Rightarrow> (string \<Rightarrow> comment_row list) db_prog" where
  "load_comments ids = query_for ''list order comment records'' ids
     (getp (\<lambda>d. group_rows cr_order_id (\<lambda>r. (cr_occurred_at r, cr_id r)) ids (db_comments d)))"

definition load_addresses :: "string list \<Rightarrow> (string \<Rightarrow> address_row option) db_prog" where
  "load_addresses ids = query_for ''list order shipping records'' ids (getp (\<lambda>d i.
     if i \<in> set ids then find (\<lambda>r. ar_order_id r = i) (rev (db_addresses d)) else None))"

definition load_charges :: "string list \<Rightarrow> (string \<Rightarrow> charge_row list) db_prog" where
  "load_charges ids = query_for ''list order shipping charge records'' ids
     (getp (\<lambda>d. group_rows hr_order_id hr_position ids (db_charges d)))"

definition load_metadata :: "string list \<Rightarrow> (string \<Rightarrow> gomap) db_prog" where
  "load_metadata ids = query_for ''list order metadata records'' ids (getp (\<lambda>d i.
     if i \<in> set ids then fold (\<lambda>r acc. AList.update (mr_key r) (mr_value r) acc)
       (filter (\<lambda>r. mr_order_id r = i) (db_metadata d)) [] else []))"

definition load_coupons :: "string list \<Rightarrow> (string \<Rightarrow> coupon_row list) db_prog" where
  "load_coupons ids = query_for ''list order applied coupon records'' ids
     (getp (\<lambda>d. group_rows kr_order_id kr_applied_at ids (db_coupons d)))"

definition load_relations :: "string list \<Rightarrow> order_relations db_prog" where
  "load_relations ids =
    bindp (load_items ids) (\<lambda>is. bindp (load_statuses ids) (\<lambda>ss. bindp (load_comments ids) (\<lambda>cs.
    bindp (load_addresses ids) (\<lambda>as. bindp (load_charges ids) (\<lambda>hs. bindp (load_metadata ids) (\<lambda>md.
    bindp (load_coupons ids) (\<lambda>ks.
      ret \<lparr>rel_items = is, rel_statuses = ss, rel_comments = cs, rel_address = as, rel_charges = hs,
           rel_metadata = md, rel_coupons = ks\<rparr>)))))))"

definition order_of_relations :: "gotime \<Rightarrow> order_relations \<Rightarrow> order_row \<Rightarrow> order" where
  "order_of_relations now rel r = (let i = or_id r in
     to_order now r (rel_items rel i) (rel_statuses rel i) (rel_comments rel i) (rel_address rel i)
       (rel_charges rel i) (rel_metadata rel i) (rel_coupons rel i))"

section \<open>Repository operations\<close>

definition repo_get :: "string \<Rightarrow> order db_prog" where
  "repo_get oid = (let i = trim oid in
     bindp (stmt ''get order record'' (\<lambda>d. case find_order d i of
         None \<Rightarrow> (Inl (Err ErrOrderNotFound), d) | Some r \<Rightarrow> (Inr r, d))) (\<lambda>r.
     bindp (load_relations [i]) (\<lambda>rel. bindp (getp db_clock) (\<lambda>now.
       ret (order_of_relations now rel r)))))"

definition check_order :: "order \<Rightarrow> unit db_prog" where
  "check_order ord = guard_err (map_option OrderInvalid (order_validate ord))"

definition fresh_order_id :: "string db_prog" where
  "fresh_order_id = bindp (getp (\<lambda>d. db_random d (db_random_next d))) (\<lambda>i.
     bindp (modp (\<lambda>d. d\<lparr>db_random_next := Suc (db_random_next d)\<rparr>)) (\<lambda>_. ret i))"

definition create_rows :: "order \<Rightarrow> order_row \<Rightarrow> unit db_prog" where
  "create_rows e r = atomically (
     bindp (insert_order r) (\<lambda>_.
     bindp (insert_items (to_item_rows (or_id r) (o_items e))) (\<lambda>_.
     bindp (insert_metadata (to_metadata_rows (or_id r) (o_metadata e))) (\<lambda>_.
     bindp (insert_statuses ''create order status records''
              (\<lambda>n. to_status_rows (or_id r) n (o_status_history e))) (\<lambda>_.
     bindp (insert_comments (to_comment_rows (or_id r) (o_comments e))) (\<lambda>_.
     bindp (insert_charges (to_charge_rows (or_id r) (o_shipping_charges e))) (\<lambda>_.
     bindp (if o_has_custom_shipping e
            then insert_address (to_address_row (or_id r) (o_shipping_address e)) else ret ()) (\<lambda>_.
       insert_coupons (to_coupon_rows (or_id r) (o_applied_coupons e))))))))))"

definition repo_create :: "order \<Rightarrow> order db_prog" where
  "repo_create ord = (let e = order_normalize ord in
     bindp (check_order e) (\<lambda>_.
     bindp (if trim (or_id (to_order_row e)) = [] then fresh_order_id
            else ret (or_id (to_order_row e))) (\<lambda>i.
     bindp (create_rows e ((to_order_row e)\<lparr>or_id := i\<rparr>)) (\<lambda>_. repo_get i))))"

definition delete_rows :: "string \<Rightarrow> (order_db \<Rightarrow> order_db) \<Rightarrow> unit db_prog" where
  "delete_rows label f = stmt label (modp f)"

definition touch_order :: "string \<Rightarrow> unit db_prog" where
  "touch_order oid = stmt ''update order root record'' (modp (\<lambda>d. d\<lparr>db_orders :=
     map (\<lambda>r. if or_id r = oid \<and> or_deleted_at r = None then r\<lparr>or_updated_at := db_clock d\<rparr> else r)
       (db_orders d)\<rparr>))"

definition replace_address :: "order \<Rightarrow> unit db_prog" where
  "replace_address e = (if o_has_custom_shipping e then
     bindp (delete_rows ''delete order shipping record'' (\<lambda>d. d\<lparr>db_addresses :=
              filter (\<lambda>r. ar_order_id r \<noteq> o_id e) (db_addresses d)\<rparr>)) (\<lambda>_.
       insert_address (to_address_row (o_id e) (o_shipping_address e)))
     else ret ())"

definition update_rows :: "order \<Rightarrow> unit db_prog" where
  "update_rows e = atomically (
     bindp (lock_order (o_id e)) (\<lambda>_.
     bindp (touch_order (o_id e)) (\<lambda>_.
     bindp (delete_rows ''delete order item records'' (\<lambda>d. d\<lparr>db_items :=
              filter (\<lambda>r. ir_order_id r \<noteq> o_id e) (db_items d)\<rparr>)) (\<lambda>_.
     bindp (insert_items (to_item_rows (o_id e) (o_items e))) (\<lambda>_.
     bindp (delete_rows ''delete order shipping charge records'' (\<lambda>d. d\<lparr>db_charges :=
              filter (\<lambda>r. hr_order_id r \<noteq> o_id e) (db_charges d)\<rparr>)) (\<lambda>_.
     bindp (insert_charges (to_charge_rows (o_id e) (o_shipping_charges e))) (\<lambda>_.
     bindp (replace_address e) (\<lambda>_.
     bindp (delete_rows ''delete order applied coupon records'' (\<lambda>d. d\<lparr>db_coupons :=
              filter (\<lambda>r. kr_order_id r \<noteq> o_id e) (db_coupons d)\<rparr>)) (\<lambda>_.
       insert_coupons (to_coupon_rows (o_id e) (o_applied_coupons e)))))))))))"

definition repo_update :: "order \<Rightarrow> order db_prog" where
  "repo_update ord = (let e = order_normalize ord in
     bindp (check_order e) (\<lambda>_.
     if trim (o_id e) = [] then throw (Err ErrOrderNotFound)
     else bindp (update_rows e) (\<lambda>_. repo_get (o_id e))))"

definition next_status_position :: "order_db \<Rightarrow> string \<Rightarrow> int" where
  "next_status_position d oid =
     fold max (map sr_position (filter (\<lambda>r. sr_order_id r = oid) (db_statuses d))) (-1) + 1"

definition repo_append_status :: "string \<Rightarrow> status_entry \<Rightarrow> order db_prog" where
  "repo_append_status oid e = (let i = trim oid in
     bindp (atomically (
       bindp (lock_order i) (\<lambda>_.
       bindp (stmt ''resolve order status position'' (getp (\<lambda>d. next_status_position d i))) (\<lambda>p.
         insert_statuses ''append order status record'' (\<lambda>n.
           [\<lparr>sr_id = n, sr_order_id = i, sr_position = p, sr_status = trim (se_status e),
             sr_author = trim (se_author e), sr_description = trim (se_description e),
             sr_note_owner = trim (se_note_owner e), sr_note = trim (se_note e),
             sr_occurred_at = se_occurred_at e\<rparr>]))))) (\<lambda>_. repo_get i))"

definition repo_append_comment :: "string \<Rightarrow> order_comment \<Rightarrow> order db_prog" where
  "repo_append_comment oid c = (let i = trim oid in
     bindp (atomically (
       bindp (lock_order i) (\<lambda>_.
         wrap_err ''append order comment record'' (insert_comments
           [\<lparr>cr_id = 0, cr_order_id = i, cr_author = trim (cm_author c), cr_text = trim (cm_text c),
             cr_internal = cm_internal c, cr_occurred_at = cm_occurred_at c\<rparr>])))) (\<lambda>_. repo_get i))"

definition parse_comment_id :: "string \<Rightarrow> nat option" where
  "parse_comment_id v = (let t = trim v in if t = [] then None
     else case parse_uint64 t of None \<Rightarrow> None | Some n \<Rightarrow> if n = 0 then None else Some n)"

definition find_comment :: "order_db \<Rightarrow> string \<Rightarrow> nat \<Rightarrow> comment_row option" where
  "find_comment d oid cid = find (\<lambda>r. cr_order_id r = oid \<and> cr_id r = cid) (db_comments d)"

definition save_comment :: "comment_row \<Rightarrow> order_db \<Rightarrow> order_db" where
  "save_comment c d = d\<lparr>db_comments := map (\<lambda>r. if cr_id r = cr_id c then c else r) (db_comments d)\<rparr>"

definition edit_comment_row :: "order_comment \<Rightarrow> comment_row \<Rightarrow> comment_row" where
  "edit_comment_row c r = r\<lparr>cr_author := trim (cm_author c), cr_text := trim (cm_text c),
     cr_internal := cm_internal c,
     cr_occurred_at := (if cm_occurred_at c = 0 then cr_occurred_at r else cm_occurred_at c)\<rparr>"

definition repo_update_comment :: "string \<Rightarrow> string \<Rightarrow> order_comment \<Rightarrow> order db_prog" where
  "repo_update_comment oid cid c = (let i = trim oid in case parse_comment_id cid of
      None \<Rightarrow> throw (Err ErrCommentNotFound)
    | Some n \<Rightarrow> bindp (atomically (
        bindp (lock_order i) (\<lambda>_.
        bindp (stmt ''lock order comment record'' (\<lambda>d. case find_comment d i n of
            None \<Rightarrow> (Inl (Err ErrCommentNotFound), d) | Some r \<Rightarrow> (Inr r, d))) (\<lambda>r.
          stmt ''update order comment record'' (modp (save_comment (edit_comment_row c r))))))) (\<lambda>_.
        repo_get i))"

definition repo_delete_comment :: "string \<Rightarrow> string \<Rightarrow> order db_prog" where
  "repo_delete_comment oid cid = (let i = trim oid in case parse_comment_id cid of
      None \<Rightarrow> throw (Err ErrCommentNotFound)
    | Some n \<Rightarrow> bindp (atomically (
        bindp (lock_order i) (\<lambda>_. stmt ''delete order comment record'' (\<lambda>d.
          if find_comment d i n = None then (Inl (Err ErrCommentNotFound), d)
          else (Inr (), d\<lparr>db_comments :=
                  filter (\<lambda>r. \<not> (cr_order_id r = i \<and> cr_id r = n)) (db_comments d)\<rparr>))))) (\<lambda>_.
        repo_get i))"

section \<open>Listing\<close>

record order_list_query =
  lq_page :: int
  lq_limit :: int
  lq_realm :: string
  lq_contact_id :: string
  lq_identifier :: string
  lq_status :: string

definition normalize_pagination :: "int \<Rightarrow> int \<Rightarrow> int \<times> int" where
  "normalize_pagination page limit =
    (if page \<le> 0 then 1 else page, if limit \<le> 0 then 10 else limit)"

text \<open>The status sub-query: the row that comes first by \<^verbatim>\<open>occurred_at DESC, id DESC\<close>.\<close>

definition latest_status_of :: "order_db \<Rightarrow> string \<Rightarrow> status_row option" where
  "latest_status_of d oid = (let rs = sort_key (\<lambda>r. (sr_occurred_at r, sr_id r))
      (filter (\<lambda>r. sr_order_id r = oid) (db_statuses d))
    in if rs = [] then None else Some (last rs))"

definition matches_list_query :: "order_db \<Rightarrow> order_list_query \<Rightarrow> order_row \<Rightarrow> bool" where
  "matches_list_query d q r \<longleftrightarrow> or_deleted_at r = None
    \<and> (trim (lq_realm q) = [] \<or> or_realm r = trim (lq_realm q))
    \<and> (trim (lq_contact_id q) = [] \<or> or_contact_id r = trim (lq_contact_id q))
    \<and> (trim (lq_identifier q) = [] \<or> or_identifier r = trim (lq_identifier q))
    \<and> (trim (lq_status q) = [] \<or> (case latest_status_of d (or_id r) of
         None \<Rightarrow> False | Some s \<Rightarrow> sr_status s = trim (lq_status q)))"

text \<open>An OFFSET that is not positive, as after an overflow of the product, is left out.\<close>

definition repo_list :: "order_list_query \<Rightarrow> (order list \<times> int) db_prog" where
  "repo_list q = (let (page, limit) = normalize_pagination (lq_page q) (lq_limit q) in
     bindp (stmt ''count order records'' (getp (\<lambda>d.
       int (length (filter (matches_list_query d q) (db_orders d)))))) (\<lambda>total.
     bindp (stmt ''list order records'' (getp (\<lambda>d. take (nat limit) (drop (nat (int64 ((page - 1) * limit)))
       (sort_key (\<lambda>r. - or_created_at r) (filter (matches_list_query d q) (db_orders d))))))) (\<lambda>rows.
     bindp (load_relations (map or_id rows)) (\<lambda>rel. bindp (getp db_clock) (\<lambda>now.
       ret (map (order_of_relations now rel) rows, total))))))"

end
