(* ===== verification/Orders_Repository.thy ===== *)
theory Orders_Repository
  imports Orders_Store
begin

text \<open>
  What the order repository guarantees: the table invariant and its preservation by every
  operation, the reading of the current status off the history, the effect of appending a status,
  creation followed by reading, comment editing, and the treatment of duplicate identifiers.
\<close>

section \<open>Table invariant\<close>

definition statuses_ok :: "order_db \<Rightarrow> bool" where
  "statuses_ok d \<longleftrightarrow> distinct (map (\<lambda>r. (sr_order_id r, sr_position r)) (db_statuses d))
     \<and> distinct (map sr_id (db_statuses d)) \<and> list_all (\<lambda>r. sr_id r < db_next_status d) (db_statuses d)"

definition comments_ok :: "order_db \<Rightarrow> bool" where
  "comments_ok d \<longleftrightarrow> distinct (map cr_id (db_comments d)) \<and> 0 < db_next_comment d
     \<and> list_all (\<lambda>r. 0 < cr_id r \<and> cr_id r < db_next_comment d) (db_comments d)"

definition orders_ok :: "order_db \<Rightarrow> bool" where
  "orders_ok d \<longleftrightarrow> distinct (map or_id (db_orders d))
     \<and> distinct (map (\<lambda>r. (or_realm r, or_identifier r)) (db_orders d))"

definition relations_ok :: "order_db \<Rightarrow> bool" where
  "relations_ok d \<longleftrightarrow> distinct (map (\<lambda>r. (ir_order_id r, ir_position r)) (db_items d))
     \<and> distinct (map (\<lambda>r. (hr_order_id r, hr_position r)) (db_charges d))
     \<and> distinct (map ar_order_id (db_addresses d))
     \<and> distinct (map (\<lambda>r. (mr_order_id r, mr_key r)) (db_metadata d))
     \<and> distinct (map (\<lambda>r. (kr_order_id r, kr_code r)) (db_coupons d))"

definition db_ok :: "order_db \<Rightarrow> bool" where
  "db_ok d \<longleftrightarrow> orders_ok d \<and> statuses_ok d \<and> comments_ok d \<and> relations_ok d"

lemmas db_ok_defs = db_ok_def orders_ok_def statuses_ok_def comments_ok_def relations_ok_def

lemma preserves_stmt [preserves_intros]: "preserves I m \<Longrightarrow> preserves I (stmt l m)"
  by (simp add: preserves_def stmt_def)

lemma preserves_query_for [preserves_intros]: "preserves I m \<Longrightarrow> preserves I (query_for l ids m)"
  by (simp add: query_for_def preserves_stmt)

lemma preserves_insert_rows:
  assumes "\<And>d. I d \<Longrightarrow> distinct (map key (get d @ rows)) \<Longrightarrow> I (upd (\<lambda>t. t @ rows) d)"
  shows "preserves I (insert_rows l key rows get upd)"
  using assms by (auto simp: insert_rows_def preserves_def stmt_def prog_simps)

lemma preserves_delete_rows:
  "(\<And>d. I d \<Longrightarrow> I (f d)) \<Longrightarrow> preserves I (delete_rows l f)"
  unfolding delete_rows_def by (intro preserves_stmt preserves_modp)

lemma preserves_insert_order [preserves_intros]: "preserves db_ok (insert_order r)"
  by (rule preservesI) (auto simp: insert_order_def stmt_def db_ok_defs)

lemma preserves_insert_relations [preserves_intros]:
  "preserves db_ok (insert_items is)" "preserves db_ok (insert_charges cs)"
  "preserves db_ok (insert_address a)" "preserves db_ok (insert_metadata md)"
  "preserves db_ok (insert_coupons ks)"
  unfolding insert_items_def insert_charges_def insert_address_def insert_metadata_def insert_coupons_def
  by (intro preserves_insert_rows; simp add: db_ok_defs)+

lemma assign_comment_ids_bounds:
  "assign_comment_ids n rs = (rs', n') \<Longrightarrow> 0 < n \<Longrightarrow>
     n \<le> n' \<and> list_all (\<lambda>r. 0 < cr_id r \<and> cr_id r < n') rs'"
proof (induction rs arbitrary: n rs' n')
  case (Cons c cs)
  let ?cid = "if cr_id c = 0 then n else cr_id c"
  obtain cs' m where m: "assign_comment_ids (max n (Suc ?cid)) cs = (cs', m)"
    by fastforce
  have bounds: "max n (Suc ?cid) \<le> m \<and> list_all (\<lambda>r. 0 < cr_id r \<and> cr_id r < m) cs'"
    using Cons.IH[OF m] Cons.prems(2) by simp
  have "rs' = c\<lparr>cr_id := ?cid\<rparr> # cs'" "n' = m"
    using Cons.prems(1) m by (auto simp: Let_def)
  moreover have "0 < ?cid" "?cid < m" "n \<le> m" using bounds Cons.prems(2) by auto
  ultimately show ?case using bounds by simp
qed simp

lemma preserves_insert_comments [preserves_intros]: "preserves db_ok (insert_comments rows)"
proof (rule preservesI)
  fix d assume d: "db_ok d"
  obtain rows' n where a: "assign_comment_ids (db_next_comment d) rows = (rows', n)" by fastforce
  with d have "db_next_comment d \<le> n \<and> list_all (\<lambda>r. 0 < cr_id r \<and> cr_id r < n) rows'"
    by (intro assign_comment_ids_bounds) (simp_all add: db_ok_defs)
  with d a show "db_ok (snd (insert_comments rows d))"
    by (auto simp: insert_comments_def insert_rows_def stmt_def ret_apply db_ok_defs list_all_iff
        intro: less_le_trans)
qed

text \<open>Status rows carry consecutive identifiers from the next free one on.\<close>

definition ids_from :: "nat \<Rightarrow> status_row list \<Rightarrow> bool" where
  "ids_from n rs \<longleftrightarrow> map sr_id rs = [n ..< n + length rs]"

lemma preserves_insert_statuses:
  assumes "\<And>n. ids_from n (mk n)"
  shows "preserves db_ok (insert_statuses l mk)"
proof (rule preservesI)
  fix d assume d: "db_ok d"
  let ?n = "db_next_status d" and ?rows = "mk (db_next_status d)"
  have ids: "map sr_id ?rows = [?n ..< ?n + length ?rows]"
    using assms[of ?n] by (simp add: ids_from_def)
  then have set_ids: "sr_id ` set ?rows = {?n ..< ?n + length ?rows}"
    by (metis list.set_map set_upt)
  have dist: "distinct (map sr_id ?rows)" using ids by simp
  have "list_all (\<lambda>r. sr_id r < ?n + length ?rows) (db_statuses d @ ?rows)"
    using d set_ids by (fastforce simp: db_ok_defs list_all_iff)
  moreover have "distinct (map sr_id (db_statuses d @ ?rows))"
    using d dist set_ids by (fastforce simp: db_ok_defs list_all_iff)
  ultimately show "db_ok (snd (insert_statuses l mk d))"
    using d by (simp add: insert_statuses_def insert_rows_def stmt_def ret_apply db_ok_defs Let_def)
qed

lemma ids_from_to_status_rows: "ids_from n (to_status_rows oid n es)"
  unfolding ids_from_def to_status_rows_def
  by (rule nth_equalityI) (simp_all add: nth_enumerate_eq)

lemmas preserves_status_rows [preserves_intros] =
  preserves_insert_statuses[OF ids_from_to_status_rows]

section \<open>Every operation preserves the table invariant\<close>

lemma preserves_lookup [preserves_intros]:
  "preserves I (\<lambda>d. case g d of None \<Rightarrow> (Inl e, d) | Some r \<Rightarrow> (Inr (h r), d))"
  by (simp add: preserves_def split: option.splits)

lemma preserves_lock_order [preserves_intros]: "preserves I (lock_order oid)"
  unfolding lock_order_def by (intro preserves_intros)

lemma preserves_load [preserves_intros]:
  "preserves I (load_items ids)" "preserves I (load_statuses ids)" "preserves I (load_comments ids)"
  "preserves I (load_addresses ids)" "preserves I (load_charges ids)" "preserves I (load_metadata ids)"
  "preserves I (load_coupons ids)"
  unfolding load_items_def load_statuses_def load_comments_def load_addresses_def load_charges_def
    load_metadata_def load_coupons_def by (intro preserves_intros)+

lemma preserves_load_relations [preserves_intros]: "preserves I (load_relations ids)"
  unfolding load_relations_def by (intro preserves_intros)

lemma preserves_repo_get [preserves_intros]: "preserves I (repo_get oid)"
  unfolding repo_get_def by (intro preserves_intros)

lemma readonly_repo_get: "readonly (repo_get oid)"
  by (simp add: readonly_iff_preserves preserves_repo_get)

lemma preserves_fresh_order_id [preserves_intros]: "preserves db_ok fresh_order_id"
  unfolding fresh_order_id_def by (intro preserves_intros preserves_modp) (simp add: db_ok_defs)

lemma preserves_create_rows [preserves_intros]: "preserves db_ok (create_rows e r)"
  unfolding create_rows_def by (intro preserves_intros)

lemma preserves_repo_create [preserves_intros]: "preserves db_ok (repo_create ord)"
  unfolding repo_create_def check_order_def by (intro preserves_intros)

lemma touch_keys:
  "or_id (if b then r\<lparr>or_updated_at := t\<rparr> else r) = or_id r"
  "or_realm (if b then r\<lparr>or_updated_at := t\<rparr> else r) = or_realm r"
  "or_identifier (if b then r\<lparr>or_updated_at := t\<rparr> else r) = or_identifier r"
  by simp_all

lemma preserves_touch_order [preserves_intros]: "preserves db_ok (touch_order oid)"
  unfolding touch_order_def
  by (intro preserves_stmt preserves_modp)
    (simp add: db_ok_defs comp_def touch_keys)

lemma preserves_replace_address [preserves_intros]: "preserves db_ok (replace_address e)"
  unfolding replace_address_def
  by (intro preserves_intros preserves_delete_rows) (simp add: db_ok_defs distinct_map_filter)

lemma preserves_update_rows [preserves_intros]: "preserves db_ok (update_rows e)"
  unfolding update_rows_def
  by (intro preserves_intros preserves_delete_rows; simp add: db_ok_defs distinct_map_filter)

lemma preserves_repo_update [preserves_intros]: "preserves db_ok (repo_update ord)"
  unfolding repo_update_def check_order_def by (intro preserves_intros)

lemma preserves_repo_append_status [preserves_intros]: "preserves db_ok (repo_append_status oid e)"
  unfolding repo_append_status_def
  by (intro preserves_intros preserves_insert_statuses) (simp add: ids_from_def)

lemma preserves_repo_append_comment [preserves_intros]: "preserves db_ok (repo_append_comment oid c)"
  unfolding repo_append_comment_def by (intro preserves_intros)

lemma cr_id_save: "cr_id (if cr_id r = cr_id c then c else r) = cr_id r"
  by simp

lemma db_ok_save_comment:
  assumes "db_ok d" "c' \<in> set (db_comments d)" "cr_id c = cr_id c'"
  shows "db_ok (save_comment c d)"
proof -
  have "distinct (map cr_id (db_comments (save_comment c d)))"
    using assms(1) by (simp add: save_comment_def db_ok_defs comp_def cr_id_save)
  moreover have "list_all (\<lambda>r. 0 < cr_id r \<and> cr_id r < db_next_comment d) (db_comments (save_comment c d))"
    using assms by (auto simp: save_comment_def db_ok_defs list_all_iff)
  ultimately show ?thesis
    using assms(1) by (simp add: save_comment_def db_ok_defs)
qed

lemma preserves_repo_delete_comment [preserves_intros]: "preserves db_ok (repo_delete_comment oid cid)"
  unfolding repo_delete_comment_def
  by (intro preserves_intros) (auto simp: preserves_def db_ok_defs list_all_iff distinct_map_filter)

lemma find_SomeD: "find P xs = Some x \<Longrightarrow> x \<in> set xs \<and> P x"
  by (auto simp: find_Some_iff)

lemma preserves_repo_update_comment [preserves_intros]: "preserves db_ok (repo_update_comment oid cid c)"
proof (rule preservesI)
  fix d assume d: "db_ok d"
  show "db_ok (snd (repo_update_comment oid cid c d))"
    using d
    by (auto simp: repo_update_comment_def Let_def prog_simps stmt_def lock_order_def find_comment_def
        readonly_repo_get[unfolded readonly_def] edit_comment_row_def
        dest!: find_SomeD intro: db_ok_save_comment split: option.splits prod.splits sum.splits if_splits)
qed

section \<open>What reading an order returns\<close>

definition items_of :: "order_db \<Rightarrow> string \<Rightarrow> item_row list" where
  "items_of d i = sort_key ir_position (filter (\<lambda>r. ir_order_id r = i) (db_items d))"

definition status_key :: "status_row \<Rightarrow> gotime \<times> nat" where
  "status_key r = (sr_occurred_at r, sr_id r)"

definition statuses_of :: "order_db \<Rightarrow> string \<Rightarrow> status_row list" where
  "statuses_of d i = sort_key status_key (filter (\<lambda>r. sr_order_id r = i) (db_statuses d))"

definition comments_of :: "order_db \<Rightarrow> string \<Rightarrow> comment_row list" where
  "comments_of d i = sort_key (\<lambda>r. (cr_occurred_at r, cr_id r)) (filter (\<lambda>r. cr_order_id r = i) (db_comments d))"

definition address_of :: "order_db \<Rightarrow> string \<Rightarrow> address_row option" where
  "address_of d i = find (\<lambda>r. ar_order_id r = i) (rev (db_addresses d))"

definition charges_of :: "order_db \<Rightarrow> string \<Rightarrow> charge_row list" where
  "charges_of d i = sort_key hr_position (filter (\<lambda>r. hr_order_id r = i) (db_charges d))"

definition metadata_of :: "order_db \<Rightarrow> string \<Rightarrow> gomap" where
  "metadata_of d i = fold (\<lambda>r acc. AList.update (mr_key r) (mr_value r) acc)
     (filter (\<lambda>r. mr_order_id r = i) (db_metadata d)) []"

definition coupons_of :: "order_db \<Rightarrow> string \<Rightarrow> coupon_row list" where
  "coupons_of d i = sort_key kr_applied_at (filter (\<lambda>r. kr_order_id r = i) (db_coupons d))"

lemmas relation_of_defs = items_of_def comments_of_def address_of_def charges_of_def
  metadata_of_def coupons_of_def

definition row_view :: "order_db \<Rightarrow> order_row \<Rightarrow> order" where
  "row_view d r = (let i = or_id r in to_order (db_clock d) r (items_of d i) (statuses_of d i)
     (comments_of d i) (address_of d i) (charges_of d i) (metadata_of d i) (coupons_of d i))"

definition order_view :: "order_db \<Rightarrow> string \<Rightarrow> order option" where
  "order_view d i = map_option (row_view d) (find_order d i)"

definition read_labels :: "string list" where
  "read_labels = [''get order record'', ''list order item records'', ''list order status records'',
     ''list order comment records'', ''list order shipping records'',
     ''list order shipping charge records'', ''list order metadata records'',
     ''list order applied coupon records'']"

definition reads_work :: "order_db \<Rightarrow> bool" where
  "reads_work d \<longleftrightarrow> list_all (\<lambda>l. \<not> db_fault d l) read_labels"

lemma insort_key_fst_const:
  "(\<And>y. y \<in> set xs \<Longrightarrow> f y = f x) \<Longrightarrow> insort_key (\<lambda>x. (f x, g x)) x xs = insort_key g x xs"
  by (induction xs) (auto simp: less_eq_prod_def)

lemma sort_key_fst_const:
  "(\<And>x. x \<in> set xs \<Longrightarrow> f x = c) \<Longrightarrow> sort_key (\<lambda>x. (f x, g x)) xs = sort_key g xs"
proof (induction xs)
  case (Cons x xs)
  then show ?case by (simp, intro insort_key_fst_const) simp
qed simp

lemma group_rows_eq:
  assumes "i \<in> set ids"
  shows "group_rows oid key ids rows i = sort_key key (filter (\<lambda>r. oid r = i) rows)"
proof -
  have "filter (\<lambda>r. oid r \<in> set ids \<and> oid r = i) rows = filter (\<lambda>r. oid r = i) rows"
    using assms by (intro filter_cong) auto
  then show ?thesis
    by (simp add: group_rows_def filter_sort) (intro sort_key_fst_const[where c = i], simp)
qed

lemma stmt_Inr_iff: "stmt l m d = (Inr y, d') \<longleftrightarrow> \<not> db_fault d l \<and> m d = (Inr y, d')"
  by (simp add: stmt_def)

lemma find_order_SomeD: "find_order d i = Some r \<Longrightarrow> r \<in> set (db_orders d) \<and> or_id r = i \<and> or_deleted_at r = None"
  unfolding find_order_def by (drule find_SomeD) simp

definition relations_at :: "order_db \<Rightarrow> string list \<Rightarrow> order_relations" where
  "relations_at d ids = \<lparr>rel_items = group_rows ir_order_id ir_position ids (db_items d),
     rel_statuses = group_rows sr_order_id status_key ids (db_statuses d),
     rel_comments = group_rows cr_order_id (\<lambda>r. (cr_occurred_at r, cr_id r)) ids (db_comments d),
     rel_address = (\<lambda>i. if i \<in> set ids then address_of d i else None),
     rel_charges = group_rows hr_order_id hr_position ids (db_charges d),
     rel_metadata = (\<lambda>i. if i \<in> set ids then metadata_of d i else []),
     rel_coupons = group_rows kr_order_id kr_applied_at ids (db_coupons d)\<rparr>"

lemma load_relations_Inr_iff:
  "load_relations ids d = (Inr rel, d') \<longleftrightarrow>
     d' = d \<and> (ids = [] \<or> list_all (\<lambda>l. \<not> db_fault d l) (tl read_labels)) \<and> rel = relations_at d ids"
  by (auto simp: query_for_def load_relations_def load_items_def load_statuses_def load_comments_def load_addresses_def
      load_charges_def load_metadata_def load_coupons_def prog_Inr_iffs stmt_Inr_iff read_labels_def
      status_key_def[abs_def] address_of_def metadata_of_def relations_at_def)

lemma order_of_relations_at:
  "or_id r \<in> set ids \<Longrightarrow> order_of_relations (db_clock d) (relations_at d ids) r = row_view d r"
  by (simp add: relations_at_def order_of_relations_def row_view_def group_rows_eq Let_def
      items_of_def statuses_of_def comments_of_def charges_of_def coupons_of_def)

lemma repo_get_Inr_iff:
  "repo_get oid d = (Inr ord, d') \<longleftrightarrow> d' = d \<and> reads_work d \<and> order_view d (trim oid) = Some ord"
proof (cases "find_order d (trim oid)")
  case None
  then show ?thesis
    by (simp add: repo_get_def Let_def prog_Inr_iffs stmt_Inr_iff order_view_def)
next
  case (Some r)
  then have "or_id r \<in> set [trim oid]" using find_order_SomeD by simp
  with Some show ?thesis
    by (auto simp: repo_get_def Let_def prog_Inr_iffs stmt_Inr_iff order_view_def
        load_relations_Inr_iff order_of_relations_at reads_work_def read_labels_def)
qed

section \<open>The current status\<close>

lemma last_max_if_sorted: "sorted (map f xs) \<Longrightarrow> x \<in> set xs \<Longrightarrow> f x \<le> f (last xs)"
  by (induction xs) (auto split: if_splits)

lemma later_status_key: "later_status x y \<longleftrightarrow> status_key y < status_key x"
  by (auto simp: later_status_def status_key_def less_prod_def)

lemma latest_status_sorted:
  assumes "sorted (map status_key rs)" "distinct (map sr_id rs)" "rs \<noteq> []"
  shows "latest_status rs = Some (last rs)"
proof -
  obtain y where y: "latest_status rs = Some y"
    using assms(3) by (cases "latest_status rs") (auto simp: latest_status_def best_by_None_iff)
  then have "y \<in> set rs" "\<forall>x \<in> set rs. status_key x \<le> status_key y"
    using best_by_mem[of later_status None rs y] best_by_max[of later_status status_key None rs y]
    by (auto simp: latest_status_def later_status_key)
  moreover have "status_key y \<le> status_key (last rs)"
    using assms(1) \<open>y \<in> set rs\<close> by (rule last_max_if_sorted)
  ultimately have "sr_id y = sr_id (last rs)"
    using assms(3) by (metis antisym last_in_set prod.inject status_key_def)
  with \<open>y \<in> set rs\<close> assms have "y = last rs"
    by (metis distinct_map inj_onD last_in_set)
  with y show ?thesis by simp
qed

lemma distinct_statuses_of: "db_ok d \<Longrightarrow> distinct (map sr_id (statuses_of d i))"
proof -
  assume "db_ok d"
  moreover have "mset (map sr_id (statuses_of d i)) = mset (map sr_id (filter (\<lambda>r. sr_order_id r = i) (db_statuses d)))"
    by (simp add: statuses_of_def)
  ultimately show ?thesis
    by (metis db_ok_def statuses_ok_def distinct_map_filter mset_eq_imp_distinct_iff)
qed

lemma current_of_row_view:
  assumes "db_ok d"
  shows "o_current_status (row_view d r) = (let rs = statuses_of d (or_id r) in
     if rs = [] then status_created else trim (sr_status (last rs)))"
proof -
  have "sorted (map status_key (statuses_of d (or_id r)))" by (simp add: statuses_of_def)
  note latest_status_sorted[OF this distinct_statuses_of[OF assms]]
  moreover have "trim status_created = status_created" by code_simp
  ultimately show ?thesis
    by (auto simp: row_view_def to_order_def order_normalize_def resolve_current_status_def Let_def
        to_status_entry_def latest_status_def)
qed

lemma normalize_to_status_entry [simp]: "normalize_entry (to_status_entry r) = to_status_entry r"
  by (simp add: normalize_entry_def to_status_entry_def)

lemma history_of_row_view: "o_status_history (row_view d r) = map to_status_entry (statuses_of d (or_id r))"
  by (simp add: row_view_def to_order_def order_normalize_def Let_def)

lemma occurred_at_to_status_entry [simp]: "se_occurred_at (to_status_entry r) = sr_occurred_at r"
  by (simp add: to_status_entry_def)

lemma sorted_fst: "sorted (map k xs) \<Longrightarrow> sorted (map (\<lambda>x. fst (k x)) xs)" for k :: "'a \<Rightarrow> 'b::linorder \<times> 'c::linorder"
  by (induction xs) (auto simp: less_eq_prod_def)

lemma sorted_history: "sorted (map se_occurred_at (o_status_history (row_view d r)))"
proof -
  have "sorted (map status_key (statuses_of d (or_id r)))" by (simp add: statuses_of_def)
  from sorted_fst[OF this] show ?thesis by (simp add: history_of_row_view status_key_def comp_def)
qed

text \<open>In every order read from a consistent store, the status history is in chronological order and
  the current status is the status of its last entry; an order without history is CREATED.\<close>

theorem current_status_is_last_entry:
  assumes "db_ok d" and "repo_get oid d = (Inr ord, d')"
  shows "sorted (map se_occurred_at (o_status_history ord))
    \<and> o_current_status ord = (if o_status_history ord = [] then status_created
                              else se_status (last (o_status_history ord)))"
proof -
  obtain r where "ord = row_view d r"
    using assms(2) by (auto simp: repo_get_Inr_iff order_view_def)
  then show ?thesis
    using current_of_row_view[OF assms(1), of r] sorted_history[of d r]
    by (simp add: history_of_row_view last_map to_status_entry_def Let_def)
qed

section \<open>Appending a status\<close>

lemma insort_key_append_max:
  "k x \<le> k r \<Longrightarrow> insort_key k x (xs @ [r]) = insort_key k x xs @ [r]"
  by (induction xs) auto

lemma sort_key_append_max:
  "(\<And>z. z \<in> set zs \<Longrightarrow> k z \<le> k r) \<Longrightarrow> sort_key k (zs @ [r]) = sort_key k zs @ [r]"
  by (induction zs) (simp_all add: insort_key_append_max)

lemma sort_key_pair_append:
  assumes "\<And>x. x \<in> set xs \<Longrightarrow> g x < g r" and "\<And>x. f' (h x) = f x"
  shows "map h (sort_key (\<lambda>x. (f x, g x)) (xs @ [r]))
    = sort_key f' (map h (sort_key (\<lambda>x. (f x, g x)) xs) @ [h r])" (is "map h (sort_key ?k _) = _")
proof (rule properties_for_sort_key[symmetric])
  show "mset (map h (sort_key ?k (xs @ [r]))) = mset (map h (sort_key ?k xs) @ [h r])"
    by (simp only: mset_map mset_sort mset_append) simp
  have "sorted (map ?k (sort_key ?k (xs @ [r])))" by (rule sorted_sort_key)
  from sorted_fst[OF this] show "sorted (map f' (map h (sort_key ?k (xs @ [r]))))"
    by (simp add: comp_def assms(2))
next
  fix e
  let ?c = "f' e"
  have "filter (\<lambda>y. ?c = f' y) (map h (sort_key ?k (xs @ [r])))
      = map h (sort_key ?k (filter (\<lambda>y. ?c = f y) (xs @ [r])))"
    by (simp only: filter_map comp_def assms(2) filter_sort)
  also have "sort_key ?k (filter (\<lambda>y. ?c = f y) (xs @ [r]))
      = sort_key ?k (filter (\<lambda>y. ?c = f y) xs) @ filter (\<lambda>y. ?c = f y) [r]"
    using assms(1) by (auto simp: less_eq_prod_def intro!: sort_key_append_max order.strict_implies_order)
  finally show "filter (\<lambda>y. ?c = f' y) (map h (sort_key ?k (xs @ [r])))
      = filter (\<lambda>y. ?c = f' y) (map h (sort_key ?k xs) @ [h r])"
    by (simp add: filter_map comp_def assms(2) filter_sort)
qed

definition appended_row :: "order_db \<Rightarrow> string \<Rightarrow> status_entry \<Rightarrow> status_row" where
  "appended_row d i e = \<lparr>sr_id = db_next_status d, sr_order_id = i, sr_position = next_status_position d i,
     sr_status = trim (se_status e), sr_author = trim (se_author e),
     sr_description = trim (se_description e), sr_note_owner = trim (se_note_owner e),
     sr_note = trim (se_note e), sr_occurred_at = se_occurred_at e\<rparr>"

definition append_status_db :: "string \<Rightarrow> status_entry \<Rightarrow> order_db \<Rightarrow> order_db" where
  "append_status_db i e d = d\<lparr>db_statuses := db_statuses d @ [appended_row d i e],
     db_next_status := Suc (db_next_status d)\<rparr>"

lemma repo_append_status_state:
  assumes "repo_append_status oid e d = (Inr ord, d')"
  shows "d' = append_status_db (trim oid) e d \<and> order_view d' (trim oid) = Some ord
    \<and> (\<exists>r. find_order d (trim oid) = Some r)"
  using assms
  by (auto simp: repo_append_status_def Let_def prog_Inr_iffs stmt_Inr_iff lock_order_def
      insert_statuses_def insert_rows_def repo_get_Inr_iff append_status_db_def appended_row_def
      split: option.splits if_splits)

lemma to_status_entry_appended: "to_status_entry (appended_row d i e) = normalize_entry e"
  by (simp add: to_status_entry_def appended_row_def normalize_entry_def)

lemma statuses_of_append:
  assumes "db_ok d"
  shows "map to_status_entry (statuses_of (append_status_db i e d) i)
    = sort_key se_occurred_at (map to_status_entry (statuses_of d i) @ [normalize_entry e])"
proof -
  have "sr_id x < sr_id (appended_row d i e)" if "x \<in> set (filter (\<lambda>r. sr_order_id r = i) (db_statuses d))" for x
    using that assms by (auto simp: db_ok_defs list_all_iff appended_row_def)
  from sort_key_pair_append[of "filter (\<lambda>r. sr_order_id r = i) (db_statuses d)" sr_id "appended_row d i e"
      se_occurred_at to_status_entry sr_occurred_at, OF this]
  show ?thesis
    by (simp add: statuses_of_def append_status_db_def to_status_entry_appended status_key_def[abs_def])
      (simp add: appended_row_def)
qed

lemma fold_max_start: "a \<le> fold max xs a" for a :: int
  by (induction xs arbitrary: a) (auto intro: order_trans[OF max.cobounded2])

lemma fold_max_ge: "x \<in> set xs \<Longrightarrow> x \<le> fold max xs a" for a :: int
  by (induction xs arbitrary: a) (auto intro: order_trans[OF max.cobounded1 fold_max_start])

lemma next_status_position_gt:
  "r \<in> set (db_statuses d) \<Longrightarrow> sr_position r < next_status_position d (sr_order_id r)"
  using fold_max_ge[of "sr_position r"
      "map sr_position (filter (\<lambda>x. sr_order_id x = sr_order_id r) (db_statuses d))" "-1"]
  by (force simp: next_status_position_def)

lemma db_ok_append_status: "db_ok d \<Longrightarrow> db_ok (append_status_db i e d)"
  using next_status_position_gt[of _ d]
  by (fastforce simp: append_status_db_def db_ok_defs list_all_iff appended_row_def)

text \<open>What the relations other than the status history contribute to an order.\<close>

definition same_relations :: "order_db \<Rightarrow> order_db \<Rightarrow> string \<Rightarrow> bool" where
  "same_relations d d' i \<longleftrightarrow> items_of d' i = items_of d i \<and> comments_of d' i = comments_of d i
     \<and> address_of d' i = address_of d i \<and> charges_of d' i = charges_of d i
     \<and> metadata_of d' i = metadata_of d i \<and> coupons_of d' i = coupons_of d i"

lemma row_view_statuses:
  "same_relations d d' (or_id r) \<Longrightarrow> row_view d' r = (row_view d r)
     \<lparr>o_status_history := o_status_history (row_view d' r), o_current_status := o_current_status (row_view d' r)\<rparr>"
  by (simp add: same_relations_def row_view_def to_order_def order_normalize_def Let_def)

lemma row_view_append_status:
  fixes e :: status_entry
  assumes "db_ok d" "or_id r = i"
  defines "h \<equiv> sort_key se_occurred_at (o_status_history (row_view d r) @ [normalize_entry e])"
  shows "row_view (append_status_db i e d) r = (row_view d r)
    \<lparr>o_status_history := h, o_current_status := se_status (last h)\<rparr>"
proof -
  let ?d = "append_status_db i e d"
  have h: "o_status_history (row_view ?d r) = h"
    using statuses_of_append[OF assms(1), of i e] assms(2) by (simp add: history_of_row_view h_def)
  have ne: "statuses_of ?d i \<noteq> []" "h \<noteq> []"
    by (simp_all add: statuses_of_def append_status_db_def appended_row_def h_def)
      (metis Nil_is_append_conv list.discI mset_sort mset_zero_iff)+
  have "o_current_status (row_view ?d r) = se_status (last h)"
    using current_of_row_view[OF db_ok_append_status[OF assms(1)], of i e r] h ne assms(2)
    by (simp add: history_of_row_view last_map[symmetric] Let_def) (auto simp: last_map to_status_entry_def)
  moreover have "same_relations d ?d (or_id r)"
    by (simp add: same_relations_def append_status_db_def relation_of_defs)
  ultimately show ?thesis
    using row_view_statuses[of d ?d r] h by simp
qed

text \<open>Appending a status to an order of a consistent store returns the order as it was read before, with
  the entry inserted into the history behind all entries that are not later, and with the status of
  the last entry as the current one.\<close>

theorem append_status_result:
  assumes "db_ok d" and "repo_get oid d = (Inr before, d)"
    and "repo_append_status oid e d = (Inr after, d')"
  shows "after = before
    \<lparr>o_status_history := sort_key se_occurred_at (o_status_history before @ [normalize_entry e]),
     o_current_status := se_status (last (sort_key se_occurred_at (o_status_history before @ [normalize_entry e])))\<rparr>"
proof -
  have d': "d' = append_status_db (trim oid) e d" "order_view d' (trim oid) = Some after"
    using repo_append_status_state[OF assms(3)] by blast+
  obtain r where r: "find_order d (trim oid) = Some r" "before = row_view d r"
    using assms(2) by (auto simp: repo_get_Inr_iff order_view_def)
  have "find_order d' (trim oid) = Some r"
    using r d' by (simp add: find_order_def append_status_db_def)
  then show ?thesis
    using d' r row_view_append_status[OF assms(1), of r "trim oid" e] find_order_SomeD[OF r(1)]
    by (simp add: order_view_def)
qed




section \<open>Orders do not interfere\<close>

datatype repo_write = Create order | Update order
  | AppendStatus string status_entry | AppendComment string order_comment
  | UpdateComment string string order_comment | DeleteComment string string

fun run_write :: "repo_write \<Rightarrow> order db_prog" where
  "run_write (Create ord) = repo_create ord"
| "run_write (Update ord) = repo_update ord"
| "run_write (AppendStatus oid e) = repo_append_status oid e"
| "run_write (AppendComment oid c) = repo_append_comment oid c"
| "run_write (UpdateComment oid cid c) = repo_update_comment oid cid c"
| "run_write (DeleteComment oid cid) = repo_delete_comment oid cid"

fun write_target :: "repo_write \<Rightarrow> string option" where
  "write_target (Create ord) = None"
| "write_target (Update ord) = Some (trim (o_id ord))"
| "write_target (AppendStatus oid e) = Some (trim oid)"
| "write_target (AppendComment oid c) = Some (trim oid)"
| "write_target (UpdateComment oid cid c) = Some (trim oid)"
| "write_target (DeleteComment oid cid) = Some (trim oid)"

definition run_writes :: "repo_write list \<Rightarrow> order_db \<Rightarrow> order_db" where
  "run_writes ws d = fold (\<lambda>w d. snd (run_write w d)) ws d"

lemma preserves_run_write: "preserves db_ok (run_write w)"
  by (cases w) (simp_all, (intro preserves_intros)+)

text \<open>No sequence of repository writes, whether they succeed, fail or are rolled back, breaks the table
  invariant: identifiers and (realm, identifier) pairs stay unique, status and comment identifiers
  stay unique and below the next free one, and the relation tables keep their unique keys.\<close>

theorem run_writes_keep_invariant:
  assumes "db_ok d" shows "db_ok (run_writes ws d)"
  using assms
proof (induction ws arbitrary: d)
  case (Cons w ws)
  then show ?case
    using preserves_run_write[of w] by (simp add: run_writes_def preserves_def)
qed (simp add: run_writes_def)

text \<open>The rows an order is read from.\<close>

definition rows_of :: "order_db \<Rightarrow> string \<Rightarrow> (order_row option \<times> item_row list \<times> status_row list \<times> comment_row list)
    \<times> (address_row option \<times> charge_row list \<times> metadata_row list \<times> coupon_row list \<times> gotime)" where
  "rows_of d j = ((find_order d j, filter (\<lambda>r. ir_order_id r = j) (db_items d),
      filter (\<lambda>r. sr_order_id r = j) (db_statuses d), filter (\<lambda>r. cr_order_id r = j) (db_comments d)),
     (address_of d j, filter (\<lambda>r. hr_order_id r = j) (db_charges d),
      filter (\<lambda>r. mr_order_id r = j) (db_metadata d), filter (\<lambda>r. kr_order_id r = j) (db_coupons d), db_clock d))"

lemma order_view_rows: "rows_of d' j = rows_of d j \<Longrightarrow> order_view d' j = order_view d j"
proof -
  assume a: "rows_of d' j = rows_of d j"
  then have "row_view d' r = row_view d r" if "or_id r = j" for r
    using that by (simp add: row_view_def rows_of_def items_of_def statuses_of_def comments_of_def
        charges_of_def metadata_of_def coupons_of_def)
  then show ?thesis
    using a find_order_SomeD by (auto simp: order_view_def rows_of_def intro!: option.map_cong)
qed

abbreviation frame :: "order_db \<Rightarrow> string \<Rightarrow> order_db \<Rightarrow> bool" where
  "frame d j w \<equiv> db_ok w \<and> rows_of w j = rows_of d j"

lemma rows_of_to_rows [simp]:
  "trim i \<noteq> j \<Longrightarrow> filter (\<lambda>r. ir_order_id r = j) (to_item_rows i is) = []"
  "trim i \<noteq> j \<Longrightarrow> filter (\<lambda>r. hr_order_id r = j) (to_charge_rows i cs) = []"
  "trim i \<noteq> j \<Longrightarrow> filter (\<lambda>r. mr_order_id r = j) (to_metadata_rows i md) = []"
  "trim i \<noteq> j \<Longrightarrow> filter (\<lambda>r. kr_order_id r = j) (to_coupon_rows i ks) = []"
  "trim i \<noteq> j \<Longrightarrow> filter (\<lambda>r. sr_order_id r = j) (to_status_rows i n es) = []"
  "trim i \<noteq> j \<Longrightarrow> filter (\<lambda>r. cr_order_id r = j) (to_comment_rows i ms) = []"
  by (auto simp: filter_empty_conv to_item_rows_def to_charge_rows_def to_metadata_rows_def
      to_coupon_rows_def to_status_rows_def to_comment_rows_def)

lemma preserves_conj:
  "preserves I m \<Longrightarrow> preserves J m \<Longrightarrow> preserves (\<lambda>w. I w \<and> J w) m"
  by (simp add: preserves_def)

abbreviation same_rows :: "order_db \<Rightarrow> string \<Rightarrow> order_db \<Rightarrow> bool" where
  "same_rows d j w \<equiv> rows_of w j = rows_of d j"

lemma same_rows_inserts [preserves_intros]:
  "trim i \<noteq> j \<Longrightarrow> preserves (same_rows d j) (insert_items (to_item_rows i is))"
  "trim i \<noteq> j \<Longrightarrow> preserves (same_rows d j) (insert_charges (to_charge_rows i cs))"
  "trim i \<noteq> j \<Longrightarrow> preserves (same_rows d j) (insert_metadata (to_metadata_rows i md))"
  "trim i \<noteq> j \<Longrightarrow> preserves (same_rows d j) (insert_coupons (to_coupon_rows i ks))"
  "trim i \<noteq> j \<Longrightarrow> preserves (same_rows d j) (insert_address (to_address_row i a))"
  "trim i \<noteq> j \<Longrightarrow> preserves (same_rows d j) (insert_statuses l (\<lambda>n. to_status_rows i n es))"
  by (auto simp: preserves_def insert_items_def insert_charges_def insert_metadata_def insert_coupons_def
      insert_address_def insert_statuses_def insert_rows_def stmt_def ret_apply rows_of_def find_order_def
      address_of_def to_address_row_def Let_def)

lemma assign_comment_ids_order:
  "filter (\<lambda>r. cr_order_id r = j) rows = [] \<Longrightarrow>
    filter (\<lambda>r. cr_order_id r = j) (fst (assign_comment_ids n rows)) = []"
  by (induction n rows rule: assign_comment_ids.induct) (auto simp: Let_def split: prod.splits if_splits)

lemma same_rows_insert_comments [preserves_intros]:
  assumes "filter (\<lambda>r. cr_order_id r = j) rows = []"
  shows "preserves (same_rows d j) (insert_comments rows)"
  using assign_comment_ids_order[OF assms]
  by (auto simp: preserves_def insert_comments_def insert_rows_def stmt_def ret_apply rows_of_def find_order_def
      address_of_def split: prod.splits) (metis fst_conv)+

lemma find_filter: "(\<And>x. P x \<Longrightarrow> Q x) \<Longrightarrow> find P (filter Q xs) = find P xs"
  by (induction xs) auto

lemma filter_other: "i \<noteq> j \<Longrightarrow> filter (\<lambda>x. f x \<noteq> i \<and> f x = j) xs = filter (\<lambda>x. f x = j) xs"
  by (intro filter_cong) auto

lemma same_rows_deletes [preserves_intros]:
  assumes "i \<noteq> j"
  shows "preserves (same_rows d j) (delete_rows l (\<lambda>d. d\<lparr>db_items := filter (\<lambda>r. ir_order_id r \<noteq> i) (db_items d)\<rparr>))"
    "preserves (same_rows d j) (delete_rows l (\<lambda>d. d\<lparr>db_charges := filter (\<lambda>r. hr_order_id r \<noteq> i) (db_charges d)\<rparr>))"
    "preserves (same_rows d j) (delete_rows l (\<lambda>d. d\<lparr>db_coupons := filter (\<lambda>r. kr_order_id r \<noteq> i) (db_coupons d)\<rparr>))"
    "preserves (same_rows d j) (delete_rows l (\<lambda>d. d\<lparr>db_addresses := filter (\<lambda>r. ar_order_id r \<noteq> i) (db_addresses d)\<rparr>))"
  using assms
  by (auto intro!: preserves_delete_rows simp: rows_of_def find_order_def address_of_def rev_filter find_filter
      filter_other)

lemma find_order_touch:
  "i \<noteq> j \<Longrightarrow> find (\<lambda>r. or_id r = j \<and> or_deleted_at r = None)
     (map (\<lambda>r. if or_id r = i \<and> or_deleted_at r = None then r\<lparr>or_updated_at := t\<rparr> else r) rs)
   = find (\<lambda>r. or_id r = j \<and> or_deleted_at r = None) rs"
  by (induction rs) auto

lemma same_rows_touch [preserves_intros]:
  "i \<noteq> j \<Longrightarrow> preserves (same_rows d j) (touch_order i)"
  unfolding touch_order_def
  by (intro preserves_stmt preserves_modp) (simp add: rows_of_def find_order_def address_of_def find_order_touch)

lemma same_rows_update:
  "trim (o_id ord) \<noteq> j \<Longrightarrow> preserves (same_rows d j) (repo_update ord)"
  unfolding repo_update_def update_rows_def replace_address_def check_order_def
  by (intro preserves_intros) (auto simp: order_normalize_def)

lemma same_rows_append_status:
  "trim oid \<noteq> j \<Longrightarrow> preserves (same_rows d j) (repo_append_status oid e)"
  unfolding repo_append_status_def
  by (intro preserves_intros)
    (auto simp: preserves_def insert_statuses_def insert_rows_def stmt_def rows_of_def find_order_def
      address_of_def Let_def ret_apply)

lemma same_rows_append_comment:
  "trim oid \<noteq> j \<Longrightarrow> preserves (same_rows d j) (repo_append_comment oid c)"
  unfolding repo_append_comment_def by (intro preserves_intros) auto

lemma filter_other_order:
  "i \<noteq> j \<Longrightarrow> filter (\<lambda>x. (cr_order_id x = i \<longrightarrow> cr_id x \<noteq> n) \<and> cr_order_id x = j) xs
    = filter (\<lambda>x. cr_order_id x = j) xs"
  by (intro filter_cong) auto

lemma same_rows_delete_comment:
  "trim oid \<noteq> j \<Longrightarrow> preserves (same_rows d j) (repo_delete_comment oid cid)"
  unfolding repo_delete_comment_def
  by (intro preserves_intros)
    (auto simp: preserves_def rows_of_def find_order_def address_of_def filter_other_order)

lemma filter_save_comment:
  assumes "distinct (map cr_id cs)" "c' \<in> set cs" "cr_id c = cr_id c'"
    "cr_order_id c' \<noteq> j" "cr_order_id c \<noteq> j"
  shows "filter (\<lambda>r. cr_order_id r = j) (map (\<lambda>r. if cr_id r = cr_id c then c else r) cs)
    = filter (\<lambda>r. cr_order_id r = j) cs"
proof -
  have "r = c'" if "r \<in> set cs" "cr_id r = cr_id c" for r
    using that assms by (metis distinct_map inj_onD)
  then have "\<forall>r \<in> set cs. cr_id r = cr_id c \<longrightarrow> cr_order_id r \<noteq> j" using assms(4) by blast
  then show ?thesis using assms(5) by (induction cs) auto
qed

lemma edit_comment_row_ids [simp]:
  "cr_id (edit_comment_row c r) = cr_id r" "cr_order_id (edit_comment_row c r) = cr_order_id r"
  by (simp_all add: edit_comment_row_def)

lemma same_rows_update_comment:
  assumes "trim oid \<noteq> j" "db_ok w"
  shows "rows_of (snd (repo_update_comment oid cid c w)) j = rows_of w j"
proof -
  have "rows_of (save_comment (edit_comment_row c r) w) j = rows_of w j"
    if "find_comment w (trim oid) n = Some r" for r n
    using that assms filter_save_comment[of "db_comments w" r "edit_comment_row c r" j]
    by (auto simp: find_comment_def save_comment_def rows_of_def find_order_def
        address_of_def db_ok_defs dest!: find_SomeD)
  then show ?thesis
    by (auto simp: repo_update_comment_def Let_def prog_simps stmt_def lock_order_def
        readonly_repo_get[unfolded readonly_def] split: option.splits prod.splits sum.splits if_splits)
qed

text \<open>The statements of \<open>create_rows\<close> after the insertion of the order row.\<close>

definition create_relations :: "order \<Rightarrow> string \<Rightarrow> unit db_prog" where
  "create_relations e i =
     bindp (insert_items (to_item_rows i (o_items e))) (\<lambda>_.
     bindp (insert_metadata (to_metadata_rows i (o_metadata e))) (\<lambda>_.
     bindp (insert_statuses ''create order status records'' (\<lambda>n. to_status_rows i n (o_status_history e))) (\<lambda>_.
     bindp (insert_comments (to_comment_rows i (o_comments e))) (\<lambda>_.
     bindp (insert_charges (to_charge_rows i (o_shipping_charges e))) (\<lambda>_.
     bindp (if o_has_custom_shipping e
            then insert_address (to_address_row i (o_shipping_address e)) else ret ()) (\<lambda>_.
       insert_coupons (to_coupon_rows i (o_applied_coupons e))))))))"

lemma create_rows_split:
  "create_rows e r = atomically (bindp (insert_order r) (\<lambda>_. create_relations e (or_id r)))"
  by (simp add: create_rows_def create_relations_def)

lemma same_rows_create_relations: "trim i \<noteq> j \<Longrightarrow> preserves (same_rows d j) (create_relations e i)"
  unfolding create_relations_def by (intro preserves_intros) simp_all

text \<open>The row the database stores: unset timestamps are filled in.\<close>

definition stamped_row :: "order_db \<Rightarrow> order_row \<Rightarrow> order_row" where
  "stamped_row d r = r\<lparr>or_created_at := (if or_created_at r = 0 then db_clock d else or_created_at r),
     or_updated_at := (if or_updated_at r = 0 then db_clock d else or_updated_at r)\<rparr>"

lemma insert_order_Inr_iff:
  "insert_order r w = (Inr u, w') \<longleftrightarrow> \<not> db_fault w ''create order record''
    \<and> or_id r \<notin> or_id ` set (db_orders w)
    \<and> (or_realm r, or_identifier r) \<notin> (\<lambda>x. (or_realm x, or_identifier x)) ` set (db_orders w)
    \<and> w' = w\<lparr>db_orders := db_orders w @ [stamped_row w r]\<rparr>"
  by (auto simp: insert_order_def stmt_def stamped_row_def)

lemma rows_of_create_rows:
  assumes "find_order w j = Some x" "trim (or_id r) = or_id r"
  shows "rows_of (snd (create_rows e r w)) j = rows_of w j"
proof (cases "create_rows e r w")
  case (Pair res w')
  show ?thesis
  proof (cases res)
    case (Inl err)
    with Pair show ?thesis by (auto simp: create_rows_split dest: atomically_Inl)
  next
    case (Inr u)
    then obtain w1 where w1: "insert_order r w = (Inr (), w1)" "create_relations e (or_id r) w1 = (Inr u, w')"
      using Pair by (auto simp: create_rows_split atomically_Inr_iff bindp_Inr_iff)
    then have new: "or_id r \<notin> or_id ` set (db_orders w)" "w1 = w\<lparr>db_orders := db_orders w @ [stamped_row w r]\<rparr>"
      by (simp_all add: insert_order_Inr_iff)
    have "or_id r \<noteq> j" using new(1) find_order_SomeD[OF assms(1)] by auto
    moreover have "find_order w1 j = find_order w j"
      using assms(1) new(2) by (simp add: find_order_def find_append)
    then have "rows_of w1 j = rows_of w j"
      using new(2) by (simp add: rows_of_def address_of_def)
    ultimately have "or_id r \<noteq> j" "rows_of w1 j = rows_of w j" by simp_all
    then show ?thesis
      using preservesD[OF same_rows_create_relations, of "or_id r" j w1 w1 e "Inr u" w'] w1(2) Pair assms(2) by (metis snd_conv)
  qed
qed

text \<open>Generated order identifiers carry no surrounding blanks (they are hexadecimal).\<close>

definition random_trimmed :: "order_db \<Rightarrow> bool" where
  "random_trimmed d \<longleftrightarrow> trim (db_random d (db_random_next d)) = db_random d (db_random_next d)"

lemma rows_of_random [simp]: "rows_of (w\<lparr>db_random_next := n\<rparr>) j = rows_of w j"
  by (simp add: rows_of_def find_order_def address_of_def)

lemma find_order_random [simp]: "find_order (w\<lparr>db_random_next := n\<rparr>) j = find_order w j"
  by (simp add: find_order_def)

lemma snd_bindp_readonly: "(\<And>x. readonly (f x)) \<Longrightarrow> snd (bindp m f w) = snd (m w)"
  by (auto simp: readonly_def prog_simps split: prod.splits sum.splits)

lemma fresh_order_id_apply:
  "fresh_order_id w = (Inr (db_random w (db_random_next w)), w\<lparr>db_random_next := Suc (db_random_next w)\<rparr>)"
  by (simp add: fresh_order_id_def prog_simps)

lemma same_rows_create:
  assumes "find_order w j = Some r" "random_trimmed w"
  shows "rows_of (snd (repo_create ord w)) j = rows_of w j"
proof (cases "order_validate (order_normalize ord)")
  case (Some err)
  then show ?thesis by (simp add: repo_create_def Let_def check_order_def prog_simps)
next
  case None
  define e where "e = order_normalize ord"
  define x where "x = to_order_row e"
  obtain i w1 where i: "(if trim (or_id x) = [] then fresh_order_id else ret (or_id x)) w = (Inr i, w1)"
    by (cases "trim (or_id x) = []") (simp_all add: fresh_order_id_apply ret_apply)
  then have w1: "trim i = i" "find_order w1 j = Some r" "rows_of w1 j = rows_of w j"
    using assms by (auto simp: fresh_order_id_apply ret_apply random_trimmed_def x_def to_order_row_def split: if_splits)
  have "bindp (check_order e) f w = f () w" for f :: "unit \<Rightarrow> order db_prog"
    using None by (simp add: check_order_def prog_simps e_def)
  then have "repo_create ord w = bindp (create_rows e (x\<lparr>or_id := i\<rparr>)) (\<lambda>_. repo_get i) w1"
    unfolding repo_create_def Let_def e_def[symmetric] x_def[symmetric]
    by (simp only: bindp_apply[of "if _ then _ else _"] i prod.case sum.case)
  then have "snd (repo_create ord w) = snd (create_rows e (x\<lparr>or_id := i\<rparr>) w1)"
    by (simp add: snd_bindp_readonly readonly_repo_get)
  then show ?thesis
    using rows_of_create_rows[of w1 j r "x\<lparr>or_id := i\<rparr>" e] w1 by simp
qed

text \<open>A repository write leaves every other order as it was: an existing order that is not the target
  of the write reads the same before and after it, in every field and relation.\<close>

theorem writes_keep_other_orders:
  assumes "db_ok d" and "random_trimmed d" and "order_view d j = Some v"
    and "write_target w \<noteq> Some j"
  shows "order_view (snd (run_write w d)) j = Some v"
proof -
  obtain r where r: "find_order d j = Some r" using assms(3) by (auto simp: order_view_def)
  have "rows_of (snd (run_write w d)) j = rows_of d j"
  proof (cases w)
    case (Create ord)
    then show ?thesis using same_rows_create[OF r assms(2)] by simp
  next
    case (UpdateComment oid cid c)
    then show ?thesis using same_rows_update_comment[of oid j d] assms by simp
  next
    case (Update ord)
    then show ?thesis using same_rows_update[of ord j d] assms by (simp add: preserves_def)
  next
    case (AppendStatus oid e)
    then show ?thesis using same_rows_append_status[of oid j d] assms by (simp add: preserves_def)
  next
    case (AppendComment oid c)
    then show ?thesis using same_rows_append_comment[of oid j d] assms by (simp add: preserves_def)
  next
    case (DeleteComment oid cid)
    then show ?thesis using same_rows_delete_comment[of oid j d] assms by (simp add: preserves_def)
  qed
  with assms(3) order_view_rows show ?thesis by metis
qed

section \<open>Applications to a sample store\<close>

text \<open>A store with two orders, \<open>a\<close> and \<open>b\<close>, and no failing statements.\<close>

definition sample_entry :: "string \<Rightarrow> gotime \<Rightarrow> status_entry" where
  "sample_entry s t = \<lparr>se_status = s, se_author = ''ana'', se_description = [], se_note_owner = [],
     se_note = [], se_occurred_at = t\<rparr>"

definition sample_row :: "string \<Rightarrow> string \<Rightarrow> order_row" where
  "sample_row i idt = \<lparr>or_id = i, or_identifier = idt, or_realm = ''shop'', or_contact_id = ''c1'',
     or_payment_method = [], or_created_at = 50, or_updated_at = 50, or_deleted_at = None\<rparr>"

definition sample_status :: "nat \<Rightarrow> string \<Rightarrow> int \<Rightarrow> string \<Rightarrow> gotime \<Rightarrow> status_row" where
  "sample_status n i p s t = \<lparr>sr_id = n, sr_order_id = i, sr_position = p, sr_status = s, sr_author = ''ana'',
     sr_description = [], sr_note_owner = [], sr_note = [], sr_occurred_at = t\<rparr>"

definition sample_item :: "string \<Rightarrow> item_row" where
  "sample_item i = \<lparr>ir_order_id = i, ir_position = 0, ir_sku = ''A'', ir_alternate_name = [], ir_quantity = 2,
     ir_value = 5, ir_product_id = None, ir_source = source_unresolved\<rparr>"

definition sample_comment_row :: "nat \<Rightarrow> string \<Rightarrow> comment_row" where
  "sample_comment_row n i = \<lparr>cr_id = n, cr_order_id = i, cr_author = ''ana'', cr_text = ''call'',
     cr_internal = True, cr_occurred_at = 60\<rparr>"

definition sample_db :: order_db where
  "sample_db = \<lparr>db_orders = [sample_row ''a'' ''1001'', sample_row ''b'' ''1002''],
     db_items = [sample_item ''a'', sample_item ''b''],
     db_statuses = [sample_status 1 ''a'' 0 status_created 50, sample_status 2 ''b'' 0 status_created 50,
                    sample_status 3 ''a'' 1 status_pending 70],
     db_comments = [sample_comment_row 1 ''a'', sample_comment_row 2 ''b''], db_addresses = [],
     db_charges = [], db_metadata = [], db_coupons = [], db_next_status = 4, db_next_comment = 3,
     db_clock = 100, db_random = (\<lambda>n. replicate (Suc n) CHR ''f''), db_random_next = 0, db_fault = (\<lambda>_. False),
     db_dup_message = ''UNIQUE constraint failed: orders.realm, orders.identifier'', db_dup_typed = False\<rparr>"

lemma sample_db_ok: "db_ok sample_db" by code_simp

lemma sample_reads: "reads_work sample_db \<and> random_trimmed sample_db" by code_simp

definition sample_view :: order where
  "sample_view = the (order_view sample_db ''a'')"

lemma sample_get: "repo_get ''a'' sample_db = (Inr sample_view, sample_db)"
proof -
  have "order_view sample_db (trim ''a'') \<noteq> None" "trim ''a'' = ''a''" by code_simp+
  then show ?thesis using sample_reads by (auto simp: repo_get_Inr_iff sample_view_def)
qed

theorem current_status_is_last_entry_witness:
  "o_current_status sample_view = status_pending \<and> map se_occurred_at (o_status_history sample_view) = [50, 70]"
proof -
  have "map se_occurred_at (o_status_history sample_view) = [50, 70]"
    "se_status (last (o_status_history sample_view)) = status_pending" "o_status_history sample_view \<noteq> []" by code_simp+
  then show ?thesis using current_status_is_last_entry[OF sample_db_ok sample_get] by simp
qed

text \<open>Appending to an order that exists succeeds when the driver does: the position it takes is free.\<close>

lemma repo_append_status_succeeds:
  assumes "db_ok d" "order_view d (trim oid) = Some v" "db_fault d = (\<lambda>_. False)"
  shows "\<exists>after. repo_append_status oid e d = (Inr after, append_status_db (trim oid) e d)"
proof -
  let ?i = "trim oid" and ?d' = "append_status_db (trim oid) e d"
  obtain r where r: "find_order d ?i = Some r" using assms(2) by (auto simp: order_view_def)
  then have "find_order ?d' ?i = Some r" by (simp add: find_order_def append_status_db_def)
  moreover have "reads_work ?d'"
    using assms(3) by (simp add: reads_work_def append_status_db_def list_all_iff)
  ultimately have get: "repo_get ?i ?d' = (Inr (row_view ?d' r), ?d')"
    by (simp add: repo_get_Inr_iff order_view_def)
  have "distinct (map (\<lambda>r. (sr_order_id r, sr_position r)) (db_statuses d @ [appended_row d ?i e]))"
    using db_ok_append_status[OF assms(1), of ?i e] by (simp add: db_ok_def statuses_ok_def append_status_db_def)
  then have "insert_statuses ''append order status record'' (\<lambda>n. [(appended_row d ?i e)\<lparr>sr_id := n\<rparr>]) d = (Inr (), ?d')"
    using assms(3) by (simp add: insert_statuses_def insert_rows_def stmt_def append_status_db_def appended_row_def)
  then show ?thesis
    using r get assms(3)
    by (simp add: repo_append_status_def Let_def prog_simps stmt_def lock_order_def appended_row_def)
qed

lemma sample_append:
  obtains after where "repo_append_status ''a'' (sample_entry status_completed 60) sample_db
    = (Inr after, append_status_db ''a'' (sample_entry status_completed 60) sample_db)"
proof -
  have "trim ''a'' = ''a''" by code_simp
  moreover have "order_view sample_db ''a'' = Some sample_view"
    using sample_get \<open>trim ''a'' = ''a''\<close> by (simp add: repo_get_Inr_iff)
  moreover have "db_fault sample_db = (\<lambda>_. False)" by (simp add: sample_db_def)
  ultimately show ?thesis
    using repo_append_status_succeeds[OF sample_db_ok, of "''a''" sample_view "sample_entry status_completed 60"] that
    by auto
qed

theorem append_status_result_witness:
  "\<exists>after d'. repo_append_status ''a'' (sample_entry status_completed 60) sample_db = (Inr after, d')
    \<and> map se_status (o_status_history after) = [status_created, status_completed, status_pending]"
proof -
  obtain after where a: "repo_append_status ''a'' (sample_entry status_completed 60) sample_db
    = (Inr after, append_status_db ''a'' (sample_entry status_completed 60) sample_db)" by (rule sample_append)
  have "map se_status (sort_key se_occurred_at (o_status_history sample_view @ [normalize_entry (sample_entry status_completed 60)]))
    = [status_created, status_completed, status_pending]" by code_simp
  then show ?thesis
    using append_status_result[OF sample_db_ok sample_get a] a by simp
qed


theorem run_writes_keep_invariant_witness:
  "db_ok (run_writes [AppendStatus ''a'' (sample_entry status_completed 60), DeleteComment ''b'' ''2'',
     AppendStatus ''missing'' (sample_entry status_hold 80)] sample_db)"
  by (rule run_writes_keep_invariant[OF sample_db_ok])

theorem writes_keep_other_orders_witness:
  "order_view (snd (run_write (DeleteComment ''b'' ''2'') sample_db)) ''a'' = Some sample_view"
proof -
  have "trim ''b'' = ''b''" "trim ''a'' = ''a''" by code_simp+
  then show ?thesis
    using writes_keep_other_orders[of sample_db "''a''" sample_view "DeleteComment ''b'' ''2''"]
      sample_db_ok sample_reads sample_get by (simp add: repo_get_Inr_iff)
qed

end
