(* ===== verification/Orders_Roundtrip.thy ===== *)
theory Orders_Roundtrip
  imports Orders_Repository
begin

text \<open>
  Writing and reading back: what an order reads as after its creation, referential integrity of the
  relation tables, the effect of editing and deleting comments, and how unique-index errors of the
  database are reported.
\<close>

section \<open>Insertions as table updates\<close>

lemma insert_rows_Inr:
  assumes "insert_rows l key rows get upd d = (Inr u, d')" "upd (\<lambda>t. t) d = d"
  shows "d' = upd (\<lambda>t. t @ rows) d"
  using assms by (auto simp: insert_rows_def stmt_def ret_apply split: if_splits)

lemma insert_items_Inr: "insert_items rows d = (Inr u, d') \<Longrightarrow> d' = d\<lparr>db_items := db_items d @ rows\<rparr>"
  unfolding insert_items_def by (drule insert_rows_Inr) simp_all

lemma insert_charges_Inr: "insert_charges rows d = (Inr u, d') \<Longrightarrow> d' = d\<lparr>db_charges := db_charges d @ rows\<rparr>"
  unfolding insert_charges_def by (drule insert_rows_Inr) simp_all

lemma insert_metadata_Inr: "insert_metadata rows d = (Inr u, d') \<Longrightarrow> d' = d\<lparr>db_metadata := db_metadata d @ rows\<rparr>"
  unfolding insert_metadata_def by (drule insert_rows_Inr) simp_all

lemma insert_coupons_Inr: "insert_coupons rows d = (Inr u, d') \<Longrightarrow> d' = d\<lparr>db_coupons := db_coupons d @ rows\<rparr>"
  unfolding insert_coupons_def by (drule insert_rows_Inr) simp_all

lemma insert_address_Inr: "insert_address r d = (Inr u, d') \<Longrightarrow> d' = d\<lparr>db_addresses := db_addresses d @ [r]\<rparr>"
  unfolding insert_address_def by (drule insert_rows_Inr) simp_all

lemma insert_statuses_Inr:
  "insert_statuses l mk d = (Inr u, d') \<Longrightarrow> d' = d\<lparr>db_statuses := db_statuses d @ mk (db_next_status d),
     db_next_status := db_next_status d + length (mk (db_next_status d))\<rparr>"
  unfolding insert_statuses_def Let_def by (auto simp: insert_rows_def stmt_def ret_apply split: if_splits)

lemma insert_comments_Inr:
  "insert_comments rows d = (Inr u, d') \<Longrightarrow>
    d' = d\<lparr>db_comments := db_comments d @ fst (assign_comment_ids (db_next_comment d) rows),
           db_next_comment := (if rows = [] then db_next_comment d else snd (assign_comment_ids (db_next_comment d) rows))\<rparr>"
  by (cases rows) (auto simp: insert_comments_def insert_rows_def stmt_def ret_apply Let_def split: prod.splits if_splits)

lemmas insert_Inr = insert_items_Inr insert_charges_Inr insert_metadata_Inr insert_coupons_Inr
  insert_address_Inr insert_statuses_Inr insert_comments_Inr

text \<open>The tables after all relation rows of a new order are inserted.\<close>

definition created_db :: "order \<Rightarrow> string \<Rightarrow> order_db \<Rightarrow> order_db" where
  "created_db e i d = d\<lparr>
     db_items := db_items d @ to_item_rows i (o_items e),
     db_metadata := db_metadata d @ to_metadata_rows i (o_metadata e),
     db_statuses := db_statuses d @ to_status_rows i (db_next_status d) (o_status_history e),
     db_next_status := db_next_status d + length (o_status_history e),
     db_comments := db_comments d @ fst (assign_comment_ids (db_next_comment d) (to_comment_rows i (o_comments e))),
     db_next_comment := (if o_comments e = [] then db_next_comment d
       else snd (assign_comment_ids (db_next_comment d) (to_comment_rows i (o_comments e)))),
     db_charges := db_charges d @ to_charge_rows i (o_shipping_charges e),
     db_addresses := db_addresses d @ (if o_has_custom_shipping e
       then [to_address_row i (o_shipping_address e)] else []),
     db_coupons := db_coupons d @ to_coupon_rows i (o_applied_coupons e)\<rparr>"

lemma length_to_status_rows [simp]: "length (to_status_rows i n es) = length es"
  by (simp add: to_status_rows_def)

lemma to_comment_rows_Nil [simp]: "to_comment_rows i cs = [] \<longleftrightarrow> cs = []"
  by (simp add: to_comment_rows_def)

lemma create_relations_Inr:
  assumes "create_relations e i d = (Inr u, d')"
  shows "d' = created_db e i d"
  using assms unfolding create_relations_def
  by (cases "o_has_custom_shipping e")
    (auto simp: prog_Inr_iffs created_db_def dest!: insert_Inr)

section \<open>Referential integrity\<close>

definition referenced_orders :: "order_db \<Rightarrow> string set" where
  "referenced_orders d = ir_order_id ` set (db_items d) \<union> sr_order_id ` set (db_statuses d)
     \<union> cr_order_id ` set (db_comments d) \<union> ar_order_id ` set (db_addresses d)
     \<union> hr_order_id ` set (db_charges d) \<union> mr_order_id ` set (db_metadata d)
     \<union> kr_order_id ` set (db_coupons d)"

definition refs_ok :: "order_db \<Rightarrow> bool" where
  "refs_ok d \<longleftrightarrow> referenced_orders d \<subseteq> or_id ` set (db_orders d)"


section \<open>Rows and aggregates\<close>



















section \<open>Creating an order\<close>

lemma normalize_after_to_status_entry [simp]: "normalize_entry \<circ> to_status_entry = to_status_entry"
  by (rule ext) simp


definition new_order_id :: "order_db \<Rightarrow> order \<Rightarrow> string" where
  "new_order_id d ord = (if trim (o_id ord) = [] then db_random d (db_random_next d) else trim (o_id ord))"



lemma new_order_id_trimmed: "random_trimmed d \<Longrightarrow> trim (new_order_id d ord) = new_order_id d ord"
  by (simp add: new_order_id_def random_trimmed_def)

lemma created_db_find [simp]: "find_order (created_db e i d) j = find_order d j"
  by (simp add: created_db_def find_order_def)


section \<open>References stay intact\<close>

text \<open>The relation rows refer to stored orders, and generated identifiers are \<open>f 0, f 1, \<dots>\<close>.\<close>

definition linked :: "(nat \<Rightarrow> string) \<Rightarrow> order_db \<Rightarrow> bool" where
  "linked f d \<longleftrightarrow> refs_ok d \<and> db_random d = f"

definition linked_at :: "(nat \<Rightarrow> string) \<Rightarrow> string \<Rightarrow> order_db \<Rightarrow> bool" where
  "linked_at f i d \<longleftrightarrow> linked f d \<and> i \<in> or_id ` set (db_orders d)"

lemmas linked_defs = linked_at_def linked_def refs_ok_def referenced_orders_def

lemma order_ids_of_rows:
  "ir_order_id ` set (to_item_rows i is) \<subseteq> {trim i}" "hr_order_id ` set (to_charge_rows i cs) \<subseteq> {trim i}"
  "kr_order_id ` set (to_coupon_rows i ks) \<subseteq> {trim i}"
  by (auto simp: to_item_rows_def to_charge_rows_def to_coupon_rows_def)

lemma referenced_append:
  "referenced_orders (d\<lparr>db_items := db_items d @ is\<rparr>) = ir_order_id ` set is \<union> referenced_orders d"
  "referenced_orders (d\<lparr>db_charges := db_charges d @ hs\<rparr>) = hr_order_id ` set hs \<union> referenced_orders d"
  "referenced_orders (d\<lparr>db_coupons := db_coupons d @ ks\<rparr>) = kr_order_id ` set ks \<union> referenced_orders d"
  "referenced_orders (d\<lparr>db_addresses := db_addresses d @ [a]\<rparr>) = insert (ar_order_id a) (referenced_orders d)"
  by (simp_all add: referenced_orders_def image_Un ac_simps)

lemma linked_at_append:
  assumes "linked_at f i d"
  shows "ir_order_id ` set is \<subseteq> {i} \<Longrightarrow> linked_at f i (d\<lparr>db_items := db_items d @ is\<rparr>)"
    and "hr_order_id ` set hs \<subseteq> {i} \<Longrightarrow> linked_at f i (d\<lparr>db_charges := db_charges d @ hs\<rparr>)"
    and "kr_order_id ` set ks \<subseteq> {i} \<Longrightarrow> linked_at f i (d\<lparr>db_coupons := db_coupons d @ ks\<rparr>)"
    and "ar_order_id a = i \<Longrightarrow> linked_at f i (d\<lparr>db_addresses := db_addresses d @ [a]\<rparr>)"
  using assms by (auto simp: linked_at_def linked_def refs_ok_def referenced_append)

lemma linked_inserts [preserves_intros]:
  "preserves (linked_at f (trim i)) (insert_items (to_item_rows i is))"
  "preserves (linked_at f (trim i)) (insert_charges (to_charge_rows i cs))"
  "preserves (linked_at f (trim i)) (insert_coupons (to_coupon_rows i ks))"
  "preserves (linked_at f (trim i)) (insert_address (to_address_row i a))"
  unfolding insert_items_def insert_charges_def insert_coupons_def insert_address_def
  by (intro preserves_insert_rows linked_at_append order_ids_of_rows; simp add: to_address_row_def)+

lemma linked_statuses [preserves_intros]:
  "preserves (linked_at f i) (insert_statuses l (\<lambda>n. [row n]))" if "\<And>n. sr_order_id (row n) = i"
  using that by (auto simp: preserves_def insert_statuses_def insert_rows_def stmt_def linked_defs Let_def)

lemma linked_comment [preserves_intros]:
  "cr_order_id r = i \<Longrightarrow> preserves (linked_at f i) (insert_comments [r])"
  by (auto simp: preserves_def insert_comments_def insert_rows_def stmt_def linked_defs Let_def)

lemma linked_deletes [preserves_intros]:
  "preserves (linked_at f i) (delete_rows l (\<lambda>d. d\<lparr>db_items := filter p1 (db_items d)\<rparr>))"
  "preserves (linked_at f i) (delete_rows l (\<lambda>d. d\<lparr>db_charges := filter p2 (db_charges d)\<rparr>))"
  "preserves (linked_at f i) (delete_rows l (\<lambda>d. d\<lparr>db_addresses := filter p3 (db_addresses d)\<rparr>))"
  "preserves (linked_at f i) (delete_rows l (\<lambda>d. d\<lparr>db_coupons := filter p4 (db_coupons d)\<rparr>))"
  by (intro preserves_delete_rows; auto simp: linked_defs)+

lemma or_ids_touch: "or_id ` set (map (\<lambda>r. if P r then r\<lparr>or_updated_at := t\<rparr> else r) rs) = or_id ` set rs"
  by (induction rs) auto

lemma linked_at_orders:
  "or_id ` set rs = or_id ` set (db_orders d) \<Longrightarrow> linked_at f i d \<Longrightarrow> linked_at f i (d\<lparr>db_orders := rs\<rparr>)"
  by (simp add: linked_defs)

lemma linked_touch [preserves_intros]: "preserves (linked_at f i) (touch_order j)"
  unfolding touch_order_def by (intro preserves_stmt preserves_modp linked_at_orders or_ids_touch)

lemma linked_after_lock:
  assumes "preserves (linked_at f i) m"
  shows "preserves (linked f) (bindp (lock_order i) (\<lambda>_. m))"
proof (rule preservesI)
  fix w assume w: "linked f w"
  have "linked_at f i w" if "find_order w i = Some r" for r
    using w find_order_SomeD[OF that] by (auto simp: linked_at_def)
  with assms w show "linked f (snd (bindp (lock_order i) (\<lambda>_. m) w))"
    by (auto simp: lock_order_def stmt_def prog_simps preserves_def linked_at_def split: option.splits)
qed

lemma linked_update: "preserves (linked f) (repo_update ord)"
proof -
  have "trim (o_id (order_normalize ord)) = o_id (order_normalize ord)" by (simp add: order_normalize_def)
  note linked_inserts[of f "o_id (order_normalize ord)", unfolded this, preserves_intros]
  show ?thesis
    unfolding repo_update_def check_order_def update_rows_def replace_address_def Let_def
    by (intro preserves_intros linked_after_lock)
qed

lemma linked_append_status: "preserves (linked f) (repo_append_status oid e)"
  unfolding repo_append_status_def Let_def by (intro preserves_intros linked_after_lock) simp

lemma linked_append_comment: "preserves (linked f) (repo_append_comment oid c)"
  unfolding repo_append_comment_def Let_def
  by (intro preserves_bindp[OF preserves_atomically preserves_repo_get] linked_after_lock
      preserves_wrap_err linked_comment) simp

lemma linked_comment_rows:
  "linked f d \<Longrightarrow> cr_order_id ` set cs \<subseteq> cr_order_id ` set (db_comments d) \<Longrightarrow> linked f (d\<lparr>db_comments := cs\<rparr>)"
proof -
  assume a: "linked f d" "cr_order_id ` set cs \<subseteq> cr_order_id ` set (db_comments d)"
  then have "referenced_orders (d\<lparr>db_comments := cs\<rparr>) \<subseteq> referenced_orders d"
    unfolding referenced_orders_def by auto
  with a(1) show ?thesis by (auto simp: linked_def refs_ok_def)
qed

lemma linked_delete_comment: "preserves (linked f) (repo_delete_comment oid cid)"
proof -
  have "linked f d \<Longrightarrow> linked f (d\<lparr>db_comments := filter P (db_comments d)\<rparr>)" for d P
    by (rule linked_comment_rows) auto
  then show ?thesis
    by (auto simp: preserves_def repo_delete_comment_def Let_def prog_simps stmt_def lock_order_def
        readonly_repo_get[unfolded readonly_def] split: option.splits prod.splits sum.splits if_splits)
qed

lemma linked_update_comment: "preserves (linked f) (repo_update_comment oid cid c)"
proof -
  have "linked f (save_comment (edit_comment_row c r) d)" if "find_comment d i n = Some r" "linked f d" for d i n r
    using that unfolding save_comment_def find_comment_def
    by (intro linked_comment_rows) (auto dest!: find_SomeD)
  then show ?thesis
    by (auto simp: preserves_def repo_update_comment_def Let_def prog_simps stmt_def lock_order_def
        readonly_repo_get[unfolded readonly_def] split: option.splits prod.splits sum.splits if_splits)
qed

lemma order_ids_assigned: "map cr_order_id (fst (assign_comment_ids n rows)) = map cr_order_id rows"
  by (induction n rows rule: assign_comment_ids.induct) (auto simp: Let_def split: prod.splits)

lemma referenced_subsetI:
  "\<lbrakk>ir_order_id ` set (db_items d) \<subseteq> S; sr_order_id ` set (db_statuses d) \<subseteq> S;
    cr_order_id ` set (db_comments d) \<subseteq> S; ar_order_id ` set (db_addresses d) \<subseteq> S;
    hr_order_id ` set (db_charges d) \<subseteq> S; mr_order_id ` set (db_metadata d) \<subseteq> S;
    kr_order_id ` set (db_coupons d) \<subseteq> S\<rbrakk> \<Longrightarrow> referenced_orders d \<subseteq> S"
  by (simp add: referenced_orders_def)

lemma referenced_tables:
  "ir_order_id ` set (db_items d) \<subseteq> insert i (referenced_orders d)"
  "sr_order_id ` set (db_statuses d) \<subseteq> insert i (referenced_orders d)"
  "cr_order_id ` set (db_comments d) \<subseteq> insert i (referenced_orders d)"
  "ar_order_id ` set (db_addresses d) \<subseteq> insert i (referenced_orders d)"
  "hr_order_id ` set (db_charges d) \<subseteq> insert i (referenced_orders d)"
  "mr_order_id ` set (db_metadata d) \<subseteq> insert i (referenced_orders d)"
  "kr_order_id ` set (db_coupons d) \<subseteq> insert i (referenced_orders d)"
  by (auto simp: referenced_orders_def)

lemma order_ids_of_new_rows:
  "ir_order_id ` set (to_item_rows i is) \<subseteq> insert (trim i) R" "hr_order_id ` set (to_charge_rows i hs) \<subseteq> insert (trim i) R"
  "kr_order_id ` set (to_coupon_rows i ks) \<subseteq> insert (trim i) R" "sr_order_id ` set (to_status_rows i n es) \<subseteq> insert (trim i) R"
  "mr_order_id ` set (to_metadata_rows i md) \<subseteq> insert (trim i) R"
  "cr_order_id ` set (fst (assign_comment_ids n (to_comment_rows i cs))) \<subseteq> insert (trim i) R"
proof -
  have "set (map cr_order_id (to_comment_rows i cs)) \<subseteq> {trim i}"
    by (auto simp: to_comment_rows_def)
  then have "set (map cr_order_id (fst (assign_comment_ids n (to_comment_rows i cs)))) \<subseteq> {trim i}"
    by (simp only: order_ids_assigned)
  then show "cr_order_id ` set (fst (assign_comment_ids n (to_comment_rows i cs))) \<subseteq> insert (trim i) R"
    by auto
qed (auto simp: to_item_rows_def to_charge_rows_def to_coupon_rows_def to_status_rows_def to_metadata_rows_def)

lemma referenced_created: "referenced_orders (created_db e i d) \<subseteq> insert (trim i) (referenced_orders d)"
  by (rule referenced_subsetI)
    (simp_all add: created_db_def image_Un referenced_tables order_ids_of_new_rows, auto simp: to_address_row_def)

lemma linked_create_rows:
  assumes "linked f w" "trim (or_id r) = or_id r"
  shows "linked f (snd (create_rows e r w))"
proof (cases "create_rows e r w")
  case (Pair res w')
  show ?thesis
  proof (cases res)
    case (Inl err)
    with Pair assms show ?thesis by (auto simp: create_rows_split dest: atomically_Inl)
  next
    case (Inr u)
    then obtain w1 where w1: "insert_order r w = (Inr (), w1)" "create_relations e (or_id r) w1 = (Inr u, w')"
      using Pair by (auto simp: create_rows_split atomically_Inr_iff bindp_Inr_iff)
    then have new: "w1 = w\<lparr>db_orders := db_orders w @ [stamped_row w r]\<rparr>" "w' = created_db e (or_id r) w1"
      by (simp_all add: insert_order_Inr_iff create_relations_Inr)
    have "referenced_orders w1 = referenced_orders w" by (simp add: new(1) referenced_orders_def)
    with referenced_created[of e "or_id r" w1] have "referenced_orders w' \<subseteq> insert (or_id r) (referenced_orders w)"
      by (simp add: new(2) assms(2))
    moreover have "or_id ` set (db_orders w') = insert (or_id r) (or_id ` set (db_orders w))" "db_random w' = db_random w"
      by (simp_all add: new created_db_def stamped_row_def)
    ultimately have "linked f w'"
      using assms(1) unfolding linked_def refs_ok_def by blast
    with Pair show ?thesis by simp
  qed
qed

definition order_id_taken :: "order \<Rightarrow> order_db \<Rightarrow> order_db" where
  "order_id_taken ord w = w\<lparr>db_random_next :=
     (if trim (o_id ord) = [] then Suc (db_random_next w) else db_random_next w)\<rparr>"

definition new_order_row :: "order_db \<Rightarrow> order \<Rightarrow> order_row" where
  "new_order_row w ord = (to_order_row (order_normalize ord))\<lparr>or_id := new_order_id w ord\<rparr>"

lemma repo_create_eq:
  assumes "order_validate (order_normalize ord) = None"
  shows "repo_create ord w = bindp (create_rows (order_normalize ord) (new_order_row w ord))
     (\<lambda>_. repo_get (new_order_id w ord)) (order_id_taken ord w)"
proof -
  define e where "e = order_normalize ord"
  define x where "x = to_order_row e"
  have x: "or_id x = trim (o_id ord)"
    by (simp add: x_def e_def to_order_row_def order_normalize_def)
  have choose: "(if trim (or_id x) = [] then fresh_order_id else ret (or_id x)) w = (Inr (new_order_id w ord), order_id_taken ord w)"
    by (simp add: x fresh_order_id_apply ret_apply new_order_id_def order_id_taken_def)
  have "bindp (check_order e) f w = f () w" for f :: "unit \<Rightarrow> order db_prog"
    using assms by (simp add: check_order_def prog_simps e_def)
  then show ?thesis
    unfolding repo_create_def Let_def new_order_row_def e_def[symmetric] x_def[symmetric]
    by (simp only: bindp_apply[of "if trim _ = _ then _ else _"] choose prod.case sum.case)
qed

lemma repo_create_state:
  "snd (repo_create ord w) = (if order_validate (order_normalize ord) = None
     then snd (create_rows (order_normalize ord) (new_order_row w ord) (order_id_taken ord w)) else w)"
proof (cases "order_validate (order_normalize ord)")
  case None
  then show ?thesis by (simp add: repo_create_eq snd_bindp_readonly readonly_repo_get)
next
  case (Some err)
  then show ?thesis by (simp add: repo_create_def Let_def check_order_def prog_simps)
qed

lemma linked_create:
  assumes "linked f d" "trim (f (db_random_next d)) = f (db_random_next d)"
  shows "linked f (snd (repo_create ord d))"
proof -
  have "linked f (order_id_taken ord d)"
    using assms(1) by (simp add: linked_defs order_id_taken_def)
  moreover have "trim (new_order_id d ord) = new_order_id d ord"
    using assms by (intro new_order_id_trimmed) (simp add: random_trimmed_def linked_def)
  ultimately show ?thesis
    using assms(1) by (simp add: repo_create_state linked_create_rows new_order_row_def)
qed

text \<open>Provided the generated order identifiers carry no surrounding blanks, no sequence of repository
  writes leaves a relation row that refers to an order which is not stored.\<close>

theorem run_writes_keep_references:
  assumes "refs_ok d" and "\<forall>n. trim (db_random d n) = db_random d n"
  shows "refs_ok (run_writes ws d)"
proof -
  have step: "linked (db_random d) (snd (run_write w x))" if "linked (db_random d) x" for w x
  proof (cases w)
    case (Create ord)
    then show ?thesis using that assms(2) by (simp add: linked_create)
  qed (use that linked_update linked_append_status linked_append_comment linked_update_comment
        linked_delete_comment in \<open>simp_all add: preserves_def\<close>)
  have "linked (db_random d) x \<Longrightarrow> linked (db_random d) (run_writes ws x)" for x
    by (induction ws arbitrary: x) (simp_all add: run_writes_def step)
  with assms(1) show ?thesis by (simp add: linked_def)
qed

section \<open>Applications to the sample store\<close>

definition sample_order :: order where
  "sample_order = \<lparr>o_id = [], o_identifier = '' 1003'', o_realm = ''shop'', o_contact_id = ''c1'',
     o_items = [\<lparr>it_sku = ''B '', it_alternate_name = [], it_quantity = 2, it_value = 5, it_product_id = [],
                 it_source = source_unresolved\<rparr>],
     o_current_status = status_created,
     o_status_history = [sample_entry status_pending 90, sample_entry status_created 80],
     o_comments = [\<lparr>cm_id = [], cm_author = ''ana'', cm_text = '' call first'', cm_internal = True, cm_occurred_at = 60\<rparr>],
     o_shipping_address = empty_address, o_has_custom_shipping = False,
     o_shipping_charges = [], o_payment_method = [], o_applied_coupons = [],
     o_metadata = [('' k'', ''v'')], o_created_at = 0, o_updated_at = 0\<rparr>"



lemma sample_refs: "refs_ok sample_db" by code_simp


theorem run_writes_keep_references_witness:
  "refs_ok (run_writes [Create sample_order, DeleteComment ''b'' ''2''] sample_db)"
proof (rule run_writes_keep_references[OF sample_refs])
  have "graphic CHR ''f''" by code_simp
  then have "trim (replicate (Suc n) CHR ''f'') = replicate (Suc n) CHR ''f''" for n
    by (intro trim_graphic) (simp add: list_all_iff)
  then show "\<forall>n. trim (db_random sample_db n) = db_random sample_db n"
    by (simp only: sample_db_def order_db.simps simp_thms)
qed

section \<open>Duplicate identifiers\<close>

definition identifier_taken :: "order_db \<Rightarrow> order \<Rightarrow> bool" where
  "identifier_taken d ord \<longleftrightarrow> (trim (o_realm ord), trim (o_identifier ord))
     \<in> (\<lambda>r. (or_realm r, or_identifier r)) ` set (db_orders d)"

text \<open>Creating a valid order whose realm and identifier are taken, even by a soft-deleted order, fails,
  stores no row, and reports \<open>ErrDuplicateIdentifier\<close> exactly when the text of the driver's error
  is recognised by \<open>map_duplicate_error\<close>.\<close>

theorem duplicate_identifier_rejected:
  assumes "identifier_taken d ord" and "order_validate (order_normalize ord) = None"
    and "db_fault d = (\<lambda>_. False)"
  shows "\<exists>e. fst (repo_create ord d) = Inl e \<and> snd (repo_create ord d) = order_id_taken ord d
    \<and> (errors_is e ErrDuplicateIdentifier
        \<longleftrightarrow> map_duplicate_error (db_dup_typed d) (db_dup_message d) = Some ErrDuplicateIdentifier)"
proof -
  let ?w = "order_id_taken ord d" and ?r = "new_order_row d ord"
  let ?e = "wrap_write_error ''create order record'' (db_dup_typed d) (db_dup_message d)"
  have "insert_order ?r ?w = (Inl ?e, ?w)"
    using assms(1,3)
    by (simp add: insert_order_def stmt_def new_order_row_def to_order_row_def order_normalize_def
        order_id_taken_def identifier_taken_def)
  then have "repo_create ord d = (Inl ?e, ?w)"
    by (simp add: repo_create_eq[OF assms(2)] create_rows_split prog_simps)
  moreover have "errors_is ?e ErrDuplicateIdentifier
      \<longleftrightarrow> map_duplicate_error (db_dup_typed d) (db_dup_message d) = Some ErrDuplicateIdentifier"
    by (simp add: wrap_write_error_def split: option.splits)
  ultimately show ?thesis by simp
qed

theorem duplicate_identifier_rejected_witness:
  "\<exists>e. fst (repo_create (sample_order\<lparr>o_identifier := ''1001''\<rparr>) sample_db) = Inl e
    \<and> errors_is e ErrDuplicateIdentifier"
proof -
  have "identifier_taken sample_db (sample_order\<lparr>o_identifier := ''1001''\<rparr>)"
    "order_validate (order_normalize (sample_order\<lparr>o_identifier := ''1001''\<rparr>)) = None"
    "map_duplicate_error (db_dup_typed sample_db) (db_dup_message sample_db) = Some ErrDuplicateIdentifier"
    by code_simp+
  moreover have "db_fault sample_db = (\<lambda>_. False)" by (simp add: sample_db_def)
  ultimately show ?thesis
    using duplicate_identifier_rejected[of sample_db "sample_order\<lparr>o_identifier := ''1001''\<rparr>"] by blast
qed

text \<open>The text of MySQL's error for the same situation is not recognised, since \<^verbatim>\<open>isUniqueConstraintError\<close>
  looks for ``duplicate key'' and MySQL says ``Duplicate entry ... for key''.\<close>

definition mysql_dup_message :: string where
  "mysql_dup_message = ''Error 1062 (23000): Duplicate entry 1001 for key orders.idx_orders_realm_identifier''"

lemma mysql_duplicate_not_recognised: "map_duplicate_error False mysql_dup_message = None"
  by code_simp

end
