(* ===== verification/Orders_Validity.thy ===== *)
theory Orders_Validity
  imports Orders_Roundtrip
begin

text \<open>
  Validity of what is stored: when the tables hold valid rows and every order has an item, every order
  that can be read passes \<open>order_validate\<close>; and which repository operations keep that true, under
  which conditions on their arguments. \<open>Create\<close> and \<open>Update\<close> validate their argument themselves, the
  operations on statuses and comments rely on their caller.
\<close>

section \<open>Valid rows\<close>

definition order_row_valid :: "order_row \<Rightarrow> bool" where
  "order_row_valid r \<longleftrightarrow> trim (or_identifier r) \<noteq> [] \<and> trim (or_realm r) \<noteq> [] \<and> trim (or_contact_id r) \<noteq> []"

definition item_row_valid :: "item_row \<Rightarrow> bool" where
  "item_row_valid r \<longleftrightarrow> (trim (ir_sku r) \<noteq> [] \<or> trim (ir_alternate_name r) \<noteq> []) \<and> 0 < ir_quantity r"

definition status_row_valid :: "status_row \<Rightarrow> bool" where
  "status_row_valid r \<longleftrightarrow> trim (sr_status r) \<in> set order_statuses \<and> trim (sr_author r) \<noteq> []"

definition comment_row_valid :: "comment_row \<Rightarrow> bool" where
  "comment_row_valid r \<longleftrightarrow> trim (cr_author r) \<noteq> [] \<and> trim (cr_text r) \<noteq> []"

definition metadata_row_valid :: "metadata_row \<Rightarrow> bool" where
  "metadata_row_valid r \<longleftrightarrow> \<not> (length (trim (mr_key r)) > 128 \<or> length (trim (mr_value r)) > 2048)"

definition rows_valid :: "order_db \<Rightarrow> bool" where
  "rows_valid d \<longleftrightarrow> list_all order_row_valid (db_orders d) \<and> list_all item_row_valid (db_items d)
     \<and> list_all status_row_valid (db_statuses d) \<and> list_all comment_row_valid (db_comments d)
     \<and> list_all metadata_row_valid (db_metadata d)"

definition has_items :: "order_db \<Rightarrow> bool" where
  "has_items d \<longleftrightarrow> or_id ` set (db_orders d) \<subseteq> ir_order_id ` set (db_items d)"

definition db_valid :: "order_db \<Rightarrow> bool" where
  "db_valid d \<longleftrightarrow> db_ok d \<and> rows_valid d \<and> has_items d"

section \<open>Valid rows give valid orders\<close>

lemma list_all_sort [simp]: "list_all P (sort_key f xs) = list_all P xs"
  by (simp add: list_all_iff)

lemma list_all_filterI: "list_all P xs \<Longrightarrow> list_all P (filter Q xs)"
  by (simp add: list_all_iff)

lemma is_valid_metadata_fold:
  "list_all metadata_row_valid rows \<Longrightarrow> is_valid_metadata acc
    \<Longrightarrow> is_valid_metadata (fold (\<lambda>r acc. AList.update (mr_key r) (mr_value r) acc) rows acc)"
  by (induction rows arbitrary: acc)
    (auto simp: is_valid_metadata_def metadata_row_valid_def intro!: list_all_update)

lemma to_status_entry_ok: "status_row_valid r \<Longrightarrow> entry_ok (to_status_entry r)"
  by (simp add: status_row_valid_def entry_ok_def to_status_entry_def)

lemma to_comment_ok: "comment_row_valid r \<Longrightarrow> comment_ok (to_comment r)"
  by (simp add: comment_row_valid_def comment_ok_def to_comment_def)

lemma to_item_ok: "item_row_valid r \<Longrightarrow> item_ok (to_item r)"
  by (simp add: item_row_valid_def item_ok_def to_item_def)

lemma current_status_valid:
  assumes "db_valid d"
  shows "o_current_status (row_view d r) \<in> set order_statuses"
proof (cases "statuses_of d (or_id r) = []")
  case True
  then show ?thesis
    using current_of_row_view[of d r] assms by (simp add: db_valid_def Let_def status_defs)
next
  case False
  then have "last (statuses_of d (or_id r)) \<in> set (db_statuses d)"
    using last_in_set[OF False] by (simp add: statuses_of_def)
  then show ?thesis
    using current_of_row_view[of d r] False assms
    by (auto simp: db_valid_def rows_valid_def list_all_iff status_row_valid_def Let_def)
qed

lemma row_view_valid:
  assumes "db_valid d" "r \<in> set (db_orders d)"
  shows "order_ok (row_view d r)"
proof -
  note v = assms(1)[unfolded db_valid_def rows_valid_def]
  let ?i = "or_id r"
  have r: "order_row_valid r" using v assms(2) by (simp add: list_all_iff)
  obtain x where "x \<in> set (db_items d)" "ir_order_id x = ?i"
    using v assms(2) by (auto simp: has_items_def)
  then have "x \<in> set (items_of d ?i)" by (simp add: items_of_def)
  then have "items_of d ?i \<noteq> []" by auto
  moreover have "list_all item_ok (map to_item (items_of d ?i))"
    using v by (auto simp: items_of_def list_all_iff intro: to_item_ok)
  moreover have "list_all entry_ok (map to_status_entry (statuses_of d ?i))"
    using v by (auto simp: statuses_of_def list_all_iff intro: to_status_entry_ok)
  moreover have "list_all comment_ok (map to_comment (comments_of d ?i))"
    using v by (auto simp: comments_of_def list_all_iff intro: to_comment_ok)
  moreover have "is_valid_metadata (metadata_of d ?i)"
    unfolding metadata_of_def using v
    by (intro is_valid_metadata_fold list_all_filterI) (simp_all add: is_valid_metadata_def)
  moreover note current_status_valid[OF assms(1), of r]
  ultimately show ?thesis
    using r
    by (simp add: order_ok_def row_view_def to_order_def order_normalize_def Let_def order_row_valid_def
        list_all_iff is_valid_metadata_normalize entry_ok_normalize)
qed

lemma order_view_valid: "db_valid d \<Longrightarrow> order_view d i = Some v \<Longrightarrow> order_ok v"
  using row_view_valid find_order_SomeD by (fastforce simp: order_view_def)

section \<open>Which operations keep rows valid\<close>

lemma rows_of_order_valid:
  assumes "order_ok e"
  shows "list_all item_row_valid (to_item_rows i (o_items e))"
    "list_all status_row_valid (to_status_rows i n (o_status_history e))"
    "list_all comment_row_valid (to_comment_rows i (o_comments e))"
    "list_all metadata_row_valid (to_metadata_rows i (o_metadata e))" 
proof -
  show "list_all item_row_valid (to_item_rows i (o_items e))"
    using assms by (auto simp: order_ok_def list_all_length to_item_rows_def nth_enumerate_eq item_ok_def item_row_valid_def)
  show "list_all status_row_valid (to_status_rows i n (o_status_history e))"
    using assms by (auto simp: order_ok_def list_all_length to_status_rows_def nth_enumerate_eq entry_ok_def
        status_row_valid_def order_statuses_trimmed)
  show "list_all comment_row_valid (to_comment_rows i (o_comments e))"
    using assms by (auto simp: order_ok_def list_all_iff to_comment_rows_def comment_ok_def comment_row_valid_def)
  have short: "length (trim v) \<le> 2048" "length (trim k) \<le> 128" if "(k, v) \<in> set (o_metadata e)" for k v
    using assms that by (auto simp: order_ok_def is_valid_metadata_def list_all_iff)
  have "length (trim (case map_of (o_metadata e) k of Some v \<Rightarrow> v | None \<Rightarrow> [])) \<le> 2048" for k
    using short by (auto split: option.splits dest: map_of_SomeD)
  then show "list_all metadata_row_valid (to_metadata_rows i (o_metadata e))"
    using short by (auto simp: list_all_iff to_metadata_rows_def normalized_metadata_keys_def metadata_row_valid_def not_less)
qed

definition rows_only :: "order_db \<Rightarrow> bool" where
  "rows_only d \<longleftrightarrow> db_ok d \<and> rows_valid d"

lemma assign_comment_ids_valid:
  "list_all comment_row_valid rows \<Longrightarrow> list_all comment_row_valid (fst (assign_comment_ids n rows))"
  by (induction n rows rule: assign_comment_ids.induct) (auto simp: Let_def comment_row_valid_def split: prod.splits)

lemma has_items_mono:
  "or_id ` set (db_orders d') \<subseteq> or_id ` set (db_orders d) \<Longrightarrow> ir_order_id ` set (db_items d) \<subseteq> ir_order_id ` set (db_items d')
    \<Longrightarrow> has_items d \<Longrightarrow> has_items d'"
  unfolding has_items_def by (metis order_trans)

lemma rows_valid_created:
  assumes "order_ok e" "rows_valid d"
  shows "rows_valid (created_db e i d)"
  using assms(2)
  by (simp add: rows_valid_def created_db_def assign_comment_ids_valid rows_of_order_valid[OF assms(1)])

lemma has_items_created:
  assumes "or_id ` set (db_orders d) \<subseteq> insert (trim i) (ir_order_id ` set (db_items d))" "o_items e \<noteq> []"
  shows "has_items (created_db e i d)"
proof -
  have "set (to_item_rows i (o_items e)) \<noteq> {}"
    using assms(2) by (cases "o_items e") (simp_all add: to_item_rows_def)
  moreover have "\<forall>x \<in> set (to_item_rows i (o_items e)). ir_order_id x = trim i"
    by (auto simp: to_item_rows_def)
  ultimately have "trim i \<in> ir_order_id ` set (to_item_rows i (o_items e))" by (metis equals0I image_eqI)
  with assms(1) show ?thesis by (auto simp: has_items_def created_db_def)
qed

lemma order_row_valid_new: "order_ok e \<Longrightarrow> order_row_valid (stamped_row d ((to_order_row e)\<lparr>or_id := i\<rparr>))"
  by (simp add: order_row_valid_def stamped_row_def to_order_row_def order_ok_def)

lemma valid_create_rows:
  assumes "db_valid w" "order_ok e" "trim i = i"
  shows "db_valid (snd (create_rows e ((to_order_row e)\<lparr>or_id := i\<rparr>) w))" (is "db_valid (snd (create_rows e ?r w))")
proof (cases "create_rows e ?r w")
  case (Pair res w')
  have ok: "db_ok w'"
    using preservesD[OF preserves_create_rows _ Pair] assms(1) by (simp add: db_valid_def)
  show ?thesis
  proof (cases res)
    case (Inl err)
    with Pair assms show ?thesis by (auto simp: create_rows_split dest: atomically_Inl)
  next
    case (Inr u)
    let ?w = "w\<lparr>db_orders := db_orders w @ [stamped_row w ?r]\<rparr>"
    have w': "w' = created_db e i ?w"
      using Pair Inr by (auto simp: create_rows_split atomically_Inr_iff bindp_Inr_iff insert_order_Inr_iff
          dest: create_relations_Inr)
    have "rows_valid ?w"
      using assms order_row_valid_new[OF assms(2)] by (simp add: db_valid_def rows_valid_def)
    then have "rows_valid w'" using w' assms(2) rows_valid_created by simp
    moreover have "has_items w'"
      unfolding w' using assms
      by (intro has_items_created) (auto simp: db_valid_def has_items_def order_ok_def stamped_row_def)
    ultimately show ?thesis using Pair ok by (simp add: db_valid_def)
  qed
qed

lemma valid_repo_create:
  assumes "db_valid d" "random_trimmed d"
  shows "db_valid (snd (repo_create ord d))"
proof -
  have "db_valid (order_id_taken ord d)"
    using assms(1) by (simp add: db_valid_def rows_valid_def has_items_def order_id_taken_def db_ok_defs)
  moreover have "trim (new_order_id d ord) = new_order_id d ord"
    using assms(2) by (rule new_order_id_trimmed)
  ultimately show ?thesis
    using assms(1) by (simp add: repo_create_state new_order_row_def valid_create_rows order_validate_None)
qed

text \<open>The tables after the rows of an update are written.\<close>

definition updated_db :: "order \<Rightarrow> order_db \<Rightarrow> order_db" where
  "updated_db e d = (let i = o_id e in d\<lparr>
     db_orders := map (\<lambda>r. if or_id r = i \<and> or_deleted_at r = None then r\<lparr>or_updated_at := db_clock d\<rparr> else r) (db_orders d),
     db_items := filter (\<lambda>r. ir_order_id r \<noteq> i) (db_items d) @ to_item_rows i (o_items e),
     db_charges := filter (\<lambda>r. hr_order_id r \<noteq> i) (db_charges d) @ to_charge_rows i (o_shipping_charges e),
     db_addresses := (if o_has_custom_shipping e
       then filter (\<lambda>r. ar_order_id r \<noteq> i) (db_addresses d) @ [to_address_row i (o_shipping_address e)]
       else db_addresses d),
     db_coupons := filter (\<lambda>r. kr_order_id r \<noteq> i) (db_coupons d) @ to_coupon_rows i (o_applied_coupons e)\<rparr>)"

lemma update_rows_Inr:
  assumes "update_rows e d = (Inr u, d')"
  shows "d' = updated_db e d" and "\<exists>r. find_order d (o_id e) = Some r"
  using assms unfolding update_rows_def
  by (cases "o_has_custom_shipping e";
      auto simp: prog_Inr_iffs stmt_Inr_iff lock_order_def touch_order_def delete_rows_def replace_address_def
        updated_db_def Let_def split: option.splits dest!: insert_Inr)+

lemma rows_valid_updated:
  assumes "order_ok e" "rows_valid d"
  shows "rows_valid (updated_db e d)"
  using assms(2)
  by (auto simp: rows_valid_def updated_db_def Let_def list_all_iff order_row_valid_def
      rows_of_order_valid(1)[OF assms(1), unfolded list_all_iff])

lemma has_items_updated:
  assumes "trim (o_id e) = o_id e" "o_items e \<noteq> []" "has_items d"
  shows "has_items (updated_db e d)"
proof -
  have "set (to_item_rows (o_id e) (o_items e)) \<noteq> {}"
    using assms(2) by (cases "o_items e") (simp_all add: to_item_rows_def)
  moreover have "\<forall>x \<in> set (to_item_rows (o_id e) (o_items e)). ir_order_id x = o_id e"
    using assms(1) by (auto simp: to_item_rows_def)
  ultimately have new: "o_id e \<in> ir_order_id ` set (to_item_rows (o_id e) (o_items e))" by (metis equals0I image_eqI)
  have "or_id ` set (db_orders (updated_db e d)) = or_id ` set (db_orders d)"
  proof -
    have "db_orders (updated_db e d)
        = map (\<lambda>r. if or_id r = o_id e \<and> or_deleted_at r = None then r\<lparr>or_updated_at := db_clock d\<rparr> else r) (db_orders d)"
      by (simp add: updated_db_def Let_def)
    then show ?thesis by (simp only: or_ids_touch)
  qed
  moreover have "ir_order_id ` set (db_items d) \<subseteq> ir_order_id ` set (db_items (updated_db e d))"
  proof (rule image_subsetI)
    fix x assume x: "x \<in> set (db_items d)"
    have items: "set (db_items (updated_db e d))
        = {y \<in> set (db_items d). ir_order_id y \<noteq> o_id e} \<union> set (to_item_rows (o_id e) (o_items e))"
      by (simp add: updated_db_def Let_def)
    show "ir_order_id x \<in> ir_order_id ` set (db_items (updated_db e d))"
      using new x by (cases "ir_order_id x = o_id e") (auto simp only: items image_Un)
  qed
  ultimately show ?thesis
    using assms(3) by (intro has_items_mono[of "updated_db e d" d]) simp_all
qed

lemma valid_repo_update: "preserves db_valid (repo_update ord)"
proof (rule preservesI)
  fix d assume d: "db_valid d"
  show "db_valid (snd (repo_update ord d))"
  proof (cases "order_validate (order_normalize ord) = None \<and> trim (o_id (order_normalize ord)) \<noteq> []")
    case False
    then show ?thesis
      using d by (auto simp: repo_update_def Let_def check_order_def prog_simps split: option.splits)
  next
    case True
    let ?e = "order_normalize ord"
    have s: "snd (repo_update ord d) = snd (update_rows ?e d)"
      using True by (simp add: repo_update_def Let_def check_order_def prog_simps
          readonly_repo_get[unfolded readonly_def] split: prod.splits sum.splits)
    obtain res d' where u: "update_rows ?e d = (res, d')" by fastforce
    show ?thesis
    proof (cases res)
      case (Inl err)
      with u d s show ?thesis by (auto simp: update_rows_def dest: atomically_Inl)
    next
      case (Inr x)
      then have d': "d' = updated_db ?e d" using u update_rows_Inr by blast
      have e: "order_ok ?e" "trim (o_id ?e) = o_id ?e"
        using True by (simp_all add: order_validate_None order_normalize_def)
      have "db_ok d'" using preservesD[OF preserves_update_rows _ u] d by (simp add: db_valid_def)
      then show ?thesis
        using s u d' d e by (simp add: db_valid_def rows_valid_updated has_items_updated order_ok_def)
    qed
  qed
qed

lemma valid_other_tables:
  assumes "db_valid d" "db_ok d'" "db_orders d' = db_orders d" "db_items d' = db_items d"
    "db_metadata d' = db_metadata d" "list_all status_row_valid (db_statuses d')"
    "list_all comment_row_valid (db_comments d')"
  shows "db_valid d'"
  using assms by (simp add: db_valid_def rows_valid_def has_items_def)

definition status_comment_tables :: "order_db \<Rightarrow> order_db \<Rightarrow> bool" where
  "status_comment_tables d w \<longleftrightarrow> db_orders w = db_orders d \<and> db_items w = db_items d \<and> db_metadata w = db_metadata d
     \<and> list_all status_row_valid (db_statuses w) \<and> list_all comment_row_valid (db_comments w)"

lemma valid_via_tables:
  assumes "\<And>d. preserves (status_comment_tables d) m" "preserves db_ok m"
  shows "preserves db_valid m"
proof (rule preservesI)
  fix d assume d: "db_valid d"
  then have "status_comment_tables d d" by (simp add: db_valid_def rows_valid_def status_comment_tables_def)
  then have "status_comment_tables d (snd (m d))" using assms(1) by (simp add: preserves_def)
  moreover have "db_ok (snd (m d))" using d assms(2) by (simp add: preserves_def db_valid_def)
  ultimately show "db_valid (snd (m d))"
    using valid_other_tables[OF d, of "snd (m d)"] by (simp add: status_comment_tables_def)
qed

lemma valid_append_status: "entry_ok e \<Longrightarrow> preserves db_valid (repo_append_status oid e)"
proof (rule valid_via_tables[OF _ preserves_repo_append_status])
  fix d assume e: "entry_ok e"
  then show "preserves (status_comment_tables d) (repo_append_status oid e)"
    unfolding repo_append_status_def
    by (intro preserves_intros)
      (auto simp: preserves_def insert_statuses_def insert_rows_def stmt_def Let_def status_comment_tables_def
        status_row_valid_def entry_ok_def order_statuses_trimmed ret_apply)
qed

lemma valid_append_comment: "comment_ok c \<Longrightarrow> preserves db_valid (repo_append_comment oid c)"
proof (rule valid_via_tables[OF _ preserves_repo_append_comment])
  fix d assume c: "comment_ok c"
  then show "preserves (status_comment_tables d) (repo_append_comment oid c)"
    unfolding repo_append_comment_def
    by (intro preserves_intros)
      (auto simp: preserves_def insert_comments_def insert_rows_def stmt_def Let_def status_comment_tables_def
        comment_row_valid_def comment_ok_def ret_apply)
qed

lemma valid_delete_comment: "preserves db_valid (repo_delete_comment oid cid)"
  by (rule valid_via_tables[OF _ preserves_repo_delete_comment], unfold repo_delete_comment_def,
      intro preserves_intros)
    (auto simp: preserves_def status_comment_tables_def list_all_iff)

lemma valid_update_comment: "comment_ok c \<Longrightarrow> preserves db_valid (repo_update_comment oid cid c)"
proof (rule valid_via_tables[OF _ preserves_repo_update_comment])
  fix d assume c: "comment_ok c"
  then have "status_comment_tables d w \<Longrightarrow> status_comment_tables d (save_comment (edit_comment_row c r) w)" for w r
    by (auto simp: status_comment_tables_def save_comment_def list_all_iff edit_comment_row_def
        comment_row_valid_def comment_ok_def)
  then show "preserves (status_comment_tables d) (repo_update_comment oid cid c)"
    unfolding repo_update_comment_def by (intro preserves_intros preserves_modp) simp
qed

end
