(* ===== verification/Orders_Events.thy ===== *)
theory Orders_Events
  imports Orders_Domain
begin

text \<open>
  The integration events of the orders module (\<^verbatim>\<open>module/orders/application/event/events.go\<close> and
  \<^verbatim>\<open>module/orders/port/events.go\<close>): their payload, built from an order, and their envelope.
\<close>

definition topic_order_created :: string where "topic_order_created = ''orders.v1.created''"
definition topic_order_updated :: string where "topic_order_updated = ''orders.v1.updated''"
definition topic_order_status_updated :: string where "topic_order_status_updated = ''orders.v1.status.updated''"
definition event_source_api :: string where "event_source_api = ''api''"
definition schema_version_v1 :: string where "schema_version_v1 = ''v1''"

record event_item =
  ei_sku :: string
  ei_alternate_name :: string
  ei_quantity :: int
  ei_value :: float64
  ei_product_id :: string
  ei_source :: string

record event_charge =
  eh_method_id :: string
  eh_method_title :: string
  eh_price :: float64

record event_status =
  es_status :: string
  es_author :: string
  es_description :: string
  es_note_owner :: string
  es_note :: string
  es_occurred_at :: gotime

record order_event_payload =
  ep_id :: string
  ep_identifier :: string
  ep_realm :: string
  ep_contact_id :: string
  ep_source :: string
  ep_current_status :: string
  ep_latest_status :: event_status
  ep_items :: "event_item list"
  ep_shipping_address :: shipping_address
  ep_has_custom_shipping :: bool
  ep_shipping_charges :: "event_charge list"
  ep_metadata :: gomap
  ep_created_at :: gotime
  ep_updated_at :: gotime

record integration_event =
  iev_id :: string
  iev_topic :: string
  iev_schema_version :: string
  iev_occurred_at :: gotime
  iev_payload :: order_event_payload
  iev_metadata :: gomap

definition resolve_source :: "string \<Rightarrow> string" where
  "resolve_source s = (let t = trim s in if t \<noteq> [] then t else event_source_api)"

definition to_event_item :: "item \<Rightarrow> event_item" where
  "to_event_item r = \<lparr>ei_sku = trim (it_sku r), ei_alternate_name = trim (it_alternate_name r),
     ei_quantity = it_quantity r, ei_value = it_value r, ei_product_id = trim (it_product_id r),
     ei_source = trim (it_source r)\<rparr>"

definition to_event_charge :: "shipping_charge \<Rightarrow> event_charge" where
  "to_event_charge r = \<lparr>eh_method_id = trim (sc_method_id r), eh_method_title = trim (sc_method_title r),
     eh_price = sc_price r\<rparr>"

text \<open>The zero value of the struct when there is no history.\<close>

definition latest_event_status :: "status_entry list \<Rightarrow> event_status" where
  "latest_event_status es =
    (if es = [] then \<lparr>es_status = [], es_author = [], es_description = [], es_note_owner = [], es_note = [],
                      es_occurred_at = 0\<rparr>
     else let e = last es in \<lparr>es_status = trim (se_status e), es_author = trim (se_author e),
            es_description = trim (se_description e), es_note_owner = trim (se_note_owner e),
            es_note = trim (se_note e), es_occurred_at = se_occurred_at e\<rparr>)"

text \<open>\<^verbatim>\<open>cloneMetadata\<close> runs the same loop as the metadata normalization; nil and the empty map are the
  empty list.\<close>

definition clone_metadata :: "gomap \<Rightarrow> gomap" where
  "clone_metadata m = fold normalize_metadata_entry m []"

definition to_order_event_payload :: "order \<Rightarrow> string \<Rightarrow> order_event_payload" where
  "to_order_event_payload ord source =
    \<lparr>ep_id = trim (o_id ord), ep_identifier = trim (o_identifier ord), ep_realm = trim (o_realm ord),
     ep_contact_id = trim (o_contact_id ord), ep_source = resolve_source source,
     ep_current_status = trim (o_current_status ord),
     ep_latest_status = latest_event_status (o_status_history ord),
     ep_items = map to_event_item (o_items ord),
     ep_shipping_address = normalize_shipping_address (o_shipping_address ord),
     ep_has_custom_shipping = o_has_custom_shipping ord,
     ep_shipping_charges = map to_event_charge (o_shipping_charges ord),
     ep_metadata = clone_metadata (o_metadata ord),
     ep_created_at = o_created_at ord, ep_updated_at = o_updated_at ord\<rparr>"

text \<open>The generated identifier and the clock are read by the caller.\<close>

definition build_integration_event :: "string \<Rightarrow> gotime \<Rightarrow> string \<Rightarrow> order \<Rightarrow> string \<Rightarrow> integration_event" where
  "build_integration_event event_id now topic ord source = (let p = to_order_event_payload ord source in
     \<lparr>iev_id = event_id, iev_topic = trim topic, iev_schema_version = schema_version_v1,
      iev_occurred_at = (if ep_updated_at p = 0 then now else ep_updated_at p),
      iev_payload = p,
      iev_metadata = [(''aggregate_id'', ep_id p), (''source'', ep_source p)]\<rparr>)"

text \<open>A payload tells one story about the status when the order's history is in order.\<close>

lemma payload_status_consistent:
  assumes "o_status_history ord \<noteq> []" "o_current_status ord = se_status (last (o_status_history ord))"
  shows "ep_current_status (to_order_event_payload ord s) = es_status (ep_latest_status (to_order_event_payload ord s))"
  using assms by (simp add: to_order_event_payload_def latest_event_status_def Let_def)

lemma resolve_source_nonempty: "resolve_source s \<noteq> []"
  by (simp add: resolve_source_def event_source_api_def Let_def)

end
