(* ===== verification/Orders_Service.thy ===== *)
theory Orders_Service
  imports Orders_Store Orders_Events
begin

text \<open>
  The order application service (\<^verbatim>\<open>module/orders/application\<close>). Its collaborators, the Go interfaces of
  \<^verbatim>\<open>module/orders/port\<close>, are the fields of the record \<open>order_ports\<close> over an abstract world; the
  service's operations are programs over that world. \<open>time.Now\<close> and the generator of event
  identifiers are ports too.
\<close>

section \<open>Commands\<close>

record item_command =
  ic_sku :: string
  ic_alternate_name :: string
  ic_product_id :: string
  ic_quantity :: int
  ic_value :: float64

record address_command =
  adc_address :: string
  adc_address2 :: string
  adc_phone :: string
  adc_city_code :: string

record charge_command =
  chc_method_id :: string
  chc_method_title :: string
  chc_price :: float64

record coupon_command =
  cpc_coupon_id :: string
  cpc_code :: string
  cpc_discount_type :: string
  cpc_discount_amount :: float64
  cpc_applied_at :: "gotime option"

record create_command =
  cc_identifier :: string
  cc_realm :: string
  cc_contact_id :: string
  cc_items :: "item_command list"
  cc_initial_status :: "string option"
  cc_author :: string
  cc_description :: string
  cc_shipping_address :: "address_command option"
  cc_shipping_charges :: "charge_command list"
  cc_payment_method :: string
  cc_applied_coupons :: "coupon_command list"
  cc_metadata :: gomap
  cc_created_at :: "gotime option"
  cc_source :: string

record update_command =
  uc_items :: "item_command list option"
  uc_shipping_address :: "address_command option"
  uc_shipping_charges :: "charge_command list option"
  uc_applied_coupons :: "coupon_command list option"
  uc_source :: string

record status_command =
  stc_status :: string
  stc_author :: string
  stc_description :: string
  stc_note_owner :: string
  stc_note :: string
  stc_occurred_at :: "gotime option"
  stc_source :: string

record add_comment_command =
  acc_author :: string
  acc_comment :: string
  acc_internal :: bool
  acc_occurred_at :: "gotime option"
  acc_source :: string

record update_comment_command =
  ucc_author :: "string option"
  ucc_comment :: "string option"
  ucc_internal :: "bool option"
  ucc_source :: string

record order_list_result =
  lr_data :: "order list"
  lr_page :: int
  lr_limit :: int
  lr_total :: int
  lr_total_pages :: int

section \<open>Ports\<close>

record customer =
  cu_id :: string
  cu_address :: string
  cu_address_extra :: string
  cu_phone :: string
  cu_city_code :: string

record product_resolution =
  pr_product_id :: string
  pr_matched_by :: string

text \<open>The resolver only reads. When several items fail to resolve, \<open>p_reported\<close> says which of the failing
  indices the worker pool reports; the theory \<open>Worker_Pool\<close> shows that it is always one of them.\<close>

record 'w order_ports =
  p_create :: "order \<Rightarrow> ('w, orders_error, order) prog"
  p_update :: "order \<Rightarrow> ('w, orders_error, order) prog"
  p_get :: "string \<Rightarrow> ('w, orders_error, order) prog"
  p_list :: "order_list_query \<Rightarrow> ('w, orders_error, order list \<times> int) prog"
  p_append_status :: "string \<Rightarrow> status_entry \<Rightarrow> ('w, orders_error, order) prog"
  p_append_comment :: "string \<Rightarrow> order_comment \<Rightarrow> ('w, orders_error, order) prog"
  p_update_comment :: "string \<Rightarrow> string \<Rightarrow> order_comment \<Rightarrow> ('w, orders_error, order) prog"
  p_delete_comment :: "string \<Rightarrow> string \<Rightarrow> ('w, orders_error, order) prog"
  p_customer :: "string \<Rightarrow> ('w, orders_error, customer option) prog"
  p_resolver :: "('w \<Rightarrow> string \<Rightarrow> string \<Rightarrow> orders_error go_error + product_resolution option) option"
  p_reported :: "'w \<Rightarrow> nat list \<Rightarrow> nat"
  p_publish :: "integration_event \<Rightarrow> ('w, orders_error, unit) prog"
  p_now :: "('w, orders_error, gotime) prog"
  p_event_id :: "('w, orders_error, string) prog"

section \<open>Source policy\<close>

definition woo_sync_source :: string where "woo_sync_source = ''woocommerce_sync''"

definition is_woo_source :: "string \<Rightarrow> bool" where
  "is_woo_source source = (let n = to_lower (trim source) in if n = [] then False else has_prefix n ''woocommerce'')"

definition should_ignore_woo :: "string \<Rightarrow> string \<Rightarrow> bool" where
  "should_ignore_woo source realm =
    (if \<not> equal_fold (trim realm) ''woocommerce'' then False
     else let n = to_lower (trim source) in
       if n = [] \<or> n = woo_sync_source then False else is_woo_source n)"

section \<open>Items\<close>

text \<open>\<^verbatim>\<open>resolveItem\<close>; \<open>None\<close> is a service without a product resolver.\<close>

definition resolve_item :: "(string \<Rightarrow> string \<Rightarrow> orders_error go_error + product_resolution option) option
    \<Rightarrow> item_command \<Rightarrow> orders_error go_error + item" where
  "resolve_item resolver c =
    (let i = \<lparr>it_sku = trim (ic_sku c), it_alternate_name = trim (ic_alternate_name c),
              it_quantity = ic_quantity c, it_value = ic_value c, it_product_id = trim (ic_product_id c),
              it_source = source_unresolved\<rparr>
     in if it_product_id i \<noteq> [] then Inr (i\<lparr>it_source := source_sku\<rparr>)
        else case resolver of None \<Rightarrow> Inr i
        | Some f \<Rightarrow> (case f (it_sku i) (it_alternate_name i) of
            Inl e \<Rightarrow> Inl (Wrapped (''resolve order item product ('' @ it_sku i @ '')'') e)
          | Inr None \<Rightarrow> Inr i
          | Inr (Some r) \<Rightarrow> (let m = to_lower (trim (pr_matched_by r)) in
              Inr (i\<lparr>it_product_id := trim (pr_product_id r),
                     it_source := (if m = ''sku'' then source_sku
                                   else if m = ''alternate_name'' then source_alternate_name
                                   else source_unresolved)\<rparr>))))"

definition failing_indices :: "('e + 'b) list \<Rightarrow> nat list" where
  "failing_indices rs = filter (\<lambda>i. isl (rs ! i)) [0..<length rs]"

definition collect_results :: "(nat list \<Rightarrow> nat) \<Rightarrow> ('e + 'b) list \<Rightarrow> 'e + 'b list" where
  "collect_results pick rs = (case failing_indices rs of
      [] \<Rightarrow> Inr (map projr rs)
    | f # fs \<Rightarrow> Inl (projl (rs ! (if pick (f # fs) \<in> set (f # fs) then pick (f # fs) else f))))"

definition resolve_items :: "'w order_ports \<Rightarrow> item_command list \<Rightarrow> ('w, orders_error, item list) prog" where
  "resolve_items P cs = (\<lambda>w.
     (collect_results (p_reported P w)
        (map (resolve_item (map_option (\<lambda>f. f w) (p_resolver P))) cs), w))"

section \<open>Shipping\<close>

definition customer_shipping :: "customer option \<Rightarrow> shipping_address" where
  "customer_shipping c = (case c of None \<Rightarrow> empty_address
    | Some u \<Rightarrow> \<lparr>sa_address = trim (cu_address u), sa_address2 = trim (cu_address_extra u),
                 sa_phone = trim (cu_phone u), sa_city_code = trim (cu_city_code u)\<rparr>)"

definition normalize_shipping_command :: "address_command \<Rightarrow> shipping_address" where
  "normalize_shipping_command c = \<lparr>sa_address = trim (adc_address c), sa_address2 = trim (adc_address2 c),
     sa_phone = trim (adc_phone c), sa_city_code = trim (adc_city_code c)\<rparr>"

definition apply_shipping :: "customer option \<Rightarrow> address_command option \<Rightarrow> order \<Rightarrow> order" where
  "apply_shipping c shipping ord = (case shipping of
      None \<Rightarrow> ord\<lparr>o_shipping_address := customer_shipping c, o_has_custom_shipping := False\<rparr>
    | Some s \<Rightarrow> ord\<lparr>o_shipping_address := normalize_shipping_command s, o_has_custom_shipping := True\<rparr>)"

text \<open>The lookup error is ignored.\<close>

definition enrich_shipping :: "'w order_ports \<Rightarrow> order \<Rightarrow> ('w, orders_error, order) prog" where
  "enrich_shipping P ord = (if o_has_custom_shipping ord then ret ord
     else bindp (tryp (p_customer P (o_contact_id ord))) (\<lambda>r. case r of
         Inr (Some c) \<Rightarrow> ret (ord\<lparr>o_shipping_address := customer_shipping (Some c)\<rparr>)
       | _ \<Rightarrow> ret ord))"

definition shipping_equal :: "shipping_address \<Rightarrow> shipping_address \<Rightarrow> bool" where
  "shipping_equal l r \<longleftrightarrow> trim (sa_address l) = trim (sa_address r) \<and> trim (sa_address2 l) = trim (sa_address2 r)
     \<and> trim (sa_phone l) = trim (sa_phone r) \<and> trim (sa_city_code l) = trim (sa_city_code r)"

section \<open>Coupons and charges\<close>

fun normalize_applied_coupons :: "'w order_ports \<Rightarrow> coupon_command list \<Rightarrow> ('w, orders_error, applied_coupon list) prog" where
  "normalize_applied_coupons P [] = ret []"
| "normalize_applied_coupons P (c # cs) =
    (let code = trim (cpc_code c) in
     if code = [] then normalize_applied_coupons P cs
     else bindp (p_now P) (\<lambda>now. bindp (normalize_applied_coupons P cs) (\<lambda>rows.
       ret (\<lparr>ac_coupon_id = trim (cpc_coupon_id c), ac_code = code,
             ac_discount_type = trim (cpc_discount_type c), ac_discount_amount = cpc_discount_amount c,
             ac_applied_at = (case cpc_applied_at c of Some t \<Rightarrow> if t = 0 then now else t | None \<Rightarrow> now)\<rparr> # rows))))"

fun normalize_shipping_charges :: "charge_command list \<Rightarrow> shipping_charge list" where
  "normalize_shipping_charges [] = []"
| "normalize_shipping_charges (c # cs) =
    (let i = trim (chc_method_id c); t = trim (chc_method_title c) in
     if i = [] \<and> t = [] \<and> chc_price c = 0 then normalize_shipping_charges cs
     else \<lparr>sc_method_id = i, sc_method_title = t,
           sc_price = (if chc_price c < 0 then 0 else chc_price c)\<rparr> # normalize_shipping_charges cs)"

section \<open>Validation helpers\<close>

definition validate_status_entry :: "status_entry \<Rightarrow> order_error option" where
  "validate_status_entry e = order_validate
     \<lparr>o_id = [], o_identifier = ''validation-id'', o_realm = ''validation-realm'',
      o_contact_id = ''validation-contact'',
      o_items = [\<lparr>it_sku = ''sku'', it_alternate_name = [], it_quantity = 1, it_value = 0,
                  it_product_id = [], it_source = []\<rparr>],
      o_current_status = se_status e, o_status_history = [e], o_comments = [],
      o_shipping_address = empty_address, o_has_custom_shipping = False, o_shipping_charges = [],
      o_payment_method = [], o_applied_coupons = [], o_metadata = [], o_created_at = 0, o_updated_at = 0\<rparr>"

definition validate_comment :: "order_comment \<Rightarrow> order_error option" where
  "validate_comment c = (if trim (cm_author c) = [] then Some ErrCommentAuthorRequired
     else if trim (cm_text c) = [] then Some ErrCommentTextRequired else None)"

fun merge_comment_update :: "order_comment list \<Rightarrow> string \<Rightarrow> update_comment_command \<Rightarrow> orders_error + order_comment" where
  "merge_comment_update [] cid c = Inl ErrCommentNotFound"
| "merge_comment_update (v # vs) cid c =
    (if trim (cm_id v) \<noteq> trim cid then merge_comment_update vs cid c
     else Inr (v\<lparr>cm_author := (case ucc_author c of Some a \<Rightarrow> trim a | None \<Rightarrow> cm_author v),
                 cm_text := (case ucc_comment c of Some t \<Rightarrow> trim t | None \<Rightarrow> cm_text v),
                 cm_internal := (case ucc_internal c of Some i \<Rightarrow> i | None \<Rightarrow> cm_internal v)\<rparr>))"

section \<open>Change detection\<close>

record mutable_state =
  ms_items :: "item list"
  ms_shipping_address :: shipping_address
  ms_has_custom_shipping :: bool
  ms_shipping_charges :: "shipping_charge list"
  ms_applied_coupons :: "applied_coupon list"

definition snapshot_mutable_state :: "order \<Rightarrow> mutable_state" where
  "snapshot_mutable_state v = \<lparr>ms_items = o_items v, ms_shipping_address = o_shipping_address v,
     ms_has_custom_shipping = o_has_custom_shipping v, ms_shipping_charges = o_shipping_charges v,
     ms_applied_coupons = o_applied_coupons v\<rparr>"

definition amount_equal :: "float64 \<Rightarrow> float64 \<Rightarrow> bool" where
  "amount_equal a b \<longleftrightarrow> \<bar>a - b\<bar> \<le> 1 / 1000000"

definition items_equal :: "item \<Rightarrow> item \<Rightarrow> bool" where
  "items_equal l r \<longleftrightarrow> equal_fold (trim (it_sku l)) (trim (it_sku r))
     \<and> equal_fold (trim (it_alternate_name l)) (trim (it_alternate_name r))
     \<and> it_quantity l = it_quantity r \<and> amount_equal (it_value l) (it_value r)
     \<and> equal_fold (trim (it_product_id l)) (trim (it_product_id r))
     \<and> equal_fold (trim (it_source l)) (trim (it_source r))"

definition charges_equal :: "shipping_charge \<Rightarrow> shipping_charge \<Rightarrow> bool" where
  "charges_equal l r \<longleftrightarrow> equal_fold (trim (sc_method_id l)) (trim (sc_method_id r))
     \<and> equal_fold (trim (sc_method_title l)) (trim (sc_method_title r)) \<and> amount_equal (sc_price l) (sc_price r)"

definition coupons_equal :: "applied_coupon \<Rightarrow> applied_coupon \<Rightarrow> bool" where
  "coupons_equal l r \<longleftrightarrow> equal_fold (trim (ac_coupon_id l)) (trim (ac_coupon_id r))
     \<and> equal_fold (trim (ac_code l)) (trim (ac_code r))
     \<and> equal_fold (trim (ac_discount_type l)) (trim (ac_discount_type r))
     \<and> amount_equal (ac_discount_amount l) (ac_discount_amount r) \<and> ac_applied_at l = ac_applied_at r"

definition has_mutable_state_changes :: "mutable_state \<Rightarrow> mutable_state \<Rightarrow> bool" where
  "has_mutable_state_changes l r \<longleftrightarrow>
     ms_has_custom_shipping l \<noteq> ms_has_custom_shipping r
     \<or> \<not> shipping_equal (ms_shipping_address l) (ms_shipping_address r)
     \<or> \<not> list_all2 items_equal (ms_items l) (ms_items r)
     \<or> \<not> list_all2 charges_equal (ms_shipping_charges l) (ms_shipping_charges r)
     \<or> \<not> list_all2 coupons_equal (ms_applied_coupons l) (ms_applied_coupons r)"

section \<open>Operations\<close>

text \<open>The order with its shipping address filled in, then the event.\<close>

definition publish_order :: "'w order_ports \<Rightarrow> string \<Rightarrow> string \<Rightarrow> order \<Rightarrow> string \<Rightarrow> ('w, orders_error, order) prog" where
  "publish_order P topic label ord source =
     bindp (enrich_shipping P ord) (\<lambda>e.
     bindp (if o_updated_at e = 0 then p_now P else ret 0) (\<lambda>now.
     bindp (p_event_id P) (\<lambda>eid.
     bindp (wrap_err label (p_publish P (build_integration_event eid now topic e source))) (\<lambda>_.
       ret e))))"

text \<open>A field of \<open>*time.Time\<close> that is unset or zero means ``now''.\<close>

definition given_time :: "gotime option \<Rightarrow> gotime \<Rightarrow> gotime" where
  "given_time t now = (case t of Some x \<Rightarrow> if x = 0 then now else x | None \<Rightarrow> now)"

definition build_order :: "create_command \<Rightarrow> item list \<Rightarrow> applied_coupon list \<Rightarrow> customer option \<Rightarrow> gotime \<Rightarrow> order" where
  "build_order c items coupons cu now =
    (let initial = (case cc_initial_status c of Some s \<Rightarrow> s | None \<Rightarrow> status_created);
         author = (if trim (cc_author c) = [] then ''system'' else trim (cc_author c));
         entry = \<lparr>se_status = initial, se_author = author, se_description = trim (cc_description c),
                  se_note_owner = [], se_note = [], se_occurred_at = now\<rparr>
     in apply_shipping cu (cc_shipping_address c)
       \<lparr>o_id = [], o_identifier = trim (cc_identifier c), o_realm = trim (cc_realm c),
        o_contact_id = trim (cc_contact_id c), o_items = items, o_current_status = initial,
        o_status_history = [entry], o_comments = [], o_shipping_address = empty_address,
        o_has_custom_shipping = False,
        o_shipping_charges = normalize_shipping_charges (cc_shipping_charges c),
        o_payment_method = trim (cc_payment_method c), o_applied_coupons = coupons,
        o_metadata = cc_metadata c,
        o_created_at = (case cc_created_at c of Some t \<Rightarrow> t | None \<Rightarrow> 0), o_updated_at = 0\<rparr>)"

definition service_create :: "'w order_ports \<Rightarrow> create_command \<Rightarrow> ('w, orders_error, order) prog" where
  "service_create P c =
     bindp (wrap_err ''resolve order customer'' (p_customer P (trim (cc_contact_id c)))) (\<lambda>cu.
     bindp (resolve_items P (cc_items c)) (\<lambda>items.
     bindp (p_now P) (\<lambda>now.
     bindp (normalize_applied_coupons P (cc_applied_coupons c)) (\<lambda>coupons.
       let e = order_normalize (build_order c items coupons cu now) in
       bindp (guard_err (map_option OrderInvalid (order_validate e))) (\<lambda>_.
       bindp (wrap_err ''create order'' (p_create P e)) (\<lambda>stored.
         publish_order P topic_order_created ''publish order created event'' stored (cc_source c)))))))"

definition service_get :: "'w order_ports \<Rightarrow> string \<Rightarrow> ('w, orders_error, order) prog" where
  "service_get P oid = (let i = trim oid in
     if i = [] then throw (Err ErrInvalidID)
     else bindp (wrap_err ''get order'' (p_get P i)) (enrich_shipping P))"

fun enrich_all :: "'w order_ports \<Rightarrow> order list \<Rightarrow> ('w, orders_error, order list) prog" where
  "enrich_all P [] = ret []"
| "enrich_all P (r # rs) = bindp (enrich_shipping P r) (\<lambda>e. bindp (enrich_all P rs) (\<lambda>es. ret (e # es)))"

text \<open>\<^verbatim>\<open>int(math.Ceil(float64(total) / float64(limit)))\<close>, exact below 2 to the 53rd power.\<close>

definition total_pages :: "int \<Rightarrow> int \<Rightarrow> int" where
  "total_pages n limit = (if 0 < n then \<lceil>rat_of_int n / rat_of_int limit\<rceil> else 0)"

definition service_list :: "'w order_ports \<Rightarrow> order_list_query \<Rightarrow> ('w, orders_error, order_list_result) prog" where
  "service_list P q =
    (let page = (if lq_page q \<le> 0 then 1 else lq_page q);
         limit = (if lq_limit q \<le> 0 then 10 else lq_limit q) in
     bindp (wrap_err ''list orders'' (p_list P \<lparr>lq_page = page, lq_limit = limit, lq_realm = trim (lq_realm q),
         lq_contact_id = trim (lq_contact_id q), lq_identifier = trim (lq_identifier q),
         lq_status = lq_status q\<rparr>)) (\<lambda>(rows, n).
     bindp (enrich_all P rows) (\<lambda>es.
       ret \<lparr>lr_data = es, lr_page = page, lr_limit = limit, lr_total = n,
            lr_total_pages = total_pages n limit\<rparr>)))"

definition update_items :: "'w order_ports \<Rightarrow> update_command \<Rightarrow> order \<Rightarrow> ('w, orders_error, order) prog" where
  "update_items P c e = (case uc_items c of None \<Rightarrow> ret e
     | Some cs \<Rightarrow> bindp (resolve_items P cs) (\<lambda>is. ret (e\<lparr>o_items := is\<rparr>)))"

definition update_shipping :: "update_command \<Rightarrow> order \<Rightarrow> order" where
  "update_shipping c e = (case uc_shipping_address c of None \<Rightarrow> e
     | Some a \<Rightarrow> e\<lparr>o_shipping_address := normalize_shipping_command a, o_has_custom_shipping := True\<rparr>)"

definition update_charges :: "update_command \<Rightarrow> order \<Rightarrow> order" where
  "update_charges c e = (case uc_shipping_charges c of None \<Rightarrow> e
     | Some hs \<Rightarrow> e\<lparr>o_shipping_charges := normalize_shipping_charges hs\<rparr>)"

definition update_coupons :: "'w order_ports \<Rightarrow> update_command \<Rightarrow> order \<Rightarrow> ('w, orders_error, order) prog" where
  "update_coupons P c e = (case uc_applied_coupons c of None \<Rightarrow> ret e
     | Some ks \<Rightarrow> bindp (normalize_applied_coupons P ks) (\<lambda>rows. ret (e\<lparr>o_applied_coupons := rows\<rparr>)))"

definition service_update :: "'w order_ports \<Rightarrow> string \<Rightarrow> update_command \<Rightarrow> ('w, orders_error, order) prog" where
  "service_update P oid c = (let i = trim oid in
     if i = [] then throw (Err ErrInvalidID)
     else if uc_items c = None \<and> uc_shipping_address c = None \<and> uc_shipping_charges c = None
       \<and> uc_applied_coupons c = None then throw (Err ErrEmptyOrderUpdate)
     else bindp (wrap_err ''load order for update'' (p_get P i)) (\<lambda>e.
       if should_ignore_woo (uc_source c) (o_realm e) then enrich_shipping P e
       else bindp (update_items P c e) (\<lambda>e1.
         bindp (update_coupons P c (update_charges c (update_shipping c e1))) (\<lambda>e2.
           let e3 = order_normalize e2 in
           bindp (guard_err (map_option OrderInvalid (order_validate e3))) (\<lambda>_.
             if \<not> has_mutable_state_changes (snapshot_mutable_state e) (snapshot_mutable_state e3)
             then enrich_shipping P e3
             else bindp (wrap_err ''update order'' (p_update P e3)) (\<lambda>stored.
               publish_order P topic_order_updated ''publish order updated event'' stored (uc_source c)))))))"

definition status_entry_of :: "status_command \<Rightarrow> gotime \<Rightarrow> status_entry" where
  "status_entry_of c now = \<lparr>se_status = stc_status c, se_author = trim (stc_author c),
     se_description = trim (stc_description c), se_note_owner = trim (stc_note_owner c),
     se_note = trim (stc_note c), se_occurred_at = given_time (stc_occurred_at c) now\<rparr>"

definition service_update_status :: "'w order_ports \<Rightarrow> string \<Rightarrow> status_command \<Rightarrow> ('w, orders_error, order) prog" where
  "service_update_status P oid c = (let i = trim oid in
     if i = [] then throw (Err ErrInvalidID)
     else bindp (p_now P) (\<lambda>now. let e = status_entry_of c now in
       if trim (se_author e) = [] then throw (Err ErrUpdateStatusAuthorRequired)
       else bindp (guard_err (map_option OrderInvalid (validate_status_entry e))) (\<lambda>_.
         bindp (wrap_err ''load order for status update'' (p_get P i)) (\<lambda>current.
           if should_ignore_woo (stc_source c) (o_realm current) then enrich_shipping P current
           else bindp (wrap_err ''update order status'' (p_append_status P i e)) (\<lambda>stored.
             publish_order P topic_order_status_updated ''publish order status updated event'' stored (stc_source c))))))"

definition comment_of :: "add_comment_command \<Rightarrow> gotime \<Rightarrow> order_comment" where
  "comment_of c now = \<lparr>cm_id = [], cm_author = trim (acc_author c), cm_text = trim (acc_comment c),
     cm_internal = acc_internal c, cm_occurred_at = given_time (acc_occurred_at c) now\<rparr>"

definition service_add_comment :: "'w order_ports \<Rightarrow> string \<Rightarrow> add_comment_command \<Rightarrow> ('w, orders_error, order) prog" where
  "service_add_comment P oid c = (let i = trim oid in
     if i = [] then throw (Err ErrInvalidID)
     else bindp (p_now P) (\<lambda>now. let m = comment_of c now in
       bindp (guard_err (map_option OrderInvalid (validate_comment m))) (\<lambda>_.
         bindp (wrap_err ''load order for comment append'' (p_get P i)) (\<lambda>current.
           if should_ignore_woo (acc_source c) (o_realm current) then enrich_shipping P current
           else bindp (wrap_err ''add order comment'' (p_append_comment P i m)) (\<lambda>stored.
             publish_order P topic_order_updated ''publish order updated event'' stored (acc_source c))))))"

definition service_update_comment :: "'w order_ports \<Rightarrow> string \<Rightarrow> string \<Rightarrow> update_comment_command \<Rightarrow> ('w, orders_error, order) prog" where
  "service_update_comment P oid cid c = (let i = trim oid; ci = trim cid in
     if i = [] then throw (Err ErrInvalidID)
     else if ci = [] then throw (Err ErrInvalidCommentID)
     else if ucc_author c = None \<and> ucc_comment c = None \<and> ucc_internal c = None then throw (Err ErrEmptyCommentUpdate)
     else bindp (wrap_err ''load order for comment update'' (p_get P i)) (\<lambda>current.
       if should_ignore_woo (ucc_source c) (o_realm current) then enrich_shipping P current
       else case merge_comment_update (o_comments current) ci c of
           Inl e \<Rightarrow> throw (Err e)
         | Inr m \<Rightarrow> bindp (guard_err (map_option OrderInvalid (validate_comment m))) (\<lambda>_.
             bindp (wrap_err ''update order comment'' (p_update_comment P i ci m)) (\<lambda>stored.
               publish_order P topic_order_updated ''publish order updated event'' stored (ucc_source c)))))"

definition service_delete_comment :: "'w order_ports \<Rightarrow> string \<Rightarrow> string \<Rightarrow> string \<Rightarrow> ('w, orders_error, order) prog" where
  "service_delete_comment P oid cid source = (let i = trim oid; ci = trim cid in
     if i = [] then throw (Err ErrInvalidID)
     else if ci = [] then throw (Err ErrInvalidCommentID)
     else bindp (wrap_err ''load order for comment delete'' (p_get P i)) (\<lambda>current.
       if should_ignore_woo source (o_realm current) then enrich_shipping P current
       else bindp (wrap_err ''delete order comment'' (p_delete_comment P i ci)) (\<lambda>stored.
         publish_order P topic_order_updated ''publish order updated event'' stored source)))"

end
