(* ===== verification/Orders_Adapters.thy ===== *)
theory Orders_Adapters
  imports Orders_Service
begin

text \<open>
  The adapters that give the order service its customers and products:
  \<^verbatim>\<open>module/orders/adapter/contacts/source.go\<close> over the contacts service, which is a parameter, and
  \<^verbatim>\<open>module/orders/adapter/products/resolver.go\<close> over the product tables.
\<close>

section \<open>Customers\<close>

datatype contact_error = ContactNotFound | ContactFailure string

record contact_entity =
  ce_id :: string
  ce_address :: string
  ce_address_extra :: string
  ce_phone :: string
  ce_city_code :: string

fun external_error :: "contact_error go_error \<Rightarrow> orders_error go_error" where
  "external_error (Err ContactNotFound) = Err ErrCustomerNotFound"
| "external_error (Err (ContactFailure s)) = Err (ExternalError s)"
| "external_error (Wrapped c e) = Wrapped c (external_error e)"

definition contact_source_get :: "(string \<Rightarrow> contact_error go_error + contact_entity) \<Rightarrow> string
    \<Rightarrow> orders_error go_error + customer" where
  "contact_source_get service cid = (case service (trim cid) of
      Inl e \<Rightarrow> if errors_is e ContactNotFound then Inl (Err ErrCustomerNotFound) else Inl (external_error e)
    | Inr c \<Rightarrow> Inr \<lparr>cu_id = ce_id c, cu_address = ce_address c, cu_address_extra = ce_address_extra c,
                  cu_phone = ce_phone c, cu_city_code = ce_city_code c\<rparr>)"

section \<open>Products\<close>

record product_row =
  pt_id :: string
  pt_sku :: string

record variant_row =
  vt_id :: nat
  vt_product_id :: string
  vt_sku :: string

record datasheet_row =
  dt_id :: nat
  dt_product_id :: string
  dt_name :: string

text \<open>The product tables; \<open>pc_fault\<close> names the tables whose query fails.\<close>

record product_catalog =
  pc_products :: "product_row list"
  pc_variants :: "variant_row list"
  pc_datasheets :: "datasheet_row list"
  pc_fault :: "string \<Rightarrow> bool"

definition table_query :: "product_catalog \<Rightarrow> string \<Rightarrow> 'a \<Rightarrow> orders_error go_error + 'a" where
  "table_query c table v = (if pc_fault c table then Inl (Err (DriverError table)) else Inr v)"

text \<open>\<^verbatim>\<open>Take\<close> without an order: the first matching row.\<close>

definition find_by_sku :: "product_catalog \<Rightarrow> string \<Rightarrow> orders_error go_error + string option" where
  "find_by_sku c sku = table_query c ''products''
     (map_option pt_id (find (\<lambda>r. pt_sku r = trim sku) (pc_products c)))"

definition find_by_variant_sku :: "product_catalog \<Rightarrow> string \<Rightarrow> orders_error go_error + string option" where
  "find_by_variant_sku c sku = table_query c ''product_variants''
     (map_option vt_product_id (find (\<lambda>r. vt_sku r = trim sku) (sort_key vt_id (pc_variants c))))"

definition find_by_alternate_name :: "product_catalog \<Rightarrow> string \<Rightarrow> orders_error go_error + string option" where
  "find_by_alternate_name c name = table_query c ''product_datasheets''
     (map_option dt_product_id (find (\<lambda>r. to_lower (dt_name r) = to_lower (trim name)) (sort_key dt_id (pc_datasheets c))))"

definition resolve_alternate :: "product_catalog \<Rightarrow> string \<Rightarrow> orders_error go_error + product_resolution option" where
  "resolve_alternate c name = (if name = [] then Inr None
     else case find_by_alternate_name c name of Inl e \<Rightarrow> Inl e
       | Inr (Some p) \<Rightarrow> Inr (Some \<lparr>pr_product_id = p, pr_matched_by = ''alternate_name''\<rparr>)
       | Inr None \<Rightarrow> Inr None)"

definition resolver_resolve :: "product_catalog \<Rightarrow> string \<Rightarrow> string \<Rightarrow> orders_error go_error + product_resolution option" where
  "resolver_resolve c sku0 name0 =
    (let sku = trim sku0; name = trim name0 in
     if sku = [] then resolve_alternate c name
     else case find_by_sku c sku of Inl e \<Rightarrow> Inl e
       | Inr (Some p) \<Rightarrow> Inr (Some \<lparr>pr_product_id = p, pr_matched_by = ''sku''\<rparr>)
       | Inr None \<Rightarrow> (case find_by_variant_sku c sku of Inl e \<Rightarrow> Inl e
         | Inr (Some p) \<Rightarrow> Inr (Some \<lparr>pr_product_id = p, pr_matched_by = ''variant_sku''\<rparr>)
         | Inr None \<Rightarrow> resolve_alternate c name))"

section \<open>What a resolved item says about its source\<close>

definition product_by_sku :: "product_catalog \<Rightarrow> string \<Rightarrow> string option" where
  "product_by_sku c sku = (if sku = [] then None
     else map_option pt_id (find (\<lambda>r. pt_sku r = sku) (pc_products c)))"

definition product_by_variant :: "product_catalog \<Rightarrow> string \<Rightarrow> string option" where
  "product_by_variant c sku = (if sku = [] then None
     else map_option vt_product_id (find (\<lambda>r. vt_sku r = sku) (sort_key vt_id (pc_variants c))))"

definition product_by_name :: "product_catalog \<Rightarrow> string \<Rightarrow> string option" where
  "product_by_name c name = (if name = [] then None
     else map_option dt_product_id (find (\<lambda>r. to_lower (dt_name r) = to_lower name) (sort_key dt_id (pc_datasheets c))))"

text \<open>An item without a given product is matched by its SKU, else by a variant's SKU, else by its
  alternate name, in that order. The resolution source says \<open>sku\<close> or \<open>alternate_name\<close> for the first
  and the last kind of match, but a match by variant SKU is labelled \<open>unresolved\<close> although the item has
  its product, since \<^verbatim>\<open>resolveItem\<close> does not know the resolver's \<^verbatim>\<open>variant_sku\<close>.\<close>

theorem resolved_item_source:
  assumes "trim (ic_product_id c) = []" and "pc_fault cat = (\<lambda>_. False)"
  shows "\<exists>i. resolve_item (Some (resolver_resolve cat)) c = Inr i
    \<and> (it_product_id i, it_source i) =
       (case product_by_sku cat (trim (ic_sku c)) of Some p \<Rightarrow> (trim p, source_sku)
        | None \<Rightarrow> (case product_by_variant cat (trim (ic_sku c)) of Some p \<Rightarrow> (trim p, source_unresolved)
          | None \<Rightarrow> (case product_by_name cat (trim (ic_alternate_name c)) of
              Some p \<Rightarrow> (trim p, source_alternate_name) | None \<Rightarrow> ([], source_unresolved))))"
proof -
  have m: "to_lower (trim ''sku'') = ''sku''" "to_lower (trim ''variant_sku'') = ''variant_sku''"
    "to_lower (trim ''alternate_name'') = ''alternate_name''" by code_simp+
  show ?thesis
    using assms m
    by (auto simp: resolve_item_def resolver_resolve_def find_by_sku_def find_by_variant_sku_def
        find_by_alternate_name_def resolve_alternate_def table_query_def product_by_sku_def
        product_by_variant_def product_by_name_def Let_def split: option.splits)
qed

theorem resolved_item_source_witness:
  "\<exists>i. resolve_item (Some (resolver_resolve
        \<lparr>pc_products = [\<lparr>pt_id = ''p1'', pt_sku = ''A''\<rparr>],
         pc_variants = [\<lparr>vt_id = 1, vt_product_id = ''p1'', vt_sku = ''A-red''\<rparr>],
         pc_datasheets = [], pc_fault = (\<lambda>_. False)\<rparr>))
      \<lparr>ic_sku = ''A-red '', ic_alternate_name = [], ic_product_id = [], ic_quantity = 1, ic_value = 2\<rparr> = Inr i
    \<and> it_product_id i = ''p1'' \<and> it_source i = source_unresolved"
proof -
  let ?cat = "\<lparr>pc_products = [\<lparr>pt_id = ''p1'', pt_sku = ''A''\<rparr>],
         pc_variants = [\<lparr>vt_id = 1, vt_product_id = ''p1'', vt_sku = ''A-red''\<rparr>],
         pc_datasheets = [], pc_fault = (\<lambda>_. False)\<rparr>"
  let ?c = "\<lparr>ic_sku = ''A-red '', ic_alternate_name = [], ic_product_id = [], ic_quantity = 1, ic_value = 2\<rparr>"
  have t: "trim ''A-red '' = ''A-red''" "trim ''p1'' = ''p1''" by code_simp+
  show ?thesis
    using resolved_item_source[of ?c ?cat] t by (simp add: product_by_sku_def product_by_variant_def)
qed

end
