(* ===== verification/Orders_Contract.thy ===== *)
theory Orders_Contract
  imports Orders_Validity Orders_Adapters
begin

text \<open>
  The contract between the order service and its collaborators, as locales over \<open>order_ports\<close>, the
  service's lemmas under that contract, the assembled module (\<open>order_shop\<close>: tables, contacts,
  products, event transport), and the interpretation that shows the assembled module fulfils it.
\<close>

section \<open>Contracts\<close>

text \<open>What the service relies on to keep stored orders valid: reads change nothing, \<open>Create\<close> and
  \<open>Update\<close> validate what they store, and the operations on statuses and comments keep validity when
  they are given a valid entry or comment.\<close>

locale valid_ports =
  fixes P :: "'w order_ports" and valid :: "'w \<Rightarrow> bool"
  assumes get_keeps: "preserves valid (p_get P i)"
    and list_keeps: "preserves valid (p_list P q)"
    and customer_keeps: "preserves valid (p_customer P i)"
    and now_keeps: "preserves valid (p_now P)"
    and event_id_keeps: "preserves valid (p_event_id P)"
    and publish_keeps: "preserves valid (p_publish P ev)"
    and create_keeps: "preserves valid (p_create P ord)"
    and update_keeps: "preserves valid (p_update P ord)"
    and append_status_keeps: "entry_ok e \<Longrightarrow> preserves valid (p_append_status P i e)"
    and append_comment_keeps: "comment_ok c \<Longrightarrow> preserves valid (p_append_comment P i c)"
    and update_comment_keeps: "comment_ok c \<Longrightarrow> preserves valid (p_update_comment P i ci c)"
    and delete_comment_keeps: "preserves valid (p_delete_comment P i ci)"

text \<open>What it relies on to leave the world alone when it ignores a request.\<close>

locale reading_ports =
  fixes P :: "'w order_ports" and stored :: "'w \<Rightarrow> string \<Rightarrow> order option"
  assumes get_stored: "p_get P i w = (Inr v, w') \<Longrightarrow> w' = w \<and> stored w (trim i) = Some v"
    and get_readonly: "readonly (p_get P i)"
    and customer_readonly: "readonly (p_customer P i)"
    and now_readonly: "readonly (p_now P)"

lemma validate_status_entry_None: "validate_status_entry e = None \<longleftrightarrow> entry_ok e"
proof -
  have "trim ''validation-id'' \<noteq> []" "trim ''validation-realm'' \<noteq> []" "trim ''validation-contact'' \<noteq> []"
    "trim ''sku'' \<noteq> []" by code_simp+
  then show ?thesis
    by (auto simp: validate_status_entry_def order_validate_None order_ok_def item_ok_def entry_ok_def
        is_valid_metadata_def)
qed

lemma validate_comment_None: "validate_comment c = None \<longleftrightarrow> comment_ok c"
  by (simp add: validate_comment_def comment_ok_def)

lemma preserves_guarded:
  "(c = None \<Longrightarrow> preserves I m) \<Longrightarrow> preserves I (bindp (guard_err c) (\<lambda>_. m))"
  by (cases c) (auto simp: preserves_def prog_simps)

lemma preserves_resolve_items [preserves_intros]: "preserves I (resolve_items P cs)"
  by (simp add: preserves_def resolve_items_def)

context valid_ports
begin

lemmas port_keeps = get_keeps list_keeps customer_keeps now_keeps event_id_keeps publish_keeps
  create_keeps update_keeps append_status_keeps append_comment_keeps update_comment_keeps delete_comment_keeps

lemma enrich_keeps: "preserves valid (enrich_shipping P ord)"
  unfolding enrich_shipping_def
  by (intro preserves_intros customer_keeps)

lemma publish_order_keeps: "preserves valid (publish_order P topic label ord source)"
  unfolding publish_order_def by (intro preserves_intros enrich_keeps now_keeps event_id_keeps publish_keeps)

lemma coupons_keeps: "preserves valid (normalize_applied_coupons P cs)"
proof (induction cs)
  case (Cons c cs)
  then show ?case
    by (simp add: Let_def) (intro impI preserves_intros now_keeps)
qed (simp add: preserves_ret)

lemma create_call_keeps: "preserves valid (service_create P c)"
  unfolding service_create_def
  by (intro preserves_intros customer_keeps now_keeps coupons_keeps create_keeps publish_order_keeps)

lemma get_call_keeps: "preserves valid (service_get P oid)"
  unfolding service_get_def by (intro preserves_intros get_keeps enrich_keeps)

lemma enrich_all_keeps: "preserves valid (enrich_all P rs)"
proof (induction rs)
  case (Cons r rs)
  then show ?case by simp (intro preserves_intros enrich_keeps)
qed (simp add: preserves_ret)

lemma list_call_keeps: "preserves valid (service_list P q)"
  unfolding service_list_def Let_def case_prod_unfold
  by (intro preserves_intros list_keeps enrich_all_keeps)

lemma update_call_keeps: "preserves valid (service_update P oid c)"
  unfolding service_update_def update_items_def update_coupons_def
  by (intro preserves_intros get_keeps enrich_keeps coupons_keeps update_keeps publish_order_keeps)

lemma status_call_keeps: "preserves valid (service_update_status P oid c)"
  unfolding service_update_status_def Let_def
  by (intro preserves_if preserves_throw preserves_bindp[OF now_keeps] preserves_guarded
      preserves_bindp[OF preserves_wrap_err] get_keeps enrich_keeps append_status_keeps publish_order_keeps)
    (simp add: validate_status_entry_None)

lemma add_comment_call_keeps: "preserves valid (service_add_comment P oid c)"
  unfolding service_add_comment_def Let_def
  by (intro preserves_if preserves_throw preserves_bindp[OF now_keeps] preserves_guarded
      preserves_bindp[OF preserves_wrap_err] get_keeps enrich_keeps append_comment_keeps publish_order_keeps)
    (simp add: validate_comment_None)

lemma update_comment_call_keeps: "preserves valid (service_update_comment P oid cid c)"
  unfolding service_update_comment_def Let_def
  by (intro preserves_if preserves_throw preserves_guarded preserves_case_sum
      preserves_bindp[OF preserves_wrap_err] get_keeps enrich_keeps update_comment_keeps publish_order_keeps)
    (simp add: validate_comment_None)

lemma delete_comment_call_keeps: "preserves valid (service_delete_comment P oid cid source)"
  unfolding service_delete_comment_def
  by (intro preserves_intros get_keeps enrich_keeps delete_comment_keeps publish_order_keeps)

end

section \<open>Ignored requests\<close>

context reading_ports
begin

lemma readonly_enrich: "snd (enrich_shipping P ord w) = w"
  by (auto simp: enrich_shipping_def prog_simps split: prod.splits sum.splits option.splits
      dest: readonlyD[OF customer_readonly])

lemma ignored_after_get:
  assumes "stored w (trim i) = Some v" "should_ignore_woo source (o_realm v)"
  shows "snd (bindp (wrap_err l (p_get P i)) (\<lambda>x. if should_ignore_woo source (o_realm x) then enrich_shipping P x else m x) w) = w"
proof (cases "p_get P i w")
  case (Pair r w')
  then have "w' = w" using get_readonly by (metis readonly_def snd_conv)
  show ?thesis
  proof (cases r)
    case (Inl e)
    with Pair \<open>w' = w\<close> show ?thesis by (simp add: prog_simps)
  next
    case (Inr x)
    then have "x = v" using get_stored[of i w x w'] Pair assms(1) by simp
    with Pair Inr \<open>w' = w\<close> assms(2) show ?thesis by (simp add: prog_simps readonly_enrich)
  qed
qed

lemma after_now: "(\<And>t. snd (m t w) = w) \<Longrightarrow> snd (bindp (p_now P) m w) = w"
  using now_readonly by (auto simp: prog_simps readonly_def split: prod.splits sum.splits) (metis snd_conv)+

lemma after_guard: "snd (m w) = w \<Longrightarrow> snd (bindp (guard_err c) (\<lambda>_. m) w) = w"
  by (simp add: prog_simps split: option.splits)

lemma ignored_status:
  assumes "stored w (trim oid) = Some v" "should_ignore_woo (stc_source c) (o_realm v)"
  shows "snd (service_update_status P oid c w) = w"
  unfolding service_update_status_def Let_def
  using ignored_after_get[of w "trim oid" v] assms
  by (auto simp: throw_apply intro!: after_now after_guard)

lemma ignored_add_comment:
  assumes "stored w (trim oid) = Some v" "should_ignore_woo (acc_source c) (o_realm v)"
  shows "snd (service_add_comment P oid c w) = w"
  unfolding service_add_comment_def Let_def
  using ignored_after_get[of w "trim oid" v] assms
  by (auto simp: throw_apply intro!: after_now after_guard)

lemma ignored_update_comment:
  assumes "stored w (trim oid) = Some v" "should_ignore_woo (ucc_source c) (o_realm v)"
  shows "snd (service_update_comment P oid cid c w) = w"
  unfolding service_update_comment_def Let_def
  using ignored_after_get[of w "trim oid" v] assms by (auto simp: throw_apply)

lemma ignored_delete_comment:
  assumes "stored w (trim oid) = Some v" "should_ignore_woo source (o_realm v)"
  shows "snd (service_delete_comment P oid cid source w) = w"
  unfolding service_delete_comment_def Let_def
  using ignored_after_get[of w "trim oid" v] assms by (auto simp: throw_apply)

lemma ignored_update:
  assumes "stored w (trim oid) = Some v" "should_ignore_woo (uc_source c) (o_realm v)"
  shows "snd (service_update P oid c w) = w"
  unfolding service_update_def Let_def
  using ignored_after_get[of w "trim oid" v] assms by (auto simp: throw_apply)

end

section \<open>The assembled module\<close>

text \<open>\<open>sh_contacts\<close> is the contacts service, \<open>sh_log\<close> the events handed to the transport, \<open>sh_transport_down\<close>
  a transport that refuses events, \<open>sh_reported\<close> the choice of the item worker pool.\<close>

record order_shop =
  sh_db :: order_db
  sh_contacts :: "string \<Rightarrow> contact_error go_error + contact_entity"
  sh_catalog :: product_catalog
  sh_log :: "integration_event list"
  sh_transport_down :: bool
  sh_event_ids :: "nat \<Rightarrow> string"
  sh_event_next :: nat
  sh_reported :: "nat list \<Rightarrow> nat"

definition on_db :: "'a db_prog \<Rightarrow> (order_shop, orders_error, 'a) prog" where
  "on_db m = (\<lambda>s. case m (sh_db s) of (r, d) \<Rightarrow> (r, s\<lparr>sh_db := d\<rparr>))"

definition publish_event :: "integration_event \<Rightarrow> (order_shop, orders_error, unit) prog" where
  "publish_event ev = (\<lambda>s. if sh_transport_down s then (Inl (Err (ExternalError ''publish'')), s)
     else (Inr (), s\<lparr>sh_log := sh_log s @ [ev]\<rparr>))"

definition shop_ports :: "order_shop order_ports" where
  "shop_ports = \<lparr>p_create = (\<lambda>ord. on_db (repo_create ord)), p_update = (\<lambda>ord. on_db (repo_update ord)),
     p_get = (\<lambda>i. on_db (repo_get i)), p_list = (\<lambda>q. on_db (repo_list q)),
     p_append_status = (\<lambda>i e. on_db (repo_append_status i e)),
     p_append_comment = (\<lambda>i c. on_db (repo_append_comment i c)),
     p_update_comment = (\<lambda>i ci c. on_db (repo_update_comment i ci c)),
     p_delete_comment = (\<lambda>i ci. on_db (repo_delete_comment i ci)),
     p_customer = (\<lambda>i s. (case contact_source_get (sh_contacts s) i of Inl e \<Rightarrow> (Inl e, s) | Inr c \<Rightarrow> (Inr (Some c), s))),
     p_resolver = Some (\<lambda>s. resolver_resolve (sh_catalog s)),
     p_reported = sh_reported,
     p_publish = publish_event,
     p_now = getp (\<lambda>s. db_clock (sh_db s)),
     p_event_id = (\<lambda>s. (Inr (sh_event_ids s (sh_event_next s)), s\<lparr>sh_event_next := Suc (sh_event_next s)\<rparr>))\<rparr>"

definition shop_valid :: "(nat \<Rightarrow> string) \<Rightarrow> order_shop \<Rightarrow> bool" where
  "shop_valid f s \<longleftrightarrow> db_valid (sh_db s) \<and> linked f (sh_db s) \<and> (\<forall>n. trim (f n) = f n)"

definition shop_stored :: "order_shop \<Rightarrow> string \<Rightarrow> order option" where
  "shop_stored s i = order_view (sh_db s) i"

lemma preserves_on_db:
  assumes "preserves (\<lambda>d. db_valid d \<and> linked f d) m \<or> \<not> (\<forall>n. trim (f n) = f n)"
  shows "preserves (shop_valid f) (on_db m)"
  using assms by (auto simp: preserves_def on_db_def shop_valid_def split: prod.splits)

lemma linked_valid_create:
  assumes "\<forall>n. trim (f n) = f n"
  shows "preserves (\<lambda>d. db_valid d \<and> linked f d) (repo_create ord)"
proof (rule preservesI)
  fix d assume d: "db_valid d \<and> linked f d"
  then have "random_trimmed d" using assms by (simp add: linked_def random_trimmed_def)
  with d assms show "db_valid (snd (repo_create ord d)) \<and> linked f (snd (repo_create ord d))"
    by (simp add: linked_create valid_repo_create)
qed

lemma preserves_repo_list: "preserves I (repo_list q)"
  unfolding repo_list_def Let_def case_prod_unfold by (intro preserves_intros)

interpretation shop: valid_ports shop_ports "shop_valid f"
proof
  show "preserves (shop_valid f) (p_get shop_ports i)" for i
    by (auto simp: shop_ports_def intro!: preserves_on_db preserves_repo_get)
  show "preserves (shop_valid f) (p_list shop_ports q)" for q
    by (auto simp: shop_ports_def intro!: preserves_on_db preserves_repo_list)
  show "preserves (shop_valid f) (p_customer shop_ports i)" for i
    by (auto simp: shop_ports_def preserves_def split: sum.splits)
  show "preserves (shop_valid f) (p_now shop_ports)"
    by (simp add: shop_ports_def preserves_getp)
  show "preserves (shop_valid f) (p_event_id shop_ports)"
    by (simp add: shop_ports_def preserves_def shop_valid_def)
  show "preserves (shop_valid f) (p_publish shop_ports ev)" for ev
    by (simp add: shop_ports_def preserves_def shop_valid_def publish_event_def)
  show "preserves (shop_valid f) (p_create shop_ports ord)" for ord
    unfolding shop_ports_def order_ports.simps
    by (intro preserves_on_db) (auto intro: linked_valid_create)
  show "preserves (shop_valid f) (p_update shop_ports ord)" for ord
    unfolding shop_ports_def order_ports.simps
    by (intro preserves_on_db disjI1 preserves_conj valid_repo_update linked_update)
  show "preserves (shop_valid f) (p_append_status shop_ports i e)" if "entry_ok e" for i e
    unfolding shop_ports_def order_ports.simps
    by (intro preserves_on_db disjI1 preserves_conj valid_append_status linked_append_status that)
  show "preserves (shop_valid f) (p_append_comment shop_ports i c)" if "comment_ok c" for i c
    unfolding shop_ports_def order_ports.simps
    by (intro preserves_on_db disjI1 preserves_conj valid_append_comment linked_append_comment that)
  show "preserves (shop_valid f) (p_update_comment shop_ports i ci c)" if "comment_ok c" for i ci c
    unfolding shop_ports_def order_ports.simps
    by (intro preserves_on_db disjI1 preserves_conj valid_update_comment linked_update_comment that)
  show "preserves (shop_valid f) (p_delete_comment shop_ports i ci)" for i ci
    unfolding shop_ports_def order_ports.simps
    by (intro preserves_on_db disjI1 preserves_conj valid_delete_comment linked_delete_comment)
qed

interpretation shop_reads: reading_ports shop_ports shop_stored
proof
  fix i :: string and w w' :: order_shop and v :: order
  assume "p_get shop_ports i w = (Inr v, w')"
  then show "w' = w \<and> shop_stored w (trim i) = Some v"
    by (auto simp: shop_ports_def on_db_def repo_get_Inr_iff shop_stored_def split: prod.splits)
next
  fix i :: string
  show "readonly (p_get shop_ports i)"
    using readonly_repo_get[of i] by (auto simp: shop_ports_def on_db_def readonly_def split: prod.splits) (metis snd_conv order_shop.surjective order_shop.update_convs(1))
  show "readonly (p_customer shop_ports i)"
    by (auto simp: shop_ports_def readonly_def split: sum.splits)
  show "readonly (p_now shop_ports)"
    by (simp add: shop_ports_def readonly_def prog_simps)
qed

section \<open>Calls on the assembled module\<close>

datatype service_call = CallCreate create_command | CallGet string | CallList order_list_query
  | CallUpdate string update_command | CallStatus string status_command
  | CallAddComment string add_comment_command | CallUpdateComment string string update_comment_command
  | CallDeleteComment string string string

fun run_call :: "service_call \<Rightarrow> order_shop \<Rightarrow> order_shop" where
  "run_call (CallCreate c) s = snd (service_create shop_ports c s)"
| "run_call (CallGet i) s = snd (service_get shop_ports i s)"
| "run_call (CallList q) s = snd (service_list shop_ports q s)"
| "run_call (CallUpdate i c) s = snd (service_update shop_ports i c s)"
| "run_call (CallStatus i c) s = snd (service_update_status shop_ports i c s)"
| "run_call (CallAddComment i c) s = snd (service_add_comment shop_ports i c s)"
| "run_call (CallUpdateComment i ci c) s = snd (service_update_comment shop_ports i ci c s)"
| "run_call (CallDeleteComment i ci src) s = snd (service_delete_comment shop_ports i ci src s)"

definition run_calls :: "service_call list \<Rightarrow> order_shop \<Rightarrow> order_shop" where
  "run_calls cs s = fold run_call cs s"

lemma run_call_valid: "shop_valid f s \<Longrightarrow> shop_valid f (run_call c s)"
proof (cases c)
  case (CallCreate x)
  then show "shop_valid f s \<Longrightarrow> ?thesis" using shop.create_call_keeps by (simp add: preserves_def)
next
  case (CallGet x)
  then show "shop_valid f s \<Longrightarrow> ?thesis" using shop.get_call_keeps by (simp add: preserves_def)
next
  case (CallList x)
  then show "shop_valid f s \<Longrightarrow> ?thesis" using shop.list_call_keeps by (simp add: preserves_def)
next
  case (CallUpdate x y)
  then show "shop_valid f s \<Longrightarrow> ?thesis" using shop.update_call_keeps by (simp add: preserves_def)
next
  case (CallStatus x y)
  then show "shop_valid f s \<Longrightarrow> ?thesis" using shop.status_call_keeps by (simp add: preserves_def)
next
  case (CallAddComment x y)
  then show "shop_valid f s \<Longrightarrow> ?thesis" using shop.add_comment_call_keeps by (simp add: preserves_def)
next
  case (CallUpdateComment x y z)
  then show "shop_valid f s \<Longrightarrow> ?thesis" using shop.update_comment_call_keeps by (simp add: preserves_def)
next
  case (CallDeleteComment x y z)
  then show "shop_valid f s \<Longrightarrow> ?thesis" using shop.delete_comment_call_keeps by (simp add: preserves_def)
qed

lemma run_calls_valid: "shop_valid f s \<Longrightarrow> shop_valid f (run_calls cs s)"
  by (induction cs arbitrary: s) (simp_all add: run_calls_def run_call_valid)

text \<open>C1: Starting from a store of valid orders, whatever sequence of service calls is made, every order that
  can be read afterwards passes the domain validation: it has an identifier, a realm, a contact, at
  least one valid item, a known current status, authored history entries and comments, and metadata
  within the limits. This needs the checks of UpdateStatus, AddComment and UpdateComment, since the
  repository stores statuses and comments unchecked.\<close>

theorem stored_orders_stay_valid:
  assumes "shop_valid f s" and "repo_get i (sh_db (run_calls cs s)) = (Inr v, d)"
  shows "order_validate v = None"
  using run_calls_valid[OF assms(1), of cs] assms(2)
  by (auto simp: repo_get_Inr_iff shop_valid_def order_validate_None intro: order_view_valid)

text \<open>The order a call is about and the source it names.\<close>

fun call_source :: "service_call \<Rightarrow> (string \<times> string) option" where
  "call_source (CallUpdate i c) = Some (i, uc_source c)"
| "call_source (CallStatus i c) = Some (i, stc_source c)"
| "call_source (CallAddComment i c) = Some (i, acc_source c)"
| "call_source (CallUpdateComment i ci c) = Some (i, ucc_source c)"
| "call_source (CallDeleteComment i ci src) = Some (i, src)"
| "call_source (CallCreate c) = None"
| "call_source (CallGet i) = None"
| "call_source (CallList q) = None"

text \<open>A mutating call on a WooCommerce order whose source is an inbound WooCommerce source (other than the
  synchronisation itself) changes nothing at all: no row is written and no event is published. The
  guard covers updates, status updates and all comment operations alike.\<close>

theorem ignored_woo_call_changes_nothing:
  assumes "call_source c = Some (i, source)" and "order_view (sh_db s) (trim i) = Some v"
    and "should_ignore_woo source (o_realm v)"
  shows "run_call c s = s"
  using assms shop_reads.ignored_update[of s i v] shop_reads.ignored_status[of s i v]
    shop_reads.ignored_add_comment[of s i v] shop_reads.ignored_update_comment[of s i v]
    shop_reads.ignored_delete_comment[of s i v source]
  by (cases c) (auto simp: shop_stored_def)

section \<open>Events\<close>

definition shop_enrich :: "order_shop \<Rightarrow> order \<Rightarrow> order" where
  "shop_enrich s ord = (if o_has_custom_shipping ord then ord
     else case contact_source_get (sh_contacts s) (o_contact_id ord) of
         Inl e \<Rightarrow> ord | Inr c \<Rightarrow> ord\<lparr>o_shipping_address := customer_shipping (Some c)\<rparr>)"

lemma enrich_shop: "enrich_shipping shop_ports ord s = (Inr (shop_enrich s ord), s)"
  by (simp add: enrich_shipping_def shop_enrich_def shop_ports_def prog_simps split: sum.splits)

lemma shop_enrich_simps [simp]:
  "o_id (shop_enrich s ord) = o_id ord" "o_current_status (shop_enrich s ord) = o_current_status ord"
  "o_status_history (shop_enrich s ord) = o_status_history ord" "o_updated_at (shop_enrich s ord) = o_updated_at ord"
  by (simp_all add: shop_enrich_def split: sum.splits)

definition shop_event :: "order_shop \<Rightarrow> string \<Rightarrow> order \<Rightarrow> string \<Rightarrow> integration_event" where
  "shop_event s topic ord source = build_integration_event (sh_event_ids s (sh_event_next s))
     (if o_updated_at ord = 0 then db_clock (sh_db s) else 0) topic (shop_enrich s ord) source"

lemma publish_order_shop:
  "publish_order shop_ports topic label ord source s =
    (if sh_transport_down s
     then (Inl (Wrapped label (Err (ExternalError ''publish''))), s\<lparr>sh_event_next := Suc (sh_event_next s)\<rparr>)
     else (Inr (shop_enrich s ord), s\<lparr>sh_event_next := Suc (sh_event_next s),
             sh_log := sh_log s @ [shop_event s topic ord source]\<rparr>))"
  by (simp add: publish_order_def bindp_apply enrich_shop)
    (simp add: shop_ports_def prog_simps publish_event_def shop_event_def)

text \<open>A status update that passes its checks: what the repository does, then the event.\<close>

lemma status_call_shop:
  assumes "trim oid \<noteq> []" "entry_ok (status_entry_of c (db_clock (sh_db s)))"
    and "repo_get (trim oid) (sh_db s) = (Inr v, sh_db s)" "\<not> should_ignore_woo (stc_source c) (o_realm v)"
    and "repo_append_status (trim oid) (status_entry_of c (db_clock (sh_db s))) (sh_db s) = (Inr v', d')"
  shows "service_update_status shop_ports oid c s = publish_order shop_ports topic_order_status_updated
     ''publish order status updated event'' v' (stc_source c) (s\<lparr>sh_db := d'\<rparr>)"
proof -
  have now: "p_now shop_ports s = (Inr (db_clock (sh_db s)), s)" by (simp add: shop_ports_def prog_simps)
  have get: "p_get shop_ports (trim oid) s = (Inr v, s)" using assms(3) by (simp add: shop_ports_def on_db_def)
  have app: "p_append_status shop_ports (trim oid) (status_entry_of c (db_clock (sh_db s))) s = (Inr v', s\<lparr>sh_db := d'\<rparr>)"
    using assms(5) by (simp add: shop_ports_def on_db_def)
  have author: "trim (se_author (status_entry_of c (db_clock (sh_db s)))) \<noteq> []"
    using assms(2) by (simp add: entry_ok_def)
  show ?thesis
    using assms(1,2,4) author
    by (simp add: service_update_status_def Let_def bindp_apply wrap_err_apply now get app guard_err_apply
        validate_status_entry_None[THEN iffD2])
qed

lemma appended_current:
  assumes "db_ok d" "order_view (append_status_db i e d) i = Some v"
  shows "o_status_history v \<noteq> [] \<and> o_current_status v = se_status (last (o_status_history v))"
proof -
  obtain r where r: "find_order (append_status_db i e d) i = Some r" "v = row_view (append_status_db i e d) r"
    using assms(2) by (auto simp: order_view_def)
  then have i: "or_id r = i" by (auto dest: find_order_SomeD)
  have "appended_row d i e \<in> set (statuses_of (append_status_db i e d) i)"
    by (simp add: statuses_of_def append_status_db_def) (simp add: appended_row_def)
  then have "statuses_of (append_status_db i e d) i \<noteq> []" by auto
  then show ?thesis
    using current_of_row_view[OF db_ok_append_status[OF assms(1)], of i e r] i r(2)
    by (simp add: history_of_row_view last_map to_status_entry_def Let_def)
qed

lemma topics_trimmed: "trim topic_order_status_updated = topic_order_status_updated"
  "trim topic_order_created = topic_order_created" "trim topic_order_updated = topic_order_updated"
  by code_simp+

text \<open>C7: A status update that passes its checks stores the entry. If the event transport accepts the event,
  exactly one event is published, on the status topic, for this order and with a current status equal
  to that of its latest history entry; if the transport refuses it, the caller gets an error although
  the entry is stored, and nothing is published.\<close>

theorem status_update_stores_and_publishes:
  assumes "shop_valid f s" and "db_fault (sh_db s) = (\<lambda>_. False)"
    and "repo_get (trim oid) (sh_db s) = (Inr v, sh_db s)"
    and "trim oid \<noteq> []" and "entry_ok (status_entry_of c (db_clock (sh_db s)))"
    and "\<not> should_ignore_woo (stc_source c) (o_realm v)"
    and "service_update_status shop_ports oid c s = (r, s')"
  shows "sh_db s' = append_status_db (trim oid) (status_entry_of c (db_clock (sh_db s))) (sh_db s)
    \<and> (if sh_transport_down s then isl r \<and> sh_log s' = sh_log s
       else \<exists>x ev. r = Inr x \<and> sh_log s' = sh_log s @ [ev] \<and> iev_topic ev = topic_order_status_updated
         \<and> ep_id (iev_payload ev) = trim (o_id x)
         \<and> ep_current_status (iev_payload ev) = es_status (ep_latest_status (iev_payload ev))
         \<and> ep_current_status (iev_payload ev) = trim (o_current_status x))"
proof -
  let ?e = "status_entry_of c (db_clock (sh_db s))" and ?i = "trim oid"
  let ?d = "append_status_db ?i ?e (sh_db s)"
  have ok: "db_ok (sh_db s)" using assms(1) by (simp add: shop_valid_def db_valid_def)
  have "order_view (sh_db s) ?i = Some v" using assms(3) by (simp add: repo_get_Inr_iff)
  then obtain x where x: "repo_append_status ?i ?e (sh_db s) = (Inr x, ?d)"
    using repo_append_status_succeeds[OF ok, of ?i v ?e] assms(2) by auto
  have view: "order_view ?d ?i = Some x"
    using repo_append_status_state[OF x, THEN conjunct2, THEN conjunct1] by (simp only: trim_idem)
  note call = status_call_shop[OF assms(4,5,3,6) x]
  note cur = appended_current[OF ok view]
  show ?thesis
  proof (cases "sh_transport_down s")
    case True
    have "service_update_status shop_ports oid c s = (Inl (Wrapped ''publish order status updated event''
        (Err (ExternalError ''publish''))), s\<lparr>sh_db := ?d, sh_event_next := Suc (sh_event_next s)\<rparr>)"
      using True by (simp add: call publish_order_shop)
    then have "r = Inl (Wrapped ''publish order status updated event'' (Err (ExternalError ''publish'')))"
      "s' = s\<lparr>sh_db := ?d, sh_event_next := Suc (sh_event_next s)\<rparr>"
      using assms(7) by simp_all
    with True show ?thesis by simp
  next
    case False
    let ?s = "s\<lparr>sh_db := ?d\<rparr>"
    let ?ev = "shop_event ?s topic_order_status_updated x (stc_source c)"
    have "service_update_status shop_ports oid c s = (Inr (shop_enrich ?s x), ?s\<lparr>sh_event_next := Suc (sh_event_next s),
        sh_log := sh_log s @ [?ev]\<rparr>)"
      using False by (simp add: call publish_order_shop)
    then have s': "r = Inr (shop_enrich ?s x)" "s' = ?s\<lparr>sh_event_next := Suc (sh_event_next s), sh_log := sh_log s @ [?ev]\<rparr>"
      using assms(7) by simp_all
    moreover have "sh_log s' = sh_log s @ [?ev]" "sh_db s' = ?d" using s'(2) by simp_all
    moreover have "iev_topic ?ev = topic_order_status_updated \<and> ep_id (iev_payload ?ev) = trim (o_id (shop_enrich ?s x))
      \<and> ep_current_status (iev_payload ?ev) = es_status (ep_latest_status (iev_payload ?ev))
      \<and> ep_current_status (iev_payload ?ev) = trim (o_current_status (shop_enrich ?s x))"
      using cur by (simp add: shop_event_def build_integration_event_def Let_def topics_trimmed
          to_order_event_payload_def latest_event_status_def)
    ultimately show ?thesis using False by (simp only: if_False) blast
  qed
qed

section \<open>Updates that change nothing\<close>

text \<open>An update whose result differs from the stored order by nothing but letter case, surrounding blanks
  or amounts within a millionth writes no row and publishes no event; it returns the order with the
  requested values nevertheless.\<close>

theorem unchanged_update_writes_nothing:
  assumes "repo_get (trim oid) (sh_db s) = (Inr v, sh_db s)" and "trim oid \<noteq> []"
    and "uc_items c = None" and "uc_applied_coupons c = None"
    and "uc_shipping_address c \<noteq> None \<or> uc_shipping_charges c \<noteq> None"
    and "\<not> should_ignore_woo (uc_source c) (o_realm v)"
    and "new = order_normalize (update_charges c (update_shipping c v))" and "order_validate new = None"
    and "\<not> has_mutable_state_changes (snapshot_mutable_state v) (snapshot_mutable_state new)"
  shows "service_update shop_ports oid c s = (Inr (shop_enrich s new), s)"
proof -
  have get: "p_get shop_ports (trim oid) s = (Inr v, s)" using assms(1) by (simp add: shop_ports_def on_db_def)
  show ?thesis
    using assms(2-6,8,9) get assms(7)[symmetric]
    by (simp add: service_update_def Let_def bindp_apply wrap_err_apply guard_err_apply update_items_def
        update_coupons_def ret_apply enrich_shop) auto
qed

section \<open>Applications to a sample module\<close>

definition sample_shop :: "bool \<Rightarrow> order_shop" where
  "sample_shop down = \<lparr>sh_db = sample_db, sh_contacts = (\<lambda>_. Inl (Err ContactNotFound)),
     sh_catalog = \<lparr>pc_products = [], pc_variants = [], pc_datasheets = [], pc_fault = (\<lambda>_. False)\<rparr>,
     sh_log = [], sh_transport_down = down, sh_event_ids = (\<lambda>_. ''e''), sh_event_next = 0, sh_reported = hd\<rparr>"

lemma sample_random: "trim (db_random sample_db n) = db_random sample_db n"
proof -
  have "graphic CHR ''f''" by code_simp
  then have "trim (replicate (Suc n) CHR ''f'') = replicate (Suc n) CHR ''f''"
    by (intro trim_graphic) (simp add: list_all_iff)
  then show ?thesis by (simp only: sample_db_def order_db.simps)
qed

lemma sample_shop_valid: "shop_valid (db_random sample_db) (sample_shop down)"
proof -
  have "rows_valid sample_db \<and> has_items sample_db" by code_simp
  then show ?thesis
    using sample_db_ok sample_refs sample_random by (simp add: shop_valid_def db_valid_def linked_def sample_shop_def)
qed

definition sample_status_command :: status_command where
  "sample_status_command = \<lparr>stc_status = status_completed, stc_author = '' ana'', stc_description = [],
     stc_note_owner = [], stc_note = [], stc_occurred_at = None, stc_source = []\<rparr>"

theorem stored_orders_stay_valid_witness:
  "\<exists>v d. repo_get ''a'' (sh_db (run_calls [] (sample_shop False))) = (Inr v, d) \<and> order_validate v = None"
proof -
  have "repo_get ''a'' (sh_db (run_calls [] (sample_shop False))) = (Inr sample_view, sample_db)"
    using sample_get by (simp add: run_calls_def sample_shop_def)
  then show ?thesis using stored_orders_stay_valid[OF sample_shop_valid] by blast
qed

definition woo_db :: order_db where
  "woo_db = sample_db\<lparr>db_orders := [(sample_row ''a'' ''1001'')\<lparr>or_realm := ''WooCommerce''\<rparr>]\<rparr>"

theorem ignored_woo_call_changes_nothing_witness:
  "run_call (CallDeleteComment ''a'' ''1'' ''woocommerce_webhook'') ((sample_shop False)\<lparr>sh_db := woo_db\<rparr>)
    = (sample_shop False)\<lparr>sh_db := woo_db\<rparr>"
proof -
  have "trim ''a'' = ''a''" "order_view woo_db ''a'' \<noteq> None"
    "should_ignore_woo ''woocommerce_webhook'' (o_realm (the (order_view woo_db ''a'')))" by code_simp+
  then show ?thesis
    using ignored_woo_call_changes_nothing[of "CallDeleteComment ''a'' ''1'' ''woocommerce_webhook''" "''a''" "''woocommerce_webhook''"
        "(sample_shop False)\<lparr>sh_db := woo_db\<rparr>"] by auto
qed

theorem status_update_stores_and_publishes_witness:
  "\<exists>r s'. service_update_status shop_ports ''a'' sample_status_command (sample_shop True) = (r, s')
    \<and> isl r \<and> db_next_status (sh_db s') = 5 \<and> sh_log s' = []"
proof -
  obtain r s' where c: "service_update_status shop_ports ''a'' sample_status_command (sample_shop True) = (r, s')"
    by fastforce
  have "trim ''a'' = ''a''" "trim ''a'' \<noteq> []" by code_simp+
  moreover have "entry_ok (status_entry_of sample_status_command (db_clock (sh_db (sample_shop True))))"
    "\<not> should_ignore_woo (stc_source sample_status_command) (o_realm sample_view)" by code_simp+
  moreover have "db_fault (sh_db (sample_shop True)) = (\<lambda>_. False)" "repo_get ''a'' (sh_db (sample_shop True)) = (Inr sample_view, sh_db (sample_shop True))"
    using sample_get by (simp_all add: sample_shop_def sample_db_def)
  moreover have "sh_log (sample_shop True) = []" "sh_transport_down (sample_shop True)" "db_next_status (sh_db (sample_shop True)) = 4"
    by (simp_all add: sample_shop_def sample_db_def)
  ultimately show ?thesis
    using status_update_stores_and_publishes[OF sample_shop_valid, of True "''a''" sample_view sample_status_command r s'] c
    by (simp add: append_status_db_def)
qed

text \<open>A charge whose title changes in letter case only: the answer shows the new title, the store keeps the old.\<close>

definition charged_db :: order_db where
  "charged_db = sample_db\<lparr>db_charges := [\<lparr>hr_order_id = ''a'', hr_position = 0, hr_method_id = ''flat'',
     hr_method_title = ''flat rate'', hr_price = 3\<rparr>]\<rparr>"

definition retitle_command :: update_command where
  "retitle_command = \<lparr>uc_items = None, uc_shipping_address = None,
     uc_shipping_charges = Some [\<lparr>chc_method_id = ''flat'', chc_method_title = ''Flat Rate'', chc_price = 3\<rparr>],
     uc_applied_coupons = None, uc_source = []\<rparr>"

theorem unchanged_update_writes_nothing_witness:
  "\<exists>x. service_update shop_ports ''a'' retitle_command ((sample_shop False)\<lparr>sh_db := charged_db\<rparr>)
      = (Inr x, (sample_shop False)\<lparr>sh_db := charged_db\<rparr>)
    \<and> map sc_method_title (o_shipping_charges x) = [''Flat Rate'']"
proof -
  let ?s = "(sample_shop False)\<lparr>sh_db := charged_db\<rparr>"
  let ?v = "the (order_view charged_db ''a'')"
  let ?new = "order_normalize (update_charges retitle_command (update_shipping retitle_command ?v))"
  have t: "trim ''a'' = ''a''" by code_simp
  have "order_view charged_db ''a'' \<noteq> None" "reads_work charged_db" by code_simp+
  then have get: "repo_get (trim ''a'') (sh_db ?s) = (Inr ?v, sh_db ?s)" using t by (auto simp: repo_get_Inr_iff)
  have ig: "\<not> should_ignore_woo (uc_source retitle_command) (o_realm ?v)" by code_simp
  have ok: "order_validate ?new = None" by code_simp
  have same: "\<not> has_mutable_state_changes (snapshot_mutable_state ?v) (snapshot_mutable_state ?new)" by code_simp
  have title: "map sc_method_title (o_shipping_charges ?new) = [''Flat Rate'']" by code_simp
  have "service_update shop_ports ''a'' retitle_command ?s = (Inr (shop_enrich ?s ?new), ?s)"
    using t by (intro unchanged_update_writes_nothing[OF get _ _ _ _ ig refl ok same]) (simp_all add: retitle_command_def)
  moreover have "o_shipping_charges (shop_enrich ?s ?new) = o_shipping_charges ?new"
    by (simp add: shop_enrich_def split: sum.splits)
  ultimately show ?thesis using title by simp
qed

end
