(* ===== verification/Worker_Pool.thy ===== *)
theory Worker_Pool
  imports Orders_Service
begin

text \<open>
  The bounded worker pool of \<^verbatim>\<open>resolveItems\<close> (\<^verbatim>\<open>module/orders/application/service_support.go\<close>) as a
  step relation: a sender that fills a buffered channel of indices, workers that take indices until
  the channel is closed and empty or until one of their items fails, and an error channel of
  capacity one. Every interleaving of the goroutines is a run of the relation. The theory shows that
  no run gets stuck, that every run ends, and which results a run can return.
\<close>

section \<open>States and steps\<close>

datatype worker = Idle | Busy nat | Exited | Failed nat

datatype ('e, 'r) sender = Sending nat | Waiting | Aborting 'e | Returned "'e + 'r list"

record ('e, 'r) pool =
  pl_sender :: "('e, 'r) sender"
  pl_channel :: "nat list"
  pl_closed :: bool
  pl_error :: "'e option"
  pl_workers :: "worker list"
  pl_rows :: "'r option list"

definition pool_init :: "nat \<Rightarrow> nat \<Rightarrow> ('e, 'r) pool" where
  "pool_init workers n = \<lparr>pl_sender = Sending 0, pl_channel = [], pl_closed = False, pl_error = None,
     pl_workers = replicate workers Idle, pl_rows = replicate n None\<rparr>"

definition worker_done :: "worker \<Rightarrow> bool" where
  "worker_done w \<longleftrightarrow> (case w of Idle \<Rightarrow> False | Busy _ \<Rightarrow> False | _ \<Rightarrow> True)"

text \<open>The parameters are the number of items and the outcome of each item. Sending never blocks, since
  the channel has room for all indices; the sender may instead pick up an error and abort.\<close>

inductive pool_step :: "nat \<Rightarrow> (nat \<Rightarrow> 'e + 'r) \<Rightarrow> ('e, 'r) pool \<Rightarrow> ('e, 'r) pool \<Rightarrow> bool"
  for n :: nat and f :: "nat \<Rightarrow> 'e + 'r" where
  send: "pl_sender s = Sending k \<Longrightarrow> k < n \<Longrightarrow>
    pool_step n f s (s\<lparr>pl_channel := pl_channel s @ [k], pl_sender := Sending (Suc k)\<rparr>)"
| abort: "pl_sender s = Sending k \<Longrightarrow> k < n \<Longrightarrow> pl_error s = Some e \<Longrightarrow>
    pool_step n f s (s\<lparr>pl_error := None, pl_closed := True, pl_sender := Aborting e\<rparr>)"
| close: "pl_sender s = Sending n \<Longrightarrow>
    pool_step n f s (s\<lparr>pl_closed := True, pl_sender := Waiting\<rparr>)"
| worker_take: "j < length (pl_workers s) \<Longrightarrow> pl_workers s ! j = Idle \<Longrightarrow> pl_channel s = i # is \<Longrightarrow>
    pool_step n f s (s\<lparr>pl_channel := is, pl_workers := (pl_workers s)[j := Busy i]\<rparr>)"
| worker_store: "j < length (pl_workers s) \<Longrightarrow> pl_workers s ! j = Busy i \<Longrightarrow> f i = Inr x \<Longrightarrow>
    pool_step n f s (s\<lparr>pl_rows := (pl_rows s)[i := Some x], pl_workers := (pl_workers s)[j := Idle]\<rparr>)"
| worker_fail: "j < length (pl_workers s) \<Longrightarrow> pl_workers s ! j = Busy i \<Longrightarrow> f i = Inl e \<Longrightarrow>
    pool_step n f s (s\<lparr>pl_error := (case pl_error s of None \<Rightarrow> Some e | Some e' \<Rightarrow> Some e'),
      pl_workers := (pl_workers s)[j := Failed i]\<rparr>)"
| worker_exit: "j < length (pl_workers s) \<Longrightarrow> pl_workers s ! j = Idle \<Longrightarrow> pl_closed s \<Longrightarrow> pl_channel s = [] \<Longrightarrow>
    pool_step n f s (s\<lparr>pl_workers := (pl_workers s)[j := Exited]\<rparr>)"
| return_abort: "pl_sender s = Aborting e \<Longrightarrow> list_all worker_done (pl_workers s) \<Longrightarrow>
    pool_step n f s (s\<lparr>pl_sender := Returned (Inl e)\<rparr>)"
| return_result: "pl_sender s = Waiting \<Longrightarrow> list_all worker_done (pl_workers s) \<Longrightarrow>
    pool_step n f s (s\<lparr>pl_sender := Returned (case pl_error s of Some e \<Rightarrow> Inl e | None \<Rightarrow> Inr (map the (pl_rows s)))\<rparr>)"

definition pool_reachable :: "nat \<Rightarrow> nat \<Rightarrow> (nat \<Rightarrow> 'e + 'r) \<Rightarrow> ('e, 'r) pool \<Rightarrow> bool" where
  "pool_reachable workers n f s \<longleftrightarrow> (pool_step n f)\<^sup>*\<^sup>* (pool_init workers n) s"

section \<open>Invariant\<close>

text \<open>How many indices the sender has put into the channel so far.\<close>

definition sent :: "nat \<Rightarrow> ('e, 'r) pool \<Rightarrow> nat" where
  "sent n s = (case pl_sender s of Sending k \<Rightarrow> k | _ \<Rightarrow> n)"

definition aborted :: "('e, 'r) pool \<Rightarrow> bool" where
  "aborted s \<longleftrightarrow> (case pl_sender s of Aborting _ \<Rightarrow> True | Returned (Inl _) \<Rightarrow> True | _ \<Rightarrow> False)"

text \<open>Unless the run was aborted, a sent index is queued, in work, stored, or has failed.\<close>

definition index_covered :: "(nat \<Rightarrow> 'e + 'r) \<Rightarrow> ('e, 'r) pool \<Rightarrow> nat \<Rightarrow> bool" where
  "index_covered f s i \<longleftrightarrow> i \<in> set (pl_channel s) \<or> Busy i \<in> set (pl_workers s) \<or> Failed i \<in> set (pl_workers s)
     \<or> (\<exists>x. f i = Inr x \<and> pl_rows s ! i = Some x)"

definition bounds_inv :: "nat \<Rightarrow> nat \<Rightarrow> (nat \<Rightarrow> 'e + 'r) \<Rightarrow> ('e, 'r) pool \<Rightarrow> bool" where
  "bounds_inv workers n f s \<longleftrightarrow> length (pl_rows s) = n \<and> length (pl_workers s) = workers
   \<and> (\<forall>k. pl_sender s = Sending k \<longrightarrow> k \<le> n)
   \<and> (\<forall>i. i \<in> set (pl_channel s) \<longrightarrow> i < n)
   \<and> (\<forall>i. Busy i \<in> set (pl_workers s) \<longrightarrow> i < n)
   \<and> (\<forall>i. Failed i \<in> set (pl_workers s) \<longrightarrow> i < n \<and> isl (f i))
   \<and> (\<forall>i x. i < n \<longrightarrow> pl_rows s ! i = Some x \<longrightarrow> f i = Inr x)"

definition closing_inv :: "('e, 'r) pool \<Rightarrow> bool" where
  "closing_inv s \<longleftrightarrow> (\<forall>k. pl_sender s = Sending k \<longrightarrow> \<not> pl_closed s)
   \<and> (Exited \<in> set (pl_workers s) \<longrightarrow> pl_closed s \<and> pl_channel s = [])"

definition error_inv :: "nat \<Rightarrow> (nat \<Rightarrow> 'e + 'r) \<Rightarrow> ('e, 'r) pool \<Rightarrow> bool" where
  "error_inv n f s \<longleftrightarrow> (\<forall>e. pl_error s = Some e \<or> pl_sender s = Aborting e \<or> pl_sender s = Returned (Inl e)
       \<longrightarrow> (\<exists>i < n. f i = Inl e))
   \<and> (\<not> aborted s \<longrightarrow> (\<forall>i. Failed i \<in> set (pl_workers s) \<longrightarrow> pl_error s \<noteq> None))"

definition cover_inv :: "nat \<Rightarrow> (nat \<Rightarrow> 'e + 'r) \<Rightarrow> ('e, 'r) pool \<Rightarrow> bool" where
  "cover_inv n f s \<longleftrightarrow> (\<not> aborted s \<longrightarrow> (\<forall>i < sent n s. index_covered f s i))"

lemma in_set_update: "y \<in> set (xs[j := w]) \<Longrightarrow> y = w \<or> y \<in> set xs"
  using set_update_subset_insert[of xs j w] by blast

lemma set_update_keeps: "y \<in> set xs \<Longrightarrow> y \<noteq> xs ! j \<Longrightarrow> y \<in> set (xs[j := w])"
  by (metis in_set_conv_nth length_list_update nth_list_update_neq)

lemma set_update_new: "j < length xs \<Longrightarrow> w \<in> set (xs[j := w])"
  by (rule set_update_memI)

lemma busy_mem: "j < length ws \<Longrightarrow> ws ! j = Busy i \<Longrightarrow> Busy i \<in> set ws"
  by (metis nth_mem)

lemma bounds_inv_step:
  "pool_step n f s t \<Longrightarrow> bounds_inv workers n f s \<Longrightarrow> bounds_inv workers n f t"
  by (induction rule: pool_step.induct)
    (auto simp: bounds_inv_def nth_list_update split: if_splits dest!: in_set_update dest: busy_mem)

lemma closing_inv_step: "pool_step n f s t \<Longrightarrow> closing_inv s \<Longrightarrow> closing_inv t"
  by (induction rule: pool_step.induct) (auto simp: closing_inv_def dest!: in_set_update)

lemma error_inv_step:
  "pool_step n f s t \<Longrightarrow> bounds_inv workers n f s \<Longrightarrow> error_inv n f s \<Longrightarrow> error_inv n f t"
  by (induction rule: pool_step.induct)
    (auto simp: error_inv_def bounds_inv_def aborted_def dest!: in_set_update dest: busy_mem split: option.splits)

lemma index_covered_mono:
  assumes "index_covered f s i"
    and "i \<in> set (pl_channel s) \<Longrightarrow> i \<in> set (pl_channel t) \<or> Busy i \<in> set (pl_workers t)"
    and "Busy i \<in> set (pl_workers s) \<Longrightarrow> index_covered f t i"
    and "Failed i \<in> set (pl_workers s) \<Longrightarrow> Failed i \<in> set (pl_workers t)"
    and "\<And>x. f i = Inr x \<Longrightarrow> pl_rows s ! i = Some x \<Longrightarrow> pl_rows t ! i = Some x"
  shows "index_covered f t i"
  using assms unfolding index_covered_def by blast

lemma cover_inv_step:
  assumes "pool_step n f s t" "bounds_inv workers n f s" "cover_inv n f s"
  shows "cover_inv n f t"
  using assms
proof (induction rule: pool_step.induct)
  case (send s k)
  then show ?case by (auto simp: cover_inv_def sent_def aborted_def index_covered_def less_Suc_eq)
next
  case (abort s k e)
  then show ?case by (simp add: cover_inv_def aborted_def)
next
  case (close s)
  then show ?case by (auto simp: cover_inv_def sent_def aborted_def index_covered_def)
next
  case (worker_take j s i "is")
  then have "index_covered f (s\<lparr>pl_channel := is, pl_workers := (pl_workers s)[j := Busy i]\<rparr>) k"
    if "index_covered f s k" for k
    using that set_update_new[of j "pl_workers s" "Busy i"]
    by (auto simp: index_covered_def intro: set_update_keeps)
  with worker_take show ?case by (simp add: cover_inv_def sent_def aborted_def)
next
  case (worker_store j s i x)
  then have "i < length (pl_rows s)" by (auto simp: bounds_inv_def dest: nth_mem)
  then have "index_covered f (s\<lparr>pl_rows := (pl_rows s)[i := Some x], pl_workers := (pl_workers s)[j := Idle]\<rparr>) k"
    if "index_covered f s k" for k
    using that worker_store(1-3)
    by (cases "k = i") (auto simp: index_covered_def intro: set_update_keeps)
  with worker_store show ?case by (simp add: cover_inv_def sent_def aborted_def)
next
  case (worker_fail j s i e)
  then have "index_covered f (s\<lparr>pl_error := (case pl_error s of None \<Rightarrow> Some e | Some e' \<Rightarrow> Some e'),
      pl_workers := (pl_workers s)[j := Failed i]\<rparr>) k"
    if "index_covered f s k" for k
    using that set_update_new[of j "pl_workers s" "Failed i"]
    by (cases "k = i") (auto simp: index_covered_def intro: set_update_keeps)
  with worker_fail show ?case by (simp add: cover_inv_def sent_def aborted_def)
next
  case (worker_exit j s)
  then have "index_covered f (s\<lparr>pl_workers := (pl_workers s)[j := Exited]\<rparr>) k"
    if "index_covered f s k" for k
    using that by (auto simp: index_covered_def intro: set_update_keeps)
  with worker_exit show ?case by (simp add: cover_inv_def sent_def aborted_def)
next
  case (return_abort s e)
  then show ?case by (simp add: cover_inv_def aborted_def)
next
  case (return_result s)
  then show ?case
    by (auto simp: cover_inv_def sent_def aborted_def index_covered_def split: option.splits sum.splits)
qed

definition result_inv :: "nat \<Rightarrow> (nat \<Rightarrow> 'e + 'r) \<Rightarrow> ('e, 'r) pool \<Rightarrow> bool" where
  "result_inv n f s \<longleftrightarrow> (\<forall>rs. pl_sender s = Returned (Inr rs) \<longrightarrow> length rs = n \<and> (\<forall>i < n. f i = Inr (rs ! i)))"

lemma result_inv_step:
  assumes "pool_step n f s t" "0 < workers" "bounds_inv workers n f s" "closing_inv s" "error_inv n f s"
    "cover_inv n f s" "result_inv n f s"
  shows "result_inv n f t"
  using assms
proof (induction rule: pool_step.induct)
  case (return_result s)
  show ?case
  proof (cases "pl_error s")
    case None
    with return_result have no_fail: "Failed i \<notin> set (pl_workers s)" for i
      by (auto simp: error_inv_def aborted_def)
    have no_busy: "Busy i \<notin> set (pl_workers s)" "Idle \<notin> set (pl_workers s)" for i
      using return_result(2) by (auto simp: list_all_iff worker_done_def)
    have "pl_workers s \<noteq> []" using return_result(3,4) by (auto simp: bounds_inv_def)
    then obtain w where "w \<in> set (pl_workers s)" by (cases "pl_workers s") auto
    then have "Exited \<in> set (pl_workers s)" using no_fail no_busy by (metis worker.exhaust)
    then have "pl_channel s = []" using return_result by (simp add: closing_inv_def)
    then have "\<exists>x. f i = Inr x \<and> pl_rows s ! i = Some x" if "i < n" for i
      using that return_result(1,7) no_fail no_busy
      by (auto simp: cover_inv_def aborted_def sent_def index_covered_def)
    then have "f i = Inr (map the (pl_rows s) ! i)" if "i < n" for i
      using that return_result(4) by (fastforce simp: bounds_inv_def)
    then show ?thesis
      using None return_result(4) by (simp add: result_inv_def bounds_inv_def)
  qed (simp add: result_inv_def)
qed (auto simp: result_inv_def)

definition pool_inv :: "nat \<Rightarrow> nat \<Rightarrow> (nat \<Rightarrow> 'e + 'r) \<Rightarrow> ('e, 'r) pool \<Rightarrow> bool" where
  "pool_inv workers n f s \<longleftrightarrow> bounds_inv workers n f s \<and> closing_inv s \<and> error_inv n f s
     \<and> cover_inv n f s \<and> result_inv n f s"

lemma pool_inv_reachable:
  assumes "pool_reachable workers n f s" "0 < workers"
  shows "pool_inv workers n f s"
  using assms(1) unfolding pool_reachable_def
proof (induction rule: rtranclp_induct)
  case base
  show ?case
    by (auto simp: pool_inv_def bounds_inv_def closing_inv_def error_inv_def cover_inv_def result_inv_def
        pool_init_def sent_def aborted_def)
next
  case (step s t)
  then have inv: "bounds_inv workers n f s" "closing_inv s" "error_inv n f s" "cover_inv n f s" "result_inv n f s"
    by (simp_all add: pool_inv_def)
  show ?case
    unfolding pool_inv_def
    using bounds_inv_step[OF step(2) inv(1)] closing_inv_step[OF step(2) inv(2)]
      error_inv_step[OF step(2) inv(1,3)] cover_inv_step[OF step(2) inv(1,4)]
      result_inv_step[OF step(2) assms(2) inv] by blast
qed

section \<open>Progress and termination\<close>

lemma all_done_or_not:
  "list_all worker_done ws \<or> (\<exists>j < length ws. ws ! j = Idle) \<or> (\<exists>j < length ws. \<exists>i. ws ! j = Busy i)"
proof (cases "list_all worker_done ws")
  case False
  then obtain j where "j < length ws" "\<not> worker_done (ws ! j)" by (auto simp: list_all_length)
  then show ?thesis by (cases "ws ! j") (auto simp: worker_done_def)
qed simp

definition pool_final :: "('e, 'r) pool \<Rightarrow> bool" where
  "pool_final s \<longleftrightarrow> (case pl_sender s of Returned _ \<Rightarrow> True | _ \<Rightarrow> False)"

lemma pool_closed_waiting:
  assumes "pool_reachable workers n f s" "pl_sender s = Waiting \<or> (\<exists>e. pl_sender s = Aborting e)"
  shows "pl_closed s"
proof -
  have "(pool_step n f)\<^sup>*\<^sup>* (pool_init workers n) s \<Longrightarrow> pl_closed s \<or> (\<exists>k. pl_sender s = Sending k)"
    by (induction rule: rtranclp_induct) (auto simp: pool_init_def elim: pool_step.cases)
  with assms show ?thesis by (auto simp: pool_reachable_def)
qed

lemma pool_progress:
  assumes "pool_reachable workers n f s" "0 < workers" "\<not> pool_final s"
  shows "\<exists>t. pool_step n f s t"
proof (cases "pl_sender s")
  case (Sending k)
  then have "k \<le> n" using pool_inv_reachable[OF assms(1,2)] by (simp add: pool_inv_def bounds_inv_def)
  then show ?thesis using Sending send[of s k n f] close[of s n f] by (cases "k < n") auto
next
  case (Returned r)
  with assms(3) show ?thesis by (simp add: pool_final_def)
next
  case Waiting
  then have closed: "pl_closed s" using pool_closed_waiting[OF assms(1)] by simp
  from all_done_or_not[of "pl_workers s"] show ?thesis
  proof (elim disjE exE conjE)
    fix j assume "j < length (pl_workers s)" "pl_workers s ! j = Idle"
    then show ?thesis using closed worker_take[of j s] worker_exit[of j s] by (cases "pl_channel s") blast+
  next
    fix j i assume "j < length (pl_workers s)" "pl_workers s ! j = Busy i"
    then show ?thesis using worker_store[of j s i f] worker_fail[of j s i f] by (cases "f i") blast+
  qed (use return_result[OF Waiting] in blast)
next
  case (Aborting e)
  then have closed: "pl_closed s" using pool_closed_waiting[OF assms(1)] by simp
  from all_done_or_not[of "pl_workers s"] show ?thesis
  proof (elim disjE exE conjE)
    fix j assume "j < length (pl_workers s)" "pl_workers s ! j = Idle"
    then show ?thesis using closed worker_take[of j s] worker_exit[of j s] by (cases "pl_channel s") blast+
  next
    fix j i assume "j < length (pl_workers s)" "pl_workers s ! j = Busy i"
    then show ?thesis using worker_store[of j s i f] worker_fail[of j s i f] by (cases "f i") blast+
  qed (use return_abort[OF Aborting] in blast)
qed

definition worker_weight :: "worker \<Rightarrow> nat" where
  "worker_weight w = (case w of Idle \<Rightarrow> 1 | Busy _ \<Rightarrow> 2 | _ \<Rightarrow> 0)"

definition sender_weight :: "nat \<Rightarrow> ('e, 'r) sender \<Rightarrow> nat" where
  "sender_weight n x = (case x of Sending k \<Rightarrow> 4 * (n - k) + 2 | Returned _ \<Rightarrow> 0 | _ \<Rightarrow> 1)"

definition pool_measure :: "nat \<Rightarrow> ('e, 'r) pool \<Rightarrow> nat" where
  "pool_measure n s = sender_weight n (pl_sender s) + 3 * length (pl_channel s)
     + sum_list (map worker_weight (pl_workers s))"

lemma worker_weight_update:
  "j < length ws \<Longrightarrow> sum_list (map worker_weight (ws[j := w])) + worker_weight (ws ! j)
     = sum_list (map worker_weight ws) + worker_weight w"
proof (induction ws arbitrary: j)
  case (Cons x ws)
  then show ?case by (cases j) auto
qed simp

lemma pool_step_decreases: "pool_step n f s t \<Longrightarrow> pool_measure n t < pool_measure n s"
proof (induction rule: pool_step.induct)
  case (worker_take j s i "is")
  then show ?case
    using worker_weight_update[of j "pl_workers s" "Busy i"]
    by (simp add: pool_measure_def worker_weight_def)
next
  case (worker_store j s i x)
  then show ?case
    using worker_weight_update[of j "pl_workers s" Idle]
    by (simp add: pool_measure_def worker_weight_def)
next
  case (worker_fail j s i e)
  then show ?case
    using worker_weight_update[of j "pl_workers s" "Failed i"]
    by (simp add: pool_measure_def worker_weight_def)
next
  case (worker_exit j s)
  then show ?case
    using worker_weight_update[of j "pl_workers s" Exited]
    by (simp add: pool_measure_def worker_weight_def)
qed (simp_all add: pool_measure_def sender_weight_def)

section \<open>The item pool\<close>

definition item_resolve_workers :: nat where "item_resolve_workers = 8"

definition item_pool_init :: "item_command list \<Rightarrow> (orders_error go_error, item) pool" where
  "item_pool_init cs = pool_init (min item_resolve_workers (length cs)) (length cs)"

definition item_pool_step :: "(string \<Rightarrow> string \<Rightarrow> orders_error go_error + product_resolution option) option
    \<Rightarrow> item_command list \<Rightarrow> (orders_error go_error, item) pool \<Rightarrow> (orders_error go_error, item) pool \<Rightarrow> bool" where
  "item_pool_step r cs = pool_step (length cs) (\<lambda>i. resolve_item r (cs ! i))"

lemma item_pool_reachable:
  assumes "(item_pool_step r cs)\<^sup>*\<^sup>* (item_pool_init cs) s"
  shows "pool_reachable (min item_resolve_workers (length cs)) (length cs) (\<lambda>i. resolve_item r (cs ! i)) s"
  using assms by (simp add: item_pool_step_def item_pool_init_def pool_reachable_def)

text \<open>C6: The item pool never gets stuck and never runs forever: in every interleaving of the sender and
  its up to eight workers, a state that has not returned has a next step, and every step decreases a
  measure, so that each run reaches a state in which the result is returned.\<close>

theorem item_pool_terminates:
  assumes "cs \<noteq> []" and "(item_pool_step r cs)\<^sup>*\<^sup>* (item_pool_init cs) s"
  shows "(pool_final s \<or> (\<exists>t. item_pool_step r cs s t))
    \<and> wfp (\<lambda>t s. item_pool_step r cs s t)"
proof
  have "0 < min item_resolve_workers (length cs)" using assms(1) by (simp add: item_resolve_workers_def)
  with pool_progress[OF item_pool_reachable[OF assms(2)]]
  show "pool_final s \<or> (\<exists>t. item_pool_step r cs s t)" by (auto simp: item_pool_step_def)
  show "wfp (\<lambda>t s. item_pool_step r cs s t)"
    by (rule wfp_if_convertible_to_nat[where f = "pool_measure (length cs)"])
      (simp add: item_pool_step_def pool_step_decreases)
qed

text \<open>C5: Whatever the interleaving, the item pool succeeds exactly when the sequential loop over the commands does, and
  then with the same rows in the same order. Otherwise its error is that of some command that does not resolve: not always,
  as in the loop, the first such command.\<close>

theorem item_pool_result:
  assumes "cs \<noteq> []" and "(item_pool_step r cs)\<^sup>*\<^sup>* (item_pool_init cs) s"
    and "pl_sender s = Returned res"
  shows "(\<forall>rows. res = Inr rows \<longleftrightarrow> mapM_sum (resolve_item r) cs = Inr rows)
    \<and> (\<forall>e. res = Inl e \<longrightarrow> (\<exists>i < length cs. resolve_item r (cs ! i) = Inl e))"
proof -
  let ?f = "\<lambda>i. resolve_item r (cs ! i)"
  have "0 < min item_resolve_workers (length cs)" using assms(1) by (simp add: item_resolve_workers_def)
  then have inv: "error_inv (length cs) ?f s" "result_inv (length cs) ?f s"
    using pool_inv_reachable[OF item_pool_reachable[OF assms(2)]] by (simp_all add: pool_inv_def)
  have fails: "\<exists>i < length cs. ?f i = Inl e" if "res = Inl e" for e
    using inv(1) assms(3) that by (auto simp: error_inv_def)
  have works: "length rows = length cs \<and> (\<forall>i < length cs. ?f i = Inr (rows ! i))" if "res = Inr rows" for rows
    using inv(2) assms(3) that by (auto simp: result_inv_def)
  have "res = Inr rows" if rows: "mapM_sum (resolve_item r) cs = Inr rows" for rows
  proof (cases res)
    case (Inl e)
    then obtain i where "i < length cs" "?f i = Inl e" using fails by blast
    with rows show ?thesis by (simp add: mapM_sum_Inr_iff)
  next
    case (Inr xs)
    then have "xs = rows" using works[OF Inr] rows by (intro nth_equalityI) (simp_all add: mapM_sum_Inr_iff)
    with Inr show ?thesis by simp
  qed
  moreover have "mapM_sum (resolve_item r) cs = Inr rows" if "res = Inr rows" for rows
    unfolding mapM_sum_Inr_iff using works[OF that] .
  ultimately show ?thesis using fails by blast
qed

section \<open>A run with one item\<close>

definition sample_item_command :: item_command where
  "sample_item_command = \<lparr>ic_sku = ''A'', ic_alternate_name = [], ic_product_id = ''p'', ic_quantity = 1, ic_value = 2\<rparr>"

definition sample_resolved :: item where
  "sample_resolved = \<lparr>it_sku = ''A'', it_alternate_name = [], it_quantity = 1, it_value = 2, it_product_id = ''p'',
     it_source = source_sku\<rparr>"

lemma sample_resolves: "resolve_item None sample_item_command = Inr sample_resolved"
  by code_simp

lemma six_steps: "R a b \<Longrightarrow> R b c \<Longrightarrow> R c d \<Longrightarrow> R d e \<Longrightarrow> R e f \<Longrightarrow> R f g \<Longrightarrow> R\<^sup>*\<^sup>* a g"
  by (meson converse_rtranclp_into_rtranclp rtranclp.rtrancl_refl)

lemma sample_run:
  "\<exists>s. (item_pool_step None [sample_item_command])\<^sup>*\<^sup>* (item_pool_init [sample_item_command]) s
    \<and> pl_sender s = Returned (Inr [sample_resolved])"
proof -
  let ?f = "\<lambda>i. resolve_item None ([sample_item_command] ! i)"
  let ?p = "\<lambda>x ch cl w row. \<lparr>pl_sender = x, pl_channel = ch, pl_closed = cl, pl_error = None, pl_workers = [w], pl_rows = [row]\<rparr>"
  have f0: "?f 0 = Inr sample_resolved" by (simp add: sample_resolves)
  have 1: "pool_step 1 ?f (?p (Sending 0) [] False Idle None) (?p (Sending 1) [0] False Idle None)"
    using pool_step.send[of "?p (Sending 0) [] False Idle None" 0 1 ?f] by simp
  have 2: "pool_step 1 ?f (?p (Sending 1) [0] False Idle None) (?p (Sending 1) [] False (Busy 0) None)"
    using pool_step.worker_take[of 0 "?p (Sending 1) [0] False Idle None" 0 "[]" 1 ?f] by simp
  have 3: "pool_step 1 ?f (?p (Sending 1) [] False (Busy 0) None) (?p (Sending 1) [] False Idle (Some sample_resolved))"
    using pool_step.worker_store[of 0 "?p (Sending 1) [] False (Busy 0) None" 0 ?f sample_resolved 1] f0 by simp
  have 4: "pool_step 1 ?f (?p (Sending 1) [] False Idle (Some sample_resolved)) (?p Waiting [] True Idle (Some sample_resolved))"
    using pool_step.close[of "?p (Sending 1) [] False Idle (Some sample_resolved)" 1 ?f] by simp
  have 5: "pool_step 1 ?f (?p Waiting [] True Idle (Some sample_resolved)) (?p Waiting [] True Exited (Some sample_resolved))"
    using pool_step.worker_exit[of 0 "?p Waiting [] True Idle (Some sample_resolved)" 1 ?f] by simp
  have 6: "pool_step 1 ?f (?p Waiting [] True Exited (Some sample_resolved)) (?p (Returned (Inr [sample_resolved])) [] True Exited (Some sample_resolved))"
    using pool_step.return_result[of "?p Waiting [] True Exited (Some sample_resolved)" 1 ?f]
    by (simp add: worker_done_def)
  have "(pool_step 1 ?f)\<^sup>*\<^sup>* (?p (Sending 0) [] False Idle None) (?p (Returned (Inr [sample_resolved])) [] True Exited (Some sample_resolved))"
    using 1 2 3 4 5 6 by (rule six_steps)
  then show ?thesis
    by (intro exI[of _ "?p (Returned (Inr [sample_resolved])) [] True Exited (Some sample_resolved)"])
      (simp add: item_pool_step_def item_pool_init_def pool_init_def item_resolve_workers_def)
qed

theorem item_pool_result_witness:
  "\<exists>s. (item_pool_step None [sample_item_command])\<^sup>*\<^sup>* (item_pool_init [sample_item_command]) s
    \<and> pl_sender s = Returned (Inr [sample_resolved]) \<and> mapM_sum (resolve_item None) [sample_item_command] = Inr [sample_resolved]"
proof -
  obtain s where s: "(item_pool_step None [sample_item_command])\<^sup>*\<^sup>* (item_pool_init [sample_item_command]) s"
    "pl_sender s = Returned (Inr [sample_resolved])" using sample_run by blast
  from item_pool_result[OF _ s] s show ?thesis by blast
qed

theorem item_pool_terminates_witness:
  "\<exists>t. item_pool_step None [sample_item_command] (item_pool_init [sample_item_command]) t"
proof -
  have "\<not> pool_final (item_pool_init [sample_item_command])"
    by (simp add: pool_final_def item_pool_init_def pool_init_def)
  then show ?thesis
    using item_pool_terminates[of "[sample_item_command]" None "item_pool_init [sample_item_command]"] by simp
qed

end
