(* ===== verification/Coupons_Domain.thy ===== *)
theory Coupons_Domain
  imports Go_Strings
begin

text \<open>
  The coupon aggregate (\<^verbatim>\<open>module/coupons/domain/coupon.go\<close>): normalization, validation and the
  generation of random codes.
\<close>

section \<open>Coupons\<close>

datatype coupon_invalid = ErrCodeRequired | ErrCodeTooLong | ErrDiscountTypeInvalid
  | ErrDiscountAmountInvalid | ErrPercentageExceedsMax

definition discount_fixed :: string where "discount_fixed = ''fixed''"
definition discount_percentage :: string where "discount_percentage = ''percentage''"

record coupon =
  cp_id :: string
  cp_code :: string
  cp_origin :: string
  cp_discount_type :: string
  cp_amount :: float64
  cp_max_global :: "int option"
  cp_max_per_email :: "int option"
  cp_active :: bool
  cp_expires_at :: "gotime option"
  cp_emails :: "string list"
  cp_contact_ids :: "string list"
  cp_product_ids :: "string list"
  cp_category_ids :: "string list"
  cp_tag_ids :: "string list"
  cp_woo_id :: "int option"
  cp_created_at :: gotime
  cp_updated_at :: gotime

definition filter_empty :: "string list \<Rightarrow> string list" where
  "filter_empty values = filter (\<lambda>v. v \<noteq> []) values"

definition coupon_normalize :: "coupon \<Rightarrow> coupon" where
  "coupon_normalize c = c\<lparr>cp_code := to_upper (trim (cp_code c)), cp_origin := trim (cp_origin c),
     cp_discount_type := trim (cp_discount_type c),
     cp_amount := (if cp_amount c < 0 then 0 else cp_amount c),
     cp_emails := filter_empty (map (\<lambda>v. to_lower (trim v)) (cp_emails c)),
     cp_contact_ids := filter_empty (map trim (cp_contact_ids c)),
     cp_product_ids := filter_empty (map trim (cp_product_ids c)),
     cp_category_ids := filter_empty (map trim (cp_category_ids c)),
     cp_tag_ids := filter_empty (map trim (cp_tag_ids c))\<rparr>"

definition validate_discount_type :: "string \<Rightarrow> coupon_invalid option" where
  "validate_discount_type v = (if v = discount_fixed \<or> v = discount_percentage then None
     else Some ErrDiscountTypeInvalid)"

definition coupon_validate :: "coupon \<Rightarrow> coupon_invalid option" where
  "coupon_validate c =
    (if trim (cp_code c) = [] then Some ErrCodeRequired
     else if length (cp_code c) > 128 then Some ErrCodeTooLong
     else case validate_discount_type (cp_discount_type c) of Some e \<Rightarrow> Some e
     | None \<Rightarrow> if cp_amount c \<le> 0 then Some ErrDiscountAmountInvalid
       else if cp_discount_type c = discount_percentage \<and> cp_amount c > 100 then Some ErrPercentageExceedsMax
       else None)"

section \<open>Random codes\<close>

definition code_charset :: string where
  "code_charset = ''BCDFGHJKMNPQRSTVWXYZ23456789''"

text \<open>The twelve values the loops draw are \<open>r 0\<close>, \<open>r 1\<close>, ...; \<^verbatim>\<open>rand.Intn(n)\<close> is such a value modulo \<open>n\<close>.\<close>

definition generate_code :: "(nat \<Rightarrow> nat) \<Rightarrow> string" where
  "generate_code r = join ''-'' (map (\<lambda>s.
     map (\<lambda>i. code_charset ! (r (4 * s + i) mod length code_charset)) [0..<4]) [0..<3])"

section \<open>Normal and valid coupons\<close>

definition coupon_ok :: "coupon \<Rightarrow> bool" where
  "coupon_ok c \<longleftrightarrow> trim (cp_code c) \<noteq> [] \<and> length (cp_code c) \<le> 128
     \<and> (cp_discount_type c = discount_fixed \<or> cp_discount_type c = discount_percentage)
     \<and> cp_amount c > 0 \<and> (cp_discount_type c = discount_percentage \<longrightarrow> cp_amount c \<le> 100)"

lemma coupon_validate_None: "coupon_validate c = None \<longleftrightarrow> coupon_ok c"
  by (auto simp: coupon_validate_def validate_discount_type_def coupon_ok_def)

definition trimmed_values :: "string list \<Rightarrow> bool" where
  "trimmed_values vs \<longleftrightarrow> list_all (\<lambda>v. trim v = v \<and> v \<noteq> []) vs"

lemma filter_empty_map:
  "list_all (\<lambda>v. f v = v \<and> v \<noteq> []) vs \<Longrightarrow> filter_empty (map f vs) = vs"
  by (induction vs) (auto simp: filter_empty_def)

lemma trimmed_filter_empty:
  "(\<And>v. trim (f v) = f v) \<Longrightarrow> trimmed_values (filter_empty (map f vs))"
  by (induction vs) (auto simp: filter_empty_def trimmed_values_def)

definition coupon_normal :: "coupon \<Rightarrow> bool" where
  "coupon_normal c \<longleftrightarrow> trim (cp_code c) = cp_code c \<and> to_upper (cp_code c) = cp_code c
     \<and> trim (cp_origin c) = cp_origin c \<and> trim (cp_discount_type c) = cp_discount_type c
     \<and> list_all (\<lambda>v. to_lower v = v) (cp_emails c)
     \<and> trimmed_values (cp_emails c) \<and> trimmed_values (cp_contact_ids c) \<and> trimmed_values (cp_product_ids c)
     \<and> trimmed_values (cp_category_ids c) \<and> trimmed_values (cp_tag_ids c)"

lemma trim_lower_trim [simp]: "trim (to_lower (trim v)) = to_lower (trim v)"
  by (simp add: trim_to_lower)

lemma trim_upper_trim [simp]: "trim (to_upper (trim v)) = to_upper (trim v)"
  by (simp add: trim_to_upper)

lemma coupon_normalize_normal: "coupon_normal (coupon_normalize c)"
proof -
  have "list_all (\<lambda>v. to_lower v = v) (filter_empty (map (\<lambda>v. to_lower (trim v)) vs))" for vs
    by (induction vs) (auto simp: filter_empty_def)
  then show ?thesis
    by (simp add: coupon_normal_def coupon_normalize_def trimmed_filter_empty)
qed

lemma filter_empty_lower:
  "list_all (\<lambda>v. to_lower v = v) vs \<Longrightarrow> trimmed_values vs
    \<Longrightarrow> filter_empty (map (\<lambda>v. to_lower (trim v)) vs) = vs"
  by (rule filter_empty_map) (simp add: trimmed_values_def list_all_iff)

lemma filter_empty_trim: "trimmed_values vs \<Longrightarrow> filter_empty (map trim vs) = vs"
  by (simp add: filter_empty_map trimmed_values_def)

lemma coupon_normalize_fixed: "coupon_normal c \<Longrightarrow> cp_amount c \<ge> 0 \<Longrightarrow> coupon_normalize c = c"
  by (simp add: coupon_normal_def coupon_normalize_def filter_empty_trim filter_empty_lower)

lemma coupon_normalize_fields [simp]:
  "cp_id (coupon_normalize c) = cp_id c" "cp_max_global (coupon_normalize c) = cp_max_global c"
  "cp_max_per_email (coupon_normalize c) = cp_max_per_email c" "cp_active (coupon_normalize c) = cp_active c"
  "cp_expires_at (coupon_normalize c) = cp_expires_at c" "cp_woo_id (coupon_normalize c) = cp_woo_id c"
  "cp_created_at (coupon_normalize c) = cp_created_at c" "cp_updated_at (coupon_normalize c) = cp_updated_at c"
  by (simp_all add: coupon_normalize_def)

lemma coupon_normalize_idem: "coupon_normalize (coupon_normalize c) = coupon_normalize c"
  by (intro coupon_normalize_fixed coupon_normalize_normal) (simp add: coupon_normalize_def)

section \<open>Shape of generated codes\<close>

definition code_char :: "char \<Rightarrow> bool" where
  "code_char ch \<longleftrightarrow> ch \<in> set code_charset"

lemma charset_nth: "code_char (code_charset ! (n mod length code_charset))"
  unfolding code_char_def by (intro nth_mem mod_less_divisor) (simp add: code_charset_def)

lemma charset_graphic: "code_char ch \<Longrightarrow> graphic ch \<and> upper_char ch = ch"
proof -
  have "list_all (\<lambda>ch. graphic ch \<and> upper_char ch = ch) code_charset" by code_simp
  then show "code_char ch \<Longrightarrow> graphic ch \<and> upper_char ch = ch" by (auto simp: code_char_def list_all_iff)
qed

lemma generate_code_parts:
  obtains a b c where "generate_code r = a @ ''-'' @ b @ ''-'' @ c" "length a = 4" "length b = 4" "length c = 4"
    "list_all code_char a" "list_all code_char b" "list_all code_char c"
proof -
  define seg where "seg s = map (\<lambda>i. code_charset ! (r (4 * s + i) mod length code_charset)) [0..<4]" for s
  have parts: "length (seg s) = 4" "list_all code_char (seg s)" for s
    by (simp_all add: seg_def list_all_iff charset_nth del: upt_Suc)
  have "generate_code r = seg 0 @ ''-'' @ seg 1 @ ''-'' @ seg 2"
    by (simp add: generate_code_def seg_def upt_rec[of 0 3] upt_rec[of "Suc 0" 3] upt_rec[of "Suc (Suc 0)" 3]
        numeral_2_eq_2 del: upt_Suc)
  with parts that show thesis by blast
qed

lemma generate_code_normal:
  "trim (generate_code r) = generate_code r" "to_upper (generate_code r) = generate_code r"
  "length (generate_code r) = 14"
proof -
  obtain a b c where r: "generate_code r = a @ ''-'' @ b @ ''-'' @ c" "length a = 4" "length b = 4" "length c = 4"
    "list_all code_char a" "list_all code_char b" "list_all code_char c" by (rule generate_code_parts)
  have dash: "graphic CHR ''-''" "upper_char CHR ''-'' = CHR ''-''" by code_simp+
  have part: "list_all graphic x \<and> to_upper x = x" if "list_all code_char x" for x
    using that by (induction x) (auto simp: to_upper_def dest: charset_graphic)
  show "trim (generate_code r) = generate_code r"
    using part r dash by (intro trim_graphic) simp
  have "to_upper (generate_code r) = to_upper a @ to_upper ''-'' @ to_upper b @ to_upper ''-'' @ to_upper c"
    by (simp add: r(1) to_upper_def)
  with part r dash show "to_upper (generate_code r) = generate_code r"
    by (simp add: to_upper_def[of "''-''"])
  show "length (generate_code r) = 14" using r by simp
qed

end
