(* ===== verification/Sql_Columns.thy ===== *)
theory Sql_Columns
  imports Go_Prelude "HOL-Library.Product_Lexorder"
begin

text \<open>
  What MySQL stores in the column types of the migrations that round: \<^verbatim>\<open>DECIMAL(18,4)\<close>, \<^verbatim>\<open>DATETIME(3)\<close> and
  \<^verbatim>\<open>TIMESTAMP\<close>. Values are rounded to the nearest one of the column, halves away from zero.
\<close>

text \<open>Instants in nanoseconds, to the nearest multiple of a unit.\<close>

definition round_to :: "int \<Rightarrow> gotime \<Rightarrow> gotime" where
  "round_to unit t = (t + unit div 2) div unit * unit"

definition datetime3 :: "gotime \<Rightarrow> gotime" where
  "datetime3 = round_to 1000000"

lemma round_to_multiple: "0 < u \<Longrightarrow> u dvd t \<Longrightarrow> round_to u t = t"
  by (auto simp: round_to_def)

lemma round_to_idem [simp]: "0 < u \<Longrightarrow> round_to u (round_to u t) = round_to u t"
  by (intro round_to_multiple) (simp_all add: round_to_def)

lemma round_to_mono: "0 < u \<Longrightarrow> s \<le> t \<Longrightarrow> round_to u s \<le> round_to u t"
  by (simp add: round_to_def zdiv_mono1)

lemma datetime3_simps [simp]: "datetime3 (datetime3 t) = datetime3 t" "datetime3 0 = 0"
  by (simp_all add: datetime3_def round_to_def)

lemma datetime3_mono: "s \<le> t \<Longrightarrow> datetime3 s \<le> datetime3 t"
  by (simp add: datetime3_def round_to_mono)

definition timestamp0 :: "gotime \<Rightarrow> gotime" where
  "timestamp0 = round_to 1000000000"

lemma timestamp0_simps [simp]: "timestamp0 (timestamp0 t) = timestamp0 t" "timestamp0 0 = 0"
  by (simp_all add: timestamp0_def round_to_def)

text \<open>Four decimals, and the fourteen digits before them.\<close>

definition decimal4 :: "float64 \<Rightarrow> float64" where
  "decimal4 x = (if x < 0 then - (of_int \<lfloor>- x * 10000 + 1 / 2\<rfloor> / 10000) else of_int \<lfloor>x * 10000 + 1 / 2\<rfloor> / 10000)"

definition decimal4_fits :: "float64 \<Rightarrow> bool" where
  "decimal4_fits x \<longleftrightarrow> \<bar>decimal4 x\<bar> < 10 ^ 14"

lemma decimal4_nonneg [simp]: "0 \<le> x \<Longrightarrow> 0 \<le> decimal4 x"
  by (simp add: decimal4_def)

lemma decimal4_le_int:
  assumes "x \<le> of_int n" "0 \<le> n"
  shows "decimal4 x \<le> of_int n"
proof (cases "x < 0")
  case True
  then have "0 \<le> \<lfloor>- x * 10000 + 1 / 2\<rfloor>" by simp
  then have "0 \<le> (of_int \<lfloor>- x * 10000 + 1 / 2\<rfloor> :: rat) / 10000" by (simp only: of_int_0_le_iff divide_nonneg_pos zero_less_numeral)
  then have "decimal4 x \<le> 0" using True by (simp add: decimal4_def)
  also have "0 \<le> (of_int n :: rat)" using assms(2) by simp
  finally show ?thesis .
next
  case False
  have "\<lfloor>x * 10000 + 1 / 2\<rfloor> \<le> \<lfloor>of_int n * 10000 + 1 / (2::rat)\<rfloor>" using assms(1) by (intro floor_mono) simp
  also have "\<dots> = n * 10000" by (intro floor_unique) simp_all
  finally have "of_int \<lfloor>x * 10000 + 1 / 2\<rfloor> \<le> (of_int (n * 10000) :: rat)" by (simp only: of_int_le_iff)
  then show ?thesis using False by (simp add: decimal4_def)
qed

text \<open>The rows of a query with \<^verbatim>\<open>ORDER BY\<close>: rows with equal keys come in the order the server happens to give them,
  which may be another one in each query.\<close>

definition sql_order :: "('r \<Rightarrow> 'k::linorder) \<Rightarrow> ('r \<Rightarrow> int) \<Rightarrow> 'r list \<Rightarrow> 'r list" where
  "sql_order key tie = sort_key (\<lambda>r. (key r, tie r))"

lemma sql_order_perm [simp]: "mset (sql_order key tie rows) = mset rows" "set (sql_order key tie rows) = set rows"
    "length (sql_order key tie rows) = length rows"
  by (simp_all add: sql_order_def)

lemma sorted_first: "sorted (map (\<lambda>r. (f r, g r)) xs) \<Longrightarrow> sorted (map f xs)"
  by (induction xs) (auto simp: less_eq_prod_def)

lemma sql_order_sorted: "sorted (map key (sql_order key tie rows))"
  by (rule sorted_first[where g = tie]) (simp add: sql_order_def)

lemma sql_order_distinct:
  assumes "distinct (map key rows)"
  shows "sql_order key tie rows = sort_key key rows"
proof -
  have "sort_key key rows = sql_order key tie rows"
    using assms by (intro sort_key_inj_key_eq) (simp_all add: distinct_map sql_order_sorted)
  then show ?thesis by simp
qed

lemma sql_order_Nil [simp]: "sql_order key tie rows = [] \<longleftrightarrow> rows = []"
  by (metis sql_order_perm(3) length_0_conv)

lemma map_sql_order: "map key (sql_order key tie rows) = sort (map key rows)"
  by (rule properties_for_sort[symmetric]) (simp_all add: sql_order_sorted)

text \<open>The rows of the first \<open>n\<close> pages, each cut from the answer to a query of its own.\<close>

definition pages_of :: "nat \<Rightarrow> (nat \<Rightarrow> 'r list) \<Rightarrow> nat \<Rightarrow> 'r list" where
  "pages_of width query n = concat (map (\<lambda>k. take width (drop (width * k) (query k))) [0..<n])"

lemma pages_of_Suc [simp]: "pages_of width query 0 = []"
    "pages_of width query (Suc n) = pages_of width query n @ take width (drop (width * n) (query n))"
  by (simp_all add: pages_of_def)

lemma map_pages_of: "map f (pages_of width query n) = pages_of width (\<lambda>k. map f (query k)) n"
  by (induction n) (simp_all add: take_map drop_map)

lemma pages_of_same: "(\<And>k. query k = rows) \<Longrightarrow> pages_of width query n = take (width * n) rows"
  by (induction n) (simp_all add: take_add add.commute[of width])

lemma set_pages_of: "(\<And>k. set (query k) \<subseteq> A) \<Longrightarrow> set (pages_of width query n) \<subseteq> A"
  by (induction n) (auto dest!: in_set_takeD in_set_dropD)

text \<open>Pages of a query with \<^verbatim>\<open>ORDER BY\<close>: ties aside, the pages fit together.\<close>

lemma map_pages_sql_order:
  "map key (pages_of width (\<lambda>k. sql_order key (tie k) rows) n) = take (width * n) (sort (map key rows))"
  unfolding map_pages_of by (rule pages_of_same) (rule map_sql_order)

lemma length_pages_sql_order:
  "length (pages_of width (\<lambda>k. sql_order key (tie k) rows) n) = min (length rows) (width * n)"
  using arg_cong[OF map_pages_sql_order[of key width tie rows n], of length] by simp

lemma pages_sql_order_distinct:
  "distinct (map key rows) \<Longrightarrow> pages_of width (\<lambda>k. sql_order key (tie k) rows) n = take (width * n) (sort_key key rows)"
  by (rule pages_of_same) (rule sql_order_distinct)

end
