(* ===== verification/Coupons_Store.thy ===== *)
theory Coupons_Store
  imports Coupons_Domain Sql_Columns "HOL-Library.Product_Lexorder"
begin

text \<open>
  The coupon repository (\<^verbatim>\<open>module/coupons/adapter/store\<close>): rows, mappers, and the operations of the
  coupon and usage repositories as statements on tables.

  Tables are lists of rows in insertion order. The driver is part of the database record:
  \<open>cd_fault l\<close> says that the statement labelled \<open>l\<close> fails, and \<open>cd_zero_default\<close> says that an INSERT
  stores the declared default of a column in place of a zero value, which is what the mapper GORM
  documents for fields with a \<^verbatim>\<open>default\<close> tag; the only such default that is not itself zero is
  \<^verbatim>\<open>Active bool default:true\<close>.
\<close>

section \<open>Errors of the coupons module\<close>

datatype coupon_error = CouponInvalid coupon_invalid
  | ErrCouponNotFound | ErrCouponCodeConflict | ErrCouponExhausted | ErrCouponExhaustedPerEmail
  | ErrCouponExpired | ErrCouponInactive | ErrCouponAlreadyUsedOnOrder
  | CodeGenerationFailed | CouponDriverError | CouponPublishError

section \<open>Rows\<close>

record coupon_record =
  cq_id :: string
  cq_code :: string
  cq_origin :: string
  cq_discount_type :: string
  cq_amount :: float64
  cq_max_global :: "int option"
  cq_max_per_email :: "int option"
  cq_active :: bool
  cq_expires_at :: "gotime option"
  cq_woo_id :: "int option"
  cq_created_at :: gotime
  cq_updated_at :: gotime
  cq_deleted_at :: "gotime option"

text \<open>The five child tables have the same shape: the coupon and one value, unique together.\<close>

record child_row =
  ch_coupon_id :: string
  ch_value :: string

record usage_row =
  us_coupon_id :: string
  us_order_id :: string
  us_email :: string
  us_used_at :: gotime

record coupon_db =
  cd_coupons :: "coupon_record list"
  cd_emails :: "child_row list"
  cd_contacts :: "child_row list"
  cd_products :: "child_row list"
  cd_categories :: "child_row list"
  cd_tags :: "child_row list"
  cd_usages :: "usage_row list"
  cd_clock :: gotime
  cd_fault :: "string \<Rightarrow> bool"
  cd_zero_default :: bool

type_synonym 'a coupon_prog = "(coupon_db, coupon_error, 'a) prog"

section \<open>Mappers\<close>

definition to_coupon_record :: "coupon \<Rightarrow> coupon_record" where
  "to_coupon_record c = \<lparr>cq_id = trim (cp_id c), cq_code = trim (cp_code c), cq_origin = trim (cp_origin c),
     cq_discount_type = trim (cp_discount_type c), cq_amount = cp_amount c,
     cq_max_global = cp_max_global c, cq_max_per_email = cp_max_per_email c, cq_active = cp_active c,
     cq_expires_at = cp_expires_at c, cq_woo_id = cp_woo_id c, cq_created_at = cp_created_at c,
     cq_updated_at = cp_updated_at c, cq_deleted_at = None\<rparr>"

text \<open>\<^verbatim>\<open>toAssignedEmailRecords\<close> and its four siblings differ in the type of the row only.\<close>

definition to_child_rows :: "string \<Rightarrow> string list \<Rightarrow> child_row list" where
  "to_child_rows cid values = map (\<lambda>v. \<lparr>ch_coupon_id = cid, ch_value = v\<rparr>)
     (filter (\<lambda>v. v \<noteq> []) (map trim values))"

definition child_values :: "child_row list \<Rightarrow> string list" where
  "child_values rows = filter (\<lambda>v. v \<noteq> []) (map (\<lambda>r. trim (ch_value r)) rows)"

definition to_coupon :: "coupon_record \<Rightarrow> child_row list \<Rightarrow> child_row list \<Rightarrow> child_row list
    \<Rightarrow> child_row list \<Rightarrow> child_row list \<Rightarrow> coupon" where
  "to_coupon r emails contacts products categories tags =
     \<lparr>cp_id = trim (cq_id r), cp_code = trim (cq_code r), cp_origin = trim (cq_origin r),
      cp_discount_type = trim (cq_discount_type r), cp_amount = cq_amount r,
      cp_max_global = cq_max_global r, cp_max_per_email = cq_max_per_email r, cp_active = cq_active r,
      cp_expires_at = cq_expires_at r, cp_emails = child_values emails,
      cp_contact_ids = child_values contacts, cp_product_ids = child_values products,
      cp_category_ids = child_values categories, cp_tag_ids = child_values tags,
      cp_woo_id = cq_woo_id r, cp_created_at = cq_created_at r, cp_updated_at = cq_updated_at r\<rparr>"

section \<open>Statements\<close>

definition coupon_stmt :: "string \<Rightarrow> 'a coupon_prog \<Rightarrow> 'a coupon_prog" where
  "coupon_stmt label m = (\<lambda>d. if cd_fault d label then (Inl (Wrapped label (Err CouponDriverError)), d) else m d)"

definition key_violation :: "string \<Rightarrow> 'a coupon_prog" where
  "key_violation label = throw (Wrapped label (Err CouponDriverError))"

definition live :: "coupon_record \<Rightarrow> bool" where
  "live r \<longleftrightarrow> cq_deleted_at r = None"

text \<open>The columns round: the amount has four decimals, times have milliseconds. An amount with too many digits is refused.\<close>

definition coupon_columns :: "coupon_record \<Rightarrow> coupon_record" where
  "coupon_columns r = r\<lparr>cq_amount := decimal4 (cq_amount r), cq_expires_at := map_option datetime3 (cq_expires_at r),
     cq_created_at := datetime3 (cq_created_at r), cq_updated_at := datetime3 (cq_updated_at r),
     cq_deleted_at := map_option datetime3 (cq_deleted_at r)\<rparr>"

lemma coupon_columns_simps [simp]: "cq_id (coupon_columns r) = cq_id r" "cq_code (coupon_columns r) = cq_code r"
    "cq_origin (coupon_columns r) = cq_origin r" "cq_discount_type (coupon_columns r) = cq_discount_type r"
    "cq_amount (coupon_columns r) = decimal4 (cq_amount r)" "cq_max_global (coupon_columns r) = cq_max_global r"
    "cq_max_per_email (coupon_columns r) = cq_max_per_email r" "cq_active (coupon_columns r) = cq_active r"
    "cq_expires_at (coupon_columns r) = map_option datetime3 (cq_expires_at r)" "cq_woo_id (coupon_columns r) = cq_woo_id r"
    "cq_created_at (coupon_columns r) = datetime3 (cq_created_at r)" "cq_updated_at (coupon_columns r) = datetime3 (cq_updated_at r)"
    "cq_deleted_at (coupon_columns r) = map_option datetime3 (cq_deleted_at r)"
  by (simp_all add: coupon_columns_def)

text \<open>INSERT into \<^verbatim>\<open>coupons\<close>: the identifier and the code are unique among all rows, soft-deleted ones
  included; zero time stamps become the current time.\<close>

definition inserted_coupon :: "coupon_db \<Rightarrow> coupon_record \<Rightarrow> coupon_record" where
  "inserted_coupon d r = coupon_columns (r\<lparr>cq_active := (if cd_zero_default d \<and> \<not> cq_active r then True else cq_active r),
     cq_created_at := (if cq_created_at r = 0 then cd_clock d else cq_created_at r),
     cq_updated_at := (if cq_updated_at r = 0 then cd_clock d else cq_updated_at r)\<rparr>)"

definition insert_coupon :: "string \<Rightarrow> coupon_record \<Rightarrow> unit coupon_prog" where
  "insert_coupon label r = coupon_stmt label (\<lambda>d.
     if \<not> decimal4_fits (cq_amount r) \<or> cq_id r \<in> cq_id ` set (cd_coupons d) \<or> cq_code r \<in> cq_code ` set (cd_coupons d)
     then key_violation label d
     else (Inr (), d\<lparr>cd_coupons := cd_coupons d @ [inserted_coupon d r]\<rparr>))"

definition insert_children :: "string \<Rightarrow> child_row list \<Rightarrow> (coupon_db \<Rightarrow> child_row list)
    \<Rightarrow> ((child_row list \<Rightarrow> child_row list) \<Rightarrow> coupon_db \<Rightarrow> coupon_db) \<Rightarrow> unit coupon_prog" where
  "insert_children label rows get upd = (if rows = [] then ret () else coupon_stmt label (\<lambda>d.
     if distinct (get d @ rows) then (Inr (), upd (\<lambda>t. t @ rows) d) else key_violation label d))"

definition upsert_children :: "string \<Rightarrow> coupon \<Rightarrow> unit coupon_prog" where
  "upsert_children cid c =
     bindp (insert_children ''insert coupon emails'' (to_child_rows cid (cp_emails c)) cd_emails cd_emails_update) (\<lambda>_.
     bindp (insert_children ''insert coupon contacts'' (to_child_rows cid (cp_contact_ids c)) cd_contacts cd_contacts_update) (\<lambda>_.
     bindp (insert_children ''insert coupon products'' (to_child_rows cid (cp_product_ids c)) cd_products cd_products_update) (\<lambda>_.
     bindp (insert_children ''insert coupon categories'' (to_child_rows cid (cp_category_ids c)) cd_categories cd_categories_update) (\<lambda>_.
       insert_children ''insert coupon tags'' (to_child_rows cid (cp_tag_ids c)) cd_tags cd_tags_update))))"

definition delete_child_rows :: "((child_row list \<Rightarrow> child_row list) \<Rightarrow> coupon_db \<Rightarrow> coupon_db) \<Rightarrow> string \<Rightarrow> unit coupon_prog" where
  "delete_child_rows upd cid = coupon_stmt ''delete coupon children'' (modp (upd (filter (\<lambda>r. ch_coupon_id r \<noteq> cid))))"

definition delete_children :: "string \<Rightarrow> unit coupon_prog" where
  "delete_children cid =
     bindp (delete_child_rows cd_emails_update cid) (\<lambda>_. bindp (delete_child_rows cd_contacts_update cid) (\<lambda>_.
     bindp (delete_child_rows cd_products_update cid) (\<lambda>_. bindp (delete_child_rows cd_categories_update cid) (\<lambda>_.
       delete_child_rows cd_tags_update cid))))"

section \<open>Reading coupons\<close>

record coupon_children =
  cc_emails :: "string \<Rightarrow> child_row list"
  cc_contacts :: "string \<Rightarrow> child_row list"
  cc_products :: "string \<Rightarrow> child_row list"
  cc_categories :: "string \<Rightarrow> child_row list"
  cc_tags :: "string \<Rightarrow> child_row list"

definition load_child_rows :: "string \<Rightarrow> (coupon_db \<Rightarrow> child_row list) \<Rightarrow> string list
    \<Rightarrow> (string \<Rightarrow> child_row list) coupon_prog" where
  "load_child_rows label get ids = coupon_stmt label (getp (\<lambda>d i.
     filter (\<lambda>r. ch_coupon_id r = i) (filter (\<lambda>r. ch_coupon_id r \<in> set ids) (get d))))"

definition load_children :: "string list \<Rightarrow> coupon_children coupon_prog" where
  "load_children ids =
    (if ids = [] then ret \<lparr>cc_emails = \<lambda>_. [], cc_contacts = \<lambda>_. [], cc_products = \<lambda>_. [],
                           cc_categories = \<lambda>_. [], cc_tags = \<lambda>_. []\<rparr>
     else bindp (load_child_rows ''load coupon emails'' cd_emails ids) (\<lambda>es.
       bindp (load_child_rows ''load coupon contacts'' cd_contacts ids) (\<lambda>cs.
       bindp (load_child_rows ''load coupon products'' cd_products ids) (\<lambda>ps.
       bindp (load_child_rows ''load coupon categories'' cd_categories ids) (\<lambda>gs.
       bindp (load_child_rows ''load coupon tags'' cd_tags ids) (\<lambda>ts.
         ret \<lparr>cc_emails = es, cc_contacts = cs, cc_products = ps, cc_categories = gs, cc_tags = ts\<rparr>))))))"

definition coupon_of_children :: "coupon_children \<Rightarrow> coupon_record \<Rightarrow> coupon" where
  "coupon_of_children k r = (let i = cq_id r in
     to_coupon r (cc_emails k i) (cc_contacts k i) (cc_products k i) (cc_categories k i) (cc_tags k i))"

text \<open>\<^verbatim>\<open>First\<close> takes the matching row with the least primary key.\<close>

definition load_one :: "(coupon_record \<Rightarrow> bool) \<Rightarrow> coupon option coupon_prog" where
  "load_one P = bindp (coupon_stmt ''load coupon'' (getp (\<lambda>d. find P (sort_key cq_id (cd_coupons d))))) (\<lambda>r.
     case r of None \<Rightarrow> ret None
     | Some row \<Rightarrow> bindp (load_children [cq_id row]) (\<lambda>k. ret (Some (coupon_of_children k row))))"

section \<open>Coupon repository\<close>

definition coupon_create :: "coupon \<Rightarrow> unit coupon_prog" where
  "coupon_create c = atomically (
     bindp (insert_coupon ''insert coupon'' (to_coupon_record c)) (\<lambda>_. upsert_children (cp_id c) c))"

definition coupon_by_id :: "string \<Rightarrow> coupon option coupon_prog" where
  "coupon_by_id i = load_one (\<lambda>r. cq_id r = trim i \<and> live r)"

definition coupon_by_code :: "string \<Rightarrow> coupon option coupon_prog" where
  "coupon_by_code code = load_one (\<lambda>r. cq_code r = to_upper (trim code) \<and> live r)"

definition coupon_by_woo_id :: "int \<Rightarrow> coupon option coupon_prog" where
  "coupon_by_woo_id n = load_one (\<lambda>r. cq_woo_id r = Some n \<and> live r)"

text \<open>\<^verbatim>\<open>Save\<close> writes every column, stamps the update time, and inserts the row when there is none.\<close>

definition save_coupon :: "string \<Rightarrow> coupon_record \<Rightarrow> unit coupon_prog" where
  "save_coupon cid r = coupon_stmt ''update coupon root'' (\<lambda>d.
     if cid \<notin> cq_id ` set (cd_coupons d) then insert_coupon ''update coupon root'' r d
     else if \<not> decimal4_fits (cq_amount r) \<or> (\<exists>x \<in> set (cd_coupons d). cq_id x \<noteq> cid \<and> cq_code x = cq_code r)
     then key_violation ''update coupon root'' d
     else (Inr (), d\<lparr>cd_coupons := map (\<lambda>x. if cq_id x = cid
             then coupon_columns (r\<lparr>cq_updated_at := cd_clock d\<rparr>) else x) (cd_coupons d)\<rparr>))"

definition coupon_update :: "coupon \<Rightarrow> unit coupon_prog" where
  "coupon_update c = atomically (
     bindp (save_coupon (cp_id c) (to_coupon_record c)) (\<lambda>_.
     bindp (delete_children (cp_id c)) (\<lambda>_. upsert_children (cp_id c) c)))"

definition coupon_delete :: "string \<Rightarrow> unit coupon_prog" where
  "coupon_delete i = coupon_stmt ''soft-delete coupon'' (modp (\<lambda>d. d\<lparr>cd_coupons :=
     map (\<lambda>r. if cq_id r = trim i \<and> live r
       then coupon_columns (r\<lparr>cq_deleted_at := Some (cd_clock d), cq_updated_at := cd_clock d\<rparr>) else r) (cd_coupons d)\<rparr>))"

record coupon_list_query =
  kq_origin :: string
  kq_active :: "bool option"
  kq_code :: string
  kq_offset :: int
  kq_limit :: int

definition matches_coupon_query :: "coupon_list_query \<Rightarrow> coupon_record \<Rightarrow> bool" where
  "matches_coupon_query q r \<longleftrightarrow> live r
     \<and> (trim (kq_origin q) \<noteq> [] \<longrightarrow> cq_origin r = trim (kq_origin q))
     \<and> (trim (kq_code q) \<noteq> [] \<longrightarrow> cq_code r = to_upper (trim (kq_code q)))
     \<and> (case kq_active q of None \<Rightarrow> True | Some b \<Rightarrow> cq_active r = b)"

definition coupon_list :: "coupon_list_query \<Rightarrow> (coupon list \<times> int) coupon_prog" where
  "coupon_list q =
     bindp (coupon_stmt ''count coupons'' (getp (\<lambda>d.
       int (length (filter (matches_coupon_query q) (cd_coupons d)))))) (\<lambda>total.
     if total = 0 then ret ([], 0)
     else (let limit = (if kq_limit q \<le> 0 then 50 else kq_limit q);
               offset = (if kq_offset q < 0 then 0 else kq_offset q)
       in bindp (coupon_stmt ''list coupons'' (getp (\<lambda>d. take (nat limit) (drop (nat offset)
            (rev (sort_key (\<lambda>r. (cq_created_at r, cq_id r))
              (filter (matches_coupon_query q) (cd_coupons d)))))))) (\<lambda>rows.
          bindp (load_children (map cq_id rows)) (\<lambda>k. ret (map (coupon_of_children k) rows, total)))))"

definition code_exists :: "string \<Rightarrow> bool coupon_prog" where
  "code_exists code = coupon_stmt ''check coupon code existence'' (getp (\<lambda>d.
     length (filter (\<lambda>r. cq_code r = to_upper (trim code) \<and> live r) (cd_coupons d)) > 0))"

section \<open>Usage repository\<close>

definition usage_record :: "usage_row \<Rightarrow> unit coupon_prog" where
  "usage_record u = coupon_stmt ''record coupon usage'' (\<lambda>d.
     let row = \<lparr>us_coupon_id = trim (us_coupon_id u), us_order_id = trim (us_order_id u),
                us_email = to_lower (trim (us_email u)), us_used_at = datetime3 (us_used_at u)\<rparr>
     in if \<exists>x \<in> set (cd_usages d). us_coupon_id x = us_coupon_id row \<and> us_order_id x = us_order_id row
        then key_violation ''record coupon usage'' d
        else (Inr (), d\<lparr>cd_usages := cd_usages d @ [row]\<rparr>))"

definition count_global_usage :: "string \<Rightarrow> int coupon_prog" where
  "count_global_usage cid = coupon_stmt ''count global coupon usage'' (getp (\<lambda>d.
     int (length (filter (\<lambda>u. us_coupon_id u = trim cid) (cd_usages d)))))"

definition count_usage_by_email :: "string \<Rightarrow> string \<Rightarrow> int coupon_prog" where
  "count_usage_by_email cid email = coupon_stmt ''count email coupon usage'' (getp (\<lambda>d.
     int (length (filter (\<lambda>u. us_coupon_id u = trim cid \<and> us_email u = to_lower (trim email)) (cd_usages d)))))"

definition usage_exists_for_order :: "string \<Rightarrow> string \<Rightarrow> bool coupon_prog" where
  "usage_exists_for_order cid oid = coupon_stmt ''check coupon order usage'' (getp (\<lambda>d.
     length (filter (\<lambda>u. us_coupon_id u = trim cid \<and> us_order_id u = trim oid) (cd_usages d)) > 0))"

end
