(* ===== verification/Coupons_Service.thy ===== *)
theory Coupons_Service
  imports Coupons_Store
begin

text \<open>
  The coupon use cases (\<^verbatim>\<open>module/coupons/application/coupon\<close>) over the two repository interfaces and
  the publisher of \<^verbatim>\<open>module/coupons/port\<close>, which are the fields of \<open>coupon_ports\<close>. Clock, identifiers
  and random draws cannot fail, so they are plain functions of the world.
\<close>

section \<open>Events\<close>

definition topic_coupon_created :: string where "topic_coupon_created = ''coupons.v1.coupon.created''"
definition topic_coupon_updated :: string where "topic_coupon_updated = ''coupons.v1.coupon.updated''"
definition topic_coupon_deleted :: string where "topic_coupon_deleted = ''coupons.v1.coupon.deleted''"
definition topic_coupon_used :: string where "topic_coupon_used = ''coupons.v1.coupon.used''"

datatype coupon_payload =
    CouponPayload (ep_coupon_id: string) (ep_code: string) (ep_origin: string) (ep_discount_type: string)
      (ep_amount: float64) (ep_active: bool)
  | CouponUsedPayload (ep_coupon_id: string) (ep_code: string) (ep_order_id: string) (ep_email: string)
      (ep_used_at: gotime)

record coupon_event =
  ve_id :: string
  ve_topic :: string
  ve_schema :: string
  ve_occurred_at :: gotime
  ve_payload :: coupon_payload

definition coupon_event_payload :: "coupon \<Rightarrow> coupon_payload" where
  "coupon_event_payload c = CouponPayload (cp_id c) (cp_code c) (cp_origin c) (cp_discount_type c)
     (cp_amount c) (cp_active c)"

definition build_coupon_event :: "string \<Rightarrow> gotime \<Rightarrow> string \<Rightarrow> coupon_payload \<Rightarrow> coupon_event" where
  "build_coupon_event eid now topic payload = \<lparr>ve_id = eid, ve_topic = topic, ve_schema = ''v1'',
     ve_occurred_at = now, ve_payload = payload\<rparr>"

section \<open>Commands and ports\<close>

record create_coupon_command =
  kc_code :: string
  kc_origin :: string
  kc_discount_type :: string
  kc_amount :: float64
  kc_max_global :: "int option"
  kc_max_per_email :: "int option"
  kc_active :: bool
  kc_expires_at :: "gotime option"
  kc_emails :: "string list"
  kc_contact_ids :: "string list"
  kc_product_ids :: "string list"
  kc_category_ids :: "string list"
  kc_tag_ids :: "string list"
  kc_woo_id :: "int option"

record update_coupon_command =
  ku_id :: string
  ku_origin :: string
  ku_discount_type :: string
  ku_amount :: float64
  ku_max_global :: "int option"
  ku_max_per_email :: "int option"
  ku_active :: bool
  ku_expires_at :: "gotime option"
  ku_emails :: "string list"
  ku_contact_ids :: "string list"
  ku_product_ids :: "string list"
  ku_category_ids :: "string list"
  ku_tag_ids :: "string list"

record usage_command =
  kr_coupon_id :: string
  kr_order_id :: string
  kr_email :: string

record sync_usage_command =
  ks_code :: string
  ks_order_id :: string
  ks_email :: string
  ks_used_at :: "gotime option"

record 'w coupon_ports =
  q_create :: "coupon \<Rightarrow> ('w, coupon_error, unit) prog"
  q_get :: "string \<Rightarrow> ('w, coupon_error, coupon option) prog"
  q_get_by_code :: "string \<Rightarrow> ('w, coupon_error, coupon option) prog"
  q_get_by_woo_id :: "int \<Rightarrow> ('w, coupon_error, coupon option) prog"
  q_update :: "coupon \<Rightarrow> ('w, coupon_error, unit) prog"
  q_delete :: "string \<Rightarrow> ('w, coupon_error, unit) prog"
  q_list :: "coupon_list_query \<Rightarrow> ('w, coupon_error, coupon list \<times> int) prog"
  q_code_exists :: "string \<Rightarrow> ('w, coupon_error, bool) prog"
  q_record_usage :: "usage_row \<Rightarrow> ('w, coupon_error, unit) prog"
  q_count_global :: "string \<Rightarrow> ('w, coupon_error, int) prog"
  q_count_by_email :: "string \<Rightarrow> string \<Rightarrow> ('w, coupon_error, int) prog"
  q_usage_exists :: "string \<Rightarrow> string \<Rightarrow> ('w, coupon_error, bool) prog"
  q_publish :: "coupon_event \<Rightarrow> ('w, coupon_error, unit) prog"
  q_now :: "'w \<Rightarrow> gotime"
  q_uuid :: "'w \<Rightarrow> string \<times> 'w"
  q_draws :: "'w \<Rightarrow> (nat \<Rightarrow> nat) \<times> 'w"
  q_event_id :: "'w \<Rightarrow> string \<times> 'w"

text \<open>\<^verbatim>\<open>_ = s.publisher.Publish(...)\<close>: the error is dropped.\<close>

definition publish_quietly :: "'w coupon_ports \<Rightarrow> string \<Rightarrow> coupon_payload \<Rightarrow> ('w, coupon_error, unit) prog" where
  "publish_quietly P topic payload =
     bindp (drawp (q_event_id P)) (\<lambda>eid. bindp (getp (q_now P)) (\<lambda>now.
     bindp (tryp (q_publish P (build_coupon_event eid now topic payload))) (\<lambda>_. ret ())))"

section \<open>Creating coupons\<close>

definition max_code_gen_attempts :: nat where "max_code_gen_attempts = 10"

fun generate_unique_code_from :: "'w coupon_ports \<Rightarrow> nat \<Rightarrow> ('w, coupon_error, string) prog" where
  "generate_unique_code_from P 0 = throw (Err CodeGenerationFailed)"
| "generate_unique_code_from P (Suc attempts) =
     bindp (drawp (q_draws P)) (\<lambda>r. let code = generate_code r in
     bindp (wrap_err ''check generated code'' (q_code_exists P code)) (\<lambda>exists.
       if \<not> exists then ret code else generate_unique_code_from P attempts))"

definition generate_unique_code :: "'w coupon_ports \<Rightarrow> ('w, coupon_error, string) prog" where
  "generate_unique_code P = generate_unique_code_from P max_code_gen_attempts"

definition choose_code :: "'w coupon_ports \<Rightarrow> string \<Rightarrow> ('w, coupon_error, string) prog" where
  "choose_code P given = (let code = to_upper (trim given) in
     if code = [] then wrap_err ''generate coupon code'' (generate_unique_code P)
     else bindp (wrap_err ''check coupon code'' (q_code_exists P code)) (\<lambda>exists.
       if exists then throw (Err ErrCouponCodeConflict) else ret code))"

definition new_coupon :: "string \<Rightarrow> string \<Rightarrow> gotime \<Rightarrow> create_coupon_command \<Rightarrow> coupon" where
  "new_coupon i code now c = coupon_normalize \<lparr>cp_id = i, cp_code = code, cp_origin = trim (kc_origin c),
     cp_discount_type = kc_discount_type c, cp_amount = kc_amount c, cp_max_global = kc_max_global c,
     cp_max_per_email = kc_max_per_email c, cp_active = kc_active c, cp_expires_at = kc_expires_at c,
     cp_emails = kc_emails c, cp_contact_ids = kc_contact_ids c, cp_product_ids = kc_product_ids c,
     cp_category_ids = kc_category_ids c, cp_tag_ids = kc_tag_ids c, cp_woo_id = kc_woo_id c,
     cp_created_at = now, cp_updated_at = now\<rparr>"

definition create_coupon :: "'w coupon_ports \<Rightarrow> create_coupon_command \<Rightarrow> ('w, coupon_error, coupon) prog" where
  "create_coupon P c =
     bindp (choose_code P (kc_code c)) (\<lambda>code.
     bindp (drawp (q_uuid P)) (\<lambda>i. bindp (getp (q_now P)) (\<lambda>now.
     let coupon = new_coupon i code now c in
     bindp (guard_err (map_option CouponInvalid (coupon_validate coupon))) (\<lambda>_.
     bindp (wrap_err ''persist coupon'' (q_create P coupon)) (\<lambda>_.
     bindp (publish_quietly P topic_coupon_created (coupon_event_payload coupon)) (\<lambda>_. ret coupon))))))"

section \<open>Reading, updating and deleting\<close>

definition found :: "coupon option \<Rightarrow> ('w, coupon_error, coupon) prog" where
  "found r = (case r of None \<Rightarrow> throw (Err ErrCouponNotFound) | Some c \<Rightarrow> ret c)"

definition get_coupon :: "'w coupon_ports \<Rightarrow> string \<Rightarrow> ('w, coupon_error, coupon) prog" where
  "get_coupon P i = bindp (wrap_err ''get coupon'' (q_get P (trim i))) found"

definition get_coupon_by_code :: "'w coupon_ports \<Rightarrow> string \<Rightarrow> ('w, coupon_error, coupon) prog" where
  "get_coupon_by_code P code =
     bindp (wrap_err ''get coupon by code'' (q_get_by_code P (to_upper (trim code)))) found"

definition get_coupon_by_woo_id :: "'w coupon_ports \<Rightarrow> int \<Rightarrow> ('w, coupon_error, coupon option) prog" where
  "get_coupon_by_woo_id P n = wrap_err ''get coupon by woocommerce id'' (q_get_by_woo_id P n)"

definition changed_coupon :: "update_coupon_command \<Rightarrow> gotime \<Rightarrow> coupon \<Rightarrow> coupon" where
  "changed_coupon c now coupon = coupon_normalize (coupon\<lparr>cp_origin := trim (ku_origin c),
     cp_discount_type := ku_discount_type c, cp_amount := ku_amount c, cp_max_global := ku_max_global c,
     cp_max_per_email := ku_max_per_email c, cp_active := ku_active c, cp_expires_at := ku_expires_at c,
     cp_emails := ku_emails c, cp_contact_ids := ku_contact_ids c, cp_product_ids := ku_product_ids c,
     cp_category_ids := ku_category_ids c, cp_tag_ids := ku_tag_ids c, cp_updated_at := now\<rparr>)"

definition update_coupon :: "'w coupon_ports \<Rightarrow> update_coupon_command \<Rightarrow> ('w, coupon_error, coupon) prog" where
  "update_coupon P c =
     bindp (bindp (wrap_err ''get coupon for update'' (q_get P (trim (ku_id c)))) found) (\<lambda>old.
     bindp (getp (q_now P)) (\<lambda>now.
     let coupon = changed_coupon c now old in
     bindp (guard_err (map_option CouponInvalid (coupon_validate coupon))) (\<lambda>_.
     bindp (wrap_err ''persist coupon update'' (q_update P coupon)) (\<lambda>_.
     bindp (publish_quietly P topic_coupon_updated (coupon_event_payload coupon)) (\<lambda>_. ret coupon)))))"

definition delete_coupon :: "'w coupon_ports \<Rightarrow> string \<Rightarrow> ('w, coupon_error, unit) prog" where
  "delete_coupon P i =
     bindp (bindp (wrap_err ''get coupon for delete'' (q_get P (trim i))) found) (\<lambda>coupon.
     bindp (wrap_err ''delete coupon'' (q_delete P (cp_id coupon))) (\<lambda>_.
       publish_quietly P topic_coupon_deleted (coupon_event_payload coupon)))"

definition list_coupons :: "'w coupon_ports \<Rightarrow> coupon_list_query \<Rightarrow> ('w, coupon_error, coupon list \<times> int) prog" where
  "list_coupons P q = q_list P q"

section \<open>Usages\<close>

definition sync_usage_by_code :: "'w coupon_ports \<Rightarrow> sync_usage_command \<Rightarrow> ('w, coupon_error, unit) prog" where
  "sync_usage_by_code P c = (let code = to_upper (trim (ks_code c)); oid = trim (ks_order_id c) in
     if code = [] \<or> oid = [] then ret ()
     else bindp (wrap_err ''get coupon by code for usage sync'' (q_get_by_code P code)) (\<lambda>r. case r of
         None \<Rightarrow> ret ()
       | Some coupon \<Rightarrow>
         bindp (wrap_err ''check coupon order usage for sync'' (q_usage_exists P (cp_id coupon) oid)) (\<lambda>used.
         if used then ret ()
         else bindp (getp (q_now P)) (\<lambda>now.
           let used_at = (case ks_used_at c of None \<Rightarrow> now | Some t \<Rightarrow> if t = 0 then now else t);
               email = to_lower (trim (ks_email c))
           in bindp (wrap_err ''record synced coupon usage'' (q_record_usage P
                \<lparr>us_coupon_id = cp_id coupon, us_order_id = oid, us_email = email, us_used_at = used_at\<rparr>)) (\<lambda>_.
              publish_quietly P topic_coupon_used
                (CouponUsedPayload (cp_id coupon) (cp_code coupon) oid email used_at))))))"

text \<open>The two limit checks of \<^verbatim>\<open>RecordUsage\<close>.\<close>

definition check_global_limit :: "'w coupon_ports \<Rightarrow> coupon \<Rightarrow> ('w, coupon_error, unit) prog" where
  "check_global_limit P coupon = (case cp_max_global coupon of None \<Rightarrow> ret ()
     | Some limit \<Rightarrow> bindp (wrap_err ''count global coupon usage'' (q_count_global P (cp_id coupon))) (\<lambda>n.
         if n \<ge> limit then throw (Err ErrCouponExhausted) else ret ()))"

definition check_email_limit :: "'w coupon_ports \<Rightarrow> coupon \<Rightarrow> string \<Rightarrow> ('w, coupon_error, unit) prog" where
  "check_email_limit P coupon email = (case cp_max_per_email coupon of None \<Rightarrow> ret ()
     | Some limit \<Rightarrow> if email = [] then ret ()
       else bindp (wrap_err ''count email coupon usage'' (q_count_by_email P (cp_id coupon) email)) (\<lambda>n.
         if n \<ge> limit then throw (Err ErrCouponExhaustedPerEmail) else ret ()))"

text \<open>\<^verbatim>\<open>RecordUsage\<close> up to the insertion: everything that is decided by reading.\<close>

definition check_usage :: "'w coupon_ports \<Rightarrow> usage_command \<Rightarrow> ('w, coupon_error, coupon) prog" where
  "check_usage P c =
     bindp (bindp (wrap_err ''get coupon for usage'' (q_get P (trim (kr_coupon_id c)))) found) (\<lambda>coupon.
     bindp (getp (q_now P)) (\<lambda>now.
     if \<not> cp_active coupon then throw (Err ErrCouponInactive)
     else if (case cp_expires_at coupon of None \<Rightarrow> False | Some t \<Rightarrow> now > t) then throw (Err ErrCouponExpired)
     else bindp (wrap_err ''check coupon order usage'' (q_usage_exists P (cp_id coupon) (trim (kr_order_id c)))) (\<lambda>used.
       if used then throw (Err ErrCouponAlreadyUsedOnOrder)
       else bindp (check_global_limit P coupon) (\<lambda>_.
         bindp (check_email_limit P coupon (to_lower (trim (kr_email c)))) (\<lambda>_. ret coupon)))))"

definition usage_of :: "usage_command \<Rightarrow> coupon \<Rightarrow> gotime \<Rightarrow> usage_row" where
  "usage_of c coupon now = \<lparr>us_coupon_id = cp_id coupon, us_order_id = trim (kr_order_id c),
     us_email = to_lower (trim (kr_email c)), us_used_at = now\<rparr>"

text \<open>The insertion and the event, which carries the order identifier as it was given.\<close>

definition store_usage :: "'w coupon_ports \<Rightarrow> usage_command \<Rightarrow> coupon \<Rightarrow> ('w, coupon_error, unit) prog" where
  "store_usage P c coupon = bindp (getp (q_now P)) (\<lambda>now.
     bindp (wrap_err ''record coupon usage'' (q_record_usage P (usage_of c coupon now))) (\<lambda>_.
       publish_quietly P topic_coupon_used (CouponUsedPayload (cp_id coupon) (cp_code coupon)
         (kr_order_id c) (to_lower (trim (kr_email c))) now)))"

definition record_usage :: "'w coupon_ports \<Rightarrow> usage_command \<Rightarrow> ('w, coupon_error, unit) prog" where
  "record_usage P c = bindp (check_usage P c) (store_usage P c)"

end
