(* ===== verification/Coupons_Ledger.thy ===== *)
theory Coupons_Ledger
  imports Coupons_Service
begin

text \<open>
  What recording a usage promises. The contract between the service and the two repositories is the
  locale \<open>usage_ledger\<close>; \<open>working_ledger\<close> adds that no call fails. Under them the outcome of
  \<open>record_usage\<close> is the one of the abstract specification \<open>usage_verdict\<close>. The assembled module
  (\<open>coupon_shop\<close>) interprets both.
\<close>

section \<open>Specification\<close>

definition used_on :: "usage_row list \<Rightarrow> string \<Rightarrow> string \<Rightarrow> bool" where
  "used_on us cid oid \<longleftrightarrow> list_ex (\<lambda>u. us_coupon_id u = cid \<and> us_order_id u = oid) us"

definition usage_count :: "usage_row list \<Rightarrow> string \<Rightarrow> int" where
  "usage_count us cid = int (length (filter (\<lambda>u. us_coupon_id u = cid) us))"

definition email_count :: "usage_row list \<Rightarrow> string \<Rightarrow> string \<Rightarrow> int" where
  "email_count us cid email = int (length (filter (\<lambda>u. us_coupon_id u = cid \<and> us_email u = email) us))"

definition reached :: "int option \<Rightarrow> int \<Rightarrow> bool" where
  "reached limit n \<longleftrightarrow> (case limit of None \<Rightarrow> False | Some m \<Rightarrow> n \<ge> m)"

definition expired :: "gotime \<Rightarrow> coupon \<Rightarrow> bool" where
  "expired now c \<longleftrightarrow> (case cp_expires_at c of None \<Rightarrow> False | Some t \<Rightarrow> now > t)"

definition usage_verdict :: "coupon option \<Rightarrow> usage_row list \<Rightarrow> gotime \<Rightarrow> usage_command \<Rightarrow> coupon_error option" where
  "usage_verdict found_coupon us now cmd = (case found_coupon of None \<Rightarrow> Some ErrCouponNotFound
     | Some c \<Rightarrow> (let email = to_lower (trim (kr_email cmd)) in
       if \<not> cp_active c then Some ErrCouponInactive
       else if expired now c then Some ErrCouponExpired
       else if used_on us (cp_id c) (trim (kr_order_id cmd)) then Some ErrCouponAlreadyUsedOnOrder
       else if reached (cp_max_global c) (usage_count us (cp_id c)) then Some ErrCouponExhausted
       else if email \<noteq> [] \<and> reached (cp_max_per_email c) (email_count us (cp_id c) email)
         then Some ErrCouponExhaustedPerEmail
       else None))"

definition normal_usage :: "usage_row \<Rightarrow> usage_row" where
  "normal_usage u = \<lparr>us_coupon_id = trim (us_coupon_id u), us_order_id = trim (us_order_id u),
     us_email = to_lower (trim (us_email u)), us_used_at = datetime3 (us_used_at u)\<rparr>"

lemma normal_usage_simps [simp]: "us_coupon_id (normal_usage u) = trim (us_coupon_id u)" "us_order_id (normal_usage u) = trim (us_order_id u)"
    "us_email (normal_usage u) = to_lower (trim (us_email u))"
  by (simp_all add: normal_usage_def)

section \<open>Contracts\<close>

locale usage_ledger =
  fixes P :: "'w coupon_ports" and usages :: "'w \<Rightarrow> usage_row list" and stored :: "'w \<Rightarrow> string \<Rightarrow> coupon option"
  assumes get_law: "q_get P i w = (Inr r, w') \<Longrightarrow> r = stored w (trim i)"
    and stored_id: "stored w (trim i) = Some c \<Longrightarrow> cp_id c = trim i"
    and exists_law: "q_usage_exists P cid oid w = (Inr b, w') \<Longrightarrow> b = used_on (usages w) (trim cid) (trim oid)"
    and global_law: "q_count_global P cid w = (Inr n, w') \<Longrightarrow> n = usage_count (usages w) (trim cid)"
    and email_law: "q_count_by_email P cid e w = (Inr n, w') \<Longrightarrow> n = email_count (usages w) (trim cid) (to_lower (trim e))"
    and reads: "readonly (q_get P i)" "readonly (q_usage_exists P cid oid)" "readonly (q_count_global P cid)"
      "readonly (q_count_by_email P cid e)"
    and record_law: "q_record_usage P u w = (Inr x, w') \<Longrightarrow> usages w' = usages w @ [normal_usage u]
        \<and> \<not> used_on (usages w) (trim (us_coupon_id u)) (trim (us_order_id u))"
    and record_failed: "q_record_usage P u w = (Inl err, w') \<Longrightarrow> w' = w"
    and publish_keeps: "usages (snd (q_publish P ev w)) = usages w"
    and event_id_keeps: "usages (snd (q_event_id P w)) = usages w"

locale working_ledger = usage_ledger +
  fixes working :: "'a \<Rightarrow> bool"
  assumes works: "working w \<Longrightarrow> \<exists>r. q_get P i w = (Inr r, w)"
    "working w \<Longrightarrow> \<exists>b. q_usage_exists P cid oid w = (Inr b, w)"
    "working w \<Longrightarrow> \<exists>n. q_count_global P cid w = (Inr n, w)"
    "working w \<Longrightarrow> \<exists>n. q_count_by_email P cid e w = (Inr n, w)"
    and record_works: "working w \<Longrightarrow> \<not> used_on (usages w) (trim (us_coupon_id u)) (trim (us_order_id u))
      \<Longrightarrow> \<exists>w'. q_record_usage P u w = (Inr (), w')"

lemma readonly_found [simp, intro]: "readonly (found r)"
  by (cases r) (simp_all add: found_def)

lemma found_Inr_iff: "found r w = (Inr c, w') \<longleftrightarrow> r = Some c \<and> w' = w"
  by (cases r) (auto simp: found_def prog_simps)

lemma trim_order_id [simp]: "us_order_id (usage_of c coupon now) = trim (kr_order_id c)"
  "us_coupon_id (usage_of c coupon now) = cp_id coupon" "us_email (usage_of c coupon now) = to_lower (trim (kr_email c))"
  by (simp_all add: usage_of_def)

lemma publish_quietly_result: "fst (publish_quietly P topic payload w) = Inr ()"
  by (simp add: publish_quietly_def prog_simps split: prod.splits sum.splits)

context usage_ledger
begin

lemma readonly_check_global: "readonly (check_global_limit P c)"
  unfolding check_global_limit_def by (auto split: option.splits intro!: reads)

lemma readonly_check_email: "readonly (check_email_limit P c e)"
  unfolding check_email_limit_def by (auto split: option.splits intro!: reads)

lemma readonly_check_usage: "readonly (check_usage P c)"
  unfolding check_usage_def
  by (intro readonly_bindp readonly_wrap_err readonly_if readonly_basic readonly_found reads
      readonly_check_global readonly_check_email)

lemma global_limit_Inr: "check_global_limit P c w = (Inr x, w') \<Longrightarrow> trim (cp_id c) = cp_id c
    \<Longrightarrow> \<not> reached (cp_max_global c) (usage_count (usages w) (cp_id c))"
  by (auto simp: check_global_limit_def reached_def prog_Inr_iffs split: option.splits if_splits dest: global_law)

lemma email_limit_Inr: "check_email_limit P c (to_lower (trim e)) w = (Inr x, w') \<Longrightarrow> trim (cp_id c) = cp_id c
    \<Longrightarrow> to_lower (trim e) = [] \<or> \<not> reached (cp_max_per_email c) (email_count (usages w) (cp_id c) (to_lower (trim e)))"
  by (auto simp: check_email_limit_def reached_def prog_Inr_iffs split: option.splits if_splits dest: email_law)

lemma check_usage_Inr:
  assumes "check_usage P cmd w = (Inr c, w')"
  shows "w' = w \<and> stored w (trim (kr_coupon_id cmd)) = Some c
    \<and> usage_verdict (stored w (trim (kr_coupon_id cmd))) (usages w) (q_now P w) cmd = None"
proof -
  have w': "w' = w" using readonlyD[OF readonly_check_usage assms] .
  have g: "readonly (bindp (wrap_err l (q_get P i)) found)" for l i by (auto intro: reads)
  from assms obtain x used w1 w2 w3 y z where
    get: "q_get P (trim (kr_coupon_id cmd)) w = (Inr (Some c), w1)" and act: "cp_active c"
    and ex: "\<not> expired (q_now P w1) c"
    and us: "q_usage_exists P (cp_id c) (trim (kr_order_id cmd)) w1 = (Inr False, w2)"
    and gl: "check_global_limit P c w2 = (Inr y, w3)"
    and em: "check_email_limit P c (to_lower (trim (kr_email cmd))) w3 = (Inr z, w')"
    by (auto simp: check_usage_def prog_Inr_iffs found_Inr_iff expired_def split: if_splits option.splits)
  have eqs: "w1 = w" "w2 = w1" "w3 = w2"
    using readonlyD[OF reads(1) get] readonlyD[OF reads(2) us] readonlyD[OF readonly_check_global gl] by auto
  have st: "stored w (trim (kr_coupon_id cmd)) = Some c" using get_law[OF get] by simp
  then have cid: "trim (cp_id c) = cp_id c" using stored_id[of w "kr_coupon_id cmd" c] by simp
  show ?thesis
    using w' st act ex eqs exists_law[OF us] global_limit_Inr[OF gl] email_limit_Inr[OF em] cid
    by (auto simp: usage_verdict_def Let_def)
qed

lemma publish_quietly_keeps: "usages (snd (publish_quietly P topic payload w)) = usages w"
proof -
  obtain i w1 where e: "q_event_id P w = (i, w1)" by fastforce
  obtain r w2 where p: "q_publish P (build_coupon_event i (q_now P w1) topic payload) w1 = (r, w2)" by fastforce
  show ?thesis
    using publish_keeps[of "build_coupon_event i (q_now P w1) topic payload" w1] event_id_keeps[of w] e p
    by (simp add: publish_quietly_def prog_simps)
qed

lemma store_usage_Inr:
  assumes "store_usage P cmd c w = (Inr x, w')"
  shows "usages w' = usages w @ [normal_usage (usage_of cmd c (q_now P w))]
    \<and> \<not> used_on (usages w) (trim (cp_id c)) (trim (kr_order_id cmd))"
proof -
  from assms obtain w1 where
    r: "q_record_usage P (usage_of cmd c (q_now P w)) w = (Inr (), w1)" and
    p: "publish_quietly P topic_coupon_used (CouponUsedPayload (cp_id c) (cp_code c) (kr_order_id cmd)
          (to_lower (trim (kr_email cmd))) (q_now P w)) w1 = (Inr x, w')"
    by (auto simp: store_usage_def prog_Inr_iffs)
  have "usages w' = usages w1"
    using publish_quietly_keeps[of topic_coupon_used "CouponUsedPayload (cp_id c) (cp_code c) (kr_order_id cmd)
          (to_lower (trim (kr_email cmd))) (q_now P w)" w1] p by simp
  with record_law[OF r] show ?thesis by simp
qed

lemma store_usage_Inl:
  assumes "store_usage P cmd c w = (Inl e, w')"
  shows "w' = w"
proof -
  have "fst (publish_quietly P t pl w1) \<noteq> Inl e" for t pl w1 by (simp add: publish_quietly_result)
  then have "publish_quietly P t pl w1 \<noteq> (Inl e, w2)" for t pl w1 w2 by (metis fst_conv)
  with assms show ?thesis
    by (auto simp: store_usage_def prog_simps split: prod.splits sum.splits dest: record_failed)
qed

text \<open>A recorded usage met every condition, and nothing is recorded otherwise.\<close>

lemma record_usage_Inr:
  assumes "record_usage P cmd w = (Inr x, w')"
  shows "\<exists>c. stored w (trim (kr_coupon_id cmd)) = Some c
    \<and> usage_verdict (Some c) (usages w) (q_now P w) cmd = None
    \<and> usages w' = usages w @ [normal_usage (usage_of cmd c (q_now P w))]"
proof -
  from assms obtain c w1 where c: "check_usage P cmd w = (Inr c, w1)" and s: "store_usage P cmd c w1 = (Inr x, w')"
    by (auto simp: record_usage_def prog_Inr_iffs)
  from check_usage_Inr[OF c] store_usage_Inr[OF s] show ?thesis by auto
qed

lemma record_usage_Inl: "record_usage P cmd w = (Inl e, w') \<Longrightarrow> w' = w"
  by (auto simp: record_usage_def prog_simps split: prod.splits sum.splits
      dest: readonlyD[OF readonly_check_usage] store_usage_Inl)

end

context working_ledger
begin

lemma check_global_works: "working w \<Longrightarrow> trim (cp_id c) = cp_id c \<Longrightarrow> check_global_limit P c w =
    (if reached (cp_max_global c) (usage_count (usages w) (cp_id c)) then (Inl (Err ErrCouponExhausted), w) else (Inr (), w))"
  using works(3)[of w "cp_id c"]
  by (cases "cp_max_global c") (fastforce simp: check_global_limit_def reached_def prog_simps dest: global_law)+

lemma check_email_works: "working w \<Longrightarrow> trim (cp_id c) = cp_id c \<Longrightarrow> e = to_lower (trim e0) \<Longrightarrow> check_email_limit P c e w =
    (if e \<noteq> [] \<and> reached (cp_max_per_email c) (email_count (usages w) (cp_id c) e)
     then (Inl (Err ErrCouponExhaustedPerEmail), w) else (Inr (), w))"
  using works(4)[of w "cp_id c" e]
  by (cases "cp_max_per_email c") (fastforce simp: check_email_limit_def reached_def prog_simps dest: email_law)+

lemma check_usage_works:
  assumes "working w"
  shows "check_usage P cmd w = (case usage_verdict (stored w (trim (kr_coupon_id cmd))) (usages w) (q_now P w) cmd of
      Some e \<Rightarrow> (Inl (Err e), w) | None \<Rightarrow> (Inr (the (stored w (trim (kr_coupon_id cmd)))), w))"
proof -
  obtain r where g: "q_get P (trim (kr_coupon_id cmd)) w = (Inr r, w)" using works(1)[OF assms] by blast
  have r: "stored w (trim (kr_coupon_id cmd)) = r" using get_law[OF g] by simp
  show ?thesis
  proof (cases r)
    case None
    with g r show ?thesis by (simp add: check_usage_def prog_simps found_def usage_verdict_def)
  next
    case (Some c)
    then have cid: "trim (cp_id c) = cp_id c" using r stored_id[of w "kr_coupon_id cmd" c] by simp
    obtain b where b: "q_usage_exists P (cp_id c) (trim (kr_order_id cmd)) w = (Inr b, w)"
      using works(2)[OF assms] by blast
    have "b = used_on (usages w) (cp_id c) (trim (kr_order_id cmd))" using exists_law[OF b] cid by simp
    with g r Some b assms cid show ?thesis
      by (simp add: check_usage_def prog_simps found_def usage_verdict_def Let_def expired_def
          check_global_works check_email_works[OF _ _ refl])
  qed
qed

lemma store_usage_works:
  assumes "working w" "\<not> used_on (usages w) (trim (cp_id c)) (trim (kr_order_id cmd))"
  shows "fst (store_usage P cmd c w) = Inr ()"
proof -
  obtain w' where "q_record_usage P (usage_of cmd c (q_now P w)) w = (Inr (), w')"
    using record_works[OF assms(1), of "usage_of cmd c (q_now P w)"] assms(2) by auto
  then show ?thesis by (simp add: store_usage_def prog_simps publish_quietly_result)
qed

lemma record_usage_works:
  assumes "working w" "usage_verdict (stored w (trim (kr_coupon_id cmd))) (usages w) (q_now P w) cmd = None"
  shows "fst (record_usage P cmd w) = Inr ()"
proof -
  obtain c where c: "stored w (trim (kr_coupon_id cmd)) = Some c"
    using assms(2) by (auto simp: usage_verdict_def split: option.splits)
  then have cid: "cp_id c = trim (kr_coupon_id cmd)" by (rule stored_id)
  have "\<not> used_on (usages w) (trim (cp_id c)) (trim (kr_order_id cmd))"
    using assms(2) c cid by (auto simp: usage_verdict_def Let_def split: if_splits)
  from store_usage_works[OF assms(1) this] show ?thesis
    using check_usage_works[OF assms(1), of cmd] assms(2) c by (simp add: record_usage_def prog_simps)
qed

lemma record_usage_refused:
  assumes "working w" "usage_verdict (stored w (trim (kr_coupon_id cmd))) (usages w) (q_now P w) cmd = Some e"
  shows "record_usage P cmd w = (Inl (Err e), w)"
  using check_usage_works[OF assms(1), of cmd] assms(2) by (simp add: record_usage_def prog_simps)

end

end
