(* ===== verification/Coupons_Shop.thy ===== *)
theory Coupons_Shop
  imports Coupons_Ledger
begin

text \<open>
  The assembled coupons module: the service over the repository model, a publisher that logs events,
  and streams of identifiers and random draws. What a read returns is \<open>coupon_view\<close>. The module
  interprets the contracts of \<open>Coupons_Ledger\<close>.
\<close>

section \<open>Reading through the database\<close>

definition children_of :: "string \<Rightarrow> child_row list \<Rightarrow> child_row list" where
  "children_of cid rows = filter (\<lambda>r. ch_coupon_id r = cid) rows"

definition coupon_of_db :: "coupon_db \<Rightarrow> coupon_record \<Rightarrow> coupon" where
  "coupon_of_db d r = (let i = cq_id r in to_coupon r (children_of i (cd_emails d)) (children_of i (cd_contacts d))
     (children_of i (cd_products d)) (children_of i (cd_categories d)) (children_of i (cd_tags d)))"

definition first_row :: "(coupon_record \<Rightarrow> bool) \<Rightarrow> coupon_db \<Rightarrow> coupon_record option" where
  "first_row P d = find P (sort_key cq_id (cd_coupons d))"

definition coupon_view :: "coupon_db \<Rightarrow> string \<Rightarrow> coupon option" where
  "coupon_view d i = map_option (coupon_of_db d) (first_row (\<lambda>r. cq_id r = i \<and> live r) d)"

definition coupon_db_works :: "coupon_db \<Rightarrow> bool" where
  "coupon_db_works d \<longleftrightarrow> cd_fault d = (\<lambda>_. False)"

lemma coupon_stmt_works: "coupon_db_works d \<Longrightarrow> coupon_stmt l m d = m d"
  by (simp add: coupon_stmt_def coupon_db_works_def)

lemma coupon_stmt_Inr: "coupon_stmt l m d = (Inr x, d') \<longleftrightarrow> \<not> cd_fault d l \<and> m d = (Inr x, d')"
  by (simp add: coupon_stmt_def)

lemma readonly_coupon_stmt: "readonly m \<Longrightarrow> readonly (coupon_stmt l m)"
  by (simp add: readonly_def coupon_stmt_def)

lemma preserves_coupon_stmt [preserves_intros]: "preserves I m \<Longrightarrow> preserves I (coupon_stmt l m)"
  by (simp add: preserves_def coupon_stmt_def)

lemma key_violation_apply [prog_simps]: "key_violation l w = (Inl (Wrapped l (Err CouponDriverError)), w)"
  by (simp add: key_violation_def prog_simps)

lemma child_group:
  "filter (\<lambda>r. ch_coupon_id r = i) (filter (\<lambda>r. ch_coupon_id r \<in> set [i]) rows) = children_of i rows"
  by (induction rows) (auto simp: children_of_def)

lemma load_children_one:
  "load_children [i] d = (Inr k, d') \<Longrightarrow> cq_id r = i \<Longrightarrow> d' = d \<and> coupon_of_children k r = coupon_of_db d r"
  by (auto simp: load_children_def load_child_rows_def prog_Inr_iffs coupon_stmt_Inr coupon_of_children_def
      coupon_of_db_def Let_def child_group simp del: filter_filter list.set)

lemma load_children_one_works:
  "coupon_db_works d \<Longrightarrow> \<exists>k. load_children [i] d = (Inr k, d)"
  by (simp add: load_children_def load_child_rows_def prog_simps coupon_stmt_works)

lemma load_one_Inr: "load_one P d = (Inr r, d') \<Longrightarrow> d' = d \<and> r = map_option (coupon_of_db d) (first_row P d)"
  by (auto simp: load_one_def first_row_def prog_Inr_iffs coupon_stmt_Inr split: option.splits
      dest: load_children_one[OF _ refl])

lemma load_one_works:
  assumes "coupon_db_works d"
  shows "load_one P d = (Inr (map_option (coupon_of_db d) (first_row P d)), d)"
proof (cases "first_row P d")
  case (Some r)
  obtain k where "load_children [cq_id r] d = (Inr k, d)" using load_children_one_works[OF assms] by blast
  with Some assms show ?thesis
    by (simp add: load_one_def first_row_def prog_simps coupon_stmt_works load_children_one[OF _ refl])
qed (use assms in \<open>simp add: load_one_def first_row_def prog_simps coupon_stmt_works\<close>)

lemma readonly_load_children: "readonly (load_children ids)"
  unfolding load_children_def load_child_rows_def
  by (intro readonly_if readonly_bindp readonly_coupon_stmt readonly_basic)

lemma readonly_load_one: "readonly (load_one P)"
  unfolding load_one_def
  by (intro readonly_bindp readonly_coupon_stmt readonly_basic) (auto split: option.splits intro: readonly_load_children)

lemma first_row_Some: "first_row P d = Some r \<Longrightarrow> r \<in> set (cd_coupons d) \<and> P r"
  by (auto simp: first_row_def find_Some_iff) (metis nth_mem set_sort length_sort)+

lemma first_row_unique:
  assumes "r \<in> set (cd_coupons d)" "P r" "\<And>x. x \<in> set (cd_coupons d) \<Longrightarrow> P x \<Longrightarrow> x = r"
  shows "first_row P d = Some r"
proof (cases "first_row P d")
  case None
  with assms(1,2) show ?thesis by (auto simp: first_row_def find_None_iff)
next
  case (Some x)
  with first_row_Some[OF Some] assms(3) show ?thesis by simp
qed

lemma coupon_of_db_id [simp]: "cp_id (coupon_of_db d r) = trim (cq_id r)"
  by (simp add: coupon_of_db_def to_coupon_def Let_def)

lemma coupon_view_id: "coupon_view d (trim i) = Some c \<Longrightarrow> cp_id c = trim i"
  by (auto simp: coupon_view_def dest: first_row_Some)

section \<open>The assembled module\<close>

record coupon_shop =
  ks_db :: coupon_db
  ks_log :: "coupon_event list"
  ks_transport_down :: bool
  ks_uuids :: "nat \<Rightarrow> string"
  ks_uuid_next :: nat
  ks_draws :: "nat \<Rightarrow> nat"
  ks_draw_next :: nat
  ks_event_ids :: "nat \<Rightarrow> string"
  ks_event_next :: nat

definition on_coupon_db :: "'a coupon_prog \<Rightarrow> (coupon_shop, coupon_error, 'a) prog" where
  "on_coupon_db m = (\<lambda>s. case m (ks_db s) of (r, d) \<Rightarrow> (r, s\<lparr>ks_db := d\<rparr>))"

definition publish_coupon_event :: "coupon_event \<Rightarrow> (coupon_shop, coupon_error, unit) prog" where
  "publish_coupon_event ev = (\<lambda>s. if ks_transport_down s then (Inl (Err CouponPublishError), s)
     else (Inr (), s\<lparr>ks_log := ks_log s @ [ev]\<rparr>))"

definition coupon_shop_ports :: "coupon_shop coupon_ports" where
  "coupon_shop_ports = \<lparr>q_create = (\<lambda>c. on_coupon_db (coupon_create c)),
     q_get = (\<lambda>i. on_coupon_db (coupon_by_id i)), q_get_by_code = (\<lambda>c. on_coupon_db (coupon_by_code c)),
     q_get_by_woo_id = (\<lambda>n. on_coupon_db (coupon_by_woo_id n)),
     q_update = (\<lambda>c. on_coupon_db (coupon_update c)), q_delete = (\<lambda>i. on_coupon_db (coupon_delete i)),
     q_list = (\<lambda>q. on_coupon_db (coupon_list q)), q_code_exists = (\<lambda>c. on_coupon_db (code_exists c)),
     q_record_usage = (\<lambda>u. on_coupon_db (usage_record u)),
     q_count_global = (\<lambda>i. on_coupon_db (count_global_usage i)),
     q_count_by_email = (\<lambda>i e. on_coupon_db (count_usage_by_email i e)),
     q_usage_exists = (\<lambda>i oid. on_coupon_db (usage_exists_for_order i oid)),
     q_publish = publish_coupon_event, q_now = (\<lambda>s. cd_clock (ks_db s)),
     q_uuid = (\<lambda>s. (ks_uuids s (ks_uuid_next s), s\<lparr>ks_uuid_next := Suc (ks_uuid_next s)\<rparr>)),
     q_draws = (\<lambda>s. (\<lambda>i. ks_draws s (ks_draw_next s + i), s\<lparr>ks_draw_next := ks_draw_next s + 12\<rparr>)),
     q_event_id = (\<lambda>s. (ks_event_ids s (ks_event_next s), s\<lparr>ks_event_next := Suc (ks_event_next s)\<rparr>))\<rparr>"

lemma on_coupon_db_Inr: "on_coupon_db m s = (Inr x, s') \<longleftrightarrow> (\<exists>d. m (ks_db s) = (Inr x, d) \<and> s' = s\<lparr>ks_db := d\<rparr>)"
  by (auto simp: on_coupon_db_def split: prod.splits)

lemma readonly_on_coupon_db: "readonly m \<Longrightarrow> readonly (on_coupon_db m)"
  by (auto simp: readonly_def on_coupon_db_def split: prod.splits) (metis snd_conv coupon_shop.surjective coupon_shop.update_convs(1))

abbreviation shop_usages :: "coupon_shop \<Rightarrow> usage_row list" where
  "shop_usages s \<equiv> cd_usages (ks_db s)"

abbreviation shop_coupon :: "coupon_shop \<Rightarrow> string \<Rightarrow> coupon option" where
  "shop_coupon s i \<equiv> coupon_view (ks_db s) i"

lemma filter_pos: "(length (filter P xs) > 0) = list_ex P xs"
  by (induction xs) auto

lemma usage_exists_Inr: "usage_exists_for_order cid oid d = (Inr b, d') \<Longrightarrow> b = used_on (cd_usages d) (trim cid) (trim oid)"
  by (auto simp: usage_exists_for_order_def coupon_stmt_Inr prog_simps used_on_def filter_pos simp del: length_greater_0_conv)

lemma count_global_Inr: "count_global_usage cid d = (Inr n, d') \<Longrightarrow> n = usage_count (cd_usages d) (trim cid)"
  by (auto simp: count_global_usage_def coupon_stmt_Inr prog_simps usage_count_def)

lemma count_email_Inr: "count_usage_by_email cid e d = (Inr n, d') \<Longrightarrow>
    n = email_count (cd_usages d) (trim cid) (to_lower (trim e))"
  by (auto simp: count_usage_by_email_def coupon_stmt_Inr prog_simps email_count_def)

lemma used_on_ex: "used_on us cid oid \<longleftrightarrow> (\<exists>x \<in> set us. us_coupon_id x = cid \<and> us_order_id x = oid)"
  by (auto simp: used_on_def list_ex_iff)

lemma usage_record_Inr: "usage_record u d = (Inr x, d') \<longleftrightarrow> \<not> cd_fault d ''record coupon usage''
    \<and> \<not> used_on (cd_usages d) (trim (us_coupon_id u)) (trim (us_order_id u))
    \<and> d' = d\<lparr>cd_usages := cd_usages d @ [normal_usage u]\<rparr>"
  by (auto simp: usage_record_def coupon_stmt_Inr prog_simps used_on_ex normal_usage_def Let_def)

lemma usage_record_Inl: "usage_record u d = (Inl e, d') \<Longrightarrow> d' = d"
  by (auto simp: usage_record_def coupon_stmt_def prog_simps Let_def split: if_splits)

lemma coupon_by_id_Inr: "coupon_by_id i d = (Inr r, d') \<Longrightarrow> d' = d \<and> r = coupon_view d (trim i)"
  unfolding coupon_by_id_def coupon_view_def by (rule load_one_Inr)

interpretation coupon_ledger: working_ledger coupon_shop_ports shop_usages shop_coupon "\<lambda>s. coupon_db_works (ks_db s)"
proof (standard, goal_cases)
  case (1 i w r w') then show ?case by (auto simp: coupon_shop_ports_def on_coupon_db_Inr dest: coupon_by_id_Inr)
next
  case (2 w i c) then show ?case by (rule coupon_view_id)
next
  case (3 cid oid w b w') then show ?case by (auto simp: coupon_shop_ports_def on_coupon_db_Inr dest: usage_exists_Inr)
next
  case (4 cid w n w') then show ?case by (auto simp: coupon_shop_ports_def on_coupon_db_Inr dest: count_global_Inr)
next
  case (5 cid e w n w') then show ?case by (auto simp: coupon_shop_ports_def on_coupon_db_Inr dest: count_email_Inr)
next
  case (6 i) show ?case
    by (simp add: coupon_shop_ports_def coupon_by_id_def readonly_on_coupon_db readonly_load_one)
next
  case (7 cid oid) show ?case
    by (simp add: coupon_shop_ports_def usage_exists_for_order_def readonly_on_coupon_db readonly_coupon_stmt)
next
  case (8 cid) show ?case
    by (simp add: coupon_shop_ports_def count_global_usage_def readonly_on_coupon_db readonly_coupon_stmt)
next
  case (9 cid e) show ?case
    by (simp add: coupon_shop_ports_def count_usage_by_email_def readonly_on_coupon_db readonly_coupon_stmt)
next
  case (10 u w x w') then show ?case by (auto simp: coupon_shop_ports_def on_coupon_db_Inr usage_record_Inr)
next
  case (11 u w err w') then show ?case
    by (auto simp: coupon_shop_ports_def on_coupon_db_def split: prod.splits dest: usage_record_Inl)
next
  case (12 ev w) show ?case by (simp add: coupon_shop_ports_def publish_coupon_event_def)
next
  case (13 w) show ?case by (simp add: coupon_shop_ports_def)
next
  case (14 w i) then show ?case
    by (simp add: coupon_shop_ports_def on_coupon_db_def coupon_by_id_def load_one_works)
next
  case (15 w cid oid) then show ?case
    by (simp add: coupon_shop_ports_def on_coupon_db_def usage_exists_for_order_def coupon_stmt_works prog_simps)
next
  case (16 w cid) then show ?case
    by (simp add: coupon_shop_ports_def on_coupon_db_def count_global_usage_def coupon_stmt_works prog_simps)
next
  case (17 w cid e) then show ?case
    by (simp add: coupon_shop_ports_def on_coupon_db_def count_usage_by_email_def coupon_stmt_works prog_simps)
next
  case (18 w u)
  then have "usage_record u (ks_db w) = (Inr (), (ks_db w)\<lparr>cd_usages := shop_usages w @ [normal_usage u]\<rparr>)"
    by (simp add: usage_record_Inr coupon_db_works_def)
  then show ?case by (simp add: coupon_shop_ports_def on_coupon_db_def)
qed

end
