(* ===== verification/Go_Assertions.thy ===== *)
theory Go_Assertions
  imports Go_Prelude
begin

text \<open>
  Assertions about effectful operations: what holds of a part \<open>db\<close> of the state before and after
  (\<open>leads\<close>), operations that leave that part alone (\<open>quiet\<close>), and operations of the part lifted to the
  whole state (\<open>through\<close>). The rules mirror the constructs of \<open>Go_Prelude\<close>.
\<close>

text \<open>From tables with \<open>A\<close>, the program ends with a value \<open>x\<close> and tables with \<open>B x\<close>, or with an error
  and tables with \<open>I\<close>.\<close>

definition leads :: "('w \<Rightarrow> 'd) \<Rightarrow> ('d \<Rightarrow> bool) \<Rightarrow> ('d \<Rightarrow> bool) \<Rightarrow> ('w, 'e, 'a) prog \<Rightarrow> ('a \<Rightarrow> 'd \<Rightarrow> bool) \<Rightarrow> bool" where
  "leads db I A m B \<longleftrightarrow> (\<forall>w. A (db w) \<longrightarrow> (case m w of (Inl e, w') \<Rightarrow> I (db w') | (Inr x, w') \<Rightarrow> B x (db w')))"

definition quiet :: "('w \<Rightarrow> 'd) \<Rightarrow> ('w, 'e, 'a) prog \<Rightarrow> bool" where
  "quiet db m \<longleftrightarrow> (\<forall>w. db (snd (m w)) = db w)"

definition through :: "('w \<Rightarrow> 'd) \<Rightarrow> ('d \<Rightarrow> 'w \<Rightarrow> 'w) \<Rightarrow> ('d, 'e, 'a) prog \<Rightarrow> ('w, 'e, 'a) prog" where
  "through db put m = (\<lambda>w. case m (db w) of (r, d) \<Rightarrow> (r, put d w))"

named_theorems leads_intros "rules for assertions about programs"

lemma leadsI: "(\<And>w e w'. A (db w) \<Longrightarrow> m w = (Inl e, w') \<Longrightarrow> I (db w'))
    \<Longrightarrow> (\<And>w x w'. A (db w) \<Longrightarrow> m w = (Inr x, w') \<Longrightarrow> B x (db w')) \<Longrightarrow> leads db I A m B"
  by (auto simp: leads_def split: prod.splits sum.splits)

lemma leads_weaken: "leads db I A m B \<Longrightarrow> (\<And>d. A' d \<Longrightarrow> A d) \<Longrightarrow> (\<And>x d. B x d \<Longrightarrow> B' x d) \<Longrightarrow> leads db I A' m B'"
  by (fastforce simp: leads_def split: prod.splits sum.splits)

lemma leads_pre: "leads db I A m B \<Longrightarrow> (\<And>d. A' d \<Longrightarrow> A d) \<Longrightarrow> leads db I A' m B"
  by (rule leads_weaken)

lemma leads_bindp [leads_intros]:
  "leads db I A m B \<Longrightarrow> (\<And>x. leads db I (B x) (f x) C) \<Longrightarrow> leads db I A (bindp m f) C"
  by (fastforce simp: leads_def prog_simps split: prod.splits sum.splits)

lemma leads_ret [leads_intros]: "(\<And>d. A d \<Longrightarrow> B x d) \<Longrightarrow> leads db I A (ret x) B"
  by (simp add: leads_def prog_simps)

lemma leads_throw [leads_intros]: "(\<And>d. A d \<Longrightarrow> I d) \<Longrightarrow> leads db I A (throw e) B"
  by (simp add: leads_def prog_simps)

lemma leads_guard [leads_intros]: "(\<And>d. A d \<Longrightarrow> I d) \<Longrightarrow> leads db I A (guard_err c) (\<lambda>_ d. c = None \<and> A d)"
  by (auto simp: leads_def prog_simps split: option.splits)

lemma leads_tryp [leads_intros]:
  "leads db I A m B \<Longrightarrow> leads db I A (tryp m) (\<lambda>r d. case r of Inl e \<Rightarrow> I d | Inr x \<Rightarrow> B x d)"
  by (fastforce simp: leads_def prog_simps split: prod.splits sum.splits)

lemma leads_wrap_err: "leads db I A m B \<Longrightarrow> leads db I A (wrap_err c m) B"
  by (fastforce simp: leads_def wrap_err_def split: prod.splits sum.splits)

lemma leads_drawp: "(\<And>w x w'. A (db w) \<Longrightarrow> f w = (x, w') \<Longrightarrow> B x (db w')) \<Longrightarrow> leads db I A (drawp f) B"
  by (auto simp: leads_def prog_simps split: prod.splits)

lemma leads_quiet: "quiet db m \<Longrightarrow> (\<And>d. A d \<Longrightarrow> I d) \<Longrightarrow> leads db I A m (\<lambda>_. A)"
  by (auto simp: leads_def quiet_def split: prod.splits sum.splits) (metis snd_conv)+

lemma leads_if [leads_intros]:
  "(b \<Longrightarrow> leads db I A m B) \<Longrightarrow> (\<not> b \<Longrightarrow> leads db I A n B) \<Longrightarrow> leads db I A (if b then m else n) B"
  by simp

lemma leads_case_option [leads_intros]:
  "(c = None \<Longrightarrow> leads db I A m B) \<Longrightarrow> (\<And>x. c = Some x \<Longrightarrow> leads db I A (n x) B)
    \<Longrightarrow> leads db I A (case c of None \<Rightarrow> m | Some x \<Rightarrow> n x) B"
  by (cases c) simp_all

lemma leads_case_sum [leads_intros]:
  "(\<And>x. c = Inl x \<Longrightarrow> leads db I A (m x) B) \<Longrightarrow> (\<And>x. c = Inr x \<Longrightarrow> leads db I A (n x) B)
    \<Longrightarrow> leads db I A (case c of Inl x \<Rightarrow> m x | Inr x \<Rightarrow> n x) B"
  by (cases c) simp_all

lemma leads_case_prod [leads_intros]:
  "(\<And>x y. c = (x, y) \<Longrightarrow> leads db I A (f x y) B) \<Longrightarrow> leads db I A (case c of (x, y) \<Rightarrow> f x y) B"
  by (cases c) simp

lemma leads_Let [leads_intros]: "(\<And>x. x = v \<Longrightarrow> leads db I A (f x) B) \<Longrightarrow> leads db I A (let x = v in f x) B"
  by simp

lemma leads_getp [leads_intros]: "leads db I A (getp f) (\<lambda>_. A)"
  by (simp add: leads_def prog_simps)

lemma leads_ghost: "(\<And>f. leads db I (\<lambda>d. A d \<and> g d = f) m B) \<Longrightarrow> leads db I A m B"
  by (simp add: leads_def)

text \<open>A fact in the assertion that does not depend on the state.\<close>

lemma leads_fact: "(b \<Longrightarrow> leads db I A m B) \<Longrightarrow> leads db I (\<lambda>d. A d \<and> b) m B"
  by (cases b) (simp_all add: leads_def)

text \<open>A program that preserves \<open>I\<close>, and programs composed of a step with a stronger assertion and a rest.\<close>

lemma preserves_leads: "leads db I I m (\<lambda>_. I) \<longleftrightarrow> preserves (\<lambda>w. I (db w)) m"
  by (auto simp: leads_def preserves_def split: prod.splits sum.splits) (metis sum.exhaust prod.collapse)+

lemma preserves_via: "leads db I I m B \<Longrightarrow> (\<And>x. leads db I (B x) (f x) (\<lambda>_. I)) \<Longrightarrow> preserves (\<lambda>w. I (db w)) (bindp m f)"
  by (simp add: leads_bindp flip: preserves_leads)

lemma preserves_when: "leads db I I m B \<Longrightarrow> (\<And>x d. B x d \<Longrightarrow> I d) \<Longrightarrow> preserves (\<lambda>w. I (db w)) m"
  unfolding preserves_leads[symmetric] by (rule leads_weaken)

lemma leads_preserves: "preserves (\<lambda>w. I (db w)) m \<Longrightarrow> (\<And>d. A d \<Longrightarrow> I d) \<Longrightarrow> (\<And>x d. I d \<Longrightarrow> B x d) \<Longrightarrow> leads db I A m B"
  unfolding preserves_leads[symmetric] by (rule leads_weaken)

lemma preserves_quiet: "quiet db m \<Longrightarrow> preserves (\<lambda>w. I (db w)) m"
  by (simp add: quiet_def preserves_def)

lemma leads_end: "leads db I A m B \<Longrightarrow> (\<And>x d. B x d \<Longrightarrow> I d) \<Longrightarrow> A (db w) \<Longrightarrow> I (db (snd (m w)))"
  by (auto simp: leads_def split: prod.splits sum.splits) (metis sum.exhaust prod.collapse)

lemma leads_through:
  assumes "\<And>d w. db (put d w) = d"
    and "\<And>d e d'. A d \<Longrightarrow> m d = (Inl e, d') \<Longrightarrow> I d'" "\<And>d x d'. A d \<Longrightarrow> m d = (Inr x, d') \<Longrightarrow> B x d'"
  shows "leads db I A (through db put m) B"
  using assms by (auto simp: leads_def through_def split: prod.splits sum.splits)

lemma quiet_through: "(\<And>d w. db (put d w) = d) \<Longrightarrow> readonly m \<Longrightarrow> quiet db (through db put m)"
  by (auto simp: quiet_def readonly_def through_def split: prod.splits) (metis snd_conv)

lemma quiet_bindp: "quiet db m \<Longrightarrow> (\<And>x. quiet db (f x)) \<Longrightarrow> quiet db (bindp m f)"
  by (auto simp: quiet_def prog_simps split: prod.splits sum.splits) (metis snd_conv)+

lemma quiet_basic [simp, intro]: "quiet db (ret x)" "quiet db (throw e)" "quiet db (getp f)" "quiet db (guard_err c)"
  by (auto simp: quiet_def prog_simps split: option.splits)

lemma quiet_tryp: "quiet db m \<Longrightarrow> quiet db (tryp m)"
  by (auto simp: quiet_def prog_simps split: prod.splits) (metis snd_conv)

lemma quiet_wrap: "quiet db m \<Longrightarrow> quiet db (wrap_err c m)"
  by (simp add: quiet_def wrap_err_def split: prod.splits sum.splits) (metis snd_conv)

lemma quiet_drawp: "(\<And>w. db (snd (f w)) = db w) \<Longrightarrow> quiet db (drawp f)"
  by (auto simp: quiet_def prog_simps split: prod.splits) (metis snd_conv)

end
