(* ===== verification/Coupons_Usage.thy ===== *)
theory Coupons_Usage
  imports Coupons_Shop Go_Assertions
begin

text \<open>
  Redemptions of coupons in the assembled module: the exact outcome of recording a usage, the usage
  limits over sequences of calls, and the synchronisation of usages from orders.
\<close>

section \<open>The outcome of one redemption\<close>

definition used_event :: "coupon_shop \<Rightarrow> usage_command \<Rightarrow> coupon \<Rightarrow> coupon_event" where
  "used_event s cmd c = build_coupon_event (ks_event_ids s (ks_event_next s)) (cd_clock (ks_db s)) topic_coupon_used
     (CouponUsedPayload (cp_id c) (cp_code c) (kr_order_id cmd) (to_lower (trim (kr_email cmd))) (cd_clock (ks_db s)))"

definition with_usage :: "usage_row \<Rightarrow> coupon_event \<Rightarrow> coupon_shop \<Rightarrow> coupon_shop" where
  "with_usage u ev s = s\<lparr>ks_db := (ks_db s)\<lparr>cd_usages := shop_usages s @ [u]\<rparr>,
     ks_log := (if ks_transport_down s then ks_log s else ks_log s @ [ev]), ks_event_next := Suc (ks_event_next s)\<rparr>"

lemma with_usage_db [simp]: "ks_db (with_usage u ev s) = (ks_db s)\<lparr>cd_usages := shop_usages s @ [u]\<rparr>"
  by (simp add: with_usage_def)

lemma shop_now [simp]: "q_now coupon_shop_ports s = cd_clock (ks_db s)"
  by (simp add: coupon_shop_ports_def)

lemma store_usage_shop: "store_usage coupon_shop_ports cmd c s = (Inr x, s') \<longleftrightarrow>
    \<not> cd_fault (ks_db s) ''record coupon usage''
    \<and> \<not> used_on (shop_usages s) (trim (cp_id c)) (trim (kr_order_id cmd))
    \<and> s' = with_usage (normal_usage (usage_of cmd c (cd_clock (ks_db s)))) (used_event s cmd c) s"
  by (auto simp: store_usage_def prog_Inr_iffs publish_quietly_def coupon_shop_ports_def on_coupon_db_Inr
      usage_record_Inr drawp_def tryp_apply publish_coupon_event_def with_usage_def used_event_def
      split: prod.splits if_splits)

lemma record_usage_shop: "record_usage coupon_shop_ports cmd s = (Inr x, s') \<Longrightarrow>
    \<exists>c. shop_coupon s (trim (kr_coupon_id cmd)) = Some c
      \<and> usage_verdict (Some c) (shop_usages s) (cd_clock (ks_db s)) cmd = None
      \<and> s' = with_usage (normal_usage (usage_of cmd c (cd_clock (ks_db s)))) (used_event s cmd c) s"
  by (auto simp: record_usage_def bindp_Inr_iff store_usage_shop dest!: coupon_ledger.check_usage_Inr)

lemma shop_coupon_trimmed: "coupon_view d (trim i) = Some c \<Longrightarrow> trim (cp_id c) = cp_id c"
  by (simp add: coupon_view_id)

lemma normal_usage_of: "trim (cp_id c) = cp_id c \<Longrightarrow> normal_usage (usage_of cmd c t) = usage_of cmd c (datetime3 t)"
  by (simp add: normal_usage_def usage_of_def)

lemma verdict_unassigned [simp]:
  "usage_verdict (Some (c\<lparr>cp_emails := emails, cp_contact_ids := contacts\<rparr>)) us t cmd = usage_verdict (Some c) us t cmd"
  by (simp add: usage_verdict_def expired_def cong: if_cong)

text \<open>C8: While the database works, \<^verbatim>\<open>RecordUsage\<close> does exactly what the specification \<open>usage_verdict\<close>
  says. A missing, inactive or expired coupon, an order that already used it, a reached global limit and
  a reached limit for a known e-mail are refused with their own errors, in this order, and leave the
  module as it was; otherwise one usage row is appended and one event goes to the transport, whose
  failure does not matter. The assigned e-mails and contacts play no part in it, whatever they are: unlike the
  module's README and the comments in \<^verbatim>\<open>domain/coupon.go\<close> say, a coupon assigned to somebody else can be
  redeemed by anyone.\<close>

theorem record_usage_verdict:
  assumes "coupon_db_works (ks_db s)"
  shows "record_usage coupon_shop_ports cmd s =
    (case usage_verdict (shop_coupon s (trim (kr_coupon_id cmd))) (shop_usages s) (cd_clock (ks_db s)) cmd of
       Some e \<Rightarrow> (Inl (Err e), s)
     | None \<Rightarrow> (let c = the (shop_coupon s (trim (kr_coupon_id cmd)))
         in (Inr (), with_usage (usage_of cmd c (datetime3 (cd_clock (ks_db s)))) (used_event s cmd c) s)))
    \<and> (\<forall>c us t emails contacts. usage_verdict (Some (c\<lparr>cp_emails := emails, cp_contact_ids := contacts\<rparr>)) us t cmd =
         usage_verdict (Some c) us t cmd)"
proof (cases "usage_verdict (shop_coupon s (trim (kr_coupon_id cmd))) (shop_usages s) (cd_clock (ks_db s)) cmd")
  case (Some e)
  with coupon_ledger.record_usage_refused[OF assms, of cmd e] show ?thesis by simp
next
  case None
  with coupon_ledger.record_usage_works[OF assms, of cmd]
  obtain s' where "record_usage coupon_shop_ports cmd s = (Inr (), s')"
    by (cases "record_usage coupon_shop_ports cmd s") auto
  with record_usage_shop[OF this] None show ?thesis
    by (auto simp: Let_def normal_usage_of shop_coupon_trimmed)
qed

section \<open>Limits over sequences of calls\<close>

datatype coupon_call = CallCreateCoupon create_coupon_command | CallGetCoupon string | CallGetByCode string
  | CallUpdateCoupon update_coupon_command | CallDeleteCoupon string | CallListCoupons coupon_list_query
  | CallSyncUsage sync_usage_command | CallRecordUsage usage_command

fun run_coupon_call :: "coupon_call \<Rightarrow> coupon_shop \<Rightarrow> coupon_shop" where
  "run_coupon_call (CallCreateCoupon c) s = snd (create_coupon coupon_shop_ports c s)"
| "run_coupon_call (CallGetCoupon i) s = snd (get_coupon coupon_shop_ports i s)"
| "run_coupon_call (CallGetByCode c) s = snd (get_coupon_by_code coupon_shop_ports c s)"
| "run_coupon_call (CallUpdateCoupon c) s = snd (update_coupon coupon_shop_ports c s)"
| "run_coupon_call (CallDeleteCoupon i) s = snd (delete_coupon coupon_shop_ports i s)"
| "run_coupon_call (CallListCoupons q) s = snd (list_coupons coupon_shop_ports q s)"
| "run_coupon_call (CallSyncUsage c) s = snd (sync_usage_by_code coupon_shop_ports c s)"
| "run_coupon_call (CallRecordUsage c) s = snd (record_usage coupon_shop_ports c s)"

definition run_coupon_calls :: "coupon_call list \<Rightarrow> coupon_shop \<Rightarrow> coupon_shop" where
  "run_coupon_calls calls s = fold run_coupon_call calls s"

lemma run_coupon_calls_invariant:
  "I s \<Longrightarrow> (\<And>c s. c \<in> set calls \<Longrightarrow> I s \<Longrightarrow> I (run_coupon_call c s)) \<Longrightarrow> I (run_coupon_calls calls s)"
  unfolding run_coupon_calls_def by (induction calls arbitrary: s) auto

text \<open>What the use cases other than usages need from their ports to keep a predicate.\<close>

locale coupon_keeper =
  fixes P :: "'w coupon_ports" and I :: "'w \<Rightarrow> bool"
  assumes reads_keep: "preserves I (q_get P i)" "preserves I (q_get_by_code P code)" "preserves I (q_list P q)"
      "preserves I (q_code_exists P code)"
    and streams_keep: "I w \<Longrightarrow> I (snd (q_uuid P w))" "I w \<Longrightarrow> I (snd (q_draws P w))" "I w \<Longrightarrow> I (snd (q_event_id P w))"
    and publish_keeps: "preserves I (q_publish P ev)"
    and create_keeps: "coupon_ok c \<Longrightarrow> coupon_normal c \<Longrightarrow> preserves I (q_create P c)"
    and delete_keeps: "preserves I (q_delete P i)"

locale updating_keeper = coupon_keeper +
  assumes update_keeps: "coupon_ok c \<Longrightarrow> coupon_normal c \<Longrightarrow> preserves I (q_update P c)"

locale full_coupon_keeper = updating_keeper +
  assumes usage_reads_keep: "preserves I (q_usage_exists P cid oid)" "preserves I (q_count_global P cid)"
      "preserves I (q_count_by_email P cid e)"
    and record_keeps: "preserves I (q_record_usage P u)"

lemma preserves_found [preserves_intros]: "preserves I (found r)"
  by (cases r) (simp_all add: found_def preserves_ret preserves_throw)

lemma preserves_when_valid:
  "(coupon_ok c \<Longrightarrow> preserves I m) \<Longrightarrow> preserves I (bindp (guard_err (map_option CouponInvalid (coupon_validate c))) (\<lambda>_. m))"
  by (cases "coupon_validate c") (auto simp: preserves_def prog_simps simp flip: coupon_validate_None)

context coupon_keeper
begin

lemma publish_quietly_keep: "preserves I (publish_quietly P topic payload)"
  unfolding publish_quietly_def by (intro preserves_intros preserves_drawp streams_keep publish_keeps)

lemma generate_keeps: "preserves I (generate_unique_code_from P n)"
  by (induction n) (auto simp: Let_def intro!: preserves_intros preserves_drawp streams_keep reads_keep)

lemma create_call_keeps: "preserves I (create_coupon P c)"
  unfolding create_coupon_def choose_code_def generate_unique_code_def Let_def
  by (intro preserves_intros preserves_drawp streams_keep reads_keep generate_keeps preserves_when_valid
      create_keeps publish_quietly_keep) (auto simp: new_coupon_def coupon_normalize_normal)

lemma get_call_keeps: "preserves I (get_coupon P i)"
  unfolding get_coupon_def by (intro preserves_intros reads_keep)

lemma get_by_code_call_keeps: "preserves I (get_coupon_by_code P code)"
  unfolding get_coupon_by_code_def by (intro preserves_intros reads_keep)

lemma delete_call_keeps: "preserves I (delete_coupon P i)"
  unfolding delete_coupon_def by (intro preserves_intros reads_keep delete_keeps publish_quietly_keep)

lemma list_call_keeps: "preserves I (list_coupons P q)"
  unfolding list_coupons_def by (rule reads_keep)

end

context updating_keeper
begin

lemma update_call_keeps: "preserves I (update_coupon P c)"
  unfolding update_coupon_def Let_def
  by (intro preserves_intros reads_keep preserves_when_valid update_keeps publish_quietly_keep)
    (auto simp: changed_coupon_def coupon_normalize_normal)

end

context full_coupon_keeper
begin

lemma check_usage_keeps: "preserves I (check_usage P c)"
  unfolding check_usage_def check_global_limit_def check_email_limit_def
  by (intro preserves_intros reads_keep usage_reads_keep)

lemma record_call_keeps: "preserves I (record_usage P c)"
  unfolding record_usage_def store_usage_def
  by (intro preserves_intros check_usage_keeps record_keeps publish_quietly_keep)

lemma sync_call_keeps: "preserves I (sync_usage_by_code P c)"
  unfolding sync_usage_by_code_def Let_def
  by (intro preserves_intros reads_keep usage_reads_keep record_keeps publish_quietly_keep)

end

subsection \<open>The limits invariant\<close>

text \<open>A negative limit lets no usage through.\<close>

definition at_most :: "int \<Rightarrow> int option \<Rightarrow> bool" where
  "at_most n limit \<longleftrightarrow> (case limit of None \<Rightarrow> True | Some m \<Rightarrow> n \<le> max 0 m)"

definition within_limits :: "usage_row list \<Rightarrow> coupon_record \<Rightarrow> bool" where
  "within_limits us r \<longleftrightarrow> at_most (usage_count us (cq_id r)) (cq_max_global r)
     \<and> (\<forall>email. email \<noteq> [] \<longrightarrow> at_most (email_count us (cq_id r) email) (cq_max_per_email r))"

definition limits_kept :: "coupon_db \<Rightarrow> bool" where
  "limits_kept d \<longleftrightarrow> distinct (map cq_id (cd_coupons d))
     \<and> us_coupon_id ` set (cd_usages d) \<subseteq> cq_id ` set (cd_coupons d)
     \<and> (\<forall>r \<in> set (cd_coupons d). within_limits (cd_usages d) r)"

lemma usage_count_snoc: "usage_count (us @ [u]) cid = usage_count us cid + (if us_coupon_id u = cid then 1 else 0)"
  by (simp add: usage_count_def)

lemma email_count_snoc: "email_count (us @ [u]) cid e =
    email_count us cid e + (if us_coupon_id u = cid \<and> us_email u = e then 1 else 0)"
  by (simp add: email_count_def)

lemma usage_count_unknown: "cid \<notin> us_coupon_id ` set us \<Longrightarrow> usage_count us cid = 0"
  by (auto simp: usage_count_def filter_empty_conv)

lemma email_count_le: "email_count us cid e \<le> usage_count us cid"
  unfolding email_count_def usage_count_def by (induction us) auto

lemma email_count_unknown: "cid \<notin> us_coupon_id ` set us \<Longrightarrow> email_count us cid e = 0"
  using email_count_le[of us cid e] usage_count_unknown[of cid us] by (simp add: email_count_def)

lemma within_unknown: "cq_id r \<notin> us_coupon_id ` set us \<Longrightarrow> within_limits us r"
  by (auto simp: within_limits_def at_most_def usage_count_unknown email_count_unknown split: option.splits)

lemma within_usage:
  assumes "within_limits us r" and "us_coupon_id u = cq_id r \<Longrightarrow> \<not> reached (cq_max_global r) (usage_count us (cq_id r))"
    and "us_coupon_id u = cq_id r \<Longrightarrow> us_email u \<noteq> [] \<Longrightarrow> \<not> reached (cq_max_per_email r) (email_count us (cq_id r) (us_email u))"
  shows "within_limits (us @ [u]) r"
  using assms by (auto simp: within_limits_def at_most_def reached_def usage_count_snoc email_count_snoc split: option.splits)

lemma limits_insert: "preserves limits_kept (insert_coupon l r)"
  by (auto simp: preserves_def insert_coupon_def coupon_stmt_def prog_simps limits_kept_def inserted_coupon_def
      intro!: within_unknown)

lemma limits_children: "preserves limits_kept (upsert_children cid c)"
  unfolding upsert_children_def insert_children_def
  by (intro preserves_intros) (auto simp: preserves_def limits_kept_def prog_simps)

lemma limits_create: "preserves limits_kept (coupon_create c)"
  unfolding coupon_create_def by (intro preserves_intros limits_insert limits_children)

lemma limits_map:
  assumes "limits_kept d"
    and "\<And>r. cq_id (f r) = cq_id r \<and> cq_max_global (f r) = cq_max_global r \<and> cq_max_per_email (f r) = cq_max_per_email r"
  shows "limits_kept (d\<lparr>cd_coupons := map f (cd_coupons d)\<rparr>)"
proof -
  have "cq_id \<circ> f = cq_id" using assms(2) by auto
  then show ?thesis using assms by (simp add: limits_kept_def within_limits_def image_image)
qed

lemma limits_delete: "preserves limits_kept (coupon_delete i)"
  unfolding coupon_delete_def
  by (intro preserves_intros preserves_modp limits_map) auto

lemma preserves_on_coupon_db: "preserves J m \<Longrightarrow> preserves (\<lambda>s. J (ks_db s)) (on_coupon_db m)"
  by (auto simp: preserves_def on_coupon_db_def split: prod.splits)

lemma readonly_reads: "readonly (coupon_by_id i)" "readonly (coupon_by_code c)" "readonly (coupon_by_woo_id n)"
  "readonly (code_exists c)" "readonly (coupon_list q)"
  unfolding coupon_by_id_def coupon_by_code_def coupon_by_woo_id_def code_exists_def coupon_list_def Let_def
  by (intro readonly_load_one readonly_coupon_stmt readonly_basic readonly_bindp readonly_if readonly_load_children)+

text \<open>What the assembled module contributes for any predicate on its tables.\<close>

lemma shop_keeper:
  assumes "\<And>c. coupon_ok c \<Longrightarrow> coupon_normal c \<Longrightarrow> preserves J (coupon_create c)" "\<And>i. preserves J (coupon_delete i)"
  shows "coupon_keeper coupon_shop_ports (\<lambda>s. J (ks_db s))"
proof (standard, goal_cases)
  case (8 ev) show ?case by (simp add: coupon_shop_ports_def preserves_def publish_coupon_event_def)
next
  case (9 c) with assms(1) show ?case by (simp add: coupon_shop_ports_def preserves_on_coupon_db)
next
  case (10 i) show ?case by (simp add: coupon_shop_ports_def assms(2) preserves_on_coupon_db)
qed (simp_all add: coupon_shop_ports_def preserves_on_coupon_db readonly_preserves readonly_reads)

interpretation limit_keeper: coupon_keeper coupon_shop_ports "\<lambda>s. limits_kept (ks_db s)"
  by (intro shop_keeper limits_create limits_delete)

lemma coupon_view_fields:
  assumes "coupon_view d (trim i) = Some c"
  shows "\<exists>r \<in> set (cd_coupons d). cq_id r = cp_id c \<and> live r \<and> cp_id c = trim i
    \<and> cp_max_global c = cq_max_global r \<and> cp_max_per_email c = cq_max_per_email r"
proof -
  from assms obtain r where r: "first_row (\<lambda>r. cq_id r = trim i \<and> live r) d = Some r" "c = coupon_of_db d r"
    by (auto simp: coupon_view_def)
  with first_row_Some[OF r(1)] show ?thesis
    by (intro bexI[of _ r]) (auto simp: coupon_of_db_def to_coupon_def Let_def)
qed

lemma distinct_key: "distinct (map f xs) \<Longrightarrow> x \<in> set xs \<Longrightarrow> y \<in> set xs \<Longrightarrow> f x = f y \<Longrightarrow> x = y"
  by (metis distinct_map inj_onD)

lemma limits_record:
  assumes "limits_kept (ks_db s)" "record_usage coupon_shop_ports cmd s = (r, s')"
  shows "limits_kept (ks_db s')"
proof (cases r)
  case (Inl e)
  with assms coupon_ledger.record_usage_Inl[of cmd s e s'] show ?thesis by simp
next
  case (Inr x)
  with record_usage_shop[of cmd s x s'] assms(2) obtain c where
    c: "shop_coupon s (trim (kr_coupon_id cmd)) = Some c"
    and v: "usage_verdict (Some c) (shop_usages s) (cd_clock (ks_db s)) cmd = None"
    and s': "s' = with_usage (normal_usage (usage_of cmd c (cd_clock (ks_db s)))) (used_event s cmd c) s"
    by blast
  from coupon_view_fields[OF c] obtain q where q: "q \<in> set (cd_coupons (ks_db s))" "cq_id q = cp_id c"
    "trim (cp_id c) = cp_id c" "cp_max_global c = cq_max_global q" "cp_max_per_email c = cq_max_per_email q" by auto
  have "within_limits (shop_usages s @ [usage_of cmd c t]) x" if x: "x \<in> set (cd_coupons (ks_db s))" for x t
  proof (rule within_usage)
    show "within_limits (shop_usages s) x" using assms(1) x by (simp add: limits_kept_def)
    have same: "x = q" if "us_coupon_id (usage_of cmd c t) = cq_id x"
      using distinct_key[of cq_id "cd_coupons (ks_db s)" x q] assms(1) x q that by (simp add: limits_kept_def)
    show "\<not> reached (cq_max_global x) (usage_count (shop_usages s) (cq_id x))"
      if "us_coupon_id (usage_of cmd c t) = cq_id x"
      using v same[OF that] q by (auto simp: usage_verdict_def Let_def split: if_splits)
    show "\<not> reached (cq_max_per_email x) (email_count (shop_usages s) (cq_id x) (us_email (usage_of cmd c t)))"
      if "us_coupon_id (usage_of cmd c t) = cq_id x" "us_email (usage_of cmd c t) \<noteq> []"
      using v same[OF that(1)] that(2) q by (auto simp: usage_verdict_def Let_def split: if_splits)
  qed
  moreover have "cp_id c \<in> cq_id ` set (cd_coupons (ks_db s))" using q(1,2) by (metis imageI)
  ultimately show ?thesis using assms(1) s' q(3) by (simp add: limits_kept_def normal_usage_of)
qed

definition keeps_limits :: "coupon_call \<Rightarrow> bool" where
  "keeps_limits c \<longleftrightarrow> (case c of CallUpdateCoupon _ \<Rightarrow> False | CallSyncUsage _ \<Rightarrow> False | _ \<Rightarrow> True)"

lemma limits_kept_calls:
  assumes "limits_kept (ks_db s)" "list_all keeps_limits calls"
  shows "limits_kept (ks_db (run_coupon_calls calls s))"
proof (rule run_coupon_calls_invariant[of "\<lambda>s. limits_kept (ks_db s)"])
  fix c and s :: coupon_shop assume "c \<in> set calls" and I: "limits_kept (ks_db s)"
  with assms(2) have "keeps_limits c" by (simp add: list_all_iff)
  with I limits_record show "limits_kept (ks_db (run_coupon_call c s))"
    using limit_keeper.create_call_keeps limit_keeper.get_call_keeps limit_keeper.get_by_code_call_keeps
      limit_keeper.delete_call_keeps limit_keeper.list_call_keeps
    by (cases c) (auto simp: keeps_limits_def preserves_def intro: limits_record[OF _ surjective_pairing])
qed (rule assms(1))

subsection \<open>The limits in force during any calls\<close>


lemma publish_quietly_shop: "publish_quietly coupon_shop_ports topic payload s = (Inr (),
    s\<lparr>ks_log := (if ks_transport_down s then ks_log s else ks_log s @
         [build_coupon_event (ks_event_ids s (ks_event_next s)) (cd_clock (ks_db s)) topic payload]),
      ks_event_next := Suc (ks_event_next s)\<rparr>)"
  by (simp add: publish_quietly_def prog_simps coupon_shop_ports_def publish_coupon_event_def)















section \<open>Synchronised usages\<close>

lemma used_on_snoc: "used_on (us @ [u]) cid oid \<longleftrightarrow> used_on us cid oid \<or> us_coupon_id u = cid \<and> us_order_id u = oid"
  by (simp add: used_on_def)

lemma first_row_usages [simp]: "first_row P (d\<lparr>cd_usages := us\<rparr>) = first_row P d"
  by (simp add: first_row_def)

lemma coupon_of_db_usages [simp]: "coupon_of_db (d\<lparr>cd_usages := us\<rparr>) = coupon_of_db d"
  by (auto simp: coupon_of_db_def)

lemma coupon_db_works_usages [simp]: "coupon_db_works (d\<lparr>cd_usages := us\<rparr>) = coupon_db_works d"
  by (simp add: coupon_db_works_def)

definition coupon_with_code :: "coupon_db \<Rightarrow> string \<Rightarrow> coupon option" where
  "coupon_with_code d code = map_option (coupon_of_db d) (first_row (\<lambda>r. cq_code r = to_upper (trim code) \<and> live r) d)"

lemma get_by_code_shop: "coupon_db_works (ks_db s) \<Longrightarrow>
    q_get_by_code coupon_shop_ports code s = (Inr (coupon_with_code (ks_db s) code), s)"
  by (simp add: coupon_shop_ports_def on_coupon_db_def coupon_by_code_def load_one_works coupon_with_code_def)

lemma usage_exists_shop: "coupon_db_works (ks_db s) \<Longrightarrow>
    q_usage_exists coupon_shop_ports cid oid s = (Inr (used_on (shop_usages s) (trim cid) (trim oid)), s)"
  by (simp add: coupon_shop_ports_def on_coupon_db_def usage_exists_for_order_def coupon_stmt_works prog_simps
      used_on_def filter_pos del: length_greater_0_conv)

definition sync_row :: "sync_usage_command \<Rightarrow> coupon \<Rightarrow> gotime \<Rightarrow> usage_row" where
  "sync_row cmd c now = \<lparr>us_coupon_id = cp_id c, us_order_id = trim (ks_order_id cmd),
     us_email = to_lower (trim (ks_email cmd)),
     us_used_at = (case ks_used_at cmd of None \<Rightarrow> now | Some t \<Rightarrow> if t = 0 then now else t)\<rparr>"

definition sync_event :: "coupon_shop \<Rightarrow> sync_usage_command \<Rightarrow> coupon \<Rightarrow> coupon_event" where
  "sync_event s cmd c = (let u = sync_row cmd c (cd_clock (ks_db s)) in
     build_coupon_event (ks_event_ids s (ks_event_next s)) (cd_clock (ks_db s)) topic_coupon_used
       (CouponUsedPayload (cp_id c) (cp_code c) (us_order_id u) (us_email u) (us_used_at u)))"

text \<open>What a synchronisation is to do.\<close>

definition sync_outcome :: "sync_usage_command \<Rightarrow> coupon_shop \<Rightarrow> coupon_shop" where
  "sync_outcome cmd s =
    (if trim (ks_code cmd) = [] \<or> trim (ks_order_id cmd) = [] then s
     else case coupon_with_code (ks_db s) (ks_code cmd) of None \<Rightarrow> s
     | Some c \<Rightarrow> if used_on (shop_usages s) (cp_id c) (trim (ks_order_id cmd)) then s
         else with_usage (normal_usage (sync_row cmd c (cd_clock (ks_db s)))) (sync_event s cmd c) s)"

lemma coupon_with_code_trimmed: "coupon_with_code d code = Some c \<Longrightarrow> trim (cp_id c) = cp_id c"
  by (auto simp: coupon_with_code_def)

lemma coupon_with_code_upper [simp]: "coupon_with_code d (to_upper (trim code)) = coupon_with_code d code"
  by (simp add: coupon_with_code_def)

lemma sync_usage_shop:
  assumes "coupon_db_works (ks_db s)"
  shows "sync_usage_by_code coupon_shop_ports cmd s = (Inr (), sync_outcome cmd s)"
proof (cases "coupon_with_code (ks_db s) (ks_code cmd)")
  case None
  with assms show ?thesis
    by (simp add: sync_usage_by_code_def sync_outcome_def Let_def prog_simps get_by_code_shop)
next
  case (Some c)
  let ?now = "cd_clock (ks_db s)" and ?oid = "trim (ks_order_id cmd)"
  note id = coupon_with_code_trimmed[OF Some]
  have rec: "q_record_usage coupon_shop_ports (sync_row cmd c ?now) s =
      (Inr (), s\<lparr>ks_db := (ks_db s)\<lparr>cd_usages := shop_usages s @ [normal_usage (sync_row cmd c ?now)]\<rparr>\<rparr>)"
    if "\<not> used_on (shop_usages s) (cp_id c) ?oid"
  proof -
    have "usage_record (sync_row cmd c ?now) (ks_db s) =
        (Inr (), (ks_db s)\<lparr>cd_usages := shop_usages s @ [normal_usage (sync_row cmd c ?now)]\<rparr>)"
      using that assms id by (simp add: usage_record_Inr coupon_db_works_def sync_row_def)
    then show ?thesis by (simp add: coupon_shop_ports_def on_coupon_db_def)
  qed
  show ?thesis
    using assms Some id rec
    by (auto simp: sync_usage_by_code_def sync_outcome_def Let_def prog_simps get_by_code_shop usage_exists_shop
        publish_quietly_shop with_usage_def sync_event_def sync_row_def)
qed

text \<open>While the database works, \<^verbatim>\<open>SyncUsageByCode\<close> never fails, whatever the state and the limits of the
  coupon, records at most one usage for the coupon and the order, and is idempotent: a second import of
  the same order changes nothing and publishes nothing.\<close>

theorem sync_usage_idempotent:
  assumes "coupon_db_works (ks_db s)"
  shows "sync_usage_by_code coupon_shop_ports cmd s = (Inr (), sync_outcome cmd s)
    \<and> sync_usage_by_code coupon_shop_ports cmd (sync_outcome cmd s) = (Inr (), sync_outcome cmd s)"
proof
  show "sync_usage_by_code coupon_shop_ports cmd s = (Inr (), sync_outcome cmd s)"
    using assms by (rule sync_usage_shop)
  have works: "coupon_db_works (ks_db (sync_outcome cmd s))"
    using assms by (simp add: sync_outcome_def split: option.splits)
  have "sync_outcome cmd (sync_outcome cmd s) = sync_outcome cmd s"
    by (simp add: sync_outcome_def coupon_with_code_def used_on_snoc sync_row_def split: option.splits)
  with sync_usage_shop[OF works, of cmd]
  show "sync_usage_by_code coupon_shop_ports cmd (sync_outcome cmd s) = (Inr (), sync_outcome cmd s)" by simp
qed

section \<open>A sample module\<close>

text \<open>One fixed coupon that may be used once, nothing used yet, and a transport that is up.\<close>

definition sample_coupon_record :: coupon_record where
  "sample_coupon_record = \<lparr>cq_id = ''c1'', cq_code = ''SALE'', cq_origin = ''manual'',
     cq_discount_type = ''fixed'', cq_amount = 10, cq_max_global = Some 1, cq_max_per_email = Some 1,
     cq_active = True, cq_expires_at = Some 9000000, cq_woo_id = None, cq_created_at = 1000000, cq_updated_at = 1000000,
     cq_deleted_at = None\<rparr>"

definition sample_coupon_db :: coupon_db where
  "sample_coupon_db = \<lparr>cd_coupons = [sample_coupon_record], cd_emails = [\<lparr>ch_coupon_id = ''c1'', ch_value = ''a@b.co''\<rparr>],
     cd_contacts = [], cd_products = [], cd_categories = [], cd_tags = [], cd_usages = [], cd_clock = 5000000,
     cd_fault = (\<lambda>_. False), cd_zero_default = True\<rparr>"

definition sample_coupon_shop :: coupon_shop where
  "sample_coupon_shop = \<lparr>ks_db = sample_coupon_db, ks_log = [], ks_transport_down = False,
     ks_uuids = (\<lambda>n. ''u'' @ format_uint n), ks_uuid_next = 0, ks_draws = (\<lambda>n. n), ks_draw_next = 0,
     ks_event_ids = (\<lambda>n. ''e'' @ format_uint n), ks_event_next = 0\<rparr>"

definition sample_usage :: "string \<Rightarrow> usage_command" where
  "sample_usage oid = \<lparr>kr_coupon_id = '' c1'', kr_order_id = oid, kr_email = ''A@b.co''\<rparr>"

lemma sample_db_works [simp]: "coupon_db_works sample_coupon_db"
  by (simp add: sample_coupon_db_def coupon_db_works_def)

lemma sample_coupon_works: "coupon_db_works (ks_db sample_coupon_shop)"
  by (simp add: sample_coupon_shop_def)

lemma sample_usage_coupon [simp]: "kr_coupon_id (sample_usage oid) = '' c1''"
  by (simp add: sample_usage_def)

lemma sample_coupon_limits: "limits_kept (ks_db sample_coupon_shop)"
  by (simp add: limits_kept_def sample_coupon_shop_def sample_coupon_db_def within_unknown)

definition sample_view :: coupon where
  "sample_view = \<lparr>cp_id = ''c1'', cp_code = ''SALE'', cp_origin = ''manual'', cp_discount_type = ''fixed'',
     cp_amount = 10, cp_max_global = Some 1, cp_max_per_email = Some 1, cp_active = True, cp_expires_at = Some 9000000,
     cp_emails = [''a@b.co''], cp_contact_ids = [], cp_product_ids = [], cp_category_ids = [], cp_tag_ids = [],
     cp_woo_id = None, cp_created_at = 1000000, cp_updated_at = 1000000\<rparr>"

lemma sample_coupon_view: "coupon_view sample_coupon_db ''c1'' = Some sample_view"
  by code_simp

lemma sample_shop_fields [simp]: "ks_db sample_coupon_shop = sample_coupon_db" "cd_usages sample_coupon_db = []"
  "cd_clock sample_coupon_db = 5000000" "ks_transport_down sample_coupon_shop = False"
  "cd_coupons sample_coupon_db = [sample_coupon_record]"
  by (simp_all add: sample_coupon_shop_def sample_coupon_db_def)

lemma sample_trims: "trim '' c1'' = ''c1''" "trim ''o1 '' = ''o1''" "trim ''o2'' = ''o2''"
  by code_simp+

lemma sample_verdict: "usage_verdict (Some sample_view) [] 5000000 (sample_usage ''o1 '') = None"
    "usage_verdict (Some sample_view) [] 5000000 (sample_usage ''o2'') = None"
  by code_simp+

text \<open>The coupon is assigned to \<^verbatim>\<open>a@b.co\<close> and redeemed by somebody else.\<close>

definition stranger_usage :: usage_command where
  "stranger_usage = \<lparr>kr_coupon_id = ''c1'', kr_order_id = ''o1 '', kr_email = ''Eve@b.co''\<rparr>"

lemma stranger_usage_simps [simp]: "kr_coupon_id stranger_usage = ''c1''" "trim ''c1'' = ''c1''"
  "usage_verdict (Some sample_view) [] 5000000 stranger_usage = None"
  "usage_of stranger_usage sample_view (datetime3 5000000) =
      \<lparr>us_coupon_id = ''c1'', us_order_id = ''o1'', us_email = ''eve@b.co'', us_used_at = 5000000\<rparr>"
  by code_simp+

theorem record_usage_verdict_witness:
  "coupon_db_works (ks_db sample_coupon_shop) \<and> cp_emails sample_view = [''a@b.co'']
   \<and> fst (record_usage coupon_shop_ports stranger_usage sample_coupon_shop) = Inr ()
   \<and> shop_usages (snd (record_usage coupon_shop_ports stranger_usage sample_coupon_shop)) =
       [\<lparr>us_coupon_id = ''c1'', us_order_id = ''o1'', us_email = ''eve@b.co'', us_used_at = 5000000\<rparr>]"
  using record_usage_verdict[OF sample_coupon_works, of stranger_usage]
  by (simp add: sample_coupon_view Let_def sample_view_def[THEN arg_cong[of _ _ cp_emails]])





theorem sync_usage_idempotent_witness:
  "sync_usage_by_code coupon_shop_ports \<lparr>ks_code = ''sale'', ks_order_id = ''o7'', ks_email = [], ks_used_at = None\<rparr>
     sample_coupon_shop
   = (Inr (), sync_outcome \<lparr>ks_code = ''sale'', ks_order_id = ''o7'', ks_email = [], ks_used_at = None\<rparr> sample_coupon_shop)"
  using sync_usage_idempotent[OF sample_coupon_works] by blast

end
