(* ===== verification/Coupons_Catalog.thy ===== *)
theory Coupons_Catalog
  imports Coupons_Usage
begin

text \<open>
  Stored coupons: every readable coupon passes the domain validation, what a creation stores and how it
  reads back, codes that are taken, and the generation of codes.
\<close>

section \<open>Stored coupons stay valid\<close>

text \<open>As \<open>coupon_ok\<close>, but the amount may have been rounded to zero.\<close>

definition stored_ok :: "coupon \<Rightarrow> bool" where
  "stored_ok c \<longleftrightarrow> trim (cp_code c) \<noteq> [] \<and> length (cp_code c) \<le> 128
     \<and> (cp_discount_type c = discount_fixed \<or> cp_discount_type c = discount_percentage)
     \<and> cp_amount c \<ge> 0 \<and> (cp_discount_type c = discount_percentage \<longrightarrow> cp_amount c \<le> 100)"

lemma stored_ok_validate: "stored_ok c \<Longrightarrow>
    0 \<le> cp_amount c \<and> coupon_validate c = (if cp_amount c = 0 then Some ErrDiscountAmountInvalid else None)"
  by (auto simp: stored_ok_def coupon_validate_def validate_discount_type_def)

definition record_ok :: "coupon_record \<Rightarrow> bool" where
  "record_ok r \<longleftrightarrow> (let c = to_coupon r [] [] [] [] [] in stored_ok c \<and> to_upper (cp_code c) = cp_code c)"

definition coupons_valid :: "coupon_db \<Rightarrow> bool" where
  "coupons_valid d \<longleftrightarrow> list_all record_ok (cd_coupons d)"

lemma record_ok_fields: "record_ok r \<longleftrightarrow> (let code = trim (cq_code r); kind = trim (cq_discount_type r) in
    code \<noteq> [] \<and> length code \<le> 128 \<and> to_upper code = code
    \<and> (kind = discount_fixed \<or> kind = discount_percentage) \<and> cq_amount r \<ge> 0
    \<and> (kind = discount_percentage \<longrightarrow> cq_amount r \<le> 100))"
  by (auto simp: record_ok_def stored_ok_def to_coupon_def Let_def)

lemma record_ok_view: "record_ok r \<Longrightarrow> stored_ok (coupon_of_db d r) \<and> to_upper (cp_code (coupon_of_db d r)) = cp_code (coupon_of_db d r)"
  by (simp add: record_ok_def stored_ok_def coupon_of_db_def to_coupon_def Let_def)

lemma record_ok_new: "coupon_ok c \<Longrightarrow> coupon_normal c \<Longrightarrow> record_ok (to_coupon_record c)"
  by (simp add: record_ok_fields coupon_ok_def coupon_normal_def to_coupon_record_def Let_def)

lemma record_ok_stamps [simp]:
  "record_ok (r\<lparr>cq_active := a\<rparr>) = record_ok r" "record_ok (r\<lparr>cq_created_at := t\<rparr>) = record_ok r"
  "record_ok (r\<lparr>cq_updated_at := t\<rparr>) = record_ok r" "record_ok (r\<lparr>cq_deleted_at := dt\<rparr>) = record_ok r"
  by (simp_all add: record_ok_fields)

lemma record_ok_columns [simp]: "record_ok r \<Longrightarrow> record_ok (coupon_columns r)"
  using decimal4_le_int[of "cq_amount r" 100] by (simp add: record_ok_fields Let_def)

lemma valid_insert_coupon: "record_ok r \<Longrightarrow> preserves coupons_valid (insert_coupon l r)"
  by (auto simp: preserves_def insert_coupon_def coupon_stmt_def prog_simps coupons_valid_def inserted_coupon_def)

lemma valid_children: "preserves coupons_valid (upsert_children cid c)" "preserves coupons_valid (delete_children cid)"
  unfolding upsert_children_def insert_children_def delete_children_def delete_child_rows_def
  by (intro preserves_intros preserves_modp; auto simp: preserves_def coupons_valid_def prog_simps)+

lemma valid_save: "record_ok r \<Longrightarrow> preserves coupons_valid (save_coupon cid r)"
  unfolding save_coupon_def
  by (intro preserves_intros)
    (auto simp: preserves_def coupons_valid_def list_all_iff prog_simps
      dest: preservesD[OF valid_insert_coupon, unfolded coupons_valid_def list_all_iff]
      intro: valid_insert_coupon[unfolded preserves_def coupons_valid_def list_all_iff, rule_format])

lemma valid_delete: "preserves coupons_valid (coupon_delete i)"
  unfolding coupon_delete_def
  by (intro preserves_intros preserves_modp) (auto simp: coupons_valid_def list_all_iff)

lemma valid_usage_record: "preserves coupons_valid (usage_record u)"
  unfolding usage_record_def by (intro preserves_intros) (auto simp: preserves_def coupons_valid_def prog_simps Let_def)

interpretation valid_keeper: full_coupon_keeper coupon_shop_ports "\<lambda>s. coupons_valid (ks_db s)"
proof (intro full_coupon_keeper.intro updating_keeper.intro shop_keeper updating_keeper_axioms.intro full_coupon_keeper_axioms.intro,
    goal_cases)
  case (1 c) then show ?case
    unfolding coupon_create_def by (intro preserves_intros valid_insert_coupon record_ok_new valid_children)
next
  case (2 i) show ?case by (rule valid_delete)
next
  case (3 c) then show ?case
    unfolding coupon_shop_ports_def coupon_ports.simps coupon_update_def
    by (intro preserves_on_coupon_db preserves_intros valid_save record_ok_new valid_children)
next
  case (7 u) then show ?case
    by (simp add: coupon_shop_ports_def preserves_on_coupon_db valid_usage_record)
qed (simp_all add: coupon_shop_ports_def preserves_on_coupon_db readonly_preserves readonly_coupon_stmt
      usage_exists_for_order_def count_global_usage_def count_usage_by_email_def)

text \<open>C14: Every coupon that can be read after any sequence of calls, whichever statements fail, has an upper-case code
  and passes the domain validation, except that its amount may be zero, and then that is all that \<^verbatim>\<open>Validate\<close>
  objects to: an amount below half of a tenth of a thousandth passes the validation and is stored as \<^verbatim>\<open>0.0000\<close>. The
  rows at the start are to be of this kind.\<close>

theorem coupons_stay_valid:
  assumes "coupons_valid (ks_db s)" "shop_coupon (run_coupon_calls calls s) (trim i) = Some c"
  shows "coupon_validate c = (if cp_amount c = 0 then Some ErrDiscountAmountInvalid else None)
    \<and> 0 \<le> cp_amount c \<and> to_upper (cp_code c) = cp_code c"
proof -
  have "coupons_valid (ks_db (run_coupon_calls calls s))"
  proof (rule run_coupon_calls_invariant[of "\<lambda>s. coupons_valid (ks_db s)"])
    fix c and s :: coupon_shop assume "coupons_valid (ks_db s)"
    then show "coupons_valid (ks_db (run_coupon_call c s))"
      using valid_keeper.create_call_keeps valid_keeper.get_call_keeps valid_keeper.get_by_code_call_keeps
        valid_keeper.delete_call_keeps valid_keeper.list_call_keeps valid_keeper.update_call_keeps
        valid_keeper.sync_call_keeps valid_keeper.record_call_keeps
      by (cases c) (simp_all add: preserves_def)
  qed (rule assms(1))
  moreover obtain r where "r \<in> set (cd_coupons (ks_db (run_coupon_calls calls s)))"
    "c = coupon_of_db (ks_db (run_coupon_calls calls s)) r"
    using assms(2) by (auto simp: coupon_view_def dest: first_row_Some)
  ultimately show ?thesis using record_ok_view stored_ok_validate by (simp add: coupons_valid_def list_all_iff)
qed

section \<open>Creation and reading back\<close>

definition children_linked :: "coupon_db \<Rightarrow> bool" where
  "children_linked d \<longleftrightarrow> list_all (\<lambda>rows. list_all (\<lambda>r. ch_coupon_id r \<in> set (map cq_id (cd_coupons d))) rows)
     [cd_emails d, cd_contacts d, cd_products d, cd_categories d, cd_tags d]"

text \<open>The tables after a creation.\<close>

definition with_coupon :: "coupon_record \<Rightarrow> coupon \<Rightarrow> coupon_db \<Rightarrow> coupon_db" where
  "with_coupon r c d = d\<lparr>cd_coupons := cd_coupons d @ [r],
     cd_emails := cd_emails d @ to_child_rows (cp_id c) (cp_emails c),
     cd_contacts := cd_contacts d @ to_child_rows (cp_id c) (cp_contact_ids c),
     cd_products := cd_products d @ to_child_rows (cp_id c) (cp_product_ids c),
     cd_categories := cd_categories d @ to_child_rows (cp_id c) (cp_category_ids c),
     cd_tags := cd_tags d @ to_child_rows (cp_id c) (cp_tag_ids c)\<rparr>"

lemma insert_children_Inr:
  assumes "insert_children l rows get upd d = (Inr x, d')" "upd (\<lambda>t. t @ []) d = d"
  shows "d' = upd (\<lambda>t. t @ rows) d"
  using assms by (auto simp: insert_children_def coupon_stmt_Inr prog_simps split: if_splits)

lemma upsert_children_Inr:
  assumes "upsert_children cid c d = (Inr x, d')"
  shows "d' = d\<lparr>cd_emails := cd_emails d @ to_child_rows cid (cp_emails c),
     cd_contacts := cd_contacts d @ to_child_rows cid (cp_contact_ids c),
     cd_products := cd_products d @ to_child_rows cid (cp_product_ids c),
     cd_categories := cd_categories d @ to_child_rows cid (cp_category_ids c),
     cd_tags := cd_tags d @ to_child_rows cid (cp_tag_ids c)\<rparr>"
  using assms unfolding upsert_children_def bindp_Inr_iff
  by (auto dest!: insert_children_Inr)

lemma coupon_create_Inr: "coupon_create c d = (Inr x, d') \<Longrightarrow>
    cq_id (to_coupon_record c) \<notin> cq_id ` set (cd_coupons d) \<and> cq_code (to_coupon_record c) \<notin> cq_code ` set (cd_coupons d)
    \<and> d' = with_coupon (inserted_coupon d (to_coupon_record c)) c d"
  by (auto simp: coupon_create_def prog_Inr_iffs insert_coupon_def coupon_stmt_Inr with_coupon_def key_violation_apply
      split: if_splits dest!: upsert_children_Inr)

lemma children_of_new: "children_of cid (to_child_rows cid vs) = to_child_rows cid vs"
  by (induction vs) (auto simp: children_of_def to_child_rows_def)

lemma children_of_linked: "list_all (\<lambda>r. ch_coupon_id r \<in> set ids) rows \<Longrightarrow> cid \<notin> set ids \<Longrightarrow> children_of cid rows = []"
  by (auto simp: children_of_def list_all_iff filter_empty_conv)

lemma children_of_append: "children_of cid (xs @ ys) = children_of cid xs @ children_of cid ys"
  by (simp add: children_of_def)

lemma child_values_new: "trimmed_values vs \<Longrightarrow> child_values (to_child_rows cid vs) = vs"
  by (induction vs) (auto simp: child_values_def to_child_rows_def trimmed_values_def)

text \<open>A coupon as the columns have it.\<close>

definition as_stored :: "coupon_db \<Rightarrow> coupon \<Rightarrow> coupon" where
  "as_stored d c = c\<lparr>cp_active := (cp_active c \<or> cd_zero_default d), cp_amount := decimal4 (cp_amount c),
     cp_expires_at := map_option datetime3 (cp_expires_at c), cp_created_at := datetime3 (cp_created_at c),
     cp_updated_at := datetime3 (cp_updated_at c)\<rparr>"

lemma created_coupon_view:
  assumes "children_linked d" "coupon_normal c" "trim (cp_id c) = cp_id c" "cp_id c \<notin> cq_id ` set (cd_coupons d)"
  shows "coupon_of_db (with_coupon (inserted_coupon d (to_coupon_record c)) c d) (inserted_coupon d (to_coupon_record c))
    = as_stored d (c\<lparr>cp_created_at := (if cp_created_at c = 0 then cd_clock d else cp_created_at c),
        cp_updated_at := (if cp_updated_at c = 0 then cd_clock d else cp_updated_at c)\<rparr>)"
proof -
  have new: "children_of (cp_id c) rows = []"
    if "rows \<in> {cd_emails d, cd_contacts d, cd_products d, cd_categories d, cd_tags d}" for rows
    using that assms(1,4) by (intro children_of_linked[of "map cq_id (cd_coupons d)"]) (auto simp: children_linked_def)
  show ?thesis
    using assms(2,3)
    by (intro coupon.equality)
      (auto simp: as_stored_def coupon_of_db_def to_coupon_def inserted_coupon_def to_coupon_record_def with_coupon_def Let_def
        children_of_append children_of_new new child_values_new coupon_normal_def)
qed

text \<open>Choosing a code reads the tables only.\<close>

definition same_tables :: "coupon_db \<Rightarrow> (nat \<Rightarrow> string) \<Rightarrow> coupon_event list \<Rightarrow> coupon_shop \<Rightarrow> bool" where
  "same_tables d uuids evs s \<longleftrightarrow> ks_db s = d \<and> ks_uuids s = uuids \<and> ks_log s = evs"

lemma same_tables_reads: "preserves (same_tables d u l) (q_code_exists coupon_shop_ports code)"
  by (simp add: coupon_shop_ports_def readonly_preserves readonly_on_coupon_db readonly_reads)

lemma same_tables_draws: "same_tables d u l w \<Longrightarrow> same_tables d u l (snd (q_draws coupon_shop_ports w))"
  by (simp add: coupon_shop_ports_def same_tables_def)

lemma same_tables_generate: "preserves (same_tables d u l) (generate_unique_code_from coupon_shop_ports n)"
  by (induction n) (auto simp: Let_def intro!: preserves_intros preserves_drawp same_tables_draws same_tables_reads)

lemma same_tables_choose: "preserves (same_tables d u l) (choose_code coupon_shop_ports given)"
  unfolding choose_code_def generate_unique_code_def Let_def
  by (intro preserves_intros same_tables_reads same_tables_generate)

lemma choose_code_keeps: "choose_code coupon_shop_ports given s = (r, s') \<Longrightarrow> same_tables (ks_db s) (ks_uuids s) (ks_log s) s'"
  using preservesD[OF same_tables_choose, of "ks_db s" "ks_uuids s" "ks_log s" s] by (simp add: same_tables_def)

lemma shop_uuid: "q_uuid coupon_shop_ports s = (ks_uuids s (ks_uuid_next s), s\<lparr>ks_uuid_next := Suc (ks_uuid_next s)\<rparr>)"
  by (simp add: coupon_shop_ports_def)

lemma shop_create: "q_create coupon_shop_ports c s = (Inr x, s') \<longleftrightarrow>
    (\<exists>d. coupon_create c (ks_db s) = (Inr x, d) \<and> s' = s\<lparr>ks_db := d\<rparr>)"
  by (simp add: coupon_shop_ports_def on_coupon_db_Inr)

lemma create_coupon_Inr:
  assumes "create_coupon coupon_shop_ports cmd s = (Inr c, s')"
  shows "\<exists>code n. c = new_coupon (ks_uuids s n) code (cd_clock (ks_db s)) cmd \<and> coupon_ok c
    \<and> coupon_create c (ks_db s) = (Inr (), ks_db s')"
proof -
  from assms obtain code s1 where code: "choose_code coupon_shop_ports (kc_code cmd) s = (Inr code, s1)"
    and rest: "c = new_coupon (ks_uuids s1 (ks_uuid_next s1)) code (cd_clock (ks_db s1)) cmd" "coupon_validate c = None"
      "coupon_create c (ks_db s1) = (Inr (), ks_db s')"
    by (auto simp: create_coupon_def prog_Inr_iffs drawp_apply publish_quietly_shop Let_def shop_uuid shop_create)
  from choose_code_keeps[OF code] rest show ?thesis
    by (auto simp: same_tables_def coupon_validate_None)
qed

lemma new_coupon_fields [simp]: "cp_id (new_coupon i code now cmd) = i" "coupon_normal (new_coupon i code now cmd)"
    "cp_created_at (new_coupon i code now cmd) = now" "cp_updated_at (new_coupon i code now cmd) = now"
  by (simp_all add: new_coupon_def coupon_normalize_normal)

lemma coupon_stamps_same: "cp_created_at c = t \<Longrightarrow> cp_updated_at c = u \<Longrightarrow> c\<lparr>cp_created_at := t, cp_updated_at := u\<rparr> = c"
  by (cases c) simp

text \<open>A created coupon in the tables.\<close>

lemma created_views:
  assumes "create_coupon coupon_shop_ports cmd s = (Inr c, s')" "coupon_db_works (ks_db s)" "children_linked (ks_db s)"
    and "\<forall>n. trim (ks_uuids s n) = ks_uuids s n" "to_upper (trim code) = cp_code c"
  shows "coupon_with_code (ks_db s') code = Some (as_stored (ks_db s) c)"
    "coupon_view (ks_db s') (cp_id c) = Some (as_stored (ks_db s) c)" "coupon_db_works (ks_db s')" "trim (cp_id c) = cp_id c"
proof -
  let ?d = "ks_db s" and ?r = "inserted_coupon (ks_db s) (to_coupon_record c)"
  from create_coupon_Inr[OF assms(1)] obtain n k where c: "c = new_coupon (ks_uuids s n) k (cd_clock ?d) cmd"
    and mk: "coupon_create c ?d = (Inr (), ks_db s')" by blast
  have normal: "coupon_normal c" "trim (cp_id c) = cp_id c" using c assms(4) by simp_all
  from coupon_create_Inr[OF mk] normal have d': "ks_db s' = with_coupon ?r c ?d"
    and fresh: "cp_id c \<notin> cq_id ` set (cd_coupons ?d)" "cp_code c \<notin> cq_code ` set (cd_coupons ?d)"
    by (auto simp: to_coupon_record_def coupon_normal_def)
  have r: "cq_id ?r = cp_id c" "cq_code ?r = cp_code c" "live ?r"
    using normal by (simp_all add: inserted_coupon_def to_coupon_record_def coupon_normal_def live_def)
  have rows: "set (cd_coupons (ks_db s')) = insert ?r (set (cd_coupons ?d))" by (simp add: d' with_coupon_def)
  have by_code: "first_row (\<lambda>x. cq_code x = cp_code c \<and> live x) (ks_db s') = Some ?r"
    by (rule first_row_unique) (use rows fresh r in \<open>auto simp: image_iff\<close>)
  have by_id: "first_row (\<lambda>x. cq_id x = cp_id c \<and> live x) (ks_db s') = Some ?r"
    by (rule first_row_unique) (use rows fresh r in \<open>auto simp: image_iff\<close>)
  show works: "coupon_db_works (ks_db s')" using assms(2) by (simp add: d' with_coupon_def coupon_db_works_def)
  have view: "coupon_of_db (ks_db s') ?r = as_stored ?d c"
    using created_coupon_view[OF assms(3) normal fresh(1)] c by (simp add: d' coupon_stamps_same)
  show "coupon_with_code (ks_db s') code = Some (as_stored ?d c)"
    by (simp add: coupon_with_code_def assms(5) by_code view)
  show "coupon_view (ks_db s') (cp_id c) = Some (as_stored ?d c)"
    by (simp add: coupon_view_def by_id view)
  show "trim (cp_id c) = cp_id c" by (rule normal(2))
qed


section \<open>Codes\<close>

definition code_live :: "coupon_db \<Rightarrow> string \<Rightarrow> bool" where
  "code_live d code \<longleftrightarrow> list_ex (\<lambda>r. cq_code r = code \<and> live r) (cd_coupons d)"

lemma code_exists_shop: "coupon_db_works (ks_db s) \<Longrightarrow> to_upper (trim code) = code \<Longrightarrow>
    q_code_exists coupon_shop_ports code s = (Inr (code_live (ks_db s) code), s)"
  by (simp add: coupon_shop_ports_def on_coupon_db_def code_exists_def coupon_stmt_works prog_simps code_live_def
      filter_pos del: length_greater_0_conv)

lemma choose_given_code:
  assumes "coupon_db_works (ks_db s)" "to_upper (trim given) = code" "code \<noteq> []"
  shows "choose_code coupon_shop_ports given s =
    (if code_live (ks_db s) code then (Inl (Err ErrCouponCodeConflict), s) else (Inr code, s))"
proof -
  have "to_upper (trim code) = code" using assms(2) by auto
  with assms code_exists_shop[OF assms(1), of code] show ?thesis
    by (simp add: choose_code_def Let_def prog_simps)
qed

text \<open>C12: A creation with a code that some row already has always fails and leaves tables and events alone.
  It reports \<^verbatim>\<open>ErrCouponCodeConflict\<close> exactly when a live coupon has the code; a soft-deleted one is not
  seen by the check, and then the unique index refuses the row with an error that says nothing of the
  conflict.\<close>

theorem taken_code_rejected:
  assumes "coupon_db_works (ks_db s)" "to_upper (trim (kc_code cmd)) = code" "code \<noteq> []"
    and "r \<in> set (cd_coupons (ks_db s))" "cq_code r = code"
  shows "case create_coupon coupon_shop_ports cmd s of
      (Inr c, s') \<Rightarrow> False
    | (Inl e, s') \<Rightarrow> (errors_is e ErrCouponCodeConflict \<longleftrightarrow> code_live (ks_db s) code)
        \<and> ks_db s' = ks_db s \<and> ks_log s' = ks_log s"
proof (cases "code_live (ks_db s) code")
  case True
  with choose_given_code[OF assms(1-3)] show ?thesis
    by (simp add: create_coupon_def prog_simps)
next
  case False
  define c where "c = new_coupon (ks_uuids s (ks_uuid_next s)) code (cd_clock (ks_db s)) cmd"
  have "cp_code c = code" using assms(2) by (auto simp: c_def new_coupon_def coupon_normalize_def)
  moreover have "trim code = code" using assms(2) by auto
  moreover have "code \<in> cq_code ` set (cd_coupons (ks_db s))" using assms(4,5) by auto
  ultimately have "coupon_create c (ks_db s) = (Inl (Wrapped ''insert coupon'' (Err CouponDriverError)), ks_db s)"
    using assms(1) by (auto simp: coupon_create_def insert_coupon_def coupon_stmt_works prog_simps to_coupon_record_def)
  with False choose_given_code[OF assms(1-3)] show ?thesis
    by (auto simp: create_coupon_def prog_simps shop_uuid Let_def on_coupon_db_def split: option.splits
        simp flip: c_def simp: coupon_shop_ports_def[THEN arg_cong[of _ _ q_create]])
qed

text \<open>The code that the attempt with number \<open>k\<close> draws.\<close>

definition drawn_code :: "coupon_shop \<Rightarrow> nat \<Rightarrow> string" where
  "drawn_code s k = generate_code (\<lambda>i. ks_draws s (ks_draw_next s + 12 * k + i))"

definition after_draws :: "nat \<Rightarrow> coupon_shop \<Rightarrow> coupon_shop" where
  "after_draws k s = s\<lparr>ks_draw_next := ks_draw_next s + 12 * k\<rparr>"

lemma after_draws_simps [simp]: "ks_db (after_draws k s) = ks_db s" "after_draws 0 s = s"
    "after_draws j (after_draws k s) = after_draws (k + j) s" "drawn_code (after_draws k s) i = drawn_code s (k + i)"
  by (simp_all add: after_draws_def drawn_code_def algebra_simps)

lemma shop_draws: "q_draws coupon_shop_ports s = (\<lambda>i. ks_draws s (ks_draw_next s + i), after_draws 1 s)"
  by (simp add: coupon_shop_ports_def after_draws_def)

lemma generate_from_works:
  assumes "coupon_db_works (ks_db s)"
  shows "generate_unique_code_from coupon_shop_ports n s =
    (case find (\<lambda>k. \<not> code_live (ks_db s) (drawn_code s k)) [0..<n] of
       None \<Rightarrow> (Inl (Err CodeGenerationFailed), after_draws n s)
     | Some k \<Rightarrow> (Inr (drawn_code s k), after_draws (Suc k) s))"
  using assms
proof (induction n arbitrary: s)
  case (Suc n)
  have code: "generate_code (\<lambda>i. ks_draws s (ks_draw_next s + i)) = drawn_code s 0" by (simp add: drawn_code_def)
  have norm: "to_upper (trim (drawn_code s 0)) = drawn_code s 0" by (simp add: drawn_code_def generate_code_normal)
  have range: "[0..<Suc n] = 0 # map Suc [0..<n]" by (simp add: map_Suc_upt upt_conv_Cons)
  have find: "find P (map Suc ks) = map_option Suc (find (P \<circ> Suc) ks)" for P ks by (induction ks) auto
  show ?case
    using Suc.prems Suc.IH[of "after_draws 1 s"] norm
    by (simp add: prog_simps shop_draws code Let_def code_exists_shop range find comp_def del: upt_Suc split: option.splits)
qed (simp add: prog_simps)

text \<open>C13: A creation without a code tries up to ten random codes: it takes the first drawn code that no live
  coupon has, and fails exactly when all ten are taken. Every drawn code has fourteen upper-case
  characters and is in normal form, so the uniqueness check looks for the code that is stored.\<close>

theorem generated_code_is_first_free:
  assumes "coupon_db_works (ks_db s)" "trim given = []"
  shows "fst (choose_code coupon_shop_ports given s) =
      (case find (\<lambda>k. \<not> code_live (ks_db s) (drawn_code s k)) [0..<10] of
         None \<Rightarrow> Inl (Wrapped ''generate coupon code'' (Err CodeGenerationFailed))
       | Some k \<Rightarrow> Inr (drawn_code s k))
    \<and> length (drawn_code s k) = 14 \<and> to_upper (trim (drawn_code s k)) = drawn_code s k"
  using assms
  by (simp add: choose_code_def generate_unique_code_def max_code_gen_attempts_def generate_from_works prog_simps
      drawn_code_def generate_code_normal split: option.splits)

section \<open>Creations that succeed\<close>

definition children_distinct :: "coupon \<Rightarrow> bool" where
  "children_distinct c \<longleftrightarrow> list_all distinct [cp_emails c, cp_contact_ids c, cp_product_ids c, cp_category_ids c, cp_tag_ids c]"

lemma insert_children_works:
  assumes "coupon_db_works d" "distinct (get d @ rows)" "upd (\<lambda>t. t @ []) d = d"
  shows "insert_children l rows get upd d = (Inr (), upd (\<lambda>t. t @ rows) d)"
  using assms by (simp add: insert_children_def coupon_stmt_works prog_simps)

lemma coupon_db_works_updates [simp]:
  "coupon_db_works (cd_coupons_update g d) = coupon_db_works d" "coupon_db_works (cd_emails_update f d) = coupon_db_works d"
  "coupon_db_works (cd_contacts_update f d) = coupon_db_works d" "coupon_db_works (cd_products_update f d) = coupon_db_works d"
  "coupon_db_works (cd_categories_update f d) = coupon_db_works d"
  by (simp_all add: coupon_db_works_def)

definition children_tables_distinct :: "coupon_db \<Rightarrow> bool" where
  "children_tables_distinct d \<longleftrightarrow> list_all distinct [cd_emails d, cd_contacts d, cd_products d, cd_categories d, cd_tags d]"

lemma distinct_child_rows:
  assumes "distinct rows" "list_all (\<lambda>r. ch_coupon_id r \<in> set ids) rows" "cid \<notin> set ids" "distinct vs" "trimmed_values vs"
  shows "distinct (rows @ to_child_rows cid vs)"
proof -
  have "filter (\<lambda>v. v \<noteq> []) (map trim vs) = vs" using filter_empty_trim[OF assms(5)] by (simp add: filter_empty_def)
  then have "to_child_rows cid vs = map (\<lambda>v. \<lparr>ch_coupon_id = cid, ch_value = v\<rparr>) vs" by (simp add: to_child_rows_def)
  with assms(1-4) show ?thesis by (auto simp: distinct_map inj_on_def list_all_iff)
qed

lemma coupon_create_works:
  assumes "coupon_db_works d" "children_linked d" "children_tables_distinct d" "coupon_normal c" "children_distinct c \<and> decimal4_fits (cp_amount c)"
    and "trim (cp_id c) = cp_id c" "cp_id c \<notin> cq_id ` set (cd_coupons d)" "cp_code c \<notin> cq_code ` set (cd_coupons d)"
  shows "coupon_create c d = (Inr (), with_coupon (inserted_coupon d (to_coupon_record c)) c d)"
proof -
  let ?r = "inserted_coupon d (to_coupon_record c)"
  have id: "cq_id (to_coupon_record c) = cp_id c" "cq_code (to_coupon_record c) = cp_code c" "cq_amount (to_coupon_record c) = cp_amount c"
    using assms(4,6) by (simp_all add: to_coupon_record_def coupon_normal_def)
  have ins: "insert_coupon ''insert coupon'' (to_coupon_record c) d = (Inr (), d\<lparr>cd_coupons := cd_coupons d @ [?r]\<rparr>)"
    using assms(1,5,7,8) id by (simp add: insert_coupon_def coupon_stmt_works)
  have dist: "distinct (rows @ to_child_rows (cp_id c) vs)"
    if "(rows, vs) \<in> {(cd_emails d, cp_emails c), (cd_contacts d, cp_contact_ids c), (cd_products d, cp_product_ids c),
      (cd_categories d, cp_category_ids c), (cd_tags d, cp_tag_ids c)}" for rows vs
    using that assms(2-5,7) distinct_child_rows[of rows "map cq_id (cd_coupons d)" "cp_id c" vs]
    by (auto simp: children_linked_def children_tables_distinct_def children_distinct_def coupon_normal_def)
  show ?thesis
    by (simp add: coupon_create_def upsert_children_def atomically_apply bindp_apply ins insert_children_works assms(1) dist
        with_coupon_def del: distinct_append)
qed

lemma create_coupon_works:
  assumes works: "coupon_db_works (ks_db s)" "children_linked (ks_db s)" "children_tables_distinct (ks_db s)"
    and code: "to_upper (trim (kc_code cmd)) = code" "code \<noteq> []" "code \<notin> cq_code ` set (cd_coupons (ks_db s))"
    and c: "c = new_coupon (ks_uuids s (ks_uuid_next s)) code (cd_clock (ks_db s)) cmd" "coupon_validate c = None" "children_distinct c \<and> decimal4_fits (cp_amount c)"
    and uuid: "trim (cp_id c) = cp_id c" "cp_id c \<notin> cq_id ` set (cd_coupons (ks_db s))"
  shows "fst (create_coupon coupon_shop_ports cmd s) = Inr c"
proof -
  have "\<not> code_live (ks_db s) code" using code(3) by (auto simp: code_live_def list_ex_iff)
  with choose_given_code[OF works(1) code(1,2)]
  have "choose_code coupon_shop_ports (kc_code cmd) s = (Inr code, s)" by simp
  moreover have "trim code = code" "to_upper code = code" using code(1) by auto
  then have cc: "cp_code c = code" by (simp add: c(1) new_coupon_def coupon_normalize_def)
  then have "coupon_create c (ks_db s) = (Inr (), with_coupon (inserted_coupon (ks_db s) (to_coupon_record c)) c (ks_db s))"
    using coupon_create_works[OF works, of c] c uuid code(3) by simp
  then have "q_create coupon_shop_ports c (s\<lparr>ks_uuid_next := Suc (ks_uuid_next s)\<rparr>) = (Inr (),
      s\<lparr>ks_uuid_next := Suc (ks_uuid_next s), ks_db := with_coupon (inserted_coupon (ks_db s) (to_coupon_record c)) c (ks_db s)\<rparr>)"
    by (simp add: shop_create)
  ultimately show ?thesis
    using c(2) by (simp add: create_coupon_def bindp_apply drawp_apply shop_uuid getp_apply Let_def wrap_err_apply
        guard_err_apply publish_quietly_shop ret_apply flip: c(1))
qed

section \<open>Witnesses\<close>

definition sample_create :: "string \<Rightarrow> create_coupon_command" where
  "sample_create code = \<lparr>kc_code = code, kc_origin = ''campaign'', kc_discount_type = ''percentage'', kc_amount = 20,
     kc_max_global = None, kc_max_per_email = None, kc_active = False, kc_expires_at = None,
     kc_emails = ['' X@Y.co''], kc_contact_ids = [], kc_product_ids = [''p1''], kc_category_ids = [], kc_tag_ids = [],
     kc_woo_id = None\<rparr>"

definition sample_created :: coupon where
  "sample_created = new_coupon (''u'' @ format_uint 0) ''NEW'' 5000000 (sample_create '' new'')"

lemma sample_created_facts:
  "coupon_validate sample_created = None" "children_distinct sample_created" "decimal4_fits (cp_amount sample_created)" "trim (cp_id sample_created) = cp_id sample_created"
  "list_all (\<lambda>r. cq_id r \<noteq> cp_id sample_created \<and> cq_code r \<noteq> ''NEW'') (cd_coupons sample_coupon_db)"
  "to_upper (trim '' new'') = ''NEW''" "cp_code sample_created = ''NEW''" "to_upper (trim ''New '') = ''NEW''"
  "children_linked sample_coupon_db" "children_tables_distinct sample_coupon_db" "cd_zero_default sample_coupon_db"
  "\<not> cp_active sample_created" "cp_amount sample_created = 20" "as_stored sample_coupon_db sample_created = sample_created\<lparr>cp_active := True\<rparr>"
  by code_simp+

lemma sample_uuids: "ks_uuids sample_coupon_shop n = ''u'' @ format_uint n" "ks_uuid_next sample_coupon_shop = 0"
  by (simp_all add: sample_coupon_shop_def)

lemma sample_uuid_trimmed: "trim (CHR ''u'' # format_uint n) = CHR ''u'' # format_uint n"
proof (rule trim_graphic)
  have "graphic CHR ''u''" "list_all (list_all (\<lambda>c. \<not> is_digit c)) ws_tokens" by code_simp+
  then show "list_all graphic (CHR ''u'' # format_uint n)"
    using format_uint_digits[of n] by (auto simp: list_all_iff graphic_def)
qed



theorem taken_code_rejected_witness:
  "coupon_db_works (ks_db sample_coupon_shop) \<and> code_live (ks_db sample_coupon_shop) ''SALE''
   \<and> (case create_coupon coupon_shop_ports (sample_create ''sale'') sample_coupon_shop of
        (Inr c, s') \<Rightarrow> False | (Inl e, s') \<Rightarrow> errors_is e ErrCouponCodeConflict \<and> ks_db s' = ks_db sample_coupon_shop)"
proof -
  have "to_upper (trim (kc_code (sample_create ''sale''))) = ''SALE''" "code_live sample_coupon_db ''SALE''"
    "cq_code sample_coupon_record = ''SALE''" by code_simp+
  with taken_code_rejected[OF sample_coupon_works, of "sample_create ''sale''" "''SALE''" sample_coupon_record]
  show ?thesis by (auto split: prod.splits sum.splits)
qed

theorem generated_code_is_first_free_witness:
  "trim '' '' = [] \<and> fst (choose_code coupon_shop_ports '' '' sample_coupon_shop) = Inr ''BCDF-GHJK-MNPQ''"
proof -
  have "find (\<lambda>k. \<not> code_live sample_coupon_db (drawn_code sample_coupon_shop k)) [0..<10] = Some 0"
    "drawn_code sample_coupon_shop 0 = ''BCDF-GHJK-MNPQ''" "trim '' '' = []" by code_simp+
  with generated_code_is_first_free[OF sample_coupon_works, of "'' ''"] show ?thesis by simp
qed

text \<open>An amount that is stored as zero.\<close>

definition tiny_create :: create_coupon_command where
  "tiny_create = (sample_create ''tiny'')\<lparr>kc_discount_type := ''fixed'', kc_amount := 1 / 100000\<rparr>"

definition tiny_coupon :: coupon where
  "tiny_coupon = new_coupon (''u'' @ format_uint 0) ''TINY'' 5000000 tiny_create"

lemma tiny_facts: "coupon_validate tiny_coupon = None" "children_distinct tiny_coupon" "decimal4_fits (cp_amount tiny_coupon)"
  "cp_id tiny_coupon = ''u0''" "trim ''u0'' = ''u0''" "cp_amount (as_stored sample_coupon_db tiny_coupon) = 0"
  "list_all (\<lambda>r. cq_id r \<noteq> ''u0'' \<and> cq_code r \<noteq> ''TINY'') (cd_coupons sample_coupon_db)"
  "to_upper (trim (kc_code tiny_create)) = ''TINY''" "cp_code tiny_coupon = ''TINY''" "to_upper (trim ''TINY'') = ''TINY''"
  "format_uint 0 = ''0''"
  by code_simp+

theorem coupons_stay_valid_witness:
  "\<exists>c. shop_coupon (run_coupon_calls [CallCreateCoupon tiny_create] sample_coupon_shop) ''u0'' = Some c
     \<and> cp_amount c = 0 \<and> coupon_validate c = Some ErrDiscountAmountInvalid"
proof -
  have valid: "coupons_valid (ks_db sample_coupon_shop)" by (simp add: coupons_valid_def) code_simp
  have c: "tiny_coupon = new_coupon (ks_uuids sample_coupon_shop (ks_uuid_next sample_coupon_shop)) ''TINY''
      (cd_clock (ks_db sample_coupon_shop)) tiny_create"
    by (simp add: tiny_coupon_def sample_uuids)
  have "fst (create_coupon coupon_shop_ports tiny_create sample_coupon_shop) = Inr tiny_coupon"
    by (rule create_coupon_works[OF sample_coupon_works _ _ tiny_facts(8) _ _ c])
      (use tiny_facts sample_created_facts in \<open>auto simp: list_all_iff\<close>)
  then obtain s' where mk: "create_coupon coupon_shop_ports tiny_create sample_coupon_shop = (Inr tiny_coupon, s')"
    by (metis prod.collapse)
  have "coupon_view (ks_db s') ''u0'' = Some (as_stored sample_coupon_db tiny_coupon)"
    using created_views(2)[OF mk sample_coupon_works, of "''TINY''"] tiny_facts sample_created_facts
    by (simp add: sample_uuids sample_uuid_trimmed)
  then have view: "shop_coupon (run_coupon_calls [CallCreateCoupon tiny_create] sample_coupon_shop) (trim ''u0'')
      = Some (as_stored sample_coupon_db tiny_coupon)"
    using mk tiny_facts by (simp add: run_coupon_calls_def)
  from coupons_stay_valid[OF valid this] view tiny_facts show ?thesis by simp
qed

end
