(* ===== verification/Coupons_Concurrency.thy ===== *)
theory Coupons_Concurrency
  imports Coupons_Usage
begin

text \<open>
  Concurrent redemptions. \<^verbatim>\<open>RecordUsage\<close> reads the counts and inserts the usage in separate statements
  without a transaction, so requests interleave between the two. The step relation runs the two halves
  of the model of \<^verbatim>\<open>RecordUsage\<close> as separate steps. The theory also holds the sample module the
  witnesses of the coupon theories evaluate.
\<close>

section \<open>Requests and their steps\<close>

datatype request = Waiting | Admitted coupon | Finished

inductive redeem_step :: "usage_command list \<Rightarrow> coupon_shop \<times> request list \<Rightarrow> coupon_shop \<times> request list \<Rightarrow> bool"
  for reqs :: "usage_command list" where
  admit: "i < length st \<Longrightarrow> st ! i = Waiting \<Longrightarrow> check_usage coupon_shop_ports (reqs ! i) s = (Inr c, s')
    \<Longrightarrow> redeem_step reqs (s, st) (s', st[i := Admitted c])"
| refuse: "i < length st \<Longrightarrow> st ! i = Waiting \<Longrightarrow> check_usage coupon_shop_ports (reqs ! i) s = (Inl e, s')
    \<Longrightarrow> redeem_step reqs (s, st) (s', st[i := Finished])"
| record_it: "i < length st \<Longrightarrow> st ! i = Admitted c \<Longrightarrow> store_usage coupon_shop_ports (reqs ! i) c s = (r, s')
    \<Longrightarrow> redeem_step reqs (s, st) (s', st[i := Finished])"
| pass_time: "t \<ge> cd_clock (ks_db s) \<Longrightarrow>
    redeem_step reqs (s, st) (s\<lparr>ks_db := (ks_db s)\<lparr>cd_clock := t\<rparr>\<rparr>, st)"

inductive_cases redeem_stepE: "redeem_step reqs (s, st) (s', st')"

definition redeem_runs :: "usage_command list \<Rightarrow> coupon_shop \<Rightarrow> coupon_shop \<times> request list \<Rightarrow> bool" where
  "redeem_runs reqs s0 x \<longleftrightarrow> (redeem_step reqs)\<^sup>*\<^sup>* (s0, replicate (length reqs) Waiting) x"

definition admitted :: "string \<Rightarrow> request list \<Rightarrow> int" where
  "admitted cid st = int (length (filter (\<lambda>x. case x of Admitted c \<Rightarrow> cp_id c = cid | _ \<Rightarrow> False) st))"

lemma length_filter_update:
  "i < length xs \<Longrightarrow> int (length (filter P (xs[i := y])))
    = int (length (filter P xs)) - (if P (xs ! i) then 1 else 0) + (if P y then 1 else 0)"
proof (induction xs arbitrary: i)
  case (Cons a xs)
  show ?case
  proof (cases i)
    case (Suc j)
    with Cons.prems have "j < length xs" by simp
    from Cons.IH[OF this] Suc show ?thesis by (simp only: list_update.simps nat.case filter.simps nth_Cons_Suc) auto
  qed simp
qed simp

lemma admitted_le: "admitted cid st \<le> int (length st)"
  by (simp add: admitted_def)

lemma admitted_nonneg: "0 \<le> admitted cid st"
  by (simp add: admitted_def)

lemma admitted_lt: "i < length st \<Longrightarrow> st ! i = Waiting \<Longrightarrow> admitted cid st < int (length st)"
  using admitted_le[of cid "st[i := Admitted (undefined\<lparr>cp_id := cid\<rparr>)]"]
  by (simp add: admitted_def length_filter_update)

definition usage_keys :: "usage_row list \<Rightarrow> (string \<times> string) list" where
  "usage_keys us = map (\<lambda>u. (us_coupon_id u, us_order_id u)) us"

lemma used_on_keys: "used_on us cid oid \<longleftrightarrow> (cid, oid) \<in> set (usage_keys us)"
  by (auto simp: used_on_ex usage_keys_def)

lemma usage_keys_snoc: "usage_keys (us @ [u]) = usage_keys us @ [(us_coupon_id u, us_order_id u)]"
  by (simp add: usage_keys_def)

text \<open>The invariant: the coupons stay, no coupon is used twice on one order, and the usages of a coupon
  together with its admitted requests stay below the bound.\<close>

definition redeem_inv :: "coupon_shop \<Rightarrow> coupon_record \<Rightarrow> int \<Rightarrow> nat \<Rightarrow> coupon_shop \<times> request list \<Rightarrow> bool" where
  "redeem_inv s0 r m n x \<longleftrightarrow> (case x of (s, st) \<Rightarrow> cd_coupons (ks_db s) = cd_coupons (ks_db s0)
     \<and> length st = n \<and> (\<forall>i < n. \<forall>c. st ! i = Admitted c \<longrightarrow> trim (cp_id c) = cp_id c)
     \<and> distinct (usage_keys (shop_usages s))
     \<and> usage_count (shop_usages s) (cq_id r) + admitted (cq_id r) st
         \<le> max (usage_count (shop_usages s0) (cq_id r)) (m - 1 + int n))"

lemma admitted_coupon_below:
  assumes "check_usage coupon_shop_ports cmd s = (Inr c, s')" "r \<in> set (cd_coupons (ks_db s))"
    "distinct (map cq_id (cd_coupons (ks_db s)))" "cq_max_global r = Some m" "cp_id c = cq_id r"
  shows "usage_count (shop_usages s) (cq_id r) < m"
proof -
  from coupon_ledger.check_usage_Inr[OF assms(1)]
  have c: "shop_coupon s (trim (kr_coupon_id cmd)) = Some c"
    "usage_verdict (Some c) (shop_usages s) (cd_clock (ks_db s)) cmd = None" by auto
  from coupon_view_fields[OF c(1)] obtain q where q: "q \<in> set (cd_coupons (ks_db s))" "cq_id q = cp_id c"
    "cp_max_global c = cq_max_global q" by auto
  then have "q = r" using distinct_key[OF assms(3) q(1) assms(2)] assms(5) by simp
  with c(2) q assms(4,5) show ?thesis
    by (auto simp: usage_verdict_def Let_def reached_def split: if_splits)
qed

lemma store_usage_cases:
  assumes "store_usage coupon_shop_ports cmd c s = (x, s')"
  shows "s' = s \<or> (\<not> used_on (shop_usages s) (trim (cp_id c)) (trim (kr_order_id cmd))
    \<and> s' = with_usage (normal_usage (usage_of cmd c (cd_clock (ks_db s)))) (used_event s cmd c) s)"
proof (cases x)
  case (Inl e)
  with assms coupon_ledger.store_usage_Inl[of cmd c s e s'] show ?thesis by simp
next
  case (Inr y)
  with assms store_usage_shop[of cmd c s y s'] show ?thesis by simp
qed

lemma redeem_inv_step:
  assumes step: "redeem_step reqs x y" and inv: "redeem_inv s0 r m n x"
    and r: "r \<in> set (cd_coupons (ks_db s0))" "distinct (map cq_id (cd_coupons (ks_db s0)))"
      "cq_max_global r = Some m"
  shows "redeem_inv s0 r m n y"
  using step
proof cases
  case (admit i st s c s')
  then have "s' = s" using readonlyD[OF coupon_ledger.readonly_check_usage] by blast
  moreover have "trim (cp_id c) = cp_id c"
    using coupon_ledger.check_usage_Inr[OF admit(5)] shop_coupon_trimmed by blast
  ultimately show ?thesis
    using admit inv r admitted_coupon_below[OF admit(5), of r m] admitted_lt[OF admit(3,4), of "cq_id r"]
    by (auto simp: redeem_inv_def admitted_def length_filter_update nth_list_update)
next
  case (refuse i st s e s')
  then have "s' = s" using readonlyD[OF coupon_ledger.readonly_check_usage] by blast
  with refuse inv show ?thesis by (auto simp: redeem_inv_def admitted_def length_filter_update nth_list_update)
next
  case (record_it i st c s res s')
  have "trim (cp_id c) = cp_id c" using inv record_it by (auto simp: redeem_inv_def)
  with store_usage_cases[OF record_it(5)] inv record_it(1,3,4) show ?thesis
    unfolding record_it(2)
    by (auto simp: redeem_inv_def admitted_def length_filter_update nth_list_update normal_usage_of
        usage_count_snoc used_on_keys usage_keys_snoc)
next
  case (pass_time t s st)
  with inv show ?thesis by (simp add: redeem_inv_def)
qed

lemma redeem_inv_runs:
  assumes "(redeem_step reqs)\<^sup>*\<^sup>* x y" "redeem_inv s0 r m n x"
    and r: "r \<in> set (cd_coupons (ks_db s0))" "distinct (map cq_id (cd_coupons (ks_db s0)))" "cq_max_global r = Some m"
  shows "redeem_inv s0 r m n y"
  using assms(1,2) by (induction rule: rtranclp_induct) (auto intro: redeem_inv_step[OF _ _ r])

text \<open>C10: However \<open>n\<close> concurrent redemptions interleave, no coupon is ever used twice on the same order, and
  a coupon with global limit \<open>m\<close> ends with at most \<open>m - 1 + n\<close> usages (or with those it had). The limit
  itself can be passed by \<open>n - 1\<close>, because the count and the insertion are separate statements: the
  witness runs two requests on a coupon with limit one and ends with two usages.\<close>

theorem concurrent_usage_bounded:
  assumes "redeem_runs reqs s0 (s, st)" "limits_kept (ks_db s0)" "distinct (usage_keys (shop_usages s0))"
    and "r \<in> set (cd_coupons (ks_db s0))" "cq_max_global r = Some m"
  shows "distinct (usage_keys (shop_usages s))
    \<and> usage_count (shop_usages s) (cq_id r)
        \<le> max (usage_count (shop_usages s0) (cq_id r)) (m - 1 + int (length reqs))"
proof -
  have "redeem_inv s0 r m (length reqs) (s0, replicate (length reqs) Waiting)"
    using assms(3) by (simp add: redeem_inv_def admitted_def)
  from redeem_inv_runs[OF assms(1)[unfolded redeem_runs_def] this assms(4) _ assms(5)] assms(2)
  have "redeem_inv s0 r m (length reqs) (s, st)" by (simp add: limits_kept_def)
  with admitted_nonneg[of "cq_id r" st] show ?thesis by (auto simp: redeem_inv_def)
qed

section \<open>Two requests that pass the limit together\<close>

definition race_reqs :: "usage_command list" where
  "race_reqs = [sample_usage ''o1 '', sample_usage ''o2'']"

definition race_end :: coupon_shop where
  "race_end = (let s1 = with_usage (usage_of (race_reqs ! 0) sample_view (datetime3 5000000)) (used_event sample_coupon_shop (race_reqs ! 0) sample_view) sample_coupon_shop
     in with_usage (usage_of (race_reqs ! 1) sample_view (datetime3 5000000)) (used_event s1 (race_reqs ! 1) sample_view) s1)"

lemma race_admitted: "i < 2 \<Longrightarrow> check_usage coupon_shop_ports (race_reqs ! i) sample_coupon_shop = (Inr sample_view, sample_coupon_shop)"
  using coupon_ledger.check_usage_works[OF sample_coupon_works, of "race_reqs ! i"]
  by (auto simp: race_reqs_def less_2_cases_iff sample_verdict sample_coupon_view sample_trims)

lemma race_run: "redeem_runs race_reqs sample_coupon_shop (race_end, [Finished, Finished])"
proof -
  let ?s = sample_coupon_shop and ?v = sample_view
  let ?s1 = "with_usage (usage_of (race_reqs ! 0) ?v (datetime3 5000000)) (used_event ?s (race_reqs ! 0) ?v) ?s"
  have keys: "trim ''c1'' = ''c1''" "cp_id ?v = ''c1''" by code_simp+
  have oids: "trim (kr_order_id (race_reqs ! 0)) = ''o1''" "trim (kr_order_id (race_reqs ! 1)) = ''o2''" by code_simp+
  have "redeem_step race_reqs (?s, [Waiting, Waiting]) (?s, [Admitted ?v, Waiting])"
    using redeem_step.admit[of 0 "[Waiting, Waiting]" race_reqs ?s ?v ?s] race_admitted[of 0] by simp
  moreover have "redeem_step race_reqs (?s, [Admitted ?v, Waiting]) (?s, [Admitted ?v, Admitted ?v])"
    using redeem_step.admit[of 1 "[Admitted ?v, Waiting]" race_reqs ?s ?v ?s] race_admitted[of 1] by simp
  moreover have "store_usage coupon_shop_ports (race_reqs ! 0) ?v ?s = (Inr (), ?s1)"
    by (simp add: store_usage_shop used_on_def normal_usage_of keys) (simp add: sample_coupon_db_def)
  then have "redeem_step race_reqs (?s, [Admitted ?v, Admitted ?v]) (?s1, [Finished, Admitted ?v])"
    using redeem_step.record_it[of 0 "[Admitted ?v, Admitted ?v]" ?v race_reqs ?s "Inr ()" ?s1] by simp
  moreover have "store_usage coupon_shop_ports (race_reqs ! 1) ?v ?s1 = (Inr (), race_end)"
    using oids keys
    by (simp add: store_usage_shop used_on_def normal_usage_of race_end_def Let_def
        sample_coupon_db_def[THEN arg_cong[of _ _ cd_fault]])
  then have "redeem_step race_reqs (?s1, [Finished, Admitted ?v]) (race_end, [Finished, Finished])"
    using redeem_step.record_it[of 1 "[Finished, Admitted ?v]" ?v race_reqs ?s1 "Inr ()" race_end] by simp
  ultimately show ?thesis
    by (simp add: redeem_runs_def race_reqs_def numeral_2_eq_2)
qed

theorem concurrent_usage_bounded_witness:
  "redeem_runs race_reqs sample_coupon_shop (race_end, [Finished, Finished])
   \<and> cq_max_global sample_coupon_record = Some 1 \<and> usage_count (shop_usages race_end) ''c1'' = 2
   \<and> distinct (usage_keys (shop_usages race_end)) \<and> usage_count (shop_usages race_end) ''c1'' \<le> max 0 (1 - 1 + 2)"
proof -
  have m: "cq_max_global sample_coupon_record = Some 1" "cq_id sample_coupon_record = ''c1''" by code_simp+
  have two: "usage_count (shop_usages race_end) ''c1'' = 2"
    by (simp add: race_end_def Let_def usage_count_def sample_view_def)
  show ?thesis
    using concurrent_usage_bounded[OF race_run sample_coupon_limits, of sample_coupon_record 1] race_run two m
    by (simp add: usage_keys_def[of "[]"] race_reqs_def usage_count_def[of "[]"])
qed

end
