(* ===== verification/Shipping_Domain.thy ===== *)
theory Shipping_Domain
  imports Go_Strings
begin

text \<open>
  The values of \<^verbatim>\<open>module/shipping/domain\<close>: addresses, packages, shipping marks, dispatch batches,
  quotations, tracking histories, errors, their normalization and validation.

  Closed sets of string constants (mark status, tracking status) are datatypes; values that arrive
  from outside as arbitrary strings (shipment mode, document type, batch status) are strings.
\<close>

section \<open>Rounding to cents\<close>

text \<open>\<^verbatim>\<open>math.Round\<close> rounds halves away from zero.\<close>

definition go_round :: "rat \<Rightarrow> int" where
  "go_round x = (if x \<ge> 0 then \<lfloor>x + 1/2\<rfloor> else - \<lfloor>1/2 - x\<rfloor>)"

definition round2 :: "rat \<Rightarrow> rat" where
  "round2 x = of_int (go_round (x * 100)) / 100"

text \<open>An amount is in cents if it is a whole multiple of 0.01.\<close>

definition cents :: "rat \<Rightarrow> bool" where
  "cents x \<longleftrightarrow> round2 x = x"

lemma go_round_of_int [simp]: "go_round (of_int n) = n"
proof -
  have "\<lfloor>rat_of_int n + 1/2\<rfloor> = n" "\<lfloor>1/2 - rat_of_int n\<rfloor> = - n" by linarith+
  then show ?thesis by (simp add: go_round_def)
qed

lemma cents_round2 [simp]: "cents (round2 x)"
  by (simp add: cents_def round2_def)

lemma round2_fixed: "cents x \<Longrightarrow> round2 x = x"
  by (simp add: cents_def)

lemma cents_iff: "cents x \<longleftrightarrow> (\<exists>n. x = of_int n / 100)"
proof
  assume "cents x" then show "\<exists>n. x = of_int n / 100" by (metis cents_def round2_def)
next
  assume "\<exists>n. x = of_int n / 100" then show "cents x" by (auto simp: cents_def round2_def)
qed

lemma cents_const [simp]: "cents 0" "cents 100"
  by (auto simp: cents_iff intro: exI[of _ 0] exI[of _ 10000])

lemma cents_add: "cents x \<Longrightarrow> cents y \<Longrightarrow> cents (x + y)"
  by (auto simp: cents_iff simp flip: of_int_add add_divide_distrib)

lemma cents_diff: "cents x \<Longrightarrow> cents y \<Longrightarrow> cents (x - y)"
  by (auto simp: cents_iff simp flip: of_int_diff diff_divide_distrib)

lemma go_round_nonneg: "0 \<le> x \<Longrightarrow> 0 \<le> go_round x"
  by (simp add: go_round_def)

lemma go_round_mono: "x \<le> y \<Longrightarrow> go_round x \<le> go_round y"
proof -
  assume "x \<le> y"
  then have "\<lfloor>x + 1/2\<rfloor> \<le> \<lfloor>y + 1/2\<rfloor>" "\<lfloor>1/2 - y\<rfloor> \<le> \<lfloor>1/2 - x\<rfloor>" by (auto intro: floor_mono)
  moreover have "- \<lfloor>1/2 - x\<rfloor> \<le> \<lfloor>y + 1/2\<rfloor>" if "x < 0" "0 \<le> y"
  proof -
    from that have "0 \<le> \<lfloor>1/2 - x\<rfloor>" "0 \<le> \<lfloor>y + 1/2\<rfloor>" by simp_all
    then show ?thesis by linarith
  qed
  ultimately show ?thesis using \<open>x \<le> y\<close> by (auto simp: go_round_def)
qed

lemma round2_nonneg [simp]: "0 \<le> x \<Longrightarrow> 0 \<le> round2 x"
  by (simp add: round2_def go_round_nonneg)

lemma round2_mono: "x \<le> y \<Longrightarrow> round2 x \<le> round2 y"
  by (simp add: round2_def go_round_mono divide_right_mono)

lemma round2_const [simp]: "round2 0 = 0" "round2 100 = 100"
  by (simp_all add: round2_fixed)

text \<open>\<^verbatim>\<open>if x < 0 { x = 0 }\<close>.\<close>

definition clamp0 :: "rat \<Rightarrow> rat" where
  "clamp0 x = (if x < 0 then 0 else x)"

lemma clamp0_nonneg [simp]: "0 \<le> clamp0 x"
  by (simp add: clamp0_def)

lemma clamp0_fixed [simp]: "0 \<le> x \<Longrightarrow> clamp0 x = x"
  by (simp add: clamp0_def)

lemma cents_clamp0 [simp]: "cents x \<Longrightarrow> cents (clamp0 x)"
  by (simp add: clamp0_def)

section \<open>Addresses and carriers\<close>

record address =
  ad_name :: string
  ad_legal_name :: string
  ad_id :: string
  ad_id_type :: string
  ad_line :: string
  ad_city :: string
  ad_phone :: string
  ad_email :: string

definition address_normalize :: "address \<Rightarrow> address" where
  "address_normalize a = \<lparr>ad_name = trim (ad_name a), ad_legal_name = trim (ad_legal_name a),
     ad_id = trim (ad_id a), ad_id_type = trim (ad_id_type a), ad_line = trim (ad_line a),
     ad_city = trim (ad_city a), ad_phone = trim (ad_phone a), ad_email = trim (ad_email a)\<rparr>"

definition empty_address :: address where
  "empty_address = \<lparr>ad_name = [], ad_legal_name = [], ad_id = [], ad_id_type = [], ad_line = [],
     ad_city = [], ad_phone = [], ad_email = []\<rparr>"

lemma address_normalize_idem [simp]: "address_normalize (address_normalize a) = address_normalize a"
  by (simp add: address_normalize_def)

datatype carrier_type = CarrierApi | CarrierManual

record carrier =
  ca_id :: string
  ca_name :: string
  ca_type :: carrier_type
  ca_active :: bool
  ca_balance_check :: bool
  ca_quotation :: bool
  ca_manifest :: bool
  ca_tracking :: bool
  ca_needs_url :: bool

text \<open>\<^verbatim>\<open>NormalizeCarrierSlug\<close>. Canonical decomposition (\<^verbatim>\<open>golang.org/x/text/unicode/norm\<close>) is the parameter
  \<open>nfd\<close>. Of the decomposed text only lower-case ASCII letters, digits, \<^verbatim>\<open>-\<close> and \<^verbatim>\<open>_\<close> stay; the bytes of other
  code points, combining marks among them, are dropped.\<close>

definition slug_char :: "char \<Rightarrow> bool" where
  "slug_char c \<longleftrightarrow> (let n = of_char c :: nat in (97 \<le> n \<and> n \<le> 122) \<or> (48 \<le> n \<and> n \<le> 57)) \<or> c = CHR ''-'' \<or> c = CHR ''_''"

definition carrier_slug :: "(string \<Rightarrow> string) \<Rightarrow> string \<Rightarrow> string" where
  "carrier_slug nfd v = (let t = trim (to_lower v) in if t = [] then [] else filter slug_char (nfd t))"

definition is_manual_carrier :: "string \<Rightarrow> bool" where
  "is_manual_carrier cid = (let n = to_lower (trim cid) in n = ''manual'' \<or> has_prefix n ''manual_'')"

section \<open>Packages\<close>

record dimensions =
  dm_height :: float64
  dm_width :: float64
  dm_depth :: float64
  dm_weight :: float64
  dm_volumetric :: float64
  dm_declared :: float64

definition volumetric_factor :: rat where
  "volumetric_factor = 4 / 10000"

definition dimensions_normalize :: "dimensions \<Rightarrow> dimensions" where
  "dimensions_normalize d =
    (let h = clamp0 (dm_height d); w = clamp0 (dm_width d); l = clamp0 (dm_depth d);
         v = (if dm_volumetric d \<le> 0 then h * w * l * volumetric_factor else dm_volumetric d)
     in \<lparr>dm_height = h, dm_width = w, dm_depth = l, dm_weight = round2 (clamp0 (dm_weight d)),
         dm_volumetric = round2 (clamp0 v), dm_declared = round2 (clamp0 (dm_declared d))\<rparr>)"

record package_unit =
  pu_description :: string
  pu_dimensions :: dimensions
  pu_type :: string

definition unit_normalize :: "package_unit \<Rightarrow> package_unit" where
  "unit_normalize u = \<lparr>pu_description = trim (pu_description u),
     pu_dimensions = dimensions_normalize (pu_dimensions u), pu_type = trim (pu_type u)\<rparr>"

text \<open>A positive volumetric weight that rounds to zero is replaced by the one of the sides in the next
  pass, so normalization is settled after two passes, and after one if the weights are in cents.\<close>

lemma dimensions_normalize_settles [simp]:
  "dimensions_normalize (dimensions_normalize (dimensions_normalize d)) = dimensions_normalize (dimensions_normalize d)"
proof -
  let ?v = "\<lambda>d. clamp0 (dm_height d) * clamp0 (dm_width d) * clamp0 (dm_depth d) * volumetric_factor"
  have v: "0 \<le> ?v d" by (simp add: volumetric_factor_def)
  have z: "x \<le> 0 \<Longrightarrow> round2 (clamp0 x) = 0" for x by (simp add: clamp0_def)
  show ?thesis
    using v by (cases "dm_volumetric d \<le> 0"; cases "round2 (?v d) \<le> 0"; cases "round2 (dm_volumetric d) \<le> 0")
      (auto simp: dimensions_normalize_def Let_def round2_fixed not_le dest: antisym[OF _ round2_nonneg[OF v]])
qed

lemma dimensions_normalize_idem:
  "cents (dm_volumetric d) \<Longrightarrow> dimensions_normalize (dimensions_normalize d) = dimensions_normalize d"
  by (auto simp: dimensions_normalize_def Let_def round2_fixed volumetric_factor_def not_le
      intro!: antisym[OF _ round2_nonneg])

lemma unit_normalize_settles [simp]:
  "unit_normalize (unit_normalize (unit_normalize u)) = unit_normalize (unit_normalize u)"
  by (simp add: unit_normalize_def)

lemma unit_amounts [simp]:
  "0 \<le> dm_declared (pu_dimensions (unit_normalize u))" "cents (dm_declared (pu_dimensions (unit_normalize u)))"
  "0 \<le> dm_weight (pu_dimensions (unit_normalize u))" "cents (dm_weight (pu_dimensions (unit_normalize u)))"
  "0 \<le> dm_volumetric (pu_dimensions (unit_normalize u))" "cents (dm_volumetric (pu_dimensions (unit_normalize u)))"
  by (simp_all add: unit_normalize_def dimensions_normalize_def Let_def)

section \<open>Errors\<close>

text \<open>\<open>CarrierFailure\<close> and \<open>ClientFailure\<close> are the errors built from texts (a rejection by the carrier, a
  failed HTTP call); \<open>ShippingDriverError\<close> is a failed statement, \<open>ShippingPublishError\<close> a failed
  publication.\<close>

datatype shipping_error = ErrInvalidID | ErrInvalidCarrierID | ErrCarrierNotSupported
  | ErrQuotationNotSupported | ErrTrackingNotSupported | ErrInsufficientBalance | ErrInvalidMarkStatus
  | ErrInvalidBatchStatus | ErrBatchClosed | ErrBatchCarrierMismatch | ErrBatchMarkStatusMismatch
  | ErrBatchOpenForCarrier | ErrMarkNotDraft | ErrManualDraftIncomplete
  | ErrManualDraftUpdateNotSupported | ErrInvalidShipmentMode | ErrInvalidCityCode | ErrShippingNotFound
  | ErrNoValidProducts
  | GuardrailViolation (gv_carrier: string) (gv_mark: string) (gv_order: string) (gv_rule: string)
      (gv_preview: string)
  | CarrierFailure string | ClientFailure string | SnapshotInvalid | OrderLookupFailed
  | SourceMissing string | ShippingDriverError | ShippingPublishError

fun is_guardrail :: "shipping_error \<Rightarrow> bool" where
  "is_guardrail (GuardrailViolation _ _ _ _ _) = True"
| "is_guardrail _ = False"

text \<open>\<^verbatim>\<open>Error()\<close> of a guardrail violation.\<close>

definition guardrail_text :: "string \<Rightarrow> string \<Rightarrow> string \<Rightarrow> string \<Rightarrow> string \<Rightarrow> string" where
  "guardrail_text cid mid oid rule preview =
    (let cid' = (if trim cid = [] then ''unknown'' else trim cid);
         message = cid' @ '' guardrail violation: rule='' @ trim rule @ '' mark_id='' @ trim mid
           @ '' order_id='' @ trim oid
     in if trim preview = [] then message else message @ '' request_preview='' @ trim preview)"

section \<open>Shipping marks\<close>

definition mode_parcel :: string where "mode_parcel = ''parcel''"
definition mode_express :: string where "mode_express = ''express''"
definition document_link :: string where "document_link = ''LINK''"
definition document_file :: string where "document_file = ''FILE''"

text \<open>\<open>NoStatus\<close> is the empty string.\<close>

datatype mark_status = NoStatus | Pending | Generated | Failed | Voided | Quoted | Created | Removed

record shipping_mark =
  sm_id :: string
  sm_order_id :: string
  sm_carrier_id :: string
  sm_tracking :: string
  sm_status :: mark_status
  sm_document_type :: string
  sm_document_ref :: string
  sm_manifest_type :: string
  sm_manifest_ref :: string
  sm_sender :: address
  sm_recipient :: address
  sm_units :: "package_unit list"
  sm_weight :: float64
  sm_volumetric :: float64
  sm_declared :: float64
  sm_payment_form :: string
  sm_cod_amount :: float64
  sm_cod_percent :: float64
  sm_cod_charged :: float64
  sm_observations :: string
  sm_batch_id :: "string option"
  sm_quotation_id :: "string option"
  sm_freight :: float64
  sm_mode :: string
  sm_draft_snapshot :: string
  sm_request_snapshot :: string
  sm_response_snapshot :: string
  sm_failure :: string
  sm_custom_url :: "string option"
  sm_created_at :: gotime
  sm_updated_at :: gotime

text \<open>\<^verbatim>\<open>normalizeOptionalURL\<close>, and its copy \<^verbatim>\<open>normalizeOptionalURLPointer\<close> in the dispatch service.\<close>

definition normalize_url :: "string option \<Rightarrow> string option" where
  "normalize_url v = (case v of None \<Rightarrow> None | Some s \<Rightarrow> if trim s = [] then None else Some (trim s))"

text \<open>The loop over the units adds declared values to the given one as long as the sum is not positive.\<close>

definition total_declared :: "rat \<Rightarrow> package_unit list \<Rightarrow> rat" where
  "total_declared d units = foldl (\<lambda>acc u. if acc \<le> 0 then acc + dm_declared (pu_dimensions u) else acc) d units"

definition cod_percent_range :: "rat \<Rightarrow> rat" where
  "cod_percent_range p = (let q = clamp0 p in if q > 100 then 100 else q)"

definition mark_normalize :: "shipping_mark \<Rightarrow> shipping_mark" where
  "mark_normalize m =
    (let units = map unit_normalize (sm_units m);
         amount = clamp0 (sm_cod_amount m);
         percent = (if amount \<le> 0 then 0 else cod_percent_range (sm_cod_percent m));
         charged = (if amount \<le> 0 then 0
                    else if clamp0 (sm_cod_charged m) \<le> 0 then amount else clamp0 (sm_cod_charged m))
     in \<lparr>sm_id = trim (sm_id m), sm_order_id = trim (sm_order_id m), sm_carrier_id = trim (sm_carrier_id m),
         sm_tracking = trim (sm_tracking m),
         sm_status = (if sm_status m = NoStatus then Pending else sm_status m),
         sm_document_type = sm_document_type m, sm_document_ref = trim (sm_document_ref m),
         sm_manifest_type = sm_manifest_type m, sm_manifest_ref = trim (sm_manifest_ref m),
         sm_sender = address_normalize (sm_sender m), sm_recipient = address_normalize (sm_recipient m),
         sm_units = units,
         sm_weight = round2 (\<Sum>u\<leftarrow>units. dm_weight (pu_dimensions u)),
         sm_volumetric = round2 (\<Sum>u\<leftarrow>units. dm_volumetric (pu_dimensions u)),
         sm_declared = round2 (clamp0 (total_declared (sm_declared m) units)),
         sm_payment_form = trim (sm_payment_form m),
         sm_cod_amount = round2 amount, sm_cod_percent = round2 percent, sm_cod_charged = round2 charged,
         sm_observations = trim (sm_observations m), sm_batch_id = sm_batch_id m,
         sm_quotation_id = sm_quotation_id m, sm_freight = round2 (clamp0 (sm_freight m)),
         sm_mode = sm_mode m, sm_draft_snapshot = trim (sm_draft_snapshot m),
         sm_request_snapshot = trim (sm_request_snapshot m),
         sm_response_snapshot = trim (sm_response_snapshot m), sm_failure = trim (sm_failure m),
         sm_custom_url = normalize_url (sm_custom_url m),
         sm_created_at = sm_created_at m, sm_updated_at = sm_updated_at m\<rparr>)"

definition valid_mode :: "string \<Rightarrow> bool" where
  "valid_mode s \<longleftrightarrow> s = mode_parcel \<or> s = mode_express"

definition mark_validate :: "shipping_mark \<Rightarrow> shipping_error option" where
  "mark_validate m = (let n = mark_normalize m in
     if sm_id n = [] then Some ErrInvalidID
     else if sm_order_id n = [] then Some ErrInvalidID
     else if sm_carrier_id n = [] then Some ErrInvalidCarrierID
     else if sm_units n = [] then Some ErrInvalidID
     else if \<not> valid_mode (sm_mode n) then Some ErrInvalidShipmentMode
     else None)"

section \<open>Dispatch batches\<close>

definition batch_open :: string where "batch_open = ''OPEN''"
definition batch_closed :: string where "batch_closed = ''CLOSED''"

record dispatch_batch =
  bt_id :: string
  bt_carrier_id :: string
  bt_status :: string
  bt_created_by :: string
  bt_mark_ids :: "string list"
  bt_created_at :: gotime
  bt_closed_at :: "gotime option"

text \<open>Mark identifiers are trimmed; blank ones and repetitions are dropped, the first occurrence stays.\<close>

definition distinct_ids :: "string list \<Rightarrow> string list" where
  "distinct_ids ids = fold (\<lambda>i acc. let t = trim i in if t = [] \<or> t \<in> set acc then acc else acc @ [t]) ids []"

definition batch_normalize :: "dispatch_batch \<Rightarrow> dispatch_batch" where
  "batch_normalize b = \<lparr>bt_id = trim (bt_id b), bt_carrier_id = trim (bt_carrier_id b),
     bt_status = (if bt_status b = [] then batch_open else bt_status b),
     bt_created_by = trim (bt_created_by b), bt_mark_ids = distinct_ids (bt_mark_ids b),
     bt_created_at = bt_created_at b, bt_closed_at = bt_closed_at b\<rparr>"

definition batch_validate :: "dispatch_batch \<Rightarrow> shipping_error option" where
  "batch_validate b = (let n = batch_normalize b in
     if bt_id n = [] then Some ErrInvalidID
     else if bt_carrier_id n = [] then Some ErrInvalidCarrierID
     else None)"

section \<open>Quotations\<close>

record quotation_request =
  qr_order_id :: string
  qr_carrier_id :: string
  qr_origin_city :: string
  qr_dest_city :: string
  qr_units :: "package_unit list"
  qr_declared :: float64
  qr_cod_amount :: float64
  qr_mode :: string

definition request_normalize :: "quotation_request \<Rightarrow> quotation_request" where
  "request_normalize r = \<lparr>qr_order_id = trim (qr_order_id r), qr_carrier_id = trim (qr_carrier_id r),
     qr_origin_city = trim (qr_origin_city r), qr_dest_city = trim (qr_dest_city r),
     qr_units = map unit_normalize (qr_units r), qr_declared = round2 (clamp0 (qr_declared r)),
     qr_cod_amount = round2 (clamp0 (qr_cod_amount r)), qr_mode = qr_mode r\<rparr>"

definition request_validate :: "quotation_request \<Rightarrow> shipping_error option" where
  "request_validate r = (let n = request_normalize r in
     if qr_carrier_id n = [] then Some ErrInvalidCarrierID
     else if qr_origin_city n = [] \<or> qr_dest_city n = [] then Some ErrInvalidID
     else if qr_units n = [] then Some ErrInvalidID
     else if \<not> valid_mode (qr_mode n) then Some ErrInvalidShipmentMode
     else None)"

record quotation_warning =
  qw_code :: string
  qw_message :: string

record quotation_result =
  qx_id :: string
  qx_order_id :: string
  qx_order_identifier :: string
  qx_carrier_id :: string
  qx_origin_city :: string
  qx_dest_city :: string
  qx_units :: "package_unit list"
  qx_freight :: float64
  qx_cod_amount :: float64
  qx_cod_percent :: float64
  qx_cod_fee :: float64
  qx_cod_charged :: float64
  qx_days :: int
  qx_currency :: string
  qx_expires_at :: gotime
  qx_raw_response :: string
  qx_request_snapshot :: string
  qx_warnings :: "quotation_warning list"
  qx_created_at :: gotime

section \<open>Tracking\<close>

datatype tracking_status = TrackProcessing | TrackOrigin | TrackCompleted | TrackReturn | TrackIncidence
  | TrackVoided

record tracking_event =
  te_date :: gotime
  te_code :: string
  te_text :: string
  te_city :: string
  te_status :: tracking_status

record tracking_history =
  th_carrier_id :: string
  th_tracking :: string
  th_status :: tracking_status
  th_updated_at :: gotime
  th_events :: "tracking_event list"

end
