(* ===== verification/Shipping_Store.thy ===== *)
theory Shipping_Store
  imports Shipping_Domain Sql_Columns
begin

text \<open>
  The repositories of \<^verbatim>\<open>module/shipping/adapter/store\<close>: rows, mappers, and the operations of the mark,
  batch and quotation repositories as statements on tables.

  Tables are lists of rows in insertion order; \<open>sd_fault l\<close> says that the statement labelled \<open>l\<close> fails.
  The eight address columns of a side form one \<open>address\<close>, the six measures of a unit one \<open>dimensions\<close>.
  Time stamps of marks and batches have the seconds of their \<^verbatim>\<open>TIMESTAMP\<close> columns. The pages of a listing order
  rows with the same time stamp by \<open>sd_tie\<close>, an arbitrary rank that may be another one for every page; where a
  query without pages has no \<^verbatim>\<open>ORDER BY\<close>, or ties in it, rows keep their insertion order.
\<close>

section \<open>Rows\<close>

record mark_row =
  mr_id :: string
  mr_order_id :: string
  mr_carrier_id :: string
  mr_tracking :: "string option"
  mr_status :: mark_status
  mr_document_type :: "string option"
  mr_document_ref :: "string option"
  mr_manifest_type :: "string option"
  mr_manifest_ref :: "string option"
  mr_sender :: address
  mr_recipient :: address
  mr_weight :: float64
  mr_volumetric :: float64
  mr_declared :: float64
  mr_payment_form :: string
  mr_cod_amount :: float64
  mr_cod_percent :: float64
  mr_cod_charged :: float64
  mr_observations :: string
  mr_batch_id :: "string option"
  mr_quotation_id :: "string option"
  mr_freight :: float64
  mr_draft_snapshot :: string
  mr_request_snapshot :: string
  mr_response_snapshot :: string
  mr_mode :: string
  mr_failure :: string
  mr_custom_url :: "string option"
  mr_created_at :: gotime
  mr_updated_at :: gotime

record unit_row =
  un_id :: string
  un_mark_id :: string
  un_description :: string
  un_type :: string
  un_dimensions :: dimensions

record batch_row =
  br_id :: string
  br_carrier_id :: string
  br_status :: string
  br_created_by :: string
  br_created_at :: gotime
  br_closed_at :: "gotime option"

record quote_row =
  qt_id :: string
  qt_order_id :: string
  qt_order_identifier :: string
  qt_carrier_id :: string
  qt_origin_city :: string
  qt_dest_city :: string
  qt_freight :: float64
  qt_cod_fee :: float64
  qt_days :: int
  qt_currency :: string
  qt_expires_at :: gotime
  qt_request_snapshot :: string
  qt_raw_response :: string
  qt_created_at :: gotime

record quote_unit_row =
  qu_id :: string
  qu_quote_id :: string
  qu_index :: int
  qu_description :: string
  qu_type :: string
  qu_dimensions :: dimensions
  qu_created_at :: gotime

record shipping_db =
  sd_marks :: "mark_row list"
  sd_units :: "unit_row list"
  sd_batches :: "batch_row list"
  sd_quotes :: "quote_row list"
  sd_quote_units :: "quote_unit_row list"
  sd_clock :: gotime
  sd_fault :: "string \<Rightarrow> bool"
  sd_tie :: "int \<Rightarrow> string \<Rightarrow> int"

type_synonym 'a shipping_prog = "(shipping_db, shipping_error, 'a) prog"

definition ship_stmt :: "string \<Rightarrow> 'a shipping_prog \<Rightarrow> 'a shipping_prog" where
  "ship_stmt label m = (\<lambda>d. if sd_fault d label then (Inl (Wrapped label (Err ShippingDriverError)), d) else m d)"

definition ship_violation :: "string \<Rightarrow> 'a shipping_prog" where
  "ship_violation label = throw (Wrapped label (Err ShippingDriverError))"

text \<open>LIMIT and OFFSET of a page; the mapper drops an offset that is not positive.\<close>

definition page_rows :: "int \<Rightarrow> int \<Rightarrow> 'r list \<Rightarrow> 'r list" where
  "page_rows page limit rows =
    (let p = (if page \<le> 0 then 1 else page); l = (if limit \<le> 0 then 50 else limit);
         offset = int64 (int64 (p - 1) * l)
     in take (nat l) (drop (nat offset) rows))"

section \<open>Mappers\<close>

definition nullable_string :: "string \<Rightarrow> string option" where
  "nullable_string v = (if trim v = [] then None else Some (trim v))"

definition deref_string :: "string option \<Rightarrow> string" where
  "deref_string v = (case v of None \<Rightarrow> [] | Some s \<Rightarrow> s)"

definition deterministic_id :: "string \<Rightarrow> nat \<Rightarrow> string" where
  "deterministic_id base index = base @ ''-unit-'' @ format_uint (index + 1)"

definition to_unit_rows :: "string \<Rightarrow> package_unit list \<Rightarrow> unit_row list" where
  "to_unit_rows mid units = map (\<lambda>(i, u). \<lparr>un_id = deterministic_id mid i, un_mark_id = mid,
     un_description = pu_description u, un_type = pu_type u, un_dimensions = pu_dimensions u\<rparr>) (enumerate 0 units)"

definition of_unit_row :: "unit_row \<Rightarrow> package_unit" where
  "of_unit_row r = \<lparr>pu_description = un_description r, pu_dimensions = un_dimensions r, pu_type = un_type r\<rparr>"

text \<open>\<^verbatim>\<open>mapMarkDomain\<close> normalizes the mark and returns the row and its units.\<close>

definition to_mark_row :: "shipping_mark \<Rightarrow> mark_row" where
  "to_mark_row mark = (let m = mark_normalize mark in
     \<lparr>mr_id = sm_id m, mr_order_id = sm_order_id m, mr_carrier_id = sm_carrier_id m,
      mr_tracking = nullable_string (sm_tracking m), mr_status = sm_status m,
      mr_document_type = nullable_string (sm_document_type m), mr_document_ref = nullable_string (sm_document_ref m),
      mr_manifest_type = nullable_string (sm_manifest_type m), mr_manifest_ref = nullable_string (sm_manifest_ref m),
      mr_sender = sm_sender m, mr_recipient = sm_recipient m, mr_weight = sm_weight m,
      mr_volumetric = sm_volumetric m, mr_declared = sm_declared m, mr_payment_form = sm_payment_form m,
      mr_cod_amount = sm_cod_amount m, mr_cod_percent = sm_cod_percent m, mr_cod_charged = sm_cod_charged m,
      mr_observations = sm_observations m, mr_batch_id = sm_batch_id m, mr_quotation_id = sm_quotation_id m,
      mr_freight = sm_freight m, mr_draft_snapshot = sm_draft_snapshot m,
      mr_request_snapshot = sm_request_snapshot m, mr_response_snapshot = sm_response_snapshot m,
      mr_mode = sm_mode m, mr_failure = sm_failure m, mr_custom_url = sm_custom_url m,
      mr_created_at = sm_created_at m, mr_updated_at = sm_updated_at m\<rparr>)"

definition mark_unit_rows :: "shipping_mark \<Rightarrow> unit_row list" where
  "mark_unit_rows mark = (let m = mark_normalize mark in to_unit_rows (sm_id m) (sm_units m))"

definition of_mark_row :: "mark_row \<Rightarrow> unit_row list \<Rightarrow> shipping_mark" where
  "of_mark_row r units =
     \<lparr>sm_id = mr_id r, sm_order_id = mr_order_id r, sm_carrier_id = mr_carrier_id r,
      sm_tracking = deref_string (mr_tracking r), sm_status = mr_status r,
      sm_document_type = deref_string (mr_document_type r), sm_document_ref = deref_string (mr_document_ref r),
      sm_manifest_type = deref_string (mr_manifest_type r), sm_manifest_ref = deref_string (mr_manifest_ref r),
      sm_sender = mr_sender r, sm_recipient = mr_recipient r, sm_units = map of_unit_row units,
      sm_weight = mr_weight r, sm_volumetric = mr_volumetric r, sm_declared = mr_declared r,
      sm_payment_form = mr_payment_form r, sm_cod_amount = mr_cod_amount r, sm_cod_percent = mr_cod_percent r,
      sm_cod_charged = mr_cod_charged r, sm_observations = mr_observations r, sm_batch_id = mr_batch_id r,
      sm_quotation_id = mr_quotation_id r, sm_freight = mr_freight r, sm_mode = mr_mode r,
      sm_draft_snapshot = mr_draft_snapshot r, sm_request_snapshot = mr_request_snapshot r,
      sm_response_snapshot = mr_response_snapshot r, sm_failure = mr_failure r,
      sm_custom_url = mr_custom_url r, sm_created_at = mr_created_at r, sm_updated_at = mr_updated_at r\<rparr>"

text \<open>A row with its preloaded units.\<close>

definition load_mark :: "shipping_db \<Rightarrow> mark_row \<Rightarrow> shipping_mark" where
  "load_mark d r = of_mark_row r (filter (\<lambda>u. un_mark_id u = mr_id r) (sd_units d))"

section \<open>Mark repository\<close>

definition tracking_taken :: "shipping_db \<Rightarrow> string \<Rightarrow> string option \<Rightarrow> bool" where
  "tracking_taken d mid t \<longleftrightarrow> t \<noteq> None \<and> (\<exists>x \<in> set (sd_marks d). mr_id x \<noteq> mid \<and> mr_tracking x = t)"

definition insert_mark_row :: "mark_row \<Rightarrow> unit shipping_prog" where
  "insert_mark_row r = ship_stmt ''create shipping mark'' (\<lambda>d.
     if mr_id r \<in> mr_id ` set (sd_marks d) \<or> tracking_taken d (mr_id r) (mr_tracking r)
     then ship_violation ''create shipping mark'' d
     else (Inr (), d\<lparr>sd_marks := sd_marks d @ [r]\<rparr>))"

definition insert_unit_rows :: "string \<Rightarrow> unit_row list \<Rightarrow> unit shipping_prog" where
  "insert_unit_rows label rows = (if rows = [] then ret () else ship_stmt label (\<lambda>d.
     if distinct (map un_id (sd_units d @ rows)) then (Inr (), d\<lparr>sd_units := sd_units d @ rows\<rparr>)
     else ship_violation label d))"

definition mark_create :: "shipping_mark \<Rightarrow> unit shipping_prog" where
  "mark_create m = bindp (getp sd_clock) (\<lambda>now. atomically (
     let r = to_mark_row (mark_normalize m);
         row = r\<lparr>mr_created_at := timestamp0 (if mr_created_at r = 0 then now else mr_created_at r), mr_updated_at := timestamp0 now\<rparr>
     in bindp (insert_mark_row row) (\<lambda>_.
          insert_unit_rows ''create shipping mark units'' (mark_unit_rows (mark_normalize m)))))"

text \<open>\<^verbatim>\<open>First\<close> takes the matching row with the least primary key.\<close>

definition first_mark :: "string \<Rightarrow> (mark_row \<Rightarrow> bool) \<Rightarrow> shipping_mark shipping_prog" where
  "first_mark label P = ship_stmt label (\<lambda>d. case find P (sort_key mr_id (sd_marks d)) of
       None \<Rightarrow> (Inl (Err ErrShippingNotFound), d)
     | Some r \<Rightarrow> (Inr (load_mark d r), d))"

definition mark_get :: "string \<Rightarrow> shipping_mark shipping_prog" where
  "mark_get i = first_mark ''load shipping mark by id'' (\<lambda>r. mr_id r = trim i)"

definition mark_by_tracking :: "string \<Rightarrow> shipping_mark shipping_prog" where
  "mark_by_tracking t = first_mark ''load shipping mark by tracking number'' (\<lambda>r. mr_tracking r = Some (trim t))"

definition marks_by_order :: "string \<Rightarrow> shipping_mark list shipping_prog" where
  "marks_by_order oid = ship_stmt ''list shipping marks by order id'' (getp (\<lambda>d.
     map (load_mark d) (sort_key (\<lambda>r. - mr_created_at r) (filter (\<lambda>r. mr_order_id r = trim oid) (sd_marks d)))))"

definition marks_by_batch :: "string \<Rightarrow> shipping_mark list shipping_prog" where
  "marks_by_batch bid = ship_stmt ''list shipping marks by batch id'' (getp (\<lambda>d.
     map (load_mark d) (sort_key mr_created_at (filter (\<lambda>r. mr_batch_id r = Some (trim bid)) (sd_marks d)))))"

text \<open>The update writes every column but the identifier, the order and the creation time.\<close>

definition update_mark_row :: "mark_row \<Rightarrow> unit shipping_prog" where
  "update_mark_row row = ship_stmt ''update shipping mark'' (\<lambda>d.
     if mr_id row \<notin> mr_id ` set (sd_marks d) then (Inl (Err ErrShippingNotFound), d)
     else if tracking_taken d (mr_id row) (mr_tracking row) then ship_violation ''update shipping mark'' d
     else (Inr (), d\<lparr>sd_marks := map (\<lambda>x. if mr_id x = mr_id row
            then row\<lparr>mr_order_id := mr_order_id x, mr_created_at := mr_created_at x\<rparr> else x) (sd_marks d)\<rparr>))"

definition delete_unit_rows :: "string \<Rightarrow> unit shipping_prog" where
  "delete_unit_rows mid = ship_stmt ''delete shipping mark units''
     (modp (\<lambda>d. d\<lparr>sd_units := filter (\<lambda>u. un_mark_id u \<noteq> mid) (sd_units d)\<rparr>))"

definition mark_update :: "shipping_mark \<Rightarrow> unit shipping_prog" where
  "mark_update m = bindp (getp sd_clock) (\<lambda>now. atomically (
     let row = (to_mark_row (mark_normalize m))\<lparr>mr_updated_at := timestamp0 now\<rparr>
     in bindp (update_mark_row row) (\<lambda>_. bindp (delete_unit_rows (mr_id row)) (\<lambda>_.
          insert_unit_rows ''insert shipping mark units'' (mark_unit_rows (mark_normalize m))))))"

definition delete_mark_row :: "string \<Rightarrow> unit shipping_prog" where
  "delete_mark_row mid = ship_stmt ''delete shipping mark'' (\<lambda>d.
     if mid \<notin> mr_id ` set (sd_marks d) then (Inl (Err ErrShippingNotFound), d)
     else (Inr (), d\<lparr>sd_marks := filter (\<lambda>r. mr_id r \<noteq> mid) (sd_marks d)\<rparr>))"

definition mark_delete :: "string \<Rightarrow> unit shipping_prog" where
  "mark_delete i = (let mid = trim i in if mid = [] then throw (Err ErrInvalidID)
     else atomically (bindp (delete_unit_rows mid) (\<lambda>_. delete_mark_row mid)))"

record mark_list_query =
  mq_order_id :: string
  mq_batch_id :: string
  mq_carrier_id :: string
  mq_search :: string
  mq_excluded :: "mark_status list"
  mq_require_tracking :: bool
  mq_page :: int
  mq_limit :: int

definition matches_token :: "string \<Rightarrow> mark_row \<Rightarrow> bool" where
  "matches_token token r = (let pattern = ''%'' @ token @ ''%'' in
     (case mr_tracking r of None \<Rightarrow> False | Some t \<Rightarrow> sql_like pattern (to_lower t))
     \<or> sql_like pattern (to_lower (mr_order_id r))
     \<or> sql_like pattern (to_lower (ad_name (mr_recipient r)))
     \<or> sql_like pattern (to_lower (ad_legal_name (mr_recipient r))))"

text \<open>SQL \<^verbatim>\<open>TRIM\<close> removes blanks only.\<close>

definition has_tracking :: "mark_row \<Rightarrow> bool" where
  "has_tracking r = (case mr_tracking r of None \<Rightarrow> False | Some t \<Rightarrow> \<not> list_all (\<lambda>c. c = CHR '' '') t)"

definition matches_mark_query :: "mark_list_query \<Rightarrow> mark_row \<Rightarrow> bool" where
  "matches_mark_query q r \<longleftrightarrow>
     (trim (mq_order_id q) \<noteq> [] \<longrightarrow> mr_order_id r = trim (mq_order_id q))
     \<and> (trim (mq_batch_id q) \<noteq> [] \<longrightarrow> mr_batch_id r = Some (trim (mq_batch_id q)))
     \<and> (trim (mq_carrier_id q) \<noteq> [] \<longrightarrow> mr_carrier_id r = trim (mq_carrier_id q))
     \<and> (mq_require_tracking q \<longrightarrow> has_tracking r)
     \<and> mr_status r \<notin> set (filter (\<lambda>s. s \<noteq> NoStatus) (mq_excluded q))
     \<and> list_all (\<lambda>t. matches_token t r) (go_fields (to_lower (trim (mq_search q))))"

definition mark_list :: "mark_list_query \<Rightarrow> (shipping_mark list \<times> int) shipping_prog" where
  "mark_list q =
     bindp (ship_stmt ''count shipping marks'' (getp (\<lambda>d. int (length (filter (matches_mark_query q) (sd_marks d)))))) (\<lambda>n.
     bindp (ship_stmt ''list shipping marks'' (getp (\<lambda>d. map (load_mark d) (page_rows (mq_page q) (mq_limit q)
        (sql_order (\<lambda>r. - mr_created_at r) (\<lambda>r. sd_tie d (mq_page q) (mr_id r)) (filter (matches_mark_query q) (sd_marks d))))))) (\<lambda>rows.
     ret (rows, n)))"

section \<open>Batch repository\<close>

text \<open>INSERT of a batch. The column default \<^verbatim>\<open>system\<close> takes the place of an empty creator.\<close>

definition batch_create :: "dispatch_batch \<Rightarrow> unit shipping_prog" where
  "batch_create b = ship_stmt ''create dispatch batch'' (\<lambda>d.
     let n = batch_normalize b;
         row = \<lparr>br_id = bt_id n, br_carrier_id = bt_carrier_id n,
                br_status = (if bt_status n = [] then batch_open else bt_status n),
                br_created_by = (if bt_created_by n = [] then ''system'' else bt_created_by n),
                br_created_at = timestamp0 (if bt_created_at n = 0 then sd_clock d else bt_created_at n),
                br_closed_at = map_option timestamp0 (bt_closed_at n)\<rparr>
     in if br_id row \<in> br_id ` set (sd_batches d) then ship_violation ''create dispatch batch'' d
        else (Inr (), d\<lparr>sd_batches := sd_batches d @ [row]\<rparr>))"

definition list_mark_ids :: "string \<Rightarrow> string list shipping_prog" where
  "list_mark_ids bid = ship_stmt ''list mark ids by batch id'' (getp (\<lambda>d.
     map (\<lambda>r. trim (mr_id r)) (sort_key mr_created_at (filter (\<lambda>r. mr_batch_id r = Some (trim bid)) (sd_marks d)))))"

definition of_batch_row :: "batch_row \<Rightarrow> string list \<Rightarrow> dispatch_batch" where
  "of_batch_row r ids = \<lparr>bt_id = br_id r, bt_carrier_id = br_carrier_id r, bt_status = br_status r,
     bt_created_by = br_created_by r, bt_mark_ids = ids, bt_created_at = br_created_at r, bt_closed_at = br_closed_at r\<rparr>"

definition find_batch :: "shipping_db \<Rightarrow> string \<Rightarrow> batch_row option" where
  "find_batch d i = find (\<lambda>r. br_id r = i) (sort_key br_id (sd_batches d))"

definition load_batch_row :: "string \<Rightarrow> string \<Rightarrow> batch_row shipping_prog" where
  "load_batch_row label i = ship_stmt label (\<lambda>d. case find_batch d (trim i) of
       None \<Rightarrow> (Inl (Err ErrShippingNotFound), d) | Some r \<Rightarrow> (Inr r, d))"

definition batch_get :: "string \<Rightarrow> dispatch_batch shipping_prog" where
  "batch_get i = bindp (load_batch_row ''load dispatch batch by id'' i) (\<lambda>r.
     bindp (list_mark_ids (br_id r)) (\<lambda>ids. ret (of_batch_row r ids)))"

text \<open>\<^verbatim>\<open>Close\<close> is one conditional UPDATE; when it hits no row, a second query tells why.\<close>

definition close_batch_row :: "string \<Rightarrow> bool shipping_prog" where
  "close_batch_row i = ship_stmt ''close dispatch batch'' (\<lambda>d.
     let hit = (\<lambda>r. br_id r = trim i \<and> br_status r = batch_open)
     in (Inr (list_ex hit (sd_batches d)), d\<lparr>sd_batches := map (\<lambda>r. if hit r
           then r\<lparr>br_status := batch_closed, br_closed_at := Some (timestamp0 (sd_clock d))\<rparr> else r) (sd_batches d)\<rparr>))"

definition batch_close :: "string \<Rightarrow> unit shipping_prog" where
  "batch_close i = bindp (close_batch_row i) (\<lambda>hit. if hit then ret ()
     else bindp (load_batch_row ''load dispatch batch before close'' i) (\<lambda>_. throw (Err ErrBatchClosed)))"

definition assign_mark_row :: "string \<Rightarrow> string \<Rightarrow> unit shipping_prog" where
  "assign_mark_row bid mid = ship_stmt ''assign mark to batch'' (\<lambda>d.
     if mid \<notin> mr_id ` set (sd_marks d) then (Inl (Err ErrShippingNotFound), d)
     else (Inr (), d\<lparr>sd_marks := map (\<lambda>r. if mr_id r = mid
            then r\<lparr>mr_batch_id := Some bid, mr_updated_at := timestamp0 (sd_clock d)\<rparr> else r) (sd_marks d)\<rparr>))"

definition batch_add_mark :: "string \<Rightarrow> string \<Rightarrow> unit shipping_prog" where
  "batch_add_mark bid mid = (if trim bid = [] \<or> trim mid = [] then throw (Err ErrInvalidID)
     else atomically (bindp (load_batch_row ''load dispatch batch'' bid) (\<lambda>_.
       assign_mark_row (trim bid) (trim mid))))"

definition detach_mark_row :: "string \<Rightarrow> string \<Rightarrow> unit shipping_prog" where
  "detach_mark_row bid mid = ship_stmt ''remove mark from batch'' (\<lambda>d.
     let hit = (\<lambda>r. mr_id r = mid \<and> mr_batch_id r = Some bid)
     in if \<not> list_ex hit (sd_marks d) then (Inl (Err ErrShippingNotFound), d)
        else (Inr (), d\<lparr>sd_marks := map (\<lambda>r. if hit r
               then r\<lparr>mr_batch_id := None, mr_updated_at := timestamp0 (sd_clock d)\<rparr> else r) (sd_marks d)\<rparr>))"

definition batch_remove_mark :: "string \<Rightarrow> string \<Rightarrow> unit shipping_prog" where
  "batch_remove_mark bid mid = (if trim bid = [] \<or> trim mid = [] then throw (Err ErrInvalidID)
     else atomically (bindp (load_batch_row ''load dispatch batch'' bid) (\<lambda>b.
       if br_status b \<noteq> batch_open then throw (Err ErrBatchClosed)
       else detach_mark_row (trim bid) (trim mid))))"

record batch_list_query =
  bq_carrier_id :: string
  bq_status :: string
  bq_page :: int
  bq_limit :: int

definition matches_batch_query :: "batch_list_query \<Rightarrow> batch_row \<Rightarrow> bool" where
  "matches_batch_query q r \<longleftrightarrow>
     (trim (bq_carrier_id q) \<noteq> [] \<longrightarrow> br_carrier_id r = trim (bq_carrier_id q))
     \<and> (trim (bq_status q) \<noteq> [] \<longrightarrow> br_status r = trim (bq_status q))"

fun load_batches :: "batch_row list \<Rightarrow> dispatch_batch list shipping_prog" where
  "load_batches [] = ret []"
| "load_batches (r # rs) = bindp (list_mark_ids (br_id r)) (\<lambda>ids.
     bindp (load_batches rs) (\<lambda>bs. ret (of_batch_row r ids # bs)))"

definition batch_list :: "batch_list_query \<Rightarrow> (dispatch_batch list \<times> int) shipping_prog" where
  "batch_list q =
     bindp (ship_stmt ''count dispatch batches'' (getp (\<lambda>d. int (length (filter (matches_batch_query q) (sd_batches d)))))) (\<lambda>n.
     bindp (ship_stmt ''list dispatch batches'' (getp (\<lambda>d. page_rows (bq_page q) (bq_limit q)
        (sql_order (\<lambda>r. - br_created_at r) (\<lambda>r. sd_tie d (bq_page q) (br_id r)) (filter (matches_batch_query q) (sd_batches d)))))) (\<lambda>rows.
     bindp (load_batches rows) (\<lambda>bs. ret (bs, n))))"

end
