(* ===== verification/Shipping_Marks.thy ===== *)
theory Shipping_Marks
  imports Shipping_Store "HOL-Library.AList"
begin

text \<open>
  The mark service (\<^verbatim>\<open>module/shipping/application/mark/service/service.go\<close>), the integration events of
  the module, and the interfaces of \<^verbatim>\<open>module/shipping/port\<close> as the record \<open>shipping_ports\<close>.

  A carrier provider changes the mark it is given, also when it fails, so \<open>cv_generate\<close> returns the
  error together with the changed mark. The JSON text of a mark (\<^verbatim>\<open>encoding/json\<close> in base64) is the
  function \<open>x_snapshot\<close>; canonical decomposition of Unicode text is \<open>x_nfd\<close>.
\<close>

section \<open>Events\<close>

definition topic_mark_generated :: string where "topic_mark_generated = ''shipping.v1.mark.generated''"
definition topic_mark_failed :: string where "topic_mark_failed = ''shipping.v1.mark.failed''"
definition topic_mark_voided :: string where "topic_mark_voided = ''shipping.v1.mark.voided''"
definition topic_batch_created :: string where "topic_batch_created = ''shipping.v1.batch.created''"
definition topic_batch_closed :: string where "topic_batch_closed = ''shipping.v1.batch.closed''"
definition topic_tracking_updated :: string where "topic_tracking_updated = ''shipping.v1.tracking.updated''"

datatype shipping_payload =
    MarkGeneratedPayload string string string string string string
  | MarkFailedPayload string string string string
  | MarkVoidedPayload string string string string string
  | BatchCreatedPayload string string string
  | BatchClosedPayload string string int
  | TrackingUpdatedPayload string string tracking_status "tracking_event option"

record shipping_event =
  se_id :: string
  se_topic :: string
  se_schema :: string
  se_occurred_at :: gotime
  se_payload :: shipping_payload

definition tracking_company :: "(string \<Rightarrow> string) \<Rightarrow> shipping_mark \<Rightarrow> string" where
  "tracking_company nfd m = (let slug = carrier_slug nfd (sm_observations m) in
     if is_manual_carrier (sm_carrier_id m) \<and> slug \<noteq> [] then slug else trim (sm_carrier_id m))"

definition mark_generated :: "(string \<Rightarrow> string) \<Rightarrow> shipping_mark \<Rightarrow> shipping_payload" where
  "mark_generated nfd m = MarkGeneratedPayload (sm_id m) (sm_order_id m) (sm_carrier_id m)
     (tracking_company nfd m) (sm_tracking m) (sm_document_ref m)"

definition mark_failed :: "shipping_mark \<Rightarrow> string \<Rightarrow> shipping_payload" where
  "mark_failed m reason = MarkFailedPayload (sm_id m) (sm_order_id m) (sm_carrier_id m) reason"

definition mark_voided :: "shipping_mark \<Rightarrow> string \<Rightarrow> shipping_payload" where
  "mark_voided m reason = MarkVoidedPayload (sm_id m) (sm_order_id m) (sm_carrier_id m) (sm_tracking m) reason"

definition batch_created_payload :: "dispatch_batch \<Rightarrow> shipping_payload" where
  "batch_created_payload b = BatchCreatedPayload (bt_id b) (bt_carrier_id b) (bt_created_by b)"

definition batch_closed_payload :: "dispatch_batch \<Rightarrow> shipping_payload" where
  "batch_closed_payload b = BatchClosedPayload (bt_id b) (bt_carrier_id b) (int (length (bt_mark_ids b)))"

definition shipping_event_of :: "string \<Rightarrow> gotime \<Rightarrow> string \<Rightarrow> shipping_payload \<Rightarrow> shipping_event" where
  "shipping_event_of i now topic payload = \<lparr>se_id = i, se_topic = topic, se_schema = ''v1'',
     se_occurred_at = now, se_payload = payload\<rparr>"

section \<open>Texts of errors\<close>

fun shipping_error_text :: "shipping_error \<Rightarrow> string" where
  "shipping_error_text ErrInvalidID = ''shipping id is invalid''"
| "shipping_error_text ErrInvalidCarrierID = ''shipping carrier id is invalid''"
| "shipping_error_text ErrCarrierNotSupported = ''shipping carrier is not supported''"
| "shipping_error_text ErrQuotationNotSupported = ''shipping quotation is not supported''"
| "shipping_error_text ErrTrackingNotSupported = ''shipping tracking is not supported''"
| "shipping_error_text ErrInsufficientBalance = ''shipping carrier balance is insufficient''"
| "shipping_error_text ErrInvalidMarkStatus = ''shipping mark status is invalid''"
| "shipping_error_text ErrInvalidBatchStatus = ''shipping batch status is invalid''"
| "shipping_error_text ErrBatchClosed = ''shipping batch is closed''"
| "shipping_error_text ErrBatchCarrierMismatch = ''shipping batch carrier mismatch''"
| "shipping_error_text ErrBatchMarkStatusMismatch = ''shipping batch mark status mismatch''"
| "shipping_error_text ErrBatchOpenForCarrier = ''shipping open batch already exists for carrier''"
| "shipping_error_text ErrMarkNotDraft = ''shipping mark is not a draft''"
| "shipping_error_text ErrManualDraftIncomplete = ''shipping manual draft is incomplete''"
| "shipping_error_text ErrManualDraftUpdateNotSupported =
     ''shipping manual draft completion is only supported for manual batches''"
| "shipping_error_text ErrInvalidShipmentMode = ''shipping shipment mode is invalid''"
| "shipping_error_text ErrInvalidCityCode = ''shipping city code is invalid''"
| "shipping_error_text ErrShippingNotFound = ''shipping resource not found''"
| "shipping_error_text ErrNoValidProducts = ''no valid products with shipping dimensions found''"
| "shipping_error_text (GuardrailViolation c m ord r p) = guardrail_text c m ord r p"
| "shipping_error_text (CarrierFailure s) = s"
| "shipping_error_text (ClientFailure s) = s"
| "shipping_error_text SnapshotInvalid = ''invalid snapshot''"
| "shipping_error_text OrderLookupFailed = ''order lookup failed''"
| "shipping_error_text (SourceMissing s) = s"
| "shipping_error_text ShippingDriverError = ''driver error''"
| "shipping_error_text ShippingPublishError = ''publish error''"

fun error_message :: "shipping_error go_error \<Rightarrow> string" where
  "error_message (Err e) = shipping_error_text e"
| "error_message (Wrapped ctx e) = ctx @ '': '' @ error_message e"

section \<open>Ports\<close>

record 'w carrier_provider =
  cv_id :: string
  cv_carrier :: carrier
  cv_quote :: "quotation_request \<Rightarrow> ('w, shipping_error, quotation_result option) prog"
  cv_generate :: "shipping_mark \<Rightarrow> 'w \<Rightarrow> (shipping_error go_error option \<times> shipping_mark) \<times> 'w"
  cv_void :: "string \<Rightarrow> ('w, shipping_error, unit) prog"
  cv_balance :: "('w, shipping_error, unit) prog"
  cv_supports_quotation :: bool

text \<open>What the order module says about an order that is to be shipped.\<close>

record order_item_data =
  oi_sku :: string
  oi_product_id :: string
  oi_quantity :: int

record order_data =
  od_order_id :: string
  od_order_identifier :: string
  od_dest_city :: string
  od_total_value :: float64
  od_cod_amount :: float64
  od_name :: string
  od_id :: string
  od_id_type :: string
  od_line :: string
  od_phone :: string
  od_email :: string
  od_items :: "order_item_data list"

record quotation_record =
  qn_id :: string
  qn_order_id :: string
  qn_order_identifier :: string
  qn_carrier_id :: string
  qn_origin_city :: string
  qn_dest_city :: string
  qn_freight :: float64
  qn_cod_fee :: float64
  qn_days :: int
  qn_currency :: string
  qn_expires_at :: gotime
  qn_units :: "package_unit list"
  qn_request_snapshot :: string
  qn_raw_response :: string
  qn_created_at :: gotime

record 'w shipping_ports =
  x_mark_create :: "shipping_mark \<Rightarrow> ('w, shipping_error, unit) prog"
  x_mark_get :: "string \<Rightarrow> ('w, shipping_error, shipping_mark) prog"
  x_marks_by_order :: "string \<Rightarrow> ('w, shipping_error, shipping_mark list) prog"
  x_marks_by_batch :: "string \<Rightarrow> ('w, shipping_error, shipping_mark list) prog"
  x_mark_update :: "shipping_mark \<Rightarrow> ('w, shipping_error, unit) prog"
  x_mark_delete :: "string \<Rightarrow> ('w, shipping_error, unit) prog"
  x_mark_list :: "mark_list_query \<Rightarrow> ('w, shipping_error, shipping_mark list \<times> int) prog"
  x_batch_create :: "dispatch_batch \<Rightarrow> ('w, shipping_error, unit) prog"
  x_batch_get :: "string \<Rightarrow> ('w, shipping_error, dispatch_batch) prog"
  x_batch_close :: "string \<Rightarrow> ('w, shipping_error, unit) prog"
  x_batch_add :: "string \<Rightarrow> string \<Rightarrow> ('w, shipping_error, unit) prog"
  x_batch_list :: "batch_list_query \<Rightarrow> ('w, shipping_error, dispatch_batch list \<times> int) prog"
  x_quotation :: "string \<Rightarrow> ('w, shipping_error, quotation_record) prog"
  x_order :: "(string \<Rightarrow> ('w, shipping_error, order_data option) prog) option"
  x_publish :: "shipping_event \<Rightarrow> ('w, shipping_error, unit) prog"
  x_provider :: "string \<Rightarrow> 'w carrier_provider option"
  x_now :: "'w \<Rightarrow> gotime"
  x_uuid :: "'w \<Rightarrow> string \<times> 'w"
  x_event_id :: "'w \<Rightarrow> string \<times> 'w"
  x_snapshot :: "shipping_mark \<Rightarrow> string"
  x_request_of :: "string \<Rightarrow> quotation_request option"
  x_nfd :: "string \<Rightarrow> string"
  x_default_sender :: address

text \<open>\<^verbatim>\<open>_ = s.publisher.Publish(...)\<close>: the error is dropped.\<close>

definition announce :: "'w shipping_ports \<Rightarrow> string \<Rightarrow> shipping_payload \<Rightarrow> ('w, shipping_error, unit) prog" where
  "announce P topic payload =
     bindp (drawp (x_event_id P)) (\<lambda>i. bindp (getp (x_now P)) (\<lambda>now.
     bindp (tryp (x_publish P (shipping_event_of i now topic payload))) (\<lambda>_. ret ())))"

section \<open>The mark service\<close>

definition encode_mark :: "'w shipping_ports \<Rightarrow> shipping_mark \<Rightarrow> string" where
  "encode_mark P m = x_snapshot P ((mark_normalize m)\<lparr>sm_draft_snapshot := [], sm_request_snapshot := [],
     sm_response_snapshot := []\<rparr>)"

definition manual_observations :: "(string \<Rightarrow> string) \<Rightarrow> string \<Rightarrow> string \<Rightarrow> string" where
  "manual_observations nfd cid v = (if is_manual_carrier cid then carrier_slug nfd (trim v) else trim v)"

record generate_command =
  gc_order_id :: string
  gc_carrier_id :: string
  gc_sender :: address
  gc_recipient :: address
  gc_units :: "package_unit list"
  gc_declared :: float64
  gc_payment_form :: string
  gc_cod_amount :: float64
  gc_mode :: string
  gc_observations :: string
  gc_tracking :: string
  gc_document_type :: string
  gc_document_ref :: string
  gc_manifest_type :: string
  gc_manifest_ref :: string
  gc_custom_url :: "string option"

definition generated_mark :: "'w shipping_ports \<Rightarrow> string \<Rightarrow> gotime \<Rightarrow> generate_command \<Rightarrow> shipping_mark" where
  "generated_mark P i now c = mark_normalize
     \<lparr>sm_id = i, sm_order_id = trim (gc_order_id c), sm_carrier_id = trim (gc_carrier_id c),
      sm_tracking = trim (gc_tracking c), sm_status = Pending, sm_document_type = gc_document_type c,
      sm_document_ref = trim (gc_document_ref c), sm_manifest_type = gc_manifest_type c,
      sm_manifest_ref = trim (gc_manifest_ref c), sm_sender = gc_sender c, sm_recipient = gc_recipient c,
      sm_units = gc_units c, sm_weight = 0, sm_volumetric = 0, sm_declared = gc_declared c,
      sm_payment_form = trim (gc_payment_form c), sm_cod_amount = gc_cod_amount c, sm_cod_percent = 0,
      sm_cod_charged = 0,
      sm_observations = manual_observations (x_nfd P) (gc_carrier_id c) (gc_observations c),
      sm_batch_id = None, sm_quotation_id = None, sm_freight = 0, sm_mode = gc_mode c,
      sm_draft_snapshot = [], sm_request_snapshot = [], sm_response_snapshot = [], sm_failure = [],
      sm_custom_url = gc_custom_url c, sm_created_at = now, sm_updated_at = now\<rparr>"

text \<open>The answer of the carrier, or the mark itself where the carrier left none, is kept as a snapshot.
  \<^verbatim>\<open>Generate\<close> looks for an empty snapshot, \<^verbatim>\<open>Materialize\<close> for a blank one.\<close>

definition with_response :: "'w shipping_ports \<Rightarrow> shipping_mark \<Rightarrow> shipping_mark" where
  "with_response P m = (if sm_response_snapshot m = [] then m\<lparr>sm_response_snapshot := encode_mark P m\<rparr> else m)"

definition with_trimmed_response :: "'w shipping_ports \<Rightarrow> shipping_mark \<Rightarrow> shipping_mark" where
  "with_trimmed_response P m =
     (if trim (sm_response_snapshot m) = [] then m\<lparr>sm_response_snapshot := encode_mark P m\<rparr> else m)"

definition generate :: "'w shipping_ports \<Rightarrow> generate_command \<Rightarrow> ('w, shipping_error, shipping_mark) prog" where
  "generate P c = (case x_provider P (gc_carrier_id c) of None \<Rightarrow> throw (Err ErrCarrierNotSupported)
   | Some pr \<Rightarrow>
     bindp (drawp (x_uuid P)) (\<lambda>i. bindp (getp (x_now P)) (\<lambda>now.
     let m0 = generated_mark P i now c;
         m1 = (if sm_draft_snapshot m0 = [] then m0\<lparr>sm_draft_snapshot := encode_mark P m0\<rparr> else m0)
     in bindp (guard_err (mark_validate m1)) (\<lambda>_.
     bindp (if ca_balance_check (cv_carrier pr) then tryp (cv_balance pr) else ret (Inr ())) (\<lambda>balance.
     case balance of Inl _ \<Rightarrow> throw (Err ErrInsufficientBalance)
     | Inr _ \<Rightarrow> bindp (drawp (cv_generate pr m1)) (\<lambda>(err, m2). case err of
         Some e \<Rightarrow>
           (let m3 = (with_response P (m2\<lparr>sm_status := Failed, sm_failure := error_message e\<rparr>))\<lparr>sm_updated_at := now\<rparr>
            in bindp (x_mark_create P m3) (\<lambda>_.
               bindp (announce P topic_mark_failed (mark_failed m3 (error_message e))) (\<lambda>_. throw e)))
       | None \<Rightarrow>
           (let m3 = (with_response P (if sm_status m2 = NoStatus then m2\<lparr>sm_status := Generated\<rparr> else m2))
                       \<lparr>sm_updated_at := now\<rparr>
            in bindp (x_mark_create P m3) (\<lambda>_.
               bindp (announce P topic_mark_generated (mark_generated (x_nfd P) m3)) (\<lambda>_. ret m3)))))))))"

definition get_mark :: "'w shipping_ports \<Rightarrow> string \<Rightarrow> ('w, shipping_error, shipping_mark) prog" where
  "get_mark P i = x_mark_get P (trim i)"

definition list_marks :: "'w shipping_ports \<Rightarrow> string \<Rightarrow> string \<Rightarrow> int \<Rightarrow> int \<Rightarrow> ('w, shipping_error, shipping_mark list \<times> int) prog" where
  "list_marks P oid bid page limit = x_mark_list P \<lparr>mq_order_id = trim oid, mq_batch_id = trim bid,
     mq_carrier_id = [], mq_search = [], mq_excluded = [], mq_require_tracking = False,
     mq_page = page, mq_limit = limit\<rparr>"

definition marks_of_order :: "'w shipping_ports \<Rightarrow> string \<Rightarrow> ('w, shipping_error, shipping_mark list) prog" where
  "marks_of_order P oid = x_marks_by_order P (trim oid)"

text \<open>Marks that share the order or the batch, collected in a map by identifier, newest first. The map is
  listed in insertion order here; the sort makes the order of the result independent of it, except for
  identifiers that differ in letter case only.\<close>

definition add_related :: "shipping_mark \<Rightarrow> shipping_mark list \<Rightarrow> (string \<times> shipping_mark) list \<Rightarrow> (string \<times> shipping_mark) list" where
  "add_related target rows acc = fold (\<lambda>r acc. let i = trim (sm_id r) in
     if i = [] \<or> i = trim (sm_id target) then acc else AList.update i r acc) rows acc"

definition sort_related :: "shipping_mark list \<Rightarrow> shipping_mark list" where
  "sort_related rows = sort_key (\<lambda>m. - sm_created_at m) (rev (sort_key (\<lambda>m. to_lower (trim (sm_id m))) rows))"

definition related_marks :: "'w shipping_ports \<Rightarrow> string \<Rightarrow> ('w, shipping_error, shipping_mark list) prog" where
  "related_marks P i = bindp (x_mark_get P (trim i)) (\<lambda>target.
     bindp (x_marks_by_order P (trim (sm_order_id target))) (\<lambda>order_rows.
     let related = add_related target order_rows [] in
     case sm_batch_id target of
       None \<Rightarrow> ret (sort_related (map snd related))
     | Some b \<Rightarrow> if trim b = [] then ret (sort_related (map snd related))
         else bindp (x_marks_by_batch P (trim b)) (\<lambda>batch_rows.
           ret (sort_related (map snd (add_related target batch_rows related))))))"

record dispatch_result =
  dr_order_id :: string
  dr_provisioned :: bool
  dr_mark_id :: string
  dr_batch_id :: "string option"
  dr_status :: mark_status

fun dispatch_priority :: "mark_status \<Rightarrow> int" where
  "dispatch_priority Quoted = 3"
| "dispatch_priority Created = 2"
| "dispatch_priority Generated = 1"
| "dispatch_priority _ = 0"

definition best_dispatch :: "shipping_mark list \<Rightarrow> shipping_mark option" where
  "best_dispatch marks = best_by (\<lambda>m best. dispatch_priority (sm_status m) > dispatch_priority (sm_status best)) None
     (filter (\<lambda>m. dispatch_priority (sm_status m) \<noteq> 0) marks)"

definition query_dispatch :: "'w shipping_ports \<Rightarrow> string \<Rightarrow> ('w, shipping_error, dispatch_result) prog" where
  "query_dispatch P oid = bindp (x_marks_by_order P (trim oid)) (\<lambda>marks. ret (case best_dispatch marks of
       None \<Rightarrow> \<lparr>dr_order_id = trim oid, dr_provisioned = False, dr_mark_id = [], dr_batch_id = None, dr_status = NoStatus\<rparr>
     | Some m \<Rightarrow> \<lparr>dr_order_id = trim oid, dr_provisioned = True, dr_mark_id = sm_id m,
                  dr_batch_id = sm_batch_id m, dr_status = sm_status m\<rparr>))"

definition void_mark :: "'w shipping_ports \<Rightarrow> string \<Rightarrow> string \<Rightarrow> ('w, shipping_error, shipping_mark) prog" where
  "void_mark P i reason = bindp (x_mark_get P (trim i)) (\<lambda>m. bindp (getp (x_now P)) (\<lambda>now.
     let v = m\<lparr>sm_status := Voided, sm_updated_at := now\<rparr> in
     bindp (x_mark_update P v) (\<lambda>_.
     bindp (announce P topic_mark_voided (mark_voided v (trim reason))) (\<lambda>_. ret v))))"

text \<open>\<^verbatim>\<open>Materialize\<close> returns its error with the mark as it left it. A failure of the update that records a
  failed mark is dropped; a failure of the update that records a created mark is returned.\<close>

definition fail_mark :: "'w shipping_ports \<Rightarrow> shipping_mark \<Rightarrow> shipping_error go_error
    \<Rightarrow> ('w, shipping_error, shipping_error go_error option \<times> shipping_mark) prog" where
  "fail_mark P m e = bindp (getp (x_now P)) (\<lambda>now.
     let f = (with_trimmed_response P (m\<lparr>sm_status := Failed, sm_failure := error_message e\<rparr>))\<lparr>sm_updated_at := now\<rparr>
     in bindp (tryp (x_mark_update P f)) (\<lambda>_.
        bindp (announce P topic_mark_failed (mark_failed f (error_message e))) (\<lambda>_. ret (Some e, f))))"

definition with_draft :: "'w shipping_ports \<Rightarrow> shipping_mark \<Rightarrow> shipping_mark" where
  "with_draft P m = (if trim (sm_draft_snapshot m) = [] then m\<lparr>sm_draft_snapshot := encode_mark P m\<rparr> else m)"

definition complete_mark :: "'w shipping_ports \<Rightarrow> shipping_mark
    \<Rightarrow> ('w, shipping_error, shipping_error go_error option \<times> shipping_mark) prog" where
  "complete_mark P m = bindp (getp (x_now P)) (\<lambda>now.
     let c = (with_trimmed_response P (m\<lparr>sm_status := Created\<rparr>))\<lparr>sm_updated_at := now\<rparr>
     in bindp (tryp (x_mark_update P c)) (\<lambda>r. case r of
          Inl e \<Rightarrow> ret (Some e, c)
        | Inr _ \<Rightarrow> bindp (announce P topic_mark_generated (mark_generated (x_nfd P) c)) (\<lambda>_. ret (None, c))))"

definition materialize :: "'w shipping_ports \<Rightarrow> shipping_mark
    \<Rightarrow> ('w, shipping_error, shipping_error go_error option \<times> shipping_mark) prog" where
  "materialize P mark = (case x_provider P (sm_carrier_id mark) of None \<Rightarrow> ret (Some (Err ErrCarrierNotSupported), mark)
   | Some pr \<Rightarrow> (let m = with_draft P mark in
     bindp (if ca_balance_check (cv_carrier pr) then tryp (cv_balance pr) else ret (Inr ())) (\<lambda>balance.
     case balance of Inl _ \<Rightarrow> fail_mark P m (Err ErrInsufficientBalance)
     | Inr _ \<Rightarrow> bindp (drawp (cv_generate pr m)) (\<lambda>(err, m'). case err of
         Some e \<Rightarrow> fail_mark P m' e | None \<Rightarrow> complete_mark P m'))))"

end
