(* ===== verification/Shipping_Dispatch.thy ===== *)
theory Shipping_Dispatch
  imports Shipping_Marks
begin

text \<open>
  The dispatch service (\<^verbatim>\<open>module/shipping/application/dispatch/service\<close>): batches, draft marks, direct
  marks, marks from stored quotations, completion of manual drafts, and the close of a batch. The
  materializer (the mark service in the assembled module) is an optional argument.
\<close>

type_synonym 'w materializer = "(shipping_mark \<Rightarrow> ('w, shipping_error, shipping_error go_error option \<times> shipping_mark) prog) option"

section \<open>Batches\<close>

definition new_batch :: "string \<Rightarrow> string \<Rightarrow> string \<Rightarrow> gotime \<Rightarrow> dispatch_batch" where
  "new_batch i cid by now = batch_normalize \<lparr>bt_id = i, bt_carrier_id = trim cid, bt_status = batch_open,
     bt_created_by = trim by, bt_mark_ids = [], bt_created_at = now, bt_closed_at = None\<rparr>"

definition store_batch :: "'w shipping_ports \<Rightarrow> dispatch_batch \<Rightarrow> ('w, shipping_error, dispatch_batch) prog" where
  "store_batch P b = bindp (guard_err (batch_validate b)) (\<lambda>_. bindp (x_batch_create P b) (\<lambda>_.
     bindp (announce P topic_batch_created (batch_created_payload b)) (\<lambda>_. ret b)))"

definition create_batch :: "'w shipping_ports \<Rightarrow> string \<Rightarrow> string \<Rightarrow> ('w, shipping_error, dispatch_batch) prog" where
  "create_batch P cid by =
     bindp (x_batch_list P \<lparr>bq_carrier_id = trim cid, bq_status = batch_open, bq_page = 1, bq_limit = 1\<rparr>) (\<lambda>(existing, _).
     if existing \<noteq> [] then throw (Err ErrBatchOpenForCarrier)
     else bindp (drawp (x_uuid P)) (\<lambda>i. bindp (getp (x_now P)) (\<lambda>now. store_batch P (new_batch i cid by now))))"

definition get_batch :: "'w shipping_ports \<Rightarrow> string \<Rightarrow> ('w, shipping_error, dispatch_batch) prog" where
  "get_batch P i = x_batch_get P (trim i)"

definition list_batches :: "'w shipping_ports \<Rightarrow> batch_list_query \<Rightarrow> ('w, shipping_error, dispatch_batch list \<times> int) prog" where
  "list_batches P q = x_batch_list P (q\<lparr>bq_carrier_id := trim (bq_carrier_id q)\<rparr>)"

section \<open>Choosing an existing mark\<close>

fun active_status :: "mark_status \<Rightarrow> bool" where
  "active_status Pending = True"
| "active_status Quoted = True"
| "active_status Generated = True"
| "active_status Created = True"
| "active_status _ = False"

fun mark_priority :: "mark_status \<Rightarrow> int" where
  "mark_priority Created = 4"
| "mark_priority Generated = 3"
| "mark_priority Quoted = 2"
| "mark_priority Pending = 1"
| "mark_priority _ = 0"

definition in_batch :: "shipping_mark \<Rightarrow> string \<Rightarrow> bool" where
  "in_batch m bid = (case sm_batch_id m of None \<Rightarrow> False | Some b \<Rightarrow> trim b = trim bid)"

definition quotation_matches :: "string \<Rightarrow> shipping_mark \<Rightarrow> bool" where
  "quotation_matches qid m = (qid \<noteq> [] \<longrightarrow> (case sm_quotation_id m of None \<Rightarrow> [] | Some q \<Rightarrow> trim q) = qid)"

definition better_mark :: "string \<Rightarrow> shipping_mark \<Rightarrow> shipping_mark \<Rightarrow> bool" where
  "better_mark bid current selected \<longleftrightarrow>
     (in_batch current bid \<and> \<not> in_batch selected bid)
     \<or> (in_batch current bid = in_batch selected bid
        \<and> mark_priority (sm_status current) > mark_priority (sm_status selected))"

text \<open>Both loops of \<^verbatim>\<open>findExistingActiveMark\<close>: the second one ignores the quotation.\<close>

fun select_mark :: "string \<Rightarrow> (shipping_mark \<Rightarrow> bool) \<Rightarrow> shipping_mark option \<Rightarrow> shipping_mark list \<Rightarrow> shipping_mark option" where
  "select_mark bid keep selected [] = selected"
| "select_mark bid keep selected (current # rows) =
    (if \<not> active_status (sm_status current) \<or> \<not> keep current then select_mark bid keep selected rows
     else case selected of None \<Rightarrow> select_mark bid keep (Some current) rows
       | Some s \<Rightarrow> select_mark bid keep (Some (if better_mark bid current s then current else s)) rows)"

definition choose_mark :: "string \<Rightarrow> string \<Rightarrow> shipping_mark list \<Rightarrow> shipping_mark option" where
  "choose_mark bid qid rows =
    (let first = select_mark (trim bid) (quotation_matches (trim qid)) None rows in
     case first of Some m \<Rightarrow> Some m
     | None \<Rightarrow> if trim qid \<noteq> [] then None else select_mark (trim bid) (\<lambda>_. True) first rows)"

definition find_existing :: "'w shipping_ports \<Rightarrow> string \<Rightarrow> string \<Rightarrow> string \<Rightarrow> ('w, shipping_error, shipping_mark option) prog" where
  "find_existing P bid oid qid = (if trim oid = [] then ret None
     else bindp (x_marks_by_order P (trim oid)) (\<lambda>rows. ret (choose_mark bid qid rows)))"

section \<open>Commands and their enrichment\<close>

text \<open>\<^verbatim>\<open>DraftMarkCommand\<close> and \<^verbatim>\<open>CreateBatchMarkCommand\<close> differ in the flag \<^verbatim>\<open>Direct\<close> only.\<close>

record mark_command =
  mc_batch_id :: string
  mc_quotation_id :: string
  mc_freight :: float64
  mc_order_id :: string
  mc_sender :: address
  mc_recipient :: address
  mc_units :: "package_unit list"
  mc_declared :: float64
  mc_payment_form :: string
  mc_cod_amount :: float64
  mc_mode :: string
  mc_observations :: string
  mc_tracking :: string
  mc_document_type :: string
  mc_document_ref :: string
  mc_manifest_type :: string
  mc_manifest_ref :: string
  mc_custom_url :: "string option"

definition trim_command :: "mark_command \<Rightarrow> mark_command" where
  "trim_command c = c\<lparr>mc_batch_id := trim (mc_batch_id c), mc_quotation_id := trim (mc_quotation_id c),
     mc_order_id := trim (mc_order_id c), mc_payment_form := trim (mc_payment_form c),
     mc_observations := trim (mc_observations c), mc_tracking := trim (mc_tracking c),
     mc_document_ref := trim (mc_document_ref c), mc_manifest_ref := trim (mc_manifest_ref c),
     mc_custom_url := normalize_url (mc_custom_url c)\<rparr>"

definition first_nonempty :: "string list \<Rightarrow> string" where
  "first_nonempty vs = (case find (\<lambda>v. v \<noteq> []) (map trim vs) of None \<Rightarrow> [] | Some v \<Rightarrow> v)"

definition address_empty :: "address \<Rightarrow> bool" where
  "address_empty a \<longleftrightarrow> address_normalize a = empty_address"

definition resolve_sender :: "address \<Rightarrow> address \<Rightarrow> address" where
  "resolve_sender fallback sender = (if \<not> address_empty sender then sender
     else if address_empty fallback then sender else address_normalize fallback)"

definition merge_recipient :: "address \<Rightarrow> order_data \<Rightarrow> address" where
  "merge_recipient recipient od = (let r = address_normalize recipient in address_normalize
     (r\<lparr>ad_name := first_nonempty [ad_name r, trim (od_name od), ''Cliente''],
        ad_id := first_nonempty [ad_id r, trim (od_id od)],
        ad_id_type := first_nonempty [ad_id_type r, trim (od_id_type od)],
        ad_line := first_nonempty [ad_line r, trim (od_line od)],
        ad_city := first_nonempty [ad_city r, trim (od_dest_city od)],
        ad_phone := first_nonempty [ad_phone r, trim (od_phone od)],
        ad_email := first_nonempty [ad_email r, trim (od_email od)]\<rparr>))"

definition merge_order :: "mark_command \<Rightarrow> order_data \<Rightarrow> mark_command" where
  "merge_order c od = c\<lparr>mc_order_id := (if trim (od_order_id od) \<noteq> [] then trim (od_order_id od) else mc_order_id c),
     mc_recipient := merge_recipient (mc_recipient c) od,
     mc_cod_amount := (if mc_cod_amount c \<le> 0 then clamp0 (od_cod_amount od) else mc_cod_amount c),
     mc_declared := (if mc_declared c \<le> 0 then clamp0 (od_total_value od) else mc_declared c)\<rparr>"

text \<open>\<^verbatim>\<open>enrichDraftMarkCommand\<close> and \<^verbatim>\<open>enrichCreateBatchMarkCommand\<close>: an order that is unknown, or whose
  lookup fails, leaves the command as it is.\<close>

definition enrich_command :: "'w shipping_ports \<Rightarrow> mark_command \<Rightarrow> ('w, shipping_error, mark_command) prog" where
  "enrich_command P command =
    (let c = trim_command command;
         c' = c\<lparr>mc_sender := resolve_sender (x_default_sender P) (address_normalize (mc_sender c)),
                mc_recipient := address_normalize (mc_recipient c)\<rparr>
     in case x_order P of None \<Rightarrow> ret c'
        | Some lookup \<Rightarrow> if mc_order_id c' = [] then ret c'
            else bindp (tryp (lookup (mc_order_id c'))) (\<lambda>r. ret (case r of
                Inr (Some od) \<Rightarrow> merge_order c' od | _ \<Rightarrow> c')))"

definition placeholder_unit :: package_unit where
  "placeholder_unit = \<lparr>pu_description = ''Manual tracking entry'',
     pu_dimensions = \<lparr>dm_height = 1, dm_width = 1, dm_depth = 1, dm_weight = 1/10, dm_volumetric = 0, dm_declared = 0\<rparr>,
     pu_type = ''CAJA''\<rparr>"

definition command_for_carrier :: "(string \<Rightarrow> string) \<Rightarrow> mark_command \<Rightarrow> string \<Rightarrow> mark_command" where
  "command_for_carrier nfd c cid = (if \<not> is_manual_carrier cid then c
     else c\<lparr>mc_observations := carrier_slug nfd (mc_observations c),
            mc_units := (if mc_units c = [] then [placeholder_unit] else mc_units c),
            mc_mode := (if valid_mode (mc_mode c) then mc_mode c else mode_express)\<rparr>)"

section \<open>Draft and direct marks\<close>

definition batch_mark :: "string \<Rightarrow> gotime \<Rightarrow> string \<Rightarrow> string option \<Rightarrow> mark_command \<Rightarrow> shipping_mark" where
  "batch_mark i now cid bid c = mark_normalize
     \<lparr>sm_id = i, sm_order_id = trim (mc_order_id c), sm_carrier_id = cid, sm_tracking = trim (mc_tracking c),
      sm_status = Quoted, sm_document_type = mc_document_type c, sm_document_ref = trim (mc_document_ref c),
      sm_manifest_type = mc_manifest_type c, sm_manifest_ref = trim (mc_manifest_ref c),
      sm_sender = mc_sender c, sm_recipient = mc_recipient c, sm_units = mc_units c, sm_weight = 0,
      sm_volumetric = 0, sm_declared = mc_declared c, sm_payment_form = trim (mc_payment_form c),
      sm_cod_amount = mc_cod_amount c, sm_cod_percent = 0, sm_cod_charged = 0,
      sm_observations = trim (mc_observations c), sm_batch_id = bid,
      sm_quotation_id = (if trim (mc_quotation_id c) = [] then None else Some (trim (mc_quotation_id c))),
      sm_freight = mc_freight c, sm_mode = mc_mode c, sm_draft_snapshot = [], sm_request_snapshot = [],
      sm_response_snapshot = [], sm_failure = [], sm_custom_url = normalize_url (mc_custom_url c),
      sm_created_at = now, sm_updated_at = now\<rparr>"

definition store_draft :: "'w shipping_ports \<Rightarrow> dispatch_batch \<Rightarrow> mark_command \<Rightarrow> ('w, shipping_error, shipping_mark) prog" where
  "store_draft P b c = bindp (drawp (x_uuid P)) (\<lambda>i. bindp (getp (x_now P)) (\<lambda>now.
     let m = batch_mark i now (bt_carrier_id b) None c
     in bindp (guard_err (mark_validate m)) (\<lambda>_. bindp (x_mark_create P m) (\<lambda>_.
        bindp (x_batch_add P (bt_id b) (sm_id m)) (\<lambda>_. ret (m\<lparr>sm_batch_id := Some (bt_id b)\<rparr>))))))"

definition draft_mark :: "'w shipping_ports \<Rightarrow> mark_command \<Rightarrow> ('w, shipping_error, shipping_mark) prog" where
  "draft_mark P c = bindp (x_batch_get P (trim (mc_batch_id c))) (\<lambda>b.
     if bt_status b \<noteq> batch_open then throw (Err ErrBatchClosed)
     else bindp (enrich_command P c) (\<lambda>e. let c' = command_for_carrier (x_nfd P) e (bt_carrier_id b) in
       bindp (find_existing P (bt_id b) (trim (mc_order_id c')) (trim (mc_quotation_id c'))) (\<lambda>existing.
       case existing of
         Some m \<Rightarrow> if in_batch m (bt_id b) then ret m else store_draft P b c'
       | None \<Rightarrow> store_draft P b c')))"

text \<open>The last steps of \<^verbatim>\<open>createDirectBatchMark\<close>: the mark is stored, assigned, submitted, and read back.\<close>

definition submit_direct :: "'w shipping_ports \<Rightarrow> (shipping_mark \<Rightarrow> ('w, shipping_error, shipping_error go_error option \<times> shipping_mark) prog)
    \<Rightarrow> string \<Rightarrow> shipping_mark \<Rightarrow> ('w, shipping_error, shipping_mark) prog" where
  "submit_direct P f bid m = bindp (guard_err (mark_validate m)) (\<lambda>_. bindp (x_mark_create P m) (\<lambda>_.
     bindp (x_batch_add P bid (sm_id m)) (\<lambda>_. bindp (f m) (\<lambda>(err, m').
     case err of Some e \<Rightarrow> throw e | None \<Rightarrow> x_mark_get P (sm_id m')))))"

definition create_direct_mark :: "'w shipping_ports \<Rightarrow> 'w materializer \<Rightarrow> mark_command \<Rightarrow> ('w, shipping_error, shipping_mark) prog" where
  "create_direct_mark P mat c = (case mat of None \<Rightarrow> throw (Err ErrCarrierNotSupported)
   | Some f \<Rightarrow> bindp (x_batch_get P (trim (mc_batch_id c))) (\<lambda>b.
     bindp (enrich_command P c) (\<lambda>e. let c' = command_for_carrier (x_nfd P) e (bt_carrier_id b) in
     bindp (drawp (x_uuid P)) (\<lambda>i. bindp (getp (x_now P)) (\<lambda>now.
     submit_direct P f (bt_id b) (batch_mark i now (bt_carrier_id b) (Some (bt_id b)) c'))))))"

definition materialize_existing :: "'w shipping_ports \<Rightarrow> 'w materializer \<Rightarrow> shipping_mark \<Rightarrow> ('w, shipping_error, shipping_mark) prog" where
  "materialize_existing P mat m = (case mat of None \<Rightarrow> ret m
   | Some f \<Rightarrow> bindp (f m) (\<lambda>(err, m'). case err of Some e \<Rightarrow> throw e
     | None \<Rightarrow> bindp (tryp (x_mark_get P (sm_id m'))) (\<lambda>r. ret (case r of Inl _ \<Rightarrow> m' | Inr p \<Rightarrow> p))))"

text \<open>\<^verbatim>\<open>CreateBatchMark\<close>.\<close>

definition create_batch_mark :: "'w shipping_ports \<Rightarrow> 'w materializer \<Rightarrow> bool \<Rightarrow> mark_command \<Rightarrow> ('w, shipping_error, shipping_mark) prog" where
  "create_batch_mark P mat direct c =
    (let bid = trim (mc_batch_id c); oid = trim (mc_order_id c); qid = trim (mc_quotation_id c);
         create = (if direct then create_direct_mark P mat c else draft_mark P (trim_command c))
     in if bid = [] then throw (Err ErrInvalidID)
        else if oid = [] then throw (Err ErrInvalidID)
        else bindp (find_existing P bid oid qid) (\<lambda>existing. case existing of
             Some m \<Rightarrow> if \<not> in_batch m bid then create
               else if direct \<and> sm_status m = Quoted then materialize_existing P mat m else ret m
           | None \<Rightarrow> create))"

section \<open>Marks from stored quotations\<close>

definition decode_request :: "'w shipping_ports \<Rightarrow> string \<Rightarrow> ('w, shipping_error, quotation_request) prog" where
  "decode_request P payload = (if trim payload = []
     then ret \<lparr>qr_order_id = [], qr_carrier_id = [], qr_origin_city = [], qr_dest_city = [], qr_units = [],
            qr_declared = 0, qr_cod_amount = 0, qr_mode = []\<rparr>
     else case x_request_of P (trim payload) of None \<Rightarrow> throw (Err SnapshotInvalid)
        | Some r \<Rightarrow> ret (request_normalize r))"

definition mode_by_units :: "package_unit list \<Rightarrow> string" where
  "mode_by_units units = (if length units \<le> 1 then mode_express else mode_parcel)"

definition declared_of_units :: "package_unit list \<Rightarrow> rat" where
  "declared_of_units units = clamp0 (\<Sum>u\<leftarrow>units. dm_declared (pu_dimensions (unit_normalize u)))"

definition quotation_recipient :: "quotation_record \<Rightarrow> quotation_request \<Rightarrow> address" where
  "quotation_recipient q r = empty_address\<lparr>ad_name := ''Cliente'',
     ad_city := first_nonempty [trim (qn_dest_city q), trim (qr_dest_city r)]\<rparr>"

definition recipient_of_order :: "address \<Rightarrow> order_data \<Rightarrow> address" where
  "recipient_of_order a od = a\<lparr>ad_name := first_nonempty [trim (od_name od), ad_name a], ad_id := trim (od_id od),
     ad_id_type := trim (od_id_type od), ad_line := trim (od_line od),
     ad_city := first_nonempty [ad_city a, trim (od_dest_city od)], ad_phone := trim (od_phone od),
     ad_email := trim (od_email od)\<rparr>"

definition lookup_order :: "'w shipping_ports \<Rightarrow> string \<Rightarrow> ('w, shipping_error, order_data option) prog" where
  "lookup_order P i = (case x_order P of None \<Rightarrow> ret None
     | Some lookup \<Rightarrow> if i = [] then ret None
         else bindp (tryp (lookup i)) (\<lambda>r. ret (case r of Inr (Some od) \<Rightarrow> Some od | _ \<Rightarrow> None)))"

definition create_from_quotation :: "'w shipping_ports \<Rightarrow> 'w materializer \<Rightarrow> bool \<Rightarrow> string \<Rightarrow> string \<Rightarrow> ('w, shipping_error, shipping_mark) prog" where
  "create_from_quotation P mat direct batch_id quotation_id =
    (if trim batch_id = [] \<or> trim quotation_id = [] then throw (Err ErrInvalidID)
     else bindp (x_quotation P (trim quotation_id)) (\<lambda>q.
       bindp (decode_request P (qn_request_snapshot q)) (\<lambda>r.
       let units = (if qn_units q = [] then qr_units r else qn_units q);
           m = (if valid_mode (qr_mode r) then qr_mode r else mode_by_units units);
           declared = (if qr_declared r \<le> 0 then declared_of_units units else qr_declared r);
           cod = clamp0 (qr_cod_amount r);
           oid = (if trim (qn_order_id q) = [] then trim (qr_order_id r) else trim (qn_order_id q));
           recipient = quotation_recipient q r
       in if units = [] then throw (Err ErrInvalidID)
          else bindp (lookup_order P (first_nonempty [oid, trim (qn_order_identifier q)])) (\<lambda>found.
            let oid' = (case found of None \<Rightarrow> oid | Some od \<Rightarrow> if oid = [] then trim (od_order_id od) else oid);
                recipient' = (case found of None \<Rightarrow> recipient | Some od \<Rightarrow> recipient_of_order recipient od);
                cod' = (case found of None \<Rightarrow> cod | Some od \<Rightarrow> if cod \<le> 0 then clamp0 (od_cod_amount od) else cod)
            in if oid' = [] then throw (Err ErrInvalidID)
               else create_batch_mark P mat direct
                 \<lparr>mc_batch_id = trim batch_id, mc_quotation_id = trim quotation_id, mc_freight = qn_freight q,
                  mc_order_id = oid', mc_sender = x_default_sender P, mc_recipient = recipient',
                  mc_units = units, mc_declared = declared, mc_payment_form = [], mc_cod_amount = cod',
                  mc_mode = m, mc_observations = [], mc_tracking = [], mc_document_type = [],
                  mc_document_ref = [], mc_manifest_type = [], mc_manifest_ref = [], mc_custom_url = None\<rparr>))))"

section \<open>Completion and removal of drafts\<close>

record complete_draft_command =
  uc_batch_id :: string
  uc_mark_id :: string
  uc_freight :: float64
  uc_observations :: string
  uc_tracking :: string
  uc_custom_url :: "string option"

definition update_draft_mark :: "'w shipping_ports \<Rightarrow> complete_draft_command \<Rightarrow> ('w, shipping_error, shipping_mark) prog" where
  "update_draft_mark P c = bindp (x_batch_get P (trim (uc_batch_id c))) (\<lambda>b.
     if bt_status b \<noteq> batch_open then throw (Err ErrBatchClosed)
     else if \<not> is_manual_carrier (bt_carrier_id b) then throw (Err ErrManualDraftUpdateNotSupported)
     else bindp (x_mark_get P (trim (uc_mark_id c))) (\<lambda>m.
       if sm_status m \<noteq> Quoted then throw (Err ErrMarkNotDraft)
       else if (case sm_batch_id m of None \<Rightarrow> True | Some x \<Rightarrow> trim x \<noteq> bt_id b) then throw (Err ErrShippingNotFound)
       else bindp (getp (x_now P)) (\<lambda>now.
         let n = mark_normalize (m\<lparr>sm_observations := carrier_slug (x_nfd P) (uc_observations c),
                sm_tracking := trim (uc_tracking c), sm_custom_url := normalize_url (uc_custom_url c),
                sm_freight := uc_freight c, sm_updated_at := now\<rparr>)
         in bindp (guard_err (mark_validate n)) (\<lambda>_. bindp (x_mark_update P n) (\<lambda>_. ret n)))))"

definition remove_draft_mark :: "'w shipping_ports \<Rightarrow> string \<Rightarrow> string \<Rightarrow> ('w, shipping_error, dispatch_batch) prog" where
  "remove_draft_mark P bid mid = bindp (x_mark_get P (trim mid)) (\<lambda>m.
     if sm_status m \<noteq> Quoted then throw (Err ErrMarkNotDraft)
     else bindp (x_mark_delete P (sm_id m)) (\<lambda>_. x_batch_get P (trim bid)))"

section \<open>Closing a batch\<close>

definition incomplete_draft :: "shipping_mark \<Rightarrow> bool" where
  "incomplete_draft m \<longleftrightarrow> sm_status m = Quoted
     \<and> (trim (sm_observations m) = [] \<or> trim (sm_tracking m) = [] \<or> sm_freight m \<le> 0)"

definition validate_manual_drafts :: "shipping_mark list \<Rightarrow> shipping_error option" where
  "validate_manual_drafts marks = (if list_ex incomplete_draft marks then Some ErrManualDraftIncomplete else None)"

text \<open>The loop over the marks: other errors than a guardrail violation are logged and passed over.\<close>

fun materialize_all :: "(shipping_mark \<Rightarrow> ('w, shipping_error, shipping_error go_error option \<times> shipping_mark) prog)
    \<Rightarrow> shipping_mark list \<Rightarrow> ('w, shipping_error, unit) prog" where
  "materialize_all f [] = ret ()"
| "materialize_all f (m # ms) = (if sm_status m \<noteq> Quoted then materialize_all f ms
     else bindp (f m) (\<lambda>(err, _). case err of
         None \<Rightarrow> materialize_all f ms
       | Some e \<Rightarrow> if is_guardrail (root_cause e) then throw e else materialize_all f ms))"

definition close_batch :: "'w shipping_ports \<Rightarrow> 'w materializer \<Rightarrow> string \<Rightarrow> ('w, shipping_error, dispatch_batch) prog" where
  "close_batch P mat bid = bindp (x_batch_get P (trim bid)) (\<lambda>b.
     if bt_status b = batch_closed then throw (Err ErrBatchClosed)
     else bindp (x_marks_by_batch P (trim bid)) (\<lambda>marks.
       bindp (guard_err (if is_manual_carrier (bt_carrier_id b) then validate_manual_drafts marks else None)) (\<lambda>_.
       bindp (case mat of None \<Rightarrow> ret () | Some f \<Rightarrow> materialize_all f marks) (\<lambda>_.
       bindp (x_batch_close P (trim bid)) (\<lambda>_.
       bindp (x_batch_get P (trim bid)) (\<lambda>b'.
       bindp (announce P topic_batch_closed (batch_closed_payload b')) (\<lambda>_. ret b')))))))"

end
