(* ===== verification/Shipping_Normal.thy ===== *)
theory Shipping_Normal
  imports Shipping_Domain
begin

text \<open>
  What normalization of shipping marks guarantees. One pass rounds to cents after comparing with zero,
  so an amount below half a cent survives the comparison and is stored as zero; a second pass then
  treats it as missing. Two passes always reach a fixed point, whose amounts fit together.
\<close>

definition amounts_ok :: "shipping_mark \<Rightarrow> bool" where
  "amounts_ok m \<longleftrightarrow>
     (\<forall>x \<in> {sm_weight m, sm_volumetric m, sm_declared m, sm_cod_amount m, sm_cod_percent m, sm_cod_charged m, sm_freight m}.
        cents x \<and> 0 \<le> x)
     \<and> sm_cod_percent m \<le> 100
     \<and> (if sm_cod_amount m = 0 then sm_cod_percent m = 0 \<and> sm_cod_charged m = 0 else sm_cod_charged m > 0)
     \<and> sm_weight m = (\<Sum>u\<leftarrow>sm_units m. dm_weight (pu_dimensions u))
     \<and> sm_volumetric m = (\<Sum>u\<leftarrow>sm_units m. dm_volumetric (pu_dimensions u))"

lemma cents_sum_list: "(\<And>x. x \<in> set xs \<Longrightarrow> cents x) \<Longrightarrow> cents (sum_list xs)"
  by (induction xs) (auto intro: cents_add)

lemma sum_weights [simp]:
  "cents (\<Sum>u\<leftarrow>us. dm_weight (pu_dimensions (unit_normalize (f u))))"
  "cents (\<Sum>u\<leftarrow>us. dm_volumetric (pu_dimensions (unit_normalize (f u))))"
  "0 \<le> (\<Sum>u\<leftarrow>us. dm_weight (pu_dimensions (unit_normalize (f u))))"
  "0 \<le> (\<Sum>u\<leftarrow>us. dm_volumetric (pu_dimensions (unit_normalize (f u))))"
  by (auto intro!: cents_sum_list sum_list_nonneg)

lemma total_declared_cents:
  "cents d \<Longrightarrow> (\<And>u. u \<in> set us \<Longrightarrow> cents (dm_declared (pu_dimensions u))) \<Longrightarrow> cents (total_declared d us)"
  unfolding total_declared_def by (induction us arbitrary: d) (auto intro: cents_add)

lemma total_declared_positive: "0 < d \<Longrightarrow> total_declared d us = d"
  unfolding total_declared_def by (induction us) auto

lemma total_declared_zero:
  "(\<And>u. u \<in> set us \<Longrightarrow> 0 \<le> dm_declared (pu_dimensions u)) \<Longrightarrow> 0 \<le> total_declared 0 us"
proof (induction us)
  case (Cons u us)
  then show ?case
    using total_declared_positive[of "dm_declared (pu_dimensions u)" us]
    by (cases "dm_declared (pu_dimensions u) = 0") (auto simp: total_declared_def order_less_le)
qed (simp add: total_declared_def)

text \<open>Declared values of normalized units do not change any more.\<close>

lemma declared_unit_again [simp]:
  "dm_declared (pu_dimensions (unit_normalize (unit_normalize u))) = dm_declared (pu_dimensions (unit_normalize u))"
  "dm_weight (pu_dimensions (unit_normalize (unit_normalize u))) = dm_weight (pu_dimensions (unit_normalize u))"
  by (simp_all add: unit_normalize_def dimensions_normalize_def Let_def round2_fixed)

lemma total_declared_again [simp]:
  "total_declared d (map unit_normalize (map unit_normalize us)) = total_declared d (map unit_normalize us)"
  unfolding total_declared_def by (induction us arbitrary: d) auto

definition declared_pass :: "package_unit list \<Rightarrow> rat \<Rightarrow> rat" where
  "declared_pass us d = round2 (clamp0 (total_declared d (map unit_normalize us)))"

lemma declared_pass_facts [simp]: "0 \<le> declared_pass us d" "cents (declared_pass us d)"
  by (simp_all add: declared_pass_def)

lemma declared_pass_fixed:
  assumes "0 \<le> d" "cents d"
  shows "declared_pass us (declared_pass us d) = declared_pass us d"
proof -
  let ?us = "map unit_normalize us"
  show ?thesis
  proof (cases "d = 0")
    case True
    have nn: "0 \<le> total_declared 0 ?us" by (rule total_declared_zero) auto
    have c: "cents (total_declared 0 ?us)" by (rule total_declared_cents) auto
    show ?thesis
      using nn c True by (cases "total_declared 0 ?us = 0")
        (auto simp: declared_pass_def round2_fixed total_declared_positive order_less_le)
  next
    case False
    with assms show ?thesis by (simp add: declared_pass_def round2_fixed total_declared_positive order_less_le)
  qed
qed

lemma declared_pass_again [simp]: "declared_pass (map unit_normalize us) d = declared_pass us d"
  by (simp add: declared_pass_def del: map_map)

text \<open>One pass over the collection on delivery: amount, percentage, charged amount.\<close>

definition cod_pass :: "rat \<times> rat \<times> rat \<Rightarrow> rat \<times> rat \<times> rat" where
  "cod_pass = (\<lambda>(amount, percent, charged). let a = clamp0 amount in
     (round2 a, round2 (if a \<le> 0 then 0 else cod_percent_range percent),
      round2 (if a \<le> 0 then 0 else if clamp0 charged \<le> 0 then a else clamp0 charged)))"

definition cod_ok :: "rat \<times> rat \<times> rat \<Rightarrow> bool" where
  "cod_ok = (\<lambda>(a, p, c). cents a \<and> 0 \<le> a \<and> cents p \<and> 0 \<le> p \<and> p \<le> 100 \<and> cents c \<and> 0 \<le> c
     \<and> (if a = 0 then p = 0 \<and> c = 0 else 0 < c))"

lemma percent_range [simp]: "0 \<le> cod_percent_range p" "cod_percent_range p \<le> 100"
  by (auto simp: cod_percent_range_def Let_def clamp0_def)

lemma percent_rounded [simp]: "round2 (cod_percent_range p) \<le> 100"
  using round2_mono[of "cod_percent_range p" 100] by simp

lemma percent_range_fixed: "0 \<le> p \<Longrightarrow> p \<le> 100 \<Longrightarrow> cod_percent_range p = p"
  by (simp add: cod_percent_range_def)

lemma cod_pass_fixed: "cod_ok x \<Longrightarrow> cod_pass x = x"
  by (auto simp: cod_ok_def cod_pass_def Let_def round2_fixed percent_range_fixed not_le split: if_splits)

lemma cod_pass_cents: "cents a \<Longrightarrow> cents c \<Longrightarrow> cod_ok (cod_pass (a, p, c))"
  by (auto simp: cod_ok_def cod_pass_def Let_def round2_fixed clamp0_def split: if_splits)

lemma cod_pass_twice: "cod_ok (cod_pass (cod_pass x))"
proof -
  obtain a p c where "cod_pass x = (a, p, c)" "cents a" "cents c"
    by (cases x) (auto simp: cod_pass_def Let_def)
  then show ?thesis using cod_pass_cents by metis
qed

definition mark_cod :: "shipping_mark \<Rightarrow> rat \<times> rat \<times> rat" where
  "mark_cod m = (sm_cod_amount m, sm_cod_percent m, sm_cod_charged m)"

lemma mark_normalize_cod: "mark_cod (mark_normalize m) = cod_pass (mark_cod m)"
  by (simp add: mark_cod_def cod_pass_def mark_normalize_def Let_def)

lemma mark_normalize_declared: "sm_declared (mark_normalize m) = declared_pass (sm_units m) (sm_declared m)"
  by (simp add: declared_pass_def mark_normalize_def Let_def)

lemma mark_normalize_units: "sm_units (mark_normalize m) = map unit_normalize (sm_units m)"
  by (simp add: mark_normalize_def Let_def)

lemma normalize_url_idem [simp]: "normalize_url (normalize_url v) = normalize_url v"
  by (simp add: normalize_url_def split: option.splits)

lemma unit_normalize_settled [simp]: "unit_normalize \<circ> (unit_normalize \<circ> unit_normalize) = unit_normalize \<circ> unit_normalize"
  by (simp add: fun_eq_iff)

text \<open>The fields outside the amounts are settled after one pass.\<close>

lemma mark_eqI:
  assumes "mark_cod m = mark_cod n" "sm_declared m = sm_declared n"
    and "m\<lparr>sm_declared := 0, sm_cod_amount := 0, sm_cod_percent := 0, sm_cod_charged := 0\<rparr>
       = n\<lparr>sm_declared := 0, sm_cod_amount := 0, sm_cod_percent := 0, sm_cod_charged := 0\<rparr>"
  shows "m = n"
  using assms by (cases m; cases n) (simp add: mark_cod_def)

lemma mark_passes_settle:
  "mark_normalize (mark_normalize (mark_normalize m)) = mark_normalize (mark_normalize m)
   \<and> amounts_ok (mark_normalize (mark_normalize m))"
proof
  let ?n = mark_normalize
  have cod: "cod_ok (mark_cod (?n (?n m)))"
    using cod_pass_twice by (simp add: mark_normalize_cod)
  show "?n (?n (?n m)) = ?n (?n m)"
  proof (rule mark_eqI)
    show "mark_cod (?n (?n (?n m))) = mark_cod (?n (?n m))"
      using cod_pass_fixed[OF cod] by (simp add: mark_normalize_cod)
    show "sm_declared (?n (?n (?n m))) = sm_declared (?n (?n m))"
      by (simp add: mark_normalize_declared mark_normalize_units declared_pass_fixed del: map_map)
  qed (simp add: mark_normalize_def Let_def round2_fixed)
  show "amounts_ok (?n (?n m))"
    using cod by (auto simp: amounts_ok_def cod_ok_def mark_cod_def mark_normalize_def Let_def round2_fixed
        comp_def split: if_splits)
qed

text \<open>C23: Normalizing a mark twice reaches a fixed point, in which all amounts are non-negative and in cents,
  the percentage is at most 100, there is a charged amount exactly when something is to be collected, and
  the weights are the sums over the units. (One pass is not enough: an amount below half a cent rounds to
  zero only after it has been tested.)\<close>

theorem mark_normalize_settles:
  "mark_normalize (mark_normalize (mark_normalize m)) = mark_normalize (mark_normalize m)
   \<and> amounts_ok (mark_normalize (mark_normalize m))"
  by (rule mark_passes_settle)

end
