(* ===== verification/Shipping_Steps.thy ===== *)
theory Shipping_Steps
  imports Shipping_Dispatch Shipping_Normal
begin

text \<open>
  The shipping tables as a state machine: \<open>ship_step\<close> says which single changes the module makes to
  marks, batches and quotations, and under which condition. The invariants of the tables and the
  histories of marks and batches follow by rule induction; that the services make only such steps is
  shown in \<open>Shipping_World\<close>.
\<close>

section \<open>Effects of the statements\<close>

lemma ship_stmt_Inr: "ship_stmt l m d = (Inr x, d') \<longleftrightarrow> \<not> sd_fault d l \<and> m d = (Inr x, d')"
  by (simp add: ship_stmt_def)

lemma ship_violation_apply [prog_simps]: "ship_violation l d = (Inl (Wrapped l (Err ShippingDriverError)), d)"
  by (simp add: ship_violation_def prog_simps)

lemma readonly_ship_stmt: "readonly m \<Longrightarrow> readonly (ship_stmt l m)"
  by (simp add: readonly_def ship_stmt_def)

abbreviation mark_ids :: "shipping_db \<Rightarrow> string set" where
  "mark_ids d \<equiv> mr_id ` set (sd_marks d)"

definition mark_row_of :: "shipping_mark \<Rightarrow> string \<Rightarrow> gotime \<Rightarrow> gotime \<Rightarrow> mark_row" where
  "mark_row_of n oid created updated = (to_mark_row n)\<lparr>mr_order_id := oid, mr_created_at := created, mr_updated_at := updated\<rparr>"

definition with_mark :: "mark_row \<Rightarrow> unit_row list \<Rightarrow> shipping_db \<Rightarrow> shipping_db" where
  "with_mark r us d = d\<lparr>sd_marks := sd_marks d @ [r], sd_units := sd_units d @ us\<rparr>"

definition replace_mark :: "mark_row \<Rightarrow> unit_row list \<Rightarrow> shipping_db \<Rightarrow> shipping_db" where
  "replace_mark r us d = d\<lparr>sd_marks := map (\<lambda>x. if mr_id x = mr_id r
       then r\<lparr>mr_order_id := mr_order_id x, mr_created_at := mr_created_at x\<rparr> else x) (sd_marks d),
     sd_units := filter (\<lambda>u. un_mark_id u \<noteq> mr_id r) (sd_units d) @ us\<rparr>"

definition without_mark :: "string \<Rightarrow> shipping_db \<Rightarrow> shipping_db" where
  "without_mark i d = d\<lparr>sd_marks := filter (\<lambda>r. mr_id r \<noteq> i) (sd_marks d), sd_units := filter (\<lambda>u. un_mark_id u \<noteq> i) (sd_units d)\<rparr>"

definition assign_batch :: "string \<Rightarrow> string \<Rightarrow> shipping_db \<Rightarrow> shipping_db" where
  "assign_batch bid mid d = d\<lparr>sd_marks := map (\<lambda>r. if mr_id r = mid
     then r\<lparr>mr_batch_id := Some bid, mr_updated_at := timestamp0 (sd_clock d)\<rparr> else r) (sd_marks d)\<rparr>"

definition close_row :: "string \<Rightarrow> shipping_db \<Rightarrow> shipping_db" where
  "close_row i d = d\<lparr>sd_batches := map (\<lambda>r. if br_id r = i \<and> br_status r = batch_open
     then r\<lparr>br_status := batch_closed, br_closed_at := Some (timestamp0 (sd_clock d))\<rparr> else r) (sd_batches d)\<rparr>"

lemma insert_unit_rows_Inr: "insert_unit_rows l us d = (Inr x, d') \<Longrightarrow>
    d' = d\<lparr>sd_units := sd_units d @ us\<rparr> \<and> (us \<noteq> [] \<longrightarrow> distinct (map un_id (sd_units d @ us)))"
  by (auto simp: insert_unit_rows_def prog_Inr_iffs ship_stmt_Inr prog_simps split: if_splits)

lemma sm_id_normalize [simp]: "sm_id (mark_normalize m) = trim (sm_id m)"
  "sm_status (mark_normalize m) = (if sm_status m = NoStatus then Pending else sm_status m)"
  "sm_batch_id (mark_normalize m) = sm_batch_id m" "sm_created_at (mark_normalize m) = sm_created_at m"
  "sm_order_id (mark_normalize m) = trim (sm_order_id m)" "sm_carrier_id (mark_normalize m) = trim (sm_carrier_id m)"
  "sm_quotation_id (mark_normalize m) = sm_quotation_id m"
  by (simp_all add: mark_normalize_def Let_def)

lemma to_mark_row_fields [simp]: "mr_id (to_mark_row m) = trim (sm_id m)"
  "mr_status (to_mark_row m) = (if sm_status m = NoStatus then Pending else sm_status m)"
  "mr_order_id (to_mark_row m) = trim (sm_order_id m)" "mr_created_at (to_mark_row m) = sm_created_at m"
  "mr_batch_id (to_mark_row m) = sm_batch_id m"
  by (simp_all add: to_mark_row_def Let_def)

lemma mark_row_of_created: "(to_mark_row n)\<lparr>mr_created_at := c, mr_updated_at := u\<rparr> = mark_row_of n (trim (sm_order_id n)) c u"
  by (simp add: mark_row_of_def to_mark_row_def Let_def)

lemma mark_row_of_fields [simp]: "mr_id (mark_row_of n oid c u) = trim (sm_id n)"
  "mr_status (mark_row_of n oid c u) = (if sm_status n = NoStatus then Pending else sm_status n)"
  "mr_order_id (mark_row_of n oid c u) = oid" "mr_created_at (mark_row_of n oid c u) = c"
  "mr_tracking (mark_row_of n oid c u) = mr_tracking (to_mark_row n)" "mr_batch_id (mark_row_of n oid c u) = sm_batch_id n"
  by (simp_all add: mark_row_of_def)

lemma insert_mark_row_Inr: "insert_mark_row r d = (Inr x, d') \<Longrightarrow>
    mr_id r \<notin> mark_ids d \<and> \<not> tracking_taken d (mr_id r) (mr_tracking r) \<and> d' = d\<lparr>sd_marks := sd_marks d @ [r]\<rparr>"
  by (auto simp: insert_mark_row_def ship_stmt_Inr ship_violation_apply split: if_splits)

lemma mark_create_Inr:
  assumes "mark_create m d = (Inr x, d')"
  shows "\<exists>created. d' = with_mark (mark_row_of (mark_normalize m) (trim (sm_order_id m)) created (timestamp0 (sd_clock d)))
        (mark_unit_rows (mark_normalize m)) d
    \<and> trim (sm_id m) \<notin> mark_ids d \<and> \<not> tracking_taken d (trim (sm_id m)) (mr_tracking (to_mark_row (mark_normalize m)))"
proof -
  let ?c = "timestamp0 (if sm_created_at m = 0 then sd_clock d else sm_created_at m)"
  let ?r = "mark_row_of (mark_normalize m) (trim (sm_order_id m)) ?c (timestamp0 (sd_clock d))"
  have "(to_mark_row (mark_normalize m))\<lparr>mr_created_at := ?c, mr_updated_at := timestamp0 (sd_clock d)\<rparr> = ?r"
    by (simp add: mark_row_of_created)
  with assms obtain y d1 where i: "insert_mark_row ?r d = (Inr y, d1)" and
    u: "insert_unit_rows ''create shipping mark units'' (mark_unit_rows (mark_normalize m)) d1 = (Inr x, d')"
    by (simp add: mark_create_def prog_Inr_iffs Let_def cong: if_cong) blast
  show ?thesis
    using insert_mark_row_Inr[OF i] insert_unit_rows_Inr[OF u] by (intro exI[of _ ?c]) (simp add: with_mark_def)
qed

lemma mark_create_Inl: "mark_create m d = (Inl e, d') \<Longrightarrow> d' = d"
  by (auto simp: mark_create_def prog_simps Let_def split: prod.splits sum.splits)

lemma mark_update_Inr:
  assumes "mark_update m d = (Inr x, d')"
  shows "\<exists>r. d' = replace_mark (mark_row_of (mark_normalize m) (mr_order_id r) (mr_created_at r) (timestamp0 (sd_clock d)))
        (mark_unit_rows (mark_normalize m)) d
    \<and> r \<in> set (sd_marks d) \<and> mr_id r = trim (sm_id m)
    \<and> \<not> tracking_taken d (trim (sm_id m)) (mr_tracking (to_mark_row (mark_normalize m)))"
proof -
  from assms have "trim (sm_id m) \<in> mark_ids d" and
    t: "\<not> tracking_taken d (trim (sm_id m)) (mr_tracking (to_mark_row (mark_normalize m)))" and
    d: "d' = d\<lparr>sd_marks := map (\<lambda>x. if mr_id x = trim (sm_id m) then ((to_mark_row (mark_normalize m))
            \<lparr>mr_updated_at := timestamp0 (sd_clock d)\<rparr>)\<lparr>mr_order_id := mr_order_id x, mr_created_at := mr_created_at x\<rparr> else x) (sd_marks d),
         sd_units := filter (\<lambda>u. un_mark_id u \<noteq> trim (sm_id m)) (sd_units d) @ mark_unit_rows (mark_normalize m)\<rparr>"
    by (auto simp: mark_update_def prog_Inr_iffs update_mark_row_def delete_unit_rows_def ship_stmt_Inr
        ship_violation_apply Let_def split: if_splits dest!: insert_unit_rows_Inr)
  then obtain r where "r \<in> set (sd_marks d)" "mr_id r = trim (sm_id m)" by auto
  with d t show ?thesis
    by (intro exI[of _ r]) (auto simp: replace_mark_def mark_row_of_def)
qed

lemma mark_update_Inl: "mark_update m d = (Inl e, d') \<Longrightarrow> d' = d"
  by (auto simp: mark_update_def prog_simps Let_def split: prod.splits sum.splits)

lemma mark_delete_Inr: "mark_delete i d = (Inr x, d') \<Longrightarrow> d' = without_mark (trim i) d \<and> trim i \<in> mark_ids d"
  by (auto simp: mark_delete_def prog_Inr_iffs delete_unit_rows_def delete_mark_row_def ship_stmt_Inr without_mark_def
      Let_def split: if_splits)

lemma mark_delete_Inl: "mark_delete i d = (Inl e, d') \<Longrightarrow> d' = d"
  by (auto simp: mark_delete_def prog_simps Let_def split: if_splits prod.splits sum.splits)

lemma first_mark_Inr: "first_mark l P d = (Inr m, d') \<Longrightarrow>
    d' = d \<and> (\<exists>r \<in> set (sd_marks d). P r \<and> m = load_mark d r)"
  by (auto simp: first_mark_def ship_stmt_Inr find_Some_iff split: option.splits) (metis nth_mem set_sort length_sort)

lemma readonly_first_mark: "readonly (first_mark l P)"
  unfolding first_mark_def by (rule readonly_ship_stmt) (auto simp: readonly_def split: option.splits)

lemma readonly_load_batch_row: "readonly (load_batch_row l i)"
  unfolding load_batch_row_def by (rule readonly_ship_stmt) (auto simp: readonly_def split: option.splits)

lemma readonly_list_mark_ids: "readonly (list_mark_ids i)"
  unfolding list_mark_ids_def by (intro readonly_ship_stmt readonly_basic)

lemma readonly_load_batches: "readonly (load_batches rows)"
  by (induction rows) (auto intro!: readonly_bindp readonly_basic readonly_list_mark_ids)

lemma readonly_mark_reads: "readonly (mark_get i)" "readonly (mark_by_tracking t)" "readonly (marks_by_order oid)"
  "readonly (marks_by_batch bid)" "readonly (mark_list q)" "readonly (batch_get bid)" "readonly (batch_list bq)"
  unfolding mark_get_def mark_by_tracking_def marks_by_order_def marks_by_batch_def mark_list_def batch_get_def batch_list_def
  by (intro readonly_first_mark readonly_bindp readonly_ship_stmt readonly_basic readonly_load_batch_row
      readonly_list_mark_ids readonly_load_batches)+

lemma find_batch_Some: "find_batch d i = Some r \<Longrightarrow> r \<in> set (sd_batches d) \<and> br_id r = i"
  by (auto simp: find_batch_def find_Some_iff) (metis nth_mem set_sort length_sort)+

lemma find_batch_None: "find_batch d i = None \<longleftrightarrow> (\<forall>r \<in> set (sd_batches d). br_id r \<noteq> i)"
  by (auto simp: find_batch_def find_None_iff)

lemma load_batch_row_Inr: "load_batch_row l i d = (Inr r, d') \<longleftrightarrow> \<not> sd_fault d l \<and> find_batch d (trim i) = Some r \<and> d' = d"
  by (auto simp: load_batch_row_def ship_stmt_Inr split: option.splits)

lemma batch_get_Inr: "batch_get i d = (Inr b, d') \<Longrightarrow> d' = d \<and> (\<exists>r ids. find_batch d (trim i) = Some r \<and> b = of_batch_row r ids)"
  by (auto simp: batch_get_def prog_Inr_iffs load_batch_row_Inr list_mark_ids_def ship_stmt_Inr)

lemma batch_close_db: "snd (batch_close i d) = d \<or> snd (batch_close i d) = close_row (trim i) d"
proof (cases "sd_fault d ''close dispatch batch''")
  case True
  then show ?thesis by (simp add: batch_close_def close_batch_row_def ship_stmt_def prog_simps)
next
  case False
  let ?d = "close_row (trim i) d"
  have c: "close_batch_row i d = (Inr (list_ex (\<lambda>r. br_id r = trim i \<and> br_status r = batch_open) (sd_batches d)), ?d)"
    using False by (simp add: close_batch_row_def ship_stmt_def close_row_def Let_def)
  obtain r d' where "load_batch_row ''load dispatch batch before close'' i ?d = (r, d')" "d' = ?d"
    using readonly_load_batch_row by (metis readonlyD surj_pair)
  with c show ?thesis by (cases r) (simp_all add: batch_close_def prog_simps)
qed

lemma batch_add_db: "snd (batch_add_mark bid mid d) = d
    \<or> (snd (batch_add_mark bid mid d) = assign_batch (trim bid) (trim mid) d \<and> find_batch d (trim bid) \<noteq> None
       \<and> trim mid \<in> mark_ids d)"
proof (cases "batch_add_mark bid mid d")
  case (Pair r d')
  show ?thesis
  proof (cases r)
    case (Inl e)
    with Pair show ?thesis by (auto simp: batch_add_mark_def prog_simps split: if_splits prod.splits sum.splits)
  next
    case (Inr x)
    with Pair show ?thesis
      by (auto simp: batch_add_mark_def prog_Inr_iffs load_batch_row_Inr assign_mark_row_def ship_stmt_Inr
          assign_batch_def split: if_splits)
  qed
qed

section \<open>The state machine\<close>

text \<open>How the status of a stored mark may change by an update.\<close>

inductive mark_move :: "mark_status \<Rightarrow> mark_status \<Rightarrow> bool" where
  complete: "mark_move Quoted Quoted"
| submit: "mark_move Quoted Created"
| reject: "mark_move Quoted Failed"
| void: "mark_move st Voided"

code_pred mark_move .

inductive_simps mark_move_from_iff [simp]: "mark_move Created st" "mark_move Failed st" "mark_move Voided st"
  "mark_move Generated st" "mark_move Pending st" "mark_move Quoted st"

inductive ship_step :: "shipping_db \<Rightarrow> shipping_db \<Rightarrow> bool" where
  insert_mark: "trim (sm_id m) \<notin> mark_ids d
    \<Longrightarrow> \<not> tracking_taken d (trim (sm_id m)) (mr_tracking (to_mark_row (mark_normalize m)))
    \<Longrightarrow> sm_status m \<in> {Quoted, Generated, Failed}
    \<Longrightarrow> ship_step d (with_mark (mark_row_of (mark_normalize m) (trim (sm_order_id m)) created (timestamp0 (sd_clock d)))
          (mark_unit_rows (mark_normalize m)) d)"
| update_mark: "r \<in> set (sd_marks d) \<Longrightarrow> mr_id r = trim (sm_id m)
    \<Longrightarrow> \<not> tracking_taken d (trim (sm_id m)) (mr_tracking (to_mark_row (mark_normalize m)))
    \<Longrightarrow> mark_move (mr_status r) (sm_status m)
    \<Longrightarrow> ship_step d (replace_mark (mark_row_of (mark_normalize m) (mr_order_id r) (mr_created_at r) (timestamp0 (sd_clock d)))
          (mark_unit_rows (mark_normalize m)) d)"
| delete_mark: "r \<in> set (sd_marks d) \<Longrightarrow> mr_id r = i \<Longrightarrow> mr_status r = Quoted \<Longrightarrow> ship_step d (without_mark i d)"
| assign_mark: "find_batch d bid \<noteq> None \<Longrightarrow> mid \<in> mark_ids d \<Longrightarrow> ship_step d (assign_batch bid mid d)"
| open_batch: "br_id b \<notin> br_id ` set (sd_batches d) \<Longrightarrow> br_carrier_id b \<noteq> [] \<Longrightarrow> br_status b = batch_open
    \<Longrightarrow> br_closed_at b = None
    \<Longrightarrow> list_all (\<lambda>x. br_carrier_id x = br_carrier_id b \<longrightarrow> br_status x \<noteq> batch_open) (sd_batches d)
    \<Longrightarrow> ship_step d (d\<lparr>sd_batches := sd_batches d @ [b]\<rparr>)"
| close_batch: "ship_step d (close_row i d)"
| write_quotes: "ship_step d (d\<lparr>sd_quotes := qs, sd_quote_units := us\<rparr>)"
| environment: "ship_step d (d\<lparr>sd_clock := t, sd_fault := f\<rparr>)"

inductive_cases ship_stepE: "ship_step d d'"

abbreviation ship_steps :: "shipping_db \<Rightarrow> shipping_db \<Rightarrow> bool" where
  "ship_steps \<equiv> ship_step\<^sup>*\<^sup>*"

text \<open>Invariants of single steps hold along every run.\<close>

lemma ship_steps_invariant:
  "ship_steps d d' \<Longrightarrow> I d \<Longrightarrow> (\<And>a b. ship_step a b \<Longrightarrow> I a \<Longrightarrow> I b) \<Longrightarrow> I d'"
  by (induction rule: rtranclp_induct) auto

section \<open>Batches\<close>

definition open_batches_for :: "shipping_db \<Rightarrow> string \<Rightarrow> batch_row list" where
  "open_batches_for d cid = filter (\<lambda>b. br_carrier_id b = cid \<and> br_status b = batch_open) (sd_batches d)"

definition batches_ok :: "shipping_db \<Rightarrow> bool" where
  "batches_ok d \<longleftrightarrow> distinct (map br_id (sd_batches d))
     \<and> (\<forall>cid. length (open_batches_for d cid) \<le> 1)
     \<and> list_all (\<lambda>b. (br_status b = batch_open \<and> br_closed_at b = None)
                   \<or> (br_status b = batch_closed \<and> br_closed_at b \<noteq> None)) (sd_batches d)"

lemma batch_status_distinct [simp]: "batch_open \<noteq> batch_closed" "batch_closed \<noteq> batch_open" "batch_open \<noteq> []"
  by (simp_all add: batch_open_def batch_closed_def)

lemma sd_batches_effects [simp]:
  "sd_batches (with_mark r us d) = sd_batches d" "sd_batches (replace_mark r us d) = sd_batches d"
  "sd_batches (without_mark i d) = sd_batches d" "sd_batches (assign_batch bid mid d) = sd_batches d"
  by (simp_all add: with_mark_def replace_mark_def without_mark_def assign_batch_def)

lemma length_filter_le_mono: "(\<And>x. x \<in> set xs \<Longrightarrow> P (f x) \<Longrightarrow> Q x) \<Longrightarrow> length (filter P (map f xs)) \<le> length (filter Q xs)"
  by (induction xs) auto

lemma batches_ok_close: "batches_ok d \<Longrightarrow> batches_ok (close_row i d)"
proof -
  assume ok: "batches_ok d"
  let ?f = "\<lambda>r. if br_id r = i \<and> br_status r = batch_open
     then r\<lparr>br_status := batch_closed, br_closed_at := Some (timestamp0 (sd_clock d))\<rparr> else r"
  have b: "sd_batches (close_row i d) = map ?f (sd_batches d)" by (simp add: close_row_def)
  have "length (open_batches_for (close_row i d) cid) \<le> length (open_batches_for d cid)" for cid
    unfolding open_batches_for_def b by (rule length_filter_le_mono) (auto split: if_splits)
  then have "length (open_batches_for (close_row i d) cid) \<le> 1" for cid
    using ok by (meson batches_ok_def le_trans)
  moreover have "map br_id (sd_batches (close_row i d)) = map br_id (sd_batches d)" unfolding b by simp
  moreover have "list_all (\<lambda>b. (br_status b = batch_open \<and> br_closed_at b = None)
      \<or> (br_status b = batch_closed \<and> br_closed_at b \<noteq> None)) (sd_batches (close_row i d))"
    using ok unfolding batches_ok_def b by (auto simp: list_all_iff)
  ultimately show ?thesis using ok by (simp add: batches_ok_def)
qed

lemma batches_ok_open:
  assumes "batches_ok d" "br_id b \<notin> br_id ` set (sd_batches d)" "br_status b = batch_open" "br_closed_at b = None"
    and "list_all (\<lambda>x. br_carrier_id x = br_carrier_id b \<longrightarrow> br_status x \<noteq> batch_open) (sd_batches d)"
  shows "batches_ok (d\<lparr>sd_batches := sd_batches d @ [b]\<rparr>)"
proof -
  have "filter (\<lambda>x. br_carrier_id x = br_carrier_id b \<and> br_status x = batch_open) (sd_batches d) = []"
    using assms(5) by (auto simp: filter_empty_conv list_all_iff)
  with assms show ?thesis by (auto simp: batches_ok_def open_batches_for_def)
qed

lemma batches_ok_step: "ship_step d d' \<Longrightarrow> batches_ok d \<Longrightarrow> batches_ok d'"
proof (induction rule: ship_step.induct)
  case (open_batch b d)
  then show ?case by (auto intro: batches_ok_open)
next
  case (close_batch d i)
  then show ?case by (simp add: batches_ok_close)
qed (simp_all add: batches_ok_def open_batches_for_def)

text \<open>How one row of \<^verbatim>\<open>dispatch_batches\<close> changes: it appears, or it is closed; its identity, carrier and creator
  stay. The marks of a batch are no part of its row.\<close>

definition same_batch_row :: "batch_row \<Rightarrow> batch_row \<Rightarrow> bool" where
  "same_batch_row b b' \<longleftrightarrow> br_id b' = br_id b \<and> br_carrier_id b' = br_carrier_id b \<and> br_created_by b' = br_created_by b
     \<and> br_created_at b' = br_created_at b \<and> (br_status b = batch_closed \<longrightarrow> b' = b)"

definition batches_kept :: "shipping_db \<Rightarrow> shipping_db \<Rightarrow> bool" where
  "batches_kept d d' \<longleftrightarrow> list_all2 same_batch_row (sd_batches d) (take (length (sd_batches d)) (sd_batches d'))"

lemma same_batch_row_refl [simp]: "same_batch_row b b"
  by (simp add: same_batch_row_def)

lemma same_batch_trans: "same_batch_row a b \<Longrightarrow> same_batch_row b c \<Longrightarrow> same_batch_row a c"
  by (auto simp: same_batch_row_def)

lemma batches_kept_refl: "batches_kept d d"
  by (simp add: batches_kept_def list.rel_refl)

lemma batches_kept_trans: "batches_kept a b \<Longrightarrow> batches_kept b c \<Longrightarrow> batches_kept a c"
proof -
  assume ab: "batches_kept a b" and bc: "batches_kept b c"
  have len: "length (sd_batches a) \<le> length (sd_batches b)"
    using list_all2_lengthD[OF ab[unfolded batches_kept_def]] by simp
  have "list_all2 same_batch_row (take (length (sd_batches a)) (sd_batches b))
      (take (length (sd_batches a)) (take (length (sd_batches b)) (sd_batches c)))"
    using bc unfolding batches_kept_def by (rule list_all2_takeI)
  with ab len show ?thesis
    unfolding batches_kept_def by (auto simp: min_def intro: list_all2_trans[OF same_batch_trans])
qed

lemma batches_kept_step: "ship_step d d' \<Longrightarrow> batches_kept d d'"
proof (induction rule: ship_step.induct)
  case (close_batch d i)
  then show ?case
    by (auto simp: batches_kept_def close_row_def list_all2_map2 same_batch_row_def intro!: list.rel_refl_strong)
qed (simp_all add: batches_kept_def list.rel_refl)

lemma batches_kept_steps: "ship_steps d d' \<Longrightarrow> batches_kept d d'"
  by (induction rule: rtranclp_induct) (auto intro: batches_kept_refl batches_kept_trans batches_kept_step)

end
