(* ===== verification/Shipping_History.thy ===== *)
theory Shipping_History
  imports Shipping_Steps
begin

text \<open>
  What runs of the shipping state machine do to marks: the table invariant \<open>marks_ok\<close>, and the
  refinement of the steps by an abstract machine on the statuses of marks.
\<close>

section \<open>The table of marks\<close>

definition units_of :: "shipping_db \<Rightarrow> string \<Rightarrow> unit_row list" where
  "units_of d i = filter (\<lambda>u. un_mark_id u = i) (sd_units d)"

lemma load_mark_units: "load_mark d r = of_mark_row r (units_of d (mr_id r))"
  by (simp add: load_mark_def units_of_def)

definition tracking_unique :: "mark_row list \<Rightarrow> bool" where
  "tracking_unique rows \<longleftrightarrow> (\<forall>x \<in> set rows. \<forall>y \<in> set rows.
     mr_tracking x = mr_tracking y \<and> mr_tracking x \<noteq> None \<longrightarrow> mr_id x = mr_id y)"

lemma tracking_unique_map: "(\<And>x. mr_id (f x) = mr_id x \<and> mr_tracking (f x) = mr_tracking x)
    \<Longrightarrow> tracking_unique rows \<Longrightarrow> tracking_unique (map f rows)"
  by (simp add: tracking_unique_def)

lemma tracking_unique_snoc: "tracking_unique rows
    \<Longrightarrow> (\<And>x. x \<in> set rows \<Longrightarrow> mr_tracking x = mr_tracking r \<Longrightarrow> mr_tracking r \<noteq> None \<Longrightarrow> mr_id x = mr_id r)
    \<Longrightarrow> tracking_unique (rows @ [r])"
  unfolding tracking_unique_def set_append list.set by (metis Un_iff empty_iff insert_iff)

lemma tracking_unique_replace:
  assumes "tracking_unique rows" "\<And>x. x \<in> set rows \<Longrightarrow> mr_id x \<noteq> i \<Longrightarrow> mr_tracking x = t \<Longrightarrow> t = None"
    and "\<And>x. mr_id (f x) = mr_id x" "\<And>x. mr_id x = i \<Longrightarrow> mr_tracking (f x) = t" "\<And>x. mr_id x \<noteq> i \<Longrightarrow> f x = x"
  shows "tracking_unique (map f rows)"
proof -
  have "mr_id x = mr_id y" if "x \<in> set rows" "y \<in> set rows" "mr_tracking (f x) = mr_tracking (f y)" "mr_tracking (f x) \<noteq> None" for x y
    using that assms(1,2,4,5) unfolding tracking_unique_def by (cases "mr_id x = i"; cases "mr_id y = i") metis+
  then show ?thesis using assms(3) unfolding tracking_unique_def set_map by fastforce
qed

definition marks_ok :: "shipping_db \<Rightarrow> bool" where
  "marks_ok d \<longleftrightarrow> distinct (map mr_id (sd_marks d)) \<and> tracking_unique (sd_marks d)
     \<and> (\<forall>i \<in> mark_ids d. trim i = i)
     \<and> list_all (\<lambda>u. un_mark_id u \<in> mark_ids d) (sd_units d)
     \<and> list_all (\<lambda>r. amounts_ok (load_mark d r)) (sd_marks d)"

lemma marks_okI: "distinct (map mr_id (sd_marks d)) \<Longrightarrow> tracking_unique (sd_marks d)
    \<Longrightarrow> \<forall>i \<in> mark_ids d. trim i = i
    \<Longrightarrow> list_all (\<lambda>u. un_mark_id u \<in> mark_ids d) (sd_units d)
    \<Longrightarrow> list_all (\<lambda>r. amounts_ok (load_mark d r)) (sd_marks d) \<Longrightarrow> marks_ok d"
  by (simp add: marks_ok_def)

lemma of_to_unit_rows [simp]: "map of_unit_row (to_unit_rows i us) = us"
proof -
  have "map of_unit_row (map (\<lambda>(k, u). \<lparr>un_id = deterministic_id i k, un_mark_id = i,
      un_description = pu_description u, un_type = pu_type u, un_dimensions = pu_dimensions u\<rparr>) (enumerate n us)) = us" for n
    by (induction us arbitrary: n) (simp_all add: of_unit_row_def)
  then show ?thesis by (simp add: to_unit_rows_def)
qed

lemma to_unit_rows_mark: "u \<in> set (to_unit_rows i us) \<Longrightarrow> un_mark_id u = i"
  by (auto simp: to_unit_rows_def)

lemma mark_unit_rows_mark: "u \<in> set (mark_unit_rows m) \<Longrightarrow> un_mark_id u = trim (sm_id m)"
  by (auto simp: mark_unit_rows_def Let_def dest: to_unit_rows_mark)

lemma filter_own_units: "filter (\<lambda>u. un_mark_id u = trim (sm_id m)) (mark_unit_rows m) = mark_unit_rows m"
  by (rule filter_True) (auto dest: mark_unit_rows_mark)

lemma filter_other_units: "i \<noteq> trim (sm_id m) \<Longrightarrow> filter (\<lambda>u. un_mark_id u = i) (mark_unit_rows m) = []"
  by (auto simp: filter_empty_conv dest: mark_unit_rows_mark)

lemma mark_row_of_again [simp]:
  "(mark_row_of n oid c t)\<lparr>mr_order_id := oid', mr_created_at := c'\<rparr> = mark_row_of n oid' c' t"
  by (simp add: mark_row_of_def)

text \<open>What is written is the second pass of the normalization, so its amounts fit.\<close>

lemma written_amounts_ok: "amounts_ok (of_mark_row (mark_row_of (mark_normalize m) oid c u) (mark_unit_rows (mark_normalize m)))"
proof -
  have "amounts_ok (of_mark_row (mark_row_of n oid c u) (mark_unit_rows n)) = amounts_ok (mark_normalize n)" for n
    by (simp add: amounts_ok_def of_mark_row_def mark_row_of_def to_mark_row_def mark_unit_rows_def Let_def)
  with mark_passes_settle show ?thesis by simp
qed

lemma amounts_ok_batch: "amounts_ok (of_mark_row (r\<lparr>mr_batch_id := b, mr_updated_at := t\<rparr>) us) = amounts_ok (of_mark_row r us)"
  by (simp add: amounts_ok_def of_mark_row_def)

lemma units_of_effects:
  "units_of (with_mark r us d) i = units_of d i @ filter (\<lambda>u. un_mark_id u = i) us"
  "units_of (replace_mark r us d) i = (if i = mr_id r then [] else units_of d i) @ filter (\<lambda>u. un_mark_id u = i) us"
  "units_of (without_mark j d) i = (if i = j then [] else units_of d i)"
  "units_of (assign_batch bid mid d) i = units_of d i"
  by (auto simp: units_of_def with_mark_def replace_mark_def without_mark_def assign_batch_def intro: filter_cong)

lemma marks_ok_insert:
  assumes ok: "marks_ok d" and new: "trim (sm_id m) \<notin> mark_ids d"
    and free: "\<not> tracking_taken d (trim (sm_id m)) (mr_tracking (to_mark_row (mark_normalize m)))"
  shows "marks_ok (with_mark (mark_row_of (mark_normalize m) oid c t) (mark_unit_rows (mark_normalize m)) d)"
proof -
  let ?r = "mark_row_of (mark_normalize m) oid c t" and ?us = "mark_unit_rows (mark_normalize m)"
  let ?d = "with_mark ?r ?us d"
  have marks: "sd_marks ?d = sd_marks d @ [?r]" "sd_units ?d = sd_units d @ ?us" by (simp_all add: with_mark_def)
  have none: "units_of d (trim (sm_id m)) = []"
    using ok new unfolding units_of_def marks_ok_def filter_empty_conv list_all_iff by metis
  have "load_mark ?d r = load_mark d r" if "r \<in> set (sd_marks d)" for r
  proof -
    from that new have "mr_id r \<noteq> trim (sm_id m)" by (metis image_eqI)
    then show ?thesis using filter_other_units[of "mr_id r" "mark_normalize m"] by (simp add: load_mark_units units_of_effects)
  qed
  moreover have "amounts_ok (load_mark ?d ?r)"
    using none written_amounts_ok[of m oid c t] filter_own_units[of "mark_normalize m"]
    by (simp add: load_mark_units units_of_effects)
  moreover have "tracking_unique (sd_marks d @ [?r])"
  proof (rule tracking_unique_snoc)
    show "tracking_unique (sd_marks d)" using ok by (simp only: marks_ok_def)
    show "mr_id x = mr_id ?r" if "x \<in> set (sd_marks d)" "mr_tracking x = mr_tracking ?r" "mr_tracking ?r \<noteq> None" for x
      using that free by (auto simp: tracking_taken_def)
  qed
  moreover have "list_all (\<lambda>u. un_mark_id u \<in> mark_ids ?d) (sd_units ?d)"
    using ok mark_unit_rows_mark[of _ "mark_normalize m"] by (auto simp: marks list_all_iff marks_ok_def)
  ultimately show ?thesis
    using ok new by (intro marks_okI) (simp_all add: marks_ok_def marks list_all_iff)
qed

lemma marks_ok_replace:
  assumes ok: "marks_ok d" and r: "r \<in> set (sd_marks d)" "mr_id r = trim (sm_id m)"
    and free: "\<not> tracking_taken d (trim (sm_id m)) (mr_tracking (to_mark_row (mark_normalize m)))"
  shows "marks_ok (replace_mark (mark_row_of (mark_normalize m) oid c t) (mark_unit_rows (mark_normalize m)) d)"
proof -
  let ?r = "mark_row_of (mark_normalize m) oid c t" and ?us = "mark_unit_rows (mark_normalize m)"
  let ?d = "replace_mark ?r ?us d" and ?i = "trim (sm_id m)"
  let ?f = "\<lambda>x. if mr_id x = ?i then ?r\<lparr>mr_order_id := mr_order_id x, mr_created_at := mr_created_at x\<rparr> else x"
  have marks: "sd_marks ?d = map ?f (sd_marks d)"
    and units: "sd_units ?d = filter (\<lambda>u. un_mark_id u \<noteq> ?i) (sd_units d) @ ?us" by (simp_all add: replace_mark_def)
  have ids: "map mr_id (sd_marks ?d) = map mr_id (sd_marks d)" unfolding marks by simp
  then have idset: "mark_ids ?d = mark_ids d" by (metis set_map)
  have "amounts_ok (load_mark ?d (?f x))" if x: "x \<in> set (sd_marks d)" for x
  proof (cases "mr_id x = ?i")
    case True
    then show ?thesis
      using written_amounts_ok[of m] filter_own_units[of "mark_normalize m"]
      by (simp add: load_mark_units units_of_effects)
  next
    case False
    then show ?thesis
      using ok x filter_other_units[of "mr_id x" "mark_normalize m"]
      by (simp add: load_mark_units units_of_effects marks_ok_def list_all_iff)
  qed
  then have "list_all (\<lambda>x. amounts_ok (load_mark ?d x)) (sd_marks ?d)" unfolding marks list_all_iff set_map by blast
  moreover have "tracking_unique (sd_marks ?d)"
    unfolding marks
  proof (rule tracking_unique_replace[where i = ?i and t = "mr_tracking ?r"])
    show "tracking_unique (sd_marks d)" using ok by (simp only: marks_ok_def)
    show "mr_tracking ?r = None" if "x \<in> set (sd_marks d)" "mr_id x \<noteq> ?i" "mr_tracking x = mr_tracking ?r" for x
      using that free by (auto simp: tracking_taken_def)
  qed simp_all
  moreover have "list_all (\<lambda>u. un_mark_id u \<in> mark_ids ?d) (sd_units ?d)"
  proof -
    have "?i \<in> mark_ids d" using r by (metis image_eqI)
    then show ?thesis
      using ok mark_unit_rows_mark[of _ "mark_normalize m"] unfolding idset units by (auto simp: marks_ok_def list_all_iff)
  qed
  moreover have "distinct (map mr_id (sd_marks ?d))" using ok ids by (simp only: marks_ok_def)
  moreover have "\<forall>i \<in> mark_ids ?d. trim i = i" using ok unfolding idset marks_ok_def by blast
  ultimately show ?thesis by (intro marks_okI)
qed

lemma marks_ok_without: "marks_ok d \<Longrightarrow> marks_ok (without_mark i d)"
proof -
  assume ok: "marks_ok d"
  have "load_mark (without_mark i d) r = load_mark d r" if "mr_id r \<noteq> i" for r
    using that by (simp add: load_mark_units units_of_effects)
  with ok show ?thesis
    by (auto simp: marks_ok_def without_mark_def tracking_unique_def list_all_iff distinct_map_filter)
qed

lemma marks_ok_assign: "marks_ok d \<Longrightarrow> marks_ok (assign_batch bid mid d)"
proof -
  assume ok: "marks_ok d"
  let ?f = "\<lambda>r. if mr_id r = mid then r\<lparr>mr_batch_id := Some bid, mr_updated_at := timestamp0 (sd_clock d)\<rparr> else r"
  have marks: "sd_marks (assign_batch bid mid d) = map ?f (sd_marks d)" "sd_units (assign_batch bid mid d) = sd_units d"
    by (simp_all add: assign_batch_def)
  have ids: "map mr_id (sd_marks (assign_batch bid mid d)) = map mr_id (sd_marks d)" unfolding marks by simp
  then have idset: "mark_ids (assign_batch bid mid d) = mark_ids d" by (metis set_map)
  have f: "mr_id (?f r) = mr_id r" "mr_tracking (?f r) = mr_tracking r"
    "amounts_ok (load_mark (assign_batch bid mid d) (?f r)) = amounts_ok (load_mark d r)" for r
    by (simp_all add: load_mark_units units_of_effects amounts_ok_batch)
  have "list_all (\<lambda>r. amounts_ok (load_mark (assign_batch bid mid d) r)) (sd_marks (assign_batch bid mid d))"
    using ok f(3) unfolding marks marks_ok_def list_all_iff set_map by blast
  moreover have "tracking_unique (sd_marks (assign_batch bid mid d))"
    using ok f(1,2) unfolding marks by (intro tracking_unique_map) (auto simp: marks_ok_def)
  moreover have "list_all (\<lambda>u. un_mark_id u \<in> mark_ids (assign_batch bid mid d)) (sd_units (assign_batch bid mid d))"
    using ok unfolding idset marks(2) by (simp only: marks_ok_def)
  moreover have "distinct (map mr_id (sd_marks (assign_batch bid mid d)))" using ok ids by (simp only: marks_ok_def)
  moreover have "\<forall>i \<in> mark_ids (assign_batch bid mid d). trim i = i" using ok unfolding idset marks_ok_def by blast
  ultimately show ?thesis by (intro marks_okI)
qed

lemma marks_ok_step: "ship_step d d' \<Longrightarrow> marks_ok d \<Longrightarrow> marks_ok d'"
proof (induction rule: ship_step.induct)
  case (insert_mark m d created)
  then show ?case by (intro marks_ok_insert)
next
  case (update_mark r d m)
  then show ?case by (intro marks_ok_replace)
next
  case (delete_mark r d i)
  then show ?case by (intro marks_ok_without)
next
  case (assign_mark d bid mid)
  then show ?case by (intro marks_ok_assign)
qed (simp_all add: marks_ok_def load_mark_def close_row_def)

section \<open>The status of a mark\<close>

definition mark_statuses :: "shipping_db \<Rightarrow> string \<Rightarrow> mark_status option" where
  "mark_statuses d = map_of (map (\<lambda>r. (mr_id r, mr_status r)) (sd_marks d))"

text \<open>The abstract machine: a mark appears as a draft, or already issued or failed; a draft is submitted,
  rejected or deleted; any mark may be voided.\<close>

inductive status_step :: "(string \<Rightarrow> mark_status option) \<Rightarrow> (string \<Rightarrow> mark_status option) \<Rightarrow> bool" where
  appear: "f i = None \<Longrightarrow> st \<in> {Quoted, Generated, Failed} \<Longrightarrow> status_step f (f(i \<mapsto> st))"
| move: "f i = Some a \<Longrightarrow> mark_move a b \<Longrightarrow> status_step f (f(i \<mapsto> b))"
| discard: "f i = Some Quoted \<Longrightarrow> status_step f (f(i := None))"

lemma mark_statuses_dom: "mark_statuses d i = None \<longleftrightarrow> i \<notin> mark_ids d"
  by (auto simp: mark_statuses_def map_of_eq_None_iff image_image)

lemma mark_statuses_mem: "distinct (map mr_id (sd_marks d)) \<Longrightarrow> r \<in> set (sd_marks d) \<Longrightarrow> mark_statuses d (mr_id r) = Some (mr_status r)"
  unfolding mark_statuses_def by (rule map_of_is_SomeI) (auto simp: comp_def)

lemma mark_statuses_insert: "mr_id r \<notin> mark_ids d \<Longrightarrow> mark_statuses (with_mark r us d) = (mark_statuses d)(mr_id r \<mapsto> mr_status r)"
proof
  fix i
  assume new: "mr_id r \<notin> mark_ids d"
  show "mark_statuses (with_mark r us d) i = ((mark_statuses d)(mr_id r \<mapsto> mr_status r)) i"
    using new mark_statuses_dom[of d "mr_id r"]
    by (cases "mark_statuses d i") (auto simp: mark_statuses_def with_mark_def map_add_def split: option.splits)
qed

lemma map_of_map_fst: "map_of (map (\<lambda>x. (k x, if k x = i then v else g x)) xs)
    = (if i \<in> k ` set xs then (map_of (map (\<lambda>x. (k x, g x)) xs))(i \<mapsto> v) else map_of (map (\<lambda>x. (k x, g x)) xs))"
  by (induction xs) (auto simp: fun_eq_iff)

lemma mark_statuses_replace:
  assumes "mr_id r \<in> mark_ids d"
  shows "mark_statuses (replace_mark r us d) = (mark_statuses d)(mr_id r \<mapsto> mr_status r)"
proof -
  have "map (\<lambda>x. (mr_id x, mr_status x)) (sd_marks (replace_mark r us d))
      = map (\<lambda>x. (mr_id x, if mr_id x = mr_id r then mr_status r else mr_status x)) (sd_marks d)"
    by (simp add: replace_mark_def)
  with assms show ?thesis unfolding mark_statuses_def by (simp only: map_of_map_fst if_True)
qed

lemma mark_statuses_without: "mark_statuses (without_mark i d) = (mark_statuses d)(i := None)"
proof -
  have "map_of (map (\<lambda>r. (mr_id r, mr_status r)) (filter (\<lambda>r. mr_id r \<noteq> i) rows))
      = (map_of (map (\<lambda>r. (mr_id r, mr_status r)) rows))(i := None)" for rows
    by (induction rows) (auto simp: fun_eq_iff)
  then show ?thesis by (simp add: mark_statuses_def without_mark_def)
qed

lemma mark_statuses_assign: "mark_statuses (assign_batch bid mid d) = mark_statuses d"
proof -
  have "map (\<lambda>x. (mr_id x, mr_status x)) (sd_marks (assign_batch bid mid d)) = map (\<lambda>x. (mr_id x, mr_status x)) (sd_marks d)"
    by (simp add: assign_batch_def)
  then show ?thesis by (simp add: mark_statuses_def)
qed

lemma status_step_refines: "ship_step d d' \<Longrightarrow> marks_ok d \<Longrightarrow> status_step\<^sup>=\<^sup>= (mark_statuses d) (mark_statuses d')"
proof (induction rule: ship_step.induct)
  case (insert_mark m d created)
  let ?r = "mark_row_of (mark_normalize m) (trim (sm_order_id m)) created (timestamp0 (sd_clock d))"
  have "mark_statuses (with_mark ?r (mark_unit_rows (mark_normalize m)) d) = (mark_statuses d)(trim (sm_id m) \<mapsto> sm_status m)"
    using insert_mark by (subst mark_statuses_insert) auto
  moreover have "mark_statuses d (trim (sm_id m)) = None" using insert_mark by (simp add: mark_statuses_dom)
  ultimately show ?case using insert_mark(3) by (metis sup2I1 status_step.appear)
next
  case (update_mark r d m)
  let ?r = "mark_row_of (mark_normalize m) (mr_order_id r) (mr_created_at r) (timestamp0 (sd_clock d))"
  have st: "sm_status m \<noteq> NoStatus" using update_mark by (auto elim: mark_move.cases)
  have "mr_id ?r \<in> mark_ids d" using update_mark(1,2) by (metis image_eqI mark_row_of_fields(1) sm_id_normalize(1) trim_idem)
  then have "mark_statuses (replace_mark ?r (mark_unit_rows (mark_normalize m)) d) = (mark_statuses d)(trim (sm_id m) \<mapsto> sm_status m)"
    using st by (simp add: mark_statuses_replace)
  moreover have "mark_statuses d (trim (sm_id m)) = Some (mr_status r)"
    using update_mark mark_statuses_mem[of d r] by (simp add: marks_ok_def)
  ultimately show ?case using update_mark(4) by (metis sup2I1 status_step.move)
next
  case (delete_mark r d i)
  then have "mark_statuses d i = Some Quoted" using mark_statuses_mem[of d r] by (auto simp: marks_ok_def)
  then show ?case unfolding mark_statuses_without by (intro sup2I1 status_step.discard)
next
  case (assign_mark d bid mid)
  then show ?case by (simp add: mark_statuses_assign)
qed (simp_all add: mark_statuses_def close_row_def)

lemma status_steps_refine: "ship_steps d d' \<Longrightarrow> marks_ok d \<Longrightarrow> marks_ok d' \<and> status_step\<^sup>*\<^sup>* (mark_statuses d) (mark_statuses d')"
proof (induction rule: rtranclp_induct)
  case (step y z)
  then have "status_step\<^sup>=\<^sup>= (mark_statuses y) (mark_statuses z)" using status_step_refines by blast
  with step show ?case by (auto intro: marks_ok_step rtranclp.rtrancl_into_rtrancl)
qed simp

text \<open>What the machine excludes: a submitted mark is only ever voided, and a voided one stays so.\<close>

definition settled_as :: "mark_status \<Rightarrow> mark_status option \<Rightarrow> bool" where
  "settled_as st now \<longleftrightarrow> (case st of Quoted \<Rightarrow> True | Voided \<Rightarrow> now = Some Voided | NoStatus \<Rightarrow> True
     | _ \<Rightarrow> now = Some st \<or> now = Some Voided)"

lemma settled_step: "status_step f g \<Longrightarrow> f i = Some st \<Longrightarrow> st \<noteq> Quoted \<Longrightarrow> st \<noteq> NoStatus \<Longrightarrow> g i = Some st \<or> g i = Some Voided"
  by (induction rule: status_step.induct) (auto elim!: mark_move.cases)

lemma settled_steps: "status_step\<^sup>*\<^sup>* f g \<Longrightarrow> f i = Some st \<Longrightarrow> settled_as st (g i)"
proof (induction rule: rtranclp_induct)
  case base
  then show ?case by (cases st) (auto simp: settled_as_def)
next
  case (step g h)
  then show ?case
    by (cases st) (auto simp: settled_as_def dest: settled_step)
qed

end
