(* ===== verification/Shipping_World.thy ===== *)
theory Shipping_World
  imports Shipping_History Go_Assertions
begin

text \<open>
  The services on the tables. The locale \<open>shipping_world\<close> says how a world of the services holds the
  tables: repositories act on them, everything else leaves them alone, a carrier keeps the identity of
  a mark. Inside it every operation of the mark and dispatch services is shown to change the tables by
  steps of the state machine \<open>ship_step\<close> only.
\<close>

section \<open>The repositories and the state machine\<close>

definition runs :: "shipping_db \<Rightarrow> shipping_db \<Rightarrow> bool" where
  "runs d0 d \<longleftrightarrow> marks_ok d \<and> ship_steps d0 d"

text \<open>A mark as it is stored: its identifier is trimmed and the table has its status.\<close>

definition known :: "shipping_db \<Rightarrow> shipping_mark \<Rightarrow> bool" where
  "known d m \<longleftrightarrow> trim (sm_id m) = sm_id m \<and> mark_statuses d (sm_id m) = Some (sm_status m)"

definition others :: "string \<Rightarrow> (string \<Rightarrow> mark_status option) \<Rightarrow> shipping_db \<Rightarrow> bool" where
  "others i f d \<longleftrightarrow> (\<forall>j. j \<noteq> i \<longrightarrow> mark_statuses d j = f j)"

definition may_become :: "string \<Rightarrow> mark_status \<Rightarrow> shipping_db \<Rightarrow> bool" where
  "may_become i st d \<longleftrightarrow> (\<forall>a. mark_statuses d i = Some a \<longrightarrow> mark_move a st)"

lemma runs_step: "runs d0 d \<Longrightarrow> ship_step d d' \<Longrightarrow> runs d0 d'"
  by (auto simp: runs_def intro: marks_ok_step rtranclp.rtrancl_into_rtrancl)

lemma load_mark_fields [simp]: "sm_id (load_mark d r) = mr_id r" "sm_status (load_mark d r) = mr_status r"
  "sm_batch_id (load_mark d r) = mr_batch_id r" "sm_carrier_id (load_mark d r) = mr_carrier_id r"
  by (simp_all add: load_mark_def of_mark_row_def)

lemma known_loaded: "marks_ok d \<Longrightarrow> r \<in> set (sd_marks d) \<Longrightarrow> known d (load_mark d r)"
  using mark_statuses_mem[of d r] by (simp add: known_def marks_ok_def)

lemma create_runs:
  assumes "runs d0 d" "sm_status m \<in> {Quoted, Generated, Failed}" "mark_create m d = (Inr x, d')"
  shows "runs d0 d' \<and> mark_statuses d' (trim (sm_id m)) = Some (sm_status m)"
proof -
  from mark_create_Inr[OF assms(3)] obtain created where
    d': "d' = with_mark (mark_row_of (mark_normalize m) (trim (sm_order_id m)) created (timestamp0 (sd_clock d))) (mark_unit_rows (mark_normalize m)) d"
    and new: "trim (sm_id m) \<notin> mark_ids d" "\<not> tracking_taken d (trim (sm_id m)) (mr_tracking (to_mark_row (mark_normalize m)))"
    by blast
  then have "runs d0 d'" using assms by (intro runs_step[OF assms(1)]) (simp add: ship_step.insert_mark)
  moreover have "mark_statuses d' (trim (sm_id m)) = Some (sm_status m)"
    using new assms(2) unfolding d' by (subst mark_statuses_insert) auto
  ultimately show ?thesis ..
qed

lemma update_runs:
  assumes "runs d0 d" "may_become (trim (sm_id m)) (sm_status m) d" "others (trim (sm_id m)) f d" "mark_update m d = (Inr x, d')"
  shows "runs d0 d' \<and> others (trim (sm_id m)) f d'"
proof -
  from mark_update_Inr[OF assms(4)] obtain r where
    d': "d' = replace_mark (mark_row_of (mark_normalize m) (mr_order_id r) (mr_created_at r) (timestamp0 (sd_clock d))) (mark_unit_rows (mark_normalize m)) d"
    and r: "r \<in> set (sd_marks d)" "mr_id r = trim (sm_id m)"
      "\<not> tracking_taken d (trim (sm_id m)) (mr_tracking (to_mark_row (mark_normalize m)))"
    by blast
  have "mark_statuses d (trim (sm_id m)) = Some (mr_status r)"
    using mark_statuses_mem[of d r] assms(1) r by (simp add: runs_def marks_ok_def)
  then have "mark_move (mr_status r) (sm_status m)" using assms(2) by (simp add: may_become_def)
  then have "runs d0 d'" using r unfolding d' by (intro runs_step[OF assms(1)] ship_step.update_mark)
  moreover have "trim (sm_id m) \<in> mark_ids d" using r by (metis image_eqI)
  then have "others (trim (sm_id m)) f d'"
    using assms(3) unfolding d' others_def by (subst mark_statuses_replace) auto
  ultimately show ?thesis ..
qed

lemma delete_runs:
  assumes "runs d0 d" "mark_statuses d (trim i) = Some Quoted" "mark_delete i d = (Inr x, d')"
  shows "runs d0 d'"
proof -
  from mark_delete_Inr[OF assms(3)] obtain r where d': "d' = without_mark (trim i) d" and r: "r \<in> set (sd_marks d)" "mr_id r = trim i"
    by fastforce
  have "mr_status r = Quoted" using mark_statuses_mem[of d r] assms(1,2) r by (simp add: runs_def marks_ok_def)
  with r show ?thesis unfolding d' by (intro runs_step[OF assms(1)] ship_step.delete_mark)
qed

lemma add_runs:
  assumes "runs d0 d" "batch_add_mark bid mid d = (r, d')"
  shows "runs d0 d' \<and> mark_statuses d' = mark_statuses d"
  using batch_add_db[of bid mid d] assms by (auto simp: mark_statuses_assign intro: runs_step ship_step.assign_mark)

lemma close_runs: "runs d0 d \<Longrightarrow> batch_close i d = (r, d') \<Longrightarrow> runs d0 d'"
  using batch_close_db[of i d] by (auto intro: runs_step ship_step.close_batch)

lemma batch_create_runs:
  assumes "runs d0 d" "batch_create b d = (Inr x, d')" "trim (bt_carrier_id b) \<noteq> []" "bt_status b = batch_open" "bt_closed_at b = None"
    and "list_all (\<lambda>x. br_carrier_id x = trim (bt_carrier_id b) \<longrightarrow> br_status x \<noteq> batch_open) (sd_batches d)"
  shows "runs d0 d'"
proof -
  let ?b = "\<lparr>br_id = trim (bt_id b), br_carrier_id = trim (bt_carrier_id b), br_status = batch_open,
     br_created_by = (if trim (bt_created_by b) = [] then ''system'' else trim (bt_created_by b)),
     br_created_at = timestamp0 (if bt_created_at b = 0 then sd_clock d else bt_created_at b), br_closed_at = None\<rparr>"
  from assms have d': "d' = d\<lparr>sd_batches := sd_batches d @ [?b]\<rparr>" "trim (bt_id b) \<notin> br_id ` set (sd_batches d)"
    by (auto simp: batch_create_def batch_normalize_def ship_stmt_Inr ship_violation_apply Let_def split: if_splits)
  show ?thesis
    unfolding d'(1) using assms d'(2) by (intro runs_step[OF assms(1)] ship_step.open_batch) simp_all
qed

lemma batch_create_Inl: "batch_create b d = (Inl e, d') \<Longrightarrow> d' = d"
  by (auto simp: batch_create_def ship_stmt_def ship_violation_apply Let_def split: if_splits)

lemma page_rows_first: "page_rows 1 1 rows = [] \<longleftrightarrow> rows = []"
  by (cases rows) (simp_all add: page_rows_def int64_def)

lemma batch_list_empty:
  assumes "batch_list \<lparr>bq_carrier_id = cid, bq_status = batch_open, bq_page = 1, bq_limit = 1\<rparr> d = (Inr ([], n), d')" "trim cid \<noteq> []"
  shows "list_all (\<lambda>x. br_carrier_id x = trim cid \<longrightarrow> br_status x \<noteq> batch_open) (sd_batches d)"
proof -
  let ?q = "\<lparr>bq_carrier_id = cid, bq_status = batch_open, bq_page = 1, bq_limit = 1\<rparr>"
  have empty: "load_batches rows d1 = (Inr [], d2) \<Longrightarrow> rows = []" for rows d1 d2
    by (cases rows) (auto simp: prog_Inr_iffs)
  have "trim batch_open = batch_open" unfolding batch_open_def by code_simp
  with assms have "filter (matches_batch_query ?q) (sd_batches d) = []"
    by (auto simp: batch_list_def prog_Inr_iffs ship_stmt_Inr page_rows_first dest!: empty)
  with assms(2) \<open>trim batch_open = batch_open\<close> show ?thesis
    by (auto simp: filter_empty_conv matches_batch_query_def list_all_iff)
qed

lemma first_mark_known: "runs d0 d \<Longrightarrow> first_mark l P d = (Inr m, d') \<Longrightarrow> runs d0 d' \<and> known d' m"
  by (auto dest!: first_mark_Inr simp: runs_def known_loaded)

lemma marks_by_order_known:
  "runs d0 d \<Longrightarrow> marks_by_order oid d = (Inr ms, d') \<Longrightarrow> runs d0 d' \<and> list_all (known d') ms"
  by (auto simp: marks_by_order_def ship_stmt_Inr prog_Inr_iffs list_all_iff runs_def known_loaded)

lemma marks_by_batch_known:
  "runs d0 d \<Longrightarrow> marks_by_batch bid d = (Inr ms, d') \<Longrightarrow> runs d0 d' \<and> list_all (known d') ms \<and> distinct (map sm_id ms)"
  by (auto simp: marks_by_batch_def ship_stmt_Inr prog_Inr_iffs list_all_iff runs_def known_loaded marks_ok_def comp_def
      distinct_map_filter distinct_map inj_on_def)

section \<open>The world of the services\<close>

locale shipping_world =
  fixes P :: "'w shipping_ports" and db :: "'w \<Rightarrow> shipping_db" and put :: "shipping_db \<Rightarrow> 'w \<Rightarrow> 'w"
  assumes db_put: "db (put d w) = d"
    and mark_ports: "x_mark_create P m = through db put (mark_create m)" "x_mark_get P i = through db put (mark_get i)"
      "x_marks_by_order P i = through db put (marks_by_order i)" "x_marks_by_batch P i = through db put (marks_by_batch i)"
      "x_mark_update P m = through db put (mark_update m)" "x_mark_delete P i = through db put (mark_delete i)"
      "x_mark_list P mq = through db put (mark_list mq)"
    and batch_ports: "x_batch_create P b = through db put (batch_create b)" "x_batch_get P i = through db put (batch_get i)"
      "x_batch_close P i = through db put (batch_close i)" "x_batch_add P i j = through db put (batch_add_mark i j)"
      "x_batch_list P bq = through db put (batch_list bq)"
    and quiet_quotation: "quiet db (x_quotation P i)"
    and quiet_order: "x_order P = Some lookup \<Longrightarrow> quiet db (lookup i)"
    and quiet_publish: "quiet db (x_publish P ev)"
    and quiet_uuid: "db (snd (x_uuid P w)) = db w"
    and quiet_event_id: "db (snd (x_event_id P w)) = db w"
    and quiet_balance: "x_provider P c = Some pr \<Longrightarrow> quiet db (cv_balance pr)"
    and carriers: "x_provider P c = Some pr \<Longrightarrow> cv_generate pr m w = ((err, m'), w')
      \<Longrightarrow> db w' = db w \<and> sm_id m' = sm_id m \<and> (err = None \<longrightarrow> sm_status m' = Generated)"
begin

lemma leads_repository: "(\<And>d e d'. A d \<Longrightarrow> m d = (Inl e, d') \<Longrightarrow> I d') \<Longrightarrow> (\<And>d x d'. A d \<Longrightarrow> m d = (Inr x, d') \<Longrightarrow> B x d')
    \<Longrightarrow> leads db I A (through db put m) B"
  by (rule leads_through) (simp_all add: db_put)

lemma quiet_announce: "quiet db (announce P topic p)"
  unfolding announce_def
  by (intro quiet_bindp quiet_drawp quiet_tryp quiet_publish quiet_basic) (rule quiet_event_id)

lemma quiet_new_id: "quiet db (drawp (x_uuid P))"
  by (rule quiet_drawp) (rule quiet_uuid)

lemma quiet_enrich: "quiet db (enrich_command P c)"
  unfolding enrich_command_def Let_def
  by (auto split: option.splits intro!: quiet_bindp quiet_tryp quiet_basic dest: quiet_order)

lemma quiet_lookup: "quiet db (lookup_order P i)"
  unfolding lookup_order_def
  by (auto split: option.splits intro!: quiet_bindp quiet_tryp quiet_basic dest: quiet_order)

lemma quiet_decode: "quiet db (decode_request P s)"
  unfolding decode_request_def by (auto split: option.splits)

lemmas quiet_calls = quiet_announce[THEN leads_quiet] quiet_new_id[THEN leads_quiet] quiet_enrich[THEN leads_quiet]
  quiet_lookup[THEN leads_quiet] quiet_decode[THEN leads_quiet] quiet_quotation[THEN leads_quiet]

lemma leads_create: "sm_status m \<in> {Quoted, Generated, Failed}
    \<Longrightarrow> leads db (runs d0) (runs d0) (x_mark_create P m) (\<lambda>_ d. runs d0 d \<and> mark_statuses d (trim (sm_id m)) = Some (sm_status m))"
  unfolding mark_ports by (rule leads_repository) (auto dest: create_runs mark_create_Inl)

lemma leads_get: "leads db (runs d0) (runs d0) (x_mark_get P i) (\<lambda>m d. runs d0 d \<and> known d m)"
  unfolding mark_ports mark_get_def
  by (rule leads_repository) (auto dest: first_mark_known readonlyD[OF readonly_first_mark])

lemma leads_by_order: "leads db (runs d0) (runs d0) (x_marks_by_order P i) (\<lambda>ms d. runs d0 d \<and> list_all (known d) ms)"
  unfolding mark_ports
  by (rule leads_repository) (auto dest: marks_by_order_known readonlyD[OF readonly_mark_reads(3)])

lemma leads_by_batch: "leads db (runs d0) (runs d0) (x_marks_by_batch P i)
    (\<lambda>ms d. runs d0 d \<and> list_all (known d) ms \<and> distinct (map sm_id ms))"
  unfolding mark_ports
  by (rule leads_repository) (auto dest: marks_by_batch_known readonlyD[OF readonly_mark_reads(4)])

lemma leads_update: "leads db (runs d0) (\<lambda>d. runs d0 d \<and> may_become (trim (sm_id m)) (sm_status m) d \<and> others (trim (sm_id m)) f d)
    (tryp (x_mark_update P m)) (\<lambda>_ d. runs d0 d \<and> others (trim (sm_id m)) f d)"
proof -
  have "leads db (\<lambda>d. runs d0 d \<and> others (trim (sm_id m)) f d)
      (\<lambda>d. runs d0 d \<and> may_become (trim (sm_id m)) (sm_status m) d \<and> others (trim (sm_id m)) f d)
      (x_mark_update P m) (\<lambda>_ d. runs d0 d \<and> others (trim (sm_id m)) f d)"
    unfolding mark_ports proof (rule leads_repository)
    fix d e d'
    assume "runs d0 d \<and> may_become (trim (sm_id m)) (sm_status m) d \<and> others (trim (sm_id m)) f d" "mark_update m d = (Inl e, d')"
    then show "runs d0 d' \<and> others (trim (sm_id m)) f d'" using mark_update_Inl by blast
  next
    fix d x d'
    assume "runs d0 d \<and> may_become (trim (sm_id m)) (sm_status m) d \<and> others (trim (sm_id m)) f d" "mark_update m d = (Inr x, d')"
    then show "runs d0 d' \<and> others (trim (sm_id m)) f d'" using update_runs by blast
  qed
  then show ?thesis by (auto simp: leads_def tryp_apply split: prod.splits sum.splits)
qed

lemma leads_update': "leads db (runs d0) (\<lambda>d. runs d0 d \<and> may_become (trim (sm_id m)) (sm_status m) d) (x_mark_update P m) (\<lambda>_. runs d0)"
  unfolding mark_ports
proof (rule leads_repository)
  fix d x d'
  assume a: "runs d0 d \<and> may_become (trim (sm_id m)) (sm_status m) d" and u: "mark_update m d = (Inr x, d')"
  have "others (trim (sm_id m)) (mark_statuses d) d" by (simp add: others_def)
  with a u show "runs d0 d'" using update_runs by blast
qed (use mark_update_Inl in blast)

lemma leads_delete: "leads db (runs d0) (\<lambda>d. runs d0 d \<and> mark_statuses d (trim i) = Some Quoted) (x_mark_delete P i) (\<lambda>_. runs d0)"
  unfolding mark_ports by (rule leads_repository) (auto dest: mark_delete_Inl delete_runs)

lemma quiet_reads: "quiet db (x_batch_get P i)" "quiet db (x_mark_list P mq)" "quiet db (x_batch_list P bq)" "quiet db (x_mark_get P i)"
  "quiet db (x_marks_by_order P i)" "quiet db (x_marks_by_batch P i)"
  unfolding mark_ports batch_ports by (intro quiet_through db_put readonly_mark_reads)+

lemmas quiet_batch_get = quiet_reads(1)[THEN leads_quiet]

lemma leads_add: "leads db (runs d0) (\<lambda>d. runs d0 d \<and> Q (mark_statuses d)) (x_batch_add P i j) (\<lambda>_ d. runs d0 d \<and> Q (mark_statuses d))"
  unfolding batch_ports by (rule leads_repository) (auto dest: add_runs)

lemma leads_close: "leads db (runs d0) (runs d0) (x_batch_close P i) (\<lambda>_. runs d0)"
  unfolding batch_ports by (rule leads_repository) (auto dest: close_runs)

end

end
