(* ===== verification/Shipping_Safety.thy ===== *)
theory Shipping_Safety
  imports Shipping_World
begin

text \<open>
  Every operation of the mark and dispatch services keeps within the state machine of the tables: from
  tables that satisfy \<open>runs d0\<close>, it ends in such tables, with a result or with an error.
\<close>

lemma response_fields [simp]:
  "sm_id (with_response P m) = sm_id m" "sm_status (with_response P m) = sm_status m"
  "sm_id (with_trimmed_response P m) = sm_id m" "sm_status (with_trimmed_response P m) = sm_status m"
  "sm_id (with_draft P m) = sm_id m" "sm_status (with_draft P m) = sm_status m"
  "sm_carrier_id (with_draft P m) = sm_carrier_id m"
  by (simp_all add: with_response_def with_trimmed_response_def with_draft_def)

definition draftable :: "string \<Rightarrow> shipping_db \<Rightarrow> bool" where
  "draftable i d \<longleftrightarrow> mark_statuses d i = None \<or> mark_statuses d i = Some Quoted"

lemma draftable_may_become: "draftable i d \<Longrightarrow> may_become i Failed d" "draftable i d \<Longrightarrow> may_become i Created d"
  by (auto simp: draftable_def may_become_def)

context shipping_world
begin

section \<open>The mark service\<close>

lemma leads_fail:
  "leads db (runs d0) (\<lambda>d. runs d0 d \<and> draftable (trim (sm_id m)) d \<and> others (trim (sm_id m)) f d) (fail_mark P m e)
     (\<lambda>r d. runs d0 d \<and> others (trim (sm_id m)) f d \<and> sm_id (snd r) = sm_id m)"
  unfolding fail_mark_def Let_def
  by (rule leads_bindp leads_getp leads_update[where f = f, THEN leads_pre] quiet_calls leads_ret | clarsimp simp: draftable_may_become)+

lemma leads_complete:
  "leads db (runs d0) (\<lambda>d. runs d0 d \<and> draftable (trim (sm_id m)) d \<and> others (trim (sm_id m)) f d) (complete_mark P m)
     (\<lambda>r d. runs d0 d \<and> others (trim (sm_id m)) f d \<and> sm_id (snd r) = sm_id m)"
  unfolding complete_mark_def Let_def
  by (rule leads_bindp leads_getp leads_update[where f = f, THEN leads_pre] quiet_calls leads_ret leads_case_sum
      | clarsimp simp: draftable_may_become)+

lemma leads_materialize:
  "leads db (runs d0) (\<lambda>d. runs d0 d \<and> draftable (trim (sm_id m)) d \<and> others (trim (sm_id m)) f d) (materialize P m)
     (\<lambda>r d. runs d0 d \<and> others (trim (sm_id m)) f d \<and> sm_id (snd r) = sm_id m)"
proof (cases "x_provider P (sm_carrier_id m)")
  case None
  then show ?thesis unfolding materialize_def by (simp, intro leads_ret) simp
next
  case (Some pr)
  let ?A = "\<lambda>d. runs d0 d \<and> draftable (trim (sm_id m)) d \<and> others (trim (sm_id m)) f d"
  let ?B = "\<lambda>r d. runs d0 d \<and> others (trim (sm_id m)) f d \<and> sm_id (snd r) = sm_id m"
  have balance: "leads db (runs d0) ?A (if ca_balance_check (cv_carrier pr) then tryp (cv_balance pr) else ret (Inr ())) (\<lambda>_. ?A)"
    by (intro leads_if leads_ret leads_quiet quiet_tryp quiet_balance[OF Some]) simp_all
  have generate: "leads db (runs d0) ?A (drawp (cv_generate pr (with_draft P m))) (\<lambda>r d. ?A d \<and> sm_id (snd r) = sm_id m)"
    by (rule leads_drawp) (use carriers[OF Some] in fastforce)
  have settle: "leads db (runs d0) (\<lambda>d. ?A d \<and> sm_id m' = sm_id m)
      (case err of Some e \<Rightarrow> fail_mark P m' e | None \<Rightarrow> complete_mark P m') ?B" for err m'
  proof (rule leads_fact)
    assume "sm_id m' = sm_id m"
    then show "leads db (runs d0) ?A (case err of Some e \<Rightarrow> fail_mark P m' e | None \<Rightarrow> complete_mark P m') ?B"
      using leads_fail[of d0 m' f] leads_complete[of d0 m' f] by (cases err) simp_all
  qed
  show ?thesis
    unfolding materialize_def Some option.case Let_def
  proof (intro leads_bindp[OF balance] leads_case_sum leads_bindp[OF generate] leads_case_prod)
    show "leads db (runs d0) ?A (fail_mark P (with_draft P m) (Err ErrInsufficientBalance)) ?B"
      using leads_fail[of d0 "with_draft P m" f] by simp
  qed (use settle in simp)
qed

text \<open>What holds of the whole service: \<open>keeps\<close> says that an operation makes steps only.\<close>

abbreviation keeps :: "shipping_db \<Rightarrow> ('w, shipping_error, 'a) prog \<Rightarrow> bool" where
  "keeps d0 m \<equiv> preserves (\<lambda>w. runs d0 (db w)) m"

lemma keeps_create: "sm_status m \<in> {Quoted, Generated, Failed} \<Longrightarrow> keeps d0 (x_mark_create P m)"
  by (rule preserves_when[OF leads_create]) auto

lemma keeps_calls [preserves_intros]:
  "keeps d0 (announce P topic p)" "keeps d0 (drawp (x_uuid P))" "keeps d0 (enrich_command P c)"
  "keeps d0 (lookup_order P i)" "keeps d0 (decode_request P s)" "keeps d0 (x_quotation P i)"
  "keeps d0 (x_batch_get P i)" "keeps d0 (x_mark_list P mq)" "keeps d0 (x_batch_list P bq)" "keeps d0 (x_mark_get P i)"
  "keeps d0 (x_marks_by_order P i)" "keeps d0 (x_marks_by_batch P i)"
  by (intro preserves_quiet quiet_announce quiet_new_id quiet_enrich quiet_lookup quiet_decode quiet_quotation quiet_reads)+

lemma keeps_void: "keeps d0 (void_mark P i reason)"
proof -
  have "keeps d0 (x_mark_update P (m\<lparr>sm_status := Voided, sm_updated_at := t\<rparr>))" for m t
    unfolding preserves_leads[symmetric] by (rule leads_pre[OF leads_update']) (simp add: may_become_def mark_move.void)
  then show ?thesis
    unfolding void_mark_def Let_def by (intro preserves_intros)
qed

lemma keeps_generate: "keeps d0 (generate P c)"
proof (cases "x_provider P (gc_carrier_id c)")
  case None
  then show ?thesis by (simp add: generate_def preserves_throw)
next
  case (Some pr)
  have balance: "keeps d0 (cv_balance pr)" by (rule preserves_quiet) (rule quiet_balance[OF Some])
  have carrier: "leads db (runs d0) (runs d0) (drawp (cv_generate pr m))
      (\<lambda>r d. runs d0 d \<and> (fst r = None \<longrightarrow> sm_status (snd r) = Generated))" for m
    by (rule leads_drawp) (use carriers[OF Some] in fastforce)
  have submit: "keeps d0 (bindp (drawp (cv_generate pr m)) (\<lambda>(err, m2). case err of Some e \<Rightarrow> f e m2 | None \<Rightarrow> g m2))"
    if "\<And>e m2. keeps d0 (f e m2)" "\<And>m2. sm_status m2 = Generated \<Longrightarrow> keeps d0 (g m2)"
    for m and f :: "shipping_error go_error \<Rightarrow> shipping_mark \<Rightarrow> ('w, shipping_error, shipping_mark) prog" and g
  proof (rule preserves_via[OF carrier], clarify)
    fix err m2
    show "leads db (runs d0) (\<lambda>d. runs d0 d \<and> (fst (err, m2) = None \<longrightarrow> sm_status (snd (err, m2)) = Generated))
        (case err of Some e \<Rightarrow> f e m2 | None \<Rightarrow> g m2) (\<lambda>_. runs d0)"
      by (rule leads_fact) (use that in \<open>simp add: preserves_leads split: option.split\<close>)
  qed
  show ?thesis
    unfolding generate_def Some option.case Let_def
    by (intro preserves_intros balance submit keeps_create) simp_all
qed

section \<open>The dispatch service\<close>

lemma keeps_add: "keeps d0 (x_batch_add P i j)"
  using leads_add[of d0 "\<lambda>_. True"] by (simp add: preserves_leads)

lemma keeps_close_batch: "keeps d0 (x_batch_close P i)"
  using leads_close by (simp add: preserves_leads)

lemma keeps_create_batch: "keeps d0 (create_batch P cid by)"
proof -
  let ?q = "\<lparr>bq_carrier_id = trim cid, bq_status = batch_open, bq_page = 1, bq_limit = 1\<rparr>"
  let ?free = "\<lambda>d. list_all (\<lambda>x. br_carrier_id x = trim cid \<longrightarrow> br_status x \<noteq> batch_open) (sd_batches d)"
  have query: "leads db (runs d0) (runs d0) (x_batch_list P ?q)
      (\<lambda>(rows, _) d. runs d0 d \<and> (rows = [] \<longrightarrow> trim cid \<noteq> [] \<longrightarrow> ?free d))"
    unfolding batch_ports
  proof (rule leads_repository, goal_cases)
    case (1 d e d')
    then show ?case using readonlyD[OF readonly_mark_reads(7)] by blast
  next
    case (2 d x d')
    then have "d' = d" using readonlyD[OF readonly_mark_reads(7)] by blast
    with 2 show ?case using batch_list_empty[of "trim cid" d] by (cases x) auto
  qed
  have store: "leads db (runs d0) (\<lambda>d. runs d0 d \<and> (trim cid \<noteq> [] \<longrightarrow> ?free d)) (store_batch P (new_batch i cid by now)) (\<lambda>_. runs d0)" for i now
    unfolding store_batch_def
  proof (rule leads_bindp[OF leads_guard])
    let ?b = "new_batch i cid by now"
    have b: "bt_carrier_id ?b = trim cid" "bt_status ?b = batch_open" "bt_closed_at ?b = None"
      by (simp_all add: new_batch_def batch_normalize_def)
    then have valid: "batch_validate ?b = None \<Longrightarrow> trim cid \<noteq> []"
      by (auto simp: batch_validate_def batch_normalize_def Let_def split: if_splits)
    have "leads db (runs d0) (\<lambda>d. batch_validate ?b = None \<and> runs d0 d \<and> (trim cid \<noteq> [] \<longrightarrow> ?free d))
          (x_batch_create P ?b) (\<lambda>_. runs d0)"
      unfolding batch_ports
    proof (rule leads_repository, goal_cases)
      case (1 d e d')
      then show ?case using batch_create_Inl by blast
    next
      case (2 d x d')
      with valid b batch_create_runs[of d0 d ?b x d'] show ?case by simp
    qed
    then show "leads db (runs d0) (\<lambda>d. batch_validate ?b = None \<and> runs d0 d \<and> (trim cid \<noteq> [] \<longrightarrow> ?free d))
        (bindp (x_batch_create P ?b) (\<lambda>_. bindp (announce P topic_batch_created (batch_created_payload ?b)) (\<lambda>_. ret ?b))) (\<lambda>_. runs d0)"
      by (rule leads_bindp) (unfold preserves_leads, intro preserves_intros)
  qed simp
  show ?thesis
    unfolding create_batch_def
  proof (rule preserves_via[OF query])
    fix r
    show "leads db (runs d0) ((\<lambda>(rows, _) d. runs d0 d \<and> (rows = [] \<longrightarrow> trim cid \<noteq> [] \<longrightarrow> ?free d)) r)
       (case r of (existing, _) \<Rightarrow> if existing \<noteq> [] then throw (Err ErrBatchOpenForCarrier) else
        bindp (drawp (x_uuid P)) (\<lambda>i. bindp (getp (x_now P)) (\<lambda>now. store_batch P (new_batch i cid by now)))) (\<lambda>_. runs d0)"
      unfolding prod.case_eq_if
      by (intro leads_if leads_throw leads_bindp[OF leads_quiet[OF quiet_new_id]] leads_bindp[OF leads_getp] leads_pre[OF store]) auto
  qed
qed

lemma keeps_materialize: "leads db (runs d0) (\<lambda>d. runs d0 d \<and> draftable (trim (sm_id m)) d) (materialize P m) (\<lambda>_. runs d0)"
proof (rule leads_ghost[where g = mark_statuses])
  fix f
  show "leads db (runs d0) (\<lambda>d. (runs d0 d \<and> draftable (trim (sm_id m)) d) \<and> mark_statuses d = f) (materialize P m) (\<lambda>_. runs d0)"
    by (rule leads_weaken[OF leads_materialize[of d0 m f]]) (auto simp: others_def)
qed

lemma keeps_store_draft: "keeps d0 (store_draft P b c)"
proof -
  have "sm_status (batch_mark i now cid bid c) = Quoted" for i now cid bid by (simp add: batch_mark_def)
  then show ?thesis
    unfolding store_draft_def Let_def by (intro preserves_intros keeps_create keeps_add) simp
qed

lemma keeps_find [preserves_intros]: "keeps d0 (find_existing P bid oid qid)"
  unfolding find_existing_def by (intro preserves_intros)

lemma keeps_draft: "keeps d0 (draft_mark P c)"
  unfolding draft_mark_def Let_def by (intro preserves_intros keeps_store_draft)

lemma keeps_submit_direct:
  assumes "sm_status m = Quoted"
  shows "keeps d0 (submit_direct P (materialize P) bid m)"
proof -
  let ?Q = "\<lambda>f. f (trim (sm_id m)) = Some Quoted"
  have rest: "leads db (runs d0) (runs d0) (case r of (err, m') \<Rightarrow> case err of Some e \<Rightarrow> throw e | None \<Rightarrow> x_mark_get P (sm_id m')) (\<lambda>_. runs d0)" for r
    unfolding preserves_leads by (cases r) (auto intro!: preserves_intros split: option.split)
  have "leads db (runs d0) (\<lambda>d. runs d0 d \<and> ?Q (mark_statuses d)) (materialize P m) (\<lambda>_. runs d0)"
    by (rule leads_pre[OF keeps_materialize]) (simp add: draftable_def)
  then have "leads db (runs d0) (\<lambda>d. runs d0 d \<and> ?Q (mark_statuses d))
      (bindp (x_batch_add P bid (sm_id m)) (\<lambda>_. bindp (materialize P m) (\<lambda>(err, m').
        case err of Some e \<Rightarrow> throw e | None \<Rightarrow> x_mark_get P (sm_id m')))) (\<lambda>_. runs d0)"
    by (intro leads_bindp[OF leads_add[of d0 ?Q]] leads_bindp[OF _ rest])
  then have "keeps d0 (bindp (x_mark_create P m) (\<lambda>_. bindp (x_batch_add P bid (sm_id m)) (\<lambda>_. bindp (materialize P m) (\<lambda>(err, m').
        case err of Some e \<Rightarrow> throw e | None \<Rightarrow> x_mark_get P (sm_id m')))))"
    using leads_create[of m d0] assms by (intro preserves_via) simp_all
  then show ?thesis unfolding submit_direct_def by (rule preserves_bindp[OF preserves_guard_err])
qed

text \<open>The materializer of the dispatch service is absent or the mark service of the same world.\<close>

lemma keeps_direct:
  assumes "mat = None \<or> mat = Some (materialize P)"
  shows "keeps d0 (create_direct_mark P mat c)"
proof -
  have "sm_status (batch_mark i now cid bid c) = Quoted" for i now cid bid c by (simp add: batch_mark_def)
  then show ?thesis
    using assms unfolding create_direct_mark_def Let_def
    by (elim disjE) (auto intro!: preserves_intros keeps_submit_direct)
qed

lemma materialize_known:
  "leads db (runs d0) (\<lambda>d. runs d0 d \<and> known d m \<and> sm_status m = Quoted) (materialize P m) (\<lambda>_. runs d0)"
  by (rule leads_pre[OF keeps_materialize]) (simp add: known_def draftable_def)

lemma keeps_materialize_existing:
  assumes "mat = None \<or> mat = Some (materialize P)"
  shows "leads db (runs d0) (\<lambda>d. runs d0 d \<and> known d m \<and> sm_status m = Quoted) (materialize_existing P mat m) (\<lambda>_. runs d0)"
proof -
  have rest: "leads db (runs d0) (runs d0) (case r of (err, m') \<Rightarrow> case err of Some e \<Rightarrow> throw e
      | None \<Rightarrow> bindp (tryp (x_mark_get P (sm_id m'))) (\<lambda>r. ret (case r of Inl _ \<Rightarrow> m' | Inr p \<Rightarrow> p))) (\<lambda>_. runs d0)" for r
    unfolding preserves_leads by (cases r) (auto intro!: preserves_intros split: option.split)
  from assms show ?thesis
  proof
    assume "mat = Some (materialize P)"
    then show ?thesis
      by (simp add: materialize_existing_def del: prod.case_eq_if) (rule leads_bindp[OF materialize_known rest])
  next
    assume "mat = None"
    then show ?thesis by (simp add: materialize_existing_def) (intro leads_ret, simp)
  qed
qed

lemma choose_mark_mem: "choose_mark bid qid rows = Some m \<Longrightarrow> m \<in> set rows"
proof -
  have select: "select_mark b keep selected rows = Some m \<Longrightarrow> m \<in> set rows \<or> selected = Some m" for b keep selected
    by (induction b keep selected rows rule: select_mark.induct) (auto split: if_splits option.splits)
  assume "choose_mark bid qid rows = Some m"
  then show ?thesis using select by (fastforce simp: choose_mark_def Let_def split: option.splits if_splits)
qed

lemma leads_find: "leads db (runs d0) (runs d0) (find_existing P bid oid qid) (\<lambda>r d. runs d0 d \<and> (\<forall>m. r = Some m \<longrightarrow> known d m))"
  unfolding find_existing_def
  by (intro leads_if leads_ret leads_bindp[OF leads_by_order]) (auto simp: list_all_iff dest: choose_mark_mem)

lemma keeps_create_mark:
  assumes mat: "mat = None \<or> mat = Some (materialize P)"
  shows "keeps d0 (create_batch_mark P mat direct c)"
proof -
  let ?create = "if direct then create_direct_mark P mat c else draft_mark P (trim_command c)"
  have create: "keeps d0 ?create" using keeps_direct[OF mat] keeps_draft by simp
  have "leads db (runs d0) (\<lambda>d. runs d0 d \<and> (\<forall>m. r = Some m \<longrightarrow> known d m))
     (case r of Some m \<Rightarrow> if \<not> in_batch m (trim (mc_batch_id c)) then ?create
         else if direct \<and> sm_status m = Quoted then materialize_existing P mat m else ret m
       | None \<Rightarrow> ?create) (\<lambda>_. runs d0)" for r
  proof (cases r)
    case None
    then show ?thesis using create by (simp add: preserves_leads)
  next
    case (Some m)
    have "leads db (runs d0) (\<lambda>d. runs d0 d \<and> known d m) ?create (\<lambda>_. runs d0)"
      using create unfolding preserves_leads[symmetric] by (rule leads_pre) simp
    moreover have "leads db (runs d0) (\<lambda>d. runs d0 d \<and> known d m) (materialize_existing P mat m) (\<lambda>_. runs d0)" if "sm_status m = Quoted"
      by (rule leads_pre[OF keeps_materialize_existing[OF mat]]) (simp add: that)
    ultimately show ?thesis using Some by (auto intro!: leads_if leads_ret)
  qed
  then have "keeps d0 (bindp (find_existing P bid oid qid) (\<lambda>r. case r of Some m \<Rightarrow> if \<not> in_batch m (trim (mc_batch_id c)) then ?create
         else if direct \<and> sm_status m = Quoted then materialize_existing P mat m else ret m
       | None \<Rightarrow> ?create))" for bid oid qid
    by (rule preserves_via[OF leads_find])
  then show ?thesis unfolding create_batch_mark_def Let_def by (intro preserves_if preserves_throw)
qed

lemma keeps_from_quotation:
  "mat = None \<or> mat = Some (materialize P) \<Longrightarrow> keeps d0 (create_from_quotation P mat direct bid qid)"
  unfolding create_from_quotation_def Let_def by (intro preserves_intros keeps_create_mark)

lemma keeps_update_draft: "keeps d0 (update_draft_mark P c)"
proof -
  have store: "leads db (runs d0) (\<lambda>d. runs d0 d \<and> known d m)
      (bindp (guard_err (mark_validate n)) (\<lambda>_. bindp (x_mark_update P n) (\<lambda>_. ret n))) (\<lambda>_. runs d0)"
    if "sm_status m = Quoted" "sm_id n = trim (sm_id m)" "sm_status n = Quoted" for m n
    by (intro leads_bindp[OF leads_guard] leads_bindp[OF leads_update'[THEN leads_pre]] leads_ret)
      (use that in \<open>auto simp: known_def may_become_def mark_move.complete\<close>)
  have get: "keeps d0 (bindp (x_mark_get P i) f)"
    if "\<And>m. leads db (runs d0) (\<lambda>d. runs d0 d \<and> known d m) (f m) (\<lambda>_. runs d0)" for i
      and f :: "shipping_mark \<Rightarrow> ('w, shipping_error, shipping_mark) prog"
    using that by (rule preserves_via[OF leads_get])
  show ?thesis
    unfolding update_draft_mark_def Let_def
    by (intro preserves_bindp preserves_if preserves_throw keeps_calls(7) get leads_if leads_throw leads_bindp[OF leads_getp] store) simp_all
qed

lemma keeps_remove_draft: "keeps d0 (remove_draft_mark P bid mid)"
  unfolding remove_draft_mark_def
proof (rule preserves_via[OF leads_get], intro leads_if leads_throw)
  fix m :: shipping_mark
  assume "\<not> sm_status m \<noteq> Quoted"
  then show "leads db (runs d0) (\<lambda>d. runs d0 d \<and> known d m) (bindp (x_mark_delete P (sm_id m)) (\<lambda>_. x_batch_get P (trim bid))) (\<lambda>_. runs d0)"
    by (intro leads_bindp[OF leads_delete[THEN leads_pre]] quiet_batch_get) (auto simp: known_def)
qed simp

section \<open>Closing a batch\<close>

lemma leads_materialize_all:
  "distinct (map (\<lambda>m. trim (sm_id m)) ms) \<Longrightarrow> leads db (runs d0)
     (\<lambda>d. runs d0 d \<and> (\<forall>m \<in> set ms. sm_status m = Quoted \<longrightarrow> draftable (trim (sm_id m)) d))
     (materialize_all (materialize P) ms) (\<lambda>_. runs d0)"
proof (induction ms)
  case Nil
  show ?case by (simp, intro leads_ret) simp
next
  case (Cons m ms)
  let ?A = "\<lambda>ms d. runs d0 d \<and> (\<forall>m \<in> set ms. sm_status m = Quoted \<longrightarrow> draftable (trim (sm_id m)) d)"
  have IH: "leads db (runs d0) (?A ms) (materialize_all (materialize P) ms) (\<lambda>_. runs d0)" using Cons by simp
  have rest: "leads db (runs d0) (?A ms) (case r of (err, _) \<Rightarrow> case err of None \<Rightarrow> materialize_all (materialize P) ms
      | Some e \<Rightarrow> if is_guardrail (root_cause e) then throw e else materialize_all (materialize P) ms) (\<lambda>_. runs d0)" for r
    using IH by (cases r) (auto intro!: leads_throw split: option.split)
  have step: "leads db (runs d0) (?A (m # ms)) (materialize P m) (\<lambda>_. ?A ms)" if "sm_status m = Quoted"
  proof (rule leads_ghost[where g = mark_statuses])
    fix f
    let ?B = "\<lambda>d. runs d0 d \<and> draftable (trim (sm_id m)) d \<and> others (trim (sm_id m)) f d"
    let ?open = "\<forall>x \<in> set ms. sm_status x = Quoted \<longrightarrow> f (trim (sm_id x)) = None \<or> f (trim (sm_id x)) = Some Quoted"
    have "leads db (runs d0) (\<lambda>d. ?B d \<and> ?open) (materialize P m) (\<lambda>_. ?A ms)"
    proof (rule leads_fact, rule leads_weaken[OF leads_materialize[of d0 m f]])
      fix r d
      assume ?open "runs d0 d \<and> others (trim (sm_id m)) f d \<and> sm_id (snd r) = sm_id m"
      moreover have "trim (sm_id x) \<noteq> trim (sm_id m)" if "x \<in> set ms" for x
        using Cons.prems that by (auto simp: image_iff)
      ultimately show "?A ms d" by (simp add: others_def draftable_def)
    qed simp
    then show "leads db (runs d0) (\<lambda>d. ?A (m # ms) d \<and> mark_statuses d = f) (materialize P m) (\<lambda>_. ?A ms)"
      by (rule leads_pre) (use that in \<open>auto simp: others_def draftable_def\<close>)
  qed
  show ?case
  proof (cases "sm_status m = Quoted")
    case True
    show ?thesis unfolding materialize_all.simps using True leads_bindp[OF step[OF True] rest] by (simp only: simp_thms if_False)
  next
    case False
    show ?thesis
      by (rule leads_pre[where A = "?A ms"]) (use IH False in auto)
  qed
qed

lemma keeps_close:
  assumes "mat = None \<or> mat = Some (materialize P)"
  shows "keeps d0 (close_batch P mat bid)"
proof -
  have run: "leads db (runs d0) (\<lambda>d. (runs d0 d \<and> list_all (known d) marks) \<and> distinct (map sm_id marks))
      (case mat of None \<Rightarrow> ret () | Some f \<Rightarrow> materialize_all f marks) (\<lambda>_. runs d0)" for marks
  proof (rule leads_fact)
    assume d: "distinct (map sm_id marks)"
    have all: "leads db (runs d0) (\<lambda>d. (runs d0 d \<and> list_all (known d) marks) \<and> list_all (\<lambda>m. trim (sm_id m) = sm_id m) marks)
        (materialize_all (materialize P) marks) (\<lambda>_. runs d0)"
    proof (rule leads_fact)
      assume "list_all (\<lambda>m. trim (sm_id m) = sm_id m) marks"
      then have "map (\<lambda>m. trim (sm_id m)) marks = map sm_id marks" by (simp add: list_all_iff)
      with d have "distinct (map (\<lambda>m. trim (sm_id m)) marks)" by (simp only:)
      then show "leads db (runs d0) (\<lambda>d. runs d0 d \<and> list_all (known d) marks) (materialize_all (materialize P) marks) (\<lambda>_. runs d0)"
        by (rule leads_pre[OF leads_materialize_all]) (auto simp: list_all_iff known_def draftable_def)
    qed
    have "leads db (runs d0) (\<lambda>d. runs d0 d \<and> list_all (known d) marks) (materialize_all (materialize P) marks) (\<lambda>_. runs d0)"
      by (rule leads_pre[OF all]) (auto simp: list_all_iff known_def)
    then show "leads db (runs d0) (\<lambda>d. runs d0 d \<and> list_all (known d) marks)
        (case mat of None \<Rightarrow> ret () | Some f \<Rightarrow> materialize_all f marks) (\<lambda>_. runs d0)"
      using assms by (auto intro: leads_ret)
  qed
  have loaded: "keeps d0 (bindp (x_marks_by_batch P i) (\<lambda>marks. bindp (guard_err (c marks)) (\<lambda>_.
      bindp (case mat of None \<Rightarrow> ret () | Some f \<Rightarrow> materialize_all f marks) (\<lambda>_. g))))"
    if "keeps d0 g" for i c and g :: "('w, shipping_error, dispatch_batch) prog"
  proof (rule preserves_via[OF leads_by_batch], rule leads_bindp[OF leads_guard])
    fix marks
    have "leads db (runs d0) (\<lambda>d. (runs d0 d \<and> list_all (known d) marks) \<and> distinct (map sm_id marks))
       (bindp (case mat of None \<Rightarrow> ret () | Some f \<Rightarrow> materialize_all f marks) (\<lambda>_. g)) (\<lambda>_. runs d0)"
      by (rule leads_bindp[OF run]) (use that in \<open>simp add: preserves_leads\<close>)
    then show "leads db (runs d0) (\<lambda>d. c marks = None \<and> runs d0 d \<and> list_all (known d) marks \<and> distinct (map sm_id marks))
       (bindp (case mat of None \<Rightarrow> ret () | Some f \<Rightarrow> materialize_all f marks) (\<lambda>_. g)) (\<lambda>_. runs d0)"
      by (rule leads_pre) simp
  qed simp
  show ?thesis
    unfolding close_batch_def
    by (intro preserves_bindp[OF keeps_calls(7)] preserves_if preserves_throw loaded preserves_bindp[OF keeps_close_batch]
        preserves_bindp[OF keeps_calls(1)] preserves_ret)
qed

end

end
