(* ===== verification/Shipping_Tcc.thy ===== *)
theory Shipping_Tcc
  imports Shipping_Marks
begin

text \<open>
  The carrier providers: \<^verbatim>\<open>adapter/carrier/tcc\<close> (mapping, guardrails, mark generation, quotation),
  \<^verbatim>\<open>adapter/carrier/manual\<close>, and the registry \<^verbatim>\<open>adapter/carrier/registry.go\<close>.

  The HTTP exchange with TCC is the parameter \<open>tcc_client\<close>: what the carrier answers is not known. JSON
  texts and base64 are fields of \<open>tcc_config\<close>. Request fields that are always empty are left out.
\<close>

section \<open>Numbers in requests\<close>

text \<open>\<^verbatim>\<open>FormatFloatString\<close>: whole numbers without fraction, other numbers with two digits. All numbers the
  provider formats are in cents, so the two digits are exact.\<close>

definition format_cents :: "nat \<Rightarrow> string" where
  "format_cents n = format_uint (n div 100) @ ''.'' @ [digit_char (n mod 100 div 10), digit_char (n mod 10)]"

definition format_float :: "rat \<Rightarrow> string" where
  "format_float x = (let sign = (if x < 0 then ''-'' else []); a = \<bar>x\<bar> in
     sign @ (if x = of_int \<lfloor>x\<rfloor> then format_uint (nat \<lfloor>a\<rfloor>) else format_cents (nat (go_round (a * 100)))))"

text \<open>\<^verbatim>\<open>strconv.ParseFloat\<close> on decimal notation without an exponent.\<close>

definition parse_decimal :: "string \<Rightarrow> rat option" where
  "parse_decimal s = (case split_at CHR ''.'' s of
       None \<Rightarrow> if s \<noteq> [] \<and> list_all is_digit s then Some (of_nat (digits_value s)) else None
     | Some (a, b) \<Rightarrow> if a @ b \<noteq> [] \<and> list_all is_digit (a @ b)
         then Some (of_nat (digits_value a) + of_nat (digits_value b) / 10 ^ length b) else None)"

definition parse_float :: "string \<Rightarrow> rat option" where
  "parse_float s = (case s of [] \<Rightarrow> None
     | c # s' \<Rightarrow> if c = CHR ''-'' then map_option uminus (parse_decimal s')
                 else if c = CHR ''+'' then parse_decimal s' else parse_decimal s)"

definition go_atoi :: "string \<Rightarrow> int option" where
  "go_atoi s = (let neg = has_prefix s ''-'';
       digits = (if neg \<or> has_prefix s ''+'' then tl s else s);
       n = int (digits_value digits); v = (if neg then - n else n)
     in if digits \<noteq> [] \<and> list_all is_digit digits \<and> - (2 ^ 63) \<le> v \<and> v < 2 ^ 63 then Some v else None)"

section \<open>Requests and responses\<close>

record dispatch_unit =
  du_unit_type :: string
  du_package_class :: string
  du_contains :: string
  du_weight :: string
  du_depth :: string
  du_height :: string
  du_width :: string
  du_volumetric :: string
  du_declared :: string
  du_inner_units :: string

record dispatch_request =
  dq_business_unit :: string
  dq_date :: string
  dq_account :: string
  dq_sender_id_type :: string
  dq_sender_id :: string
  dq_sender_first_last :: string
  dq_sender_second_last :: string
  dq_sender_company :: string
  dq_sender_nature :: string
  dq_sender_address :: string
  dq_sender_contact :: string
  dq_sender_email :: string
  dq_sender_phone :: string
  dq_origin_city :: string
  dq_recipient_id_type :: string
  dq_recipient_id :: string
  dq_recipient_first :: string
  dq_recipient_second :: string
  dq_recipient_first_last :: string
  dq_recipient_second_last :: string
  dq_recipient_company :: string
  dq_recipient_nature :: string
  dq_recipient_address :: string
  dq_recipient_contact :: string
  dq_recipient_email :: string
  dq_recipient_phone :: string
  dq_dest_city :: string
  dq_weight :: string
  dq_volumetric :: string
  dq_payment_form :: string
  dq_cod_amount :: "string option"
  dq_observations :: string
  dq_product_value :: "string option"
  dq_generate_documents :: string
  dq_generate_binaries :: string
  dq_units :: "dispatch_unit list"

record remittance =
  rm_code :: int
  rm_number :: string
  rm_message :: string

record dispatch_response =
  dp_result_code :: string
  dp_respuesta :: string
  dp_result_message :: string
  dp_mensaje :: string
  dp_shipment_number :: string
  dp_remesa :: string
  dp_tracking_url :: string
  dp_label_url :: string
  dp_invoice_url :: string
  dp_dispatch_id :: string
  dp_relation_url :: string
  dp_shipment_doc_url :: string
  dp_shipment_label_url :: string
  dp_remittances :: "remittance list"

text \<open>What a call returns: the bodies sent and received, and the decoded response or an error.\<close>

record dispatch_answer =
  aw_request_body :: string
  aw_response_body :: string
  aw_result :: "shipping_error go_error + dispatch_response"

record quote_request_unit =
  qi_number :: int
  qi_weight :: float64
  qi_volumetric :: float64
  qi_height :: float64
  qi_depth :: float64
  qi_width :: float64

record tcc_quote_request =
  tq_origin :: string
  tq_dest :: string
  tq_declared :: float64
  tq_account :: string
  tq_date :: string
  tq_business_unit :: int
  tq_units :: "quote_request_unit list"

record tcc_quote_response =
  tr_result_code :: string
  tr_result_message :: string
  tr_total :: float64

record quote_answer =
  qa_request_body :: string
  qa_response_body :: string
  qa_result :: "shipping_error go_error + tcc_quote_response"

record 'w tcc_client =
  tc_dispatch :: "dispatch_request \<Rightarrow> 'w \<Rightarrow> dispatch_answer \<times> 'w"
  tc_quote :: "tcc_quote_request \<Rightarrow> 'w \<Rightarrow> quote_answer \<times> 'w"

record tcc_config =
  tg_parcel_account :: string
  tg_express_account :: string
  tg_declaration :: string
  tg_sender :: address
  tg_payment_form :: int
  tg_cod_percent :: float64
  tg_json :: "dispatch_request \<Rightarrow> string"
  tg_base64 :: "string \<Rightarrow> string"
  tg_date :: "gotime \<Rightarrow> string"
  tg_query_ti :: "string \<Rightarrow> string option"

section \<open>Mapping\<close>

definition at_least :: "rat \<Rightarrow> rat \<Rightarrow> rat" where
  "at_least v minimum = (if v < minimum then minimum else v)"

definition normalize_city :: "string \<Rightarrow> string" where
  "normalize_city v = (let t = trim v in if length t = 5 \<and> list_all is_digit t then t @ ''000'' else t)"

definition split_name :: "string \<Rightarrow> nat \<Rightarrow> string" where
  "split_name v i = (let parts = go_fields (trim v) in if i \<ge> length parts then [] else parts ! i)"

definition or_else :: "string \<Rightarrow> string \<Rightarrow> string" where
  "or_else v fallback = (if trim v = [] then fallback else trim v)"

definition business_unit :: "string \<Rightarrow> int" where
  "business_unit m = (if m = mode_express then 2 else 1)"

definition account_number :: "tcc_config \<Rightarrow> string \<Rightarrow> string" where
  "account_number cfg m = (if m = mode_express then trim (tg_express_account cfg) else trim (tg_parcel_account cfg))"

definition normalize_percent :: "rat \<Rightarrow> rat" where
  "normalize_percent v = (if v < 0 then 0 else if v > 100 then 100 else round2 v)"

definition charged_for :: "rat \<Rightarrow> rat \<Rightarrow> rat" where
  "charged_for amount percent = (let a = at_least amount 0; fee = normalize_percent percent in
     if a = 0 then 0 else if fee = 0 then round2 a else round2 (a * (1 + fee / 100)))"

definition dispatch_declared :: "rat \<Rightarrow> rat" where
  "dispatch_declared v = (if v \<le> 0 then 10000 else v)"

definition result_code :: "string \<Rightarrow> int" where
  "result_code code = (let t = trim code in if t = [] then 0 else case go_atoi t of None \<Rightarrow> -1 | Some n \<Rightarrow> n)"

definition resolve_code :: "dispatch_response \<Rightarrow> string" where
  "resolve_code r = (if trim (dp_result_code r) \<noteq> [] then trim (dp_result_code r) else trim (dp_respuesta r))"

definition resolve_message :: "dispatch_response \<Rightarrow> string" where
  "resolve_message r = (if trim (dp_result_message r) \<noteq> [] then trim (dp_result_message r) else trim (dp_mensaje r))"

definition shipment_number :: "tcc_config \<Rightarrow> dispatch_response \<Rightarrow> string" where
  "shipment_number cfg r =
    (let candidates = [trim (dp_remesa r)] @ map (\<lambda>x. trim (rm_number x)) (dp_remittances r)
           @ [trim (dp_shipment_number r), trim (dp_dispatch_id r)]
           @ (if trim (dp_tracking_url r) = [] then []
              else case tg_query_ti cfg (trim (dp_tracking_url r)) of None \<Rightarrow> [] | Some ti \<Rightarrow> [trim ti])
     in case find (\<lambda>s. s \<noteq> []) candidates of None \<Rightarrow> [] | Some s \<Rightarrow> s)"

definition mark_document_url :: "dispatch_response \<Rightarrow> string" where
  "mark_document_url r = (case find (\<lambda>u. has_prefix u ''http'') (map trim [dp_shipment_label_url r,
       dp_tracking_url r, dp_label_url r, dp_shipment_doc_url r, dp_invoice_url r]) of None \<Rightarrow> [] | Some u \<Rightarrow> u)"

definition manifest_url :: "dispatch_response \<Rightarrow> string" where
  "manifest_url r = (let t = trim (dp_relation_url r) in if has_prefix t ''http'' then t else [])"

section \<open>Guardrails\<close>

definition positive_amount :: "string option \<Rightarrow> bool" where
  "positive_amount v = (case v of None \<Rightarrow> False | Some s \<Rightarrow>
     trim s \<noteq> [] \<and> (case parse_float (trim s) of None \<Rightarrow> False | Some x \<Rightarrow> x > 0))"

definition amount_pointer :: "string \<Rightarrow> string option" where
  "amount_pointer v = (if trim v = [] then None else Some (trim v))"

definition broken_rule :: "shipping_mark \<Rightarrow> dispatch_request \<Rightarrow> string option" where
  "broken_rule m r =
    (if sm_cod_charged m > 0 \<or> sm_cod_amount m > 0
     then if trim (dq_payment_form r) \<noteq> ''2'' then Some ''tcc_cod_formapago_must_be_2''
          else if \<not> positive_amount (dq_cod_amount r) then Some ''tcc_cod_recaudoproducto_required_positive''
          else if \<not> positive_amount (dq_product_value r) then Some ''tcc_cod_totalvalorproducto_required_positive''
          else None
     else if trim (dq_payment_form r) \<noteq> ''1'' then Some ''tcc_non_cod_formapago_must_be_1''
     else if dq_cod_amount r \<noteq> None then Some ''tcc_non_cod_recaudoproducto_must_not_exist''
     else if dq_product_value r \<noteq> None then Some ''tcc_non_cod_totalvalorproducto_must_not_exist''
     else None)"

definition guardrail_error :: "tcc_config \<Rightarrow> shipping_mark \<Rightarrow> string \<Rightarrow> dispatch_request \<Rightarrow> shipping_error" where
  "guardrail_error cfg m rule r = GuardrailViolation ''tcc'' (trim (sm_id m)) (trim (sm_order_id m)) (trim rule)
     (trim (tg_json cfg r))"

section \<open>Generating a mark\<close>

definition tcc_carrier :: carrier where
  "tcc_carrier = \<lparr>ca_id = ''tcc'', ca_name = ''TCC'', ca_type = CarrierApi, ca_active = True,
     ca_balance_check = False, ca_quotation = True, ca_manifest = True, ca_tracking = True, ca_needs_url = False\<rparr>"

definition snapshot_of_body :: "tcc_config \<Rightarrow> string \<Rightarrow> string" where
  "snapshot_of_body cfg body = (if body = [] then [] else tg_base64 cfg body)"

definition tcc_unit :: "tcc_config \<Rightarrow> package_unit \<Rightarrow> dispatch_unit" where
  "tcc_unit cfg u = (let n = unit_normalize u; d = pu_dimensions n in
     \<lparr>du_unit_type = ''TIPO_UND_PAQ'', du_package_class = ''CLEM_CAJA'',
      du_contains = or_else (pu_description n) (tg_declaration cfg),
      du_weight = format_float (at_least (dm_weight d) 1), du_depth = format_float (dm_depth d),
      du_height = format_float (dm_height d), du_width = format_float (dm_width d),
      du_volumetric = format_float (at_least (dm_volumetric d) 1),
      du_declared = format_float (dispatch_declared (dm_declared d)), du_inner_units = ''0''\<rparr>)"

definition tcc_sender :: "tcc_config \<Rightarrow> shipping_mark \<Rightarrow> address" where
  "tcc_sender cfg n = (if ad_name (sm_sender n) \<noteq> [] then sm_sender n else address_normalize (tg_sender cfg))"

definition tcc_charged :: "shipping_mark \<Rightarrow> rat" where
  "tcc_charged n = at_least (sm_cod_charged n) (at_least (sm_cod_amount n) 0)"

definition tcc_collect :: "shipping_mark \<Rightarrow> string option" where
  "tcc_collect n = (if tcc_charged n > 0
     then amount_pointer (format_float (at_least (tcc_charged n - sm_freight n) 0)) else None)"

definition tcc_request :: "tcc_config \<Rightarrow> gotime \<Rightarrow> shipping_mark \<Rightarrow> dispatch_request" where
  "tcc_request cfg now mark =
    (let n = mark_normalize mark; sender = tcc_sender cfg n; recipient = address_normalize (sm_recipient n) in
     \<lparr>dq_business_unit = format_uint (nat (business_unit (sm_mode mark))), dq_date = tg_date cfg now,
      dq_account = account_number cfg (sm_mode mark), dq_sender_id_type = ad_id_type sender,
      dq_sender_id = ad_id sender, dq_sender_first_last = split_name (ad_name sender) 0,
      dq_sender_second_last = split_name (ad_name sender) 1, dq_sender_company = ad_name sender,
      dq_sender_nature = ''N'', dq_sender_address = ad_line sender, dq_sender_contact = ad_name sender,
      dq_sender_email = ad_email sender, dq_sender_phone = ad_phone sender,
      dq_origin_city = normalize_city (ad_city sender), dq_recipient_id_type = ad_id_type recipient,
      dq_recipient_id = ad_id recipient, dq_recipient_first = split_name (ad_name recipient) 0,
      dq_recipient_second = split_name (ad_name recipient) 1,
      dq_recipient_first_last = split_name (ad_name recipient) 2,
      dq_recipient_second_last = split_name (ad_name recipient) 3,
      dq_recipient_company = ad_legal_name recipient, dq_recipient_nature = ''N'',
      dq_recipient_address = ad_line recipient, dq_recipient_contact = ad_phone recipient,
      dq_recipient_email = ad_email recipient, dq_recipient_phone = ad_phone recipient,
      dq_dest_city = normalize_city (ad_city recipient), dq_weight = format_float (sm_weight n),
      dq_volumetric = format_float (sm_volumetric n),
      dq_payment_form = (if tcc_charged n > 0 then ''2''
        else (if tg_payment_form cfg < 0 then ''-'' else []) @ format_uint (nat \<bar>tg_payment_form cfg\<bar>)),
      dq_cod_amount = tcc_collect n, dq_observations = sm_observations n, dq_product_value = tcc_collect n,
      dq_generate_documents = ''true'', dq_generate_binaries = ''false'',
      dq_units = map (tcc_unit cfg) (sm_units n)\<rparr>)"

text \<open>The mark after an accepted dispatch.\<close>

definition tcc_accepted :: "tcc_config \<Rightarrow> gotime \<Rightarrow> dispatch_response \<Rightarrow> shipping_mark \<Rightarrow> shipping_mark" where
  "tcc_accepted cfg now r mark =
    (let n = mark_normalize mark; number = shipment_number cfg r;
         tracking = (if number = [] then resolve_message r else number); url = manifest_url r
     in mark\<lparr>sm_tracking := trim tracking, sm_document_type := document_link, sm_document_ref := mark_document_url r,
         sm_manifest_type := (if trim url = [] then [] else document_link),
         sm_manifest_ref := (if trim url = [] then [] else url), sm_status := Generated,
         sm_weight := sm_weight n, sm_volumetric := sm_volumetric n, sm_declared := sm_declared n,
         sm_cod_amount := at_least (sm_cod_amount n) 0, sm_cod_percent := normalize_percent (sm_cod_percent n),
         sm_cod_charged := tcc_charged n, sm_sender := tcc_sender cfg n,
         sm_recipient := address_normalize (sm_recipient n), sm_units := sm_units n, sm_updated_at := now\<rparr>)"

definition rejection_text :: "dispatch_response \<Rightarrow> string" where
  "rejection_text r = (let msg = resolve_message r;
       remittance = (case dp_remittances r of [] \<Rightarrow> [] | x # _ \<Rightarrow> rm_message x)
     in ''tcc dispatch rejected: '' @ (if msg = [] \<and> remittance \<noteq> [] then remittance else msg))"

definition tcc_settle :: "tcc_config \<Rightarrow> gotime \<Rightarrow> dispatch_answer \<Rightarrow> shipping_mark
    \<Rightarrow> shipping_error go_error option \<times> shipping_mark" where
  "tcc_settle cfg now a mark =
    (let m = mark\<lparr>sm_request_snapshot := snapshot_of_body cfg (aw_request_body a),
                  sm_response_snapshot := snapshot_of_body cfg (aw_response_body a)\<rparr>
     in case aw_result a of Inl e \<Rightarrow> (Some e, m)
        | Inr r \<Rightarrow> if result_code (resolve_code r) \<noteq> 0 then (Some (Err (CarrierFailure (rejection_text r))), m)
            else if trim (mark_document_url r) = []
            then (Some (Err (CarrierFailure ''tcc dispatch rejected: shipping mark document URL is missing'')), m)
            else (None, tcc_accepted cfg now r m))"

definition tcc_generate :: "tcc_config \<Rightarrow> 'w tcc_client \<Rightarrow> ('w \<Rightarrow> gotime) \<Rightarrow> shipping_mark \<Rightarrow> 'w
    \<Rightarrow> (shipping_error go_error option \<times> shipping_mark) \<times> 'w" where
  "tcc_generate cfg client clock mark w =
    (let n = mark_normalize mark; request = tcc_request cfg (clock w) mark
     in case broken_rule n request of
          Some rule \<Rightarrow> ((Some (Err (guardrail_error cfg n rule request)),
              mark\<lparr>sm_request_snapshot := snapshot_of_body cfg (tg_json cfg request)\<rparr>), w)
        | None \<Rightarrow> (case tc_dispatch client request w of (a, w') \<Rightarrow> (tcc_settle cfg (clock w') a mark, w')))"

section \<open>Quoting\<close>

definition tcc_quote_unit :: "package_unit \<Rightarrow> quote_request_unit" where
  "tcc_quote_unit u = (let d = pu_dimensions u in \<lparr>qi_number = 1, qi_weight = at_least (dm_weight d) 1,
     qi_volumetric = at_least (dm_volumetric d) 1, qi_height = dm_height d, qi_depth = dm_depth d, qi_width = dm_width d\<rparr>)"

definition build_quote_request :: "tcc_config \<Rightarrow> gotime \<Rightarrow> quotation_request \<Rightarrow> tcc_quote_request" where
  "build_quote_request cfg now request = (let n = request_normalize request in
     \<lparr>tq_origin = normalize_city (qr_origin_city n), tq_dest = normalize_city (qr_dest_city n),
      tq_declared = qr_declared n, tq_account = trim (account_number cfg (qr_mode request)),
      tq_date = tg_date cfg now, tq_business_unit = business_unit (qr_mode n),
      tq_units = map tcc_quote_unit (qr_units n)\<rparr>)"

text \<open>The quotation of TCC expires after 60 seconds.\<close>

definition quote_to_domain :: "gotime \<Rightarrow> tcc_quote_response \<Rightarrow> quotation_request \<Rightarrow> quotation_result" where
  "quote_to_domain now r request = (let n = request_normalize request in
     \<lparr>qx_id = [], qx_order_id = qr_order_id n, qx_order_identifier = [], qx_carrier_id = ''tcc'',
      qx_origin_city = qr_origin_city n, qx_dest_city = qr_dest_city n, qx_units = [], qx_freight = tr_total r,
      qx_cod_amount = 0, qx_cod_percent = 0, qx_cod_fee = 0, qx_cod_charged = 0, qx_days = 1,
      qx_currency = ''COP'', qx_expires_at = now + 60 * 10 ^ 9, qx_raw_response = tr_result_message r,
      qx_request_snapshot = [], qx_warnings = [], qx_created_at = 0\<rparr>)"

definition quote_result :: "tcc_config \<Rightarrow> gotime \<Rightarrow> quotation_request \<Rightarrow> quote_answer
    \<Rightarrow> shipping_error go_error + quotation_result option" where
  "quote_result cfg now request a = (case qa_result a of Inl e \<Rightarrow> Inl e
   | Inr r \<Rightarrow> if result_code (tr_result_code r) \<noteq> 0
       then Inl (Err (CarrierFailure (''tcc quotation rejected: '' @ trim (tr_result_message r))))
       else (let amount = at_least (qr_cod_amount (request_normalize request)) 0;
                 percent = normalize_percent (tg_cod_percent cfg); charged = charged_for amount percent
             in Inr (Some ((quote_to_domain now r request)\<lparr>qx_cod_amount := amount, qx_cod_percent := percent,
                  qx_cod_fee := at_least (charged - amount) 0, qx_cod_charged := charged,
                  qx_request_snapshot := snapshot_of_body cfg (qa_request_body a),
                  qx_raw_response := trim (qa_response_body a)\<rparr>))))"

definition tcc_quotation :: "tcc_config \<Rightarrow> 'w tcc_client \<Rightarrow> ('w \<Rightarrow> gotime) \<Rightarrow> quotation_request
    \<Rightarrow> ('w, shipping_error, quotation_result option) prog" where
  "tcc_quotation cfg client clock request = bindp (guard_err (request_validate request)) (\<lambda>_. \<lambda>w.
     case tc_quote client (build_quote_request cfg (clock w) request) w of (a, w') \<Rightarrow>
       (quote_result cfg (clock w') request a, w'))"

definition tcc_provider :: "tcc_config \<Rightarrow> 'w tcc_client \<Rightarrow> ('w \<Rightarrow> gotime) \<Rightarrow> 'w carrier_provider" where
  "tcc_provider cfg client clock = \<lparr>cv_id = ''tcc'', cv_carrier = tcc_carrier,
     cv_quote = tcc_quotation cfg client clock, cv_generate = tcc_generate cfg client clock,
     cv_void = (\<lambda>_. ret ()), cv_balance = ret (), cv_supports_quotation = True\<rparr>"

section \<open>The manual provider\<close>

definition manual_carrier :: carrier where
  "manual_carrier = \<lparr>ca_id = ''manual'', ca_name = ''Manual'', ca_type = CarrierManual, ca_active = True,
     ca_balance_check = False, ca_quotation = False, ca_manifest = False, ca_tracking = False, ca_needs_url = True\<rparr>"

definition manual_generate :: "('w \<Rightarrow> gotime) \<Rightarrow> shipping_mark \<Rightarrow> 'w
    \<Rightarrow> (shipping_error go_error option \<times> shipping_mark) \<times> 'w" where
  "manual_generate clock mark w = ((None, mark
     \<lparr>sm_tracking := (if trim (sm_tracking mark) = []
         then ''MANUAL-'' @ filter (\<lambda>c. c \<noteq> CHR ''-'') (to_upper (trim (sm_id mark))) else sm_tracking mark),
      sm_status := Generated,
      sm_document_type := (if trim (sm_document_ref mark) = [] then []
         else if sm_document_type mark = [] then document_file else sm_document_type mark),
      sm_updated_at := clock w\<rparr>), w)"

definition manual_provider :: "('w \<Rightarrow> gotime) \<Rightarrow> 'w carrier_provider" where
  "manual_provider clock = \<lparr>cv_id = ''manual'', cv_carrier = manual_carrier,
     cv_quote = (\<lambda>_. throw (Err ErrQuotationNotSupported)), cv_generate = manual_generate clock,
     cv_void = (\<lambda>_. ret ()), cv_balance = ret (), cv_supports_quotation = False\<rparr>"

section \<open>The registry\<close>

text \<open>A later provider with the same identifier replaces an earlier one; blank identifiers are skipped.\<close>

definition registry :: "'w carrier_provider list \<Rightarrow> (string \<times> 'w carrier_provider) list" where
  "registry providers = fold (\<lambda>p acc. let key = to_lower (trim (cv_id p)) in
     if key = [] then acc else AList.update key p acc) providers []"

definition provider_of :: "(string \<times> 'w carrier_provider) list \<Rightarrow> string \<Rightarrow> 'w carrier_provider option" where
  "provider_of reg cid = map_of reg (to_lower (trim cid))"

definition registry_carriers :: "(string \<times> 'w carrier_provider) list \<Rightarrow> carrier list" where
  "registry_carriers reg = map (\<lambda>(_, p). cv_carrier p) reg"

text \<open>\<^verbatim>\<open>carrierService\<close> of the runtime.\<close>

definition list_carriers :: "(string \<times> 'w carrier_provider) list \<Rightarrow> carrier list" where
  "list_carriers reg = sort_key (\<lambda>c. to_lower (ca_id c)) (registry_carriers reg)"

definition get_carrier :: "(string \<times> 'w carrier_provider) list \<Rightarrow> string \<Rightarrow> shipping_error + carrier" where
  "get_carrier reg i = (case find (\<lambda>c. equal_fold (trim (ca_id c)) (trim i)) (registry_carriers reg) of
     None \<Rightarrow> Inl ErrShippingNotFound | Some c \<Rightarrow> Inr c)"

end
