(* ===== verification/Shipping_Quotes.thy ===== *)
theory Shipping_Quotes
  imports Shipping_Marks
begin

text \<open>
  Quotations: the quotation repository of \<^verbatim>\<open>adapter/store\<close> and the service of
  \<^verbatim>\<open>application/quotation/service\<close>, with the packing of an order into boxes.

  \<^verbatim>\<open>sort.Slice\<close> gives no guarantee about equal elements, so the packing takes a sorting function; the
  locale \<open>slice_sort\<close> says what the library promises about it.
\<close>

section \<open>The quotation repository\<close>

text \<open>An empty order identifier is stored as NULL and read back as the empty string; the query for
  duplicates treats both alike.\<close>

definition to_quote_units :: "gotime \<Rightarrow> string \<Rightarrow> package_unit list \<Rightarrow> quote_unit_row list" where
  "to_quote_units now qid units = map (\<lambda>(i, u). \<lparr>qu_id = deterministic_id qid i, qu_quote_id = qid,
     qu_index = int i + 1, qu_description = trim (pu_description u), qu_type = trim (pu_type u),
     qu_dimensions = pu_dimensions u, qu_created_at = now\<rparr>) (enumerate 0 units)"

definition to_quote_row :: "gotime \<Rightarrow> quotation_record \<Rightarrow> quote_row" where
  "to_quote_row now q = \<lparr>qt_id = qn_id q, qt_order_id = qn_order_id q, qt_order_identifier = qn_order_identifier q,
     qt_carrier_id = qn_carrier_id q, qt_origin_city = qn_origin_city q, qt_dest_city = qn_dest_city q,
     qt_freight = qn_freight q, qt_cod_fee = qn_cod_fee q, qt_days = qn_days q, qt_currency = qn_currency q,
     qt_expires_at = qn_expires_at q, qt_request_snapshot = qn_request_snapshot q,
     qt_raw_response = qn_raw_response q,
     qt_created_at = (if qn_created_at q = 0 then now else qn_created_at q)\<rparr>"

definition of_quote_unit :: "quote_unit_row \<Rightarrow> package_unit" where
  "of_quote_unit r = \<lparr>pu_description = qu_description r, pu_dimensions = qu_dimensions r, pu_type = qu_type r\<rparr>"

text \<open>A quotation without unit rows takes its units from the stored request (\<open>units_of\<close> decodes it).\<close>

definition of_quote_row :: "(string \<Rightarrow> package_unit list) \<Rightarrow> quote_row \<Rightarrow> quote_unit_row list \<Rightarrow> quotation_record" where
  "of_quote_row units_of r units = \<lparr>qn_id = qt_id r, qn_order_id = qt_order_id r,
     qn_order_identifier = qt_order_identifier r, qn_carrier_id = qt_carrier_id r,
     qn_origin_city = qt_origin_city r, qn_dest_city = qt_dest_city r, qn_freight = qt_freight r,
     qn_cod_fee = qt_cod_fee r, qn_days = qt_days r, qn_currency = qt_currency r, qn_expires_at = qt_expires_at r,
     qn_units = (if units = [] then if trim (qt_request_snapshot r) = [] then [] else units_of (trim (qt_request_snapshot r))
                 else map of_quote_unit units),
     qn_request_snapshot = qt_request_snapshot r, qn_raw_response = qt_raw_response r,
     qn_created_at = qt_created_at r\<rparr>"

definition load_quote :: "(string \<Rightarrow> package_unit list) \<Rightarrow> shipping_db \<Rightarrow> quote_row \<Rightarrow> quotation_record" where
  "load_quote units_of d r = of_quote_row units_of r
     (sort_key qu_index (filter (\<lambda>u. qu_quote_id u = qt_id r) (sd_quote_units d)))"

definition quote_expired :: "gotime \<Rightarrow> quote_row \<Rightarrow> bool" where
  "quote_expired now r \<longleftrightarrow> 0 < qt_expires_at r \<and> qt_expires_at r \<le> now"

text \<open>\<^verbatim>\<open>deleteExpiredQuotationsTx\<close>.\<close>

definition delete_expired_rows :: "int shipping_prog" where
  "delete_expired_rows =
     bindp (ship_stmt ''load expired quotation ids'' (getp (\<lambda>d. map qt_id (filter (quote_expired (sd_clock d)) (sd_quotes d))))) (\<lambda>ids.
     if ids = [] then ret 0
     else bindp (ship_stmt ''delete expired quotation units''
            (modp (\<lambda>d. d\<lparr>sd_quote_units := filter (\<lambda>u. qu_quote_id u \<notin> set ids) (sd_quote_units d)\<rparr>))) (\<lambda>_.
          bindp (ship_stmt ''delete expired quotations'' (getp (\<lambda>d. int (length (filter (\<lambda>r. qt_id r \<in> set ids) (sd_quotes d)))))) (\<lambda>n.
          bindp (modp (\<lambda>d. d\<lparr>sd_quotes := filter (\<lambda>r. qt_id r \<notin> set ids) (sd_quotes d)\<rparr>)) (\<lambda>_. ret n))))"

definition same_quote :: "gotime \<Rightarrow> quote_row \<Rightarrow> quote_row \<Rightarrow> bool" where
  "same_quote now row r \<longleftrightarrow> qt_order_id r = qt_order_id row \<and> qt_order_identifier r = qt_order_identifier row
     \<and> qt_carrier_id r = qt_carrier_id row \<and> qt_origin_city r = qt_origin_city row
     \<and> qt_dest_city r = qt_dest_city row \<and> qt_request_snapshot r = qt_request_snapshot row
     \<and> qt_expires_at r > now"

text \<open>\<^verbatim>\<open>First\<close> after \<^verbatim>\<open>ORDER BY created_at DESC\<close>: ties go to the least key.\<close>

definition newest_quote :: "(quote_row \<Rightarrow> bool) \<Rightarrow> shipping_db \<Rightarrow> quote_row option" where
  "newest_quote P d = (case sort_key (\<lambda>r. - qt_created_at r) (sort_key qt_id (filter P (sd_quotes d))) of
     [] \<Rightarrow> None | r # _ \<Rightarrow> Some r)"

definition insert_quote :: "quote_row \<Rightarrow> unit shipping_prog" where
  "insert_quote r = ship_stmt ''create quotation'' (\<lambda>d.
     if qt_id r \<in> qt_id ` set (sd_quotes d) then ship_violation ''create quotation'' d
     else (Inr (), d\<lparr>sd_quotes := sd_quotes d @ [r]\<rparr>))"

definition insert_quote_units :: "quote_unit_row list \<Rightarrow> unit shipping_prog" where
  "insert_quote_units rows = (if rows = [] then ret () else ship_stmt ''create quotation units'' (\<lambda>d.
     if distinct (map qu_id (sd_quote_units d @ rows)) then (Inr (), d\<lparr>sd_quote_units := sd_quote_units d @ rows\<rparr>)
     else ship_violation ''create quotation units'' d))"

definition quotation_create :: "quotation_record \<Rightarrow> string shipping_prog" where
  "quotation_create q = bindp (getp sd_clock) (\<lambda>now. let row = to_quote_row now q in atomically (
     bindp delete_expired_rows (\<lambda>_.
     bindp (ship_stmt ''check quotation duplicate'' (getp (newest_quote (same_quote now row)))) (\<lambda>existing.
     case existing of Some r \<Rightarrow> ret (qt_id r)
     | None \<Rightarrow> bindp (insert_quote row) (\<lambda>_.
         bindp (insert_quote_units (to_quote_units now (qn_id q) (qn_units q))) (\<lambda>_. ret (qt_id row)))))))"

definition quotation_get :: "(string \<Rightarrow> package_unit list) \<Rightarrow> string \<Rightarrow> quotation_record shipping_prog" where
  "quotation_get units_of i = ship_stmt ''load quotation by id'' (\<lambda>d.
     case find (\<lambda>r. qt_id r = trim i) (sort_key qt_id (sd_quotes d)) of
       None \<Rightarrow> (Inl (Err ErrShippingNotFound), d) | Some r \<Rightarrow> (Inr (load_quote units_of d r), d))"

definition quotation_delete_expired :: "int shipping_prog" where
  "quotation_delete_expired = atomically delete_expired_rows"

definition quotations_by_order :: "(string \<Rightarrow> package_unit list) \<Rightarrow> string \<Rightarrow> quotation_record list shipping_prog" where
  "quotations_by_order units_of oid = ship_stmt ''list quotations by order id'' (getp (\<lambda>d.
     map (load_quote units_of d) (sort_key (\<lambda>r. - qt_created_at r) (filter (\<lambda>r. qt_order_id r = trim oid) (sd_quotes d)))))"

definition latest_quotation :: "(string \<Rightarrow> package_unit list) \<Rightarrow> string \<Rightarrow> string \<Rightarrow> quotation_record option shipping_prog" where
  "latest_quotation units_of oid cid = ship_stmt ''get latest quotation by order and carrier'' (getp (\<lambda>d.
     map_option (load_quote units_of d) (newest_quote (\<lambda>r. qt_order_id r = trim oid \<and> qt_carrier_id r = trim cid
       \<and> qt_expires_at r > sd_clock d) d)))"

section \<open>Packing an order into boxes\<close>

record product_attributes =
  pt_sku :: string
  pt_weight :: float64
  pt_height :: float64
  pt_width :: float64
  pt_length :: float64
  pt_price :: float64
  pt_overlapped :: bool
  pt_valid :: bool

record package_candidate =
  pc_attributes :: product_attributes
  pc_volume :: float64

type_synonym candidate_sorter = "(package_candidate \<Rightarrow> rat) \<Rightarrow> package_candidate list \<Rightarrow> package_candidate list"

definition max_overlapped :: nat where
  "max_overlapped = 3"

text \<open>The inner loop: up to \<open>n\<close> items go into the current box.\<close>

fun fill_box :: "nat \<Rightarrow> 'a list \<Rightarrow> 'a list" where
  "fill_box 0 items = items"
| "fill_box (Suc n) [] = []"
| "fill_box (Suc n) (x # items) = fill_box n items"

fun fill_boxes :: "'a list \<Rightarrow> 'b list \<Rightarrow> 'b list" where
  "fill_boxes [] items = items"
| "fill_boxes (b # boxes) items = fill_boxes boxes (fill_box max_overlapped items)"

text \<open>Remaining items: the largest becomes a box and takes the next ones with it. The first argument
  bounds the number of rounds; the number of items is enough (\<open>promote_enough\<close>).\<close>

fun promote :: "nat \<Rightarrow> candidate_sorter \<Rightarrow> package_candidate list \<Rightarrow> package_candidate list" where
  "promote 0 srt items = []"
| "promote (Suc n) srt items = (case srt (\<lambda>c. - pc_volume c) items of [] \<Rightarrow> []
     | b # rest \<Rightarrow> b # promote n srt (fill_box max_overlapped rest))"

definition overlapped_warning :: quotation_warning where
  "overlapped_warning = \<lparr>qw_code = ''ALL_OVERLAPPED'',
     qw_message = ''all products are flagged as overlapped; the largest item is used as the main box''\<rparr>"

definition no_products_warning :: quotation_warning where
  "no_products_warning = \<lparr>qw_code = ''NO_PRODUCTS'',
     qw_message = ''no products have valid shipping dimensions; default package dimensions were used''\<rparr>"

definition box_unit :: "package_candidate \<Rightarrow> package_unit" where
  "box_unit c = (let a = pc_attributes c in unit_normalize \<lparr>pu_description = pt_sku a,
     pu_dimensions = \<lparr>dm_height = pt_height a, dm_width = pt_width a, dm_depth = pt_length a,
       dm_weight = pt_weight a, dm_volumetric = 0, dm_declared = pt_price a\<rparr>, pu_type = ''CAJA''\<rparr>)"

text \<open>The boxes that \<^verbatim>\<open>packBoxes\<close> settles on, and its warning.\<close>

definition choose_boxes :: "candidate_sorter \<Rightarrow> package_candidate list \<Rightarrow> package_candidate list \<times> quotation_warning list" where
  "choose_boxes srt candidates =
    (let main = filter (\<lambda>c. \<not> pt_overlapped (pc_attributes c)) candidates;
         overlapped = filter (\<lambda>c. pt_overlapped (pc_attributes c)) candidates;
         all_overlapped = main = [] \<and> overlapped \<noteq> [];
         largest_first = srt (\<lambda>c. - pc_volume c) overlapped;
         main' = (if all_overlapped then [hd largest_first] else main);
         overlapped' = (if all_overlapped then tl largest_first else overlapped);
         rest = fill_boxes main' (srt pc_volume overlapped')
     in (main' @ promote (length rest) srt rest, if all_overlapped then [overlapped_warning] else []))"

definition pack_boxes :: "candidate_sorter \<Rightarrow> package_candidate list \<Rightarrow> package_unit list \<times> quotation_warning list" where
  "pack_boxes srt candidates = (case choose_boxes srt candidates of (boxes, ws) \<Rightarrow> (map box_unit boxes, ws))"

definition default_unit :: "rat \<Rightarrow> package_unit" where
  "default_unit declared = unit_normalize \<lparr>pu_description = ''Default package'',
     pu_dimensions = \<lparr>dm_height = 5, dm_width = 30, dm_depth = 40, dm_weight = 1, dm_volumetric = 0, dm_declared = declared\<rparr>,
     pu_type = ''CAJA''\<rparr>"

section \<open>The quotation service\<close>

record 'w quote_ports =
  y_create :: "quotation_record \<Rightarrow> ('w, shipping_error, string) prog"
  y_delete_expired :: "('w, shipping_error, int) prog"
  y_by_order :: "string \<Rightarrow> ('w, shipping_error, quotation_record list) prog"
  y_latest :: "string \<Rightarrow> string \<Rightarrow> ('w, shipping_error, quotation_record option) prog"
  y_provider :: "string \<Rightarrow> 'w carrier_provider option"
  y_order :: "(string \<Rightarrow> ('w, shipping_error, order_data option) prog) option"
  y_product :: "((string \<Rightarrow> ('w, shipping_error, product_attributes option) prog)
                 \<times> (string \<Rightarrow> ('w, shipping_error, product_attributes option) prog)) option"
  y_now :: "'w \<Rightarrow> gotime"
  y_uuid :: "'w \<Rightarrow> string \<times> 'w"
  y_ttl_minutes :: int
  y_request_json :: "quotation_request \<Rightarrow> string"
  y_base64 :: "string \<Rightarrow> string"
  y_sort :: candidate_sorter

record quote_command =
  qc_order_id :: string
  qc_order_identifier :: string
  qc_carrier_id :: string
  qc_origin_city :: string
  qc_dest_city :: string
  qc_units :: "package_unit list"
  qc_declared :: float64
  qc_cod_amount :: float64
  qc_mode :: string

definition mode_for_units :: "package_unit list \<Rightarrow> string" where
  "mode_for_units units = (if length units \<le> 1 then mode_express else mode_parcel)"

definition normalize_money :: "rat \<Rightarrow> rat" where
  "normalize_money v = round2 (clamp0 v)"

definition apply_surcharge :: "rat \<Rightarrow> rat \<Rightarrow> rat" where
  "apply_surcharge v percent = (let a = normalize_money v; p = normalize_money percent in
     if p \<le> 0 then a else normalize_money (a * (1 + p / 100)))"

definition city_error :: "shipping_error go_error \<Rightarrow> bool" where
  "city_error e = (let msg = to_lower (error_message e) in
     contains msg ''city'' \<or> contains msg ''ciudad'' \<or> contains msg ''destino'')"

definition quote_request_of :: "quote_command \<Rightarrow> quotation_request" where
  "quote_request_of c = (let r = request_normalize \<lparr>qr_order_id = trim (qc_order_id c),
       qr_carrier_id = trim (qc_carrier_id c), qr_origin_city = trim (qc_origin_city c),
       qr_dest_city = trim (qc_dest_city c), qr_units = qc_units c, qr_declared = qc_declared c,
       qr_cod_amount = qc_cod_amount c, qr_mode = qc_mode c\<rparr>
     in r\<lparr>qr_mode := mode_for_units (qr_units r)\<rparr>)"

text \<open>The amounts of the answer: what is collected, the fee, and what the carrier is to charge.\<close>

definition settle_money :: "rat \<Rightarrow> quotation_result \<Rightarrow> quotation_result" where
  "settle_money requested r =
    (let amount = normalize_money requested; percent = normalize_money (qx_cod_percent r);
         given = normalize_money (qx_cod_charged r);
         charged = (if given \<le> 0 then apply_surcharge amount percent else given);
         r1 = r\<lparr>qx_freight := normalize_money (qx_freight r), qx_cod_amount := amount\<rparr>
     in if amount \<le> 0 then r1\<lparr>qx_cod_percent := 0, qx_cod_fee := 0, qx_cod_charged := 0\<rparr>
        else r1\<lparr>qx_cod_percent := percent, qx_cod_fee := clamp0 (normalize_money (charged - amount)),
                qx_cod_charged := charged\<rparr>)"

definition non_blank :: "string \<Rightarrow> string \<Rightarrow> string" where
  "non_blank v fallback = (if trim v = [] then fallback else v)"

text \<open>\<^verbatim>\<open>time.Duration(minutes) * time.Minute\<close> wraps around.\<close>

definition quote_expiry :: "int \<Rightarrow> gotime \<Rightarrow> gotime" where
  "quote_expiry ttl created = created + int64 ((if ttl \<le> 0 then 10 else ttl) * (60 * 10 ^ 9))"

definition complete_quote :: "int \<Rightarrow> string \<Rightarrow> gotime \<Rightarrow> quotation_request \<Rightarrow> string \<Rightarrow> quotation_result \<Rightarrow> quotation_result" where
  "complete_quote ttl i now request order_identifier r =
    (let created = (if qx_created_at r = 0 then now else qx_created_at r) in settle_money (qr_cod_amount request)
     (r\<lparr>qx_id := i, qx_created_at := created,
        qx_carrier_id := non_blank (qx_carrier_id r) (qr_carrier_id request),
        qx_order_id := non_blank (qx_order_id r) (qr_order_id request),
        qx_order_identifier := non_blank (qx_order_identifier r) (trim order_identifier),
        qx_origin_city := non_blank (qx_origin_city r) (qr_origin_city request),
        qx_dest_city := non_blank (qx_dest_city r) (qr_dest_city request),
        qx_currency := non_blank (qx_currency r) ''COP'',
        qx_expires_at := (if qx_expires_at r = 0 then quote_expiry ttl created else qx_expires_at r)\<rparr>))"

definition quote_record_of :: "'w quote_ports \<Rightarrow> quotation_request \<Rightarrow> quotation_result \<Rightarrow> quotation_record" where
  "quote_record_of P request r = \<lparr>qn_id = qx_id r, qn_order_id = qx_order_id r,
     qn_order_identifier = qx_order_identifier r, qn_carrier_id = qx_carrier_id r,
     qn_origin_city = qx_origin_city r, qn_dest_city = qx_dest_city r, qn_freight = qx_freight r,
     qn_cod_fee = qx_cod_fee r, qn_days = qx_days r, qn_currency = qx_currency r,
     qn_expires_at = qx_expires_at r, qn_units = qr_units request,
     qn_request_snapshot = y_base64 P (if trim (qx_request_snapshot r) = [] then y_request_json P request
                                       else trim (qx_request_snapshot r)),
     qn_raw_response = (if trim (qx_raw_response r) = [] then [] else y_base64 P (trim (qx_raw_response r))),
     qn_created_at = qx_created_at r\<rparr>"

definition quote :: "'w quote_ports \<Rightarrow> quote_command \<Rightarrow> ('w, shipping_error, quotation_result) prog" where
  "quote P c = (let request = quote_request_of c in
     bindp (guard_err (request_validate request)) (\<lambda>_.
     case y_provider P (qr_carrier_id request) of None \<Rightarrow> throw (Err ErrCarrierNotSupported)
     | Some pr \<Rightarrow> if \<not> cv_supports_quotation pr then throw (Err ErrQuotationNotSupported)
       else bindp (tryp (cv_quote pr request)) (\<lambda>answer. case answer of
           Inl e \<Rightarrow> throw (if city_error e then Wrapped (error_message e) (Err ErrInvalidCityCode) else e)
         | Inr None \<Rightarrow> throw (Err ErrQuotationNotSupported)
         | Inr (Some r) \<Rightarrow>
             bindp (if trim (qx_id r) = [] then drawp (y_uuid P) else ret (qx_id r)) (\<lambda>i.
             bindp (getp (y_now P)) (\<lambda>now.
             let done = complete_quote (y_ttl_minutes P) i now request (qc_order_identifier c) r
             in bindp (y_create P (quote_record_of P request done)) (\<lambda>persisted.
                ret (done\<lparr>qx_id := persisted\<rparr>)))))))"

definition purge_expired :: "'w quote_ports \<Rightarrow> ('w, shipping_error, int) prog" where
  "purge_expired P = y_delete_expired P"

definition list_quotations :: "'w quote_ports \<Rightarrow> string \<Rightarrow> ('w, shipping_error, quotation_record list) prog" where
  "list_quotations P oid = y_by_order P (trim oid)"

definition get_latest_quotation :: "'w quote_ports \<Rightarrow> string \<Rightarrow> string \<Rightarrow> ('w, shipping_error, quotation_record option) prog" where
  "get_latest_quotation P oid cid = y_latest P (trim oid) (trim cid)"

section \<open>Quoting an order\<close>

definition usable :: "shipping_error go_error + product_attributes option \<Rightarrow> product_attributes option" where
  "usable r = (case r of Inr (Some a) \<Rightarrow> if pt_valid a then Some a else None | _ \<Rightarrow> None)"

text \<open>The attributes of an item: by SKU, and by product when that gives nothing usable.\<close>

definition item_attributes :: "(string \<Rightarrow> ('w, shipping_error, product_attributes option) prog)
    \<Rightarrow> (string \<Rightarrow> ('w, shipping_error, product_attributes option) prog) \<Rightarrow> order_item_data
    \<Rightarrow> ('w, shipping_error, product_attributes option) prog" where
  "item_attributes by_sku by_id item =
    (let sku = trim (oi_sku item); pid = trim (oi_product_id item) in
     bindp (if sku = [] then ret (Inr None) else tryp (by_sku sku)) (\<lambda>r. case usable r of
         Some a \<Rightarrow> ret (Some a)
       | None \<Rightarrow> if pid = [] then ret None else bindp (tryp (by_id pid)) (\<lambda>r'. ret (usable r'))))"

fun build_candidates :: "(string \<Rightarrow> ('w, shipping_error, product_attributes option) prog)
    \<Rightarrow> (string \<Rightarrow> ('w, shipping_error, product_attributes option) prog) \<Rightarrow> order_item_data list
    \<Rightarrow> ('w, shipping_error, package_candidate list) prog" where
  "build_candidates by_sku by_id [] = ret []"
| "build_candidates by_sku by_id (item # items) = bindp (item_attributes by_sku by_id item) (\<lambda>r.
     bindp (build_candidates by_sku by_id items) (\<lambda>rest. ret ((case r of None \<Rightarrow> []
       | Some a \<Rightarrow> replicate (nat (oi_quantity item))
           \<lparr>pc_attributes = a, pc_volume = pt_height a * pt_width a * pt_length a\<rparr>) @ rest)))"

record order_packaging =
  op_order_id :: string
  op_order_identifier :: string
  op_carrier_id :: string
  op_origin_city :: string
  op_dest_city :: string
  op_units :: "package_unit list"
  op_declared :: float64
  op_cod_amount :: float64
  op_mode :: string
  op_warnings :: "quotation_warning list"

definition package_order :: "candidate_sorter \<Rightarrow> string \<Rightarrow> string \<Rightarrow> order_data \<Rightarrow> package_candidate list \<Rightarrow> order_packaging" where
  "package_order srt cid origin od candidates =
    (case pack_boxes srt candidates of (packed, ws) \<Rightarrow>
       let units = (if packed = [] then [default_unit (od_total_value od)] else packed)
       in \<lparr>op_order_id = od_order_id od, op_order_identifier = od_order_identifier od, op_carrier_id = trim cid,
           op_origin_city = trim origin, op_dest_city = od_dest_city od, op_units = units,
           op_declared = od_total_value od, op_cod_amount = od_cod_amount od, op_mode = mode_for_units units,
           op_warnings = (if candidates = [] then [no_products_warning] else []) @ ws\<rparr>)"

definition order_packaging_from_order :: "'w quote_ports \<Rightarrow> string \<Rightarrow> string \<Rightarrow> string \<Rightarrow> ('w, shipping_error, order_packaging) prog" where
  "order_packaging_from_order P identifier cid origin = (case (y_order P, y_product P) of
     (None, _) \<Rightarrow> throw (Err (SourceMissing ''order source not configured''))
   | (_, None) \<Rightarrow> throw (Err (SourceMissing ''product source not configured''))
   | (Some lookup, Some (by_sku, by_id)) \<Rightarrow>
       bindp (wrap_err ''resolve order'' (lookup (trim identifier))) (\<lambda>found. case found of
         None \<Rightarrow> throw (Err ErrInvalidID)
       | Some od \<Rightarrow> bindp (build_candidates by_sku by_id (od_items od)) (\<lambda>candidates.
           ret (package_order (y_sort P) cid origin od candidates))))"

definition quote_from_order :: "'w quote_ports \<Rightarrow> string \<Rightarrow> string \<Rightarrow> string \<Rightarrow> ('w, shipping_error, quotation_result) prog" where
  "quote_from_order P identifier cid origin = bindp (order_packaging_from_order P identifier cid origin) (\<lambda>p.
     bindp (quote P \<lparr>qc_order_id = op_order_id p, qc_order_identifier = op_order_identifier p,
       qc_carrier_id = op_carrier_id p, qc_origin_city = op_origin_city p, qc_dest_city = op_dest_city p,
       qc_units = op_units p, qc_declared = op_declared p, qc_cod_amount = op_cod_amount p, qc_mode = []\<rparr>) (\<lambda>r.
     ret (r\<lparr>qx_warnings := op_warnings p\<rparr>)))"

end
