(* ===== verification/Shipping_Module.thy ===== *)
theory Shipping_Module
  imports Shipping_Safety Shipping_Tcc Shipping_Quotes
begin

text \<open>
  The assembled shipping module (\<^verbatim>\<open>module/shipping/runtime/module.go\<close>): the services over the repository
  model, the registry with the manual provider and TCC, a publisher that logs events, streams of
  identifiers, and a TCC that answers whatever the state holds for it. It interprets \<open>shipping_world\<close>,
  and the properties of the tables follow for every sequence of calls.
\<close>

section \<open>The world\<close>

record shipping_shop =
  sp_db :: shipping_db
  sp_log :: "shipping_event list"
  sp_transport_down :: bool
  sp_uuids :: "nat \<Rightarrow> string"
  sp_uuid_next :: nat
  sp_event_ids :: "nat \<Rightarrow> string"
  sp_event_next :: nat
  sp_sent :: "dispatch_request list"
  sp_answers :: "nat \<Rightarrow> dispatch_answer"
  sp_quote_answers :: "nat \<Rightarrow> quote_answer"
  sp_quotes_asked :: nat
  sp_orders :: "string \<Rightarrow> shipping_error go_error + order_data option"
  sp_products_by_sku :: "string \<Rightarrow> shipping_error go_error + product_attributes option"
  sp_products_by_id :: "string \<Rightarrow> shipping_error go_error + product_attributes option"

text \<open>Configuration and the functions of libraries: JSON texts, Unicode decomposition.\<close>

record shipping_env =
  ev_tcc :: tcc_config
  ev_sender :: address
  ev_snapshot :: "shipping_mark \<Rightarrow> string"
  ev_request_of :: "string \<Rightarrow> quotation_request option"
  ev_units_of :: "string \<Rightarrow> package_unit list"
  ev_nfd :: "string \<Rightarrow> string"
  ev_ttl_minutes :: int
  ev_request_json :: "quotation_request \<Rightarrow> string"
  ev_base64 :: "string \<Rightarrow> string"
  ev_sort :: candidate_sorter

definition put_db :: "shipping_db \<Rightarrow> shipping_shop \<Rightarrow> shipping_shop" where
  "put_db d s = s\<lparr>sp_db := d\<rparr>"

abbreviation on_tables :: "'a shipping_prog \<Rightarrow> (shipping_shop, shipping_error, 'a) prog" where
  "on_tables \<equiv> through sp_db put_db"

definition publish_shipping_event :: "shipping_event \<Rightarrow> (shipping_shop, shipping_error, unit) prog" where
  "publish_shipping_event ev = (\<lambda>s. if sp_transport_down s then (Inl (Err ShippingPublishError), s)
     else (Inr (), s\<lparr>sp_log := sp_log s @ [ev]\<rparr>))"

definition shop_client :: "shipping_shop tcc_client" where
  "shop_client = \<lparr>tc_dispatch = (\<lambda>r s. (sp_answers s (length (sp_sent s)), s\<lparr>sp_sent := sp_sent s @ [r]\<rparr>)),
     tc_quote = (\<lambda>r s. (sp_quote_answers s (sp_quotes_asked s), s\<lparr>sp_quotes_asked := Suc (sp_quotes_asked s)\<rparr>))\<rparr>"

definition shop_now :: "shipping_shop \<Rightarrow> gotime" where
  "shop_now s = sd_clock (sp_db s)"

definition shop_registry :: "shipping_env \<Rightarrow> (string \<times> shipping_shop carrier_provider) list" where
  "shop_registry env = registry [manual_provider shop_now, tcc_provider (ev_tcc env) shop_client shop_now]"

definition shop_uuid :: "shipping_shop \<Rightarrow> string \<times> shipping_shop" where
  "shop_uuid s = (sp_uuids s (sp_uuid_next s), s\<lparr>sp_uuid_next := Suc (sp_uuid_next s)\<rparr>)"

definition shop_event_id :: "shipping_shop \<Rightarrow> string \<times> shipping_shop" where
  "shop_event_id s = (sp_event_ids s (sp_event_next s), s\<lparr>sp_event_next := Suc (sp_event_next s)\<rparr>)"

definition quote_of_record :: "shipping_env \<Rightarrow> string \<Rightarrow> (shipping_shop, shipping_error, quotation_record) prog" where
  "quote_of_record env i = on_tables (quotation_get (ev_units_of env) i)"

definition shop_ports :: "shipping_env \<Rightarrow> shipping_shop shipping_ports" where
  "shop_ports env = \<lparr>x_mark_create = (\<lambda>m. on_tables (mark_create m)), x_mark_get = (\<lambda>i. on_tables (mark_get i)),
     x_marks_by_order = (\<lambda>i. on_tables (marks_by_order i)), x_marks_by_batch = (\<lambda>i. on_tables (marks_by_batch i)),
     x_mark_update = (\<lambda>m. on_tables (mark_update m)), x_mark_delete = (\<lambda>i. on_tables (mark_delete i)),
     x_mark_list = (\<lambda>q. on_tables (mark_list q)), x_batch_create = (\<lambda>b. on_tables (batch_create b)),
     x_batch_get = (\<lambda>i. on_tables (batch_get i)), x_batch_close = (\<lambda>i. on_tables (batch_close i)),
     x_batch_add = (\<lambda>i j. on_tables (batch_add_mark i j)), x_batch_list = (\<lambda>q. on_tables (batch_list q)),
     x_quotation = quote_of_record env, x_order = Some (\<lambda>i s. (sp_orders s i, s)),
     x_publish = publish_shipping_event, x_provider = provider_of (shop_registry env), x_now = shop_now,
     x_uuid = shop_uuid, x_event_id = shop_event_id, x_snapshot = ev_snapshot env,
     x_request_of = ev_request_of env, x_nfd = ev_nfd env, x_default_sender = ev_sender env\<rparr>"

section \<open>The carriers of the module\<close>

lemma shop_registry_entries: "shop_registry env = [(''manual'', manual_provider shop_now), (''tcc'', tcc_provider (ev_tcc env) shop_client shop_now)]"
proof -
  have "trim ''manual'' = ''manual''" "trim ''tcc'' = ''tcc''" "to_lower ''manual'' = ''manual''" "to_lower ''tcc'' = ''tcc''"
    by code_simp+
  then show ?thesis by (simp add: shop_registry_def registry_def Let_def manual_provider_def tcc_provider_def)
qed

lemma shop_provider: "provider_of (shop_registry env) c = Some pr
    \<Longrightarrow> pr = manual_provider shop_now \<or> pr = tcc_provider (ev_tcc env) shop_client shop_now"
  by (auto simp: provider_of_def shop_registry_entries split: if_splits)

lemma tcc_settle_id: "tcc_settle cfg now a m = (err, m') \<Longrightarrow> sm_id m' = sm_id m \<and> (err = None \<longrightarrow> sm_status m' = Generated)"
  by (auto simp: tcc_settle_def tcc_accepted_def Let_def split: sum.splits if_splits)

lemma shop_carrier:
  assumes "provider_of (shop_registry env) c = Some pr" "cv_generate pr m w = ((err, m'), w')"
  shows "sp_db w' = sp_db w \<and> sm_id m' = sm_id m \<and> (err = None \<longrightarrow> sm_status m' = Generated)"
  using shop_provider[OF assms(1)]
proof
  assume "pr = manual_provider shop_now"
  with assms(2) show ?thesis by (auto simp: manual_provider_def manual_generate_def)
next
  assume "pr = tcc_provider (ev_tcc env) shop_client shop_now"
  with assms(2) show ?thesis
    by (auto simp: tcc_provider_def tcc_generate_def shop_client_def Let_def split: option.splits prod.splits dest: tcc_settle_id)
qed

interpretation shop: shipping_world "shop_ports env" sp_db put_db
proof (standard, goal_cases)
  case (14 i) show ?case
    unfolding shop_ports_def quote_of_record_def quotation_get_def
    by (simp, rule quiet_through, simp add: put_db_def, rule readonly_ship_stmt) (auto simp: readonly_def split: option.splits)
next
  case (15 lookup i) then show ?case by (auto simp: shop_ports_def quiet_def)
next
  case (16 ev) show ?case by (simp add: shop_ports_def quiet_def publish_shipping_event_def)
next
  case (19 c pr) then show ?case
    by (auto simp: shop_ports_def quiet_def manual_provider_def tcc_provider_def prog_simps dest!: shop_provider)
next
  case (20 c pr m w err m' w') then show ?case using shop_carrier by (simp add: shop_ports_def)
qed (simp_all add: shop_ports_def put_db_def shop_uuid_def shop_event_id_def)

section \<open>Quotations of the module\<close>

definition shop_quote_ports :: "shipping_env \<Rightarrow> shipping_shop quote_ports" where
  "shop_quote_ports env = \<lparr>y_create = (\<lambda>q. on_tables (quotation_create q)),
     y_delete_expired = on_tables quotation_delete_expired,
     y_by_order = (\<lambda>i. on_tables (quotations_by_order (ev_units_of env) i)),
     y_latest = (\<lambda>i c. on_tables (latest_quotation (ev_units_of env) i c)),
     y_provider = provider_of (shop_registry env), y_order = Some (\<lambda>i s. (sp_orders s i, s)),
     y_product = Some ((\<lambda>i s. (sp_products_by_sku s i, s)), (\<lambda>i s. (sp_products_by_id s i, s))),
     y_now = shop_now, y_uuid = shop_uuid, y_ttl_minutes = ev_ttl_minutes env,
     y_request_json = ev_request_json env, y_base64 = ev_base64 env, y_sort = ev_sort env\<rparr>"

text \<open>The quotation repository writes the tables of quotations only.\<close>

definition core_tables :: "shipping_db \<Rightarrow> mark_row list \<times> unit_row list \<times> batch_row list \<times> gotime \<times> (string \<Rightarrow> bool) \<times> (int \<Rightarrow> string \<Rightarrow> int)" where
  "core_tables d = (sd_marks d, sd_units d, sd_batches d, sd_clock d, sd_fault d, sd_tie d)"

lemma core_step: "core_tables d' = core_tables d \<Longrightarrow> ship_step d d'"
proof -
  assume "core_tables d' = core_tables d"
  then have "d' = d\<lparr>sd_quotes := sd_quotes d', sd_quote_units := sd_quote_units d'\<rparr>" by (simp add: core_tables_def)
  then show ?thesis by (metis ship_step.write_quotes)
qed

lemma preserves_ship_stmt [preserves_intros]: "preserves I m \<Longrightarrow> preserves I (ship_stmt l m)"
  by (simp add: preserves_def ship_stmt_def)

lemma core_expired: "preserves (\<lambda>d. core_tables d = c) delete_expired_rows"
  unfolding delete_expired_rows_def by (intro preserves_intros preserves_modp) (simp_all add: core_tables_def)

lemma core_quotes: "preserves (\<lambda>d. core_tables d = c) (quotation_create q)" "preserves (\<lambda>d. core_tables d = c) quotation_delete_expired"
proof -
  have "preserves (\<lambda>d. core_tables d = c) (insert_quote r)" "preserves (\<lambda>d. core_tables d = c) (insert_quote_units us)" for r us
    unfolding insert_quote_def insert_quote_units_def
    by (auto simp: preserves_def core_tables_def ship_stmt_def ship_violation_apply prog_simps)
  then show "preserves (\<lambda>d. core_tables d = c) (quotation_create q)"
    unfolding quotation_create_def Let_def by (intro preserves_intros core_expired)
qed (unfold quotation_delete_expired_def, intro preserves_intros core_expired)

lemma keeps_quote_write:
  assumes c: "\<And>c. preserves (\<lambda>d. core_tables d = c) m"
  shows "shop.keeps d0 (on_tables m)"
proof -
  have main: "runs d0 d'" if "runs d0 d" "m d = (r, d')" for d r d'
  proof -
    have "core_tables d' = core_tables d" using preservesD[OF c[of "core_tables d"] _ that(2)] by simp
    with that show ?thesis by (blast intro: runs_step core_step)
  qed
  show ?thesis unfolding preserves_leads[symmetric] by (rule shop.leads_repository) (rule main, assumption, assumption)+
qed

lemma quiet_quotes: "quiet sp_db (on_tables (quotations_by_order f i))" "quiet sp_db (on_tables (latest_quotation f i c))"
  unfolding quotations_by_order_def latest_quotation_def
  by (intro quiet_through readonly_ship_stmt readonly_basic; simp add: put_db_def)+

lemma quiet_cv_quote: "provider_of (shop_registry env) c = Some pr \<Longrightarrow> quiet sp_db (cv_quote pr r)"
proof -
  have "quiet sp_db (tcc_quotation cfg shop_client shop_now r)" for cfg
    unfolding tcc_quotation_def by (intro quiet_bindp quiet_basic) (simp add: quiet_def shop_client_def)
  then show "provider_of (shop_registry env) c = Some pr \<Longrightarrow> quiet sp_db (cv_quote pr r)"
    by (auto simp: manual_provider_def tcc_provider_def dest!: shop_provider)
qed

lemma keeps_quote: "shop.keeps d0 (quote (shop_quote_ports env) c)"
proof -
  let ?Y = "shop_quote_ports env"
  have create: "shop.keeps d0 (y_create ?Y q)" for q by (simp add: shop_quote_ports_def keeps_quote_write core_quotes)
  have uuid: "shop.keeps d0 (drawp (y_uuid ?Y))" by (rule preserves_drawp) (simp add: shop_quote_ports_def shop_uuid_def)
  have ask: "shop.keeps d0 (tryp (cv_quote pr r))" if "y_provider ?Y i = Some pr" for i pr r
    using that by (intro preserves_tryp preserves_quiet quiet_cv_quote) (simp add: shop_quote_ports_def)
  show ?thesis
    unfolding quote_def Let_def by (intro preserves_intros create uuid ask) assumption+
qed

lemma keeps_quote_order: "shop.keeps d0 (quote_from_order (shop_quote_ports env) i cid origin)"
proof -
  have cands: "shop.keeps d0 (build_candidates f g items)"
    if "\<And>i. shop.keeps d0 (f i)" "\<And>i. shop.keeps d0 (g i)" for f g items
    using that by (induction items) (auto simp: item_attributes_def Let_def intro!: preserves_intros)
  have ports: "shop.keeps d0 ((\<lambda>i s. (f s i, s)) i)" for f :: "shipping_shop \<Rightarrow> string \<Rightarrow> shipping_error go_error + 'a" and i
    by (simp add: preserves_def)
  have "shop.keeps d0 (order_packaging_from_order (shop_quote_ports env) i cid origin)"
    unfolding order_packaging_from_order_def shop_quote_ports_def quote_ports.simps prod.case option.case
    by (intro preserves_intros cands ports)
  then show ?thesis unfolding quote_from_order_def by (intro preserves_intros keeps_quote)
qed

section \<open>Calls\<close>

datatype shipping_call =
    GenerateMark generate_command
  | VoidMark string string
  | CreateBatch string string
  | DraftMark mark_command
  | CreateMark bool mark_command
  | MarkFromQuotation bool string string
  | CompleteDraft complete_draft_command
  | RemoveDraft string string
  | CloseBatch string
  | Quote quote_command
  | QuoteOrder string string string
  | PurgeQuotations
  | Elapse gotime "string \<Rightarrow> bool"

abbreviation shop_materializer :: "shipping_env \<Rightarrow> shipping_shop materializer" where
  "shop_materializer env \<equiv> Some (materialize (shop_ports env))"

text \<open>\<open>Elapse\<close> is the passage of time and a change of what the database driver does.\<close>

fun run_call :: "shipping_env \<Rightarrow> shipping_call \<Rightarrow> shipping_shop \<Rightarrow> shipping_shop" where
  "run_call env (GenerateMark c) s = snd (generate (shop_ports env) c s)"
| "run_call env (VoidMark i reason) s = snd (void_mark (shop_ports env) i reason s)"
| "run_call env (CreateBatch cid by) s = snd (create_batch (shop_ports env) cid by s)"
| "run_call env (DraftMark c) s = snd (draft_mark (shop_ports env) c s)"
| "run_call env (CreateMark direct c) s = snd (create_batch_mark (shop_ports env) (shop_materializer env) direct c s)"
| "run_call env (MarkFromQuotation direct bid qid) s =
     snd (create_from_quotation (shop_ports env) (shop_materializer env) direct bid qid s)"
| "run_call env (CompleteDraft c) s = snd (update_draft_mark (shop_ports env) c s)"
| "run_call env (RemoveDraft bid mid) s = snd (remove_draft_mark (shop_ports env) bid mid s)"
| "run_call env (CloseBatch bid) s = snd (close_batch (shop_ports env) (shop_materializer env) bid s)"
| "run_call env (Quote c) s = snd (quote (shop_quote_ports env) c s)"
| "run_call env (QuoteOrder i cid origin) s = snd (quote_from_order (shop_quote_ports env) i cid origin s)"
| "run_call env PurgeQuotations s = snd (purge_expired (shop_quote_ports env) s)"
| "run_call env (Elapse t f) s = put_db ((sp_db s)\<lparr>sd_clock := t, sd_fault := f\<rparr>) s"

definition run_calls :: "shipping_env \<Rightarrow> shipping_call list \<Rightarrow> shipping_shop \<Rightarrow> shipping_shop" where
  "run_calls env calls s = fold (run_call env) calls s"

lemma run_call_runs: "runs d0 (sp_db s) \<Longrightarrow> runs d0 (sp_db (run_call env call s))"
proof (induction call)
  case (Elapse t f)
  then show ?case using runs_step ship_step.environment by (simp add: put_db_def)
next
  case PurgeQuotations
  have "shop.keeps d0 (purge_expired (shop_quote_ports env))"
    by (simp add: purge_expired_def shop_quote_ports_def keeps_quote_write core_quotes)
  with PurgeQuotations show ?case by (simp add: preserves_def)
qed (use shop.keeps_generate shop.keeps_void shop.keeps_create_batch shop.keeps_draft shop.keeps_create_mark
    shop.keeps_from_quotation shop.keeps_update_draft shop.keeps_remove_draft shop.keeps_close keeps_quote keeps_quote_order
    in \<open>simp add: preserves_def\<close>)+

lemma run_calls_runs: "runs d0 (sp_db s) \<Longrightarrow> runs d0 (sp_db (run_calls env calls s))"
  unfolding run_calls_def by (induction calls arbitrary: s) (simp_all add: run_call_runs)

lemma run_calls_steps: "marks_ok (sp_db s) \<Longrightarrow> runs (sp_db s) (sp_db (run_calls env calls s))"
  by (rule run_calls_runs) (simp add: runs_def)

end
