(* ===== verification/Shipping_Requests.thy ===== *)
theory Shipping_Requests
  imports Shipping_Module
begin

text \<open>
  The requests that reach TCC. The locale \<open>kept_ports\<close> proves once that a predicate of the state that all
  operations of the ports keep is kept by every service; it is interpreted with the claim that all
  requests sent so far are consistent. The formatting of amounts is shown to be read back as the same
  amount, which gives the exact condition under which the guardrails refuse a mark.
\<close>

section \<open>Predicates kept by the ports\<close>

locale kept_carriers =
  fixes P :: "'w shipping_ports" and I :: "'w \<Rightarrow> bool"
  assumes kept_update: "preserves I (x_mark_update P m)"
    and kept_publish: "preserves I (x_publish P ev)"
    and kept_event_id: "preserves I (drawp (x_event_id P) :: ('w, shipping_error, string) prog)"
    and kept_carrier: "x_provider P c = Some pr \<Longrightarrow> preserves I (cv_balance pr)"
      "x_provider P c = Some pr \<Longrightarrow> preserves I (drawp (cv_generate pr m)
        :: ('w, shipping_error, shipping_error go_error option \<times> shipping_mark) prog)"
begin

lemma kept_announce [preserves_intros]: "preserves I (announce P topic p)"
  unfolding announce_def by (intro preserves_intros kept_event_id kept_publish)

lemma kept_materialize [preserves_intros]: "preserves I (materialize P m)"
proof -
  have "preserves I (fail_mark P m e)" "preserves I (complete_mark P m)" for m e
    unfolding fail_mark_def complete_mark_def Let_def by (intro preserves_intros kept_update)+
  then show ?thesis
    unfolding materialize_def Let_def
    by (auto intro!: preserves_intros kept_carrier split: option.splits)
qed

lemma kept_materialize_all [preserves_intros]: "preserves I (materialize_all (materialize P) ms)"
  by (induction ms) (auto intro!: preserves_intros split: option.splits)

end

locale kept_ports = kept_carriers P I for P :: "'w shipping_ports" and I :: "'w \<Rightarrow> bool" +
  assumes kept_marks: "preserves I (x_mark_create P m)" "preserves I (x_mark_get P i)" "preserves I (x_marks_by_order P i)"
      "preserves I (x_marks_by_batch P i)" "preserves I (x_mark_delete P i)"
    and kept_batches: "preserves I (x_batch_create P b)" "preserves I (x_batch_get P i)" "preserves I (x_batch_close P i)"
      "preserves I (x_batch_add P i j)" "preserves I (x_batch_list P q)"
    and kept_quotation: "preserves I (x_quotation P i)"
    and kept_order: "x_order P = Some lookup \<Longrightarrow> preserves I (lookup i)"
    and kept_uuid: "preserves I (drawp (x_uuid P) :: ('w, shipping_error, string) prog)"
begin

lemmas kept_calls [preserves_intros] = kept_update kept_marks kept_batches kept_quotation kept_publish kept_event_id kept_uuid

lemma kept_lookup [preserves_intros]: "preserves I (lookup_order P i)" "preserves I (enrich_command P c)"
  "preserves I (decode_request P s)"
  unfolding lookup_order_def enrich_command_def decode_request_def Let_def
  by (intro preserves_intros kept_order; assumption)+

lemma kept_generate: "preserves I (generate P c)"
  unfolding generate_def Let_def
  by (auto intro!: preserves_intros kept_carrier split: option.splits)

lemma kept_void: "preserves I (void_mark P i reason)"
  unfolding void_mark_def Let_def by (intro preserves_intros)

lemma kept_create_batch: "preserves I (create_batch P cid by)"
  unfolding create_batch_def store_batch_def
  by (auto intro!: preserves_intros)

lemma kept_find [preserves_intros]: "preserves I (find_existing P bid oid qid)"
  unfolding find_existing_def by (intro preserves_intros)

lemma kept_store_draft [preserves_intros]: "preserves I (store_draft P b c)"
  unfolding store_draft_def Let_def by (intro preserves_intros)

lemma kept_draft [preserves_intros]: "preserves I (draft_mark P c)"
  unfolding draft_mark_def Let_def by (intro preserves_intros)

lemma kept_create_mark [preserves_intros]: "preserves I (create_batch_mark P (Some (materialize P)) direct c)"
proof -
  have "preserves I (create_direct_mark P (Some (materialize P)) c)" "preserves I (materialize_existing P (Some (materialize P)) m)" for c m
    unfolding create_direct_mark_def submit_direct_def materialize_existing_def Let_def option.case
    by (auto intro!: preserves_intros split: option.splits)
  then show ?thesis
    unfolding create_batch_mark_def Let_def by (intro preserves_intros)
qed

lemma kept_from_quotation: "preserves I (create_from_quotation P (Some (materialize P)) direct bid qid)"
  unfolding create_from_quotation_def Let_def by (intro preserves_intros)

lemma kept_update_draft: "preserves I (update_draft_mark P c)"
  unfolding update_draft_mark_def Let_def by (intro preserves_intros)

lemma kept_remove_draft: "preserves I (remove_draft_mark P bid mid)"
  unfolding remove_draft_mark_def by (intro preserves_intros)

lemma kept_close: "preserves I (close_batch P (Some (materialize P)) bid)"
  unfolding close_batch_def option.case by (intro preserves_intros)

end

section \<open>Requests sent to TCC\<close>

text \<open>With collection on delivery, form of payment 2 and both amounts positive; otherwise form 1 and no
  amounts.\<close>

definition cod_consistent :: "dispatch_request \<Rightarrow> bool" where
  "cod_consistent r \<longleftrightarrow>
     (trim (dq_payment_form r) = ''1'' \<and> dq_cod_amount r = None \<and> dq_product_value r = None)
     \<or> (trim (dq_payment_form r) = ''2'' \<and> positive_amount (dq_cod_amount r) \<and> positive_amount (dq_product_value r))"

abbreviation all_consistent :: "shipping_shop \<Rightarrow> bool" where
  "all_consistent s \<equiv> list_all cod_consistent (sp_sent s)"

lemma unbroken_consistent: "broken_rule m r = None \<Longrightarrow> cod_consistent r"
  by (auto simp: broken_rule_def cod_consistent_def split: if_splits)

lemma tables_consistent [preserves_intros]: "preserves all_consistent (on_tables m)"
  by (simp add: preserves_def through_def put_db_def split: prod.split)

lemma tcc_generate_consistent: "all_consistent s \<Longrightarrow> all_consistent (snd (tcc_generate cfg shop_client clock m s))"
  by (auto simp: tcc_generate_def shop_client_def Let_def split: option.split dest: unbroken_consistent)

interpretation requests: kept_ports "shop_ports env" all_consistent
proof (standard, goal_cases)
  case 18 show ?case by (rule preserves_drawp) (simp add: shop_ports_def shop_uuid_def)
next
  case 3 show ?case by (rule preserves_drawp) (simp add: shop_ports_def shop_event_id_def)
next
  case (4 c pr) then show ?case
    by (auto simp: shop_ports_def manual_provider_def tcc_provider_def preserves_ret dest!: shop_provider)
next
  case (5 c pr m)
  then have "pr = manual_provider shop_now \<or> pr = tcc_provider (ev_tcc env) shop_client shop_now"
    using shop_provider by (simp add: shop_ports_def)
  then show ?case
    by (intro preserves_drawp) (auto simp: manual_provider_def manual_generate_def tcc_provider_def tcc_generate_consistent)
next
  case (17 lookup i) then show ?case by (auto simp: shop_ports_def preserves_def)
next
  case (2 ev) show ?case by (simp add: shop_ports_def preserves_def publish_shipping_event_def)
qed (simp_all add: shop_ports_def tables_consistent quote_of_record_def)

lemma quote_consistent: "preserves all_consistent (quote (shop_quote_ports env) c)"
proof -
  have tcc: "preserves all_consistent (tcc_quotation cfg shop_client shop_now r)" for cfg r
    unfolding tcc_quotation_def by (intro preserves_intros) (simp add: preserves_def shop_client_def)
  have ask: "preserves all_consistent (cv_quote pr r)" if "y_provider (shop_quote_ports env) i = Some pr" for i pr r
    using that tcc by (auto simp: shop_quote_ports_def manual_provider_def tcc_provider_def preserves_throw dest!: shop_provider)
  have uuid: "preserves all_consistent (drawp (y_uuid (shop_quote_ports env)) :: (shipping_shop, shipping_error, string) prog)"
    by (rule preserves_drawp) (simp add: shop_quote_ports_def shop_uuid_def)
  have create: "preserves all_consistent (y_create (shop_quote_ports env) q)" for q
    by (simp add: shop_quote_ports_def tables_consistent)
  show ?thesis
    unfolding quote_def Let_def by (intro preserves_intros ask uuid create) assumption+
qed

lemma quote_order_consistent: "preserves all_consistent (quote_from_order (shop_quote_ports env) i cid origin)"
proof -
  have read: "preserves all_consistent ((\<lambda>i s. (f s i, s)) i)" for f :: "shipping_shop \<Rightarrow> string \<Rightarrow> shipping_error go_error + 'a" and i
    by (simp add: preserves_def)
  have cands: "preserves all_consistent (build_candidates f g items)"
    if "\<And>i. preserves all_consistent (f i)" "\<And>i. preserves all_consistent (g i)" for f g items
    using that by (induction items) (auto simp: item_attributes_def Let_def intro!: preserves_intros)
  have "preserves all_consistent (order_packaging_from_order (shop_quote_ports env) i cid origin)"
    unfolding order_packaging_from_order_def shop_quote_ports_def quote_ports.simps prod.case option.case
    by (intro preserves_intros cands read)
  then show ?thesis unfolding quote_from_order_def by (intro preserves_intros quote_consistent)
qed

lemma run_call_consistent: "all_consistent s \<Longrightarrow> all_consistent (run_call env call s)"
proof (induction call)
  case (Elapse t f)
  then show ?case by (simp add: put_db_def)
next
  case PurgeQuotations
  then show ?case using tables_consistent[of quotation_delete_expired] by (simp add: purge_expired_def shop_quote_ports_def preserves_def)
qed (use requests.kept_generate requests.kept_void requests.kept_create_batch requests.kept_draft requests.kept_create_mark
    requests.kept_from_quotation requests.kept_update_draft requests.kept_remove_draft requests.kept_close
    quote_consistent quote_order_consistent in \<open>simp add: preserves_def\<close>)+

section \<open>Amounts in requests\<close>

lemma digits_value_two: "a < 10 \<Longrightarrow> b < 10 \<Longrightarrow> digits_value [digit_char a, digit_char b] = 10 * a + b"
  by (simp add: digits_value_def of_char_digit)

lemma not_digit_dot: "\<not> is_digit CHR ''.''"
  by code_simp

lemma dot_not_in_digits: "list_all is_digit s \<Longrightarrow> CHR ''.'' \<notin> set s"
  using not_digit_dot by (auto simp: list_all_iff)

lemma parse_decimal_whole: "parse_decimal (format_uint n) = Some (of_nat n)"
  using format_uint_digits[of n] dot_not_in_digits[of "format_uint n"]
  by (simp add: parse_decimal_def split_at_def)

lemma div_mod_100: "(of_nat n :: rat) = 100 * of_nat (n div 100) + of_nat (n mod 100)"
  by (metis mult_div_mod_eq of_nat_add of_nat_mult of_nat_numeral)

lemma parse_decimal_cents: "parse_decimal (format_cents n) = Some (of_nat n / 100)"
proof -
  let ?a = "format_uint (n div 100)" and ?b = "[digit_char (n mod 100 div 10), digit_char (n mod 10)]"
  have tens: "n mod 10 = n mod 100 mod 10" by (simp add: mod_mod_cancel)
  have sum: "10 * (n mod 100 div 10) + n mod 10 = n mod 100" unfolding tens by (rule mult_div_mod_eq)
  have "n mod 100 < 10 * 10" by simp
  then have small: "n mod 100 div 10 < 10" "n mod 10 < 10" by (rule less_mult_imp_div_less) simp
  have d: "list_all is_digit ?a" "digits_value ?a = n div 100" using format_uint_digits by blast+
  have b: "list_all is_digit ?b" 
    using is_digit_digit_char[OF small(1)] is_digit_digit_char[OF small(2)] by (simp only: list.pred_inject simp_thms)
  have v: "digits_value ?b = n mod 100" unfolding digits_value_two[OF small] by (rule sum)
  have "split_at CHR ''.'' (format_cents n) = Some (?a, ?b)"
    using split_at_append[OF dot_not_in_digits[OF d(1)]] by (simp add: format_cents_def)
  then have "parse_decimal (format_cents n) = Some (of_nat (n div 100) + of_nat (n mod 100) / 100)"
    using d b v unfolding parse_decimal_def by simp
  also have "of_nat (n div 100) + of_nat (n mod 100) / (100::rat) = of_nat n / 100"
    unfolding div_mod_100[of n] by (simp add: add_divide_distrib)
  finally show ?thesis by simp
qed

lemma nonneg_cents: "cents x \<Longrightarrow> 0 \<le> x \<Longrightarrow> \<exists>n. x = of_nat n / 100"
proof -
  assume "cents x" "0 \<le> x"
  then obtain k where x: "x = of_int k / 100" using cents_iff by blast
  with \<open>0 \<le> x\<close> have "0 \<le> k" by (simp add: zero_le_divide_iff)
  then have "x = of_nat (nat k) / 100" by (simp add: x)
  then show ?thesis by blast
qed

lemma floor_whole_cents: "(of_nat n / 100 :: rat) = of_int \<lfloor>of_nat n / 100 :: rat\<rfloor> \<longleftrightarrow> n mod 100 = 0"
proof -
  have "\<lfloor>of_nat n / 100 :: rat\<rfloor> = int (n div 100)"
    using floor_divide_of_nat_eq[of n 100, where 'a = rat] by simp
  with div_mod_100[of n] show ?thesis by (auto simp: field_simps)
qed

text \<open>An amount in cents is read back from its text.\<close>

lemma parse_format_float:
  assumes "cents x" "0 \<le> x"
  shows "parse_float (format_float x) = Some x"
proof -
  obtain n where x: "x = of_nat n / 100" using nonneg_cents[OF assms] by blast
  have digit: "\<not> is_digit CHR ''-''" "\<not> is_digit CHR ''+''" by code_simp+
  have plain: "parse_float s = parse_decimal s" if "s \<noteq> []" "is_digit (hd s)" for s
    using that digit by (cases s) (auto simp: parse_float_def)
  have start: "format_uint k \<noteq> []" "is_digit (hd (format_uint k))" for k
    using format_uint_digits[of k] by (auto simp: list_all_iff)
  show ?thesis
  proof (cases "n mod 100 = 0")
    case True
    have w: "x = of_int \<lfloor>x\<rfloor>" using True unfolding x floor_whole_cents .
    have n: "nat \<lfloor>\<bar>x\<bar>\<rfloor> = n div 100" using floor_divide_of_nat_eq[of n 100, where 'a = rat] by (simp add: x)
    have "of_nat (n div 100) = x" using True w floor_divide_of_nat_eq[of n 100, where 'a = rat] by (simp add: x)
    then show ?thesis using w n assms start plain[of "format_uint (n div 100)"] parse_decimal_whole
      by (simp add: format_float_def Let_def)
  next
    case False
    have w: "x \<noteq> of_int \<lfloor>x\<rfloor>" using False unfolding x floor_whole_cents .
    have n: "nat (go_round (\<bar>x\<bar> * 100)) = n" using go_round_of_int[of "int n"] by (simp add: x)
    have "format_cents n \<noteq> []" "is_digit (hd (format_cents n))" using start by (simp_all add: format_cents_def)
    then show ?thesis using w n assms plain[of "format_cents n"] parse_decimal_cents[of n]
      by (simp add: format_float_def Let_def x)
  qed
qed

lemma lead_hd: "s \<noteq> [] \<Longrightarrow> Q (hd s) \<Longrightarrow> \<forall>t \<in> set ts. t \<noteq> [] \<and> \<not> Q (hd t) \<Longrightarrow> lead ts s = None"
  by (auto simp: lead_None_iff prefix_def)

lemma trim_digit_ends: "s \<noteq> [] \<Longrightarrow> is_digit (hd s) \<Longrightarrow> is_digit (last s) \<Longrightarrow> trim s = s"
  by (intro trim_fixed lead_hd[where Q = is_digit] ws_heads ws_rev_heads) (simp_all add: hd_rev)

lemma trim_negative: "list_all is_digit s \<Longrightarrow> s \<noteq> [] \<Longrightarrow> trim (CHR ''-'' # s) = CHR ''-'' # s"
proof (rule trim_fixed)
  have "list_all (\<lambda>t. t \<noteq> [] \<and> hd t \<noteq> CHR ''-'') ws_tokens" by code_simp
  then show "lead ws_tokens (CHR ''-'' # s) = None" by (intro lead_hd[where Q = "\<lambda>c. c = CHR ''-''"]) (simp_all add: list_all_iff)
  assume "list_all is_digit s" "s \<noteq> []"
  then show "lead ws_tokens_rev (rev (CHR ''-'' # s)) = None"
    by (intro lead_hd[where Q = is_digit] ws_rev_heads) (simp_all add: hd_append hd_rev list_all_iff)
qed

lemma trim_format_float: "0 \<le> x \<Longrightarrow> trim (format_float x) = format_float x \<and> format_float x \<noteq> []"
proof -
  assume "0 \<le> x"
  have "trim (format_cents n) = format_cents n" "format_cents n \<noteq> []" for n
    using format_uint_digits[of "n div 100"]
    by (auto simp: format_cents_def list_all_iff is_digit_digit_char intro!: trim_digit_ends)
  with \<open>0 \<le> x\<close> show ?thesis by (auto simp: format_float_def Let_def)
qed

text \<open>The amount that TCC is to collect is positive as a text exactly when it is positive.\<close>

lemma positive_formatted: "cents x \<Longrightarrow> 0 \<le> x \<Longrightarrow> positive_amount (amount_pointer (format_float x)) \<longleftrightarrow> 0 < x"
  using trim_format_float[of x] parse_format_float[of x] by (simp add: positive_amount_def amount_pointer_def)

section \<open>What the guardrails refuse\<close>

lemma normalized_cod [simp]: "0 \<le> sm_cod_amount (mark_normalize m)" "0 \<le> sm_cod_charged (mark_normalize m)"
  "0 \<le> sm_freight (mark_normalize m)" "cents (sm_cod_amount (mark_normalize m))" "cents (sm_cod_charged (mark_normalize m))"
  "cents (sm_freight (mark_normalize m))"
  by (simp_all add: mark_normalize_def Let_def)

text \<open>The request built for a mark with collection on delivery is refused exactly when the amount to
  collect does not exceed the freight; the request of another mark is refused exactly when the
  configured form of payment is not 1. No other rule of the guardrails can be broken by a request that
  the provider builds.\<close>

theorem tcc_refusal:
  "broken_rule (mark_normalize m) (tcc_request cfg now m) =
    (if tcc_charged (mark_normalize m) > 0
     then if tcc_charged (mark_normalize m) \<le> sm_freight (mark_normalize m)
          then Some ''tcc_cod_recaudoproducto_required_positive'' else None
     else if tg_payment_form cfg = 1 then None else Some ''tcc_non_cod_formapago_must_be_1'')"
proof -
  let ?n = "mark_normalize m"
  have cod: "sm_cod_charged ?n > 0 \<or> sm_cod_amount ?n > 0 \<longleftrightarrow> tcc_charged ?n > 0"
    using normalized_cod(1,2)[of m] by (auto simp: tcc_charged_def at_least_def)
  have charged: "cents (tcc_charged ?n)" by (simp add: tcc_charged_def at_least_def)
  then have c: "cents (at_least (tcc_charged ?n - sm_freight ?n) 0)" "0 \<le> at_least (tcc_charged ?n - sm_freight ?n) 0"
    by (simp_all add: at_least_def cents_diff)
  have one: "format_uint k = ''1'' \<longleftrightarrow> k = 1" for k
  proof
    assume "format_uint k = ''1''"
    then have "k = digits_value ''1''" using format_uint_digits[of k] by metis
    then show "k = 1" by (simp add: digits_value_def)
  next
    show "k = 1 \<Longrightarrow> format_uint k = ''1''" by (simp, code_simp)
  qed
  have form: "trim ((if k < 0 then ''-'' else []) @ format_uint (nat \<bar>k\<bar>)) = ''1'' \<longleftrightarrow> k = 1" for k
    using format_uint_digits[of "nat \<bar>k\<bar>"] one[of "nat \<bar>k\<bar>"] by (auto simp: trim_negative)
  have two: "trim ''2'' = ''2''" by code_simp
  show ?thesis
    unfolding broken_rule_def cod tcc_request_def Let_def
    using positive_formatted[OF c] two form[of "tg_payment_form cfg"] by (auto simp: tcc_collect_def at_least_def)
qed

text \<open>C18: Along any sequence of calls of the shipping module, every request that reached TCC is consistent:
  with form of payment 2 it carries a positive amount to collect and a positive product value, and with
  form 1 it carries neither.\<close>

theorem sent_requests_consistent:
  "list_all cod_consistent (sp_sent s) \<Longrightarrow> list_all cod_consistent (sp_sent (run_calls env calls s))"
  unfolding run_calls_def by (induction calls arbitrary: s) (simp_all add: run_call_consistent)

end
