(* ===== verification/Shipping_Closing.thy ===== *)
theory Shipping_Closing
  imports Shipping_Requests
begin

text \<open>
  The close of a dispatch batch on a database that works: it either goes through, or is refused for one
  of two stated reasons; no failure of a carrier or of the event transport stops it.
\<close>

definition closed_row :: "gotime \<Rightarrow> batch_row \<Rightarrow> batch_row" where
  "closed_row now r = r\<lparr>br_status := batch_closed, br_closed_at := Some now\<rparr>"

lemma find_closed:
  assumes "find_batch d i = Some r" "br_status r = batch_open"
  shows "find_batch (close_row i d) i = Some (closed_row (timestamp0 (sd_clock d)) r)"
proof -
  define f :: "batch_row \<Rightarrow> batch_row" where "f = (\<lambda>r. if br_id r = i \<and> br_status r = batch_open
     then r\<lparr>br_status := batch_closed, br_closed_at := Some (timestamp0 (sd_clock d))\<rparr> else r)"
  have id: "br_id (f x) = br_id x" for x by (simp add: f_def)
  have "sd_batches (close_row i d) = map f (sd_batches d)" by (simp add: close_row_def f_def)
  then have "find_batch (close_row i d) i = map_option f (find_batch d i)"
    by (simp add: find_batch_def sort_key_map[symmetric] id find_map)
  with assms find_batch_Some[OF assms(1)] show ?thesis by (simp add: closed_row_def f_def)
qed

abbreviation shop_works :: "shipping_shop \<Rightarrow> bool" where
  "shop_works s \<equiv> sd_fault (sp_db s) = (\<lambda>_. False)"

lemma works_get: "shop_works s \<Longrightarrow> find_batch (sp_db s) (trim i) = Some r
    \<Longrightarrow> \<exists>ids. x_batch_get (shop_ports env) (trim i) s = (Inr (of_batch_row r ids), s)"
  by (auto simp: shop_ports_def through_def put_db_def batch_get_def load_batch_row_def list_mark_ids_def ship_stmt_def prog_simps)

lemma works_marks: "shop_works s \<Longrightarrow> \<exists>ms. x_marks_by_batch (shop_ports env) i s = (Inr ms, s)"
  by (auto simp: shop_ports_def through_def put_db_def marks_by_batch_def ship_stmt_def prog_simps)

lemma works_close:
  assumes "shop_works s" "find_batch (sp_db s) (trim i) = Some r" "br_status r = batch_open"
  shows "x_batch_close (shop_ports env) (trim i) s = (Inr (), put_db (close_row (trim i) (sp_db s)) s)"
proof -
  have "list_ex (\<lambda>r. br_id r = trim i \<and> br_status r = batch_open) (sd_batches (sp_db s))"
    using find_batch_Some[OF assms(2)] assms(3) by (auto simp: list_ex_iff)
  with assms(1) show ?thesis
    by (simp add: shop_ports_def through_def batch_close_def close_batch_row_def close_row_def ship_stmt_def prog_simps Let_def)
qed

text \<open>While drafts are submitted, the batches and the driver stay as they are.\<close>

interpretation closing: kept_carriers "shop_ports env" "\<lambda>s. sd_batches (sp_db s) = bs \<and> sd_fault (sp_db s) = f"
proof (standard, goal_cases)
  case (1 m)
  have "sd_batches (snd (mark_update m d)) = sd_batches d \<and> sd_fault (snd (mark_update m d)) = sd_fault d" for d
  proof (cases "mark_update m d")
    case (Pair r d')
    then show ?thesis
    proof (cases r)
      case (Inl e)
      with Pair mark_update_Inl show ?thesis by auto
    next
      case (Inr x)
      with Pair mark_update_Inr[of m d x d'] show ?thesis by (auto simp: replace_mark_def)
    qed
  qed
  then show ?case by (simp add: preserves_def shop_ports_def through_def put_db_def split: prod.split) (metis snd_conv)
next
  case (2 ev) show ?case by (simp add: shop_ports_def preserves_def publish_shipping_event_def)
next
  case 3 show ?case by (rule preserves_drawp) (simp add: shop_ports_def shop_event_id_def)
next
  case (4 c pr) then show ?case
    by (auto simp: shop_ports_def manual_provider_def tcc_provider_def preserves_ret dest!: shop_provider)
next
  case (5 c pr m)
  have "sp_db w' = sp_db w" if "cv_generate pr m w = (r, w')" for r w w'
    using 5 that shop_carrier by (cases r) (fastforce simp: shop_ports_def)
  then show ?case by (intro preserves_drawp) (metis prod.collapse)
qed

lemma materialize_all_error: "materialize_all f ms w = (Inl e, w') \<Longrightarrow> is_guardrail (root_cause e)
    \<or> (\<exists>m \<in> set ms. \<exists>w1 e' w2. f m w1 = (Inl e', w2))"
proof (induction ms arbitrary: w)
  case (Cons m ms)
  then show ?case
    by (fastforce simp: prog_simps split: if_splits prod.splits sum.splits option.splits)
qed (simp add: prog_simps)

text \<open>\<^verbatim>\<open>Materialize\<close> reports its error as a value.\<close>

lemma materialize_returns: "materialize (shop_ports env) m w \<noteq> (Inl e, w')"
  by (auto simp: materialize_def fail_mark_def complete_mark_def announce_def Let_def prog_simps split: option.splits prod.splits sum.splits)

lemma announce_returns: "\<exists>s'. announce (shop_ports env) topic p s = (Inr (), s') \<and> sp_db s' = sp_db s"
proof -
  have "sp_db (snd (announce (shop_ports env) topic p s)) = sp_db s" using shop.quiet_announce by (simp add: quiet_def)
  moreover have "fst (announce (shop_ports env) topic p s) = Inr ()"
    by (simp add: announce_def prog_simps split: prod.split)
  ultimately show ?thesis by (metis prod.collapse)
qed

lemma close_row_announced:
  assumes s1: "shop_works s1" "find_batch (sp_db s1) (trim bid) = Some r" and still_open: "br_status r = batch_open"
  shows "\<exists>b s3. bindp (x_batch_close (shop_ports env) (trim bid)) (\<lambda>_. bindp (x_batch_get (shop_ports env) (trim bid)) (\<lambda>b'.
        bindp (announce (shop_ports env) topic_batch_closed (batch_closed_payload b')) (\<lambda>_. ret b'))) s1 = (Inr b, s3)
    \<and> find_batch (sp_db s3) (trim bid) = Some (closed_row (timestamp0 (sd_clock (sp_db s3))) r)
    \<and> bt_id b = trim bid \<and> bt_status b = batch_closed"
proof -
  let ?P = "shop_ports env" and ?s2 = "put_db (close_row (trim bid) (sp_db s1)) s1"
  have close: "x_batch_close ?P (trim bid) s1 = (Inr (), ?s2)" by (rule works_close[OF s1 still_open])
  have s2: "sd_fault (sp_db ?s2) = (\<lambda>_. False)" "find_batch (sp_db ?s2) (trim bid) = Some (closed_row (timestamp0 (sd_clock (sp_db s1))) r)"
    using s1 find_closed[OF s1(2) still_open] by (simp_all add: put_db_def close_row_def)
  obtain ids where get: "x_batch_get ?P (trim bid) ?s2 = (Inr (of_batch_row (closed_row (timestamp0 (sd_clock (sp_db s1))) r) ids), ?s2)"
    using works_get[OF s2] by blast
  let ?b = "of_batch_row (closed_row (timestamp0 (sd_clock (sp_db s1))) r) ids"
  obtain s3 where ann: "announce ?P topic_batch_closed (batch_closed_payload ?b) ?s2 = (Inr (), s3)" "sp_db s3 = sp_db ?s2"
    using announce_returns by blast
  have "sd_clock (sp_db s3) = sd_clock (sp_db s1)" using ann(2) by (simp add: put_db_def close_row_def)
  moreover have "br_id r = trim bid" using find_batch_Some[OF s1(2)] by simp
  ultimately have "find_batch (sp_db s3) (trim bid) = Some (closed_row (timestamp0 (sd_clock (sp_db s3))) r)" "bt_id ?b = trim bid" "bt_status ?b = batch_closed"
    using ann(2) s2(2) by (simp_all add: of_batch_row_def closed_row_def)
  moreover have "bindp (x_batch_close ?P (trim bid)) (\<lambda>_. bindp (x_batch_get ?P (trim bid)) (\<lambda>b'.
      bindp (announce ?P topic_batch_closed (batch_closed_payload b')) (\<lambda>_. ret b'))) s1 = (Inr ?b, s3)"
    using close get ann(1) by (simp add: prog_simps)
  ultimately show ?thesis by blast
qed

text \<open>C17: On a database without failing statements, closing an open batch ends in one of three ways,
  whatever the carriers and the event transport do. It goes through: the stored row is closed with the
  current time and that batch is returned. Or a manual batch has an incomplete draft, and nothing
  changes. Or a guardrail refuses a draft, and the batch is as open as before.\<close>

theorem close_completes:
  assumes works: "sd_fault (sp_db s) = (\<lambda>_. False)"
    and row: "find_batch (sp_db s) (trim bid) = Some r" and still_open: "br_status r = batch_open"
  shows "case close_batch (shop_ports env) (Some (materialize (shop_ports env))) bid s of
      (Inr b, s') \<Rightarrow> find_batch (sp_db s') (trim bid) = Some (closed_row (timestamp0 (sd_clock (sp_db s'))) r)
         \<and> bt_id b = trim bid \<and> bt_status b = batch_closed
    | (Inl e, s') \<Rightarrow> (e = Err ErrManualDraftIncomplete \<and> s' = s)
         \<or> (is_guardrail (root_cause e) \<and> find_batch (sp_db s') (trim bid) = Some r)"
proof -
  let ?P = "shop_ports env"
  obtain ids where get: "x_batch_get ?P (trim bid) s = (Inr (of_batch_row r ids), s)" using works_get[OF works row] by blast
  obtain ms where marks: "x_marks_by_batch ?P (trim bid) s = (Inr ms, s)" using works_marks[OF works] by blast
  have st: "bt_status (of_batch_row r ids) \<noteq> batch_closed" using still_open by (simp add: of_batch_row_def)
  show ?thesis
  proof (cases "is_manual_carrier (bt_carrier_id (of_batch_row r ids)) \<and> validate_manual_drafts ms \<noteq> None")
    case True
    then have "validate_manual_drafts ms = Some ErrManualDraftIncomplete"
      by (auto simp: validate_manual_drafts_def split: if_splits)
    with True get marks st show ?thesis by (simp add: close_batch_def prog_simps)
  next
    case False
    then have drafts: "(if is_manual_carrier (bt_carrier_id (of_batch_row r ids)) then validate_manual_drafts ms else None) = None"
      by auto
    obtain q s1 where run: "materialize_all (materialize ?P) ms s = (q, s1)" by fastforce
    have "sd_batches (sp_db s1) = sd_batches (sp_db s) \<and> sd_fault (sp_db s1) = sd_fault (sp_db s)"
      using preservesD[OF closing.kept_materialize_all _ run] by blast
    with works row have s1: "sd_fault (sp_db s1) = (\<lambda>_. False)" "find_batch (sp_db s1) (trim bid) = Some r"
      by (simp_all add: find_batch_def)
    show ?thesis
    proof (cases q)
      case (Inl e)
      with run materialize_returns have "is_guardrail (root_cause e)" by (metis materialize_all_error)
      with get marks st drafts run Inl s1(2) show ?thesis by (simp add: close_batch_def prog_simps)
    next
      case (Inr u)
      from close_row_announced[OF s1 still_open] obtain b s3 where
        fin: "bindp (x_batch_close ?P (trim bid)) (\<lambda>_. bindp (x_batch_get ?P (trim bid)) (\<lambda>b'.
            bindp (announce ?P topic_batch_closed (batch_closed_payload b')) (\<lambda>_. ret b'))) s1 = (Inr b, s3)"
          and closed: "find_batch (sp_db s3) (trim bid) = Some (closed_row (timestamp0 (sd_clock (sp_db s3))) r)"
            "bt_id b = trim bid" "bt_status b = batch_closed" by blast
      have "close_batch ?P (Some (materialize ?P)) bid s = (Inr b, s3)"
        using get marks st drafts run Inr fin by (simp add: close_batch_def prog_simps)
      with closed show ?thesis by simp
    qed
  qed
qed

end
