(* ===== verification/Shipping_Packing.thy ===== *)
theory Shipping_Packing
  imports Shipping_Quotes
begin

text \<open>
  The packing of an order into boxes: how many boxes there are and what is in them, for every sorting
  function that does what \<^verbatim>\<open>sort.Slice\<close> promises.
\<close>

section \<open>What sorting promises\<close>

locale slice_sort =
  fixes srt :: candidate_sorter
  assumes srt_mset: "mset (srt f xs) = mset xs"
    and srt_sorted: "sorted (map f (srt f xs))"
begin

lemma length_srt [simp]: "length (srt f xs) = length xs"
  using srt_mset by (metis size_mset)

lemma srt_Nil_iff [simp]: "srt f xs = [] \<longleftrightarrow> xs = []"
  by (metis length_srt length_0_conv)

lemma srt_Nil [simp]: "srt f [] = []"
  by simp

lemma set_srt [simp]: "set (srt f xs) = set xs"
  using srt_mset by (metis set_mset_mset)

end

interpretation stable_sort: slice_sort sort_key
  by unfold_locales simp_all

section \<open>Filling boxes\<close>

lemma fill_box_drop [simp]: "fill_box n xs = drop n xs"
  by (induction n xs rule: fill_box.induct) auto

lemma fill_boxes_drop: "fill_boxes bs xs = drop (max_overlapped * length bs) xs"
  by (induction bs xs rule: fill_boxes.induct) (simp_all add: ac_simps)

context slice_sort
begin

lemma promote_length:
  "length xs \<le> n \<Longrightarrow> length (promote n srt xs) = (length xs + 3) div 4"
proof (induction n arbitrary: xs)
  case (Suc n)
  show ?case
  proof (cases "srt (\<lambda>c. - pc_volume c) xs")
    case (Cons b rest)
    then have len: "length xs = Suc (length rest)" using length_srt[of "\<lambda>c. - pc_volume c" xs] by simp
    with Suc have "length (promote n srt (drop 3 rest)) = (length rest - 3 + 3) div 4" by simp
    with Cons len show ?thesis by (cases "length rest \<le> 3") (auto simp: max_overlapped_def)
  qed (use Suc in simp)
qed simp

lemma promote_mset: "length xs \<le> n \<Longrightarrow> mset (promote n srt xs) \<subseteq># mset xs"
proof (induction n arbitrary: xs)
  case (Suc n)
  show ?case
  proof (cases "srt (\<lambda>c. - pc_volume c) xs")
    case (Cons b rest)
    then have len: "length xs = Suc (length rest)" using length_srt[of "\<lambda>c. - pc_volume c" xs] by simp
    with Suc have "mset (promote n srt (drop max_overlapped rest)) \<subseteq># mset (drop max_overlapped rest)" by simp
    also have "\<dots> \<subseteq># mset rest"
      by (metis append_take_drop_id mset_append mset_subset_eq_add_right)
    finally have sub: "mset (promote n srt (drop max_overlapped rest)) \<subseteq># mset rest" .
    have "mset xs = add_mset b (mset rest)" using Cons srt_mset[of "\<lambda>c. - pc_volume c" xs] by simp
    with sub Cons show ?thesis by simp
  qed simp
qed simp

lemma promote_first_largest:
  assumes "x \<in> set xs" "promote n srt xs = b # bs"
  shows "pc_volume x \<le> pc_volume b"
proof -
  obtain rest where "srt (\<lambda>c. - pc_volume c) xs = b # rest"
    using assms(2) by (cases n) (auto split: list.splits)
  with srt_sorted[of "\<lambda>c. - pc_volume c" xs] set_srt[of "\<lambda>c. - pc_volume c" xs] assms(1) show ?thesis by auto
qed

lemma choose_boxes_cases:
  assumes "choose_boxes srt cs = (boxes, ws)"
  obtains (mixed) rest where
      "boxes = filter (\<lambda>c. \<not> pt_overlapped (pc_attributes c)) cs @ promote (length rest) srt rest"
      "rest = drop (3 * length (filter (\<lambda>c. \<not> pt_overlapped (pc_attributes c)) cs))
                (srt pc_volume (filter (\<lambda>c. pt_overlapped (pc_attributes c)) cs))"
      "ws = []" "filter (\<lambda>c. \<not> pt_overlapped (pc_attributes c)) cs \<noteq> [] \<or> cs = []"
    | (all_overlapped) b others rest where
      "filter (\<lambda>c. \<not> pt_overlapped (pc_attributes c)) cs = []"
      "srt (\<lambda>c. - pc_volume c) (filter (\<lambda>c. pt_overlapped (pc_attributes c)) cs) = b # others"
      "rest = drop 3 (srt pc_volume others)" "boxes = b # promote (length rest) srt rest"
      "ws = [overlapped_warning]"
proof (cases "filter (\<lambda>c. \<not> pt_overlapped (pc_attributes c)) cs = []
    \<and> filter (\<lambda>c. pt_overlapped (pc_attributes c)) cs \<noteq> []")
  case True
  then obtain b others where
    "srt (\<lambda>c. - pc_volume c) (filter (\<lambda>c. pt_overlapped (pc_attributes c)) cs) = b # others"
    by (metis srt_Nil_iff neq_Nil_conv)
  with True assms show ?thesis
    by (intro all_overlapped) (auto simp: choose_boxes_def Let_def fill_boxes_drop max_overlapped_def)
next
  case False
  then have "filter (\<lambda>c. \<not> pt_overlapped (pc_attributes c)) cs \<noteq> [] \<or> cs = []" by (cases cs) (auto simp: filter_empty_conv)
  with False assms show ?thesis
    by (intro mixed) (auto simp: choose_boxes_def Let_def fill_boxes_drop max_overlapped_def)
qed

lemma boxes_count:
  assumes "choose_boxes srt cs = (boxes, ws)"
  shows "length boxes = max (length (filter (\<lambda>c. \<not> pt_overlapped (pc_attributes c)) cs)) ((length cs + 3) div 4)"
proof -
  have split: "length cs = length (filter (\<lambda>c. \<not> pt_overlapped (pc_attributes c)) cs)
      + length (filter (\<lambda>c. pt_overlapped (pc_attributes c)) cs)"
    using sum_length_filter_compl[of "\<lambda>c. pt_overlapped (pc_attributes c)" cs] by simp
  from assms show ?thesis
  proof (cases rule: choose_boxes_cases)
    case (mixed rest)
    with split show ?thesis by (simp add: promote_length)
  next
    case (all_overlapped b others rest)
    then have "length (filter (\<lambda>c. pt_overlapped (pc_attributes c)) cs) = Suc (length others)"
      using length_srt[of "\<lambda>c. - pc_volume c" "filter (\<lambda>c. pt_overlapped (pc_attributes c)) cs"] by simp
    with all_overlapped split show ?thesis by (simp add: promote_length)
  qed
qed

lemma boxes_from_items:
  assumes "choose_boxes srt cs = (boxes, ws)"
  shows "mset boxes \<subseteq># mset cs"
proof -
  let ?main = "filter (\<lambda>c. \<not> pt_overlapped (pc_attributes c)) cs" and ?over = "filter (\<lambda>c. pt_overlapped (pc_attributes c)) cs"
  have split: "mset cs = mset ?main + mset ?over"
    using multiset_partition[of "mset cs" "\<lambda>c. \<not> pt_overlapped (pc_attributes c)"] by simp
  have sub: "mset (promote (length (drop n (srt f xs))) srt (drop n (srt f xs))) \<subseteq># mset xs" for n f xs
  proof -
    have "mset (drop n (srt f xs)) \<subseteq># mset xs"
      by (metis append_take_drop_id mset_append mset_subset_eq_add_right srt_mset)
    with promote_mset[of "drop n (srt f xs)"] show ?thesis by (meson order_refl subset_mset.order_trans)
  qed
  from assms show ?thesis
  proof (cases rule: choose_boxes_cases)
    case (mixed rest)
    have "mset boxes = mset ?main + mset (promote (length rest) srt rest)" by (simp only: mixed(1) mset_append)
    moreover have "mset (promote (length rest) srt rest) \<subseteq># mset ?over" unfolding mixed(2) by (rule sub)
    ultimately show ?thesis unfolding split by (simp only: subset_mset.add_left_mono)
  next
    case (all_overlapped b others rest)
    then have "mset ?over = add_mset b (mset others)" using srt_mset[of "\<lambda>c. - pc_volume c" ?over] by simp
    moreover have "mset (promote (length rest) srt rest) \<subseteq># mset others" unfolding all_overlapped(3) by (rule sub)
    ultimately show ?thesis unfolding split all_overlapped(1,4) by simp
  qed
qed

lemma box_kinds:
  assumes "choose_boxes srt cs = (boxes, ws)"
  shows "set (filter (\<lambda>c. \<not> pt_overlapped (pc_attributes c)) cs) \<subseteq> set boxes"
    and "ws = [overlapped_warning] \<longleftrightarrow> cs \<noteq> [] \<and> list_all (\<lambda>c. pt_overlapped (pc_attributes c)) cs"
  using assms by (cases rule: choose_boxes_cases; fastforce simp: filter_empty_conv list_all_iff)+

end

section \<open>The packing\<close>

text \<open>C21: Whatever sorting does with items of equal volume, \<^verbatim>\<open>packBoxes\<close> makes as many boxes as there are
  items that cannot be nested, or a quarter of all items, rounded up, if that is more: never more than
  three nested items per box, and no box that is not needed. Every box is one of the items with its own
  measures (the weight of nested items is not counted), every item that cannot be nested is a box, and
  the warning is given exactly when there are items and all of them can be nested.\<close>

theorem pack_boxes_count:
  assumes "slice_sort srt" and "pack_boxes srt cs = (units, ws)"
  shows "length units = max (length (filter (\<lambda>c. \<not> pt_overlapped (pc_attributes c)) cs)) ((length cs + 3) div 4)
    \<and> mset units \<subseteq># image_mset box_unit (mset cs)
    \<and> set (map box_unit (filter (\<lambda>c. \<not> pt_overlapped (pc_attributes c)) cs)) \<subseteq> set units
    \<and> (ws = [overlapped_warning] \<longleftrightarrow> cs \<noteq> [] \<and> list_all (\<lambda>c. pt_overlapped (pc_attributes c)) cs)"
proof -
  obtain boxes where b: "choose_boxes srt cs = (boxes, ws)" "units = map box_unit boxes"
    using assms(2) by (auto simp: pack_boxes_def split: prod.splits)
  from slice_sort.boxes_from_items[OF assms(1) b(1)] have "mset units \<subseteq># image_mset box_unit (mset cs)"
    by (simp add: b(2) image_mset_subseteq_mono)
  with b slice_sort.boxes_count[OF assms(1) b(1)] slice_sort.box_kinds[OF assms(1) b(1)] show ?thesis by auto
qed

end
