(* ===== verification/Shipping_Properties.thy ===== *)
theory Shipping_Properties
  imports Shipping_Closing Shipping_Packing
begin

text \<open>
  The properties of the shipping tables along every sequence of calls of the module, and the concrete
  shop on which the properties are exercised: an open batch of TCC with one draft, and an older batch
  that is closed.
\<close>

section \<open>A concrete shop\<close>

definition sample_unit :: package_unit where
  "sample_unit = \<lparr>pu_description = ''box'', pu_dimensions = \<lparr>dm_height = 10, dm_width = 20, dm_depth = 30,
     dm_weight = 2, dm_volumetric = 0, dm_declared = 5000\<rparr>, pu_type = ''CAJA''\<rparr>"

definition sample_mark :: shipping_mark where
  "sample_mark = \<lparr>sm_id = ''m1'', sm_order_id = ''o1'', sm_carrier_id = ''tcc'', sm_tracking = [], sm_status = Quoted,
     sm_document_type = [], sm_document_ref = [], sm_manifest_type = [], sm_manifest_ref = [],
     sm_sender = empty_address, sm_recipient = empty_address, sm_units = [sample_unit], sm_weight = 0,
     sm_volumetric = 0, sm_declared = 0, sm_payment_form = [], sm_cod_amount = 0, sm_cod_percent = 0,
     sm_cod_charged = 0, sm_observations = [], sm_batch_id = Some ''b1'', sm_quotation_id = None, sm_freight = 0,
     sm_mode = mode_express, sm_draft_snapshot = [], sm_request_snapshot = [], sm_response_snapshot = [],
     sm_failure = [], sm_custom_url = None, sm_created_at = 5, sm_updated_at = 5\<rparr>"

definition sample_batches :: "batch_row list" where
  "sample_batches = [\<lparr>br_id = ''b0'', br_carrier_id = ''tcc'', br_status = batch_closed, br_created_by = ''ana'',
       br_created_at = 1, br_closed_at = Some 2\<rparr>,
     \<lparr>br_id = ''b1'', br_carrier_id = ''tcc'', br_status = batch_open, br_created_by = ''ana'',
       br_created_at = 3, br_closed_at = None\<rparr>]"

definition sample_db :: shipping_db where
  "sample_db = with_mark (mark_row_of (mark_normalize sample_mark) ''o1'' 5 9) (mark_unit_rows (mark_normalize sample_mark))
     \<lparr>sd_marks = [], sd_units = [], sd_batches = sample_batches, sd_quotes = [], sd_quote_units = [],
      sd_clock = 9, sd_fault = (\<lambda>_. False), sd_tie = (\<lambda>_ _. 0)\<rparr>"

definition sample_shop :: shipping_shop where
  "sample_shop = \<lparr>sp_db = sample_db, sp_log = [], sp_transport_down = False, sp_uuids = (\<lambda>n. ''u'' @ format_uint n),
     sp_uuid_next = 0, sp_event_ids = (\<lambda>n. ''e'' @ format_uint n), sp_event_next = 0, sp_sent = [],
     sp_answers = (\<lambda>_. \<lparr>aw_request_body = [], aw_response_body = [], aw_result = Inl (Err (ClientFailure ''timeout''))\<rparr>),
     sp_quote_answers = (\<lambda>_. \<lparr>qa_request_body = [], qa_response_body = [], qa_result = Inl (Err (ClientFailure ''timeout''))\<rparr>),
     sp_quotes_asked = 0, sp_orders = (\<lambda>_. Inr None), sp_products_by_sku = (\<lambda>_. Inr None),
     sp_products_by_id = (\<lambda>_. Inr None)\<rparr>"

definition sample_env :: shipping_env where
  "sample_env = \<lparr>ev_tcc = \<lparr>tg_parcel_account = ''1'', tg_express_account = ''2'', tg_declaration = ''goods'',
       tg_sender = empty_address, tg_payment_form = 1, tg_cod_percent = 3, tg_json = (\<lambda>_. ''{}''),
       tg_base64 = (\<lambda>s. s), tg_date = (\<lambda>_. ''2024-01-01''), tg_query_ti = (\<lambda>_. None)\<rparr>,
     ev_sender = empty_address, ev_snapshot = (\<lambda>_. ''{}''), ev_request_of = (\<lambda>_. None), ev_units_of = (\<lambda>_. []),
     ev_nfd = (\<lambda>s. s), ev_ttl_minutes = 10, ev_request_json = (\<lambda>_. ''{}''), ev_base64 = (\<lambda>s. s),
     ev_sort = sort_key\<rparr>"

lemma sample_marks_ok: "marks_ok (sp_db sample_shop)"
proof -
  have "marks_ok \<lparr>sd_marks = [], sd_units = [], sd_batches = sample_batches, sd_quotes = [], sd_quote_units = [],
      sd_clock = 9, sd_fault = (\<lambda>_. False), sd_tie = (\<lambda>_ _. 0)\<rparr>"
    by (simp add: marks_ok_def tracking_unique_def)
  then show ?thesis
    unfolding sample_shop_def sample_db_def shipping_shop.simps by (rule marks_ok_insert) (simp_all add: tracking_taken_def)
qed

lemma sample_batches_ok: "batches_ok (sp_db sample_shop)"
  by (simp add: batches_ok_def open_batches_for_def sample_shop_def sample_db_def sample_batches_def)

section \<open>The tables\<close>

text \<open>C15: Whatever calls the shipping module serves, and whenever statements fail, its tables stay in shape:
  a carrier has at most one open batch, batch and mark identifiers are unique, a batch has a closing
  time exactly when it is closed, no two marks share a tracking number, every package unit belongs to a
  stored mark, and the amounts of every stored mark fit together (they are non-negative, in cents, and
  the totals agree with the units).\<close>

theorem shipping_tables_ok:
  assumes "marks_ok (sp_db s)" "batches_ok (sp_db s)"
  shows "marks_ok (sp_db (run_calls env calls s)) \<and> batches_ok (sp_db (run_calls env calls s))"
  using run_calls_steps[OF assms(1), of env calls] assms(2)
  by (auto simp: runs_def intro: ship_steps_invariant batches_ok_step)

theorem shipping_tables_ok_witness:
  "batches_ok (sp_db (run_calls sample_env [CreateBatch ''tcc'' ''eva'', CloseBatch ''b1'', CreateBatch ''tcc'' ''eva''] sample_shop))"
  using shipping_tables_ok[OF sample_marks_ok sample_batches_ok] by blast

text \<open>C19: The rows of \<^verbatim>\<open>dispatch_batches\<close>: no call removes one or changes its carrier, creator or creation time, a
  closed one keeps its status and its closing time too, and new ones are added behind the old ones. The marks of a
  batch are not in its row but refer to it from \<^verbatim>\<open>shipping_marks\<close>, and nothing keeps them: a direct dispatch adds
  a mark to a closed batch, and \<^verbatim>\<open>RemoveDraftMark\<close> takes a draft out of one, although the documentation of batch
  dispatch says that closed batches accept no removals.\<close>

theorem batches_frozen:
  assumes "marks_ok (sp_db s)"
  shows "list_all2 (\<lambda>b b'. br_id b' = br_id b \<and> br_carrier_id b' = br_carrier_id b \<and> br_created_by b' = br_created_by b
      \<and> br_created_at b' = br_created_at b \<and> (br_status b \<noteq> batch_closed \<or> b' = b))
    (sd_batches (sp_db s)) (take (length (sd_batches (sp_db s))) (sd_batches (sp_db (run_calls env calls s))))"
proof -
  have "batches_kept (sp_db s) (sp_db (run_calls env calls s))"
    using run_calls_steps[OF assms] by (auto simp: runs_def intro: batches_kept_steps)
  then show ?thesis unfolding batches_kept_def by (rule list_all2_mono) (auto simp: same_batch_row_def)
qed

theorem batches_frozen_witness:
  "sd_batches (sp_db (run_calls sample_env [CloseBatch ''b0''] sample_shop)) ! 0 = sample_batches ! 0"
  using batches_frozen[OF sample_marks_ok, of sample_env "[CloseBatch ''b0'']"]
  by (auto simp: list_all2_conv_all_nth sample_shop_def sample_db_def sample_batches_def nth_Cons' split: if_splits
      dest!: spec[of _ "0::nat"])

text \<open>C16: The calls refine an abstract machine on the statuses of marks: a mark appears as a draft or
  already issued or failed; only drafts are submitted, rejected or deleted; any mark may be voided. Hence
  a mark that was submitted, issued or failed keeps its status or is voided, and a voided one stays
  voided; none of them disappears.\<close>

theorem mark_life_cycle:
  assumes "marks_ok (sp_db s)"
  shows "status_step\<^sup>*\<^sup>* (mark_statuses (sp_db s)) (mark_statuses (sp_db (run_calls env calls s)))
    \<and> (mark_statuses (sp_db s) i = Some st \<longrightarrow> settled_as st (mark_statuses (sp_db (run_calls env calls s)) i))"
  using run_calls_steps[OF assms, of env calls] status_steps_refine[OF _ assms] by (auto simp: runs_def intro: settled_steps)

theorem mark_life_cycle_witness:
  "status_step\<^sup>*\<^sup>* [''m1'' \<mapsto> Quoted] (mark_statuses (sp_db (run_calls sample_env [CloseBatch ''b1''] sample_shop)))"
proof -
  have "mark_statuses (sp_db sample_shop) = [''m1'' \<mapsto> Quoted]"
  proof -
    have "trim ''m1'' = ''m1''" by code_simp
    then show ?thesis
      by (simp add: sample_shop_def sample_db_def with_mark_def mark_statuses_def sample_mark_def)
  qed
  with mark_life_cycle[OF sample_marks_ok, of sample_env "[CloseBatch ''b1'']"] show ?thesis by simp
qed

section \<open>Instances of the other properties\<close>

theorem sent_requests_consistent_witness:
  "list_all cod_consistent (sp_sent (run_calls sample_env [CloseBatch ''b1''] sample_shop))"
  by (rule sent_requests_consistent) (simp add: sample_shop_def)

lemma sample_batch: "find_batch (sp_db sample_shop) (trim ''b1'') = Some (sample_batches ! 1)"
proof -
  have "trim ''b1'' = ''b1''" "sort_key br_id sample_batches = sample_batches" by code_simp+
  then show ?thesis by (simp add: find_batch_def sample_shop_def sample_db_def) (simp add: sample_batches_def)
qed

theorem close_completes_witness:
  "case close_batch (shop_ports sample_env) (Some (materialize (shop_ports sample_env))) ''b1'' sample_shop of
      (Inr b, s') \<Rightarrow> find_batch (sp_db s') (trim ''b1'') = Some (closed_row (timestamp0 (sd_clock (sp_db s'))) (sample_batches ! 1))
         \<and> bt_id b = trim ''b1'' \<and> bt_status b = batch_closed
    | (Inl e, s') \<Rightarrow> (e = Err ErrManualDraftIncomplete \<and> s' = sample_shop)
         \<or> (is_guardrail (root_cause e) \<and> find_batch (sp_db s') (trim ''b1'') = Some (sample_batches ! 1))"
proof (rule close_completes[OF _ sample_batch])
  show "sd_fault (sp_db sample_shop) = (\<lambda>_. False)" by (simp add: sample_shop_def sample_db_def with_mark_def)
  show "br_status (sample_batches ! 1) = batch_open" by (simp add: sample_batches_def)
qed

definition sample_candidate :: "string \<Rightarrow> bool \<Rightarrow> package_candidate" where
  "sample_candidate sku overlapped = \<lparr>pc_attributes = \<lparr>pt_sku = sku, pt_weight = 1, pt_height = 2, pt_width = 3, pt_length = 4,
     pt_price = 100, pt_overlapped = overlapped, pt_valid = True\<rparr>, pc_volume = 24\<rparr>"

theorem pack_boxes_count_witness:
  "length (fst (pack_boxes sort_key (sample_candidate ''a'' False # replicate 5 (sample_candidate ''b'' True)))) = 2"
proof -
  let ?cs = "sample_candidate ''a'' False # replicate 5 (sample_candidate ''b'' True)"
  have "length (fst (pack_boxes sort_key ?cs))
      = max (length (filter (\<lambda>c. \<not> pt_overlapped (pc_attributes c)) ?cs)) ((length ?cs + 3) div 4)"
    by (rule pack_boxes_count[OF stable_sort.slice_sort_axioms prod.collapse[symmetric], THEN conjunct1])
  then show ?thesis by (simp add: sample_candidate_def)
qed

end
