(* ===== verification/Shipping_Selection.thy ===== *)
theory Shipping_Selection
  imports Shipping_Properties
begin

text \<open>
  Two selections: which existing mark the dispatch service takes for an order, and when the quotation
  repository answers with a stored quotation instead of a new one.
\<close>

section \<open>The mark of an order\<close>

text \<open>The reference: among the active marks of the quotation, the first one of the greatest rank; a mark of
  the batch ranks above all others, then the status counts.\<close>

definition eligible_marks :: "string \<Rightarrow> shipping_mark list \<Rightarrow> shipping_mark list" where
  "eligible_marks qid rows = filter (\<lambda>m. active_status (sm_status m) \<and> quotation_matches (trim qid) m) rows"

definition mark_rank :: "string \<Rightarrow> shipping_mark \<Rightarrow> int" where
  "mark_rank bid m = (if in_batch m bid then 10 else 0) + mark_priority (sm_status m)"

lemma mark_priority_range: "0 \<le> mark_priority st \<and> mark_priority st < 10"
  by (cases st) simp_all

lemma better_mark_rank: "better_mark bid x y \<longleftrightarrow> mark_rank bid y < mark_rank bid x"
  using mark_priority_range[of "sm_status x"] mark_priority_range[of "sm_status y"]
  by (auto simp: better_mark_def mark_rank_def)

lemma in_batch_trim [simp]: "in_batch m (trim bid) = in_batch m bid"
  by (simp add: in_batch_def split: option.split)

lemma mark_rank_trim [simp]: "mark_rank (trim bid) m = mark_rank bid m"
  by (simp add: mark_rank_def)

lemma select_best: "select_mark bid keep sel rows = best_by (\<lambda>x y. mark_rank bid y < mark_rank bid x) sel
    (filter (\<lambda>m. active_status (sm_status m) \<and> keep m) rows)"
  by (induction bid keep sel rows rule: select_mark.induct) (auto simp: better_mark_rank split: option.split)

text \<open>C20: The two loops of \<^verbatim>\<open>findExistingActiveMark\<close> compute the reference: the first mark of the greatest rank
  among the active marks of the order that belong to the quotation, where any mark will do if no
  quotation is given. In particular the second loop never finds anything the first one missed. If there
  is an eligible mark one is chosen, and no eligible mark ranks higher.\<close>

theorem choose_mark_best:
  "choose_mark bid qid rows = best_by (\<lambda>x y. mark_rank bid y < mark_rank bid x) None (eligible_marks qid rows)
   \<and> (case choose_mark bid qid rows of None \<Rightarrow> eligible_marks qid rows = []
      | Some m \<Rightarrow> m \<in> set (eligible_marks qid rows)
          \<and> (\<forall>x. x \<in> set (eligible_marks qid rows) \<longrightarrow> mark_rank bid x \<le> mark_rank bid m))"
proof -
  let ?best = "best_by (\<lambda>x y. mark_rank bid y < mark_rank bid x) None (eligible_marks qid rows)"
  have all: "trim qid = [] \<Longrightarrow> eligible_marks qid rows = filter (\<lambda>m. active_status (sm_status m)) rows"
    by (simp add: eligible_marks_def quotation_matches_def)
  have eq: "choose_mark bid qid rows = ?best"
    by (auto simp: choose_mark_def select_best Let_def eligible_marks_def[symmetric] all split: option.split)
  have "case ?best of None \<Rightarrow> eligible_marks qid rows = [] | Some m \<Rightarrow> m \<in> set (eligible_marks qid rows)
      \<and> (\<forall>x. x \<in> set (eligible_marks qid rows) \<longrightarrow> mark_rank bid x \<le> mark_rank bid m)"
  proof (cases ?best)
    case None
    then show ?thesis by (simp add: best_by_None_iff)
  next
    case (Some m)
    with best_by_mem[OF Some] best_by_max[OF _ Some, where f = "mark_rank bid"] show ?thesis by simp
  qed
  with eq show ?thesis by simp
qed

definition created_elsewhere :: shipping_mark where
  "created_elsewhere = sample_mark\<lparr>sm_id := ''m2'', sm_status := Created, sm_batch_id := None\<rparr>"

theorem choose_mark_best_witness:
  "\<exists>m. choose_mark ''b1'' [] [created_elsewhere, sample_mark] = Some m
     \<and> mark_rank ''b1'' created_elsewhere \<le> mark_rank ''b1'' m \<and> mark_rank ''b1'' sample_mark \<le> mark_rank ''b1'' m"
proof -
  have "eligible_marks [] [created_elsewhere, sample_mark] = [created_elsewhere, sample_mark]"
    by (simp add: eligible_marks_def quotation_matches_def created_elsewhere_def sample_mark_def)
  with choose_mark_best[of "''b1''" "[]" "[created_elsewhere, sample_mark]"] show ?thesis
    by (auto split: option.splits)
qed

section \<open>Repeated quotations\<close>

text \<open>What makes two quotations the same for the repository.\<close>

definition quote_identity :: "quotation_record \<Rightarrow> string \<times> string \<times> string \<times> string \<times> string \<times> string" where
  "quote_identity q = (qn_order_id q, qn_order_identifier q, qn_carrier_id q, qn_origin_city q, qn_dest_city q, qn_request_snapshot q)"

lemma same_quote_row: "same_quote now (to_quote_row t q) r \<longleftrightarrow>
    (qt_order_id r, qt_order_identifier r, qt_carrier_id r, qt_origin_city r, qt_dest_city r, qt_request_snapshot r) = quote_identity q
    \<and> qt_expires_at r > now"
  by (auto simp: same_quote_def to_quote_row_def quote_identity_def)

lemma delete_expired_Inr:
  assumes "delete_expired_rows d = (Inr n, d')"
  shows "\<not> sd_fault d ''load expired quotation ids'' \<and> sd_clock d' = sd_clock d \<and> sd_fault d' = sd_fault d
    \<and> (\<forall>r \<in> set (sd_quotes d'). \<not> quote_expired (sd_clock d) r)"
  using assms by (auto simp: delete_expired_rows_def prog_Inr_iffs ship_stmt_Inr filter_empty_conv split: if_splits)

lemma delete_expired_idle:
  "\<not> sd_fault d ''load expired quotation ids'' \<Longrightarrow> \<forall>r \<in> set (sd_quotes d). \<not> quote_expired (sd_clock d) r
    \<Longrightarrow> delete_expired_rows d = (Inr 0, d)"
  by (simp add: delete_expired_rows_def ship_stmt_def prog_simps filter_empty_conv)

lemma sort_key_Nil_iff: "sort_key f xs = [] \<longleftrightarrow> xs = []"
  by (metis length_sort length_0_conv)

lemma newest_quote_None: "newest_quote Q d = None \<Longrightarrow> \<forall>r \<in> set (sd_quotes d). \<not> Q r"
proof -
  have "newest_quote Q d = None \<longleftrightarrow> sort_key (\<lambda>r. - qt_created_at r) (sort_key qt_id (filter Q (sd_quotes d))) = []"
    by (simp add: newest_quote_def split: list.split)
  then show "newest_quote Q d = None \<Longrightarrow> \<forall>r \<in> set (sd_quotes d). \<not> Q r" by (simp add: sort_key_Nil_iff filter_empty_conv)
qed

lemma newest_quote_only: "\<forall>r \<in> set rs. \<not> Q r \<Longrightarrow> Q r \<Longrightarrow> sd_quotes d = rs @ [r] \<Longrightarrow> newest_quote Q d = Some r"
  by (simp add: newest_quote_def)

lemma insert_quote_Inr: "insert_quote r d = (Inr x, d') \<Longrightarrow> d' = d\<lparr>sd_quotes := sd_quotes d @ [r]\<rparr>"
  by (auto simp: insert_quote_def ship_stmt_Inr ship_violation_apply split: if_splits)

lemma insert_quote_units_Inr: "insert_quote_units us d = (Inr x, d') \<Longrightarrow> d' = d\<lparr>sd_quote_units := sd_quote_units d @ us\<rparr>"
  by (auto simp: insert_quote_units_def ship_stmt_Inr ship_violation_apply prog_simps split: if_splits)

text \<open>What a successful creation leaves behind: no expired rows, and the row that answers it.\<close>

lemma quotation_create_Inr:
  assumes "quotation_create q d = (Inr i, d')" "qn_expires_at q > sd_clock d"
  shows "\<not> sd_fault d' ''load expired quotation ids'' \<and> \<not> sd_fault d' ''check quotation duplicate'' \<and> sd_clock d' = sd_clock d
    \<and> (\<forall>r \<in> set (sd_quotes d'). \<not> quote_expired (sd_clock d) r)
    \<and> (\<exists>r. newest_quote (same_quote (sd_clock d) (to_quote_row (sd_clock d) q)) d' = Some r \<and> i = qt_id r)"
proof -
  let ?row = "to_quote_row (sd_clock d) q" and ?same = "same_quote (sd_clock d) (to_quote_row (sd_clock d) q)"
  from assms(1) obtain n d1 where del: "delete_expired_rows d = (Inr n, d1)"
    and free: "\<not> sd_fault d1 ''check quotation duplicate''"
    and rest: "(case newest_quote ?same d1 of Some r \<Rightarrow> ret (qt_id r)
      | None \<Rightarrow> bindp (insert_quote ?row) (\<lambda>_. bindp (insert_quote_units (to_quote_units (sd_clock d) (qn_id q) (qn_units q)))
          (\<lambda>_. ret (qt_id ?row)))) d1 = (Inr i, d')"
    by (auto simp: quotation_create_def prog_Inr_iffs ship_stmt_Inr Let_def)
  note d1 = delete_expired_Inr[OF del]
  show ?thesis
  proof (cases "newest_quote ?same d1")
    case (Some r)
    with rest have "d' = d1" "i = qt_id r" by (simp_all add: prog_simps)
    with Some d1 free show ?thesis by auto
  next
    case None
    with rest have d': "sd_quotes d' = sd_quotes d1 @ [?row]" "sd_clock d' = sd_clock d1" "sd_fault d' = sd_fault d1" "i = qt_id ?row"
      by (auto simp: prog_Inr_iffs dest!: insert_quote_Inr insert_quote_units_Inr)
    have row: "?same ?row" "\<not> quote_expired (sd_clock d) ?row"
      using assms(2) by (auto simp: same_quote_def to_quote_row_def quote_expired_def)
    have "newest_quote ?same d' = Some ?row"
      by (rule newest_quote_only[OF newest_quote_None[OF None] row(1) d'(1)])
    with d' d1 free row show ?thesis by auto
  qed
qed

text \<open>While a stored quotation has not expired, asking for the same one again (same order, carrier, cities
  and request, whatever its new identifier, price or expiry) returns the identifier of the stored one and
  writes nothing.\<close>

theorem quotation_create_again:
  assumes "quotation_create q d = (Inr i, d')" "qn_expires_at q > sd_clock d" "quote_identity q' = quote_identity q"
  shows "quotation_create q' d' = (Inr i, d')"
proof -
  note c = quotation_create_Inr[OF assms(1,2)]
  then obtain r where r: "newest_quote (same_quote (sd_clock d') (to_quote_row (sd_clock d') q)) d' = Some r" "i = qt_id r" by auto
  have "same_quote (sd_clock d') (to_quote_row (sd_clock d') q') = same_quote (sd_clock d') (to_quote_row (sd_clock d') q)"
    using assms(3) by (simp add: same_quote_row fun_eq_iff)
  moreover have "delete_expired_rows d' = (Inr 0, d')" using c by (intro delete_expired_idle) auto
  ultimately show ?thesis
    using c r by (simp add: quotation_create_def prog_simps ship_stmt_def Let_def)
qed

definition sample_quotation :: quotation_record where
  "sample_quotation = \<lparr>qn_id = ''q1'', qn_order_id = ''o1'', qn_order_identifier = [], qn_carrier_id = ''tcc'',
     qn_origin_city = ''05001000'', qn_dest_city = ''11001000'', qn_freight = 12000, qn_cod_fee = 0, qn_days = 1,
     qn_currency = ''COP'', qn_expires_at = 100, qn_units = [], qn_request_snapshot = ''{}'', qn_raw_response = [],
     qn_created_at = 9\<rparr>"

theorem quotation_create_again_witness:
  "quotation_create (sample_quotation\<lparr>qn_id := ''q2'', qn_freight := 15000\<rparr>) (snd (quotation_create sample_quotation sample_db))
     = (Inr ''q1'', snd (quotation_create sample_quotation sample_db))"
proof (rule quotation_create_again)
  show "quotation_create sample_quotation sample_db = (Inr ''q1'', snd (quotation_create sample_quotation sample_db))"
    by (simp add: quotation_create_def delete_expired_rows_def newest_quote_def insert_quote_def insert_quote_units_def
        to_quote_units_def to_quote_row_def sample_quotation_def sample_db_def with_mark_def ship_stmt_def prog_simps Let_def)
  show "qn_expires_at sample_quotation > sd_clock sample_db" by (simp add: sample_quotation_def sample_db_def with_mark_def)
  show "quote_identity (sample_quotation\<lparr>qn_id := ''q2'', qn_freight := 15000\<rparr>) = quote_identity sample_quotation"
    by (simp add: quote_identity_def)
qed

end
