(* ===== verification/Shipping_Tracking.thy ===== *)
theory Shipping_Tracking
  imports Shipping_Selection
begin

text \<open>
  Tracking: the mapping of TCC's tracking answers (\<^verbatim>\<open>adapter/carrier/tcc\<close>), the tracking of manual marks
  (\<^verbatim>\<open>adapter/carrier/manual\<close>), and the tracking service with its cache and its listing
  (\<^verbatim>\<open>application/tracking/service\<close>).

  Dates in TCC's answers are read by the parameter \<open>parse_date\<close> (the layouts of \<^verbatim>\<open>time.ParseInLocation\<close>);
  an unreadable date is the current time. The rows of a listing are built one after the other; in the
  code up to eight goroutines build them, each into its own slot.
\<close>

section \<open>Statuses\<close>

fun status_priority :: "tracking_status \<Rightarrow> int" where
  "status_priority TrackReturn = 600"
| "status_priority TrackVoided = 550"
| "status_priority TrackCompleted = 500"
| "status_priority TrackIncidence = 450"
| "status_priority TrackProcessing = 400"
| "status_priority TrackOrigin = 300"

lemma status_priority_inj [simp]: "status_priority a = status_priority b \<longleftrightarrow> a = b"
  by (cases a; cases b) simp_all

instantiation tracking_status :: linorder
begin

definition less_eq_tracking_status :: "tracking_status \<Rightarrow> tracking_status \<Rightarrow> bool" where
  "a \<le> b \<longleftrightarrow> status_priority a \<le> status_priority b"

definition less_tracking_status :: "tracking_status \<Rightarrow> tracking_status \<Rightarrow> bool" where
  "a < b \<longleftrightarrow> status_priority a < status_priority b"

instance
  by standard (auto simp: less_eq_tracking_status_def less_tracking_status_def)

end

fun tracking_text :: "tracking_status \<Rightarrow> string" where
  "tracking_text TrackProcessing = ''PROCESSING''"
| "tracking_text TrackOrigin = ''ORIGIN''"
| "tracking_text TrackCompleted = ''COMPLETED''"
| "tracking_text TrackReturn = ''RETURN''"
| "tracking_text TrackIncidence = ''INCIDENCE''"
| "tracking_text TrackVoided = ''VOIDED''"

text \<open>\<^verbatim>\<open>resolveGlobalTrackingStatus\<close>: the loop over the events with the best status and its date so far.\<close>

definition global_step :: "tracking_event \<Rightarrow> tracking_status \<times> gotime \<Rightarrow> tracking_status \<times> gotime" where
  "global_step e best = (case best of (status, date) \<Rightarrow>
     if status_priority (te_status e) > status_priority status
        \<or> (status_priority (te_status e) = status_priority status \<and> te_date e > date)
     then (te_status e, te_date e) else (status, date))"

definition global_status :: "tracking_event list \<Rightarrow> tracking_status" where
  "global_status events = fst (fold global_step events (TrackProcessing, 0))"

definition map_status :: "string \<Rightarrow> string \<Rightarrow> tracking_status" where
  "map_status code description =
    (let c = trim code; d = to_lower (trim description) in
     if c \<in> {''901'', ''205'', ''2000''} then TrackProcessing
     else if c = ''500'' then TrackOrigin
     else if c = ''3000'' then TrackCompleted
     else if c = ''4000'' then TrackReturn
     else if c = ''4100'' then TrackProcessing
     else if c = ''4200'' then TrackIncidence
     else if c = ''4300'' then TrackVoided
     else if contains d ''devol'' then TrackReturn
     else if contains d ''noved'' \<or> contains d ''inciden'' then TrackIncidence
     else TrackProcessing)"

definition map_novelty_status :: "string \<Rightarrow> string \<Rightarrow> tracking_status" where
  "map_novelty_status code description =
    (if trim code = ''252'' then TrackIncidence
     else let status = map_status code description in
       if status = TrackProcessing \<or> status = TrackOrigin
       then let d = to_lower (trim description) in
            if contains d ''entregad'' \<or> contains d ''destinatario'' then TrackIncidence else TrackIncidence
       else status)"

section \<open>TCC's answers\<close>

record tracking_state =
  ts_code :: string
  ts_text :: string
  ts_date :: string

record novelty_event =
  nv_code :: string
  nv_date :: string
  nv_text :: string
  nv_observation :: string

record single_novelty =
  sn_code :: string
  sn_date :: string
  sn_text :: string
  sn_observation :: string
  sn_complement :: string

record tracked_remittance =
  tk_states :: "tracking_state list"
  tk_novelty :: single_novelty
  tk_novelties :: "novelty_event list"
  tk_origin_city :: string
  tk_dest_city :: string

record tracking_answer =
  ta_result_code :: string
  ta_result_message :: string
  ta_remittances :: "tracked_remittance list"

text \<open>The list of novelties, or the single one of older answers if it says anything.\<close>

definition remittance_novelties :: "tracked_remittance \<Rightarrow> novelty_event list" where
  "remittance_novelties r =
    (let n = tk_novelty r in
     if tk_novelties r \<noteq> [] then tk_novelties r
     else if trim (sn_date n) = [] \<and> trim (sn_text n) = [] \<and> trim (sn_complement n) = [] \<and> trim (sn_observation n) = []
     then []
     else [\<lparr>nv_code = sn_code n, nv_date = sn_date n, nv_text = trim (sn_text n @ '' - '' @ sn_complement n),
            nv_observation = sn_observation n\<rparr>])"

definition novelty_text :: "string \<Rightarrow> string \<Rightarrow> string" where
  "novelty_text description observation =
    (let d = trim description; ob = trim observation in
     if d = [] then ob else if ob = [] then d else d @ '' - '' @ ob)"

definition tracking_date :: "(string \<Rightarrow> gotime option) \<Rightarrow> gotime \<Rightarrow> string \<Rightarrow> gotime" where
  "tracking_date parse_date now v = (if trim v = [] then now else case parse_date (trim v) of None \<Rightarrow> now | Some t \<Rightarrow> t)"

definition state_event :: "(string \<Rightarrow> gotime option) \<Rightarrow> gotime \<Rightarrow> tracked_remittance \<Rightarrow> tracking_state \<Rightarrow> tracking_event" where
  "state_event parse_date now r st = (let status = map_status (ts_code st) (ts_text st) in
     \<lparr>te_date = tracking_date parse_date now (ts_date st), te_code = trim (ts_code st), te_text = trim (ts_text st),
      te_city = trim (if status = TrackCompleted then tk_dest_city r else tk_origin_city r), te_status = status\<rparr>)"

definition novelty_to_event :: "(string \<Rightarrow> gotime option) \<Rightarrow> gotime \<Rightarrow> tracked_remittance \<Rightarrow> novelty_event \<Rightarrow> tracking_event" where
  "novelty_to_event parse_date now r n =
     \<lparr>te_date = tracking_date parse_date now (nv_date n), te_code = trim (nv_code n),
      te_text = novelty_text (nv_text n) (nv_observation n), te_city = trim (tk_dest_city r),
      te_status = map_novelty_status (nv_code n) (nv_text n)\<rparr>"

definition latest_date :: "tracking_event list \<Rightarrow> gotime" where
  "latest_date events = foldl (\<lambda>acc e. if te_date e > acc then te_date e else acc) 0 events"

definition tcc_history :: "(string \<Rightarrow> gotime option) \<Rightarrow> gotime \<Rightarrow> string \<Rightarrow> tracked_remittance \<Rightarrow> tracking_history" where
  "tcc_history parse_date now number r =
    (let events = map (state_event parse_date now r) (tk_states r) @ map (novelty_to_event parse_date now r) (remittance_novelties r);
         latest = latest_date events
     in \<lparr>th_carrier_id = ''tcc'', th_tracking = number, th_status = global_status events,
         th_updated_at = (if latest = 0 then now else latest), th_events = events\<rparr>)"

text \<open>\<^verbatim>\<open>GetTrackingHistory\<close>. The call of TCC is the parameter \<open>track\<close>.\<close>

definition tcc_tracking :: "(string \<Rightarrow> gotime option) \<Rightarrow> ('w \<Rightarrow> gotime) \<Rightarrow> (string \<Rightarrow> ('w, shipping_error, tracking_answer) prog)
    \<Rightarrow> string \<Rightarrow> ('w, shipping_error, tracking_history) prog" where
  "tcc_tracking parse_date clock track number =
    (if trim number = [] then throw (Err ErrInvalidID)
     else bindp (track (trim number)) (\<lambda>a.
       if result_code (ta_result_code a) \<noteq> 0
       then throw (Err (CarrierFailure (''tcc tracking rejected: '' @ trim (ta_result_message a))))
       else (case ta_remittances a of [] \<Rightarrow> throw (Err (CarrierFailure ''tcc tracking returned no remittance data''))
         | r # _ \<Rightarrow> bindp (getp clock) (\<lambda>now. ret (tcc_history parse_date now (trim number) r)))))"

section \<open>Manual marks\<close>

definition manual_tracking :: "(string \<Rightarrow> string) \<Rightarrow> ('w \<Rightarrow> gotime) \<Rightarrow> (string \<Rightarrow> ('w, shipping_error, shipping_mark) prog)
    \<Rightarrow> string \<Rightarrow> ('w, shipping_error, tracking_history) prog" where
  "manual_tracking nfd clock by_tracking number =
    (if trim number = [] then throw (Err ErrInvalidID)
     else bindp (getp clock) (\<lambda>now. bindp (tryp (by_tracking (trim number))) (\<lambda>r.
       let history = (\<lambda>cid. \<lparr>th_carrier_id = cid, th_tracking = trim number, th_status = TrackProcessing,
             th_updated_at = now, th_events = [\<lparr>te_date = now, te_code = ''MANUAL'', te_text = ''Manual tracking only'',
               te_city = [], te_status = TrackProcessing\<rparr>]\<rparr>)
       in case r of
            Inl e \<Rightarrow> if e = Err ErrShippingNotFound then ret (history ''manual'')
              else throw (Wrapped ''load manual tracking mark'' e)
          | Inr m \<Rightarrow> let slug = carrier_slug nfd (sm_observations m) in
              ret (history (if slug = [] then ''manual'' else ''manual_'' @ slug)))))"

section \<open>The tracking service\<close>

record 'w tracking_ports =
  k_list :: "mark_list_query \<Rightarrow> ('w, shipping_error, shipping_mark list \<times> int) prog"
  k_provider :: "string \<Rightarrow> (string \<Rightarrow> ('w, shipping_error, tracking_history option) prog) option"
  k_publish :: "shipping_event \<Rightarrow> ('w, shipping_error, unit) prog"
  k_event_id :: "'w \<Rightarrow> string \<times> 'w"
  k_now :: "'w \<Rightarrow> gotime"
  k_nfd :: "string \<Rightarrow> string"
  k_cache :: "'w \<Rightarrow> (string \<times> tracking_history \<times> gotime) list"
  k_set_cache :: "(string \<times> tracking_history \<times> gotime) list \<Rightarrow> 'w \<Rightarrow> 'w"

definition announce_history :: "'w tracking_ports \<Rightarrow> tracking_history \<Rightarrow> ('w, shipping_error, unit) prog" where
  "announce_history K h = bindp (drawp (k_event_id K)) (\<lambda>i. bindp (getp (k_now K)) (\<lambda>now.
     bindp (tryp (k_publish K (shipping_event_of i now topic_tracking_updated
        (TrackingUpdatedPayload (th_tracking h) (th_carrier_id h) (th_status h)
           (if th_events h = [] then None else Some (last (th_events h))))))) (\<lambda>_. ret ())))"

definition get_tracking :: "'w tracking_ports \<Rightarrow> string \<Rightarrow> string \<Rightarrow> ('w, shipping_error, tracking_history) prog" where
  "get_tracking K cid number = (case k_provider K (trim cid) of None \<Rightarrow> throw (Err ErrTrackingNotSupported)
   | Some f \<Rightarrow> bindp (f (trim number)) (\<lambda>r. case r of None \<Rightarrow> throw (Err ErrTrackingNotSupported)
     | Some h \<Rightarrow> bindp (announce_history K h) (\<lambda>_. ret h)))"

definition cache_key :: "string \<Rightarrow> string \<Rightarrow> string" where
  "cache_key cid number = to_lower (trim cid) @ ''|'' @ trim number"

definition cache_ttl :: gotime where
  "cache_ttl = 30 * 10 ^ 9"

definition cached_history :: "'w tracking_ports \<Rightarrow> string \<Rightarrow> string \<Rightarrow> ('w, shipping_error, tracking_history option) prog" where
  "cached_history K cid number = bindp (getp (k_now K)) (\<lambda>now. bindp (getp (k_cache K)) (\<lambda>cache.
     case map_of cache (cache_key cid number) of None \<Rightarrow> ret None
     | Some (h, expires) \<Rightarrow> if now > expires
         then bindp (modp (k_set_cache K (AList.delete (cache_key cid number) cache))) (\<lambda>_. ret None)
         else ret (Some h)))"

definition store_history :: "'w tracking_ports \<Rightarrow> string \<Rightarrow> string \<Rightarrow> tracking_history option \<Rightarrow> ('w, shipping_error, unit) prog" where
  "store_history K cid number history = (case history of None \<Rightarrow> ret ()
   | Some h \<Rightarrow> bindp (getp (k_now K)) (\<lambda>now. bindp (getp (k_cache K)) (\<lambda>cache.
       modp (k_set_cache K (AList.update (cache_key cid number) (h, now + cache_ttl) cache)))))"

definition lookup_history :: "'w tracking_ports \<Rightarrow> string \<Rightarrow> string \<Rightarrow> ('w, shipping_error, tracking_history option) prog" where
  "lookup_history K cid number = bindp (cached_history K cid number) (\<lambda>cached. case cached of
       Some h \<Rightarrow> ret (Some h)
     | None \<Rightarrow> (case k_provider K (trim cid) of None \<Rightarrow> throw (Err ErrTrackingNotSupported)
         | Some f \<Rightarrow> bindp (wrap_err ''get tracking history'' (f (trim number))) (\<lambda>r.
             bindp (store_history K cid number r) (\<lambda>_. ret r))))"

section \<open>The listing\<close>

record tracking_item =
  ti_id :: string
  ti_order_id :: string
  ti_tracking :: string
  ti_recipient :: string
  ti_carrier_id :: string
  ti_status :: string
  ti_created_at :: gotime

definition listed_carrier :: "(string \<Rightarrow> string) \<Rightarrow> shipping_mark \<Rightarrow> string" where
  "listed_carrier nfd m = (let cid = trim (sm_carrier_id m); slug = carrier_slug nfd (sm_observations m) in
     if \<not> is_manual_carrier cid then cid else if slug \<noteq> [] then ''manual_'' @ slug else ''manual'')"

definition recipient_label :: "address \<Rightarrow> string" where
  "recipient_label a = (if trim (ad_name a) \<noteq> [] then trim (ad_name a) else trim (ad_legal_name a))"

definition fallback_status :: "mark_status \<Rightarrow> string" where
  "fallback_status st = tracking_text (if st = Voided then TrackVoided else TrackProcessing)"

definition list_status :: "'w tracking_ports \<Rightarrow> shipping_mark \<Rightarrow> ('w, shipping_error, string \<times> string) prog" where
  "list_status K m = (let cid = listed_carrier (k_nfd K) m in
     if is_manual_carrier (sm_carrier_id m) then ret (cid, ''MANUAL'')
     else bindp (tryp (lookup_history K (trim (sm_carrier_id m)) (trim (sm_tracking m)))) (\<lambda>r. ret (case r of
         Inr (Some h) \<Rightarrow> (trim (th_carrier_id h), trim (tracking_text (th_status h)))
       | _ \<Rightarrow> (cid, fallback_status (sm_status m)))))"

definition build_item :: "'w tracking_ports \<Rightarrow> shipping_mark \<Rightarrow> ('w, shipping_error, tracking_item) prog" where
  "build_item K m = bindp (list_status K m) (\<lambda>(cid, status). ret \<lparr>ti_id = trim (sm_id m), ti_order_id = trim (sm_order_id m),
     ti_tracking = trim (sm_tracking m), ti_recipient = recipient_label (sm_recipient m), ti_carrier_id = cid,
     ti_status = status, ti_created_at = sm_created_at m\<rparr>)"

fun build_items :: "'w tracking_ports \<Rightarrow> shipping_mark list \<Rightarrow> ('w, shipping_error, tracking_item list) prog" where
  "build_items K [] = ret []"
| "build_items K (m # ms) = bindp (build_item K m) (\<lambda>i. bindp (build_items K ms) (\<lambda>is. ret (i # is)))"

definition candidate_query :: "string \<Rightarrow> string \<Rightarrow> int \<Rightarrow> int \<Rightarrow> mark_list_query" where
  "candidate_query cid term page limit = \<lparr>mq_order_id = [], mq_batch_id = [], mq_carrier_id = cid, mq_search = term,
     mq_excluded = [Quoted, Removed], mq_require_tracking = True, mq_page = page, mq_limit = limit\<rparr>"

definition chunk_size :: int where
  "chunk_size = 100"

text \<open>The loop of \<^verbatim>\<open>collectAllCandidateMarks\<close>. It ends when as many rows were read as the table has, or when a
  chunk is empty; \<open>None\<close> says that the rounds given by the first argument were not enough.\<close>

fun collect_marks :: "nat \<Rightarrow> 'w tracking_ports \<Rightarrow> string \<Rightarrow> int \<Rightarrow> shipping_mark list
    \<Rightarrow> ('w, shipping_error, shipping_mark list option) prog" where
  "collect_marks 0 K term page rows = ret None"
| "collect_marks (Suc n) K term page rows = bindp (k_list K (candidate_query [] term page chunk_size)) (\<lambda>(chunk, count).
     let rows' = rows @ chunk in
     if int (length rows') \<ge> count \<or> chunk = [] then ret (Some rows') else collect_marks n K term (page + 1) rows')"

text \<open>\<^verbatim>\<open>paginateListItems\<close>: the products and sums are those of 64-bit integers; \<open>None\<close> is the panic of a slice
  whose bounds are out of range.\<close>

definition paginate :: "'a list \<Rightarrow> int \<Rightarrow> int \<Rightarrow> ('a list \<times> int) option" where
  "paginate items page limit =
    (let n = int (length items); start = int64 (int64 (page - 1) * limit);
         stop = (if int64 (start + limit) > n then n else int64 (start + limit))
     in if n = 0 then Some ([], 0)
        else if start \<ge> n then Some ([], n)
        else if 0 \<le> start \<and> start \<le> stop then Some (take (nat (stop - start)) (drop (nat start) items), n)
        else None)"

record tracking_query =
  tl_term :: string
  tl_status :: string
  tl_page :: int
  tl_limit :: int

definition list_page :: "'w tracking_ports \<Rightarrow> string \<Rightarrow> string \<Rightarrow> int \<Rightarrow> int
    \<Rightarrow> ('w, shipping_error, (tracking_item list \<times> int) option) prog" where
  "list_page K cid term page limit = bindp (k_list K (candidate_query cid term page limit)) (\<lambda>(rows, n).
     bindp (build_items K rows) (\<lambda>items. ret (Some (items, n))))"

definition tracking_list :: "nat \<Rightarrow> 'w tracking_ports \<Rightarrow> tracking_query
    \<Rightarrow> ('w, shipping_error, (tracking_item list \<times> int) option) prog" where
  "tracking_list rounds K q =
    (let page = (if tl_page q \<le> 0 then 1 else tl_page q); limit = (if tl_limit q \<le> 0 then 20 else tl_limit q);
         status = to_upper (trim (tl_status q)); term = trim (tl_term q)
     in if status = ''MANUAL'' then list_page K ''manual'' term page limit
        else if status = [] then list_page K [] term page limit
        else bindp (collect_marks rounds K term 1 []) (\<lambda>r. case r of None \<Rightarrow> ret None
          | Some rows \<Rightarrow> bindp (build_items K rows) (\<lambda>items.
              ret (paginate (filter (\<lambda>i. equal_fold (trim (ti_status i)) status) items) page limit))))"

end
