(* ===== verification/Shipping_Listing.thy ===== *)
theory Shipping_Listing
  imports Shipping_Tracking
begin

text \<open>
  What the tracking listing returns: the global status of a history, the rows collected over all pages
  of the repository, and the pages cut from them.
\<close>

section \<open>The global status\<close>

lemma global_step_max: "fst (global_step e best) = max (fst best) (te_status e)"
  by (cases best) (auto simp: global_step_def max_def less_eq_tracking_status_def)

lemma fold_global_step: "fst (fold global_step es best) = Max (insert (fst best) (te_status ` set es))"
proof (induction es arbitrary: best)
  case (Cons e es)
  have "Max (insert (max (fst best) (te_status e)) (te_status ` set es)) = Max (insert (fst best) (insert (te_status e) (te_status ` set es)))"
    by (cases "te_status ` set es = {}") (simp_all add: max.assoc)
  then show ?case by (simp add: Cons global_step_max)
qed simp

text \<open>The global status of a tracking history is the greatest of PROCESSING and the statuses of its events, in the
  order RETURN, VOIDED, COMPLETED, INCIDENCE, PROCESSING, ORIGIN from greatest to least; the dates of the
  events, which the loop compares for events of equal priority, never matter.\<close>

theorem global_status_max: "global_status events = Max (insert TrackProcessing (set (map te_status events)))"
  by (simp add: global_status_def fold_global_step)

section \<open>Collecting all rows\<close>

lemma int64_small: "0 \<le> x \<Longrightarrow> x < 2 ^ 63 \<Longrightarrow> int64 x = x"
  by (simp add: int64_def)

text \<open>The rows the query of a page orders, with the ties as that query breaks them.\<close>

definition matching_rows :: "shipping_db \<Rightarrow> string \<Rightarrow> mark_row list" where
  "matching_rows d term = filter (matches_mark_query (candidate_query [] term 1 chunk_size)) (sd_marks d)"

definition ordered_on :: "shipping_db \<Rightarrow> string \<Rightarrow> nat \<Rightarrow> mark_row list" where
  "ordered_on d term k = sql_order (\<lambda>r. - mr_created_at r) (\<lambda>r. sd_tie d (int k + 1) (mr_id r)) (matching_rows d term)"

abbreviation listed_pages :: "shipping_db \<Rightarrow> string \<Rightarrow> nat \<Rightarrow> mark_row list" where
  "listed_pages d term n \<equiv> pages_of 100 (ordered_on d term) n"

lemma length_ordered [simp]: "length (ordered_on d term k) = length (matching_rows d term)"
  by (simp add: ordered_on_def)

lemma length_listed: "length (listed_pages d term n) = min (length (matching_rows d term)) (100 * n)"
  unfolding ordered_on_def by (rule length_pages_sql_order)

lemma matches_page: "matches_mark_query (candidate_query cid term page limit) = matches_mark_query (candidate_query cid term p l)"
  by (simp add: fun_eq_iff matches_mark_query_def candidate_query_def)

lemma page_rows_chunk:
  assumes "100 * k \<le> length rows + 100" "int (length rows) < 2 ^ 62"
  shows "page_rows (int k + 1) chunk_size rows = take 100 (drop (100 * k) rows)"
proof -
  have "int k * 100 < 2 ^ 63" "int k < 2 ^ 63" using assms by simp_all
  then have "int64 (int64 (int k) * 100) = int k * 100" by (simp add: int64_small)
  moreover have "nat (int k * 100) = 100 * k" by simp
  ultimately show ?thesis by (simp add: page_rows_def chunk_size_def Let_def)
qed

lemma mark_list_chunk:
  assumes "sd_fault d = (\<lambda>_. False)" "100 * k \<le> length (matching_rows d term) + 100" "int (length (sd_marks d)) < 2 ^ 62"
  shows "fst (mark_list (candidate_query [] term (int k + 1) chunk_size) d)
    = Inr (map (load_mark d) (take 100 (drop (100 * k) (ordered_on d term k))), int (length (matching_rows d term)))"
proof -
  have q: "matches_mark_query (candidate_query [] term (int k + 1) chunk_size) = matches_mark_query (candidate_query [] term 1 chunk_size)"
    by (rule matches_page)
  have "int (length (ordered_on d term k)) < 2 ^ 62"
    using assms(3) length_filter_le[of "matches_mark_query (candidate_query [] term 1 chunk_size)" "sd_marks d"]
    unfolding length_ordered matching_rows_def by linarith
  then have "page_rows (int k + 1) chunk_size (ordered_on d term k) = take 100 (drop (100 * k) (ordered_on d term k))"
    by (intro page_rows_chunk) (simp_all add: assms(2))
  with assms(1) show ?thesis
    unfolding mark_list_def q by (simp add: prog_simps ship_stmt_def candidate_query_def ordered_on_def matching_rows_def)
qed

lemma collect_from:
  assumes list: "\<forall>q. k_list K q w = (fst (mark_list q d), w)" and works: "sd_fault d = (\<lambda>_. False)"
    and size: "int (length (sd_marks d)) < 2 ^ 62"
  shows "0 < n \<Longrightarrow> length (matching_rows d term) \<le> 100 * (k + n) \<Longrightarrow> 100 * k \<le> length (matching_rows d term) + 100
    \<Longrightarrow> \<exists>m. length (matching_rows d term) \<le> 100 * m
      \<and> collect_marks n K term (int k + 1) (map (load_mark d) (listed_pages d term k)) w
        = (Inr (Some (map (load_mark d) (listed_pages d term m))), w)"
proof (induction n arbitrary: k)
  case (Suc n)
  let ?len = "length (matching_rows d term)"
  let ?chunk = "map (load_mark d) (take 100 (drop (100 * k) (ordered_on d term k)))"
  let ?rows = "map (load_mark d) (listed_pages d term k) @ ?chunk"
  have rows: "?rows = map (load_mark d) (listed_pages d term (Suc k))" by simp
  have len: "length ?rows = min ?len (100 * Suc k)" unfolding rows length_map by (rule length_listed)
  have call: "k_list K (candidate_query [] term (int k + 1) chunk_size) w = (Inr (?chunk, int ?len), w)"
    using list mark_list_chunk[OF works Suc.prems(3) size] by simp
  have step: "collect_marks (Suc n) K term (int k + 1) (map (load_mark d) (listed_pages d term k)) w
      = (if int (length ?rows) \<ge> int ?len \<or> ?chunk = [] then (Inr (Some ?rows), w)
         else collect_marks n K term (int k + 1 + 1) ?rows w)"
    by (simp only: collect_marks.simps bindp_apply call prod.case sum.case Let_def ret_apply if_distrib[of "\<lambda>m. m w"])
  show ?case
  proof (cases "int (length ?rows) \<ge> int ?len \<or> ?chunk = []")
    case True
    then have "?len \<le> 100 * Suc k" using len by auto
    then show ?thesis using step True rows by (intro exI[of _ "Suc k"]) (simp only: if_True simp_thms)
  next
    case False
    then have "min ?len (100 * Suc k) < ?len" unfolding len[symmetric] by linarith
    then have "?len > 100 * Suc k" by simp
    then have "0 < n" "100 * Suc k \<le> ?len + 100" using Suc.prems by auto
    moreover have "?len \<le> 100 * (Suc k + n)" using Suc.prems by simp
    ultimately obtain m where "?len \<le> 100 * m" "collect_marks n K term (int (Suc k) + 1) ?rows w
        = (Inr (Some (map (load_mark d) (listed_pages d term m))), w)"
      unfolding rows using Suc.IH[of "Suc k"] by blast
    then show ?thesis using step False by (intro exI[of _ m]) (simp only: if_False simp_thms of_nat_Suc ac_simps)
  qed
qed simp

text \<open>C22: On a database without failing statements the loop over the pages ends; a round for every hundred rows of
  the table and one more are enough. It collects as many marks as can be tracked and match the search term, all of them
  such marks, and their creation times are those of all such marks, newest first. Marks created in the same second come
  in any order, which may differ from page to page: only if there are none does every mark appear, and appear once.\<close>

theorem collect_marks_complete:
  assumes "\<forall>q. k_list K q w = (fst (mark_list q d), w)" "sd_fault d = (\<lambda>_. False)" "int (length (sd_marks d)) < 2 ^ 62"
    and "length (sd_marks d) < 100 * rounds"
  shows "\<exists>rows. collect_marks rounds K term 1 [] w = (Inr (Some (map (load_mark d) rows)), w)
    \<and> length rows = length (matching_rows d term) \<and> set rows \<subseteq> set (matching_rows d term)
    \<and> map (\<lambda>r. - mr_created_at r) rows = sort (map (\<lambda>r. - mr_created_at r) (matching_rows d term))
    \<and> (distinct (map mr_created_at (matching_rows d term))
         \<longrightarrow> rows = sort_key (\<lambda>r. - mr_created_at r) (matching_rows d term))"
proof -
  have "length (matching_rows d term) \<le> length (sd_marks d)" by (simp add: matching_rows_def)
  then obtain m where m: "length (matching_rows d term) \<le> 100 * m"
      "collect_marks rounds K term 1 [] w = (Inr (Some (map (load_mark d) (listed_pages d term m))), w)"
    using collect_from[OF assms(1-3), of rounds "term" 0] assms(4) by (cases rounds) auto
  have key: "map (\<lambda>r. - mr_created_at r) (listed_pages d term m) = sort (map (\<lambda>r. - mr_created_at r) (matching_rows d term))"
    unfolding ordered_on_def map_pages_sql_order using m(1) by simp
  have "distinct (map (\<lambda>r. - mr_created_at r) rs) = distinct (map mr_created_at rs)" for rs :: "mark_row list"
    by (simp add: distinct_map inj_on_def)
  then have "listed_pages d term m = sort_key (\<lambda>r. - mr_created_at r) (matching_rows d term)"
    if "distinct (map mr_created_at (matching_rows d term))"
    unfolding ordered_on_def
    using that m(1) pages_sql_order_distinct[of "\<lambda>r. - mr_created_at r" "matching_rows d term"] by simp
  moreover have "set (listed_pages d term m) \<subseteq> set (matching_rows d term)"
    by (rule set_pages_of) (simp add: ordered_on_def)
  ultimately show ?thesis using m key length_listed[of d "term" m] by (intro exI[of _ "listed_pages d term m"]) simp
qed

section \<open>Pages\<close>

lemma paginate_window:
  assumes "1 \<le> page" "1 \<le> limit" "page * limit < 2 ^ 63" "int (length items) < 2 ^ 63"
  shows "paginate items page limit = Some (take (nat limit) (drop (nat ((page - 1) * limit)) items), int (length items))"
proof -
  have "page - 1 \<le> page * limit" using assms by (smt (verit) mult_le_cancel_left1)
  moreover have split: "(page - 1) * limit + limit = page * limit" by (simp add: algebra_simps)
  moreover have "0 \<le> (page - 1) * limit" using assms by simp
  ultimately have n: "int64 (int64 (page - 1) * limit) = (page - 1) * limit" "int64 ((page - 1) * limit + limit) = page * limit"
    using assms by (simp_all add: int64_small)
  have width: "nat (page * limit) - nat ((page - 1) * limit) = nat limit"
    using split assms(2) \<open>0 \<le> (page - 1) * limit\<close> by linarith
  show ?thesis
    using assms(1,2) split \<open>0 \<le> (page - 1) * limit\<close> n width unfolding paginate_def by (auto simp: Let_def nat_diff_distrib)
qed

text \<open>The greatest page number the HTTP handler accepts makes the slice fail.\<close>

lemma paginate_overflow: "paginate [x] (2 ^ 63 - 1) 20 = None"
  by (simp add: paginate_def int64_def Let_def)

section \<open>Three marks\<close>

text \<open>Three tracked marks, the last two created in the same second, and a mark without a tracking number.\<close>

definition sample_row :: "string \<Rightarrow> string option \<Rightarrow> gotime \<Rightarrow> mark_row" where
  "sample_row i t created = (to_mark_row sample_mark)\<lparr>mr_id := i, mr_tracking := t, mr_status := Generated, mr_created_at := created\<rparr>"

definition tracked_db :: "gotime \<Rightarrow> shipping_db" where
  "tracked_db t = sample_db\<lparr>sd_marks := [sample_row ''m1'' (Some ''t1'') 1000000000, sample_row ''m0'' None 1000000000,
     sample_row ''m2'' (Some ''t2'') 2000000000, sample_row ''m3'' (Some ''t3'') t], sd_tie := (\<lambda>page i. page)\<rparr>"

definition sample_tracking :: "shipping_db tracking_ports" where
  "sample_tracking = \<lparr>k_list = (\<lambda>q d. (fst (mark_list q d), d)), k_provider = (\<lambda>_. None),
     k_publish = (\<lambda>_. ret ()), k_event_id = (\<lambda>d. (''e'', d)), k_now = sd_clock, k_nfd = (\<lambda>s. s),
     k_cache = (\<lambda>_. []), k_set_cache = (\<lambda>_ d. d)\<rparr>"

lemma tracked_matching: "matching_rows (tracked_db t) [] =
    [sample_row ''m1'' (Some ''t1'') 1000000000, sample_row ''m2'' (Some ''t2'') 2000000000, sample_row ''m3'' (Some ''t3'') t]"
proof -
  have "go_fields (to_lower (trim [])) = []" "trim [] = []" "[] \<noteq> ''m''" by code_simp+
  then show ?thesis
    by (simp add: matching_rows_def matches_mark_query_def candidate_query_def tracked_db_def has_tracking_def sample_row_def)
qed

theorem collect_marks_complete_witness:
  "collect_marks 1 sample_tracking [] 1 [] (tracked_db 3000000000)
     = (Inr (Some (map (load_mark (tracked_db 3000000000)) [sample_row ''m3'' (Some ''t3'') 3000000000,
          sample_row ''m2'' (Some ''t2'') 2000000000, sample_row ''m1'' (Some ''t1'') 1000000000])), tracked_db 3000000000)"
proof -
  let ?d = "tracked_db 3000000000"
  have works: "sd_fault ?d = (\<lambda>_. False)" "length (sd_marks ?d) = 4"
    by (simp_all add: tracked_db_def sample_db_def with_mark_def)
  then obtain rows where rows: "collect_marks 1 sample_tracking [] 1 [] ?d = (Inr (Some (map (load_mark ?d) rows)), ?d)"
    "distinct (map mr_created_at (matching_rows ?d [])) \<longrightarrow> rows = sort_key (\<lambda>r. - mr_created_at r) (matching_rows ?d [])"
    using collect_marks_complete[of sample_tracking ?d ?d 1 "[]"] by (auto simp: sample_tracking_def)
  have "mr_created_at (sample_row i t c) = c" for i t c by (simp add: sample_row_def)
  with rows show ?thesis by (simp add: tracked_matching)
qed

end
