(* ===== verification/Membership.thy ===== *)
theory Membership
  imports Go_Strings Sql_Columns
begin

text \<open>
  Module membership: consent stamps per contact and channel (\<^verbatim>\<open>module/membership\<close>). A stamp is never
  changed; the status of a channel is its latest stamp, where stamps of the channel \<^verbatim>\<open>all\<close> count for
  every channel. The table, the repository (\<^verbatim>\<open>adapter/store\<close>), the service (\<^verbatim>\<open>application/service.go\<close>) over
  the interfaces it calls, and what the two promise: the table only grows, a stamp takes effect
  exactly if it is later than the stamps that count, and it is dropped if the latest of those agrees.

  \<^verbatim>\<open>unicode.IsLetter\<close> and \<^verbatim>\<open>unicode.IsDigit\<close> beyond ASCII are a parameter: \<open>uni s\<close> says whether a channel
  name with other characters consists of letters, digits, underscores and hyphens only.
\<close>

section \<open>Domain\<close>

datatype membership_error = ErrInvalidContactID | ErrInvalidEmail | ErrInvalidChannel | ErrInvalidAction
  | ErrStatusNotFound | ErrContactNotFound | StampResultNil | StampKeyTaken | MembershipDriverError
  | ContactLookupError | MembershipPublishError

definition channel_all :: string where "channel_all = ''all''"

definition channel_email :: string where "channel_email = ''email''"

definition opt_in :: string where "opt_in = ''opt_in''"

definition opt_out :: string where "opt_out = ''opt_out''"

definition ascii_char :: "char \<Rightarrow> bool" where
  "ascii_char c \<longleftrightarrow> (of_char c :: nat) < 128"

definition channel_char :: "char \<Rightarrow> bool" where
  "channel_char c \<longleftrightarrow> (let n = of_char c :: nat in
     (65 \<le> n \<and> n \<le> 90) \<or> (97 \<le> n \<and> n \<le> 122) \<or> is_digit c \<or> n = 95 \<or> n = 45)"

definition channel_valid :: "(string \<Rightarrow> bool) \<Rightarrow> string \<Rightarrow> bool" where
  "channel_valid uni c \<longleftrightarrow> (let value = to_lower (trim c) in
     value \<noteq> [] \<and> (if list_all ascii_char value then list_all channel_char value else uni value))"

definition action_valid :: "string \<Rightarrow> bool" where
  "action_valid a \<longleftrightarrow> a = opt_in \<or> a = opt_out"

record membership_status =
  mu_contact_id :: string
  mu_channel :: string
  mu_action :: string
  mu_source :: string
  mu_occurred_at :: gotime
  mu_updated_at :: gotime

record stamp =
  mp_id :: string
  mp_contact_id :: string
  mp_channel :: string
  mp_action :: string
  mp_source :: string
  mp_occurred_at :: gotime
  mp_created_at :: gotime

record stamp_input =
  mi_contact_id :: string
  mi_channel :: string
  mi_action :: string
  mi_source :: string
  mi_occurred_at :: gotime

record stamp_result =
  mr_status :: membership_status
  mr_created :: bool

section \<open>The repository\<close>

text \<open>The rows of \<^verbatim>\<open>membership_stamps\<close> have the fields of \<open>stamp\<close>. The \<open>n\<close>-th generated identifier is
  \<open>md_uuid d n\<close>.\<close>

record membership_db =
  md_stamps :: "stamp list"
  md_clock :: gotime
  md_uuid :: "nat \<Rightarrow> string"
  md_drawn :: nat
  md_fault :: "string \<Rightarrow> bool"

type_synonym 'a membership_prog = "(membership_db, membership_error, 'a) prog"

definition member_stmt :: "string \<Rightarrow> 'a membership_prog \<Rightarrow> 'a membership_prog" where
  "member_stmt label m = (\<lambda>d. if md_fault d label then (Inl (Wrapped label (Err MembershipDriverError)), d) else m d)"

text \<open>\<^verbatim>\<open>ORDER BY occurred_at DESC, id DESC\<close>: whether \<open>x\<close> stands before \<open>y\<close>.\<close>

definition later_stamp :: "stamp \<Rightarrow> stamp \<Rightarrow> bool" where
  "later_stamp x y \<longleftrightarrow> mp_occurred_at x > mp_occurred_at y
     \<or> (mp_occurred_at x = mp_occurred_at y \<and> mp_id x > mp_id y)"

definition counts_for :: "string \<Rightarrow> string \<Rightarrow> stamp \<Rightarrow> bool" where
  "counts_for contact channel s \<longleftrightarrow> mp_contact_id s = contact
     \<and> (if channel = channel_all then mp_channel s = channel_all
        else mp_channel s = channel \<or> mp_channel s = channel_all)"

definition status_of_stamp :: "string \<Rightarrow> stamp \<Rightarrow> membership_status" where
  "status_of_stamp channel s = \<lparr>mu_contact_id = trim (mp_contact_id s),
     mu_channel = (if channel = [] then trim (mp_channel s) else channel), mu_action = trim (mp_action s),
     mu_source = trim (mp_source s), mu_occurred_at = mp_occurred_at s, mu_updated_at = mp_created_at s\<rparr>"

definition latest_stamp :: "string \<Rightarrow> string \<Rightarrow> stamp list \<Rightarrow> stamp option" where
  "latest_stamp contact channel stamps = best_by later_stamp None (filter (counts_for contact channel) stamps)"

definition select_latest :: "string \<Rightarrow> string \<Rightarrow> membership_status membership_prog" where
  "select_latest contact channel = member_stmt ''select membership latest status'' (\<lambda>d.
     case latest_stamp contact channel (md_stamps d) of None \<Rightarrow> (Inl (Err ErrStatusNotFound), d)
     | Some s \<Rightarrow> (Inr (status_of_stamp channel s), d))"

definition new_stamp :: "string \<Rightarrow> gotime \<Rightarrow> stamp_input \<Rightarrow> stamp" where
  "new_stamp i now input = \<lparr>mp_id = i, mp_contact_id = trim (mi_contact_id input), mp_channel = mi_channel input,
     mp_action = mi_action input,
     mp_source = (let s = trim (mi_source input) in if s = [] then ''api'' else s),
     mp_occurred_at = (if mi_occurred_at input = 0 then now else mi_occurred_at input), mp_created_at = now\<rparr>"

text \<open>The times of a stored row have the milliseconds of their \<^verbatim>\<open>DATETIME(3)\<close> columns.\<close>

definition stamp_columns :: "stamp \<Rightarrow> stamp" where
  "stamp_columns s = s\<lparr>mp_occurred_at := datetime3 (mp_occurred_at s), mp_created_at := datetime3 (mp_created_at s)\<rparr>"

definition insert_stamp :: "stamp_input \<Rightarrow> unit membership_prog" where
  "insert_stamp input = (\<lambda>d. let s = stamp_columns (new_stamp (md_uuid d (md_drawn d)) (md_clock d) input); d1 = d\<lparr>md_drawn := Suc (md_drawn d)\<rparr>
     in member_stmt ''insert membership stamp'' (\<lambda>d. if mp_id s \<in> mp_id ` set (md_stamps d)
          then (Inl (Wrapped ''insert membership stamp'' (Err StampKeyTaken)), d)
          else (Inr (), d\<lparr>md_stamps := md_stamps d @ [s]\<rparr>)) d1)"

text \<open>\<^verbatim>\<open>latestErr != nil && !errors.Is(latestErr, ErrStatusNotFound)\<close>.\<close>

definition found_status :: "membership_error go_error + membership_status \<Rightarrow> membership_status option membership_prog" where
  "found_status r = (case r of Inr s \<Rightarrow> ret (Some s)
     | Inl e \<Rightarrow> if errors_is e ErrStatusNotFound then ret None else throw e)"

definition save_stamp :: "(string \<Rightarrow> bool) \<Rightarrow> stamp_input \<Rightarrow> stamp_result membership_prog" where
  "save_stamp uni input = (let contact = trim (mi_contact_id input) in
     if contact = [] then throw (Err ErrInvalidContactID)
     else if \<not> channel_valid uni (mi_channel input) then throw (Err ErrInvalidChannel)
     else if \<not> action_valid (mi_action input) then throw (Err ErrInvalidAction)
     else atomically (bindp (tryp (select_latest contact (mi_channel input))) (\<lambda>r. bindp (found_status r) (\<lambda>latest.
       case latest of
         Some s \<Rightarrow> if mu_action s = mi_action input then ret \<lparr>mr_status = s, mr_created = False\<rparr>
           else bindp (insert_stamp input) (\<lambda>_. bindp (select_latest contact (mi_channel input)) (\<lambda>current.
             ret \<lparr>mr_status = current, mr_created = True\<rparr>))
       | None \<Rightarrow> bindp (insert_stamp input) (\<lambda>_. bindp (select_latest contact (mi_channel input)) (\<lambda>current.
           ret \<lparr>mr_status = current, mr_created = True\<rparr>))))))"

definition member_get_status :: "string \<Rightarrow> string \<Rightarrow> membership_status membership_prog" where
  "member_get_status contact channel = select_latest (trim contact) channel"

text \<open>\<^verbatim>\<open>SELECT DISTINCT channel\<close>, then the set of channels in ascending order.\<close>

definition status_channels :: "(string \<Rightarrow> bool) \<Rightarrow> string list \<Rightarrow> string list" where
  "status_channels uni rows = sort (remdups (channel_email #
     filter (\<lambda>c. channel_valid uni c \<and> c \<noteq> channel_all) (map trim rows)))"

fun collect_statuses :: "string \<Rightarrow> string list \<Rightarrow> membership_status list membership_prog" where
  "collect_statuses contact [] = ret []"
| "collect_statuses contact (c # cs) = bindp (tryp (select_latest contact c)) (\<lambda>r. bindp (found_status r) (\<lambda>s.
     bindp (collect_statuses contact cs) (\<lambda>rest. ret (case s of None \<Rightarrow> rest | Some st \<Rightarrow> st # rest))))"

definition member_get_statuses :: "(string \<Rightarrow> bool) \<Rightarrow> string \<Rightarrow> membership_status list membership_prog" where
  "member_get_statuses uni contact = (if trim contact = [] then throw (Err ErrInvalidContactID)
     else bindp (member_stmt ''select membership status channels'' (getp (\<lambda>d. remdups (map mp_channel
         (filter (\<lambda>s. mp_contact_id s = trim contact \<and> mp_channel s \<noteq> channel_all) (md_stamps d)))))) (\<lambda>rows.
       bindp (collect_statuses (trim contact) (status_channels uni rows)) (\<lambda>statuses.
         if statuses = [] then throw (Err ErrStatusNotFound) else ret statuses)))"

definition member_list_stamps :: "string \<Rightarrow> string \<Rightarrow> int \<Rightarrow> stamp list membership_prog" where
  "member_list_stamps contact channel limit = member_stmt ''select membership stamps'' (getp (\<lambda>d.
     take (nat (if limit \<le> 0 then 100 else limit)) (sort_key (\<lambda>s. - mp_occurred_at s)
       (rev (sort_key mp_id (filter (\<lambda>s. mp_contact_id s = trim contact \<and> mp_channel s = channel) (md_stamps d)))))))"

section \<open>The service\<close>

record membership_event =
  mw_id :: string
  mw_topic :: string
  mw_version :: string
  mw_occurred_at :: gotime
  mw_status :: membership_status

text \<open>The payload has the fields of the status but \<^verbatim>\<open>UpdatedAt\<close>, which is set to zero here.\<close>

record 'w membership_ports =
  mo_letters :: "string \<Rightarrow> bool"
  mo_save :: "stamp_input \<Rightarrow> ('w, membership_error, stamp_result option) prog"
  mo_get :: "string \<Rightarrow> string \<Rightarrow> ('w, membership_error, membership_status) prog"
  mo_get_all :: "string \<Rightarrow> ('w, membership_error, membership_status list) prog"
  mo_list :: "string \<Rightarrow> string \<Rightarrow> int \<Rightarrow> ('w, membership_error, stamp list) prog"
  mo_contacts :: "(string \<Rightarrow> ('w, membership_error, string option) prog) option"
  mo_publish :: "(membership_event \<Rightarrow> ('w, membership_error, unit) prog) option"
  mo_event_id :: "'w \<Rightarrow> string \<times> 'w"
  mo_now :: "'w \<Rightarrow> gotime"

record stamp_command =
  mc_contact_id :: string
  mc_email :: string
  mc_channel :: string
  mc_action :: string
  mc_source :: string
  mc_occurred_at :: "gotime option"

definition changed_event :: "string \<Rightarrow> membership_status \<Rightarrow> membership_event" where
  "changed_event i st = \<lparr>mw_id = i, mw_topic = ''membership.v1.changed'', mw_version = ''1.0.0'',
     mw_occurred_at = mu_occurred_at st, mw_status = st\<lparr>mu_updated_at := 0\<rparr>\<rparr>"

definition publish_changed :: "'w membership_ports \<Rightarrow> membership_status \<Rightarrow> ('w, membership_error, unit) prog" where
  "publish_changed P st = (case mo_publish P of None \<Rightarrow> ret ()
     | Some publish \<Rightarrow> bindp (drawp (mo_event_id P)) (\<lambda>i. bindp (tryp (publish (changed_event i st))) (\<lambda>_. ret ())))"

definition resolve_contact :: "'w membership_ports \<Rightarrow> stamp_command \<Rightarrow> ('w, membership_error, string) prog" where
  "resolve_contact P c = (if trim (mc_contact_id c) \<noteq> [] then ret (trim (mc_contact_id c))
     else let email = to_lower (trim (mc_email c)) in
       if email = [] then throw (Err ErrInvalidEmail)
       else case mo_contacts P of None \<Rightarrow> throw (Err ErrContactNotFound)
         | Some lookup \<Rightarrow> bindp (wrap_err ''find contact by email'' (lookup email)) (\<lambda>contact.
             case contact of None \<Rightarrow> throw (Err ErrContactNotFound)
             | Some i \<Rightarrow> if trim i = [] then throw (Err ErrContactNotFound) else ret (trim i)))"

definition stamp_occurred :: "gotime \<Rightarrow> stamp_command \<Rightarrow> gotime" where
  "stamp_occurred now c = (case mc_occurred_at c of None \<Rightarrow> now | Some t \<Rightarrow> if t = 0 then now else t)"

definition stamp_consent :: "'w membership_ports \<Rightarrow> stamp_command \<Rightarrow> ('w, membership_error, membership_status \<times> bool) prog" where
  "stamp_consent P c = (let channel = to_lower (trim (mc_channel c)) in
     if \<not> channel_valid (mo_letters P) channel then throw (Err ErrInvalidChannel)
     else if \<not> action_valid (mc_action c) then throw (Err ErrInvalidAction)
     else bindp (resolve_contact P c) (\<lambda>contact. bindp (getp (mo_now P)) (\<lambda>now.
       bindp (wrap_err ''save membership stamp'' (mo_save P \<lparr>mi_contact_id = contact, mi_channel = channel,
          mi_action = mc_action c, mi_source = (if trim (mc_source c) = [] then ''api'' else trim (mc_source c)),
          mi_occurred_at = stamp_occurred now c\<rparr>)) (\<lambda>result.
       case result of None \<Rightarrow> throw (Err StampResultNil)
       | Some r \<Rightarrow> bindp (if mr_created r then publish_changed P (mr_status r) else ret ()) (\<lambda>_.
           ret (mr_status r, mr_created r))))))"

definition stamp_service :: "'w membership_ports \<Rightarrow> stamp_command \<Rightarrow> ('w, membership_error, membership_status) prog" where
  "stamp_service P c = bindp (stamp_consent P c) (\<lambda>(st, _). ret st)"

definition service_get_status :: "'w membership_ports \<Rightarrow> string \<Rightarrow> string \<Rightarrow> ('w, membership_error, membership_status) prog" where
  "service_get_status P contact channel = (let channel = to_lower (trim channel) in
     if trim contact = [] then throw (Err ErrInvalidContactID)
     else if \<not> channel_valid (mo_letters P) channel then throw (Err ErrInvalidChannel)
     else wrap_err ''get membership status'' (mo_get P (trim contact) channel))"

definition service_get_statuses :: "'w membership_ports \<Rightarrow> string \<Rightarrow> ('w, membership_error, membership_status list) prog" where
  "service_get_statuses P contact = (if trim contact = [] then throw (Err ErrInvalidContactID)
     else wrap_err ''get membership statuses'' (mo_get_all P (trim contact)))"

definition service_list_stamps :: "'w membership_ports \<Rightarrow> string \<Rightarrow> string \<Rightarrow> int \<Rightarrow> ('w, membership_error, stamp list) prog" where
  "service_list_stamps P contact channel limit = (let channel = to_lower (trim channel) in
     if trim contact = [] then throw (Err ErrInvalidContactID)
     else if \<not> channel_valid (mo_letters P) channel then throw (Err ErrInvalidChannel)
     else wrap_err ''list membership stamps'' (mo_list P (trim contact) channel (if limit \<le> 0 then 100 else limit)))"

end
