(* ===== verification/Membership_Consent.thy ===== *)
theory Membership_Consent
  imports Membership Go_Assertions
begin

text \<open>
  What stamps mean. For stamps of a contact with times that differ after rounding, in whatever order they
  arrive, the table refines an abstract consent register: one entry with a time per channel, where a stamp of the
  channel \<^verbatim>\<open>all\<close> counts for every channel, unless the entry of the channel \<^verbatim>\<open>all\<close> has the same action. That
  exception is how the code suppresses duplicates, and it loses a global opt-out that follows an opt-in of one channel.
\<close>

section \<open>The latest stamp\<close>

lemma best_by_snoc: "best_by b acc (xs @ [x]) = Some (case best_by b acc xs of None \<Rightarrow> x | Some y \<Rightarrow> if b x y then x else y)"
  by (induction b acc xs rule: best_by.induct) (auto split: option.split)

lemma latest_stamp_snoc: "latest_stamp contact c (stamps @ [s]) = (if counts_for contact c s
    then Some (case latest_stamp contact c stamps of None \<Rightarrow> s | Some l \<Rightarrow> if later_stamp s l then s else l)
    else latest_stamp contact c stamps)"
  by (simp add: latest_stamp_def best_by_snoc)

lemma latest_stamp_mem: "latest_stamp contact c stamps = Some l \<Longrightarrow> l \<in> set stamps \<and> counts_for contact c l"
  by (auto simp: latest_stamp_def dest: best_by_mem)

text \<open>What the latest stamp says: when, what, and from where.\<close>

type_synonym consent = "gotime \<times> string \<times> string"

definition consent_entry :: "stamp \<Rightarrow> consent" where
  "consent_entry s = (mp_occurred_at s, trim (mp_action s), trim (mp_source s))"

definition consent_of :: "string \<Rightarrow> stamp list \<Rightarrow> string \<Rightarrow> consent option" where
  "consent_of contact stamps c = map_option consent_entry (latest_stamp contact c stamps)"

abbreviation consent_action :: "consent option \<Rightarrow> string option" where
  "consent_action e \<equiv> map_option (fst \<circ> snd) e"

definition newer :: "consent option \<Rightarrow> consent \<Rightarrow> consent option" where
  "newer old e = (case old of None \<Rightarrow> Some e | Some e0 \<Rightarrow> if fst e0 < fst e then Some e else Some e0)"

lemma consent_of_snoc:
  assumes "counts_for contact c s \<Longrightarrow> \<forall>l \<in> set stamps. mp_contact_id l = contact \<longrightarrow> mp_occurred_at l \<noteq> mp_occurred_at s"
  shows "consent_of contact (stamps @ [s]) c =
    (if counts_for contact c s then newer (consent_of contact stamps c) (consent_entry s) else consent_of contact stamps c)"
  using assms latest_stamp_mem[of contact c stamps]
  by (cases "latest_stamp contact c stamps")
    (auto simp: consent_of_def latest_stamp_snoc later_stamp_def newer_def consent_entry_def counts_for_def)

lemma consent_of_action: "consent_action (consent_of contact stamps c) = map_option (\<lambda>s. trim (mp_action s)) (latest_stamp contact c stamps)"
  by (cases "latest_stamp contact c stamps") (simp_all add: consent_of_def consent_entry_def)

section \<open>Storing a stamp\<close>

definition member_works :: "membership_db \<Rightarrow> bool" where
  "member_works d \<longleftrightarrow> md_fault d = (\<lambda>_. False) \<and> inj (md_uuid d)
     \<and> (\<forall>n \<ge> md_drawn d. md_uuid d n \<notin> mp_id ` set (md_stamps d))"

definition input_valid :: "(string \<Rightarrow> bool) \<Rightarrow> stamp_input \<Rightarrow> bool" where
  "input_valid uni i \<longleftrightarrow> trim (mi_contact_id i) \<noteq> [] \<and> channel_valid uni (mi_channel i) \<and> action_valid (mi_action i)"

definition next_stamp :: "membership_db \<Rightarrow> stamp_input \<Rightarrow> stamp" where
  "next_stamp d i = stamp_columns (new_stamp (md_uuid d (md_drawn d)) (md_clock d) i)"

definition with_stamp :: "stamp_input \<Rightarrow> membership_db \<Rightarrow> membership_db" where
  "with_stamp i d = d\<lparr>md_drawn := Suc (md_drawn d), md_stamps := md_stamps d @ [next_stamp d i]\<rparr>"

lemma insert_stamp_works: "member_works d \<Longrightarrow> insert_stamp i d = (Inr (), with_stamp i d)"
  by (auto simp: insert_stamp_def member_stmt_def Let_def member_works_def with_stamp_def next_stamp_def new_stamp_def stamp_columns_def)

lemma member_works_stamp: "member_works d \<Longrightarrow> member_works (with_stamp i d)"
  by (fastforce simp: member_works_def with_stamp_def next_stamp_def new_stamp_def stamp_columns_def inj_def)

lemma select_latest_works: "member_works d \<Longrightarrow> select_latest contact c d =
    (case latest_stamp contact c (md_stamps d) of None \<Rightarrow> (Inl (Err ErrStatusNotFound), d) | Some s \<Rightarrow> (Inr (status_of_stamp c s), d))"
  by (simp add: select_latest_def member_stmt_def member_works_def split: option.split)

lemma valid_action_trimmed: "action_valid a \<Longrightarrow> trim a = a"
proof -
  have "trim opt_in = opt_in" "trim opt_out = opt_out" by code_simp+
  then show "action_valid a \<Longrightarrow> trim a = a" by (auto simp: action_valid_def)
qed

lemma status_action [simp]: "mu_action (status_of_stamp c s) = trim (mp_action s)"
  by (simp add: status_of_stamp_def)

text \<open>The effect of \<^verbatim>\<open>SaveStamp\<close> when no statement fails: nothing if the status already has the requested
  action, one new row otherwise; the answer is the status afterwards.\<close>

lemma save_stamp_works:
  assumes works: "member_works d" and valid: "input_valid uni i"
  shows "\<exists>l. save_stamp uni i d =
      (if consent_action (consent_of (trim (mi_contact_id i)) (md_stamps d) (mi_channel i)) = Some (mi_action i)
       then (Inr \<lparr>mr_status = status_of_stamp (mi_channel i) l, mr_created = False\<rparr>, d)
       else (Inr \<lparr>mr_status = status_of_stamp (mi_channel i) l, mr_created = True\<rparr>, with_stamp i d))
    \<and> latest_stamp (trim (mi_contact_id i)) (mi_channel i) (md_stamps (snd (save_stamp uni i d))) = Some l"
proof -
  let ?k = "trim (mi_contact_id i)" and ?c = "mi_channel i"
  have counts: "counts_for ?k ?c (next_stamp d i)"
    by (auto simp: counts_for_def next_stamp_def new_stamp_def stamp_columns_def)
  obtain l where l: "latest_stamp ?k ?c (md_stamps (with_stamp i d)) = Some l"
    using counts by (simp add: with_stamp_def latest_stamp_snoc)
  note sel = select_latest_works[OF works] select_latest_works[OF member_works_stamp[OF works]]
  show ?thesis
  proof (cases "latest_stamp ?k ?c (md_stamps d)")
    case None
    then show ?thesis
      using valid l by (simp add: save_stamp_def Let_def input_valid_def prog_simps sel found_status_def insert_stamp_works[OF works] consent_of_action)
  next
    case (Some s)
    then show ?thesis
      using valid l by (simp add: save_stamp_def Let_def input_valid_def prog_simps sel found_status_def insert_stamp_works[OF works] consent_of_action)
  qed
qed

section \<open>The consent register\<close>

definition entry_of_input :: "gotime \<Rightarrow> stamp_input \<Rightarrow> consent" where
  "entry_of_input now i = (datetime3 (if mi_occurred_at i = 0 then now else mi_occurred_at i), mi_action i,
     if trim (mi_source i) = [] then ''api'' else trim (mi_source i))"

definition consent_step :: "string \<Rightarrow> gotime \<Rightarrow> stamp_input \<Rightarrow> (string \<Rightarrow> consent option) \<Rightarrow> string \<Rightarrow> consent option" where
  "consent_step contact now i f = (if trim (mi_contact_id i) \<noteq> contact then f
     else if consent_action (f (mi_channel i)) = Some (mi_action i) then f
     else (\<lambda>c. if mi_channel i = c \<or> mi_channel i = channel_all then newer (f c) (entry_of_input now i) else f c))"

definition run_stamps :: "(string \<Rightarrow> bool) \<Rightarrow> stamp_input list \<Rightarrow> membership_db \<Rightarrow> membership_db" where
  "run_stamps uni is d = fold (\<lambda>i d. snd (save_stamp uni i d)) is d"

text \<open>Times of the stamps of a contact, as stored, that differ from each other and from those in the table.\<close>

definition times_apart :: "string \<Rightarrow> membership_db \<Rightarrow> stamp_input list \<Rightarrow> bool" where
  "times_apart contact d is \<longleftrightarrow> (let mine = filter (\<lambda>i. trim (mi_contact_id i) = contact) is; time = \<lambda>i. fst (entry_of_input (md_clock d) i)
     in distinct (map time mine)
       \<and> (\<forall>i \<in> set mine. \<forall>s \<in> set (md_stamps d). mp_contact_id s = contact \<longrightarrow> mp_occurred_at s \<noteq> time i))"

lemma save_stamp_state:
  assumes "member_works d" "input_valid uni i"
  shows "snd (save_stamp uni i d) = (if consent_action (consent_of (trim (mi_contact_id i)) (md_stamps d) (mi_channel i)) = Some (mi_action i)
     then d else with_stamp i d)"
  using save_stamp_works[OF assms] by (auto split: if_splits)

lemma next_stamp_fields:
  assumes "input_valid uni i"
  shows "mp_contact_id (next_stamp d i) = trim (mi_contact_id i)" "mp_channel (next_stamp d i) = mi_channel i"
    "consent_entry (next_stamp d i) = entry_of_input (md_clock d) i" "mp_occurred_at (next_stamp d i) = fst (entry_of_input (md_clock d) i)"
proof -
  have "trim ''api'' = ''api''" by code_simp
  then show "mp_contact_id (next_stamp d i) = trim (mi_contact_id i)" "mp_channel (next_stamp d i) = mi_channel i"
    "consent_entry (next_stamp d i) = entry_of_input (md_clock d) i" "mp_occurred_at (next_stamp d i) = fst (entry_of_input (md_clock d) i)"
    using assms valid_action_trimmed[of "mi_action i"]
    by (simp_all add: next_stamp_def new_stamp_def stamp_columns_def consent_entry_def entry_of_input_def input_valid_def Let_def)
qed

lemma consent_step_works:
  assumes "member_works d" "input_valid uni i" "times_apart contact d (i # is)"
  shows "member_works (snd (save_stamp uni i d)) \<and> times_apart contact (snd (save_stamp uni i d)) is
    \<and> md_clock (snd (save_stamp uni i d)) = md_clock d
    \<and> consent_of contact (md_stamps (snd (save_stamp uni i d))) = consent_step contact (md_clock d) i (consent_of contact (md_stamps d))"
proof -
  let ?s = "next_stamp d i"
  note s = next_stamp_fields[OF assms(2), of d]
  have apart: "\<forall>l \<in> set (md_stamps d). mp_contact_id l = contact \<longrightarrow> mp_occurred_at l \<noteq> mp_occurred_at ?s"
    if "trim (mi_contact_id i) = contact"
    using assms(3) that s(4) by (auto simp: times_apart_def Let_def)
  have after: "consent_of contact (md_stamps (with_stamp i d)) c =
      (if counts_for contact c ?s then newer (consent_of contact (md_stamps d) c) (entry_of_input (md_clock d) i)
       else consent_of contact (md_stamps d) c)" for c
    using consent_of_snoc[of contact c ?s "md_stamps d"] apart s by (auto simp: with_stamp_def counts_for_def)
  have clock: "md_clock (with_stamp i d) = md_clock d" by (simp add: with_stamp_def)
  show ?thesis
  proof (intro conjI)
    show "member_works (snd (save_stamp uni i d))"
      using assms(1) member_works_stamp[OF assms(1)] by (simp add: save_stamp_state[OF assms(1,2)])
    show "times_apart contact (snd (save_stamp uni i d)) is"
      using assms(3) s by (auto simp: save_stamp_state[OF assms(1,2)] times_apart_def with_stamp_def Let_def split: if_splits)
    show "md_clock (snd (save_stamp uni i d)) = md_clock d"
      using clock by (simp add: save_stamp_state[OF assms(1,2)])
    show "consent_of contact (md_stamps (snd (save_stamp uni i d))) = consent_step contact (md_clock d) i (consent_of contact (md_stamps d))"
      using after s(1,2) by (auto simp: save_stamp_state[OF assms(1,2)] consent_step_def counts_for_def fun_eq_iff)
  qed
qed

text \<open>C24: While the database works, storing valid stamps in any order refines a consent register that has, for every
  channel of a contact, the time, the action and the source of the latest stamp that counts for it. A stamp of one channel
  counts for this channel, a stamp of the channel \<^verbatim>\<open>all\<close> for every one; an older one than the entry changes nothing. A
  stamp with the action that its own channel has already is dropped altogether: one of the channel \<^verbatim>\<open>all\<close> then has no
  effect, whatever the channels were set to since. The stored times, which have milliseconds, are to be different for the
  stamps of the contact: of two stamps in the same millisecond the one with the greater random identifier would count.\<close>

theorem stamps_refine_consent:
  assumes "member_works d" "list_all (input_valid uni) is" "times_apart contact d is"
  shows "consent_of contact (md_stamps (run_stamps uni is d))
    = fold (consent_step contact (md_clock d)) is (consent_of contact (md_stamps d))"
  using assms
proof (induction "is" arbitrary: d)
  case (Cons i "is")
  then have "member_works d" "input_valid uni i" "times_apart contact d (i # is)" by simp_all
  from consent_step_works[OF this] Cons show ?case by (simp add: run_stamps_def)
qed (simp add: run_stamps_def)

definition empty_membership :: membership_db where
  "empty_membership = \<lparr>md_stamps = [], md_clock = 100, md_uuid = (\<lambda>n. replicate n (CHR ''x'')), md_drawn = 1, md_fault = (\<lambda>_. False)\<rparr>"

definition opt_out_again :: "stamp_input list" where
  "opt_out_again = [\<lparr>mi_contact_id = ''c1'', mi_channel = ''all'', mi_action = ''opt_out'', mi_source = ''api'', mi_occurred_at = 10000000\<rparr>,
     \<lparr>mi_contact_id = ''c1'', mi_channel = ''email'', mi_action = ''opt_in'', mi_source = ''form'', mi_occurred_at = 30000000\<rparr>,
     \<lparr>mi_contact_id = ''c1'', mi_channel = ''email'', mi_action = ''opt_out'', mi_source = ''api'', mi_occurred_at = 20000000\<rparr>,
     \<lparr>mi_contact_id = ''c1'', mi_channel = ''all'', mi_action = ''opt_out'', mi_source = ''api'', mi_occurred_at = 40000000\<rparr>]"

text \<open>A contact opts out of everything and opts in to e-mail; an older stamp arrives late, and the contact opts out of
  everything again: the contact is still opted in to e-mail.\<close>

theorem stamps_refine_consent_witness:
  "consent_of ''c1'' (md_stamps (run_stamps (\<lambda>_. False) opt_out_again empty_membership)) ''email'' = Some (30000000, opt_in, ''form'')"
proof -
  have works: "member_works empty_membership" by (auto simp: member_works_def empty_membership_def inj_def dest: arg_cong[where f = length])
  have valid: "list_all (input_valid (\<lambda>_. False)) opt_out_again" by code_simp
  have trims: "trim ''c1'' = ''c1''" "trim ''api'' = ''api''" "trim ''form'' = ''form''" by code_simp+
  have apart: "times_apart ''c1'' empty_membership opt_out_again"
    by (simp add: times_apart_def opt_out_again_def empty_membership_def entry_of_input_def trims datetime3_def round_to_def)
  show ?thesis
    using stamps_refine_consent[OF works valid apart] trims
    by (simp add: opt_out_again_def consent_step_def channel_all_def opt_in_def entry_of_input_def consent_of_def newer_def
        empty_membership_def latest_stamp_def datetime3_def round_to_def)
qed

section \<open>The assembled module\<close>

text \<open>The service over the repository, a contact lookup and a transport: \<open>mx_events\<close> logs what was handed to
  the transport, which may refuse it.\<close>

record membership_world =
  mx_db :: membership_db
  mx_letters :: "string \<Rightarrow> bool"
  mx_contact :: "string \<Rightarrow> string option"
  mx_events :: "membership_event list"
  mx_refuses :: "membership_event \<Rightarrow> bool"

definition put_member_db :: "membership_db \<Rightarrow> membership_world \<Rightarrow> membership_world" where
  "put_member_db d w = w\<lparr>mx_db := d\<rparr>"

definition member_ports :: "(string \<Rightarrow> bool) \<Rightarrow> membership_world membership_ports" where
  "member_ports uni = \<lparr>mo_letters = uni,
     mo_save = (\<lambda>i. bindp (through mx_db put_member_db (save_stamp uni i)) (\<lambda>r. ret (Some r))),
     mo_get = (\<lambda>k c. through mx_db put_member_db (member_get_status k c)),
     mo_get_all = (\<lambda>k. through mx_db put_member_db (member_get_statuses uni k)),
     mo_list = (\<lambda>k c n. through mx_db put_member_db (member_list_stamps k c n)),
     mo_contacts = Some (\<lambda>email. getp (\<lambda>w. mx_contact w email)),
     mo_publish = Some (\<lambda>e w. (if mx_refuses w e then Inl (Err MembershipPublishError) else Inr (), w\<lparr>mx_events := mx_events w @ [e]\<rparr>)),
     mo_event_id = (\<lambda>w. (md_uuid (mx_db w) (md_drawn (mx_db w)), w\<lparr>mx_db := (mx_db w)\<lparr>md_drawn := Suc (md_drawn (mx_db w))\<rparr>\<rparr>)),
     mo_now = (\<lambda>w. md_clock (mx_db w))\<rparr>"

lemma insert_stamp_Inr: "insert_stamp i d = (Inr x, d') \<Longrightarrow> d' = with_stamp i d"
  by (auto simp: insert_stamp_def member_stmt_def Let_def with_stamp_def next_stamp_def split: if_splits)

lemma select_latest_Inr: "select_latest k c d = (Inr st, d') \<Longrightarrow>
    d' = d \<and> (\<exists>l. latest_stamp k c (md_stamps d) = Some l \<and> st = status_of_stamp c l)"
  by (auto simp: select_latest_def member_stmt_def split: if_splits option.splits)

lemma readonly_select_latest: "readonly (select_latest k c)"
  by (auto simp: readonly_def select_latest_def member_stmt_def split: option.splits)

lemma found_status_Inr: "found_status r d = (Inr x, d') \<Longrightarrow> d' = d \<and> (x = None \<or> (\<exists>st. x = Some st \<and> r = Inr st))"
  by (auto simp: found_status_def prog_simps split: sum.splits if_splits)

lemma save_stamp_Inl: "save_stamp uni i d = (Inl e, d') \<Longrightarrow> d' = d"
  by (auto simp: save_stamp_def Let_def throw_def split: if_splits dest: atomically_Inl)

lemma save_stamp_Inr:
  assumes "save_stamp uni i d = (Inr r, d')"
  shows "(\<exists>l. latest_stamp (trim (mi_contact_id i)) (mi_channel i) (md_stamps d') = Some l \<and> mr_status r = status_of_stamp (mi_channel i) l)
    \<and> d' = (if mr_created r then with_stamp i d else d)"
proof -
  let ?k = "trim (mi_contact_id i)" and ?c = "mi_channel i"
  obtain q d1 where sel: "select_latest ?k ?c d = (q, d1)" by fastforce
  have d1: "d1 = d" using readonlyD[OF readonly_select_latest sel] .
  have ins: "bindp (insert_stamp i) (\<lambda>_. bindp (select_latest ?k ?c) (\<lambda>current. ret \<lparr>mr_status = current, mr_created = True\<rparr>)) d = (Inr r, d')
      \<Longrightarrow> mr_created r \<and> d' = with_stamp i d \<and> (\<exists>l. latest_stamp ?k ?c (md_stamps d') = Some l \<and> mr_status r = status_of_stamp ?c l)"
    by (auto simp: prog_Inr_iffs dest!: insert_stamp_Inr select_latest_Inr)
  from assms obtain y where y: "found_status q d = (Inr y, d)"
    and rest: "(case y of Some st \<Rightarrow> if mu_action st = mi_action i then ret \<lparr>mr_status = st, mr_created = False\<rparr>
         else bindp (insert_stamp i) (\<lambda>_. bindp (select_latest ?k ?c) (\<lambda>current. ret \<lparr>mr_status = current, mr_created = True\<rparr>))
       | None \<Rightarrow> bindp (insert_stamp i) (\<lambda>_. bindp (select_latest ?k ?c) (\<lambda>current. ret \<lparr>mr_status = current, mr_created = True\<rparr>))) d
       = (Inr r, d')"
    using sel d1 by (fastforce simp: save_stamp_def Let_def bindp_Inr_iff atomically_Inr_iff tryp_apply throw_Inr_iff
        split: if_splits dest: found_status_Inr)
  show ?thesis
  proof (cases y)
    case None
    with rest have "bindp (insert_stamp i) (\<lambda>_. bindp (select_latest ?k ?c) (\<lambda>current. ret \<lparr>mr_status = current, mr_created = True\<rparr>)) d = (Inr r, d')"
      by simp
    from ins[OF this] show ?thesis by auto
  next
    case (Some st)
    then have "select_latest ?k ?c d = (Inr st, d)" using found_status_Inr[OF y] sel d1 by auto
    with rest Some ins show ?thesis by (auto simp: ret_Inr_iff split: if_splits dest: select_latest_Inr)
  qed
qed

lemma resolve_contact_state: "snd (resolve_contact (member_ports uni) c w) = w"
  by (auto simp: resolve_contact_def member_ports_def prog_simps Let_def split: option.splits)

lemma publish_changed_logs: "\<exists>i e. fst (publish_changed (member_ports uni) st w) = Inr ()
    \<and> mx_events (snd (publish_changed (member_ports uni) st w)) = mx_events w @ [changed_event i st]
    \<and> md_stamps (mx_db (snd (publish_changed (member_ports uni) st w))) = md_stamps (mx_db w)"
  by (auto simp: publish_changed_def member_ports_def prog_simps)

text \<open>A command that is not refused either adds a row and hands one event with the status afterwards to the
  transport, or does neither. A command that is refused does neither.\<close>

lemma stamp_announced:
  assumes "stamp_service (member_ports uni) c w = (r, w')"
  shows "(md_stamps (mx_db w') = md_stamps (mx_db w) \<and> mx_events w' = mx_events w)
    \<or> (\<exists>s i st. r = Inr st \<and> md_stamps (mx_db w') = md_stamps (mx_db w) @ [s] \<and> mx_events w' = mx_events w @ [changed_event i st])"
proof -
  obtain q w1 where contact: "resolve_contact (member_ports uni) c w = (q, w1)" by fastforce
  then have w1: "w1 = w" using resolve_contact_state by (metis snd_conv)
  have save: "mo_save (member_ports uni) i w = (case save_stamp uni i (mx_db w) of (Inl e, d) \<Rightarrow> (Inl e, put_member_db d w)
      | (Inr x, d) \<Rightarrow> (Inr (Some x), put_member_db d w))" for i
    by (simp add: member_ports_def through_def prog_simps split: prod.splits sum.splits)
  have put: "put_member_db (mx_db w) w = w" by (simp add: put_member_db_def)
  show ?thesis
  proof (cases q)
    case (Inl e)
    then show ?thesis using assms contact w1
      by (auto simp: stamp_service_def stamp_consent_def Let_def bindp_apply throw_apply split: if_splits)
  next
    case (Inr k)
    define i where "i = \<lparr>mi_contact_id = k, mi_channel = to_lower (trim (mc_channel c)), mi_action = mc_action c,
        mi_source = (if trim (mc_source c) = [] then ''api'' else trim (mc_source c)),
        mi_occurred_at = stamp_occurred (md_clock (mx_db w)) c\<rparr>"
    have now: "mo_now (member_ports uni) w = md_clock (mx_db w)" by (simp add: member_ports_def)
    obtain x d where saved: "save_stamp uni i (mx_db w) = (x, d)" by fastforce
    let ?valid = "channel_valid (mo_letters (member_ports uni)) (to_lower (trim (mc_channel c))) \<and> action_valid (mc_action c)"
    have accepts: "?valid \<Longrightarrow> stamp_service (member_ports uni) c w =
        (case x of Inl e \<Rightarrow> (Inl (Wrapped ''save membership stamp'' e), put_member_db d w)
          | Inr y \<Rightarrow> bindp (if mr_created y then publish_changed (member_ports uni) (mr_status y) else ret ())
              (\<lambda>_. ret (mr_status y)) (put_member_db d w))"
      using contact Inr w1 saved[unfolded i_def]
      by (simp add: stamp_service_def stamp_consent_def Let_def bindp_apply wrap_err_apply getp_apply throw_apply ret_apply now save
          split: sum.split prod.split)
    have refuses: "\<not> ?valid \<Longrightarrow> \<exists>e. stamp_service (member_ports uni) c w = (Inl e, w)"
      by (auto simp: stamp_service_def stamp_consent_def Let_def bindp_apply throw_apply)
    show ?thesis
    proof (cases ?valid)
      case True
      note accepted = accepts[OF True]
      show ?thesis
      proof (cases x)
        case (Inl e)
        with saved have "d = mx_db w" by (blast intro: save_stamp_Inl)
        with Inl show ?thesis using accepted assms put by auto
      next
        case (Inr y)
        then have d: "d = (if mr_created y then with_stamp i (mx_db w) else mx_db w)" using saved save_stamp_Inr by blast
        obtain j w2 where pub: "publish_changed (member_ports uni) (mr_status y) (put_member_db d w) = (Inr (), w2)"
            "mx_events w2 = mx_events w @ [changed_event j (mr_status y)]" "md_stamps (mx_db w2) = md_stamps d"
          using publish_changed_logs[of uni "mr_status y" "put_member_db d w"] by (auto simp: put_member_db_def prod_eq_iff)
        show ?thesis
          using accepted Inr assms pub d put by (auto simp: bindp_apply ret_apply with_stamp_def put_member_db_def split: if_splits)
      qed
    next
      case False
      with refuses assms show ?thesis by fastforce
    qed
  qed
qed

end
