(* ===== verification/Sync_Runs.thy ===== *)
theory Sync_Runs
  imports Go_Strings Go_Assertions
begin

text \<open>
  Module syncrecord (\<^verbatim>\<open>module/syncrecord\<close>): the registry of synchronisation runs. Values of \<^verbatim>\<open>domain\<close>, the
  tables \<^verbatim>\<open>sync_runs\<close> and \<^verbatim>\<open>sync_run_errors\<close> with the operations of \<^verbatim>\<open>adapter/store\<close>, and the recorder
  service of \<^verbatim>\<open>application\<close>. A run is finished by an UPDATE that requires the status running.

  The JSON encoding of metadata is a parameter (\<open>enc\<close>, \<open>dec\<close>), and so is how the driver hands the average
  of an integer column to an \<^verbatim>\<open>int64\<close> (\<open>yd_avg\<close>, \<open>None\<close> for a scan error).
\<close>

section \<open>Domain\<close>

datatype sync_error = ErrInvalidRunID | ErrInvalidKind | ErrInvalidTrigger | ErrRunNotFound | ErrRunAlreadyFinished
  | SyncKeyTaken | SyncRunMissing | SyncDriverError

definition sync_kinds :: "string list" where
  "sync_kinds = [''woocommerce.contacts'', ''woocommerce.coupons'', ''woocommerce.orders'', ''falabella.products'',
     ''falabella.status_resolution'', ''assets.jpg_conversion'', ''analytics.seed'', ''analytics.flush'',
     ''membership.migration'', ''campaign.send'', ''shopify.contacts'', ''shopify.orders'']"

definition kind_valid :: "string \<Rightarrow> bool" where
  "kind_valid k \<longleftrightarrow> trim k \<in> set sync_kinds"

definition kind_module :: "string \<Rightarrow> string" where
  "kind_module k = trim (takeWhile (\<lambda>c. c \<noteq> CHR ''.'') (trim k))"

definition trigger_valid :: "string \<Rightarrow> bool" where
  "trigger_valid t \<longleftrightarrow> trim t \<in> {''cron'', ''manual'', ''event'', ''startup'', ''migration''}"

definition run_running :: string where "run_running = ''running''"

definition run_completed :: string where "run_completed = ''completed''"

definition run_failed :: string where "run_failed = ''failed''"

definition status_terminal :: "string \<Rightarrow> bool" where
  "status_terminal s \<longleftrightarrow> trim s \<in> {run_completed, run_failed}"

record run_error =
  ye_id :: string
  ye_run_id :: string
  ye_type :: string
  ye_code :: string
  ye_message :: string
  ye_created_at :: gotime

record sync_run =
  yr_id :: string
  yr_kind :: string
  yr_trigger :: string
  yr_status :: string
  yr_started_at :: gotime
  yr_ended_at :: "gotime option"
  yr_duration :: int
  yr_processed :: int
  yr_succeeded :: int
  yr_failed :: int
  yr_skipped :: int
  yr_error_count :: int
  yr_metadata :: gomap
  yr_errors :: "run_error list"
  yr_created_at :: gotime
  yr_updated_at :: gotime

record run_stats =
  yt_window_start :: gotime
  yt_total :: int
  yt_completed :: int
  yt_failed :: int
  yt_avg :: int
  yt_last_failure :: "gotime option"

section \<open>Rows and mappers\<close>

record run_row =
  rr_id :: string
  rr_kind :: string
  rr_trigger :: string
  rr_status :: string
  rr_started_at :: gotime
  rr_ended_at :: "gotime option"
  rr_duration :: int
  rr_processed :: int
  rr_succeeded :: int
  rr_failed :: int
  rr_skipped :: int
  rr_error_count :: int
  rr_metadata :: string
  rr_created_at :: gotime
  rr_updated_at :: gotime

record sync_db =
  yd_runs :: "run_row list"
  yd_errors :: "run_error list"
  yd_clock :: gotime
  yd_uuid :: "nat \<Rightarrow> string"
  yd_drawn :: nat
  yd_fault :: "string \<Rightarrow> bool"
  yd_avg :: "rat \<Rightarrow> int option"

type_synonym 'a sync_prog = "(sync_db, sync_error, 'a) prog"

definition sync_stmt :: "string \<Rightarrow> 'a sync_prog \<Rightarrow> 'a sync_prog" where
  "sync_stmt label m = (\<lambda>d. if yd_fault d label then (Inl (Wrapped label (Err SyncDriverError)), d) else m d)"

definition marshal_metadata :: "(gomap \<Rightarrow> string) \<Rightarrow> gomap \<Rightarrow> string" where
  "marshal_metadata enc m = (if m = [] then [] else enc m)"

definition unmarshal_metadata :: "(string \<Rightarrow> gomap option) \<Rightarrow> string \<Rightarrow> gomap" where
  "unmarshal_metadata dec s = (if trim s = [] then [] else case dec (trim s) of None \<Rightarrow> [] | Some m \<Rightarrow> m)"

definition run_to_row :: "(gomap \<Rightarrow> string) \<Rightarrow> sync_run \<Rightarrow> run_row" where
  "run_to_row enc r = \<lparr>rr_id = trim (yr_id r), rr_kind = trim (yr_kind r), rr_trigger = trim (yr_trigger r),
     rr_status = trim (yr_status r), rr_started_at = yr_started_at r, rr_ended_at = yr_ended_at r,
     rr_duration = yr_duration r, rr_processed = yr_processed r, rr_succeeded = yr_succeeded r,
     rr_failed = yr_failed r, rr_skipped = yr_skipped r, rr_error_count = yr_error_count r,
     rr_metadata = marshal_metadata enc (yr_metadata r), rr_created_at = yr_created_at r, rr_updated_at = yr_updated_at r\<rparr>"

definition trim_error :: "run_error \<Rightarrow> run_error" where
  "trim_error e = \<lparr>ye_id = trim (ye_id e), ye_run_id = trim (ye_run_id e), ye_type = trim (ye_type e),
     ye_code = trim (ye_code e), ye_message = trim (ye_message e), ye_created_at = ye_created_at e\<rparr>"

definition row_to_run :: "(string \<Rightarrow> gomap option) \<Rightarrow> run_error list \<Rightarrow> run_row \<Rightarrow> sync_run" where
  "row_to_run dec errors r = \<lparr>yr_id = trim (rr_id r), yr_kind = trim (rr_kind r), yr_trigger = trim (rr_trigger r),
     yr_status = trim (rr_status r), yr_started_at = rr_started_at r, yr_ended_at = rr_ended_at r,
     yr_duration = rr_duration r, yr_processed = rr_processed r, yr_succeeded = rr_succeeded r,
     yr_failed = rr_failed r, yr_skipped = rr_skipped r, yr_error_count = rr_error_count r,
     yr_metadata = unmarshal_metadata dec (rr_metadata r), yr_errors = sort_key ye_created_at (map trim_error errors),
     yr_created_at = rr_created_at r, yr_updated_at = rr_updated_at r\<rparr>"

section \<open>The repository\<close>

text \<open>GORM fills a zero \<^verbatim>\<open>CreatedAt\<close> and \<^verbatim>\<open>UpdatedAt\<close> with the current time.\<close>

definition insert_run :: "run_row \<Rightarrow> unit sync_prog" where
  "insert_run r = sync_stmt ''insert sync run'' (\<lambda>d.
     if rr_id r \<in> rr_id ` set (yd_runs d) then (Inl (Wrapped ''insert sync run'' (Err SyncKeyTaken)), d)
     else (Inr (), d\<lparr>yd_runs := yd_runs d @ [r\<lparr>rr_created_at := (if rr_created_at r = 0 then yd_clock d else rr_created_at r),
       rr_updated_at := (if rr_updated_at r = 0 then yd_clock d else rr_updated_at r)\<rparr>]\<rparr>))"

definition create_run :: "(gomap \<Rightarrow> string) \<Rightarrow> sync_run \<Rightarrow> unit sync_prog" where
  "create_run enc r = insert_run (run_to_row enc r)"

record complete_input =
  yc_run_id :: string
  yc_status :: string
  yc_ended_at :: gotime
  yc_processed :: int
  yc_succeeded :: int
  yc_failed :: int
  yc_skipped :: int

definition finished_row :: "complete_input \<Rightarrow> run_row \<Rightarrow> run_row" where
  "finished_row i r = r\<lparr>rr_status := trim (yc_status i), rr_ended_at := Some (yc_ended_at i), rr_duration := 0,
     rr_processed := yc_processed i, rr_succeeded := yc_succeeded i, rr_failed := yc_failed i,
     rr_skipped := yc_skipped i, rr_updated_at := yc_ended_at i\<rparr>"

definition is_running :: "string \<Rightarrow> run_row \<Rightarrow> bool" where
  "is_running i r \<longleftrightarrow> rr_id r = i \<and> rr_status r = run_running"

definition update_running :: "complete_input \<Rightarrow> bool sync_prog" where
  "update_running i = sync_stmt ''update sync run'' (\<lambda>d. (Inr (list_ex (is_running (trim (yc_run_id i))) (yd_runs d)),
     d\<lparr>yd_runs := map (\<lambda>r. if is_running (trim (yc_run_id i)) r then finished_row i r else r) (yd_runs d)\<rparr>))"

definition find_run :: "string \<Rightarrow> run_row list \<Rightarrow> run_row option" where
  "find_run i rows = find (\<lambda>r. rr_id r = i) rows"

text \<open>\<^verbatim>\<open>Milliseconds\<close> of a positive duration. If the row is gone, the scanned times stay zero.\<close>

definition run_duration :: "run_row option \<Rightarrow> int" where
  "run_duration r = (case r of None \<Rightarrow> 0 | Some r \<Rightarrow> (case rr_ended_at r of None \<Rightarrow> 0
     | Some e \<Rightarrow> if rr_started_at r = 0 \<or> e - rr_started_at r \<le> 0 then 0 else (e - rr_started_at r) div 1000000))"

definition update_derived :: "string \<Rightarrow> int \<Rightarrow> int \<Rightarrow> unit sync_prog" where
  "update_derived i duration errors = sync_stmt ''update sync run derived counters'' (\<lambda>d. (Inr (),
     d\<lparr>yd_runs := map (\<lambda>r. if rr_id r = i then r\<lparr>rr_duration := duration, rr_error_count := errors,
         rr_updated_at := yd_clock d\<rparr> else r) (yd_runs d)\<rparr>))"

definition recalculate :: "string \<Rightarrow> unit sync_prog" where
  "recalculate i = bindp (sync_stmt ''load sync run timing'' (getp (\<lambda>d. run_duration (find_run i (yd_runs d))))) (\<lambda>duration.
     bindp (sync_stmt ''count sync run errors'' (getp (\<lambda>d. int (length (filter (\<lambda>e. ye_run_id e = i) (yd_errors d)))))) (\<lambda>errors.
       update_derived i duration errors))"

definition repo_complete_run :: "complete_input \<Rightarrow> unit sync_prog" where
  "repo_complete_run i = (if trim (yc_run_id i) = [] then throw (Err ErrInvalidRunID)
     else bindp (update_running i) (\<lambda>updated.
       if updated then recalculate (trim (yc_run_id i))
       else bindp (sync_stmt ''load sync run'' (getp (\<lambda>d. find_run (trim (yc_run_id i)) (yd_runs d)))) (\<lambda>r.
         throw (Err (case r of None \<Rightarrow> ErrRunNotFound | Some _ \<Rightarrow> ErrRunAlreadyFinished)))))"

text \<open>One multi-row INSERT; the foreign key requires the runs to exist.\<close>

definition add_run_errors :: "run_error list \<Rightarrow> unit sync_prog" where
  "add_run_errors es = (if es = [] then ret () else sync_stmt ''insert sync run errors'' (\<lambda>d.
     if \<not> distinct (map ye_id (yd_errors d @ map trim_error es))
     then (Inl (Wrapped ''insert sync run errors'' (Err SyncKeyTaken)), d)
     else if \<not> list_all (\<lambda>e. trim (ye_run_id e) \<in> rr_id ` set (yd_runs d)) es
     then (Inl (Wrapped ''insert sync run errors'' (Err SyncRunMissing)), d)
     else (Inr (), d\<lparr>yd_errors := yd_errors d @ map trim_error es\<rparr>)))"

definition errors_of :: "sync_db \<Rightarrow> run_row \<Rightarrow> run_error list" where
  "errors_of d r = sort_key ye_created_at (filter (\<lambda>e. ye_run_id e = rr_id r) (yd_errors d))"

definition repo_get_run :: "(string \<Rightarrow> gomap option) \<Rightarrow> string \<Rightarrow> sync_run sync_prog" where
  "repo_get_run dec i = (if trim i = [] then throw (Err ErrInvalidRunID)
     else sync_stmt ''select sync run by id'' (\<lambda>d. case find_run (trim i) (yd_runs d) of
         None \<Rightarrow> (Inl (Err ErrRunNotFound), d) | Some r \<Rightarrow> (Inr (row_to_run dec (errors_of d r) r), d)))"

record run_query =
  yq_kind :: string
  yq_trigger :: string
  yq_status :: string
  yq_after :: "gotime option"
  yq_before :: "gotime option"
  yq_page :: int
  yq_limit :: int

definition time_bound :: "gotime option \<Rightarrow> (gotime \<Rightarrow> bool) \<Rightarrow> bool" where
  "time_bound b p \<longleftrightarrow> (case b of None \<Rightarrow> True | Some t \<Rightarrow> t = 0 \<or> p t)"

definition matches_run_query :: "run_query \<Rightarrow> run_row \<Rightarrow> bool" where
  "matches_run_query q r \<longleftrightarrow> (trim (yq_kind q) = [] \<or> rr_kind r = trim (yq_kind q))
     \<and> (trim (yq_trigger q) = [] \<or> rr_trigger r = trim (yq_trigger q))
     \<and> (trim (yq_status q) = [] \<or> rr_status r = trim (yq_status q))
     \<and> time_bound (yq_after q) (\<lambda>t. t \<le> rr_started_at r) \<and> time_bound (yq_before q) (\<lambda>t. rr_started_at r \<le> t)"

text \<open>GORM leaves OFFSET out unless it is positive; the product wraps around.\<close>

definition page_of :: "int \<Rightarrow> int \<Rightarrow> 'r list \<Rightarrow> 'r list" where
  "page_of page limit rows = (let l = (if limit \<le> 0 then 50 else limit); p = (if page \<le> 0 then 1 else page)
     in take (nat l) (drop (nat (int64 (int64 (p - 1) * l))) rows))"

definition repo_list_runs :: "(string \<Rightarrow> gomap option) \<Rightarrow> run_query \<Rightarrow> (sync_run list \<times> int) sync_prog" where
  "repo_list_runs dec q = bindp (sync_stmt ''count sync runs'' (getp (\<lambda>d. length (filter (matches_run_query q) (yd_runs d))))) (\<lambda>total.
     if total = 0 then ret ([], 0)
     else bindp (sync_stmt ''list sync runs'' (getp (\<lambda>d. map (\<lambda>r. row_to_run dec (errors_of d r) r)
         (page_of (yq_page q) (yq_limit q) (sort_key (\<lambda>r. - rr_started_at r) (filter (matches_run_query q) (yd_runs d))))))) (\<lambda>runs.
       ret (runs, int total)))"

definition max_time :: "gotime list \<Rightarrow> gotime option" where
  "max_time ts = (if ts = [] then None else Some (Max (set ts)))"

definition average :: "int list \<Rightarrow> rat" where
  "average xs = (if xs = [] then 0 else of_int (sum_list xs) / of_int (int (length xs)))"

definition repo_stats_since :: "gotime \<Rightarrow> run_stats sync_prog" where
  "repo_stats_since since = sync_stmt ''select sync run stats'' (\<lambda>d.
     let rows = filter (\<lambda>r. since \<le> rr_started_at r) (yd_runs d) in
     case yd_avg d (average (map rr_duration rows)) of
       None \<Rightarrow> (Inl (Wrapped ''select sync run stats'' (Err SyncDriverError)), d)
     | Some avg \<Rightarrow> (Inr \<lparr>yt_window_start = since, yt_total = int (length rows),
         yt_completed = int (length (filter (\<lambda>r. rr_status r = run_completed) rows)),
         yt_failed = int (length (filter (\<lambda>r. rr_status r = run_failed) rows)), yt_avg = avg,
         yt_last_failure = max_time (map the (filter (\<lambda>e. e \<noteq> None) (map rr_ended_at (filter (\<lambda>r. rr_status r = run_failed) rows))))\<rparr>, d))"

text \<open>DELETE, with the foreign key's ON DELETE CASCADE.\<close>

definition repo_cleanup_before :: "gotime \<Rightarrow> int sync_prog" where
  "repo_cleanup_before cutoff = sync_stmt ''delete old sync runs'' (\<lambda>d.
     let gone = filter (\<lambda>r. rr_started_at r < cutoff) (yd_runs d) in
     (Inr (int (length gone)), d\<lparr>yd_runs := filter (\<lambda>r. \<not> rr_started_at r < cutoff) (yd_runs d),
        yd_errors := filter (\<lambda>e. ye_run_id e \<notin> rr_id ` set gone) (yd_errors d)\<rparr>))"

section \<open>The recorder service\<close>

definition draw_uuid :: "string sync_prog" where
  "draw_uuid = drawp (\<lambda>d. (yd_uuid d (yd_drawn d), d\<lparr>yd_drawn := Suc (yd_drawn d)\<rparr>))"

definition given_time :: "gotime option \<Rightarrow> gotime \<Rightarrow> gotime" where
  "given_time t now = (case t of None \<Rightarrow> now | Some x \<Rightarrow> if x = 0 then now else x)"

record start_input =
  ys_kind :: string
  ys_trigger :: string
  ys_started_at :: "gotime option"
  ys_metadata :: gomap

definition start_run :: "(gomap \<Rightarrow> string) \<Rightarrow> start_input \<Rightarrow> string sync_prog" where
  "start_run enc i = (if \<not> kind_valid (trim (ys_kind i)) then throw (Err ErrInvalidKind)
     else if \<not> trigger_valid (trim (ys_trigger i)) then throw (Err ErrInvalidTrigger)
     else bindp (getp yd_clock) (\<lambda>now. bindp draw_uuid (\<lambda>rid.
       bindp (wrap_err ''create sync run'' (create_run enc \<lparr>yr_id = rid, yr_kind = trim (ys_kind i), yr_trigger = trim (ys_trigger i),
           yr_status = run_running, yr_started_at = given_time (ys_started_at i) now, yr_ended_at = None, yr_duration = 0,
           yr_processed = 0, yr_succeeded = 0, yr_failed = 0, yr_skipped = 0, yr_error_count = 0,
           yr_metadata = ys_metadata i, yr_errors = [], yr_created_at = 0, yr_updated_at = 0\<rparr>)) (\<lambda>_.
         ret rid))))"

record finish_input =
  yf_run_id :: string
  yf_ended_at :: "gotime option"
  yf_processed :: int
  yf_succeeded :: int
  yf_failed :: int
  yf_skipped :: int
  yf_errors :: "run_error list"

definition complete_of :: "string \<Rightarrow> gotime \<Rightarrow> finish_input \<Rightarrow> complete_input" where
  "complete_of status ended i = \<lparr>yc_run_id = trim (yf_run_id i), yc_status = status, yc_ended_at = ended,
     yc_processed = yf_processed i, yc_succeeded = yf_succeeded i, yc_failed = yf_failed i, yc_skipped = yf_skipped i\<rparr>"

definition complete_run :: "finish_input \<Rightarrow> unit sync_prog" where
  "complete_run i = (if trim (yf_run_id i) = [] then throw (Err ErrInvalidRunID)
     else bindp (getp yd_clock) (\<lambda>now. wrap_err ''complete sync run''
       (repo_complete_run (complete_of run_completed (given_time (yf_ended_at i) now) i))))"

fun normalize_errors :: "string \<Rightarrow> gotime \<Rightarrow> run_error list \<Rightarrow> run_error list sync_prog" where
  "normalize_errors rid t [] = ret []"
| "normalize_errors rid t (e # es) = (if trim (ye_message e) = [] then normalize_errors rid t es
     else bindp (if trim (ye_id e) = [] then draw_uuid else ret (trim (ye_id e))) (\<lambda>i.
       bindp (normalize_errors rid t es) (\<lambda>rest.
         ret (\<lparr>ye_id = i, ye_run_id = rid, ye_type = trim (ye_type e), ye_code = trim (ye_code e),
           ye_message = trim (ye_message e), ye_created_at = (if ye_created_at e = 0 then t else ye_created_at e)\<rparr> # rest))))"

definition fail_run :: "finish_input \<Rightarrow> unit sync_prog" where
  "fail_run i = (if trim (yf_run_id i) = [] then throw (Err ErrInvalidRunID)
     else bindp (getp yd_clock) (\<lambda>now. let ended = given_time (yf_ended_at i) now in
       bindp (normalize_errors (trim (yf_run_id i)) ended (yf_errors i)) (\<lambda>es.
       bindp (if es = [] then ret () else wrap_err ''insert sync run errors'' (add_run_errors es)) (\<lambda>_.
         wrap_err ''fail sync run'' (repo_complete_run (complete_of run_failed ended i))))))"

definition get_run :: "(string \<Rightarrow> gomap option) \<Rightarrow> string \<Rightarrow> sync_run sync_prog" where
  "get_run dec i = (if trim i = [] then throw (Err ErrInvalidRunID) else wrap_err ''get sync run'' (repo_get_run dec (trim i)))"

record run_page =
  yp_data :: "sync_run list"
  yp_page :: int
  yp_limit :: int
  yp_total :: int
  yp_pages :: int

definition list_runs :: "(string \<Rightarrow> gomap option) \<Rightarrow> run_query \<Rightarrow> run_page sync_prog" where
  "list_runs dec q = (let page = (if yq_page q \<le> 0 then 1 else yq_page q); limit = (if yq_limit q \<le> 0 then 50 else yq_limit q)
     in bindp (wrap_err ''list sync runs'' (repo_list_runs dec (q\<lparr>yq_page := page, yq_limit := limit\<rparr>))) (\<lambda>(runs, total).
       ret \<lparr>yp_data = runs, yp_page = page, yp_limit = limit, yp_total = total,
         yp_pages = (if total > 0 then \<lceil>of_int total / of_int limit :: rat\<rceil> else 0)\<rparr>))"

definition stats_since :: "gotime \<Rightarrow> run_stats sync_prog" where
  "stats_since since = bindp (getp yd_clock) (\<lambda>now.
     wrap_err ''sync run stats'' (repo_stats_since (if since = 0 then now - 24 * 3600 * 1000000000 else since)))"

definition cleanup_before :: "gotime \<Rightarrow> int sync_prog" where
  "cleanup_before cutoff = (if cutoff = 0 then ret 0 else wrap_err ''cleanup sync runs'' (repo_cleanup_before cutoff))"

text \<open>\<^verbatim>\<open>time.Duration(days) * 24 * time.Hour\<close> wraps around.\<close>

definition cleanup_expired :: "int \<Rightarrow> int sync_prog" where
  "cleanup_expired days = (if days \<le> 0 then ret 0
     else bindp (getp yd_clock) (\<lambda>now. cleanup_before (now + int64 (int64 (int64 (- days) * 24) * 3600000000000))))"

end
