(* ===== verification/Sync_Safety.thy ===== *)
theory Sync_Safety
  imports Sync_Runs
begin

text \<open>
  What the recorder promises: a run is finished at most once and then keeps its row for as long as the
  row exists; what finishing stores; and what a second attempt to fail a run leaves behind.
\<close>

section \<open>Calls\<close>

datatype sync_call = StartRun start_input | CompleteRun finish_input | FailRun finish_input
  | GetRun string | ListRuns run_query | StatsSince gotime | CleanupBefore gotime | CleanupExpired int

fun run_sync_call :: "(gomap \<Rightarrow> string) \<Rightarrow> (string \<Rightarrow> gomap option) \<Rightarrow> sync_call \<Rightarrow> sync_db \<Rightarrow> sync_db" where
  "run_sync_call enc dec (StartRun i) d = snd (start_run enc i d)"
| "run_sync_call enc dec (CompleteRun i) d = snd (complete_run i d)"
| "run_sync_call enc dec (FailRun i) d = snd (fail_run i d)"
| "run_sync_call enc dec (GetRun i) d = snd (get_run dec i d)"
| "run_sync_call enc dec (ListRuns q) d = snd (list_runs dec q d)"
| "run_sync_call enc dec (StatsSince t) d = snd (stats_since t d)"
| "run_sync_call enc dec (CleanupBefore t) d = snd (cleanup_before t d)"
| "run_sync_call enc dec (CleanupExpired n) d = snd (cleanup_expired n d)"

definition run_sync_calls :: "(gomap \<Rightarrow> string) \<Rightarrow> (string \<Rightarrow> gomap option) \<Rightarrow> sync_call list \<Rightarrow> sync_db \<Rightarrow> sync_db" where
  "run_sync_calls enc dec cs d = fold (run_sync_call enc dec) cs d"

lemma preserves_case_prod: "(\<And>x y. preserves I (f x y)) \<Longrightarrow> preserves I (case z of (x, y) \<Rightarrow> f x y)"
  by (cases z) simp

section \<open>A finished run keeps its row\<close>

text \<open>Rows with identifier \<open>i\<close> are not running and satisfy \<open>p\<close>, and no identifier drawn later is \<open>i\<close>.\<close>

definition settled :: "string \<Rightarrow> (run_row \<Rightarrow> bool) \<Rightarrow> sync_db \<Rightarrow> bool" where
  "settled i p d \<longleftrightarrow> (\<forall>r \<in> set (yd_runs d). rr_id r = i \<longrightarrow> rr_status r \<noteq> run_running \<and> p r)
     \<and> (\<forall>n \<ge> yd_drawn d. trim (yd_uuid d n) \<noteq> i)"

lemma preserves_sync_stmt: "preserves I m \<Longrightarrow> preserves I (sync_stmt l m)"
  by (auto simp: preserves_def sync_stmt_def)

lemma readonly_sync_stmt: "readonly m \<Longrightarrow> readonly (sync_stmt l m)"
  by (auto simp: readonly_def sync_stmt_def)

lemma readonly_sync_reads: "readonly (repo_get_run dec i)" "readonly (repo_list_runs dec q)" "readonly (repo_stats_since t)"
proof -
  show "readonly (repo_get_run dec i)"
    unfolding repo_get_run_def by (intro readonly_if readonly_sync_stmt) (auto simp: readonly_def throw_def split: option.splits)
  show "readonly (repo_list_runs dec q)"
    unfolding repo_list_runs_def by (intro readonly_bindp readonly_if readonly_sync_stmt readonly_basic)
  show "readonly (repo_stats_since t)"
    unfolding repo_stats_since_def by (intro readonly_sync_stmt) (auto simp: readonly_def Let_def split: option.splits)
qed

lemma finished_row_id [simp]: "rr_id (finished_row c r) = rr_id r"
  by (simp add: finished_row_def)

lemma finished_row_status [simp]: "rr_status (finished_row c r) = trim (yc_status c)"
  by (simp add: finished_row_def)

lemma settled_map:
  assumes "settled i p d" "\<And>r. rr_id (g r) = rr_id r" "\<And>r. rr_id r = i \<Longrightarrow> rr_status r \<noteq> run_running \<Longrightarrow> g r = r"
  shows "settled i p (d\<lparr>yd_runs := map g (yd_runs d)\<rparr>)"
  using assms by (fastforce simp: settled_def)

lemma settled_update_running: "preserves (settled i p) (update_running c)"
  unfolding update_running_def
  by (intro preserves_sync_stmt preservesI) (simp, rule settled_map, auto simp: is_running_def)

lemma settled_update_derived: "j \<noteq> i \<Longrightarrow> preserves (settled i p) (update_derived j n e)"
  unfolding update_derived_def
  by (intro preserves_sync_stmt preservesI) (simp, rule settled_map, auto)

definition finished_by :: "complete_input \<Rightarrow> sync_db \<Rightarrow> sync_db" where
  "finished_by c d = d\<lparr>yd_runs := map (\<lambda>r. if is_running (trim (yc_run_id c)) r then finished_row c r else r) (yd_runs d)\<rparr>"

lemma update_running_Inr: "update_running c d = (Inr b, d') \<Longrightarrow>
    d' = finished_by c d \<and> (b \<longleftrightarrow> list_ex (is_running (trim (yc_run_id c))) (yd_runs d))"
  by (auto simp: update_running_def sync_stmt_def finished_by_def split: if_splits)

text \<open>The derived columns of a settled run are not recalculated: no row of it was updated.\<close>

lemma settled_complete: "preserves (settled i p) (repo_complete_run c)"
proof (cases "trim (yc_run_id c) = i")
  case True
  let ?rest = "\<lambda>updated. if updated then recalculate (trim (yc_run_id c))
       else bindp (sync_stmt ''load sync run'' (getp (\<lambda>d. find_run (trim (yc_run_id c)) (yd_runs d)))) (\<lambda>r.
         throw (Err (case r of None \<Rightarrow> ErrRunNotFound | Some _ \<Rightarrow> ErrRunAlreadyFinished)))"
  have ro: "readonly (?rest False)" by (simp add: readonly_bindp readonly_sync_stmt readonly_basic)
  have "settled i p (snd (bindp (update_running c) ?rest d))" if d: "settled i p d" for d
  proof (cases "update_running c d")
    case (Pair q d1)
    have d1: "settled i p d1" using preservesD[OF settled_update_running d, of c] Pair by simp
    show ?thesis
    proof (cases q)
      case (Inr b)
      with Pair have "b \<longleftrightarrow> list_ex (is_running i) (yd_runs d)" using update_running_Inr True by blast
      then have "\<not> b" using d by (auto simp: settled_def list_ex_iff is_running_def)
      then have "snd (bindp (update_running c) ?rest d) = snd (?rest False d1)" using Pair Inr by (simp add: bindp_apply)
      also have "\<dots> = d1" using ro unfolding readonly_def by blast
      finally show ?thesis using d1 by simp
    qed (use Pair d1 in \<open>simp add: bindp_apply\<close>)
  qed
  then show ?thesis
    unfolding repo_complete_run_def by (intro preserves_if preserves_throw preservesI)
next
  case False
  then show ?thesis
    unfolding repo_complete_run_def recalculate_def
    by (intro preserves_intros preserves_sync_stmt settled_update_running settled_update_derived; assumption?)
qed

lemma settled_add_errors: "preserves (settled i p) (add_run_errors es)"
  unfolding add_run_errors_def
  by (intro preserves_if preserves_ret preserves_sync_stmt) (auto simp: preserves_def settled_def)

lemma settled_draw: "preserves (settled i p) draw_uuid"
  by (auto simp: draw_uuid_def preserves_def drawp_apply settled_def)

lemma settled_normalize_errors: "preserves (settled i p) (normalize_errors rid t es)"
  by (induction es) (auto intro!: preserves_intros settled_draw)

lemma settled_cleanup: "preserves (settled i p) (repo_cleanup_before t)"
  unfolding repo_cleanup_before_def
  by (intro preserves_sync_stmt) (auto simp: preserves_def settled_def Let_def)

lemma settled_insert: "settled i p d \<Longrightarrow> trim (yr_id r) \<noteq> i \<Longrightarrow> settled i p (snd (create_run enc r d))"
  by (auto simp: create_run_def insert_run_def sync_stmt_def run_to_row_def settled_def)

lemma settled_start: "preserves (settled i p) (start_run enc s)"
proof -
  have "settled i p (snd (bindp draw_uuid (\<lambda>rid. bindp (wrap_err l (create_run enc (f rid))) (\<lambda>_. ret rid)) d))"
    if d: "settled i p d" and f: "\<And>rid. yr_id (f rid) = rid" for l f d
  proof -
    let ?id = "yd_uuid d (yd_drawn d)" and ?d = "d\<lparr>yd_drawn := Suc (yd_drawn d)\<rparr>"
    have "settled i p ?d" "trim (yr_id (f ?id)) \<noteq> i" using d f by (auto simp: settled_def)
    from settled_insert[OF this, of enc] show ?thesis
      by (auto simp: bindp_apply draw_uuid_def drawp_apply wrap_err_apply ret_apply split: sum.split prod.split)
  qed
  then show ?thesis
    unfolding start_run_def by (intro preserves_intros preservesI) simp
qed

lemmas settled_intros = settled_complete settled_add_errors settled_draw
  settled_normalize_errors settled_cleanup settled_start readonly_sync_reads[THEN readonly_preserves]

lemma settled_finish:
  shows "preserves (settled i p) (complete_run f)" "preserves (settled i p) (fail_run f)"
  unfolding complete_run_def fail_run_def Let_def by (intro preserves_intros settled_intros)+

lemma settled_call:
  assumes "settled i p d"
  shows "settled i p (run_sync_call enc dec c d)"
proof -
  note P = settled_finish settled_intros
  have "preserves (settled i p) (get_run dec j)" "preserves (settled i p) (list_runs dec q)" "preserves (settled i p) (stats_since t)"
    "preserves (settled i p) (cleanup_before t)" for j q t
    unfolding get_run_def list_runs_def stats_since_def cleanup_before_def Let_def
    by (intro preserves_intros settled_intros preserves_case_prod)+
  moreover from this have "preserves (settled i p) (cleanup_expired n)" for n
    unfolding cleanup_expired_def by (intro preserves_intros)
  ultimately show ?thesis using assms P by (cases c) (auto simp: preserves_def)
qed

lemma settled_calls: "settled i p d \<Longrightarrow> settled i p (run_sync_calls enc dec cs d)"
  unfolding run_sync_calls_def by (induction cs arbitrary: d) (auto intro: settled_call)

section \<open>Finishing a run\<close>

lemma repo_complete_Inr:
  assumes "repo_complete_run c d = (Inr x, d')"
  shows "list_ex (is_running (trim (yc_run_id c))) (yd_runs d)
    \<and> (\<exists>n e t. yd_runs d' = map (\<lambda>r. if rr_id r = trim (yc_run_id c) then r\<lparr>rr_duration := n, rr_error_count := e, rr_updated_at := t\<rparr> else r)
          (yd_runs (finished_by c d)))
    \<and> yd_uuid d' = yd_uuid d \<and> yd_drawn d' = yd_drawn d"
  using assms
  by (auto simp: repo_complete_run_def recalculate_def update_derived_def prog_Inr_iffs sync_stmt_def
      split: if_splits dest!: update_running_Inr) (auto simp: finished_by_def)

text \<open>The statuses a finishing call writes are not \<^verbatim>\<open>running\<close>.\<close>

lemma final_statuses [simp]: "trim run_completed = run_completed" "trim run_failed = run_failed"
    "run_completed \<noteq> run_running" "run_failed \<noteq> run_running"
  by code_simp+

lemma repo_complete_settles:
  assumes "repo_complete_run c d = (Inr x, d')" "trim (yc_status c) \<noteq> run_running"
    and "\<forall>n \<ge> yd_drawn d. trim (yd_uuid d n) \<noteq> trim (yc_run_id c)"
  shows "settled (trim (yc_run_id c)) (\<lambda>_. True) d'"
  using repo_complete_Inr[OF assms(1)] assms(2,3) by (auto simp: settled_def finished_by_def is_running_def split: if_splits)

lemma repo_complete_refused:
  assumes "settled (trim (yc_run_id c)) p d"
  shows "\<exists>e. fst (repo_complete_run c d) = Inl e"
proof (cases "repo_complete_run c d")
  case (Pair q d')
  show ?thesis
  proof (cases q)
    case (Inr x)
    with Pair repo_complete_Inr have "list_ex (is_running (trim (yc_run_id c))) (yd_runs d)" by blast
    with assms show ?thesis by (auto simp: settled_def list_ex_iff is_running_def)
  qed (simp add: Pair)
qed

datatype finish_call = Completing finish_input | Failing finish_input

fun finish_input_of :: "finish_call \<Rightarrow> finish_input" where
  "finish_input_of (Completing i) = i"
| "finish_input_of (Failing i) = i"

fun finish :: "finish_call \<Rightarrow> unit sync_prog" where
  "finish (Completing i) = complete_run i"
| "finish (Failing i) = fail_run i"

lemma normalize_errors_Inr: "normalize_errors rid t es d = (q, d') \<Longrightarrow> (\<exists>x. q = Inr x) \<and> yd_runs d' = yd_runs d \<and> yd_uuid d' = yd_uuid d \<and> yd_drawn d \<le> yd_drawn d'"
proof (induction es arbitrary: q d d')
  case (Cons e es)
  show ?case
  proof (cases "trim (ye_message e) = []")
    case False
    obtain i d1 where i: "(if trim (ye_id e) = [] then draw_uuid else ret (trim (ye_id e))) d = (Inr i, d1)"
      "yd_runs d1 = yd_runs d" "yd_uuid d1 = yd_uuid d" "yd_drawn d \<le> yd_drawn d1"
      by (cases "trim (ye_id e) = []") (auto simp: draw_uuid_def drawp_apply ret_apply)
    obtain q2 d2 where rest: "normalize_errors rid t es d1 = (q2, d2)" by fastforce
    from Cons.IH[OF rest] Cons.prems False i rest show ?thesis by (auto simp: bindp_apply ret_apply)
  qed (use Cons in simp)
qed (simp add: ret_apply)

lemma add_run_errors_Inr: "add_run_errors es d = (Inr x, d') \<Longrightarrow> yd_runs d' = yd_runs d \<and> yd_uuid d' = yd_uuid d \<and> yd_drawn d' = yd_drawn d"
  by (auto simp: add_run_errors_def sync_stmt_def ret_apply split: if_splits)

lemma finish_Inr:
  assumes "finish f d = (Inr x, d')"
  obtains c d1 where "repo_complete_run c d1 = (Inr (), d')" "yc_run_id c = trim (yf_run_id (finish_input_of f))"
    "trim (yc_status c) \<noteq> run_running" "yd_uuid d1 = yd_uuid d" "yd_drawn d \<le> yd_drawn d1" "yd_runs d1 = yd_runs d"
proof (cases f)
  case (Completing i)
  with assms show thesis by (auto simp: complete_run_def complete_of_def prog_Inr_iffs split: if_splits intro!: that)
next
  case (Failing i)
  with assms obtain es d2 d3 where n: "normalize_errors (trim (yf_run_id i)) (given_time (yf_ended_at i) (yd_clock d)) (yf_errors i) d = (Inr es, d2)"
    and e: "(if es = [] then ret () else wrap_err ''insert sync run errors'' (add_run_errors es)) d2 = (Inr (), d3)"
    and c: "repo_complete_run (complete_of run_failed (given_time (yf_ended_at i) (yd_clock d)) i) d3 = (Inr (), d')"
    by (auto simp: fail_run_def Let_def prog_Inr_iffs split: if_splits)
  from e have d3: "yd_runs d3 = yd_runs d2 \<and> yd_uuid d3 = yd_uuid d2 \<and> yd_drawn d3 = yd_drawn d2"
    by (auto simp: ret_Inr_iff wrap_err_Inr_iff split: if_splits dest: add_run_errors_Inr)
  from normalize_errors_Inr[OF n] d3 c show thesis by (intro that[OF c]) (simp_all add: complete_of_def Failing)
qed

lemma finish_refused:
  assumes "settled (trim (yf_run_id (finish_input_of g))) p d"
  shows "\<exists>e. fst (finish g d) = Inl e"
proof (rule ccontr)
  assume "\<nexists>e. fst (finish g d) = Inl e"
  then obtain d' where "finish g d = (Inr (), d')" by (metis (full_types) old.sum.exhaust old.unit.exhaust prod.collapse)
  then obtain c d1 where c: "repo_complete_run c d1 = (Inr (), d')" "yc_run_id c = trim (yf_run_id (finish_input_of g))" "yd_runs d1 = yd_runs d"
    "yd_uuid d1 = yd_uuid d" "yd_drawn d \<le> yd_drawn d1"
    by (rule finish_Inr)
  with assms have "settled (trim (yc_run_id c)) p d1" by (auto simp: settled_def)
  with repo_complete_refused c(1) show False by fastforce
qed

text \<open>C25: A run is finished at most once. After a call that finished it, whatever calls follow, every further
  attempt to complete or to fail it is refused, and its row stays exactly as it is, derived columns and time stamps
  included, until a cleanup of old runs deletes it. (An attempt to fail it may add rows to \<^verbatim>\<open>sync_run_errors\<close>, which
  the error count of the row does not follow.)\<close>

theorem finished_once:
  assumes "finish f d = (Inr (), d1)" and "\<forall>n \<ge> yd_drawn d. trim (yd_uuid d n) \<noteq> trim (yf_run_id (finish_input_of f))"
    and "trim (yf_run_id (finish_input_of g)) = trim (yf_run_id (finish_input_of f))"
  shows "(\<exists>e. fst (finish g (run_sync_calls enc dec cs d1)) = Inl e)
    \<and> {r \<in> set (yd_runs (run_sync_calls enc dec cs d1)). rr_id r = trim (yf_run_id (finish_input_of f))}
        \<subseteq> {r \<in> set (yd_runs d1). rr_id r = trim (yf_run_id (finish_input_of f))}"
proof -
  let ?i = "trim (yf_run_id (finish_input_of f))"
  let ?p = "\<lambda>r. r \<in> set (yd_runs d1)"
  obtain c d0 where c: "repo_complete_run c d0 = (Inr (), d1)" "yc_run_id c = ?i" "trim (yc_status c) \<noteq> run_running"
    "yd_uuid d0 = yd_uuid d" "yd_drawn d \<le> yd_drawn d0"
    using finish_Inr[OF assms(1)] by metis
  have "settled ?i (\<lambda>_. True) d1" using repo_complete_settles[OF c(1,3)] c(2,4,5) assms(2) by auto
  then have "settled ?i ?p d1" by (auto simp: settled_def)
  then have "settled ?i ?p (run_sync_calls enc dec cs d1)" by (rule settled_calls)
  with finish_refused[of g ?p] assms(3) show ?thesis by (auto simp: settled_def)
qed

section \<open>What finishing stores\<close>

lemma list_ex_find_run: "find_run i rows = Some r \<Longrightarrow> r \<in> set rows \<and> rr_id r = i"
  unfolding find_run_def by (auto simp: find_Some_iff)

lemma find_run_map: "(\<And>r. rr_id (g r) = rr_id r) \<Longrightarrow> find_run i (map g rows) = map_option g (find_run i rows)"
  by (simp add: find_run_def find_map)

lemma filter_rows_map: "(\<And>r. rr_id (g r) = rr_id r) \<Longrightarrow> (\<And>r. rr_id r = j \<Longrightarrow> g r = r)
    \<Longrightarrow> filter (\<lambda>q. rr_id q = j) (map g rows) = filter (\<lambda>q. rr_id q = j) rows"
  by (induction rows) auto

definition completed_row :: "sync_db \<Rightarrow> complete_input \<Rightarrow> run_row \<Rightarrow> run_row" where
  "completed_row d c r = (finished_row c r)\<lparr>
     rr_duration := (if rr_started_at r = 0 \<or> yc_ended_at c \<le> rr_started_at r then 0 else (yc_ended_at c - rr_started_at r) div 1000000),
     rr_error_count := int (length (filter (\<lambda>e. ye_run_id e = rr_id r) (yd_errors d))), rr_updated_at := yd_clock d\<rparr>"

lemma repo_complete_works:
  assumes works: "yd_fault d = (\<lambda>_. False)" and id: "trim (yc_run_id c) \<noteq> []"
    and run: "find_run (trim (yc_run_id c)) (yd_runs d) = Some r" "rr_status r = run_running"
  shows "\<exists>d'. repo_complete_run c d = (Inr (), d') \<and> find_run (trim (yc_run_id c)) (yd_runs d') = Some (completed_row d c r)
    \<and> (\<forall>j. j \<noteq> trim (yc_run_id c) \<longrightarrow> filter (\<lambda>q. rr_id q = j) (yd_runs d') = filter (\<lambda>q. rr_id q = j) (yd_runs d))
    \<and> yd_errors d' = yd_errors d"
proof -
  let ?i = "trim (yc_run_id c)"
  have mem: "r \<in> set (yd_runs d)" "rr_id r = ?i" using list_ex_find_run[OF run(1)] by auto
  then have ex: "list_ex (is_running ?i) (yd_runs d)" using run(2) by (auto simp: list_ex_iff is_running_def)
  let ?g = "\<lambda>r. if is_running ?i r then finished_row c r else r"
  have row: "find_run ?i (map ?g (yd_runs d)) = Some (finished_row c r)"
    using run mem by (subst find_run_map) (auto simp: is_running_def)
  have dur: "run_duration (Some (finished_row c r)) =
      (if rr_started_at r = 0 \<or> yc_ended_at c \<le> rr_started_at r then 0 else (yc_ended_at c - rr_started_at r) div 1000000)"
    by (auto simp: run_duration_def finished_row_def)
  let ?n = "run_duration (Some (finished_row c r))" and ?e = "int (length (filter (\<lambda>e. ye_run_id e = ?i) (yd_errors d)))"
  let ?h = "\<lambda>q. if rr_id q = ?i then q\<lparr>rr_duration := ?n, rr_error_count := ?e, rr_updated_at := yd_clock d\<rparr> else q"
  let ?d = "d\<lparr>yd_runs := map ?h (map ?g (yd_runs d))\<rparr>"
  have res: "repo_complete_run c d = (Inr (), ?d)"
    using works id ex row by (simp add: repo_complete_run_def update_running_def recalculate_def update_derived_def sync_stmt_def prog_simps)
  have "find_run ?i (yd_runs ?d) = Some (?h (finished_row c r))"
    using find_run_map[of ?h ?i "map ?g (yd_runs d)"] row by simp
  moreover have "?h (finished_row c r) = completed_row d c r" using mem dur by (simp add: completed_row_def)
  moreover have "filter (\<lambda>q. rr_id q = j) (yd_runs ?d) = filter (\<lambda>q. rr_id q = j) (yd_runs d)" if "j \<noteq> ?i" for j
    using that by (simp del: map_map add: filter_rows_map is_running_def)
  ultimately show ?thesis using res by auto
qed

lemma complete_of_id [simp]: "yc_run_id (complete_of st t i) = trim (yf_run_id i)"
  by (simp add: complete_of_def)

lemma complete_run_repo: "trim (yf_run_id i) \<noteq> [] \<Longrightarrow> complete_run i d =
    wrap_err ''complete sync run'' (repo_complete_run (complete_of run_completed (given_time (yf_ended_at i) (yd_clock d)) i)) d"
  by (simp add: complete_run_def prog_simps)

text \<open>Completing a running run on a database that works stores the given counters, the status completed, the
  end, the duration in milliseconds (zero if the clock went backwards) and the number of its error rows;
  other runs and all error rows stay as they are.\<close>

theorem completion_stored:
  assumes "yd_fault d = (\<lambda>_. False)" "trim (yf_run_id i) \<noteq> []"
    and "find_run (trim (yf_run_id i)) (yd_runs d) = Some r" "rr_status r = run_running"
  shows "\<exists>d'. complete_run i d = (Inr (), d')
    \<and> find_run (trim (yf_run_id i)) (yd_runs d') = Some (completed_row d (complete_of run_completed (given_time (yf_ended_at i) (yd_clock d)) i) r)
    \<and> (\<forall>j. j \<noteq> trim (yf_run_id i) \<longrightarrow> filter (\<lambda>q. rr_id q = j) (yd_runs d') = filter (\<lambda>q. rr_id q = j) (yd_runs d))
    \<and> yd_errors d' = yd_errors d"
  using repo_complete_works[of d "complete_of run_completed (given_time (yf_ended_at i) (yd_clock d)) i" r] assms
  by (auto simp: complete_run_repo wrap_err_apply)

text \<open>A second attempt to fail a finished run is refused, but its error rows have been inserted by then, and
  the stored number of errors no longer agrees with them.\<close>

lemma fail_again_adds_errors:
  assumes "yd_fault d = (\<lambda>_. False)" "trim (yf_run_id i) \<noteq> []" "find_run (trim (yf_run_id i)) (yd_runs d) = Some r"
    and "settled (trim (yf_run_id i)) (\<lambda>_. True) d" "yf_errors i = [e]" "trim (ye_message e) \<noteq> []" "trim (ye_id e) \<noteq> []"
    and "trim (ye_id e) \<notin> ye_id ` set (yd_errors d)" "distinct (map ye_id (yd_errors d))"
  shows "\<exists>x d'. fail_run i d = (Inl x, d') \<and> yd_runs d' = yd_runs d \<and> length (yd_errors d') = Suc (length (yd_errors d))"
proof -
  let ?t = "given_time (yf_ended_at i) (yd_clock d)"
  let ?e = "\<lparr>ye_id = trim (ye_id e), ye_run_id = trim (yf_run_id i), ye_type = trim (ye_type e), ye_code = trim (ye_code e),
      ye_message = trim (ye_message e), ye_created_at = (if ye_created_at e = 0 then ?t else ye_created_at e)\<rparr>"
  let ?d = "d\<lparr>yd_errors := yd_errors d @ [?e]\<rparr>"
  have mem: "trim (yf_run_id i) \<in> rr_id ` set (yd_runs d)" using list_ex_find_run[OF assms(3)] by (auto intro!: image_eqI)
  have n: "normalize_errors (trim (yf_run_id i)) ?t (yf_errors i) d = (Inr [?e], d)"
    using assms(5-7) by (simp add: prog_simps)
  have a: "add_run_errors [?e] d = (Inr (), ?d)"
    using assms(1,8,9) mem by (simp add: add_run_errors_def sync_stmt_def trim_error_def)
  have "settled (trim (yc_run_id (complete_of run_failed ?t i))) (\<lambda>_. True) ?d"
    using assms(4) by (simp add: settled_def complete_of_def)
  from repo_complete_refused[OF this] obtain x d2 where r: "repo_complete_run (complete_of run_failed ?t i) ?d = (Inl x, d2)"
    by (metis prod.collapse)
  have "\<not> list_ex (is_running (trim (yf_run_id i))) (yd_runs d)"
    using assms(4) by (auto simp: list_ex_iff settled_def is_running_def)
  then have "map (\<lambda>r. if is_running (trim (yf_run_id i)) r then finished_row c r else r) (yd_runs d) = yd_runs d" for c
    by (auto simp: list_ex_iff intro!: map_idI)
  with r assms(1-3) \<open>\<not> list_ex _ _\<close> have "d2 = ?d"
    by (auto simp: repo_complete_run_def update_running_def sync_stmt_def prog_simps complete_of_def split: option.splits)
  with r n a assms(2) show ?thesis by (simp add: fail_run_def Let_def prog_simps)
qed

definition sample_sync :: sync_db where
  "sample_sync = \<lparr>yd_runs = [\<lparr>rr_id = ''r1'', rr_kind = ''shopify.orders'', rr_trigger = ''cron'', rr_status = ''running'',
       rr_started_at = 1000000, rr_ended_at = None, rr_duration = 0, rr_processed = 0, rr_succeeded = 0, rr_failed = 0,
       rr_skipped = 0, rr_error_count = 0, rr_metadata = [], rr_created_at = 1000000, rr_updated_at = 1000000\<rparr>],
     yd_errors = [], yd_clock = 9000000, yd_uuid = (\<lambda>n. CHR ''u'' # replicate n (CHR ''x'')), yd_drawn = 0,
     yd_fault = (\<lambda>_. False), yd_avg = (\<lambda>x. Some \<lfloor>x\<rfloor>)\<rparr>"

definition sample_finish :: finish_input where
  "sample_finish = \<lparr>yf_run_id = ''r1'', yf_ended_at = None, yf_processed = 3, yf_succeeded = 2, yf_failed = 1, yf_skipped = 0, yf_errors = []\<rparr>"

lemma sample_sync_facts: "trim (yf_run_id sample_finish) = ''r1''" "yd_fault sample_sync = (\<lambda>_. False)"
  "find_run ''r1'' (yd_runs sample_sync) = Some (hd (yd_runs sample_sync))" "rr_status (hd (yd_runs sample_sync)) = run_running"
  "trim ''r1'' = ''r1''"
proof -
  show "trim (yf_run_id sample_finish) = ''r1''" "trim ''r1'' = ''r1''" by code_simp+
qed (simp_all add: sample_sync_def find_run_def run_running_def)

theorem completion_stored_witness:
  "\<exists>d'. complete_run sample_finish sample_sync = (Inr (), d')
     \<and> (\<exists>r. find_run ''r1'' (yd_runs d') = Some r \<and> rr_status r = run_completed \<and> rr_duration r = 8 \<and> rr_succeeded r = 2)"
proof -
  have f: "completed_row sample_sync (complete_of run_completed (given_time (yf_ended_at sample_finish) (yd_clock sample_sync)) sample_finish)
      (hd (yd_runs sample_sync)) = r \<Longrightarrow> rr_status r = run_completed \<and> rr_duration r = 8 \<and> rr_succeeded r = 2" for r
    by (auto simp: completed_row_def complete_of_def given_time_def sample_finish_def sample_sync_def finished_row_def)
  from completion_stored[of sample_sync sample_finish "hd (yd_runs sample_sync)"] f show ?thesis
    by (fastforce simp: sample_sync_facts)
qed

lemma sample_ids_differ: "trim (yd_uuid sample_sync n) \<noteq> ''r1''"
proof -
  have u: "graphic (CHR ''u'')" "graphic (CHR ''x'')" by code_simp+
  have "trim (CHR ''u'' # replicate n (CHR ''x'')) = CHR ''u'' # replicate n (CHR ''x'')"
    by (rule trim_graphic) (auto simp: list_all_iff u)
  then show ?thesis by (simp add: sample_sync_def)
qed

theorem finished_once_witness:
  "\<exists>d1. complete_run sample_finish sample_sync = (Inr (), d1)
     \<and> (\<exists>e. fst (fail_run sample_finish (run_sync_calls (\<lambda>_. []) (\<lambda>_. None) [CleanupBefore 5] d1)) = Inl e)"
proof -
  obtain d1 where d1: "complete_run sample_finish sample_sync = (Inr (), d1)"
    using repo_complete_works[of sample_sync "complete_of run_completed (given_time (yf_ended_at sample_finish) (yd_clock sample_sync)) sample_finish"
        "hd (yd_runs sample_sync)"] complete_run_repo[of sample_finish sample_sync]
    by (auto simp: sample_sync_facts wrap_err_apply)
  with finished_once[of "Completing sample_finish" sample_sync d1 "Failing sample_finish" "\<lambda>_. []" "\<lambda>_. None" "[CleanupBefore 5]"]
  show ?thesis by (auto simp: sample_sync_facts sample_ids_differ)
qed

end
