(* ===== verification/Products_Domain.thy ===== *)
theory Products_Domain
  imports Go_Strings
begin

text \<open>
  The aggregates of \<^verbatim>\<open>module/products/domain\<close>: products with galleries, datasheets and variants,
  variations, categories and tags, with their normalization and validation, and the errors of the
  module.
\<close>

section \<open>Errors\<close>

datatype products_error = ErrSKURequired | ErrGalleryAssetIDRequired | ErrDatasheetRealmRequired
  | ErrVariationNameRequired | ErrValueRequired | ErrDefinitionRequired | ErrInvalidDefinition
  | ErrSlugRequired | ErrCategoryNameRequired | ErrCircularParent
  | ErrProductNotFound | ErrDuplicateSKU | ErrVariationNotFound
  | PortCategoryNotFound | PortDuplicateSlug | PortHasChildren
  | ErrTagNotFound | ErrCorrelationNotFound | ErrDuplicateCorrelation
  | ErrInvalidProductID | ErrInvalidSKU | ErrAssetNotFound
  | ErrInvalidVariationID | ErrInvalidCategoryID
  | ErrCategoryNotFound | ErrDuplicateSlug | ErrHasChildren
  | ErrInvalidTagName | ErrInvalidSourceTag | ErrInvalidTargetTag | ErrProbabilityRange | ErrSelfCorrelation
  | UnknownTag string | AttributeEncoding | SliceBoundsPanic | ProductsDriverError

section \<open>Products\<close>

text \<open>What \<^verbatim>\<open>encoding/json\<close> decodes into a value of type \<^verbatim>\<open>any\<close>.\<close>

datatype json = JNull | JBool bool | JNumber float64 | JString string | JArray "json list"
  | JObject "(string \<times> json) list"

record gallery_item =
  gi_asset_id :: string
  gi_position :: "int option"
  gi_variation_position :: "int option"
  gi_is_main :: bool
  gi_included_realms :: "string list"
  gi_variation_ids :: "string list"

text \<open>The attributes are the entries of a Go map in iteration order; a nil map is \<open>None\<close>.\<close>

record datasheet =
  ds_realm :: string
  ds_name :: string
  ds_description :: string
  ds_attributes :: "(string \<times> json) list option"

record variant =
  va_variation_ids :: "string list"
  va_sku :: string

record catalog_product =
  pt_id :: string
  pt_sku :: string
  pt_price :: "float64 option"
  pt_tags :: "string list"
  pt_gallery :: "gallery_item list"
  pt_datasheets :: "datasheet list"
  pt_variations :: "string list"
  pt_variants :: "variant list"
  pt_created_at :: gotime
  pt_updated_at :: gotime
  pt_deleted_at :: "gotime option"

definition normalize_position :: "int option \<Rightarrow> int option" where
  "normalize_position v = map_option (\<lambda>n. if n < 0 then 0 else n) v"

definition gallery_normalize :: "gallery_item \<Rightarrow> gallery_item" where
  "gallery_normalize g = g\<lparr>gi_asset_id := trim (gi_asset_id g), gi_position := normalize_position (gi_position g),
     gi_variation_position := normalize_position (gi_variation_position g),
     gi_included_realms := map trim (gi_included_realms g), gi_variation_ids := map trim (gi_variation_ids g)\<rparr>"

definition datasheet_normalize :: "datasheet \<Rightarrow> datasheet" where
  "datasheet_normalize s = s\<lparr>ds_realm := trim (ds_realm s), ds_name := trim (ds_name s),
     ds_description := trim (ds_description s)\<rparr>"

definition variant_normalize :: "variant \<Rightarrow> variant" where
  "variant_normalize v = v\<lparr>va_sku := trim (va_sku v), va_variation_ids := map trim (va_variation_ids v)\<rparr>"

definition product_normalize :: "catalog_product \<Rightarrow> catalog_product" where
  "product_normalize p = p\<lparr>pt_sku := trim (pt_sku p), pt_gallery := map gallery_normalize (pt_gallery p),
     pt_datasheets := map datasheet_normalize (pt_datasheets p), pt_tags := map trim (pt_tags p),
     pt_variations := map trim (pt_variations p), pt_variants := map variant_normalize (pt_variants p)\<rparr>"

definition product_validate :: "catalog_product \<Rightarrow> products_error option" where
  "product_validate p = (if trim (pt_sku p) = [] then Some ErrSKURequired
     else if list_ex (\<lambda>g. trim (gi_asset_id g) = []) (pt_gallery p) then Some ErrGalleryAssetIDRequired
     else if list_ex (\<lambda>s. trim (ds_realm s) = []) (pt_datasheets p) then Some ErrDatasheetRealmRequired
     else None)"

text \<open>\<^verbatim>\<open>MergeDatasheets\<close>. The map \<^verbatim>\<open>byRealm\<close> gives the last index a realm was stored under; existing
  datasheets are appended one by one, incoming ones update the indexed one or are appended.\<close>

definition merged_sheet :: "datasheet \<Rightarrow> datasheet \<Rightarrow> datasheet" where
  "merged_sheet current incoming = current\<lparr>
     ds_name := (if trim (ds_name incoming) \<noteq> [] then ds_name incoming else ds_name current),
     ds_description := (if ds_description incoming \<noteq> [] then ds_description incoming else ds_description current),
     ds_attributes := (case ds_attributes incoming of None \<Rightarrow> ds_attributes current | Some a \<Rightarrow> Some a)\<rparr>"

fun keep_existing :: "datasheet list \<Rightarrow> datasheet list \<times> (string \<rightharpoonup> nat) \<Rightarrow> datasheet list \<times> (string \<rightharpoonup> nat)" where
  "keep_existing [] acc = acc"
| "keep_existing (s # ss) (merged, by_realm) = (let realm = trim (ds_realm s) in
     if realm = [] then keep_existing ss (merged, by_realm)
     else keep_existing ss (merged @ [s], by_realm(realm \<mapsto> length merged)))"

fun merge_incoming :: "datasheet list \<Rightarrow> datasheet list \<times> (string \<rightharpoonup> nat) \<Rightarrow> datasheet list \<times> (string \<rightharpoonup> nat)" where
  "merge_incoming [] acc = acc"
| "merge_incoming (s # ss) (merged, by_realm) = (let realm = trim (ds_realm s) in
     if realm = [] then merge_incoming ss (merged, by_realm)
     else case by_realm realm of
       Some i \<Rightarrow> merge_incoming ss (merged[i := merged_sheet (merged ! i) s], by_realm)
     | None \<Rightarrow> merge_incoming ss (merged @ [s], by_realm(realm \<mapsto> length merged)))"

definition merge_datasheets :: "datasheet list \<Rightarrow> datasheet list \<Rightarrow> datasheet list" where
  "merge_datasheets existing incoming = (if incoming = [] then existing
     else fst (merge_incoming incoming (keep_existing existing ([], Map.empty))))"

section \<open>Variations\<close>

record variation =
  vr_id :: string
  vr_name :: string
  vr_definition :: string
  vr_value :: string
  vr_created_at :: gotime
  vr_updated_at :: gotime
  vr_deleted_at :: "gotime option"

definition definition_color :: string where "definition_color = ''COLOR''"

definition definition_size :: string where "definition_size = ''SIZE''"

definition definition_text :: string where "definition_text = ''TEXT''"

definition valid_definition :: "string \<Rightarrow> bool" where
  "valid_definition s \<longleftrightarrow> s \<in> {definition_color, definition_size, definition_text}"

definition variation_normalize :: "variation \<Rightarrow> variation" where
  "variation_normalize v = v\<lparr>vr_name := trim (vr_name v), vr_value := trim (vr_value v),
     vr_definition := to_upper (trim (vr_definition v))\<rparr>"

definition variation_validate :: "variation \<Rightarrow> products_error option" where
  "variation_validate v = (if trim (vr_name v) = [] then Some ErrVariationNameRequired
     else if trim (vr_value v) = [] then Some ErrValueRequired
     else if trim (vr_definition v) = [] then Some ErrDefinitionRequired
     else if \<not> valid_definition (vr_definition v) then Some ErrInvalidDefinition
     else None)"

section \<open>Tags\<close>

record tag =
  tg_id :: nat
  tg_name :: string
  tg_created_at :: gotime
  tg_updated_at :: gotime
  tg_deleted_at :: "gotime option"

record tag_correlation =
  tc_id :: nat
  tc_source :: string
  tc_target :: string
  tc_probability :: float64
  tc_notes :: string
  tc_created_at :: gotime
  tc_updated_at :: gotime

section \<open>Categories\<close>

record price_range =
  pr_min :: "float64 option"
  pr_max :: "float64 option"

record category_filter =
  cf_tags :: "string list"
  cf_price_range :: "price_range option"
  cf_refs :: "string list"

record category =
  ca_id :: string
  ca_slug :: string
  ca_name :: string
  ca_description :: string
  ca_parent_id :: "string option"
  ca_include_children :: bool
  ca_filter :: category_filter
  ca_product_ids :: "string list"
  ca_created_at :: gotime
  ca_updated_at :: gotime

definition category_normalize :: "category \<Rightarrow> category" where
  "category_normalize c = c\<lparr>ca_slug := trim (ca_slug c), ca_name := trim (ca_name c),
     ca_description := trim (ca_description c),
     ca_filter := (ca_filter c)\<lparr>cf_tags := map trim (cf_tags (ca_filter c)), cf_refs := map trim (cf_refs (ca_filter c))\<rparr>,
     ca_product_ids := map trim (ca_product_ids c)\<rparr>"

definition category_validate :: "category \<Rightarrow> products_error option" where
  "category_validate c = (if trim (ca_slug c) = [] then Some ErrSlugRequired
     else if trim (ca_name c) = [] then Some ErrCategoryNameRequired
     else case ca_parent_id c of None \<Rightarrow> None
       | Some p \<Rightarrow> if trim p = ca_id c then Some ErrCircularParent else None)"

section \<open>Merging datasheets\<close>

text \<open>The datasheets of one realm.\<close>

definition sheets_of :: "string \<Rightarrow> datasheet list \<Rightarrow> datasheet list" where
  "sheets_of realm ss = filter (\<lambda>s. trim (ds_realm s) = realm) ss"

text \<open>The map gives for every realm the only index it is stored under.\<close>

definition indexed :: "datasheet list \<Rightarrow> (string \<rightharpoonup> nat) \<Rightarrow> bool" where
  "indexed m b \<longleftrightarrow> (\<forall>r i. b r = Some i \<longleftrightarrow> i < length m \<and> trim (ds_realm (m ! i)) = r)"

lemma filter_only_index:
  assumes "i < length xs" "P (xs ! i)" "\<And>j. j < length xs \<Longrightarrow> P (xs ! j) \<Longrightarrow> j = i"
  shows "filter P xs = [xs ! i]"
proof -
  have "\<not> P x" if x: "x \<in> set (take i xs)" for x
  proof -
    obtain j where "j < i" "x = xs ! j" using x assms(1) by (auto simp: in_set_conv_nth)
    then show ?thesis using assms(1) assms(3)[of j] by auto
  qed
  then have "filter P (take i xs) = []" by (simp add: filter_empty_conv)
  moreover have "\<not> P x" if x: "x \<in> set (drop (Suc i) xs)" for x
  proof -
    obtain j where "j < length (drop (Suc i) xs)" "drop (Suc i) xs ! j = x" using x unfolding in_set_conv_nth by blast
    moreover from this have "Suc i + j < length xs" by simp
    ultimately show ?thesis using assms(3)[of "Suc i + j"] by auto
  qed
  then have "filter P (drop (Suc i) xs) = []" by (simp add: filter_empty_conv)
  ultimately show ?thesis
    using assms(1,2) by (subst id_take_nth_drop[OF assms(1)]) simp
qed

lemma sheets_of_indexed:
  assumes "indexed m b"
  shows "sheets_of r m = (case b r of None \<Rightarrow> [] | Some i \<Rightarrow> [m ! i])"
proof (cases "b r")
  case None
  with assms have "\<forall>i < length m. trim (ds_realm (m ! i)) \<noteq> r" unfolding indexed_def by (metis option.distinct(1))
  with None show ?thesis by (auto simp: sheets_of_def filter_empty_conv in_set_conv_nth)
next
  case (Some i)
  with assms have i: "i < length m" "trim (ds_realm (m ! i)) = r"
    "\<And>j. j < length m \<Longrightarrow> trim (ds_realm (m ! j)) = r \<Longrightarrow> j = i"
    unfolding indexed_def by (metis option.inject)+
  from filter_only_index[of i m "\<lambda>s. trim (ds_realm s) = r", OF i] Some show ?thesis by (simp only: sheets_of_def option.case)
qed

lemma sheets_of_simps [simp]:
  "sheets_of r [] = []" "sheets_of r (s # ss) = (if trim (ds_realm s) = r then s # sheets_of r ss else sheets_of r ss)"
  "sheets_of r (ss @ ts) = sheets_of r ss @ sheets_of r ts"
  by (simp_all add: sheets_of_def)

lemma indexed_append:
  assumes "indexed m b" "b (trim (ds_realm s)) = None"
  shows "indexed (m @ [s]) (b(trim (ds_realm s) \<mapsto> length m))"
proof -
  let ?k = "trim (ds_realm s)"
  have new: "i < length m \<Longrightarrow> trim (ds_realm (m ! i)) \<noteq> ?k" for i
    using assms by (metis indexed_def option.distinct(1))
  have old: "b r = Some i \<longleftrightarrow> i < length m \<and> trim (ds_realm (m ! i)) = r" for r i
    using assms(1) by (simp add: indexed_def)
  have "(b(?k \<mapsto> length m)) r = Some i \<longleftrightarrow> i < length (m @ [s]) \<and> trim (ds_realm ((m @ [s]) ! i)) = r" for r i
  proof (cases "i < length m")
    case True
    then show ?thesis using new[of i] old[of r i] by (auto simp: nth_append)
  next
    case False
    then show ?thesis using old[of r i] by (cases "i = length m") auto
  qed
  then show ?thesis by (simp add: indexed_def)
qed

lemma indexed_update:
  assumes "indexed m b" "ds_realm x = ds_realm (m ! i)"
  shows "indexed (m[i := x]) b"
proof -
  have "ds_realm (m[i := x] ! j) = ds_realm (m ! j)" if "j < length m" for j
    using assms(2) that by (cases "j = i") simp_all
  then show ?thesis using assms(1) unfolding indexed_def by (metis length_list_update)
qed

lemma merged_sheet_realm [simp]: "ds_realm (merged_sheet s t) = ds_realm s"
  by (simp add: merged_sheet_def)

lemma keep_existing_indexed:
  assumes "indexed m b" "distinct (map (\<lambda>s. trim (ds_realm s)) ss)" "\<And>s. s \<in> set ss \<Longrightarrow> b (trim (ds_realm s)) = None"
  shows "case keep_existing ss (m, b) of (m', b') \<Rightarrow>
    indexed m' b' \<and> (\<forall>r. r \<noteq> [] \<longrightarrow> sheets_of r m' = sheets_of r m @ sheets_of r ss)"
  using assms
proof (induction ss arbitrary: m b)
  case Nil
  then show ?case by (simp add: sheets_of_def)
next
  case (Cons s ss)
  define b' where "b' = b(trim (ds_realm s) \<mapsto> length m)"
  have skip: "trim (ds_realm s) = [] \<Longrightarrow> ?case" using Cons.IH[of m b] Cons.prems by auto
  have ix: "indexed (m @ [s]) b'" unfolding b'_def using Cons.prems by (auto intro: indexed_append)
  have "b' (trim (ds_realm t)) = None" if "t \<in> set ss" for t
    using Cons.prems that unfolding b'_def by (auto simp: image_iff)
  then have "case keep_existing ss (m @ [s], b') of (m', b'') \<Rightarrow>
      indexed m' b'' \<and> (\<forall>r. r \<noteq> [] \<longrightarrow> sheets_of r m' = sheets_of r (m @ [s]) @ sheets_of r ss)"
    using Cons.IH[OF ix] Cons.prems by simp
  moreover have "trim (ds_realm s) \<noteq> [] \<Longrightarrow> keep_existing (s # ss) (m, b) = keep_existing ss (m @ [s], b')"
    by (simp add: b'_def)
  ultimately show ?case using skip by (cases "trim (ds_realm s) = []") (auto split: prod.splits)
qed

lemma merge_incoming_indexed:
  assumes "indexed m b" and "r \<noteq> []"
  shows "sheets_of r (fst (merge_incoming ss (m, b)))
    = (case sheets_of r m @ sheets_of r ss of [] \<Rightarrow> [] | t # ts \<Rightarrow> [foldl merged_sheet t ts])"
  using assms(1)
proof (induction ss arbitrary: m b)
  case Nil
  then show ?case using sheets_of_indexed[OF Nil] by (auto simp: sheets_of_def split: option.splits)
next
  case (Cons s ss)
  let ?k = "trim (ds_realm s)"
  show ?case
  proof (cases "?k = []")
    case True
    then show ?thesis using Cons assms(2) by simp
  next
    case False
    show ?thesis
    proof (cases "b ?k")
      case None
      define b' where "b' = b(?k \<mapsto> length m)"
      have i: "indexed (m @ [s]) b'" unfolding b'_def using Cons.prems None by (rule indexed_append)
      have "merge_incoming (s # ss) (m, b) = merge_incoming ss (m @ [s], b')" using None False by (simp add: b'_def)
      then show ?thesis using Cons.IH[OF i] by simp
    next
      case (Some i)
      let ?m = "m[i := merged_sheet (m ! i) s]"
      have len: "i < length m" "trim (ds_realm (m ! i)) = ?k" using Some Cons.prems by (auto simp: indexed_def)
      have i: "indexed ?m b" using Cons.prems by (rule indexed_update) simp
      have step: "merge_incoming (s # ss) (m, b) = merge_incoming ss (?m, b)" using Some False by simp
      show ?thesis
      proof (cases "?k = r")
        case True
        then show ?thesis
          unfolding step Cons.IH[OF i] using Some len sheets_of_indexed[OF i, of r] sheets_of_indexed[OF Cons.prems, of r] by simp
      next
        case False
        have "sheets_of r ?m = sheets_of r m"
        proof (cases "b r")
          case None
          then show ?thesis using sheets_of_indexed[OF i, of r] sheets_of_indexed[OF Cons.prems, of r] by simp
        next
          case (Some j)
          with Cons.prems len False have "j \<noteq> i" by (auto simp: indexed_def)
          with Some show ?thesis using sheets_of_indexed[OF i, of r] sheets_of_indexed[OF Cons.prems, of r] by simp
        qed
        with False show ?thesis unfolding step Cons.IH[OF i] by simp
      qed
    qed
  qed
qed

lemma merge_datasheets_by_realm:
  assumes "distinct (map (\<lambda>s. trim (ds_realm s)) existing)" "incoming \<noteq> []" "r \<noteq> []"
  shows "sheets_of r (merge_datasheets existing incoming) =
    (case sheets_of r existing @ sheets_of r incoming of [] \<Rightarrow> [] | t # ts \<Rightarrow> [foldl merged_sheet t ts])"
proof -
  obtain m b where mb: "keep_existing existing ([], Map.empty) = (m, b)" by fastforce
  have "indexed m b \<and> sheets_of r m = sheets_of r existing"
    using keep_existing_indexed[of "[]" Map.empty existing] assms mb by (auto simp: indexed_def sheets_of_def)
  then show ?thesis using merge_incoming_indexed[of m b r incoming] assms mb by (simp add: merge_datasheets_def)
qed

end
