(* ===== verification/Products_Store.thy ===== *)
theory Products_Store
  imports Products_Domain "HOL-Library.Product_Lexorder" "HOL-Library.List_Lexorder" "HOL-Library.Char_ord"
begin

text \<open>
  The tables of the products module and the repositories of products, variations and tags
  (\<^verbatim>\<open>module/products/adapter/store/{product,variation,tag}\<close>).

  A table is the list of its rows in insertion order. The generated keys of all tables come from one
  increasing supply \<open>pd_next\<close>, which starts above zero. \<open>pd_random\<close> is the stream of random
  identifiers, \<open>pd_fault l\<close> says that the statement labelled \<open>l\<close> fails in the driver, and
  \<open>pd_dup_message x\<close> is the text of the driver's error for a repeated key of index \<open>x\<close>. The JSON encoder
  and decoder are parameters \<open>enc\<close> and \<open>dec\<close>.
\<close>

section \<open>Rows\<close>

text \<open>A row of a relation: its generated key, the key of its owner, its position and its value.\<close>

record ('o, 'v) link =
  ln_id :: nat
  ln_owner :: 'o
  ln_position :: int
  ln_value :: 'v

type_synonym realm_row = "(nat, string) link"

type_synonym gallery_variation_row = "(nat, string) link"

type_synonym variation_link_row = "(string, string) link"

type_synonym variant_row = "(string, string) link"

type_synonym variant_variation_row = "(nat, string) link"

type_synonym product_tag_row = "(string, nat) link"

record product_row =
  pw_id :: string
  pw_sku :: string
  pw_price :: "float64 option"
  pw_created_at :: gotime
  pw_updated_at :: gotime
  pw_deleted_at :: "gotime option"

record gallery_row =
  gr_id :: nat
  gr_product_id :: string
  gr_position :: int
  gr_variation_position :: "int option"
  gr_asset_id :: string
  gr_is_main :: bool

record datasheet_row =
  dw_id :: nat
  dw_product_id :: string
  dw_position :: int
  dw_realm :: string
  dw_name :: string
  dw_description :: string

record attribute_row =
  aw_id :: nat
  aw_datasheet_id :: nat
  aw_key :: string
  aw_value :: string

record category_row =
  yr_id :: string
  yr_slug :: string
  yr_name :: string
  yr_description :: string
  yr_parent_id :: "string option"
  yr_include_children :: bool
  yr_created_at :: gotime
  yr_updated_at :: gotime
  yr_deleted_at :: "gotime option"

type_synonym filter_tag_row = "(string, string) link"

type_synonym category_product_row = "(string, string) link"

record price_row =
  xr_id :: nat
  xr_category_id :: string
  xr_min :: "float64 option"
  xr_max :: "float64 option"

record ref_row =
  fr_id :: nat
  fr_category_id :: string
  fr_ref :: string

record products_db =
  pd_products :: "product_row list"
  pd_gallery :: "gallery_row list"
  pd_realms :: "realm_row list"
  pd_gallery_variations :: "gallery_variation_row list"
  pd_datasheets :: "datasheet_row list"
  pd_attributes :: "attribute_row list"
  pd_links :: "variation_link_row list"
  pd_variants :: "variant_row list"
  pd_variant_variations :: "variant_variation_row list"
  pd_product_tags :: "product_tag_row list"
  pd_tags :: "tag list"
  pd_correlations :: "tag_correlation list"
  pd_variations :: "variation list"
  pd_categories :: "category_row list"
  pd_filter_tags :: "filter_tag_row list"
  pd_price_ranges :: "price_row list"
  pd_refs :: "ref_row list"
  pd_category_products :: "category_product_row list"
  pd_next :: nat
  pd_clock :: gotime
  pd_random :: "nat \<Rightarrow> string"
  pd_drawn :: nat
  pd_fault :: "string \<Rightarrow> bool"
  pd_dup_message :: "string \<Rightarrow> string"

type_synonym 'a products_prog = "(products_db, products_error, 'a) prog"

section \<open>Statements\<close>

definition pstmt :: "string \<Rightarrow> 'a products_prog \<Rightarrow> 'a products_prog" where
  "pstmt label m = (\<lambda>d. if pd_fault d label then (Inl (Wrapped label (Err ProductsDriverError)), d) else m d)"

text \<open>A loop over statements that stops at the first error, and one that collects their results.\<close>

fun each :: "('a \<Rightarrow> ('w, 'e, unit) prog) \<Rightarrow> 'a list \<Rightarrow> ('w, 'e, unit) prog" where
  "each f [] = ret ()"
| "each f (x # xs) = bindp (f x) (\<lambda>_. each f xs)"

fun collect :: "('a \<Rightarrow> ('w, 'e, 'b) prog) \<Rightarrow> 'a list \<Rightarrow> ('w, 'e, 'b list) prog" where
  "collect f [] = ret []"
| "collect f (x # xs) = bindp (f x) (\<lambda>y. bindp (collect f xs) (\<lambda>ys. ret (y # ys)))"

text \<open>INSERT of one row with a generated key.\<close>

definition insert_row :: "string \<Rightarrow> (nat \<Rightarrow> products_db \<Rightarrow> products_db) \<Rightarrow> nat products_prog" where
  "insert_row label put = pstmt label (\<lambda>d. (Inr (pd_next d), put (pd_next d) (d\<lparr>pd_next := Suc (pd_next d)\<rparr>)))"

definition select_all :: "string \<Rightarrow> (products_db \<Rightarrow> 'a) \<Rightarrow> 'a products_prog" where
  "select_all label f = pstmt label (getp f)"

definition change :: "string \<Rightarrow> (products_db \<Rightarrow> products_db) \<Rightarrow> unit products_prog" where
  "change label f = pstmt label (modp f)"

definition draw_id :: "string products_prog" where
  "draw_id = drawp (\<lambda>d. (pd_random d (pd_drawn d), d\<lparr>pd_drawn := Suc (pd_drawn d)\<rparr>))"

text \<open>\<^verbatim>\<open>isDuplicateSKUErr\<close>, \<^verbatim>\<open>isDuplicateSlugErr\<close> and \<^verbatim>\<open>isDuplicateCorrelationErr\<close> look for two words in the text of
  the driver's error.\<close>

definition duplicate_text :: "string \<Rightarrow> string \<Rightarrow> bool" where
  "duplicate_text key message = (let v = to_lower (trim message) in contains v ''unique'' \<and> contains v key)"

definition duplicate_key :: "string \<Rightarrow> string \<Rightarrow> string \<Rightarrow> products_error \<Rightarrow> 'a products_prog" where
  "duplicate_key label index key known = (\<lambda>d.
     (Inl (if duplicate_text key (pd_dup_message d index) then Err known else Wrapped label (Err ProductsDriverError)), d))"

section \<open>Relations of a product\<close>

definition live_product :: "product_row \<Rightarrow> bool" where
  "live_product r \<longleftrightarrow> pw_deleted_at r = None"

definition gallery_ids :: "string \<Rightarrow> products_db \<Rightarrow> nat list" where
  "gallery_ids pid d = map gr_id (filter (\<lambda>r. gr_product_id r = pid) (pd_gallery d))"

definition datasheet_ids :: "string \<Rightarrow> products_db \<Rightarrow> nat list" where
  "datasheet_ids pid d = map dw_id (filter (\<lambda>r. dw_product_id r = pid) (pd_datasheets d))"

definition variant_ids :: "string \<Rightarrow> products_db \<Rightarrow> nat list" where
  "variant_ids pid d = map ln_id (filter (\<lambda>r. ln_owner r = pid) (pd_variants d))"

definition clear_gallery :: "string \<Rightarrow> unit products_prog" where
  "clear_gallery pid = bindp (select_all ''list gallery relation ids'' (gallery_ids pid)) (\<lambda>ids.
     bindp (if ids = [] then ret () else
       bindp (change ''delete gallery included realm relations'' (pd_realms_update (filter (\<lambda>r. ln_owner r \<notin> set ids)))) (\<lambda>_.
         change ''delete gallery variation relations'' (pd_gallery_variations_update (filter (\<lambda>r. ln_owner r \<notin> set ids))))) (\<lambda>_.
     change ''delete gallery relations'' (pd_gallery_update (filter (\<lambda>r. gr_product_id r \<noteq> pid)))))"

definition clear_datasheets :: "string \<Rightarrow> unit products_prog" where
  "clear_datasheets pid = bindp (select_all ''list datasheet relation ids'' (datasheet_ids pid)) (\<lambda>ids.
     bindp (if ids = [] then ret () else
       change ''delete datasheet attribute relations'' (pd_attributes_update (filter (\<lambda>r. aw_datasheet_id r \<notin> set ids)))) (\<lambda>_.
     change ''delete datasheet relations'' (pd_datasheets_update (filter (\<lambda>r. dw_product_id r \<noteq> pid)))))"

definition clear_variants :: "string \<Rightarrow> unit products_prog" where
  "clear_variants pid = bindp (select_all ''list variant relation ids'' (variant_ids pid)) (\<lambda>ids.
     bindp (if ids = [] then ret () else
       change ''delete variant variation relations'' (pd_variant_variations_update (filter (\<lambda>r. ln_owner r \<notin> set ids)))) (\<lambda>_.
     change ''delete variant relations'' (pd_variants_update (filter (\<lambda>r. ln_owner r \<noteq> pid)))))"

definition clear_relations :: "string \<Rightarrow> unit products_prog" where
  "clear_relations product_id = (let pid = trim product_id in
     bindp (clear_gallery pid) (\<lambda>_. bindp (clear_datasheets pid) (\<lambda>_. bindp (clear_variants pid) (\<lambda>_.
       change ''delete product variation links'' (pd_links_update (filter (\<lambda>r. ln_owner r \<noteq> pid)))))))"

text \<open>Rows of a relation whose values are the trimmed strings of a list, with their index as position.\<close>

definition insert_link :: "string \<Rightarrow> ((('o, string) link list \<Rightarrow> ('o, string) link list) \<Rightarrow> products_db \<Rightarrow> products_db)
    \<Rightarrow> 'o \<Rightarrow> nat \<times> string \<Rightarrow> nat products_prog" where
  "insert_link label upd owner iv = (case iv of (i, v) \<Rightarrow>
     insert_row label (\<lambda>k. upd (\<lambda>t. t @ [\<lparr>ln_id = k, ln_owner = owner, ln_position = int i, ln_value = trim v\<rparr>])))"

definition insert_links :: "string \<Rightarrow> ((('o, string) link list \<Rightarrow> ('o, string) link list) \<Rightarrow> products_db \<Rightarrow> products_db)
    \<Rightarrow> 'o \<Rightarrow> string list \<Rightarrow> unit products_prog" where
  "insert_links label upd owner vs =
     each (\<lambda>iv. bindp (insert_link label upd owner iv) (\<lambda>_. ret ())) (enumerate 0 vs)"

definition gallery_position :: "int option \<Rightarrow> int \<Rightarrow> int" where
  "gallery_position v fallback = (case v of None \<Rightarrow> fallback | Some n \<Rightarrow> if n < 0 then 0 else n)"

definition gallery_variation_position :: "int option \<Rightarrow> bool \<Rightarrow> int option" where
  "gallery_variation_position v linked = (if \<not> linked then None else map_option (\<lambda>n. if n < 0 then 0 else n) v)"

definition create_gallery_item :: "string \<Rightarrow> nat \<times> gallery_item \<Rightarrow> unit products_prog" where
  "create_gallery_item pid ig = (case ig of (i, g) \<Rightarrow>
     bindp (insert_row ''create gallery relation'' (\<lambda>k. pd_gallery_update (\<lambda>t. t @ [\<lparr>gr_id = k, gr_product_id = trim pid,
         gr_position = gallery_position (gi_position g) (int i),
         gr_variation_position = gallery_variation_position (gi_variation_position g) (gi_variation_ids g \<noteq> []),
         gr_asset_id = trim (gi_asset_id g), gr_is_main = gi_is_main g\<rparr>]))) (\<lambda>k.
     bindp (insert_links ''create gallery included realm relation'' pd_realms_update k (gi_included_realms g)) (\<lambda>_.
       insert_links ''create gallery variation relation'' pd_gallery_variations_update k (gi_variation_ids g))))"

definition create_gallery :: "string \<Rightarrow> gallery_item list \<Rightarrow> unit products_prog" where
  "create_gallery pid gs = each (create_gallery_item pid) (enumerate 0 gs)"

definition create_attribute :: "(json \<Rightarrow> string option) \<Rightarrow> nat \<Rightarrow> string \<times> json \<Rightarrow> unit products_prog" where
  "create_attribute enc sheet kv = (case kv of (key, v) \<Rightarrow> (case enc v of
       None \<Rightarrow> throw (Wrapped ''marshal datasheet attribute value'' (Err AttributeEncoding))
     | Some s \<Rightarrow> bindp (insert_row ''create datasheet attribute relation'' (\<lambda>k. pd_attributes_update (\<lambda>t. t @
         [\<lparr>aw_id = k, aw_datasheet_id = sheet, aw_key = trim key, aw_value = s\<rparr>]))) (\<lambda>_. ret ())))"

definition create_datasheet :: "(json \<Rightarrow> string option) \<Rightarrow> string \<Rightarrow> nat \<times> datasheet \<Rightarrow> unit products_prog" where
  "create_datasheet enc pid is = (case is of (i, s) \<Rightarrow>
     bindp (insert_row ''create datasheet relation'' (\<lambda>k. pd_datasheets_update (\<lambda>t. t @ [\<lparr>dw_id = k, dw_product_id = trim pid,
         dw_position = int i, dw_realm = trim (ds_realm s), dw_name = trim (ds_name s),
         dw_description = trim (ds_description s)\<rparr>]))) (\<lambda>k.
       each (create_attribute enc k) (case ds_attributes s of None \<Rightarrow> [] | Some a \<Rightarrow> a)))"

definition create_datasheets :: "(json \<Rightarrow> string option) \<Rightarrow> string \<Rightarrow> datasheet list \<Rightarrow> unit products_prog" where
  "create_datasheets enc pid ss = each (create_datasheet enc pid) (enumerate 0 ss)"

definition create_variation_links :: "string \<Rightarrow> string list \<Rightarrow> unit products_prog" where
  "create_variation_links pid vs = insert_links ''create product variation link'' pd_links_update (trim pid) vs"

definition create_variant :: "string \<Rightarrow> nat \<times> variant \<Rightarrow> unit products_prog" where
  "create_variant pid iv = (case iv of (i, v) \<Rightarrow>
     bindp (insert_link ''create variant relation'' pd_variants_update (trim pid) (i, va_sku v)) (\<lambda>k.
       insert_links ''create variant variation relation'' pd_variant_variations_update k (va_variation_ids v)))"

definition create_variants :: "string \<Rightarrow> variant list \<Rightarrow> unit products_prog" where
  "create_variants pid vs = each (create_variant pid) (enumerate 0 vs)"

text \<open>\<^verbatim>\<open>SELECT id FROM tags WHERE name = ? AND deleted_at IS NULL LIMIT 1\<close>, zero if there is none.\<close>

definition live_tag_id :: "string \<Rightarrow> products_db \<Rightarrow> nat" where
  "live_tag_id name d = (case find (\<lambda>t. tg_name t = name \<and> tg_deleted_at t = None) (pd_tags d) of
     None \<Rightarrow> 0 | Some t \<Rightarrow> tg_id t)"

definition insert_product_tag :: "string \<Rightarrow> nat \<Rightarrow> nat \<Rightarrow> nat products_prog" where
  "insert_product_tag pid i tid = (\<lambda>d. if \<exists>r \<in> set (pd_product_tags d). ln_owner r = pid \<and> ln_value r = tid
     then (Inl (Wrapped ''create product tag relation'' (Err ProductsDriverError)), d)
     else insert_row ''create product tag relation'' (\<lambda>k. pd_product_tags_update (\<lambda>t. t @
       [\<lparr>ln_id = k, ln_owner = pid, ln_position = int i, ln_value = tid\<rparr>])) d)"

definition create_product_tag :: "string \<Rightarrow> nat \<times> string \<Rightarrow> unit products_prog" where
  "create_product_tag pid it = (case it of (i, name) \<Rightarrow> let t = trim name in
     if t = [] then ret ()
     else bindp (select_all ''resolve tag id'' (live_tag_id t)) (\<lambda>tid.
       if tid = 0 then throw (Err (UnknownTag t))
       else bindp (insert_product_tag pid i tid) (\<lambda>_. ret ())))"

definition replace_product_tags :: "string \<Rightarrow> string list \<Rightarrow> unit products_prog" where
  "replace_product_tags product_id tags = (let pid = trim product_id in
     bindp (change ''delete product tag relations'' (pd_product_tags_update (filter (\<lambda>r. ln_owner r \<noteq> pid)))) (\<lambda>_.
       each (create_product_tag pid) (enumerate 0 tags)))"

definition replace_relations :: "(json \<Rightarrow> string option) \<Rightarrow> string \<Rightarrow> catalog_product \<Rightarrow> unit products_prog" where
  "replace_relations enc pid p = bindp (clear_relations pid) (\<lambda>_. bindp (create_gallery pid (pt_gallery p)) (\<lambda>_.
     bindp (create_datasheets enc pid (pt_datasheets p)) (\<lambda>_. bindp (create_variation_links pid (pt_variations p)) (\<lambda>_.
     bindp (create_variants pid (pt_variants p)) (\<lambda>_. replace_product_tags pid (pt_tags p))))))"

section \<open>Reading a product\<close>

definition links_of :: "'o \<Rightarrow> ('o, 'v) link list \<Rightarrow> ('o, 'v) link list" where
  "links_of owner t = sort_key ln_position (filter (\<lambda>r. ln_owner r = owner) t)"

definition link_values :: "'o \<Rightarrow> ('o, 'v) link list \<Rightarrow> 'v list" where
  "link_values owner t = map ln_value (links_of owner t)"

definition load_gallery_item :: "gallery_row \<Rightarrow> gallery_item products_prog" where
  "load_gallery_item r = bindp (select_all ''load gallery included realm relations'' (\<lambda>d. link_values (gr_id r) (pd_realms d))) (\<lambda>realms.
     bindp (select_all ''load gallery variation relations'' (\<lambda>d. link_values (gr_id r) (pd_gallery_variations d))) (\<lambda>vs.
     ret \<lparr>gi_asset_id = gr_asset_id r, gi_position = Some (gr_position r), gi_variation_position = gr_variation_position r,
          gi_is_main = gr_is_main r, gi_included_realms = realms, gi_variation_ids = vs\<rparr>))"

definition gallery_rows_of :: "string \<Rightarrow> products_db \<Rightarrow> gallery_row list" where
  "gallery_rows_of pid d = sort_key (\<lambda>r. (gr_position r, gr_id r)) (filter (\<lambda>r. gr_product_id r = pid) (pd_gallery d))"

text \<open>\<^verbatim>\<open>unmarshalAttributeValue\<close>: an empty text is nil.\<close>

definition unmarshal_attribute :: "(string \<Rightarrow> json option) \<Rightarrow> string \<Rightarrow> json option" where
  "unmarshal_attribute dec raw = (if raw = [] then Some JNull else dec raw)"

fun read_attributes :: "(string \<Rightarrow> json option) \<Rightarrow> attribute_row list \<Rightarrow> (string \<times> json) list \<Rightarrow> (string \<times> json) list option" where
  "read_attributes dec [] acc = Some acc"
| "read_attributes dec (r # rs) acc = (case unmarshal_attribute dec (aw_value r) of None \<Rightarrow> None
     | Some v \<Rightarrow> read_attributes dec rs (AList.update (aw_key r) v acc))"

definition load_datasheet :: "(string \<Rightarrow> json option) \<Rightarrow> datasheet_row \<Rightarrow> datasheet products_prog" where
  "load_datasheet dec r = bindp (select_all ''load datasheet attribute relations''
       (\<lambda>d. sort_key aw_id (filter (\<lambda>a. aw_datasheet_id a = dw_id r) (pd_attributes d)))) (\<lambda>rows.
     case read_attributes dec rows [] of
       None \<Rightarrow> throw (Wrapped ''unmarshal datasheet attribute value'' (Err AttributeEncoding))
     | Some a \<Rightarrow> ret \<lparr>ds_realm = dw_realm r, ds_name = dw_name r, ds_description = dw_description r, ds_attributes = Some a\<rparr>)"

definition load_variant :: "variant_row \<Rightarrow> variant products_prog" where
  "load_variant r = bindp (select_all ''load product variant variation relations'' (\<lambda>d. link_values (ln_id r) (pd_variant_variations d))) (\<lambda>vs.
     ret \<lparr>va_variation_ids = vs, va_sku = ln_value r\<rparr>)"

text \<open>The join of \<^verbatim>\<open>product_tags\<close> with the live \<^verbatim>\<open>tags\<close>, in the order of the positions.\<close>

definition product_tag_names :: "string \<Rightarrow> products_db \<Rightarrow> string list" where
  "product_tag_names pid d = concat (map (\<lambda>r. map tg_name (filter (\<lambda>t. tg_id t = ln_value r \<and> tg_deleted_at t = None) (pd_tags d)))
     (links_of pid (pd_product_tags d)))"

definition load_product :: "(string \<Rightarrow> json option) \<Rightarrow> product_row \<Rightarrow> catalog_product products_prog" where
  "load_product dec r = (let pid = pw_id r in
     bindp (bindp (select_all ''load product gallery relations'' (gallery_rows_of pid)) (collect load_gallery_item)) (\<lambda>gallery.
     bindp (bindp (select_all ''load product datasheet relations'' (\<lambda>d. sort_key dw_position (filter (\<lambda>s. dw_product_id s = pid) (pd_datasheets d))))
       (collect (load_datasheet dec))) (\<lambda>sheets.
     bindp (select_all ''load product tag relations'' (product_tag_names pid)) (\<lambda>tags.
     bindp (select_all ''load product variation link relations'' (\<lambda>d. link_values pid (pd_links d))) (\<lambda>links.
     bindp (bindp (select_all ''load product variant relations'' (\<lambda>d. links_of pid (pd_variants d))) (collect load_variant)) (\<lambda>variants.
     ret (product_normalize \<lparr>pt_id = pid, pt_sku = pw_sku r, pt_price = pw_price r, pt_tags = tags, pt_gallery = gallery,
       pt_datasheets = sheets, pt_variations = links, pt_variants = variants, pt_created_at = pw_created_at r,
       pt_updated_at = pw_updated_at r, pt_deleted_at = pw_deleted_at r\<rparr>)))))))"

end
