(* ===== verification/Products_Repository.thy ===== *)
theory Products_Repository
  imports Products_Store
begin

text \<open>
  The operations of the product, variation and tag repositories
  (\<^verbatim>\<open>module/products/adapter/store/{product,variation,tag}/repository.go\<close>).
\<close>

section \<open>Products\<close>

definition insert_product :: "product_row \<Rightarrow> unit products_prog" where
  "insert_product r = pstmt ''create product record'' (\<lambda>d.
     if pw_id r \<in> pw_id ` set (pd_products d)
     then duplicate_key ''create product record'' ''PRIMARY'' ''sku'' ErrDuplicateSKU d
     else if pw_sku r \<in> pw_sku ` set (pd_products d)
     then duplicate_key ''create product record'' ''idx_products_sku'' ''sku'' ErrDuplicateSKU d
     else (Inr (), d\<lparr>pd_products := pd_products d @ [r]\<rparr>))"

definition find_product :: "(product_row \<Rightarrow> bool) \<Rightarrow> products_db \<Rightarrow> product_row option" where
  "find_product P d = find (\<lambda>r. live_product r \<and> P r) (pd_products d)"

definition product_by_id :: "(string \<Rightarrow> json option) \<Rightarrow> string \<Rightarrow> catalog_product products_prog" where
  "product_by_id dec i = bindp (select_all ''get product record'' (find_product (\<lambda>r. pw_id r = trim i))) (\<lambda>r.
     case r of None \<Rightarrow> throw (Err ErrProductNotFound) | Some r \<Rightarrow> load_product dec r)"

definition product_create :: "(json \<Rightarrow> string option) \<Rightarrow> (string \<Rightarrow> json option) \<Rightarrow> catalog_product \<Rightarrow> catalog_product products_prog" where
  "product_create enc dec p = bindp (if trim (pt_id p) = [] then draw_id else ret (trim (pt_id p))) (\<lambda>i.
     bindp (atomically (bindp (getp pd_clock) (\<lambda>now.
       bindp (insert_product \<lparr>pw_id = i, pw_sku = trim (pt_sku p), pw_price = pt_price p, pw_created_at = now,
         pw_updated_at = now, pw_deleted_at = None\<rparr>) (\<lambda>_. replace_relations enc i p)))) (\<lambda>_.
     product_by_id dec i))"

text \<open>\<^verbatim>\<open>GetBySKU\<close>: the product of that SKU, else the product of the first variant row of that SKU.\<close>

definition variant_owner :: "string \<Rightarrow> products_db \<Rightarrow> string" where
  "variant_owner sku d = (case sort_key ln_id (filter (\<lambda>r. ln_value r = sku) (pd_variants d)) of [] \<Rightarrow> [] | r # _ \<Rightarrow> ln_owner r)"

definition product_by_sku :: "(string \<Rightarrow> json option) \<Rightarrow> string \<Rightarrow> catalog_product products_prog" where
  "product_by_sku dec sku = bindp (select_all ''get product by sku'' (find_product (\<lambda>r. pw_sku r = trim sku))) (\<lambda>r.
     case r of Some r \<Rightarrow> load_product dec r
     | None \<Rightarrow> bindp (select_all ''get product by variant sku'' (variant_owner (trim sku))) (\<lambda>pid.
         if pid = [] then throw (Err ErrProductNotFound) else product_by_id dec pid))"

definition newest_first :: "product_row list \<Rightarrow> product_row list" where
  "newest_first rs = sort_key (\<lambda>r. - pw_created_at r) rs"

definition product_list :: "(string \<Rightarrow> json option) \<Rightarrow> catalog_product list products_prog" where
  "product_list dec = bindp (select_all ''list product records'' (\<lambda>d. newest_first (filter live_product (pd_products d))))
     (collect (load_product dec))"

definition update_product :: "string \<Rightarrow> string \<Rightarrow> float64 option \<Rightarrow> unit products_prog" where
  "update_product pid sku price = pstmt ''update product record'' (\<lambda>d.
     let hit = (\<lambda>r. live_product r \<and> pw_id r = pid) in
     if \<not> list_ex hit (pd_products d) then (Inl (Err ErrProductNotFound), d)
     else if \<exists>r \<in> set (pd_products d). pw_sku r = sku \<and> \<not> hit r
     then duplicate_key ''update product record'' ''idx_products_sku'' ''sku'' ErrDuplicateSKU d
     else (Inr (), d\<lparr>pd_products := map (\<lambda>r. if hit r then r\<lparr>pw_sku := sku, pw_price := price, pw_updated_at := pd_clock d\<rparr> else r)
       (pd_products d)\<rparr>))"

definition product_update :: "(json \<Rightarrow> string option) \<Rightarrow> (string \<Rightarrow> json option) \<Rightarrow> catalog_product \<Rightarrow> catalog_product products_prog" where
  "product_update enc dec p = (let pid = trim (pt_id p) in
     if pid = [] then throw (Err ErrProductNotFound)
     else bindp (atomically (bindp (update_product pid (trim (pt_sku p)) (pt_price p)) (\<lambda>_. replace_relations enc pid p))) (\<lambda>_.
       product_by_id dec pid))"

definition product_delete :: "string \<Rightarrow> unit products_prog" where
  "product_delete i = (let pid = trim i; hit = (\<lambda>r. live_product r \<and> pw_id r = pid) in
     atomically (bindp (select_all ''delete product record'' (\<lambda>d. list_ex hit (pd_products d))) (\<lambda>found.
       if \<not> found then throw (Err ErrProductNotFound)
       else bindp (modp (\<lambda>d. d\<lparr>pd_products := map (\<lambda>r. if hit r then r\<lparr>pw_deleted_at := Some (pd_clock d)\<rparr> else r) (pd_products d)\<rparr>)) (\<lambda>_.
         clear_relations pid))))"

text \<open>\<^verbatim>\<open>GetByIDs\<close>: the order of the request, each identifier at its first position. The request reaches the
  SQL as it is, the map of positions has trimmed identifiers; stored identifiers are trimmed, so every
  row that is found has a position and \<^verbatim>\<open>sort.SliceStable\<close> is a stable sort by it.\<close>

definition first_position :: "string list \<Rightarrow> string \<Rightarrow> nat" where
  "first_position ids i = length (takeWhile (\<lambda>x. trim x \<noteq> i) ids)"

definition products_by_ids :: "(string \<Rightarrow> json option) \<Rightarrow> string list \<Rightarrow> catalog_product list products_prog" where
  "products_by_ids dec ids = (if ids = [] then ret []
     else bindp (select_all ''get products by ids'' (\<lambda>d. filter (\<lambda>r. live_product r \<and> pw_id r \<in> set ids) (pd_products d))) (\<lambda>rows.
       collect (load_product dec) (sort_key (\<lambda>r. first_position ids (pw_id r)) rows)))"

definition tagged :: "string list \<Rightarrow> products_db \<Rightarrow> string set" where
  "tagged names d = ln_owner ` set (filter (\<lambda>r. list_ex (\<lambda>t. tg_id t = ln_value r \<and> tg_deleted_at t = None \<and> tg_name t \<in> set names)
     (pd_tags d)) (pd_product_tags d))"

definition in_price :: "float64 option \<Rightarrow> float64 option \<Rightarrow> product_row \<Rightarrow> bool" where
  "in_price low high r \<longleftrightarrow> (case low of None \<Rightarrow> True | Some l \<Rightarrow> (case pw_price r of None \<Rightarrow> False | Some p \<Rightarrow> l \<le> p))
     \<and> (case high of None \<Rightarrow> True | Some h \<Rightarrow> (case pw_price r of None \<Rightarrow> False | Some p \<Rightarrow> p \<le> h))"

definition normal_page :: "int \<Rightarrow> int" where
  "normal_page page = (if page < 1 then 1 else page)"

definition normal_page_size :: "int \<Rightarrow> int" where
  "normal_page_size n = (if n < 1 then 20 else n)"

definition products_by_tags_and_price :: "(string \<Rightarrow> json option) \<Rightarrow> string list \<Rightarrow> float64 option \<Rightarrow> float64 option \<Rightarrow> int \<Rightarrow> int
    \<Rightarrow> (catalog_product list \<times> int) products_prog" where
  "products_by_tags_and_price dec tags low high page per = (let
       matching = (\<lambda>d. filter (\<lambda>r. live_product r \<and> (tags = [] \<or> pw_id r \<in> tagged tags d) \<and> in_price low high r) (pd_products d)) in
     bindp (select_all ''count products by tags and price'' (\<lambda>d. int (length (matching d)))) (\<lambda>total.
     let offset = int64 ((normal_page page - 1) * normal_page_size per) in
     bindp (select_all ''list products by tags and price'' (\<lambda>d.
       take (nat (normal_page_size per)) (drop (nat offset) (newest_first (matching d))))) (\<lambda>rows.
     bindp (collect (load_product dec) rows) (\<lambda>items. ret (items, total)))))"

section \<open>Variations\<close>

definition variation_row :: "variation \<Rightarrow> variation" where
  "variation_row v = v\<lparr>vr_id := trim (vr_id v), vr_name := trim (vr_name v), vr_definition := trim (vr_definition v),
     vr_value := trim (vr_value v)\<rparr>"

definition live_variation :: "variation \<Rightarrow> bool" where
  "live_variation v \<longleftrightarrow> vr_deleted_at v = None"

definition insert_variation :: "variation \<Rightarrow> unit products_prog" where
  "insert_variation v = pstmt ''create variation record'' (\<lambda>d. if vr_id v \<in> vr_id ` set (pd_variations d)
     then (Inl (Wrapped ''create variation record'' (Err ProductsDriverError)), d)
     else (Inr (), d\<lparr>pd_variations := pd_variations d @ [v]\<rparr>))"

definition variation_create :: "variation \<Rightarrow> variation products_prog" where
  "variation_create v = (let r = variation_row v in
     bindp (if trim (vr_id r) = [] then draw_id else ret (vr_id r)) (\<lambda>i. bindp (getp pd_clock) (\<lambda>now.
     let r' = r\<lparr>vr_id := i, vr_created_at := (if vr_created_at r = 0 then now else vr_created_at r),
                vr_updated_at := (if vr_updated_at r = 0 then now else vr_updated_at r)\<rparr> in
     bindp (insert_variation r') (\<lambda>_. ret r'))))"

definition variation_by_id :: "string \<Rightarrow> variation products_prog" where
  "variation_by_id i = bindp (select_all ''get variation record'' (\<lambda>d. find (\<lambda>v. live_variation v \<and> vr_id v = i) (pd_variations d))) (\<lambda>v.
     case v of None \<Rightarrow> throw (Err ErrVariationNotFound) | Some v \<Rightarrow> ret v)"

definition variation_list :: "variation list products_prog" where
  "variation_list = select_all ''list variation records''
     (\<lambda>d. sort_key (\<lambda>v. - vr_created_at v) (filter live_variation (pd_variations d)))"

text \<open>The definition of a variation is not among the updated columns.\<close>

definition variation_update :: "variation \<Rightarrow> variation products_prog" where
  "variation_update v = (if trim (vr_id v) = [] then throw (Err ErrVariationNotFound)
     else let r = variation_row v; hit = (\<lambda>x. live_variation x \<and> vr_id x = vr_id r) in
     bindp (select_all ''update variation record'' (\<lambda>d. list_ex hit (pd_variations d))) (\<lambda>found.
       if \<not> found then throw (Err ErrVariationNotFound)
       else bindp (modp (\<lambda>d. d\<lparr>pd_variations := map (\<lambda>x. if hit x then x\<lparr>vr_name := vr_name r, vr_value := vr_value r,
           vr_updated_at := pd_clock d\<rparr> else x) (pd_variations d)\<rparr>)) (\<lambda>_. variation_by_id (vr_id r))))"

definition variation_delete :: "string \<Rightarrow> unit products_prog" where
  "variation_delete i = (let hit = (\<lambda>x. live_variation x \<and> vr_id x = i) in
     bindp (select_all ''delete variation record'' (\<lambda>d. list_ex hit (pd_variations d))) (\<lambda>found.
       if \<not> found then throw (Err ErrVariationNotFound)
       else modp (\<lambda>d. d\<lparr>pd_variations := map (\<lambda>x. if hit x then x\<lparr>vr_deleted_at := Some (pd_clock d)\<rparr> else x) (pd_variations d)\<rparr>)))"

section \<open>Tags\<close>

definition live_tag :: "tag \<Rightarrow> bool" where
  "live_tag t \<longleftrightarrow> tg_deleted_at t = None"

definition insert_tag :: "string \<Rightarrow> unit products_prog" where
  "insert_tag name = pstmt ''create tag'' (\<lambda>d. if name \<in> tg_name ` set (pd_tags d)
     then (Inl (Wrapped ''create tag'' (Err ProductsDriverError)), d)
     else (Inr (), d\<lparr>pd_next := Suc (pd_next d), pd_tags := pd_tags d @ [\<lparr>tg_id = pd_next d, tg_name = name,
       tg_created_at = pd_clock d, tg_updated_at = pd_clock d, tg_deleted_at = None\<rparr>]\<rparr>))"

definition restore_tag :: "nat \<Rightarrow> unit products_prog" where
  "restore_tag i = pstmt ''reintegrate tag'' (modp (\<lambda>d. d\<lparr>pd_tags := map (\<lambda>t. if tg_id t = i
     then t\<lparr>tg_deleted_at := None, tg_updated_at := pd_clock d\<rparr> else t) (pd_tags d)\<rparr>))"

definition ensure_tag :: "string \<Rightarrow> unit products_prog" where
  "ensure_tag n = (let name = trim n in if name = [] then ret ()
     else bindp (select_all ''find tag'' (\<lambda>d. find (\<lambda>t. tg_name t = name) (pd_tags d))) (\<lambda>t.
       case t of None \<Rightarrow> insert_tag name | Some t \<Rightarrow> if tg_deleted_at t \<noteq> None then restore_tag (tg_id t) else ret ()))"

definition ensure_tags :: "string list \<Rightarrow> unit products_prog" where
  "ensure_tags names = each ensure_tag names"

definition tag_list :: "tag list products_prog" where
  "tag_list = select_all ''list tags'' (\<lambda>d. sort_key tg_name (filter live_tag (pd_tags d)))"

definition tag_soft_delete :: "string \<Rightarrow> unit products_prog" where
  "tag_soft_delete n = atomically (bindp (select_all ''find tag for soft-delete'' (\<lambda>d. find (\<lambda>t. tg_name t = trim n \<and> live_tag t) (pd_tags d))) (\<lambda>t.
     case t of None \<Rightarrow> throw (Err ErrTagNotFound)
     | Some t \<Rightarrow> bindp (change ''soft-delete tag'' (\<lambda>d. d\<lparr>pd_tags := map (\<lambda>x. if tg_id x = tg_id t
           then x\<lparr>tg_deleted_at := Some (pd_clock d), tg_updated_at := pd_clock d\<rparr> else x) (pd_tags d)\<rparr>)) (\<lambda>_.
         change ''cascade delete product tags'' (pd_product_tags_update (filter (\<lambda>r. ln_value r \<noteq> tg_id t))))))"

definition sorted_correlations :: "tag_correlation list \<Rightarrow> tag_correlation list" where
  "sorted_correlations cs = sort_key (\<lambda>c. (tc_source c, tc_target c)) cs"

definition correlation_list :: "tag_correlation list products_prog" where
  "correlation_list = select_all ''list correlations'' (\<lambda>d. sorted_correlations (pd_correlations d))"

definition correlation_list_by_source :: "string \<Rightarrow> tag_correlation list products_prog" where
  "correlation_list_by_source s = select_all ''list correlations by source''
     (\<lambda>d. sorted_correlations (filter (\<lambda>c. tc_source c = trim s \<or> tc_target c = trim s) (pd_correlations d)))"

definition correlation_create :: "tag_correlation \<Rightarrow> tag_correlation products_prog" where
  "correlation_create c = pstmt ''create correlation'' (\<lambda>d. let s = trim (tc_source c); t = trim (tc_target c) in
     if (s, t) \<in> (\<lambda>x. (tc_source x, tc_target x)) ` set (pd_correlations d)
     then duplicate_key ''create correlation'' ''idx_tag_correlations_pair'' ''idx_tag_correlations_pair'' ErrDuplicateCorrelation d
     else (Inr (c\<lparr>tc_id := pd_next d, tc_created_at := pd_clock d, tc_updated_at := pd_clock d\<rparr>),
       d\<lparr>pd_next := Suc (pd_next d), pd_correlations := pd_correlations d @ [\<lparr>tc_id = pd_next d, tc_source = s, tc_target = t,
         tc_probability = tc_probability c, tc_notes = trim (tc_notes c), tc_created_at = pd_clock d, tc_updated_at = pd_clock d\<rparr>]\<rparr>))"

definition correlation_by_id :: "string \<Rightarrow> products_error \<Rightarrow> nat \<Rightarrow> tag_correlation products_prog" where
  "correlation_by_id label missing i = bindp (select_all label (\<lambda>d. find (\<lambda>c. tc_id c = i) (pd_correlations d))) (\<lambda>c.
     case c of None \<Rightarrow> throw (Err missing) | Some c \<Rightarrow> ret c)"

definition correlation_update :: "nat \<Rightarrow> float64 option \<Rightarrow> string option \<Rightarrow> tag_correlation products_prog" where
  "correlation_update i probability notes = (if probability = None \<and> notes = None
     then correlation_by_id ''get correlation'' ErrCorrelationNotFound i
     else bindp (select_all ''update correlation'' (\<lambda>d. list_ex (\<lambda>c. tc_id c = i) (pd_correlations d))) (\<lambda>found.
       if \<not> found then throw (Err ErrCorrelationNotFound)
       else bindp (modp (\<lambda>d. d\<lparr>pd_correlations := map (\<lambda>c. if tc_id c = i then c\<lparr>
             tc_probability := (case probability of None \<Rightarrow> tc_probability c | Some p \<Rightarrow> p),
             tc_notes := (case notes of None \<Rightarrow> tc_notes c | Some n \<Rightarrow> n), tc_updated_at := pd_clock d\<rparr> else c) (pd_correlations d)\<rparr>)) (\<lambda>_.
         wrap_err ''reload correlation'' (correlation_by_id ''reload correlation'' ProductsDriverError i))))"

definition correlation_delete :: "nat \<Rightarrow> unit products_prog" where
  "correlation_delete i = bindp (select_all ''delete correlation'' (\<lambda>d. list_ex (\<lambda>c. tc_id c = i) (pd_correlations d))) (\<lambda>found.
     if \<not> found then throw (Err ErrCorrelationNotFound)
     else modp (\<lambda>d. d\<lparr>pd_correlations := filter (\<lambda>c. tc_id c \<noteq> i) (pd_correlations d)\<rparr>))"

end
