(* ===== verification/Products_Categories.thy ===== *)
theory Products_Categories
  imports Products_Repository
begin

text \<open>
  The category repository (\<^verbatim>\<open>module/products/adapter/store/category\<close>): categories with their four
  relations, and the listing of a category's products over its descendants.
\<close>

section \<open>Relations of a category\<close>

text \<open>Rows of the relations with a key on the owner and the value: a repeated pair fails.\<close>

definition insert_pair :: "string \<Rightarrow> (products_db \<Rightarrow> (string, string) link list)
    \<Rightarrow> (((string, string) link list \<Rightarrow> (string, string) link list) \<Rightarrow> products_db \<Rightarrow> products_db)
    \<Rightarrow> string \<Rightarrow> nat \<times> string \<Rightarrow> unit products_prog" where
  "insert_pair label get upd owner iv = (case iv of (i, v) \<Rightarrow> if trim v = [] then ret ()
     else (\<lambda>d. if \<exists>r \<in> set (get d). ln_owner r = owner \<and> ln_value r = trim v
       then (Inl (Wrapped label (Err ProductsDriverError)), d)
       else bindp (insert_link label upd owner (i, v)) (\<lambda>_. ret ()) d))"

definition insert_ref :: "string \<Rightarrow> string \<Rightarrow> unit products_prog" where
  "insert_ref cid v = (if trim v = [] then ret ()
     else (\<lambda>d. if \<exists>r \<in> set (pd_refs d). fr_category_id r = cid \<and> fr_ref r = trim v
       then (Inl (Wrapped ''create category ref filter'' (Err ProductsDriverError)), d)
       else bindp (insert_row ''create category ref filter'' (\<lambda>k. pd_refs_update (\<lambda>t. t @
         [\<lparr>fr_id = k, fr_category_id = cid, fr_ref = trim v\<rparr>]))) (\<lambda>_. ret ()) d))"

definition replace_category_relations :: "string \<Rightarrow> category \<Rightarrow> unit products_prog" where
  "replace_category_relations cid c =
     bindp (change ''delete category filter tags'' (pd_filter_tags_update (filter (\<lambda>r. ln_owner r \<noteq> cid)))) (\<lambda>_.
     bindp (each (insert_pair ''create category filter tag'' pd_filter_tags pd_filter_tags_update cid) (enumerate 0 (cf_tags (ca_filter c)))) (\<lambda>_.
     bindp (change ''delete category price range'' (pd_price_ranges_update (filter (\<lambda>r. xr_category_id r \<noteq> cid)))) (\<lambda>_.
     bindp (case cf_price_range (ca_filter c) of None \<Rightarrow> ret ()
       | Some p \<Rightarrow> bindp (insert_row ''create category price range'' (\<lambda>k. pd_price_ranges_update (\<lambda>t. t @
           [\<lparr>xr_id = k, xr_category_id = cid, xr_min = pr_min p, xr_max = pr_max p\<rparr>]))) (\<lambda>_. ret ())) (\<lambda>_.
     bindp (change ''delete category ref filters'' (pd_refs_update (filter (\<lambda>r. fr_category_id r \<noteq> cid)))) (\<lambda>_.
     bindp (each (insert_ref cid) (cf_refs (ca_filter c))) (\<lambda>_.
     bindp (change ''delete category products'' (pd_category_products_update (filter (\<lambda>r. ln_owner r \<noteq> cid)))) (\<lambda>_.
       each (insert_pair ''create category product'' pd_category_products pd_category_products_update cid) (enumerate 0 (ca_product_ids c)))))))))"

section \<open>Categories\<close>

definition live_category :: "category_row \<Rightarrow> bool" where
  "live_category r \<longleftrightarrow> yr_deleted_at r = None"

definition category_row_of :: "category \<Rightarrow> category_row" where
  "category_row_of c = \<lparr>yr_id = ca_id c, yr_slug = ca_slug c, yr_name = ca_name c, yr_description = ca_description c,
     yr_parent_id = ca_parent_id c, yr_include_children = ca_include_children c, yr_created_at = ca_created_at c,
     yr_updated_at = ca_updated_at c, yr_deleted_at = None\<rparr>"

definition insert_category :: "category_row \<Rightarrow> unit products_prog" where
  "insert_category r = pstmt ''create category record'' (\<lambda>d.
     if yr_id r \<in> yr_id ` set (pd_categories d)
     then duplicate_key ''create category record'' ''PRIMARY'' ''slug'' PortDuplicateSlug d
     else if yr_slug r \<in> yr_slug ` set (pd_categories d)
     then duplicate_key ''create category record'' ''idx_categories_slug'' ''slug'' PortDuplicateSlug d
     else (Inr (), d\<lparr>pd_categories := pd_categories d @ [r]\<rparr>))"

definition category_create :: "category \<Rightarrow> unit products_prog" where
  "category_create c = atomically (bindp (insert_category (category_row_of c)) (\<lambda>_. replace_category_relations (ca_id c) c))"

definition load_category :: "category_row \<Rightarrow> category products_prog" where
  "load_category r = (let cid = yr_id r in
     bindp (select_all ''load category filter tags'' (\<lambda>d. link_values cid (pd_filter_tags d))) (\<lambda>tags.
     bindp (select_all ''load category price range'' (\<lambda>d. find (\<lambda>x. xr_category_id x = cid) (pd_price_ranges d))) (\<lambda>range.
     bindp (select_all ''load category ref filters'' (\<lambda>d. map fr_ref (filter (\<lambda>x. fr_category_id x = cid) (pd_refs d)))) (\<lambda>refs.
     bindp (select_all ''load category products'' (\<lambda>d. link_values cid (pd_category_products d))) (\<lambda>ids.
     ret \<lparr>ca_id = cid, ca_slug = yr_slug r, ca_name = yr_name r, ca_description = yr_description r,
       ca_parent_id = yr_parent_id r, ca_include_children = yr_include_children r,
       ca_filter = \<lparr>cf_tags = tags, cf_price_range = map_option (\<lambda>x. \<lparr>pr_min = xr_min x, pr_max = xr_max x\<rparr>) range, cf_refs = refs\<rparr>,
       ca_product_ids = ids, ca_created_at = yr_created_at r, ca_updated_at = yr_updated_at r\<rparr>)))))"

definition find_category :: "string \<Rightarrow> (category_row \<Rightarrow> bool) \<Rightarrow> category products_prog" where
  "find_category label P = bindp (select_all label (\<lambda>d. find (\<lambda>r. live_category r \<and> P r) (pd_categories d))) (\<lambda>r.
     case r of None \<Rightarrow> throw (Err PortCategoryNotFound) | Some r \<Rightarrow> load_category r)"

definition category_by_id :: "string \<Rightarrow> category products_prog" where
  "category_by_id i = find_category ''get category record'' (\<lambda>r. yr_id r = trim i)"

definition category_by_slug :: "string \<Rightarrow> category products_prog" where
  "category_by_slug s = find_category ''get category by slug'' (\<lambda>r. yr_slug r = trim s)"

definition category_tree :: "category list products_prog" where
  "category_tree = bindp (select_all ''list category tree'' (\<lambda>d. sort_key yr_created_at
     (filter (\<lambda>r. live_category r \<and> yr_parent_id r = None) (pd_categories d)))) (collect load_category)"

definition category_children :: "string \<Rightarrow> category list products_prog" where
  "category_children i = bindp (select_all ''list category children'' (\<lambda>d. sort_key yr_created_at
     (filter (\<lambda>r. live_category r \<and> yr_parent_id r = Some (trim i)) (pd_categories d)))) (collect load_category)"

definition update_category :: "category \<Rightarrow> unit products_prog" where
  "update_category c = pstmt ''update category record'' (\<lambda>d.
     let hit = (\<lambda>r. live_category r \<and> yr_id r = ca_id c) in
     if \<not> list_ex hit (pd_categories d) then (Inl (Err PortCategoryNotFound), d)
     else if \<exists>r \<in> set (pd_categories d). yr_slug r = ca_slug c \<and> \<not> hit r
     then duplicate_key ''update category record'' ''idx_categories_slug'' ''slug'' PortDuplicateSlug d
     else (Inr (), d\<lparr>pd_categories := map (\<lambda>r. if hit r then r\<lparr>yr_slug := ca_slug c, yr_name := ca_name c,
       yr_description := ca_description c, yr_parent_id := ca_parent_id c, yr_include_children := ca_include_children c,
       yr_updated_at := ca_updated_at c\<rparr> else r) (pd_categories d)\<rparr>))"

definition category_update :: "category \<Rightarrow> unit products_prog" where
  "category_update c = atomically (bindp (update_category c) (\<lambda>_. replace_category_relations (ca_id c) c))"

definition category_delete :: "string \<Rightarrow> unit products_prog" where
  "category_delete i = (let cid = trim i; hit = (\<lambda>r. live_category r \<and> yr_id r = cid) in
     bindp (select_all ''count category children'' (\<lambda>d. length (filter (\<lambda>r. live_category r \<and> yr_parent_id r = Some cid) (pd_categories d)))) (\<lambda>n.
     if n > 0 then throw (Err PortHasChildren)
     else bindp (select_all ''delete category record'' (\<lambda>d. list_ex hit (pd_categories d))) (\<lambda>found.
       if \<not> found then throw (Err PortCategoryNotFound)
       else modp (\<lambda>d. d\<lparr>pd_categories := map (\<lambda>r. if hit r then r\<lparr>yr_deleted_at := Some (pd_clock d)\<rparr> else r) (pd_categories d)\<rparr>))))"

section \<open>Products of a category\<close>

text \<open>The children query of \<^verbatim>\<open>collectDescendants\<close> and its loop over the queue. The loop has no bound in the
  code: \<open>None\<close> means that it does not end.\<close>

definition child_ids :: "products_db \<Rightarrow> string \<Rightarrow> string list" where
  "child_ids d i = map yr_id (sort_key (\<lambda>r. (yr_created_at r, yr_id r))
     (filter (\<lambda>r. live_category r \<and> yr_parent_id r = Some i) (pd_categories d)))"

partial_function (option) descend :: "(string \<Rightarrow> string list) \<Rightarrow> string list \<Rightarrow> string list \<Rightarrow> string list option" where
  "descend children queue result = (case queue of [] \<Rightarrow> Some result
     | current # rest \<Rightarrow> descend children (rest @ children current) (result @ children current))"

definition collect_descendants :: "string \<Rightarrow> string list option products_prog" where
  "collect_descendants i = select_all ''collect descendant categories'' (\<lambda>d. descend (child_ids d) [i] [])"

text \<open>The map \<^verbatim>\<open>seenIDs\<close> always holds exactly the identifiers of the ordered list.\<close>

fun append_unique :: "string list \<Rightarrow> string list \<Rightarrow> string list" where
  "append_unique ordered [] = ordered"
| "append_unique ordered (i # ids) = (let t = trim i in
     if t = [] \<or> t \<in> set ordered then append_unique ordered ids else append_unique (ordered @ [t]) ids)"

definition priced_ids :: "(product_row \<Rightarrow> bool) \<Rightarrow> price_range option \<Rightarrow> products_db \<Rightarrow> string list" where
  "priced_ids P bounds d = map pw_id (sort_key (\<lambda>r. (pw_created_at r, pw_id r)) (filter (\<lambda>r. live_product r \<and> P r
     \<and> (case bounds of None \<Rightarrow> True | Some x \<Rightarrow> in_price (pr_min x) (pr_max x) r)) (pd_products d)))"

fun append_refs :: "string list \<Rightarrow> string list \<Rightarrow> string list products_prog" where
  "append_refs [] ordered = ret ordered"
| "append_refs (c # cs) ordered = bindp (select_all ''load ref category products'' (\<lambda>d. map ln_value
     (sort_key (\<lambda>r. (ln_position r, ln_id r)) (filter (\<lambda>r. ln_owner r = c) (pd_category_products d))))) (\<lambda>ids.
     append_refs cs (append_unique ordered ids))"

definition collect_scoped :: "category \<Rightarrow> string list \<Rightarrow> string list products_prog" where
  "collect_scoped c ordered = (let o1 = append_unique ordered (ca_product_ids c); f = ca_filter c in
     bindp (if cf_tags f \<noteq> [] then
         bindp (select_all ''filter products by tags'' (tagged (cf_tags f))) (\<lambda>ids.
         bindp (select_all ''apply price filter on tag results'' (priced_ids (\<lambda>r. pw_id r \<in> ids) (cf_price_range f))) (\<lambda>found.
           ret (append_unique o1 found)))
       else case cf_price_range f of None \<Rightarrow> ret o1
         | Some x \<Rightarrow> bindp (select_all ''filter products by price'' (priced_ids (\<lambda>_. True) (Some x))) (\<lambda>found.
             ret (append_unique o1 found))) (\<lambda>o2.
     append_refs (cf_refs f) o2))"

fun collect_all_scoped :: "category list \<Rightarrow> string list \<Rightarrow> string list products_prog" where
  "collect_all_scoped [] ordered = ret ordered"
| "collect_all_scoped (c # cs) ordered = bindp (collect_scoped c ordered) (collect_all_scoped cs)"

definition has_source :: "category \<Rightarrow> bool" where
  "has_source c \<longleftrightarrow> cf_tags (ca_filter c) \<noteq> [] \<or> cf_price_range (ca_filter c) \<noteq> None \<or> cf_refs (ca_filter c) \<noteq> []
     \<or> ca_product_ids c \<noteq> []"

record products_page =
  pp_items :: "catalog_product list"
  pp_total :: int
  pp_page :: int
  pp_page_size :: int

text \<open>The window of the ordered identifiers: \<open>Inl ()\<close> when the bounds of the slice expression are out of
  range, which is a panic.\<close>

definition page_window :: "string list \<Rightarrow> int \<Rightarrow> int \<Rightarrow> unit + string list" where
  "page_window ids offset per = (let n = int (length ids); end = int64 (offset + per) in
     if offset \<ge> n then Inr []
     else if offset > 0 \<or> end < n then
       (let e = min end n in if offset < 0 \<or> e < offset then Inl () else Inr (take (nat (e - offset)) (drop (nat offset) ids)))
     else Inr ids)"

record products_query =
  pq_category_id :: string
  pq_page :: int
  pq_page_size :: int

text \<open>\<open>None\<close>: the call does not return.\<close>

definition category_products :: "(string \<Rightarrow> json option) \<Rightarrow> products_query \<Rightarrow> products_page option products_prog" where
  "category_products dec q = (let page = normal_page (pq_page q); per = normal_page_size (pq_page_size q);
       answer = (\<lambda>items total. Some \<lparr>pp_items = items, pp_total = total, pp_page = page, pp_page_size = per\<rparr>) in
     bindp (category_by_id (pq_category_id q)) (\<lambda>c.
     bindp (if ca_include_children c then collect_descendants (ca_id c) else ret (Some [])) (\<lambda>below.
     case below of None \<Rightarrow> ret None | Some ids \<Rightarrow>
     bindp (collect (\<lambda>i. wrap_err ''load descendant category'' (category_by_id i)) ids) (\<lambda>cs.
     if \<not> list_ex has_source (c # cs) then ret (answer [] 0)
     else bindp (collect_all_scoped (c # cs) []) (\<lambda>ordered.
     if ordered = [] then ret (answer [] 0)
     else case page_window ordered (int64 ((page - 1) * per)) per of
       Inl _ \<Rightarrow> throw (Err SliceBoundsPanic)
     | Inr window \<Rightarrow> if int64 ((page - 1) * per) \<ge> int (length ordered) then ret (answer [] (int (length ordered)))
         else bindp (wrap_err ''load category product entities'' (products_by_ids dec window)) (\<lambda>items.
           ret (answer items (int (length ordered)))))))))"

end
