(* ===== verification/Products_Services.thy ===== *)
theory Products_Services
  imports Products_Categories Go_Assertions
begin

text \<open>
  The use cases of \<^verbatim>\<open>module/products/application/{product,variation,tag,category}\<close> over the repositories.

  The world holds the tables, the lookup of assets (\<open>None\<close>: the lookup fails), the order in which the
  concurrent lookups finish, whether a tag registrar and a refresher of the storefront are configured,
  and how often a refresh was requested. The clock stands still during a call.
\<close>

record catalog_world =
  kw_db :: products_db
  kw_asset :: "string \<Rightarrow> bool option"
  kw_order :: "string list \<Rightarrow> string list"
  kw_registrar :: bool
  kw_refresher :: bool
  kw_refreshes :: nat

type_synonym 'a catalog_prog = "(catalog_world, products_error, 'a) prog"

definition put_catalog :: "products_db \<Rightarrow> catalog_world \<Rightarrow> catalog_world" where
  "put_catalog d w = w\<lparr>kw_db := d\<rparr>"

abbreviation on_db :: "'a products_prog \<Rightarrow> 'a catalog_prog" where
  "on_db \<equiv> through kw_db put_catalog"

definition trigger_refresh :: "unit catalog_prog" where
  "trigger_refresh = modp (\<lambda>w. if kw_refresher w then w\<lparr>kw_refreshes := Suc (kw_refreshes w)\<rparr> else w)"

section \<open>Products\<close>

fun unique_assets :: "gallery_item list \<Rightarrow> string list \<Rightarrow> string list" where
  "unique_assets [] acc = acc"
| "unique_assets (g # gs) acc = (let a = trim (gi_asset_id g) in
     if a = [] \<or> a \<in> set acc then unique_assets gs acc else unique_assets gs (acc @ [a]))"

text \<open>The first lookup that finishes without success decides the error of the group.\<close>

definition asset_error :: "(string \<Rightarrow> bool option) \<Rightarrow> string \<Rightarrow> products_error go_error option" where
  "asset_error lookup a = (case lookup a of None \<Rightarrow> Some (Wrapped (''check product gallery asset '' @ a) (Err ProductsDriverError))
     | Some True \<Rightarrow> None | Some False \<Rightarrow> Some (Wrapped a (Err ErrAssetNotFound)))"

definition validate_assets :: "gallery_item list \<Rightarrow> unit catalog_prog" where
  "validate_assets gs = bindp (getp (\<lambda>w. List.map_filter (asset_error (kw_asset w)) (kw_order w (unique_assets gs [])))) (\<lambda>errors.
     case errors of [] \<Rightarrow> ret () | e # _ \<Rightarrow> throw e)"

definition register_tags :: "string list \<Rightarrow> unit catalog_prog" where
  "register_tags tags = bindp (getp kw_registrar) (\<lambda>configured.
     if configured \<and> tags \<noteq> [] then wrap_err ''ensure product tags'' (on_db (ensure_tags tags)) else ret ())"

record product_command =
  qc_sku :: string
  qc_price :: "float64 option"
  qc_tags :: "string list"
  qc_gallery :: "gallery_item list"
  qc_datasheets :: "datasheet list"
  qc_variations :: "string list"
  qc_variants :: "variant list"

definition create_product :: "(json \<Rightarrow> string option) \<Rightarrow> (string \<Rightarrow> json option) \<Rightarrow> product_command \<Rightarrow> catalog_product catalog_prog" where
  "create_product enc dec c = (let p = product_normalize \<lparr>pt_id = [], pt_sku = trim (qc_sku c), pt_price = qc_price c,
       pt_tags = qc_tags c, pt_gallery = qc_gallery c, pt_datasheets = qc_datasheets c, pt_variations = qc_variations c,
       pt_variants = qc_variants c, pt_created_at = 0, pt_updated_at = 0, pt_deleted_at = None\<rparr> in
     bindp (guard_err (product_validate p)) (\<lambda>_. bindp (validate_assets (pt_gallery p)) (\<lambda>_. bindp (register_tags (pt_tags p)) (\<lambda>_.
     bindp (wrap_err ''create product'' (on_db (product_create enc dec p))) (\<lambda>saved. bindp trigger_refresh (\<lambda>_. ret saved))))))"

definition get_product :: "(string \<Rightarrow> json option) \<Rightarrow> string \<Rightarrow> catalog_product catalog_prog" where
  "get_product dec i = (if trim i = [] then throw (Err ErrInvalidProductID)
     else wrap_err ''get product'' (on_db (product_by_id dec (trim i))))"

definition get_product_by_sku :: "(string \<Rightarrow> json option) \<Rightarrow> string \<Rightarrow> catalog_product catalog_prog" where
  "get_product_by_sku dec s = (if trim s = [] then throw (Err ErrInvalidSKU)
     else wrap_err ''get product by sku'' (on_db (product_by_sku dec (trim s))))"

definition list_products :: "(string \<Rightarrow> json option) \<Rightarrow> catalog_product list catalog_prog" where
  "list_products dec = wrap_err ''list products'' (on_db (product_list dec))"

definition list_products_by_tags :: "(string \<Rightarrow> json option) \<Rightarrow> string list \<Rightarrow> int \<Rightarrow> int \<Rightarrow> (catalog_product list \<times> int) catalog_prog" where
  "list_products_by_tags dec tags page per = wrap_err ''list products by tags'' (on_db (products_by_tags_and_price dec tags None None page per))"

text \<open>The flags \<^verbatim>\<open>HasPrice\<close>, \<^verbatim>\<open>HasTags\<close> and so on say which fields the payload has: \<open>None\<close> is an absent field.\<close>

record product_update_command =
  qu_sku :: "string option"
  qu_price :: "float64 option option"
  qu_tags :: "string list option"
  qu_gallery :: "gallery_item list option"
  qu_datasheets :: "datasheet list option"
  qu_variations :: "string list option"
  qu_variants :: "variant list option"

definition given :: "'a option \<Rightarrow> 'a \<Rightarrow> 'a" where
  "given v old = (case v of None \<Rightarrow> old | Some x \<Rightarrow> x)"

definition patched_product :: "product_update_command \<Rightarrow> catalog_product \<Rightarrow> catalog_product" where
  "patched_product c p = product_normalize (p\<lparr>pt_sku := given (map_option trim (qu_sku c)) (pt_sku p), pt_price := given (qu_price c) (pt_price p),
     pt_tags := given (qu_tags c) (pt_tags p), pt_gallery := given (qu_gallery c) (pt_gallery p),
     pt_datasheets := given (map_option (merge_datasheets (pt_datasheets p)) (qu_datasheets c)) (pt_datasheets p),
     pt_variations := given (qu_variations c) (pt_variations p), pt_variants := given (qu_variants c) (pt_variants p)\<rparr>)"

definition update_product_service :: "(json \<Rightarrow> string option) \<Rightarrow> (string \<Rightarrow> json option) \<Rightarrow> string \<Rightarrow> product_update_command \<Rightarrow> catalog_product catalog_prog" where
  "update_product_service enc dec i c = (if trim i = [] then throw (Err ErrInvalidProductID)
     else bindp (wrap_err ''load product for update'' (on_db (product_by_id dec (trim i)))) (\<lambda>old. let p = patched_product c old in
     bindp (guard_err (product_validate p)) (\<lambda>_. bindp (validate_assets (pt_gallery p)) (\<lambda>_. bindp (register_tags (pt_tags p)) (\<lambda>_.
     bindp (wrap_err ''update product'' (on_db (product_update enc dec p))) (\<lambda>saved. bindp trigger_refresh (\<lambda>_. ret saved)))))))"

definition delete_product :: "string \<Rightarrow> unit catalog_prog" where
  "delete_product i = (if trim i = [] then throw (Err ErrInvalidProductID)
     else bindp (wrap_err ''delete product'' (on_db (product_delete (trim i)))) (\<lambda>_. trigger_refresh))"

section \<open>Variations\<close>

record variation_command =
  vc_name :: string
  vc_definition :: string
  vc_value :: string

definition create_variation :: "variation_command \<Rightarrow> variation catalog_prog" where
  "create_variation c = (let v = variation_normalize \<lparr>vr_id = [], vr_name = trim (vc_name c), vr_definition = vc_definition c,
       vr_value = trim (vc_value c), vr_created_at = 0, vr_updated_at = 0, vr_deleted_at = None\<rparr> in
     bindp (guard_err (variation_validate v)) (\<lambda>_. wrap_err ''create variation'' (on_db (variation_create v))))"

definition get_variation :: "string \<Rightarrow> variation catalog_prog" where
  "get_variation i = (if trim i = [] then throw (Err ErrInvalidVariationID)
     else wrap_err ''get variation'' (on_db (variation_by_id (trim i))))"

definition list_variations :: "variation list catalog_prog" where
  "list_variations = wrap_err ''list variations'' (on_db variation_list)"

text \<open>The definition in the command is never looked at.\<close>

record variation_update_command =
  vu_name :: "string option"
  vu_definition :: "string option"
  vu_value :: "string option"

definition update_variation :: "string \<Rightarrow> variation_update_command \<Rightarrow> variation catalog_prog" where
  "update_variation i c = (if trim i = [] then throw (Err ErrInvalidVariationID)
     else bindp (wrap_err ''load variation for update'' (on_db (variation_by_id (trim i)))) (\<lambda>old.
     let v = variation_normalize (old\<lparr>vr_name := given (map_option trim (vu_name c)) (vr_name old),
       vr_value := given (map_option trim (vu_value c)) (vr_value old)\<rparr>) in
     bindp (guard_err (variation_validate v)) (\<lambda>_. wrap_err ''update variation'' (on_db (variation_update v)))))"

definition delete_variation :: "string \<Rightarrow> unit catalog_prog" where
  "delete_variation i = (if trim i = [] then throw (Err ErrInvalidVariationID)
     else wrap_err ''delete variation'' (on_db (variation_delete (trim i))))"

section \<open>Tags\<close>

definition ensure_all :: "string list \<Rightarrow> unit catalog_prog" where
  "ensure_all names = wrap_err ''ensure tags'' (on_db (ensure_tags names))"

definition list_tags :: "tag list catalog_prog" where
  "list_tags = wrap_err ''list tags'' (on_db tag_list)"

definition delete_tag :: "string \<Rightarrow> unit catalog_prog" where
  "delete_tag n = (if trim n = [] then throw (Err ErrInvalidTagName)
     else wrap_err ''delete tag'' (on_db (tag_soft_delete (trim n))))"

definition list_correlations :: "tag_correlation list catalog_prog" where
  "list_correlations = wrap_err ''list correlations'' (on_db correlation_list)"

definition list_correlations_by_source :: "string \<Rightarrow> tag_correlation list catalog_prog" where
  "list_correlations_by_source s = (if trim s = [] then throw (Err ErrInvalidSourceTag)
     else wrap_err ''list correlations by source'' (on_db (correlation_list_by_source (trim s))))"

record correlation_command =
  oc_source :: string
  oc_target :: string
  oc_probability :: float64
  oc_notes :: string

definition create_correlation :: "correlation_command \<Rightarrow> tag_correlation catalog_prog" where
  "create_correlation c = (let s = trim (oc_source c); t = trim (oc_target c) in
     if s = [] then throw (Err ErrInvalidSourceTag)
     else if t = [] then throw (Err ErrInvalidTargetTag)
     else if s = t then throw (Err ErrSelfCorrelation)
     else if oc_probability c < 0 \<or> oc_probability c > 100 then throw (Err ErrProbabilityRange)
     else let (s, t) = (if s > t then (t, s) else (s, t)) in
       wrap_err ''create correlation'' (on_db (correlation_create \<lparr>tc_id = 0, tc_source = s, tc_target = t,
         tc_probability = oc_probability c, tc_notes = trim (oc_notes c), tc_created_at = 0, tc_updated_at = 0\<rparr>)))"

record correlation_update_command =
  ou_probability :: "float64 option"
  ou_notes :: "string option"
  ou_has_probability :: bool
  ou_has_notes :: bool

definition update_correlation :: "nat \<Rightarrow> correlation_update_command \<Rightarrow> tag_correlation catalog_prog" where
  "update_correlation i c = (if ou_has_probability c \<and> (case ou_probability c of None \<Rightarrow> True | Some p \<Rightarrow> p < 0 \<or> p > 100)
     then throw (Err ErrProbabilityRange)
     else wrap_err ''update correlation'' (on_db (correlation_update i
       (if ou_has_probability c then ou_probability c else None) (if ou_has_notes c then ou_notes c else None))))"

definition delete_correlation :: "nat \<Rightarrow> unit catalog_prog" where
  "delete_correlation i = wrap_err ''delete correlation'' (on_db (correlation_delete i))"

section \<open>Categories\<close>

text \<open>\<^verbatim>\<open>mapPortError\<close>: the text around a known error is dropped.\<close>

definition map_port_error :: "products_error go_error \<Rightarrow> products_error go_error" where
  "map_port_error e = (if errors_is e PortCategoryNotFound then Err ErrCategoryNotFound
     else if errors_is e PortDuplicateSlug then Err ErrDuplicateSlug
     else if errors_is e PortHasChildren then Err ErrHasChildren else e)"

definition mapped_errors :: "'a catalog_prog \<Rightarrow> 'a catalog_prog" where
  "mapped_errors m = bindp (tryp m) (\<lambda>r. case r of Inl e \<Rightarrow> throw (map_port_error e) | Inr x \<Rightarrow> ret x)"

record category_command =
  kc_slug :: string
  kc_name :: string
  kc_description :: string
  kc_parent_id :: "string option"
  kc_include_children :: bool
  kc_filter_tags :: "string list"
  kc_min_price :: "float64 option"
  kc_max_price :: "float64 option"
  kc_refs :: "string list"
  kc_product_ids :: "string list"

definition range_of :: "float64 option \<Rightarrow> float64 option \<Rightarrow> price_range option" where
  "range_of low high = (if low = None \<and> high = None then None else Some \<lparr>pr_min = low, pr_max = high\<rparr>)"

definition create_category :: "category_command \<Rightarrow> category catalog_prog" where
  "create_category c = bindp (on_db draw_id) (\<lambda>i. bindp (getp (\<lambda>w. pd_clock (kw_db w))) (\<lambda>now.
     let k = category_normalize \<lparr>ca_id = i, ca_slug = trim (kc_slug c), ca_name = trim (kc_name c), ca_description = trim (kc_description c),
       ca_parent_id = kc_parent_id c, ca_include_children = kc_include_children c,
       ca_filter = \<lparr>cf_tags = kc_filter_tags c, cf_price_range = range_of (kc_min_price c) (kc_max_price c), cf_refs = kc_refs c\<rparr>,
       ca_product_ids = kc_product_ids c, ca_created_at = now, ca_updated_at = now\<rparr> in
     bindp (guard_err (category_validate k)) (\<lambda>_. bindp (mapped_errors (on_db (category_create k))) (\<lambda>_.
     bindp trigger_refresh (\<lambda>_. ret k)))))"

definition get_category :: "string \<Rightarrow> category catalog_prog" where
  "get_category i = (if trim i = [] then throw (Err ErrInvalidCategoryID) else mapped_errors (on_db (category_by_id (trim i))))"

definition get_category_by_slug :: "string \<Rightarrow> category catalog_prog" where
  "get_category_by_slug s = (if trim s = [] then throw (Err ErrSlugRequired) else mapped_errors (on_db (category_by_slug (trim s))))"

definition root_categories :: "category list catalog_prog" where
  "root_categories = wrap_err ''list category tree'' (on_db category_tree)"

definition children_categories :: "string \<Rightarrow> category list catalog_prog" where
  "children_categories i = (if trim i = [] then throw (Err ErrInvalidCategoryID)
     else wrap_err ''list category children'' (on_db (category_children (trim i))))"

record category_update_command =
  ku_slug :: "string option"
  ku_name :: "string option"
  ku_description :: "string option"
  ku_parent_id :: "string option option"
  ku_include_children :: "bool option"
  ku_filter_tags :: "string list option"
  ku_price_range :: "(float64 option \<times> float64 option) option"
  ku_refs :: "string list option"
  ku_product_ids :: "string list option"

definition patched_category :: "gotime \<Rightarrow> category_update_command \<Rightarrow> category \<Rightarrow> category" where
  "patched_category now c k = category_normalize (k\<lparr>ca_slug := given (map_option trim (ku_slug c)) (ca_slug k),
     ca_name := given (map_option trim (ku_name c)) (ca_name k),
     ca_description := given (map_option trim (ku_description c)) (ca_description k),
     ca_parent_id := given (ku_parent_id c) (ca_parent_id k),
     ca_include_children := given (ku_include_children c) (ca_include_children k),
     ca_filter := \<lparr>cf_tags = given (ku_filter_tags c) (cf_tags (ca_filter k)),
       cf_price_range = given (map_option (\<lambda>(low, high). range_of low high) (ku_price_range c)) (cf_price_range (ca_filter k)),
       cf_refs = given (ku_refs c) (cf_refs (ca_filter k))\<rparr>,
     ca_product_ids := given (ku_product_ids c) (ca_product_ids k), ca_updated_at := now\<rparr>)"

definition update_category_service :: "string \<Rightarrow> category_update_command \<Rightarrow> category catalog_prog" where
  "update_category_service i c = (if trim i = [] then throw (Err ErrInvalidCategoryID)
     else bindp (mapped_errors (on_db (category_by_id (trim i)))) (\<lambda>old. bindp (getp (\<lambda>w. pd_clock (kw_db w))) (\<lambda>now.
     let k = patched_category now c old in
     bindp (guard_err (category_validate k)) (\<lambda>_. bindp (mapped_errors (on_db (category_update k))) (\<lambda>_.
     bindp trigger_refresh (\<lambda>_. ret k))))))"

definition delete_category :: "string \<Rightarrow> unit catalog_prog" where
  "delete_category i = (if trim i = [] then throw (Err ErrInvalidCategoryID)
     else bindp (mapped_errors (on_db (category_delete (trim i)))) (\<lambda>_. trigger_refresh))"

definition list_category_products :: "(string \<Rightarrow> json option) \<Rightarrow> products_query \<Rightarrow> products_page option catalog_prog" where
  "list_category_products dec q = (if trim (pq_category_id q) = [] then throw (Err ErrInvalidCategoryID)
     else mapped_errors (on_db (category_products dec (q\<lparr>pq_category_id := trim (pq_category_id q)\<rparr>))))"

end
