(* ===== verification/Products_Safety.thy ===== *)
theory Products_Safety
  imports Products_Services
begin

text \<open>
  What no sequence of calls of the products module breaks: the keys of the tables, the link between
  products and live tags, and the form of tag correlations.
\<close>

definition correlation_ok :: "tag_correlation \<Rightarrow> bool" where
  "correlation_ok c \<longleftrightarrow> tc_source c < tc_target c \<and> tc_source c \<noteq> [] \<and> 0 \<le> tc_probability c \<and> tc_probability c \<le> 100"

definition tags_ok :: "products_db \<Rightarrow> bool" where
  "tags_ok d \<longleftrightarrow> 0 < pd_next d \<and> distinct (map tg_id (pd_tags d)) \<and> distinct (map tg_name (pd_tags d))
     \<and> (\<forall>t \<in> set (pd_tags d). tg_id t < pd_next d)
     \<and> distinct (map (\<lambda>r. (ln_owner r, ln_value r)) (pd_product_tags d))
     \<and> (\<forall>r \<in> set (pd_product_tags d). \<exists>t \<in> set (pd_tags d). tg_id t = ln_value r \<and> live_tag t)"

definition correlations_ok :: "products_db \<Rightarrow> bool" where
  "correlations_ok d \<longleftrightarrow> distinct (map (\<lambda>c. (tc_source c, tc_target c)) (pd_correlations d))
     \<and> (\<forall>c \<in> set (pd_correlations d). correlation_ok c)"

definition keys_ok :: "products_db \<Rightarrow> bool" where
  "keys_ok d \<longleftrightarrow> distinct (map pw_id (pd_products d)) \<and> distinct (map pw_sku (pd_products d))
     \<and> distinct (map yr_id (pd_categories d)) \<and> distinct (map yr_slug (pd_categories d))
     \<and> distinct (map vr_id (pd_variations d))"

definition catalog_ok :: "products_db \<Rightarrow> bool" where
  "catalog_ok d \<longleftrightarrow> tags_ok d \<and> correlations_ok d \<and> keys_ok d"

section \<open>Statements\<close>

named_theorems catalog_intros "operations that keep a predicate of the tables"

lemma preserves_pstmt [catalog_intros]: "preserves I m \<Longrightarrow> preserves I (pstmt l m)"
  by (auto simp: preserves_def pstmt_def)

lemma preserves_select_all [catalog_intros]: "preserves I (select_all l f)"
  unfolding select_all_def by (intro preserves_intros catalog_intros)

lemma preserves_change: "(\<And>d. I d \<Longrightarrow> I (f d)) \<Longrightarrow> preserves I (change l f)"
  unfolding change_def by (intro catalog_intros preserves_modp)

lemma preserves_insert_row: "(\<And>d. I d \<Longrightarrow> I (put (pd_next d) (d\<lparr>pd_next := Suc (pd_next d)\<rparr>))) \<Longrightarrow> preserves I (insert_row l put)"
  by (auto simp: insert_row_def preserves_def pstmt_def)

lemma preserves_each [catalog_intros]: "(\<And>x. preserves I (f x)) \<Longrightarrow> preserves I (each f xs)"
  by (induction xs) (auto intro: preserves_intros)

lemma preserves_collect [catalog_intros]: "(\<And>x. preserves I (f x)) \<Longrightarrow> preserves I (collect f xs)"
  by (induction xs) (auto intro!: preserves_intros)

lemma readonly_each: "(\<And>x. readonly (f x)) \<Longrightarrow> readonly (each f xs)"
  by (induction xs) auto

lemma readonly_collect: "(\<And>x. readonly (f x)) \<Longrightarrow> readonly (collect f xs)"
  by (induction xs) auto

lemma readonly_select_all [simp, intro]: "readonly (select_all l f)"
  by (simp add: readonly_def select_all_def pstmt_def prog_simps)

lemma readonly_case_option: "readonly m \<Longrightarrow> (\<And>x. readonly (n x)) \<Longrightarrow> readonly (case c of None \<Rightarrow> m | Some x \<Rightarrow> n x)"
  by (cases c) simp_all

lemma readonly_case_sum: "(\<And>x. readonly (m x)) \<Longrightarrow> (\<And>x. readonly (n x)) \<Longrightarrow> readonly (case c of Inl x \<Rightarrow> m x | Inr x \<Rightarrow> n x)"
  by (cases c) simp_all

lemmas readonly_rules = readonly_each readonly_collect readonly_select_all readonly_case_option readonly_case_sum
  readonly_bindp readonly_wrap_err readonly_basic readonly_if

section \<open>Reads\<close>

lemma readonly_load_product: "readonly (load_product dec r)"
  unfolding load_product_def Let_def load_gallery_item_def load_datasheet_def load_variant_def by (intro readonly_rules)

lemma readonly_product_by_id: "readonly (product_by_id dec i)"
  unfolding product_by_id_def by (intro readonly_rules readonly_load_product)

lemma readonly_products_by_ids: "readonly (products_by_ids dec is)"
  unfolding products_by_ids_def by (intro readonly_rules readonly_load_product)

lemma readonly_load_category: "readonly (load_category r)"
  unfolding load_category_def Let_def by (intro readonly_rules)

lemma readonly_category_by_id: "readonly (category_by_id i)"
  unfolding category_by_id_def find_category_def by (intro readonly_rules readonly_load_category)

lemma readonly_append_refs: "readonly (append_refs cs o1)"
  by (induction cs o1 rule: append_refs.induct) auto

lemma readonly_collect_all: "readonly (collect_all_scoped cs o1)"
proof (induction cs arbitrary: o1)
  case (Cons c cs)
  show ?case unfolding collect_all_scoped.simps collect_scoped_def Let_def
    by (intro readonly_rules readonly_append_refs Cons)
qed simp

lemma readonly_category_products: "readonly (category_products dec q)"
  unfolding category_products_def Let_def collect_descendants_def
  by (intro readonly_rules readonly_category_by_id readonly_collect_all readonly_products_by_ids)

section \<open>Writes\<close>

text \<open>Writes of the other tables.\<close>

lemma catalog_ok_next [simp]: "catalog_ok d \<Longrightarrow> catalog_ok (d\<lparr>pd_next := Suc (pd_next d)\<rparr>)"
  by (auto simp: catalog_ok_def tags_ok_def correlations_ok_def keys_ok_def less_Suc_eq)

lemma catalog_ok_other [simp]:
  "catalog_ok (pd_gallery_update f1 d) = catalog_ok d" "catalog_ok (pd_realms_update f2 d) = catalog_ok d"
  "catalog_ok (pd_gallery_variations_update f3 d) = catalog_ok d" "catalog_ok (pd_datasheets_update f4 d) = catalog_ok d"
  "catalog_ok (pd_attributes_update f5 d) = catalog_ok d" "catalog_ok (pd_links_update f6 d) = catalog_ok d"
  "catalog_ok (pd_variants_update f7 d) = catalog_ok d" "catalog_ok (pd_variant_variations_update f8 d) = catalog_ok d"
  "catalog_ok (pd_filter_tags_update f9 d) = catalog_ok d" "catalog_ok (pd_price_ranges_update f10 d) = catalog_ok d"
  "catalog_ok (pd_refs_update f11 d) = catalog_ok d" "catalog_ok (pd_category_products_update f12 d) = catalog_ok d"
  "catalog_ok (pd_drawn_update f13 d) = catalog_ok d"
  by (simp_all add: catalog_ok_def tags_ok_def correlations_ok_def keys_ok_def)

lemmas catalog_writes = preserves_intros catalog_intros preserves_change preserves_insert_row preserves_modp preserves_drawp

lemma preserves_insert_links: "(\<And>f d. catalog_ok (upd f d) = catalog_ok d) \<Longrightarrow> preserves catalog_ok (insert_links l upd owner vs)"
  unfolding insert_links_def insert_link_def by (intro catalog_writes) (auto split: prod.split intro!: preserves_insert_row)

lemma preserves_clear_relations: "preserves catalog_ok (clear_relations pid)"
  unfolding clear_relations_def clear_gallery_def clear_datasheets_def clear_variants_def Let_def
  by (intro catalog_writes) simp_all

lemma preserves_create_gallery: "preserves catalog_ok (create_gallery pid gs)"
  unfolding create_gallery_def create_gallery_item_def
  by (intro catalog_writes) (auto split: prod.split intro!: preserves_bindp preserves_insert_row preserves_insert_links)

lemma preserves_create_datasheets: "preserves catalog_ok (create_datasheets enc pid ss)"
  unfolding create_datasheets_def create_datasheet_def create_attribute_def
  by (intro catalog_writes)
    (auto split: prod.split option.split intro!: preserves_bindp preserves_insert_row preserves_each preserves_ret preserves_throw)

lemma preserves_create_variants: "preserves catalog_ok (create_variants pid vs)"
  unfolding create_variants_def create_variant_def insert_link_def
  by (intro catalog_writes) (auto split: prod.split intro!: preserves_bindp preserves_insert_row preserves_insert_links)

lemma preserves_create_variation_links: "preserves catalog_ok (create_variation_links pid vs)"
  unfolding create_variation_links_def by (intro preserves_insert_links) simp

lemma live_tag_id_live: "live_tag_id n d \<noteq> 0 \<Longrightarrow> \<exists>t \<in> set (pd_tags d). tg_id t = live_tag_id n d \<and> live_tag t"
  by (auto simp: live_tag_id_def live_tag_def split: option.splits dest!: find_Some_iff[THEN iffD1])

lemma preserves_create_product_tag: "preserves catalog_ok (create_product_tag pid it)"
proof (cases it)
  case (Pair i name)
  have "catalog_ok (snd (insert_product_tag pid i (live_tag_id t d) d))" if "catalog_ok d" "live_tag_id t d \<noteq> 0" for t d
    using that live_tag_id_live[OF that(2)]
    by (fastforce simp: insert_product_tag_def insert_row_def pstmt_def catalog_ok_def tags_ok_def correlations_ok_def keys_ok_def less_Suc_eq)
  then show ?thesis unfolding create_product_tag_def Pair Let_def
    by (auto simp: preserves_def prog_simps select_all_def pstmt_def split: prod.split sum.split) (metis snd_conv)+
qed

lemma preserves_replace_product_tags: "preserves catalog_ok (replace_product_tags pid tags)"
  unfolding replace_product_tags_def Let_def
  by (intro catalog_writes preserves_create_product_tag)
    (auto simp: catalog_ok_def tags_ok_def correlations_ok_def keys_ok_def intro: distinct_map_filter)

lemma preserves_replace_relations: "preserves catalog_ok (replace_relations enc pid p)"
  unfolding replace_relations_def
  by (intro preserves_intros preserves_clear_relations preserves_create_gallery preserves_create_datasheets
      preserves_create_variation_links preserves_create_variants preserves_replace_product_tags)

section \<open>Repositories\<close>

lemma preserves_duplicate_key [catalog_intros]: "preserves I (duplicate_key l i k e)"
  by (simp add: preserves_def duplicate_key_def)

lemma preserves_insert_product: "preserves catalog_ok (insert_product r)"
  unfolding insert_product_def
  by (intro preserves_pstmt preservesI)
    (auto simp: duplicate_key_def catalog_ok_def tags_ok_def correlations_ok_def keys_ok_def)

lemma preserves_draw_id: "preserves catalog_ok draw_id"
  unfolding draw_id_def by (intro catalog_writes) simp

lemmas preserves_reads = readonly_preserves[OF readonly_product_by_id] readonly_preserves[OF readonly_category_by_id]
  readonly_preserves[OF readonly_category_products] readonly_preserves[OF readonly_load_product]

lemma preserves_product_create: "preserves catalog_ok (product_create enc dec p)"
  unfolding product_create_def
  by (intro preserves_intros preserves_draw_id preserves_insert_product preserves_replace_relations preserves_reads)

lemma distinct_map_update:
  assumes "distinct (map f xs)" "\<And>x. x \<in> set xs \<Longrightarrow> P x \<Longrightarrow> f (g x) = k"
    and "\<And>x. x \<in> set xs \<Longrightarrow> \<not> P x \<Longrightarrow> f x \<noteq> k" "\<And>x y. x \<in> set xs \<Longrightarrow> y \<in> set xs \<Longrightarrow> P x \<Longrightarrow> P y \<Longrightarrow> x = y"
    and "distinct xs"
  shows "distinct (map f (map (\<lambda>x. if P x then g x else x) xs))"
  using assms
proof (induction xs)
  case (Cons x xs)
  have "distinct (map f (map (\<lambda>x. if P x then g x else x) xs))" using Cons by auto
  moreover have "f (if P x then g x else x) \<noteq> f (if P y then g y else y)" if "y \<in> set xs" for y
    using Cons.prems that by (auto simp: image_iff)
  ultimately show ?case by (auto simp: image_iff)
qed simp

lemma map_fields_unchanged: "(\<And>x. f (g x) = f x) \<Longrightarrow> map f (map (\<lambda>x. if P x then g x else x) xs) = map f xs"
  by simp

lemma preserves_update_product: "preserves catalog_ok (update_product pid sku price)"
proof (unfold update_product_def, intro preserves_pstmt preservesI)
  fix d
  assume ok: "catalog_ok d"
  let ?hit = "\<lambda>r. live_product r \<and> pw_id r = pid"
  let ?g = "\<lambda>r. r\<lparr>pw_sku := sku, pw_price := price, pw_updated_at := pd_clock d\<rparr>"
  have keys: "distinct (map pw_id (pd_products d))" "distinct (map pw_sku (pd_products d))"
    using ok by (auto simp: catalog_ok_def keys_ok_def)
  have one: "x = y" if "x \<in> set (pd_products d)" "y \<in> set (pd_products d)" "?hit x" "?hit y" for x y
    using that keys(1) by (auto simp: distinct_map inj_on_def)
  have "distinct (map pw_sku (map (\<lambda>r. if ?hit r then ?g r else r) (pd_products d)))"
    if "\<forall>r \<in> set (pd_products d). pw_sku r = sku \<longrightarrow> ?hit r"
    using that keys one by (intro distinct_map_update[where k = sku]) (auto simp: distinct_map)
  moreover have "map pw_id (map (\<lambda>r. if ?hit r then ?g r else r) (pd_products d)) = map pw_id (pd_products d)"
    by (rule map_fields_unchanged) simp
  ultimately show "catalog_ok (snd (let hit = ?hit in
      if \<not> list_ex hit (pd_products d) then (Inl (Err ErrProductNotFound), d)
      else if \<exists>r \<in> set (pd_products d). pw_sku r = sku \<and> \<not> hit r
      then duplicate_key ''update product record'' ''idx_products_sku'' ''sku'' ErrDuplicateSKU d
      else (Inr (), d\<lparr>pd_products := map (\<lambda>r. if hit r then ?g r else r) (pd_products d)\<rparr>)))"
    using ok keys(1) by (auto simp: Let_def duplicate_key_def catalog_ok_def tags_ok_def correlations_ok_def keys_ok_def
        simp del: map_map)
qed

lemma preserves_product_update: "preserves catalog_ok (product_update enc dec p)"
  unfolding product_update_def Let_def
  by (intro preserves_intros preserves_update_product preserves_replace_relations preserves_reads)

lemma catalog_ok_products:
  "catalog_ok d \<Longrightarrow> (\<And>r. pw_id (g r) = pw_id r) \<Longrightarrow> (\<And>r. pw_sku (g r) = pw_sku r) \<Longrightarrow>
    catalog_ok (d\<lparr>pd_products := map (\<lambda>r. if P r then g r else r) (pd_products d)\<rparr>)"
  by (simp add: catalog_ok_def tags_ok_def correlations_ok_def keys_ok_def map_fields_unchanged del: map_map)

lemma catalog_ok_variations:
  "catalog_ok d \<Longrightarrow> (\<And>r. vr_id (g r) = vr_id r) \<Longrightarrow>
    catalog_ok (d\<lparr>pd_variations := map (\<lambda>r. if P r then g r else r) (pd_variations d)\<rparr>)"
  by (simp add: catalog_ok_def tags_ok_def correlations_ok_def keys_ok_def map_fields_unchanged del: map_map)

lemma catalog_ok_categories:
  "catalog_ok d \<Longrightarrow> (\<And>r. yr_id (g r) = yr_id r) \<Longrightarrow> (\<And>r. yr_slug (g r) = yr_slug r) \<Longrightarrow>
    catalog_ok (d\<lparr>pd_categories := map (\<lambda>r. if P r then g r else r) (pd_categories d)\<rparr>)"
  by (simp add: catalog_ok_def tags_ok_def correlations_ok_def keys_ok_def map_fields_unchanged del: map_map)

lemma preserves_product_delete: "preserves catalog_ok (product_delete i)"
  unfolding product_delete_def Let_def by (intro catalog_writes preserves_clear_relations catalog_ok_products) simp_all

lemma preserves_variation_create: "preserves catalog_ok (variation_create v)"
proof -
  have "preserves catalog_ok (insert_variation x)" for x
    unfolding insert_variation_def
    by (intro preserves_pstmt preservesI) (auto simp: catalog_ok_def tags_ok_def correlations_ok_def keys_ok_def)
  then show ?thesis unfolding variation_create_def by (intro preserves_intros preserves_draw_id)
qed

lemma preserves_variation_by_id: "preserves catalog_ok (variation_by_id i)"
  unfolding variation_by_id_def by (intro catalog_writes)

lemma preserves_variation_update: "preserves catalog_ok (variation_update v)"
  unfolding variation_update_def Let_def by (intro catalog_writes catalog_ok_variations preserves_variation_by_id) simp_all

lemma preserves_variation_delete: "preserves catalog_ok (variation_delete i)"
  unfolding variation_delete_def Let_def by (intro catalog_writes catalog_ok_variations) simp_all

lemma tags_ok_tags:
  assumes "tags_ok d" "\<And>t. tg_id (g t) = tg_id t" "\<And>t. tg_name (g t) = tg_name t" "\<And>t. live_tag t \<Longrightarrow> live_tag (g t)"
  shows "tags_ok (d\<lparr>pd_tags := map (\<lambda>t. if P t then g t else t) (pd_tags d)\<rparr>)"
proof -
  have "\<exists>t \<in> set (map (\<lambda>t. if P t then g t else t) (pd_tags d)). tg_id t = ln_value r \<and> live_tag t"
    if r: "r \<in> set (pd_product_tags d)" for r
  proof -
    obtain t where "t \<in> set (pd_tags d)" "tg_id t = ln_value r" "live_tag t" using assms(1) r by (auto simp: tags_ok_def)
    then show ?thesis using assms(2,4) by (intro bexI[of _ "if P t then g t else t"]) auto
  qed
  then show ?thesis using assms(1,2,3) by (auto simp: tags_ok_def map_fields_unchanged simp del: map_map)
qed

lemma catalog_ok_tags:
  "catalog_ok d \<Longrightarrow> tags_ok (d\<lparr>pd_tags := ts\<rparr>) \<Longrightarrow> catalog_ok (d\<lparr>pd_tags := ts\<rparr>)"
  by (simp add: catalog_ok_def correlations_ok_def keys_ok_def)

lemma preserves_ensure_tag: "preserves catalog_ok (ensure_tag n)"
proof -
  have "preserves catalog_ok (insert_tag m)" for m
    unfolding insert_tag_def
    by (intro preserves_pstmt preservesI)
      (fastforce simp: catalog_ok_def tags_ok_def correlations_ok_def keys_ok_def less_Suc_eq)
  moreover have "preserves catalog_ok (restore_tag i)" for i
    unfolding restore_tag_def
    by (intro catalog_writes catalog_ok_tags tags_ok_tags) (auto simp: catalog_ok_def live_tag_def)
  ultimately show ?thesis unfolding ensure_tag_def Let_def by (intro catalog_writes)
qed

lemma preserves_ensure_tags: "preserves catalog_ok (ensure_tags names)"
  unfolding ensure_tags_def by (intro catalog_intros preserves_ensure_tag)

lemma tags_ok_deleted:
  assumes "tags_ok d"
  shows "tags_ok (pd_product_tags_update (filter (\<lambda>r. ln_value r \<noteq> i))
    (d\<lparr>pd_tags := map (\<lambda>x. if tg_id x = i then x\<lparr>tg_deleted_at := Some now, tg_updated_at := now\<rparr> else x) (pd_tags d)\<rparr>))"
proof -
  let ?g = "\<lambda>x. if tg_id x = i then x\<lparr>tg_deleted_at := Some now, tg_updated_at := now\<rparr> else x"
  have "\<exists>t \<in> set (map ?g (pd_tags d)). tg_id t = ln_value r \<and> live_tag t"
    if r: "r \<in> set (pd_product_tags d)" "ln_value r \<noteq> i" for r
  proof -
    obtain t where "t \<in> set (pd_tags d)" "tg_id t = ln_value r" "live_tag t" using assms r by (auto simp: tags_ok_def)
    then show ?thesis using r(2) by (intro bexI[of _ t]) (auto simp: image_iff intro!: bexI[of _ t])
  qed
  then show ?thesis using assms by (auto simp: tags_ok_def map_fields_unchanged intro: distinct_map_filter simp del: map_map)
qed

lemma preserves_tag_soft_delete: "preserves catalog_ok (tag_soft_delete n)"
proof (rule preservesI)
  fix d
  assume "catalog_ok d"
  then have "catalog_ok (pd_product_tags_update (filter (\<lambda>r. ln_value r \<noteq> i))
      (d\<lparr>pd_tags := map (\<lambda>x. if tg_id x = i then x\<lparr>tg_deleted_at := Some now, tg_updated_at := now\<rparr> else x) (pd_tags d)\<rparr>))" for i now
    using tags_ok_deleted by (auto simp: catalog_ok_def correlations_ok_def keys_ok_def)
  with \<open>catalog_ok d\<close> show "catalog_ok (snd (tag_soft_delete n d))"
    by (simp add: tag_soft_delete_def prog_simps select_all_def change_def pstmt_def split: option.split)
qed

lemma preserves_correlation_create:
  assumes "trim (tc_source c) < trim (tc_target c)" "trim (tc_source c) \<noteq> []" "0 \<le> tc_probability c" "tc_probability c \<le> 100"
  shows "preserves catalog_ok (correlation_create c)"
  unfolding correlation_create_def Let_def
proof (intro preserves_pstmt preservesI)
  fix d
  assume "catalog_ok d"
  then show "catalog_ok (snd (if (trim (tc_source c), trim (tc_target c)) \<in> (\<lambda>x. (tc_source x, tc_target x)) ` set (pd_correlations d)
     then duplicate_key ''create correlation'' ''idx_tag_correlations_pair'' ''idx_tag_correlations_pair'' ErrDuplicateCorrelation d
     else (Inr (c\<lparr>tc_id := pd_next d, tc_created_at := pd_clock d, tc_updated_at := pd_clock d\<rparr>),
       d\<lparr>pd_next := Suc (pd_next d), pd_correlations := pd_correlations d @ [\<lparr>tc_id = pd_next d, tc_source = trim (tc_source c),
         tc_target = trim (tc_target c), tc_probability = tc_probability c, tc_notes = trim (tc_notes c),
         tc_created_at = pd_clock d, tc_updated_at = pd_clock d\<rparr>]\<rparr>)))"
    using assms catalog_ok_next[of d]
    by (auto simp: duplicate_key_def catalog_ok_def tags_ok_def correlations_ok_def keys_ok_def correlation_ok_def)
qed

lemma catalog_ok_correlations:
  assumes "catalog_ok d" "\<And>c. tc_source (g c) = tc_source c" "\<And>c. tc_target (g c) = tc_target c"
    and "\<And>c. correlation_ok c \<Longrightarrow> correlation_ok (g c)"
  shows "catalog_ok (d\<lparr>pd_correlations := map (\<lambda>c. if P c then g c else c) (pd_correlations d)\<rparr>)"
  using assms by (auto simp: catalog_ok_def tags_ok_def correlations_ok_def keys_ok_def map_fields_unchanged simp del: map_map)

lemma preserves_correlation_by_id: "preserves catalog_ok (correlation_by_id l e i)"
  unfolding correlation_by_id_def by (intro catalog_writes)

lemma preserves_correlation_update:
  "(\<And>p. probability = Some p \<Longrightarrow> 0 \<le> p \<and> p \<le> 100) \<Longrightarrow> preserves catalog_ok (correlation_update i probability notes)"
  unfolding correlation_update_def
  by (intro catalog_writes preserves_correlation_by_id catalog_ok_correlations)
    (auto simp: correlation_ok_def split: option.splits)

lemma preserves_correlation_delete: "preserves catalog_ok (correlation_delete i)"
  unfolding correlation_delete_def
  by (intro catalog_writes) (auto simp: catalog_ok_def tags_ok_def correlations_ok_def keys_ok_def intro: distinct_map_filter)

section \<open>Categories\<close>

lemma preserves_insert_pair: "(\<And>f d. catalog_ok (upd f d) = catalog_ok d) \<Longrightarrow> preserves catalog_ok (insert_pair l get upd owner iv)"
proof (cases iv)
  case (Pair i v)
  assume upd: "\<And>f d. catalog_ok (upd f d) = catalog_ok d"
  have "preserves catalog_ok (bindp (insert_link l upd owner (i, v)) (\<lambda>_. ret ()))"
    unfolding insert_link_def using upd by (auto intro!: preserves_bindp preserves_insert_row preserves_ret)
  then show ?thesis by (auto simp: insert_pair_def Pair preserves_def prog_simps)
qed

lemma preserves_insert_ref: "preserves catalog_ok (insert_ref cid v)"
proof -
  have "preserves catalog_ok (bindp (insert_row l (\<lambda>k. pd_refs_update (f k))) (\<lambda>_. ret ()))" for l f
    by (intro catalog_writes) simp
  then show ?thesis by (auto simp: insert_ref_def preserves_def prog_simps)
qed

lemma preserves_category_relations: "preserves catalog_ok (replace_category_relations cid c)"
  unfolding replace_category_relations_def
  by (intro catalog_writes preserves_insert_pair preserves_insert_ref) simp_all

lemma preserves_category_create: "preserves catalog_ok (category_create c)"
proof -
  have "preserves catalog_ok (insert_category r)" for r
    unfolding insert_category_def
    by (intro preserves_pstmt preservesI)
      (auto simp: duplicate_key_def catalog_ok_def tags_ok_def correlations_ok_def keys_ok_def)
  then show ?thesis unfolding category_create_def by (intro preserves_intros preserves_category_relations)
qed

lemma preserves_update_category: "preserves catalog_ok (update_category c)"
proof (unfold update_category_def, intro preserves_pstmt preservesI)
  fix d
  assume ok: "catalog_ok d"
  let ?hit = "\<lambda>r. live_category r \<and> yr_id r = ca_id c"
  let ?g = "\<lambda>r. r\<lparr>yr_slug := ca_slug c, yr_name := ca_name c, yr_description := ca_description c, yr_parent_id := ca_parent_id c,
    yr_include_children := ca_include_children c, yr_updated_at := ca_updated_at c\<rparr>"
  have keys: "distinct (map yr_id (pd_categories d))" "distinct (map yr_slug (pd_categories d))"
    using ok by (auto simp: catalog_ok_def keys_ok_def)
  have one: "x = y" if "x \<in> set (pd_categories d)" "y \<in> set (pd_categories d)" "?hit x" "?hit y" for x y
    using that keys(1) by (auto simp: distinct_map inj_on_def)
  have "distinct (map yr_slug (map (\<lambda>r. if ?hit r then ?g r else r) (pd_categories d)))"
    if "\<forall>r \<in> set (pd_categories d). yr_slug r = ca_slug c \<longrightarrow> ?hit r"
    using that keys one by (intro distinct_map_update[where k = "ca_slug c"]) (auto simp: distinct_map)
  moreover have "map yr_id (map (\<lambda>r. if ?hit r then ?g r else r) (pd_categories d)) = map yr_id (pd_categories d)"
    by (rule map_fields_unchanged) simp
  ultimately show "catalog_ok (snd (let hit = ?hit in
      if \<not> list_ex hit (pd_categories d) then (Inl (Err PortCategoryNotFound), d)
      else if \<exists>r \<in> set (pd_categories d). yr_slug r = ca_slug c \<and> \<not> hit r
      then duplicate_key ''update category record'' ''idx_categories_slug'' ''slug'' PortDuplicateSlug d
      else (Inr (), d\<lparr>pd_categories := map (\<lambda>r. if hit r then ?g r else r) (pd_categories d)\<rparr>)))"
    using ok keys(1) by (auto simp: Let_def duplicate_key_def catalog_ok_def tags_ok_def correlations_ok_def keys_ok_def
        simp del: map_map)
qed

lemma preserves_category_update: "preserves catalog_ok (category_update c)"
  unfolding category_update_def by (intro preserves_intros preserves_update_category preserves_category_relations)

lemma preserves_category_delete: "preserves catalog_ok (category_delete i)"
  unfolding category_delete_def Let_def by (intro catalog_writes catalog_ok_categories) simp_all

end
