(* ===== verification/Products_Tree.thy ===== *)
theory Products_Tree
  imports Products_Categories
begin

text \<open>
  When the loop that collects the descendants of a category ends, and what it returns.
\<close>

definition child_of :: "('a \<Rightarrow> 'a list) \<Rightarrow> ('a \<times> 'a) set" where
  "child_of children = {(c, p). c \<in> set (children p)}"

text \<open>The identifiers below \<open>i\<close>: children, their children and so on.\<close>

definition below :: "('a \<Rightarrow> 'a list) \<Rightarrow> 'a \<Rightarrow> 'a set" where
  "below children i = {j. (j, i) \<in> (child_of children)\<^sup>+}"

definition cyclic_below :: "('a \<Rightarrow> 'a list) \<Rightarrow> 'a \<Rightarrow> bool" where
  "cyclic_below children i \<longleftrightarrow> (\<exists>j \<in> insert i (below children i). j \<in> below children j)"

lemma descend_simps [simp]:
  "descend children [] result = Some result"
  "descend children (i # queue) result = descend children (queue @ children i) (result @ children i)"
  by (subst descend.simps, simp)+

lemma below_unfold: "below children i = set (children i) \<union> (\<Union>c \<in> set (children i). below children c)"
proof -
  have "j \<in> below children i \<longleftrightarrow> j \<in> set (children i) \<or> (\<exists>c \<in> set (children i). j \<in> below children c)" for j
  proof -
    have "(j, i) \<in> (child_of children)\<^sup>+ \<longleftrightarrow> (j, i) \<in> child_of children
        \<or> (\<exists>c. (j, c) \<in> (child_of children)\<^sup>+ \<and> (c, i) \<in> child_of children)"
      by (metis trancl.intros(1) trancl.intros(2) tranclE)
    then show ?thesis by (auto simp: below_def child_of_def)
  qed
  then show ?thesis by auto
qed

lemma below_child: "c \<in> set (children j) \<Longrightarrow> j \<in> insert i (below children i) \<Longrightarrow> c \<in> below children i"
  by (auto simp: below_def child_of_def intro: trancl.intros trancl_into_trancl2)

section \<open>The loop returns only without cycles\<close>

text \<open>Everything on the queue is accessible in the relation between children and parents.\<close>

lemma descend_returns_acc:
  assumes "descend children queue result = Some r" and "q \<in> set queue"
  shows "q \<in> Wellfounded.acc (child_of children)"
proof -
  have "\<forall>q \<in> set queue. q \<in> Wellfounded.acc (child_of children)"
  proof (rule descend.raw_induct[where P = "\<lambda>children queue result r. \<forall>q \<in> set queue. q \<in> Wellfounded.acc (child_of children)",
        OF _ assms(1)])
    fix f and children :: "string \<Rightarrow> string list" and queue result r
    assume IH: "\<And>c q b y. f c q b = Some y \<Longrightarrow> \<forall>q \<in> set q. q \<in> Wellfounded.acc (child_of c)"
      and run: "(case queue of [] \<Rightarrow> Some result | i # rest \<Rightarrow> f children (rest @ children i) (result @ children i)) = Some r"
    show "\<forall>q \<in> set queue. q \<in> Wellfounded.acc (child_of children)"
    proof (cases queue)
      case (Cons i rest)
      with run have acc: "\<forall>q \<in> set (rest @ children i). q \<in> Wellfounded.acc (child_of children)" using IH by fastforce
      then have "i \<in> Wellfounded.acc (child_of children)" by (auto intro: accI simp: child_of_def)
      with acc Cons show ?thesis by auto
    qed simp
  qed
  with assms(2) show ?thesis by blast
qed

lemma acc_no_cycle:
  assumes "i \<in> Wellfounded.acc r"
  shows "(i, i) \<notin> r\<^sup>+"
  using assms
proof (rule acc_induct)
  fix x
  assume IH: "\<forall>y. (y, x) \<in> r \<longrightarrow> (y, y) \<notin> r\<^sup>+"
  show "(x, x) \<notin> r\<^sup>+"
  proof
    assume "(x, x) \<in> r\<^sup>+"
    then obtain y where y: "(x, y) \<in> r\<^sup>*" "(y, x) \<in> r" by (metis tranclD2)
    then have "(y, y) \<in> r\<^sup>+" by (metis rtrancl_into_trancl2)
    with IH y(2) show False by blast
  qed
qed

lemma acc_below: "i \<in> Wellfounded.acc (child_of children) \<Longrightarrow> j \<in> below children i \<Longrightarrow> j \<in> Wellfounded.acc (child_of children)"
  unfolding below_def using acc_downwards[of i "child_of children"] trancl_into_rtrancl by fastforce

lemma acc_acyclic: "i \<in> Wellfounded.acc (child_of children) \<Longrightarrow> \<not> cyclic_below children i"
  using acc_no_cycle acc_below by (fastforce simp: cyclic_below_def below_def)

text \<open>In a finite forest without a cycle below \<open>i\<close>, everything below \<open>i\<close> is accessible.\<close>

lemma acyclic_acc:
  assumes "finite (child_of children)" "\<not> cyclic_below children i"
  shows "i \<in> Wellfounded.acc (child_of children)"
proof -
  let ?N = "insert i (below children i)"
  define s where "s = child_of children \<inter> UNIV \<times> ?N"
  have "s\<^sup>+ \<subseteq> (child_of children)\<^sup>+" by (auto simp: s_def intro: trancl_mono)
  moreover have "(x, x) \<in> s\<^sup>+ \<Longrightarrow> x \<in> ?N" for x by (auto simp: s_def dest!: tranclD2)
  ultimately have "acyclic s" using assms(2) by (auto simp: acyclic_def cyclic_below_def below_def)
  moreover have "finite s" using assms(1) by (auto simp: s_def)
  ultimately have "wf s" by (simp add: finite_acyclic_wf)
  have "x \<in> ?N \<Longrightarrow> x \<in> Wellfounded.acc (child_of children)" for x
    using \<open>wf s\<close>
  proof (induction x rule: wf_induct_rule)
    case (less x)
    have "y \<in> Wellfounded.acc (child_of children)" if "(y, x) \<in> child_of children" for y
      using less.IH[of y] less.prems that below_child[of y children x i] by (auto simp: s_def child_of_def)
    then show ?case by (blast intro: accI)
  qed
  then show ?thesis by blast
qed


section \<open>What the loop returns\<close>

lemma wf_child_below_acc: "wf {(c, p). (c, p) \<in> r \<and> p \<in> Wellfounded.acc r}"
proof (rule wfUNIVI)
  fix P x
  assume step: "\<forall>x. (\<forall>y. (y, x) \<in> {(c, p). (c, p) \<in> r \<and> p \<in> Wellfounded.acc r} \<longrightarrow> P y) \<longrightarrow> P x"
  have "x \<in> Wellfounded.acc r \<Longrightarrow> P x"
  proof (erule acc_induct)
    fix x
    assume "\<forall>y. (y, x) \<in> r \<longrightarrow> P y"
    then show "P x" using step[rule_format, of x] by blast
  qed
  moreover have "x \<notin> Wellfounded.acc r \<Longrightarrow> P x" using step[rule_format, of x] by blast
  ultimately show "P x" by blast
qed

text \<open>In a forest, the processed identifiers \<open>done\<close> and the queue never share or repeat an identifier.\<close>

lemma descend_complete:
  assumes forest: "\<And>p. distinct (children p)" "\<And>c p q. c \<in> set (children p) \<Longrightarrow> c \<in> set (children q) \<Longrightarrow> p = q"
    and acyclic: "\<not> cyclic_below children i"
    and "\<forall>q \<in> set queue. q \<in> Wellfounded.acc (child_of children)"
    and "i # result = finished @ queue" "result = concat (map children finished)" "distinct (i # result)"
    and "set (i # result) \<subseteq> insert i (below children i)"
  shows "\<exists>r. descend children queue result = Some r \<and> distinct (i # r) \<and> set r = set result \<union> (\<Union>q \<in> set queue. below children q)"
  using assms(4-)
proof (induction "mset queue" arbitrary: queue result finished
    rule: wf_induct_rule[OF wf_mult[OF wf_child_below_acc[of "child_of children"]]])
  case 1
  show ?case
  proof (cases queue)
    case (Cons j rest)
    let ?queue = "rest @ children j" and ?result = "result @ children j"
    have j: "j \<in> Wellfounded.acc (child_of children)" "j \<in> insert i (below children i)" "j \<notin> set finished"
      using 1(2,3,5,6) Cons by auto
    have acc: "\<forall>q \<in> set ?queue. q \<in> Wellfounded.acc (child_of children)"
      using 1(2) Cons j(1) by (auto simp: child_of_def intro: acc_downward)
    have "(mset rest + mset (children j), mset rest + {#j#}) \<in> mult {(c, p). (c, p) \<in> child_of children \<and> p \<in> Wellfounded.acc (child_of children)}"
      using j(1) by (intro one_step_implies_mult) (auto simp: child_of_def)
    then have less: "(mset ?queue, mset queue) \<in> mult {(c, p). (c, p) \<in> child_of children \<and> p \<in> Wellfounded.acc (child_of children)}"
      using Cons by simp
    have "c \<notin> set (i # result)" if "c \<in> set (children j)" for c
    proof
      assume "c \<in> set (i # result)"
      moreover have "c \<noteq> i"
        using that acyclic j(2) by (auto simp: cyclic_below_def dest: below_child)
      ultimately obtain p where "p \<in> set finished" "c \<in> set (children p)" using 1(4) by auto
      with forest(2) that j(3) show False by blast
    qed
    then have "distinct (i # ?result)" using 1(5) forest(1)[of j] by auto
    moreover have "set (i # ?result) \<subseteq> insert i (below children i)" using 1(6) j(2) below_child by fastforce
    moreover have "i # ?result = (finished @ [j]) @ ?queue" using 1(3) Cons by simp
    moreover have "?result = concat (map children (finished @ [j]))" using 1(4) by simp
    ultimately obtain r where "descend children ?queue ?result = Some r" "distinct (i # r)"
        "set r = set ?result \<union> (\<Union>q \<in> set ?queue. below children q)"
      using 1(1)[OF less acc] by blast
    moreover have "set ?result \<union> (\<Union>q \<in> set ?queue. below children q) = set result \<union> (\<Union>q \<in> set queue. below children q)"
      using Cons below_unfold[of children j] by auto
    ultimately show ?thesis using Cons by auto
  qed (use 1(5) in simp)
qed

lemma descend_root:
  assumes "\<And>p. distinct (children p)" "\<And>c p q. c \<in> set (children p) \<Longrightarrow> c \<in> set (children q) \<Longrightarrow> p = q"
    and "finite (child_of children)"
  shows "(\<exists>r. descend children [i] [] = Some r) \<longleftrightarrow> \<not> cyclic_below children i"
    and "descend children [i] [] = Some r \<Longrightarrow> distinct (i # r) \<and> set r = below children i"
proof -
  have ends: "\<exists>r. descend children [i] [] = Some r \<and> distinct (i # r) \<and> set r = below children i" if "\<not> cyclic_below children i"
    using descend_complete[OF assms(1,2) that, where queue = "[i]" and result = "[]" and finished = "[]"] acyclic_acc[OF assms(3) that] by simp
  moreover have acyc: "descend children [i] [] = Some r \<Longrightarrow> \<not> cyclic_below children i" for r
    using descend_returns_acc[of children "[i]" "[]" r i] acc_acyclic by simp
  ultimately show "(\<exists>r. descend children [i] [] = Some r) \<longleftrightarrow> \<not> cyclic_below children i" by blast
  show "descend children [i] [] = Some r \<Longrightarrow> distinct (i # r) \<and> set r = below children i"
    using ends acyc by force
qed

end
