(* ===== verification/Products_Calls.thy ===== *)
theory Products_Calls
  imports Products_Safety Products_Tree
begin

text \<open>
  The products module as a sequence of calls: the invariant of its tables along such sequences, and the
  descendants of a category.
\<close>

datatype catalog_call = CreateProduct product_command | UpdateProduct string product_update_command | DeleteProduct string
  | CreateVariation variation_command | UpdateVariation string variation_update_command | DeleteVariation string
  | EnsureTags "string list" | DeleteTag string
  | CreateCorrelation correlation_command | UpdateCorrelation nat correlation_update_command | DeleteCorrelation nat
  | CreateCategory category_command | UpdateCategory string category_update_command | DeleteCategory string
  | ListCategoryProducts products_query

definition state_after :: "('w, 'e, 'a) prog \<Rightarrow> 'w \<Rightarrow> 'w" where
  "state_after m w = snd (m w)"

definition catalog_call :: "(json \<Rightarrow> string option) \<Rightarrow> (string \<Rightarrow> json option) \<Rightarrow> catalog_call \<Rightarrow> catalog_world \<Rightarrow> catalog_world" where
  "catalog_call enc dec call = (case call of
     CreateProduct c \<Rightarrow> state_after (create_product enc dec c)
   | UpdateProduct i c \<Rightarrow> state_after (update_product_service enc dec i c)
   | DeleteProduct i \<Rightarrow> state_after (delete_product i)
   | CreateVariation c \<Rightarrow> state_after (create_variation c)
   | UpdateVariation i c \<Rightarrow> state_after (update_variation i c)
   | DeleteVariation i \<Rightarrow> state_after (delete_variation i)
   | EnsureTags names \<Rightarrow> state_after (ensure_all names)
   | DeleteTag n \<Rightarrow> state_after (delete_tag n)
   | CreateCorrelation c \<Rightarrow> state_after (create_correlation c)
   | UpdateCorrelation i c \<Rightarrow> state_after (update_correlation i c)
   | DeleteCorrelation i \<Rightarrow> state_after (delete_correlation i)
   | CreateCategory c \<Rightarrow> state_after (create_category c)
   | UpdateCategory i c \<Rightarrow> state_after (update_category_service i c)
   | DeleteCategory i \<Rightarrow> state_after (delete_category i)
   | ListCategoryProducts q \<Rightarrow> state_after (list_category_products dec q))"

fun catalog_calls :: "(json \<Rightarrow> string option) \<Rightarrow> (string \<Rightarrow> json option) \<Rightarrow> catalog_call list \<Rightarrow> catalog_world \<Rightarrow> catalog_world" where
  "catalog_calls enc dec [] w = w"
| "catalog_calls enc dec (c # cs) w = catalog_calls enc dec cs (catalog_call enc dec c w)"

section \<open>Lifting to the services\<close>

abbreviation world_ok :: "catalog_world \<Rightarrow> bool" where
  "world_ok w \<equiv> catalog_ok (kw_db w)"

lemma put_catalog_db [simp]: "kw_db (put_catalog d w) = d"
  by (simp add: put_catalog_def)

lemma preserves_catalog_db: "preserves catalog_ok m \<Longrightarrow> preserves world_ok (on_db m)"
  by (auto simp: preserves_def through_def split: prod.split)

lemma preserves_trigger_refresh: "preserves world_ok trigger_refresh"
  unfolding trigger_refresh_def by (rule preserves_modp) simp

lemma preserves_validate_assets: "preserves world_ok (validate_assets gs)"
  unfolding validate_assets_def by (intro preserves_intros) (auto split: list.split intro: preserves_ret preserves_throw)

lemma preserves_register_tags: "preserves world_ok (register_tags ts)"
  unfolding register_tags_def by (intro preserves_intros preserves_catalog_db preserves_ensure_tags)

lemma preserves_mapped_errors: "preserves I m \<Longrightarrow> preserves I (mapped_errors m)"
  unfolding mapped_errors_def by (intro preserves_intros)

lemmas service_keeps = preserves_intros preserves_catalog_db preserves_trigger_refresh preserves_validate_assets
  preserves_register_tags preserves_mapped_errors preserves_reads preserves_draw_id
  preserves_product_create preserves_product_update preserves_product_delete
  preserves_variation_create preserves_variation_by_id preserves_variation_update preserves_variation_delete
  preserves_ensure_tags preserves_tag_soft_delete preserves_correlation_update preserves_correlation_delete
  preserves_category_create preserves_category_update preserves_category_delete

lemma preserves_create_correlation: "preserves world_ok (create_correlation c)"
proof -
  have "preserves world_ok (wrap_err l (on_db (correlation_create x)))"
    if "trim (tc_source x) < trim (tc_target x)" "trim (tc_source x) \<noteq> []" "0 \<le> tc_probability x" "tc_probability x \<le> 100" for l x
    using that by (intro service_keeps preserves_correlation_create)
  then show ?thesis
    by (auto simp: create_correlation_def Let_def intro: preserves_throw)
qed

lemma preserves_update_correlation: "preserves world_ok (update_correlation i c)"
  unfolding update_correlation_def by (intro service_keeps) (auto split: if_splits option.splits)

lemma catalog_call_keeps: "world_ok w \<Longrightarrow> world_ok (catalog_call enc dec c w)"
proof -
  have step: "preserves world_ok m \<Longrightarrow> world_ok w \<Longrightarrow> world_ok (state_after m w)" for m :: "'x catalog_prog"
    by (simp add: preserves_def state_after_def)
  assume ok: "world_ok w"
  show ?thesis
    unfolding catalog_call_def
    by (cases c; simp only: catalog_call.case; rule step[OF _ ok];
        (unfold create_product_def update_product_service_def delete_product_def create_variation_def update_variation_def
          delete_variation_def ensure_all_def delete_tag_def delete_correlation_def create_category_def
          update_category_service_def delete_category_def list_category_products_def)?;
        intro service_keeps preserves_create_correlation preserves_update_correlation)
qed


lemma catalog_calls_keep: "world_ok w \<Longrightarrow> world_ok (catalog_calls enc dec cs w)"
  by (induction enc dec cs w rule: catalog_calls.induct) (simp_all add: catalog_call_keeps)

section \<open>Descendants\<close>

text \<open>A database whose statements do not fail.\<close>

abbreviation working :: "products_db \<Rightarrow> bool" where
  "working d \<equiv> pd_fault d = (\<lambda>_. False)"

lemma select_working: "working d \<Longrightarrow> select_all l f d = (Inr (f d), d)"
  by (simp add: select_all_def pstmt_def prog_simps)

lemma child_ids_iff: "c \<in> set (child_ids d p) \<longleftrightarrow>
    (\<exists>r \<in> set (pd_categories d). yr_id r = c \<and> live_category r \<and> yr_parent_id r = Some p)"
  by (auto simp: child_ids_def)

lemma child_ids_forest:
  assumes "distinct (map yr_id (pd_categories d))"
  shows "distinct (child_ids d p)" and "c \<in> set (child_ids d p) \<Longrightarrow> c \<in> set (child_ids d q) \<Longrightarrow> p = q"
proof -
  have "distinct (map f (sort_key k xs)) \<longleftrightarrow> distinct (map f xs)" for f :: "category_row \<Rightarrow> string" and k :: "category_row \<Rightarrow> gotime \<times> string" and xs
    by (rule mset_eq_imp_distinct_iff) simp
  then show "distinct (child_ids d p)" unfolding child_ids_def using assms by (simp add: distinct_map_filter)
  show "p = q" if c: "c \<in> set (child_ids d p)" "c \<in> set (child_ids d q)"
  proof -
    obtain r s where "r \<in> set (pd_categories d)" "yr_id r = c" "yr_parent_id r = Some p"
        "s \<in> set (pd_categories d)" "yr_id s = c" "yr_parent_id s = Some q"
      using c unfolding child_ids_iff by blast
    moreover from this have "r = s" using assms by (simp add: distinct_map inj_on_def)
    ultimately show ?thesis by simp
  qed
qed

lemma child_ids_finite: "finite (child_of (child_ids d))"
proof -
  have "child_of (child_ids d) \<subseteq> (\<lambda>r. (yr_id r, the (yr_parent_id r))) ` set (pd_categories d)"
    by (force simp: child_of_def child_ids_iff)
  then show ?thesis by (rule finite_subset) simp
qed

lemma keys_distinct: "catalog_ok d \<Longrightarrow> distinct (map yr_id (pd_categories d))"
  by (simp add: catalog_ok_def keys_ok_def)

lemma descendants_result:
  assumes "catalog_ok d" "working d"
  shows "collect_descendants i d = (Inr (descend (child_ids d) [i] []), d)"
    and "descend (child_ids d) [i] [] = None \<longleftrightarrow> cyclic_below (child_ids d) i"
    and "descend (child_ids d) [i] [] = Some ids \<Longrightarrow> distinct (i # ids) \<and> set ids = below (child_ids d) i"
proof -
  note keys = keys_distinct[OF assms(1)]
  have forest: "\<And>p. distinct (child_ids d p)" "\<And>c p q. c \<in> set (child_ids d p) \<Longrightarrow> c \<in> set (child_ids d q) \<Longrightarrow> p = q"
    using child_ids_forest[OF keys] by blast+
  show "collect_descendants i d = (Inr (descend (child_ids d) [i] []), d)"
    using assms(2) by (simp add: collect_descendants_def select_working)
  show "descend (child_ids d) [i] [] = None \<longleftrightarrow> cyclic_below (child_ids d) i" using descend_root(1)[OF forest child_ids_finite, where i = i] by auto
  show "descend (child_ids d) [i] [] = Some ids \<Longrightarrow> distinct (i # ids) \<and> set ids = below (child_ids d) i"
    by (rule descend_root(2)[OF forest(1) _ child_ids_finite]) (use forest(2) in blast)+
qed

lemma category_products_None:
  assumes "catalog_ok d" "working d"
  shows "fst (category_products dec q d) = Inr None \<longleftrightarrow>
    (\<exists>k. fst (category_by_id (pq_category_id q) d) = Inr k \<and> ca_include_children k \<and> cyclic_below (child_ids d) (ca_id k))"
proof -
  define rest where "rest = (\<lambda>k ids. bindp (collect (\<lambda>i. wrap_err ''load descendant category'' (category_by_id i)) ids) (\<lambda>cs.
     let page = normal_page (pq_page q); per = normal_page_size (pq_page_size q);
       answer = (\<lambda>items total. Some \<lparr>pp_items = items, pp_total = total, pp_page = page, pp_page_size = per\<rparr>) in
     if \<not> list_ex has_source (k # cs) then ret (answer [] 0)
     else bindp (collect_all_scoped (k # cs) []) (\<lambda>ordered.
     if ordered = [] then ret (answer [] 0)
     else case page_window ordered (int64 ((page - 1) * per)) per of
       Inl _ \<Rightarrow> throw (Err SliceBoundsPanic)
     | Inr window \<Rightarrow> if int64 ((page - 1) * per) \<ge> int (length ordered) then ret (answer [] (int (length ordered)))
         else bindp (wrap_err ''load category product entities'' (products_by_ids dec window)) (\<lambda>items.
           ret (answer items (int (length ordered)))))))"
  have whole: "category_products dec q = bindp (category_by_id (pq_category_id q)) (\<lambda>k.
      bindp (if ca_include_children k then collect_descendants (ca_id k) else ret (Some [])) (\<lambda>o1.
      case o1 of None \<Rightarrow> ret None | Some ids \<Rightarrow> rest k ids))"
    unfolding category_products_def rest_def Let_def by (rule refl)
  have rest: "rest k ids d1 \<noteq> (Inr None, d2)" for k ids d1 d2
    by (auto simp: rest_def Let_def prog_Inr_iffs split: if_splits sum.splits)
  obtain r d1 where r: "category_by_id (pq_category_id q) d = (r, d1)" by fastforce
  then have d1: "d1 = d" using readonlyD[OF readonly_category_by_id] by blast
  show ?thesis
  proof (cases r)
    case (Inl e)
    then show ?thesis using r by (simp add: whole bindp_apply)
  next
    case (Inr k)
    have "fst (rest k ids d) \<noteq> Inr None" for ids using rest[of k ids d] by (metis prod.collapse)
    then show ?thesis
      using r d1 Inr descendants_result(1,2)[OF assms, of "ca_id k"]
      by (auto simp: whole bindp_apply ret_apply split: option.split)
  qed
qed

section \<open>A category below itself\<close>

lemma category_relations_frame: "preserves (\<lambda>d. pd_categories d = cs \<and> pd_fault d = f) (replace_category_relations cid c)"
proof -
  let ?I = "\<lambda>d. pd_categories d = cs \<and> pd_fault d = f"
  have "preserves ?I (insert_pair l get upd owner iv)" if "\<And>g d. pd_categories (upd g d) = pd_categories d" "\<And>g d. pd_fault (upd g d) = pd_fault d" for l get upd owner and iv :: "nat \<times> string"
  proof -
    have "preserves ?I (bindp (insert_link l upd owner x) (\<lambda>_. ret ()))" for x
      unfolding insert_link_def using that by (auto intro!: preserves_bindp preserves_insert_row preserves_ret split: prod.split)
    then show ?thesis by (auto simp: insert_pair_def preserves_def prog_simps split: prod.split)
  qed
  moreover have "preserves ?I (insert_ref cid v)" for v
  proof -
    have "preserves ?I (bindp (insert_row l (\<lambda>k. pd_refs_update (g k))) (\<lambda>_. ret ()))" for l g
      by (intro catalog_writes) simp
    then show ?thesis by (auto simp: insert_ref_def preserves_def prog_simps)
  qed
  ultimately show ?thesis
    unfolding replace_category_relations_def by (intro catalog_writes) auto
qed

definition reparent :: "category \<Rightarrow> category_row \<Rightarrow> category_row" where
  "reparent c r = (if live_category r \<and> yr_id r = ca_id c then r\<lparr>yr_slug := ca_slug c, yr_name := ca_name c,
     yr_description := ca_description c, yr_parent_id := ca_parent_id c, yr_include_children := ca_include_children c,
     yr_updated_at := ca_updated_at c\<rparr> else r)"

lemma category_update_result:
  assumes "category_update c d = (Inr (), d')"
  shows "pd_categories d' = map (reparent c) (pd_categories d)" and "pd_fault d' = pd_fault d"
    and "\<exists>r \<in> set (pd_categories d). live_category r \<and> yr_id r = ca_id c"
proof -
  obtain d1 where up: "update_category c d = (Inr (), d1)" and rel: "replace_category_relations (ca_id c) c d1 = (Inr (), d')"
    using assms by (auto simp: category_update_def prog_Inr_iffs)
  have d1: "pd_categories d1 = map (reparent c) (pd_categories d) \<and> pd_fault d1 = pd_fault d
      \<and> (\<exists>r \<in> set (pd_categories d). live_category r \<and> yr_id r = ca_id c)"
    using up by (auto simp: update_category_def pstmt_def Let_def duplicate_key_def reparent_def list_ex_iff split: if_splits)
  moreover have "pd_categories d' = pd_categories d1 \<and> pd_fault d' = pd_fault d1"
    using preservesD[OF category_relations_frame _ rel, of "pd_categories d1" "pd_fault d1"] by simp
  ultimately show "pd_categories d' = map (reparent c) (pd_categories d)" "pd_fault d' = pd_fault d"
    "\<exists>r \<in> set (pd_categories d). live_category r \<and> yr_id r = ca_id c" by simp_all
qed

text \<open>A path up to \<open>i\<close> can be chosen so that it does not enter \<open>i\<close> before its end.\<close>

lemma trancl_first: "(j, i) \<in> r\<^sup>+ \<Longrightarrow> j = i \<or> (j, i) \<in> (r \<inter> {(c, p). c \<noteq> i})\<^sup>+"
proof (induction rule: converse_trancl_induct)
  case (base j)
  then show ?case by (cases "j = i") auto
next
  case (step j k)
  then show ?case by (cases "j = i") (auto intro: trancl_into_trancl2)
qed

lemma child_ids_reparent:
  assumes "pd_categories d' = map (reparent c) (pd_categories d)"
  shows "x \<noteq> ca_id c \<Longrightarrow> x \<in> set (child_ids d p) \<Longrightarrow> x \<in> set (child_ids d' p)"
    and "r \<in> set (pd_categories d) \<Longrightarrow> live_category r \<Longrightarrow> yr_id r = ca_id c \<Longrightarrow> ca_parent_id c = Some p \<Longrightarrow> ca_id c \<in> set (child_ids d' p)"
proof -
  show "x \<in> set (child_ids d' p)" if "x \<noteq> ca_id c" "x \<in> set (child_ids d p)"
    using that unfolding child_ids_iff assms by (force simp: reparent_def)
  show "ca_id c \<in> set (child_ids d' p)"
    if "r \<in> set (pd_categories d)" "live_category r" "yr_id r = ca_id c" "ca_parent_id c = Some p"
    unfolding child_ids_iff assms using that by (intro bexI[of _ "reparent c r"]) (auto simp: reparent_def live_category_def)
qed

lemma adopted_cycle:
  assumes cats: "pd_categories d' = map (reparent c) (pd_categories d)"
    and r: "r \<in> set (pd_categories d)" "live_category r" "yr_id r = ca_id c"
    and parent: "ca_parent_id c = Some p" "p \<in> below (child_ids d) (ca_id c)" "p \<noteq> ca_id c"
  shows "cyclic_below (child_ids d') (ca_id c)"
proof -
  let ?i = "ca_id c"
  have "(p, ?i) \<in> (child_of (child_ids d) \<inter> {(x, q). x \<noteq> ?i})\<^sup>+"
    using parent(2,3) trancl_first[of p ?i "child_of (child_ids d)"] by (simp add: below_def)
  then have "(p, ?i) \<in> (child_of (child_ids d'))\<^sup>+"
    by (rule trancl_mono) (auto simp: child_of_def intro: child_ids_reparent(1)[OF cats])
  moreover have "(?i, p) \<in> child_of (child_ids d')"
    using child_ids_reparent(2)[OF cats r parent(1)] by (simp add: child_of_def)
  ultimately have "(?i, ?i) \<in> (child_of (child_ids d'))\<^sup>+" by (rule trancl_into_trancl2[rotated])
  then show ?thesis by (auto simp: cyclic_below_def below_def)
qed

lemma category_by_id_ok:
  assumes "working d"
  shows "category_by_id i d = (case find (\<lambda>r. live_category r \<and> yr_id r = trim i) (pd_categories d) of
    None \<Rightarrow> (Inl (Err PortCategoryNotFound), d)
  | Some r \<Rightarrow> load_category r d)"
    and "\<exists>k. load_category r d = (Inr k, d) \<and> ca_id k = yr_id r \<and> ca_include_children k = yr_include_children r
      \<and> ca_parent_id k = yr_parent_id r"
  using assms by (auto simp: category_by_id_def find_category_def load_category_def Let_def prog_simps select_working split: option.split)

lemma mapped_errors_Inr: "mapped_errors m w = (Inr x, w') \<longleftrightarrow> m w = (Inr x, w')"
  by (auto simp: mapped_errors_def prog_simps split: prod.splits sum.splits)

lemma on_db_Inr: "on_db m w = (Inr x, w') \<longleftrightarrow> (\<exists>d. m (kw_db w) = (Inr x, d) \<and> w' = put_catalog d w)"
  by (auto simp: through_def split: prod.splits)

lemma listing_None: "fst (list_category_products dec q w) = Inr None \<longleftrightarrow>
    trim (pq_category_id q) \<noteq> [] \<and> fst (category_products dec (q\<lparr>pq_category_id := trim (pq_category_id q)\<rparr>) (kw_db w)) = Inr None"
  by (auto simp: list_category_products_def mapped_errors_def prog_simps through_def split: prod.splits sum.splits)

lemma listing_returns_iff:
  assumes "catalog_ok (kw_db w)" "working (kw_db w)"
  shows "fst (list_category_products dec q w) = Inr None \<longleftrightarrow>
    (\<exists>k. fst (get_category (pq_category_id q) w) = Inr k \<and> ca_include_children k \<and> cyclic_below (child_ids (kw_db w)) (ca_id k))"
proof -
  let ?i = "trim (pq_category_id q)"
  have "fst (get_category (pq_category_id q) w) = Inr k \<longleftrightarrow> ?i \<noteq> [] \<and> fst (category_by_id ?i (kw_db w)) = Inr k" for k
    by (auto simp: get_category_def mapped_errors_def prog_simps through_def split: prod.splits sum.splits)
  with category_products_None[OF assms, of dec "q\<lparr>pq_category_id := ?i\<rparr>"] show ?thesis by (auto simp: listing_None)
qed

text \<open>C29: On a catalog whose statements do not fail, the listing of a category's products returns unless the
  category includes its descendants and there is a cycle in the parent relation at or below it; then the call
  never returns.\<close>

theorem category_listing_returns:
  assumes "catalog_ok (kw_db w)" "working (kw_db w)"
  shows "fst (list_category_products dec q w) = Inr None \<longleftrightarrow>
    (\<exists>k. fst (get_category (pq_category_id q) w) = Inr k \<and> ca_include_children k \<and> cyclic_below (child_ids (kw_db w)) (ca_id k))"
  using assms by (rule listing_returns_iff)

lemma update_category_Inr:
  assumes "update_category_service i c w = (Inr k, w')" "working (kw_db w)"
  obtains r d' where "find (\<lambda>r. live_category r \<and> yr_id r = trim i) (pd_categories (kw_db w)) = Some r"
    and "ca_id k = trim i" "category_validate k = None" "given (ku_parent_id c) (yr_parent_id r) = ca_parent_id k"
    and "category_update k (kw_db w) = (Inr (), d')" "kw_db w' = d'" "trim i \<noteq> []"
proof -
  let ?save = "\<lambda>k'. bindp (guard_err (category_validate k')) (\<lambda>_. bindp (mapped_errors (on_db (category_update k'))) (\<lambda>_.
     bindp trigger_refresh (\<lambda>_. ret k')))"
  obtain old w1 where i: "trim i \<noteq> []" and old1: "on_db (category_by_id (trim i)) w = (Inr old, w1)"
    and rest: "bindp (getp (\<lambda>w. pd_clock (kw_db w))) (\<lambda>now. ?save (patched_category now c old)) w1 = (Inr k, w')"
    using assms(1) unfolding update_category_service_def Let_def
    by (auto simp only: bindp_Inr_iff[of "mapped_errors m" for m] mapped_errors_Inr throw_Inr_iff split: if_splits)
  have "w1 = w" using old1 readonlyD[OF readonly_category_by_id] by (fastforce simp: on_db_Inr put_catalog_def)
  with old1 have old: "on_db (category_by_id (trim i)) w = (Inr old, w)" by simp
  from rest \<open>w1 = w\<close> have save: "?save (patched_category (pd_clock (kw_db w)) c old) w = (Inr k, w')" by (simp add: bindp_apply getp_apply)
  have k: "k = patched_category (pd_clock (kw_db w)) c old" "category_validate k = None"
    and up: "\<exists>w2. on_db (category_update k) w = (Inr (), w2) \<and> kw_db w' = kw_db w2"
    using save by (auto simp: prog_Inr_iffs mapped_errors_Inr trigger_refresh_def)
  have found: "category_by_id (trim i) (kw_db w) = (Inr old, kw_db w)"
    using old readonlyD[OF readonly_category_by_id] by (fastforce simp: on_db_Inr)
  then obtain r where r: "find (\<lambda>r. live_category r \<and> yr_id r = trim i) (pd_categories (kw_db w)) = Some r"
      "load_category r (kw_db w) = (Inr old, kw_db w)"
    unfolding category_by_id_ok(1)[OF assms(2)] by (simp split: option.splits)
  have "yr_id r = trim i" using r(1) by (auto simp: find_Some_iff)
  then have same: "ca_id old = trim i" "ca_parent_id old = yr_parent_id r"
    using category_by_id_ok(2)[OF assms(2), of r] r(2) by simp_all
  have fields: "ca_id k = ca_id old" "ca_parent_id k = given (ku_parent_id c) (ca_parent_id old)"
    by (simp_all add: k(1) patched_category_def category_normalize_def)
  obtain d' where d': "category_update k (kw_db w) = (Inr (), d')" "kw_db w' = d'"
    using up by (auto simp: on_db_Inr)
  show thesis by (rule that[OF r(1) _ k(2) _ d' i]) (simp_all add: fields same)
qed

lemma adopted_listing_hangs:
  assumes "catalog_ok (kw_db w)" "working (kw_db w)"
    and "update_category_service i c w = (Inr k, w')" "ku_parent_id c = Some (Some p)"
    and "p \<in> below (child_ids (kw_db w)) (trim i)" "ca_include_children k"
  shows "fst (list_category_products dec \<lparr>pq_category_id = i, pq_page = n, pq_page_size = m\<rparr> w') = Inr None"
proof -
  obtain r d' where r: "find (\<lambda>r. live_category r \<and> yr_id r = trim i) (pd_categories (kw_db w)) = Some r"
    and k: "ca_id k = trim i" "category_validate k = None" "ca_parent_id k = Some p"
    and up: "category_update k (kw_db w) = (Inr (), d')" "kw_db w' = d'" "trim i \<noteq> []"
    by (rule update_category_Inr[OF assms(3,2)]) (use assms(4) in \<open>simp add: given_def\<close>)
  note cats = category_update_result[OF up(1)]
  have row: "r \<in> set (pd_categories (kw_db w))" "live_category r" "yr_id r = ca_id k"
    using r k(1) by (auto simp: find_Some_iff)
  have "p \<noteq> ca_id k" using k up(3) by (auto simp: category_validate_def split: if_splits)
  then have cyc: "cyclic_below (child_ids d') (ca_id k)"
    using adopted_cycle[OF cats(1) row k(3)] assms(5) k(1) by simp
  have ok: "catalog_ok (kw_db w')"
    using catalog_call_keeps[OF assms(1), of "\<lambda>_. None" "\<lambda>_. None" "UpdateCategory i c"] assms(3)
    by (simp add: catalog_call_def state_after_def)
  have works: "working (kw_db w')" using cats(2) up(2) assms(2) by simp
  have P: "(\<lambda>x. live_category (reparent k x) \<and> yr_id (reparent k x) = trim i) = (\<lambda>x. live_category x \<and> yr_id x = trim i)"
    by (auto simp: reparent_def live_category_def)
  have "find (\<lambda>r. live_category r \<and> yr_id r = trim i) (pd_categories d') = Some (reparent k r)"
    by (simp add: cats(1) find_map P r)
  moreover obtain k' where "load_category (reparent k r) d' = (Inr k', d')" "ca_id k' = trim i" "ca_include_children k'"
    using category_by_id_ok(2)[of d' "reparent k r"] works up(2) row k(1) assms(6) by (auto simp: reparent_def)
  ultimately have "category_by_id (trim i) d' = (Inr k', d')" "ca_id k' = trim i" "ca_include_children k'"
    using category_by_id_ok(1)[of d' "trim i"] works up(2) by simp_all
  then have "fst (get_category i w') = Inr k' \<and> ca_include_children k' \<and> cyclic_below (child_ids (kw_db w')) (ca_id k')"
    using up cyc k(1) by (simp add: get_category_def mapped_errors_def prog_simps through_def)
  then show ?thesis using listing_returns_iff[OF ok works, of dec "\<lparr>pq_category_id = i, pq_page = n, pq_page_size = m\<rparr>"] by auto
qed

subsection \<open>The update is accepted\<close>

text \<open>Rows written for the relations of a category, once the old ones are gone.\<close>

lemma insert_pairs_work:
  assumes lens: "\<And>f d. get (upd f d) = f (get d)" "\<And>f d. pd_fault (upd f d) = pd_fault d" "\<And>n d. get (d\<lparr>pd_next := n\<rparr>) = get d"
  shows "working d \<Longrightarrow> distinct (map trim vs) \<Longrightarrow> \<forall>r \<in> set (get d). ln_owner r = owner \<longrightarrow> ln_value r \<notin> trim ` set vs
    \<Longrightarrow> \<exists>d'. each (insert_pair l get upd owner) (enumerate n vs) d = (Inr (), d') \<and> working d'"
proof (induction vs arbitrary: d n)
  case (Cons v vs)
  show ?case
  proof (cases "trim v = []")
    case True
    then show ?thesis using Cons.IH[of d "Suc n"] Cons.prems by (simp add: insert_pair_def prog_simps)
  next
    case False
    define d1 where "d1 = upd (\<lambda>t. t @ [\<lparr>ln_id = pd_next d, ln_owner = owner, ln_position = int n, ln_value = trim v\<rparr>])
      (d\<lparr>pd_next := Suc (pd_next d)\<rparr>)"
    have ins: "insert_pair l get upd owner (n, v) d = (Inr (), d1)"
      using False Cons.prems by (auto simp: insert_pair_def insert_link_def insert_row_def pstmt_def prog_simps d1_def)
    have "working d1" "\<forall>r \<in> set (get d1). ln_owner r = owner \<longrightarrow> ln_value r \<notin> trim ` set vs"
      using Cons.prems by (auto simp: d1_def lens)
    then show ?thesis using Cons.IH[of d1 "Suc n"] Cons.prems(2) ins by (simp add: bindp_apply)
  qed
qed (simp add: ret_apply)

lemma insert_refs_work: "working d \<Longrightarrow> distinct (map trim vs) \<Longrightarrow> \<forall>r \<in> set (pd_refs d). fr_category_id r = cid \<longrightarrow> fr_ref r \<notin> trim ` set vs
    \<Longrightarrow> \<exists>d'. each (insert_ref cid) vs d = (Inr (), d') \<and> working d'"
proof (induction vs arbitrary: d)
  case (Cons v vs)
  show ?case
  proof (cases "trim v = []")
    case True
    then show ?thesis using Cons.IH[of d] Cons.prems by (simp add: insert_ref_def prog_simps)
  next
    case False
    define d1 where "d1 = d\<lparr>pd_next := Suc (pd_next d), pd_refs := pd_refs d @ [\<lparr>fr_id = pd_next d, fr_category_id = cid, fr_ref = trim v\<rparr>]\<rparr>"
    have ins: "insert_ref cid v d = (Inr (), d1)"
      using False Cons.prems by (auto simp: insert_ref_def insert_row_def pstmt_def prog_simps d1_def)
    have "working d1" "\<forall>r \<in> set (pd_refs d1). fr_category_id r = cid \<longrightarrow> fr_ref r \<notin> trim ` set vs"
      using Cons.prems by (auto simp: d1_def)
    then show ?thesis using Cons.IH[of d1] Cons.prems(2) ins by (simp add: bindp_apply)
  qed
qed (simp add: ret_apply)

definition unrepeated :: "category \<Rightarrow> bool" where
  "unrepeated k \<longleftrightarrow> distinct (map trim (cf_tags (ca_filter k))) \<and> distinct (map trim (cf_refs (ca_filter k)))
     \<and> distinct (map trim (ca_product_ids k))"

lemma change_works: "working d \<Longrightarrow> change l f d = (Inr (), f d)"
  by (simp add: change_def pstmt_def prog_simps)

lemma replace_relations_work:
  assumes "working d" "unrepeated k"
  shows "\<exists>d'. replace_category_relations cid k d = (Inr (), d')"
proof -
  note dist = assms(2)[unfolded unrepeated_def]
  let ?d1 = "pd_filter_tags_update (filter (\<lambda>r. ln_owner r \<noteq> cid)) d"
  have "\<exists>d2. each (insert_pair ''create category filter tag'' pd_filter_tags pd_filter_tags_update cid) (enumerate 0 (cf_tags (ca_filter k))) ?d1
      = (Inr (), d2) \<and> working d2"
    using assms(1) dist by (intro insert_pairs_work) simp_all
  then obtain d2 where d2: "each (insert_pair ''create category filter tag'' pd_filter_tags pd_filter_tags_update cid)
      (enumerate 0 (cf_tags (ca_filter k))) ?d1 = (Inr (), d2)" "working d2" by blast
  let ?d3 = "pd_price_ranges_update (filter (\<lambda>r. xr_category_id r \<noteq> cid)) d2"
  let ?range = "case cf_price_range (ca_filter k) of None \<Rightarrow> ret ()
       | Some p \<Rightarrow> bindp (insert_row ''create category price range'' (\<lambda>k. pd_price_ranges_update (\<lambda>t. t @
           [\<lparr>xr_id = k, xr_category_id = cid, xr_min = pr_min p, xr_max = pr_max p\<rparr>]))) (\<lambda>_. ret ())"
  have "\<exists>d4. ?range ?d3 = (Inr (), d4) \<and> working d4"
    using d2(2) by (auto simp: insert_row_def pstmt_def prog_simps split: option.split)
  then obtain d4 where d4: "?range ?d3 = (Inr (), d4)" "working d4" by blast
  let ?d5 = "pd_refs_update (filter (\<lambda>r. fr_category_id r \<noteq> cid)) d4"
  obtain d6 where d6: "each (insert_ref cid) (cf_refs (ca_filter k)) ?d5 = (Inr (), d6)" "working d6"
    using insert_refs_work[of ?d5 "cf_refs (ca_filter k)" cid] d4(2) dist by auto
  let ?d7 = "pd_category_products_update (filter (\<lambda>r. ln_owner r \<noteq> cid)) d6"
  have "\<exists>d8. each (insert_pair ''create category product'' pd_category_products pd_category_products_update cid) (enumerate 0 (ca_product_ids k)) ?d7
      = (Inr (), d8) \<and> working d8"
    using d6(2) dist by (intro insert_pairs_work) simp_all
  then show ?thesis
    using assms(1) d2 d4 d6 unfolding replace_category_relations_def by (auto simp: bindp_apply change_works)
qed

text \<open>The update that changes the parent and nothing else, of a category as the service stores them.\<close>

definition only_parent :: "string \<Rightarrow> category_update_command" where
  "only_parent p = \<lparr>ku_slug = None, ku_name = None, ku_description = None, ku_parent_id = Some (Some p), ku_include_children = None,
     ku_filter_tags = None, ku_price_range = None, ku_refs = None, ku_product_ids = None\<rparr>"

definition well_formed :: "category \<Rightarrow> bool" where
  "well_formed k \<longleftrightarrow> category_normalize k = k \<and> ca_slug k \<noteq> [] \<and> ca_name k \<noteq> [] \<and> unrepeated k"

lemma only_parent_patch:
  assumes "well_formed old"
  shows "patched_category now (only_parent p) old = old\<lparr>ca_parent_id := Some p, ca_updated_at := now\<rparr>"
proof -
  note norm = assms[unfolded well_formed_def, THEN conjunct1, unfolded category_normalize_def]
  have fields: "trim (ca_slug old) = ca_slug old" "trim (ca_name old) = ca_name old" "trim (ca_description old) = ca_description old"
      "map trim (cf_tags (ca_filter old)) = cf_tags (ca_filter old)" "map trim (cf_refs (ca_filter old)) = cf_refs (ca_filter old)"
      "map trim (ca_product_ids old) = ca_product_ids old"
    using arg_cong[OF norm, of ca_slug] arg_cong[OF norm, of ca_name] arg_cong[OF norm, of ca_description]
      arg_cong[OF norm, of "\<lambda>k. cf_tags (ca_filter k)"] arg_cong[OF norm, of "\<lambda>k. cf_refs (ca_filter k)"]
      arg_cong[OF norm, of ca_product_ids] by simp_all
  show ?thesis
    by (intro category.equality) (simp_all add: patched_category_def category_normalize_def only_parent_def given_def fields)
qed

lemma load_category_fields: "working d \<Longrightarrow> load_category r d = (Inr k, d') \<Longrightarrow> d' = d \<and> ca_id k = yr_id r \<and> ca_slug k = yr_slug r"
  by (auto simp: load_category_def Let_def prog_simps select_working)

lemma only_parent_accepted:
  assumes "catalog_ok (kw_db w)" "working (kw_db w)" "get_category i w = (Inr old, w)" "well_formed old" "trim p \<noteq> trim i"
  shows "\<exists>k w'. update_category_service i (only_parent p) w = (Inr k, w') \<and> ca_include_children k = ca_include_children old"
proof -
  let ?d = "kw_db w"
  let ?k = "old\<lparr>ca_parent_id := Some p, ca_updated_at := pd_clock ?d\<rparr>"
  have i: "trim i \<noteq> []" and old: "on_db (category_by_id (trim i)) w = (Inr old, w)"
    using assms(3) by (auto simp: get_category_def mapped_errors_Inr throw_Inr_iff split: if_splits)
  then have "category_by_id (trim i) ?d = (Inr old, ?d)"
    using readonlyD[OF readonly_category_by_id] by (fastforce simp: on_db_Inr)
  then obtain r where r: "find (\<lambda>r. live_category r \<and> yr_id r = trim i) (pd_categories ?d) = Some r" "load_category r ?d = (Inr old, ?d)"
    unfolding category_by_id_ok(1)[OF assms(2)] by (simp split: option.splits)
  then have row: "r \<in> set (pd_categories ?d)" "live_category r" "yr_id r = trim i" by (auto simp: find_Some_iff)
  have fields: "ca_id old = trim i" "ca_slug old = yr_slug r" using load_category_fields[OF assms(2) r(2)] row by simp_all
  have "distinct (map yr_slug (pd_categories ?d))" using assms(1) by (simp add: catalog_ok_def keys_ok_def)
  then have slug: "x = r" if "x \<in> set (pd_categories ?d)" "yr_slug x = yr_slug r" for x
    using that row(1) by (auto simp: distinct_map inj_on_def)
  have valid: "category_validate ?k = None"
    using assms(4,5) fields by (auto simp: category_validate_def well_formed_def category_normalize_def
        dest: arg_cong[where f = ca_slug] arg_cong[where f = ca_name])
  have hit: "list_ex (\<lambda>r. live_category r \<and> yr_id r = ca_id ?k) (pd_categories ?d)" using row fields by (auto simp: list_ex_iff)
  have free: "\<not> (\<exists>x \<in> set (pd_categories ?d). yr_slug x = ca_slug ?k \<and> \<not> (live_category x \<and> yr_id x = ca_id ?k))"
    using slug row fields by auto
  obtain d1 where d1: "update_category ?k ?d = (Inr (), d1)" "working d1"
    using assms(2) by (simp only: update_category_def pstmt_def Let_def hit free if_True if_False not_True_eq_False) simp
  have "unrepeated ?k" using assms(4) by (simp add: well_formed_def unrepeated_def)
  then obtain d2 where "replace_category_relations (ca_id ?k) ?k d1 = (Inr (), d2)" using replace_relations_work[OF d1(2)] by blast
  then have "category_update ?k ?d = (Inr (), d2)" using d1 by (simp add: category_update_def atomically_apply bindp_apply)
  then have up: "mapped_errors (on_db (category_update ?k)) w = (Inr (), put_catalog d2 w)"
    by (simp add: mapped_errors_Inr on_db_Inr)
  obtain w2 where w2: "trigger_refresh (put_catalog d2 w) = (Inr (), w2)" by (auto simp: trigger_refresh_def prog_simps)
  have "update_category_service i (only_parent p) w = (Inr ?k, w2)"
    using i old up w2 valid only_parent_patch[OF assms(4), of "pd_clock ?d" p]
    by (simp add: update_category_service_def bindp_apply mapped_errors_Inr[THEN iffD2] getp_apply Let_def guard_err_apply ret_apply)
  then show ?thesis by fastforce
qed

text \<open>C30: An update that gives a category one of its own descendants as parent, and changes nothing else, is accepted
  while the database works, and every later listing of the products of that category with its descendants never returns.\<close>

theorem adopted_by_descendant_never_returns:
  assumes "catalog_ok (kw_db w)" "working (kw_db w)"
    and "get_category i w = (Inr old, w)" "well_formed old" "ca_include_children old"
    and "p \<in> below (child_ids (kw_db w)) (trim i)" "trim p \<noteq> trim i"
  shows "\<exists>k w'. update_category_service i (only_parent p) w = (Inr k, w')
    \<and> (\<forall>dec n m. fst (list_category_products dec \<lparr>pq_category_id = i, pq_page = n, pq_page_size = m\<rparr> w') = Inr None)"
proof -
  obtain k w' where k: "update_category_service i (only_parent p) w = (Inr k, w')" "ca_include_children k"
    using only_parent_accepted[OF assms(1-4,7)] assms(5) by auto
  have "ku_parent_id (only_parent p) = Some (Some p)" by (simp add: only_parent_def)
  from adopted_listing_hangs[OF assms(1,2) k(1) this assms(6) k(2)] k(1) show ?thesis by blast
qed

text \<open>C26: Whatever calls the products module serves and whichever statements fail, every tag a product carries
  stays a live tag of the registry and is carried once, names of tags are unique, tag correlations stay ordered,
  unrepeated and within 0 and 100, and identifiers, SKUs and slugs stay unique. In particular a deleted tag is taken
  off every product, as the comment at \<^verbatim>\<open>SoftDelete\<close> says, while the documentation of the products module says that
  soft-deleted tags remain on existing products.\<close>

theorem catalog_stays_ok:
  assumes "catalog_ok (kw_db w)"
  shows "catalog_ok (kw_db (catalog_calls enc dec cs w))"
  using assms by (rule catalog_calls_keep)

section \<open>A small catalog\<close>

definition sample_row :: "string \<Rightarrow> string option \<Rightarrow> gotime \<Rightarrow> category_row" where
  "sample_row i parent t = \<lparr>yr_id = i, yr_slug = i, yr_name = i, yr_description = [], yr_parent_id = parent,
     yr_include_children = True, yr_created_at = t, yr_updated_at = t, yr_deleted_at = None\<rparr>"

definition sample_catalog :: products_db where
  "sample_catalog = \<lparr>pd_products = [], pd_gallery = [], pd_realms = [], pd_gallery_variations = [], pd_datasheets = [],
     pd_attributes = [], pd_links = [], pd_variants = [], pd_variant_variations = [], pd_product_tags = [], pd_tags = [],
     pd_correlations = [], pd_variations = [], pd_categories = [sample_row ''a'' None 1, sample_row ''b'' (Some ''a'') 2],
     pd_filter_tags = [], pd_price_ranges = [], pd_refs = [], pd_category_products = [], pd_next = 1, pd_clock = 3,
     pd_random = (\<lambda>n. replicate (Suc n) CHR ''p''), pd_drawn = 0, pd_fault = (\<lambda>_. False), pd_dup_message = (\<lambda>_. [])\<rparr>"

definition sample_world :: catalog_world where
  "sample_world = \<lparr>kw_db = sample_catalog, kw_asset = (\<lambda>_. Some True), kw_order = (\<lambda>xs. xs), kw_registrar = True,
     kw_refresher = False, kw_refreshes = 0\<rparr>"

abbreviation adoption :: category_update_command where
  "adoption \<equiv> only_parent ''b''"

lemma sample_ok: "catalog_ok (kw_db sample_world)" "working (kw_db sample_world)"
  by (simp_all add: sample_world_def sample_catalog_def sample_row_def catalog_ok_def tags_ok_def correlations_ok_def keys_ok_def)

lemma trim_letters [simp]: "trim ''a'' = ''a''" "trim ''b'' = ''b''"
  by code_simp+

lemma sample_below: "below (child_ids sample_catalog) ''a'' = {''b''}" "below (child_ids sample_catalog) ''b'' = {}"
proof -
  have ids: "child_ids sample_catalog ''a'' = [''b'']" "child_ids sample_catalog ''b'' = []"
    by (simp_all add: child_ids_def sample_catalog_def sample_row_def live_category_def)
  show "below (child_ids sample_catalog) ''b'' = {}" by (subst below_unfold) (simp add: ids)
  then show "below (child_ids sample_catalog) ''a'' = {''b''}" by (subst below_unfold) (simp add: ids)
qed

theorem category_listing_returns_witness:
  "fst (list_category_products (\<lambda>_. None) \<lparr>pq_category_id = ''a'', pq_page = 1, pq_page_size = 10\<rparr> sample_world) \<noteq> Inr None"
proof -
  have "ca_id k = ''a''" if "fst (get_category ''a'' sample_world) = Inr k" for k
  proof -
    have "fst (category_by_id ''a'' (kw_db sample_world)) = Inr k"
      using that by (auto simp: get_category_def mapped_errors_def prog_simps through_def split: prod.splits sum.splits)
    then obtain r where "yr_id r = ''a''" "fst (load_category r (kw_db sample_world)) = Inr k"
      using category_by_id_ok(1)[OF sample_ok(2), where i = "''a''"] by (auto simp: find_Some_iff split: option.splits)
    then show ?thesis using category_by_id_ok(2)[OF sample_ok(2), of r] by auto
  qed
  then show ?thesis
    using category_listing_returns[OF sample_ok, of "\<lambda>_. None" "\<lparr>pq_category_id = ''a'', pq_page = 1, pq_page_size = 10\<rparr>"]
      sample_below by (auto simp: cyclic_below_def sample_world_def)
qed

lemma sample_category: "\<exists>old. get_category ''a'' sample_world = (Inr old, sample_world) \<and> well_formed old \<and> ca_include_children old"
  by (simp add: get_category_def prog_simps mapped_errors_def through_def put_catalog_def category_by_id_def find_category_def
      select_all_def pstmt_def load_category_def Let_def sample_world_def sample_catalog_def sample_row_def live_category_def
      link_values_def links_of_def well_formed_def unrepeated_def category_normalize_def)

theorem adopted_by_descendant_never_returns_witness:
  "\<exists>k w'. update_category_service ''a'' adoption sample_world = (Inr k, w')
     \<and> fst (list_category_products (\<lambda>_. None) \<lparr>pq_category_id = ''a'', pq_page = 1, pq_page_size = 10\<rparr> w') = Inr None"
proof -
  obtain old where "get_category ''a'' sample_world = (Inr old, sample_world)" "well_formed old" "ca_include_children old"
    using sample_category by blast
  moreover have "''b'' \<in> below (child_ids (kw_db sample_world)) (trim ''a'')" using sample_below by (simp add: sample_world_def)
  ultimately show ?thesis
    using adopted_by_descendant_never_returns[OF sample_ok, of "''a''" _ "''b''"] by fastforce
qed

theorem catalog_stays_ok_witness:
  "catalog_ok (kw_db (catalog_calls (\<lambda>_. None) (\<lambda>_. None) [EnsureTags [''new''], UpdateCategory ''a'' adoption, DeleteTag ''new''] sample_world))"
  by (rule catalog_stays_ok[OF sample_ok(1)])

end
