(* ===== verification/Products_Roundtrip.thy ===== *)
theory Products_Roundtrip
  imports Products_Calls
begin

text \<open>
  What a stored product reads back as: the effect of writing its relations, statement by statement, and
  the round trip of a creation.
\<close>

section \<open>Links\<close>

text \<open>The functions that update one table of strings.\<close>

definition table_upd :: "((('o, string) link list \<Rightarrow> ('o, string) link list) \<Rightarrow> products_db \<Rightarrow> products_db) \<Rightarrow> bool" where
  "table_upd upd \<longleftrightarrow> (\<forall>f d n. upd f (d\<lparr>pd_next := n\<rparr>) = (upd f d)\<lparr>pd_next := n\<rparr>)
     \<and> (\<forall>f g d. upd f (upd g d) = upd (\<lambda>t. f (g t)) d) \<and> (\<forall>d. upd (\<lambda>t. t) d = d)
     \<and> (\<forall>f d. pd_next (upd f d) = pd_next d \<and> pd_fault (upd f d) = pd_fault d)"

lemma tables [simp]: "table_upd pd_realms_update" "table_upd pd_gallery_variations_update" "table_upd pd_links_update"
  "table_upd pd_variants_update" "table_upd pd_variant_variations_update"
  by (simp_all add: table_upd_def comp_def)

definition link_rows :: "'o \<Rightarrow> nat \<Rightarrow> nat \<Rightarrow> string list \<Rightarrow> ('o, string) link list" where
  "link_rows owner k i vs = map (\<lambda>(j, v). \<lparr>ln_id = k + j, ln_owner = owner, ln_position = int (i + j), ln_value = trim v\<rparr>) (enumerate 0 vs)"

lemma link_rows_Cons: "link_rows owner k i (v # vs)
    = \<lparr>ln_id = k, ln_owner = owner, ln_position = int i, ln_value = trim v\<rparr> # link_rows owner (Suc k) (Suc i) vs"
proof -
  have "enumerate (Suc 0) vs = map (\<lambda>(j, x). (Suc j, x)) (enumerate 0 vs)"
    by (rule nth_equalityI) (simp_all add: nth_enumerate_eq)
  then show ?thesis by (simp add: link_rows_def case_prod_unfold comp_def)
qed

lemma insert_link_works:
  assumes "working d"
  shows "insert_link l upd owner (i, v) d = (Inr (pd_next d),
    upd (\<lambda>t. t @ [\<lparr>ln_id = pd_next d, ln_owner = owner, ln_position = int i, ln_value = trim v\<rparr>]) (d\<lparr>pd_next := Suc (pd_next d)\<rparr>))"
  using assms by (simp add: insert_link_def insert_row_def pstmt_def)

lemma insert_links_works:
  assumes "table_upd upd" "working d"
  shows "insert_links l upd owner vs d =
    (Inr (), upd (\<lambda>t. t @ link_rows owner (pd_next d) 0 vs) (d\<lparr>pd_next := pd_next d + length vs\<rparr>))"
proof -
  have "each (\<lambda>iv. bindp (insert_link l upd owner iv) (\<lambda>_. ret ())) (enumerate i vs) d =
      (Inr (), upd (\<lambda>t. t @ link_rows owner (pd_next d) i vs) (d\<lparr>pd_next := pd_next d + length vs\<rparr>))" for i
    using assms(2)
  proof (induction vs arbitrary: i d)
    case Nil
    then show ?case using assms(1) by (simp add: table_upd_def link_rows_def prog_simps)
  next
    case (Cons v vs)
    let ?d = "upd (\<lambda>t. t @ [\<lparr>ln_id = pd_next d, ln_owner = owner, ln_position = int i, ln_value = trim v\<rparr>]) (d\<lparr>pd_next := Suc (pd_next d)\<rparr>)"
    have nx: "pd_next ?d = Suc (pd_next d)" "working ?d" using assms(1) Cons.prems by (auto simp: table_upd_def)
    show ?case
      using Cons.IH[OF nx(2)] assms(1) Cons.prems nx
      by (simp add: prog_simps insert_link_works link_rows_Cons) (simp add: table_upd_def)
  qed
  then show ?thesis by (simp add: insert_links_def)
qed

lemma link_rows_owner: "r \<in> set (link_rows owner k i vs) \<Longrightarrow> ln_owner r = owner"
  by (auto simp: link_rows_def)

lemma link_values_rows: "link_values owner (link_rows owner k i vs) = map trim vs"
proof -
  have f: "filter (\<lambda>r. ln_owner r = owner) (link_rows owner k i vs) = link_rows owner k i vs"
    by (simp add: filter_id_conv link_rows_owner)
  have "sorted (map ln_position (link_rows owner k i vs))"
    by (auto simp: sorted_iff_nth_mono link_rows_def nth_enumerate_eq)
  then have "links_of owner (link_rows owner k i vs) = link_rows owner k i vs"
    unfolding links_of_def f by (rule sort_key_id_if_sorted)
  moreover have "map ln_value (link_rows owner k i vs) = map trim (map snd (enumerate 0 vs))"
    by (simp add: link_rows_def case_prod_unfold comp_def del: map_snd_enumerate)
  ultimately show ?thesis by (simp add: link_values_def)
qed

lemma link_values_append_other: "owner \<noteq> owner' \<Longrightarrow> link_values owner (t @ link_rows owner' k i vs) = link_values owner t"
  by (simp add: link_values_def links_of_def filter_False link_rows_owner)

lemma link_values_append_new:
  assumes "\<forall>r \<in> set t. ln_owner r < (owner :: nat)"
  shows "link_values owner (t @ link_rows owner k i vs) = map trim vs"
proof -
  have "filter (\<lambda>r. ln_owner r = owner) t = []" using assms by (auto simp: filter_empty_conv)
  then show ?thesis using link_values_rows[of owner k i vs] by (simp add: link_values_def links_of_def)
qed

section \<open>Galleries\<close>

text \<open>All generated keys that occur, as a key or as an owner, are below the supply.\<close>

definition fresh_keys :: "products_db \<Rightarrow> bool" where
  "fresh_keys d \<longleftrightarrow> (\<forall>r \<in> set (pd_gallery d). gr_id r < pd_next d) \<and> (\<forall>r \<in> set (pd_realms d). ln_owner r < pd_next d)
     \<and> (\<forall>r \<in> set (pd_gallery_variations d). ln_owner r < pd_next d)
     \<and> (\<forall>r \<in> set (pd_datasheets d). dw_id r < pd_next d) \<and> (\<forall>r \<in> set (pd_attributes d). aw_datasheet_id r < pd_next d)
     \<and> (\<forall>r \<in> set (pd_variants d). ln_id r < pd_next d) \<and> (\<forall>r \<in> set (pd_variant_variations d). ln_owner r < pd_next d)
     \<and> sorted_wrt (<) (map gr_id (pd_gallery d))"

definition item_view :: "products_db \<Rightarrow> gallery_row \<Rightarrow> gallery_item" where
  "item_view d r = \<lparr>gi_asset_id = gr_asset_id r, gi_position = Some (gr_position r), gi_variation_position = gr_variation_position r,
     gi_is_main = gr_is_main r, gi_included_realms = link_values (gr_id r) (pd_realms d),
     gi_variation_ids = link_values (gr_id r) (pd_gallery_variations d)\<rparr>"

definition gallery_view :: "string \<Rightarrow> products_db \<Rightarrow> gallery_item list" where
  "gallery_view pid d = map (item_view d) (filter (\<lambda>r. gr_product_id r = pid) (pd_gallery d))"

text \<open>The stored form of item \<open>i\<close>: a missing position is the index, and a variation position needs variations.\<close>

definition stored_item :: "nat \<times> gallery_item \<Rightarrow> gallery_item" where
  "stored_item ig = (case ig of (i, g) \<Rightarrow> \<lparr>gi_asset_id = trim (gi_asset_id g), gi_position = Some (gallery_position (gi_position g) (int i)),
     gi_variation_position = gallery_variation_position (gi_variation_position g) (gi_variation_ids g \<noteq> []),
     gi_is_main = gi_is_main g, gi_included_realms = map trim (gi_included_realms g), gi_variation_ids = map trim (gi_variation_ids g)\<rparr>)"

lemma create_gallery_item_works:
  assumes "working d" "fresh_keys d"
  shows "\<exists>a b c n. create_gallery_item pid ig d = (Inr (), d\<lparr>pd_gallery := a, pd_realms := b, pd_gallery_variations := c, pd_next := n\<rparr>)
    \<and> fresh_keys (d\<lparr>pd_gallery := a, pd_realms := b, pd_gallery_variations := c, pd_next := n\<rparr>) \<and> pd_next d \<le> n
    \<and> gallery_view (trim pid) (d\<lparr>pd_gallery := a, pd_realms := b, pd_gallery_variations := c, pd_next := n\<rparr>)
        = gallery_view (trim pid) d @ [stored_item ig]"
proof -
  obtain i g where ig: "ig = (i, g)" by (cases ig)
  let ?k = "pd_next d"
  let ?row = "\<lparr>gr_id = ?k, gr_product_id = trim pid, gr_position = gallery_position (gi_position g) (int i),
    gr_variation_position = gallery_variation_position (gi_variation_position g) (gi_variation_ids g \<noteq> []),
    gr_asset_id = trim (gi_asset_id g), gr_is_main = gi_is_main g\<rparr>"
  let ?n1 = "Suc ?k + length (gi_included_realms g)"
  let ?n2 = "?n1 + length (gi_variation_ids g)"
  let ?a = "pd_gallery d @ [?row]" and ?b = "pd_realms d @ link_rows ?k (Suc ?k) 0 (gi_included_realms g)"
    and ?c = "pd_gallery_variations d @ link_rows ?k ?n1 0 (gi_variation_ids g)"
  let ?d = "d\<lparr>pd_gallery := ?a, pd_realms := ?b, pd_gallery_variations := ?c, pd_next := ?n2\<rparr>"
  have run: "create_gallery_item pid ig d = (Inr (), ?d)"
    using assms(1) by (simp add: create_gallery_item_def ig prog_simps insert_row_def pstmt_def insert_links_works)
  have fresh: "fresh_keys ?d"
    using assms(2) by (auto simp: fresh_keys_def sorted_wrt_append less_Suc_eq_le dest!: link_rows_owner)
  have old: "item_view ?d r = item_view d r" if "r \<in> set (pd_gallery d)" for r
    using that assms(2) by (auto simp: item_view_def fresh_keys_def link_values_append_other)
  have new: "item_view ?d ?row = stored_item ig"
    using assms(2) by (auto simp: item_view_def stored_item_def ig link_values_append_new fresh_keys_def)
  have "gallery_view (trim pid) ?d = gallery_view (trim pid) d @ [stored_item ig]"
    using old new by (simp add: gallery_view_def)
  with run fresh show ?thesis by (intro exI[of _ ?a] exI[of _ ?b] exI[of _ ?c] exI[of _ ?n2]) simp
qed

lemma create_gallery_works:
  assumes "working d" "fresh_keys d"
  shows "\<exists>a b c n. create_gallery pid gs d = (Inr (), d\<lparr>pd_gallery := a, pd_realms := b, pd_gallery_variations := c, pd_next := n\<rparr>)
    \<and> fresh_keys (d\<lparr>pd_gallery := a, pd_realms := b, pd_gallery_variations := c, pd_next := n\<rparr>) \<and> pd_next d \<le> n
    \<and> gallery_view (trim pid) (d\<lparr>pd_gallery := a, pd_realms := b, pd_gallery_variations := c, pd_next := n\<rparr>)
        = gallery_view (trim pid) d @ map stored_item (enumerate 0 gs)"
proof -
  have "\<exists>a b c n. each (create_gallery_item pid) igs d = (Inr (), d\<lparr>pd_gallery := a, pd_realms := b, pd_gallery_variations := c, pd_next := n\<rparr>)
    \<and> fresh_keys (d\<lparr>pd_gallery := a, pd_realms := b, pd_gallery_variations := c, pd_next := n\<rparr>) \<and> pd_next d \<le> n
    \<and> gallery_view (trim pid) (d\<lparr>pd_gallery := a, pd_realms := b, pd_gallery_variations := c, pd_next := n\<rparr>)
        = gallery_view (trim pid) d @ map stored_item igs" for igs
    using assms
  proof (induction igs arbitrary: d)
    case Nil
    have "d = d\<lparr>pd_gallery := pd_gallery d, pd_realms := pd_realms d, pd_gallery_variations := pd_gallery_variations d, pd_next := pd_next d\<rparr>" by simp
    then show ?case using Nil by (intro exI[of _ "pd_gallery d"] exI[of _ "pd_realms d"] exI[of _ "pd_gallery_variations d"] exI[of _ "pd_next d"])
        (simp add: prog_simps)
  next
    case (Cons ig igs)
    obtain a b c n where one: "create_gallery_item pid ig d = (Inr (), d\<lparr>pd_gallery := a, pd_realms := b, pd_gallery_variations := c, pd_next := n\<rparr>)"
      "fresh_keys (d\<lparr>pd_gallery := a, pd_realms := b, pd_gallery_variations := c, pd_next := n\<rparr>)" "pd_next d \<le> n"
      "gallery_view (trim pid) (d\<lparr>pd_gallery := a, pd_realms := b, pd_gallery_variations := c, pd_next := n\<rparr>)
        = gallery_view (trim pid) d @ [stored_item ig]"
      using create_gallery_item_works[OF Cons.prems] by blast
    from Cons.IH[OF _ one(2)] Cons.prems(1) obtain a' b' c' n' where
      "each (create_gallery_item pid) igs (d\<lparr>pd_gallery := a, pd_realms := b, pd_gallery_variations := c, pd_next := n\<rparr>)
        = (Inr (), d\<lparr>pd_gallery := a', pd_realms := b', pd_gallery_variations := c', pd_next := n'\<rparr>)"
      "fresh_keys (d\<lparr>pd_gallery := a', pd_realms := b', pd_gallery_variations := c', pd_next := n'\<rparr>)" "n \<le> n'"
      "gallery_view (trim pid) (d\<lparr>pd_gallery := a', pd_realms := b', pd_gallery_variations := c', pd_next := n'\<rparr>)
        = gallery_view (trim pid) d @ stored_item ig # map stored_item igs"
      using one(4) by auto
    with one show ?case by (intro exI[of _ a'] exI[of _ b'] exI[of _ c'] exI[of _ n']) (simp add: prog_simps)
  qed
  then show ?thesis by (simp add: create_gallery_def)
qed

section \<open>Datasheets\<close>

text \<open>The JSON encoder gives a text that the decoder reads back.\<close>

definition json_codec :: "(json \<Rightarrow> string option) \<Rightarrow> (string \<Rightarrow> json option) \<Rightarrow> bool" where
  "json_codec enc dec \<longleftrightarrow> (\<forall>v s. enc v = Some s \<longrightarrow> s \<noteq> [] \<and> dec s = Some v)"

definition attributes_of :: "datasheet \<Rightarrow> (string \<times> json) list" where
  "attributes_of s = (case ds_attributes s of None \<Rightarrow> [] | Some a \<Rightarrow> a)"

definition stored_attributes :: "(string \<times> json) list \<Rightarrow> (string \<times> json) list" where
  "stored_attributes a = fold (\<lambda>(k, v). AList.update (trim k) v) a []"

definition attribute_rows :: "(json \<Rightarrow> string option) \<Rightarrow> nat \<Rightarrow> nat \<Rightarrow> (string \<times> json) list \<Rightarrow> attribute_row list" where
  "attribute_rows enc sheet k kvs = map (\<lambda>(j, key, v). \<lparr>aw_id = k + j, aw_datasheet_id = sheet, aw_key = trim key, aw_value = the (enc v)\<rparr>)
     (enumerate 0 kvs)"

lemma attribute_rows_Cons: "attribute_rows enc sheet k ((key, v) # kvs)
    = \<lparr>aw_id = k, aw_datasheet_id = sheet, aw_key = trim key, aw_value = the (enc v)\<rparr> # attribute_rows enc sheet (Suc k) kvs"
proof -
  have "enumerate (Suc 0) kvs = map (\<lambda>(j, x). (Suc j, x)) (enumerate 0 kvs)"
    by (rule nth_equalityI) (simp_all add: nth_enumerate_eq)
  then show ?thesis by (simp add: attribute_rows_def case_prod_unfold comp_def)
qed

lemma attribute_rows_sheet: "r \<in> set (attribute_rows enc sheet k kvs) \<Longrightarrow> aw_datasheet_id r = sheet"
  by (auto simp: attribute_rows_def)

lemma create_attributes_work:
  assumes "working d" "\<forall>(k, v) \<in> set kvs. enc v \<noteq> None"
  shows "each (create_attribute enc sheet) kvs d =
    (Inr (), d\<lparr>pd_attributes := pd_attributes d @ attribute_rows enc sheet (pd_next d) kvs, pd_next := pd_next d + length kvs\<rparr>)"
  using assms
proof (induction kvs arbitrary: d)
  case Nil
  then show ?case by (simp add: prog_simps attribute_rows_def)
next
  case (Cons kv kvs)
  obtain key v where kv: "kv = (key, v)" by (cases kv)
  with Cons.prems obtain s where "enc v = Some s" by auto
  then show ?case
    using Cons kv by (simp add: create_attribute_def prog_simps insert_row_def pstmt_def attribute_rows_Cons)
qed

lemma read_attributes_rows:
  assumes "json_codec enc dec" "\<forall>(k, v) \<in> set kvs. enc v \<noteq> None"
  shows "read_attributes dec (attribute_rows enc sheet k kvs) acc = Some (fold (\<lambda>(k, v). AList.update (trim k) v) kvs acc)"
  using assms(2)
proof (induction kvs arbitrary: k acc)
  case Nil
  then show ?case by (simp add: attribute_rows_def)
next
  case (Cons kv kvs)
  obtain key v where kv: "kv = (key, v)" by (cases kv)
  with Cons.prems obtain s where s: "enc v = Some s" by auto
  then have "s \<noteq> []" "dec s = Some v" using assms(1) by (auto simp: json_codec_def)
  then show ?case using Cons kv s by (simp add: attribute_rows_Cons unmarshal_attribute_def)
qed

definition sheet_rows :: "products_db \<Rightarrow> datasheet_row \<Rightarrow> attribute_row list" where
  "sheet_rows d r = sort_key aw_id (filter (\<lambda>a. aw_datasheet_id a = dw_id r) (pd_attributes d))"

definition sheet_view :: "(string \<Rightarrow> json option) \<Rightarrow> products_db \<Rightarrow> datasheet_row \<Rightarrow> datasheet option" where
  "sheet_view dec d r = map_option (\<lambda>a. \<lparr>ds_realm = dw_realm r, ds_name = dw_name r, ds_description = dw_description r, ds_attributes = Some a\<rparr>)
     (read_attributes dec (sheet_rows d r) [])"

definition sheets_view :: "(string \<Rightarrow> json option) \<Rightarrow> string \<Rightarrow> products_db \<Rightarrow> (int \<times> datasheet option) list" where
  "sheets_view dec pid d = map (\<lambda>r. (dw_position r, sheet_view dec d r)) (filter (\<lambda>r. dw_product_id r = pid) (pd_datasheets d))"

definition stored_sheet :: "datasheet \<Rightarrow> datasheet" where
  "stored_sheet s = \<lparr>ds_realm = trim (ds_realm s), ds_name = trim (ds_name s), ds_description = trim (ds_description s),
     ds_attributes = Some (stored_attributes (attributes_of s))\<rparr>"

lemma sorted_attribute_rows: "sort_key aw_id (attribute_rows enc sheet k kvs) = attribute_rows enc sheet k kvs"
  by (rule sort_key_id_if_sorted) (auto simp: sorted_iff_nth_mono attribute_rows_def nth_enumerate_eq case_prod_unfold)

lemma create_datasheet_works:
  assumes "working d" "fresh_keys d" "json_codec enc dec" "\<forall>(k, v) \<in> set (attributes_of s). enc v \<noteq> None"
  shows "\<exists>a b n. create_datasheet enc pid (i, s) d = (Inr (), d\<lparr>pd_datasheets := a, pd_attributes := b, pd_next := n\<rparr>)
    \<and> fresh_keys (d\<lparr>pd_datasheets := a, pd_attributes := b, pd_next := n\<rparr>) \<and> pd_next d \<le> n
    \<and> sheets_view dec (trim pid) (d\<lparr>pd_datasheets := a, pd_attributes := b, pd_next := n\<rparr>)
        = sheets_view dec (trim pid) d @ [(int i, Some (stored_sheet s))]"
proof -
  let ?k = "pd_next d"
  let ?row = "\<lparr>dw_id = ?k, dw_product_id = trim pid, dw_position = int i, dw_realm = trim (ds_realm s), dw_name = trim (ds_name s),
    dw_description = trim (ds_description s)\<rparr>"
  let ?n = "Suc ?k + length (attributes_of s)"
  let ?a = "pd_datasheets d @ [?row]" and ?b = "pd_attributes d @ attribute_rows enc ?k (Suc ?k) (attributes_of s)"
  let ?d = "d\<lparr>pd_datasheets := ?a, pd_attributes := ?b, pd_next := ?n\<rparr>"
  have run: "create_datasheet enc pid (i, s) d = (Inr (), ?d)"
    using assms(1,4) by (simp add: create_datasheet_def prog_simps insert_row_def pstmt_def create_attributes_work flip: attributes_of_def)
  have fresh: "fresh_keys ?d"
    using assms(2) by (auto simp: fresh_keys_def less_Suc_eq_le dest!: attribute_rows_sheet)
  have old: "sheet_view dec ?d r = sheet_view dec d r" if "r \<in> set (pd_datasheets d)" for r
  proof -
    have "filter (\<lambda>a. aw_datasheet_id a = dw_id r) (attribute_rows enc ?k (Suc ?k) (attributes_of s)) = []"
      using that assms(2) by (auto simp: filter_empty_conv fresh_keys_def dest!: attribute_rows_sheet)
    then show ?thesis by (simp add: sheet_view_def sheet_rows_def)
  qed
  have "filter (\<lambda>a. aw_datasheet_id a = ?k) (pd_attributes d) = []"
    using assms(2) by (auto simp: filter_empty_conv fresh_keys_def)
  then have "sheet_rows ?d ?row = attribute_rows enc ?k (Suc ?k) (attributes_of s)"
    using sorted_attribute_rows[of enc ?k "Suc ?k" "attributes_of s"]
    by (simp add: sheet_rows_def filter_id_conv attribute_rows_sheet)
  then have new: "sheet_view dec ?d ?row = Some (stored_sheet s)"
    using read_attributes_rows[OF assms(3,4)] by (simp add: sheet_view_def stored_sheet_def stored_attributes_def)
  have "sheets_view dec (trim pid) ?d = sheets_view dec (trim pid) d @ [(int i, Some (stored_sheet s))]"
    using old new by (simp add: sheets_view_def)
  with run fresh show ?thesis by (intro exI[of _ ?a] exI[of _ ?b] exI[of _ ?n]) simp
qed

lemma create_datasheets_work:
  assumes "working d" "fresh_keys d" "json_codec enc dec" "\<forall>s \<in> set ss. \<forall>(k, v) \<in> set (attributes_of s). enc v \<noteq> None"
  shows "\<exists>a b n. create_datasheets enc pid ss d = (Inr (), d\<lparr>pd_datasheets := a, pd_attributes := b, pd_next := n\<rparr>)
    \<and> fresh_keys (d\<lparr>pd_datasheets := a, pd_attributes := b, pd_next := n\<rparr>) \<and> pd_next d \<le> n
    \<and> sheets_view dec (trim pid) (d\<lparr>pd_datasheets := a, pd_attributes := b, pd_next := n\<rparr>)
        = sheets_view dec (trim pid) d @ map (\<lambda>(i, s). (int i, Some (stored_sheet s))) (enumerate 0 ss)"
proof -
  have "\<exists>a b n. each (create_datasheet enc pid) iss d = (Inr (), d\<lparr>pd_datasheets := a, pd_attributes := b, pd_next := n\<rparr>)
    \<and> fresh_keys (d\<lparr>pd_datasheets := a, pd_attributes := b, pd_next := n\<rparr>) \<and> pd_next d \<le> n
    \<and> sheets_view dec (trim pid) (d\<lparr>pd_datasheets := a, pd_attributes := b, pd_next := n\<rparr>)
        = sheets_view dec (trim pid) d @ map (\<lambda>(i, s). (int i, Some (stored_sheet s))) iss"
    if "\<forall>x \<in> set iss. \<forall>(k, v) \<in> set (attributes_of (snd x)). enc v \<noteq> None" for iss
    using assms(1,2) that
  proof (induction iss arbitrary: d)
    case Nil
    then show ?case by (intro exI[of _ "pd_datasheets d"] exI[of _ "pd_attributes d"] exI[of _ "pd_next d"]) (simp add: prog_simps)
  next
    case (Cons x iss)
    obtain i s where x: "x = (i, s)" by (cases x)
    obtain a b n where one: "create_datasheet enc pid (i, s) d = (Inr (), d\<lparr>pd_datasheets := a, pd_attributes := b, pd_next := n\<rparr>)"
      "fresh_keys (d\<lparr>pd_datasheets := a, pd_attributes := b, pd_next := n\<rparr>)" "pd_next d \<le> n"
      "sheets_view dec (trim pid) (d\<lparr>pd_datasheets := a, pd_attributes := b, pd_next := n\<rparr>)
        = sheets_view dec (trim pid) d @ [(int i, Some (stored_sheet s))]"
      using create_datasheet_works[OF Cons.prems(1,2) assms(3), of s pid i] Cons.prems(3) x by auto
    from Cons.IH[OF _ one(2)] Cons.prems obtain a' b' n' where
      "each (create_datasheet enc pid) iss (d\<lparr>pd_datasheets := a, pd_attributes := b, pd_next := n\<rparr>)
        = (Inr (), d\<lparr>pd_datasheets := a', pd_attributes := b', pd_next := n'\<rparr>)"
      "fresh_keys (d\<lparr>pd_datasheets := a', pd_attributes := b', pd_next := n'\<rparr>)" "n \<le> n'"
      "sheets_view dec (trim pid) (d\<lparr>pd_datasheets := a', pd_attributes := b', pd_next := n'\<rparr>)
        = sheets_view dec (trim pid) d @ (int i, Some (stored_sheet s)) # map (\<lambda>(i, s). (int i, Some (stored_sheet s))) iss"
      using one(4) by auto
    with one x show ?case by (intro exI[of _ a'] exI[of _ b'] exI[of _ n']) (simp add: prog_simps)
  qed
  moreover have "\<forall>x \<in> set (enumerate 0 ss). \<forall>(k, v) \<in> set (attributes_of (snd x)). enc v \<noteq> None"
    using assms(4) by (auto simp: enumerate_eq_zip dest!: set_zip_rightD)
  ultimately show ?thesis by (simp add: create_datasheets_def)
qed

section \<open>Variants\<close>

definition variant_view :: "products_db \<Rightarrow> variant_row \<Rightarrow> variant" where
  "variant_view d r = \<lparr>va_variation_ids = link_values (ln_id r) (pd_variant_variations d), va_sku = ln_value r\<rparr>"

definition variants_view :: "string \<Rightarrow> products_db \<Rightarrow> (int \<times> variant) list" where
  "variants_view pid d = map (\<lambda>r. (ln_position r, variant_view d r)) (filter (\<lambda>r. ln_owner r = pid) (pd_variants d))"

lemma create_variant_works:
  assumes "working d" "fresh_keys d"
  shows "\<exists>a b n. create_variant pid (i, v) d = (Inr (), d\<lparr>pd_variants := a, pd_variant_variations := b, pd_next := n\<rparr>)
    \<and> fresh_keys (d\<lparr>pd_variants := a, pd_variant_variations := b, pd_next := n\<rparr>) \<and> pd_next d \<le> n
    \<and> variants_view (trim pid) (d\<lparr>pd_variants := a, pd_variant_variations := b, pd_next := n\<rparr>)
        = variants_view (trim pid) d @ [(int i, variant_normalize v)]"
proof -
  let ?k = "pd_next d"
  let ?row = "\<lparr>ln_id = ?k, ln_owner = trim pid, ln_position = int i, ln_value = trim (va_sku v)\<rparr>"
  let ?n = "Suc ?k + length (va_variation_ids v)"
  let ?a = "pd_variants d @ [?row]" and ?b = "pd_variant_variations d @ link_rows ?k (Suc ?k) 0 (va_variation_ids v)"
  let ?d = "d\<lparr>pd_variants := ?a, pd_variant_variations := ?b, pd_next := ?n\<rparr>"
  have run: "create_variant pid (i, v) d = (Inr (), ?d)"
    using assms(1) by (simp add: create_variant_def prog_simps insert_link_works insert_links_works)
  have fresh: "fresh_keys ?d"
    using assms(2) by (auto simp: fresh_keys_def less_Suc_eq_le dest!: link_rows_owner)
  have old: "variant_view ?d r = variant_view d r" if "r \<in> set (pd_variants d)" for r
    using that assms(2) by (auto simp: variant_view_def fresh_keys_def link_values_append_other)
  have new: "variant_view ?d ?row = variant_normalize v"
    using assms(2) by (auto simp: variant_view_def variant_normalize_def link_values_append_new fresh_keys_def)
  have "variants_view (trim pid) ?d = variants_view (trim pid) d @ [(int i, variant_normalize v)]"
    using old new by (simp add: variants_view_def)
  with run fresh show ?thesis by (intro exI[of _ ?a] exI[of _ ?b] exI[of _ ?n]) simp
qed

lemma create_variants_work:
  assumes "working d" "fresh_keys d"
  shows "\<exists>a b n. create_variants pid vs d = (Inr (), d\<lparr>pd_variants := a, pd_variant_variations := b, pd_next := n\<rparr>)
    \<and> fresh_keys (d\<lparr>pd_variants := a, pd_variant_variations := b, pd_next := n\<rparr>) \<and> pd_next d \<le> n
    \<and> variants_view (trim pid) (d\<lparr>pd_variants := a, pd_variant_variations := b, pd_next := n\<rparr>)
        = variants_view (trim pid) d @ map (\<lambda>(i, v). (int i, variant_normalize v)) (enumerate 0 vs)"
proof -
  have "\<exists>a b n. each (create_variant pid) ivs d = (Inr (), d\<lparr>pd_variants := a, pd_variant_variations := b, pd_next := n\<rparr>)
    \<and> fresh_keys (d\<lparr>pd_variants := a, pd_variant_variations := b, pd_next := n\<rparr>) \<and> pd_next d \<le> n
    \<and> variants_view (trim pid) (d\<lparr>pd_variants := a, pd_variant_variations := b, pd_next := n\<rparr>)
        = variants_view (trim pid) d @ map (\<lambda>(i, v). (int i, variant_normalize v)) ivs" for ivs
    using assms
  proof (induction ivs arbitrary: d)
    case Nil
    then show ?case by (intro exI[of _ "pd_variants d"] exI[of _ "pd_variant_variations d"] exI[of _ "pd_next d"]) (simp add: prog_simps)
  next
    case (Cons x ivs)
    obtain i v where x: "x = (i, v)" by (cases x)
    obtain a b n where one: "create_variant pid (i, v) d = (Inr (), d\<lparr>pd_variants := a, pd_variant_variations := b, pd_next := n\<rparr>)"
      "fresh_keys (d\<lparr>pd_variants := a, pd_variant_variations := b, pd_next := n\<rparr>)" "pd_next d \<le> n"
      "variants_view (trim pid) (d\<lparr>pd_variants := a, pd_variant_variations := b, pd_next := n\<rparr>)
        = variants_view (trim pid) d @ [(int i, variant_normalize v)]"
      using create_variant_works[OF Cons.prems, of pid i v] by auto
    from Cons.IH[OF _ one(2)] Cons.prems obtain a' b' n' where
      "each (create_variant pid) ivs (d\<lparr>pd_variants := a, pd_variant_variations := b, pd_next := n\<rparr>)
        = (Inr (), d\<lparr>pd_variants := a', pd_variant_variations := b', pd_next := n'\<rparr>)"
      "fresh_keys (d\<lparr>pd_variants := a', pd_variant_variations := b', pd_next := n'\<rparr>)" "n \<le> n'"
      "variants_view (trim pid) (d\<lparr>pd_variants := a', pd_variant_variations := b', pd_next := n'\<rparr>)
        = variants_view (trim pid) d @ (int i, variant_normalize v) # map (\<lambda>(i, v). (int i, variant_normalize v)) ivs"
      using one(4) by auto
    with one x show ?case by (intro exI[of _ a'] exI[of _ b'] exI[of _ n']) (simp add: prog_simps)
  qed
  then show ?thesis by (simp add: create_variants_def)
qed

section \<open>Tags of a product\<close>

lemma filter_same_key: "distinct (map f xs) \<Longrightarrow> x \<in> set xs \<Longrightarrow> P x \<Longrightarrow> filter (\<lambda>y. f y = f x \<and> P y) xs = [x]"
  by (induction xs) (auto simp: filter_empty_conv image_iff)

lemma names_of_tag_id:
  assumes "tags_ok d" "live_tag_id t d \<noteq> 0"
  shows "map tg_name (filter (\<lambda>x. tg_id x = live_tag_id t d \<and> tg_deleted_at x = None) (pd_tags d)) = [t]"
proof -
  obtain x where x: "find (\<lambda>x. tg_name x = t \<and> tg_deleted_at x = None) (pd_tags d) = Some x" "live_tag_id t d = tg_id x"
    using assms(2) by (auto simp: live_tag_id_def split: option.splits)
  then have "x \<in> set (pd_tags d)" "tg_name x = t" "tg_deleted_at x = None" by (auto simp: find_Some_iff)
  with filter_same_key[of tg_id "pd_tags d" x "\<lambda>y. tg_deleted_at y = None"] assms(1) x(2) show ?thesis
    by (simp add: tags_ok_def)
qed

definition tag_view :: "string \<Rightarrow> products_db \<Rightarrow> (int \<times> nat) list" where
  "tag_view pid d = map (\<lambda>r. (ln_position r, ln_value r)) (filter (\<lambda>r. ln_owner r = pid) (pd_product_tags d))"

lemma live_tag_id_frame [simp]: "live_tag_id t (d\<lparr>pd_product_tags := a, pd_next := n\<rparr>) = live_tag_id t d"
  by (simp add: live_tag_id_def)

lemma create_product_tags_work:
  assumes "working d" "\<forall>(i, t) \<in> set its. trim t \<noteq> [] \<longrightarrow> live_tag_id (trim t) d \<noteq> 0"
    and "distinct (map snd (tag_view pid d) @ map (\<lambda>(i, t). live_tag_id (trim t) d) (filter (\<lambda>(i, t). trim t \<noteq> []) its))"
  shows "\<exists>a n. each (create_product_tag pid) its d = (Inr (), d\<lparr>pd_product_tags := a, pd_next := n\<rparr>) \<and> pd_next d \<le> n
    \<and> tag_view pid (d\<lparr>pd_product_tags := a, pd_next := n\<rparr>)
        = tag_view pid d @ map (\<lambda>(i, t). (int i, live_tag_id (trim t) d)) (filter (\<lambda>(i, t). trim t \<noteq> []) its)"
  using assms
proof (induction its arbitrary: d)
  case Nil
  then show ?case by (intro exI[of _ "pd_product_tags d"] exI[of _ "pd_next d"]) (simp add: prog_simps)
next
  case (Cons x its)
  obtain i t where x: "x = (i, t)" by (cases x)
  show ?case
  proof (cases "trim t = []")
    case True
    then have "each (create_product_tag pid) (x # its) d = each (create_product_tag pid) its d"
      by (simp add: x prog_simps create_product_tag_def)
    then show ?thesis using Cons.IH[OF Cons.prems(1)] Cons.prems(2,3) x True by simp
  next
    case False
    let ?tid = "live_tag_id (trim t) d"
    let ?row = "\<lparr>ln_id = pd_next d, ln_owner = pid, ln_position = int i, ln_value = ?tid\<rparr>"
    let ?d = "d\<lparr>pd_product_tags := pd_product_tags d @ [?row], pd_next := Suc (pd_next d)\<rparr>"
    have tid: "?tid \<noteq> 0" using Cons.prems(2) x False by auto
    have "?tid \<notin> snd ` set (tag_view pid d)" using Cons.prems(3) x False by auto
    then have new: "\<not> (\<exists>r \<in> set (pd_product_tags d). ln_owner r = pid \<and> ln_value r = ?tid)"
      by (force simp: tag_view_def)
    have one: "create_product_tag pid x d = (Inr (), ?d)"
      using Cons.prems(1) tid new False
      by (simp add: x create_product_tag_def prog_simps select_working insert_product_tag_def insert_row_def pstmt_def Let_def)
    have view: "tag_view pid ?d = tag_view pid d @ [(int i, ?tid)]" by (simp add: tag_view_def)
    have "\<exists>a n. each (create_product_tag pid) its ?d = (Inr (), ?d\<lparr>pd_product_tags := a, pd_next := n\<rparr>) \<and> pd_next ?d \<le> n
      \<and> tag_view pid (?d\<lparr>pd_product_tags := a, pd_next := n\<rparr>)
        = tag_view pid ?d @ map (\<lambda>(i, t). (int i, live_tag_id (trim t) ?d)) (filter (\<lambda>(i, t). trim t \<noteq> []) its)"
      by (rule Cons.IH) (use Cons.prems x False view in auto)
    then obtain a n where "each (create_product_tag pid) its ?d = (Inr (), d\<lparr>pd_product_tags := a, pd_next := n\<rparr>)" "pd_next d \<le> n"
      "tag_view pid (d\<lparr>pd_product_tags := a, pd_next := n\<rparr>)
        = tag_view pid d @ (int i, ?tid) # map (\<lambda>(i, t). (int i, live_tag_id (trim t) d)) (filter (\<lambda>(i, t). trim t \<noteq> []) its)"
      using view by auto
    then show ?thesis using one False x by (intro exI[of _ a] exI[of _ n]) (simp add: prog_simps)
  qed
qed

section \<open>Replacing the relations\<close>

text \<open>The tables after the relations of a product are deleted.\<close>

definition cleared :: "string \<Rightarrow> products_db \<Rightarrow> products_db" where
  "cleared pid d = pd_links_update (filter (\<lambda>r. ln_owner r \<noteq> pid))
     (pd_variants_update (filter (\<lambda>r. ln_owner r \<noteq> pid))
     (pd_variant_variations_update (filter (\<lambda>r. ln_owner r \<notin> set (variant_ids pid d)))
     (pd_datasheets_update (filter (\<lambda>r. dw_product_id r \<noteq> pid))
     (pd_attributes_update (filter (\<lambda>r. aw_datasheet_id r \<notin> set (datasheet_ids pid d)))
     (pd_gallery_update (filter (\<lambda>r. gr_product_id r \<noteq> pid))
     (pd_gallery_variations_update (filter (\<lambda>r. ln_owner r \<notin> set (gallery_ids pid d)))
     (pd_realms_update (filter (\<lambda>r. ln_owner r \<notin> set (gallery_ids pid d))) d)))))))"

lemma ids_frame [simp]:
  "datasheet_ids pid (pd_gallery_update f d) = datasheet_ids pid d"
  "datasheet_ids pid (pd_gallery_variations_update g d) = datasheet_ids pid d"
  "datasheet_ids pid (pd_realms_update g d) = datasheet_ids pid d"
  "variant_ids pid (pd_datasheets_update h d) = variant_ids pid d"
  "variant_ids pid (pd_attributes_update h' d) = variant_ids pid d"
  "variant_ids pid (pd_gallery_update f d) = variant_ids pid d"
  "variant_ids pid (pd_gallery_variations_update g d) = variant_ids pid d"
  "variant_ids pid (pd_realms_update g d) = variant_ids pid d"
  by (simp_all add: datasheet_ids_def variant_ids_def)

lemma clear_relations_works:
  assumes "working d"
  shows "clear_relations i d = (Inr (), cleared (trim i) d)"
  using assms
  by (simp add: clear_relations_def Let_def clear_gallery_def clear_datasheets_def clear_variants_def prog_simps select_working
      change_def pstmt_def cleared_def)

lemma sorted_wrt_map_filter: "sorted_wrt R (map f xs) \<Longrightarrow> sorted_wrt R (map f (filter P xs))"
  by (simp add: sorted_wrt_map sorted_wrt_filter)

lemma cleared_facts [simp]:
  "fresh_keys d \<Longrightarrow> fresh_keys (cleared pid d)" "working d \<Longrightarrow> working (cleared pid d)"
  "gallery_view pid (cleared pid d) = []" "sheets_view dec pid (cleared pid d) = []" "variants_view pid (cleared pid d) = []"
  "pd_product_tags (cleared pid d) = pd_product_tags d" "pd_tags (cleared pid d) = pd_tags d"
  "pd_products (cleared pid d) = pd_products d" "pd_clock (cleared pid d) = pd_clock d" "\<forall>r \<in> set (pd_links (cleared pid d)). ln_owner r \<noteq> pid"
  by (auto simp: cleared_def fresh_keys_def gallery_view_def sheets_view_def variants_view_def filter_empty_conv
      sorted_wrt_map_filter)

lemma gallery_view_frames [simp]:
  "gallery_view pid (pd_products_update f0 d) = gallery_view pid d"
  "gallery_view pid (pd_datasheets_update f4 d) = gallery_view pid d"
  "gallery_view pid (pd_attributes_update f5 d) = gallery_view pid d"
  "gallery_view pid (pd_links_update f6 d) = gallery_view pid d"
  "gallery_view pid (pd_variants_update f7 d) = gallery_view pid d"
  "gallery_view pid (pd_variant_variations_update f8 d) = gallery_view pid d"
  "gallery_view pid (pd_product_tags_update f9 d) = gallery_view pid d"
  "gallery_view pid (pd_next_update f10 d) = gallery_view pid d"
  by (simp_all add: gallery_view_def item_view_def[abs_def])

lemma sheets_view_frames [simp]:
  "sheets_view dec pid (pd_products_update f0 d) = sheets_view dec pid d"
  "sheets_view dec pid (pd_gallery_update f1 d) = sheets_view dec pid d"
  "sheets_view dec pid (pd_realms_update f2 d) = sheets_view dec pid d"
  "sheets_view dec pid (pd_gallery_variations_update f3 d) = sheets_view dec pid d"
  "sheets_view dec pid (pd_links_update f6 d) = sheets_view dec pid d"
  "sheets_view dec pid (pd_variants_update f7 d) = sheets_view dec pid d"
  "sheets_view dec pid (pd_variant_variations_update f8 d) = sheets_view dec pid d"
  "sheets_view dec pid (pd_product_tags_update f9 d) = sheets_view dec pid d"
  "sheets_view dec pid (pd_next_update f10 d) = sheets_view dec pid d"
  by (simp_all add: sheets_view_def sheet_view_def[abs_def] sheet_rows_def)

lemma variants_view_frames [simp]:
  "variants_view pid (pd_products_update f0 d) = variants_view pid d"
  "variants_view pid (pd_gallery_update f1 d) = variants_view pid d"
  "variants_view pid (pd_realms_update f2 d) = variants_view pid d"
  "variants_view pid (pd_gallery_variations_update f3 d) = variants_view pid d"
  "variants_view pid (pd_datasheets_update f4 d) = variants_view pid d"
  "variants_view pid (pd_attributes_update f5 d) = variants_view pid d"
  "variants_view pid (pd_links_update f6 d) = variants_view pid d"
  "variants_view pid (pd_product_tags_update f9 d) = variants_view pid d"
  "variants_view pid (pd_next_update f10 d) = variants_view pid d"
  by (simp_all add: variants_view_def variant_view_def[abs_def])

lemma tag_view_frames [simp]:
  "tag_view pid (pd_products_update f0 d) = tag_view pid d"
  "tag_view pid (pd_gallery_update f1 d) = tag_view pid d"
  "tag_view pid (pd_realms_update f2 d) = tag_view pid d"
  "tag_view pid (pd_gallery_variations_update f3 d) = tag_view pid d"
  "tag_view pid (pd_datasheets_update f4 d) = tag_view pid d"
  "tag_view pid (pd_attributes_update f5 d) = tag_view pid d"
  "tag_view pid (pd_links_update f6 d) = tag_view pid d"
  "tag_view pid (pd_variants_update f7 d) = tag_view pid d"
  "tag_view pid (pd_variant_variations_update f8 d) = tag_view pid d"
  "tag_view pid (pd_next_update f10 d) = tag_view pid d"
  by (simp_all add: tag_view_def)

lemma live_tag_id_frames [simp]:
  "live_tag_id t (pd_products_update f0 d) = live_tag_id t d"
  "live_tag_id t (pd_gallery_update f1 d) = live_tag_id t d"
  "live_tag_id t (pd_realms_update f2 d) = live_tag_id t d"
  "live_tag_id t (pd_gallery_variations_update f3 d) = live_tag_id t d"
  "live_tag_id t (pd_datasheets_update f4 d) = live_tag_id t d"
  "live_tag_id t (pd_attributes_update f5 d) = live_tag_id t d"
  "live_tag_id t (pd_links_update f6 d) = live_tag_id t d"
  "live_tag_id t (pd_variants_update f7 d) = live_tag_id t d"
  "live_tag_id t (pd_variant_variations_update f8 d) = live_tag_id t d"
  "live_tag_id t (pd_product_tags_update f9 d) = live_tag_id t d"
  "live_tag_id t (pd_next_update f10 d) = live_tag_id t d"
  by (simp_all add: live_tag_id_def)

lemma live_tag_id_cleared [simp]: "live_tag_id t (cleared pid d) = live_tag_id t d"
  by (simp add: live_tag_id_def)

definition known_tags :: "products_db \<Rightarrow> string list \<Rightarrow> bool" where
  "known_tags d tags \<longleftrightarrow> (\<forall>t \<in> set tags. trim t \<noteq> [] \<longrightarrow> live_tag_id (trim t) d \<noteq> 0)
     \<and> distinct (filter (\<lambda>t. t \<noteq> []) (map trim tags))"

definition encodable :: "(json \<Rightarrow> string option) \<Rightarrow> datasheet list \<Rightarrow> bool" where
  "encodable enc ss \<longleftrightarrow> (\<forall>s \<in> set ss. \<forall>(k, v) \<in> set (attributes_of s). enc v \<noteq> None)"

lemma live_tag_id_inj:
  assumes "tags_ok d" "live_tag_id t d \<noteq> 0" "live_tag_id t d = live_tag_id u d"
  shows "t = u"
proof -
  note t = names_of_tag_id[OF assms(1,2)]
  have "live_tag_id u d \<noteq> 0" using assms(2) unfolding assms(3) .
  note u = names_of_tag_id[OF assms(1) this]
  from t[unfolded assms(3)] u have "[t] = [u]" by (rule trans[OF sym])
  then show ?thesis by simp
qed

lemma map_enumerated_tags: "map (\<lambda>(i, t). g (trim t)) (filter (\<lambda>(i, t). trim t \<noteq> []) (enumerate i tags))
    = map g (filter (\<lambda>t. t \<noteq> []) (map trim tags))"
  by (induction tags arbitrary: i) (simp_all add: Suc_le_eq)

lemma enumerate_distinct_tags:
  assumes "tags_ok d" "known_tags d tags"
  shows "distinct (map (\<lambda>(i, t). live_tag_id (trim t) d) (filter (\<lambda>(i, t). trim t \<noteq> []) (enumerate i tags)))"
proof -
  have "inj_on (\<lambda>t. live_tag_id t d) (set (filter (\<lambda>t. t \<noteq> []) (map trim tags)))"
  proof (rule inj_onI)
    fix t u
    assume "t \<in> set (filter (\<lambda>t. t \<noteq> []) (map trim tags))" and eq: "live_tag_id t d = live_tag_id u d"
    then have "live_tag_id t d \<noteq> 0" using assms(2) by (auto simp: known_tags_def)
    then show "t = u" using live_tag_id_inj[OF assms(1)] eq by blast
  qed
  then show ?thesis using assms(2) by (simp only: map_enumerated_tags[of "\<lambda>t. live_tag_id t d"] distinct_map known_tags_def)
qed

text \<open>What the tables hold for product \<open>pid\<close> after its relations were replaced.\<close>

definition holds_relations :: "(string \<Rightarrow> json option) \<Rightarrow> string \<Rightarrow> catalog_product \<Rightarrow> products_db \<Rightarrow> bool" where
  "holds_relations dec pid p d \<longleftrightarrow>
     gallery_view pid d = map stored_item (enumerate 0 (pt_gallery p))
   \<and> sheets_view dec pid d = map (\<lambda>(i, s). (int i, Some (stored_sheet s))) (enumerate 0 (pt_datasheets p))
   \<and> link_values pid (pd_links d) = map trim (pt_variations p)
   \<and> variants_view pid d = map (\<lambda>(i, v). (int i, variant_normalize v)) (enumerate 0 (pt_variants p))
   \<and> tag_view pid d = map (\<lambda>(i, t). (int i, live_tag_id (trim t) d)) (filter (\<lambda>(i, t). trim t \<noteq> []) (enumerate 0 (pt_tags p)))"

lemma replace_relations_works:
  assumes "working d" "fresh_keys d" "tags_ok d" "json_codec enc dec" "encodable enc (pt_datasheets p)" "known_tags d (pt_tags p)"
  shows "\<exists>d'. replace_relations enc pid p d = (Inr (), d') \<and> working d' \<and> fresh_keys d' \<and> pd_products d' = pd_products d
    \<and> pd_tags d' = pd_tags d \<and> holds_relations dec (trim pid) p d'"
proof -
  let ?pid = "trim pid"
  define d0 where "d0 = cleared ?pid d"
  have clear: "clear_relations pid d = (Inr (), d0)" using clear_relations_works[OF assms(1)] by (simp add: d0_def)
  have d0: "working d0" "fresh_keys d0" "pd_products d0 = pd_products d" "pd_tags d0 = pd_tags d" "pd_product_tags d0 = pd_product_tags d"
    "gallery_view ?pid d0 = []" "sheets_view dec ?pid d0 = []" "variants_view ?pid d0 = []" "\<forall>r \<in> set (pd_links d0). ln_owner r \<noteq> ?pid"
    using assms(1,2) by (simp_all add: d0_def)
  obtain a1 b1 c1 n1 d1 where d1_def: "d1 = d0\<lparr>pd_gallery := a1, pd_realms := b1, pd_gallery_variations := c1, pd_next := n1\<rparr>"
    and gallery: "create_gallery pid (pt_gallery p) d0 = (Inr (), d1)" and d1: "fresh_keys d1"
      "gallery_view ?pid d1 = map stored_item (enumerate 0 (pt_gallery p))"
    using create_gallery_works[OF d0(1,2), of pid "pt_gallery p"] d0(6) by auto
  have d1': "working d1" "pd_products d1 = pd_products d" "pd_tags d1 = pd_tags d" "pd_product_tags d1 = pd_product_tags d"
    "sheets_view dec ?pid d1 = []" "variants_view ?pid d1 = []" "pd_links d1 = pd_links d0"
    using d0 by (simp_all add: d1_def)
  obtain a2 b2 n2 d2 where d2_def: "d2 = d1\<lparr>pd_datasheets := a2, pd_attributes := b2, pd_next := n2\<rparr>"
    and sheets: "create_datasheets enc pid (pt_datasheets p) d1 = (Inr (), d2)" and d2: "fresh_keys d2"
      "sheets_view dec ?pid d2 = map (\<lambda>(i, s). (int i, Some (stored_sheet s))) (enumerate 0 (pt_datasheets p))"
    using create_datasheets_work[OF d1'(1) d1(1) assms(4) assms(5)[unfolded encodable_def], of pid] d1'(5) by auto
  have d2': "working d2" "pd_products d2 = pd_products d" "pd_tags d2 = pd_tags d" "pd_product_tags d2 = pd_product_tags d"
    "variants_view ?pid d2 = []" "pd_links d2 = pd_links d0" "gallery_view ?pid d2 = gallery_view ?pid d1"
    using d1' by (simp_all add: d2_def)
  define rows where "rows = link_rows ?pid (pd_next d2) 0 (pt_variations p)"
  define d3 where "d3 = d2\<lparr>pd_links := pd_links d2 @ rows, pd_next := pd_next d2 + length (pt_variations p)\<rparr>"
  have links: "create_variation_links pid (pt_variations p) d2 = (Inr (), d3)"
    using d2'(1) by (simp add: create_variation_links_def insert_links_works d3_def rows_def)
  have "filter (\<lambda>r. ln_owner r = ?pid) (pd_links d2) = []" using d0(9) d2'(6) by (simp add: filter_empty_conv)
  then have link_vals: "link_values ?pid (pd_links d3) = map trim (pt_variations p)"
    using link_values_rows[of ?pid "pd_next d2" 0 "pt_variations p"] by (simp add: link_values_def links_of_def d3_def rows_def)
  have d3': "working d3" "pd_products d3 = pd_products d" "pd_tags d3 = pd_tags d" "pd_product_tags d3 = pd_product_tags d"
    "variants_view ?pid d3 = []" "gallery_view ?pid d3 = gallery_view ?pid d1" "sheets_view dec ?pid d3 = sheets_view dec ?pid d2"
    using d2' by (simp_all add: d3_def)
  have "fresh_keys d3" using d2(1) by (auto simp: fresh_keys_def d3_def)
  with d3' obtain a4 b4 n4 d4 where d4_def: "d4 = d3\<lparr>pd_variants := a4, pd_variant_variations := b4, pd_next := n4\<rparr>"
    and variants: "create_variants pid (pt_variants p) d3 = (Inr (), d4)" and d4: "fresh_keys d4"
      "variants_view ?pid d4 = map (\<lambda>(i, v). (int i, variant_normalize v)) (enumerate 0 (pt_variants p))"
    using create_variants_work[of d3 pid "pt_variants p"] by auto
  define d5 where "d5 = d4\<lparr>pd_product_tags := filter (\<lambda>r. ln_owner r \<noteq> ?pid) (pd_product_tags d4)\<rparr>"
  have d5': "working d5" "pd_products d5 = pd_products d" "pd_tags d5 = pd_tags d" "tag_view ?pid d5 = []"
    "variants_view ?pid d5 = variants_view ?pid d4" "gallery_view ?pid d5 = gallery_view ?pid d1"
    "sheets_view dec ?pid d5 = sheets_view dec ?pid d2" "pd_links d5 = pd_links d3"
    using d3' by (simp_all add: d5_def d4_def tag_view_def filter_empty_conv)
  have same: "live_tag_id t d5 = live_tag_id t d" for t using d5'(3) by (simp add: live_tag_id_def)
  have known: "\<forall>(i, t) \<in> set (enumerate 0 (pt_tags p)). trim t \<noteq> [] \<longrightarrow> live_tag_id (trim t) d5 \<noteq> 0"
    using assms(6) by (auto simp: known_tags_def same enumerate_eq_zip dest: set_zip_rightD)
  have dist: "distinct (map snd (tag_view ?pid d5) @ map (\<lambda>(i, t). live_tag_id (trim t) d5) (filter (\<lambda>(i, t). trim t \<noteq> []) (enumerate 0 (pt_tags p))))"
    using enumerate_distinct_tags[OF assms(3,6), of 0] by (simp add: same d5'(4))
  obtain a6 n6 d6 where d6_def: "d6 = d5\<lparr>pd_product_tags := a6, pd_next := n6\<rparr>" and n6: "pd_next d5 \<le> n6"
    and tags: "each (create_product_tag ?pid) (enumerate 0 (pt_tags p)) d5 = (Inr (), d6)"
      "tag_view ?pid d6 = map (\<lambda>(i, t). (int i, live_tag_id (trim t) d)) (filter (\<lambda>(i, t). trim t \<noteq> []) (enumerate 0 (pt_tags p)))"
    using create_product_tags_work[OF d5'(1) known dist] by (auto simp: d5'(4) same)
  have "pd_product_tags_update (filter (\<lambda>r. ln_owner r \<noteq> ?pid)) d4 = d5" by (simp add: d5_def)
  then have "replace_product_tags pid (pt_tags p) d4 = (Inr (), d6)"
    using tags(1) d3'(1) by (simp add: replace_product_tags_def Let_def prog_simps change_def pstmt_def d4_def)
  then have run: "replace_relations enc pid p d = (Inr (), d6)"
    using clear gallery sheets links variants by (simp add: replace_relations_def prog_simps)
  have "fresh_keys d6" using d4(1) n6 by (fastforce simp: fresh_keys_def d6_def d5_def)
  moreover have "holds_relations dec ?pid p d6"
  proof -
    have "gallery_view ?pid d6 = gallery_view ?pid d5" "sheets_view dec ?pid d6 = sheets_view dec ?pid d5"
        "variants_view ?pid d6 = variants_view ?pid d5" "pd_links d6 = pd_links d5" "\<And>t. live_tag_id t d6 = live_tag_id t d5"
      by (simp_all add: d6_def)
    then show ?thesis using d1(2) d2(2) d4(2) d5' tags(2) link_vals same by (simp add: holds_relations_def)
  qed
  moreover have "working d6" "pd_products d6 = pd_products d" "pd_tags d6 = pd_tags d" using d5' by (simp_all add: d6_def)
  ultimately show ?thesis using run by blast
qed

section \<open>Reading\<close>

lemma insort_key_lex: "\<forall>y \<in> set ys. g x < g y \<Longrightarrow>
    insort_key (\<lambda>x. (f x :: 'a::linorder, g x :: 'b::linorder)) x ys = insort_key f x ys"
  by (induction ys) (auto simp: less_eq_prod_def)

lemma sort_key_lex: "sorted_wrt (<) (map g xs) \<Longrightarrow>
    sort_key (\<lambda>x. (f x :: 'a::linorder, g x :: 'b::linorder)) xs = sort_key f xs"
  by (induction xs) (auto simp: insort_key_lex)

lemma collect_reads: "(\<And>x. x \<in> set xs \<Longrightarrow> f x d = (Inr (g x), d)) \<Longrightarrow> collect f xs d = (Inr (map g xs), d)"
  by (induction xs) (simp_all add: prog_simps)

lemma load_gallery_item_works: "working d \<Longrightarrow> load_gallery_item r d = (Inr (item_view d r), d)"
  by (simp add: load_gallery_item_def prog_simps select_working item_view_def)

lemma load_datasheet_works: "working d \<Longrightarrow> sheet_view dec d r = Some s \<Longrightarrow> load_datasheet dec r d = (Inr s, d)"
  by (auto simp: load_datasheet_def prog_simps select_working sheet_view_def sheet_rows_def)

lemma load_variant_works: "working d \<Longrightarrow> load_variant r d = (Inr (variant_view d r), d)"
  by (simp add: load_variant_def prog_simps select_working variant_view_def)

lemma sort_by_index:
  assumes "map (\<lambda>r. (f r, g r)) rows = map (\<lambda>(i, x). (int i, h x)) (enumerate 0 xs)"
  shows "sort_key f rows = rows" and "map g rows = map h xs"
proof -
  have "map f rows = map fst (map (\<lambda>r. (f r, g r)) rows)" by simp
  also have "\<dots> = map int (map fst (enumerate 0 xs))" unfolding assms by (simp add: case_prod_unfold del: map_fst_enumerate)
  finally have "sorted (map f rows)" by (simp add: sorted_map)
  then show "sort_key f rows = rows" by (rule sort_key_id_if_sorted)
  have "map g rows = map snd (map (\<lambda>r. (f r, g r)) rows)" by simp
  also have "\<dots> = map h (map snd (enumerate 0 xs))" unfolding assms by (simp add: case_prod_unfold comp_def del: map_snd_enumerate)
  finally show "map g rows = map h xs" by simp
qed

text \<open>The aggregate that is read for a row whose relations are those of \<open>p\<close>.\<close>

definition stored_product :: "product_row \<Rightarrow> catalog_product \<Rightarrow> catalog_product" where
  "stored_product r p = \<lparr>pt_id = pw_id r, pt_sku = pw_sku r, pt_price = pw_price r,
     pt_tags = filter (\<lambda>t. t \<noteq> []) (map trim (pt_tags p)),
     pt_gallery = sort_key (\<lambda>g. the (gi_position g)) (map stored_item (enumerate 0 (pt_gallery p))),
     pt_datasheets = map stored_sheet (pt_datasheets p), pt_variations = map trim (pt_variations p),
     pt_variants = map variant_normalize (pt_variants p), pt_created_at = pw_created_at r, pt_updated_at = pw_updated_at r,
     pt_deleted_at = pw_deleted_at r\<rparr>"

lemma gallery_normalize_stored: "gallery_normalize (stored_item x) = stored_item x"
proof (cases x)
  case (Pair i g)
  then show ?thesis
    by (cases "gi_position g"; cases "gi_variation_position g")
      (simp_all add: gallery_normalize_def stored_item_def normalize_position_def gallery_position_def gallery_variation_position_def)
qed

lemma normalize_stored: "trim (pw_sku r) = pw_sku r \<Longrightarrow> product_normalize (stored_product r p) = stored_product r p"
  by (auto simp: product_normalize_def stored_product_def gallery_normalize_stored datasheet_normalize_def stored_sheet_def
      variant_normalize_def intro!: map_idI)

lemma gallery_sorted:
  assumes "fresh_keys d"
  shows "map (item_view d) (gallery_rows_of pid d) = sort_key (\<lambda>g. the (gi_position g)) (gallery_view pid d)"
proof -
  have "sorted_wrt (<) (map gr_id (filter (\<lambda>r. gr_product_id r = pid) (pd_gallery d)))"
    using assms by (simp add: fresh_keys_def sorted_wrt_map_filter)
  then have "gallery_rows_of pid d = sort_key gr_position (filter (\<lambda>r. gr_product_id r = pid) (pd_gallery d))"
    by (simp add: gallery_rows_of_def sort_key_lex)
  moreover have "gr_position = (\<lambda>r. the (gi_position (item_view d r)))" by (simp add: item_view_def)
  ultimately show ?thesis by (simp add: gallery_view_def flip: sort_key_map)
qed

lemma tag_names:
  assumes "tags_ok d" "known_tags d tags"
    and "tag_view pid d = map (\<lambda>(i, t). (int i, live_tag_id (trim t) d)) (filter (\<lambda>(i, t). trim t \<noteq> []) (enumerate 0 tags))"
  shows "product_tag_names pid d = filter (\<lambda>t. t \<noteq> []) (map trim tags)"
proof -
  let ?rows = "filter (\<lambda>r. ln_owner r = pid) (pd_product_tags d)"
  let ?names = "\<lambda>k. map tg_name (filter (\<lambda>t. tg_id t = k \<and> tg_deleted_at t = None) (pd_tags d))"
  have "map ln_position ?rows = map fst (tag_view pid d)" by (simp add: tag_view_def)
  also have "\<dots> = map int (map fst (filter (\<lambda>(i, t). trim t \<noteq> []) (enumerate 0 tags)))"
    by (simp add: assms(3) case_prod_unfold)
  finally have "sorted (map ln_position ?rows)"
    using sorted_wrt_map_filter[of "(\<le>)" fst "enumerate 0 tags"] by (simp add: sorted_map case_prod_unfold sorted_wrt_map)
  then have "links_of pid (pd_product_tags d) = ?rows" unfolding links_of_def by (rule sort_key_id_if_sorted)
  then have "product_tag_names pid d = concat (map ?names (map snd (tag_view pid d)))"
    by (simp add: product_tag_names_def tag_view_def comp_def)
  also have "map snd (tag_view pid d) = map (\<lambda>t. live_tag_id t d) (filter (\<lambda>t. t \<noteq> []) (map trim tags))"
    using map_enumerated_tags[of "\<lambda>t. live_tag_id t d" 0 tags] by (simp add: assms(3) case_prod_unfold comp_def)
  also have "map ?names (map (\<lambda>t. live_tag_id t d) (filter (\<lambda>t. t \<noteq> []) (map trim tags))) = map (\<lambda>t. [t]) (filter (\<lambda>t. t \<noteq> []) (map trim tags))"
    using assms(2) names_of_tag_id[OF assms(1)] by (auto simp: known_tags_def)
  finally show ?thesis by simp
qed

lemma load_product_works:
  assumes "working d" "fresh_keys d" "tags_ok d" "known_tags d (pt_tags p)" "holds_relations dec (pw_id r) p d" "trim (pw_sku r) = pw_sku r"
  shows "load_product dec r d = (Inr (stored_product r p), d)"
proof -
  let ?pid = "pw_id r"
  let ?sheets = "filter (\<lambda>s. dw_product_id s = ?pid) (pd_datasheets d)"
  let ?variants = "filter (\<lambda>s. ln_owner s = ?pid) (pd_variants d)"
  note h = assms(5)[unfolded holds_relations_def]
  have sheets: "sort_key dw_position ?sheets = ?sheets" "map (sheet_view dec d) ?sheets = map (\<lambda>s. Some (stored_sheet s)) (pt_datasheets p)"
    using sort_by_index[of dw_position "sheet_view dec d" ?sheets "\<lambda>s. Some (stored_sheet s)" "pt_datasheets p"] h
    by (simp_all add: sheets_view_def)
  have variants: "sort_key ln_position ?variants = ?variants" "map (variant_view d) ?variants = map variant_normalize (pt_variants p)"
    using sort_by_index[of ln_position "variant_view d" ?variants variant_normalize "pt_variants p"] h
    by (simp_all add: variants_view_def)
  have some: "x \<in> set ?sheets \<Longrightarrow> sheet_view dec d x = Some (the (sheet_view dec d x))" for x
  proof -
    assume "x \<in> set ?sheets"
    then have "sheet_view dec d x \<in> set (map (sheet_view dec d) ?sheets)" by simp
    then show ?thesis unfolding sheets(2) by auto
  qed
  have "collect (load_datasheet dec) ?sheets d = (Inr (map (\<lambda>x. the (sheet_view dec d x)) ?sheets), d)"
    by (rule collect_reads) (rule load_datasheet_works[OF assms(1) some])
  also have "map (\<lambda>x. the (sheet_view dec d x)) ?sheets = map the (map (sheet_view dec d) ?sheets)" by simp
  finally have ds: "collect (load_datasheet dec) ?sheets d = (Inr (map stored_sheet (pt_datasheets p)), d)"
    unfolding sheets(2) by (simp add: comp_def)
  have vs: "collect load_variant ?variants d = (Inr (map variant_normalize (pt_variants p)), d)"
    using collect_reads[of ?variants load_variant d "variant_view d"] load_variant_works[OF assms(1)] variants(2) by simp
  have gs: "collect load_gallery_item (gallery_rows_of ?pid d) d = (Inr (pt_gallery (stored_product r p)), d)"
    using collect_reads[of "gallery_rows_of ?pid d" load_gallery_item d "item_view d"] load_gallery_item_works[OF assms(1)]
      gallery_sorted[OF assms(2), of ?pid] h by (simp add: stored_product_def)
  have "load_product dec r d = (Inr (product_normalize (stored_product r p)), d)"
    using assms(1) ds vs gs sheets(1) variants(1) h tag_names[OF assms(3,4)]
    by (simp add: load_product_def Let_def prog_simps select_working links_of_def stored_product_def)
  then show ?thesis by (simp add: normalize_stored assms(6))
qed

section \<open>Creating a product\<close>

definition created_row :: "catalog_product \<Rightarrow> products_db \<Rightarrow> product_row" where
  "created_row p d = \<lparr>pw_id = pd_random d (pd_drawn d), pw_sku = trim (pt_sku p), pw_price = pt_price p, pw_created_at = pd_clock d,
     pw_updated_at = pd_clock d, pw_deleted_at = None\<rparr>"

lemma find_appended: "\<forall>x \<in> set xs. \<not> P x \<Longrightarrow> P y \<Longrightarrow> find P (xs @ [y]) = Some y"
  by (induction xs) auto

text \<open>C27: On a catalog whose statements do not fail, creating a product with a new identifier and SKU, known tags without
  repetition and encodable attributes succeeds. What is returned and what a later read returns is the product
  itself with its texts trimmed and blank tags dropped, its gallery sorted by the given positions (or the index
  where none was given), and variation positions only on items with variations.\<close>

theorem product_create_then_get:
  assumes "working d" "catalog_ok d" "fresh_keys d" "json_codec enc dec" "encodable enc (pt_datasheets p)" "known_tags d (pt_tags p)"
    and "trim (pt_id p) = []" "trim (pd_random d (pd_drawn d)) = pd_random d (pd_drawn d)"
    and "pd_random d (pd_drawn d) \<notin> pw_id ` set (pd_products d)" "trim (pt_sku p) \<notin> pw_sku ` set (pd_products d)"
  shows "\<exists>d'. product_create enc dec p d = (Inr (stored_product (created_row p d) p), d')
    \<and> product_by_id dec (pd_random d (pd_drawn d)) d' = (Inr (stored_product (created_row p d) p), d')"
proof -
  let ?i = "pd_random d (pd_drawn d)"
  let ?row = "created_row p d"
  define d1 where "d1 = d\<lparr>pd_drawn := Suc (pd_drawn d)\<rparr>"
  define d2 where "d2 = d1\<lparr>pd_products := pd_products d1 @ [?row]\<rparr>"
  have draw: "draw_id d = (Inr ?i, d1)" by (simp add: draw_id_def prog_simps d1_def)
  have row: "pw_id ?row = ?i" "trim (pw_sku ?row) = pw_sku ?row" "live_product ?row" by (simp_all add: created_row_def live_product_def)
  have clock: "pd_clock d1 = pd_clock d" by (simp add: d1_def)
  have insert: "insert_product \<lparr>pw_id = ?i, pw_sku = trim (pt_sku p), pw_price = pt_price p, pw_created_at = pd_clock d,
      pw_updated_at = pd_clock d, pw_deleted_at = None\<rparr> d1 = (Inr (), d2)"
    using assms(1,9,10) by (simp add: insert_product_def pstmt_def d1_def d2_def created_row_def)
  have d2: "working d2" "fresh_keys d2" "tags_ok d2" "known_tags d2 (pt_tags p)" "pd_products d2 = pd_products d @ [?row]"
    using assms(1-3,6) by (simp_all add: d1_def d2_def fresh_keys_def catalog_ok_def tags_ok_def known_tags_def live_tag_id_def)
  obtain d3 where rel: "replace_relations enc ?i p d2 = (Inr (), d3)" and d3: "working d3" "fresh_keys d3"
      "pd_products d3 = pd_products d2" "pd_tags d3 = pd_tags d2" "holds_relations dec ?i p d3"
    using replace_relations_works[OF d2(1,2,3) assms(4,5) d2(4), of ?i] assms(8) by auto
  have ok2: "catalog_ok d2"
    using assms(2,9,10) by (simp add: catalog_ok_def tags_ok_def correlations_ok_def keys_ok_def d1_def d2_def created_row_def)
  have "tags_ok d3" using preservesD[OF preserves_replace_relations ok2 rel] by (simp add: catalog_ok_def)
  moreover have "known_tags d3 (pt_tags p)" using d2(4) d3(4) by (simp add: known_tags_def live_tag_id_def)
  ultimately have load: "load_product dec ?row d3 = (Inr (stored_product ?row p), d3)"
    using load_product_works[OF d3(1,2), of p dec ?row] d3(5) row by simp
  have "find (\<lambda>r. live_product r \<and> pw_id r = ?i) (pd_products d @ [?row]) = Some ?row"
    using assms(9) row by (intro find_appended) (auto simp: image_iff)
  then have read: "product_by_id dec ?i d3 = (Inr (stored_product ?row p), d3)"
    using load d3(1,3) d2(5) by (simp add: product_by_id_def find_product_def prog_simps select_working assms(8))
  have "product_create enc dec p d = (Inr (stored_product ?row p), d3)"
    using draw insert rel read clock by (simp add: product_create_def assms(7) prog_simps)
  with read show ?thesis by blast
qed

definition tagged_catalog :: products_db where
  "tagged_catalog = sample_catalog\<lparr>pd_tags := [\<lparr>tg_id = 7, tg_name = ''b'', tg_created_at = 1, tg_updated_at = 1, tg_deleted_at = None\<rparr>],
     pd_next := 8\<rparr>"

definition sample_enc :: "json \<Rightarrow> string option" where
  "sample_enc v = (if v = JBool True then Some ''true'' else None)"

definition sample_dec :: "string \<Rightarrow> json option" where
  "sample_dec s = (if s = ''true'' then Some (JBool True) else None)"

definition sample_product :: catalog_product where
  "sample_product = \<lparr>pt_id = [], pt_sku = ''a'', pt_price = Some 5, pt_tags = [''b'', []],
     pt_gallery = [\<lparr>gi_asset_id = ''a'', gi_position = Some 9, gi_variation_position = Some 1, gi_is_main = True, gi_included_realms = [],
         gi_variation_ids = []\<rparr>,
       \<lparr>gi_asset_id = ''b'', gi_position = None, gi_variation_position = None, gi_is_main = False, gi_included_realms = [''a''],
         gi_variation_ids = [''b'']\<rparr>],
     pt_datasheets = [\<lparr>ds_realm = ''a'', ds_name = ''b'', ds_description = [], ds_attributes = Some [(''a'', JBool True)]\<rparr>],
     pt_variations = [''b''], pt_variants = [\<lparr>va_variation_ids = [''b''], va_sku = ''a''\<rparr>], pt_created_at = 0, pt_updated_at = 0,
     pt_deleted_at = None\<rparr>"

theorem product_create_then_get_witness:
  "\<exists>d'. product_create sample_enc sample_dec sample_product tagged_catalog
      = (Inr (stored_product (created_row sample_product tagged_catalog) sample_product), d')
   \<and> map gi_asset_id (pt_gallery (stored_product (created_row sample_product tagged_catalog) sample_product)) = [''b'', ''a'']"
proof -
  have codec: "json_codec sample_enc sample_dec" by (simp add: json_codec_def sample_enc_def sample_dec_def)
  have attrs: "encodable sample_enc (pt_datasheets sample_product)"
    by (simp add: encodable_def sample_product_def attributes_of_def sample_enc_def)
  have tags: "known_tags tagged_catalog (pt_tags sample_product)"
    by (simp add: known_tags_def sample_product_def live_tag_id_def tagged_catalog_def)
  have db: "working tagged_catalog" "catalog_ok tagged_catalog" "fresh_keys tagged_catalog"
    by (simp_all add: tagged_catalog_def sample_catalog_def sample_row_def catalog_ok_def tags_ok_def correlations_ok_def
        keys_ok_def fresh_keys_def)
  have new: "trim (pt_id sample_product) = []" "pd_products tagged_catalog = []" "pd_random tagged_catalog (pd_drawn tagged_catalog) = ''p''"
    by (simp_all add: sample_product_def tagged_catalog_def sample_catalog_def)
  moreover have "trim ''p'' = ''p''" by code_simp
  ultimately obtain d' where "product_create sample_enc sample_dec sample_product tagged_catalog
      = (Inr (stored_product (created_row sample_product tagged_catalog) sample_product), d')"
    using product_create_then_get[OF db codec attrs tags new(1)] by auto
  moreover have "map gi_asset_id (pt_gallery (stored_product (created_row sample_product tagged_catalog) sample_product)) = [''b'', ''a'']"
    by (simp add: stored_product_def sample_product_def stored_item_def gallery_position_def)
  ultimately show ?thesis by (intro exI conjI)
qed

end
