(* ===== verification/Products_Storefront.thy ===== *)
theory Products_Storefront
  imports Products_Calls
begin

text \<open>
  The storefront navigation (\<^verbatim>\<open>module/products/application/storefront\<close>): slugs and paths, the tree of
  categories with their products, and the cached snapshot.

  Unicode decomposition with the combining marks removed is a parameter \<open>nfd\<close> on the bytes of a text, JSON
  encoding and decoding of a snapshot are parameters, and so is the text of attribute values that are not
  strings. The cache is a map from keys to texts whose calls may fail.
\<close>

section \<open>Slugs and paths\<close>

definition slug_letter :: "char \<Rightarrow> bool" where
  "slug_letter c \<longleftrightarrow> (CHR ''a'' \<le> c \<and> c \<le> CHR ''z'') \<or> (CHR ''0'' \<le> c \<and> c \<le> CHR ''9'')"

text \<open>The loop of \<^verbatim>\<open>slugify\<close>: other characters become one dash for a run of them.\<close>

fun dash_runs :: "bool \<Rightarrow> string \<Rightarrow> string" where
  "dash_runs last_dash [] = []"
| "dash_runs last_dash (c # cs) = (if slug_letter c then c # dash_runs False cs
     else if last_dash then dash_runs True cs else CHR ''-'' # dash_runs True cs)"

definition slugify :: "(string \<Rightarrow> string) \<Rightarrow> string \<Rightarrow> string" where
  "slugify nfd s = (let t = trim (to_lower s) in if t = [] then [] else trim_char CHR ''-'' (dash_runs False (nfd t)))"

text \<open>\<^verbatim>\<open>path.Join\<close> joins the non-empty elements with slashes and cleans the result: empty segments and
  single dots vanish, a double dot removes the segment before it (a relative path keeps leading ones).\<close>

fun split_slash :: "string \<Rightarrow> string \<Rightarrow> string list" where
  "split_slash acc [] = [rev acc]"
| "split_slash acc (c # cs) = (if c = CHR ''/'' then rev acc # split_slash [] cs else split_slash (c # acc) cs)"

fun clean_segments :: "string list \<Rightarrow> string list \<Rightarrow> string list" where
  "clean_segments out [] = rev out"
| "clean_segments out (s # ss) = (if s = [] \<or> s = ''.'' then clean_segments out ss
     else if s = ''..'' then (case out of [] \<Rightarrow> clean_segments [s] ss
       | t # ts \<Rightarrow> if t = ''..'' then clean_segments (s # out) ss else clean_segments ts ss)
     else clean_segments (s # out) ss)"

definition path_join :: "string list \<Rightarrow> string" where
  "path_join segments = (let given = filter (\<lambda>s. s \<noteq> []) segments in if given = [] then []
     else (let whole = join ''/'' given; rooted = has_prefix whole ''/'';
               body = join ''/'' (if rooted then dropWhile (\<lambda>s. s = ''..'') (clean_segments [] (split_slash [] whole))
                                  else clean_segments [] (split_slash [] whole)) in
       if rooted then ''/'' @ body else if body = [] then ''.'' else body))"

definition join_path :: "string \<Rightarrow> string list \<Rightarrow> string" where
  "join_path base segments = (let b = trim base;
       clean = (if b \<noteq> [] then [trim_char CHR ''/'' b] else []) @
         filter (\<lambda>s. s \<noteq> []) (map (\<lambda>s. trim_char CHR ''/'' (trim s)) segments) in
     if clean = [] then ''/'' else ''/'' @ path_join clean)"

section \<open>Nodes\<close>

record product_node =
  nd_id :: string
  nd_sku :: string
  nd_name :: string
  nd_slug :: string
  nd_path :: string
  nd_created_at :: gotime
  nd_updated_at :: gotime

datatype category_node = CategoryNode (nc_id: string) (nc_name: string) (nc_slug: string) (nc_path: string) (nc_created_at: gotime)
  (nc_updated_at: gotime) (nc_products: "product_node list") (nc_children: "category_node list")

record page_node =
  ng_id :: string
  ng_renderable_id :: string
  ng_title :: string
  ng_url :: string
  ng_created_at :: gotime
  ng_updated_at :: gotime

record navigation =
  nv_realm :: string
  nv_generated_at :: gotime
  nv_categories :: "category_node list"
  nv_static_pages :: "page_node list"

record nav_config =
  nf_enabled :: bool
  nf_realm :: string
  nf_cache_key :: string
  nf_refresh_interval :: int
  nf_cache_ttl :: int
  nf_failure_ttl :: int
  nf_collection_path :: string
  nf_product_path :: string
  nf_timeout :: int

definition default_nav_config :: nav_config where
  "default_nav_config = \<lparr>nf_enabled = True, nf_realm = ''default'', nf_cache_key = ''products:storefront:navigation:default'',
     nf_refresh_interval = 43200000000000, nf_cache_ttl = 86400000000000, nf_failure_ttl = 43200000000000,
     nf_collection_path = ''/collections'', nf_product_path = ''/product'', nf_timeout = 30000000000\<rparr>"

definition normalize_nav_config :: "nav_config \<Rightarrow> nav_config" where
  "normalize_nav_config c = (let text = (\<lambda>f. if trim (f c) = [] then f default_nav_config else f c);
       time = (\<lambda>f. if f c \<le> 0 then f default_nav_config else f c) in
     c\<lparr>nf_realm := text nf_realm, nf_cache_key := text nf_cache_key, nf_refresh_interval := time nf_refresh_interval,
       nf_cache_ttl := time nf_cache_ttl, nf_failure_ttl := time nf_failure_ttl, nf_collection_path := text nf_collection_path,
       nf_product_path := text nf_product_path, nf_timeout := time nf_timeout\<rparr>)"

definition realm_sheet :: "datasheet list \<Rightarrow> string \<Rightarrow> datasheet option" where
  "realm_sheet ss realm = find (\<lambda>s. equal_fold (trim (ds_realm s)) (trim realm)) ss"

text \<open>\<open>fmt v\<close> is the text of \<^verbatim>\<open>fmt.Sprintf("%v", v)\<close>.\<close>

definition string_attribute :: "(json \<Rightarrow> string) \<Rightarrow> (string \<times> json) list option \<Rightarrow> string \<Rightarrow> string" where
  "string_attribute fmt attrs key = (case attrs of None \<Rightarrow> [] | Some a \<Rightarrow> (case map_of a key of None \<Rightarrow> []
     | Some (JString s) \<Rightarrow> trim s | Some v \<Rightarrow> trim (fmt v)))"

definition resolve_product_path :: "(string \<Rightarrow> string) \<Rightarrow> (json \<Rightarrow> string) \<Rightarrow> (string \<times> json) list option \<Rightarrow> string \<Rightarrow> string \<Rightarrow> string \<times> string" where
  "resolve_product_path nfd fmt attrs fallback base = (let raw = string_attribute fmt attrs ''storefronturl'';
       or_fallback = (\<lambda>s. if s = [] then slugify nfd fallback else s) in
     if raw = [] then (let s = slugify nfd fallback in (s, join_path base [s]))
     else if has_prefix raw ''http://'' \<or> has_prefix raw ''https://'' \<or> has_prefix raw ''/''
     then (or_fallback (slugify nfd (path_base raw)), raw)
     else (let s = or_fallback (slugify nfd raw) in (s, join_path base [s])))"

definition map_product :: "(string \<Rightarrow> string) \<Rightarrow> (json \<Rightarrow> string) \<Rightarrow> nav_config \<Rightarrow> catalog_product \<Rightarrow> product_node option" where
  "map_product nfd fmt c p = (case realm_sheet (pt_datasheets p) (nf_realm c) of None \<Rightarrow> None
     | Some s \<Rightarrow> (let name = trim (ds_name s) in if name = [] then None
         else let (slug, path) = resolve_product_path nfd fmt (ds_attributes s) name (nf_product_path c) in
           Some \<lparr>nd_id = trim (pt_id p), nd_sku = trim (pt_sku p), nd_name = name, nd_slug = slug, nd_path = path,
             nd_created_at = pt_created_at p, nd_updated_at = pt_updated_at p\<rparr>))"

section \<open>The tree of categories\<close>

text \<open>The interface \<^verbatim>\<open>Source\<close>. \<open>None\<close> as the products of a category: the listing does not return.\<close>

record nav_source =
  ns_tree :: "products_error go_error + category list"
  ns_children :: "string \<Rightarrow> products_error go_error + category list"
  ns_products :: "string \<Rightarrow> (products_error go_error + catalog_product list) option"
  ns_pages :: "products_error go_error + page_node list"

text \<open>\<^verbatim>\<open>storefrontNavigationSource\<close>: the category service with one page of 100000 products. Its calls only read,
  so they all see the same world.\<close>

definition listed_products :: "products_error go_error + products_page option \<Rightarrow> (products_error go_error + catalog_product list) option" where
  "listed_products r = (case r of Inl e \<Rightarrow> Some (Inl e) | Inr None \<Rightarrow> None | Inr (Some page) \<Rightarrow> Some (Inr (pp_items page)))"

definition storefront_source :: "(string \<Rightarrow> json option) \<Rightarrow> (products_error go_error + page_node list) option \<Rightarrow> catalog_world \<Rightarrow> nav_source" where
  "storefront_source dec pages w = \<lparr>ns_tree = fst (root_categories w), ns_children = (\<lambda>i. fst (children_categories i w)),
     ns_products = (\<lambda>i. listed_products (fst (list_category_products dec \<lparr>pq_category_id = i, pq_page = 1, pq_page_size = 100000\<rparr> w))),
     ns_pages = given pages (Inr [])\<rparr>"

definition category_node_of :: "(string \<Rightarrow> string) \<Rightarrow> (json \<Rightarrow> string) \<Rightarrow> nav_config \<Rightarrow> string list \<Rightarrow> category
    \<Rightarrow> catalog_product list \<Rightarrow> category_node list \<Rightarrow> category_node" where
  "category_node_of nfd fmt c path k ps children = CategoryNode (trim (ca_id k)) (trim (ca_name k)) (slugify nfd (trim (ca_name k)))
     (join_path (nf_collection_path c) path) (ca_created_at k) (ca_updated_at k)
     (sort_key (\<lambda>n. (nd_created_at n, nd_id n)) (List.map_filter (map_product nfd fmt c) ps)) children"

text \<open>\<^verbatim>\<open>mapCategory\<close> for each category of a list; the first error ends the whole construction.\<close>

partial_function (option) map_categories :: "(string \<Rightarrow> string) \<Rightarrow> (json \<Rightarrow> string) \<Rightarrow> nav_config \<Rightarrow> nav_source \<Rightarrow> string list \<Rightarrow> category list
    \<Rightarrow> (products_error go_error + category_node list) option" where
  "map_categories nfd fmt c src ancestors cats = (case cats of [] \<Rightarrow> Some (Inr []) | k # ks \<Rightarrow>
     (case ns_children src (ca_id k) of Inl e \<Rightarrow> Some (Inl (Wrapped ''load storefront category children'' e)) | Inr inner \<Rightarrow>
     Option.bind (map_categories nfd fmt c src (ancestors @ [slugify nfd (trim (ca_name k))]) inner) (\<lambda>children.
     case children of Inl e \<Rightarrow> Some (Inl e) | Inr nodes \<Rightarrow>
     Option.bind (ns_products src (ca_id k)) (\<lambda>listed.
     case listed of Inl e \<Rightarrow> Some (Inl (Wrapped ''load storefront category products'' e)) | Inr ps \<Rightarrow>
     Option.bind (map_categories nfd fmt c src ancestors ks) (\<lambda>others.
     case others of Inl e \<Rightarrow> Some (Inl e) | Inr rest \<Rightarrow>
       Some (Inr (category_node_of nfd fmt c (ancestors @ [slugify nfd (trim (ca_name k))]) k ps nodes # rest)))))))"

definition build_navigation :: "(string \<Rightarrow> string) \<Rightarrow> (json \<Rightarrow> string) \<Rightarrow> nav_config \<Rightarrow> gotime \<Rightarrow> nav_source
    \<Rightarrow> (products_error go_error + navigation) option" where
  "build_navigation nfd fmt c now src = (case ns_tree src of Inl e \<Rightarrow> Some (Inl (Wrapped ''load storefront root categories'' e)) | Inr roots \<Rightarrow>
     (case ns_pages src of Inl e \<Rightarrow> Some (Inl (Wrapped ''load storefront static pages'' e)) | Inr pages \<Rightarrow>
     Option.bind (map_categories nfd fmt c src [] roots) (\<lambda>r. case r of Inl e \<Rightarrow> Some (Inl e) | Inr nodes \<Rightarrow>
       Some (Inr \<lparr>nv_realm = nf_realm c, nv_generated_at = now, nv_categories = nodes,
         nv_static_pages = sort_key (\<lambda>n. (ng_created_at n, ng_id n)) pages\<rparr>))))"

section \<open>The cached snapshot\<close>

text \<open>The cache keeps texts with the lifetime they were written with; a missing key is an error of \<^verbatim>\<open>Get\<close>.\<close>

record nav_world =
  nw_configured :: bool
  nw_cache :: "string \<rightharpoonup> string \<times> int"
  nw_get_fails :: bool
  nw_set_fails :: "string \<Rightarrow> bool"

type_synonym 'a nav_prog = "(nav_world, products_error, 'a) prog"

definition cache_get :: "string \<Rightarrow> string nav_prog" where
  "cache_get key = bindp (getp (\<lambda>w. if nw_get_fails w then None else nw_cache w key)) (\<lambda>v.
     case v of None \<Rightarrow> throw (Err ProductsDriverError) | Some (text, _) \<Rightarrow> ret text)"

definition cache_set :: "string \<Rightarrow> string \<Rightarrow> int \<Rightarrow> unit nav_prog" where
  "cache_set key text ttl = bindp (getp (\<lambda>w. nw_set_fails w text)) (\<lambda>fails. if fails then throw (Err ProductsDriverError)
     else modp (\<lambda>w. w\<lparr>nw_cache := (nw_cache w)(key \<mapsto> (text, ttl))\<rparr>))"

definition extend_cached_snapshot :: "nav_config \<Rightarrow> unit nav_prog" where
  "extend_cached_snapshot c = bindp (getp nw_configured) (\<lambda>configured. if \<not> configured then ret ()
     else bindp (tryp (cache_get (nf_cache_key c))) (\<lambda>r. case r of Inl _ \<Rightarrow> ret ()
       | Inr text \<Rightarrow> if trim text = [] then ret ()
           else bindp (tryp (cache_set (nf_cache_key c) text (nf_failure_ttl c))) (\<lambda>_. ret ())))"

definition persist_snapshot :: "(navigation \<Rightarrow> string option) \<Rightarrow> nav_config \<Rightarrow> navigation \<Rightarrow> unit nav_prog" where
  "persist_snapshot enc c n = bindp (getp nw_configured) (\<lambda>configured. if \<not> configured then ret ()
     else case enc n of None \<Rightarrow> throw (Wrapped ''marshal storefront navigation snapshot'' (Err ProductsDriverError))
       | Some text \<Rightarrow> wrap_err ''persist storefront navigation snapshot'' (cache_set (nf_cache_key c) text (nf_cache_ttl c)))"

definition regenerate :: "(navigation \<Rightarrow> string option) \<Rightarrow> nav_config \<Rightarrow> (products_error go_error + navigation) option \<Rightarrow> navigation option nav_prog" where
  "regenerate enc c built = (case built of None \<Rightarrow> ret None
     | Some (Inl e) \<Rightarrow> bindp (extend_cached_snapshot c) (\<lambda>_. throw e)
     | Some (Inr n) \<Rightarrow> bindp (persist_snapshot enc c n) (\<lambda>_. ret (Some n)))"

definition get_navigation :: "(navigation \<Rightarrow> string option) \<Rightarrow> (string \<Rightarrow> navigation option) \<Rightarrow> nav_config
    \<Rightarrow> (products_error go_error + navigation) option \<Rightarrow> navigation option nav_prog" where
  "get_navigation enc dec c built = bindp (getp nw_configured) (\<lambda>configured. if \<not> configured then regenerate enc c built
     else bindp (tryp (cache_get (nf_cache_key c))) (\<lambda>r. case r of Inl _ \<Rightarrow> regenerate enc c built
       | Inr text \<Rightarrow> if trim text = [] then regenerate enc c built
           else (case dec text of None \<Rightarrow> regenerate enc c built | Some n \<Rightarrow> ret (Some n))))"

definition navigation_trigger :: "(navigation \<Rightarrow> string option) \<Rightarrow> nav_config \<Rightarrow> (products_error go_error + navigation) option \<Rightarrow> unit nav_prog" where
  "navigation_trigger enc c built = (if \<not> nf_enabled c then ret () else bindp (tryp (regenerate enc c built)) (\<lambda>_. ret ()))"

end
