(* ===== verification/Products_Navigation.thy ===== *)
theory Products_Navigation
  imports Products_Storefront
begin

text \<open>
  The construction of the storefront navigation always returns: cycles of categories are never reached from
  a category without a parent. The categories of the snapshot are those below such roots.
\<close>

fun node_ids :: "category_node \<Rightarrow> string list" where
  "node_ids (CategoryNode i _ _ _ _ _ _ children) = i # concat (map node_ids children)"

lemma node_ids_of [simp]:
  "node_ids (category_node_of nfd fmt c path k ps children) = trim (ca_id k) # concat (map node_ids children)"
  by (simp add: category_node_of_def)

section \<open>The recursion over the tree\<close>

lemma map_categories_Nil [simp]: "map_categories nfd fmt c src ancestors [] = Some (Inr [])"
  by (subst map_categories.simps) simp

text \<open>A source whose children are given by \<open>children\<close> on the identifiers \<open>S\<close>.\<close>

definition follows :: "nav_source \<Rightarrow> (string \<Rightarrow> string list) \<Rightarrow> string set \<Rightarrow> bool" where
  "follows src children S \<longleftrightarrow> (\<forall>i \<in> S. set (children i) \<subseteq> S \<and> trim i = i
     \<and> (\<forall>ks. ns_children src i = Inr ks \<longrightarrow> ca_id ` set ks = set (children i)))"

lemma map_categories_ends:
  assumes src: "follows src children S"
    and listed: "\<And>i. i \<in> S \<Longrightarrow> i \<in> Wellfounded.acc (child_of children) \<Longrightarrow> ns_products src i \<noteq> None"
    and "\<forall>k \<in> set ks. ca_id k \<in> S \<and> ca_id k \<in> Wellfounded.acc (child_of children)"
  shows "map_categories nfd fmt c src ancestors ks \<noteq> None"
proof -
  have lists: "map_categories nfd fmt c src ancestors ks \<noteq> None"
    if "\<forall>k \<in> set ks. \<forall>ancestors. map_categories nfd fmt c src ancestors [k] \<noteq> None" for ks ancestors
    using that
  proof (induction ks)
    case (Cons k ks)
    then have "map_categories nfd fmt c src ancestors [k] \<noteq> None" "map_categories nfd fmt c src ancestors ks \<noteq> None" by simp_all
    then show ?case
      by (subst map_categories.simps, subst (asm) map_categories.simps)
        (fastforce split: sum.splits option.splits bind_splits)
  qed simp
  have single: "map_categories nfd fmt c src ancestors [k] \<noteq> None"
    if "ca_id k \<in> Wellfounded.acc (child_of children)" "ca_id k \<in> S" for k ancestors
    using that
  proof (induction i \<equiv> "ca_id k" arbitrary: k ancestors rule: acc.induct)
    case (accI k)
    then have acc: "ca_id k \<in> Wellfounded.acc (child_of children)" by (auto intro: acc.accI)
    show ?case
    proof (cases "ns_children src (ca_id k)")
      case (Inl e)
      then show ?thesis by (subst map_categories.simps) simp
    next
      case (Inr inner)
      with src accI.prems have ids: "ca_id ` set inner = set (children (ca_id k))" "set (children (ca_id k)) \<subseteq> S"
        by (auto simp: follows_def)
      then have "\<forall>j \<in> set inner. \<forall>ancestors. map_categories nfd fmt c src ancestors [j] \<noteq> None"
        using accI.hyps(2) by (fastforce simp: child_of_def)
      then have "map_categories nfd fmt c src anc inner \<noteq> None" for anc using lists by blast
      moreover have "ns_products src (ca_id k) \<noteq> None" using listed[OF accI.prems acc] .
      ultimately show ?thesis
        using Inr by (subst map_categories.simps) (auto split: sum.splits bind_splits)
    qed
  qed
  show ?thesis using lists single assms(3) by blast
qed

lemma map_categories_ids:
  assumes "follows src children S" "\<forall>k \<in> set ks. ca_id k \<in> S"
    and "map_categories nfd fmt c src ancestors ks = Some (Inr nodes)"
  shows "set (concat (map node_ids nodes)) = (\<Union>k \<in> set ks. insert (ca_id k) (below children (ca_id k)))"
proof -
  let ?P = "\<lambda>(nfd :: string \<Rightarrow> string) (fmt :: json \<Rightarrow> string) (c :: nav_config) src (ancestors :: string list) ks (r :: products_error go_error + category_node list). follows src children S \<longrightarrow> (\<forall>k \<in> set ks. ca_id k \<in> S) \<longrightarrow> (\<forall>nodes. r = Inr nodes \<longrightarrow>
    set (concat (map node_ids nodes)) = (\<Union>k \<in> set ks. insert (ca_id k) (below children (ca_id k))))"
  have "?P nfd fmt c src ancestors ks (Inr nodes)"
  proof (rule map_categories.raw_induct[where P = ?P, OF _ assms(3)], intro impI allI)
    fix f :: "(string \<Rightarrow> string) \<Rightarrow> (json \<Rightarrow> string) \<Rightarrow> nav_config \<Rightarrow> nav_source \<Rightarrow> string list \<Rightarrow> category list \<Rightarrow> (products_error go_error + category_node list) option"
    fix nfd fmt c src ancestors ks r nodes
    assume IH: "\<And>nfd fmt c src ancestors ks r. f nfd fmt c src ancestors ks = Some r \<Longrightarrow> ?P nfd fmt c src ancestors ks r"
      and run: "(case ks of [] \<Rightarrow> Some (Inr []) | k # ks \<Rightarrow>
     (case ns_children src (ca_id k) of Inl e \<Rightarrow> Some (Inl (Wrapped ''load storefront category children'' e)) | Inr inner \<Rightarrow>
     Option.bind (f nfd fmt c src (ancestors @ [slugify nfd (trim (ca_name k))]) inner) (\<lambda>children.
     case children of Inl e \<Rightarrow> Some (Inl e) | Inr nodes \<Rightarrow>
     Option.bind (ns_products src (ca_id k)) (\<lambda>listed.
     case listed of Inl e \<Rightarrow> Some (Inl (Wrapped ''load storefront category products'' e)) | Inr ps \<Rightarrow>
     Option.bind (f nfd fmt c src ancestors ks) (\<lambda>others.
     case others of Inl e \<Rightarrow> Some (Inl e) | Inr rest \<Rightarrow>
       Some (Inr (category_node_of nfd fmt c (ancestors @ [slugify nfd (trim (ca_name k))]) k ps nodes # rest))))))) = Some r"
      and src: "follows src children S" and S: "\<forall>k \<in> set ks. ca_id k \<in> S" and r: "r = Inr nodes"
    show "set (concat (map node_ids nodes)) = (\<Union>k \<in> set ks. insert (ca_id k) (below children (ca_id k)))"
    proof (cases ks)
      case (Cons k js)
      obtain inner nodes' ps rest where inner: "ns_children src (ca_id k) = Inr inner"
        and f: "f nfd fmt c src (ancestors @ [slugify nfd (trim (ca_name k))]) inner = Some (Inr nodes')"
          "f nfd fmt c src ancestors js = Some (Inr rest)"
        and nodes: "nodes = category_node_of nfd fmt c (ancestors @ [slugify nfd (trim (ca_name k))]) k ps nodes' # rest"
        using run r Cons by (auto split: sum.splits bind_splits)
      have k: "ca_id ` set inner = set (children (ca_id k))" "set (children (ca_id k)) \<subseteq> S" "trim (ca_id k) = ca_id k"
        using src S Cons inner by (auto simp: follows_def)
      have "set (concat (map node_ids nodes')) = (\<Union>j \<in> set inner. insert (ca_id j) (below children (ca_id j)))"
        using IH[OF f(1)] src k(1,2) by blast
      also have "\<dots> = (\<Union>i \<in> set (children (ca_id k)). insert i (below children i))" unfolding k(1)[symmetric] by simp
      also have "\<dots> = below children (ca_id k)" by (subst (2) below_unfold) auto
      finally have "set (concat (map node_ids nodes')) = below children (ca_id k)" .
      moreover have "set (concat (map node_ids rest)) = (\<Union>k \<in> set js. insert (ca_id k) (below children (ca_id k)))"
        using IH[OF f(2)] src S Cons by simp
      ultimately show ?thesis using nodes Cons k(3) by simp
    qed (use run r in simp)
  qed
  with assms(1,2) show ?thesis by blast
qed

section \<open>The source of the storefront\<close>

lemma collect_load:
  assumes "working d"
  shows "\<exists>ks. collect load_category rs d = (Inr ks, d) \<and> map ca_id ks = map yr_id rs"
  using assms
proof (induction rs)
  case (Cons r rs)
  then show ?case using category_by_id_ok(2)[of d r] by (auto simp: prog_simps)
qed (simp add: prog_simps)

lemma root_acyclic:
  assumes "catalog_ok d" "r \<in> set (pd_categories d)" "live_category r" "yr_parent_id r = None"
  shows "\<not> cyclic_below (child_ids d) (yr_id r)"
proof
  let ?R = "child_of (child_ids d)"
  assume "cyclic_below (child_ids d) (yr_id r)"
  then obtain x where x: "(x, yr_id r) \<in> ?R\<^sup>*" "(x, x) \<in> ?R\<^sup>+"
    by (auto simp: cyclic_below_def below_def intro: trancl_into_rtrancl)
  have "single_valued ?R"
    using child_ids_forest(2)[OF keys_distinct[OF assms(1)]] by (auto simp: single_valued_def child_of_def)
  have "(y, y) \<in> ?R\<^sup>+" if "(x, y) \<in> ?R\<^sup>*" for y
    using that
  proof (induction rule: rtrancl_induct)
    case (step y z)
    then obtain w where "(y, w) \<in> ?R" "(w, y) \<in> ?R\<^sup>*" by (meson tranclD)
    then have "(z, y) \<in> ?R\<^sup>*" using step(2) \<open>single_valued ?R\<close> by (auto dest: single_valuedD)
    then show ?case using step(2) by (rule rtrancl_into_trancl1)
  qed (rule x(2))
  with x(1) have "(yr_id r, yr_id r) \<in> ?R\<^sup>+" by blast
  then obtain p where "yr_id r \<in> set (child_ids d p)" by (auto simp: child_of_def dest: tranclD)
  then show False
    using assms(2,4) keys_distinct[OF assms(1)] by (auto simp: child_ids_iff distinct_map inj_on_def)
qed

text \<open>Stored identifiers are trimmed and not empty (they come from the generator of identifiers).\<close>

definition clean_ids :: "products_db \<Rightarrow> bool" where
  "clean_ids d \<longleftrightarrow> (\<forall>r \<in> set (pd_categories d). trim (yr_id r) = yr_id r \<and> yr_id r \<noteq> [])"

definition root_ids :: "products_db \<Rightarrow> string list" where
  "root_ids d = map yr_id (filter (\<lambda>r. live_category r \<and> yr_parent_id r = None) (pd_categories d))"

lemma storefront_follows:
  assumes "working (kw_db w)" "clean_ids (kw_db w)"
  shows "follows (storefront_source dec pages w) (child_ids (kw_db w)) {i. trim i = i \<and> i \<noteq> []}"
  unfolding follows_def
proof (intro ballI conjI allI impI)
  fix i
  assume i: "i \<in> {i. trim i = i \<and> i \<noteq> []}"
  show "set (child_ids (kw_db w) i) \<subseteq> {i. trim i = i \<and> i \<noteq> []}"
    using assms(2) by (auto simp: child_ids_iff clean_ids_def)
  show "trim i = i" using i by simp
  fix ks
  define rs where "rs = sort_key yr_created_at (filter (\<lambda>r. live_category r \<and> yr_parent_id r = Some (trim i)) (pd_categories (kw_db w)))"
  assume "ns_children (storefront_source dec pages w) i = Inr ks"
  moreover obtain js where "collect load_category rs (kw_db w) = (Inr js, kw_db w)" "map ca_id js = map yr_id rs"
    using collect_load[OF assms(1)] by blast
  ultimately have "map ca_id ks = map yr_id rs"
    using i assms(1) by (simp add: storefront_source_def children_categories_def category_children_def prog_simps through_def
        select_working rs_def)
  then have "ca_id ` set ks = yr_id ` set rs" by (metis list.set_map)
  then show "ca_id ` set ks = set (child_ids (kw_db w) i)" using i by (auto simp: rs_def child_ids_iff)
qed

lemma storefront_roots:
  assumes "working (kw_db w)"
  obtains roots where "ns_tree (storefront_source dec pages w) = Inr roots" "ca_id ` set roots = set (root_ids (kw_db w))"
proof -
  define rs where "rs = sort_key yr_created_at (filter (\<lambda>r. live_category r \<and> yr_parent_id r = None) (pd_categories (kw_db w)))"
  obtain ks where ks: "collect load_category rs (kw_db w) = (Inr ks, kw_db w)" "map ca_id ks = map yr_id rs"
    using collect_load[OF assms] by blast
  from ks(2) have "ca_id ` set ks = yr_id ` set rs" by (metis list.set_map)
  then have "ca_id ` set ks = set (root_ids (kw_db w))" by (auto simp: rs_def root_ids_def)
  moreover have "ns_tree (storefront_source dec pages w) = Inr ks"
    using assms ks by (simp add: storefront_source_def root_categories_def category_tree_def prog_simps through_def select_working rs_def)
  ultimately show thesis using that by blast
qed

lemma storefront_listed:
  assumes "catalog_ok (kw_db w)" "working (kw_db w)" "i \<in> Wellfounded.acc (child_of (child_ids (kw_db w)))" "trim i = i"
  shows "ns_products (storefront_source dec pages w) i \<noteq> None"
proof -
  have "ca_id k = i" if "fst (get_category i w) = Inr k" for k
  proof -
    have "fst (category_by_id i (kw_db w)) = Inr k"
      using that assms(4) by (auto simp: get_category_def mapped_errors_def prog_simps through_def split: prod.splits sum.splits if_splits)
    then obtain r where "yr_id r = i" "fst (load_category r (kw_db w)) = Inr k"
      using category_by_id_ok(1)[OF assms(2), where i = i] assms(4) by (auto simp: find_Some_iff split: option.splits)
    then show ?thesis using category_by_id_ok(2)[OF assms(2), of r] by auto
  qed
  then have "fst (list_category_products dec \<lparr>pq_category_id = i, pq_page = 1, pq_page_size = 100000\<rparr> w) \<noteq> Inr None"
    using listing_returns_iff[OF assms(1,2)] acc_acyclic[OF assms(3)] by auto
  then show ?thesis by (auto simp: storefront_source_def listed_products_def split: sum.splits option.splits)
qed

text \<open>C28: On a catalog whose statements do not fail, the construction of the storefront navigation always
  returns, whatever cycles the parent relation has; a snapshot it returns holds exactly the live categories that
  are a category without parent or below one, so the categories on a cycle are missing from it.\<close>

theorem navigation_returns:
  assumes "catalog_ok (kw_db w)" "working (kw_db w)" "clean_ids (kw_db w)"
  shows "\<exists>r. build_navigation nfd fmt c now (storefront_source dec pages w) = Some r \<and> (\<forall>n. r = Inr n \<longrightarrow>
    set (concat (map node_ids (nv_categories n))) = (\<Union>i \<in> set (root_ids (kw_db w)). insert i (below (child_ids (kw_db w)) i)))"
proof -
  let ?src = "storefront_source dec pages w" and ?S = "{i. trim i = i \<and> i \<noteq> []}"
  obtain roots where roots: "ns_tree ?src = Inr roots" "ca_id ` set roots = set (root_ids (kw_db w))"
    using storefront_roots[OF assms(2)] by blast
  note src = storefront_follows[OF assms(2,3), of dec pages]
  have S: "\<forall>k \<in> set roots. ca_id k \<in> ?S"
  proof
    fix k
    assume "k \<in> set roots"
    then have "ca_id k \<in> set (root_ids (kw_db w))" using roots(2) by blast
    then show "ca_id k \<in> ?S" using assms(3) by (auto simp: root_ids_def clean_ids_def)
  qed
  have "\<forall>k \<in> set roots. ca_id k \<in> Wellfounded.acc (child_of (child_ids (kw_db w)))"
  proof
    fix k
    assume "k \<in> set roots"
    then have "ca_id k \<in> set (root_ids (kw_db w))" using roots(2) by blast
    then have "\<not> cyclic_below (child_ids (kw_db w)) (ca_id k)"
      using root_acyclic[OF assms(1)] by (auto simp: root_ids_def)
    then show "ca_id k \<in> Wellfounded.acc (child_of (child_ids (kw_db w)))" by (rule acyclic_acc[OF child_ids_finite])
  qed
  with S have "map_categories nfd fmt c ?src [] roots \<noteq> None"
    using storefront_listed[OF assms(1,2)] by (intro map_categories_ends[OF src]) blast+
  then obtain r where r: "map_categories nfd fmt c ?src [] roots = Some r" by blast
  have "set (concat (map node_ids nodes)) = (\<Union>i \<in> set (root_ids (kw_db w)). insert i (below (child_ids (kw_db w)) i))"
    if "r = Inr nodes" for nodes
    unfolding map_categories_ids[OF src S r[unfolded that]] roots(2)[symmetric] by simp
  then show ?thesis using r roots(1) by (auto simp: build_navigation_def split: sum.split)
qed

theorem navigation_returns_witness:
  "\<exists>r. build_navigation (\<lambda>s. s) (\<lambda>_. []) default_nav_config 7 (storefront_source (\<lambda>_. None) None sample_world) = Some r \<and> (\<forall>n. r = Inr n \<longrightarrow>
    set (concat (map node_ids (nv_categories n))) = {''a'', ''b''})"
proof -
  have "clean_ids (kw_db sample_world)" by (simp add: clean_ids_def sample_world_def sample_catalog_def sample_row_def)
  moreover have "set (root_ids (kw_db sample_world)) = {''a''}"
    by (auto simp: root_ids_def sample_world_def sample_catalog_def sample_row_def live_category_def)
  moreover have "below (child_ids (kw_db sample_world)) ''a'' = {''b''}" using sample_below by (simp add: sample_world_def)
  ultimately show ?thesis
    using navigation_returns[OF sample_ok, of "\<lambda>s. s" "\<lambda>_. []" default_nav_config 7 "\<lambda>_. None" None] by simp
qed

end
