(* ===== verification/Exports_Csv.thy ===== *)
theory Exports_Csv
  imports Go_Strings
begin

text \<open>
  The CSV files of \<^verbatim>\<open>module/exports/application/csv.go\<close>: the writer of the library package \<^verbatim>\<open>encoding/csv\<close> as
  the code uses it (comma, line feed).
\<close>

section \<open>Writing\<close>

text \<open>A field is quoted if it is the end marker of some databases, has a comma, a quote or a line break, or
  begins with white space.\<close>

definition csv_needs_quotes :: "string \<Rightarrow> bool" where
  "csv_needs_quotes f \<longleftrightarrow> f \<noteq> [] \<and> (f = [CHR 0x5C, CHR ''.''] \<or> CHR '','' \<in> set f \<or> CHR 0x22 \<in> set f \<or> CHR 0x0D \<in> set f \<or> CHR 0x0A \<in> set f
     \<or> lead ws_tokens f \<noteq> None)"

fun csv_escape :: "string \<Rightarrow> string" where
  "csv_escape [] = []"
| "csv_escape (c # cs) = (if c = CHR 0x22 then [CHR 0x22, CHR 0x22] @ csv_escape cs else c # csv_escape cs)"

definition csv_field :: "string \<Rightarrow> string" where
  "csv_field f = (if csv_needs_quotes f then CHR 0x22 # csv_escape f @ [CHR 0x22] else f)"

definition csv_record :: "string list \<Rightarrow> string" where
  "csv_record fs = join '','' (map csv_field fs) @ [CHR 0x0A]"

definition write_csv :: "string list list \<Rightarrow> string" where
  "write_csv records = concat (map csv_record records)"

end
