(* ===== verification/Contacts_Domain.thy ===== *)
theory Contacts_Domain
  imports Go_Strings
begin

text \<open>
  The contact aggregate (\<^verbatim>\<open>module/contacts/domain/contact.go\<close>): its values, normalization and validation, and
  what normalization guarantees.
\<close>

datatype contacts_error = ErrEmailRequired | ErrInvalidNameCombination | ErrIncompletePersonalName | ErrInvalidMetadata
  | PortContactNotFound | PortDuplicateContact | PortDuplicateEmail | PortDuplicateDocument | ErrInvalidContactID
  | ContactsDriverError | ContactsTransportError

record contact =
  ct_id :: string
  ct_document_type :: string
  ct_document_number :: string
  ct_legal_name :: string
  ct_first_name :: string
  ct_last_name :: string
  ct_email :: string
  ct_phone :: string
  ct_address :: string
  ct_address_extra :: string
  ct_city_code :: string
  ct_metadata :: gomap
  ct_created_at :: gotime
  ct_updated_at :: gotime

definition contact_metadata_normalize :: "gomap \<Rightarrow> gomap" where
  "contact_metadata_normalize m = trim_metadata (sort_key fst m) []"

definition contact_normalize :: "contact \<Rightarrow> contact" where
  "contact_normalize c = \<lparr>ct_id = trim (ct_id c), ct_document_type = trim (ct_document_type c),
     ct_document_number = trim (ct_document_number c), ct_legal_name = trim (ct_legal_name c),
     ct_first_name = trim (ct_first_name c), ct_last_name = trim (ct_last_name c), ct_email = trim (ct_email c),
     ct_phone = trim (ct_phone c), ct_address = trim (ct_address c), ct_address_extra = trim (ct_address_extra c),
     ct_city_code = trim (ct_city_code c), ct_metadata = contact_metadata_normalize (ct_metadata c),
     ct_created_at = ct_created_at c, ct_updated_at = ct_updated_at c\<rparr>"

fun contact_metadata_validate :: "gomap \<Rightarrow> contacts_error go_error option" where
  "contact_metadata_validate [] = None"
| "contact_metadata_validate ((k, v) # m) = (let key = trim k in
     if key = [] then Some (Err ErrInvalidMetadata)
     else if length key > 128 then Some (Wrapped ''key exceeds max length'' (Err ErrInvalidMetadata))
     else if length v > 2048 then Some (Wrapped ''value exceeds max length'' (Err ErrInvalidMetadata))
     else contact_metadata_validate m)"

definition contact_validate :: "contact \<Rightarrow> contacts_error go_error option" where
  "contact_validate c = (let legal = trim (ct_legal_name c) \<noteq> []; given = trim (ct_first_name c) \<noteq> [];
       family = trim (ct_last_name c) \<noteq> [] in
     if trim (ct_email c) = [] then Some (Err ErrEmailRequired)
     else if legal \<and> (given \<or> family) then Some (Err ErrInvalidNameCombination)
     else if \<not> legal \<and> (\<not> given \<or> \<not> family) then Some (Err ErrIncompletePersonalName)
     else contact_metadata_validate (ct_metadata c))"

section \<open>What a valid contact is\<close>

definition metadata_entry_ok :: "string \<times> string \<Rightarrow> bool" where
  "metadata_entry_ok kv \<longleftrightarrow> trim (fst kv) \<noteq> [] \<and> length (trim (fst kv)) \<le> 128 \<and> length (snd kv) \<le> 2048"

definition names_ok :: "string \<Rightarrow> string \<Rightarrow> string \<Rightarrow> bool" where
  "names_ok legal given family \<longleftrightarrow> (if trim legal \<noteq> [] then trim given = [] \<and> trim family = [] else trim given \<noteq> [] \<and> trim family \<noteq> [])"

lemma contact_metadata_validate_iff: "contact_metadata_validate m = None \<longleftrightarrow> list_all metadata_entry_ok m"
  by (induction m rule: contact_metadata_validate.induct) (auto simp: Let_def metadata_entry_ok_def)

lemma contact_validate_iff: "contact_validate c = None \<longleftrightarrow> trim (ct_email c) \<noteq> []
    \<and> names_ok (ct_legal_name c) (ct_first_name c) (ct_last_name c) \<and> list_all metadata_entry_ok (ct_metadata c)"
  by (auto simp: contact_validate_def Let_def names_ok_def contact_metadata_validate_iff)

section \<open>What normalization guarantees\<close>

lemma metadata_normalize_trimmed: "metadata_trimmed (contact_metadata_normalize m)"
  unfolding contact_metadata_normalize_def by (rule trim_metadata_trimmed) (simp add: metadata_trimmed_def)

lemma metadata_normalize_sorted: "metadata_trimmed m \<Longrightarrow> contact_metadata_normalize m = sort_key fst m"
proof -
  assume "metadata_trimmed m"
  moreover have "distinct (map fst (sort_key fst m)) \<longleftrightarrow> distinct (map fst m)"
    by (rule mset_eq_imp_distinct_iff) simp
  ultimately have "metadata_trimmed ([] @ sort_key fst m)" by (simp add: metadata_trimmed_def list_all_iff)
  then show ?thesis unfolding contact_metadata_normalize_def by (subst trim_metadata_append) simp_all
qed

end
