(* ===== verification/Contacts_Store.thy ===== *)
theory Contacts_Store
  imports Contacts_Domain Sql_Columns
begin

text \<open>
  The contact repository (\<^verbatim>\<open>module/contacts/adapter/store\<close>): rows of the tables \<^verbatim>\<open>contacts\<close> and
  \<^verbatim>\<open>contact_metadata\<close> and the five operations.

  The unique indices on the e-mail and on the document key cover soft-deleted rows. \<open>cd_dup_message\<close> is the text
  of the driver's error for a repeated value of an index, \<open>cd_fault\<close> says which statements fail otherwise. No
  statement can repeat a key of the metadata of a contact: its rows are deleted first and written with
  unrepeated keys in one statement.

  Times are stored in milliseconds. A listing compares texts by the collation's sort weight \<open>cd_weight\<close>, and orders
  rows that compare equal by \<open>cd_tie\<close>, an arbitrary rank that may be another one for every page.
\<close>

section \<open>Tables\<close>

record contact_row =
  cr_id :: string
  cr_document_type :: string
  cr_document_number :: string
  cr_document_key :: "string option"
  cr_legal_name :: string
  cr_first_name :: string
  cr_last_name :: string
  cr_email :: string
  cr_phone :: string
  cr_address :: string
  cr_address_extra :: string
  cr_city_code :: string
  cr_created_at :: gotime
  cr_updated_at :: gotime
  cr_deleted_at :: "gotime option"

record contact_metadata_row =
  md_id :: nat
  md_contact_id :: string
  md_key :: string
  md_value :: string

record contacts_db =
  cd_rows :: "contact_row list"
  cd_metadata :: "contact_metadata_row list"
  cd_next :: nat
  cd_clock :: gotime
  cd_random :: "nat \<Rightarrow> string"
  cd_drawn :: nat
  cd_fault :: "string \<Rightarrow> bool"
  cd_dup_message :: "string \<Rightarrow> string \<Rightarrow> string"
  cd_weight :: "string \<Rightarrow> string"
  cd_tie :: "int \<Rightarrow> string \<Rightarrow> int"

type_synonym 'a contacts_prog = "(contacts_db, contacts_error, 'a) prog"

definition contact_stmt :: "string \<Rightarrow> 'a contacts_prog \<Rightarrow> 'a contacts_prog" where
  "contact_stmt label m = (\<lambda>d. if cd_fault d label then (Inl (Wrapped label (Err ContactsDriverError)), d) else m d)"

definition live_contact :: "contact_row \<Rightarrow> bool" where
  "live_contact r \<longleftrightarrow> cr_deleted_at r = None"

section \<open>Rows and errors\<close>

definition build_document_key :: "string \<Rightarrow> string \<Rightarrow> string option" where
  "build_document_key document_type number = (let t = to_upper (trim document_type); n = to_upper (trim number) in
     if t = [] \<or> n = [] then None else Some (t @ ''|'' @ n))"

definition contact_to_row :: "contact \<Rightarrow> contact_row" where
  "contact_to_row contact = (let c = contact_normalize contact in
     \<lparr>cr_id = trim (ct_id c), cr_document_type = trim (ct_document_type c), cr_document_number = trim (ct_document_number c),
      cr_document_key = build_document_key (trim (ct_document_type c)) (trim (ct_document_number c)),
      cr_legal_name = trim (ct_legal_name c), cr_first_name = trim (ct_first_name c), cr_last_name = trim (ct_last_name c),
      cr_email = trim (ct_email c), cr_phone = trim (ct_phone c), cr_address = trim (ct_address c),
      cr_address_extra = trim (ct_address_extra c), cr_city_code = trim (ct_city_code c), cr_created_at = ct_created_at c,
      cr_updated_at = ct_updated_at c, cr_deleted_at = None\<rparr>)"

definition contact_of_row :: "contact_row \<Rightarrow> gomap \<Rightarrow> contact" where
  "contact_of_row r metadata = contact_normalize \<lparr>ct_id = cr_id r, ct_document_type = cr_document_type r,
     ct_document_number = cr_document_number r, ct_legal_name = cr_legal_name r, ct_first_name = cr_first_name r,
     ct_last_name = cr_last_name r, ct_email = cr_email r, ct_phone = cr_phone r, ct_address = cr_address r,
     ct_address_extra = cr_address_extra r, ct_city_code = cr_city_code r, ct_metadata = metadata,
     ct_created_at = cr_created_at r, ct_updated_at = cr_updated_at r\<rparr>"

definition unique_message :: "string \<Rightarrow> bool" where
  "unique_message m \<longleftrightarrow> contains m ''duplicate key'' \<or> contains m ''duplicated key'' \<or> contains m ''unique constraint failed''
     \<or> contains m ''unique failed''"

definition document_message :: "string \<Rightarrow> bool" where
  "document_message m \<longleftrightarrow> contains m ''idx_contacts_document_key'' \<or> contains m ''contacts.document_key''"

definition email_message :: "string \<Rightarrow> bool" where
  "email_message m \<longleftrightarrow> contains m ''idx_contacts_email'' \<or> contains m ''contacts.email''"

text \<open>\<^verbatim>\<open>mapDuplicateError\<close> on the text of a driver error.\<close>

definition duplicate_error :: "string \<Rightarrow> contacts_error option" where
  "duplicate_error text = (let m = to_lower text in
     if \<not> unique_message m then None
     else if document_message m then Some PortDuplicateDocument
     else if email_message m then Some PortDuplicateEmail else Some PortDuplicateContact)"

definition write_error :: "string \<Rightarrow> string \<Rightarrow> contacts_error go_error" where
  "write_error label text = Wrapped label (Err (case duplicate_error text of None \<Rightarrow> ContactsDriverError | Some e \<Rightarrow> e))"

text \<open>The index a row violates next to the rows \<open>rs\<close>, in the order of the table's definition, with the value.\<close>

definition violated_index :: "contact_row \<Rightarrow> contact_row list \<Rightarrow> (string \<times> string) option" where
  "violated_index r rs = (if cr_id r \<in> cr_id ` set rs then Some (''PRIMARY'', cr_id r)
     else if cr_document_key r \<noteq> None \<and> cr_document_key r \<in> cr_document_key ` set rs
     then Some (''idx_contacts_document_key'', the (cr_document_key r))
     else if cr_email r \<in> cr_email ` set rs then Some (''idx_contacts_email'', cr_email r) else None)"

section \<open>Metadata\<close>

text \<open>The loop of \<^verbatim>\<open>toMetadataRecords\<close>: \<open>None\<close> is \<^verbatim>\<open>ErrInvalidMetadata\<close>.\<close>

fun metadata_entries :: "gomap \<Rightarrow> gomap \<Rightarrow> gomap option" where
  "metadata_entries [] acc = Some acc"
| "metadata_entries ((k, v) # m) acc = (let key = trim k; value = trim v in
     if key = [] then metadata_entries m acc
     else if length key > 128 \<or> length value > 2048 then None
     else metadata_entries m (AList.update key value acc))"

definition metadata_rows :: "string \<Rightarrow> nat \<Rightarrow> gomap \<Rightarrow> contact_metadata_row list" where
  "metadata_rows cid k m = map (\<lambda>(i, (key, v)). \<lparr>md_id = i, md_contact_id = cid, md_key = key, md_value = v\<rparr>) (enumerate k m)"

definition replace_contact_metadata :: "string \<Rightarrow> gomap \<Rightarrow> unit contacts_prog" where
  "replace_contact_metadata contact_id m = (let cid = trim contact_id in
     bindp (contact_stmt ''delete contact metadata records'' (modp (cd_metadata_update (filter (\<lambda>r. md_contact_id r \<noteq> cid))))) (\<lambda>_.
     case metadata_entries m [] of None \<Rightarrow> throw (Err ErrInvalidMetadata)
     | Some entries \<Rightarrow> if entries = [] then ret ()
         else contact_stmt ''create contact metadata records'' (modp (\<lambda>d. d\<lparr>cd_metadata := cd_metadata d @
           metadata_rows cid (cd_next d) (sort_key fst entries), cd_next := cd_next d + length entries\<rparr>))))"

definition metadata_of_contact :: "contacts_db \<Rightarrow> string \<Rightarrow> gomap" where
  "metadata_of_contact d i = fold (\<lambda>r. AList.update (md_key r) (md_value r))
     (sort_key md_id (filter (\<lambda>r. md_contact_id r = i) (cd_metadata d))) []"

text \<open>One query for all the contacts; without contacts there is no query.\<close>

definition load_metadata :: "string list \<Rightarrow> (string \<Rightarrow> gomap) contacts_prog" where
  "load_metadata ids = (if ids = [] then ret (\<lambda>_. [])
     else contact_stmt ''load contact metadata records'' (getp (\<lambda>d i. if i \<in> set ids then metadata_of_contact d i else [])))"

section \<open>Operations\<close>

definition contact_by_id :: "string \<Rightarrow> contact contacts_prog" where
  "contact_by_id i = bindp (contact_stmt ''get contact record'' (getp (\<lambda>d. find (\<lambda>r. live_contact r \<and> cr_id r = trim i) (cd_rows d)))) (\<lambda>found.
     case found of None \<Rightarrow> throw (Err PortContactNotFound)
     | Some r \<Rightarrow> bindp (load_metadata [trim i]) (\<lambda>metadata. ret (contact_of_row r (metadata (trim i)))))"

text \<open>GORM fills zero creation and update times in when it inserts a row.\<close>

definition stamped_contact :: "gotime \<Rightarrow> contact_row \<Rightarrow> contact_row" where
  "stamped_contact now r = r\<lparr>cr_created_at := datetime3 (if cr_created_at r = 0 then now else cr_created_at r),
     cr_updated_at := datetime3 (if cr_updated_at r = 0 then now else cr_updated_at r)\<rparr>"

definition insert_contact :: "contact_row \<Rightarrow> unit contacts_prog" where
  "insert_contact r = contact_stmt ''create contact record'' (\<lambda>d. case violated_index r (cd_rows d) of
     Some (index, v) \<Rightarrow> (Inl (write_error ''create contact record'' (cd_dup_message d index v)), d)
   | None \<Rightarrow> (Inr (), d\<lparr>cd_rows := cd_rows d @ [stamped_contact (cd_clock d) r]\<rparr>))"

definition draw_contact_id :: "string contacts_prog" where
  "draw_contact_id = drawp (\<lambda>d. (cd_random d (cd_drawn d), d\<lparr>cd_drawn := Suc (cd_drawn d)\<rparr>))"

definition contact_create :: "contact \<Rightarrow> contact contacts_prog" where
  "contact_create c = (let r = contact_to_row c in
     bindp (if trim (cr_id r) = [] then draw_contact_id else ret (cr_id r)) (\<lambda>i.
     bindp (atomically (bindp (insert_contact (r\<lparr>cr_id := i\<rparr>)) (\<lambda>_. replace_contact_metadata i (ct_metadata c)))) (\<lambda>_.
     contact_by_id i)))"

text \<open>The columns of \<^verbatim>\<open>Updates\<close>; GORM sets the update time.\<close>

definition updated_contact :: "gotime \<Rightarrow> contact_row \<Rightarrow> contact_row \<Rightarrow> contact_row" where
  "updated_contact now new r = new\<lparr>cr_id := cr_id r, cr_created_at := datetime3 (cr_created_at new),
     cr_updated_at := datetime3 now, cr_deleted_at := cr_deleted_at r\<rparr>"

definition update_contact_row :: "contact_row \<Rightarrow> bool contacts_prog" where
  "update_contact_row new = contact_stmt ''update contact record'' (\<lambda>d. let hit = (\<lambda>r. live_contact r \<and> cr_id r = cr_id new) in
     if \<not> list_ex hit (cd_rows d) then (Inr False, d)
     else (case violated_index new (filter (\<lambda>r. \<not> hit r) (cd_rows d)) of
       Some (index, v) \<Rightarrow> (Inl (write_error ''update contact record'' (cd_dup_message d index v)), d)
     | None \<Rightarrow> (Inr True, d\<lparr>cd_rows := map (\<lambda>r. if hit r then updated_contact (cd_clock d) new r else r) (cd_rows d)\<rparr>)))"

definition contact_update :: "contact \<Rightarrow> contact contacts_prog" where
  "contact_update c = (if trim (ct_id c) = [] then throw (Err PortContactNotFound)
     else let r = contact_to_row c in
     bindp (atomically (bindp (update_contact_row r) (\<lambda>affected.
       bindp (if affected then ret () else
         bindp (contact_stmt ''check contact record existence'' (getp (\<lambda>d. list_ex (\<lambda>x. live_contact x \<and> cr_id x = cr_id r) (cd_rows d)))) (\<lambda>known.
         if known then ret () else throw (Err PortContactNotFound))) (\<lambda>_.
       replace_contact_metadata (cr_id r) (ct_metadata c))))) (\<lambda>_.
     contact_by_id (cr_id r)))"

definition contact_delete :: "string \<Rightarrow> unit contacts_prog" where
  "contact_delete i = (let cid = trim i; hit = (\<lambda>r. live_contact r \<and> cr_id r = cid) in
     atomically (bindp (contact_stmt ''delete contact record'' (\<lambda>d. (Inr (list_ex hit (cd_rows d)),
         d\<lparr>cd_rows := map (\<lambda>r. if hit r then r\<lparr>cr_deleted_at := Some (datetime3 (cd_clock d))\<rparr> else r) (cd_rows d)\<rparr>))) (\<lambda>affected.
       if \<not> affected then throw (Err PortContactNotFound)
       else contact_stmt ''delete contact metadata records'' (modp (cd_metadata_update (filter (\<lambda>r. md_contact_id r \<noteq> cid)))))))"

section \<open>Listing\<close>

record contact_query =
  cq_page :: int
  cq_limit :: int
  cq_order_by :: string
  cq_order_dir :: string
  cq_email :: string
  cq_document_type :: string
  cq_document_number :: string
  cq_exclude :: "string list"
  cq_metadata_key :: string
  cq_metadata_value :: string

definition given_equal :: "string \<Rightarrow> string \<Rightarrow> bool" where
  "given_equal wanted value \<longleftrightarrow> trim wanted = [] \<or> value = trim wanted"

definition contact_matches :: "contact_query \<Rightarrow> contacts_db \<Rightarrow> contact_row \<Rightarrow> bool" where
  "contact_matches q d r \<longleftrightarrow> live_contact r \<and> given_equal (cq_email q) (cr_email r)
     \<and> given_equal (cq_document_type q) (cr_document_type r) \<and> given_equal (cq_document_number q) (cr_document_number r)
     \<and> (trim (cq_metadata_key q) = [] \<and> trim (cq_metadata_value q) = [] \<or> (\<exists>m \<in> set (cd_metadata d). md_contact_id m = cr_id r
         \<and> given_equal (cq_metadata_key q) (md_key m) \<and> given_equal (cq_metadata_value q) (md_value m)))
     \<and> cr_id r \<notin> set (cq_exclude q)"

definition contact_page :: "int \<Rightarrow> int \<Rightarrow> int \<times> int" where
  "contact_page page limit = (if page \<le> 0 then 1 else page, if limit \<le> 0 then 10 else limit)"

datatype contact_column = CreatedAtColumn | UpdatedAtColumn | LegalNameColumn | FirstNameColumn | LastNameColumn | EmailColumn
  | DocumentTypeColumn | DocumentNumberColumn

definition contact_order :: "string \<Rightarrow> string \<Rightarrow> contact_column \<times> bool" where
  "contact_order order_by dir = (case map_of [(''createdAt'', CreatedAtColumn), (''updatedAt'', UpdatedAtColumn),
       (''legalName'', LegalNameColumn), (''firstName'', FirstNameColumn), (''lastName'', LastNameColumn), (''email'', EmailColumn),
       (''documentType'', DocumentTypeColumn), (''documentNumber'', DocumentNumberColumn)] (trim order_by) of
     None \<Rightarrow> CreatedAtColumn | Some c \<Rightarrow> c, to_lower (trim dir) = ''asc'')"

fun column_key :: "(string \<Rightarrow> string) \<Rightarrow> contact_column \<Rightarrow> contact_row \<Rightarrow> int \<times> string" where
  "column_key weight CreatedAtColumn r = (cr_created_at r, [])"
| "column_key weight UpdatedAtColumn r = (cr_updated_at r, [])"
| "column_key weight LegalNameColumn r = (0, weight (cr_legal_name r))"
| "column_key weight FirstNameColumn r = (0, weight (cr_first_name r))"
| "column_key weight LastNameColumn r = (0, weight (cr_last_name r))"
| "column_key weight EmailColumn r = (0, weight (cr_email r))"
| "column_key weight DocumentTypeColumn r = (0, weight (cr_document_type r))"
| "column_key weight DocumentNumberColumn r = (0, weight (cr_document_number r))"

definition ordered_contacts :: "contacts_db \<Rightarrow> contact_query \<Rightarrow> contact_row list \<Rightarrow> contact_row list" where
  "ordered_contacts d q rs = (case contact_order (cq_order_by q) (cq_order_dir q) of (column, ascending) \<Rightarrow>
     (let sorted_rows = sql_order (column_key (cd_weight d) column) (\<lambda>r. cd_tie d (cq_page q) (cr_id r)) rs
      in if ascending then sorted_rows else rev sorted_rows))"

definition contact_list :: "contact_query \<Rightarrow> (contact list \<times> int) contacts_prog" where
  "contact_list q = (case contact_page (cq_page q) (cq_limit q) of (page, limit) \<Rightarrow>
     let matching = (\<lambda>d. filter (contact_matches q d) (cd_rows d)) in
     bindp (contact_stmt ''count contact records'' (getp (\<lambda>d. int (length (matching d))))) (\<lambda>total.
     bindp (contact_stmt ''list contact records'' (getp (\<lambda>d. take (nat limit) (drop (nat (int64 ((page - 1) * limit)))
       (ordered_contacts d (q\<lparr>cq_page := page\<rparr>) (matching d)))))) (\<lambda>rows.
     bindp (load_metadata (map cr_id rows)) (\<lambda>metadata.
       ret (map (\<lambda>r. contact_of_row r (metadata (cr_id r))) rows, total)))))"

end
