(* ===== verification/Contacts_Service.thy ===== *)
theory Contacts_Service
  imports Contacts_Store Go_Assertions
begin

text \<open>
  The use cases of \<^verbatim>\<open>module/contacts/application\<close> over the repository, and the events they publish.

  The world holds the tables, the events the transport took, which events it refuses, and the stream of event
  identifiers. The clock stands still during a call.
\<close>

record contact_event =
  ce_id :: string
  ce_topic :: string
  ce_schema_version :: string
  ce_occurred_at :: gotime
  ce_payload :: contact
  ce_metadata :: gomap

record contacts_world =
  cw_db :: contacts_db
  cw_events :: "contact_event list"
  cw_refuses :: "contact_event \<Rightarrow> bool"
  cw_event_ids :: "nat \<Rightarrow> string"
  cw_drawn :: nat

type_synonym 'a contacts_call_prog = "(contacts_world, contacts_error, 'a) prog"

definition put_contacts :: "contacts_db \<Rightarrow> contacts_world \<Rightarrow> contacts_world" where
  "put_contacts d w = w\<lparr>cw_db := d\<rparr>"

abbreviation on_contacts :: "'a contacts_prog \<Rightarrow> 'a contacts_call_prog" where
  "on_contacts \<equiv> through cw_db put_contacts"

section \<open>Events\<close>

definition topic_created :: string where
  "topic_created = ''contacts.v1.created''"

definition topic_updated :: string where
  "topic_updated = ''contacts.v1.updated''"

definition event_time :: "gotime \<Rightarrow> gotime \<Rightarrow> gotime" where
  "event_time now t = (if t = 0 then now else t)"

definition created_event :: "gotime \<Rightarrow> string \<Rightarrow> contact \<Rightarrow> contact_event" where
  "created_event now i c = \<lparr>ce_id = i, ce_topic = topic_created, ce_schema_version = ''v1'', ce_occurred_at = event_time now (ct_created_at c),
     ce_payload = c, ce_metadata = [(''aggregate_id'', ct_id c)]\<rparr>"

definition updated_event :: "gotime \<Rightarrow> string \<Rightarrow> contact \<Rightarrow> contact_event" where
  "updated_event now i c = \<lparr>ce_id = i, ce_topic = topic_updated, ce_schema_version = ''v1'', ce_occurred_at = event_time now (ct_updated_at c),
     ce_payload = c, ce_metadata = [(''aggregate_id'', ct_id c)]\<rparr>"

definition publish_contact :: "(gotime \<Rightarrow> string \<Rightarrow> contact \<Rightarrow> contact_event) \<Rightarrow> contact \<Rightarrow> unit contacts_call_prog" where
  "publish_contact build c = bindp (drawp (\<lambda>w. (cw_event_ids w (cw_drawn w), w\<lparr>cw_drawn := Suc (cw_drawn w)\<rparr>))) (\<lambda>i.
     bindp (getp (\<lambda>w. build (cd_clock (cw_db w)) i c)) (\<lambda>e.
     bindp (getp (\<lambda>w. cw_refuses w e)) (\<lambda>refused. if refused then throw (Err ContactsTransportError)
       else modp (\<lambda>w. w\<lparr>cw_events := cw_events w @ [e]\<rparr>))))"

section \<open>Use cases\<close>

record contact_command =
  cc_document_type :: string
  cc_document_number :: string
  cc_legal_name :: string
  cc_first_name :: string
  cc_last_name :: string
  cc_email :: string
  cc_phone :: string
  cc_address :: string
  cc_address_extra :: string
  cc_city_code :: string
  cc_metadata :: gomap
  cc_created_at :: "gotime option"

definition requested_contact :: "contact_command \<Rightarrow> contact" where
  "requested_contact c = contact_normalize \<lparr>ct_id = [], ct_document_type = cc_document_type c,
     ct_document_number = trim (cc_document_number c), ct_legal_name = trim (cc_legal_name c),
     ct_first_name = trim (cc_first_name c), ct_last_name = trim (cc_last_name c), ct_email = trim (cc_email c),
     ct_phone = trim (cc_phone c), ct_address = trim (cc_address c), ct_address_extra = trim (cc_address_extra c),
     ct_city_code = trim (cc_city_code c), ct_metadata = cc_metadata c,
     ct_created_at = (case cc_created_at c of Some t \<Rightarrow> t | None \<Rightarrow> 0), ct_updated_at = 0\<rparr>"

definition guard_contact :: "contacts_error go_error option \<Rightarrow> unit contacts_call_prog" where
  "guard_contact e = (case e of None \<Rightarrow> ret () | Some e \<Rightarrow> throw e)"

definition create_contact :: "contact_command \<Rightarrow> contact contacts_call_prog" where
  "create_contact c = (let k = requested_contact c in
     bindp (guard_contact (contact_validate k)) (\<lambda>_. bindp (wrap_err ''create contact'' (on_contacts (contact_create k))) (\<lambda>saved.
     bindp (wrap_err ''publish contact created event'' (publish_contact created_event saved)) (\<lambda>_. ret saved))))"

definition get_contact :: "string \<Rightarrow> contact contacts_call_prog" where
  "get_contact i = (if trim i = [] then throw (Err ErrInvalidContactID)
     else wrap_err ''get contact'' (on_contacts (contact_by_id (trim i))))"

record contact_list_result =
  cl_data :: "contact list"
  cl_page :: int
  cl_limit :: int
  cl_total :: int
  cl_total_pages :: int

definition page_count :: "int \<Rightarrow> int \<Rightarrow> int" where
  "page_count n limit = (if n > 0 then \<lceil>rat_of_int n / rat_of_int limit\<rceil> else 0)"

definition list_contacts :: "contact_query \<Rightarrow> contact_list_result contacts_call_prog" where
  "list_contacts q = (case contact_page (cq_page q) (cq_limit q) of (page, limit) \<Rightarrow>
     bindp (wrap_err ''list contacts'' (on_contacts (contact_list (q\<lparr>cq_page := page, cq_limit := limit\<rparr>)))) (\<lambda>r.
     case r of (data, matches) \<Rightarrow> ret \<lparr>cl_data = data, cl_page = page, cl_limit = limit, cl_total = matches,
       cl_total_pages = page_count matches limit\<rparr>))"

record contact_update_command =
  uc_document_type :: "string option"
  uc_document_number :: "string option"
  uc_legal_name :: "string option"
  uc_first_name :: "string option"
  uc_last_name :: "string option"
  uc_email :: "string option"
  uc_phone :: "string option"
  uc_address :: "string option"
  uc_address_extra :: "string option"
  uc_city_code :: "string option"
  uc_metadata :: "gomap option"
  uc_created_at :: "gotime option"

definition patched :: "string option \<Rightarrow> string \<Rightarrow> string" where
  "patched v old = (case v of None \<Rightarrow> old | Some x \<Rightarrow> trim x)"

definition patched_contact :: "contact_update_command \<Rightarrow> contact \<Rightarrow> contact" where
  "patched_contact u c = contact_normalize \<lparr>ct_id = ct_id c,
     ct_document_type = (case uc_document_type u of None \<Rightarrow> ct_document_type c | Some t \<Rightarrow> t),
     ct_document_number = patched (uc_document_number u) (ct_document_number c),
     ct_legal_name = patched (uc_legal_name u) (ct_legal_name c), ct_first_name = patched (uc_first_name u) (ct_first_name c),
     ct_last_name = patched (uc_last_name u) (ct_last_name c), ct_email = patched (uc_email u) (ct_email c),
     ct_phone = patched (uc_phone u) (ct_phone c), ct_address = patched (uc_address u) (ct_address c),
     ct_address_extra = patched (uc_address_extra u) (ct_address_extra c), ct_city_code = patched (uc_city_code u) (ct_city_code c),
     ct_metadata = (case uc_metadata u of None \<Rightarrow> ct_metadata c | Some m \<Rightarrow> m),
     ct_created_at = (case uc_created_at u of Some t \<Rightarrow> if t = 0 then ct_created_at c else t | None \<Rightarrow> ct_created_at c),
     ct_updated_at = ct_updated_at c\<rparr>"

definition update_contact :: "string \<Rightarrow> contact_update_command \<Rightarrow> contact contacts_call_prog" where
  "update_contact i u = (if trim i = [] then throw (Err ErrInvalidContactID)
     else bindp (wrap_err ''load contact for update'' (on_contacts (contact_by_id (trim i)))) (\<lambda>old. let k = patched_contact u old in
     bindp (guard_contact (contact_validate k)) (\<lambda>_. bindp (wrap_err ''update contact'' (on_contacts (contact_update k))) (\<lambda>saved.
     bindp (wrap_err ''publish contact updated event'' (publish_contact updated_event saved)) (\<lambda>_. ret saved)))))"

definition delete_contact :: "string \<Rightarrow> unit contacts_call_prog" where
  "delete_contact i = (if trim i = [] then throw (Err ErrInvalidContactID)
     else wrap_err ''delete contact'' (on_contacts (contact_delete (trim i))))"

end
