(* ===== verification/Contacts_Safety.thy ===== *)
theory Contacts_Safety
  imports Contacts_Service
begin

text \<open>
  The invariant of the tables of contacts: unique identifiers, e-mails and document keys (of deleted contacts
  too), valid rows, and metadata that belong to live contacts with unrepeated keys. Every operation keeps it.
\<close>

section \<open>The invariant\<close>

definition contact_row_valid :: "contact_row \<Rightarrow> bool" where
  "contact_row_valid r \<longleftrightarrow> trim (cr_email r) \<noteq> [] \<and> names_ok (cr_legal_name r) (cr_first_name r) (cr_last_name r)
     \<and> cr_document_key r = build_document_key (cr_document_type r) (cr_document_number r)"

definition contact_rows_ok :: "contact_row list \<Rightarrow> bool" where
  "contact_rows_ok rs \<longleftrightarrow> distinct (map cr_id rs) \<and> distinct (map cr_email rs)
     \<and> distinct (filter (\<lambda>k. k \<noteq> None) (map cr_document_key rs)) \<and> list_all contact_row_valid rs"

definition live_ids :: "contact_row list \<Rightarrow> string set" where
  "live_ids rs = set (map cr_id (filter live_contact rs))"

lemma live_idsI: "r \<in> set rs \<Longrightarrow> live_contact r \<Longrightarrow> cr_id r \<in> live_ids rs"
  by (auto simp: live_ids_def)

lemma live_ids_append: "live_ids (rs @ [r]) = live_ids rs \<union> (if live_contact r then {cr_id r} else {})"
  by (auto simp: live_ids_def)

lemma live_ids_map: "(\<And>r. cr_id (f r) = cr_id r \<and> live_contact (f r) = live_contact r) \<Longrightarrow> live_ids (map f rs) = live_ids rs"
  by (induction rs) (auto simp: live_ids_def)

lemma live_ids_delete: "live_ids (map (\<lambda>r. if live_contact r \<and> cr_id r = i then r\<lparr>cr_deleted_at := Some t\<rparr> else r) rs) = live_ids rs - {i}"
  by (induction rs) (auto simp: live_ids_def live_contact_def)

definition metadata_row_ok :: "contact_metadata_row \<Rightarrow> bool" where
  "metadata_row_ok m \<longleftrightarrow> trim (md_key m) = md_key m \<and> md_key m \<noteq> [] \<and> trim (md_value m) = md_value m
     \<and> length (md_key m) \<le> 128 \<and> length (md_value m) \<le> 2048"

definition metadata_rows_ok :: "contact_metadata_row list \<Rightarrow> bool" where
  "metadata_rows_ok ms \<longleftrightarrow> distinct (map (\<lambda>m. (md_contact_id m, md_key m)) ms) \<and> list_all metadata_row_ok ms"

definition contacts_ok :: "contacts_db \<Rightarrow> bool" where
  "contacts_ok d \<longleftrightarrow> contact_rows_ok (cd_rows d) \<and> metadata_rows_ok (cd_metadata d)
     \<and> md_contact_id ` set (cd_metadata d) \<subseteq> live_ids (cd_rows d) \<and> (\<forall>n. trim (cd_random d n) = cd_random d n)"

section \<open>Rows\<close>

lemma violated_index_None: "violated_index r rs = None \<longleftrightarrow> cr_id r \<notin> cr_id ` set rs \<and> cr_email r \<notin> cr_email ` set rs
    \<and> (cr_document_key r \<noteq> None \<longrightarrow> cr_document_key r \<notin> cr_document_key ` set rs)"
  by (auto simp: violated_index_def)

lemma build_document_key_trim [simp]: "build_document_key (trim t) (trim n) = build_document_key t n"
  by (simp add: build_document_key_def)

lemma contact_to_row_valid: "contact_validate (contact_normalize c) = None \<Longrightarrow> contact_row_valid (contact_to_row c)"
  by (simp add: contact_validate_iff contact_row_valid_def contact_to_row_def Let_def contact_normalize_def)

lemma rows_ok_append:
  "contact_rows_ok rs \<Longrightarrow> contact_row_valid r \<Longrightarrow> violated_index r rs = None \<Longrightarrow> contact_rows_ok (rs @ [r])"
  by (auto simp: contact_rows_ok_def violated_index_None image_iff)

text \<open>One element of a list without repetitions is replaced.\<close>

lemma distinct_replace_one:
  assumes "distinct (map k rs)" "distinct (filter Q (map f rs))" "\<And>r. r \<in> set rs \<Longrightarrow> P r \<Longrightarrow> k r = i"
    and "Q v \<Longrightarrow> v \<notin> f ` {r \<in> set rs. \<not> P r}"
  shows "distinct (filter Q (map (\<lambda>r. if P r then v else f r) rs))"
  using assms
proof (induction rs)
  case (Cons r rs)
  show ?case
  proof (cases "P r")
    case True
    then have "\<forall>x \<in> set rs. \<not> P x" using Cons.prems(1,3) by (metis distinct.simps(2) image_eqI list.set_intros list.simps(9) set_map)
    then have rest: "map (\<lambda>r. if P r then v else f r) rs = map f rs" by simp
    have "Q v \<Longrightarrow> v \<notin> f ` set rs" using Cons.prems(4) \<open>\<forall>x \<in> set rs. \<not> P x\<close> by auto
    then show ?thesis using Cons.prems(2) by (simp add: True rest split: if_splits)
  next
    case False
    have "distinct (filter Q (map (\<lambda>r. if P r then v else f r) rs))"
      using Cons by (auto split: if_splits)
    moreover have "Q (f r) \<Longrightarrow> f r \<notin> (\<lambda>r. if P r then v else f r) ` set rs"
      using Cons.prems(2,4) False by (auto split: if_splits)
    ultimately show ?thesis using False by auto
  qed
qed simp

lemma rows_ok_update:
  assumes "contact_rows_ok rs" "contact_row_valid new"
    and "violated_index new (filter (\<lambda>r. \<not> (live_contact r \<and> cr_id r = cr_id new)) rs) = None"
  shows "contact_rows_ok (map (\<lambda>r. if live_contact r \<and> cr_id r = cr_id new then updated_contact now new r else r) rs)"
proof -
  let ?P = "\<lambda>r. live_contact r \<and> cr_id r = cr_id new"
  let ?rs = "map (\<lambda>r. if ?P r then updated_contact now new r else r) rs"
  have ids: "distinct (map cr_id rs)" using assms(1) by (simp add: contact_rows_ok_def)
  have maps: "map cr_id ?rs = map cr_id rs" "map cr_email ?rs = map (\<lambda>r. if ?P r then cr_email new else cr_email r) rs"
    "map cr_document_key ?rs = map (\<lambda>r. if ?P r then cr_document_key new else cr_document_key r) rs"
    by (auto simp: updated_contact_def)
  have "distinct (filter (\<lambda>_. True) (map (\<lambda>r. if ?P r then cr_email new else cr_email r) rs))"
    using assms(1,3) by (intro distinct_replace_one[OF ids, where i = "cr_id new"]) (auto simp: contact_rows_ok_def violated_index_None)
  moreover have "distinct (filter (\<lambda>k. k \<noteq> None) (map (\<lambda>r. if ?P r then cr_document_key new else cr_document_key r) rs))"
    using assms(1,3) by (intro distinct_replace_one[OF ids, where i = "cr_id new"]) (auto simp: contact_rows_ok_def violated_index_None)
  moreover have "list_all contact_row_valid ?rs"
    using assms(1,2) by (auto simp: contact_rows_ok_def list_all_iff updated_contact_def contact_row_valid_def)
  ultimately show ?thesis using ids unfolding contact_rows_ok_def maps by simp
qed

section \<open>Statements\<close>

lemma preserves_contact_stmt: "preserves I m \<Longrightarrow> preserves I (contact_stmt l m)"
  by (simp add: preserves_def contact_stmt_def)

lemma readonly_contact_stmt [intro]: "readonly m \<Longrightarrow> readonly (contact_stmt l m)"
  by (simp add: readonly_def contact_stmt_def)

lemma leads_contact_stmt: "leads (\<lambda>d. d) I A m B \<Longrightarrow> (\<And>d. A d \<Longrightarrow> I d) \<Longrightarrow> leads (\<lambda>d. d) I A (contact_stmt l m) B"
  by (auto simp: leads_def contact_stmt_def)

lemma readonly_load_metadata [intro]: "readonly (load_metadata ids)"
  by (auto simp: load_metadata_def)

lemma readonly_contact_by_id: "readonly (contact_by_id i)"
  unfolding contact_by_id_def by (rule readonly_bindp) (auto split: option.split)

lemma readonly_contact_list: "readonly (contact_list q)"
  unfolding contact_list_def Let_def by (auto split: prod.split)

section \<open>Metadata\<close>

lemma metadata_entries_ok:
  "metadata_entries m acc = Some entries \<Longrightarrow> metadata_trimmed acc \<Longrightarrow> list_all metadata_entry_ok acc
    \<Longrightarrow> metadata_trimmed entries \<and> list_all metadata_entry_ok entries"
proof (induction m acc rule: metadata_entries.induct)
  case (2 k v m acc)
  show ?case
  proof (cases "trim k = []")
    case False
    have "metadata_trimmed (AList.update (trim k) (trim v) acc)"
      using 2(4) False by (simp add: metadata_trimmed_def distinct_update list_all_update)
    moreover have "list_all metadata_entry_ok (AList.update (trim k) (trim v) acc)"
      using 2(3) False by (intro list_all_update[OF 2(5)]) (auto simp: metadata_entry_ok_def Let_def split: if_splits)
    ultimately show ?thesis using 2 False by (auto simp: Let_def split: if_splits)
  qed (use 2 in simp)
qed simp

lemma metadata_rows_keys:
  "map (\<lambda>m. (md_contact_id m, md_key m)) (metadata_rows cid k m) = map (\<lambda>kv. (cid, fst kv)) m"
  by (induction m arbitrary: k) (auto simp: metadata_rows_def)

lemma metadata_rows_entries: "x \<in> set (metadata_rows cid k m) \<Longrightarrow> md_contact_id x = cid \<and> (md_key x, md_value x) \<in> set m"
proof -
  have "snd ` set (enumerate k m) = set m" by (metis list.set_map map_snd_enumerate)
  then show "x \<in> set (metadata_rows cid k m) \<Longrightarrow> md_contact_id x = cid \<and> (md_key x, md_value x) \<in> set m"
    by (force simp: metadata_rows_def)
qed

lemma metadata_rows_ok_append:
  assumes "metadata_rows_ok ms" "metadata_trimmed entries" "list_all metadata_entry_ok entries"
  shows "metadata_rows_ok (filter (\<lambda>r. md_contact_id r \<noteq> cid) ms @ metadata_rows cid k (sort_key fst entries))"
proof -
  have "distinct (map fst (sort_key fst entries)) \<longleftrightarrow> distinct (map fst entries)"
    by (rule mset_eq_imp_distinct_iff) simp
  then have "distinct (map (\<lambda>kv. (cid, fst kv)) (sort_key fst entries))"
    using assms(2) by (auto simp: metadata_trimmed_def distinct_map inj_on_def)
  moreover have "list_all metadata_row_ok (metadata_rows cid k (sort_key fst entries))"
    using assms(2,3) by (fastforce simp: list_all_iff metadata_row_ok_def metadata_entry_ok_def metadata_trimmed_def
        dest: metadata_rows_entries)
  ultimately show ?thesis
    using assms(1) by (auto simp: metadata_rows_ok_def metadata_rows_keys distinct_map_filter list_all_iff)
qed

lemma leads_replace_metadata:
  "leads (\<lambda>d. d) contacts_ok (\<lambda>d. contacts_ok d \<and> trim i \<in> live_ids (cd_rows d)) (replace_contact_metadata i m) (\<lambda>_. contacts_ok)"
  (is "leads _ _ ?A _ _")
proof -
  let ?B = "\<lambda>d. ?A d \<and> trim i \<notin> md_contact_id ` set (cd_metadata d)"
  have "leads (\<lambda>d. d) contacts_ok ?A (modp (cd_metadata_update (filter (\<lambda>r. md_contact_id r \<noteq> trim i)))) (\<lambda>_. ?B)"
    by (auto simp: leads_def prog_simps contacts_ok_def metadata_rows_ok_def distinct_map_filter list_all_iff)
  moreover have "leads (\<lambda>d. d) contacts_ok ?B (modp (\<lambda>d. d\<lparr>cd_metadata := cd_metadata d @
      metadata_rows (trim i) (cd_next d) (sort_key fst entries), cd_next := cd_next d + length entries\<rparr>)) (\<lambda>_. contacts_ok)"
    if "metadata_entries m [] = Some entries" for entries
  proof -
    have entries: "metadata_trimmed entries" "list_all metadata_entry_ok entries"
      using metadata_entries_ok[OF that] by (simp_all add: metadata_trimmed_def)
    have "metadata_rows_ok (ms @ metadata_rows (trim i) k (sort_key fst entries))"
      if ms: "metadata_rows_ok ms" "trim i \<notin> md_contact_id ` set ms" for ms k
    proof -
      have "filter (\<lambda>r. md_contact_id r \<noteq> trim i) ms = ms" using ms(2) by (intro filter_True) force
      then show ?thesis using metadata_rows_ok_append[OF ms(1), of entries "trim i" k] entries by simp
    qed
    then show ?thesis by (auto simp: leads_def prog_simps contacts_ok_def dest!: metadata_rows_entries)
  qed
  ultimately show ?thesis
    unfolding replace_contact_metadata_def Let_def
    by (cases "metadata_entries m []") (auto intro!: leads_bindp leads_contact_stmt leads_throw leads_ret leads_if)
qed

section \<open>The repository keeps the invariant\<close>

lemma leads_insert_contact:
  assumes "contact_row_valid r" "trim (cr_id r) = cr_id r"
  shows "leads (\<lambda>d. d) contacts_ok contacts_ok (insert_contact (r\<lparr>cr_deleted_at := None\<rparr>))
    (\<lambda>_ d. contacts_ok d \<and> trim (cr_id r) \<in> live_ids (cd_rows d))"
proof -
  have "contacts_ok (d\<lparr>cd_rows := cd_rows d @ [stamped_contact now (r\<lparr>cr_deleted_at := None\<rparr>)]\<rparr>)"
    if "contacts_ok d" "violated_index (r\<lparr>cr_deleted_at := None\<rparr>) (cd_rows d) = None" for d now
  proof -
    have "violated_index (stamped_contact now (r\<lparr>cr_deleted_at := None\<rparr>)) (cd_rows d) = None"
      using that(2) by (simp add: violated_index_None stamped_contact_def)
    moreover have "contact_row_valid (stamped_contact now (r\<lparr>cr_deleted_at := None\<rparr>))"
      using assms(1) by (simp add: contact_row_valid_def stamped_contact_def)
    ultimately show ?thesis
      using that(1) rows_ok_append by (auto simp: contacts_ok_def live_ids_append)
  qed
  then show ?thesis
    using assms(2) unfolding insert_contact_def
    by (intro leads_contact_stmt leadsI)
      (auto simp: live_ids_append stamped_contact_def live_contact_def split: option.splits prod.splits)
qed

lemma preserves_contact_create:
  assumes "contact_validate (contact_normalize c) = None"
  shows "preserves contacts_ok (contact_create c)"
proof -
  let ?r = "contact_to_row c"
  have valid: "contact_row_valid (?r\<lparr>cr_id := i\<rparr>)" for i
    using contact_to_row_valid[OF assms] by (simp add: contact_row_valid_def)
  have live: "(?r\<lparr>cr_id := i\<rparr>)\<lparr>cr_deleted_at := None\<rparr> = ?r\<lparr>cr_id := i\<rparr>" for i
    by (simp add: contact_to_row_def Let_def)
  have ids: "leads (\<lambda>d. d) contacts_ok contacts_ok (if trim (cr_id ?r) = [] then draw_contact_id else ret (cr_id ?r))
      (\<lambda>i d. contacts_ok d \<and> trim i = i)"
    by (auto simp: leads_def draw_contact_id_def prog_simps contacts_ok_def contact_to_row_def Let_def contact_normalize_def)
  have stored: "preserves contacts_ok (atomically (bindp (insert_contact (?r\<lparr>cr_id := i\<rparr>)) (\<lambda>_. replace_contact_metadata i (ct_metadata c))))"
    if "trim i = i" for i
    using leads_insert_contact[OF valid, of i] leads_replace_metadata[of i "ct_metadata c"] that
    by (intro preserves_atomically preserves_via) (auto simp: live)
  have "leads (\<lambda>d. d) contacts_ok (\<lambda>d. contacts_ok d \<and> trim i = i) (bindp (atomically (bindp (insert_contact (?r\<lparr>cr_id := i\<rparr>))
      (\<lambda>_. replace_contact_metadata i (ct_metadata c)))) (\<lambda>_. contact_by_id i)) (\<lambda>_. contacts_ok)" for i
  proof (rule leads_fact)
    assume "trim i = i"
    from preserves_bindp[OF stored[OF this] readonly_preserves[OF readonly_contact_by_id]]
    show "leads (\<lambda>d. d) contacts_ok contacts_ok (bindp (atomically (bindp (insert_contact (?r\<lparr>cr_id := i\<rparr>))
      (\<lambda>_. replace_contact_metadata i (ct_metadata c)))) (\<lambda>_. contact_by_id i)) (\<lambda>_. contacts_ok)"
      unfolding preserves_leads .
  qed
  with ids show ?thesis unfolding contact_create_def Let_def by (rule preserves_via)
qed

lemma leads_update_row:
  assumes "contact_row_valid r" "trim (cr_id r) = cr_id r"
  shows "leads (\<lambda>d. d) contacts_ok contacts_ok (update_contact_row r)
    (\<lambda>affected d. contacts_ok d \<and> (affected \<longrightarrow> trim (cr_id r) \<in> live_ids (cd_rows d)))"
proof -
  let ?hit = "\<lambda>x. live_contact x \<and> cr_id x = cr_id r"
  have kept: "live_ids (map (\<lambda>x. if ?hit x then updated_contact now r x else x) rs) = live_ids rs" for rs now
    by (rule live_ids_map) (simp add: updated_contact_def live_contact_def)
  have "contacts_ok (d\<lparr>cd_rows := map (\<lambda>x. if ?hit x then updated_contact now r x else x) (cd_rows d)\<rparr>)"
    if "contacts_ok d" "violated_index r (filter (\<lambda>x. \<not> ?hit x) (cd_rows d)) = None" for d now
    using that rows_ok_update[OF _ assms(1) that(2)] kept by (simp add: contacts_ok_def)
  then show ?thesis
    using assms(2) kept unfolding update_contact_row_def Let_def
    by (intro leads_contact_stmt leadsI)
      (auto simp: list_ex_iff split: option.splits prod.splits if_splits, metis live_idsI)
qed

lemma preserves_contact_update:
  assumes "contact_validate (contact_normalize c) = None"
  shows "preserves contacts_ok (contact_update c)"
proof -
  let ?r = "contact_to_row c"
  have "trim (cr_id ?r) = cr_id ?r" by (simp add: contact_to_row_def Let_def contact_normalize_def)
  note update = leads_update_row[OF contact_to_row_valid[OF assms] this]
  have "leads (\<lambda>d. d) contacts_ok (\<lambda>d. contacts_ok d \<and> (affected \<longrightarrow> trim (cr_id ?r) \<in> live_ids (cd_rows d)))
      (bindp (if affected then ret () else
         bindp (contact_stmt ''check contact record existence'' (getp (\<lambda>d. list_ex (\<lambda>x. live_contact x \<and> cr_id x = cr_id ?r) (cd_rows d)))) (\<lambda>known.
         if known then ret () else throw (Err PortContactNotFound))) (\<lambda>_.
       replace_contact_metadata (cr_id ?r) (ct_metadata c))) (\<lambda>_. contacts_ok)" for affected
  proof (rule leads_bindp[where B = "\<lambda>_ d. contacts_ok d \<and> trim (cr_id ?r) \<in> live_ids (cd_rows d)"])
    show "leads (\<lambda>d. d) contacts_ok (\<lambda>d. contacts_ok d \<and> (affected \<longrightarrow> trim (cr_id ?r) \<in> live_ids (cd_rows d)))
      (if affected then ret () else
         bindp (contact_stmt ''check contact record existence'' (getp (\<lambda>d. list_ex (\<lambda>x. live_contact x \<and> cr_id x = cr_id ?r) (cd_rows d)))) (\<lambda>known.
         if known then ret () else throw (Err PortContactNotFound))) (\<lambda>_ d. contacts_ok d \<and> trim (cr_id ?r) \<in> live_ids (cd_rows d))"
      using \<open>trim (cr_id ?r) = cr_id ?r\<close>
      by (auto simp: leads_def prog_simps contact_stmt_def list_ex_iff) (metis live_idsI)
  qed (rule leads_replace_metadata)
  then show ?thesis
    unfolding contact_update_def Let_def
    by (intro preserves_intros preserves_via[OF update] readonly_preserves readonly_contact_by_id) auto
qed

lemma preserves_contact_delete: "preserves contacts_ok (contact_delete i)"
proof (rule preservesI)
  fix d
  assume ok: "contacts_ok d"
  let ?hit = "\<lambda>r. live_contact r \<and> cr_id r = trim i"
  let ?rows = "map (\<lambda>r. if ?hit r then r\<lparr>cr_deleted_at := Some (datetime3 (cd_clock d))\<rparr> else r) (cd_rows d)"
  have maps: "map cr_id ?rows = map cr_id (cd_rows d)" "map cr_email ?rows = map cr_email (cd_rows d)"
    "map cr_document_key ?rows = map cr_document_key (cd_rows d)" by auto
  have "list_all contact_row_valid ?rows"
    using ok by (auto simp: contacts_ok_def contact_rows_ok_def list_all_iff contact_row_valid_def)
  then have rows: "contact_rows_ok ?rows" using ok unfolding contacts_ok_def contact_rows_ok_def maps by simp
  have "live_ids ?rows = live_ids (cd_rows d) - {trim i}" by (rule live_ids_delete)
  then have "md_contact_id ` set (filter (\<lambda>r. md_contact_id r \<noteq> trim i) (cd_metadata d)) \<subseteq> live_ids ?rows"
    using ok by (auto simp: contacts_ok_def)
  moreover have "metadata_rows_ok (filter (\<lambda>r. md_contact_id r \<noteq> trim i) (cd_metadata d))"
    using ok by (auto simp: contacts_ok_def metadata_rows_ok_def distinct_map_filter list_all_iff)
  ultimately have "contacts_ok (cd_metadata_update (filter (\<lambda>r. md_contact_id r \<noteq> trim i)) (d\<lparr>cd_rows := ?rows\<rparr>))"
    using ok rows by (simp add: contacts_ok_def)
  then show "contacts_ok (snd (contact_delete i d))"
    using ok by (auto simp: contact_delete_def Let_def prog_simps contact_stmt_def)
qed

end
