(* ===== verification/Contacts_Calls.thy ===== *)
theory Contacts_Calls
  imports Contacts_Safety
begin

text \<open>
  The contacts module as a sequence of calls: its invariant, what a creation stores, reads back and publishes,
  and the pages of a listing.
\<close>

datatype contact_call = CreateContact contact_command | UpdateContact string contact_update_command | DeleteContact string
  | GetContact string | ListContacts contact_query

definition contact_step :: "contact_call \<Rightarrow> contacts_world \<Rightarrow> contacts_world" where
  "contact_step call w = (case call of CreateContact c \<Rightarrow> snd (create_contact c w) | UpdateContact i u \<Rightarrow> snd (update_contact i u w)
     | DeleteContact i \<Rightarrow> snd (delete_contact i w) | GetContact i \<Rightarrow> snd (get_contact i w) | ListContacts q \<Rightarrow> snd (list_contacts q w))"

definition contact_calls :: "contact_call list \<Rightarrow> contacts_world \<Rightarrow> contacts_world" where
  "contact_calls cs w = fold contact_step cs w"

section \<open>The invariant along calls\<close>

abbreviation contacts_world_ok :: "contacts_world \<Rightarrow> bool" where
  "contacts_world_ok w \<equiv> contacts_ok (cw_db w)"

lemma put_contacts_db [simp]: "cw_db (put_contacts d w) = d"
  by (simp add: put_contacts_def)

lemma preserves_on_contacts: "preserves contacts_ok m \<Longrightarrow> preserves contacts_world_ok (on_contacts m)"
  by (auto simp: preserves_def through_def split: prod.split)

lemma preserves_publish_contact: "preserves contacts_world_ok (publish_contact build c)"
  unfolding publish_contact_def by (intro preserves_intros preserves_drawp preserves_modp) simp_all

lemma preserves_guard_contact:
  "(e = None \<Longrightarrow> preserves I m) \<Longrightarrow> preserves I (bindp (guard_contact e) (\<lambda>_. m))"
  by (cases e) (auto simp: guard_contact_def preserves_def prog_simps)

lemma contact_normalize_validate: "contact_validate k = None \<Longrightarrow> contact_validate (contact_normalize k) = None"
proof -
  have "list_all metadata_entry_ok acc \<Longrightarrow> list_all metadata_entry_ok m \<Longrightarrow> list_all metadata_entry_ok (trim_metadata m acc)" for m acc
  proof (induction m acc rule: trim_metadata.induct)
    case (2 k v m acc)
    have "length (trim v) \<le> length v" by (rule length_trim)
    then have "metadata_entry_ok (trim k, trim v)" using 2(4) by (auto simp: metadata_entry_ok_def)
    then have "list_all metadata_entry_ok (AList.update (trim k) (trim v) acc)" by (rule list_all_update[OF 2(3)])
    with 2 show ?case by (simp add: Let_def)
  qed simp
  from this[of "[]" "sort_key fst (ct_metadata k)"] show "contact_validate k = None \<Longrightarrow> ?thesis"
    by (simp add: contact_validate_iff contact_normalize_def names_ok_def contact_metadata_normalize_def list_all_iff)
qed

lemma contact_step_ok: "contacts_world_ok w \<Longrightarrow> contacts_world_ok (contact_step call w)"
proof -
  have "preserves contacts_world_ok (create_contact c)" for c
    unfolding create_contact_def Let_def
    by (intro preserves_guard_contact preserves_intros preserves_on_contacts preserves_contact_create preserves_publish_contact contact_normalize_validate)
  moreover have "preserves contacts_world_ok (update_contact i u)" for i u
    unfolding update_contact_def Let_def
    by (intro preserves_guard_contact preserves_intros preserves_on_contacts preserves_contact_update preserves_publish_contact
        contact_normalize_validate readonly_preserves readonly_contact_by_id)
  moreover have "preserves contacts_world_ok (delete_contact i)" for i
    unfolding delete_contact_def by (intro preserves_intros preserves_on_contacts preserves_contact_delete)
  moreover have "preserves contacts_world_ok (get_contact i)" for i
    unfolding get_contact_def by (intro preserves_intros preserves_on_contacts readonly_preserves[OF readonly_contact_by_id])
  moreover have "preserves contacts_world_ok (list_contacts q)" for q
    unfolding list_contacts_def
    by (auto split: prod.split intro!: preserves_intros preserves_on_contacts readonly_preserves[OF readonly_contact_list])
  ultimately show "contacts_world_ok w \<Longrightarrow> contacts_world_ok (contact_step call w)"
    by (cases call) (auto simp: contact_step_def preserves_def)
qed

lemma contact_calls_ok: "contacts_world_ok w \<Longrightarrow> contacts_world_ok (contact_calls cs w)"
  unfolding contact_calls_def by (induction cs arbitrary: w) (simp_all add: contact_step_ok)

section \<open>What a read returns\<close>

lemma metadata_of_contact_ok:
  assumes "metadata_rows_ok (cd_metadata d)"
  shows "metadata_trimmed (metadata_of_contact d i)" and "list_all metadata_entry_ok (metadata_of_contact d i)"
proof -
  have "distinct (map fst (fold (\<lambda>r. AList.update (md_key r) (md_value r)) rs acc))
      \<and> list_all (\<lambda>(k, v). trim k = k \<and> k \<noteq> [] \<and> trim v = v) (fold (\<lambda>r. AList.update (md_key r) (md_value r)) rs acc)
      \<and> list_all metadata_entry_ok (fold (\<lambda>r. AList.update (md_key r) (md_value r)) rs acc)"
    if "\<forall>r \<in> set rs. metadata_row_ok r" "distinct (map fst acc)" "list_all (\<lambda>(k, v). trim k = k \<and> k \<noteq> [] \<and> trim v = v) acc"
      "list_all metadata_entry_ok acc" for rs acc
    using that
  proof (induction rs arbitrary: acc)
    case (Cons r rs)
    then have r: "trim (md_key r) = md_key r" "md_key r \<noteq> []" "trim (md_value r) = md_value r" "metadata_entry_ok (md_key r, md_value r)"
      by (auto simp: metadata_row_ok_def metadata_entry_ok_def)
    show ?case unfolding fold_simps comp_def
      using Cons.prems by (intro Cons.IH list_all_update distinct_update) (auto simp: r)
  qed simp
  moreover have "\<forall>r \<in> set (sort_key md_id (filter (\<lambda>r. md_contact_id r = i) (cd_metadata d))). metadata_row_ok r"
    using assms by (simp add: metadata_rows_ok_def list_all_iff)
  ultimately show "metadata_trimmed (metadata_of_contact d i)" "list_all metadata_entry_ok (metadata_of_contact d i)"
    by (simp_all add: metadata_of_contact_def metadata_trimmed_def)
qed

lemma contact_of_row_ok:
  assumes "contacts_ok d" "r \<in> set (cd_rows d)"
  shows "contact_validate (contact_of_row r (metadata_of_contact d i)) = None"
    and "contact_normalize (contact_of_row r (metadata_of_contact d i)) = contact_of_row r (metadata_of_contact d i)"
proof -
  let ?m = "metadata_of_contact d i"
  have m: "metadata_trimmed ?m" "list_all metadata_entry_ok ?m"
    using metadata_of_contact_ok assms(1) by (auto simp: contacts_ok_def)
  have sorted_m: "contact_metadata_normalize ?m = sort_key fst ?m" using m(1) by (rule metadata_normalize_sorted)
  have "contact_row_valid r" using assms by (auto simp: contacts_ok_def contact_rows_ok_def list_all_iff)
  with m(2) show "contact_validate (contact_of_row r ?m) = None"
    by (auto simp: contact_validate_iff contact_of_row_def contact_normalize_def contact_row_valid_def names_ok_def sorted_m list_all_iff)
  have "contact_metadata_normalize (sort_key fst ?m) = sort_key fst (sort_key fst ?m)"
    using metadata_normalize_trimmed[of ?m] by (intro metadata_normalize_sorted) (simp add: sorted_m)
  then show "contact_normalize (contact_of_row r ?m) = contact_of_row r ?m"
    by (simp add: contact_of_row_def contact_normalize_def sorted_m sort_key_id_if_sorted)
qed

lemma contact_by_id_Inr: "contact_by_id i d = (Inr c, d') \<Longrightarrow> d' = d \<and> (\<exists>r \<in> set (cd_rows d). live_contact r \<and> cr_id r = trim i
    \<and> c = contact_of_row r (metadata_of_contact d (trim i)))"
  by (auto simp: contact_by_id_def contact_stmt_def load_metadata_def prog_simps find_Some_iff split: if_splits option.splits)

text \<open>C31: Whatever calls the contacts module serves and whichever statements fail or events are refused,
  identifiers, e-mails and document keys stay unique (deleted contacts included), metadata belong to live contacts
  with unrepeated keys, and every contact that can be read passes the domain validation and is normalized.\<close>

theorem contacts_stay_ok:
  assumes "contacts_ok (cw_db w)"
  shows "contacts_ok (cw_db (contact_calls cs w))
    \<and> (\<forall>i c w'. get_contact i (contact_calls cs w) = (Inr c, w') \<longrightarrow> contact_validate c = None \<and> contact_normalize c = c)"
proof -
  have ok: "contacts_ok (cw_db (contact_calls cs w))" using assms by (rule contact_calls_ok)
  moreover have "contact_validate c = None \<and> contact_normalize c = c" if got: "get_contact i (contact_calls cs w) = (Inr c, w')" for i c w'
  proof -
    obtain d where "contact_by_id (trim i) (cw_db (contact_calls cs w)) = (Inr c, d)"
      using got by (cases "trim i = []") (auto simp: get_contact_def wrap_err_Inr_iff through_def throw_Inr_iff split: prod.splits)
    then show ?thesis using contact_of_row_ok[OF ok] by (auto dest!: contact_by_id_Inr)
  qed
  ultimately show ?thesis by blast
qed

section \<open>Creating and reading back\<close>

abbreviation contacts_work :: "contacts_db \<Rightarrow> bool" where
  "contacts_work d \<equiv> cd_fault d = (\<lambda>_. False)"

text \<open>What the creation of \<open>k\<close> stores, returns and publishes.\<close>

definition saved_contact :: "contacts_db \<Rightarrow> contact \<Rightarrow> contact" where
  "saved_contact d k = k\<lparr>ct_id := cd_random d (cd_drawn d), ct_metadata := sort_key fst (ct_metadata k),
     ct_created_at := datetime3 (if ct_created_at k = 0 then cd_clock d else ct_created_at k), ct_updated_at := datetime3 (if ct_updated_at k = 0 then cd_clock d else ct_updated_at k)\<rparr>"

definition contact_new :: "contacts_db \<Rightarrow> contact \<Rightarrow> bool" where
  "contact_new d k \<longleftrightarrow> violated_index ((contact_to_row k)\<lparr>cr_id := cd_random d (cd_drawn d)\<rparr>) (cd_rows d) = None"

lemma metadata_entries_all:
  "metadata_trimmed (acc @ m) \<Longrightarrow> list_all metadata_entry_ok m \<Longrightarrow> metadata_entries m acc = Some (acc @ m)"
proof (induction m arbitrary: acc)
  case (Cons kv m)
  obtain k v where kv: "kv = (k, v)" by fastforce
  have "AList.update k v acc = acc @ [(k, v)]"
    using Cons.prems kv by (intro update_new_key) (auto simp: metadata_trimmed_def)
  then show ?case using Cons.IH[of "acc @ [(k, v)]"] Cons.prems
    by (auto simp: kv metadata_trimmed_def metadata_entry_ok_def Let_def)
qed simp

lemma fold_metadata_rows:
  "distinct (map fst (acc @ m)) \<Longrightarrow> fold (\<lambda>r. AList.update (md_key r) (md_value r)) (metadata_rows cid k m) acc = acc @ m"
proof (induction m arbitrary: k acc)
  case (Cons kv m)
  obtain key v where kv: "kv = (key, v)" by fastforce
  have "AList.update key v acc = acc @ [(key, v)]" using Cons.prems kv by (intro update_new_key) auto
  moreover have "fold (\<lambda>r. AList.update (md_key r) (md_value r)) (metadata_rows cid (Suc k) m) (acc @ [(key, v)]) = (acc @ [(key, v)]) @ m"
    using Cons.prems kv by (intro Cons.IH) simp
  ultimately show ?case by (simp add: metadata_rows_def kv)
qed (simp add: metadata_rows_def)

lemma metadata_read_back:
  assumes "i \<notin> md_contact_id ` set ms" "distinct (map fst m)" "cd_metadata d = ms @ metadata_rows i k m"
  shows "metadata_of_contact d i = m"
proof -
  have old: "filter (\<lambda>r. md_contact_id r = i) ms = []" using assms(1) by (auto simp: filter_empty_conv)
  have new: "filter (\<lambda>r. md_contact_id r = i) (metadata_rows i k m) = metadata_rows i k m"
    by (intro filter_True) (auto dest: metadata_rows_entries)
  have "map md_id (metadata_rows i k m) = map fst (enumerate k m)"
    by (simp add: metadata_rows_def comp_def case_prod_unfold)
  then have ids: "map md_id (metadata_rows i k m) = [k..<k + length m]" by simp
  then have "sort_key md_id (metadata_rows i k m) = metadata_rows i k m"
    by (intro sort_key_id_if_sorted) (simp add: ids)
  then show ?thesis
    using fold_metadata_rows[of "[]" m i k] assms(2,3) old new by (simp add: metadata_of_contact_def)
qed

text \<open>The last steps of a creation: the metadata of the new row, and reading it back.\<close>

lemma stored_then_read:
  assumes "contacts_work d" "metadata_trimmed (ct_metadata k)" "contact_validate k = None" "i \<notin> md_contact_id ` set (cd_metadata d)"
    and "find (\<lambda>r. live_contact r \<and> cr_id r = i) (cd_rows d) = Some r" "trim i = i"
    and "contact_of_row r (sort_key fst (ct_metadata k)) = saved"
  shows "\<exists>d'. replace_contact_metadata i (ct_metadata k) d = (Inr (), d') \<and> contact_by_id i d' = (Inr saved, d') \<and> cd_clock d' = cd_clock d"
proof -
  let ?m = "ct_metadata k"
  note trimmed = assms(2)
  have entries: "metadata_entries ?m [] = Some ?m"
    using metadata_entries_all[of "[]" ?m] trimmed assms(3) by (simp add: contact_validate_iff)
  have keep: "filter (\<lambda>r. md_contact_id r \<noteq> i) (cd_metadata d) = cd_metadata d"
    using assms(4) by (intro filter_True) force
  have m: "distinct (map fst (sort_key fst ?m))"
  proof -
    have "distinct (map fst (sort_key fst ?m)) \<longleftrightarrow> distinct (map fst ?m)" by (rule mset_eq_imp_distinct_iff) simp
    then show ?thesis using trimmed by (simp add: metadata_trimmed_def)
  qed
  define d' where "d' = d\<lparr>cd_metadata := cd_metadata d @ metadata_rows i (cd_next d) (sort_key fst ?m), cd_next := cd_next d + length ?m\<rparr>"
  have "replace_contact_metadata i ?m d = (Inr (), d')"
    using assms(1,6) entries keep
    by (auto simp: replace_contact_metadata_def Let_def contact_stmt_def prog_simps d'_def metadata_rows_def)
  moreover have "metadata_of_contact d' i = sort_key fst ?m"
    using assms(4) m by (intro metadata_read_back[where ms = "cd_metadata d" and k = "cd_next d"]) (simp_all add: d'_def)
  ultimately show ?thesis
    using assms(1,5,6,7)
    by (intro exI[of _ d']) (simp add: contact_by_id_def contact_stmt_def load_metadata_def prog_simps d'_def)
qed

lemma requested_contact_id: "ct_id (requested_contact c) = []"
  by (simp add: requested_contact_def contact_normalize_def)

lemma requested_metadata: "metadata_trimmed (ct_metadata (requested_contact c))"
  by (simp add: requested_contact_def contact_normalize_def metadata_normalize_trimmed)

lemma row_read_back:
  assumes "trim i = i"
  shows "contact_of_row (stamped_contact now ((contact_to_row (requested_contact c))\<lparr>cr_id := i\<rparr>)) (sort_key fst (ct_metadata (requested_contact c)))
    = (requested_contact c)\<lparr>ct_id := i, ct_metadata := sort_key fst (ct_metadata (requested_contact c)),
        ct_created_at := datetime3 (if ct_created_at (requested_contact c) = 0 then now else ct_created_at (requested_contact c)),
        ct_updated_at := datetime3 (if ct_updated_at (requested_contact c) = 0 then now else ct_updated_at (requested_contact c))\<rparr>"
proof -
  let ?m = "ct_metadata (requested_contact c)"
  have m: "metadata_trimmed (sort_key fst ?m)"
    using metadata_normalize_trimmed[of ?m] metadata_normalize_sorted[OF requested_metadata, of c] by simp
  then have "contact_metadata_normalize (sort_key fst ?m) = sort_key fst (sort_key fst ?m)" by (rule metadata_normalize_sorted)
  then have "contact_metadata_normalize (sort_key fst ?m) = sort_key fst ?m" by (simp add: sort_key_id_if_sorted)
  then show ?thesis
    using assms(1)
    by (simp add: contact_of_row_def contact_normalize_def stamped_contact_def contact_to_row_def Let_def requested_contact_def)
qed

text \<open>On a database that works, a valid request with a new e-mail and document creates the contact under the
  drawn identifier, returns it with trimmed values and completed times (in milliseconds), publishes exactly one event with that
  contact, and a later read returns the same contact.\<close>

theorem contact_create_then_get:
  assumes "contacts_ok (cw_db w)" "contacts_work (cw_db w)" "contact_validate (requested_contact c) = None"
    and "contact_new (cw_db w) (requested_contact c)" "cw_refuses w = (\<lambda>_. False)" "cd_random (cw_db w) (cd_drawn (cw_db w)) \<noteq> []"
  shows "\<exists>w'. create_contact c w = (Inr (saved_contact (cw_db w) (requested_contact c)), w')
    \<and> cw_events w' = cw_events w @ [created_event (cd_clock (cw_db w)) (cw_event_ids w (cw_drawn w)) (saved_contact (cw_db w) (requested_contact c))]
    \<and> get_contact (cd_random (cw_db w) (cd_drawn (cw_db w))) w' = (Inr (saved_contact (cw_db w) (requested_contact c)), w')"
proof -
  let ?d = "cw_db w" and ?k = "requested_contact c"
  let ?i = "cd_random ?d (cd_drawn ?d)" and ?saved = "saved_contact ?d ?k"
  let ?new = "(contact_to_row ?k)\<lparr>cr_id := ?i\<rparr>"
  define r where "r = stamped_contact (cd_clock ?d) ?new"
  define d1 where "d1 = ?d\<lparr>cd_drawn := Suc (cd_drawn ?d)\<rparr>"
  define d2 where "d2 = d1\<lparr>cd_rows := cd_rows d1 @ [r]\<rparr>"
  have i: "trim ?i = ?i" using assms(1) by (simp add: contacts_ok_def)
  have none: "violated_index ?new (cd_rows ?d) = None" using assms(4) by (simp add: contact_new_def)
  have draw: "draw_contact_id ?d = (Inr ?i, d1)" by (simp add: draw_contact_id_def prog_simps d1_def)
  have ins: "insert_contact ?new d1 = (Inr (), d2)"
    using none assms(2) by (simp add: insert_contact_def contact_stmt_def d1_def d2_def r_def)
  have fresh: "?i \<notin> cr_id ` set (cd_rows ?d)" using none by (simp add: violated_index_None)
  then have "?i \<notin> live_ids (cd_rows ?d)" by (auto simp: live_ids_def)
  then have meta: "?i \<notin> md_contact_id ` set (cd_metadata d2)" using assms(1) by (auto simp: contacts_ok_def d1_def d2_def)
  have "live_contact r \<and> cr_id r = ?i" by (simp add: r_def stamped_contact_def live_contact_def contact_to_row_def Let_def)
  moreover have "find (\<lambda>x. live_contact x \<and> cr_id x = ?i) (cd_rows ?d) = None" using fresh by (force simp: find_None_iff)
  ultimately have found: "find (\<lambda>x. live_contact x \<and> cr_id x = ?i) (cd_rows d2) = Some r"
    by (simp add: d2_def d1_def find_append)
  have works: "contacts_work d2" using assms(2) by (simp add: d1_def d2_def)
  have read: "contact_of_row r (sort_key fst (ct_metadata ?k)) = ?saved"
    unfolding r_def saved_contact_def by (rule row_read_back[OF i])
  obtain d3 where d3: "replace_contact_metadata ?i (ct_metadata ?k) d2 = (Inr (), d3)" "contact_by_id ?i d3 = (Inr ?saved, d3)"
      "cd_clock d3 = cd_clock d2"
    using stored_then_read[OF works requested_metadata assms(3) meta found i read] by blast
  have "trim (cr_id (contact_to_row ?k)) = []" by (simp add: contact_to_row_def Let_def contact_normalize_def requested_contact_id)
  then have "contact_create ?k ?d = (Inr ?saved, d3)"
    using draw ins d3(1,2) by (simp add: contact_create_def Let_def prog_simps)
  moreover have "cd_clock d3 = cd_clock ?d" using d3(3) by (simp add: d2_def d1_def)
  moreover define w' where "w' = w\<lparr>cw_db := d3, cw_drawn := Suc (cw_drawn w),
      cw_events := cw_events w @ [created_event (cd_clock ?d) (cw_event_ids w (cw_drawn w)) ?saved]\<rparr>"
  ultimately have "create_contact c w = (Inr ?saved, w')"
    using assms(3,5) by (simp add: create_contact_def Let_def guard_contact_def prog_simps through_def put_contacts_def publish_contact_def)
  moreover have "get_contact ?i w' = (Inr ?saved, w')"
    using assms(6) i d3(2) by (simp add: get_contact_def prog_simps through_def put_contacts_def w'_def)
  ultimately show ?thesis by (intro exI[of _ w']) (simp add: w'_def)
qed

section \<open>Pages of a listing\<close>

text \<open>The matching rows, as the query of page \<open>p\<close> orders them, and the contacts they are returned as.\<close>

definition matching_rows :: "contact_query \<Rightarrow> contacts_db \<Rightarrow> contact_row list" where
  "matching_rows q d = filter (contact_matches q d) (cd_rows d)"

definition ordered_on :: "contact_query \<Rightarrow> contacts_db \<Rightarrow> int \<Rightarrow> contact_row list" where
  "ordered_on q d p = ordered_contacts d (q\<lparr>cq_page := p\<rparr>) (matching_rows q d)"

definition contact_view :: "contacts_db \<Rightarrow> contact_row \<Rightarrow> contact" where
  "contact_view d r = contact_of_row r (metadata_of_contact d (cr_id r))"

text \<open>The value a query orders by, and the rows in the requested order.\<close>

definition order_key :: "contact_query \<Rightarrow> contacts_db \<Rightarrow> contact_row \<Rightarrow> int \<times> string" where
  "order_key q d = column_key (cd_weight d) (fst (contact_order (cq_order_by q) (cq_order_dir q)))"

definition requested_order :: "contact_query \<Rightarrow> 'a list \<Rightarrow> 'a list" where
  "requested_order q xs = (if snd (contact_order (cq_order_by q) (cq_order_dir q)) then xs else rev xs)"

lemma requested_order_map: "map f (requested_order q xs) = requested_order q (map f xs)"
  by (simp add: requested_order_def rev_map)

lemma ordered_on_alt: "ordered_on q d p = requested_order q (sql_order (order_key q d) (\<lambda>r. cd_tie d p (cr_id r)) (matching_rows q d))"
  by (simp add: ordered_on_def ordered_contacts_def requested_order_def order_key_def Let_def split: prod.split)

lemma ordered_on_simps [simp]: "length (ordered_on q d p) = length (matching_rows q d)" "set (ordered_on q d p) = set (matching_rows q d)"
  by (simp_all add: ordered_on_alt requested_order_def)

lemma ordered_on_keys: "map (order_key q d) (ordered_on q d p) = requested_order q (sort (map (order_key q d) (matching_rows q d)))"
  by (simp add: ordered_on_alt requested_order_map map_sql_order)

lemma ordered_on_distinct: "distinct (map (order_key q d) (matching_rows q d))
    \<Longrightarrow> ordered_on q d p = requested_order q (sort_key (order_key q d) (matching_rows q d))"
  by (simp add: ordered_on_alt sql_order_distinct)

lemma contact_list_result:
  assumes "contacts_work d" "0 < cq_page q" "0 < cq_limit q" "(cq_page q - 1) * cq_limit q < 2 ^ 63"
  shows "contact_list q d = (Inr (map (contact_view d) (take (nat (cq_limit q)) (drop (nat ((cq_page q - 1) * cq_limit q)) (ordered_on q d (cq_page q)))),
    int (length (matching_rows q d))), d)"
proof -
  have "int64 ((cq_page q - 1) * cq_limit q) = (cq_page q - 1) * cq_limit q"
    using assms(2-4) by (simp add: int64_def)
  then show ?thesis
    using assms(1-3)
    by (auto simp: contact_list_def contact_page_def Let_def contact_stmt_def prog_simps load_metadata_def ordered_on_def
        matching_rows_def contact_view_def split: prod.split)
qed

lemma pages_needed:
  assumes "0 < limit"
  shows "nat (page_count (int n) limit) * nat limit \<ge> n"
proof (cases "n = 0")
  case False
  define x where "x = rat_of_int (int n) / rat_of_int limit"
  have "rat_of_int (int n) = x * rat_of_int limit" using assms by (simp add: x_def)
  also have "\<dots> \<le> rat_of_int \<lceil>x\<rceil> * rat_of_int limit" using assms by (intro mult_right_mono) simp_all
  finally have "rat_of_int (int n) \<le> rat_of_int (\<lceil>x\<rceil> * limit)" by simp
  then have "int n \<le> \<lceil>x\<rceil> * limit" by (simp only: of_int_le_iff)
  then have "n \<le> nat (\<lceil>x\<rceil> * limit)" by linarith
  then show ?thesis using assms nat_mult_distrib[of limit "\<lceil>x\<rceil>"] False by (simp add: page_count_def x_def mult.commute)
qed simp

lemma page_within:
  assumes "0 < limit" "p \<le> page_count n limit" "0 < p"
  shows "(p - 1) * limit < n"
proof -
  have "0 < n" using assms(2,3) by (auto simp: page_count_def split: if_splits)
  then have "rat_of_int (page_count n limit - 1) < rat_of_int n / rat_of_int limit"
    unfolding page_count_def by simp linarith
  then have "rat_of_int ((page_count n limit - 1) * limit) < rat_of_int n"
    using assms(1) by (simp add: pos_less_divide_eq)
  then have "(page_count n limit - 1) * limit < n" by (simp only: of_int_less_iff)
  moreover have "(p - 1) * limit \<le> (page_count n limit - 1) * limit" using assms by (intro mult_right_mono) auto
  ultimately show ?thesis by linarith
qed

text \<open>The windows of the pages of a list.\<close>

definition page_window_of :: "int \<Rightarrow> 'a list \<Rightarrow> int \<Rightarrow> 'a list" where
  "page_window_of limit xs p = take (nat limit) (drop (nat ((p - 1) * limit)) xs)"

lemma page_windows: "0 < limit \<Longrightarrow> concat (map (\<lambda>p. page_window_of limit (query p) p) [1..n])
    = pages_of (nat limit) (\<lambda>k. query (int k + 1)) (nat n)"
proof -
  assume limit: "0 < limit"
  have "[1..n] = map (\<lambda>k. int k + 1) [0..<nat n]"
    by (rule nth_equalityI) (auto simp: nth_upto)
  then show ?thesis using limit by (simp add: pages_of_def page_window_of_def comp_def nat_mult_distrib mult.commute)
qed

lemma page_windows_complete:
  assumes "0 < limit"
  shows "concat (map (page_window_of limit xs) [1..page_count (int (length xs)) limit]) = xs"
  using page_windows[OF assms, of "\<lambda>_. xs"] pages_needed[OF assms, of "length xs"]
  by (simp add: pages_of_same mult.commute)

lemma list_contacts_page:
  assumes "contacts_work (cw_db w)" "0 < p" "0 < cq_limit q" "(p - 1) * cq_limit q < 2 ^ 63"
  shows "list_contacts (q\<lparr>cq_page := p\<rparr>) w = (Inr \<lparr>cl_data = map (contact_view (cw_db w)) (page_window_of (cq_limit q) (ordered_on q (cw_db w) p) p),
    cl_page = p, cl_limit = cq_limit q, cl_total = int (length (matching_rows q (cw_db w))),
    cl_total_pages = page_count (int (length (matching_rows q (cw_db w)))) (cq_limit q)\<rparr>, w)"
proof -
  let ?q = "q\<lparr>cq_page := p, cq_limit := cq_limit q\<rparr>"
  have "contact_matches ?q (cw_db w) = contact_matches q (cw_db w)" by (auto simp: contact_matches_def)
  then have "matching_rows ?q (cw_db w) = matching_rows q (cw_db w)" by (simp add: matching_rows_def)
  moreover from this have "ordered_on ?q (cw_db w) p = ordered_on q (cw_db w) p" by (simp add: ordered_on_def ordered_contacts_def)
  ultimately show ?thesis
    using assms contact_list_result[of "cw_db w" ?q]
    by (simp add: list_contacts_def contact_page_def prog_simps through_def put_contacts_def page_window_of_def)
qed

text \<open>The rows of all pages one after another.\<close>

definition paged_rows :: "contact_query \<Rightarrow> contacts_db \<Rightarrow> contact_row list" where
  "paged_rows q d = concat (map (\<lambda>p. page_window_of (cq_limit q) (ordered_on q d p) p)
     [1..page_count (int (length (matching_rows q d))) (cq_limit q)])"

lemma paged_rows:
  assumes "0 < cq_limit q"
  shows "set (paged_rows q d) \<subseteq> set (matching_rows q d)"
    and "map (order_key q d) (paged_rows q d) = requested_order q (sort (map (order_key q d) (matching_rows q d)))"
    and "distinct (map (order_key q d) (matching_rows q d))
      \<Longrightarrow> paged_rows q d = requested_order q (sort_key (order_key q d) (matching_rows q d))"
proof -
  let ?n = "page_count (int (length (matching_rows q d))) (cq_limit q)"
  have enough: "length (matching_rows q d) \<le> nat (cq_limit q) * nat ?n"
    using pages_needed[OF assms, of "length (matching_rows q d)"] by (simp add: mult.commute)
  have pages: "paged_rows q d = pages_of (nat (cq_limit q)) (\<lambda>k. ordered_on q d (int k + 1)) (nat ?n)"
    unfolding paged_rows_def by (rule page_windows[OF assms])
  show "set (paged_rows q d) \<subseteq> set (matching_rows q d)" unfolding pages by (rule set_pages_of) simp
  have "length (requested_order q (sort (map (order_key q d) (matching_rows q d)))) \<le> nat (cq_limit q) * nat ?n"
    using enough by (simp add: requested_order_def)
  moreover have "map (order_key q d) (paged_rows q d)
      = take (nat (cq_limit q) * nat ?n) (requested_order q (sort (map (order_key q d) (matching_rows q d))))"
    unfolding pages map_pages_of by (rule pages_of_same) (rule ordered_on_keys)
  ultimately show "map (order_key q d) (paged_rows q d) = requested_order q (sort (map (order_key q d) (matching_rows q d)))"
    by simp
  show "paged_rows q d = requested_order q (sort_key (order_key q d) (matching_rows q d))"
    if "distinct (map (order_key q d) (matching_rows q d))"
    unfolding pages using enough that pages_of_same[OF ordered_on_distinct[OF that]] by (simp add: requested_order_def)
qed

text \<open>C32: On a database that works, every page of a listing reports the same total and number of pages, and the
  pages put one after another have as many contacts as match, all of them matching, with the values of the requested column
  in the requested order. Rows with the same value come in any order, which may differ from page to page: only if there are
  none are the pages exactly all matching contacts, each once.\<close>

theorem contact_pages_complete:
  assumes "contacts_work (cw_db w)" "0 < cq_limit q" "int (length (matching_rows q (cw_db w))) + cq_limit q < 2 ^ 63"
  defines "n \<equiv> int (length (matching_rows q (cw_db w)))"
  shows "\<exists>rows. (\<forall>p \<in> {1..page_count n (cq_limit q)}. list_contacts (q\<lparr>cq_page := p\<rparr>) w =
      (Inr \<lparr>cl_data = map (contact_view (cw_db w)) (rows p), cl_page = p, cl_limit = cq_limit q, cl_total = n,
         cl_total_pages = page_count n (cq_limit q)\<rparr>, w))
    \<and> (let all = concat (map rows [1..page_count n (cq_limit q)]) in
         length all = length (matching_rows q (cw_db w)) \<and> set all \<subseteq> set (matching_rows q (cw_db w))
         \<and> map (order_key q (cw_db w)) all = requested_order q (sort (map (order_key q (cw_db w)) (matching_rows q (cw_db w))))
         \<and> (distinct (map (order_key q (cw_db w)) (matching_rows q (cw_db w)))
              \<longrightarrow> all = requested_order q (sort_key (order_key q (cw_db w)) (matching_rows q (cw_db w)))))"
proof -
  let ?d = "cw_db w" and ?l = "cq_limit q"
  let ?rows = "\<lambda>p. page_window_of ?l (ordered_on q ?d p) p"
  have "(p - 1) * ?l < 2 ^ 63" if "p \<in> {1..page_count n ?l}" for p
    using page_within[of ?l p n] that assms(2,3) by (auto simp: n_def)
  then have "\<forall>p \<in> {1..page_count n ?l}. list_contacts (q\<lparr>cq_page := p\<rparr>) w =
      (Inr \<lparr>cl_data = map (contact_view ?d) (?rows p), cl_page = p, cl_limit = ?l, cl_total = n, cl_total_pages = page_count n ?l\<rparr>, w)"
    using list_contacts_page[OF assms(1) _ assms(2)] by (simp add: n_def)
  moreover have "concat (map ?rows [1..page_count n ?l]) = paged_rows q ?d" by (simp add: paged_rows_def n_def)
  moreover have "length (paged_rows q ?d) = length (matching_rows q ?d)"
    using arg_cong[OF paged_rows(2)[OF assms(2), of ?d], of length] by (simp add: requested_order_def split: if_splits)
  ultimately show ?thesis
    using paged_rows[OF assms(2), of ?d] unfolding Let_def by (intro exI[of _ ?rows]) simp
qed

section \<open>A small directory\<close>

definition sample_contacts :: contacts_db where
  "sample_contacts = \<lparr>cd_rows = [], cd_metadata = [], cd_next = 1, cd_clock = 5, cd_random = (\<lambda>n. replicate (Suc n) CHR ''c''),
     cd_drawn = 0, cd_fault = (\<lambda>_. False), cd_dup_message = (\<lambda>_ _. []), cd_weight = (\<lambda>s. s), cd_tie = (\<lambda>p i. p)\<rparr>"

definition sample_contacts_world :: contacts_world where
  "sample_contacts_world = \<lparr>cw_db = sample_contacts, cw_events = [], cw_refuses = (\<lambda>_. False), cw_event_ids = (\<lambda>_. ''e''), cw_drawn = 0\<rparr>"

definition sample_contact :: contact_command where
  "sample_contact = \<lparr>cc_document_type = ''CC'', cc_document_number = ''1'', cc_legal_name = ''A'', cc_first_name = [], cc_last_name = [],
     cc_email = ''a'', cc_phone = [], cc_address = [], cc_address_extra = [], cc_city_code = [], cc_metadata = [(''k'', ''v'')], cc_created_at = None\<rparr>"

lemma sample_contacts_ok: "contacts_ok (cw_db sample_contacts_world)" "contacts_work (cw_db sample_contacts_world)"
proof -
  have "graphic CHR ''c''" by code_simp
  then have "trim (replicate n CHR ''c'') = replicate n CHR ''c''" for n by (intro trim_graphic) (simp add: list_all_iff)
  from this[of "Suc n" for n] show "contacts_ok (cw_db sample_contacts_world)" "contacts_work (cw_db sample_contacts_world)"
    by (simp_all add: sample_contacts_world_def sample_contacts_def contacts_ok_def contact_rows_ok_def metadata_rows_ok_def)
qed

theorem contacts_stay_ok_witness:
  "contacts_ok (cw_db (contact_calls [CreateContact sample_contact, DeleteContact ''c''] sample_contacts_world))"
  using contacts_stay_ok[OF sample_contacts_ok(1), of "[CreateContact sample_contact, DeleteContact ''c'']"] by blast

theorem contact_create_then_get_witness:
  "\<exists>c w'. create_contact sample_contact sample_contacts_world = (Inr c, w') \<and> ct_id c = ''c'' \<and> length (cw_events w') = 1
    \<and> get_contact ''c'' w' = (Inr c, w')"
proof -
  have "contact_validate (requested_contact sample_contact) = None" by code_simp
  moreover have "contact_new (cw_db sample_contacts_world) (requested_contact sample_contact)"
    by (simp add: contact_new_def sample_contacts_world_def sample_contacts_def violated_index_def)
  moreover have "cd_random (cw_db sample_contacts_world) (cd_drawn (cw_db sample_contacts_world)) = ''c''"
    "cw_refuses sample_contacts_world = (\<lambda>_. False)" "cw_events sample_contacts_world = []"
    by (simp_all add: sample_contacts_world_def sample_contacts_def)
  ultimately show ?thesis
    using contact_create_then_get[OF sample_contacts_ok, of sample_contact] by (auto simp: saved_contact_def)
qed

text \<open>Three contacts in a directory with two pages, listed by e-mail.\<close>

definition directory_row :: "string \<Rightarrow> string \<Rightarrow> gotime \<Rightarrow> contact_row" where
  "directory_row i email t = (contact_to_row (requested_contact sample_contact))\<lparr>cr_id := i, cr_email := email, cr_document_key := None,
     cr_created_at := t\<rparr>"

definition directory_world :: contacts_world where
  "directory_world = sample_contacts_world\<lparr>cw_db := sample_contacts\<lparr>cd_rows := [directory_row ''c1'' ''mia'' 1000000, directory_row ''c2'' ''ana'' 2000000,
     (directory_row ''c3'' ''lou'' 3000000)\<lparr>cr_deleted_at := Some 5000000\<rparr>, directory_row ''c4'' ''zoe'' 4000000]\<rparr>\<rparr>"

definition by_email :: contact_query where
  "by_email = \<lparr>cq_page = 1, cq_limit = 2, cq_order_by = ''email'', cq_order_dir = ''asc'',
     cq_email = [], cq_document_type = [], cq_document_number = [], cq_exclude = [], cq_metadata_key = [], cq_metadata_value = []\<rparr>"

lemma directory_rows: "matching_rows by_email (cw_db directory_world) = [directory_row ''c1'' ''mia'' 1000000, directory_row ''c2'' ''ana'' 2000000, directory_row ''c4'' ''zoe'' 4000000]"
    "contacts_work (cw_db directory_world)"
proof -
  have "trim [] = []" by code_simp
  then show "matching_rows by_email (cw_db directory_world) = [directory_row ''c1'' ''mia'' 1000000, directory_row ''c2'' ''ana'' 2000000, directory_row ''c4'' ''zoe'' 4000000]"
    by (simp add: matching_rows_def by_email_def directory_world_def contact_matches_def given_equal_def live_contact_def directory_row_def
        contact_to_row_def Let_def)
  show "contacts_work (cw_db directory_world)" using sample_contacts_ok(2) by (simp add: directory_world_def sample_contacts_world_def)
qed

theorem contact_pages_complete_witness:
  "\<exists>rows. (\<forall>p \<in> {1..2}. \<exists>r. list_contacts (by_email\<lparr>cq_page := p\<rparr>) directory_world = (Inr r, directory_world)
       \<and> cl_data r = map (contact_view (cw_db directory_world)) (rows p) \<and> cl_total r = 3 \<and> cl_total_pages r = 2)
    \<and> concat (map rows [1..2]) = [directory_row ''c2'' ''ana'' 2000000, directory_row ''c1'' ''mia'' 1000000, directory_row ''c4'' ''zoe'' 4000000]"
proof -
  have order: "contact_order (cq_order_by by_email) (cq_order_dir by_email) = (EmailColumn, True)" by code_simp
  have "order_key by_email (cw_db directory_world) r = (0, cr_email r)" for r
    by (simp add: order_key_def order directory_world_def sample_contacts_def)
  then have key: "order_key by_email (cw_db directory_world) = (\<lambda>r. (0, cr_email r))" by blast
  have email: "cr_email (directory_row i e t) = e" for i e t by (simp add: directory_row_def)
  have less: "''ana'' < ''mia''" "''mia'' < ''zoe''" "''ana'' < ''zoe''" by code_simp+
  have pages: "page_count 3 (cq_limit by_email) = 2" "cq_limit by_email = 2" by (simp_all add: page_count_def by_email_def ceiling_unique)
  have sorted_rows: "requested_order by_email (sort_key (\<lambda>r. (0, cr_email r)) (matching_rows by_email (cw_db directory_world)))
      = [directory_row ''c2'' ''ana'' 2000000, directory_row ''c1'' ''mia'' 1000000, directory_row ''c4'' ''zoe'' 4000000]"
    using less by (simp add: requested_order_def order directory_rows email)
  have "distinct (map (\<lambda>r. (0::int, cr_email r)) (matching_rows by_email (cw_db directory_world)))"
    by (simp add: directory_rows email)
  then show ?thesis
    using contact_pages_complete[OF directory_rows(2), of by_email] pages sorted_rows
    unfolding key by (simp add: directory_rows(1) Let_def) fastforce
qed

end
