(* ===== verification/Exports_Sources.thy ===== *)
theory Exports_Sources
  imports Exports_Csv Contacts_Calls Orders_Service
begin

text \<open>
  The rows of an export (\<^verbatim>\<open>module/exports/port/source.go\<close>), their records, and the adapters that collect them
  page by page from the contacts and orders modules (\<^verbatim>\<open>adapter/contacts/source.go\<close>, \<^verbatim>\<open>adapter/orders/source.go\<close>).

  The texts of times, amounts and JSON objects, the parsers of time stamps and the lookup of consents are fields
  of a record of parameters.
\<close>

datatype exports_error = ErrInvalidReportType | ErrInvalidReportID | ErrReportNotFound | SourceFailure string
  | ExportsDriverError | StorageUnavailable | UploadFailure

record consent_state =
  sn_channel :: string
  sn_action :: string
  sn_occurred_at :: gotime

record export_texts =
  xt_rfc3339 :: "gotime \<Rightarrow> string"
  xt_stamp :: "gotime \<Rightarrow> string"
  xt_amount :: "float64 \<Rightarrow> string"
  xt_json :: "gomap \<Rightarrow> string"
  xt_parse_utc :: "string \<Rightarrow> gotime option"
  xt_parse_local :: "string \<Rightarrow> gotime option"
  xt_sha256 :: "string \<Rightarrow> string"

section \<open>Rows and records\<close>

record export_contact =
  xc_contact :: contact
  xc_opt_in :: bool
  xc_opt_in_at :: gotime
  xc_privacy :: bool
  xc_privacy_at :: gotime

record export_order =
  xo_order :: order
  xo_contact_email :: string

definition format_bool :: "bool \<Rightarrow> string" where
  "format_bool b = (if b then ''true'' else ''false'')"

definition itoa :: "int \<Rightarrow> string" where
  "itoa n = (if n < 0 then CHR ''-'' # format_uint (nat (- n)) else format_uint (nat n))"

definition format_time :: "export_texts \<Rightarrow> gotime \<Rightarrow> string" where
  "format_time T t = (if t = 0 then [] else xt_rfc3339 T t)"

definition metadata_string :: "export_texts \<Rightarrow> gomap \<Rightarrow> string" where
  "metadata_string T m = (if m = [] then [] else xt_json T m)"

definition item_string :: "export_texts \<Rightarrow> item \<Rightarrow> string" where
  "item_string T i = join ''|'' ([''sku='' @ it_sku i, ''name='' @ it_alternate_name i, ''quantity='' @ itoa (it_quantity i),
     ''value='' @ xt_amount T (it_value i)] @ (if it_product_id i \<noteq> [] then [''productId='' @ it_product_id i] else []))"

definition items_string :: "export_texts \<Rightarrow> item list \<Rightarrow> string" where
  "items_string T items = join ''; '' (map (item_string T) items)"

definition contact_header :: "string list" where
  "contact_header = [''id'', ''documentType'', ''documentNumber'', ''legalName'', ''firstName'', ''lastName'', ''email'', ''phone'',
     ''address'', ''addressExtra'', ''cityCode'', ''membershipOptIn'', ''membershipOptInAt'', ''privacyAccepted'',
     ''privacyAcceptedAt'', ''metadata'', ''createdAt'', ''updatedAt'']"

definition contact_record :: "export_texts \<Rightarrow> export_contact \<Rightarrow> string list" where
  "contact_record T r = (let c = xc_contact r in [ct_id c, ct_document_type c, ct_document_number c, ct_legal_name c, ct_first_name c,
     ct_last_name c, ct_email c, ct_phone c, ct_address c, ct_address_extra c, ct_city_code c, format_bool (xc_opt_in r),
     format_time T (xc_opt_in_at r), format_bool (xc_privacy r), format_time T (xc_privacy_at r), metadata_string T (ct_metadata c),
     format_time T (ct_created_at c), format_time T (ct_updated_at c)])"

definition order_header :: "string list" where
  "order_header = [''id'', ''identifier'', ''realm'', ''contactId'', ''contactEmail'', ''address'', ''address2'', ''phone'', ''cityName'',
     ''cityCode'', ''status'', ''itemsOrdered'', ''paymentMethod'', ''metadata'', ''createdAt'', ''updatedAt'']"

definition order_record :: "export_texts \<Rightarrow> export_order \<Rightarrow> string list" where
  "order_record T r = (let e = xo_order r; a = o_shipping_address e in [o_id e, o_identifier e, o_realm e, o_contact_id e, xo_contact_email r,
     sa_address a, sa_address2 a, sa_phone a, trim (sa_city_code a), sa_city_code a, o_current_status e, items_string T (o_items e),
     o_payment_method e, metadata_string T (o_metadata e), format_time T (o_created_at e), format_time T (o_updated_at e)])"

definition build_contacts_csv :: "export_texts \<Rightarrow> export_contact list \<Rightarrow> string" where
  "build_contacts_csv T rows = write_csv (contact_header # map (contact_record T) rows)"

definition build_orders_csv :: "export_texts \<Rightarrow> export_order list \<Rightarrow> string" where
  "build_orders_csv T rows = write_csv (order_header # map (order_record T) rows)"

section \<open>Consents of a contact\<close>

text \<open>One pass over the statuses for a preferred channel; the empty channel stands for any but \<^verbatim>\<open>all\<close>.\<close>

definition select_consent :: "consent_state list \<Rightarrow> string \<Rightarrow> consent_state option" where
  "select_consent ss preferred = find (\<lambda>s. let c = to_lower (trim (sn_channel s)) in
     if preferred = [] then c \<noteq> ''all'' else c = preferred) ss"

fun preferred_consent :: "consent_state list \<Rightarrow> string list \<Rightarrow> consent_state option \<Rightarrow> consent_state option" where
  "preferred_consent ss [] selected = selected"
| "preferred_consent ss (p # ps) selected = (let s = (case select_consent ss p of None \<Rightarrow> selected | Some x \<Rightarrow> Some x) in
     case s of None \<Rightarrow> preferred_consent ss ps s | Some x \<Rightarrow> if sn_action x \<noteq> [] then s else preferred_consent ss ps s)"

definition membership_from_statuses :: "consent_state list \<Rightarrow> bool \<times> gotime" where
  "membership_from_statuses ss = (case preferred_consent ss [''all'', ''email'', []] None of None \<Rightarrow> (False, 0)
     | Some s \<Rightarrow> (let action = to_lower (trim (sn_action s)) in
         if action = ''opt_in'' then (True, sn_occurred_at s) else if action = ''opt_out'' then (False, sn_occurred_at s) else (False, 0)))"

definition normalize_decision :: "string \<Rightarrow> string" where
  "normalize_decision v = (let n = to_lower (trim v) in
     if n \<in> {''yes'', ''true'', ''1'', ''accepted'', ''accept''} then ''yes''
     else if n \<in> {''no'', ''false'', ''0'', ''rejected'', ''reject''} then ''no'' else [])"

definition parse_checker_time :: "export_texts \<Rightarrow> string \<Rightarrow> string \<Rightarrow> gotime" where
  "parse_checker_time T utc local_time = (case xt_parse_utc T (trim utc) of Some t \<Rightarrow> t
     | None \<Rightarrow> (case xt_parse_local T (trim local_time) of Some t \<Rightarrow> t | None \<Rightarrow> 0))"

definition metadata_value :: "gomap \<Rightarrow> string \<Rightarrow> string" where
  "metadata_value m k = (case map_of m k of None \<Rightarrow> [] | Some v \<Rightarrow> v)"

definition membership_from_metadata :: "export_texts \<Rightarrow> gomap \<Rightarrow> bool \<times> gotime" where
  "membership_from_metadata T m = (let v = metadata_value m; d = normalize_decision (v ''flock_checker_circle_optin'') in
     if d = ''yes'' then (True, parse_checker_time T (v ''flock_checker_circle_optin_accepted_at_utc'') (v ''flock_checker_circle_optin_accepted_at''))
     else if d = ''no'' then (False, parse_checker_time T (v ''flock_checker_circle_optin_rejected_at_utc'') (v ''flock_checker_circle_optin_rejected_at''))
     else (False, 0))"

definition resolve_privacy :: "export_texts \<Rightarrow> gomap \<Rightarrow> bool \<times> gotime" where
  "resolve_privacy T m = (let v = metadata_value m in
     if normalize_decision (v ''flock_checker_privacy_accept'') \<noteq> ''yes'' then (False, 0)
     else (True, parse_checker_time T (v ''flock_checker_privacy_accept_accepted_at_utc'') (v ''flock_checker_privacy_accept_accepted_at'')))"

text \<open>\<open>None\<close> as the lookup: no source of consents is configured.\<close>

definition resolve_membership :: "export_texts \<Rightarrow> (string \<Rightarrow> exports_error go_error + consent_state list) option \<Rightarrow> contact
    \<Rightarrow> exports_error go_error + (bool \<times> gotime)" where
  "resolve_membership T consents c = (case consents of None \<Rightarrow> Inr (membership_from_metadata T (ct_metadata c))
     | Some lookup \<Rightarrow> (case lookup (ct_id c) of Inl e \<Rightarrow> Inl e
         | Inr ss \<Rightarrow> Inr (if ss \<noteq> [] then membership_from_statuses ss else membership_from_metadata T (ct_metadata c))))"

definition export_contact_of :: "export_texts \<Rightarrow> (string \<Rightarrow> exports_error go_error + consent_state list) option \<Rightarrow> contact
    \<Rightarrow> exports_error go_error + export_contact" where
  "export_contact_of T consents c = (case resolve_membership T consents c of
     Inl e \<Rightarrow> Inl (Wrapped (''resolve contact membership '' @ ct_id c) e)
   | Inr (opt_in, decided) \<Rightarrow> (case resolve_privacy T (ct_metadata c) of (privacy, privacy_at) \<Rightarrow>
       Inr \<lparr>xc_contact = c, xc_opt_in = opt_in, xc_opt_in_at = decided, xc_privacy = privacy, xc_privacy_at = privacy_at\<rparr>))"

section \<open>Collecting the pages\<close>

text \<open>The loop both adapters run: a page gives its rows, the number of pages and the state carried to the next
  page. The loop has no bound; \<open>None\<close> means that it does not end.\<close>

partial_function (option) collect_pages :: "(int \<Rightarrow> 's \<Rightarrow> 'e + ('s \<times> 'a list \<times> int)) \<Rightarrow> int \<Rightarrow> 's \<Rightarrow> 'a list \<Rightarrow> ('e + 'a list) option" where
  "collect_pages page p s acc = (case page p s of Inl e \<Rightarrow> Some (Inl e) | Inr (s', rows, pages) \<Rightarrow>
     if pages = 0 \<or> p \<ge> pages \<or> rows = [] then Some (Inr (acc @ rows))
     else collect_pages page (p + 1) s' (acc @ rows))"

definition export_query :: "int \<Rightarrow> contact_query" where
  "export_query p = \<lparr>cq_page = p, cq_limit = 500, cq_order_by = ''createdAt'', cq_order_dir = ''asc'', cq_email = [], cq_document_type = [],
     cq_document_number = [], cq_exclude = [], cq_metadata_key = [], cq_metadata_value = []\<rparr>"

definition contact_export_page :: "export_texts \<Rightarrow> (string \<Rightarrow> exports_error go_error + consent_state list) option \<Rightarrow> contacts_world
    \<Rightarrow> int \<Rightarrow> unit \<Rightarrow> exports_error go_error + (unit \<times> export_contact list \<times> int)" where
  "contact_export_page T consents w p s = (case fst (list_contacts (export_query p) w) of
     Inl _ \<Rightarrow> Inl (Wrapped (''list contacts page '' @ itoa p) (Err (SourceFailure ''contacts'')))
   | Inr r \<Rightarrow> (case mapM_sum (export_contact_of T consents) (cl_data r) of Inl e \<Rightarrow> Inl e
       | Inr rows \<Rightarrow> Inr (s, rows, cl_total_pages r)))"

definition export_contacts :: "export_texts \<Rightarrow> (string \<Rightarrow> exports_error go_error + consent_state list) option \<Rightarrow> contacts_world
    \<Rightarrow> (exports_error go_error + export_contact list) option" where
  "export_contacts T consents w = collect_pages (contact_export_page T consents w) 1 () []"

text \<open>The e-mails of the customers are kept in a cache over all pages; failing lookups leave the e-mail empty.\<close>

fun export_order_rows :: "(string \<Rightarrow> contact option) \<Rightarrow> gomap \<Rightarrow> order list \<Rightarrow> gomap \<times> export_order list" where
  "export_order_rows lookup cache [] = (cache, [])"
| "export_order_rows lookup cache (e # es) = (let i = o_contact_id e; cached = metadata_value cache i;
     (cache', email) = (if cached = [] \<and> trim i \<noteq> [] then (case lookup i of None \<Rightarrow> (cache, [])
        | Some c \<Rightarrow> (AList.update i (ct_email c) cache, ct_email c)) else (cache, cached));
     (cache'', rows) = export_order_rows lookup cache' es in
     (cache'', \<lparr>xo_order = e, xo_contact_email = email\<rparr> # rows))"

definition order_export_page :: "(int \<Rightarrow> exports_error go_error + order_list_result) \<Rightarrow> (string \<Rightarrow> contact option)
    \<Rightarrow> int \<Rightarrow> gomap \<Rightarrow> exports_error go_error + (gomap \<times> export_order list \<times> int)" where
  "order_export_page list_page lookup p cache = (case list_page p of Inl e \<Rightarrow> Inl (Wrapped (''list orders page '' @ itoa p) e)
     | Inr r \<Rightarrow> (case export_order_rows lookup cache (lr_data r) of (cache', rows) \<Rightarrow> Inr (cache', rows, lr_total_pages r)))"

definition export_orders :: "(int \<Rightarrow> exports_error go_error + order_list_result) \<Rightarrow> (string \<Rightarrow> contact option)
    \<Rightarrow> (exports_error go_error + export_order list) option" where
  "export_orders list_page lookup = collect_pages (order_export_page list_page lookup) 1 [] []"

end
