(* ===== verification/Exports_Reports.thy ===== *)
theory Exports_Reports
  imports Exports_Sources
begin

text \<open>
  Reports, their registry and the generation of exports (\<^verbatim>\<open>module/exports/domain\<close>, \<^verbatim>\<open>adapter/store\<close>,
  \<^verbatim>\<open>application/service.go\<close>).

  The world holds the rows of the registry, the objects of the storage with their content type, which uploads and
  statements fail, and the stream of identifiers.
\<close>

record export_report =
  xp_id :: string
  xp_type :: string
  xp_status :: string
  xp_stamp :: string
  xp_file_name :: string
  xp_storage_key :: string
  xp_sha256 :: string
  xp_content_type :: string
  xp_row_count :: int
  xp_byte_size :: int
  xp_generated_at :: gotime
  xp_created_at :: gotime
  xp_updated_at :: gotime

definition report_type_normalize :: "string \<Rightarrow> string" where
  "report_type_normalize t = to_lower (trim t)"

definition report_type_valid :: "string \<Rightarrow> bool" where
  "report_type_valid t \<longleftrightarrow> t = ''contacts'' \<or> t = ''orders''"

definition report_normalize :: "export_report \<Rightarrow> export_report" where
  "report_normalize r = r\<lparr>xp_id := trim (xp_id r), xp_type := report_type_normalize (xp_type r),
     xp_status := if trim (xp_status r) = [] then ''completed'' else trim (xp_status r), xp_stamp := trim (xp_stamp r),
     xp_file_name := trim (xp_file_name r), xp_storage_key := trim (xp_storage_key r), xp_sha256 := trim (xp_sha256 r),
     xp_content_type := trim (xp_content_type r)\<rparr>"

definition report_validate :: "export_report \<Rightarrow> exports_error option" where
  "report_validate r = (if \<not> report_type_valid (report_type_normalize (xp_type r)) then Some ErrInvalidReportType
     else if trim (xp_id r) = [] then Some ErrInvalidReportID else None)"

record exports_world =
  xw_reports :: "export_report list"
  xw_objects :: "string \<rightharpoonup> string \<times> string"
  xw_available :: bool
  xw_upload_fails :: "string \<Rightarrow> bool"
  xw_fault :: "string \<Rightarrow> bool"
  xw_clock :: gotime
  xw_uuids :: "nat \<Rightarrow> string"
  xw_drawn :: nat
  xw_contacts :: contacts_world
  xw_consents :: "(string \<Rightarrow> exports_error go_error + consent_state list) option"
  xw_orders :: "int \<Rightarrow> exports_error go_error + order_list_result"

type_synonym 'a exports_prog = "(exports_world, exports_error, 'a) prog"

definition export_stmt :: "string \<Rightarrow> 'a exports_prog \<Rightarrow> 'a exports_prog" where
  "export_stmt label m = (\<lambda>w. if xw_fault w label then (Inl (Wrapped label (Err ExportsDriverError)), w) else m w)"

section \<open>The registry\<close>

definition report_create :: "export_report \<Rightarrow> export_report exports_prog" where
  "report_create report = (let r = report_normalize report in bindp (guard_err (report_validate r)) (\<lambda>_.
     export_stmt ''insert export report'' (\<lambda>w. if xp_id r \<in> xp_id ` set (xw_reports w)
       then (Inl (Wrapped ''insert export report'' (Err ExportsDriverError)), w)
       else (Inr r, w\<lparr>xw_reports := xw_reports w @ [r]\<rparr>))))"

definition report_by_id :: "string \<Rightarrow> export_report exports_prog" where
  "report_by_id i = (if trim i = [] then throw (Err ErrInvalidReportID)
     else bindp (export_stmt ''select export report'' (getp (\<lambda>w. find (\<lambda>r. xp_id r = trim i) (xw_reports w)))) (\<lambda>r.
       case r of None \<Rightarrow> throw (Err ErrReportNotFound) | Some r \<Rightarrow> ret r))"

record report_query =
  yq_type :: string
  yq_page :: int
  yq_limit :: int

definition report_list :: "report_query \<Rightarrow> (export_report list \<times> int) exports_prog" where
  "report_list q = (let matching = (\<lambda>w. filter (\<lambda>r. yq_type q = [] \<or> xp_type r = report_type_normalize (yq_type q)) (xw_reports w));
       limit = (if yq_limit q \<le> 0 then 50 else yq_limit q); page = (if yq_page q \<le> 0 then 1 else yq_page q) in
     bindp (export_stmt ''count export reports'' (getp (\<lambda>w. int (length (matching w))))) (\<lambda>n.
     if n = 0 then ret ([], 0)
     else bindp (export_stmt ''list export reports'' (getp (\<lambda>w. take (nat limit) (drop (nat (int64 ((page - 1) * limit)))
       (rev (sort_key (\<lambda>r. (xp_generated_at r, xp_id r)) (matching w))))))) (\<lambda>rows. ret (rows, n))))"

section \<open>The service\<close>

definition report_key :: "string \<Rightarrow> string \<Rightarrow> string \<Rightarrow> string" where
  "report_key kind stamp hash = ''exports/'' @ kind @ ''/'' @ stamp @ ''-'' @ hash @ ''.csv''"

definition upload_report :: "string \<Rightarrow> string \<Rightarrow> unit exports_prog" where
  "upload_report key body = (\<lambda>w. if xw_upload_fails w key then (Inl (Err UploadFailure), w)
     else (Inr (), w\<lparr>xw_objects := (xw_objects w)(key \<mapsto> (''text/csv'', body))\<rparr>))"

definition draw_report_id :: "string exports_prog" where
  "draw_report_id = drawp (\<lambda>w. (xw_uuids w (xw_drawn w), w\<lparr>xw_drawn := Suc (xw_drawn w)\<rparr>))"

definition new_report :: "export_texts \<Rightarrow> string \<Rightarrow> gotime \<Rightarrow> string \<Rightarrow> int \<Rightarrow> string \<Rightarrow> export_report" where
  "new_report T kind now i n body = (let k = report_type_normalize kind; stamp = xt_stamp T now; hash = xt_sha256 T body in
     report_normalize \<lparr>xp_id = i, xp_type = k, xp_status = ''completed'', xp_stamp = stamp, xp_file_name = k @ ''-export-'' @ stamp @ ''.csv'',
       xp_storage_key = report_key k stamp hash, xp_sha256 = hash, xp_content_type = ''text/csv'', xp_row_count = n,
       xp_byte_size = int (length body), xp_generated_at = now, xp_created_at = now, xp_updated_at = now\<rparr>)"

definition persist_report :: "export_texts \<Rightarrow> string \<Rightarrow> int \<Rightarrow> string \<Rightarrow> export_report exports_prog" where
  "persist_report T kind n body = bindp (getp xw_available) (\<lambda>available.
     if \<not> available then throw (Wrapped ''export storage unavailable'' (Err StorageUnavailable))
     else bindp (getp xw_clock) (\<lambda>now. let k = report_type_normalize kind in
     bindp (wrap_err ''upload export report'' (upload_report (report_key k (xt_stamp T now) (xt_sha256 T body)) body)) (\<lambda>_.
     bindp draw_report_id (\<lambda>i. let r = new_report T kind now i n body in
     bindp (guard_err (report_validate r)) (\<lambda>_. wrap_err ''create export registry entry'' (report_create r))))))"

text \<open>\<open>None\<close>: the call does not return.\<close>

definition generate_contacts :: "export_texts \<Rightarrow> export_report option exports_prog" where
  "generate_contacts T = bindp (getp (\<lambda>w. export_contacts T (xw_consents w) (xw_contacts w))) (\<lambda>r. case r of None \<Rightarrow> ret None
     | Some (Inl e) \<Rightarrow> throw (Wrapped ''list contacts for export'' e)
     | Some (Inr rows) \<Rightarrow> bindp (persist_report T ''contacts'' (int (length rows)) (build_contacts_csv T rows)) (\<lambda>report. ret (Some report)))"

definition contact_lookup :: "contacts_world \<Rightarrow> string \<Rightarrow> contact option" where
  "contact_lookup w i = (case fst (get_contact i w) of Inl _ \<Rightarrow> None | Inr c \<Rightarrow> Some c)"

definition generate_orders :: "export_texts \<Rightarrow> export_report option exports_prog" where
  "generate_orders T = bindp (getp (\<lambda>w. export_orders (xw_orders w) (contact_lookup (xw_contacts w)))) (\<lambda>r. case r of None \<Rightarrow> ret None
     | Some (Inl e) \<Rightarrow> throw (Wrapped ''list orders for export'' e)
     | Some (Inr rows) \<Rightarrow> bindp (persist_report T ''orders'' (int (length rows)) (build_orders_csv T rows)) (\<lambda>report. ret (Some report)))"

definition get_report :: "string \<Rightarrow> export_report exports_prog" where
  "get_report i = (if trim i = [] then throw (Err ErrInvalidReportID) else report_by_id (trim i))"

definition normalize_report_query :: "report_query \<Rightarrow> report_query" where
  "normalize_report_query q = \<lparr>yq_type = report_type_normalize (yq_type q), yq_page = (if yq_page q \<le> 0 then 1 else yq_page q),
     yq_limit = (let l = (if yq_limit q \<le> 0 then 50 else yq_limit q) in if l > 500 then 500 else l)\<rparr>"

record report_page =
  rp_data :: "export_report list"
  rp_page :: int
  rp_limit :: int
  rp_total :: int
  rp_total_pages :: int

definition list_reports :: "report_query \<Rightarrow> report_page exports_prog" where
  "list_reports query = (let q = normalize_report_query query in
     if yq_type q \<noteq> [] \<and> \<not> report_type_valid (report_type_normalize (yq_type q)) then throw (Err ErrInvalidReportType)
     else bindp (wrap_err ''list export reports'' (report_list q)) (\<lambda>r. case r of (data, n) \<Rightarrow>
       ret \<lparr>rp_data = data, rp_page = yq_page q, rp_limit = yq_limit q, rp_total = n,
         rp_total_pages = (if n > 0 then \<lceil>rat_of_int n / rat_of_int (yq_limit q)\<rceil> else 0)\<rparr>))"

section \<open>Registered reports have their file\<close>

text \<open>The hash of a registered report is that of the object under its key.\<close>

definition report_backed :: "export_texts \<Rightarrow> (string \<rightharpoonup> string \<times> string) \<Rightarrow> export_report \<Rightarrow> bool" where
  "report_backed T objects r \<longleftrightarrow> (\<exists>stamp body. xp_storage_key r = report_key (xp_type r) stamp (xp_sha256 r)
     \<and> objects (xp_storage_key r) = Some (''text/csv'', body) \<and> xt_sha256 T body = xp_sha256 r) \<and> report_type_valid (xp_type r)"

definition reports_ok :: "export_texts \<Rightarrow> exports_world \<Rightarrow> bool" where
  "reports_ok T w \<longleftrightarrow> distinct (map xp_id (xw_reports w)) \<and> list_all (report_backed T (xw_objects w)) (xw_reports w)"

text \<open>What the hash function and the layout of the stamp guarantee: hexadecimal text of fixed length, and no white
  space around a stamp.\<close>

definition texts_ok :: "export_texts \<Rightarrow> bool" where
  "texts_ok T \<longleftrightarrow> (\<forall>b. length (xt_sha256 T b) = 64 \<and> list_all graphic (xt_sha256 T b)) \<and> (\<forall>t. list_all graphic (xt_stamp T t))"

lemma same_ending: "a @ h @ c = b @ h' @ c \<Longrightarrow> length h = length h' \<Longrightarrow> h = h'"
  by (metis append_assoc append_eq_append_conv append_same_eq)

lemma same_key_same_hash:
  assumes "report_key k s h = report_key k' s' h'" "length h = length h'"
  shows "h = h'"
proof -
  have key: "report_key k s h = (''exports/'' @ k @ ''/'' @ s @ ''-'') @ h @ ''.csv''" for k s h
    by (simp only: report_key_def append_assoc)
  from assms show ?thesis unfolding key by (rule same_ending)
qed

lemma backed_upload:
  assumes "texts_ok T" "report_backed T objects r"
  shows "report_backed T (objects(report_key k s (xt_sha256 T body) \<mapsto> (''text/csv'', body))) r"
proof -
  from assms(2) obtain stamp old where r: "xp_storage_key r = report_key (xp_type r) stamp (xp_sha256 r)"
      "objects (xp_storage_key r) = Some (''text/csv'', old)" "xt_sha256 T old = xp_sha256 r" "report_type_valid (xp_type r)"
    by (auto simp: report_backed_def)
  have "length (xp_sha256 r) = length (xt_sha256 T body)" using assms(1) r(3) by (metis texts_ok_def)
  then have "xt_sha256 T body = xp_sha256 r" if "xp_storage_key r = report_key k s (xt_sha256 T body)"
    using that r(1) same_key_same_hash by metis
  then show ?thesis unfolding report_backed_def
    using r by (intro conjI exI[of _ stamp] exI[of _ "if xp_storage_key r = report_key k s (xt_sha256 T body) then body else old"]) auto
qed

lemma trimmed_texts: "texts_ok T \<Longrightarrow> trim (xt_sha256 T b) = xt_sha256 T b"
  by (simp add: texts_ok_def trim_graphic)

lemma report_key_trimmed:
  assumes "texts_ok T" "report_type_valid k"
  shows "trim (report_key k (xt_stamp T t) (xt_sha256 T b)) = report_key k (xt_stamp T t) (xt_sha256 T b)"
proof (rule trim_graphic)
  have "list_all graphic ''exports/''" "list_all graphic ''/''" "list_all graphic ''-''" "list_all graphic ''.csv''"
    "list_all graphic ''contacts''" "list_all graphic ''orders''" by code_simp+
  then show "list_all graphic (report_key k (xt_stamp T t) (xt_sha256 T b))"
    using assms unfolding report_key_def texts_ok_def report_type_valid_def list_all_append by auto
qed

lemma report_kinds [simp]: "report_type_normalize ''contacts'' = ''contacts''" "report_type_normalize ''orders'' = ''orders''"
  by code_simp+

lemma new_report_backed:
  assumes "texts_ok T" "kind = ''contacts'' \<or> kind = ''orders''" and r_def: "r = report_normalize (new_report T kind now i n body)"
  shows "report_backed T (objects(report_key (report_type_normalize kind) (xt_stamp T now) (xt_sha256 T body) \<mapsto> (''text/csv'', body))) r"
    and "xp_sha256 r = xt_sha256 T body" "xp_storage_key r = report_key (report_type_normalize kind) (xt_stamp T now) (xt_sha256 T body)"
proof -
  have valid: "report_type_valid (report_type_normalize kind)" "report_type_normalize (report_type_normalize kind) = report_type_normalize kind"
    using assms(2) by (auto simp: report_type_valid_def)
  have key: "trim (report_key (report_type_normalize kind) (xt_stamp T now) (xt_sha256 T body)) = report_key (report_type_normalize kind) (xt_stamp T now) (xt_sha256 T body)"
    using report_key_trimmed[OF assms(1) valid(1)] .
  show "xp_sha256 r = xt_sha256 T body" "xp_storage_key r = report_key (report_type_normalize kind) (xt_stamp T now) (xt_sha256 T body)"
    by (simp_all add: r_def new_report_def report_normalize_def Let_def key trimmed_texts[OF assms(1)])
  then show "report_backed T (objects(report_key (report_type_normalize kind) (xt_stamp T now) (xt_sha256 T body) \<mapsto> (''text/csv'', body))) r"
    using valid by (auto simp: report_backed_def) (auto simp: r_def new_report_def report_normalize_def Let_def)
qed

lemma persist_report_result:
  "persist_report T kind n body w = (if \<not> xw_available w then (Inl (Wrapped ''export storage unavailable'' (Err StorageUnavailable)), w)
     else let k = report_type_normalize kind; now = xw_clock w; key = report_key k (xt_stamp T now) (xt_sha256 T body);
       r = new_report T kind now (xw_uuids w (xw_drawn w)) n body;
       w1 = w\<lparr>xw_objects := (xw_objects w)(key \<mapsto> (''text/csv'', body)), xw_drawn := Suc (xw_drawn w)\<rparr> in
     if xw_upload_fails w key then (Inl (Wrapped ''upload export report'' (Err UploadFailure)), w)
     else (case report_validate r of Some e \<Rightarrow> (Inl (Err e), w1)
       | None \<Rightarrow> wrap_err ''create export registry entry'' (report_create r) w1))"
  by (simp add: persist_report_def prog_simps Let_def upload_report_def draw_report_id_def split: option.split)

lemma preserves_persist_report:
  assumes "texts_ok T" "kind = ''contacts'' \<or> kind = ''orders''"
  shows "preserves (reports_ok T) (persist_report T kind n body)"
proof (rule preservesI)
  fix w
  assume ok: "reports_ok T w"
  let ?now = "xw_clock w"
  let ?objects = "(xw_objects w)(report_key (report_type_normalize kind) (xt_stamp T ?now) (xt_sha256 T body) \<mapsto> (''text/csv'', body))"
  let ?r = "report_normalize (new_report T kind ?now (xw_uuids w (xw_drawn w)) n body)"
  define w1 where "w1 = w\<lparr>xw_objects := ?objects, xw_drawn := Suc (xw_drawn w)\<rparr>"
  have w1: "reports_ok T w1"
    using ok backed_upload[OF assms(1)] by (auto simp: w1_def reports_ok_def list_all_iff)
  have "report_backed T ?objects ?r" by (rule new_report_backed(1)[OF assms refl])
  then have "reports_ok T (snd (report_create (new_report T kind ?now (xw_uuids w (xw_drawn w)) n body) w1))"
    using w1 by (auto simp: report_create_def Let_def prog_simps export_stmt_def reports_ok_def w1_def split: option.split)
  then have "reports_ok T (snd (wrap_err ''create export registry entry'' (report_create (new_report T kind ?now (xw_uuids w (xw_drawn w)) n body)) w1))"
    by (auto simp: prog_simps split: prod.splits sum.splits)
  then show "reports_ok T (snd (persist_report T kind n body w))"
    using ok w1 unfolding persist_report_result Let_def w1_def by (auto split: option.split)
qed

datatype export_call = GenerateContacts | GenerateOrders | GetReport string | ListReports report_query

definition export_step :: "export_texts \<Rightarrow> export_call \<Rightarrow> exports_world \<Rightarrow> exports_world" where
  "export_step T call w = (case call of GenerateContacts \<Rightarrow> snd (generate_contacts T w) | GenerateOrders \<Rightarrow> snd (generate_orders T w)
     | GetReport i \<Rightarrow> snd (get_report i w) | ListReports q \<Rightarrow> snd (list_reports q w))"

lemma readonly_export_stmt: "readonly m \<Longrightarrow> readonly (export_stmt l m)"
  by (simp add: readonly_def export_stmt_def)

lemma export_step_ok:
  assumes "texts_ok T" "reports_ok T w"
  shows "reports_ok T (export_step T call w)"
proof -
  have "preserves (reports_ok T) (generate_contacts T)"
    unfolding generate_contacts_def using preserves_persist_report[OF assms(1)]
    by (intro preserves_intros) (auto split: option.split sum.split intro!: preserves_intros)
  moreover have "preserves (reports_ok T) (generate_orders T)"
    unfolding generate_orders_def using preserves_persist_report[OF assms(1)]
    by (intro preserves_intros) (auto split: option.split sum.split intro!: preserves_intros)
  moreover have "readonly (get_report i)" for i
    unfolding get_report_def report_by_id_def
    by (auto intro!: readonly_export_stmt split: option.split)
  moreover have "readonly (report_list q)" for q
    unfolding report_list_def Let_def by (intro readonly_bindp readonly_export_stmt readonly_if readonly_basic)
  then have "readonly (list_reports q)" for q
    unfolding list_reports_def Let_def
    by (intro readonly_bindp readonly_wrap_err readonly_if readonly_basic) (auto split: prod.split)
  ultimately show ?thesis
    using assms(2) by (cases call) (auto simp: export_step_def preserves_def readonly_def)
qed

text \<open>C33: Whatever exports run and whichever uploads or statements fail, identifiers of registered reports are
  unique, and for every registered report the storage holds, under its key, a CSV object with the registered hash.\<close>

theorem reports_stay_backed:
  assumes "texts_ok T" "reports_ok T w"
  shows "reports_ok T (fold (export_step T) calls w)"
  using assms(2) by (induction calls arbitrary: w) (simp_all add: export_step_ok[OF assms(1)])

text \<open>A small world with one uploaded report to come.\<close>

definition sample_texts :: export_texts where
  "sample_texts = \<lparr>xt_rfc3339 = (\<lambda>_. ''t''), xt_stamp = (\<lambda>_. ''s''), xt_amount = (\<lambda>_. ''a''), xt_json = (\<lambda>_. ''j''),
     xt_parse_utc = (\<lambda>_. None), xt_parse_local = (\<lambda>_. None), xt_sha256 = (\<lambda>_. replicate 64 CHR ''f'')\<rparr>"

definition sample_exports :: exports_world where
  "sample_exports = \<lparr>xw_reports = [], xw_objects = Map.empty, xw_available = True, xw_upload_fails = (\<lambda>_. False), xw_fault = (\<lambda>_. False),
     xw_clock = 9, xw_uuids = (\<lambda>n. replicate (Suc n) CHR ''u''), xw_drawn = 0, xw_contacts = sample_contacts_world, xw_consents = None,
     xw_orders = (\<lambda>_. Inl (Err ExportsDriverError))\<rparr>"

lemma sample_texts_ok: "texts_ok sample_texts"
proof -
  have "graphic CHR ''f''" "graphic CHR ''s''" by code_simp+
  then show ?thesis by (simp add: texts_ok_def sample_texts_def list_all_iff)
qed

theorem reports_stay_backed_witness:
  "reports_ok sample_texts (fold (export_step sample_texts) [GenerateContacts, GetReport ''u'', GenerateOrders] sample_exports)"
  by (rule reports_stay_backed[OF sample_texts_ok]) (simp add: reports_ok_def sample_exports_def)

end
