(* ===== verification/Exports_Complete.thy ===== *)
theory Exports_Complete
  imports Exports_Reports
begin

text \<open>
  A contacts export over the contacts module: every page is collected, and the stored file holds one record for every
  live contact.
\<close>

section \<open>The loop over the pages\<close>

lemma collect_pages_from:
  assumes "\<And>p. 1 \<le> p \<Longrightarrow> p \<le> n \<Longrightarrow> page p s = Inr (s, rows p, n)" "\<And>p. 1 \<le> p \<Longrightarrow> p < n \<Longrightarrow> rows p \<noteq> []" "1 \<le> p" "p \<le> n"
  shows "collect_pages page p s acc = Some (Inr (acc @ concat (map rows [p..n])))"
  using assms(3,4)
proof (induction "nat (n - p)" arbitrary: p acc)
  case 0
  then have "p = n" by simp
  then show ?case using assms(1)[of n] 0 by (subst collect_pages.simps) simp
next
  case (Suc k)
  then have step: "collect_pages page (p + 1) s (acc @ rows p) = Some (Inr ((acc @ rows p) @ concat (map rows [p + 1..n])))"
    by (intro Suc(1)) simp_all
  have "page p s = Inr (s, rows p, n)" "rows p \<noteq> []" using assms(1,2) Suc by auto
  moreover have "[p..n] = p # [p + 1..n]" using Suc(4) by (rule upto_rec1)
  ultimately show ?case using step Suc by (subst collect_pages.simps) simp
qed

lemma collect_pages_all:
  assumes "\<And>p. 1 \<le> p \<Longrightarrow> p \<le> max 1 n \<Longrightarrow> page p s = Inr (s, rows p, n)" "\<And>p. 1 \<le> p \<Longrightarrow> p < n \<Longrightarrow> rows p \<noteq> []"
    and "0 \<le> n" "n = 0 \<Longrightarrow> rows 1 = []"
  shows "collect_pages page 1 s [] = Some (Inr (concat (map rows [1..n])))"
proof (cases "n = 0")
  case True
  then show ?thesis using assms(1)[of 1] assms(4) by (subst collect_pages.simps) simp
next
  case False
  then show ?thesis using assms collect_pages_from[of n page s rows 1 "[]"] by simp
qed

lemma mapM_sum_total: "(\<And>x. x \<in> set xs \<Longrightarrow> f x = Inr (g x)) \<Longrightarrow> mapM_sum f xs = Inr (map g xs)"
  by (induction xs) simp_all

section \<open>The rows of a contacts export\<close>

text \<open>The lookup of consents answers for every contact.\<close>

definition consents_answer :: "(string \<Rightarrow> exports_error go_error + consent_state list) option \<Rightarrow> bool" where
  "consents_answer consents \<longleftrightarrow> (\<forall>lookup i. consents = Some lookup \<longrightarrow> \<not> isl (lookup i))"

lemma export_contact_total:
  assumes "consents_answer consents"
  shows "\<exists>row. export_contact_of T consents c = Inr row \<and> xc_contact row = c"
proof (cases consents)
  case None
  then show ?thesis by (auto simp: export_contact_of_def resolve_membership_def split: prod.split)
next
  case (Some lookup)
  then obtain ss where "lookup (ct_id c) = Inr ss" using assms unfolding consents_answer_def by (cases "lookup (ct_id c)") (metis isl_def)+
  then show ?thesis using Some by (auto simp: export_contact_of_def resolve_membership_def split: prod.split)
qed

definition contact_row_of :: "export_texts \<Rightarrow> (string \<Rightarrow> exports_error go_error + consent_state list) option \<Rightarrow> contact \<Rightarrow> export_contact" where
  "contact_row_of T consents c = projr (export_contact_of T consents c)"

lemma contact_row_of:
  assumes "consents_answer consents"
  shows "export_contact_of T consents c = Inr (contact_row_of T consents c)" "xc_contact (contact_row_of T consents c) = c"
  using export_contact_total[OF assms, of T c] by (auto simp: contact_row_of_def)

lemma exported_matches: "contact_matches (export_query p) d r \<longleftrightarrow> live_contact r"
  by (simp add: contact_matches_def export_query_def given_equal_def)

text \<open>The rows of all pages, which are asked for in order of creation.\<close>

abbreviation live_rows :: "contacts_db \<Rightarrow> contact_row list" where
  "live_rows d \<equiv> filter live_contact (cd_rows d)"

definition exported_rows :: "contacts_db \<Rightarrow> contact_row list" where
  "exported_rows d = paged_rows (export_query 1) d"

lemma exported_matching: "matching_rows (export_query p) d = live_rows d"
  unfolding matching_rows_def by (rule filter_cong) (simp_all add: exported_matches)

lemma export_order: "contact_order (cq_order_by (export_query p)) (cq_order_dir (export_query p)) = (CreatedAtColumn, True)"
  unfolding export_query_def by code_simp

lemma insort_pair: "insort_key (\<lambda>x. (f x, c)) x xs = insort_key f x xs"
  by (induction xs) (simp_all add: less_eq_prod_def less_prod_def le_less)

lemma sort_key_pair: "sort_key (\<lambda>x. (f x, c)) xs = sort_key f xs"
  by (induction xs) (simp_all add: sort_key_def insort_pair)

lemma exported_rows:
  "set (exported_rows d) \<subseteq> set (live_rows d)" "length (exported_rows d) = length (live_rows d)"
  "sorted (map cr_created_at (exported_rows d))"
  "distinct (map cr_created_at (live_rows d)) \<Longrightarrow> exported_rows d = sort_key cr_created_at (live_rows d)"
proof -
  let ?q = "export_query 1"
  have limit: "0 < cq_limit ?q" by (simp add: export_query_def)
  have key: "order_key ?q d = (\<lambda>r. (cr_created_at r, []))" by (simp add: fun_eq_iff order_key_def export_order)
  have same: "requested_order ?q xs = xs" for xs :: "'b list" by (simp add: requested_order_def export_order)
  note rows = paged_rows[OF limit, of d, unfolded exported_matching key]
  show "set (exported_rows d) \<subseteq> set (live_rows d)" unfolding exported_rows_def by (rule rows(1))
  have keys: "map (\<lambda>r. (cr_created_at r, [])) (exported_rows d) = sort (map (\<lambda>r. (cr_created_at r, []::string)) (live_rows d))"
    unfolding exported_rows_def rows(2) by (simp add: requested_order_def export_order)
  show "length (exported_rows d) = length (live_rows d)" using arg_cong[OF keys, of length] by simp
  have "sorted (map (\<lambda>r. (cr_created_at r, []::string)) (exported_rows d))" unfolding keys by simp
  then show "sorted (map cr_created_at (exported_rows d))" by (rule sorted_first)
  show "exported_rows d = sort_key cr_created_at (live_rows d)" if "distinct (map cr_created_at (live_rows d))"
  proof -
    have "distinct (map (\<lambda>r. (cr_created_at r, []::string)) (live_rows d))" using that by (simp add: distinct_map inj_on_def)
    from rows(3)[OF this] show ?thesis by (simp add: exported_rows_def requested_order_def export_order sort_key_pair)
  qed
qed

lemma page_count_nonneg: "0 < limit \<Longrightarrow> 0 \<le> page_count n limit"
proof (cases "0 < n")
  case True
  assume "0 < limit"
  with True have "0 < rat_of_int n / rat_of_int limit" by simp
  then have "0 \<le> \<lceil>rat_of_int n / rat_of_int limit\<rceil>" by linarith
  then show ?thesis by (simp add: page_count_def)
qed (simp add: page_count_def)

lemma export_contacts_all:
  assumes "contacts_work (cw_db w)" "consents_answer consents" "int (length (live_rows (cw_db w))) < 2 ^ 63"
  shows "export_contacts T consents w = Some (Inr (map (contact_row_of T consents) (map (contact_view (cw_db w)) (exported_rows (cw_db w)))))"
proof -
  let ?d = "cw_db w"
  let ?len = "int (length (live_rows ?d))"
  let ?n = "page_count ?len 500"
  let ?window = "\<lambda>p. page_window_of 500 (ordered_on (export_query 1) ?d p) p"
  let ?rows = "\<lambda>p. map (contact_row_of T consents) (map (contact_view ?d) (?window p))"
  have "contact_export_page T consents w p () = Inr ((), ?rows p, ?n)" if "1 \<le> p" "p \<le> max 1 ?n" for p
  proof -
    have "(p - 1) * 500 < 2 ^ 63"
      using page_within[of 500 p ?len] that assms(3) by (cases "p \<le> ?n") auto
    moreover have "export_query p = (export_query 1)\<lparr>cq_page := p\<rparr>" "cq_limit (export_query 1) = 500" by (simp_all add: export_query_def)
    ultimately have "list_contacts (export_query p) w = (Inr \<lparr>cl_data = map (contact_view ?d) (?window p), cl_page = p, cl_limit = 500,
        cl_total = ?len, cl_total_pages = ?n\<rparr>, w)"
      using list_contacts_page[of w p "export_query 1"] assms(1) that by (simp add: exported_matching)
    then show ?thesis
      using mapM_sum_total[where f = "export_contact_of T consents" and g = "contact_row_of T consents"] contact_row_of[OF assms(2)]
      by (simp add: contact_export_page_def)
  qed
  moreover have "?rows p \<noteq> []" if "1 \<le> p" "p < ?n" for p
  proof -
    have "(p - 1) * 500 < ?len" using page_within[of 500 p ?len] that by auto
    moreover have "0 \<le> (p - 1) * 500" using that(1) by simp
    ultimately have "nat ((p - 1) * 500) < length (live_rows ?d)" by (simp only: nat_less_iff)
    then show ?thesis by (simp add: page_window_of_def exported_matching)
  qed
  moreover have "0 \<le> ?n" by (rule page_count_nonneg) simp
  moreover have "?rows 1 = []" if "?n = 0"
    using pages_needed[of 500 "length (live_rows ?d)"] that ordered_on_simps(1)[of "export_query 1" ?d 1]
    by (simp add: page_window_of_def exported_matching del: ordered_on_simps(1))
  ultimately have "export_contacts T consents w = Some (Inr (concat (map ?rows [1..?n])))"
    unfolding export_contacts_def by (rule collect_pages_all)
  moreover have "concat (map ?rows [1..?n]) = map (contact_row_of T consents) (map (contact_view ?d) (concat (map ?window [1..?n])))"
    by (simp add: map_concat comp_def)
  moreover have "cq_limit (export_query 1) = 500" by (simp add: export_query_def)
  ultimately show ?thesis by (simp add: exported_rows_def paged_rows_def exported_matching)
qed

section \<open>The stored file\<close>

text \<open>Nothing fails, and the next identifier is new.\<close>

definition exports_work :: "exports_world \<Rightarrow> bool" where
  "exports_work w \<longleftrightarrow> xw_available w \<and> xw_upload_fails w = (\<lambda>_. False) \<and> xw_fault w = (\<lambda>_. False)
     \<and> contacts_work (cw_db (xw_contacts w)) \<and> consents_answer (xw_consents w)
     \<and> trim (xw_uuids w (xw_drawn w)) = xw_uuids w (xw_drawn w) \<and> xw_uuids w (xw_drawn w) \<noteq> []
     \<and> xw_uuids w (xw_drawn w) \<notin> xp_id ` set (xw_reports w)"

lemma persist_contacts_report:
  assumes "texts_ok T" "exports_work w" and r_def: "r = report_normalize (new_report T ''contacts'' (xw_clock w) (xw_uuids w (xw_drawn w)) n body)"
  shows "\<exists>w'. persist_report T ''contacts'' n body w = (Inr r, w') \<and> xw_reports w' = xw_reports w @ [r]
    \<and> xw_objects w' (xp_storage_key r) = Some (''text/csv'', body) \<and> xp_row_count r = n"
proof -
  let ?r = "new_report T ''contacts'' (xw_clock w) (xw_uuids w (xw_drawn w)) n body"
  have i: "trim (xp_id ?r) = xw_uuids w (xw_drawn w)" "report_type_valid (report_type_normalize (xp_type ?r))" "xp_row_count r = n"
    "xp_id r = xw_uuids w (xw_drawn w)"
    using assms(2) by (simp_all add: r_def new_report_def report_normalize_def Let_def exports_work_def report_type_valid_def)
  then have "report_validate ?r = None" "report_validate r = None" using assms(2)
    by (auto simp: report_validate_def exports_work_def r_def report_normalize_def report_type_valid_def)
  moreover have "xp_storage_key r = report_key ''contacts'' (xt_stamp T (xw_clock w)) (xt_sha256 T body)"
    using new_report_backed(3)[OF assms(1) _ r_def] by simp
  ultimately show ?thesis
    using assms(2) i by (auto simp: persist_report_result Let_def report_create_def prog_simps export_stmt_def exports_work_def r_def[symmetric])
qed

text \<open>C34: When statements, uploads and lookups succeed, an export of contacts returns a completed report, and the
  stored object is the file of the header and the records of its rows, in order of creation. It has as many rows as there are
  live contacts, however many pages they fill, each of a live contact. If no two contacts were created in the same
  millisecond, every live contact has exactly one row; otherwise the pages may repeat one and miss another.\<close>

theorem contact_export_complete:
  fixes w :: exports_world
  assumes "texts_ok T" "exports_work w"
  defines "d \<equiv> cw_db (xw_contacts w)"
  assumes "int (length (live_rows d)) < 2 ^ 63"
  shows "\<exists>r w' rows contacts. generate_contacts T w = (Inr (Some r), w') \<and> xw_reports w' = xw_reports w @ [r]
    \<and> map xc_contact rows = map (contact_view d) contacts \<and> xp_row_count r = int (length rows)
    \<and> xw_objects w' (xp_storage_key r) = Some (''text/csv'', build_contacts_csv T rows)
    \<and> length contacts = length (live_rows d) \<and> set contacts \<subseteq> set (live_rows d) \<and> sorted (map cr_created_at contacts)
    \<and> (distinct (map cr_created_at (live_rows d)) \<longrightarrow> contacts = sort_key cr_created_at (live_rows d))"
proof -
  let ?contacts = "exported_rows d"
  let ?rows = "map (contact_row_of T (xw_consents w)) (map (contact_view d) ?contacts)"
  let ?body = "build_contacts_csv T ?rows"
  have works: "contacts_work d" "consents_answer (xw_consents w)" using assms(2) by (auto simp: exports_work_def d_def)
  then have rows: "export_contacts T (xw_consents w) (xw_contacts w) = Some (Inr ?rows)"
    using assms(4) unfolding d_def by (rule export_contacts_all)
  obtain r w' where saved: "persist_report T ''contacts'' (int (length ?rows)) ?body w = (Inr r, w')" "xw_reports w' = xw_reports w @ [r]"
      "xw_objects w' (xp_storage_key r) = Some (''text/csv'', ?body)" "xp_row_count r = int (length ?rows)"
    using persist_contacts_report[OF assms(1,2) refl] by blast
  have "generate_contacts T w = (Inr (Some r), w')" using rows saved(1) by (simp add: generate_contacts_def prog_simps)
  moreover have "map xc_contact ?rows = map (contact_view d) ?contacts" using contact_row_of(2)[OF works(2)] by (simp add: comp_def)
  ultimately show ?thesis using saved(2-4) exported_rows[of d] by blast
qed

text \<open>An export of the directory with three live contacts.\<close>

definition directory_exports :: exports_world where
  "directory_exports = sample_exports\<lparr>xw_contacts := directory_world\<rparr>"

theorem contact_export_complete_witness:
  "\<exists>r w' rows. generate_contacts sample_texts directory_exports = (Inr (Some r), w') \<and> xw_reports w' = [r] \<and> xp_row_count r = 3
    \<and> map xc_contact rows = map (contact_view (cw_db directory_world))
        [directory_row ''c1'' ''mia'' 1000000, directory_row ''c2'' ''ana'' 2000000, directory_row ''c4'' ''zoe'' 4000000]
    \<and> xw_objects w' (xp_storage_key r) = Some (''text/csv'', build_contacts_csv sample_texts rows)"
proof -
  have "trim ''u'' = ''u''" by code_simp
  then have works: "exports_work directory_exports"
    using directory_rows(2) by (simp add: exports_work_def directory_exports_def sample_exports_def consents_answer_def)
  let ?d = "cw_db (xw_contacts directory_exports)"
  have created: "cr_created_at (directory_row i e t) = t" for i e t by (simp add: directory_row_def)
  have live: "live_rows ?d = [directory_row ''c1'' ''mia'' 1000000, directory_row ''c2'' ''ana'' 2000000, directory_row ''c4'' ''zoe'' 4000000]"
    by (simp add: directory_exports_def directory_world_def live_contact_def directory_row_def contact_to_row_def Let_def)
  have "\<exists>r w' rows contacts. generate_contacts sample_texts directory_exports = (Inr (Some r), w') \<and> xw_reports w' = xw_reports directory_exports @ [r]
    \<and> map xc_contact rows = map (contact_view ?d) contacts \<and> xp_row_count r = int (length rows)
    \<and> xw_objects w' (xp_storage_key r) = Some (''text/csv'', build_contacts_csv sample_texts rows)
    \<and> (distinct (map cr_created_at (live_rows ?d)) \<longrightarrow> contacts = sort_key cr_created_at (live_rows ?d))"
    using contact_export_complete[OF sample_texts_ok works] unfolding live by fastforce
  then obtain r w' rows contacts where "generate_contacts sample_texts directory_exports = (Inr (Some r), w')"
      "xw_reports w' = xw_reports directory_exports @ [r]" "xw_objects w' (xp_storage_key r) = Some (''text/csv'', build_contacts_csv sample_texts rows)"
    and all: "map xc_contact rows = map (contact_view ?d) contacts" "xp_row_count r = int (length rows)"
      "distinct (map cr_created_at (live_rows ?d)) \<longrightarrow> contacts = sort_key cr_created_at (live_rows ?d)"
    by blast
  moreover have "distinct (map cr_created_at (live_rows ?d))" "sort_key cr_created_at (live_rows ?d) = live_rows ?d"
    by (simp_all add: live created)
  ultimately have made: "generate_contacts sample_texts directory_exports = (Inr (Some r), w')" "xw_reports w' = xw_reports directory_exports @ [r]"
      "xw_objects w' (xp_storage_key r) = Some (''text/csv'', build_contacts_csv sample_texts rows)"
    and rows: "map xc_contact rows = map (contact_view ?d) (live_rows ?d)" "xp_row_count r = int (length rows)"
    by simp_all
  have "length (map xc_contact rows) = 3" unfolding rows(1) by (simp add: live)
  then have "length rows = 3" by simp
  moreover have "xw_reports directory_exports = []" "xw_contacts directory_exports = directory_world"
    by (simp_all add: directory_exports_def sample_exports_def)
  ultimately show ?thesis using made rows unfolding live by (intro exI[of _ r] exI[of _ w'] exI[of _ rows]) simp
qed

end
