(* ===== verification/Assets_Domain.thy ===== *)
theory Assets_Domain
  imports Go_Strings
begin

text \<open>
  Assets, folders and tags (\<^verbatim>\<open>module/assets/domain\<close>): their values, normalization and validation.
\<close>

datatype assets_error = ErrIDRequired | ErrKeyRequired | ErrOriginalNameRequired | ErrMimeTypeRequired | ErrInvalidSize
  | ErrFolderIDRequired | ErrFolderNameRequired | ErrFolderSlugInvalid | ErrFolderParentSelfReference | ErrFolderParentCycle
  | ErrTooManyTags | ErrInvalidTagName | ErrInvalidTagColor | ErrDuplicatedTags | ErrInvalidAssetMetadata
  | PortAssetNotFound | PortFolderNotFound | PortFolderAlreadyExists
  | ErrInvalidAssetID | ErrInvalidAssetName | ErrInvalidFolderID | ErrInvalidFolderName | ErrInvalidFolderParent | ErrFileRequired
  | ErrFileTooLarge | ErrStorageUnavailable | ErrJPGWorkerTagsRequired
  | AssetsDriverError | AssetsStorageError | AssetsTransportError | AssetsImageError

record asset_tag =
  at_name :: string
  at_color :: string

record asset =
  as_id :: string
  as_key :: string
  as_name :: string
  as_original_name :: string
  as_folder_id :: string
  as_mime_type :: string
  as_size :: int
  as_tags :: "asset_tag list"
  as_metadata :: gomap
  as_created_at :: gotime
  as_updated_at :: gotime
  as_is_deleted :: bool
  as_deleted_at :: "gotime option"

text \<open>The children of a folder are only filled in by the tree, which has a type of its own.\<close>

record folder =
  fo_id :: string
  fo_name :: string
  fo_slug :: string
  fo_parent_id :: string
  fo_tags :: "asset_tag list"
  fo_created_at :: gotime
  fo_updated_at :: gotime
  fo_is_deleted :: bool
  fo_deleted_at :: "gotime option"

section \<open>Tags and metadata\<close>

definition max_tags :: nat where
  "max_tags = 5"

definition lower_alnum :: "char \<Rightarrow> bool" where
  "lower_alnum c \<longleftrightarrow> CHR ''a'' \<le> c \<and> c \<le> CHR ''z'' \<or> CHR ''0'' \<le> c \<and> c \<le> CHR ''9''"

text \<open>The patterns \<^verbatim>\<open>^[a-z0-9][a-z0-9_-]{0,31}$\<close> and \<^verbatim>\<open>^#[0-9a-f]{6}$\<close>.\<close>

definition tag_name_matches :: "string \<Rightarrow> bool" where
  "tag_name_matches s \<longleftrightarrow> (case s of [] \<Rightarrow> False
     | c # cs \<Rightarrow> lower_alnum c \<and> length cs \<le> 31 \<and> list_all (\<lambda>x. lower_alnum x \<or> x = CHR ''_'' \<or> x = CHR ''-'') cs)"

definition tag_color_matches :: "string \<Rightarrow> bool" where
  "tag_color_matches s \<longleftrightarrow> (case s of [] \<Rightarrow> False | c # cs \<Rightarrow> c = CHR ''#'' \<and> length cs = 6
     \<and> list_all (\<lambda>x. CHR ''0'' \<le> x \<and> x \<le> CHR ''9'' \<or> CHR ''a'' \<le> x \<and> x \<le> CHR ''f'') cs)"

fun check_tags :: "string list \<Rightarrow> asset_tag list \<Rightarrow> assets_error go_error option" where
  "check_tags seen [] = None"
| "check_tags seen (t # ts) = (let name = trim (at_name t) in
     if \<not> tag_name_matches name then Some (Wrapped (at_name t) (Err ErrInvalidTagName))
     else if name \<in> set seen then Some (Wrapped name (Err ErrDuplicatedTags))
     else if \<not> tag_color_matches (trim (at_color t)) then Some (Wrapped (at_color t) (Err ErrInvalidTagColor))
     else check_tags (name # seen) ts)"

definition validate_tags :: "asset_tag list \<Rightarrow> assets_error go_error option" where
  "validate_tags ts = (if length ts > max_tags then Some (Err ErrTooManyTags) else check_tags [] ts)"

definition normalize_tags :: "asset_tag list \<Rightarrow> asset_tag list" where
  "normalize_tags = map (\<lambda>t. \<lparr>at_name = to_lower (trim (at_name t)), at_color = to_lower (trim (at_color t))\<rparr>)"

definition asset_metadata_normalize :: "gomap \<Rightarrow> gomap" where
  "asset_metadata_normalize m = trim_metadata (sort_key fst m) []"

fun asset_metadata_validate :: "gomap \<Rightarrow> assets_error go_error option" where
  "asset_metadata_validate [] = None"
| "asset_metadata_validate ((k, v) # m) = (let key = trim k in
     if key = [] then Some (Err ErrInvalidAssetMetadata)
     else if length key > 128 then Some (Wrapped ''key exceeds max length'' (Err ErrInvalidAssetMetadata))
     else if length v > 2048 then Some (Wrapped ''value exceeds max length'' (Err ErrInvalidAssetMetadata))
     else asset_metadata_validate m)"

section \<open>Assets\<close>

definition asset_normalize :: "asset \<Rightarrow> asset" where
  "asset_normalize a = a\<lparr>as_id := trim (as_id a), as_key := trim (as_key a), as_name := trim (as_name a),
     as_original_name := trim (as_original_name a), as_folder_id := trim (as_folder_id a), as_mime_type := trim (as_mime_type a),
     as_tags := normalize_tags (as_tags a), as_metadata := asset_metadata_normalize (as_metadata a)\<rparr>"

definition asset_validate :: "asset \<Rightarrow> assets_error go_error option" where
  "asset_validate a = (if trim (as_key a) = [] then Some (Err ErrKeyRequired)
     else if trim (as_original_name a) = [] then Some (Err ErrOriginalNameRequired)
     else if trim (as_mime_type a) = [] then Some (Err ErrMimeTypeRequired)
     else if as_size a \<le> 0 then Some (Err ErrInvalidSize)
     else case validate_tags (as_tags a) of Some e \<Rightarrow> Some e | None \<Rightarrow> asset_metadata_validate (as_metadata a))"

section \<open>Folders\<close>

fun squeeze_dashes :: "string \<Rightarrow> string" where
  "squeeze_dashes (c # d # s) = (if c = CHR ''-'' \<and> d = CHR ''-'' then squeeze_dashes (d # s) else c # squeeze_dashes (d # s))"
| "squeeze_dashes s = s"

definition build_folder_slug :: "string \<Rightarrow> string" where
  "build_folder_slug name = trim_char CHR ''-'' (squeeze_dashes
     (map (\<lambda>c. if lower_alnum c \<or> c = CHR ''-'' then c else CHR ''-'') (to_lower (trim name))))"

definition folder_normalize :: "folder \<Rightarrow> folder" where
  "folder_normalize f = f\<lparr>fo_id := trim (fo_id f), fo_name := trim (fo_name f),
     fo_slug := (let s = trim (to_lower (fo_slug f)) in if s = [] then build_folder_slug (trim (fo_name f)) else s),
     fo_parent_id := trim (fo_parent_id f), fo_tags := normalize_tags (fo_tags f)\<rparr>"

definition folder_validate :: "folder \<Rightarrow> assets_error go_error option" where
  "folder_validate f = (if trim (fo_name f) = [] then Some (Err ErrFolderNameRequired)
     else if trim (fo_slug f) = [] then Some (Err ErrFolderSlugInvalid) else validate_tags (fo_tags f))"

section \<open>What validation guarantees\<close>

definition tag_ok :: "asset_tag \<Rightarrow> bool" where
  "tag_ok t \<longleftrightarrow> tag_name_matches (trim (at_name t)) \<and> tag_color_matches (trim (at_color t))"

lemma check_tags_iff: "check_tags seen ts = None \<longleftrightarrow> list_all tag_ok ts \<and> distinct (map (trim \<circ> at_name) ts)
    \<and> set (map (trim \<circ> at_name) ts) \<inter> set seen = {}"
  by (induction seen ts rule: check_tags.induct) (auto simp: Let_def tag_ok_def)

lemma validate_tags_iff: "validate_tags ts = None \<longleftrightarrow> length ts \<le> max_tags \<and> list_all tag_ok ts \<and> distinct (map (trim \<circ> at_name) ts)"
  by (simp add: validate_tags_def check_tags_iff)

definition asset_entry_ok :: "string \<times> string \<Rightarrow> bool" where
  "asset_entry_ok kv \<longleftrightarrow> trim (fst kv) \<noteq> [] \<and> length (trim (fst kv)) \<le> 128 \<and> length (snd kv) \<le> 2048"

lemma asset_metadata_validate_iff: "asset_metadata_validate m = None \<longleftrightarrow> list_all asset_entry_ok m"
  by (induction m rule: asset_metadata_validate.induct) (auto simp: Let_def asset_entry_ok_def)

end
