(* ===== verification/Assets_Store.thy ===== *)
theory Assets_Store
  imports Assets_Domain "HOL-Library.Product_Lexorder"
begin

text \<open>
  The assets repository (\<^verbatim>\<open>module/assets/adapter/store\<close>): the tables of assets, folders, their tags and the metadata
  of assets, and every operation.

  Rows of tags and metadata stand in the order of their generated keys. The unique indices cover soft-deleted rows;
  \<open>ad_dup_message\<close> is the text of the driver's error for a violated index, and \<open>ad_fault\<close> says which statements fail
  otherwise. Tags and metadata cannot violate theirs: the rows of an owner are deleted first, and names are unrepeated.
\<close>

record asset_row =
  ar_id :: string
  ar_key :: string
  ar_name :: string
  ar_original_name :: string
  ar_folder_id :: "string option"
  ar_mime_type :: string
  ar_size :: int
  ar_created_at :: gotime
  ar_updated_at :: gotime
  ar_deleted_at :: "gotime option"

record folder_row =
  fr_id :: string
  fr_name :: string
  fr_slug :: string
  fr_parent_id :: "string option"
  fr_created_at :: gotime
  fr_updated_at :: gotime
  fr_deleted_at :: "gotime option"

record owned_tag_row =
  ot_owner :: string
  ot_tag :: asset_tag

record asset_metadata_row =
  am_asset_id :: string
  am_key :: string
  am_value :: string

record assets_db =
  ad_assets :: "asset_row list"
  ad_folders :: "folder_row list"
  ad_asset_tags :: "owned_tag_row list"
  ad_folder_tags :: "owned_tag_row list"
  ad_metadata :: "asset_metadata_row list"
  ad_clock :: gotime
  ad_fault :: "string \<Rightarrow> bool"
  ad_dup_message :: "string \<Rightarrow> string"

type_synonym 'a assets_prog = "(assets_db, assets_error, 'a) prog"

definition asset_stmt :: "string \<Rightarrow> 'a assets_prog \<Rightarrow> 'a assets_prog" where
  "asset_stmt label m = (\<lambda>d. if ad_fault d label then (Inl (Wrapped label (Err AssetsDriverError)), d) else m d)"

definition live_asset :: "asset_row \<Rightarrow> bool" where
  "live_asset r \<longleftrightarrow> ar_deleted_at r = None"

definition live_folder :: "folder_row \<Rightarrow> bool" where
  "live_folder r \<longleftrightarrow> fr_deleted_at r = None"

section \<open>Mappers\<close>

definition optional_id :: "string \<Rightarrow> string option" where
  "optional_id s = (if s = [] then None else Some s)"

definition string_of_id :: "string option \<Rightarrow> string" where
  "string_of_id s = (case s of None \<Rightarrow> [] | Some x \<Rightarrow> x)"

definition asset_to_row :: "asset \<Rightarrow> assets_error go_error + asset_row" where
  "asset_to_row asset = (let a = asset_normalize asset in case asset_validate a of Some e \<Rightarrow> Inl e
     | None \<Rightarrow> Inr \<lparr>ar_id = as_id a, ar_key = as_key a, ar_name = as_name a, ar_original_name = as_original_name a,
         ar_folder_id = optional_id (as_folder_id a), ar_mime_type = as_mime_type a, ar_size = as_size a,
         ar_created_at = 0, ar_updated_at = 0, ar_deleted_at = None\<rparr>)"

definition asset_of_row :: "asset_row \<Rightarrow> asset_tag list \<Rightarrow> gomap \<Rightarrow> assets_error go_error + asset" where
  "asset_of_row r tags metadata = (let a = asset_normalize \<lparr>as_id = ar_id r, as_key = ar_key r, as_name = ar_name r,
       as_original_name = ar_original_name r, as_folder_id = string_of_id (ar_folder_id r), as_mime_type = ar_mime_type r,
       as_size = ar_size r, as_tags = tags, as_metadata = metadata, as_created_at = ar_created_at r, as_updated_at = ar_updated_at r,
       as_is_deleted = (ar_deleted_at r \<noteq> None), as_deleted_at = ar_deleted_at r\<rparr> in
     case asset_validate a of Some e \<Rightarrow> Inl e | None \<Rightarrow> Inr a)"

definition folder_to_row :: "folder \<Rightarrow> assets_error go_error + folder_row" where
  "folder_to_row folder = (let f = folder_normalize folder in case folder_validate f of Some e \<Rightarrow> Inl e
     | None \<Rightarrow> Inr \<lparr>fr_id = fo_id f, fr_name = fo_name f, fr_slug = fo_slug f, fr_parent_id = optional_id (fo_parent_id f),
         fr_created_at = 0, fr_updated_at = 0, fr_deleted_at = None\<rparr>)"

definition folder_of_row :: "folder_row \<Rightarrow> asset_tag list \<Rightarrow> assets_error go_error + folder" where
  "folder_of_row r tags = (let f = folder_normalize \<lparr>fo_id = fr_id r, fo_name = fr_name r, fo_slug = fr_slug r,
       fo_parent_id = string_of_id (fr_parent_id r), fo_tags = tags, fo_created_at = fr_created_at r, fo_updated_at = fr_updated_at r,
       fo_is_deleted = (fr_deleted_at r \<noteq> None), fo_deleted_at = fr_deleted_at r\<rparr> in
     case folder_validate f of Some e \<Rightarrow> Inl e | None \<Rightarrow> Inr f)"

text \<open>\<^verbatim>\<open>normalizeAndValidateTags\<close> trims, but does not lower the case of, tags before it validates them.\<close>

definition stored_tags :: "asset_tag list \<Rightarrow> assets_error go_error + asset_tag list" where
  "stored_tags tags = (let ts = map (\<lambda>t. \<lparr>at_name = trim (at_name t), at_color = trim (at_color t)\<rparr>) tags in
     case validate_tags ts of Some e \<Rightarrow> Inl e | None \<Rightarrow> Inr ts)"

definition stored_metadata :: "gomap \<Rightarrow> assets_error go_error + gomap" where
  "stored_metadata m = (let entries = trim_metadata m [] in
     if list_ex (\<lambda>(k, v). length k > 128 \<or> length v > 2048) entries then Inl (Err ErrInvalidAssetMetadata)
     else Inr (sort_key fst entries))"

section \<open>Relations\<close>

definition replace_asset_tags :: "string \<Rightarrow> asset_tag list \<Rightarrow> unit assets_prog" where
  "replace_asset_tags i tags = bindp (asset_stmt ''delete asset tags'' (modp (ad_asset_tags_update (filter (\<lambda>r. ot_owner r \<noteq> i))))) (\<lambda>_.
     bindp (fromp (stored_tags tags)) (\<lambda>ts. if ts = [] then ret () else asset_stmt ''create asset tags''
       (modp (ad_asset_tags_update (\<lambda>rs. rs @ map (\<lambda>t. \<lparr>ot_owner = trim i, ot_tag = t\<rparr>) ts)))))"

definition replace_folder_tags :: "string \<Rightarrow> asset_tag list \<Rightarrow> unit assets_prog" where
  "replace_folder_tags i tags = bindp (asset_stmt ''delete folder tags'' (modp (ad_folder_tags_update (filter (\<lambda>r. ot_owner r \<noteq> i))))) (\<lambda>_.
     bindp (fromp (stored_tags tags)) (\<lambda>ts. if ts = [] then ret () else asset_stmt ''create folder tags''
       (modp (ad_folder_tags_update (\<lambda>rs. rs @ map (\<lambda>t. \<lparr>ot_owner = trim i, ot_tag = t\<rparr>) ts)))))"

definition replace_asset_metadata :: "string \<Rightarrow> gomap \<Rightarrow> unit assets_prog" where
  "replace_asset_metadata i m = bindp (asset_stmt ''delete asset metadata'' (modp (ad_metadata_update (filter (\<lambda>r. am_asset_id r \<noteq> i))))) (\<lambda>_.
     bindp (fromp (stored_metadata m)) (\<lambda>entries. if entries = [] then ret () else asset_stmt ''create asset metadata''
       (modp (ad_metadata_update (\<lambda>rs. rs @ map (\<lambda>(k, v). \<lparr>am_asset_id = trim i, am_key = k, am_value = v\<rparr>) entries)))))"

definition tags_of :: "owned_tag_row list \<Rightarrow> string \<Rightarrow> asset_tag list" where
  "tags_of rs i = map ot_tag (filter (\<lambda>r. ot_owner r = i) rs)"

definition metadata_of_asset :: "asset_metadata_row list \<Rightarrow> string \<Rightarrow> gomap" where
  "metadata_of_asset rs i = fold (\<lambda>r. AList.update (am_key r) (am_value r)) (filter (\<lambda>r. am_asset_id r = i) rs) []"

definition load_asset_tags :: "string list \<Rightarrow> (string \<Rightarrow> asset_tag list) assets_prog" where
  "load_asset_tags ids = (if ids = [] then ret (\<lambda>_. []) else asset_stmt ''load asset tags''
     (getp (\<lambda>d i. if i \<in> set ids then tags_of (ad_asset_tags d) i else [])))"

definition load_folder_tags :: "string list \<Rightarrow> (string \<Rightarrow> asset_tag list) assets_prog" where
  "load_folder_tags ids = (if ids = [] then ret (\<lambda>_. []) else asset_stmt ''load folder tags''
     (getp (\<lambda>d i. if i \<in> set ids then tags_of (ad_folder_tags d) i else [])))"

definition load_asset_metadata :: "string list \<Rightarrow> (string \<Rightarrow> gomap) assets_prog" where
  "load_asset_metadata ids = (if ids = [] then ret (\<lambda>_. []) else asset_stmt ''load asset metadata''
     (getp (\<lambda>d i. if i \<in> set ids then metadata_of_asset (ad_metadata d) i else [])))"

section \<open>Assets\<close>

definition find_asset :: "string \<Rightarrow> string \<Rightarrow> asset_row assets_prog" where
  "find_asset label i = bindp (asset_stmt label (getp (\<lambda>d. find (\<lambda>r. live_asset r \<and> ar_id r = i) (ad_assets d)))) (\<lambda>found.
     case found of None \<Rightarrow> throw (Err PortAssetNotFound) | Some r \<Rightarrow> ret r)"

definition asset_by_id :: "string \<Rightarrow> asset assets_prog" where
  "asset_by_id i = bindp (find_asset ''get asset record'' (trim i)) (\<lambda>r. bindp (load_asset_tags [trim i]) (\<lambda>tags.
     bindp (load_asset_metadata [trim i]) (\<lambda>metadata. fromp (asset_of_row r (tags (trim i)) (metadata (trim i))))))"

definition violates_asset_index :: "asset_row \<Rightarrow> asset_row list \<Rightarrow> bool" where
  "violates_asset_index r rs \<longleftrightarrow> ar_id r \<in> ar_id ` set rs \<or> ar_key r \<in> ar_key ` set rs"

definition insert_asset :: "asset_row \<Rightarrow> unit assets_prog" where
  "insert_asset r = asset_stmt ''create asset record'' (\<lambda>d. if violates_asset_index r (ad_assets d)
     then (Inl (Wrapped ''create asset record'' (Err AssetsDriverError)), d)
     else (Inr (), d\<lparr>ad_assets := ad_assets d @ [r\<lparr>ar_created_at := ad_clock d, ar_updated_at := ad_clock d\<rparr>]\<rparr>))"

text \<open>\<^verbatim>\<open>Save\<close> writes every column of a row that was read in the same transaction.\<close>

definition save_asset :: "string \<Rightarrow> asset_row \<Rightarrow> unit assets_prog" where
  "save_asset label r = asset_stmt label (\<lambda>d. if violates_asset_index r (filter (\<lambda>x. ar_id x \<noteq> ar_id r) (ad_assets d))
     then (Inl (Wrapped label (Err AssetsDriverError)), d)
     else (Inr (), d\<lparr>ad_assets := map (\<lambda>x. if live_asset x \<and> ar_id x = ar_id r then r\<lparr>ar_updated_at := ad_clock d\<rparr> else x) (ad_assets d)\<rparr>))"

definition asset_create :: "asset \<Rightarrow> asset assets_prog" where
  "asset_create a = bindp (fromp (asset_to_row a)) (\<lambda>r.
     bindp (atomically (bindp (insert_asset r) (\<lambda>_. bindp (replace_asset_tags (ar_id r) (as_tags a)) (\<lambda>_.
       replace_asset_metadata (ar_id r) (as_metadata a))))) (\<lambda>_. asset_by_id (ar_id r)))"

record asset_query =
  aq_page :: int
  aq_limit :: int
  aq_filters :: string
  aq_parent_folder_id :: string

definition asset_page :: "int \<Rightarrow> int \<Rightarrow> int \<times> int" where
  "asset_page page limit = (if page \<le> 0 then 1 else page, let l = (if limit \<le> 0 then 10 else limit) in if l > 100 then 100 else l)"

definition filter_matches :: "string \<Rightarrow> string list \<Rightarrow> bool" where
  "filter_matches filters columns \<longleftrightarrow> (let t = trim filters in
     t = [] \<or> list_ex (\<lambda>c. sql_like (''%'' @ to_lower t @ ''%'') (to_lower c)) columns)"

definition page_of_rows :: "int \<Rightarrow> int \<Rightarrow> 'a list \<Rightarrow> 'a list" where
  "page_of_rows page limit rs = take (nat limit) (drop (nat (int64 ((page - 1) * limit))) rs)"

definition load_assets :: "asset_row list \<Rightarrow> asset list assets_prog" where
  "load_assets rows = bindp (load_asset_tags (map ar_id rows)) (\<lambda>tags. bindp (load_asset_metadata (map ar_id rows)) (\<lambda>metadata.
     fromp (mapM_sum (\<lambda>r. asset_of_row r (tags (ar_id r)) (metadata (ar_id r))) rows)))"

definition asset_list :: "asset_query \<Rightarrow> (asset list \<times> int \<times> int \<times> int) assets_prog" where
  "asset_list q = (case asset_page (aq_page q) (aq_limit q) of (page, limit) \<Rightarrow>
     let matching = (\<lambda>d. filter (\<lambda>r. live_asset r \<and> filter_matches (aq_filters q) [ar_name r, ar_original_name r, ar_mime_type r, ar_key r])
       (ad_assets d)) in
     bindp (asset_stmt ''count asset records'' (getp (\<lambda>d. int (length (matching d))))) (\<lambda>n.
     bindp (asset_stmt ''list asset records'' (getp (\<lambda>d. page_of_rows page limit (rev (sort_key ar_created_at (matching d)))))) (\<lambda>rows.
     bindp (load_assets rows) (\<lambda>data. ret (data, n, page, limit)))))"

definition folder_known :: "string \<Rightarrow> bool assets_prog" where
  "folder_known i = asset_stmt ''count folder record'' (getp (\<lambda>d. list_ex (\<lambda>r. live_folder r \<and> fr_id r = trim i) (ad_folders d)))"

record asset_patch =
  au_name :: "string option"
  au_folder_id :: "string option"
  au_tags :: "asset_tag list option"
  au_metadata :: "gomap option"

definition moved_asset :: "asset_patch \<Rightarrow> asset_row \<Rightarrow> asset_row assets_prog" where
  "moved_asset u r = (case au_folder_id u of None \<Rightarrow> ret r | Some f \<Rightarrow>
     if trim f = [] then ret (r\<lparr>ar_folder_id := None\<rparr>)
     else bindp (folder_known (trim f)) (\<lambda>known. if \<not> known then throw (Err PortFolderNotFound) else ret (r\<lparr>ar_folder_id := Some (trim f)\<rparr>)))"

definition asset_update :: "string \<Rightarrow> asset_patch \<Rightarrow> asset assets_prog" where
  "asset_update i u = bindp (atomically (bindp (find_asset ''get asset record for update'' (trim i)) (\<lambda>old.
     let r = (case au_name u of None \<Rightarrow> old | Some n \<Rightarrow> old\<lparr>ar_name := trim n\<rparr>) in
     bindp (moved_asset u r) (\<lambda>r.
     bindp (case au_tags u of None \<Rightarrow> ret () | Some ts \<Rightarrow> replace_asset_tags (trim i) ts) (\<lambda>_.
     bindp (case au_metadata u of None \<Rightarrow> ret () | Some m \<Rightarrow> replace_asset_metadata (trim i) m) (\<lambda>_.
     save_asset ''update asset record'' r)))))) (\<lambda>_. asset_by_id (trim i))"

record asset_binary =
  ab_key :: string
  ab_original_name :: string
  ab_mime_type :: string
  ab_size :: int

definition asset_update_binary :: "string \<Rightarrow> asset_binary \<Rightarrow> asset assets_prog" where
  "asset_update_binary i b = (if ab_size b \<le> 0 then throw (Err ErrInvalidSize)
     else if trim (ab_key b) = [] then throw (Err ErrKeyRequired)
     else if trim (ab_original_name b) = [] then throw (Err ErrOriginalNameRequired)
     else if trim (ab_mime_type b) = [] then throw (Err ErrMimeTypeRequired)
     else bindp (atomically (bindp (find_asset ''get asset record for binary update'' (trim i)) (\<lambda>r.
       save_asset ''update asset binary record'' (r\<lparr>ar_key := trim (ab_key b), ar_original_name := trim (ab_original_name b),
         ar_mime_type := trim (ab_mime_type b), ar_size := ab_size b\<rparr>)))) (\<lambda>_. asset_by_id (trim i)))"

definition asset_soft_delete :: "string \<Rightarrow> unit assets_prog" where
  "asset_soft_delete i = (let hit = (\<lambda>r. live_asset r \<and> ar_id r = trim i) in
     atomically (bindp (asset_stmt ''soft delete asset record'' (\<lambda>d. (Inr (list_ex hit (ad_assets d)),
         d\<lparr>ad_assets := map (\<lambda>r. if hit r then r\<lparr>ar_deleted_at := Some (ad_clock d)\<rparr> else r) (ad_assets d)\<rparr>))) (\<lambda>affected.
       if \<not> affected then throw (Err PortAssetNotFound)
       else bindp (asset_stmt ''delete asset tag records'' (modp (ad_asset_tags_update (filter (\<lambda>r. ot_owner r \<noteq> trim i))))) (\<lambda>_.
         asset_stmt ''delete asset metadata records'' (modp (ad_metadata_update (filter (\<lambda>r. am_asset_id r \<noteq> trim i))))))))"

section \<open>Tagged assets\<close>

text \<open>Lower-case trimmed names without empty ones and repetitions, in order of first occurrence.\<close>

fun lowered_names :: "string list \<Rightarrow> string list \<Rightarrow> string list" where
  "lowered_names seen [] = []"
| "lowered_names seen (x # xs) = (let t = to_lower (trim x) in
     if t = [] \<or> t \<in> set seen then lowered_names seen xs else t # lowered_names (t # seen) xs)"

definition normalize_tag_names :: "string list \<Rightarrow> string list" where
  "normalize_tag_names names = sort (lowered_names [] names)"

definition tag_list_limit :: "int \<Rightarrow> int" where
  "tag_list_limit limit = (let l = (if limit \<le> 0 then 100 else limit) in if l > 500 then 500 else l)"

fun unique_asset_ids :: "string list \<Rightarrow> string list \<Rightarrow> string list" where
  "unique_asset_ids seen [] = []"
| "unique_asset_ids seen (x # xs) = (let t = trim x in
     if t = [] \<or> t \<in> set seen then unique_asset_ids seen xs else t # unique_asset_ids (t # seen) xs)"

text \<open>SQL's \<^verbatim>\<open>TRIM\<close> removes spaces.\<close>

definition jpg_row :: "asset_row \<Rightarrow> bool" where
  "jpg_row r \<longleftrightarrow> to_lower (trim_char CHR '' '' (ar_mime_type r)) = ''image/jpeg'' \<and> sql_like ''%.jpg'' (to_lower (trim_char CHR '' '' (ar_key r)))
     \<and> sql_like ''%.jpg'' (to_lower (trim_char CHR '' '' (ar_original_name r)))"

definition assets_by_tag_names :: "string list \<Rightarrow> int \<Rightarrow> asset list assets_prog" where
  "assets_by_tag_names names limit = (let tags = normalize_tag_names names in
     if tags = [] then ret []
     else bindp (asset_stmt ''list tagged asset ids'' (getp (\<lambda>d. take (nat (tag_list_limit limit))
         (map ar_id (sort_key (\<lambda>r. (ar_updated_at r, ar_id r)) (filter (\<lambda>r. live_asset r \<and> \<not> jpg_row r
           \<and> list_ex (\<lambda>t. ot_owner t = ar_id r \<and> at_name (ot_tag t) \<in> set tags) (ad_asset_tags d)) (ad_assets d))))))) (\<lambda>ids.
       if ids = [] then ret [] else let unique = unique_asset_ids [] ids in
       bindp (asset_stmt ''list tagged asset records'' (getp (\<lambda>d. filter (\<lambda>r. live_asset r \<and> ar_id r \<in> set unique) (ad_assets d)))) (\<lambda>records.
       bindp (load_asset_tags unique) (\<lambda>tags. bindp (load_asset_metadata unique) (\<lambda>metadata.
         fromp (mapM_sum (\<lambda>r. asset_of_row r (tags (ar_id r)) (metadata (ar_id r)))
           (List.map_filter (\<lambda>i. find (\<lambda>r. ar_id r = i) records) unique)))))))"

end
