(* ===== verification/Assets_Folders.thy ===== *)
theory Assets_Folders
  imports Assets_Store
begin

text \<open>
  The folder operations of the repository (\<^verbatim>\<open>adapter/store/repository_folder.go\<close>, \<^verbatim>\<open>repository_folder_tree.go\<close>): the
  walk to the ancestors that guards against cycles, the collection of a subtree, and why both end.
\<close>

definition find_folder :: "string \<Rightarrow> folder_row list \<Rightarrow> folder_row option" where
  "find_folder i rs = find (\<lambda>r. live_folder r \<and> fr_id r = trim i) rs"

lemma find_folder_Some: "find_folder i rs = Some r \<Longrightarrow> r \<in> set rs \<and> live_folder r \<and> fr_id r = trim i"
  by (auto simp: find_folder_def find_Some_iff)

definition folder_by_id :: "string \<Rightarrow> folder assets_prog" where
  "folder_by_id i = bindp (asset_stmt ''get folder record'' (getp (\<lambda>d. find_folder i (ad_folders d)))) (\<lambda>found. case found of
     None \<Rightarrow> throw (Err PortAssetNotFound)
   | Some r \<Rightarrow> bindp (load_folder_tags [trim i]) (\<lambda>tags. fromp (folder_of_row r (tags (trim i)))))"

definition load_folders :: "folder_row list \<Rightarrow> folder list assets_prog" where
  "load_folders rows = bindp (load_folder_tags (map fr_id rows)) (\<lambda>tags. fromp (mapM_sum (\<lambda>r. folder_of_row r (tags (fr_id r))) rows))"

definition folder_list :: "asset_query \<Rightarrow> (folder list \<times> int \<times> int \<times> int) assets_prog" where
  "folder_list q = (case asset_page (aq_page q) (aq_limit q) of (page, limit) \<Rightarrow>
     let parent = trim (aq_parent_folder_id q);
       matching = (\<lambda>d. filter (\<lambda>r. live_folder r \<and> (parent = [] \<or> fr_parent_id r = Some parent)
         \<and> filter_matches (aq_filters q) [fr_name r, fr_slug r]) (ad_folders d)) in
     bindp (asset_stmt ''count folder records'' (getp (\<lambda>d. int (length (matching d))))) (\<lambda>n.
     bindp (asset_stmt ''list folder records'' (getp (\<lambda>d. page_of_rows page limit (rev (sort_key fr_created_at (matching d)))))) (\<lambda>rows.
     bindp (load_folders rows) (\<lambda>data. ret (data, n, page, limit)))))"

text \<open>Roots come first: MySQL sorts NULL before every value.\<close>

definition all_folders :: "folder list assets_prog" where
  "all_folders = bindp (asset_stmt ''list all folder records'' (getp (\<lambda>d. sort_key (\<lambda>r. (case fr_parent_id r of None \<Rightarrow> (0::nat, [])
     | Some p \<Rightarrow> (1, p), fr_name r, fr_id r)) (filter live_folder (ad_folders d))))) load_folders"

definition slug_taken :: "string option \<Rightarrow> string \<Rightarrow> string \<Rightarrow> bool assets_prog" where
  "slug_taken parent slug exclude = asset_stmt ''count folder slug in parent'' (getp (\<lambda>d. list_ex (\<lambda>r. live_folder r \<and> fr_slug r = trim slug
     \<and> fr_parent_id r = optional_id (trim (string_of_id parent)) \<and> (trim exclude = [] \<or> fr_id r \<noteq> trim exclude)) (ad_folders d)))"

definition folder_conflict_text :: "string \<Rightarrow> bool" where
  "folder_conflict_text message \<longleftrightarrow> (let m = to_lower message in contains m ''duplicate'' \<or> contains m ''unique constraint'')"

text \<open>A NULL parent equals nothing in an index.\<close>

definition violated_folder_index :: "folder_row \<Rightarrow> folder_row list \<Rightarrow> string option" where
  "violated_folder_index r rs = (if fr_id r \<in> fr_id ` set rs then Some ''PRIMARY''
     else if fr_parent_id r \<noteq> None \<and> (fr_parent_id r, fr_slug r) \<in> (\<lambda>x. (fr_parent_id x, fr_slug x)) ` set rs
     then Some ''idx_asset_folders_parent_slug'' else None)"

definition folder_write_error :: "string \<Rightarrow> string \<Rightarrow> assets_error go_error" where
  "folder_write_error label message = (if folder_conflict_text message then Err PortFolderAlreadyExists else Wrapped label (Err AssetsDriverError))"

text \<open>A statement that writes a row fails with the driver's error for the index it violates, or with another one.\<close>

definition write_folder :: "string \<Rightarrow> folder_row \<Rightarrow> (assets_db \<Rightarrow> folder_row list) \<Rightarrow> (assets_db \<Rightarrow> assets_db) \<Rightarrow> unit assets_prog" where
  "write_folder label r others change = asset_stmt label (\<lambda>d. case violated_folder_index r (others d) of
     Some index \<Rightarrow> (Inl (folder_write_error label (ad_dup_message d index)), d) | None \<Rightarrow> (Inr (), change d))"

definition insert_folder :: "folder_row \<Rightarrow> unit assets_prog" where
  "insert_folder r = write_folder ''create folder record'' r ad_folders
     (\<lambda>d. d\<lparr>ad_folders := ad_folders d @ [r\<lparr>fr_created_at := ad_clock d, fr_updated_at := ad_clock d\<rparr>]\<rparr>)"

definition save_folder :: "folder_row \<Rightarrow> unit assets_prog" where
  "save_folder r = write_folder ''update folder record'' r (\<lambda>d. filter (\<lambda>x. fr_id x \<noteq> fr_id r) (ad_folders d))
     (\<lambda>d. d\<lparr>ad_folders := map (\<lambda>x. if live_folder x \<and> fr_id x = fr_id r then r\<lparr>fr_updated_at := ad_clock d\<rparr> else x) (ad_folders d)\<rparr>)"

definition folder_create :: "folder \<Rightarrow> folder assets_prog" where
  "folder_create f = bindp (fromp (folder_to_row f)) (\<lambda>r.
     bindp (case fr_parent_id r of None \<Rightarrow> ret () | Some p \<Rightarrow> bindp (folder_known p) (\<lambda>known. if known then ret () else throw (Err PortFolderNotFound))) (\<lambda>_.
     bindp (atomically (bindp (slug_taken (fr_parent_id r) (fr_slug r) []) (\<lambda>taken. if taken then throw (Err PortFolderAlreadyExists)
       else bindp (insert_folder r) (\<lambda>_. replace_folder_tags (fr_id r) (fo_tags f))))) (\<lambda>_. folder_by_id (fr_id r))))"

section \<open>The walk to the ancestors\<close>

text \<open>The first flag says that the statement which loads an ancestor fails.\<close>

function parent_walk :: "bool \<Rightarrow> folder_row list \<Rightarrow> string \<Rightarrow> string list \<Rightarrow> string \<Rightarrow> assets_error go_error option" where
  "parent_walk fault rs target visited current = (if current = [] then None
     else if current = target then Some (Err ErrFolderParentCycle)
     else if current \<in> set visited then Some (Err ErrFolderParentCycle)
     else if fault then Some (Wrapped ''load parent folder record'' (Err AssetsDriverError))
     else case find_folder current rs of None \<Rightarrow> Some (Err PortFolderNotFound)
       | Some r \<Rightarrow> (case fr_parent_id r of None \<Rightarrow> None | Some p \<Rightarrow> parent_walk fault rs target (current # visited) (trim p)))"
  by pat_completeness auto

text \<open>Every round visits one more value of the finitely many whose trimmed form is the identifier of a row, since a
  visited value other than the first one is trimmed: the values left are trimmed identifiers.\<close>

definition unvisited :: "string list \<Rightarrow> string list \<Rightarrow> string \<Rightarrow> nat" where
  "unvisited ids visited current = card (set ids - set visited) + (if trim current = current then 0 else 1 + length ids)"

lemma unvisited_less:
  assumes "current \<notin> set visited" "trim current \<in> set ids"
  shows "unvisited ids (current # visited) (trim p) < unvisited ids visited current"
proof (cases "trim current = current")
  case True
  then have "set ids - set (current # visited) \<subset> set ids - set visited" using assms by auto
  then have "card (set ids - set (current # visited)) < card (set ids - set visited)" by (intro psubset_card_mono) auto
  then show ?thesis using True by (simp add: unvisited_def)
next
  case False
  have "card (set ids - set (current # visited)) \<le> card (set ids)" by (intro card_mono) auto
  also have "\<dots> \<le> length ids" by (rule card_length)
  finally show ?thesis using False by (simp add: unvisited_def)
qed

termination parent_walk
proof (relation "measure (\<lambda>(fault, rs, target, visited, current). unvisited (map fr_id rs) visited current)", goal_cases)
  case (2 fault rs target visited current r p)
  then have "trim current \<in> set (map fr_id rs)" by (metis find_folder_Some image_eqI set_map)
  then show ?case using 2(3) by (simp only: in_measure prod.case) (rule unvisited_less)
qed simp

declare parent_walk.simps [simp del]

definition check_no_cycle :: "string \<Rightarrow> string \<Rightarrow> unit assets_prog" where
  "check_no_cycle target parent = (\<lambda>d. case parent_walk (ad_fault d ''load parent folder record'') (ad_folders d) (trim target) [] (trim parent) of
     None \<Rightarrow> (Inr (), d) | Some e \<Rightarrow> (Inl e, d))"

record folder_patch =
  fu_name :: "string option"
  fu_parent_id :: "string option"
  fu_tags :: "asset_tag list option"

definition renamed_folder :: "folder_patch \<Rightarrow> folder_row \<Rightarrow> folder_row" where
  "renamed_folder u r = (case fu_name u of None \<Rightarrow> r | Some n \<Rightarrow> r\<lparr>fr_name := trim n, fr_slug := build_folder_slug (trim n)\<rparr>)"

definition moved_folder :: "string \<Rightarrow> folder_patch \<Rightarrow> folder_row \<Rightarrow> folder_row assets_prog" where
  "moved_folder i u r = (case fu_parent_id u of None \<Rightarrow> ret r | Some parent \<Rightarrow> let p = trim parent in
     if p = [] then ret (r\<lparr>fr_parent_id := None\<rparr>)
     else if p = i then throw (Err ErrFolderParentSelfReference)
     else bindp (\<lambda>d. if ad_fault d ''get folder record by id'' then (Inl (Err AssetsDriverError), d) else (Inr (find_folder p (ad_folders d)), d)) (\<lambda>found.
       case found of None \<Rightarrow> throw (Err PortFolderNotFound)
       | Some x \<Rightarrow> bindp (check_no_cycle i (fr_id x)) (\<lambda>_. ret (r\<lparr>fr_parent_id := Some (fr_id x)\<rparr>))))"

definition folder_update :: "string \<Rightarrow> folder_patch \<Rightarrow> folder assets_prog" where
  "folder_update i u = bindp (atomically (bindp (asset_stmt ''get folder record for update'' (getp (\<lambda>d. find_folder i (ad_folders d)))) (\<lambda>found.
     case found of None \<Rightarrow> throw (Err PortAssetNotFound) | Some old \<Rightarrow>
       bindp (moved_folder (trim i) u (renamed_folder u old)) (\<lambda>r.
       bindp (case fu_tags u of None \<Rightarrow> ret () | Some ts \<Rightarrow> replace_folder_tags (trim i) ts) (\<lambda>_.
       bindp (slug_taken (fr_parent_id r) (fr_slug r) (trim i)) (\<lambda>taken. if taken then throw (Err PortFolderAlreadyExists)
         else save_folder r)))))) (\<lambda>_. folder_by_id (trim i))"

section \<open>Collecting a subtree\<close>

fun fresh_children :: "string list \<Rightarrow> string list \<Rightarrow> string list" where
  "fresh_children seen [] = []"
| "fresh_children seen (c # cs) = (let t = trim c in
     if t = [] \<or> t \<in> set seen then fresh_children seen cs else t # fresh_children (t # seen) cs)"

lemma fresh_children_set: "set (fresh_children seen cs) = {t \<in> trim ` set cs. t \<noteq> []} - set seen"
  by (induction seen cs rule: fresh_children.induct) (auto simp: Let_def)

definition folder_children :: "folder_row list \<Rightarrow> string list \<Rightarrow> string list" where
  "folder_children rs frontier = map fr_id (filter (\<lambda>r. live_folder r \<and> (\<exists>p \<in> set frontier. fr_parent_id r = Some p)) rs)"

text \<open>The identifiers collected so far are the ones seen.\<close>

function collect_subtree :: "folder_row list \<Rightarrow> string list \<Rightarrow> string list \<Rightarrow> string list" where
  "collect_subtree rs ids frontier = (if frontier = [] then ids
     else let level = fresh_children ids (folder_children rs frontier) in collect_subtree rs (ids @ level) level)"
  by pat_completeness auto

termination
proof (relation "measures [\<lambda>(rs, ids, frontier). card (trim ` fr_id ` set rs - set ids), \<lambda>(rs, ids, frontier). length frontier]", goal_cases)
  case (2 rs ids frontier level)
  show ?case
  proof (cases "level = []")
    case False
    have "set level \<subseteq> trim ` fr_id ` set rs - set ids" using 2(2) by (auto simp: fresh_children_set folder_children_def)
    with False have "trim ` fr_id ` set rs - set (ids @ level) \<subset> trim ` fr_id ` set rs - set ids" by (cases level) auto
    then show ?thesis by (simp add: psubset_card_mono)
  qed (use 2 in simp)
qed simp

declare collect_subtree.simps [simp del]

definition folder_soft_delete :: "string \<Rightarrow> unit assets_prog" where
  "folder_soft_delete i = atomically (bindp (asset_stmt ''load folder record for delete'' (getp (\<lambda>d. find_folder (trim i) (ad_folders d)))) (\<lambda>found.
     case found of None \<Rightarrow> throw (Err PortAssetNotFound) | Some x \<Rightarrow>
       bindp (asset_stmt ''load child folder records'' (getp (\<lambda>d. collect_subtree (ad_folders d) [fr_id x] [fr_id x]))) (\<lambda>ids.
       let hit = (\<lambda>r. live_folder r \<and> fr_id r \<in> set ids) in
       bindp (asset_stmt ''soft delete folder record'' (\<lambda>d. (Inr (list_ex hit (ad_folders d)),
         d\<lparr>ad_folders := map (\<lambda>r. if hit r then r\<lparr>fr_deleted_at := Some (ad_clock d)\<rparr> else r) (ad_folders d)\<rparr>))) (\<lambda>affected.
       if \<not> affected then throw (Err PortAssetNotFound)
       else bindp (asset_stmt ''detach assets from folder'' (modp (\<lambda>d. d\<lparr>ad_assets := map (\<lambda>r.
           if live_asset r \<and> (\<exists>f \<in> set ids. ar_folder_id r = Some f) then r\<lparr>ar_folder_id := None, ar_updated_at := ad_clock d\<rparr> else r) (ad_assets d)\<rparr>))) (\<lambda>_.
         asset_stmt ''delete folder tags'' (modp (ad_folder_tags_update (filter (\<lambda>r. ot_owner r \<notin> set ids)))))))))"

end
