(* ===== verification/Assets_Service.thy ===== *)
theory Assets_Service
  imports Assets_Folders Go_Assertions
begin

text \<open>
  The use cases of \<^verbatim>\<open>module/assets/application\<close>: uploads, updates, folders and the conversion to JPG.

  The world holds the tables, the objects of the storage with their content type, which calls of the storage fail,
  the events the transport took and refuses, and the streams of identifiers. The conversion of an image is a
  parameter: \<open>None\<close> when the bytes are no image or cannot be encoded.
\<close>

datatype asset_payload = AssetPayload asset | FolderPayload folder

record asset_event =
  av_id :: string
  av_topic :: string
  av_schema_version :: string
  av_occurred_at :: gotime
  av_payload :: asset_payload
  av_metadata :: gomap

datatype storage_call = UploadCall | DownloadCall | DeleteCall

record assets_world =
  aw_db :: assets_db
  aw_objects :: "string \<rightharpoonup> string \<times> string"
  aw_available :: bool
  aw_storage_fails :: "storage_call \<Rightarrow> string \<Rightarrow> bool"
  aw_events :: "asset_event list"
  aw_refuses :: "asset_event \<Rightarrow> bool"
  aw_event_ids :: "nat \<Rightarrow> string"
  aw_uuids :: "nat \<Rightarrow> string"
  aw_drawn :: nat

type_synonym 'a assets_call_prog = "(assets_world, assets_error, 'a) prog"

definition put_assets :: "assets_db \<Rightarrow> assets_world \<Rightarrow> assets_world" where
  "put_assets d w = w\<lparr>aw_db := d\<rparr>"

abbreviation on_assets :: "'a assets_prog \<Rightarrow> 'a assets_call_prog" where
  "on_assets \<equiv> through aw_db put_assets"

section \<open>Storage and events\<close>

definition ensure_storage :: "unit assets_call_prog" where
  "ensure_storage = bindp (getp aw_available) (\<lambda>ok. if ok then ret () else throw (Wrapped ''storage integration'' (Err ErrStorageUnavailable)))"

definition upload_object :: "string \<Rightarrow> string \<Rightarrow> string \<Rightarrow> unit assets_call_prog" where
  "upload_object key content_type body = (\<lambda>w. if aw_storage_fails w UploadCall key then (Inl (Err AssetsStorageError), w)
     else (Inr (), w\<lparr>aw_objects := (aw_objects w)(key \<mapsto> (content_type, body))\<rparr>))"

definition download_object :: "string \<Rightarrow> string assets_call_prog" where
  "download_object key = (\<lambda>w. if aw_storage_fails w DownloadCall key then (Inl (Err AssetsStorageError), w)
     else (case aw_objects w key of None \<Rightarrow> (Inl (Err AssetsStorageError), w) | Some (_, body) \<Rightarrow> (Inr body, w)))"

definition delete_object :: "string \<Rightarrow> unit assets_call_prog" where
  "delete_object key = (\<lambda>w. if aw_storage_fails w DeleteCall key then (Inl (Err AssetsStorageError), w)
     else (Inr (), w\<lparr>aw_objects := (aw_objects w)(key := None)\<rparr>))"

definition draw_asset_id :: "string assets_call_prog" where
  "draw_asset_id = drawp (\<lambda>w. (aw_uuids w (aw_drawn w), w\<lparr>aw_drawn := Suc (aw_drawn w)\<rparr>))"

definition asset_event_payload :: "bool \<Rightarrow> asset \<Rightarrow> asset_payload" where
  "asset_event_payload removed a = AssetPayload (a\<lparr>as_id := trim (as_id a), as_key := trim (as_key a), as_name := trim (as_name a),
     as_original_name := trim (as_original_name a), as_folder_id := trim (as_folder_id a), as_mime_type := trim (as_mime_type a),
     as_is_deleted := removed \<or> as_is_deleted a\<rparr>)"

definition folder_event_payload :: "bool \<Rightarrow> folder \<Rightarrow> asset_payload" where
  "folder_event_payload removed f = FolderPayload (f\<lparr>fo_id := trim (fo_id f), fo_name := trim (fo_name f), fo_slug := trim (fo_slug f),
     fo_parent_id := trim (fo_parent_id f), fo_is_deleted := removed \<or> fo_is_deleted f\<rparr>)"

definition publish_payload :: "string \<Rightarrow> string \<Rightarrow> asset_payload \<Rightarrow> unit assets_call_prog" where
  "publish_payload topic aggregate payload = bindp (drawp (\<lambda>w. (aw_event_ids w (aw_drawn w), w\<lparr>aw_drawn := Suc (aw_drawn w)\<rparr>))) (\<lambda>i.
     bindp (getp (\<lambda>w. \<lparr>av_id = i, av_topic = topic, av_schema_version = ''v1'',
     av_occurred_at = ad_clock (aw_db w), av_payload = payload, av_metadata = [(''aggregate_id'', trim aggregate)]\<rparr>)) (\<lambda>e.
     bindp (getp (\<lambda>w. aw_refuses w e)) (\<lambda>refused. if refused then throw (Err AssetsTransportError)
       else modp (\<lambda>w. w\<lparr>aw_events := aw_events w @ [e]\<rparr>))))"

definition publish_asset :: "string \<Rightarrow> asset \<Rightarrow> unit assets_call_prog" where
  "publish_asset topic a = publish_payload topic (as_id a) (asset_event_payload (topic = ''assets.v1.deleted'') a)"

definition publish_folder :: "string \<Rightarrow> folder \<Rightarrow> unit assets_call_prog" where
  "publish_folder topic f = publish_payload topic (fo_id f) (folder_event_payload (topic = ''asset_folders.v1.deleted'') f)"

section \<open>Assets\<close>

definition max_upload_bytes :: int where
  "max_upload_bytes = 10 * 1024 * 1024"

record create_asset_command =
  ka_name :: string
  ka_original_name :: string
  ka_folder_id :: string
  ka_mime_type :: string
  ka_size :: int
  ka_body :: string
  ka_tags :: "asset_tag list"
  ka_metadata :: gomap

definition build_storage_key :: "string \<Rightarrow> string \<Rightarrow> string" where
  "build_storage_key i original_name = (let b = map (\<lambda>c. if c = CHR '' '' then CHR ''-'' else c) (path_base (trim original_name)) in
     ''assets/'' @ trim i @ ''-'' @ (if b = [] \<or> b = ''.'' \<or> b = ''/'' then ''file'' else b))"

definition require_folder :: "string \<Rightarrow> unit assets_call_prog" where
  "require_folder f = (if f = [] then ret () else bindp (wrap_err ''check asset folder exists'' (on_assets (folder_known f))) (\<lambda>known.
     if known then ret () else throw (Err PortFolderNotFound)))"

definition new_asset :: "create_asset_command \<Rightarrow> string \<Rightarrow> asset" where
  "new_asset c i = asset_normalize \<lparr>as_id = i, as_key = build_storage_key i (ka_original_name c),
     as_name = (if trim (ka_name c) = [] then trim (ka_original_name c) else trim (ka_name c)), as_original_name = trim (ka_original_name c),
     as_folder_id = trim (ka_folder_id c), as_mime_type = trim (ka_mime_type c),
     as_size = (if ka_size c \<le> 0 then int (length (ka_body c)) else ka_size c), as_tags = ka_tags c, as_metadata = ka_metadata c,
     as_created_at = 0, as_updated_at = 0, as_is_deleted = False, as_deleted_at = None\<rparr>"

definition fail_with :: "assets_error go_error option \<Rightarrow> unit assets_call_prog" where
  "fail_with e = (case e of None \<Rightarrow> ret () | Some e \<Rightarrow> throw e)"

text \<open>The metadata is stored after the object; when that fails, the object is deleted again.\<close>

definition store_asset :: "asset \<Rightarrow> asset assets_call_prog" where
  "store_asset a = bindp (tryp (on_assets (asset_create a))) (\<lambda>r. case r of Inr saved \<Rightarrow> ret saved
     | Inl e \<Rightarrow> bindp (tryp (delete_object (as_key a))) (\<lambda>_. throw (Wrapped ''create asset metadata'' e)))"

definition create_asset :: "create_asset_command \<Rightarrow> asset assets_call_prog" where
  "create_asset c = bindp ensure_storage (\<lambda>_. if ka_body c = [] then throw (Err ErrFileRequired)
     else if (if ka_size c \<le> 0 then int (length (ka_body c)) else ka_size c) > max_upload_bytes then throw (Err ErrFileTooLarge)
     else bindp (require_folder (trim (ka_folder_id c))) (\<lambda>_. bindp draw_asset_id (\<lambda>i. let a = new_asset c i in
     bindp (fail_with (asset_validate a)) (\<lambda>_.
     bindp (wrap_err ''upload asset object'' (upload_object (as_key a) (as_mime_type a) (ka_body c))) (\<lambda>_.
     bindp (store_asset a) (\<lambda>saved.
     bindp (wrap_err ''publish asset created event'' (publish_asset ''assets.v1.created'' saved)) (\<lambda>_. ret saved)))))))"

definition get_asset :: "string \<Rightarrow> asset assets_call_prog" where
  "get_asset i = (if trim i = [] then throw (Err ErrInvalidAssetID) else wrap_err ''get asset'' (on_assets (asset_by_id (trim i))))"

definition list_assets :: "asset_query \<Rightarrow> (asset list \<times> int \<times> int \<times> int) assets_call_prog" where
  "list_assets q = wrap_err ''list assets'' (on_assets (asset_list (q\<lparr>aq_filters := trim (aq_filters q),
     aq_parent_folder_id := trim (aq_parent_folder_id q)\<rparr>)))"

definition update_asset :: "string \<Rightarrow> asset_patch \<Rightarrow> asset assets_call_prog" where
  "update_asset i u = (if trim i = [] then throw (Err ErrInvalidAssetID)
     else if (case au_name u of None \<Rightarrow> False | Some n \<Rightarrow> trim n = []) then throw (Err ErrInvalidAssetName)
     else bindp (case au_folder_id u of None \<Rightarrow> ret () | Some f \<Rightarrow> require_folder (trim f)) (\<lambda>_.
     bindp (wrap_err ''update asset'' (on_assets (asset_update (trim i) u))) (\<lambda>a.
     bindp (wrap_err ''publish asset updated event'' (publish_asset ''assets.v1.updated'' a)) (\<lambda>_. ret a))))"

definition update_asset_name :: "string \<Rightarrow> string \<Rightarrow> asset assets_call_prog" where
  "update_asset_name i name = (if trim name = [] then throw (Err ErrInvalidAssetName)
     else update_asset i \<lparr>au_name = Some (trim name), au_folder_id = None, au_tags = None, au_metadata = None\<rparr>)"

definition delete_asset :: "string \<Rightarrow> unit assets_call_prog" where
  "delete_asset i = (if trim i = [] then throw (Err ErrInvalidAssetID)
     else bindp (wrap_err ''load asset for delete'' (on_assets (asset_by_id (trim i)))) (\<lambda>a.
     bindp (wrap_err ''soft delete asset metadata'' (on_assets (asset_soft_delete (trim i)))) (\<lambda>_.
     wrap_err ''publish asset deleted event'' (publish_asset ''assets.v1.deleted'' a))))"

definition asset_exists :: "string \<Rightarrow> bool assets_call_prog" where
  "asset_exists i = (if trim i = [] then throw (Err ErrInvalidAssetID)
     else bindp (tryp (on_assets (asset_by_id (trim i)))) (\<lambda>r. case r of Inr _ \<Rightarrow> ret True
       | Inl e \<Rightarrow> if errors_is e PortAssetNotFound then ret False else throw (Wrapped ''check asset exists'' e)))"

section \<open>Conversion to JPG\<close>

record jpg_result =
  jr_scanned :: int
  jr_converted :: int
  jr_skipped :: int
  jr_failed :: int

definition path_ext :: "string \<Rightarrow> string" where
  "path_ext s = (let e = takeWhile (\<lambda>c. c \<noteq> CHR ''/'') (rev s) in
     if CHR ''.'' \<in> set e then CHR ''.'' # rev (takeWhile (\<lambda>c. c \<noteq> CHR ''.'') e) else [])"

definition is_jpg_asset :: "asset \<Rightarrow> bool" where
  "is_jpg_asset a \<longleftrightarrow> equal_fold (trim (as_mime_type a)) ''image/jpeg'' \<and> equal_fold (path_ext (trim (as_key a))) ''.jpg''
     \<and> equal_fold (path_ext (trim (as_original_name a))) ''.jpg''"

definition with_jpg_extension :: "string \<Rightarrow> string" where
  "with_jpg_extension v = (let t = trim v in if t = [] then [] else take (length t - length (path_ext t)) t @ ''.jpg'')"

definition jpeg_quality :: "int \<Rightarrow> int" where
  "jpeg_quality q = (if q < 1 \<or> q > 100 then 90 else q)"

text \<open>After the upload of the new object the row is switched to it; then the old object is deleted. A failure undoes
  the steps before it as far as the calls succeed.\<close>

definition switch_object :: "asset \<Rightarrow> asset_binary \<Rightarrow> asset assets_call_prog" where
  "switch_object old new = bindp (tryp (on_assets (asset_update_binary (as_id old) new))) (\<lambda>r. case r of
     Inl e \<Rightarrow> bindp (if ab_key new \<noteq> as_key old then tryp (delete_object (ab_key new)) else ret (Inr ())) (\<lambda>_.
       throw (Wrapped ''update asset jpg metadata'' e))
   | Inr updated \<Rightarrow> if ab_key new = as_key old then ret updated
     else bindp (tryp (delete_object (as_key old))) (\<lambda>deleted. case deleted of Inr _ \<Rightarrow> ret updated
       | Inl e \<Rightarrow> bindp (tryp (on_assets (asset_update_binary (as_id old) \<lparr>ab_key = as_key old, ab_original_name = as_original_name old,
             ab_mime_type = as_mime_type old, ab_size = as_size old\<rparr>))) (\<lambda>undone. case undone of
           Inl _ \<Rightarrow> throw (Wrapped ''delete old asset object'' e)
         | Inr _ \<Rightarrow> bindp (tryp (delete_object (ab_key new))) (\<lambda>_. throw (Wrapped ''delete old asset object'' e)))))"

definition convert_asset :: "(string \<Rightarrow> int \<Rightarrow> string option) \<Rightarrow> int \<Rightarrow> asset \<Rightarrow> bool assets_call_prog" where
  "convert_asset to_jpg quality a = bindp (wrap_err ''load asset for jpg worker'' (on_assets (asset_by_id (as_id a)))) (\<lambda>current.
     if is_jpg_asset current then ret False
     else bindp (wrap_err ''download source asset object'' (download_object (as_key current))) (\<lambda>source.
     case to_jpg source quality of None \<Rightarrow> throw (Err AssetsImageError)
     | Some body \<Rightarrow> let key = with_jpg_extension (as_key current);
         name = (let n = with_jpg_extension (as_original_name current) in if trim n = [] then trim (as_id current) @ ''.jpg'' else n) in
       if trim key = [] then throw (Wrapped ''resolve jpg storage key'' (Err ErrKeyRequired))
       else bindp (wrap_err ''upload jpg asset object'' (upload_object key ''image/jpeg'' body)) (\<lambda>_.
         bindp (switch_object current \<lparr>ab_key = key, ab_original_name = name, ab_mime_type = ''image/jpeg'', ab_size = int (length body)\<rparr>) (\<lambda>updated.
         bindp (wrap_err ''publish asset updated event'' (publish_asset ''assets.v1.updated'' updated)) (\<lambda>_. ret True)))))"

text \<open>The context may be cancelled before any asset of the batch: \<open>cancelled k\<close> with \<open>k\<close> assets to go.\<close>

fun convert_assets :: "(string \<Rightarrow> int \<Rightarrow> string option) \<Rightarrow> (nat \<Rightarrow> bool) \<Rightarrow> int \<Rightarrow> asset list \<Rightarrow> jpg_result \<Rightarrow> (jpg_result \<times> bool) assets_call_prog" where
  "convert_assets to_jpg cancelled quality [] r = ret (r, False)"
| "convert_assets to_jpg cancelled quality (a # as) r = (if cancelled (length (a # as)) then ret (r, True)
     else bindp (tryp (convert_asset to_jpg quality a)) (\<lambda>done. convert_assets to_jpg cancelled quality as (case done of
       Inl _ \<Rightarrow> r\<lparr>jr_failed := jr_failed r + 1\<rparr> | Inr True \<Rightarrow> r\<lparr>jr_converted := jr_converted r + 1\<rparr>
     | Inr False \<Rightarrow> r\<lparr>jr_skipped := jr_skipped r + 1\<rparr>)))"

text \<open>The result comes with the flag that the context was cancelled.\<close>

definition run_jpg_worker :: "(string \<Rightarrow> int \<Rightarrow> string option) \<Rightarrow> (nat \<Rightarrow> bool) \<Rightarrow> string list \<Rightarrow> int \<Rightarrow> int \<Rightarrow> (jpg_result \<times> bool) assets_call_prog" where
  "run_jpg_worker to_jpg cancelled tags batch quality = bindp ensure_storage (\<lambda>_. let names = lowered_names [] tags in
     if names = [] then throw (Err ErrJPGWorkerTagsRequired)
     else bindp (wrap_err ''list jpg worker assets'' (on_assets (assets_by_tag_names names batch))) (\<lambda>as.
       convert_assets to_jpg cancelled (jpeg_quality quality) as \<lparr>jr_scanned = int (length as), jr_converted = 0, jr_skipped = 0, jr_failed = 0\<rparr>))"

section \<open>Folders\<close>

lemma folder_by_id_known: "fst (folder_by_id i d) = Inr f \<Longrightarrow> trim i \<in> set (map fr_id (ad_folders d))"
  by (auto simp: folder_by_id_def asset_stmt_def load_folder_tags_def prog_simps dest!: find_folder_Some
      intro: rev_image_eqI split: if_splits option.splits)

function ancestor_walk :: "assets_db \<Rightarrow> string \<Rightarrow> string list \<Rightarrow> string \<Rightarrow> assets_error go_error option" where
  "ancestor_walk d target visited current = (if current = [] then None
     else if current \<in> set visited \<or> target \<noteq> [] \<and> current = target then Some (Err ErrInvalidFolderParent)
     else case fst (folder_by_id current d) of
       Inl e \<Rightarrow> Some (if errors_is e PortAssetNotFound \<or> errors_is e PortFolderNotFound then Err PortFolderNotFound
         else Wrapped ''load ancestor asset folder'' e)
     | Inr f \<Rightarrow> ancestor_walk d target (current # visited) (trim (fo_parent_id f)))"
  by pat_completeness auto

termination
proof (relation "measure (\<lambda>(d, target, visited, current). unvisited (map fr_id (ad_folders d)) visited current)", goal_cases)
  case (2 d target visited current f)
  then show ?case using folder_by_id_known[OF 2(3)] by (simp only: in_measure prod.case) (intro unvisited_less, auto)
qed simp

declare ancestor_walk.simps [simp del]

definition check_folder_parent :: "string \<Rightarrow> string \<Rightarrow> unit assets_prog" where
  "check_folder_parent i parent = (\<lambda>d. let target = trim i; p = trim parent in
     if p = [] then (Inr (), d)
     else if target \<noteq> [] \<and> p = target then (Inl (Err ErrInvalidFolderParent), d)
     else (case fst (folder_by_id p d) of
       Inl e \<Rightarrow> (Inl (if errors_is e PortAssetNotFound \<or> errors_is e PortFolderNotFound then Err PortFolderNotFound
         else Wrapped ''load parent asset folder'' e), d)
     | Inr f \<Rightarrow> (case ancestor_walk d target [] (trim (fo_parent_id f)) of None \<Rightarrow> (Inr (), d) | Some e \<Rightarrow> (Inl e, d))))"

record create_folder_command =
  kf_name :: string
  kf_parent_id :: string
  kf_tags :: "asset_tag list"

definition new_folder :: "create_folder_command \<Rightarrow> string \<Rightarrow> folder" where
  "new_folder c i = folder_normalize \<lparr>fo_id = i, fo_name = trim (kf_name c), fo_slug = [], fo_parent_id = trim (kf_parent_id c), fo_tags = kf_tags c,
     fo_created_at = 0, fo_updated_at = 0, fo_is_deleted = False, fo_deleted_at = None\<rparr>"

definition create_folder :: "create_folder_command \<Rightarrow> folder assets_call_prog" where
  "create_folder c = bindp draw_asset_id (\<lambda>i.
     bindp (if trim (kf_parent_id c) = [] then ret () else on_assets (check_folder_parent i (trim (kf_parent_id c)))) (\<lambda>_. let f = new_folder c i in
     bindp (fail_with (case folder_validate f of Some (Err ErrFolderNameRequired) \<Rightarrow> Some (Err ErrInvalidFolderName) | e \<Rightarrow> e)) (\<lambda>_.
     bindp (wrap_err ''create asset folder'' (on_assets (folder_create f))) (\<lambda>saved.
     bindp (wrap_err ''publish folder created event'' (publish_folder ''asset_folders.v1.created'' saved)) (\<lambda>_. ret saved)))))"

definition get_folder :: "string \<Rightarrow> folder assets_call_prog" where
  "get_folder i = (if trim i = [] then throw (Err ErrInvalidFolderID) else wrap_err ''get asset folder'' (on_assets (folder_by_id (trim i))))"

definition list_folders :: "asset_query \<Rightarrow> (folder list \<times> int \<times> int \<times> int) assets_call_prog" where
  "list_folders q = wrap_err ''list asset folders'' (on_assets (folder_list (q\<lparr>aq_filters := trim (aq_filters q),
     aq_parent_folder_id := trim (aq_parent_folder_id q)\<rparr>)))"

definition update_folder :: "string \<Rightarrow> folder_patch \<Rightarrow> folder assets_call_prog" where
  "update_folder i u = (if trim i = [] then throw (Err ErrInvalidFolderID)
     else if (case fu_name u of None \<Rightarrow> False | Some n \<Rightarrow> trim n = []) then throw (Err ErrInvalidFolderName)
     else bindp (case fu_parent_id u of None \<Rightarrow> ret () | Some p \<Rightarrow> on_assets (check_folder_parent (trim i) (trim p))) (\<lambda>_.
     bindp (wrap_err ''update asset folder'' (on_assets (folder_update (trim i) u))) (\<lambda>f.
     bindp (wrap_err ''publish folder updated event'' (publish_folder ''asset_folders.v1.updated'' f)) (\<lambda>_. ret f))))"

definition delete_folder :: "string \<Rightarrow> unit assets_call_prog" where
  "delete_folder i = (if trim i = [] then throw (Err ErrInvalidFolderID)
     else bindp (wrap_err ''load asset folder for delete'' (on_assets (folder_by_id (trim i)))) (\<lambda>f.
     bindp (wrap_err ''soft delete asset folder'' (on_assets (folder_soft_delete (trim i)))) (\<lambda>_.
     wrap_err ''publish folder deleted event'' (publish_folder ''asset_folders.v1.deleted'' f))))"

section \<open>The tree of folders\<close>

datatype folder_tree = FolderNode (node_folder: folder) (node_children: "folder_tree list")

text \<open>The map of nodes, with a later folder of the same identifier in the place of an earlier one.\<close>

fun folder_nodes :: "folder list \<Rightarrow> (string \<times> folder) list \<Rightarrow> (string \<times> folder) list" where
  "folder_nodes [] nodes = nodes"
| "folder_nodes (f # fs) nodes = (let i = trim (fo_id f) in if i = [] then folder_nodes fs nodes
     else folder_nodes fs (AList.update i (f\<lparr>fo_id := i, fo_parent_id := trim (fo_parent_id f)\<rparr>) nodes))"

definition folder_sort_key :: "folder \<Rightarrow> string \<times> string \<times> string" where
  "folder_sort_key f = (to_lower (trim (fo_name f)), to_lower (trim (fo_slug f)), trim (fo_id f))"

definition is_root :: "(string \<times> folder) list \<Rightarrow> string \<times> folder \<Rightarrow> bool" where
  "is_root nodes n = (let p = trim (fo_parent_id (snd n)) in p = [] \<or> p = fst n \<or> p \<notin> fst ` set nodes)"

text \<open>Go visits the nodes in any order, but sorts them by a key that tells them apart.\<close>

definition child_folder_ids :: "(string \<times> folder) list \<Rightarrow> string \<Rightarrow> string list" where
  "child_folder_ids nodes i = (if i \<notin> fst ` set nodes then [] else map fst (sort_key (folder_sort_key \<circ> snd)
     (filter (\<lambda>n. \<not> is_root nodes n \<and> trim (fo_parent_id (snd n)) = i) nodes)))"

function build_node :: "(string \<times> folder) list \<Rightarrow> string list \<Rightarrow> string \<Rightarrow> folder_tree" where
  "build_node nodes path i = (let f = the (map_of nodes i) in if i \<in> set path then FolderNode f []
     else FolderNode f (map (build_node nodes (i # path)) (filter (\<lambda>c. c \<notin> set (i # path)) (child_folder_ids nodes i))))"
  by pat_completeness auto

termination
proof (relation "measure (\<lambda>(nodes, path, i). card (fst ` set nodes - set path))", goal_cases)
  case (2 nodes path i f c)
  then have "i \<in> fst ` set nodes" by (auto simp: child_folder_ids_def split: if_splits)
  then have "fst ` set nodes - set (i # path) \<subset> fst ` set nodes - set path" using 2(2) by auto
  then show ?case by (simp only: in_measure prod.case) (intro psubset_card_mono, auto)
qed simp

declare build_node.simps [simp del]

fun tree_ids :: "folder_tree \<Rightarrow> string list" where
  "tree_ids (FolderNode f ts) = fo_id f # concat (map tree_ids ts)"

fun build_roots :: "(string \<times> folder) list \<Rightarrow> string list \<Rightarrow> string list \<Rightarrow> folder_tree list" where
  "build_roots nodes emitted [] = []"
| "build_roots nodes emitted (i # is) = (if i \<in> set emitted then build_roots nodes emitted is
     else let t = build_node nodes [] i in t # build_roots nodes (tree_ids t @ emitted) is)"

definition build_folder_tree :: "folder list \<Rightarrow> folder_tree list" where
  "build_folder_tree fs = (let nodes = folder_nodes fs []; roots = filter (is_root nodes) nodes in
     build_roots nodes [] (map fst (sort_key (folder_sort_key \<circ> snd) (if roots = [] then nodes else roots))))"

definition get_folder_tree :: "folder_tree list assets_call_prog" where
  "get_folder_tree = bindp (wrap_err ''list asset folders for tree'' (on_assets all_folders)) (\<lambda>fs. ret (build_folder_tree fs))"

end
