(* ===== verification/Assets_Forest.thy ===== *)
theory Assets_Forest
  imports Assets_Service
begin

text \<open>
  The live folders as a forest: what the rows of the folder table satisfy, and that adding, moving and deleting
  folders the way the repository does it keeps this.
\<close>

section \<open>Forests\<close>

definition live_folder_ids :: "folder_row list \<Rightarrow> string set" where
  "live_folder_ids rs = fr_id ` {r \<in> set rs. live_folder r}"

definition parent_rel :: "folder_row list \<Rightarrow> (string \<times> string) set" where
  "parent_rel rs = {(p, c). \<exists>r \<in> set rs. live_folder r \<and> fr_id r = c \<and> fr_parent_id r = Some p}"

definition folder_row_ok :: "folder_row \<Rightarrow> bool" where
  "folder_row_ok r \<longleftrightarrow> trim (fr_id r) = fr_id r \<and> fr_id r \<noteq> [] \<and> trim (fr_slug r) = fr_slug r"

definition siblings_differ :: "folder_row list \<Rightarrow> bool" where
  "siblings_differ rs \<longleftrightarrow> (\<forall>r \<in> set rs. \<forall>x \<in> set rs. live_folder r \<longrightarrow> live_folder x \<longrightarrow> fr_parent_id r = fr_parent_id x
     \<longrightarrow> fr_slug r = fr_slug x \<longrightarrow> fr_id r = fr_id x)"

definition forest_ok :: "folder_row list \<Rightarrow> bool" where
  "forest_ok rs \<longleftrightarrow> distinct (map fr_id rs) \<and> list_all folder_row_ok rs \<and> Domain (parent_rel rs) \<subseteq> live_folder_ids rs
     \<and> acyclic (parent_rel rs) \<and> siblings_differ rs"

lemma live_folder_idsI: "r \<in> set rs \<Longrightarrow> live_folder r \<Longrightarrow> fr_id r \<in> live_folder_ids rs"
  by (auto simp: live_folder_ids_def)

lemma parent_relI: "r \<in> set rs \<Longrightarrow> live_folder r \<Longrightarrow> fr_parent_id r = Some p \<Longrightarrow> (p, fr_id r) \<in> parent_rel rs"
  by (auto simp: parent_rel_def)

lemma child_is_live: "(p, c) \<in> parent_rel rs \<Longrightarrow> c \<in> live_folder_ids rs"
  by (auto simp: parent_rel_def live_folder_ids_def)

lemma live_id_ok: "forest_ok rs \<Longrightarrow> i \<in> live_folder_ids rs \<Longrightarrow> trim i = i \<and> i \<noteq> []"
  by (auto simp: forest_ok_def live_folder_ids_def list_all_iff folder_row_ok_def)

lemma parent_is_live: "forest_ok rs \<Longrightarrow> (p, c) \<in> parent_rel rs \<Longrightarrow> p \<in> live_folder_ids rs"
  by (auto simp: forest_ok_def)

lemma find_folder_live: "find_folder i rs = Some r \<Longrightarrow> fr_id r \<in> live_folder_ids rs"
  by (auto dest: find_folder_Some intro: live_folder_idsI)

lemma same_row: "distinct (map fr_id rs) \<Longrightarrow> r \<in> set rs \<Longrightarrow> x \<in> set rs \<Longrightarrow> fr_id r = fr_id x \<Longrightarrow> r = x"
  by (simp add: distinct_map inj_on_def)

lemma parent_unique: "forest_ok rs \<Longrightarrow> (p, c) \<in> parent_rel rs \<Longrightarrow> (q, c) \<in> parent_rel rs \<Longrightarrow> p = q"
  unfolding parent_rel_def forest_ok_def by (auto dest: same_row)

section \<open>The walk to the ancestors\<close>

lemma parent_walk_sound:
  assumes "forest_ok rs" "parent_walk fault rs i visited current = None" "trim current = current" "i \<noteq> []"
  shows "(i, current) \<notin> (parent_rel rs)\<^sup>*"
  using assms
proof (induction fault rs i visited current rule: parent_walk.induct)
  case (1 fault rs i visited current)
  note unfold = parent_walk.simps[of fault rs i visited current]
  have ok: "forest_ok rs" and walk: "parent_walk fault rs i visited current = None" and c: "trim current = current" and i: "i \<noteq> []"
    by (rule 1(2-5))+
  show ?case
  proof
    assume chain: "(i, current) \<in> (parent_rel rs)\<^sup>*"
    have cur: "current \<noteq> []"
    proof
      assume "current = []"
      then obtain p where "(p, []) \<in> parent_rel rs" using chain i by (metis rtranclE)
      then show False using live_id_ok[OF ok] child_is_live by blast
    qed
    have known: "current \<noteq> i" "current \<notin> set visited" "\<not> fault" using walk cur unfolding unfold by (auto split: if_splits)
    obtain r where r: "find_folder current rs = Some r" using walk cur known unfolding unfold by (auto split: option.splits)
    have row: "r \<in> set rs" "live_folder r" "fr_id r = current" using find_folder_Some[OF r] c by auto
    obtain p where p: "(i, p) \<in> (parent_rel rs)\<^sup>*" "(p, current) \<in> parent_rel rs" using chain known(1) by (metis rtranclE)
    then have parent: "fr_parent_id r = Some p"
      using row ok by (auto simp: parent_rel_def forest_ok_def dest: same_row)
    have "trim p = p" using live_id_ok[OF ok parent_is_live[OF ok p(2)]] by simp
    moreover from this have "parent_walk fault rs i (current # visited) p = None" using walk cur known r parent unfolding unfold by simp
    ultimately have "(i, p) \<notin> (parent_rel rs)\<^sup>*" using 1(1)[OF cur known(1,2,3) r parent ok] i by simp
    with p(1) show False by contradiction
  qed
qed

section \<open>Collecting a subtree\<close>

lemma collect_subtree_closed:
  assumes "forest_ok rs" "set frontier \<subseteq> set ids" "set ids \<subseteq> live_folder_ids rs"
    and "\<forall>p \<in> set ids - set frontier. \<forall>c. (p, c) \<in> parent_rel rs \<longrightarrow> c \<in> set ids"
  shows "set ids \<subseteq> set (collect_subtree rs ids frontier) \<and> set (collect_subtree rs ids frontier) \<subseteq> live_folder_ids rs
    \<and> (\<forall>p \<in> set (collect_subtree rs ids frontier). \<forall>c. (p, c) \<in> parent_rel rs \<longrightarrow> c \<in> set (collect_subtree rs ids frontier))"
  using assms
proof (induction rs ids frontier rule: collect_subtree.induct)
  case (1 rs ids frontier)
  have ok: "forest_ok rs" by (rule 1(2))
  show ?case
  proof (cases "frontier = []")
    case False
    define level where "level = fresh_children ids (folder_children rs frontier)"
    have level: "set level = {c. \<exists>p \<in> set frontier. (p, c) \<in> parent_rel rs} - set ids"
    proof -
      have "set (folder_children rs frontier) = {c. \<exists>p \<in> set frontier. (p, c) \<in> parent_rel rs}"
        by (auto simp: folder_children_def parent_rel_def)
      moreover have "c \<in> set (folder_children rs frontier) \<Longrightarrow> trim c = c \<and> c \<noteq> []" for c
        using live_id_ok[OF ok] child_is_live calculation by blast
      then have norm: "trim ` set (folder_children rs frontier) = set (folder_children rs frontier)" "[] \<notin> set (folder_children rs frontier)"
        by (auto simp: image_iff)
      show ?thesis unfolding level_def fresh_children_set norm(1) calculation(1)[symmetric] using norm(2) by auto
    qed
    then have "set level \<subseteq> live_folder_ids rs" by (auto dest: child_is_live)
    moreover have "\<forall>p \<in> set (ids @ level) - set level. \<forall>c. (p, c) \<in> parent_rel rs \<longrightarrow> c \<in> set (ids @ level)"
      using level 1(5) by auto
    ultimately show ?thesis
      using 1(1)[OF False level_def ok] 1(4) False by (simp add: collect_subtree.simps[of rs ids frontier] level_def[symmetric] Let_def)
  qed (use 1(3-5) in \<open>simp add: collect_subtree.simps\<close>)
qed

section \<open>Adding, replacing and deleting rows\<close>

lemma live_folder_ids_append: "live_folder r \<Longrightarrow> live_folder_ids (rs @ [r]) = insert (fr_id r) (live_folder_ids rs)"
  by (auto simp: live_folder_ids_def)

lemma forest_append:
  assumes ok: "forest_ok rs" and r: "live_folder r" "folder_row_ok r" "fr_id r \<notin> fr_id ` set rs"
    and parent: "\<And>p. fr_parent_id r = Some p \<Longrightarrow> p \<in> live_folder_ids rs"
    and slug: "\<And>x. x \<in> set rs \<Longrightarrow> live_folder x \<Longrightarrow> fr_parent_id x = fr_parent_id r \<Longrightarrow> fr_slug x \<noteq> fr_slug r"
  shows "forest_ok (rs @ [r])"
proof -
  have new: "parent_rel (rs @ [r]) = parent_rel rs \<union> (case fr_parent_id r of None \<Rightarrow> {} | Some p \<Rightarrow> {(p, fr_id r)})"
    using r(1) by (auto simp: parent_rel_def split: option.splits)
  have "fr_id r \<notin> live_folder_ids rs" using r(3) by (auto simp: live_folder_ids_def)
  then have top: "(fr_id r, p) \<notin> (parent_rel rs)\<^sup>*" if "p \<in> live_folder_ids rs" for p
    using that parent_is_live[OF ok] by (metis converse_rtranclE)
  have "acyclic (parent_rel (rs @ [r]))"
    using ok parent top unfolding new by (auto simp: forest_ok_def acyclic_insert split: option.split)
  moreover have "Domain (parent_rel (rs @ [r])) \<subseteq> live_folder_ids (rs @ [r])"
    using ok parent unfolding new live_folder_ids_append[OF r(1)] by (auto simp: forest_ok_def split: option.splits)
  moreover have "siblings_differ (rs @ [r])"
  proof -
    have "siblings_differ rs" using ok by (simp add: forest_ok_def)
    then show ?thesis using slug unfolding siblings_differ_def set_append list.set by (metis Un_iff empty_iff insert_iff)
  qed
  ultimately show ?thesis using ok r by (auto simp: forest_ok_def)
qed

definition replace_folder :: "folder_row \<Rightarrow> folder_row list \<Rightarrow> folder_row list" where
  "replace_folder r = map (\<lambda>x. if live_folder x \<and> fr_id x = fr_id r then r else x)"

lemma replace_folder_set:
  assumes "distinct (map fr_id rs)" "old \<in> set rs" "live_folder old" "fr_id old = fr_id r"
  shows "set (replace_folder r rs) = insert r (set rs - {old})"
  using assms unfolding replace_folder_def by (auto dest: same_row)

lemma forest_replace:
  assumes ok: "forest_ok rs" and old: "old \<in> set rs" "live_folder old" "fr_id old = fr_id r" and r: "live_folder r" "folder_row_ok r"
    and parent: "\<And>p. fr_parent_id r = Some p \<Longrightarrow> fr_parent_id old = Some p \<or> p \<in> live_folder_ids rs \<and> (fr_id r, p) \<notin> (parent_rel rs)\<^sup>*"
    and slug: "\<And>x. x \<in> set rs \<Longrightarrow> live_folder x \<Longrightarrow> fr_id x \<noteq> fr_id r \<Longrightarrow> fr_parent_id x = fr_parent_id r \<Longrightarrow> fr_slug x \<noteq> fr_slug r"
  shows "forest_ok (replace_folder r rs) \<and> live_folder_ids (replace_folder r rs) = live_folder_ids rs"
proof -
  let ?rs = "replace_folder r rs"
  have dist: "distinct (map fr_id rs)" using ok by (simp add: forest_ok_def)
  have set: "set ?rs = insert r (set rs - {old})" using dist old by (rule replace_folder_set)
  have others: "x \<in> set rs - {old} \<Longrightarrow> fr_id x \<noteq> fr_id r" for x using same_row[OF dist, of x old] old by auto
  have ids: "map fr_id ?rs = map fr_id rs" by (auto simp: replace_folder_def)
  have live: "live_folder_ids ?rs = live_folder_ids rs" unfolding live_folder_ids_def set using old r(1) by (auto simp: image_iff; metis)
  have new: "parent_rel ?rs \<subseteq> parent_rel rs \<union> (case fr_parent_id r of None \<Rightarrow> {} | Some p \<Rightarrow> {(p, fr_id r)})"
    by (auto simp: parent_rel_def set split: option.splits)
  have kept: "fr_parent_id old = Some p \<Longrightarrow> (p, fr_id r) \<in> parent_rel rs" for p using parent_relI[OF old(1,2)] old(3) by auto
  have "acyclic (parent_rel rs \<union> (case fr_parent_id r of None \<Rightarrow> {} | Some p \<Rightarrow> {(p, fr_id r)}))"
  proof (cases "fr_parent_id r")
    case (Some p)
    have "acyclic (insert (p, fr_id r) (parent_rel rs))"
      using parent[OF Some]
    proof
      assume "fr_parent_id old = Some p"
      then have "insert (p, fr_id r) (parent_rel rs) = parent_rel rs" using kept by (intro insert_absorb)
      then show ?thesis using ok by (simp add: forest_ok_def)
    qed (use ok in \<open>simp add: forest_ok_def acyclic_insert\<close>)
    then show ?thesis using Some by simp
  qed (use ok in \<open>simp add: forest_ok_def\<close>)
  then have "acyclic (parent_rel ?rs)" using new by (rule acyclic_subset)
  moreover have "Domain (parent_rel ?rs) \<subseteq> live_folder_ids ?rs"
    unfolding live using ok parent kept new by (fastforce simp: forest_ok_def split: option.splits)
  moreover have "siblings_differ ?rs"
  proof -
    have old_pairs: "siblings_differ rs" using ok by (simp add: forest_ok_def)
    have new_pair: "fr_slug x \<noteq> fr_slug r" if "x \<in> set rs - {old}" "live_folder x" "fr_parent_id x = fr_parent_id r" for x
      using slug[of x] others[of x] that by simp
    show ?thesis unfolding siblings_differ_def set
    proof (intro ballI impI)
      fix a b assume ab: "a \<in> insert r (set rs - {old})" "b \<in> insert r (set rs - {old})" "live_folder a" "live_folder b"
        "fr_parent_id a = fr_parent_id b" "fr_slug a = fr_slug b"
      show "fr_id a = fr_id b"
      proof (cases "a = r \<or> b = r")
        case True
        then show ?thesis using ab new_pair[of a] new_pair[of b] by auto
      next
        case False
        then show ?thesis using ab old_pairs unfolding siblings_differ_def by blast
      qed
    qed
  qed
  ultimately show ?thesis using ok r(2) live set by (auto simp: forest_ok_def ids list_all_iff)
qed

definition delete_folders :: "string set \<Rightarrow> gotime \<Rightarrow> folder_row list \<Rightarrow> folder_row list" where
  "delete_folders S now = map (\<lambda>r. if live_folder r \<and> fr_id r \<in> S then r\<lparr>fr_deleted_at := Some now\<rparr> else r)"

lemma forest_delete:
  assumes ok: "forest_ok rs" and closed: "\<forall>p \<in> S. \<forall>c. (p, c) \<in> parent_rel rs \<longrightarrow> c \<in> S"
  shows "forest_ok (delete_folders S now rs) \<and> live_folder_ids (delete_folders S now rs) = live_folder_ids rs - S"
proof -
  let ?rs = "delete_folders S now rs"
  have live: "{r \<in> set ?rs. live_folder r} = {r \<in> set rs. live_folder r \<and> fr_id r \<notin> S}"
    by (auto simp: delete_folders_def live_folder_def)
  then have ids: "live_folder_ids ?rs = live_folder_ids rs - S" by (auto simp: live_folder_ids_def)
  have mem: "r \<in> set ?rs \<and> live_folder r \<longleftrightarrow> r \<in> set rs \<and> live_folder r \<and> fr_id r \<notin> S" for r using live by blast
  have rel: "parent_rel ?rs = {(p, c) \<in> parent_rel rs. c \<notin> S}" unfolding parent_rel_def using mem by blast
  have "acyclic (parent_rel ?rs)" using ok unfolding forest_ok_def rel by (auto elim: acyclic_subset)
  moreover have "Domain (parent_rel ?rs) \<subseteq> live_folder_ids ?rs" using ok closed unfolding rel ids by (auto simp: forest_ok_def)
  moreover have "siblings_differ ?rs" using ok mem unfolding forest_ok_def siblings_differ_def by blast
  moreover have "map fr_id ?rs = map fr_id rs" "list_all folder_row_ok ?rs"
    using ok by (auto simp: delete_folders_def forest_ok_def list_all_iff folder_row_ok_def)
  ultimately show ?thesis using ok ids by (simp add: forest_ok_def)
qed

end
