(* ===== verification/Assets_Safety.thy ===== *)
theory Assets_Safety
  imports Assets_Forest
begin

text \<open>
  The invariant of the tables of assets, and that every operation of the repository keeps it.
\<close>

section \<open>The invariant\<close>

definition live_asset_ids :: "asset_row list \<Rightarrow> string set" where
  "live_asset_ids rs = ar_id ` {r \<in> set rs. live_asset r}"

definition tag_rows_ok :: "string set \<Rightarrow> owned_tag_row list \<Rightarrow> bool" where
  "tag_rows_ok owners rs \<longleftrightarrow> ot_owner ` set rs \<subseteq> owners \<and> (\<forall>i. validate_tags (tags_of rs i) = None)"

definition asset_rows_ok :: "string set \<Rightarrow> asset_row list \<Rightarrow> bool" where
  "asset_rows_ok folders rs \<longleftrightarrow> distinct (map ar_id rs) \<and> distinct (map ar_key rs) \<and> (\<forall>r \<in> set rs. trim (ar_id r) = ar_id r)
     \<and> (\<forall>r \<in> set rs. live_asset r \<longrightarrow> set_option (ar_folder_id r) \<subseteq> folders)"

definition assets_ok :: "assets_db \<Rightarrow> bool" where
  "assets_ok d \<longleftrightarrow> forest_ok (ad_folders d) \<and> asset_rows_ok (live_folder_ids (ad_folders d)) (ad_assets d)
     \<and> tag_rows_ok (live_asset_ids (ad_assets d)) (ad_asset_tags d) \<and> tag_rows_ok (live_folder_ids (ad_folders d)) (ad_folder_tags d)
     \<and> am_asset_id ` set (ad_metadata d) \<subseteq> live_asset_ids (ad_assets d)"

section \<open>Statements and transactions\<close>

lemma readonly_asset_stmt [intro]: "readonly m \<Longrightarrow> readonly (asset_stmt l m)"
  by (simp add: readonly_def asset_stmt_def)

lemma asset_stmt_Inr: "asset_stmt l m d = (Inr x, d') \<longleftrightarrow> \<not> ad_fault d l \<and> m d = (Inr x, d')"
  by (simp add: asset_stmt_def)

lemma preserves_asset_stmt: "preserves I m \<Longrightarrow> preserves I (asset_stmt l m)"
  by (simp add: preserves_def asset_stmt_def)

lemma preserves_transaction: "(\<And>d x d'. I d \<Longrightarrow> m d = (Inr x, d') \<Longrightarrow> I d') \<Longrightarrow> preserves I (atomically m)"
  by (fastforce simp: preserves_def prog_simps split: prod.split sum.split)

lemma readonly_loads [intro]: "readonly (load_asset_tags ids)" "readonly (load_folder_tags ids)" "readonly (load_asset_metadata ids)"
  by (auto simp: load_asset_tags_def load_folder_tags_def load_asset_metadata_def)

lemma readonly_find_asset [intro]: "readonly (find_asset l i)"
  unfolding find_asset_def by (rule readonly_bindp) (auto split: option.split)

lemma readonly_folder_known [intro]: "readonly (folder_known i)" and readonly_slug_taken [intro]: "readonly (slug_taken p s x)"
  by (auto simp: folder_known_def slug_taken_def)

lemma readonly_asset_by_id [intro]: "readonly (asset_by_id i)"
  unfolding asset_by_id_def by (intro readonly_bindp readonly_find_asset readonly_loads readonly_basic)

lemma readonly_folder_by_id [intro]: "readonly (folder_by_id i)"
  unfolding folder_by_id_def by (rule readonly_bindp) (auto split: option.split)

lemma readonly_load_assets [intro]: "readonly (load_assets rows)" and readonly_load_folders [intro]: "readonly (load_folders folders)"
  by (auto simp: load_assets_def load_folders_def)

lemma readonly_asset_lists [intro]: "readonly (asset_list q)" "readonly (folder_list q)" "readonly all_folders"
  by (auto simp: asset_list_def folder_list_def all_folders_def Let_def split: prod.split)

lemma readonly_tagged [intro]: "readonly (assets_by_tag_names names limit)"
  unfolding assets_by_tag_names_def Let_def
  by (intro readonly_if readonly_bindp readonly_asset_stmt readonly_loads readonly_basic)

lemma readonly_check_folder_parent [intro]: "readonly (check_folder_parent i p)"
  by (auto simp: readonly_def check_folder_parent_def Let_def split: sum.split option.split)

lemma same_db: "readonly m \<Longrightarrow> m d = (Inr x, d') \<Longrightarrow> d' = d"
  by (rule readonlyD)

section \<open>Relations\<close>

lemma stored_tags_valid: "stored_tags tags = Inr ts \<Longrightarrow> validate_tags ts = None"
  by (auto simp: stored_tags_def Let_def split: option.splits)

lemma tags_of_replaced:
  "tags_of (filter (\<lambda>r. ot_owner r \<noteq> i) rs @ map (\<lambda>t. \<lparr>ot_owner = i, ot_tag = t\<rparr>) ts) j = (if j = i then ts else tags_of rs j)"
  by (auto simp: tags_of_def filter_map comp_def filter_empty_conv intro: arg_cong[where f = "map ot_tag"] filter_cong)

lemma tag_rows_replaced:
  assumes "tag_rows_ok owners rs" "i \<in> owners" "validate_tags ts = None"
  shows "tag_rows_ok owners (filter (\<lambda>r. ot_owner r \<noteq> i) rs @ map (\<lambda>t. \<lparr>ot_owner = i, ot_tag = t\<rparr>) ts)"
  using assms unfolding tag_rows_ok_def tags_of_replaced by auto

lemma replace_asset_tags_Inr:
  assumes "replace_asset_tags i tags d = (Inr x, d')" "trim i = i" "i \<in> owners" "tag_rows_ok owners (ad_asset_tags d)"
  shows "\<exists>rs. d' = d\<lparr>ad_asset_tags := rs\<rparr> \<and> tag_rows_ok owners rs"
proof -
  obtain ts where ts: "stored_tags tags = Inr ts"
    using assms(1) by (auto simp: replace_asset_tags_def asset_stmt_Inr prog_Inr_iffs)
  let ?rs = "filter (\<lambda>r. ot_owner r \<noteq> i) (ad_asset_tags d) @ map (\<lambda>t. \<lparr>ot_owner = i, ot_tag = t\<rparr>) ts"
  have "d' = d\<lparr>ad_asset_tags := ?rs\<rparr>"
    using assms(1,2) ts by (auto simp: replace_asset_tags_def asset_stmt_Inr prog_Inr_iffs split: if_splits)
  then show ?thesis using tag_rows_replaced[OF assms(4,3) stored_tags_valid[OF ts]] by blast
qed

lemma replace_folder_tags_Inr:
  assumes "replace_folder_tags i tags d = (Inr x, d')" "trim i = i" "i \<in> owners" "tag_rows_ok owners (ad_folder_tags d)"
  shows "\<exists>rs. d' = d\<lparr>ad_folder_tags := rs\<rparr> \<and> tag_rows_ok owners rs"
proof -
  obtain ts where ts: "stored_tags tags = Inr ts"
    using assms(1) by (auto simp: replace_folder_tags_def asset_stmt_Inr prog_Inr_iffs)
  let ?rs = "filter (\<lambda>r. ot_owner r \<noteq> i) (ad_folder_tags d) @ map (\<lambda>t. \<lparr>ot_owner = i, ot_tag = t\<rparr>) ts"
  have "d' = d\<lparr>ad_folder_tags := ?rs\<rparr>"
    using assms(1,2) ts by (auto simp: replace_folder_tags_def asset_stmt_Inr prog_Inr_iffs split: if_splits)
  then show ?thesis using tag_rows_replaced[OF assms(4,3) stored_tags_valid[OF ts]] by blast
qed

lemma replace_asset_metadata_Inr:
  assumes "replace_asset_metadata i m d = (Inr x, d')" "trim i = i" "i \<in> owners" "am_asset_id ` set (ad_metadata d) \<subseteq> owners"
  shows "\<exists>rs. d' = d\<lparr>ad_metadata := rs\<rparr> \<and> am_asset_id ` set rs \<subseteq> owners"
proof -
  obtain es where es: "stored_metadata m = Inr es"
    using assms(1) by (auto simp: replace_asset_metadata_def asset_stmt_Inr prog_Inr_iffs)
  let ?rs = "filter (\<lambda>r. am_asset_id r \<noteq> i) (ad_metadata d) @ map (\<lambda>(k, v). \<lparr>am_asset_id = i, am_key = k, am_value = v\<rparr>) es"
  have "d' = d\<lparr>ad_metadata := ?rs\<rparr>"
    using assms(1,2) es by (auto simp: replace_asset_metadata_def asset_stmt_Inr prog_Inr_iffs split: if_splits)
  moreover have "am_asset_id ` set ?rs \<subseteq> owners" using assms(3,4) by auto
  ultimately show ?thesis by blast
qed

section \<open>Assets\<close>

lemma live_asset_idsI: "r \<in> set rs \<Longrightarrow> live_asset r \<Longrightarrow> ar_id r \<in> live_asset_ids rs"
  by (auto simp: live_asset_ids_def)

lemma live_asset_ids_append: "live_asset r \<Longrightarrow> live_asset_ids (rs @ [r]) = insert (ar_id r) (live_asset_ids rs)"
  by (auto simp: live_asset_ids_def)

lemma tag_rows_mono: "tag_rows_ok owners rs \<Longrightarrow> owners \<subseteq> owners' \<Longrightarrow> tag_rows_ok owners' rs"
  by (auto simp: tag_rows_ok_def)

lemma find_asset_Inr: "find_asset l i d = (Inr r, d') \<Longrightarrow> d' = d \<and> r \<in> set (ad_assets d) \<and> live_asset r \<and> ar_id r = i"
  by (auto simp: find_asset_def asset_stmt_Inr prog_Inr_iffs find_Some_iff split: option.splits)

lemma preserves_asset_create:
  assumes "\<And>d. I d \<Longrightarrow> assets_ok d \<and> set_option (optional_id (trim (as_folder_id a))) \<subseteq> live_folder_ids (ad_folders d)"
    and "\<And>d rs ts ms. I d \<Longrightarrow> assets_ok (d\<lparr>ad_assets := rs, ad_asset_tags := ts, ad_metadata := ms\<rparr>) \<Longrightarrow> I (d\<lparr>ad_assets := rs, ad_asset_tags := ts, ad_metadata := ms\<rparr>)"
  shows "preserves I (asset_create a)"
proof -
  have "I d'" if d: "I d" and r: "asset_to_row a = Inr r"
    and run: "bindp (insert_asset r) (\<lambda>_. bindp (replace_asset_tags (ar_id r) (as_tags a)) (\<lambda>_. replace_asset_metadata (ar_id r) (as_metadata a))) d = (Inr x, d')"
    for d r x d'
  proof -
    have ok: "assets_ok d" "set_option (ar_folder_id r) \<subseteq> live_folder_ids (ad_folders d)" "trim (ar_id r) = ar_id r" "live_asset r"
      using assms(1)[OF d] r by (auto simp: asset_to_row_def Let_def asset_normalize_def live_asset_def split: option.splits)
    obtain d1 d2 where steps: "insert_asset r d = (Inr (), d1)" "replace_asset_tags (ar_id r) (as_tags a) d1 = (Inr (), d2)"
        "replace_asset_metadata (ar_id r) (as_metadata a) d2 = (Inr x, d')"
      using run by (auto simp: prog_Inr_iffs)
    define new where "new = r\<lparr>ar_created_at := ad_clock d, ar_updated_at := ad_clock d\<rparr>"
    have d1: "d1 = d\<lparr>ad_assets := ad_assets d @ [new]\<rparr>" "ar_id r \<notin> ar_id ` set (ad_assets d)" "ar_key r \<notin> ar_key ` set (ad_assets d)"
      using steps(1) by (auto simp: insert_asset_def asset_stmt_Inr violates_asset_index_def new_def split: if_splits)
    have new: "ar_id new = ar_id r" "ar_key new = ar_key r" "live_asset new" "ar_folder_id new = ar_folder_id r"
      using ok(4) by (simp_all add: new_def live_asset_def)
    let ?owners = "live_asset_ids (ad_assets d @ [new])"
    have owner: "ar_id r \<in> ?owners" and wider: "live_asset_ids (ad_assets d) \<subseteq> ?owners" using new by (auto simp: live_asset_ids_append)
    obtain ts where ts: "d2 = d1\<lparr>ad_asset_tags := ts\<rparr>" "tag_rows_ok ?owners ts"
      using replace_asset_tags_Inr[OF steps(2) ok(3) owner] ok(1) tag_rows_mono[OF _ wider] by (auto simp: d1 assets_ok_def)
    obtain ms where ms: "d' = d2\<lparr>ad_metadata := ms\<rparr>" "am_asset_id ` set ms \<subseteq> ?owners"
      using replace_asset_metadata_Inr[OF steps(3) ok(3) owner] ok(1) wider by (auto simp: d1 ts assets_ok_def)
    have d': "d' = d\<lparr>ad_assets := ad_assets d @ [new], ad_asset_tags := ts, ad_metadata := ms\<rparr>" by (simp add: ms ts d1)
    have "assets_ok (d\<lparr>ad_assets := ad_assets d @ [new], ad_asset_tags := ts, ad_metadata := ms\<rparr>)"
      using ok d1(2,3) new ts(2) ms(2) by (auto simp: assets_ok_def asset_rows_ok_def)
    then show ?thesis unfolding d' by (rule assms(2)[OF d])
  qed
  then have "preserves I (bindp (atomically (bindp (insert_asset r) (\<lambda>_. bindp (replace_asset_tags (ar_id r) (as_tags a)) (\<lambda>_.
      replace_asset_metadata (ar_id r) (as_metadata a))))) (\<lambda>_. asset_by_id (ar_id r)))" if "asset_to_row a = Inr r" for r
    using that by (intro preserves_bindp preserves_transaction readonly_preserves[OF readonly_asset_by_id]) blast+
  then show ?thesis
    unfolding asset_create_def by (cases "asset_to_row a") (simp_all add: preserves_def prog_simps)
qed

definition replace_asset :: "asset_row \<Rightarrow> asset_row list \<Rightarrow> asset_row list" where
  "replace_asset r = map (\<lambda>x. if live_asset x \<and> ar_id x = ar_id r then r else x)"

lemma replace_asset_ok:
  assumes ok: "asset_rows_ok folders rs" and old: "old \<in> set rs" "live_asset old" "ar_id old = ar_id r" and r: "live_asset r"
    and "ar_key r \<notin> ar_key ` set (filter (\<lambda>x. ar_id x \<noteq> ar_id r) rs)" "set_option (ar_folder_id r) \<subseteq> folders"
  shows "asset_rows_ok folders (replace_asset r rs)" "live_asset_ids (replace_asset r rs) = live_asset_ids rs"
proof -
  let ?f = "\<lambda>x. if live_asset x \<and> ar_id x = ar_id r then r else x"
  have dist: "distinct (map ar_id rs)" using ok by (simp add: asset_rows_ok_def)
  have same: "x \<in> set rs \<Longrightarrow> ar_id x = ar_id r \<Longrightarrow> x = old" for x
    using dist old by (auto simp: distinct_map inj_on_def)
  have "inj_on ar_key (set (replace_asset r rs))"
  proof (rule inj_onI)
    fix x y assume xy: "x \<in> set (replace_asset r rs)" "y \<in> set (replace_asset r rs)" "ar_key x = ar_key y"
    have fresh: "z \<in> set rs \<Longrightarrow> ar_id z \<noteq> ar_id r \<Longrightarrow> ar_key z \<noteq> ar_key r" for z using assms(6) by (auto simp: image_iff)
    have mem: "z \<in> set (replace_asset r rs) \<Longrightarrow> z = r \<or> z \<in> set rs \<and> ar_id z \<noteq> ar_id r" for z
      using same[of z] old by (auto simp: replace_asset_def split: if_splits)
    have "inj_on ar_key (set rs)" using ok by (simp add: asset_rows_ok_def distinct_map)
    then show "x = y" using mem[OF xy(1)] mem[OF xy(2)] fresh[of x] fresh[of y] xy(3) by (auto dest: inj_onD)
  qed
  moreover have ids: "map ar_id (replace_asset r rs) = map ar_id rs" by (auto simp: replace_asset_def)
  moreover have "distinct (replace_asset r rs)" using dist ids by (metis distinct_map)
  ultimately have "distinct (map ar_id (replace_asset r rs))" "distinct (map ar_key (replace_asset r rs))"
    using dist by (simp_all only: ids distinct_map)
  moreover have "trim (ar_id x) = ar_id x \<and> (live_asset x \<longrightarrow> set_option (ar_folder_id x) \<subseteq> folders)" if "x \<in> set (replace_asset r rs)" for x
    using that ok old assms(7) by (auto simp: replace_asset_def asset_rows_ok_def split: if_splits)
  ultimately show "asset_rows_ok folders (replace_asset r rs)" unfolding asset_rows_ok_def by blast
  show "live_asset_ids (replace_asset r rs) = live_asset_ids rs"
  proof (rule set_eqI)
    fix i
    have "i \<in> live_asset_ids (replace_asset r rs) \<longleftrightarrow> (\<exists>x \<in> set rs. live_asset (?f x) \<and> ar_id (?f x) = i)"
      by (auto simp: live_asset_ids_def replace_asset_def)
    also have "\<dots> \<longleftrightarrow> (\<exists>x \<in> set rs. live_asset x \<and> ar_id x = i)" using r by (intro bex_cong refl) auto
    finally show "i \<in> live_asset_ids (replace_asset r rs) \<longleftrightarrow> i \<in> live_asset_ids rs" by (simp add: live_asset_ids_def image_iff) blast
  qed
qed

lemma save_asset_Inr:
  assumes "save_asset l r d = (Inr x, d')"
  shows "d' = d\<lparr>ad_assets := replace_asset (r\<lparr>ar_updated_at := ad_clock d\<rparr>) (ad_assets d)\<rparr>
    \<and> ar_key r \<notin> ar_key ` set (filter (\<lambda>x. ar_id x \<noteq> ar_id r) (ad_assets d))"
  using assms by (auto simp: save_asset_def asset_stmt_Inr violates_asset_index_def replace_asset_def split: if_splits)

lemma save_asset_ok:
  assumes "save_asset l r d = (Inr x, d')" "assets_ok d" "old \<in> set (ad_assets d)" "live_asset old" "ar_id r = ar_id old" "live_asset r"
    and "set_option (ar_folder_id r) \<subseteq> live_folder_ids (ad_folders d)"
  shows "assets_ok d'"
proof -
  let ?r = "r\<lparr>ar_updated_at := ad_clock d\<rparr>"
  have rows: "asset_rows_ok (live_folder_ids (ad_folders d)) (ad_assets d)" using assms(2) by (simp add: assets_ok_def)
  have "asset_rows_ok (live_folder_ids (ad_folders d)) (replace_asset ?r (ad_assets d))" "live_asset_ids (replace_asset ?r (ad_assets d)) = live_asset_ids (ad_assets d)"
    using save_asset_Inr[OF assms(1)] assms(5-7) replace_asset_ok[OF rows assms(3,4), of ?r] by (simp_all add: live_asset_def)
  then show ?thesis using assms(2) save_asset_Inr[OF assms(1)] by (simp add: assets_ok_def)
qed

lemma moved_asset_Inr:
  assumes "moved_asset u r d = (Inr r', d')"
  shows "d' = d \<and> ar_id r' = ar_id r \<and> (live_asset r \<longrightarrow> live_asset r')
    \<and> (set_option (ar_folder_id r) \<subseteq> live_folder_ids (ad_folders d) \<longrightarrow> set_option (ar_folder_id r') \<subseteq> live_folder_ids (ad_folders d))"
proof -
  have "set_option (ar_folder_id r') \<subseteq> live_folder_ids (ad_folders d)" if "ar_folder_id r' = Some (trim f)" "folder_known (trim f) d = (Inr True, d)" for f
    using that live_folder_idsI by (fastforce simp: folder_known_def asset_stmt_Inr getp_Inr_iff list_ex_iff)
  moreover have "folder_known f d = (Inr known, d1) \<Longrightarrow> d1 = d" for f known d1 by (rule same_db[OF readonly_folder_known])
  ultimately show ?thesis
    using assms by (auto simp: moved_asset_def prog_Inr_iffs live_asset_def split: option.splits if_splits)
qed

lemma preserves_asset_update: "preserves assets_ok (asset_update i u)"
  unfolding asset_update_def
proof (intro preserves_bindp preserves_transaction readonly_preserves[OF readonly_asset_by_id])
  fix d x d'
  assume ok: "assets_ok d" and run: "bindp (find_asset ''get asset record for update'' (trim i)) (\<lambda>old.
     let r = (case au_name u of None \<Rightarrow> old | Some n \<Rightarrow> old\<lparr>ar_name := trim n\<rparr>) in
     bindp (moved_asset u r) (\<lambda>r.
     bindp (case au_tags u of None \<Rightarrow> ret () | Some ts \<Rightarrow> replace_asset_tags (trim i) ts) (\<lambda>_.
     bindp (case au_metadata u of None \<Rightarrow> ret () | Some m \<Rightarrow> replace_asset_metadata (trim i) m) (\<lambda>_.
     save_asset ''update asset record'' r)))) d = (Inr x, d')"
  obtain old d0 where find: "find_asset ''get asset record for update'' (trim i) d = (Inr old, d0)"
      and rest: "bindp (moved_asset u (case au_name u of None \<Rightarrow> old | Some n \<Rightarrow> old\<lparr>ar_name := trim n\<rparr>)) (\<lambda>r.
        bindp (case au_tags u of None \<Rightarrow> ret () | Some ts \<Rightarrow> replace_asset_tags (trim i) ts) (\<lambda>_.
        bindp (case au_metadata u of None \<Rightarrow> ret () | Some m \<Rightarrow> replace_asset_metadata (trim i) m) (\<lambda>_.
        save_asset ''update asset record'' r))) d0 = (Inr x, d')"
    using run unfolding bindp_Inr_iff[of "find_asset _ _"] Let_def by blast
  have "d0 = d" using find_asset_Inr[OF find] by simp
  then obtain r d1 d2 dm where steps: "find_asset ''get asset record for update'' (trim i) d = (Inr old, d)"
      "moved_asset u (case au_name u of None \<Rightarrow> old | Some n \<Rightarrow> old\<lparr>ar_name := trim n\<rparr>) d = (Inr r, dm)"
      "(case au_tags u of None \<Rightarrow> ret () | Some ts \<Rightarrow> replace_asset_tags (trim i) ts) dm = (Inr (), d1)"
      "(case au_metadata u of None \<Rightarrow> ret () | Some m \<Rightarrow> replace_asset_metadata (trim i) m) d1 = (Inr (), d2)"
      "save_asset ''update asset record'' r d2 = (Inr x, d')"
    using find rest unfolding bindp_Inr_iff by auto
  have dm: "dm = d" using moved_asset_Inr[OF steps(2)] by simp
  have old: "old \<in> set (ad_assets d)" "live_asset old" "ar_id old = trim i" using find_asset_Inr[OF steps(1)] by auto
  have r: "ar_id r = ar_id old" "live_asset r" "set_option (ar_folder_id r) \<subseteq> live_folder_ids (ad_folders d)"
    using moved_asset_Inr[OF steps(2)] old ok by (auto simp: assets_ok_def asset_rows_ok_def live_asset_def split: option.splits)
  have owner: "trim i \<in> live_asset_ids (ad_assets d)" using live_asset_idsI[OF old(1,2)] old(3) by simp
  have "\<exists>ts. d1 = d\<lparr>ad_asset_tags := ts\<rparr> \<and> tag_rows_ok (live_asset_ids (ad_assets d)) ts"
    using steps(3)[unfolded dm] replace_asset_tags_Inr[OF _ _ owner] ok by (cases "au_tags u") (auto simp: prog_Inr_iffs assets_ok_def intro: exI[of _ "ad_asset_tags d"])
  then obtain ts where d1: "d1 = d\<lparr>ad_asset_tags := ts\<rparr>" "tag_rows_ok (live_asset_ids (ad_assets d)) ts" by blast
  have "\<exists>ms. d2 = d1\<lparr>ad_metadata := ms\<rparr> \<and> am_asset_id ` set ms \<subseteq> live_asset_ids (ad_assets d)"
    using steps(4) replace_asset_metadata_Inr[OF _ _ owner] ok
    by (cases "au_metadata u") (auto simp: prog_Inr_iffs assets_ok_def d1(1) intro: exI[of _ "ad_metadata d"])
  then obtain ms where d2: "d2 = d1\<lparr>ad_metadata := ms\<rparr>" "am_asset_id ` set ms \<subseteq> live_asset_ids (ad_assets d)" by blast
  have "assets_ok d2" using ok d1 d2 by (simp add: assets_ok_def)
  then show "assets_ok d'" using r old by (intro save_asset_ok[OF steps(5), of old]) (simp_all add: d1 d2)
qed

lemma preserves_asset_update_binary: "preserves assets_ok (asset_update_binary i b)"
  unfolding asset_update_binary_def
proof (intro preserves_if preserves_throw preserves_bindp preserves_transaction readonly_preserves[OF readonly_asset_by_id])
  fix d x d'
  let ?new = "\<lambda>r. r\<lparr>ar_key := trim (ab_key b), ar_original_name := trim (ab_original_name b), ar_mime_type := trim (ab_mime_type b), ar_size := ab_size b\<rparr>"
  assume ok: "assets_ok d" and run: "bindp (find_asset ''get asset record for binary update'' (trim i)) (\<lambda>r. save_asset ''update asset binary record'' (?new r)) d = (Inr x, d')"
  obtain r d1 where find: "find_asset ''get asset record for binary update'' (trim i) d = (Inr r, d1)"
      and save1: "save_asset ''update asset binary record'' (?new r) d1 = (Inr x, d')"
    using run unfolding bindp_Inr_iff by blast
  then have r: "d1 = d" "r \<in> set (ad_assets d)" "live_asset r" using find_asset_Inr[OF find] by auto
  then have "set_option (ar_folder_id r) \<subseteq> live_folder_ids (ad_folders d)" using ok by (simp add: assets_ok_def asset_rows_ok_def)
  then show "assets_ok d'"
    using r by (intro save_asset_ok[OF save1[unfolded r(1)] ok r(2,3)]) (simp_all add: live_asset_def)
qed

lemma tags_of_filtered: "tags_of (filter (\<lambda>r. ot_owner r \<notin> S) rs) j = (if j \<in> S then [] else tags_of rs j)"
  by (auto simp: tags_of_def filter_empty_conv intro: arg_cong[where f = "map ot_tag"] filter_cong)

lemma tag_rows_filtered: "tag_rows_ok owners rs \<Longrightarrow> tag_rows_ok (owners - S) (filter (\<lambda>r. ot_owner r \<notin> S) rs)"
proof -
  have "validate_tags [] = None" by (simp add: validate_tags_def)
  then show "tag_rows_ok owners rs \<Longrightarrow> ?thesis" by (auto simp: tag_rows_ok_def tags_of_filtered)
qed

lemma preserves_asset_soft_delete: "preserves assets_ok (asset_soft_delete i)"
  unfolding asset_soft_delete_def Let_def
proof (rule preserves_transaction)
  fix d d' :: assets_db and x :: unit
  let ?hit = "\<lambda>r. live_asset r \<and> ar_id r = trim i"
  let ?rs = "map (\<lambda>r. if ?hit r then r\<lparr>ar_deleted_at := Some (ad_clock d)\<rparr> else r) (ad_assets d)"
  assume ok: "assets_ok d" and run: "bindp (asset_stmt ''soft delete asset record'' (\<lambda>d. (Inr (list_ex ?hit (ad_assets d)),
         d\<lparr>ad_assets := map (\<lambda>r. if ?hit r then r\<lparr>ar_deleted_at := Some (ad_clock d)\<rparr> else r) (ad_assets d)\<rparr>))) (\<lambda>affected.
       if \<not> affected then throw (Err PortAssetNotFound)
       else bindp (asset_stmt ''delete asset tag records'' (modp (ad_asset_tags_update (filter (\<lambda>r. ot_owner r \<noteq> trim i))))) (\<lambda>_.
         asset_stmt ''delete asset metadata records'' (modp (ad_metadata_update (filter (\<lambda>r. am_asset_id r \<noteq> trim i)))))) d = (Inr x, d')"
  have d': "d' = d\<lparr>ad_assets := ?rs, ad_asset_tags := filter (\<lambda>r. ot_owner r \<notin> {trim i}) (ad_asset_tags d),
      ad_metadata := filter (\<lambda>r. am_asset_id r \<noteq> trim i) (ad_metadata d)\<rparr>"
    using run by (auto simp: bindp_Inr_iff asset_stmt_Inr modp_Inr_iff throw_Inr_iff split: if_splits)
  have live: "live_asset_ids ?rs = live_asset_ids (ad_assets d) - {trim i}" by (auto simp: live_asset_ids_def live_asset_def image_iff split: if_splits)
  have "map ar_id ?rs = map ar_id (ad_assets d)" "map ar_key ?rs = map ar_key (ad_assets d)" by auto
  then have "asset_rows_ok (live_folder_ids (ad_folders d)) ?rs"
    using ok by (auto simp: assets_ok_def asset_rows_ok_def live_asset_def simp del: map_map)
  moreover have "tag_rows_ok (live_asset_ids (ad_assets d)) (ad_asset_tags d)" using ok by (simp add: assets_ok_def)
  ultimately show "assets_ok d'" unfolding d'
    using ok tag_rows_filtered[of "live_asset_ids (ad_assets d)" "ad_asset_tags d" "{trim i}"] by (auto simp: assets_ok_def live)
qed

end
