(* ===== verification/Assets_Calls.thy ===== *)
theory Assets_Calls
  imports Assets_Safety
begin

text \<open>
  The folder operations and the use cases keep the invariant of the tables; the assets module as a sequence of calls
  under changing conditions.
\<close>

section \<open>Reads before writes\<close>

lemma transaction_then_read:
  assumes "I d" "\<And>x d'. a d = (Inr x, d') \<Longrightarrow> I d'" "\<And>x. readonly (k x)"
  shows "I (snd (bindp (atomically a) k d))"
  using assms by (auto simp: prog_simps readonly_def split: prod.split sum.split)

lemma preserves_after_read:
  assumes "readonly m" "\<And>d x. I d \<Longrightarrow> fst (m d) = Inr x \<Longrightarrow> I (snd (n x d))"
  shows "preserves I (bindp m n)"
proof (rule preservesI)
  fix d assume d: "I d"
  obtain r d1 where m: "m d = (r, d1)" by fastforce
  then have "d1 = d" using assms(1) by (metis readonlyD)
  then show "I (snd (bindp m n d))"
    using d m assms(2)[OF d] by (cases r) (simp_all add: prog_simps)
qed

section \<open>Slugs\<close>

lemma set_squeeze: "set (squeeze_dashes s) \<subseteq> set s"
  by (induction s rule: squeeze_dashes.induct) auto

lemma set_trim_char: "set (trim_char c s) \<subseteq> set s"
proof -
  have drop: "set (dropWhile P xs) \<subseteq> set xs" for P and xs :: string by (auto dest: set_dropWhileD)
  show ?thesis unfolding trim_char_def set_rev by (rule order_trans[OF drop]) (simp only: set_rev drop)
qed

lemma trim_build_slug [simp]: "trim (build_folder_slug n) = build_folder_slug n"
proof (rule trim_graphic)
  have "list_all (\<lambda>c. \<not> (lower_alnum c \<or> c = CHR ''-'')) (concat ws_tokens)" by code_simp
  then have slug_char: "lower_alnum c \<or> c = CHR ''-'' \<Longrightarrow> graphic c" for c by (auto simp: graphic_def list_all_iff)
  let ?s = "map (\<lambda>c. if lower_alnum c \<or> c = CHR ''-'' then c else CHR ''-'') (to_lower (trim n))"
  have "set (build_folder_slug n) \<subseteq> set ?s" unfolding build_folder_slug_def by (rule order_trans[OF set_trim_char set_squeeze])
  moreover have "\<forall>c \<in> set ?s. lower_alnum c \<or> c = CHR ''-''" by auto
  ultimately show "list_all graphic (build_folder_slug n)" using slug_char unfolding list_all_iff by blast
qed

section \<open>Folders\<close>

lemma folder_to_row_Inr:
  assumes "folder_to_row f = Inr r" "trim (fo_id f) \<noteq> []"
  shows "folder_row_ok r" "live_folder r" "fr_parent_id r = optional_id (trim (fo_parent_id f))" "fr_id r = trim (fo_id f)"
  using assms by (auto simp: folder_to_row_def Let_def folder_normalize_def folder_row_ok_def live_folder_def split: option.splits)

lemma folder_known_Inr: "fst (folder_known p d) = Inr True \<Longrightarrow> trim p \<in> live_folder_ids (ad_folders d)"
  by (auto simp: folder_known_def asset_stmt_def prog_simps list_ex_iff intro: live_folder_idsI split: if_splits) (metis live_folder_idsI)

lemma slug_taken_False:
  assumes "slug_taken p s e d = (Inr False, d')" "optional_id (trim (string_of_id p)) = p" "trim s = s"
    and "x \<in> set (ad_folders d)" "live_folder x" "fr_parent_id x = p" "trim e = [] \<or> fr_id x \<noteq> trim e"
  shows "fr_slug x \<noteq> s"
  using assms by (auto simp: slug_taken_def asset_stmt_Inr prog_Inr_iffs list_ex_iff)

lemma write_folder_Inr: "write_folder l r others change d = (Inr x, d') \<Longrightarrow> d' = change d \<and> violated_folder_index r (others d) = None"
  by (auto simp: write_folder_def asset_stmt_Inr split: option.splits)

lemma insert_folder_Inr:
  assumes "insert_folder r d = (Inr x, d')"
  shows "d' = d\<lparr>ad_folders := ad_folders d @ [r\<lparr>fr_created_at := ad_clock d, fr_updated_at := ad_clock d\<rparr>]\<rparr> \<and> fr_id r \<notin> fr_id ` set (ad_folders d)"
  using write_folder_Inr[OF assms[unfolded insert_folder_def]] by (auto simp: violated_folder_index_def split: if_splits)

lemma save_folder_Inr:
  assumes "save_folder r d = (Inr x, d')"
  shows "d' = d\<lparr>ad_folders := replace_folder (r\<lparr>fr_updated_at := ad_clock d\<rparr>) (ad_folders d)\<rparr>"
  using write_folder_Inr[OF assms[unfolded save_folder_def]] by (simp add: replace_folder_def)

lemma optional_id_trim: "optional_id (trim (string_of_id (optional_id (trim s)))) = optional_id (trim s)"
  by (simp add: optional_id_def string_of_id_def)

lemma forest_append_folder:
  assumes "assets_ok d" "folder_row_ok r" "live_folder r" "fr_id r \<notin> fr_id ` set (ad_folders d)"
    and "set_option (fr_parent_id r) \<subseteq> live_folder_ids (ad_folders d)"
    and "\<And>x. x \<in> set (ad_folders d) \<Longrightarrow> live_folder x \<Longrightarrow> fr_parent_id x = fr_parent_id r \<Longrightarrow> fr_slug x \<noteq> fr_slug r"
    and "tag_rows_ok (insert (fr_id r) (live_folder_ids (ad_folders d))) ts"
  shows "assets_ok (d\<lparr>ad_folders := ad_folders d @ [r\<lparr>fr_created_at := t, fr_updated_at := t\<rparr>], ad_folder_tags := ts\<rparr>)"
proof -
  let ?r = "r\<lparr>fr_created_at := t, fr_updated_at := t\<rparr>"
  have "forest_ok (ad_folders d @ [?r])"
    using assms(1-6) by (intro forest_append) (auto simp: assets_ok_def live_folder_def folder_row_ok_def)
  moreover have "live_folder_ids (ad_folders d @ [?r]) = insert (fr_id r) (live_folder_ids (ad_folders d))"
    using assms(3) by (simp add: live_folder_ids_append live_folder_def)
  moreover have "asset_rows_ok (insert (fr_id r) (live_folder_ids (ad_folders d))) (ad_assets d)"
    using assms(1) by (auto simp: assets_ok_def asset_rows_ok_def)
  ultimately show ?thesis using assms(1,7) by (simp add: assets_ok_def)
qed

lemma preserves_folder_create:
  assumes "trim (fo_id f) \<noteq> []"
  shows "preserves assets_ok (folder_create f)"
proof (cases "folder_to_row f")
  case (Inr r)
  note r = folder_to_row_Inr[OF Inr assms]
  have parent: "optional_id (trim (string_of_id (fr_parent_id r))) = fr_parent_id r" unfolding r(3) by (rule optional_id_trim)
  let ?check = "case fr_parent_id r of None \<Rightarrow> ret () | Some p \<Rightarrow> bindp (folder_known p) (\<lambda>known. if known then ret () else throw (Err PortFolderNotFound))"
  let ?body = "bindp (slug_taken (fr_parent_id r) (fr_slug r) []) (\<lambda>taken. if taken then throw (Err PortFolderAlreadyExists)
       else bindp (insert_folder r) (\<lambda>_. replace_folder_tags (fr_id r) (fo_tags f)))"
  have known: "set_option (fr_parent_id r) \<subseteq> live_folder_ids (ad_folders d)" if "fst (?check d) = Inr u" for d u
  proof (cases "fr_parent_id r")
    case (Some p)
    then have "trim p = p" using r(3) by (auto simp: optional_id_def split: if_splits)
    moreover have "fst (folder_known p d) = Inr True"
      using that Some by (auto simp: prog_simps split: prod.splits sum.splits if_splits)
    ultimately show ?thesis using folder_known_Inr[of p d] Some by simp
  qed simp
  have "preserves assets_ok (bindp ?check (\<lambda>_. bindp (atomically ?body) (\<lambda>_. folder_by_id (fr_id r))))"
  proof (rule preserves_after_read)
    show "readonly ?check" by (auto split: option.split)
    have body: "assets_ok d'" if ok: "assets_ok d" and check: "fst (?check d) = Inr u" and run: "?body d = (Inr x, d')" for d u x d'
    proof -
      obtain d0 d1 where free: "slug_taken (fr_parent_id r) (fr_slug r) [] d = (Inr False, d0)" and ins0: "insert_folder r d0 = (Inr (), d1)"
          and tags: "replace_folder_tags (fr_id r) (fo_tags f) d1 = (Inr x, d')"
        using run by (auto simp: bindp_Inr_iff throw_Inr_iff split: if_splits)
      have ins: "insert_folder r d = (Inr (), d1)" using ins0 same_db[OF readonly_slug_taken free] by simp
      note d1 = insert_folder_Inr[OF ins]
      have "tag_rows_ok (insert (fr_id r) (live_folder_ids (ad_folders d))) (ad_folder_tags d1)"
        using ok d1 by (auto simp: assets_ok_def intro: tag_rows_mono)
      then obtain ts where ts: "d' = d1\<lparr>ad_folder_tags := ts\<rparr>" "tag_rows_ok (insert (fr_id r) (live_folder_ids (ad_folders d))) ts"
        using replace_folder_tags_Inr[OF tags, of "insert (fr_id r) (live_folder_ids (ad_folders d))"] r(1) by (auto simp: folder_row_ok_def)
      have slug: "fr_slug x \<noteq> fr_slug r" if "x \<in> set (ad_folders d)" "live_folder x" "fr_parent_id x = fr_parent_id r" for x
        using slug_taken_False[OF free parent _ that] r(1) by (simp add: folder_row_ok_def)
      have "assets_ok (d\<lparr>ad_folders := ad_folders d @ [r\<lparr>fr_created_at := ad_clock d, fr_updated_at := ad_clock d\<rparr>], ad_folder_tags := ts\<rparr>)"
        by (rule forest_append_folder[OF ok r(1,2) conjunct2[OF d1] known[OF check] slug ts(2)])
      then show ?thesis using d1 ts(1) by simp
    qed
    show "assets_ok (snd (bindp (atomically ?body) (\<lambda>_. folder_by_id (fr_id r)) d))"
      if "assets_ok d" "fst (?check d) = Inr u" for d u
      by (rule transaction_then_read[where I = assets_ok, OF that(1) body[OF that] readonly_folder_by_id])
  qed
  then show ?thesis unfolding folder_create_def using Inr by (simp add: preserves_def prog_simps)
qed (simp add: folder_create_def preserves_def prog_simps)

lemma check_no_cycle_Inr:
  assumes "check_no_cycle i p d = (Inr x, d')"
  shows "d' = d \<and> parent_walk (ad_fault d ''load parent folder record'') (ad_folders d) (trim i) [] (trim p) = None"
  using assms by (auto simp: check_no_cycle_def split: option.splits)

lemma moved_folder_Inr:
  assumes ok: "forest_ok (ad_folders d)" and i: "trim i = i" "i \<noteq> []" and moved: "moved_folder i u r d = (Inr r', d')"
  shows "d' = d \<and> (\<exists>p. r' = r\<lparr>fr_parent_id := p\<rparr> \<and> (p = fr_parent_id r
    \<or> set_option p \<subseteq> live_folder_ids (ad_folders d) \<and> (\<forall>q \<in> set_option p. (i, q) \<notin> (parent_rel (ad_folders d))\<^sup>*)))"
proof (cases "fu_parent_id u")
  case None
  then show ?thesis using moved by (auto simp: moved_folder_def prog_Inr_iffs intro: exI[of _ "fr_parent_id r"])
next
  case (Some parent)
  show ?thesis
  proof (cases "trim parent = []")
    case True
    then show ?thesis using moved Some by (auto simp: moved_folder_def prog_Inr_iffs)
  next
    case False
    then obtain x d1 where x: "find_folder (trim parent) (ad_folders d) = Some x" and check: "check_no_cycle i (fr_id x) d = (Inr (), d1)"
        and r': "r' = r\<lparr>fr_parent_id := Some (fr_id x)\<rparr>" "d' = d1"
      using moved Some by (auto simp: moved_folder_def Let_def bindp_Inr_iff throw_Inr_iff ret_Inr_iff split: if_splits option.splits)
    have live: "fr_id x \<in> live_folder_ids (ad_folders d)" using x by (rule find_folder_live)
    then have "(i, fr_id x) \<notin> (parent_rel (ad_folders d))\<^sup>*"
      using parent_walk_sound[OF ok, of _ i "[]" "fr_id x"] check_no_cycle_Inr[OF check] live_id_ok[OF ok live] i by auto
    then show ?thesis using live r' check_no_cycle_Inr[OF check] by auto
  qed
qed

lemma renamed_folder_fields:
  "fr_id (renamed_folder u r) = fr_id r" "live_folder (renamed_folder u r) = live_folder r" "fr_parent_id (renamed_folder u r) = fr_parent_id r"
  "folder_row_ok r \<Longrightarrow> folder_row_ok (renamed_folder u r)"
  by (auto simp: renamed_folder_def live_folder_def folder_row_ok_def split: option.split)

lemma assets_ok_folders:
  assumes "assets_ok d" "forest_ok fs" "live_folder_ids fs = live_folder_ids (ad_folders d)"
    and "tag_rows_ok (live_folder_ids (ad_folders d)) ts"
  shows "assets_ok (d\<lparr>ad_folders := fs, ad_folder_tags := ts\<rparr>)"
  using assms by (simp add: assets_ok_def)

lemma folder_update_body_ok:
  assumes ok: "assets_ok d" and old: "find_folder i (ad_folders d) = Some old"
    and run: "bindp (moved_folder (trim i) u (renamed_folder u old)) (\<lambda>r.
       bindp (case fu_tags u of None \<Rightarrow> ret () | Some ts \<Rightarrow> replace_folder_tags (trim i) ts) (\<lambda>_.
       bindp (slug_taken (fr_parent_id r) (fr_slug r) (trim i)) (\<lambda>taken. if taken then throw (Err PortFolderAlreadyExists)
         else save_folder r))) d = (Inr x, d')"
  shows "assets_ok d'"
proof -
  have forest: "forest_ok (ad_folders d)" using ok by (simp add: assets_ok_def)
  have row: "old \<in> set (ad_folders d)" "live_folder old" "fr_id old = trim i" using find_folder_Some[OF old] by auto
  then have live: "trim i \<in> live_folder_ids (ad_folders d)" using live_folder_idsI[OF row(1,2)] by simp
  obtain r d0 d1 d2 where moved: "moved_folder (trim i) u (renamed_folder u old) d = (Inr r, d0)"
      and tags0: "(case fu_tags u of None \<Rightarrow> ret () | Some ts \<Rightarrow> replace_folder_tags (trim i) ts) d0 = (Inr (), d1)"
      and free: "slug_taken (fr_parent_id r) (fr_slug r) (trim i) d1 = (Inr False, d2)" and save0: "save_folder r d2 = (Inr x, d')"
    using run by (auto simp: bindp_Inr_iff throw_Inr_iff split: if_splits)
  note mv = moved_folder_Inr[OF forest _ _ moved]
  obtain p where d0: "d0 = d" and r: "r = (renamed_folder u old)\<lparr>fr_parent_id := p\<rparr>"
    and p: "p = fr_parent_id old \<or> set_option p \<subseteq> live_folder_ids (ad_folders d) \<and> (\<forall>q \<in> set_option p. (trim i, q) \<notin> (parent_rel (ad_folders d))\<^sup>*)"
    using mv live_id_ok[OF forest live] by (auto simp: renamed_folder_fields)
  have d2: "d2 = d1" using same_db[OF readonly_slug_taken free] .
  have "\<exists>ts. d1 = d\<lparr>ad_folder_tags := ts\<rparr> \<and> tag_rows_ok (live_folder_ids (ad_folders d)) ts"
    using tags0[unfolded d0] replace_folder_tags_Inr[OF _ _ live] ok
    by (cases "fu_tags u") (auto simp: ret_Inr_iff assets_ok_def intro: exI[of _ "ad_folder_tags d"])
  then obtain ts where d1: "d1 = d\<lparr>ad_folder_tags := ts\<rparr>" "tag_rows_ok (live_folder_ids (ad_folders d)) ts" by blast
  have "folder_row_ok old" using forest row(1) by (simp add: forest_ok_def list_all_iff)
  then have new: "fr_id r = trim i" "live_folder r" "folder_row_ok r" "fr_parent_id r = p"
    using row renamed_folder_fields[where u = u] by (simp_all add: r live_folder_def folder_row_ok_def)
  have parent_live: "set_option p \<subseteq> live_folder_ids (ad_folders d)"
    using p parent_is_live[OF forest] parent_relI[OF row(1,2)] by (cases "fr_parent_id old") auto
  then have "optional_id (trim (string_of_id p)) = p"
    using live_id_ok[OF forest] by (cases p) (auto simp: optional_id_def string_of_id_def)
  then have slug: "fr_slug y \<noteq> fr_slug r" if "y \<in> set (ad_folders d)" "live_folder y" "fr_id y \<noteq> fr_id r" "fr_parent_id y = fr_parent_id r" for y
    using slug_taken_False[OF free, of y] that new by (simp add: d1 folder_row_ok_def)
  let ?r = "r\<lparr>fr_updated_at := ad_clock d2\<rparr>"
  have "forest_ok (replace_folder ?r (ad_folders d)) \<and> live_folder_ids (replace_folder ?r (ad_folders d)) = live_folder_ids (ad_folders d)"
    using new p slug parent_live row by (intro forest_replace[OF forest row(1,2)]) (auto simp: live_folder_def folder_row_ok_def)
  then have "assets_ok (d\<lparr>ad_folders := replace_folder ?r (ad_folders d), ad_folder_tags := ts\<rparr>)"
    using assets_ok_folders[OF ok] d1(2) by blast
  then show ?thesis using save_folder_Inr[OF save0] by (simp add: d1 d2 assets_ok_def)
qed

lemma preserves_folder_update: "preserves assets_ok (folder_update i u)"
  unfolding folder_update_def
proof (intro preserves_bindp preserves_transaction readonly_preserves[OF readonly_folder_by_id])
  fix d x d'
  let ?body = "\<lambda>old. bindp (moved_folder (trim i) u (renamed_folder u old)) (\<lambda>r.
       bindp (case fu_tags u of None \<Rightarrow> ret () | Some ts \<Rightarrow> replace_folder_tags (trim i) ts) (\<lambda>_.
       bindp (slug_taken (fr_parent_id r) (fr_slug r) (trim i)) (\<lambda>taken. if taken then throw (Err PortFolderAlreadyExists)
         else save_folder r)))"
  assume ok: "assets_ok d" and run: "bindp (asset_stmt ''get folder record for update'' (getp (\<lambda>d. find_folder i (ad_folders d)))) (\<lambda>found.
     case found of None \<Rightarrow> throw (Err PortAssetNotFound) | Some old \<Rightarrow> ?body old) d = (Inr x, d')"
  then obtain old where "find_folder i (ad_folders d) = Some old" "?body old d = (Inr x, d')"
    unfolding bindp_Inr_iff[of "asset_stmt _ _"] asset_stmt_Inr getp_Inr_iff by (auto simp: throw_Inr_iff split: option.splits)
  then show "assets_ok d'" by (rule folder_update_body_ok[OF ok])
qed

lemma live_asset_ids_map:
  assumes "\<And>r. live_asset (f r) = live_asset r" "\<And>r. ar_id (f r) = ar_id r"
  shows "live_asset_ids (map f rs) = live_asset_ids rs"
  by (rule set_eqI) (simp add: live_asset_ids_def image_iff Bex_def assms cong: conj_cong, metis assms)

lemma preserves_folder_soft_delete: "preserves assets_ok (folder_soft_delete i)"
  unfolding folder_soft_delete_def Let_def
proof (rule preserves_transaction)
  fix d d' :: assets_db and x :: unit
  assume ok: "assets_ok d"
  let ?change = "\<lambda>ids d. d\<lparr>ad_assets := map (\<lambda>r. if live_asset r \<and> (\<exists>f \<in> set ids. ar_folder_id r = Some f)
      then r\<lparr>ar_folder_id := None, ar_updated_at := ad_clock d\<rparr> else r) (ad_assets d)\<rparr>"
  let ?hit = "\<lambda>ids r. live_folder r \<and> fr_id r \<in> set ids"
  let ?rest = "\<lambda>ids. bindp (asset_stmt ''soft delete folder record'' (\<lambda>d. (Inr (list_ex (?hit ids) (ad_folders d)),
         d\<lparr>ad_folders := map (\<lambda>r. if ?hit ids r then r\<lparr>fr_deleted_at := Some (ad_clock d)\<rparr> else r) (ad_folders d)\<rparr>))) (\<lambda>affected.
       if \<not> affected then throw (Err PortAssetNotFound)
       else bindp (asset_stmt ''detach assets from folder'' (modp (?change ids))) (\<lambda>_.
         asset_stmt ''delete folder tags'' (modp (ad_folder_tags_update (filter (\<lambda>r. ot_owner r \<notin> set ids))))))"
  assume "bindp (asset_stmt ''load folder record for delete'' (getp (\<lambda>d. find_folder (trim i) (ad_folders d)))) (\<lambda>found. case found of
     None \<Rightarrow> throw (Err PortAssetNotFound) | Some y \<Rightarrow>
       bindp (asset_stmt ''load child folder records'' (getp (\<lambda>d. collect_subtree (ad_folders d) [fr_id y] [fr_id y]))) ?rest) d = (Inr x, d')"
  then obtain y where y: "find_folder (trim i) (ad_folders d) = Some y"
      and rest: "?rest (collect_subtree (ad_folders d) [fr_id y] [fr_id y]) d = (Inr x, d')"
    unfolding bindp_Inr_iff[of "asset_stmt ''load folder record for delete'' _"] asset_stmt_Inr[of "''load folder record for delete''"] getp_Inr_iff
    by (auto simp: throw_Inr_iff bindp_Inr_iff[of "asset_stmt ''load child folder records'' _"] asset_stmt_Inr[of "''load child folder records''"] getp_Inr_iff split: option.splits)
  define ids where "ids = collect_subtree (ad_folders d) [fr_id y] [fr_id y]"
  let ?folders = "delete_folders (set ids) (ad_clock d) (ad_folders d)"
  let ?assets = "map (\<lambda>r. if live_asset r \<and> (\<exists>f \<in> set ids. ar_folder_id r = Some f) then r\<lparr>ar_folder_id := None, ar_updated_at := ad_clock d\<rparr> else r) (ad_assets d)"
  have d': "d' = d\<lparr>ad_folders := ?folders, ad_assets := ?assets, ad_folder_tags := filter (\<lambda>r. ot_owner r \<notin> set ids) (ad_folder_tags d)\<rparr>"
    using rest[folded ids_def] by (auto simp: bindp_Inr_iff asset_stmt_Inr modp_Inr_iff throw_Inr_iff delete_folders_def cong: if_cong split: if_splits)
  have forest: "forest_ok (ad_folders d)" using ok by (simp add: assets_ok_def)
  have "\<forall>p \<in> set ids. \<forall>c. (p, c) \<in> parent_rel (ad_folders d) \<longrightarrow> c \<in> set ids"
    using collect_subtree_closed[OF forest, of "[fr_id y]" "[fr_id y]"] find_folder_live[OF y] by (simp add: ids_def)
  then have folders: "forest_ok ?folders" "live_folder_ids ?folders = live_folder_ids (ad_folders d) - set ids"
    using forest_delete[OF forest] by auto
  have "map ar_id ?assets = map ar_id (ad_assets d)" "map ar_key ?assets = map ar_key (ad_assets d)" by auto
  then have assets: "asset_rows_ok (live_folder_ids (ad_folders d) - set ids) ?assets"
    using ok by (auto simp: assets_ok_def asset_rows_ok_def simp del: map_map)
  have "live_asset_ids ?assets = live_asset_ids (ad_assets d)" by (rule live_asset_ids_map) (simp_all add: live_asset_def)
  then show "assets_ok d'" unfolding d' using ok folders assets tag_rows_filtered by (simp add: assets_ok_def)
qed

section \<open>Use cases\<close>

definition assets_world_ok :: "assets_world \<Rightarrow> bool" where
  "assets_world_ok w \<longleftrightarrow> assets_ok (aw_db w) \<and> (\<forall>n. trim (aw_uuids w n) = aw_uuids w n \<and> aw_uuids w n \<noteq> [])"

lemma put_assets_fields [simp]: "aw_db (put_assets d w) = d" "aw_uuids (put_assets d w) = aw_uuids w"
  by (simp_all add: put_assets_def)

lemma preserves_on_assets: "preserves assets_ok m \<Longrightarrow> preserves assets_world_ok (on_assets m)"
  by (auto simp: preserves_def through_def assets_world_ok_def split: prod.split)

lemma preserves_on_assets_read: "readonly m \<Longrightarrow> preserves I m"
  by (rule readonly_preserves)

lemma preserves_assets_quiet:
  assumes "\<And>w. aw_db (snd (m w)) = aw_db w \<and> aw_uuids (snd (m w)) = aw_uuids w"
  shows "preserves assets_world_ok m"
  using assms by (simp add: preserves_def assets_world_ok_def)

lemma preserves_publish_asset [preserves_intros]: "preserves assets_world_ok (publish_asset topic a)"
  and preserves_publish_folder [preserves_intros]: "preserves assets_world_ok (publish_folder topic f)"
  by (rule preserves_assets_quiet; auto simp: publish_asset_def publish_folder_def publish_payload_def prog_simps)+

lemma preserves_storage [preserves_intros]: "preserves assets_world_ok (upload_object k t b)" "preserves assets_world_ok (download_object k)"
    "preserves assets_world_ok (delete_object k)"
  by (rule preserves_assets_quiet; auto simp: upload_object_def download_object_def delete_object_def split: option.split)+

lemma preserves_draw_asset_id [preserves_intros]: "preserves assets_world_ok draw_asset_id"
  by (rule preserves_assets_quiet) (simp add: draw_asset_id_def prog_simps)

lemma preserves_fail_with [preserves_intros]: "preserves I (fail_with e)"
  by (cases e) (simp_all add: fail_with_def preserves_intros)

lemma readonly_on_assets [intro]: "readonly m \<Longrightarrow> readonly (on_assets m)"
  by (auto simp: readonly_def through_def put_assets_def split: prod.split) (metis snd_conv assets_world.surjective assets_world.update_convs(1))

lemma preserves_read_assets: "readonly m \<Longrightarrow> preserves assets_world_ok (on_assets m)"
  by (intro readonly_preserves readonly_on_assets)

lemma readonly_require_folder [intro]: "readonly (require_folder f)"
  unfolding require_folder_def by (intro readonly_if readonly_bindp readonly_wrap_err readonly_on_assets readonly_folder_known readonly_basic)

lemma preserves_ensure_storage [preserves_intros]: "preserves I ensure_storage"
  unfolding ensure_storage_def by (intro preserves_intros)

lemma require_folder_Inr:
  assumes "fst (require_folder (trim f) w) = Inr u"
  shows "set_option (optional_id (trim f)) \<subseteq> live_folder_ids (ad_folders (aw_db w))"
proof (cases "trim f = []")
  case False
  then have "fst (folder_known (trim f) (aw_db w)) = Inr True"
    using assms by (auto simp: require_folder_def prog_simps through_def split: prod.splits sum.splits if_splits)
  then show ?thesis using folder_known_Inr[of "trim f" "aw_db w"] False by (simp add: optional_id_def)
qed (simp add: optional_id_def)

text \<open>What a creation keeps after the folder of the new asset has been looked up.\<close>

definition folder_found :: "string \<Rightarrow> assets_world \<Rightarrow> bool" where
  "folder_found f w \<longleftrightarrow> assets_world_ok w \<and> set_option (optional_id (trim f)) \<subseteq> live_folder_ids (ad_folders (aw_db w))"

lemma folder_found_quiet:
  assumes "\<And>w. aw_db (snd (m w)) = aw_db w \<and> aw_uuids (snd (m w)) = aw_uuids w"
  shows "preserves (folder_found f) m"
  using assms by (simp add: preserves_def folder_found_def assets_world_ok_def)

lemma folder_found_create:
  assumes "trim (as_folder_id a) = trim f"
  shows "preserves (folder_found f) (on_assets (asset_create a))"
proof -
  have "preserves (\<lambda>d. assets_ok d \<and> set_option (optional_id (trim f)) \<subseteq> live_folder_ids (ad_folders d)) (asset_create a)"
    by (rule preserves_asset_create) (simp_all add: assms)
  then show ?thesis by (auto simp: preserves_def through_def folder_found_def assets_world_ok_def split: prod.split)
qed

lemma preserves_create_asset: "preserves assets_world_ok (create_asset c)"
proof -
  let ?f = "ka_folder_id c"
  have quiet: "preserves (folder_found ?f) draw_asset_id" "preserves (folder_found ?f) (upload_object k t b)" "preserves (folder_found ?f) (delete_object k)"
    "preserves (folder_found ?f) (publish_asset topic a)" for k t b topic a
    by (rule folder_found_quiet; auto simp: draw_asset_id_def upload_object_def delete_object_def publish_asset_def publish_payload_def prog_simps)+
  have "trim (as_folder_id (new_asset c i)) = trim ?f" for i by (simp add: new_asset_def asset_normalize_def)
  then have store: "preserves (folder_found ?f) (store_asset (new_asset c i))" for i
    unfolding store_asset_def by (intro preserves_intros quiet folder_found_create)
  have rest: "preserves (folder_found ?f) (bindp draw_asset_id (\<lambda>i. let a = new_asset c i in
     bindp (fail_with (asset_validate a)) (\<lambda>_.
     bindp (wrap_err ''upload asset object'' (upload_object (as_key a) (as_mime_type a) (ka_body c))) (\<lambda>_.
     bindp (store_asset a) (\<lambda>saved.
     bindp (wrap_err ''publish asset created event'' (publish_asset ''assets.v1.created'' saved)) (\<lambda>_. ret saved))))))"
    unfolding Let_def by (intro preserves_intros quiet store)
  show ?thesis unfolding create_asset_def
  proof (intro preserves_bindp[OF preserves_ensure_storage] preserves_if preserves_throw preserves_after_read[OF readonly_require_folder], goal_cases)
    case (1 _ w u)
    then have "folder_found ?f w" using require_folder_Inr by (simp add: folder_found_def)
    then show ?case using rest unfolding preserves_def folder_found_def by blast
  qed
qed

lemma preserves_switch_object: "preserves assets_world_ok (switch_object old new)"
  unfolding switch_object_def by (intro preserves_intros preserves_on_assets preserves_asset_update_binary)

lemma preserves_convert_asset: "preserves assets_world_ok (convert_asset to_jpg quality a)"
  unfolding convert_asset_def Let_def
  by (intro preserves_intros preserves_read_assets readonly_asset_by_id preserves_switch_object)

lemma preserves_convert_assets: "preserves assets_world_ok (convert_assets to_jpg cancelled quality as r)"
proof (induction as arbitrary: r)
  case (Cons a as)
  then show ?case by (auto intro!: preserves_intros preserves_convert_asset)
qed (simp add: preserves_intros)

lemma preserves_create_folder: "preserves assets_world_ok (create_folder c)"
proof (rule preservesI)
  fix w assume w: "assets_world_ok w"
  define i where "i = aw_uuids w (aw_drawn w)"
  have "trim (fo_id (new_folder c i)) \<noteq> []" using w by (simp add: new_folder_def folder_normalize_def assets_world_ok_def i_def)
  then have "preserves assets_world_ok (bindp (if trim (kf_parent_id c) = [] then ret () else on_assets (check_folder_parent i (trim (kf_parent_id c)))) (\<lambda>_.
     let f = new_folder c i in
     bindp (fail_with (case folder_validate f of Some (Err ErrFolderNameRequired) \<Rightarrow> Some (Err ErrInvalidFolderName) | e \<Rightarrow> e)) (\<lambda>_.
     bindp (wrap_err ''create asset folder'' (on_assets (folder_create f))) (\<lambda>saved.
     bindp (wrap_err ''publish folder created event'' (publish_folder ''asset_folders.v1.created'' saved)) (\<lambda>_. ret saved)))))"
    unfolding Let_def by (intro preserves_intros preserves_read_assets readonly_check_folder_parent preserves_on_assets preserves_folder_create)
  moreover have "assets_world_ok (w\<lparr>aw_drawn := Suc (aw_drawn w)\<rparr>)" using w by (simp add: assets_world_ok_def)
  ultimately show "assets_world_ok (snd (create_folder c w))"
    by (simp add: create_folder_def draw_asset_id_def bindp_apply[of "drawp _"] drawp_apply i_def[symmetric] preserves_def)
qed

text \<open>The calls of the module; \<open>Conditions\<close> changes the time, which statements, storage calls and events fail, and
  the texts of the driver.\<close>

datatype asset_call = CreateAsset create_asset_command | UpdateAsset string asset_patch | RenameAsset string string | DeleteAsset string
  | GetAsset string | ListAssets asset_query | AssetExists string
  | RunJpgWorker "string \<Rightarrow> int \<Rightarrow> string option" "nat \<Rightarrow> bool" "string list" int int
  | CreateFolder create_folder_command | UpdateFolder string folder_patch | DeleteFolder string | GetFolder string
  | ListFolders asset_query | FolderTree
  | Conditions gotime "string \<Rightarrow> bool" "string \<Rightarrow> string" bool "storage_call \<Rightarrow> string \<Rightarrow> bool" "asset_event \<Rightarrow> bool"

fun asset_step :: "asset_call \<Rightarrow> assets_world \<Rightarrow> assets_world" where
  "asset_step (CreateAsset c) w = snd (create_asset c w)"
| "asset_step (UpdateAsset i u) w = snd (update_asset i u w)"
| "asset_step (RenameAsset i n) w = snd (update_asset_name i n w)"
| "asset_step (DeleteAsset i) w = snd (delete_asset i w)"
| "asset_step (GetAsset i) w = snd (get_asset i w)"
| "asset_step (ListAssets q) w = snd (list_assets q w)"
| "asset_step (AssetExists i) w = snd (asset_exists i w)"
| "asset_step (RunJpgWorker j c ts b q) w = snd (run_jpg_worker j c ts b q w)"
| "asset_step (CreateFolder c) w = snd (create_folder c w)"
| "asset_step (UpdateFolder i u) w = snd (update_folder i u w)"
| "asset_step (DeleteFolder i) w = snd (delete_folder i w)"
| "asset_step (GetFolder i) w = snd (get_folder i w)"
| "asset_step (ListFolders q) w = snd (list_folders q w)"
| "asset_step FolderTree w = snd (get_folder_tree w)"
| "asset_step (Conditions now fault text available fails refuses) w = w\<lparr>aw_db := (aw_db w)\<lparr>ad_clock := now, ad_fault := fault, ad_dup_message := text\<rparr>,
     aw_available := available, aw_storage_fails := fails, aw_refuses := refuses\<rparr>"

lemma asset_step_ok: "assets_world_ok w \<Longrightarrow> assets_world_ok (asset_step call w)"
proof -
  have update: "preserves assets_world_ok (update_asset i u)" for i u
    unfolding update_asset_def
    by (intro preserves_intros preserves_on_assets preserves_asset_update readonly_preserves[OF readonly_require_folder])
  have "preserves assets_world_ok (update_asset_name i n)" "preserves assets_world_ok (delete_asset i)" "preserves assets_world_ok (get_asset i)"
    "preserves assets_world_ok (list_assets q)" "preserves assets_world_ok (asset_exists i)" "preserves assets_world_ok (run_jpg_worker j c ts b k)" for i n q j c ts b k
    unfolding update_asset_name_def delete_asset_def get_asset_def list_assets_def asset_exists_def run_jpg_worker_def Let_def
    by (intro preserves_intros update preserves_on_assets preserves_asset_soft_delete preserves_convert_assets preserves_read_assets
        readonly_asset_by_id readonly_asset_lists readonly_tagged)+
  moreover have "preserves assets_world_ok (update_folder i u)" "preserves assets_world_ok (delete_folder i)" "preserves assets_world_ok (get_folder i)"
    "preserves assets_world_ok (list_folders q)" "preserves assets_world_ok get_folder_tree" for i u q
    unfolding update_folder_def delete_folder_def get_folder_def list_folders_def get_folder_tree_def
    by (intro preserves_intros preserves_on_assets preserves_folder_update preserves_folder_soft_delete preserves_read_assets
        readonly_check_folder_parent readonly_folder_by_id readonly_asset_lists)+
  ultimately show "assets_world_ok w \<Longrightarrow> assets_world_ok (asset_step call w)"
    using preserves_create_asset preserves_create_folder update
    by (cases call) (simp_all add: preserves_def, simp add: assets_world_ok_def assets_ok_def)
qed

lemma asset_calls_ok: "assets_world_ok w \<Longrightarrow> assets_world_ok (fold asset_step calls w)"
  by (induction calls arbitrary: w) (simp_all add: asset_step_ok)

text \<open>C35: Whatever calls the assets module serves and whatever fails in between, the live folders stay a forest without
  cycles in which every parent is live and siblings have different slugs, every live asset is in a live folder or in
  none, keys stay unique, and tags belong to live owners and pass the validation.\<close>

theorem folders_stay_forest:
  assumes "assets_world_ok w"
  shows "assets_ok (aw_db (fold asset_step calls w))"
  using asset_calls_ok[OF assms] by (simp add: assets_world_ok_def)

text \<open>An empty module.\<close>

definition sample_assets :: assets_world where
  "sample_assets = \<lparr>aw_db = \<lparr>ad_assets = [], ad_folders = [], ad_asset_tags = [], ad_folder_tags = [], ad_metadata = [], ad_clock = 1,
       ad_fault = (\<lambda>_. False), ad_dup_message = (\<lambda>_. ''Duplicate entry'')\<rparr>,
     aw_objects = Map.empty, aw_available = True, aw_storage_fails = (\<lambda>_ _. False), aw_events = [], aw_refuses = (\<lambda>_. False),
     aw_event_ids = (\<lambda>_. ''e''), aw_uuids = (\<lambda>n. replicate (Suc n) CHR ''u''), aw_drawn = 0\<rparr>"

lemma sample_assets_ok: "assets_world_ok sample_assets"
proof -
  have "graphic CHR ''u''" by code_simp
  then have "trim (replicate (Suc n) CHR ''u'') = replicate (Suc n) CHR ''u''" for n by (intro trim_graphic) (simp add: list_all_iff)
  moreover have "acyclic ({} :: (string \<times> string) set)" by (simp add: acyclic_def)
  ultimately show ?thesis
    by (simp del: replicate_Suc add: assets_world_ok_def sample_assets_def assets_ok_def forest_ok_def asset_rows_ok_def tag_rows_ok_def tags_of_def
        validate_tags_def parent_rel_def siblings_differ_def live_folder_ids_def)
qed

theorem folders_stay_forest_witness:
  "assets_ok (aw_db (fold asset_step [CreateFolder \<lparr>kf_name = ''A'', kf_parent_id = [], kf_tags = []\<rparr>,
     UpdateFolder ''u'' \<lparr>fu_name = None, fu_parent_id = Some ''u'', fu_tags = None\<rparr>, DeleteFolder ''u''] sample_assets))"
  by (rule folders_stay_forest[OF sample_assets_ok])

end
