(* ===== verification/Assets_Tree.thy ===== *)
theory Assets_Tree
  imports Assets_Calls
begin

text \<open>
  The tree of folders: the forest of the tables comes back complete. Then the rename that makes the listings fail.
\<close>

section \<open>Nodes and their edges\<close>

definition node_edges :: "(string \<times> folder) list \<Rightarrow> (string \<times> string) set" where
  "node_edges nodes = {(p, c). \<exists>f. (c, f) \<in> set nodes \<and> \<not> is_root nodes (c, f) \<and> trim (fo_parent_id f) = p}"

definition nodes_ok :: "(string \<times> folder) list \<Rightarrow> bool" where
  "nodes_ok nodes \<longleftrightarrow> distinct (map fst nodes) \<and> (\<forall>(i, f) \<in> set nodes. fo_id f = i) \<and> acyclic (node_edges nodes)"

lemma node_edges_keys: "node_edges nodes \<subseteq> (fst ` set nodes) \<times> (fst ` set nodes)"
  by (force simp: node_edges_def is_root_def Let_def)

lemma node_at: "nodes_ok nodes \<Longrightarrow> (i, f) \<in> set nodes \<Longrightarrow> the (map_of nodes i) = f \<and> fo_id f = i"
  by (auto simp: nodes_ok_def)

lemma node_edges_single: "nodes_ok nodes \<Longrightarrow> single_valued ((node_edges nodes)\<inverse>)"
  by (auto simp: single_valued_def node_edges_def dest: node_at)

lemma node_edges_wf:
  assumes "nodes_ok nodes"
  shows "wf (node_edges nodes)" "wf ((node_edges nodes)\<inverse>)"
proof -
  have "finite (node_edges nodes)" by (rule finite_subset[OF node_edges_keys]) simp
  then show "wf (node_edges nodes)" "wf ((node_edges nodes)\<inverse>)"
    using assms finite_acyclic_wf finite_acyclic_wf_converse by (auto simp: nodes_ok_def)
qed

lemma child_folder_ids_edges: "i \<in> fst ` set nodes \<Longrightarrow> set (child_folder_ids nodes i) = node_edges nodes `` {i}"
  by (force simp: child_folder_ids_def node_edges_def)

lemma child_folder_ids_distinct: "nodes_ok nodes \<Longrightarrow> distinct (child_folder_ids nodes i)"
  by (auto simp: child_folder_ids_def nodes_ok_def distinct_map intro: inj_on_subset)

text \<open>Two nodes with a common descendant are on one path.\<close>

lemma common_descendant:
  assumes "nodes_ok nodes" "(a, x) \<in> (node_edges nodes)\<^sup>*" "(b, x) \<in> (node_edges nodes)\<^sup>*"
  shows "(a, b) \<in> (node_edges nodes)\<^sup>* \<or> (b, a) \<in> (node_edges nodes)\<^sup>*"
  using single_valued_confluent[OF node_edges_single[OF assms(1)], of x a b] assms(2,3) by (auto simp: rtrancl_converse)

lemma siblings_disjoint:
  assumes ok: "nodes_ok nodes" and edges: "(i, a) \<in> node_edges nodes" "(i, b) \<in> node_edges nodes" and "a \<noteq> b"
  shows "(node_edges nodes)\<^sup>* `` {a} \<inter> (node_edges nodes)\<^sup>* `` {b} = {}"
proof -
  have no: "(u, v) \<notin> (node_edges nodes)\<^sup>*" if uv: "(i, u) \<in> node_edges nodes" "(i, v) \<in> node_edges nodes" "u \<noteq> v" for u v
  proof
    assume "(u, v) \<in> (node_edges nodes)\<^sup>*"
    then obtain w where "(u, w) \<in> (node_edges nodes)\<^sup>*" "(w, v) \<in> node_edges nodes" using uv(3) by (metis rtranclE)
    moreover from this have "w = i" using node_edges_single[OF ok] uv(2) by (auto simp: single_valued_def)
    ultimately have "(i, i) \<in> (node_edges nodes)\<^sup>+" using uv(1) by (simp add: rtrancl_into_trancl2)
    then show False using ok by (simp add: nodes_ok_def acyclic_def)
  qed
  show ?thesis using common_descendant[OF ok] no[OF edges \<open>a \<noteq> b\<close>] no[OF edges(2,1)] \<open>a \<noteq> b\<close> by blast
qed

lemma distinct_concat_map:
  assumes "distinct xs" "\<And>x. x \<in> set xs \<Longrightarrow> distinct (h x)" "\<And>x y. x \<in> set xs \<Longrightarrow> y \<in> set xs \<Longrightarrow> x \<noteq> y \<Longrightarrow> set (h x) \<inter> set (h y) = {}"
  shows "distinct (concat (map h xs))"
  using assms
proof (induction xs)
  case (Cons x xs)
  have "set (h x) \<inter> set (h y) = {}" if "y \<in> set xs" for y using Cons.prems(1) that by (intro Cons.prems(3)) auto
  then have "set (h x) \<inter> set (concat (map h xs)) = {}" by auto
  then show ?case using Cons by simp
qed simp

lemma build_node_ids:
  assumes "nodes_ok nodes" "i \<in> fst ` set nodes" "\<forall>j \<in> set path. (j, i) \<in> (node_edges nodes)\<^sup>+"
  shows "distinct (tree_ids (build_node nodes path i)) \<and> set (tree_ids (build_node nodes path i)) = (node_edges nodes)\<^sup>* `` {i}"
  using node_edges_wf(2)[OF assms(1)] assms(2,3)
proof (induction i arbitrary: path rule: wf_induct_rule)
  case (less i)
  let ?E = "node_edges nodes"
  let ?h = "\<lambda>c. tree_ids (build_node nodes (i # path) c)"
  have acyclic: "(j, j) \<notin> ?E\<^sup>+" for j using assms(1) by (simp add: nodes_ok_def acyclic_def)
  have children: "set (child_folder_ids nodes i) = ?E `` {i}" using less.prems(1) by (rule child_folder_ids_edges)
  have below: "\<forall>j \<in> set (i # path). (j, c) \<in> ?E\<^sup>+" if "c \<in> set (child_folder_ids nodes i)" for c
    using that less.prems(2) children by (auto intro: trancl_into_trancl)
  then have "filter (\<lambda>c. c \<notin> set (i # path)) (child_folder_ids nodes i) = child_folder_ids nodes i" using acyclic by (intro filter_True) blast
  moreover have "i \<notin> set path" using less.prems(2) acyclic by blast
  ultimately have tree: "tree_ids (build_node nodes path i) = i # concat (map ?h (child_folder_ids nodes i))"
    using less.prems(1) node_at[OF assms(1)] by (subst build_node.simps) (auto simp: comp_def Let_def)
  have sub: "distinct (?h c) \<and> set (?h c) = ?E\<^sup>* `` {c}" if c: "c \<in> set (child_folder_ids nodes i)" for c
    using c children node_edges_keys by (intro less.IH below) auto
  have "distinct (concat (map ?h (child_folder_ids nodes i)))"
  proof (rule distinct_concat_map[OF child_folder_ids_distinct[OF assms(1)]])
    fix a b assume "a \<in> set (child_folder_ids nodes i)" "b \<in> set (child_folder_ids nodes i)" "a \<noteq> b"
    then show "set (?h a) \<inter> set (?h b) = {}" using siblings_disjoint[OF assms(1)] sub children by simp
  qed (simp add: sub)
  moreover have all: "set (concat (map ?h (child_folder_ids nodes i))) = ?E\<^sup>+ `` {i}"
    using sub children by (auto intro: rtrancl_into_trancl2 dest: tranclD)
  ultimately show ?case using acyclic unfolding tree by (auto simp: rtrancl_eq_or_trancl simp del: set_concat)
qed

section \<open>Roots\<close>

lemma root_no_parent: "nodes_ok nodes \<Longrightarrow> n \<in> set nodes \<Longrightarrow> is_root nodes n \<Longrightarrow> (p, fst n) \<notin> node_edges nodes"
  by (cases n) (auto simp: node_edges_def dest: node_at)

lemma below_root: "nodes_ok nodes \<Longrightarrow> n \<in> set nodes \<Longrightarrow> is_root nodes n \<Longrightarrow> (x, fst n) \<in> (node_edges nodes)\<^sup>* \<Longrightarrow> x = fst n"
  by (metis root_no_parent rtranclE)

lemma build_roots_ids:
  assumes "nodes_ok nodes" "distinct is" "\<forall>i \<in> set is. \<exists>n \<in> set nodes. is_root nodes n \<and> fst n = i" "set is \<inter> set emitted = {}"
  shows "build_roots nodes emitted is = map (build_node nodes []) is"
  using assms(2-4)
proof (induction "is" arbitrary: emitted)
  case (Cons i ks)
  let ?ids = "tree_ids (build_node nodes [] i)"
  obtain n where n: "n \<in> set nodes" "is_root nodes n" "fst n = i" using Cons.prems(2) by auto
  have "set ?ids = (node_edges nodes)\<^sup>* `` {i}" using build_node_ids[OF assms(1), of i "[]"] n by auto
  moreover have "k \<notin> (node_edges nodes)\<^sup>* `` {i}" if k: "k \<in> set ks" for k
  proof -
    obtain m where "m \<in> set nodes" "is_root nodes m" "fst m = k" using Cons.prems(2) k by auto
    then have "(i, k) \<in> (node_edges nodes)\<^sup>* \<Longrightarrow> i = k" using below_root[OF assms(1)] by metis
    then show ?thesis using Cons.prems(1) k by auto
  qed
  ultimately have "set ks \<inter> set (?ids @ emitted) = {}" using Cons.prems(3) by auto
  then have "build_roots nodes (?ids @ emitted) ks = map (build_node nodes []) ks" using Cons.prems by (intro Cons.IH) auto
  then show ?case using Cons.prems(3) by (simp add: Let_def)
qed simp

lemma reached_from_root:
  assumes "nodes_ok nodes" "i \<in> fst ` set nodes"
  shows "\<exists>n \<in> set nodes. is_root nodes n \<and> (fst n, i) \<in> (node_edges nodes)\<^sup>*"
  using node_edges_wf(1)[OF assms(1)] assms(2)
proof (induction i rule: wf_induct_rule)
  case (less i)
  then obtain f where f: "(i, f) \<in> set nodes" by auto
  show ?case
  proof (cases "is_root nodes (i, f)")
    case False
    then have edge: "(trim (fo_parent_id f), i) \<in> node_edges nodes" using f by (auto simp: node_edges_def)
    then have "trim (fo_parent_id f) \<in> fst ` set nodes" using node_edges_keys by blast
    from less.IH[OF edge this] show ?thesis using edge by (metis rtrancl.rtrancl_into_rtrancl)
  qed (use f in force)
qed

fun tree_linked :: "folder_tree \<Rightarrow> bool" where
  "tree_linked (FolderNode f ts) \<longleftrightarrow> (\<forall>t \<in> set ts. trim (fo_parent_id (node_folder t)) = fo_id f \<and> tree_linked t)"

lemma node_folder_build [simp]: "node_folder (build_node nodes path i) = the (map_of nodes i)"
  by (subst build_node.simps) (simp add: Let_def)

text \<open>The children of every node name it as their parent.\<close>

lemma build_node_linked:
  assumes "nodes_ok nodes" "i \<in> fst ` set nodes"
  shows "tree_linked (build_node nodes path i)"
  using assms
proof (induction nodes path i rule: build_node.induct)
  case (1 nodes path i)
  have i: "fo_id (the (map_of nodes i)) = i" using 1(2,3) by (auto dest: node_at)
  have "trim (fo_parent_id (the (map_of nodes c))) = i \<and> c \<in> fst ` set nodes" if "c \<in> set (child_folder_ids nodes i)" for c
  proof -
    have edge: "(i, c) \<in> node_edges nodes" using that child_folder_ids_edges[OF 1(3)] by blast
    then obtain f where "(c, f) \<in> set nodes" "trim (fo_parent_id f) = i" by (auto simp: node_edges_def)
    then show ?thesis using node_at[OF 1(2)] edge node_edges_keys by blast
  qed
  then show ?case using 1 i by (subst build_node.simps) (auto simp: Let_def)
qed

lemma folder_nodes_map:
  assumes "distinct (map (trim \<circ> fo_id) fs)" "[] \<notin> set (map (trim \<circ> fo_id) fs)" "set (map (trim \<circ> fo_id) fs) \<inter> fst ` set nodes = {}"
  shows "folder_nodes fs nodes = nodes @ map (\<lambda>f. (trim (fo_id f), f\<lparr>fo_id := trim (fo_id f), fo_parent_id := trim (fo_parent_id f)\<rparr>)) fs"
  using assms
proof (induction fs arbitrary: nodes)
  case (Cons f fs)
  have "map_of nodes (trim (fo_id f)) = None" using Cons.prems(3) by (simp add: map_of_eq_None_iff)
  then have "AList.update (trim (fo_id f)) v nodes = nodes @ [(trim (fo_id f), v)]" for v by (induction nodes) (auto split: if_splits)
  then show ?case using Cons by (auto simp: Let_def)
qed simp

lemma folder_tree_of_nodes:
  assumes ok: "nodes_ok nodes" and nodes: "nodes = folder_nodes fs []"
  shows "distinct (concat (map tree_ids (build_folder_tree fs))) \<and> set (concat (map tree_ids (build_folder_tree fs))) = fst ` set nodes
    \<and> (\<forall>t \<in> set (build_folder_tree fs). tree_linked t \<and> (\<exists>n \<in> set nodes. is_root nodes n \<and> node_folder t = snd n))"
proof -
  let ?roots = "filter (is_root nodes) nodes"
  let ?ids = "map fst (sort_key (folder_sort_key \<circ> snd) ?roots)"
  have ids: "\<exists>n \<in> set nodes. is_root nodes n \<and> fst n = i" if "i \<in> set ?ids" for i using that by auto
  have dist: "distinct ?ids" using ok by (auto simp: nodes_ok_def distinct_map intro: inj_on_subset)
  have "nodes = []" if "?roots = []"
  proof (rule ccontr)
    assume "nodes \<noteq> []"
    then have "fst (hd nodes) \<in> fst ` set nodes" by simp
    then show False using reached_from_root[OF ok] that unfolding filter_empty_conv by blast
  qed
  then have tree: "build_folder_tree fs = map (build_node nodes []) ?ids"
    using build_roots_ids[OF ok dist] ids by (auto simp: build_folder_tree_def Let_def nodes[symmetric])
  have sub: "distinct (tree_ids (build_node nodes [] i)) \<and> set (tree_ids (build_node nodes [] i)) = (node_edges nodes)\<^sup>* `` {i}"
    if "i \<in> set ?ids" for i using that by (intro build_node_ids[OF ok]) auto
  have disjoint: "(node_edges nodes)\<^sup>* `` {a} \<inter> (node_edges nodes)\<^sup>* `` {b} = {}" if ab: "a \<in> set ?ids" "b \<in> set ?ids" "a \<noteq> b" for a b
  proof -
    obtain m n where "m \<in> set nodes" "is_root nodes m" "fst m = a" and "n \<in> set nodes" "is_root nodes n" "fst n = b"
      using ids[OF ab(1)] ids[OF ab(2)] by blast
    then have "(a, b) \<notin> (node_edges nodes)\<^sup>*" "(b, a) \<notin> (node_edges nodes)\<^sup>*" using below_root[OF ok] ab(3) by metis+
    then show ?thesis using common_descendant[OF ok, of a _ b] by blast
  qed
  have "distinct (concat (map (\<lambda>i. tree_ids (build_node nodes [] i)) ?ids))"
    by (rule distinct_concat_map[OF dist]) (use sub disjoint in blast)+
  moreover have "set (concat (map (\<lambda>i. tree_ids (build_node nodes [] i)) ?ids)) = fst ` set nodes"
  proof (intro equalityI subsetI)
    fix x assume "x \<in> set (concat (map (\<lambda>i. tree_ids (build_node nodes [] i)) ?ids))"
    then obtain i where i: "i \<in> set ?ids" and x: "x \<in> set (tree_ids (build_node nodes [] i))"
      unfolding set_concat set_map by blast
    have "(i, x) \<in> (node_edges nodes)\<^sup>*" using sub[OF i] x by simp
    then show "x \<in> fst ` set nodes" using ids[OF i] node_edges_keys by (cases rule: rtranclE) auto
  next
    fix x assume "x \<in> fst ` set nodes"
    then obtain n where "n \<in> set nodes" "is_root nodes n" "(fst n, x) \<in> (node_edges nodes)\<^sup>*" using reached_from_root[OF ok] by blast
    then have "fst n \<in> set ?ids" "x \<in> set (tree_ids (build_node nodes [] (fst n)))" using sub[of "fst n"] by simp_all
    then show "x \<in> set (concat (map (\<lambda>i. tree_ids (build_node nodes [] i)) ?ids))" unfolding set_concat set_map by blast
  qed
  moreover have "tree_linked (build_node nodes [] i) \<and> (\<exists>n \<in> set nodes. is_root nodes n \<and> node_folder (build_node nodes [] i) = snd n)"
    if "i \<in> set ?ids" for i
    using ids[OF that] build_node_linked[OF ok, of i "[]"] ok by (auto simp: nodes_ok_def)
  ultimately show ?thesis unfolding tree by (simp only: map_map comp_def set_map ball_simps) blast
qed

section \<open>The forest of the tables\<close>

lemma folder_of_row_fields: "folder_of_row r tags = Inr f \<Longrightarrow> fo_id f = trim (fr_id r) \<and> fo_parent_id f = trim (string_of_id (fr_parent_id r))"
  by (auto simp: folder_of_row_def folder_normalize_def Let_def split: option.splits)

lemma load_folders_Inr:
  assumes "load_folders rows d = (Inr fs, d')"
  shows "map fo_id fs = map (trim \<circ> fr_id) rows \<and> map fo_parent_id fs = map (\<lambda>r. trim (string_of_id (fr_parent_id r))) rows"
  using assms folder_of_row_fields unfolding load_folders_def
  by (auto simp: bindp_Inr_iff fromp_Inr_iff mapM_sum_Inr_iff intro!: nth_equalityI)

lemma forest_nodes_ok:
  assumes forest: "forest_ok rs" and rows: "distinct rows" "set rows = {r \<in> set rs. live_folder r}"
    and ids: "map fo_id fs = map (trim \<circ> fr_id) rows" and parents: "map fo_parent_id fs = map (\<lambda>r. trim (string_of_id (fr_parent_id r))) rows"
  shows "nodes_ok (folder_nodes fs []) \<and> fst ` set (folder_nodes fs []) = live_folder_ids rs
    \<and> (\<forall>n \<in> set (folder_nodes fs []). is_root (folder_nodes fs []) n \<longrightarrow> fo_parent_id (snd n) = [])"
proof -
  have live: "trim (fr_id r) = fr_id r \<and> fr_id r \<noteq> []" if "r \<in> set rows" for r
    using live_id_ok[OF forest live_folder_idsI] that rows by auto
  then have ids': "map (trim \<circ> fo_id) fs = map fr_id rows"
    using arg_cong[OF ids, of "map trim"] by (auto simp: comp_def)
  have "inj_on fr_id (set rows)" using same_row forest rows(2) by (auto simp: forest_ok_def inj_on_def)
  then have dist: "distinct (map (trim \<circ> fo_id) fs)" unfolding ids' by (simp add: distinct_map rows(1))
  have nonempty: "[] \<notin> set (map (trim \<circ> fo_id) fs)" unfolding ids' using live by force
  let ?nodes = "folder_nodes fs []"
  have nodes: "?nodes = map (\<lambda>f. (trim (fo_id f), f\<lparr>fo_id := trim (fo_id f), fo_parent_id := trim (fo_parent_id f)\<rparr>)) fs"
    using folder_nodes_map[OF dist nonempty, of "[]"] by simp
  have keys: "fst ` set ?nodes = live_folder_ids rs"
    using arg_cong[OF ids', of set] rows(2) by (simp add: nodes image_image live_folder_ids_def)
  have node: "\<exists>r \<in> set rows. fst n = fr_id r \<and> fo_parent_id (snd n) = trim (string_of_id (fr_parent_id r))" if n: "n \<in> set ?nodes" for n
  proof -
    obtain k where k: "k < length fs" "n = (trim (fo_id (fs ! k)), (fs ! k)\<lparr>fo_id := trim (fo_id (fs ! k)), fo_parent_id := trim (fo_parent_id (fs ! k))\<rparr>)"
      using n unfolding nodes by (auto simp: in_set_conv_nth)
    moreover have "length fs = length rows" using ids by (rule map_eq_imp_length_eq)
    moreover have "trim (fo_id (fs ! k)) = fr_id (rows ! k)" "fo_parent_id (fs ! k) = trim (string_of_id (fr_parent_id (rows ! k)))"
      using arg_cong[OF ids', of "\<lambda>l. l ! k"] arg_cong[OF parents, of "\<lambda>l. l ! k"] k(1) \<open>length fs = length rows\<close> by simp_all
    ultimately show ?thesis by auto
  qed
  have parent: "fo_parent_id (snd n) = [] \<or> (fo_parent_id (snd n), fst n) \<in> parent_rel rs" if n: "n \<in> set ?nodes" for n
  proof -
    obtain r where r: "r \<in> set rows" "fst n = fr_id r" "fo_parent_id (snd n) = trim (string_of_id (fr_parent_id r))" using node[OF n] by blast
    show ?thesis
    proof (cases "fr_parent_id r")
      case (Some p)
      then have "(p, fr_id r) \<in> parent_rel rs" using parent_relI r(1) rows(2) by simp
      moreover have "trim p = p" using calculation parent_is_live[OF forest] live_id_ok[OF forest] by blast
      ultimately show ?thesis using r Some by (simp add: string_of_id_def)
    qed (use r in \<open>simp add: string_of_id_def\<close>)
  qed
  have trimmed: "trim (fo_parent_id (snd n)) = fo_parent_id (snd n)" if "n \<in> set ?nodes" for n
    using node[OF that] by auto
  have edges: "node_edges ?nodes \<subseteq> parent_rel rs"
    using parent trimmed by (fastforce simp: node_edges_def is_root_def Let_def)
  have acyclic: "acyclic (parent_rel rs)" and distinct: "(k, k) \<notin> parent_rel rs" for k
    using forest by (auto simp: forest_ok_def acyclic_def)
  have "nodes_ok ?nodes"
    using dist acyclic_subset[OF acyclic edges] by (auto simp: nodes_ok_def nodes comp_def)
  moreover have "fo_parent_id (snd n) = []" if n: "n \<in> set ?nodes" "is_root ?nodes n" for n
    using parent[OF n(1)] parent_is_live[OF forest] keys distinct[of "fst n"] n(2) trimmed[OF n(1)] by (auto simp: is_root_def Let_def)
  ultimately show ?thesis using keys by blast
qed

lemma through_assets_Inr: "on_assets m w = (Inr x, w') \<longleftrightarrow> (\<exists>d. m (aw_db w) = (Inr x, d) \<and> w' = put_assets d w)"
  by (auto simp: through_def split: prod.split)

text \<open>C36: When the tree of folders is read from tables that keep the invariant, it holds every live folder exactly once,
  the nodes at the top are the folders without parent, and below every node stand folders that name it as their parent.\<close>

theorem folder_tree_complete:
  assumes "assets_ok (aw_db w)" "get_folder_tree w = (Inr ts, w')"
  shows "w' = w \<and> distinct (concat (map tree_ids ts)) \<and> set (concat (map tree_ids ts)) = live_folder_ids (ad_folders (aw_db w))
    \<and> (\<forall>t \<in> set ts. tree_linked t \<and> fo_parent_id (node_folder t) = [])"
proof -
  define rows where "rows = sort_key (\<lambda>r. (case fr_parent_id r of None \<Rightarrow> (0::nat, []) | Some p \<Rightarrow> (1, p), fr_name r, fr_id r))
    (filter live_folder (ad_folders (aw_db w)))"
  have forest: "forest_ok (ad_folders (aw_db w))" using assms(1) by (simp add: assets_ok_def)
  have reading: "readonly get_folder_tree" unfolding get_folder_tree_def
    by (intro readonly_bindp readonly_wrap_err readonly_on_assets readonly_asset_lists readonly_basic)
  have w': "w' = w" by (rule same_db[OF reading assms(2)])
  obtain fs d' where all: "all_folders (aw_db w) = (Inr fs, d')" and ts: "ts = build_folder_tree fs"
    using assms(2) by (cases "all_folders (aw_db w)", cases "fst (all_folders (aw_db w))") (auto simp: get_folder_tree_def through_def prog_simps)
  have fs: "load_folders rows (aw_db w) = (Inr fs, d')"
    using all by (simp add: all_folders_def rows_def bindp_def asset_stmt_def getp_def split: if_splits)
  have rows: "distinct rows" "set rows = {r \<in> set (ad_folders (aw_db w)). live_folder r}"
    using forest by (auto simp: rows_def forest_ok_def distinct_map)
  have nodes: "nodes_ok (folder_nodes fs [])" "fst ` set (folder_nodes fs []) = live_folder_ids (ad_folders (aw_db w))"
      "\<forall>n \<in> set (folder_nodes fs []). is_root (folder_nodes fs []) n \<longrightarrow> fo_parent_id (snd n) = []"
    using forest_nodes_ok[OF forest rows] load_folders_Inr[OF fs] by auto
  show ?thesis using folder_tree_of_nodes[OF nodes(1) refl] nodes(2,3) unfolding ts w' by (metis (no_types, lifting))
qed

text \<open>A folder in a folder.\<close>

definition row_t :: folder_row where
  "row_t = \<lparr>fr_id = ''t'', fr_name = ''A'', fr_slug = ''a'', fr_parent_id = None, fr_created_at = 1, fr_updated_at = 1, fr_deleted_at = None\<rparr>"

definition row_u :: folder_row where
  "row_u = \<lparr>fr_id = ''u'', fr_name = ''B'', fr_slug = ''b'', fr_parent_id = Some ''t'', fr_created_at = 1, fr_updated_at = 1, fr_deleted_at = None\<rparr>"

definition nested_folders :: assets_world where
  "nested_folders = sample_assets\<lparr>aw_db := (aw_db sample_assets)\<lparr>ad_folders := [row_u, row_t]\<rparr>\<rparr>"

lemma nested_folders_ok: "assets_ok (aw_db nested_folders)"
proof -
  have "parent_rel (ad_folders (aw_db nested_folders)) = {(''t'', ''u'')}"
    by (auto simp: parent_rel_def nested_folders_def live_folder_def row_t_def row_u_def)
  moreover have "acyclic {(''t'', ''u'')}"  by (auto simp: acyclic_def trancl_insert)
  moreover have "trim ''t'' = ''t'' \<and> trim ''u'' = ''u'' \<and> trim ''a'' = ''a'' \<and> trim ''b'' = ''b''" by code_simp
  moreover have "{r \<in> set [row_u, row_t]. live_folder r} = {row_u, row_t}" by (auto simp: live_folder_def row_t_def row_u_def)
  then have "live_folder_ids (ad_folders (aw_db nested_folders)) = {''t'', ''u''}"
    by (auto simp: live_folder_ids_def nested_folders_def row_t_def row_u_def)
  ultimately have "forest_ok (ad_folders (aw_db nested_folders))" unfolding forest_ok_def
    by (simp add: nested_folders_def row_t_def row_u_def live_folder_def folder_row_ok_def siblings_differ_def)
  moreover have "assets_ok (aw_db sample_assets)" using sample_assets_ok by (simp add: assets_world_ok_def)
  ultimately show ?thesis
    by (simp add: assets_ok_def nested_folders_def sample_assets_def tag_rows_ok_def asset_rows_ok_def)
qed

definition folder_t :: folder where
  "folder_t = \<lparr>fo_id = ''t'', fo_name = ''A'', fo_slug = ''a'', fo_parent_id = [], fo_tags = [], fo_created_at = 1, fo_updated_at = 1,
     fo_is_deleted = False, fo_deleted_at = None\<rparr>"

definition folder_u :: folder where
  "folder_u = \<lparr>fo_id = ''u'', fo_name = ''B'', fo_slug = ''b'', fo_parent_id = ''t'', fo_tags = [], fo_created_at = 1, fo_updated_at = 1,
     fo_is_deleted = False, fo_deleted_at = None\<rparr>"

lemma nested_rows: "folder_of_row row_t [] = Inr folder_t" "folder_of_row row_u [] = Inr folder_u"
  by code_simp+

lemma nested_built: "map tree_ids (build_folder_tree [folder_t, folder_u]) = [[''t'', ''u'']]"
  by code_simp

lemma nested_tree: "get_folder_tree nested_folders = (Inr (build_folder_tree [folder_t, folder_u]), nested_folders)"
proof -
  have "sort_key (\<lambda>r. (case fr_parent_id r of None \<Rightarrow> (0::nat, []) | Some p \<Rightarrow> (1, p), fr_name r, fr_id r)) [row_u, row_t] = [row_t, row_u]"
    by (simp add: row_t_def row_u_def)
  moreover have "filter live_folder [row_u, row_t] = [row_u, row_t]" by (simp add: row_t_def row_u_def live_folder_def)
  ultimately show ?thesis
    by (simp add: get_folder_tree_def all_folders_def load_folders_def load_folder_tags_def nested_folders_def sample_assets_def asset_stmt_def
        tags_of_def through_def put_assets_def prog_simps nested_rows)
qed

theorem folder_tree_complete_witness:
  "let ts = build_folder_tree [folder_t, folder_u] in get_folder_tree nested_folders = (Inr ts, nested_folders)
    \<and> map tree_ids ts = [[''t'', ''u'']] \<and> live_folder_ids (ad_folders (aw_db nested_folders)) = {''t'', ''u''}"
  using folder_tree_complete[OF nested_folders_ok nested_tree] nested_tree nested_built by (simp add: Let_def)

section \<open>A rename that makes every tree fail\<close>

lemma find_unique: "x \<in> set xs \<Longrightarrow> P x \<Longrightarrow> (\<And>y. y \<in> set xs \<Longrightarrow> P y \<Longrightarrow> y = x) \<Longrightarrow> find P xs = Some x"
  by (metis (no_types, lifting) find_None_iff find_Some_iff not_None_eq nth_mem)

lemma folder_of_row_no_slug:
  assumes "fr_slug r = []" "build_folder_slug (trim (fr_name r)) = []" "trim (fr_name r) \<noteq> []"
  shows "folder_of_row r tags = Inl (Err ErrFolderSlugInvalid)"
  using assms by (simp add: folder_of_row_def folder_normalize_def folder_validate_def to_lower_def Let_def)

lemma unreadable_folder_no_tree:
  assumes "r \<in> set (ad_folders (aw_db w))" "live_folder r" "\<And>tags. folder_of_row r tags = Inl e"
  shows "fst (get_folder_tree w) \<noteq> Inr ts"
proof -
  have fails: "mapM_sum g rows \<noteq> Inr fs" if "r \<in> set rows" "g r = Inl e" for rows g and fs :: "folder list"
    using that by (auto simp: mapM_sum_Inr_iff in_set_conv_nth)
  then have loads: "fst (load_folders rows (aw_db w)) \<noteq> Inr fs" if "r \<in> set rows" for rows fs
  proof -
    have "rows \<noteq> []" using that by auto
    then show ?thesis using assms(3) fails[OF that] by (simp add: load_folders_def load_folder_tags_def asset_stmt_def prog_simps)
  qed
  have all: "fst (all_folders (aw_db w)) \<noteq> Inr fs" for fs
    using assms(1,2) loads by (simp add: all_folders_def asset_stmt_def prog_simps)
  show ?thesis
  proof (cases "all_folders (aw_db w)")
    case (Pair x d)
    then obtain e where "x = Inl e" using all by (cases x) auto
    then show ?thesis using Pair by (simp add: get_folder_tree_def through_def prog_simps)
  qed
qed

lemma rename_unslugged:
  assumes healthy: "\<And>l. \<not> ad_fault d l" and slugs: "\<forall>x \<in> set (ad_folders d). fr_slug x \<noteq> []" and found: "find_folder i (ad_folders d) = Some old"
    and name: "trim n \<noteq> []" "build_folder_slug (trim n) = []"
  defines "r \<equiv> old\<lparr>fr_name := trim n, fr_slug := [], fr_updated_at := ad_clock d\<rparr>"
  shows "folder_update i \<lparr>fu_name = Some n, fu_parent_id = None, fu_tags = None\<rparr> d
    = (Inl (Err ErrFolderSlugInvalid), d\<lparr>ad_folders := replace_folder r (ad_folders d)\<rparr>)"
proof -
  let ?u = "\<lparr>fu_name = Some n, fu_parent_id = None, fu_tags = None\<rparr>"
  let ?r = "old\<lparr>fr_name := trim n, fr_slug := []\<rparr>"
  have old: "live_folder old" "fr_id old = trim i" "old \<in> set (ad_folders d)" using find_folder_Some[OF found] by auto
  have renamed: "renamed_folder ?u old = ?r" using name(2) by (simp add: renamed_folder_def)
  have free: "slug_taken p [] x d = (Inr False, d)" for p x
    using healthy slugs trim_Nil by (auto simp: slug_taken_def asset_stmt_def prog_simps list_ex_iff)
  have index: "violated_folder_index ?r (filter (\<lambda>x. fr_id x \<noteq> fr_id old) (ad_folders d)) = None"
    using slugs by (auto simp: violated_folder_index_def)
  have save: "save_folder ?r d = (Inr (), d\<lparr>ad_folders := replace_folder r (ad_folders d)\<rparr>)"
    using healthy index by (simp add: save_folder_def write_folder_def asset_stmt_def replace_folder_def r_def)
  have "r \<in> set (replace_folder r (ad_folders d))" using old by (force simp: replace_folder_def r_def)
  moreover have "fr_id x = trim i \<Longrightarrow> live_folder x \<Longrightarrow> x = r" if "x \<in> set (replace_folder r (ad_folders d))" for x
    using that old(2) by (auto simp: replace_folder_def r_def split: if_splits)
  moreover have "live_folder r" "fr_id r = trim i" using old by (auto simp: r_def live_folder_def)
  ultimately have again: "find_folder i (replace_folder r (ad_folders d)) = Some r"
    unfolding find_folder_def by (intro find_unique) auto
  have "folder_of_row r tags = Inl (Err ErrFolderSlugInvalid)" for tags
    using name by (intro folder_of_row_no_slug) (simp_all add: r_def)
  then have read: "folder_by_id (trim i) (d\<lparr>ad_folders := replace_folder r (ad_folders d)\<rparr>)
      = (Inl (Err ErrFolderSlugInvalid), d\<lparr>ad_folders := replace_folder r (ad_folders d)\<rparr>)"
    using healthy again by (simp add: folder_by_id_def load_folder_tags_def asset_stmt_def prog_simps find_folder_def)
  show ?thesis unfolding folder_update_def using healthy found free save read
    by (simp add: asset_stmt_def prog_simps renamed moved_folder_def)
qed

text \<open>C37: While every row has a slug and no statement fails, renaming a folder to a name without letters and digits stores
  the folder with an empty slug although the call reports an error, and from then on the tree of folders cannot be read.\<close>

theorem unslugged_rename_hides_tree:
  assumes "\<forall>l. \<not> ad_fault (aw_db w) l" "\<forall>x \<in> set (ad_folders (aw_db w)). fr_slug x \<noteq> []"
    and "i \<noteq> []" "trim i = i" "find_folder i (ad_folders (aw_db w)) = Some old" "trim n \<noteq> []" "build_folder_slug (trim n) = []"
  shows "\<exists>w'. update_folder i \<lparr>fu_name = Some n, fu_parent_id = None, fu_tags = None\<rparr> w
      = (Inl (Wrapped ''update asset folder'' (Err ErrFolderSlugInvalid)), w')
    \<and> find_folder i (ad_folders (aw_db w')) \<noteq> None \<and> fst (get_folder_tree w') \<noteq> Inr ts"
proof -
  let ?u = "\<lparr>fu_name = Some n, fu_parent_id = None, fu_tags = None\<rparr>"
  let ?r = "old\<lparr>fr_name := trim n, fr_slug := [], fr_updated_at := ad_clock (aw_db w)\<rparr>"
  let ?d = "(aw_db w)\<lparr>ad_folders := replace_folder ?r (ad_folders (aw_db w))\<rparr>"
  have run: "folder_update i ?u (aw_db w) = (Inl (Err ErrFolderSlugInvalid), ?d)"
    using assms by (intro rename_unslugged) auto
  have r: "?r \<in> set (ad_folders ?d)" "live_folder ?r" "fr_id ?r = i" using find_folder_Some[OF assms(5)] assms(4) by (force simp: replace_folder_def live_folder_def)+
  then have "find_folder i (ad_folders ?d) \<noteq> None" using assms(4) by (auto simp: find_folder_def find_None_iff)
  moreover have "fst (get_folder_tree (put_assets ?d w)) \<noteq> Inr ts"
    using r assms(6,7) by (intro unreadable_folder_no_tree[of ?r]) (auto intro: folder_of_row_no_slug)
  moreover have "update_folder i ?u w = (Inl (Wrapped ''update asset folder'' (Err ErrFolderSlugInvalid)), put_assets ?d w)"
    using assms(3,4,6) by (simp add: update_folder_def through_def run prog_simps)
  ultimately show ?thesis by (intro exI[of _ "put_assets ?d w"]) simp
qed

theorem unslugged_rename_hides_tree_witness:
  "\<exists>w'. update_folder ''u'' \<lparr>fu_name = Some ''!!!'', fu_parent_id = None, fu_tags = None\<rparr> nested_folders
      = (Inl (Wrapped ''update asset folder'' (Err ErrFolderSlugInvalid)), w')
    \<and> find_folder ''u'' (ad_folders (aw_db w')) \<noteq> None \<and> fst (get_folder_tree w') \<noteq> Inr []"
proof -
  have name: "trim ''!!!'' \<noteq> []" "build_folder_slug (trim ''!!!'') = []" "trim ''u'' = ''u''" by code_simp+
  then show ?thesis
    by (intro unslugged_rename_hides_tree[where old = row_u])
      (simp_all add: nested_folders_def sample_assets_def find_folder_def row_u_def row_t_def live_folder_def)
qed

end
