(* ===== verification/Keyed_Lock.thy ===== *)
theory Keyed_Lock
  imports Go_Prelude
begin

text \<open>
  The keyed lock of the assets service (\<^verbatim>\<open>module/assets/application/service_lock.go\<close>) under every interleaving of
  goroutines: a map from keys to counted mutexes, guarded by one more mutex.

  A \<^verbatim>\<open>lockRef\<close> is an address; a goroutine is a number. Between two of its steps a goroutine is in one of the phases
  below: waiting for \<^verbatim>\<open>mu\<close>, holding it, waiting for the mutex of its key, inside, or on its way out.
\<close>

datatype lock_phase = Idle | Wanting string | Entering string | Waiting string nat | Inside string nat
  | Leaving string nat | Releasing string nat

record lock_state =
  kl_mu :: "nat option"
  kl_items :: "string \<rightharpoonup> nat"
  kl_refs :: "nat \<Rightarrow> nat"
  kl_held :: "nat \<Rightarrow> nat option"
  kl_next :: nat
  kl_phase :: "nat \<Rightarrow> lock_phase"

definition new_keyed_locker :: lock_state where
  "new_keyed_locker = \<lparr>kl_mu = None, kl_items = Map.empty, kl_refs = (\<lambda>_. 0), kl_held = (\<lambda>_. None), kl_next = 0, kl_phase = (\<lambda>_. Idle)\<rparr>"

text \<open>The section of \<^verbatim>\<open>Lock\<close> under \<^verbatim>\<open>mu\<close>, and that of the unlock function.\<close>

definition register_key :: "nat \<Rightarrow> string \<Rightarrow> lock_state \<Rightarrow> lock_state" where
  "register_key t k s = (case kl_items s k of
     Some a \<Rightarrow> s\<lparr>kl_mu := None, kl_refs := (kl_refs s)(a := kl_refs s a + 1), kl_phase := (kl_phase s)(t := Waiting k a)\<rparr>
   | None \<Rightarrow> (let a = kl_next s in s\<lparr>kl_mu := None, kl_items := (kl_items s)(k \<mapsto> a), kl_refs := (kl_refs s)(a := 1),
       kl_held := (kl_held s)(a := None), kl_next := Suc a, kl_phase := (kl_phase s)(t := Waiting k a)\<rparr>))"

definition release_key :: "nat \<Rightarrow> string \<Rightarrow> nat \<Rightarrow> lock_state \<Rightarrow> lock_state" where
  "release_key t k a s = (let n = kl_refs s a - 1 in s\<lparr>kl_mu := None, kl_refs := (kl_refs s)(a := n),
     kl_items := (if n = 0 then (kl_items s)(k := None) else kl_items s), kl_phase := (kl_phase s)(t := Idle)\<rparr>)"

inductive lock_step :: "nat \<Rightarrow> lock_state \<Rightarrow> lock_state \<Rightarrow> bool" for t where
  enter: "kl_phase s t = Wanting k \<Longrightarrow> kl_mu s = None
    \<Longrightarrow> lock_step t s (s\<lparr>kl_mu := Some t, kl_phase := (kl_phase s)(t := Entering k)\<rparr>)"
| register: "kl_phase s t = Entering k \<Longrightarrow> lock_step t s (register_key t k s)"
| acquire: "kl_phase s t = Waiting k a \<Longrightarrow> kl_held s a = None
    \<Longrightarrow> lock_step t s (s\<lparr>kl_held := (kl_held s)(a := Some t), kl_phase := (kl_phase s)(t := Inside k a)\<rparr>)"
| unlock: "kl_phase s t = Inside k a
    \<Longrightarrow> lock_step t s (s\<lparr>kl_held := (kl_held s)(a := None), kl_phase := (kl_phase s)(t := Leaving k a)\<rparr>)"
| reenter: "kl_phase s t = Leaving k a \<Longrightarrow> kl_mu s = None
    \<Longrightarrow> lock_step t s (s\<lparr>kl_mu := Some t, kl_phase := (kl_phase s)(t := Releasing k a)\<rparr>)"
| release: "kl_phase s t = Releasing k a \<Longrightarrow> lock_step t s (release_key t k a s)"

text \<open>A goroutine may ask for any key at any time.\<close>

definition call_lock :: "nat \<Rightarrow> string \<Rightarrow> lock_state \<Rightarrow> lock_state" where
  "call_lock t k s = s\<lparr>kl_phase := (kl_phase s)(t := Wanting k)\<rparr>"

inductive lock_reachable :: "lock_state \<Rightarrow> bool" where
  start: "lock_reachable new_keyed_locker"
| call: "lock_reachable s \<Longrightarrow> kl_phase s t = Idle \<Longrightarrow> lock_reachable (call_lock t k s)"
| step: "lock_reachable s \<Longrightarrow> lock_step t s s' \<Longrightarrow> lock_reachable s'"

section \<open>The invariant\<close>

text \<open>The counted mutex a goroutine holds a reference to.\<close>

fun phase_ref :: "lock_phase \<Rightarrow> (string \<times> nat) option" where
  "phase_ref (Waiting k a) = Some (k, a)"
| "phase_ref (Inside k a) = Some (k, a)"
| "phase_ref (Leaving k a) = Some (k, a)"
| "phase_ref (Releasing k a) = Some (k, a)"
| "phase_ref _ = None"

fun has_mu :: "lock_phase \<Rightarrow> bool" where
  "has_mu (Entering k) = True"
| "has_mu (Releasing k a) = True"
| "has_mu _ = False"

definition users :: "lock_state \<Rightarrow> string \<Rightarrow> nat \<Rightarrow> nat set" where
  "users s k a = {t. phase_ref (kl_phase s t) = Some (k, a)}"

definition lock_ok :: "lock_state \<Rightarrow> bool" where
  "lock_ok s \<longleftrightarrow> finite {t. kl_phase s t \<noteq> Idle}
     \<and> (\<forall>t. kl_mu s = Some t \<longleftrightarrow> has_mu (kl_phase s t))
     \<and> (\<forall>t k a. phase_ref (kl_phase s t) = Some (k, a) \<longrightarrow> kl_items s k = Some a)
     \<and> (\<forall>k a. kl_items s k = Some a \<longrightarrow> a < kl_next s \<and> 0 < kl_refs s a \<and> kl_refs s a = card (users s k a))
     \<and> (\<forall>k k' a. kl_items s k = Some a \<longrightarrow> kl_items s k' = Some a \<longrightarrow> k = k')
     \<and> (\<forall>a t. kl_held s a = Some t \<longleftrightarrow> (\<exists>k. kl_phase s t = Inside k a))"

lemma lock_okI:
  assumes "finite {t. kl_phase s t \<noteq> Idle}" "\<And>t. kl_mu s = Some t \<longleftrightarrow> has_mu (kl_phase s t)"
    and "\<And>t k a. phase_ref (kl_phase s t) = Some (k, a) \<Longrightarrow> kl_items s k = Some a"
    and "\<And>k a. kl_items s k = Some a \<Longrightarrow> a < kl_next s \<and> 0 < kl_refs s a \<and> kl_refs s a = card (users s k a)"
    and "\<And>k k' a. kl_items s k = Some a \<Longrightarrow> kl_items s k' = Some a \<Longrightarrow> k = k'"
    and "\<And>a t. kl_held s a = Some t \<longleftrightarrow> (\<exists>k. kl_phase s t = Inside k a)"
  shows "lock_ok s"
  using assms unfolding lock_ok_def by blast

lemma lock_ok_facts:
  assumes "lock_ok s"
  shows finite_busy: "finite {t. kl_phase s t \<noteq> Idle}" and mu_iff: "kl_mu s = Some t \<longleftrightarrow> has_mu (kl_phase s t)"
    and ref_item: "phase_ref (kl_phase s t) = Some (k, a) \<Longrightarrow> kl_items s k = Some a"
    and item_address: "kl_items s k = Some a \<Longrightarrow> a < kl_next s"
    and item_count: "kl_items s k = Some a \<Longrightarrow> 0 < kl_refs s a \<and> kl_refs s a = card (users s k a)"
    and item_inj: "kl_items s k = Some a \<Longrightarrow> kl_items s k' = Some a \<Longrightarrow> k = k'"
    and held_iff: "kl_held s a = Some t \<longleftrightarrow> (\<exists>k. kl_phase s t = Inside k a)"
  using assms unfolding lock_ok_def by blast+

lemma finite_users: "lock_ok s \<Longrightarrow> finite (users s k a)"
  by (rule finite_subset[OF _ finite_busy]) (auto simp: users_def)

lemma lock_ok_start: "lock_ok new_keyed_locker"
  by (simp add: lock_ok_def new_keyed_locker_def)

text \<open>A step that changes neither the map, the counts nor the reference of the goroutine.\<close>

lemma lock_ok_phase:
  assumes ok: "lock_ok s" and "kl_items s' = kl_items s" "kl_refs s' = kl_refs s" "kl_next s' = kl_next s"
    and "kl_phase s' = (kl_phase s)(t := p)" "phase_ref p = phase_ref (kl_phase s t)"
    and "\<And>u. kl_mu s' = Some u \<longleftrightarrow> has_mu (kl_phase s' u)" "\<And>a u. kl_held s' a = Some u \<longleftrightarrow> (\<exists>k. kl_phase s' u = Inside k a)"
  shows "lock_ok s'"
proof (rule lock_okI)
  have ref: "phase_ref (kl_phase s' u) = phase_ref (kl_phase s u)" for u using assms(5,6) by simp
  then have users: "users s' = users s" by (intro ext) (simp add: users_def)
  have "{u. kl_phase s' u \<noteq> Idle} \<subseteq> insert t {u. kl_phase s u \<noteq> Idle}" using assms(5) by auto
  then show "finite {u. kl_phase s' u \<noteq> Idle}" using finite_busy[OF ok] by (auto intro: finite_subset)
  show "kl_items s' k = Some a" if "phase_ref (kl_phase s' u) = Some (k, a)" for u k a
    using ref_item[OF ok, of u k a] that unfolding ref assms(2) .
  show "a < kl_next s' \<and> 0 < kl_refs s' a \<and> kl_refs s' a = card (users s' k a)" if "kl_items s' k = Some a" for k a
    using item_address[OF ok] item_count[OF ok] that unfolding assms(2,3,4) users by blast
  show "k = k'" if "kl_items s' k = Some a" "kl_items s' k' = Some a" for k k' a
    using item_inj[OF ok] that unfolding assms(2) .
qed (fact assms(7,8))+

lemma lock_ok_register:
  assumes ok: "lock_ok s" and t: "kl_phase s t = Entering k"
  shows "lock_ok (register_key t k s)"
proof (rule lock_okI)
  let ?s = "register_key t k s"
  define a where "a = (case kl_items s k of Some a \<Rightarrow> a | None \<Rightarrow> kl_next s)"
  have phase: "kl_phase ?s = (kl_phase s)(t := Waiting k a)" and mu: "kl_mu ?s = None"
    and items: "kl_items ?s = (kl_items s)(k \<mapsto> a)"
    by (auto simp: register_key_def a_def Let_def split: option.split)
  have "{u. kl_phase ?s u \<noteq> Idle} \<subseteq> insert t {u. kl_phase s u \<noteq> Idle}" by (auto simp: phase)
  then show "finite {u. kl_phase ?s u \<noteq> Idle}" using finite_busy[OF ok] by (auto intro: finite_subset)
  have owner: "kl_mu s = Some u \<longleftrightarrow> has_mu (kl_phase s u)" for u by (rule mu_iff[OF ok])
  have "kl_mu s = Some t" using owner[of t] t by simp
  then have "has_mu (kl_phase s u) \<longleftrightarrow> u = t" for u using owner[of u] by auto
  then show "kl_mu ?s = Some u \<longleftrightarrow> has_mu (kl_phase ?s u)" for u by (simp add: mu phase)
  have known: "phase_ref (kl_phase s u) = Some (k', b) \<Longrightarrow> kl_items s k' = Some b" for u k' b by (rule ref_item[OF ok])
  have same: "kl_items s k' = Some b \<Longrightarrow> b = a \<longleftrightarrow> k' = k" for k' b
    using item_inj[OF ok, of k' b k] item_address[OF ok, of k' b] by (auto simp: a_def split: option.splits)
  show "kl_items ?s k' = Some b" if "phase_ref (kl_phase ?s u) = Some (k', b)" for u k' b
    using that known[of u k' b] same[of k' b] by (auto simp: phase items split: if_splits)
  have users: "users ?s k' b = (if k' = k \<and> b = a then insert t (users s k' b) else users s k' b)" for k' b
    using t by (auto simp: users_def phase)
  have new: "t \<notin> users s k' b" for k' b using t by (simp add: users_def)
  show "b < kl_next ?s \<and> 0 < kl_refs ?s b \<and> kl_refs ?s b = card (users ?s k' b)" if it: "kl_items ?s k' = Some b" for k' b
  proof (cases "k' = k")
    case True
    then have b: "b = a" using it items by simp
    show ?thesis
    proof (cases "kl_items s k")
      case None
      then have "users s k a = {}" using known[of _ k a] by (auto simp: users_def)
      then have "card (users ?s k a) = 1" by (simp add: users)
      then show ?thesis using None True b by (simp add: register_key_def a_def Let_def)
    next
      case (Some c)
      then have "c = a" by (simp add: a_def)
      then have "card (users ?s k a) = kl_refs s a + 1"
        using Some item_count[OF ok, of k a] new finite_users[OF ok] by (simp add: users)
      then show ?thesis using Some True b \<open>c = a\<close> item_address[OF ok, of k a] by (simp add: register_key_def)
    qed
  next
    case False
    then have old: "kl_items s k' = Some b" using it items by simp
    then have "b \<noteq> a" using same False by simp
    have "users ?s k' b = users s k' b" using False by (simp add: users)
    moreover have "kl_refs ?s b = kl_refs s b" "kl_next s \<le> kl_next ?s"
      using \<open>b \<noteq> a\<close> by (auto simp: register_key_def a_def Let_def split: option.splits)
    ultimately show ?thesis using item_address[OF ok old] item_count[OF ok old] by simp
  qed
  show "k' = k''" if "kl_items ?s k' = Some b" "kl_items ?s k'' = Some b" for k' k'' b
    using that item_inj[OF ok, of k' b k''] same[of k' b] same[of k'' b] by (auto simp: items split: if_splits)
  have held: "kl_held s b = Some u \<longleftrightarrow> (\<exists>k'. kl_phase s u = Inside k' b)" for b u by (rule held_iff[OF ok])
  have "kl_held ?s b = kl_held s b" for b
  proof (cases "kl_items s k")
    case None
    have "kl_phase s u \<noteq> Inside k' (kl_next s)" for u k'
      using known[of u k' "kl_next s"] item_address[OF ok, of k' "kl_next s"] by auto
    then have "kl_held s (kl_next s) = None" using held by (metis not_None_eq)
    then show ?thesis using None by (simp add: register_key_def Let_def)
  qed (simp add: register_key_def)
  then show "kl_held ?s b = Some u \<longleftrightarrow> (\<exists>k'. kl_phase ?s u = Inside k' b)" for b u
    using held t by (auto simp: phase)
qed

lemma lock_ok_release:
  assumes ok: "lock_ok s" and t: "kl_phase s t = Releasing k a"
  shows "lock_ok (release_key t k a s)"
proof (rule lock_okI)
  let ?s = "release_key t k a s"
  have fields: "kl_next ?s = kl_next s" "kl_held ?s = kl_held s" "kl_mu ?s = None" "kl_phase ?s = (kl_phase s)(t := Idle)"
    "kl_refs ?s = (kl_refs s)(a := kl_refs s a - 1)"
    "kl_items ?s = (if kl_refs s a - 1 = 0 then (kl_items s)(k := None) else kl_items s)"
    by (simp_all add: release_key_def Let_def)
  have "{u. kl_phase ?s u \<noteq> Idle} \<subseteq> {u. kl_phase s u \<noteq> Idle}" by (auto simp: fields)
  then show "finite {u. kl_phase ?s u \<noteq> Idle}" using finite_busy[OF ok] by (auto intro: finite_subset)
  have owner: "kl_mu s = Some u \<longleftrightarrow> has_mu (kl_phase s u)" for u by (rule mu_iff[OF ok])
  have "kl_mu s = Some t" using owner[of t] t by simp
  then have "has_mu (kl_phase s u) \<longleftrightarrow> u = t" for u using owner[of u] by auto
  then show "kl_mu ?s = Some u \<longleftrightarrow> has_mu (kl_phase ?s u)" for u by (simp add: fields)
  have item: "kl_items s k = Some a" using ref_item[OF ok, of t k a] t by simp
  have same: "kl_items s k' = Some b \<Longrightarrow> b = a \<longleftrightarrow> k' = k" for k' b using item_inj[OF ok] item by auto
  have users: "users ?s k' b = users s k' b - {t}" for k' b by (auto simp: users_def fields)
  have "t \<in> users s k a" using t by (simp add: users_def)
  then have count: "card (users ?s k a) = kl_refs s a - 1"
    using item_count[OF ok item] finite_users[OF ok] by (simp add: users)
  have others: "users ?s k' b = users s k' b" if "k' \<noteq> k" for k' b using t that by (auto simp: users_def fields)
  show "kl_items ?s k' = Some b" if ref: "phase_ref (kl_phase ?s u) = Some (k', b)" for u k' b
  proof -
    have u: "u \<noteq> t" using ref by (auto simp: fields)
    then have old: "kl_items s k' = Some b" using ref ref_item[OF ok, of u k' b] by (simp add: fields)
    have "kl_refs s a - 1 \<noteq> 0" if "k' = k"
    proof -
      have "u \<in> users ?s k a" using ref that old item by (auto simp: users_def)
      then show ?thesis using count finite_users[OF ok, of k a] by (auto simp: users)
    qed
    then show ?thesis using old by (auto simp: fields)
  qed
  show "b < kl_next ?s \<and> 0 < kl_refs ?s b \<and> kl_refs ?s b = card (users ?s k' b)" if it: "kl_items ?s k' = Some b" for k' b
  proof -
    have old: "kl_items s k' = Some b" and keep: "k' = k \<Longrightarrow> kl_refs s a - 1 \<noteq> 0" using it by (auto simp: fields split: if_splits)
    show ?thesis
      using item_address[OF ok old] item_count[OF ok old] same[OF old] others[of k' b] keep count by (cases "k' = k") (auto simp: fields)
  qed
  show "k' = k''" if "kl_items ?s k' = Some b" "kl_items ?s k'' = Some b" for k' k'' b
    using that item_inj[OF ok, of k' b k''] by (auto simp: fields split: if_splits)
  show "kl_held ?s b = Some u \<longleftrightarrow> (\<exists>k'. kl_phase ?s u = Inside k' b)" for b u
    using held_iff[OF ok, of b u] t by (auto simp: fields)
qed

lemma lock_ok_step:
  assumes ok: "lock_ok s" and "lock_step t s s'"
  shows "lock_ok s'"
proof -
  have mu: "kl_mu s = Some u \<longleftrightarrow> has_mu (kl_phase s u)" and held: "kl_held s a = Some u \<longleftrightarrow> (\<exists>k. kl_phase s u = Inside k a)" for u a
    by (rule mu_iff[OF ok] held_iff[OF ok])+
  show ?thesis using assms(2)
  proof cases
    case (enter k)
    then show ?thesis using mu held by (intro lock_ok_phase[OF ok, where t = t and p = "Entering k"]) auto
  next
    case (acquire k a)
    then have "kl_phase s u \<noteq> Inside k' a" for u k' using held[of a u] by auto
    with acquire show ?thesis using mu held by (intro lock_ok_phase[OF ok, where t = t and p = "Inside k a"]) auto
  next
    case (unlock k a)
    then have only: "u \<noteq> t \<Longrightarrow> kl_phase s u \<noteq> Inside k' a" for u k' using held[of a u] held[of a t] by auto
    have new: "kl_held s' b = Some u \<longleftrightarrow> (\<exists>k'. kl_phase s' u = Inside k' b)" for b u
      using unlock held[of b u] only[of u] by (cases "u = t"; cases "b = a") simp_all
    have "kl_mu s' = Some u \<longleftrightarrow> has_mu (kl_phase s' u)" for u using unlock mu[of u] by simp
    then show ?thesis by (intro lock_ok_phase[OF ok, where t = t and p = "Leaving k a", OF _ _ _ _ _ _ new]) (simp_all add: unlock)
  next
    case (reenter k a)
    then show ?thesis using mu held by (intro lock_ok_phase[OF ok, where t = t and p = "Releasing k a"]) auto
  qed (simp_all add: lock_ok_register[OF ok] lock_ok_release[OF ok])
qed

lemma lock_reachable_ok: "lock_reachable s \<Longrightarrow> lock_ok s"
proof (induction rule: lock_reachable.induct)
  case (call s t k)
  then show ?case using mu_iff[OF call(3)] held_iff[OF call(3)]
    by (intro lock_ok_phase[OF call(3), where t = t and p = "Wanting k"]) (auto simp: call_lock_def)
qed (auto intro: lock_ok_start lock_ok_step)

text \<open>C38: At most one goroutine is inside the section of a key, under every interleaving; and the map holds exactly
  the keys some goroutine waits for, holds or is about to release, so that nothing is left in it when all are done.\<close>

theorem keyed_lock_exclusive:
  assumes "lock_reachable s"
  shows "(kl_phase s t = Inside k a \<longrightarrow> kl_phase s u = Inside k b \<longrightarrow> t = u)
    \<and> (k \<in> dom (kl_items s) \<longleftrightarrow> (\<exists>t a. phase_ref (kl_phase s t) = Some (k, a)))"
proof (intro conjI impI)
  have ok: "lock_ok s" using assms by (rule lock_reachable_ok)
  show "t = u" if "kl_phase s t = Inside k a" "kl_phase s u = Inside k b"
  proof -
    have "kl_items s k = Some a" "kl_items s k = Some b" using ref_item[OF ok, of t k a] ref_item[OF ok, of u k b] that by simp_all
    moreover have "kl_held s a = Some t" "kl_held s b = Some u" using held_iff[OF ok, of a t] held_iff[OF ok, of b u] that by simp_all
    ultimately show ?thesis by simp
  qed
  show "k \<in> dom (kl_items s) \<longleftrightarrow> (\<exists>t a. phase_ref (kl_phase s t) = Some (k, a))"
  proof
    assume "k \<in> dom (kl_items s)"
    then obtain a where "kl_items s k = Some a" by blast
    then have "0 < card (users s k a)" using item_count[OF ok] by metis
    then have "users s k a \<noteq> {}" by (metis card.empty less_irrefl)
    then show "\<exists>t a. phase_ref (kl_phase s t) = Some (k, a)" by (auto simp: users_def)
  next
    assume "\<exists>t a. phase_ref (kl_phase s t) = Some (k, a)"
    then show "k \<in> dom (kl_items s)" using ref_item[OF ok] by blast
  qed
qed

section \<open>Progress\<close>

text \<open>The steps a goroutine still has to take.\<close>

fun steps_left :: "lock_phase \<Rightarrow> nat" where
  "steps_left Idle = 0"
| "steps_left (Wanting k) = 6"
| "steps_left (Entering k) = 5"
| "steps_left (Waiting k a) = 4"
| "steps_left (Inside k a) = 3"
| "steps_left (Leaving k a) = 2"
| "steps_left (Releasing k a) = 1"

definition lock_work :: "lock_state \<Rightarrow> nat" where
  "lock_work s = (\<Sum>t | kl_phase s t \<noteq> Idle. steps_left (kl_phase s t))"

lemma steps_left_zero [simp]: "steps_left p = 0 \<longleftrightarrow> p = Idle"
  by (cases p) simp_all

lemma step_changes_phase: "lock_step t s s' \<Longrightarrow> \<exists>p. kl_phase s' = (kl_phase s)(t := p) \<and> steps_left (kl_phase s t) = Suc (steps_left p)"
  by (induction rule: lock_step.induct) (auto simp: register_key_def release_key_def Let_def split: option.split)

lemma lock_work_step:
  assumes "lock_ok s" "lock_step t s s'"
  shows "lock_work s = Suc (lock_work s')"
proof -
  obtain p where p: "kl_phase s' = (kl_phase s)(t := p)" "steps_left (kl_phase s t) = Suc (steps_left p)"
    using step_changes_phase[OF assms(2)] by blast
  let ?A = "{u. kl_phase s u \<noteq> Idle}"
  have fin: "finite ?A" and t: "t \<in> ?A" using finite_busy[OF assms(1)] p(2) by auto
  have "lock_work s' = (\<Sum>u \<in> ?A. steps_left (kl_phase s' u))"
    unfolding lock_work_def using fin t p(1) by (intro sum.mono_neutral_left) auto
  also have "\<dots> = steps_left p + (\<Sum>u \<in> ?A - {t}. steps_left (kl_phase s u))"
    using fin t p(1) by (simp add: sum.remove)
  finally show ?thesis unfolding lock_work_def using fin t p(2) by (simp add: sum.remove[of ?A t])
qed

lemma lock_progress:
  assumes ok: "lock_ok s" and busy: "kl_phase s t \<noteq> Idle"
  shows "\<exists>u s'. lock_step u s s'"
proof (cases "kl_mu s")
  case (Some u)
  then have "has_mu (kl_phase s u)" using mu_iff[OF ok] by simp
  then show ?thesis by (cases "kl_phase s u") (auto intro: lock_step.intros)
next
  case None
  show ?thesis
  proof (cases "kl_phase s t")
    case (Waiting k a)
    show ?thesis
    proof (cases "kl_held s a")
      case (Some u)
      then obtain k' where "kl_phase s u = Inside k' a" using held_iff[OF ok] by blast
      then show ?thesis by (blast intro: lock_step.unlock)
    qed (use Waiting in \<open>blast intro: lock_step.acquire\<close>)
  qed (use None busy in \<open>blast intro: lock_step.intros\<close>)+
qed

text \<open>C39: As long as a goroutine is not idle, some goroutine can take a step, and every step reduces the number of
  steps that are left: without new calls all get and give back their locks, and the map is empty at the end.\<close>

theorem keyed_lock_no_deadlock:
  assumes "lock_reachable s"
  shows "(\<forall>t. kl_phase s t \<noteq> Idle \<longrightarrow> (\<exists>u s'. lock_step u s s')) \<and> (\<forall>u s'. lock_step u s s' \<longrightarrow> lock_work s = Suc (lock_work s'))
    \<and> (lock_work s = 0 \<longrightarrow> kl_items s = Map.empty)"
proof -
  have ok: "lock_ok s" using assms by (rule lock_reachable_ok)
  have "kl_items s = Map.empty" if "lock_work s = 0"
  proof (rule ccontr)
    assume "kl_items s \<noteq> Map.empty"
    then obtain k a where "kl_items s k = Some a" by (metis not_None_eq ext)
    then have "0 < card (users s k a)" using item_count[OF ok] by metis
    then have "users s k a \<noteq> {}" by (metis card.empty less_irrefl)
    then obtain t where "phase_ref (kl_phase s t) = Some (k, a)" by (auto simp: users_def)
    then have "kl_phase s t \<noteq> Idle" by auto
    moreover note finite_busy[OF ok]
    ultimately show False using that by (auto simp: lock_work_def)
  qed
  then show ?thesis using lock_progress[OF ok] lock_work_step[OF ok] by blast
qed

text \<open>Two goroutines ask for the same key.\<close>

lemma two_callers: "lock_reachable (call_lock 1 ''k'' (call_lock 0 ''k'' new_keyed_locker))"
  by (intro lock_reachable.call lock_reachable.start) (simp_all add: call_lock_def new_keyed_locker_def)

theorem keyed_lock_exclusive_witness: "dom (kl_items (call_lock 1 ''k'' (call_lock 0 ''k'' new_keyed_locker))) = {}"
  using keyed_lock_exclusive[OF two_callers] by (auto simp: call_lock_def new_keyed_locker_def split: if_splits)

theorem keyed_lock_no_deadlock_witness: "\<exists>u s'. lock_step u (call_lock 1 ''k'' (call_lock 0 ''k'' new_keyed_locker)) s'"
proof -
  have "kl_phase (call_lock 1 ''k'' (call_lock 0 ''k'' new_keyed_locker)) 1 \<noteq> Idle" by (simp add: call_lock_def)
  then show ?thesis using keyed_lock_no_deadlock[OF two_callers] by blast
qed

end
