(* ===== verification/Spec2Isabelle.thy ===== *)
theory Spec2Isabelle
  imports Auth Orders_Contract Worker_Pool Orders_Adapters Coupons_Catalog Coupons_Concurrency Shipping_Listing Membership_Consent Sync_Safety Products_Roundtrip Products_Navigation Exports_Complete Assets_Tree Keyed_Lock
begin

text \<open>
  \<^bold>\<open>Mannaiah: a model of the back end's core modules.\<close>

  Mannaiah is a modular monolith written in Go (\<^verbatim>\<open>module/*\<close>). Every module has the same layers: a
  \<^verbatim>\<open>domain\<close> with aggregates, normalization and validation; an \<^verbatim>\<open>application\<close> service with the use
  cases; \<^verbatim>\<open>port\<close> interfaces; \<^verbatim>\<open>adapter\<close>s that implement the ports on MySQL tables, HTTP or other
  modules; a \<^verbatim>\<open>runtime\<close> that wires them. The development follows these layers.

  \<^bold>\<open>Shared theories.\<close>
  \<^item> \<open>Go_Prelude\<close>: error values and wrapping, operations as functions from a state to a result and a
    new state, the rules for invariants of such operations, list lemmas.
  \<^item> \<open>Go_Assertions\<close>: assertions about operations over a part of their state (\<open>leads\<close>, \<open>quiet\<close>, \<open>through\<close>), with
    a rule for every way operations are composed.
  \<^item> \<open>Go_Strings\<close>: the functions of \<^verbatim>\<open>strings\<close> and \<^verbatim>\<open>strconv\<close> the modules use. A Go string is the list of
    its UTF-8 bytes.
  \<^item> \<open>Sql_Columns\<close>: what a column keeps of a value (\<^verbatim>\<open>DATETIME(3)\<close>, \<^verbatim>\<open>TIMESTAMP\<close>, \<^verbatim>\<open>DECIMAL(18,4)\<close>), and the order of a
    query by a key, in which the server places rows with equal keys by a rank nothing is known about.

  \<^bold>\<open>Module auth\<close> (theory \<open>Auth\<close>). Claims and scopes, permission rules, the authentication and
  authorization use cases of \<^verbatim>\<open>application/service.go\<close>, claim mapping of \<^verbatim>\<open>adapter/jwt/verifier.go\<close>, the
  endpoints of \<^verbatim>\<open>adapter/http/handler.go\<close>. The lemmas show that the permission check decides an
  inductive relation \<open>grants\<close>, when the development bypass applies, and that the malformation report
  is complete.

  \<^bold>\<open>Module orders.\<close>
  \<^item> \<open>Orders_Domain\<close>: the aggregate of \<^verbatim>\<open>domain/order.go\<close>; normalization is idempotent and validation
    decides \<open>order_ok\<close>.
  \<^item> \<open>Orders_Store\<close>: \<^verbatim>\<open>adapter/store\<close>. The state \<open>order_db\<close> holds the eight tables, the counters of the
    generated keys, the clock, the stream of generated identifiers and the driver's behaviour.
  \<^item> \<open>Orders_Repository\<close>: the table invariant \<open>db_ok\<close> and its preservation, what a read returns
    (\<open>order_view\<close>), the effect of appending a status, frame properties of every write.
  \<^item> \<open>Orders_Roundtrip\<close>: referential integrity, what a creation stores, duplicates.
  \<^item> \<open>Orders_Validity\<close>: the writes keep rows whose orders pass the domain validation.
  \<^item> \<open>Orders_Events\<close>: the integration events of \<^verbatim>\<open>application/event\<close>.
  \<^item> \<open>Orders_Service\<close>: the use cases of \<^verbatim>\<open>application\<close> over a record \<open>order_ports\<close> of the operations
    the service calls (repository, customers, products, publisher, clock).
  \<^item> \<open>Orders_Adapters\<close>: customers and products as \<^verbatim>\<open>adapter/contacts\<close> and \<^verbatim>\<open>adapter/products\<close> provide them.
  \<^item> \<open>Orders_Contract\<close>: the promises the service relies on as the locales \<open>valid_ports\<close> and
    \<open>reading_ports\<close>, the lemmas about the service under these promises, and their interpretation on
    the repository model (\<open>shop_ports\<close> over \<open>order_shop\<close>).
  \<^item> \<open>Worker_Pool\<close>: the goroutines of \<^verbatim>\<open>resolveItems\<close> as a step relation over sender, channels and
    workers; invariants, progress, termination. Every run that succeeds returns what the sequential loop returns, a run
    fails exactly when the loop does, and its error is then that of some failing item, not always the first.

  \<^bold>\<open>Module coupons.\<close>
  \<^item> \<open>Coupons_Domain\<close>, \<open>Coupons_Store\<close>, \<open>Coupons_Service\<close>: the aggregate and its codes (\<^verbatim>\<open>domain/coupon.go\<close>), the
    tables and repositories (\<^verbatim>\<open>adapter/store\<close>), the use cases over the interfaces (\<^verbatim>\<open>application/coupon\<close>).
  \<^item> \<open>Coupons_Ledger\<close>: the contract between service and repositories as the locales \<open>usage_ledger\<close> and
    \<open>working_ledger\<close>; under it recording a usage follows the abstract \<open>usage_verdict\<close>.
  \<^item> \<open>Coupons_Shop\<close>: the assembled module, on which the contract is interpreted.
  \<^item> \<open>Coupons_Usage\<close>, \<open>Coupons_Catalog\<close>: the locales \<open>coupon_keeper\<close> and \<open>full_coupon_keeper\<close> (predicates all ports
    keep are kept by all use cases), interpreted for the usage limits and for the validity of coupons;
    verdicts, which do not look at the persons a coupon is assigned to; the bound on usages along all calls, to which
    every synchronisation may add one and every change of the limit counts from the larger limit; creation and reading
    back up to what the columns keep, generated codes.
  \<^item> \<open>Coupons_Concurrency\<close>: interleaved redemptions as a step relation, and by how much they pass a limit.

  \<^bold>\<open>Module shipping.\<close>
  \<^item> \<open>Shipping_Domain\<close> (\<^verbatim>\<open>domain\<close>) and \<open>Shipping_Store\<close> (\<^verbatim>\<open>adapter/store\<close>): values, rows and repositories. The state
    \<open>shipping_db\<close> holds the tables of marks, units, batches and quotations, the clock and the failures.
  \<^item> \<open>Shipping_Marks\<close>, \<open>Shipping_Dispatch\<close>, \<open>Shipping_Quotes\<close>: the services of \<^verbatim>\<open>application/mark\<close>,
    \<^verbatim>\<open>application/dispatch\<close> and \<^verbatim>\<open>application/quotation\<close> over records of the operations they call.
  \<^item> \<open>Shipping_Tcc\<close>: the carriers of \<^verbatim>\<open>adapter/carrier\<close>; \<open>Shipping_Tracking\<close>: tracking histories, their cache and
    the paginated list (\<^verbatim>\<open>application/tracking\<close>).
  \<^item> \<open>Shipping_Normal\<close>: what normalization of marks guarantees. \<open>Shipping_Packing\<close>: the boxes of an order, for every
    sorting function that satisfies the locale \<open>slice_sort\<close>, interpreted on a stable sort.
  \<^item> \<open>Shipping_Steps\<close>, \<open>Shipping_History\<close>: the tables as a state machine \<open>ship_step\<close>, its invariants, and the
    abstract machine on mark statuses (\<open>status_step\<close>) it refines.
  \<^item> \<open>Shipping_World\<close>, \<open>Shipping_Safety\<close>: the locale \<open>shipping_world\<close>, under which every operation of the services
    is a run of that machine. \<open>Shipping_Module\<close>: the assembled module \<open>shop_ports\<close>, the interpretation of the
    locale on it, and sequences of calls (\<open>run_calls\<close>).
  \<^item> \<open>Shipping_Requests\<close>: the locales \<open>kept_carriers\<close> and \<open>kept_ports\<close>, interpreted for the log of requests that reach
    TCC, and what the guardrails refuse. \<open>Shipping_Closing\<close>: the close of a batch on a database that works.
  \<^item> \<open>Shipping_Properties\<close>, \<open>Shipping_Selection\<close>, \<open>Shipping_Listing\<close>: the properties of the tables along sequences of
    calls, of the two selections (existing mark, stored quotation), and of the tracking list: every page holds its part
    of the marks newest first, with any order among marks of the same second on every page anew.

  \<^bold>\<open>Module membership.\<close> \<open>Membership\<close>: consent stamps, the effective status of a contact on a channel, the repository
  and the service. \<open>Membership_Consent\<close>: after stamps that arrive in any order the latest stamp of a contact on a channel
  is the entry of an abstract log, with its action, its source and its time to the millisecond, as long as two stamps
  never fall on the same millisecond; and which calls announce a change.

  \<^bold>\<open>Module syncrecord.\<close> \<open>Sync_Runs\<close>: the registry of synchronisation runs with its rows, error rows, statistics and
  retention. \<open>Sync_Safety\<close>: the whole row of a finished run stays as it
  is until the retention deletes it, and what finishing stores.

  \<^bold>\<open>Module products.\<close>
  \<^item> \<open>Products_Domain\<close> (\<^verbatim>\<open>domain\<close>): products, variations, tags, categories. \<open>Products_Store\<close>, \<open>Products_Repository\<close>,
    \<open>Products_Categories\<close> (\<^verbatim>\<open>adapter/store\<close>): the state \<open>products_db\<close> holds eighteen tables; a relation between an owner and
    a list of values is a table of \<open>link\<close> rows.
  \<^item> \<open>Products_Services\<close>: the use cases of \<^verbatim>\<open>application\<close> over the world \<open>catalog_world\<close>.
  \<^item> \<open>Products_Safety\<close>, \<open>Products_Calls\<close>: the invariant \<open>catalog_ok\<close>, kept by every repository operation and by every
    sequence of calls. \<open>Products_Tree\<close>: when the loop over descendants ends, and what it collects.
  \<^item> \<open>Products_Roundtrip\<close>: a created product reads back. \<open>Products_Storefront\<close>, \<open>Products_Navigation\<close>: the navigation of
    the storefront (\<^verbatim>\<open>application/storefront\<close>), whose construction always returns.

  \<^bold>\<open>Module contacts.\<close> \<open>Contacts_Domain\<close>, \<open>Contacts_Store\<close>, \<open>Contacts_Service\<close>: the aggregate, the tables and repository, the
  use cases with their events. \<open>Contacts_Safety\<close>: the invariant \<open>contacts_ok\<close> of the tables. \<open>Contacts_Calls\<close>: the invariant
  along calls, creating and reading back, the pages of a listing, with any order among equal values on
  every page anew.

  \<^bold>\<open>Module exports.\<close> \<open>Exports_Csv\<close>: the files as \<^verbatim>\<open>encoding/csv\<close> writes them. \<open>Exports_Sources\<close>: the
  rows and the adapters that collect them from contacts and orders. \<open>Exports_Reports\<close>: the registry, the storage and the
  service. \<open>Exports_Complete\<close>: an export over the contacts module has a row for every live
  contact, once unless two were created in the same millisecond.

  \<^bold>\<open>Module assets.\<close>
  \<^item> \<open>Assets_Domain\<close>, \<open>Assets_Store\<close>, \<open>Assets_Folders\<close>: assets, folders and tags; the tables \<open>assets_db\<close> and the repository, with
    the walk to the ancestors of a folder and the collection of its subtree. \<open>Assets_Service\<close>: the use cases over the tables, the
    storage of objects and the transport, the JPG worker, the tree of folders.
  \<^item> \<open>Assets_Forest\<close>, \<open>Assets_Safety\<close>, \<open>Assets_Calls\<close>: the live folders are a forest, and every operation and every sequence of
    calls keeps the invariant \<open>assets_ok\<close>. \<open>Assets_Tree\<close>: the tree holds every folder once; a rename that makes it fail.
  \<^item> \<open>Keyed_Lock\<close>: the lock per key of \<^verbatim>\<open>service_lock.go\<close> as a step relation over any number of callers; exclusion and progress.

  \<^bold>\<open>Bounds and idealizations.\<close>
  \<^item> Letter case is mapped for ASCII letters; other bytes are left alone. White space is Go's, with
    the multi-byte spaces of UTF-8.
  \<^item> A \<^verbatim>\<open>float64\<close> is a rational number, a \<^verbatim>\<open>time.Time\<close> an integer number of nanoseconds.
  \<^item> The clock has one value during a repository call; services read it through a port.
  \<^item> A table is a list of rows in insertion order. Statements are atomic and transactions run one at a
    time; any statement may fail in the driver, and then its transaction rolls back.
  \<^item> Go maps are association lists in iteration order; statements hold for every such order.
  \<^item> Loops are structural recursions over lists, and the worker pool is a relation whose runs are shown
    to end by a measure. Two loops take a number of rounds: \<open>promote\<close> gets the number of items that are
    left, each round using at least one of them, and \<open>collect_marks\<close> gets a number the caller chooses, for
    which \<open>collect_marks_complete\<close> says what is enough. The loop over descendants and the recursion over the storefront
    tree may not end in the code: they are partial functions whose value \<open>None\<close> means that the call does not return.
    So is the loop over the pages of an export (\<open>collect_pages\<close>). The walks over asset folders end because every round
    visits a new identifier.
  \<^item> Calls to the object storage succeed or fail without effect; the conversion of images and the supply of identifiers are
    parameters.
  \<^item> The product tables draw all generated numeric keys from one supply, so that keys of one table are increasing and
    unique; slugs are compared as bytes after a Unicode decomposition that is a parameter.
  \<^item> Text comparison in SQL is exact and LIKE works on bytes; an UPDATE affects the rows it matches; units are loaded in
    insertion order.
  \<^item> The columns of coupons, of membership stamps and of contacts and the time stamps of marks and batches round as in
    their migrations; the other columns keep decimals and times as they are.
  \<^item> The listings of marks, of batches and of contacts place rows with equal keys by a rank that is part of the state and
    that statements leave arbitrary, and that may be another one on every page. The other queries keep insertion order
    among equal keys.
  \<^item> JSON, base64, the removal of accents, date layouts, hashes, the HTTP client of TCC and the other modules'
    lookups are fields of the port records, hence arbitrary functions in every statement.
  \<^item> The goroutines that track the rows of a list write disjoint slots; the model runs them in order.

  \<^bold>\<open>Not modelled.\<close> HTTP decoding, OpenAPI texts, wiring, search indices and the search over coupons (its SQL
  joins the contacts table), PDF documents, telemetry, and the modules listed as such in the manifest.
\<close>

end
